(* ===== verification/Float64.thy ===== *)
theory Float64
  imports Complex_Main
begin

text \<open>
  Go's \<open>float64\<close>: IEEE 754 binary64 with round-to-nearest-even, NaN, the infinities and the
  signed zeros.  A finite non-zero value carries the rational number it denotes; every
  operation rounds its exact result once, so the model computes the value the code computes
  where the compiler does not fuse multiply and add (the amd64 default).  The rounding
  function \<open>rq\<close> is proved monotone, odd and exact on representable numbers, which is what
  the range theorems of the components rest on.
\<close>

section \<open>Powers of two and binary length\<close>

fun bitlen :: "nat \<Rightarrow> nat" where
  "bitlen n = (if n = 0 then 0 else Suc (bitlen (n div 2)))"

declare bitlen.simps [simp del]

lemma bitlen_0 [simp]: "bitlen 0 = 0"
  by (simp add: bitlen.simps)

lemma bitlen_1 [simp]: "bitlen (Suc 0) = Suc 0"
  by (simp add: bitlen.simps)

lemma bitlen_numeral [simp]:
  "bitlen 1 = 1"
  "bitlen (numeral Num.One) = 1"
  "bitlen (numeral (Num.Bit0 k)) = Suc (bitlen (numeral k))"
  "bitlen (numeral (Num.Bit1 k)) = Suc (bitlen (numeral k))"
  by (simp_all add: bitlen.simps[of 1] bitlen.simps[of "numeral (Num.Bit0 k)"]
      bitlen.simps[of "numeral (Num.Bit1 k)"])

lemma bitlen_bounds: "0 < n \<Longrightarrow> 2 ^ (bitlen n - 1) \<le> n \<and> n < 2 ^ bitlen n"
proof (induction n rule: bitlen.induct)
  case (1 n)
  show ?case
  proof (cases "n div 2 = 0")
    case True
    with "1.prems" have "n = 1" by (simp add: div_eq_0_iff)
    then show ?thesis by simp
  next
    case False
    with "1.IH" "1.prems" have ih: "2 ^ (bitlen (n div 2) - 1) \<le> n div 2" "n div 2 < 2 ^ bitlen (n div 2)"
      by auto
    have b: "bitlen n = Suc (bitlen (n div 2))" using "1.prems" by (simp add: bitlen.simps[of n])
    have pos: "0 < bitlen (n div 2)" using False by (simp add: bitlen.simps[of "n div 2"])
    define p :: nat where "p = 2 ^ (bitlen (n div 2) - 1)"
    have "2 ^ bitlen (n div 2) = 2 * p" using pos by (cases "bitlen (n div 2)") (auto simp: p_def)
    with ih b have "2 ^ (bitlen n - 1) = 2 * p" "2 ^ bitlen n = 4 * p" "p \<le> n div 2" "n div 2 < 2 * p"
      by (auto simp: p_def)
    then show ?thesis by linarith
  qed
qed

lemma two_powi_pos [simp]: "0 < (2::'a::linordered_field) powi k"
  by (simp add: zero_less_power_int)

lemma two_powi_nz [simp]: "(2::'a::linordered_field) powi k \<noteq> 0"
  using two_powi_pos[of k] by (metis less_irrefl)

lemma two_powi_Suc: "(2::'a::linordered_field) powi (k + 1) = 2 * 2 powi k"
  by (simp add: power_int_add_1')

lemma two_powi_add: "(2::'a::linordered_field) powi (a + b) = 2 powi a * 2 powi b"
  by (simp add: power_int_add)

lemma two_powi_diff: "(2::'a::linordered_field) powi (a - b) = 2 powi a / 2 powi b"
  by (simp add: power_int_diff)

lemma two_powi_le_iff: "(2::'a::linordered_field) powi a \<le> 2 powi b \<longleftrightarrow> a \<le> b"
  using power_int_increasing[of a b "2::'a"] power_int_strict_increasing[of b a "2::'a"]
  by (meson linorder_not_le one_le_numeral one_less_numeral_iff semiring_norm(76))

lemma two_powi_less_iff: "(2::'a::linordered_field) powi a < 2 powi b \<longleftrightarrow> a < b"
  by (metis two_powi_le_iff linorder_not_le)

section \<open>Binary exponent\<close>

text \<open>\<open>expo x = e\<close> with \<open>2^e \<le> |x| < 2^(e+1)\<close>, computed from the integer part of \<open>|x|\<close> or \<open>1/|x|\<close>.\<close>

definition expo :: "'a::floor_ceiling \<Rightarrow> int" where
  "expo x = (if 1 \<le> \<bar>x\<bar> then int (bitlen (nat \<lfloor>\<bar>x\<bar>\<rfloor>)) - 1
             else - int (bitlen (nat (\<lceil>1 / \<bar>x\<bar>\<rceil> - 1))))"

lemma expo_ge1:
  assumes "1 \<le> \<bar>x::'a::floor_ceiling\<bar>"
  shows "2 powi expo x \<le> \<bar>x\<bar> \<and> \<bar>x\<bar> < 2 powi (expo x + 1)"
proof -
  define n where "n = nat \<lfloor>\<bar>x\<bar>\<rfloor>"
  have f: "1 \<le> \<lfloor>\<bar>x\<bar>\<rfloor>" using assms by (simp add: le_floor_iff)
  then have n0: "0 < n" and fl: "\<lfloor>\<bar>x\<bar>\<rfloor> = int n" by (auto simp: n_def)
  have bp: "0 < bitlen n" using n0 by (simp add: bitlen.simps[of n])
  then have e: "expo x = int (bitlen n - 1)"
    using assms by (simp add: expo_def n_def of_nat_diff)
  have b: "2 ^ (bitlen n - 1) \<le> n" "n < 2 ^ bitlen n" using bitlen_bounds[OF n0] by auto
  have "(2::'a) ^ (bitlen n - 1) = of_nat (2 ^ (bitlen n - 1))" by simp
  also have "\<dots> \<le> of_nat n" using b(1) by (simp only: of_nat_le_iff)
  also have "\<dots> = of_int \<lfloor>\<bar>x\<bar>\<rfloor>" by (simp add: fl)
  also have "\<dots> \<le> \<bar>x\<bar>" by simp
  finally have lo: "2 powi expo x \<le> \<bar>x\<bar>" by (simp add: e)
  have "\<bar>x\<bar> < of_int (\<lfloor>\<bar>x\<bar>\<rfloor> + 1)" using floor_correct[of "\<bar>x\<bar>"] by simp
  also have "\<dots> = (of_nat (Suc n) :: 'a)" by (simp add: fl)
  also have "\<dots> \<le> of_nat (2 ^ bitlen n)" using b(2) by (simp only: of_nat_le_iff Suc_le_eq)
  also have "\<dots> = (2::'a) powi (expo x + 1)"
    using bp by (simp add: e del: power_int_of_nat flip: power_int_of_nat)
  finally show ?thesis using lo by simp
qed

lemma expo_lt1:
  assumes "\<bar>x::'a::floor_ceiling\<bar> < 1" and "x \<noteq> 0"
  shows "2 powi expo x \<le> \<bar>x\<bar> \<and> \<bar>x\<bar> < 2 powi (expo x + 1)"
proof -
  define y where "y = 1 / \<bar>x\<bar>"
  have ax: "0 < \<bar>x\<bar>" using assms(2) by simp
  have y1: "1 < y" using assms ax by (simp add: y_def)
  define n where "n = nat (\<lceil>y\<rceil> - 1)"
  have c: "1 < \<lceil>y\<rceil>" using y1 by (simp add: less_ceiling_iff)
  then have n0: "0 < n" and cl: "\<lceil>y\<rceil> = int n + 1" by (auto simp: n_def)
  have e: "expo x = - int (bitlen n)" using assms by (simp add: expo_def n_def y_def)
  have bp: "0 < bitlen n" using n0 by (simp add: bitlen.simps[of n])
  have b: "2 ^ (bitlen n - 1) \<le> n" "n < 2 ^ bitlen n" using bitlen_bounds[OF n0] by auto
  have "y \<le> of_int \<lceil>y\<rceil>" by simp
  also have "\<dots> = of_nat (Suc n)" by (simp add: cl)
  also have "\<dots> \<le> (of_nat (2 ^ bitlen n) :: 'a)" using b(2) by (simp only: of_nat_le_iff Suc_le_eq)
  finally have yu: "y \<le> 2 ^ bitlen n" by simp
  have "(2::'a) ^ (bitlen n - 1) = of_nat (2 ^ (bitlen n - 1))" by simp
  also have "\<dots> \<le> of_nat n" using b(1) by (simp only: of_nat_le_iff)
  also have "\<dots> = of_int (\<lceil>y\<rceil> - 1)" by (simp add: cl)
  also have "\<dots> < y" using ceiling_correct[of y] by simp
  finally have yl: "2 ^ (bitlen n - 1) < y" .
  have xe: "\<bar>x\<bar> = 1 / y" using ax by (simp add: y_def)
  have "(2::'a) powi expo x = 1 / 2 ^ bitlen n" by (simp add: e power_int_minus_divide)
  also have "\<dots> \<le> 1 / y" using yu y1 by (simp add: frac_le)
  finally have lo: "2 powi expo x \<le> \<bar>x\<bar>" by (simp add: xe)
  have ee: "expo x + 1 = - int (bitlen n - 1)" using bp by (simp add: e)
  have "1 / y < 1 / 2 ^ (bitlen n - 1)" using yl by (simp add: frac_less2)
  also have "\<dots> = (2::'a) powi (expo x + 1)" by (simp only: ee power_int_minus_divide power_int_of_nat)
  finally show ?thesis using lo by (simp add: xe)
qed

lemma expo_bounds:
  "x \<noteq> 0 \<Longrightarrow> 2 powi expo x \<le> \<bar>x::'a::floor_ceiling\<bar> \<and> \<bar>x\<bar> < 2 powi (expo x + 1)"
  using expo_ge1[of x] expo_lt1[of x] by (meson not_le)

lemma expo_unique:
  assumes "2 powi e \<le> \<bar>x::'a::floor_ceiling\<bar>" and "\<bar>x\<bar> < 2 powi (e + 1)"
  shows "expo x = e"
proof -
  have "0 < \<bar>x\<bar>" using assms(1) two_powi_pos[of e] by (rule order_less_le_trans[rotated])
  then have b: "2 powi expo x \<le> \<bar>x\<bar>" "\<bar>x\<bar> < 2 powi (expo x + 1)" using expo_bounds[of x] by auto
  have "(2::'a) powi expo x < 2 powi (e + 1)" using b(1) assms(2) by simp
  then have "expo x < e + 1" by (simp only: two_powi_less_iff)
  moreover have "(2::'a) powi e < 2 powi (expo x + 1)" using b(2) assms(1) by simp
  then have "e < expo x + 1" by (simp only: two_powi_less_iff)
  ultimately show ?thesis by simp
qed

lemma expo_mono:
  assumes "x \<noteq> 0" and "\<bar>x::'a::floor_ceiling\<bar> \<le> \<bar>y\<bar>"
  shows "expo x \<le> expo y"
proof -
  have "y \<noteq> 0" using assms by auto
  then have "(2::'a) powi expo x < 2 powi (expo y + 1)"
    using expo_bounds[OF assms(1)] expo_bounds[of y] assms(2) by (meson le_less_trans order_trans)
  then show ?thesis by (simp only: two_powi_less_iff)
qed

lemma expo_minus [simp]: "expo (- x) = expo (x::'a::floor_ceiling)"
  by (simp add: expo_def)


section \<open>Round half to even\<close>

definition rhe :: "'a::floor_ceiling \<Rightarrow> int" where
  "rhe x = (let f = \<lfloor>x\<rfloor>; d = x - of_int f
            in if d < 1 / 2 then f else if 1 / 2 < d then f + 1 else if even f then f else f + 1)"

lemma rhe_cases:
  "rhe x = \<lfloor>x\<rfloor> \<and> x - of_int \<lfloor>x\<rfloor> \<le> 1 / 2 \<or> rhe x = \<lfloor>x\<rfloor> + 1 \<and> 1 / 2 \<le> x - of_int \<lfloor>x\<rfloor>"
  by (auto simp: rhe_def Let_def)

lemma rhe_of_int [simp]: "rhe (of_int n :: 'a::floor_ceiling) = n"
  by (simp add: rhe_def)

lemma rhe_0 [simp]: "rhe (0 :: 'a::floor_ceiling) = 0"
  using rhe_of_int[of 0, where 'a = 'a] by simp

lemma rhe_error: "\<bar>of_int (rhe x) - (x::'a::floor_ceiling)\<bar> \<le> 1 / 2"
proof -
  have "of_int \<lfloor>x\<rfloor> \<le> x" "x < of_int \<lfloor>x\<rfloor> + 1" using floor_correct[of x] by auto
  then show ?thesis using rhe_cases[of x] by (auto simp: abs_le_iff)
qed

lemma rhe_mono:
  assumes "(x::'a::floor_ceiling) \<le> y"
  shows "rhe x \<le> rhe y"
proof (cases "\<lfloor>x\<rfloor> = \<lfloor>y\<rfloor>")
  case True
  then show ?thesis using assms by (auto simp: rhe_def Let_def)
next
  case False
  then have "\<lfloor>x\<rfloor> + 1 \<le> \<lfloor>y\<rfloor>" using floor_mono[OF assms] by simp
  then show ?thesis using rhe_cases[of x] rhe_cases[of y] by auto
qed

lemma rhe_ge_int: "of_int n \<le> (x::'a::floor_ceiling) \<Longrightarrow> n \<le> rhe x"
  using rhe_mono[of "of_int n" x] by simp

lemma rhe_le_int: "(x::'a::floor_ceiling) \<le> of_int n \<Longrightarrow> rhe x \<le> n"
  using rhe_mono[of x "of_int n"] by simp

lemma rhe_unique_less:
  assumes "\<bar>x - of_int n\<bar> < (1 / 2 :: 'a::floor_ceiling)"
  shows "rhe x = n"
proof -
  have b: "x < of_int n + 1 / 2" "of_int n - 1 / 2 < x" using assms unfolding abs_less_iff by linarith+
  show ?thesis
  proof (cases "of_int n \<le> x")
    case True
    with b have "x < of_int n + 1" by simp
    with True have "\<lfloor>x\<rfloor> = n" by (rule floor_unique)
    with b show ?thesis by (simp add: rhe_def)
  next
    case False
    have "\<lfloor>x\<rfloor> = n - 1" by (rule floor_unique) (use False b in auto)
    with b show ?thesis by (simp add: rhe_def)
  qed
qed

lemma rhe_half: "rhe (of_int n + 1 / 2 :: 'a::floor_ceiling) = (if even n then n else n + 1)"
proof -
  have "\<lfloor>of_int n + 1 / 2 :: 'a\<rfloor> = n" by (rule floor_unique) auto
  then show ?thesis by (simp add: rhe_def)
qed

lemma rhe_minus: "rhe (- x) = - rhe (x::'a::floor_ceiling)"
proof (cases "x - of_int \<lfloor>x\<rfloor> = 1 / 2")
  case True
  then have "x = of_int \<lfloor>x\<rfloor> + 1 / 2" by simp
  then obtain f where x: "x = of_int f + 1 / 2" by blast
  have "- x = of_int (- f - 1) + 1 / 2" by (simp add: x)
  then have "rhe (- x) = (if even (- f - 1) then - f - 1 else - f)" using rhe_half[of "- f - 1", where 'a = 'a] by simp
  also have "\<dots> = - rhe x" by (simp add: x rhe_half)
  finally show ?thesis .
next
  case False
  have "of_int \<lfloor>x\<rfloor> \<le> x" "x < of_int \<lfloor>x\<rfloor> + 1" using floor_correct[of x] by auto
  then have "\<bar>x - of_int (rhe x)\<bar> < 1 / 2"
    using rhe_cases[of x] False by (auto simp: abs_less_iff)
  moreover have "- x - of_int (- rhe x) = - (x - of_int (rhe x))" by simp
  ultimately have "\<bar>- x - of_int (- rhe x)\<bar> < 1 / 2" by (simp only: abs_minus_cancel)
  then show ?thesis by (rule rhe_unique_less)
qed

section \<open>Rounding to binary64\<close>

text \<open>The exponent of the last place: 53 significant bits, down to the subnormal spacing \<open>2^-1074\<close>.\<close>

definition ulpe :: "'a::floor_ceiling \<Rightarrow> int" where
  "ulpe x = max (expo x - 52) (- 1074)"

definition rq :: "'a::floor_ceiling \<Rightarrow> rat" where
  "rq x = of_int (rhe (x / 2 powi ulpe x)) * 2 powi ulpe x"

lemma ulpe_minus [simp]: "ulpe (- x) = ulpe (x::'a::floor_ceiling)"
  by (simp add: ulpe_def)

lemma rq_0 [simp]: "rq (0::'a::floor_ceiling) = 0"
  by (simp add: rq_def)

lemma rq_minus: "rq (- x) = - rq (x::'a::floor_ceiling)"
  by (simp add: rq_def rhe_minus)

lemma rq_nonneg: "0 \<le> (x::'a::floor_ceiling) \<Longrightarrow> 0 \<le> rq x"
  unfolding rq_def by (rule mult_nonneg_nonneg) (simp_all add: rhe_ge_int[of 0] less_imp_le)

lemma rq_nonpos: "(x::'a::floor_ceiling) \<le> 0 \<Longrightarrow> rq x \<le> 0"
  using rq_nonneg[of "- x"] by (simp add: rq_minus)

lemma rq_exact:
  assumes m: "\<bar>m\<bar> < 2 ^ 53" and u: "- 1074 \<le> u"
  shows "rq (of_int m * 2 powi u :: 'a::floor_ceiling) = of_int m * 2 powi u"
proof (cases "m = 0")
  case True
  then show ?thesis by simp
next
  case False
  let ?x = "of_int m * 2 powi u :: 'a"
  have x0: "?x \<noteq> 0" using False by simp
  have "\<bar>?x\<bar> = of_int \<bar>m\<bar> * 2 powi u" by (simp add: abs_mult)
  also have "\<dots> < of_int (2 ^ 53) * 2 powi u"
    by (rule mult_strict_right_mono) (simp_all only: of_int_less_iff m two_powi_pos)
  also have "\<dots> = 2 powi (53 + u)" by (simp add: two_powi_add)
  finally have "(2::'a) powi expo ?x < 2 powi (53 + u)"
    using expo_bounds[OF x0] by (meson le_less_trans)
  then have "expo ?x < 53 + u" by (simp only: two_powi_less_iff)
  then have le: "ulpe ?x \<le> u" using u by (simp add: ulpe_def)
  define k where "k = nat (u - ulpe ?x)"
  have uk: "u = int k + ulpe ?x" using le by (simp add: k_def)
  have "?x / 2 powi ulpe ?x = of_int m * (2 powi u / 2 powi ulpe ?x)" by simp
  also have "\<dots> = of_int m * 2 powi (u - ulpe ?x)" by (simp only: two_powi_diff)
  also have "u - ulpe ?x = int k" using uk by simp
  also have "of_int m * (2::'a) powi int k = of_int (m * 2 ^ k)" by simp
  finally have "rhe (?x / 2 powi ulpe ?x) = m * 2 ^ k" by (simp only: rhe_of_int)
  then have "rq ?x = of_int m * (2 powi int k * 2 powi ulpe ?x)" by (simp add: rq_def)
  also have "\<dots> = of_int m * 2 powi u" by (subst (2) uk) (simp only: two_powi_add)
  finally show ?thesis .
qed

lemma rq_of_int: "\<bar>n\<bar> < 2 ^ 53 \<Longrightarrow> rq (of_int n :: 'a::floor_ceiling) = of_int n"
  using rq_exact[of n 0, where 'a = 'a] by simp

lemma rq_of_nat: "n < 2 ^ 53 \<Longrightarrow> rq (of_nat n :: 'a::floor_ceiling) = of_nat n"
  using rq_of_int[of "int n", where 'a = 'a] by simp

lemma rq_powi: "- 1074 \<le> k \<Longrightarrow> rq (2 powi k :: 'a::floor_ceiling) = 2 powi k"
  using rq_exact[of 1 k, where 'a = 'a] by simp

lemma rq_1 [simp]: "rq (1::'a::floor_ceiling) = 1"
  using rq_of_int[of 1, where 'a = 'a] by simp

lemma rq_le_top:
  assumes "(0::'a::floor_ceiling) < x"
  shows "rq x \<le> 2 powi (ulpe x + 53)"
proof -
  have "x < 2 powi (expo x + 1)" using expo_bounds[of x] assms by auto
  also have "\<dots> \<le> 2 powi (ulpe x + 53)" by (simp only: two_powi_le_iff) (simp add: ulpe_def)
  also have "\<dots> = 2 ^ 53 * 2 powi ulpe x" by (simp add: two_powi_add)
  finally have "x / 2 powi ulpe x \<le> of_int (2 ^ 53)" by (simp add: pos_divide_le_eq)
  then have "rhe (x / 2 powi ulpe x) \<le> 2 ^ 53" by (rule rhe_le_int)
  then have "of_int (rhe (x / 2 powi ulpe x)) \<le> (of_int (2 ^ 53) :: rat)" by (simp only: of_int_le_iff)
  then have "rq x \<le> of_int (2 ^ 53) * 2 powi ulpe x"
    unfolding rq_def by (rule mult_right_mono) (simp add: less_imp_le)
  then show ?thesis by (simp add: two_powi_add)
qed

lemma rq_ge_bottom:
  assumes "(0::'a::floor_ceiling) < x" and "- 1074 \<le> expo x - 52"
  shows "2 powi expo x \<le> rq x"
proof -
  have u: "ulpe x = expo x - 52" using assms(2) by (simp add: ulpe_def)
  have "2 powi expo x \<le> x" using expo_bounds[of x] assms(1) by auto
  moreover have "(2::'a) powi expo x = 2 ^ 52 * 2 powi ulpe x" by (simp add: u two_powi_diff)
  ultimately have "of_int (2 ^ 52) \<le> x / 2 powi ulpe x" by (simp add: pos_le_divide_eq)
  then have "2 ^ 52 \<le> rhe (x / 2 powi ulpe x)" by (rule rhe_ge_int)
  then have "(of_int (2 ^ 52) :: rat) \<le> of_int (rhe (x / 2 powi ulpe x))" by (simp only: of_int_le_iff)
  then have "of_int (2 ^ 52) * 2 powi ulpe x \<le> rq x"
    unfolding rq_def by (rule mult_right_mono) (simp add: less_imp_le)
  then show ?thesis by (simp add: u two_powi_diff)
qed

lemma rq_mono_pos:
  assumes "0 < x" and "x \<le> (y::'a::floor_ceiling)"
  shows "rq x \<le> rq y"
proof -
  have y0: "0 < y" using assms by simp
  have ee: "expo x \<le> expo y" by (rule expo_mono) (use assms in auto)
  show ?thesis
  proof (cases "ulpe x = ulpe y")
    case True
    have "x / 2 powi ulpe x \<le> y / 2 powi ulpe x" using assms(2) by (simp add: divide_right_mono less_imp_le)
    then have "rhe (x / 2 powi ulpe x) \<le> rhe (y / 2 powi ulpe y)" unfolding True by (rule rhe_mono)
    then show ?thesis unfolding rq_def True by (intro mult_right_mono) (simp_all add: less_imp_le)
  next
    case False
    with ee have lt: "ulpe x + 53 \<le> expo y" and y52: "- 1074 \<le> expo y - 52" by (auto simp: ulpe_def max_def split: if_splits)
    have "rq x \<le> 2 powi (ulpe x + 53)" using assms(1) by (rule rq_le_top)
    also have "\<dots> \<le> 2 powi expo y" using lt by (simp only: two_powi_le_iff)
    also have "\<dots> \<le> rq y" by (rule rq_ge_bottom[OF y0 y52])
    finally show ?thesis .
  qed
qed

theorem rq_mono: "(x::'a::floor_ceiling) \<le> y \<Longrightarrow> rq x \<le> rq y"
proof (cases "0 < x")
  case True
  then show "x \<le> y \<Longrightarrow> rq x \<le> rq y" by (rule rq_mono_pos)
next
  case False
  assume le: "x \<le> y"
  show "rq x \<le> rq y"
  proof (cases "y < 0")
    case True
    then show ?thesis using rq_mono_pos[of "- y" "- x"] le by (simp add: rq_minus)
  next
    case nn: False
    have "rq x \<le> 0" using False by (simp add: rq_nonpos)
    also have "0 \<le> rq y" using nn by (simp add: rq_nonneg)
    finally show ?thesis .
  qed
qed


lemma rq_le_powi: "(x::'a::floor_ceiling) \<le> 2 powi k \<Longrightarrow> - 1074 \<le> k \<Longrightarrow> rq x \<le> 2 powi k"
  using rq_mono[of x "2 powi k"] by (simp add: rq_powi)

lemma rq_abs: "\<bar>rq x\<bar> = rq \<bar>x::'a::floor_ceiling\<bar>"
  using rq_nonneg[of x] rq_nonpos[of x] by (auto simp: abs_if rq_minus)

lemma rq_abs_le_powi: "\<bar>x::'a::floor_ceiling\<bar> \<le> 2 powi k \<Longrightarrow> - 1074 \<le> k \<Longrightarrow> \<bar>rq x\<bar> \<le> 2 powi k"
  by (simp add: rq_abs rq_le_powi)

lemma rq_error: "\<bar>rq x - (x::rat)\<bar> \<le> 2 powi ulpe x / 2"
proof -
  let ?u = "2 powi ulpe x :: rat"
  have "rq x - x = (of_int (rhe (x / ?u)) - x / ?u) * ?u" by (simp add: rq_def algebra_simps)
  then have "\<bar>rq x - x\<bar> = \<bar>of_int (rhe (x / ?u)) - x / ?u\<bar> * ?u" by (simp add: abs_mult)
  also have "\<dots> \<le> 1 / 2 * ?u" by (rule mult_right_mono[OF rhe_error]) (simp add: less_imp_le)
  finally show ?thesis by simp
qed

text \<open>A rounded number is a float64 value: rounding it again changes nothing.\<close>

lemma rhe_ulp_bound: "\<bar>rhe (x / 2 powi ulpe x)\<bar> \<le> 2 ^ 53" for x :: "'a::floor_ceiling"
proof (cases "x = 0")
  case False
  have "\<bar>x\<bar> < 2 powi (expo x + 1)" using expo_bounds[OF False] by simp
  also have "\<dots> \<le> 2 powi (ulpe x + 53)" by (simp only: two_powi_le_iff) (simp add: ulpe_def)
  also have "\<dots> = 2 ^ 53 * 2 powi ulpe x" by (simp add: two_powi_add)
  finally have b: "\<bar>x\<bar> < 2 ^ 53 * 2 powi ulpe x" .
  then have "x / 2 powi ulpe x \<le> of_int (2 ^ 53)" "of_int (- (2 ^ 53)) \<le> x / 2 powi ulpe x"
    by (simp_all add: pos_divide_le_eq pos_le_divide_eq abs_less_iff)
  then have "rhe (x / 2 powi ulpe x) \<le> 2 ^ 53" "- (2 ^ 53) \<le> rhe (x / 2 powi ulpe x)"
    by (blast intro: rhe_le_int rhe_ge_int)+
  then show ?thesis by (simp only: abs_le_iff minus_le_iff)
qed simp

lemma rq_idem [simp]: "rq (rq x) = rq (x::'a::floor_ceiling)"
proof -
  define m where "m = rhe (x / 2 powi ulpe x)"
  define u where "u = ulpe x"
  have r: "rq x = of_int m * 2 powi u" by (simp add: rq_def m_def u_def)
  have u: "- 1074 \<le> u" by (simp add: u_def ulpe_def)
  have "\<bar>m\<bar> \<le> 2 ^ 53" using rhe_ulp_bound[of x] by (simp only: m_def)
  then have "\<bar>m\<bar> < 2 ^ 53 \<or> m = 2 ^ 53 \<or> m = - (2 ^ 53)" by linarith
  then consider "\<bar>m\<bar> < 2 ^ 53" | "m = 2 ^ 53" | "m = - (2 ^ 53)" by blast
  then show ?thesis
  proof cases
    case 1
    then show ?thesis unfolding r using u by (rule rq_exact)
  next
    case 2
    then have "rq x = 2 powi (53 + u)" by (simp add: r two_powi_add)
    then show ?thesis using u by (simp add: rq_powi)
  next
    case 3
    then have "rq x = - (2 powi (53 + u))" by (simp add: r two_powi_add)
    then show ?thesis using u by (simp add: rq_minus rq_powi)
  qed
qed

section \<open>The float64 values\<close>

text \<open>
  \<open>Inf True\<close> is minus infinity, \<open>NZero\<close> is minus zero, \<open>Fin 0\<close> is plus zero; \<open>Fin q\<close> with
  \<open>q \<noteq> 0\<close> is the finite value \<open>q\<close>.
\<close>

datatype f64 = NaN | Inf bool | NZero | Fin rat

fun is_finite :: "f64 \<Rightarrow> bool" where
  "is_finite NaN = False"
| "is_finite (Inf s) = False"
| "is_finite NZero = True"
| "is_finite (Fin q) = True"

fun qv :: "f64 \<Rightarrow> rat" where
  "qv (Fin q) = q"
| "qv _ = 0"

fun signbit :: "f64 \<Rightarrow> bool" where
  "signbit NaN = False"
| "signbit (Inf s) = s"
| "signbit NZero = True"
| "signbit (Fin q) = (q < 0)"

definition zero_of :: "bool \<Rightarrow> f64" where
  "zero_of s = (if s then NZero else Fin 0)"

definition overflow :: rat where
  "overflow = 2 ^ 1024"

lemma overflow_pos [simp]: "0 < overflow"
  by (simp add: overflow_def)

text \<open>The nearest float64 of an exact number; overflow gives an infinity, underflow a signed zero.\<close>

definition rnd :: "'a::floor_ceiling \<Rightarrow> f64" where
  "rnd x = (let r = rq x in
     if overflow \<le> \<bar>r\<bar> then Inf (x < 0) else if r = 0 then zero_of (x < 0) else Fin r)"

abbreviation fzero :: f64 where "fzero \<equiv> Fin 0"
abbreviation fone :: f64 where "fone \<equiv> Fin 1"

definition isNaN :: "f64 \<Rightarrow> bool" where
  "isNaN x \<longleftrightarrow> x = NaN"

definition isInf :: "f64 \<Rightarrow> bool" where
  "isInf x \<longleftrightarrow> (\<exists>s\<in>{True, False}. x = Inf s)"

lemma isInf_iff [simp]: "isInf x \<longleftrightarrow> (case x of Inf s \<Rightarrow> True | _ \<Rightarrow> False)"
  by (cases x) (auto simp: isInf_def)

lemma isNaN_simps [simp]: "isNaN NaN" "\<not> isNaN (Inf s)" "\<not> isNaN NZero" "\<not> isNaN (Fin q)"
  by (simp_all add: isNaN_def)

lemma is_finite_iff: "is_finite x \<longleftrightarrow> \<not> isNaN x \<and> \<not> isInf x"
  by (cases x) auto

lemma qv_zero_of [simp]: "qv (zero_of s) = 0" "is_finite (zero_of s)"
  by (simp_all add: zero_of_def)

lemma rnd_finite:
  assumes "\<bar>rq x\<bar> < overflow"
  shows "is_finite (rnd x)" and "qv (rnd x) = rq (x::'a::floor_ceiling)"
  using assms by (auto simp: rnd_def Let_def not_le)

lemma rnd_in_range:
  assumes "\<bar>x::'a::floor_ceiling\<bar> \<le> 2 powi 1023"
  shows "is_finite (rnd x)" and "qv (rnd x) = rq x"
proof -
  have "\<bar>rq x\<bar> \<le> 2 powi 1023" by (rule rq_abs_le_powi[OF assms]) simp
  also have "\<dots> < 2 powi 1024" by (simp only: two_powi_less_iff)
  finally have "\<bar>rq x\<bar> < overflow" by (simp add: overflow_def)
  then show "is_finite (rnd x)" "qv (rnd x) = rq x" by (fact rnd_finite)+
qed

lemma rnd_not_NaN [simp]: "rnd x \<noteq> NaN"
  by (simp add: rnd_def Let_def zero_of_def)

section \<open>Arithmetic\<close>

definition fneg :: "f64 \<Rightarrow> f64" where
  "fneg x = (case x of NaN \<Rightarrow> NaN | Inf s \<Rightarrow> Inf (\<not> s) | NZero \<Rightarrow> Fin 0
             | Fin q \<Rightarrow> if q = 0 then NZero else Fin (- q))"

definition fabs :: "f64 \<Rightarrow> f64" where
  "fabs x = (case x of NaN \<Rightarrow> NaN | Inf s \<Rightarrow> Inf False | NZero \<Rightarrow> Fin 0 | Fin q \<Rightarrow> Fin \<bar>q\<bar>)"

fun fadd :: "f64 \<Rightarrow> f64 \<Rightarrow> f64" where
  "fadd NaN y = NaN"
| "fadd x NaN = NaN"
| "fadd (Inf s) (Inf t) = (if s = t then Inf s else NaN)"
| "fadd (Inf s) y = Inf s"
| "fadd x (Inf t) = Inf t"
| "fadd NZero NZero = NZero"
| "fadd x y = rnd (qv x + qv y)"

definition fsub :: "f64 \<Rightarrow> f64 \<Rightarrow> f64" where
  "fsub x y = fadd x (fneg y)"

fun fmul :: "f64 \<Rightarrow> f64 \<Rightarrow> f64" where
  "fmul NaN y = NaN"
| "fmul x NaN = NaN"
| "fmul (Inf s) (Inf t) = Inf (s \<noteq> t)"
| "fmul (Inf s) y = (if qv y = 0 then NaN else Inf (s \<noteq> signbit y))"
| "fmul x (Inf t) = (if qv x = 0 then NaN else Inf (signbit x \<noteq> t))"
| "fmul x y = (if qv x * qv y = 0 then zero_of (signbit x \<noteq> signbit y) else rnd (qv x * qv y))"

fun fdiv :: "f64 \<Rightarrow> f64 \<Rightarrow> f64" where
  "fdiv NaN y = NaN"
| "fdiv x NaN = NaN"
| "fdiv (Inf s) (Inf t) = NaN"
| "fdiv (Inf s) y = Inf (s \<noteq> signbit y)"
| "fdiv x (Inf t) = zero_of (signbit x \<noteq> t)"
| "fdiv x y = (if qv y = 0 then if qv x = 0 then NaN else Inf (signbit x \<noteq> signbit y)
               else if qv x = 0 then zero_of (signbit x \<noteq> signbit y) else rnd (qv x / qv y))"

fun flt :: "f64 \<Rightarrow> f64 \<Rightarrow> bool" where
  "flt NaN y = False"
| "flt x NaN = False"
| "flt (Inf s) (Inf t) = (s \<and> \<not> t)"
| "flt (Inf s) y = s"
| "flt x (Inf t) = (\<not> t)"
| "flt x y = (qv x < qv y)"

fun fle :: "f64 \<Rightarrow> f64 \<Rightarrow> bool" where
  "fle NaN y = False"
| "fle x NaN = False"
| "fle (Inf s) (Inf t) = (s \<or> \<not> t)"
| "fle (Inf s) y = s"
| "fle x (Inf t) = (\<not> t)"
| "fle x y = (qv x \<le> qv y)"

fun feq :: "f64 \<Rightarrow> f64 \<Rightarrow> bool" where
  "feq NaN y = False"
| "feq x NaN = False"
| "feq (Inf s) (Inf t) = (s = t)"
| "feq (Inf s) y = False"
| "feq x (Inf t) = False"
| "feq x y = (qv x = qv y)"

text \<open>Conversions: \<open>float64(n)\<close> of an integer, and the constant of an exact literal.\<close>

definition f_of_int :: "int \<Rightarrow> f64" where
  "f_of_int n = rnd (of_int n :: rat)"

definition lit :: "rat \<Rightarrow> f64" where
  "lit q = rnd q"


section \<open>Evaluation on literals\<close>

lemma floor_frac [simp]:
  "\<lfloor>numeral a / numeral b :: 'a::floor_ceiling\<rfloor> = numeral a div numeral b"
  "\<lfloor>1 / numeral b :: 'a::floor_ceiling\<rfloor> = 1 div numeral b"
  "\<lfloor>- (numeral a / numeral b) :: 'a::floor_ceiling\<rfloor> = - numeral a div numeral b"
  "\<lfloor>- (1 / numeral b) :: 'a::floor_ceiling\<rfloor> = - 1 div numeral b"
  using floor_divide_of_int_eq[of "numeral a" "numeral b", where 'a = 'a]
    floor_divide_of_int_eq[of 1 "numeral b", where 'a = 'a]
    floor_divide_of_int_eq[of "- numeral a" "numeral b", where 'a = 'a]
    floor_divide_of_int_eq[of "- 1" "numeral b", where 'a = 'a]
  by simp_all

lemma ceiling_frac [simp]:
  "\<lceil>numeral a / numeral b :: 'a::floor_ceiling\<rceil> = - (- numeral a div numeral b)"
  "\<lceil>1 / numeral b :: 'a::floor_ceiling\<rceil> = - (- 1 div numeral b)"
  by (simp_all add: ceiling_def)

lemmas f64_eval = lit_def overflow_def rnd_def rq_def ulpe_def expo_def rhe_def Let_def f_of_int_def zero_of_def
  fneg_def fabs_def fsub_def


section \<open>Operations on finite values\<close>

named_theorems f64_fin \<open>finite operands: the result is the rounded exact result\<close>

lemma fneg_simps [simp]:
  "is_finite (fneg x) = is_finite x"
  "qv (fneg x) = - qv x"
  "fneg x = NaN \<longleftrightarrow> x = NaN"
  by (cases x; simp add: fneg_def)+

lemma fabs_simps [simp]:
  "is_finite (fabs x) = is_finite x"
  "qv (fabs x) = \<bar>qv x\<bar>"
  "fabs x = NaN \<longleftrightarrow> x = NaN"
  by (cases x; simp add: fabs_def)+

lemma fcmp_fin [f64_fin]:
  assumes "is_finite x" and "is_finite y"
  shows "flt x y \<longleftrightarrow> qv x < qv y" and "fle x y \<longleftrightarrow> qv x \<le> qv y" and "feq x y \<longleftrightarrow> qv x = qv y"
  using assms by (cases x; cases y; simp)+

lemma fadd_fin:
  assumes "is_finite x" "is_finite y" "\<bar>rq (qv x + qv y)\<bar> < overflow"
  shows "is_finite (fadd x y)" and "qv (fadd x y) = rq (qv x + qv y)"
  using assms by (cases x; cases y; simp add: rnd_finite)+

lemma fsub_fin:
  assumes "is_finite x" "is_finite y" "\<bar>rq (qv x - qv y)\<bar> < overflow"
  shows "is_finite (fsub x y)" and "qv (fsub x y) = rq (qv x - qv y)"
  using fadd_fin[of x "fneg y"] assms by (simp_all add: fsub_def)

lemma fmul_fin:
  assumes "is_finite x" "is_finite y" "\<bar>rq (qv x * qv y)\<bar> < overflow"
  shows "is_finite (fmul x y)" and "qv (fmul x y) = rq (qv x * qv y)"
  using assms by (cases x; cases y; simp add: rnd_finite)+

lemma fdiv_fin:
  assumes "is_finite x" "is_finite y" "qv y \<noteq> 0" "\<bar>rq (qv x / qv y)\<bar> < overflow"
  shows "is_finite (fdiv x y)" and "qv (fdiv x y) = rq (qv x / qv y)"
  using assms by (cases x; cases y; simp add: rnd_finite)+

text \<open>Magnitudes up to \<open>2^1023\<close> never overflow.\<close>

lemma rq_small: "\<bar>x::'a::floor_ceiling\<bar> \<le> 2 powi 1023 \<Longrightarrow> \<bar>rq x\<bar> < overflow"
proof -
  assume "\<bar>x\<bar> \<le> 2 powi 1023"
  then have "\<bar>rq x\<bar> \<le> 2 powi 1023" by (rule rq_abs_le_powi) simp
  also have "\<dots> < (2::rat) powi 1024" by (simp only: two_powi_less_iff)
  finally show ?thesis by (simp add: overflow_def)
qed

lemma powi_1023_ge: "\<bar>x::'a::floor_ceiling\<bar> \<le> numeral n \<Longrightarrow> numeral n \<le> (2::'a) ^ 1023 \<Longrightarrow> \<bar>x\<bar> \<le> 2 powi 1023"
  by (metis order_trans power_int_numeral)

section \<open>Intervals of finite values\<close>

text \<open>\<open>fin_in a b x\<close>: the value is finite and lies between \<open>a\<close> and \<open>b\<close>.\<close>

definition fin_in :: "rat \<Rightarrow> rat \<Rightarrow> f64 \<Rightarrow> bool" where
  "fin_in a b x \<longleftrightarrow> is_finite x \<and> a \<le> qv x \<and> qv x \<le> b"

lemma fin_inI [intro?]: "is_finite x \<Longrightarrow> a \<le> qv x \<Longrightarrow> qv x \<le> b \<Longrightarrow> fin_in a b x"
  by (simp add: fin_in_def)

lemma fin_in_Fin [simp]: "fin_in a b (Fin q) \<longleftrightarrow> a \<le> q \<and> q \<le> b"
  by (simp add: fin_in_def)

lemma fin_in_not_NaN: "fin_in a b x \<Longrightarrow> x \<noteq> NaN"
  by (auto simp: fin_in_def)

lemma fin_in_mono: "fin_in a b x \<Longrightarrow> a' \<le> a \<Longrightarrow> b \<le> b' \<Longrightarrow> fin_in a' b' x"
  by (simp add: fin_in_def)

text \<open>Bounds that are float64 values themselves survive rounding.\<close>

lemma rq_in: "a \<le> (x::rat) \<Longrightarrow> x \<le> b \<Longrightarrow> rq a = a \<Longrightarrow> rq b = b \<Longrightarrow> a \<le> rq x \<and> rq x \<le> b"
  using rq_mono[of a x] rq_mono[of x b] by simp

lemma fin_in_rnd_op:
  assumes "a \<le> (x::rat)" "x \<le> b" "rq a = a" "rq b = b" "\<bar>a\<bar> \<le> 2 powi 1023" "\<bar>b\<bar> \<le> 2 powi 1023"
  shows "\<bar>rq x\<bar> < overflow \<and> a \<le> rq x \<and> rq x \<le> b"
  using rq_in[OF assms(1-4)] rq_small[of x] assms by (auto simp: abs_le_iff)

lemma fadd_in:
  assumes "fin_in a b x" "fin_in c d y" "rq (a + c) = a + c" "rq (b + d) = b + d"
    "\<bar>a + c\<bar> \<le> 2 powi 1023" "\<bar>b + d\<bar> \<le> 2 powi 1023"
  shows "fin_in (a + c) (b + d) (fadd x y)"
  using fin_in_rnd_op[of "a + c" "qv x + qv y" "b + d"] assms fadd_fin[of x y]
  by (auto simp: fin_in_def)

lemma fsub_in:
  assumes "fin_in a b x" "fin_in c d y" "rq (a - d) = a - d" "rq (b - c) = b - c"
    "\<bar>a - d\<bar> \<le> 2 powi 1023" "\<bar>b - c\<bar> \<le> 2 powi 1023"
  shows "fin_in (a - d) (b - c) (fsub x y)"
  using fin_in_rnd_op[of "a - d" "qv x - qv y" "b - c"] assms fsub_fin[of x y]
  by (auto simp: fin_in_def)

lemma fneg_in: "fin_in a b x \<Longrightarrow> fin_in (- b) (- a) (fneg x)"
  by (simp add: fin_in_def)

lemma mult_in_unit: "0 \<le> a \<Longrightarrow> a \<le> (1::rat) \<Longrightarrow> \<bar>v\<bar> \<le> B \<Longrightarrow> \<bar>a * v\<bar> \<le> B"
  by (metis abs_ge_zero abs_mult abs_of_nonneg mult_left_le_one_le order_trans)

text \<open>A factor in the unit interval keeps a symmetric range.\<close>

lemma fmul_unit_in:
  assumes "fin_in 0 1 x" "fin_in (- B) B y" "rq B = B" "B \<le> 2 powi 1023"
  shows "fin_in (- B) B (fmul x y)"
proof -
  have "\<bar>qv x * qv y\<bar> \<le> B" using assms by (intro mult_in_unit) (auto simp: fin_in_def abs_le_iff)
  moreover have "0 \<le> B" using assms(2) by (auto simp: fin_in_def)
  ultimately show ?thesis
    using fin_in_rnd_op[of "- B" "qv x * qv y" B] assms fmul_fin[of x y]
    by (auto simp: fin_in_def rq_minus abs_le_iff)
qed

lemma fmul_unit_unit:
  assumes "fin_in 0 1 x" "fin_in 0 1 y"
  shows "fin_in 0 1 (fmul x y)"
proof -
  have "0 \<le> qv x * qv y" "qv x * qv y \<le> 1" using assms by (auto simp: fin_in_def mult_le_one)
  then show ?thesis
    using fin_in_rnd_op[of 0 "qv x * qv y" 1] assms fmul_fin[of x y]
    by (auto simp: fin_in_def two_powi_pos less_imp_le)
qed

lemma one_minus_unit: "fin_in 0 1 x \<Longrightarrow> fin_in 0 1 (fsub fone x)"
  using fsub_in[of 1 1 fone 0 1 x] by (simp add: two_powi_pos less_imp_le)

section \<open>Representable values\<close>

text \<open>\<open>is_f64\<close>: the value exists as a float64.  Every arithmetic operation returns such values.\<close>

fun is_f64 :: "f64 \<Rightarrow> bool" where
  "is_f64 (Fin q) = (rq q = q \<and> \<bar>q\<bar> < overflow)"
| "is_f64 _ = True"

lemma is_f64_rnd [simp]: "is_f64 (rnd x)"
  by (simp add: rnd_def Let_def zero_of_def overflow_def)

lemma is_f64_zero [simp]: "is_f64 (zero_of s)"
  by (simp add: zero_of_def overflow_def)

lemma is_f64_qv: "is_f64 x \<Longrightarrow> rq (qv x) = qv x"
  by (cases x) auto

lemma is_f64_ops [simp]: "is_f64 (fadd x y)" "is_f64 (fmul x y)" "is_f64 (fdiv x y)"
  if "is_f64 x" "is_f64 y"
  using that by (cases x; cases y; simp)+

lemma is_f64_neg [simp]: "is_f64 x \<Longrightarrow> is_f64 (fneg x)"
  by (cases x) (auto simp: fneg_def rq_minus)

lemma is_f64_sub [simp]: "is_f64 x \<Longrightarrow> is_f64 y \<Longrightarrow> is_f64 (fsub x y)"
  by (simp add: fsub_def)

lemma is_f64_small_int [simp]: "is_f64 fzero" "is_f64 fone"
  by (simp_all add: overflow_def)

section \<open>NaN and the infinities\<close>

lemma fadd_NaN [simp]: "fadd x NaN = NaN" "fadd NaN x = NaN"
  by (cases x; simp)+

lemma fmul_NaN [simp]: "fmul x NaN = NaN" "fmul NaN x = NaN"
  by (cases x; simp)+

lemma fdiv_NaN [simp]: "fdiv x NaN = NaN" "fdiv NaN x = NaN"
  by (cases x; simp)+

lemma fsub_NaN [simp]: "fsub x NaN = NaN" "fsub NaN x = NaN"
  by (simp_all add: fsub_def fneg_def)

lemma fcmp_NaN [simp]:
  "flt x NaN = False" "flt NaN x = False" "fle x NaN = False" "fle NaN x = False"
  "feq x NaN = False" "feq NaN x = False"
  by (cases x; simp)+

lemma flt_irrefl [simp]: "\<not> flt x x"
  by (cases x) auto

lemma flt_asym: "flt x y \<Longrightarrow> \<not> flt y x"
  by (cases x; cases y) auto

lemma flt_trans: "flt x y \<Longrightarrow> flt y z \<Longrightarrow> flt x z"
  by (cases x; cases y; cases z) auto

lemma fle_iff: "fle x y \<longleftrightarrow> x \<noteq> NaN \<and> y \<noteq> NaN \<and> \<not> flt y x"
  by (cases x; cases y) auto

lemma flt_total: "x \<noteq> NaN \<Longrightarrow> y \<noteq> NaN \<Longrightarrow> flt x y \<or> feq x y \<or> flt y x"
  by (cases x; cases y) (auto simp: neq_iff)

section \<open>Rounding errors and scaling\<close>

lemma rnd_1 [simp]: "rnd (1::'a::floor_ceiling) = fone"
  by (simp add: rnd_def overflow_def)

lemma rq_error_unit:
  assumes "0 \<le> (x::rat)" "x \<le> 1"
  shows "\<bar>rq x - x\<bar> \<le> 1 / 2 ^ 54"
proof (cases "x = 0 \<or> x = 1")
  case False
  with assms have x: "0 < x" "x < 1" by auto
  then have "(2::rat) powi expo x < 2 powi 0" using expo_bounds[of x] by auto
  then have "expo x < 0" by (simp only: two_powi_less_iff)
  then have "ulpe x \<le> - 53" by (simp add: ulpe_def)
  then have "(2::rat) powi ulpe x \<le> 2 powi (- 53)" by (simp only: two_powi_le_iff)
  then have "2 powi ulpe x / 2 \<le> (1 / 2 ^ 54 :: rat)" by (simp add: power_int_minus_divide)
  then show ?thesis using rq_error[of x] by linarith
qed auto


lemma one_minus_error:
  assumes "fin_in 0 1 x"
  shows "\<bar>qv (fsub fone x) - (1 - qv x)\<bar> \<le> 1 / 2 ^ 54"
  using assms rq_error_unit[of "1 - qv x"] fsub_fin[of fone x] fin_in_rnd_op[of 0 "1 - qv x" 1]
  by (auto simp: fin_in_def less_imp_le)

lemma fmul_unit_error:
  assumes "fin_in 0 1 x" "fin_in 0 1 y"
  shows "\<bar>qv (fmul x y) - qv x * qv y\<bar> \<le> 1 / 2 ^ 54"
proof -
  have "0 \<le> qv x * qv y" "qv x * qv y \<le> 1" using assms by (auto simp: fin_in_def mult_le_one)
  then show ?thesis
    using rq_error_unit[of "qv x * qv y"] fmul_fin[of x y] fin_in_rnd_op[of 0 "qv x * qv y" 1] assms
    by (auto simp: fin_in_def less_imp_le)
qed

lemma rq_scale:
  assumes "rq x = (x::rat)" and "0 \<le> k"
  shows "rq (x * 2 powi k) = x * 2 powi k"
proof -
  define m where "m = rhe (x / 2 powi ulpe x)"
  have x: "x = of_int m * 2 powi ulpe x" using assms(1) by (simp add: rq_def m_def)
  have u: "- 1074 \<le> ulpe x + k" using assms(2) by (simp add: ulpe_def)
  have xk: "x * 2 powi k = of_int m * 2 powi (ulpe x + k)"
    using two_powi_add[of "ulpe x" k, where 'a = rat] x by simp
  have "\<bar>m\<bar> \<le> 2 ^ 53" unfolding m_def by (rule rhe_ulp_bound)
  then consider "\<bar>m\<bar> < 2 ^ 53" | "m = 2 ^ 53" | "m = - (2 ^ 53)" by linarith
  then show ?thesis
  proof cases
    case 1
    then show ?thesis unfolding xk by (rule rq_exact) (fact u)
  next
    case 2
    then have "x * 2 powi k = 2 powi (53 + (ulpe x + k))" unfolding xk by (subst two_powi_add) simp
    then show ?thesis using u by (simp only: rq_powi)
  next
    case 3
    then have "x * 2 powi k = - (2 powi (53 + (ulpe x + k)))" unfolding xk by (subst two_powi_add) simp
    then show ?thesis using u by (simp only: rq_powi rq_minus)
  qed
qed

lemma rq_barely_above:
  assumes "0 \<le> k"
  shows "rq ((1 + 1 / 2 ^ 54) * 2 powi k :: rat) = 2 powi k"
proof -
  let ?x = "(1 + 1 / 2 ^ 54) * 2 powi k :: rat"
  have "expo ?x = k"
  proof (rule expo_unique)
    have "\<bar>?x\<bar> = ?x" by simp
    moreover have "1 * 2 powi k \<le> ?x" "?x < 2 * 2 powi k"
      by (rule mult_right_mono, simp, simp add: less_imp_le) (rule mult_strict_right_mono, simp_all)
    ultimately show "2 powi k \<le> \<bar>?x\<bar>" "\<bar>?x\<bar> < 2 powi (k + 1)" by (simp_all add: two_powi_Suc)
  qed
  then have u: "ulpe ?x = k - 52" using assms by (simp add: ulpe_def)
  have e: "?x / 2 powi (k - 52) = 2 ^ 52 + 1 / 4" by (simp add: two_powi_diff)
  have "rhe (?x / 2 powi (k - 52)) = 2 ^ 52" unfolding e by (rule rhe_unique_less) simp
  then have "rq ?x = of_int (2 ^ 52) * 2 powi (k - 52)" by (simp only: rq_def u)
  then show ?thesis by (simp add: two_powi_diff)
qed

lemma rq_convex_le:
  assumes "rq a = a" "0 \<le> a" "rq a' = a'" "0 \<le> a'" "a + a' \<le> 1 + 1 / 2 ^ 54"
    and "B = 2 powi k" "0 \<le> k" "x \<le> B" "y \<le> (B::rat)"
  shows "rq (rq (a * x) + rq (a' * y)) \<le> B"
proof -
  have "rq (a * x) \<le> rq (a * B)" "rq (a' * y) \<le> rq (a' * B)"
    using assms by (auto intro!: rq_mono mult_left_mono)
  then have "rq (a * x) + rq (a' * y) \<le> a * B + a' * B" using assms(1,3,6,7) by (simp only: rq_scale)
  also have "\<dots> = (a + a') * B" by (simp add: distrib_right)
  also have "\<dots> \<le> (1 + 1 / 2 ^ 54) * B" by (rule mult_right_mono) (use assms in \<open>simp_all add: less_imp_le\<close>)
  finally have "rq (rq (a * x) + rq (a' * y)) \<le> rq ((1 + 1 / 2 ^ 54) * B)" by (rule rq_mono)
  then show ?thesis using assms(6,7) by (simp only: rq_barely_above)
qed

lemma is_f64_consts [simp]: "is_f64 (lit q)" "is_f64 (f_of_int n)"
  by (simp_all add: lit_def f_of_int_def)

lemma rq_one_minus_pos:
  assumes "rq b = (b::rat)" "b < 1"
  shows "0 < rq (1 - b)"
proof (cases "b \<le> 1 / 2")
  case True
  have "rq (1 / 2 :: rat) = 1 / 2" using rq_powi[of "- 1", where 'a = rat] by (simp add: power_int_minus_divide)
  with True show ?thesis using rq_mono[of "1 / 2" "1 - b"] by simp
next
  case False
  with assms(2) have "expo b = - 1" by (intro expo_unique) (simp_all add: power_int_minus_divide)
  then have u: "ulpe b = - 53" by (simp add: ulpe_def)
  define m where "m = rhe (b / 2 powi ulpe b)"
  have b: "b = of_int m * 2 powi (- 53)" using assms(1) by (simp add: rq_def m_def u)
  have e: "1 - b = of_int (2 ^ 53 - m) * 2 powi (- 53)" by (simp add: b power_int_minus_divide left_diff_distrib)
  have "(of_int m :: rat) < of_int (2 ^ 53)" "0 < (of_int m :: rat)"
    using False assms(2) by (simp_all add: b power_int_minus_divide field_simps)
  then have m: "m < 2 ^ 53" "0 < m" by (simp_all only: of_int_less_iff of_int_0_less_iff)
  have "rq (1 - b) = 1 - b" unfolding e by (rule rq_exact) (use m in auto)
  then show ?thesis using assms(2) by simp
qed

lemma one_minus_pos:
  assumes "is_f64 b" "flt fzero b" "flt b fone"
  shows "is_finite (fsub fone b)" "0 < qv (fsub fone b)"
proof -
  obtain q where q: "b = Fin q" "0 < q" "q < 1" "rq q = q" using assms by (cases b) auto
  have "fin_in 0 1 (fsub fone b)" using q by (intro one_minus_unit) simp
  then show f: "is_finite (fsub fone b)" by (simp add: fin_in_def)
  show "0 < qv (fsub fone b)"
    using fsub_fin[of fone b] rq_one_minus_pos[OF q(4,3)] q fin_in_rnd_op[of 0 "1 - q" 1]
    by (auto simp: less_imp_le)
qed

lemma fsub_not_NaN: "is_finite x \<Longrightarrow> is_finite y \<Longrightarrow> fsub x y \<noteq> NaN"
  by (cases x; cases y) (auto simp: fsub_def fneg_def)

lemma fdiv_pos_not_NaN: "x \<noteq> NaN \<Longrightarrow> is_finite y \<Longrightarrow> 0 < qv y \<Longrightarrow> fdiv x y \<noteq> NaN"
  by (cases x; cases y) (auto simp: zero_of_def)

lemma fin_in_abs: "fin_in (- b) b v \<Longrightarrow> is_finite v \<and> \<bar>qv v\<bar> \<le> b"
  by (auto simp: fin_in_def)

end
