(* ===== verification/GoMath.thy ===== *)
theory GoMath
  imports Float64
begin

text \<open>
  What the program uses of Go's package \<open>math\<close>.  \<open>math.Sqrt\<close> is the correctly rounded IEEE
  operation: it is computed here by an integer square root with a sticky bit and proved equal
  to the rounding of the real square root.  The transcendental functions are library routines
  whose last digit the documentation leaves open, so they are a parameter (the record
  \<open>libm\<close>) with their documented special cases and ranges as the locale \<open>go_libm\<close>; the
  correctly rounded real functions are shown to satisfy it.
\<close>

section \<open>Square root\<close>

fun isqrt :: "nat \<Rightarrow> nat" where
  "isqrt n = (if n = 0 then 0 else
     (let r = 2 * isqrt (n div 4) in if (r + 1) * (r + 1) \<le> n then r + 1 else r))"

declare isqrt.simps [simp del]

lemma isqrt_correct: "isqrt n * isqrt n \<le> n \<and> n < (isqrt n + 1) * (isqrt n + 1)"
proof (induction n rule: isqrt.induct)
  case (1 n)
  show ?case
  proof (cases "n = 0")
    case True
    then show ?thesis by (simp add: isqrt.simps)
  next
    case False
    define q where "q = isqrt (n div 4)"
    have ih: "q * q \<le> n div 4" "n div 4 < (q + 1) * (q + 1)" using "1.IH" False by (auto simp: q_def)
    have lo: "(2 * q) * (2 * q) \<le> n" using ih(1) by (simp add: algebra_simps)
    have "n < 4 * (n div 4 + 1)" by simp
    also have "\<dots> \<le> 4 * ((q + 1) * (q + 1))" using ih(2) by (simp only: mult_le_mono2 Suc_leI flip: Suc_eq_plus1)
    finally have hi: "n < (2 * q + 2) * (2 * q + 2)" by (simp add: algebra_simps)
    show ?thesis using False lo hi by (simp add: isqrt.simps[of n] q_def[symmetric] Let_def)
  qed
qed

lemma isqrt_unique:
  assumes "r * r \<le> n" and "n < (r + 1) * (r + 1)"
  shows "isqrt n = r"
proof -
  have "r < isqrt n + 1" using assms(1) isqrt_correct[of n] by (metis le_less_trans mult_le_mono not_le)
  moreover have "isqrt n < r + 1" using assms(2) isqrt_correct[of n] by (metis le_less_trans mult_le_mono not_le)
  ultimately show ?thesis by simp
qed

text \<open>
  \<open>sqrt_approx q k\<close>: the square root of \<open>q\<close> to \<open>k\<close> binary places; when it is not exact, the
  midpoint of the last place stands for "strictly between".
\<close>

definition sqrt_approx :: "rat \<Rightarrow> int \<Rightarrow> rat" where
  "sqrt_approx q k =
     (let y = q * 2 powi (2 * k); s = isqrt (nat \<lfloor>y\<rfloor>)
      in if of_nat (s * s) = y then of_nat s / 2 powi k else (of_nat s + 1 / 2) / 2 powi k)"

definition fsqrt :: "f64 \<Rightarrow> f64" where
  "fsqrt x = (case x of NaN \<Rightarrow> NaN | Inf s \<Rightarrow> if s then NaN else Inf False | NZero \<Rightarrow> NZero
     | Fin q \<Rightarrow> if q < 0 then NaN else if q = 0 then Fin 0
                else rnd (sqrt_approx q (60 - expo q div 2)))"

subsection \<open>Correct rounding\<close>

lemma of_rat_powi: "(of_rat (2 powi k) :: real) = 2 powi k"
  by (cases "0 \<le> k") (simp_all add: power_int_def of_rat_power of_rat_inverse of_rat_divide)

lemma expo_of_rat: "expo (of_rat q :: real) = expo q"
proof (cases "q = 0")
  case True
  then show ?thesis by (simp add: expo_def)
next
  case False
  have b: "2 powi expo q \<le> \<bar>q\<bar>" "\<bar>q\<bar> < 2 powi (expo q + 1)" using expo_bounds[OF False] by auto
  have "(of_rat (2 powi expo q) :: real) \<le> of_rat \<bar>q\<bar>" using b(1) by (simp only: of_rat_less_eq)
  moreover have "(of_rat \<bar>q\<bar> :: real) < of_rat (2 powi (expo q + 1))" using b(2) by (simp only: of_rat_less)
  ultimately show ?thesis by (intro expo_unique) (simp_all only: of_rat_powi abs_of_rat)
qed

lemma rhe_of_rat: "rhe (of_rat q :: real) = rhe q"
proof -
  have d: "(of_rat q :: real) - of_int \<lfloor>q\<rfloor> = of_rat (q - of_int \<lfloor>q\<rfloor>)" by (simp add: of_rat_diff)
  have h: "(1 / 2 :: real) = of_rat (1 / 2)" by (simp add: of_rat_divide)
  show ?thesis unfolding rhe_def Let_def of_rat_floor d h of_rat_less ..
qed

lemma rq_of_rat: "rq (of_rat q :: real) = rq q"
proof -
  have "(of_rat q :: real) / 2 powi ulpe q = of_rat (q / 2 powi ulpe q)"
    by (simp only: of_rat_divide of_rat_powi)
  then show ?thesis by (simp add: rq_def ulpe_def expo_of_rat rhe_of_rat)
qed

lemma rhe_open_half:
  assumes "of_int h / 2 < (x::'a::floor_ceiling)" and "x < (of_int h + 1) / 2"
  shows "rhe x = (h + 1) div 2"
proof (cases "even h")
  case True
  then obtain i where h: "h = 2 * i" by blast
  have fl: "\<lfloor>x\<rfloor> = i" by (rule floor_unique) (use assms in \<open>auto simp: h field_simps\<close>)
  have "x - of_int i < 1 / 2" using assms by (simp add: h field_simps)
  with fl show ?thesis by (simp add: rhe_def h)
next
  case False
  then obtain i where h: "h = 2 * i + 1" by (auto elim: oddE)
  have fl: "\<lfloor>x\<rfloor> = i" by (rule floor_unique) (use assms in \<open>auto simp: h field_simps\<close>)
  have "1 / 2 < x - of_int i" using assms by (simp add: h field_simps)
  with fl show ?thesis by (simp add: rhe_def h Let_def)
qed

lemma rhe_open_dyadic:
  assumes "of_int m / 2 ^ Suc j < (x::'a::floor_ceiling)" and "x < (of_int m + 1) / 2 ^ Suc j"
  shows "rhe x = (m div 2 ^ j + 1) div 2"
proof (rule rhe_open_half)
  let ?h = "m div 2 ^ j"
  have "0 \<le> m mod 2 ^ j" by simp
  then have "?h * 2 ^ j \<le> m" using div_mult_mod_eq[of m "2 ^ j"] by linarith
  then have "(of_int (?h * 2 ^ j) :: 'a) \<le> of_int m" by (simp only: of_int_le_iff)
  then have "(of_int ?h :: 'a) / 2 \<le> of_int m / 2 ^ Suc j" by (simp add: field_simps)
  then show "of_int ?h / 2 < x" using assms(1) by (rule le_less_trans)
  have "m mod 2 ^ j < 2 ^ j" by simp
  then have "m < ?h * 2 ^ j + 2 ^ j" using div_mult_mod_eq[of m "2 ^ j"] by linarith
  then have "m < (?h + 1) * 2 ^ j" by (simp only: distrib_right mult_1)
  then have "(of_int (m + 1) :: 'a) \<le> of_int ((?h + 1) * 2 ^ j)" by (simp only: of_int_le_iff)
  then have "(of_int m + 1 :: 'a) / 2 ^ Suc j \<le> (of_int ?h + 1) / 2" by (simp add: field_simps)
  with assms(2) show "x < (of_int ?h + 1) / 2" by (rule less_le_trans)
qed

text \<open>All numbers strictly inside one cell of a fine enough dyadic grid round alike.\<close>

lemma expo_cell:
  assumes x: "of_int m / 2 powi k < (x::real)" "x < (of_int m + 1) / 2 powi k"
    and e: "2 powi e \<le> (of_int m + 1 / 2 :: real) / 2 powi k"
      "(of_int m + 1 / 2 :: real) / 2 powi k < 2 powi (e + 1)"
    and ke: "- k \<le> e"
  shows "expo x = e"
proof -
  define p where "p = nat (e + k)"
  have ek: "e = int p - k" using ke by (simp add: p_def)
  have pe: "(2::real) powi e = 2 ^ p / 2 powi k" "(2::real) powi (e + 1) = 2 ^ Suc p / 2 powi k"
    by (simp_all add: ek two_powi_diff two_powi_add flip: power_int_of_nat)
  have "(2::real) ^ p \<le> of_int m + 1 / 2" "of_int m + 1 / 2 < (2::real) ^ Suc p"
    using e unfolding pe by (simp_all add: divide_le_cancel divide_less_cancel less_imp_le)
  then have "(of_int (2 ^ p) :: real) < of_int (m + 1)" "of_int m < (of_int (2 ^ Suc p) :: real)" by simp_all
  then have "2 ^ p < m + 1" "m < 2 ^ Suc p" by (simp_all only: of_int_less_iff)
  then have "(of_int (2 ^ p) :: real) \<le> of_int m" "of_int (m + 1) \<le> (of_int (2 ^ Suc p) :: real)"
    by (simp_all only: of_int_le_iff)
  then have "2 powi e \<le> of_int m / (2::real) powi k" "(of_int m + 1) / (2::real) powi k \<le> 2 powi (e + 1)"
    unfolding pe by (simp_all add: divide_right_mono less_imp_le)
  then have b: "2 powi e < x" "x < 2 powi (e + 1)" using x by simp_all
  then have "0 < x" using two_powi_pos[of e] by (meson less_trans)
  with b show ?thesis by (intro expo_unique) simp_all
qed

lemma rq_cell:
  assumes x: "of_int m / 2 powi k < (x::real)" "x < (of_int m + 1) / 2 powi k"
    and y: "y = (of_int m + 1 / 2 :: real) / 2 powi k" and m: "0 < m" and k: "53 - expo y \<le> k"
  shows "rq x = rq y"
proof -
  have y0: "0 < y" using m by (simp add: y)
  have be: "2 powi expo y \<le> y" "y < 2 powi (expo y + 1)" using expo_bounds[of y] y0 by auto
  have ex: "expo x = expo y" by (rule expo_cell[OF x]) (use be y k in auto)
  then have u: "ulpe x = ulpe y" by (simp add: ulpe_def)
  define j where "j = nat (ulpe y + k - 1)"
  have "expo y - 52 \<le> ulpe y" by (simp add: ulpe_def)
  with k have jk: "int (Suc j) = ulpe y + k" by (simp add: j_def)
  have cell: "c / 2 powi k / 2 powi ulpe y = c / 2 ^ Suc j" for c :: real
  proof -
    have "(2::real) powi k * 2 powi ulpe y = 2 powi int (Suc j)" by (simp only: jk two_powi_add mult.commute)
    then show ?thesis by (simp only: divide_divide_eq_left power_int_of_nat)
  qed
  have "rhe (x / 2 powi ulpe y) = (m div 2 ^ j + 1) div 2"
    by (rule rhe_open_dyadic)
      (use x[THEN divide_strict_right_mono, OF two_powi_pos[of "ulpe y"]] in \<open>simp_all only: cell\<close>)
  moreover have "y / 2 powi ulpe y = (of_int m + 1 / 2) / 2 ^ Suc j" by (metis cell y)
  then have "rhe (y / 2 powi ulpe y) = (m div 2 ^ j + 1) div 2"
    by (intro rhe_open_dyadic) (simp_all add: divide_strict_right_mono)
  ultimately show ?thesis unfolding rq_def u by simp
qed

lemma expo_sqrt:
  assumes "0 < q"
  shows "expo (sqrt (real_of_rat q)) = expo q div 2"
proof (rule expo_unique)
  define e where "e = expo q div 2"
  have b: "2 powi expo q \<le> real_of_rat q" "real_of_rat q < 2 powi (expo q + 1)"
    using expo_bounds[of "real_of_rat q"] assms by (auto simp: expo_of_rat)
  have e2: "2 * e \<le> expo q" "expo q + 1 \<le> 2 * (e + 1)" by (auto simp: e_def)
  have sq: "(2::real) powi (2 * c) = (2 powi c)\<^sup>2" for c
    by (simp only: mult_2 two_powi_add power2_eq_square)
  have "((2::real) powi e)\<^sup>2 \<le> 2 powi expo q" using e2(1) by (simp only: sq[symmetric] two_powi_le_iff)
  then have "2 powi e \<le> sqrt (real_of_rat q)" using b(1) by (intro real_le_rsqrt) simp
  then show "2 powi (expo q div 2) \<le> \<bar>sqrt (real_of_rat q)\<bar>" by (simp add: e_def)
  have "(2::real) powi (expo q + 1) \<le> (2 powi (e + 1))\<^sup>2" using e2(2) by (simp only: sq[symmetric] two_powi_le_iff)
  then have "sqrt (real_of_rat q) < 2 powi (e + 1)" using b(2)
    by (intro real_less_lsqrt) (simp_all add: less_imp_le)
  then show "\<bar>sqrt (real_of_rat q)\<bar> < 2 powi (expo q div 2 + 1)" using assms by (simp add: e_def)
qed


lemma rnd_of_rat: "rnd (of_rat q :: real) = rnd q"
  by (simp add: rnd_def rq_of_rat Let_def)

lemma rnd_cong: "rq x = rq y \<Longrightarrow> (x < 0 \<longleftrightarrow> y < 0) \<Longrightarrow> rnd (x::real) = rnd (y::real)"
  by (simp add: rnd_def Let_def)

text \<open>The result of \<open>sqrt_approx\<close> is exact, or the midpoint of the cell that holds the root.\<close>

lemma sqrt_approx_cases:
  fixes k :: int
  assumes q: "0 \<le> q"
  defines "y \<equiv> q * 2 powi (2 * k)"
  defines "s \<equiv> isqrt (nat \<lfloor>y\<rfloor>)"
  obtains "of_nat s / 2 powi k = sqrt (real_of_rat q)" "sqrt_approx q k = of_nat s / 2 powi k"
  | "of_nat s / 2 powi k < sqrt (real_of_rat q)" "sqrt (real_of_rat q) < (of_nat s + 1) / 2 powi k"
    "sqrt_approx q k = (of_nat s + 1 / 2) / 2 powi k"
proof -
  have y0: "0 \<le> y" using q by (simp add: y_def)
  define n where "n = nat \<lfloor>y\<rfloor>"
  have fl: "of_nat n \<le> y" "y < of_nat n + 1"
    using floor_correct[of y] y0 by (simp_all add: n_def of_nat_nat)
  have iq: "s * s \<le> n" "n < (s + 1) * (s + 1)" using isqrt_correct[of n] by (auto simp: s_def n_def)
  have rt: "sqrt (real_of_rat y) = sqrt (real_of_rat q) * 2 powi k"
  proof -
    have "real_of_rat y = real_of_rat q * (2 powi k)\<^sup>2"
      by (simp only: y_def of_rat_mult of_rat_powi mult_2 two_powi_add power2_eq_square)
    then show ?thesis by (simp add: real_sqrt_mult less_imp_le)
  qed
  have ss: "of_nat (s * s) \<le> y" using iq(1) fl(1) by (meson of_nat_le_iff order_trans)
  have "of_nat (n + 1) \<le> (of_nat ((s + 1) * (s + 1)) :: rat)" using iq(2) by (simp only: of_nat_le_iff)
  then have su: "y < of_nat ((s + 1) * (s + 1))" using fl(2) by simp
  have hi: "sqrt (real_of_rat q) < (of_nat s + 1) / 2 powi k"
  proof -
    have "real_of_rat y < real_of_rat (of_nat ((s + 1) * (s + 1)))" using su by (simp only: of_rat_less)
    also have "\<dots> = (of_nat s + 1)\<^sup>2" by (simp add: power2_eq_square of_rat_mult of_rat_add algebra_simps)
    finally have "sqrt (real_of_rat y) < of_nat s + 1" using y0 by (intro real_less_lsqrt) auto
    then show ?thesis by (simp add: rt pos_less_divide_eq)
  qed
  show thesis
  proof (cases "of_nat (s * s) = y")
    case True
    have "real_of_rat y = (of_nat s)\<^sup>2" by (simp add: power2_eq_square of_rat_mult flip: True)
    then have "sqrt (real_of_rat q) * 2 powi k = of_nat s" by (simp flip: rt)
    then have "of_nat s / 2 powi k = sqrt (real_of_rat q)" by (simp add: field_simps)
    moreover have "sqrt_approx q k = of_nat s / 2 powi k"
      using True by (simp add: sqrt_approx_def Let_def flip: y_def s_def)
    ultimately show ?thesis by (rule that(1))
  next
    case False
    then have "of_nat (s * s) < y" using ss by simp
    then have "real_of_rat (of_nat (s * s)) < real_of_rat y" by (simp only: of_rat_less)
    then have "(of_nat s)\<^sup>2 < real_of_rat y" by (simp add: power2_eq_square of_rat_mult)
    then have "of_nat s < sqrt (real_of_rat y)" by (rule real_less_rsqrt)
    then have "of_nat s / 2 powi k < sqrt (real_of_rat q)" by (simp add: rt pos_divide_less_eq)
    moreover have "sqrt_approx q k = (of_nat s + 1 / 2) / 2 powi k"
      using False by (simp add: sqrt_approx_def Let_def flip: y_def s_def)
    ultimately show ?thesis using hi by (intro that(2))
  qed
qed

theorem fsqrt_correctly_rounded:
  assumes "0 < q"
  shows "fsqrt (Fin q) = rnd (sqrt (real_of_rat q))"
proof -
  define k where "k = 60 - expo q div 2"
  define s where "s = isqrt (nat \<lfloor>q * 2 powi (2 * k)\<rfloor>)"
  let ?r = "sqrt (real_of_rat q)"
  have r0: "0 < ?r" using assms by simp
  have "fsqrt (Fin q) = rnd (sqrt_approx q k)" using assms by (simp add: fsqrt_def k_def)
  also have "\<dots> = rnd (of_rat (sqrt_approx q k) :: real)" by (simp only: rnd_of_rat)
  also have "\<dots> = rnd ?r"
  proof (rule sqrt_approx_cases[of q k, folded s_def])
    show "0 \<le> q" using assms by simp
    assume "of_nat s / 2 powi k = ?r" "sqrt_approx q k = of_nat s / 2 powi k"
    then show ?thesis by (simp add: of_rat_divide of_rat_powi)
  next
    assume a: "of_nat s / 2 powi k < ?r" "?r < (of_nat s + 1) / 2 powi k"
      and app: "sqrt_approx q k = (of_nat s + 1 / 2) / 2 powi k"
    define y where "y = (of_nat s + 1 / 2 :: real) / 2 powi k"
    have ay: "(of_rat (sqrt_approx q k) :: real) = y"
      by (simp add: app y_def of_rat_divide of_rat_powi of_rat_add)
    have er: "expo ?r = expo q div 2" using assms by (rule expo_sqrt)
    have s0: "0 < s"
    proof (rule ccontr)
      assume "\<not> 0 < s"
      then have "?r < 1 / 2 powi k" using a(2) by simp
      also have "\<dots> = 2 powi (- k)" by (simp add: power_int_minus_divide)
      also have "\<dots> \<le> 2 powi expo ?r" by (simp only: two_powi_le_iff) (simp add: er k_def)
      also have "\<dots> \<le> ?r" using expo_bounds[of ?r] r0 by auto
      finally show False by simp
    qed
    have cell: "of_int (int s) / 2 powi k < z" "z < (of_int (int s) + 1) / 2 powi k"
      if "z = ?r" for z :: real using a that by simp_all
    have "expo ?r = expo y"
    proof (rule expo_cell[of "int s" k])
      have "y \<noteq> 0" using s0 by (simp add: y_def)
      then have "2 powi expo y \<le> \<bar>y\<bar> \<and> \<bar>y\<bar> < 2 powi (expo y + 1)" by (rule expo_bounds)
      moreover have "\<bar>y\<bar> = y" by (simp add: y_def)
      ultimately show "2 powi expo y \<le> (of_int (int s) + 1 / 2 :: real) / 2 powi k"
        "(of_int (int s) + 1 / 2 :: real) / 2 powi k < 2 powi (expo y + 1)" by (simp_all add: y_def)
      have "1 / 2 powi k \<le> y" using s0 by (simp add: y_def divide_right_mono less_imp_le)
      then have "2 powi (- k) \<le> y" by (simp add: power_int_minus_divide)
      then have "(2::real) powi (- k) < 2 powi (expo y + 1)"
        using \<open>2 powi expo y \<le> \<bar>y\<bar> \<and> \<bar>y\<bar> < 2 powi (expo y + 1)\<close> \<open>\<bar>y\<bar> = y\<close> by simp
      then have "- k < expo y + 1" by (simp only: two_powi_less_iff)
      then show "- k \<le> expo y" by simp
    qed (use cell in auto)
    then have ke: "53 - expo y \<le> k" by (simp add: er k_def)
    have "rq ?r = rq y"
      by (rule rq_cell[of "int s" k]) (use cell[OF refl] s0 ke in \<open>auto simp: y_def\<close>)
    moreover have "0 < y" using s0 by (simp add: y_def)
    ultimately show ?thesis unfolding ay using r0 by (intro rnd_cong) auto
  qed
  finally show ?thesis .
qed


lemma fsqrt_NaN [simp]: "fsqrt NaN = NaN"
  by (simp add: fsqrt_def)

lemma fle_zero_rnd: "0 \<le> (x::'a::floor_ceiling) \<Longrightarrow> fle fzero (rnd x)"
  using rq_nonneg[of x] by (auto simp: rnd_def Let_def zero_of_def)

text \<open>The square root of a non-negative value is non-negative; it is zero only at zero.\<close>

lemma fsqrt_nonneg: "fle fzero x \<Longrightarrow> fle fzero (fsqrt x)"
proof (cases x)
  case (Fin q)
  assume "fle fzero x"
  with Fin have q: "0 \<le> q" by simp
  show ?thesis
  proof (cases "q = 0")
    case True
    then show ?thesis by (simp add: Fin fsqrt_def)
  next
    case False
    with q show ?thesis by (simp add: Fin fsqrt_correctly_rounded fle_zero_rnd)
  qed
qed (auto simp: fsqrt_def)

lemma fsqrt_not_NaN: "fle fzero x \<Longrightarrow> fsqrt x \<noteq> NaN"
  using fsqrt_nonneg[of x] by auto

section \<open>The transcendental functions\<close>

record libm =
  m_exp :: "f64 \<Rightarrow> f64"
  m_log :: "f64 \<Rightarrow> f64"
  m_log1p :: "f64 \<Rightarrow> f64"
  m_tanh :: "f64 \<Rightarrow> f64"
  m_pow :: "f64 \<Rightarrow> f64 \<Rightarrow> f64"

text \<open>
  The documented special cases of \<open>math.Exp\<close>, \<open>math.Log\<close>, \<open>math.Log1p\<close>, \<open>math.Tanh\<close> and
  \<open>math.Pow\<close>, and the ranges of the functions they compute.
\<close>

locale go_libm =
  fixes M :: libm
  assumes exp_NaN [simp]: "m_exp M NaN = NaN"
    and exp_PInf [simp]: "m_exp M (Inf False) = Inf False"
    and exp_nonneg: "x \<noteq> NaN \<Longrightarrow> fle fzero (m_exp M x)"
    and tanh_NaN [simp]: "m_tanh M NaN = NaN"
    and tanh_Inf [simp]: "m_tanh M (Inf s) = (if s then fneg fone else fone)"
    and tanh_zero [simp]: "m_tanh M (zero_of s) = zero_of s"
    and tanh_range: "x \<noteq> NaN \<Longrightarrow> fin_in (- 1) 1 (m_tanh M x)"
    and tanh_sign: "fle fzero x \<Longrightarrow> fle fzero (m_tanh M x)"
    and log_NaN [simp]: "m_log M NaN = NaN"
    and log_PInf [simp]: "m_log M (Inf False) = Inf False"
    and log_neg: "flt x fzero \<Longrightarrow> m_log M x = NaN"
    and log_pos: "flt fzero x \<Longrightarrow> m_log M x \<noteq> NaN"
    and log1p_NaN [simp]: "m_log1p M NaN = NaN"
    and log1p_nonneg: "fle fzero x \<Longrightarrow> fle fzero (m_log1p M x)"
    and pow_zero [simp]: "m_pow M x (zero_of s) = fone"
    and pow_one [simp]: "m_pow M fone y = fone"
    and pow_nonneg: "fle fzero x \<Longrightarrow> y \<noteq> NaN \<Longrightarrow> fle fzero (m_pow M x y)"
begin

lemma tanh_not_NaN: "x \<noteq> NaN \<Longrightarrow> m_tanh M x \<noteq> NaN"
  using tanh_range fin_in_not_NaN by blast

lemma tanh_unit: "fle fzero x \<Longrightarrow> fin_in 0 1 (m_tanh M x)"
  using tanh_range[of x] tanh_sign[of x] by (cases "m_tanh M x"; cases x) (auto simp: fin_in_def)

end

subsection \<open>The correctly rounded functions satisfy the contract\<close>

definition rf :: "(real \<Rightarrow> real) \<Rightarrow> f64 \<Rightarrow> f64" where
  "rf g x = rnd (g (real_of_rat (qv x)))"

definition ideal_exp :: "f64 \<Rightarrow> f64" where
  "ideal_exp x = (case x of NaN \<Rightarrow> NaN | Inf s \<Rightarrow> if s then fzero else Inf False | _ \<Rightarrow> rf exp x)"

definition ideal_log :: "f64 \<Rightarrow> f64" where
  "ideal_log x = (case x of NaN \<Rightarrow> NaN | Inf s \<Rightarrow> if s then NaN else Inf False
     | _ \<Rightarrow> if qv x < 0 then NaN else if qv x = 0 then Inf True else rf ln x)"

definition ideal_log1p :: "f64 \<Rightarrow> f64" where
  "ideal_log1p x = (case x of NaN \<Rightarrow> NaN | Inf s \<Rightarrow> if s then NaN else Inf False
     | _ \<Rightarrow> if qv x < - 1 then NaN else if qv x = - 1 then Inf True
            else if qv x = 0 then x else rf (\<lambda>r. ln (1 + r)) x)"

definition ideal_tanh :: "f64 \<Rightarrow> f64" where
  "ideal_tanh x = (case x of NaN \<Rightarrow> NaN | Inf s \<Rightarrow> if s then fneg fone else fone
     | _ \<Rightarrow> if qv x = 0 then x else rf tanh x)"

text \<open>\<open>math.Pow\<close> on non-negative bases, the ones the program raises to a power.\<close>

definition ideal_pow :: "f64 \<Rightarrow> f64 \<Rightarrow> f64" where
  "ideal_pow x y =
     (if feq y fzero \<or> feq x fone then fone
      else if x = NaN \<or> y = NaN \<or> flt x fzero then NaN
      else case x of Inf s \<Rightarrow> if flt y fzero then fzero else Inf False
        | _ \<Rightarrow> if qv x = 0 then (if flt y fzero then Inf False else fzero)
               else case y of Inf s \<Rightarrow> if (qv x < 1) = s then Inf False else fzero
                 | _ \<Rightarrow> rnd (real_of_rat (qv x) powr real_of_rat (qv y)))"

definition ideal_libm :: libm where
  "ideal_libm = \<lparr>m_exp = ideal_exp, m_log = ideal_log, m_log1p = ideal_log1p,
     m_tanh = ideal_tanh, m_pow = ideal_pow\<rparr>"

lemma rnd_unit_range: "- 1 \<le> (r::real) \<Longrightarrow> r \<le> 1 \<Longrightarrow> fin_in (- 1) 1 (rnd r)"
  using rnd_in_range[of r] rq_mono[of "- 1" r] rq_mono[of r 1]
  by (simp add: fin_in_def rq_minus abs_le_iff)

lemma tanh_bounds: "- 1 \<le> tanh (r::real) \<and> tanh r \<le> 1"
  using tanh_real_gt_neg1[of r] tanh_real_lt_1[of r] by simp

interpretation ideal: go_libm ideal_libm
proof
  fix x y :: f64 and s :: bool
  show "x \<noteq> NaN \<Longrightarrow> fle fzero (m_exp ideal_libm x)"
    by (cases x) (auto simp: ideal_libm_def ideal_exp_def rf_def fle_zero_rnd)
  show "x \<noteq> NaN \<Longrightarrow> fin_in (- 1) 1 (m_tanh ideal_libm x)"
    by (cases x) (auto simp: ideal_libm_def ideal_tanh_def rf_def fneg_def fin_in_def
        rnd_unit_range[unfolded fin_in_def] tanh_bounds)
  show "fle fzero x \<Longrightarrow> fle fzero (m_tanh ideal_libm x)"
    by (cases x) (auto simp: ideal_libm_def ideal_tanh_def rf_def fle_zero_rnd fneg_def)
  show "flt x fzero \<Longrightarrow> m_log ideal_libm x = NaN"
    by (cases x) (auto simp: ideal_libm_def ideal_log_def)
  show "flt fzero x \<Longrightarrow> m_log ideal_libm x \<noteq> NaN"
    by (cases x) (auto simp: ideal_libm_def ideal_log_def rf_def)
  show "fle fzero x \<Longrightarrow> fle fzero (m_log1p ideal_libm x)"
    by (cases x) (auto simp: ideal_libm_def ideal_log1p_def rf_def fle_zero_rnd)
  show "m_pow ideal_libm fone y = fone"
    by (simp add: ideal_libm_def ideal_pow_def)
  show "fle fzero x \<Longrightarrow> y \<noteq> NaN \<Longrightarrow> fle fzero (m_pow ideal_libm x y)"
    by (cases x; cases y) (auto simp: ideal_libm_def ideal_pow_def fle_zero_rnd)
qed (auto simp: ideal_libm_def ideal_exp_def ideal_tanh_def ideal_log_def ideal_log1p_def
  ideal_pow_def zero_of_def)

end
