(* ===== verification/Prelude.thy ===== *)
theory Prelude
  imports Float64
begin

text \<open>
  Shared vocabulary of the development: the error values of the Go program, the
  state-and-error computations in which the services are written (a Go method that talks to
  its injected interfaces), the loops over slices that stop at the first error, Go maps, and
  the generic lemmas the component theories rely on.
\<close>

named_theorems io_simps \<open>evaluation rules for state-and-error computations\<close>
named_theorems go_defs \<open>small definitions unfolded by default in component proofs\<close>

section \<open>Values of type any\<close>

text \<open>The dynamically typed values the program puts into event payloads, metadata and messages.\<close>

datatype anyval =
    AStr string
  | ABool bool
  | AInt int
  | AFloat f64
  | AList "anyval list"

section \<open>Errors\<close>

text \<open>
  A Go \<open>error\<close> is one of the sentinel values of \<open>internal/domain/errors.go\<close>, the driver's
  \<open>pgx.ErrNoRows\<close>, a fresh error (a message and its formatted arguments), or an error that wraps another one with
  \<open>fmt.Errorf("...: %w", err)\<close>.  \<open>errors.Is\<close> walks the chain of wrapped errors.
\<close>

datatype err =
    ErrNotFound
  | ErrInsufficientCoverage
  | ErrInvariantViolation
  | ErrNoRows
  | Fresh string "anyval list"
  | Wrap string "anyval list" err

fun errors_Is :: "err \<Rightarrow> err \<Rightarrow> bool" where
  "errors_Is (Wrap s vs e) t = (Wrap s vs e = t \<or> errors_Is e t)"
| "errors_Is e t = (e = t)"

lemma errors_Is_refl [simp]: "errors_Is e e"
  by (cases e) simp_all

section \<open>State-and-error computations\<close>

text \<open>
  A method call takes the world (database, clock, remote providers, log) and returns its
  result or its error together with the new world.  Errors do not roll the world back: what
  was saved before a failing call stays saved, as in the code.
\<close>

type_synonym ('w, 'a) io = "'w \<Rightarrow> (err + 'a) \<times> 'w"

definition ret :: "'a \<Rightarrow> ('w, 'a) io" where
  "ret x w = (Inr x, w)"

definition throw :: "err \<Rightarrow> ('w, 'a) io" where
  "throw e w = (Inl e, w)"

definition bindE :: "('w, 'a) io \<Rightarrow> ('a \<Rightarrow> ('w, 'b) io) \<Rightarrow> ('w, 'b) io" where
  "bindE m f w = (case m w of (Inl e, w') \<Rightarrow> (Inl e, w') | (Inr x, w') \<Rightarrow> f x w')"

definition seqE :: "('w, unit) io \<Rightarrow> ('w, 'b) io \<Rightarrow> ('w, 'b) io" where
  "seqE m k = bindE m (\<lambda>_. k)"

text \<open>\<open>wrapE s vs m\<close>: \<open>if err != nil { return fmt.Errorf("s: %w", vs..., err) }\<close>.\<close>

definition wrapE :: "string \<Rightarrow> anyval list \<Rightarrow> ('w, 'a) io \<Rightarrow> ('w, 'a) io" where
  "wrapE s vs m w = (case m w of (Inl e, w') \<Rightarrow> (Inl (Wrap s vs e), w') | (Inr x, w') \<Rightarrow> (Inr x, w'))"

text \<open>\<open>attempt m\<close>: the call's error as an ordinary value, for code that inspects it.\<close>

definition attempt :: "('w, 'a) io \<Rightarrow> ('w, err + 'a) io" where
  "attempt m w = (case m w of (r, w') \<Rightarrow> (Inr r, w'))"

text \<open>\<open>forE f xs\<close>: a loop over a slice whose body returns at the first error.\<close>

fun forE :: "('a \<Rightarrow> ('w, unit) io) \<Rightarrow> 'a list \<Rightarrow> ('w, unit) io" where
  "forE f [] = ret ()"
| "forE f (x # xs) = seqE (f x) (forE f xs)"

text \<open>\<open>foldE f s xs\<close>: the same with loop variables.\<close>

fun foldE :: "('s \<Rightarrow> 'a \<Rightarrow> ('w, 's) io) \<Rightarrow> 's \<Rightarrow> 'a list \<Rightarrow> ('w, 's) io" where
  "foldE f s [] = ret s"
| "foldE f s (x # xs) = bindE (f s x) (\<lambda>s'. foldE f s' xs)"

lemma ret_run [io_simps, simp]: "ret x w = (Inr x, w)"
  by (simp add: ret_def)

lemma throw_run [io_simps, simp]: "throw e w = (Inl e, w)"
  by (simp add: throw_def)

lemma bindE_Inl [io_simps]: "m w = (Inl e, w') \<Longrightarrow> bindE m f w = (Inl e, w')"
  by (simp add: bindE_def)

lemma bindE_Inr [io_simps]: "m w = (Inr x, w') \<Longrightarrow> bindE m f w = f x w'"
  by (simp add: bindE_def)

lemma bindE_ret [simp]: "bindE (ret x) f = f x"
  by (rule ext) (simp add: bindE_def)

lemma bindE_throw [simp]: "bindE (throw e) f = throw e"
  by (rule ext) (simp add: bindE_def)

lemma bindE_Pair [simp]:
  "bindE (Pair (Inr x)) f = f x"
  "bindE (Pair (Inl e)) f = Pair (Inl e)"
  by (rule ext, simp add: bindE_def)+

lemma bindE_assoc: "bindE (bindE m f) g = bindE m (\<lambda>x. bindE (f x) g)"
  by (rule ext) (auto simp: bindE_def split: prod.splits sum.splits)

lemma seqE_Inl [io_simps]: "m w = (Inl e, w') \<Longrightarrow> seqE m k w = (Inl e, w')"
  by (simp add: seqE_def bindE_def)

lemma seqE_Inr [io_simps]: "m w = (Inr x, w') \<Longrightarrow> seqE m k w = k w'"
  by (simp add: seqE_def bindE_def)

lemma wrapE_Inl [io_simps]: "m w = (Inl e, w') \<Longrightarrow> wrapE s vs m w = (Inl (Wrap s vs e), w')"
  by (simp add: wrapE_def)

lemma wrapE_Inr [io_simps]: "m w = (Inr x, w') \<Longrightarrow> wrapE s vs m w = (Inr x, w')"
  by (simp add: wrapE_def)

lemma attempt_run [io_simps]: "m w = (r, w') \<Longrightarrow> attempt m w = (Inr r, w')"
  by (simp add: attempt_def)

lemma bindE_eq_Inr: "bindE m f w = (Inr y, w'') \<longleftrightarrow> (\<exists>x w'. m w = (Inr x, w') \<and> f x w' = (Inr y, w''))"
  by (auto simp: bindE_def split: prod.splits sum.splits)

lemma seqE_eq_Inr: "seqE m k w = (Inr y, w'') \<longleftrightarrow> (\<exists>w'. m w = (Inr (), w') \<and> k w' = (Inr y, w''))"
  by (auto simp: seqE_def bindE_eq_Inr)

lemma wrapE_eq_Inr: "wrapE s vs m w = (Inr y, w') \<longleftrightarrow> m w = (Inr y, w')"
  by (auto simp: wrapE_def split: prod.splits sum.splits)

lemmas io_Inr_iff = bindE_eq_Inr seqE_eq_Inr wrapE_eq_Inr

lemma snd_wrapE [simp]: "snd (wrapE s vs m w) = snd (m w)"
  by (auto simp: wrapE_def split: prod.splits sum.splits)

text \<open>What every call of a loop body keeps, the loop keeps, whether it fails or not.\<close>

lemma bindE_keeps:
  assumes "\<And>w. P w \<Longrightarrow> P (snd (m w))" and "\<And>x w. P w \<Longrightarrow> P (snd (f x w))"
  shows "P w \<Longrightarrow> P (snd (bindE m f w))"
  using assms(1)[of w] assms(2) by (auto simp: bindE_def split: prod.splits sum.splits)

lemma seqE_keeps:
  assumes "\<And>w. P w \<Longrightarrow> P (snd (m w))" and "\<And>w. P w \<Longrightarrow> P (snd (k w))"
  shows "P w \<Longrightarrow> P (snd (seqE m k w))"
  unfolding seqE_def by (rule bindE_keeps[where P = P]) (simp_all add: assms)

lemma forE_keeps:
  assumes "\<And>x w. x \<in> set xs \<Longrightarrow> P w \<Longrightarrow> P (snd (f x w))"
  shows "P w \<Longrightarrow> P (snd (forE f xs w))"
  using assms
proof (induction xs arbitrary: w)
  case Nil
  then show ?case by simp
next
  case (Cons x xs)
  show ?case unfolding forE.simps
    by (rule seqE_keeps[where P = P]) (use Cons in auto)
qed

lemma forE_append: "forE f (xs @ ys) = seqE (forE f xs) (forE f ys)"
proof (induction xs)
  case Nil
  show ?case by (simp add: seqE_def)
next
  case (Cons x xs)
  then show ?case by (simp add: seqE_def bindE_assoc)
qed

section \<open>Relations every step of a computation obeys\<close>

text \<open>
  \<open>obeys R m\<close>: whatever the outcome, the call takes the world to an \<open>R\<close>-related one.  For a
  reflexive and transitive \<open>R\<close> the combinators keep it, so it is proved for the database
  operations and holds of every service method built from them.
\<close>

definition obeys :: "('w \<Rightarrow> 'w \<Rightarrow> bool) \<Rightarrow> ('w, 'a) io \<Rightarrow> bool" where
  "obeys R m \<longleftrightarrow> (\<forall>w. R w (snd (m w)))"

lemma obeysI: "(\<And>w. R w (snd (m w))) \<Longrightarrow> obeys R m"
  by (simp add: obeys_def)

lemma obeysD: "obeys R m \<Longrightarrow> m w = (r, w') \<Longrightarrow> R w w'"
  by (metis obeys_def snd_conv)

locale io_rel =
  fixes R :: "'w \<Rightarrow> 'w \<Rightarrow> bool"
  assumes refl: "R w w" and trans: "R w w' \<Longrightarrow> R w' w'' \<Longrightarrow> R w w''"
begin

lemma obeys_ret: "obeys R (ret x)" and obeys_throw: "obeys R (throw e)"
  by (simp_all add: obeys_def refl)

lemma obeys_pure: "obeys R (\<lambda>w. (f w, w))"
  by (simp add: obeys_def refl)

lemma obeys_bindE: "obeys R m \<Longrightarrow> (\<And>x. obeys R (f x)) \<Longrightarrow> obeys R (bindE m f)"
  unfolding obeys_def bindE_def by (auto split: prod.splits sum.splits intro: trans) (metis snd_conv trans)+

lemma obeys_seqE: "obeys R m \<Longrightarrow> obeys R k \<Longrightarrow> obeys R (seqE m k)"
  unfolding seqE_def by (rule obeys_bindE)

lemma obeys_wrapE: "obeys R m \<Longrightarrow> obeys R (wrapE s vs m)"
  by (simp add: obeys_def)

lemma obeys_attempt: "obeys R m \<Longrightarrow> obeys R (attempt m)"
  unfolding obeys_def attempt_def by (auto split: prod.splits) (metis snd_conv)

lemma obeys_forE: "(\<And>x. x \<in> set xs \<Longrightarrow> obeys R (f x)) \<Longrightarrow> obeys R (forE f xs)"
  by (induction xs) (auto intro: obeys_ret obeys_seqE)

lemma obeys_foldE: "(\<And>s x. x \<in> set xs \<Longrightarrow> obeys R (f s x)) \<Longrightarrow> obeys R (foldE f s xs)"
  by (induction xs arbitrary: s) (auto intro: obeys_ret obeys_bindE)

text \<open>A call whose error the code inspects.\<close>

lemma obeys_case: "obeys R m \<Longrightarrow> (\<And>e. obeys R (g e)) \<Longrightarrow> (\<And>x. obeys R (h x)) \<Longrightarrow>
    obeys R (\<lambda>w. case m w of (Inl e, w') \<Rightarrow> g e w' | (Inr x, w') \<Rightarrow> h x w')"
  unfolding obeys_def by (auto split: prod.splits sum.splits) (metis snd_conv trans)+

lemma obeys_if: "(b \<Longrightarrow> obeys R m) \<Longrightarrow> (\<not> b \<Longrightarrow> obeys R k) \<Longrightarrow> obeys R (if b then m else k)"
  by simp

lemma obeys_sum: "(\<And>e. obeys R (f e)) \<Longrightarrow> (\<And>x. obeys R (g x)) \<Longrightarrow> obeys R (case r of Inl e \<Rightarrow> f e | Inr x \<Rightarrow> g x)"
  by (cases r) simp_all

lemma obeys_option: "obeys R f \<Longrightarrow> (\<And>x. r = Some x \<Longrightarrow> obeys R (g x)) \<Longrightarrow> obeys R (case r of None \<Rightarrow> f | Some x \<Rightarrow> g x)"
  by (cases r) simp_all

lemma obeys_pair: "(\<And>x y. obeys R (f x y)) \<Longrightarrow> obeys R (case r of (x, y) \<Rightarrow> f x y)"
  by (cases r) simp_all

lemmas obeys_rules = obeys_ret obeys_throw obeys_pure obeys_bindE obeys_seqE obeys_wrapE obeys_attempt
  obeys_forE obeys_foldE obeys_case obeys_if obeys_sum obeys_option obeys_pair

end

section \<open>Invariants and results\<close>

text \<open>
  \<open>valid_io I m Q\<close>: the call keeps the invariant \<open>I\<close> of the world, whether it fails or not, and
  when it succeeds its result satisfies \<open>Q\<close>.
\<close>

definition valid_io :: "('w \<Rightarrow> bool) \<Rightarrow> ('w, 'a) io \<Rightarrow> ('a \<Rightarrow> bool) \<Rightarrow> bool" where
  "valid_io I m Q \<longleftrightarrow> (\<forall>w. I w \<longrightarrow> I (snd (m w)) \<and> (\<forall>x. fst (m w) = Inr x \<longrightarrow> Q x))"

lemma valid_ioI: "(\<And>w. I w \<Longrightarrow> I (snd (m w))) \<Longrightarrow> (\<And>w x w'. I w \<Longrightarrow> m w = (Inr x, w') \<Longrightarrow> Q x) \<Longrightarrow> valid_io I m Q"
  unfolding valid_io_def by (metis prod.collapse)

lemma valid_io_keeps: "valid_io I m Q \<Longrightarrow> I w \<Longrightarrow> I (snd (m w))"
  by (simp add: valid_io_def)

lemma valid_io_result: "valid_io I m Q \<Longrightarrow> I w \<Longrightarrow> m w = (Inr x, w') \<Longrightarrow> Q x"
  by (auto simp: valid_io_def dest!: spec[of _ w])

lemma valid_io_weaken: "valid_io I m Q \<Longrightarrow> (\<And>x. Q x \<Longrightarrow> R x) \<Longrightarrow> valid_io I m R"
  by (auto simp: valid_io_def)

lemma valid_ret: "Q x \<Longrightarrow> valid_io I (ret x) Q" and valid_throw: "valid_io I (throw e) Q"
  by (simp_all add: valid_io_def)

lemma valid_bindE: "valid_io I m Q \<Longrightarrow> (\<And>x. Q x \<Longrightarrow> valid_io I (f x) R) \<Longrightarrow> valid_io I (bindE m f) R"
  unfolding valid_io_def bindE_def by (auto split: prod.splits sum.splits)

lemma valid_seqE: "valid_io I m Q \<Longrightarrow> valid_io I k R \<Longrightarrow> valid_io I (seqE m k) R"
  unfolding seqE_def by (rule valid_bindE)

lemma valid_wrapE: "valid_io I m Q \<Longrightarrow> valid_io I (wrapE s vs m) Q"
  unfolding valid_io_def wrapE_def by (auto split: prod.splits sum.splits)

lemma valid_attempt: "valid_io I m Q \<Longrightarrow> valid_io I (attempt m) (\<lambda>r. \<forall>x. r = Inr x \<longrightarrow> Q x)"
  unfolding valid_io_def attempt_def by (auto split: prod.splits)

lemma valid_forE: "(\<And>x. x \<in> set xs \<Longrightarrow> valid_io I (f x) (\<lambda>_. True)) \<Longrightarrow> valid_io I (forE f xs) (\<lambda>_. True)"
  by (induction xs) (auto intro: valid_ret valid_seqE)

lemma valid_foldE:
  "Q s \<Longrightarrow> (\<And>s x. x \<in> set xs \<Longrightarrow> Q s \<Longrightarrow> valid_io I (f s x) Q) \<Longrightarrow> valid_io I (foldE f s xs) Q"
  by (induction xs arbitrary: s) (auto intro: valid_ret valid_bindE)

section \<open>Calls that must succeed\<close>

text \<open>
  \<open>total_io I m Q\<close>: on every world with the invariant \<open>I\<close> the call succeeds, keeps \<open>I\<close> and its
  result satisfies \<open>Q\<close>; \<open>finds I m\<close>: it keeps \<open>I\<close> and the only error it may return is \<open>ErrNotFound\<close>.
\<close>

definition total_io :: "('w \<Rightarrow> bool) \<Rightarrow> ('w, 'a) io \<Rightarrow> ('a \<Rightarrow> bool) \<Rightarrow> bool" where
  "total_io I m Q \<longleftrightarrow> (\<forall>w. I w \<longrightarrow> (\<exists>x w'. m w = (Inr x, w') \<and> I w' \<and> Q x))"

definition finds :: "('w \<Rightarrow> bool) \<Rightarrow> ('w, 'a) io \<Rightarrow> bool" where
  "finds I m \<longleftrightarrow> (\<forall>w. I w \<longrightarrow> I (snd (m w)) \<and> (\<forall>e. fst (m w) = Inl e \<longrightarrow> errors_Is e ErrNotFound))"

lemma total_ioD: "total_io I m Q \<Longrightarrow> I w \<Longrightarrow> \<exists>x w'. m w = (Inr x, w') \<and> I w' \<and> Q x"
  by (simp add: total_io_def)

lemma total_weaken: "total_io I m Q \<Longrightarrow> (\<And>x. Q x \<Longrightarrow> R x) \<Longrightarrow> total_io I m R"
  unfolding total_io_def by blast

lemma total_ret: "Q x \<Longrightarrow> total_io I (ret x) Q"
  by (simp add: total_io_def)

lemma total_bindE: "total_io I m Q \<Longrightarrow> (\<And>x. Q x \<Longrightarrow> total_io I (f x) R) \<Longrightarrow> total_io I (bindE m f) R"
  unfolding total_io_def bindE_def by fastforce

lemma total_seqE: "total_io I m Q \<Longrightarrow> total_io I k R \<Longrightarrow> total_io I (seqE m k) R"
  unfolding seqE_def by (rule total_bindE)

lemma total_wrapE: "total_io I m Q \<Longrightarrow> total_io I (wrapE s vs m) Q"
  unfolding total_io_def wrapE_def by fastforce

lemma total_attempt: "(\<And>w. I w \<Longrightarrow> I (snd (m w))) \<Longrightarrow> total_io I (attempt m) (\<lambda>_. True)"
  unfolding total_io_def attempt_def by (simp add: split_beta)

lemma total_attempt_finds: "finds I m \<Longrightarrow> total_io I (attempt m) (\<lambda>r. \<forall>e. r = Inl e \<longrightarrow> errors_Is e ErrNotFound)"
  unfolding total_io_def attempt_def finds_def by (auto simp: split_beta)

lemma total_forE: "(\<And>x. x \<in> set xs \<Longrightarrow> total_io I (f x) (\<lambda>_. True)) \<Longrightarrow> total_io I (forE f xs) (\<lambda>_. True)"
  by (induction xs) (auto intro: total_ret total_seqE)

lemma total_foldE:
  "Q s \<Longrightarrow> (\<And>s x. x \<in> set xs \<Longrightarrow> Q s \<Longrightarrow> total_io I (f s x) Q) \<Longrightarrow> total_io I (foldE f s xs) Q"
  by (induction xs arbitrary: s) (auto intro: total_ret total_bindE)

lemma total_if: "(b \<Longrightarrow> total_io I m Q) \<Longrightarrow> (\<not> b \<Longrightarrow> total_io I k Q) \<Longrightarrow> total_io I (if b then m else k) Q"
  by simp

lemma total_option: "(r = None \<Longrightarrow> total_io I f Q) \<Longrightarrow> (\<And>x. r = Some x \<Longrightarrow> total_io I (g x) Q) \<Longrightarrow>
    total_io I (case r of None \<Rightarrow> f | Some x \<Rightarrow> g x) Q"
  by (cases r) simp_all

lemma total_sum: "(\<And>e. r = Inl e \<Longrightarrow> total_io I (f e) Q) \<Longrightarrow> (\<And>x. r = Inr x \<Longrightarrow> total_io I (g x) Q) \<Longrightarrow>
    total_io I (case r of Inl e \<Rightarrow> f e | Inr x \<Rightarrow> g x) Q"
  by (cases r) simp_all

lemma total_pair: "(\<And>x y. r = (x, y) \<Longrightarrow> total_io I (f x y) Q) \<Longrightarrow> total_io I (case r of (x, y) \<Rightarrow> f x y) Q"
  by (cases r) simp_all

section \<open>Go maps\<close>

text \<open>
  A Go map is a finite partial function; reading a missing key gives the zero value of the
  element type.  A \<open>range\<close> over a map visits every key once in an order the language leaves
  open, so each such loop takes the order as an argument and the facts about it hold for
  every enumeration of the keys.
\<close>

definition mget :: "'v \<Rightarrow> ('k \<rightharpoonup> 'v) \<Rightarrow> 'k \<Rightarrow> 'v" where
  "mget z m k = (case m k of None \<Rightarrow> z | Some v \<Rightarrow> v)"

definition enumerates :: "'k list \<Rightarrow> ('k \<rightharpoonup> 'v) \<Rightarrow> bool" where
  "enumerates ks m \<longleftrightarrow> distinct ks \<and> set ks = dom m"

lemma mget_simps [simp]:
  "m k = Some v \<Longrightarrow> mget z m k = v"
  "m k = None \<Longrightarrow> mget z m k = z"
  by (simp_all add: mget_def)

lemma mget_empty [simp]: "mget z Map.empty k = z"
  by (simp add: mget_def)

lemma enumerates_length: "enumerates ks m \<Longrightarrow> length ks = card (dom m)"
  by (metis distinct_card enumerates_def)

lemma enumerates_iff: "enumerates ks m \<Longrightarrow> k \<in> set ks \<longleftrightarrow> (\<exists>v. m k = Some v)"
  by (auto simp: enumerates_def)

section \<open>Lists\<close>

lemma filter_map_of_cong: "(\<And>x. x \<in> set xs \<Longrightarrow> P x = Q x) \<Longrightarrow> filter P xs = filter Q xs"
  by (rule filter_cong) simp_all

lemma foldl_inv:
  assumes "P a" and "\<And>s x. P s \<Longrightarrow> x \<in> set xs \<Longrightarrow> P (f s x)"
  shows "P (foldl f a xs)"
  using assms by (induction xs arbitrary: a) auto

lemma concat_length_le: "(\<And>x. x \<in> set xs \<Longrightarrow> length (f x) \<le> 1) \<Longrightarrow> length (concat (map f xs)) \<le> length xs"
  by (induction xs) fastforce+

lemma map_filter_bounds: "length (List.map_filter f js) \<le> length js" "set (List.map_filter f js) = {v. \<exists>j\<in>set js. f j = Some v}"
  by (induction js) (auto split: option.splits)

lemma map_filter_cong: "(\<And>x. x \<in> set xs \<Longrightarrow> f x = g x) \<Longrightarrow> List.map_filter f xs = List.map_filter g xs"
  by (induction xs) (auto split: option.splits)

lemma ran_map_of_sub: "v \<in> ran (map_of xs) \<Longrightarrow> v \<in> snd ` set xs"
  by (auto simp: ran_def dest!: map_of_SomeD intro: rev_image_eqI)

lemma ran_map_of_all: "\<forall>(k, v)\<in>set xs. P v \<Longrightarrow> \<forall>v\<in>ran (map_of xs). P v"
  using ran_map_of_sub[of _ xs] by fastforce

section \<open>More rules for calls that succeed\<close>

lemma ret_seqE: "seqE (ret ()) m = m"
  by (rule ext) (simp add: seqE_def bindE_def)

lemma seqE_ret: "seqE m (ret ()) = m"
  by (rule ext) (auto simp: seqE_def bindE_def split: prod.splits sum.splits)

lemma total_skip: "total_io I (ret x) (\<lambda>_. True)"
  by (rule total_ret) (rule TrueI)

lemma total_bind1: "total_io I m (\<lambda>_. True) \<Longrightarrow> (\<And>x. total_io I (f x) R) \<Longrightarrow> total_io I (bindE m f) R"
  by (rule total_bindE)

lemmas total_seq1 = total_seqE[where Q = "\<lambda>_. True"]

lemma total_attempt1: "total_io I m (\<lambda>_. True) \<Longrightarrow> total_io I (attempt m) (\<lambda>_. True)"
  unfolding total_io_def attempt_def by fastforce

lemma total_tick: "total_io I m Q \<Longrightarrow> I w \<Longrightarrow> I (snd (m w))"
  by (drule total_ioD, assumption) auto

end
