(* ===== verification/GoLib.thy ===== *)
theory GoLib
  imports GoMath Prelude "HOL-Library.Multiset"
begin

text \<open>
  The rest of the Go library the program's logic depends on: instants and UTC calendar days
  (\<open>time.Time\<close>, \<open>AddDate\<close>, \<open>Sub\<close>, the layout \<open>2006-01-02\<close> for formatting and parsing), sorting
  with a comparison function, and the conversion of floats to integers.
\<close>

section \<open>Instants and days\<close>

text \<open>An instant is the number of nanoseconds since 1970-01-01T00:00:00Z.\<close>

type_synonym gotime = int

definition day_ns :: int where "day_ns = 86400000000000"
definition hour_ns :: int where "hour_ns = 3600000000000"
definition minute_ns :: int where "minute_ns = 60000000000"

text \<open>The zero value of \<open>time.Time\<close> is 0001-01-01T00:00:00Z; \<open>IsZero\<close> tests for it.\<close>

definition zero_time :: gotime where "zero_time = - 719162 * day_ns"

definition day_of :: "gotime \<Rightarrow> int" where
  "day_of t = t div day_ns"

definition add_days :: "gotime \<Rightarrow> int \<Rightarrow> gotime" where
  "add_days t n = t + n * day_ns"

text \<open>\<open>t.Unix()\<close>.\<close>

definition unix_second :: "gotime \<Rightarrow> int" where
  "unix_second t = t div 1000000000"

text \<open>\<open>t.Sub(u)\<close> saturates at the ends of the 64-bit duration range.\<close>

definition time_sub :: "gotime \<Rightarrow> gotime \<Rightarrow> int" where
  "time_sub t u = max (- (2 ^ 63)) (min (2 ^ 63 - 1) (t - u))"

text \<open>\<open>Duration.Hours\<close>.\<close>

definition quot_go :: "int \<Rightarrow> int \<Rightarrow> int" where
  "quot_go a b = sgn a * sgn b * (\<bar>a\<bar> div \<bar>b\<bar>)"

definition rem_go :: "int \<Rightarrow> int \<Rightarrow> int" where
  "rem_go a b = a - b * quot_go a b"

definition dur_hours :: "int \<Rightarrow> f64" where
  "dur_hours d = fadd (f_of_int (quot_go d hour_ns)) (fdiv (f_of_int (rem_go d hour_ns)) (f_of_int hour_ns))"

lemma day_of_add_days [simp]: "day_of (add_days t n) = day_of t + n"
  by (simp add: day_of_def add_days_def day_ns_def)

lemma add_days_add [simp]: "add_days (add_days t m) n = add_days t (m + n)"
  by (simp add: add_days_def algebra_simps)

lemma add_days_0 [simp]: "add_days t 0 = t"
  by (simp add: add_days_def)

lemma add_days_le_iff: "add_days t m \<le> add_days t n \<longleftrightarrow> m \<le> n"
  by (simp add: add_days_def day_ns_def)

text \<open>The days of a \<open>for d := from; !d.After(to); d = d.AddDate(0, 0, 1)\<close> loop.\<close>

function day_range :: "gotime \<Rightarrow> gotime \<Rightarrow> gotime list" where
  "day_range d to = (if to < d then [] else d # day_range (add_days d 1) to)"
  by pat_completeness auto
termination
  by (relation "measure (\<lambda>(d, to). nat (to - d + 1))") (auto simp: add_days_def day_ns_def)

declare day_range.simps [simp del]

lemma day_range_empty: "to < d \<Longrightarrow> day_range d to = []"
  by (simp add: day_range.simps)

lemma day_range_self: "day_range d d = [d]"
  by (simp add: day_range.simps[of d d] day_range_empty add_days_def day_ns_def)

lemma day_range_mem: "x \<in> set (day_range d to) \<longleftrightarrow> (\<exists>n\<ge>0. x = add_days d n \<and> x \<le> to)"
proof (induction d to rule: day_range.induct)
  case (1 d to)
  show ?case
  proof (cases "to < d")
    case True
    then show ?thesis by (auto simp: day_range_empty add_days_def day_ns_def)
  next
    case False
    have "x \<in> set (day_range d to) \<longleftrightarrow> x = d \<or> (\<exists>n\<ge>0. x = add_days d (1 + n) \<and> x \<le> to)"
      using False "1.IH" by (simp add: day_range.simps[of d to])
    also have "\<dots> \<longleftrightarrow> (\<exists>n\<ge>0. x = add_days d n \<and> x \<le> to)" (is "?l \<longleftrightarrow> ?r")
    proof
      assume ?l
      then show ?r
      proof
        assume "x = d"
        with False show ?r by (intro exI[of _ 0]) auto
      next
        assume "\<exists>n\<ge>0. x = add_days d (1 + n) \<and> x \<le> to"
        then obtain n where "0 \<le> n" "x = add_days d (1 + n)" "x \<le> to" by blast
        then show ?r by (intro exI[of _ "1 + n"]) auto
      qed
    next
      assume ?r
      then obtain n where n: "0 \<le> n" "x = add_days d n" "x \<le> to" by blast
      show ?l
      proof (cases "n = 0")
        case False
        with n show ?thesis by (intro disjI2 exI[of _ "n - 1"]) auto
      qed (use n in simp)
    qed
    finally show ?thesis .
  qed
qed

lemma day_range_distinct: "distinct (day_range d to)"
proof (induction d to rule: day_range.induct)
  case (1 d to)
  then show ?case
    by (auto simp: day_range.simps[of d to] day_range_mem add_days_def day_ns_def)
qed

section \<open>The civil calendar\<close>

text \<open>
  Days are counted in eras of 400 years from 0000-03-01.  \<open>year_start y\<close> is the first day of the
  \<open>y\<close>-th March-based year of an era.
\<close>

definition year_start :: "int \<Rightarrow> int" where
  "year_start y = 365 * y + y div 4 - y div 100 + y div 400"

definition year_of_era :: "int \<Rightarrow> int" where
  "year_of_era doe = (let y = doe div 365 in if year_start y \<le> doe then y else y - 1)"

definition civil_of_day :: "int \<Rightarrow> int \<times> int \<times> int" where
  "civil_of_day z =
     (let era = (z + 719468) div 146097; doe = (z + 719468) mod 146097; yoe = year_of_era doe;
          doy = doe - year_start yoe; mp = (5 * doy + 2) div 153; d = doy - (153 * mp + 2) div 5 + 1;
          m = (if mp < 10 then mp + 3 else mp - 9)
      in (yoe + era * 400 + (if m \<le> 2 then 1 else 0), m, d))"

definition day_of_civil :: "int \<Rightarrow> int \<Rightarrow> int \<Rightarrow> int" where
  "day_of_civil y m d =
     (let y' = (if m \<le> 2 then y - 1 else y); era = y' div 400; yoe = y' mod 400;
          mp = (if 2 < m then m - 3 else m + 9); doy = (153 * mp + 2) div 5 + d - 1
      in era * 146097 + (year_start yoe + doy) - 719468)"

definition is_leap :: "int \<Rightarrow> bool" where
  "is_leap y \<longleftrightarrow> y mod 4 = 0 \<and> (y mod 100 \<noteq> 0 \<or> y mod 400 = 0)"

definition days_in :: "int \<Rightarrow> int \<Rightarrow> int" where
  "days_in m y = (if m = 2 then if is_leap y then 29 else 28
                  else if m = 4 \<or> m = 6 \<or> m = 9 \<or> m = 11 then 30 else 31)"

lemma div_plus1:
  assumes "0 < (k::int)"
  shows "(y + 1) div k = y div k + (if (y + 1) mod k = 0 then 1 else 0)"
proof (cases "y mod k = k - 1")
  case True
  then have e: "y + 1 = k * (y div k + 1) + 0" using div_mult_mod_eq[of y k] by (simp add: distrib_left mult.commute)
  then have "(y + 1) div k = y div k + 1" "(y + 1) mod k = 0"
    using assms int_div_pos_eq[OF e] int_mod_pos_eq[OF e] by simp_all
  then show ?thesis by simp
next
  case False
  have e: "y + 1 = k * (y div k) + (y mod k + 1)" using div_mult_mod_eq[of y k] by (simp add: algebra_simps)
  have r: "0 \<le> y mod k + 1" "y mod k + 1 < k" using assms False pos_mod_bound[of k y] pos_mod_sign[of k y] by linarith+
  have "(y + 1) div k = y div k" "(y + 1) mod k = y mod k + 1"
    using int_div_pos_eq[OF e r] int_mod_pos_eq[OF e r] by simp_all
  moreover have "y mod k + 1 \<noteq> 0" using assms pos_mod_sign[of k y] by linarith
  ultimately show ?thesis by simp
qed

lemma mod_0_trans: "(a::int) mod (b * c) = 0 \<Longrightarrow> a mod b = 0"
  by (simp add: mod_eq_0_iff_dvd) (rule dvd_mult_left)

lemma leap_count:
  fixes a b c y :: int
  assumes "a' = a + (if p then 1 else 0)" "b' = b + (if q then 1 else 0)" "c' = c + (if r then 1 else 0)"
    and "r \<Longrightarrow> q" "q \<Longrightarrow> p"
  shows "365 * (y + 1) + a' - b' + c' = (365 * y + a - b + c) + (if p \<and> (\<not> q \<or> r) then 366 else 365)"
  using assms by auto

lemma year_start_Suc: "year_start (y + 1) = year_start y + (if is_leap (y + 1) then 366 else 365)"
  unfolding year_start_def is_leap_def
  by (rule leap_count[OF div_plus1 div_plus1 div_plus1])
    (simp_all only: zero_less_numeral, rule mod_0_trans[of _ 100 4], simp, rule mod_0_trans[of _ 4 25], simp)

lemma is_leap_era: "is_leap (y + 400 * k) = is_leap y"
  using mod_mult_self2[of y 4 "100 * k"] mod_mult_self2[of y 100 "4 * k"] mod_mult_self2[of y 400 k]
  by (simp add: is_leap_def)

lemma year_of_era_bounds:
  assumes "0 \<le> doe" "doe < 146097"
  shows "0 \<le> year_of_era doe" and "year_of_era doe < 400"
    and "year_start (year_of_era doe) \<le> doe" and "doe < year_start (year_of_era doe + 1)"
proof -
  define y where "y = doe div 365"
  have y: "365 * y \<le> doe" "doe < 365 * y + 365" "0 \<le> y" using assms(1) by (auto simp: y_def)
  have c: "year_of_era doe = (if year_start y \<le> doe then y else y - 1)"
    by (simp add: year_of_era_def y_def Let_def)
  have y1: "year_start y \<le> doe \<or> 1 \<le> y" using y assms(1) by (cases "y = 0") (auto simp: year_start_def)
  have s0: "year_start 400 = 146097" by (simp add: year_start_def)
  show "0 \<le> year_of_era doe" using y y1 unfolding c by auto
  have "y < 400 \<or> y = 400" using y assms(2) by linarith
  then show "year_of_era doe < 400" using assms(2) s0 by (auto simp: c)
  have b: "365 * z \<le> year_start z" "year_start z \<le> 365 * z + 100" if "0 \<le> z" "z \<le> 401" for z
    using zdiv_mono2[of z 4 100] zdiv_mono2[of z 100 400] zdiv_mono1[of z 401 4] zdiv_mono1[of 0 z 400] that
    unfolding year_start_def by simp_all
  have y4: "y \<le> 400" using y assms(2) by linarith
  show "year_start (year_of_era doe) \<le> doe" using b[of "y - 1"] y y1 y4 by (auto simp: c)
  show "doe < year_start (year_of_era doe + 1)" using b[of "y + 1"] y y4 by (auto simp: c)
qed

theorem day_of_civil_of_day:
  assumes "civil_of_day z = (y, m, d)"
  shows "day_of_civil y m d = z" and "1 \<le> m" and "m \<le> 12" and "1 \<le> d" and "d \<le> days_in m y"
proof -
  define era where "era = (z + 719468) div 146097"
  define doe where "doe = (z + 719468) mod 146097"
  define yoe where "yoe = year_of_era doe"
  define doy where "doy = doe - year_start yoe"
  define mp where "mp = (5 * doy + 2) div 153"
  have z: "z = era * 146097 + doe - 719468"
    using div_mult_mod_eq[of "z + 719468" 146097] by (simp add: era_def doe_def)
  have doe: "0 \<le> doe" "doe < 146097" by (simp_all add: doe_def)
  note yb = year_of_era_bounds[OF doe, folded yoe_def]
  have leap: "is_leap (yoe + 1 + era * 400) = is_leap (yoe + 1)"
    using is_leap_era[of "yoe + 1" era] by (simp add: mult.commute)
  have doy: "0 \<le> doy" "doy < (if is_leap (yoe + 1) then 366 else 365)"
    using yb year_start_Suc[of yoe] by (auto simp: doy_def)
  then have doyb: "doy < 366" by (auto split: if_splits)
  then have mp: "0 \<le> mp" "mp \<le> 11" using doy(1) by (auto simp: mp_def)
  have md: "m = (if mp < 10 then mp + 3 else mp - 9)" "d = doy - (153 * mp + 2) div 5 + 1"
    "y = yoe + era * 400 + (if m \<le> 2 then 1 else 0)"
    using assms unfolding civil_of_day_def Let_def era_def[symmetric] doe_def[symmetric]
      yoe_def[symmetric] doy_def[symmetric] mp_def[symmetric] by (auto simp only: prod.inject)
  show m1: "1 \<le> m" and m12: "m \<le> 12" using mp by (auto simp: md(1))
  have "153 * mp \<le> 5 * doy + 2"
    unfolding mp_def using div_mult_mod_eq[of "5 * doy + 2" 153] pos_mod_sign[of 153 "5 * doy + 2"] by linarith
  then have "(153 * mp + 2) div 5 \<le> (5 * doy + 4) div 5" by (intro zdiv_mono1) auto
  then have d1: "(153 * mp + 2) div 5 \<le> doy" by simp
  show "1 \<le> d" using d1 by (simp add: md(2))
  have y': "(if m \<le> 2 then y - 1 else y) = yoe + era * 400" by (simp add: md(3))
  have mp': "(if 2 < m then m - 3 else m + 9) = mp" using mp by (auto simp: md(1))
  show "day_of_civil y m d = z"
    using yb(1,2) unfolding day_of_civil_def Let_def y' mp' by (simp add: md(2) doy_def z)
  have du: "5 * doy + 2 < 153 * mp + 153"
    unfolding mp_def using div_mult_mod_eq[of "5 * doy + 2" 153] pos_mod_bound[of 153 "5 * doy + 2"] by linarith
  consider "mp = 11" | "mp \<le> 10" using mp by linarith
  then show "d \<le> days_in m y"
  proof cases
    case 1
    then have "m = 2" "y = yoe + 1 + era * 400" by (simp_all add: md(1,3))
    then show ?thesis using doy(2) leap 1 by (auto simp: days_in_def md(2))
  next
    case 2
    with mp have "mp \<in> {0, 1, 2, 3, 4, 5, 6, 7, 8, 9, 10}" unfolding insert_iff empty_iff by presburger
    then show ?thesis using du by (auto simp: days_in_def md(1,2))
  qed
qed


section \<open>Decimal text and the date layout\<close>

definition dig :: "nat \<Rightarrow> char" where
  "dig n = ''0123456789'' ! n"

definition undig :: "char \<Rightarrow> nat option" where
  "undig c = map_of (zip ''0123456789'' [0, 1, 2, 3, 4, 5, 6, 7, 8, 9]) c"

fun dec :: "nat \<Rightarrow> string" where
  "dec n = (if n < 10 then [dig n] else dec (n div 10) @ [dig (n mod 10)])"

declare dec.simps [simp del]

text \<open>\<open>%d\<close> and the zero-padded numbers of \<open>time.Format\<close>.\<close>

definition itoa :: "int \<Rightarrow> string" where
  "itoa n = (if n < 0 then ''-'' @ dec (nat (- n)) else dec (nat n))"

definition pad0 :: "nat \<Rightarrow> string \<Rightarrow> string" where
  "pad0 w s = replicate (w - length s) (CHR ''0'') @ s"

definition fmt_year :: "int \<Rightarrow> string" where
  "fmt_year y = (if y < 0 then ''-'' @ pad0 4 (dec (nat (- y))) else pad0 4 (dec (nat y)))"

text \<open>\<open>t.Format("2006-01-02")\<close> of a UTC time.\<close>

definition fmt_day :: "gotime \<Rightarrow> string" where
  "fmt_day t = (case civil_of_day (day_of t) of (y, m, d) \<Rightarrow>
     fmt_year y @ ''-'' @ pad0 2 (dec (nat m)) @ ''-'' @ pad0 2 (dec (nat d)))"

fun num_of :: "nat \<Rightarrow> string \<Rightarrow> nat option" where
  "num_of acc [] = Some acc"
| "num_of acc (c # cs) = (case undig c of None \<Rightarrow> None | Some k \<Rightarrow> num_of (10 * acc + k) cs)"

text \<open>
  \<open>time.Parse("2006-01-02", s)\<close>: four digits, two digits, two digits, with dashes and nothing
  else, a month of 1 to 12 and a day the month has; midnight UTC of that day.
\<close>

definition parse_day :: "string \<Rightarrow> gotime option" where
  "parse_day s =
     (case s of [a, b, c, d, s1, e, f, s2, g, h] \<Rightarrow>
        if s1 = CHR ''-'' \<and> s2 = CHR ''-'' then
          (case (num_of 0 [a, b, c, d], num_of 0 [e, f], num_of 0 [g, h]) of
             (Some y, Some m, Some dd) \<Rightarrow>
               if 1 \<le> m \<and> m \<le> 12 \<and> 1 \<le> dd \<and> int dd \<le> days_in (int m) (int y)
               then Some (day_of_civil (int y) (int m) (int dd) * day_ns) else None
           | _ \<Rightarrow> None)
        else None
      | _ \<Rightarrow> None)"

lemma undig_dig [simp]: "n < 10 \<Longrightarrow> undig (dig n) = Some n"
proof -
  assume "n < 10"
  then have "n \<in> {0, 1, 2, 3, 4, 5, 6, 7, 8, 9}" by auto
  then show ?thesis by (elim insertE emptyE) (simp_all add: dig_def undig_def)
qed

lemma pad0_2: "n < 100 \<Longrightarrow> pad0 2 (dec n) = [dig (n div 10), dig (n mod 10)]"
  by (cases "n < 10") (simp_all add: dec.simps pad0_def dig_def numeral_2_eq_2)

lemma pad0_4_len:
  "pad0 4 [a] = [CHR ''0'', CHR ''0'', CHR ''0'', a]"
  "pad0 4 [a, b] = [CHR ''0'', CHR ''0'', a, b]"
  "pad0 4 [a, b, c] = [CHR ''0'', a, b, c]"
  "pad0 4 [a, b, c, d] = [a, b, c, d]"
  by (simp_all add: pad0_def numeral_eq_Suc)

lemma dig_0: "dig 0 = CHR ''0''"
  by (simp add: dig_def)

lemma pad0_4:
  assumes "n < 10000"
  shows "pad0 4 (dec n) = [dig (n div 1000), dig (n div 100 mod 10), dig (n div 10 mod 10), dig (n mod 10)]"
proof -
  define a b c where "a = n div 10" and "b = n div 100" and "c = n div 1000"
  have d: "a div 10 = b" "b div 10 = c" by (simp_all add: a_def b_def c_def div_mult2_eq[symmetric])
  have c10: "c < 10" using assms by (simp add: c_def less_mult_imp_div_less)
  have n: "dec n = (if n < 10 then [dig n] else dec a @ [dig (n mod 10)])"
    by (simp add: dec.simps[of n] a_def)
  have da: "dec a = (if a < 10 then [dig a] else dec b @ [dig (a mod 10)])" by (simp add: dec.simps[of a] d)
  have db: "dec b = (if b < 10 then [dig b] else dec c @ [dig (b mod 10)])" by (simp add: dec.simps[of b] d)
  have dc: "dec c = [dig c]" using c10 by (simp add: dec.simps[of c])
  have z: "n < 10 \<Longrightarrow> a = 0" "a < 10 \<Longrightarrow> b = 0" "b < 10 \<Longrightarrow> c = 0" using d by (auto simp: a_def)
  have "pad0 4 (dec n) = [dig c, dig (b mod 10), dig (a mod 10), dig (n mod 10)]"
    unfolding n da db dc using z d by (auto simp: pad0_4_len dig_0)
  then show ?thesis by (simp only: a_def b_def c_def)
qed

lemma num_of_2: "n < 100 \<Longrightarrow> num_of 0 [dig (n div 10), dig (n mod 10)] = Some n"
  by (simp add: less_mult_imp_div_less)

lemma num_of_4:
  assumes "n < 10000"
  shows "num_of 0 [dig (n div 1000), dig (n div 100 mod 10), dig (n div 10 mod 10), dig (n mod 10)] = Some n"
proof -
  have d: "n div 1000 < 10" using assms by (simp add: less_mult_imp_div_less)
  have "n div 100 = 10 * (n div 1000) + n div 100 mod 10" "n div 10 = 10 * (n div 100) + n div 10 mod 10"
    "n = 10 * (n div 10) + n mod 10"
    using div_mult_mod_eq[of "n div 100" 10] div_mult_mod_eq[of "n div 10" 10] div_mult_mod_eq[of n 10]
    by (simp_all only: div_mult2_eq[symmetric]) simp_all
  then have "10 * (10 * (10 * (n div 1000) + n div 100 mod 10) + n div 10 mod 10) + n mod 10 = n" by simp
  with d show ?thesis by simp
qed

text \<open>Formatting a day and parsing the text gives midnight of that day, for the years 0 to 9999.\<close>

theorem parse_fmt_day:
  assumes "civil_of_day (day_of t) = (y, m, d)" and "0 \<le> y" and "y \<le> 9999"
  shows "parse_day (fmt_day t) = Some (day_of t * day_ns)"
proof -
  note c = day_of_civil_of_day[OF assms(1)]
  have m: "nat m < 100" and d: "nat d < 100" and y: "nat y < 10000"
    using c assms(2,3) by (auto simp: days_in_def split: if_splits)
  have f: "fmt_day t = pad0 4 (dec (nat y)) @ ''-'' @ pad0 2 (dec (nat m)) @ ''-'' @ pad0 2 (dec (nat d))"
    using assms by (simp add: fmt_day_def fmt_year_def)
  have r: "nat m \<le> 12" "1 \<le> nat m" "1 \<le> nat d" using c by auto
  show ?thesis
    using c r assms(2,3) num_of_4[OF y] num_of_2[OF m] num_of_2[OF d]
    by (simp add: f pad0_4[OF y] pad0_2[OF m] pad0_2[OF d] parse_day_def del: num_of.simps)
qed

definition year_ok :: "gotime \<Rightarrow> bool" where
  "year_ok t \<longleftrightarrow> 0 \<le> fst (civil_of_day (day_of t)) \<and> fst (civil_of_day (day_of t)) \<le> 9999"

corollary fmt_day_inj: "year_ok t \<Longrightarrow> year_ok u \<Longrightarrow> fmt_day t = fmt_day u \<Longrightarrow> day_of t = day_of u"
  using parse_fmt_day[of t] parse_fmt_day[of u]
  by (cases "civil_of_day (day_of t)"; cases "civil_of_day (day_of u)") (auto simp: year_ok_def day_ns_def)

section \<open>Sorting\<close>

text \<open>
  \<open>sort.Slice\<close> with a \<open>lt\<close> function: the insertion sort Go runs on slices of at most twelve
  elements.  Where the code sorts longer slices its comparison is total on them, so that every
  correct sorting algorithm gives the same result.
\<close>

fun ins_rev :: "('a \<Rightarrow> 'a \<Rightarrow> bool) \<Rightarrow> 'a \<Rightarrow> 'a list \<Rightarrow> 'a list" where
  "ins_rev lt x [] = [x]"
| "ins_rev lt x (y # ys) = (if lt x y then y # ins_rev lt x ys else x # y # ys)"

definition sort_slice :: "('a \<Rightarrow> 'a \<Rightarrow> bool) \<Rightarrow> 'a list \<Rightarrow> 'a list" where
  "sort_slice lt xs = rev (foldl (\<lambda>acc x. ins_rev lt x acc) [] xs)"

lemma mset_ins_rev [simp]: "mset (ins_rev lt x ys) = add_mset x (mset ys)"
  by (induction ys) auto

lemma mset_sort_slice [simp]: "mset (sort_slice lt xs) = mset xs"
proof -
  have "mset (foldl (\<lambda>acc x. ins_rev lt x acc) acc xs) = mset acc + mset xs" for acc
    by (induction xs arbitrary: acc) auto
  then show ?thesis by (simp add: sort_slice_def)
qed

lemma set_sort_slice [simp]: "set (sort_slice lt xs) = set xs"
  by (metis mset_sort_slice set_mset_mset)

lemma length_sort_slice [simp]: "length (sort_slice lt xs) = length xs"
  by (metis mset_sort_slice size_mset)

text \<open>The result is sorted when \<open>\<not> lt\<close> is transitive and \<open>lt\<close> asymmetric on the elements.\<close>

lemma sorted_ins_rev:
  assumes "\<And>x y. x \<in> A \<Longrightarrow> y \<in> A \<Longrightarrow> lt x y \<Longrightarrow> \<not> lt y x"
    and "\<And>x y z. x \<in> A \<Longrightarrow> y \<in> A \<Longrightarrow> z \<in> A \<Longrightarrow> \<not> lt y x \<Longrightarrow> \<not> lt z y \<Longrightarrow> \<not> lt z x"
    and "sorted_wrt (\<lambda>a b. \<not> lt a b) ys" "x \<in> A" "set ys \<subseteq> A"
  shows "sorted_wrt (\<lambda>a b. \<not> lt a b) (ins_rev lt x ys)"
  using assms(3,5)
proof (induction ys)
  case (Cons y ys)
  have sub: "set (ins_rev lt x ys) = insert x (set ys)" by (metis mset_ins_rev set_mset_add_mset_insert set_mset_mset)
  show ?case
  proof (cases "lt x y")
    case True
    with Cons assms(1)[of x y] assms(4) show ?thesis by (auto simp: sub)
  next
    case False
    have "\<not> lt x b" if "b \<in> set ys" for b
      using assms(2)[of b y x] that Cons.prems assms(4) False by auto
    with False Cons.prems show ?thesis by auto
  qed
qed simp

lemma sorted_sort_slice_on:
  assumes "\<And>x y. x \<in> A \<Longrightarrow> y \<in> A \<Longrightarrow> lt x y \<Longrightarrow> \<not> lt y x"
    and "\<And>x y z. x \<in> A \<Longrightarrow> y \<in> A \<Longrightarrow> z \<in> A \<Longrightarrow> \<not> lt y x \<Longrightarrow> \<not> lt z y \<Longrightarrow> \<not> lt z x"
    and "set xs \<subseteq> A"
  shows "sorted_wrt (\<lambda>a b. \<not> lt b a) (sort_slice lt xs)"
proof -
  have "sorted_wrt (\<lambda>a b. \<not> lt a b) acc \<Longrightarrow> set acc \<subseteq> A \<Longrightarrow>
      sorted_wrt (\<lambda>a b. \<not> lt a b) (foldl (\<lambda>acc x. ins_rev lt x acc) acc xs)" for acc
    using assms(3)
  proof (induction xs arbitrary: acc)
    case (Cons x xs)
    have "sorted_wrt (\<lambda>a b. \<not> lt a b) (ins_rev lt x acc)"
      by (rule sorted_ins_rev[OF assms(1,2)]) (use Cons.prems in auto)
    moreover have "set (ins_rev lt x acc) = insert x (set acc)"
      by (metis mset_ins_rev set_mset_add_mset_insert set_mset_mset)
    ultimately show ?case using Cons by simp
  qed simp
  then have "sorted_wrt (\<lambda>a b. \<not> lt a b) (foldl (\<lambda>acc x. ins_rev lt x acc) [] xs)" by simp
  then show ?thesis by (simp add: sort_slice_def sorted_wrt_rev)
qed

lemmas sorted_sort_slice = sorted_sort_slice_on[where A = UNIV, simplified]

text \<open>\<open>sort.Float64s\<close>: NaN before every number.\<close>

definition float_less :: "f64 \<Rightarrow> f64 \<Rightarrow> bool" where
  "float_less x y \<longleftrightarrow> flt x y \<or> isNaN x \<and> \<not> isNaN y"

definition sort_float64s :: "f64 list \<Rightarrow> f64 list" where
  "sort_float64s = sort_slice float_less"

definition sort_ints :: "int list \<Rightarrow> int list" where
  "sort_ints = sort_slice (\<lambda>x y. x < y)"

lemma float_less_asym: "float_less x y \<Longrightarrow> \<not> float_less y x"
  by (cases x; cases y) (auto simp: float_less_def)

lemma float_less_ntrans: "\<not> float_less y x \<Longrightarrow> \<not> float_less z y \<Longrightarrow> \<not> float_less z x"
  by (cases x; cases y; cases z) (auto simp: float_less_def)

lemma sorted_sort_float64s: "sorted_wrt (\<lambda>a b. \<not> float_less b a) (sort_float64s xs)"
  unfolding sort_float64s_def by (rule sorted_sort_slice) (fact float_less_asym float_less_ntrans)+

lemma mset_sort_float64s [simp]: "mset (sort_float64s xs) = mset xs"
  by (simp add: sort_float64s_def)

text \<open>Byte-wise comparison of strings, and \<open>sort.Strings\<close>.\<close>

fun str_less :: "string \<Rightarrow> string \<Rightarrow> bool" where
  "str_less _ [] = False"
| "str_less [] (_ # _) = True"
| "str_less (a # as) (b # bs) =
     (of_char a < (of_char b :: nat) \<or> a = b \<and> str_less as bs)"

definition sort_strings :: "string list \<Rightarrow> string list" where
  "sort_strings = sort_slice str_less"

lemma str_less_irrefl [simp]: "\<not> str_less s s"
  by (induction s) auto

lemma str_less_asym: "str_less s t \<Longrightarrow> \<not> str_less t s"
  by (induction s t rule: str_less.induct) auto

lemma str_less_Nil [simp]: "str_less [] t \<longleftrightarrow> t \<noteq> []"
  by (cases t) auto

lemma str_less_total: "s \<noteq> t \<Longrightarrow> str_less s t \<or> str_less t s"
  by (induction s t rule: str_less.induct) (auto simp: neq_iff)

lemma str_less_trans: "str_less s t \<Longrightarrow> str_less t u \<Longrightarrow> str_less s u"
proof (induction s t arbitrary: u rule: str_less.induct)
  case (3 a as b bs)
  then show ?case by (cases u) auto
qed (auto elim: str_less.elims)

section \<open>Conversion to integers\<close>

text \<open>\<open>int(x)\<close> of a finite float64 truncates towards zero.\<close>

definition trunc_rat :: "rat \<Rightarrow> int" where
  "trunc_rat q = (if 0 \<le> q then \<lfloor>q\<rfloor> else \<lceil>q\<rceil>)"

definition int_of_f :: "f64 \<Rightarrow> int" where
  "int_of_f x = trunc_rat (qv x)"

end
