(* ===== verification/Domain.thy ===== *)
theory Domain
  imports GoLib
begin

text \<open>
  \<open>internal/domain\<close>: assets, domain codes, features, domain scores and regime states with their
  \<open>Validate\<close> methods (\<open>None\<close> is the nil error), display names and the UTC day of an instant.
\<close>

section \<open>Assets and domain codes\<close>

type_synonym asset = string
type_synonym domain_code = string

definition AssetBTC :: asset where "AssetBTC = ''BTC''"
definition AssetETH :: asset where "AssetETH = ''ETH''"
definition AssetGlobal :: asset where "AssetGlobal = ''GLOBAL''"

lemmas asset_defs = AssetBTC_def AssetETH_def AssetGlobal_def

definition Asset_Validate :: "asset \<Rightarrow> err option" where
  "Asset_Validate a = (if a = AssetBTC \<or> a = AssetETH \<or> a = AssetGlobal then None
     else Some (Fresh ''invalid asset %q (want BTC|ETH|GLOBAL)'' [AStr a]))"

definition Asset_IsTradeable :: "asset \<Rightarrow> bool" where
  "Asset_IsTradeable a \<longleftrightarrow> a = AssetBTC \<or> a = AssetETH"

definition AssetsTradeable :: "asset list" where
  "AssetsTradeable = [AssetBTC, AssetETH]"

definition DomainLiquidity :: domain_code where "DomainLiquidity = ''LIQUIDITY''"
definition DomainLeverage :: domain_code where "DomainLeverage = ''LEVERAGE''"
definition DomainMarketStress :: domain_code where "DomainMarketStress = ''MARKET_STRESS''"
definition DomainCapitalFlows :: domain_code where "DomainCapitalFlows = ''CAPITAL_FLOWS''"
definition DomainVolatility :: domain_code where "DomainVolatility = ''VOLATILITY_REGIME''"

lemmas domain_defs = DomainLiquidity_def DomainLeverage_def DomainMarketStress_def
  DomainCapitalFlows_def DomainVolatility_def

definition AllDomains :: "domain_code list" where
  "AllDomains = [DomainLiquidity, DomainLeverage, DomainMarketStress, DomainCapitalFlows, DomainVolatility]"

definition DomainCode_Validate :: "domain_code \<Rightarrow> err option" where
  "DomainCode_Validate d = (if d \<in> set AllDomains then None else Some (Fresh ''invalid domain %q'' [AStr d]))"

lemma AllDomains_distinct [simp]: "distinct AllDomains"
  by (simp add: AllDomains_def domain_defs)

lemma AllDomains_length [simp]: "length AllDomains = 5"
  by (simp add: AllDomains_def)

lemma AssetsTradeable_valid: "\<forall>a\<in>set AssetsTradeable. Asset_IsTradeable a \<and> Asset_Validate a = None"
  by (simp add: AssetsTradeable_def Asset_IsTradeable_def Asset_Validate_def)

definition displayNames :: "string \<rightharpoonup> string" where
  "displayNames = map_of [(''LIQUIDITY'', ''Liquidity''), (''LEVERAGE'', ''Leverage''),
     (''MARKET_STRESS'', ''Market Stress''), (''CAPITAL_FLOWS'', ''Holder Conviction''),
     (''VOLATILITY_REGIME'', ''Volatility Regime'')]"

definition DisplayName :: "string \<Rightarrow> string" where
  "DisplayName c = (case displayNames c of Some n \<Rightarrow> n | None \<Rightarrow> c)"

section \<open>Days\<close>

definition UTCDay :: "gotime \<Rightarrow> gotime" where
  "UTCDay t = day_of t * day_ns"

lemma UTCDay_idem [simp]: "UTCDay (UTCDay t) = UTCDay t"
  by (simp add: UTCDay_def day_of_def day_ns_def)

lemma day_of_UTCDay [simp]: "day_of (UTCDay t) = day_of t"
  by (simp add: UTCDay_def day_of_def day_ns_def)

lemma UTCDay_le: "UTCDay t \<le> t \<and> t < UTCDay t + day_ns"
proof -
  have "0 < day_ns" by (simp add: day_ns_def)
  then show ?thesis
    using div_mult_mod_eq[of t day_ns] pos_mod_bound[of day_ns t] pos_mod_sign[of day_ns t]
    unfolding UTCDay_def day_of_def by linarith
qed

lemma UTCDay_add_days: "UTCDay (add_days t n) = add_days (UTCDay t) n"
  unfolding UTCDay_def day_of_add_days by (simp add: add_days_def distrib_right)

definition MustParseDay :: "string \<Rightarrow> gotime option" where
  "MustParseDay s = parse_day s"  \<comment> \<open>\<open>None\<close>: the panic\<close>

section \<open>Features\<close>

record feature_key =
  fk_name :: string
  fk_version :: string

definition FeatureKey_String :: "feature_key \<Rightarrow> string" where
  "FeatureKey_String k = fk_name k @ '':'' @ fk_version k"

record feature =
  ft_key :: feature_key
  ft_asset :: asset
  ft_value_date :: gotime
  ft_timeframe :: string
  ft_value :: f64
  ft_sources :: "string \<rightharpoonup> string"
  ft_code_sha :: string

definition Feature_Validate :: "feature \<Rightarrow> err option" where
  "Feature_Validate f =
     (if fk_name (ft_key f) = [] \<or> fk_version (ft_key f) = [] then
        Some (Fresh ''feature missing key: name=%q version=%q''
               [AStr (fk_name (ft_key f)), AStr (fk_version (ft_key f))])
      else case Asset_Validate (ft_asset f) of
        Some e \<Rightarrow> Some (Wrap ''feature asset'' [] e)
      | None \<Rightarrow>
        if ft_value_date f = zero_time then Some (Fresh ''feature value_date is zero'' [])
        else if ft_timeframe f = [] then Some (Fresh ''feature missing timeframe'' [])
        else None)"

section \<open>Domain scores\<close>

record domain_score =
  ds_asset :: asset
  ds_domain :: domain_code
  ds_value_date :: gotime
  ds_score :: f64
  ds_components :: "string \<rightharpoonup> f64"
  ds_features_used :: "string list"
  ds_model_version :: string
  ds_config_version :: string
  ds_code_sha :: string
  ds_sources :: "string \<rightharpoonup> string"
  ds_quality :: "string \<rightharpoonup> anyval"

definition DomainScore_Validate :: "domain_score \<Rightarrow> err option" where
  "DomainScore_Validate s =
     (case Asset_Validate (ds_asset s) of Some e \<Rightarrow> Some (Wrap ''score asset'' [] e)
      | None \<Rightarrow>
     (case DomainCode_Validate (ds_domain s) of Some e \<Rightarrow> Some (Wrap ''score domain'' [] e)
      | None \<Rightarrow>
        if ds_value_date s = zero_time then Some (Fresh ''score value_date is zero'' [])
        else if flt (ds_score s) (lit (- 10001 / 10000)) \<or> flt (lit (10001 / 10000)) (ds_score s) then
          Some (Fresh ''score out of range: %v'' [AFloat (ds_score s)])
        else if ds_model_version s = [] then Some (Fresh ''score missing model_version'' [])
        else None))"

section \<open>Regime states\<close>

record top_driver =
  td_domain :: domain_code
  td_contribution :: f64
  td_share :: f64

record regime_state =
  rs_asset :: asset
  rs_value_date :: gotime
  rs_indicator :: f64
  rs_indicator_raw :: f64
  rs_risk_on :: f64
  rs_risk_off :: f64
  rs_transition :: f64
  rs_model_version :: string
  rs_config_version :: string
  rs_code_sha :: string
  rs_contributions :: "domain_code \<rightharpoonup> f64"
  rs_top_drivers :: "top_driver list"
  rs_weights :: "domain_code \<rightharpoonup> f64"
  rs_coverage :: "domain_code \<rightharpoonup> bool"
  rs_flags :: "string list"

record indicator_point =
  ip_value_date :: gotime
  ip_indicator :: f64

fun first_bad_prob :: "f64 list \<Rightarrow> err option" where
  "first_bad_prob [] = None"
| "first_bad_prob (p # ps) =
     (if flt p (lit (- 1 / 10000)) \<or> flt (lit (10001 / 10000)) p
      then Some (Fresh ''probability out of range: %v'' [AFloat p]) else first_bad_prob ps)"

definition RegimeState_Validate :: "regime_state \<Rightarrow> err option" where
  "RegimeState_Validate s =
     (case Asset_Validate (rs_asset s) of Some e \<Rightarrow> Some (Wrap ''regime asset'' [] e)
      | None \<Rightarrow>
        if rs_value_date s = zero_time then Some (Fresh ''regime value_date is zero'' [])
        else if rs_model_version s = [] then Some (Fresh ''regime missing model_version'' [])
        else if flt (rs_indicator s) (lit (- 10001 / 10000)) \<or> flt (lit (10001 / 10000)) (rs_indicator s) then
          Some (Fresh ''regime_indicator out of range: %v'' [AFloat (rs_indicator s)])
        else first_bad_prob [rs_risk_on s, rs_risk_off s, rs_transition s])"

section \<open>Events and labels\<close>

record event =
  ev_topic :: string
  ev_aggregate :: string
  ev_payload :: "string \<rightharpoonup> anyval"

definition AllLabels :: "string list" where
  "AllLabels = [''risk_on'', ''risk_off'', ''transition'']"

section \<open>What validation accepts\<close>

lemma lit_10001 [simp]:
  "lit (10001 / 10000) = Fin (4504049987333233 / 4503599627370496)"
  "lit (- (10001 / 10000)) = Fin (- (4504049987333233 / 4503599627370496))"
  "lit (- 10001 / 10000) = Fin (- (4504049987333233 / 4503599627370496))"
  by (simp_all add: f64_eval)

lemma first_bad_prob_None:
  "first_bad_prob ps = None \<longleftrightarrow>
     (\<forall>p\<in>set ps. \<not> flt p (lit (- 1 / 10000)) \<and> \<not> flt (lit (10001 / 10000)) p)"
  by (induction ps) auto

text \<open>The range checks are comparisons, so NaN passes every one of them.\<close>

lemma DomainScore_Validate_None:
  "DomainScore_Validate s = None \<longleftrightarrow>
     Asset_Validate (ds_asset s) = None \<and> ds_domain s \<in> set AllDomains \<and> ds_value_date s \<noteq> zero_time \<and>
     (ds_score s = NaN \<or> fin_in (qv (lit (- 10001 / 10000))) (qv (lit (10001 / 10000))) (ds_score s)) \<and>
     ds_model_version s \<noteq> []"
  by (cases "ds_score s")
     (auto simp: DomainScore_Validate_def DomainCode_Validate_def fin_in_def not_less split: option.splits if_splits)

lemma RegimeState_Validate_None:
  "RegimeState_Validate s = None \<longleftrightarrow>
     Asset_Validate (rs_asset s) = None \<and> rs_value_date s \<noteq> zero_time \<and> rs_model_version s \<noteq> [] \<and>
     \<not> flt (rs_indicator s) (lit (- 10001 / 10000)) \<and> \<not> flt (lit (10001 / 10000)) (rs_indicator s) \<and>
     first_bad_prob [rs_risk_on s, rs_risk_off s, rs_transition s] = None"
  by (auto simp: RegimeState_Validate_def simp del: first_bad_prob.simps split: option.splits if_splits)

lemma Feature_Validate_None:
  "Feature_Validate f = None \<longleftrightarrow>
     fk_name (ft_key f) \<noteq> [] \<and> fk_version (ft_key f) \<noteq> [] \<and> Asset_Validate (ft_asset f) = None \<and>
     ft_value_date f \<noteq> zero_time \<and> ft_timeframe f \<noteq> []"
  by (auto simp: Feature_Validate_def split: option.splits)

end
