(* ===== verification/MathStats.thy ===== *)
theory MathStats
  imports Domain
begin

text \<open>
  \<open>pkg/math\<close>: mean, standard deviation, z-score, correlation, the tanh squashing and the
  Black-Scholes gamma, each with its NaN conventions; the sums run in slice order and round at
  every step, as the code does.
\<close>

definition fsum :: "f64 list \<Rightarrow> f64" where
  "fsum xs = foldl fadd fzero xs"

definition flen :: "'a list \<Rightarrow> f64" where
  "flen xs = f_of_int (int (length xs))"

text \<open>\<open>for _, x := range xs { d := x - m; s += d * d }\<close>\<close>

definition sum_sq_dev :: "f64 \<Rightarrow> f64 list \<Rightarrow> f64" where
  "sum_sq_dev m xs = foldl (\<lambda>s x. let d = fsub x m in fadd s (fmul d d)) fzero xs"

definition Mean :: "f64 list \<Rightarrow> f64" where
  "Mean xs = (if xs = [] then NaN else fdiv (fsum xs) (flen xs))"

definition StdDev :: "f64 list \<Rightarrow> f64" where
  "StdDev xs = (if length xs < 2 then NaN
     else fsqrt (fdiv (sum_sq_dev (Mean xs) xs) (f_of_int (int (length xs) - 1))))"

definition ZScore :: "f64 \<Rightarrow> f64 list \<Rightarrow> f64" where
  "ZScore x xs = (let sd = StdDev xs in
     if isNaN sd \<or> feq sd fzero then NaN else fdiv (fsub x (Mean xs)) sd)"

definition Correlation :: "f64 list \<Rightarrow> f64 list \<Rightarrow> f64" where
  "Correlation xs ys =
     (if length xs < 2 \<or> length xs \<noteq> length ys then NaN
      else let mx = Mean xs; my = Mean ys;
             (sxy, sxx, syy) = foldl (\<lambda>(sxy, sxx, syy) (x, y).
                 let dx = fsub x mx; dy = fsub y my
                 in (fadd sxy (fmul dx dy), fadd sxx (fmul dx dx), fadd syy (fmul dy dy)))
               (fzero, fzero, fzero) (zip xs ys)
        in if feq sxx fzero \<or> feq syy fzero then NaN
           else fdiv sxy (fsqrt (fmul sxx syy)))"

definition TanhSquash :: "libm \<Rightarrow> f64 \<Rightarrow> f64 \<Rightarrow> f64" where
  "TanhSquash M z scale = (if isNaN z then NaN else m_tanh M (fdiv z scale))"

text \<open>\<open>math.Pi\<close> as the decimal constant of the Go library; \<open>2*math.Pi\<close> is folded exactly.\<close>

definition pi_const :: rat where
  "pi_const = 314159265358979323846264338327950288419716939937510582097494459
     / 100000000000000000000000000000000000000000000000000000000000000"

definition BSGamma :: "libm \<Rightarrow> f64 \<Rightarrow> f64 \<Rightarrow> f64 \<Rightarrow> int \<Rightarrow> f64 \<Rightarrow> f64" where
  "BSGamma M spot strike ivPct daysToExpiry rPct =
     (if daysToExpiry \<le> 0 \<or> fle spot fzero \<or> fle strike fzero \<or> fle ivPct fzero then fzero
      else if isNaN spot \<or> isNaN strike \<or> isNaN ivPct then fzero
      else let sigma = fdiv ivPct (lit 100); r = fdiv rPct (lit 100);
             t = fdiv (f_of_int daysToExpiry) (lit 365); sqrtT = fsqrt t;
             d1 = fdiv (fadd (m_log M (fdiv spot strike))
                             (fmul (fadd r (fdiv (fmul sigma sigma) (lit 2))) t))
                       (fmul sigma sqrtT)
        in if isNaN d1 \<or> isInf d1 then fzero
           else let pdf = fdiv (m_exp M (fdiv (fmul (fneg d1) d1) (lit 2))) (fsqrt (lit (2 * pi_const)));
                    g = fdiv pdf (fmul (fmul spot sigma) sqrtT)
             in if isNaN g \<or> isInf g then fzero else g)"

section \<open>Non-negative sums\<close>

text \<open>\<open>nneg x\<close>: NaN, or at least zero.  Squares are, and sums and quotients keep it.\<close>

definition nneg :: "f64 \<Rightarrow> bool" where
  "nneg x \<longleftrightarrow> x = NaN \<or> fle fzero x"

lemma nneg_simps [simp]: "nneg NaN" "nneg (Inf False)" "nneg NZero" "nneg (Fin q) \<longleftrightarrow> 0 \<le> q"
  "nneg (Inf True) \<longleftrightarrow> False"
  by (auto simp: nneg_def)

lemma nneg_rnd: "0 \<le> (x::'a::floor_ceiling) \<Longrightarrow> nneg (rnd x)"
  by (simp add: nneg_def fle_zero_rnd)

lemma nneg_zero_of [simp]: "nneg (zero_of s)"
  by (simp add: zero_of_def)

lemma nneg_fadd: "nneg x \<Longrightarrow> nneg y \<Longrightarrow> nneg (fadd x y)"
  by (cases x; cases y) (auto simp: nneg_rnd split: if_splits)

lemma nneg_square: "nneg (fmul x x)"
  by (cases x) (auto simp: nneg_rnd)

lemma nneg_fdiv_pos: "nneg x \<Longrightarrow> is_finite y \<Longrightarrow> 0 < qv y \<Longrightarrow> nneg (fdiv x y)"
  by (cases x; cases y) (auto simp: nneg_rnd)

lemma nneg_fsqrt: "nneg x \<Longrightarrow> nneg (fsqrt x)"
  using fsqrt_nonneg[of x] by (auto simp: nneg_def)

lemma nneg_sum_sq_dev: "nneg (sum_sq_dev m xs)"
  unfolding sum_sq_dev_def
  by (rule foldl_inv) (auto simp: Let_def intro: nneg_fadd nneg_square)

lemma f_of_int_fin:
  assumes "\<bar>n\<bar> < 2 ^ 53"
  shows "is_finite (f_of_int n)" and "qv (f_of_int n) = of_int n"
proof -
  have r: "rq (of_int n :: rat) = of_int n" using assms by (rule rq_of_int)
  have "(of_int \<bar>n\<bar> :: rat) < of_int (2 ^ 53)" using assms by (simp only: of_int_less_iff)
  then have "\<bar>of_int n :: rat\<bar> < overflow" by (simp add: overflow_def)
  then show "is_finite (f_of_int n)" "qv (f_of_int n) = of_int n"
    using rnd_finite[of "of_int n :: rat"] by (simp_all add: f_of_int_def r)
qed

lemma StdDev_nneg: "length xs < 2 ^ 53 \<Longrightarrow> nneg (StdDev xs)"
proof (cases "length xs < 2")
  case False
  assume "length xs < 2 ^ 53"
  with False have "\<bar>int (length xs) - 1\<bar> < 2 ^ 53" "1 \<le> int (length xs) - 1" by auto
  then show ?thesis
    using False f_of_int_fin[of "int (length xs) - 1"]
    by (auto simp: StdDev_def intro!: nneg_fsqrt nneg_fdiv_pos nneg_sum_sq_dev)
qed (simp add: StdDev_def)

section \<open>When the statistics are NaN\<close>

lemma Mean_empty [simp]: "Mean [] = NaN"
  by (simp add: Mean_def)

lemma StdDev_short [simp]: "length xs < 2 \<Longrightarrow> StdDev xs = NaN"
  by (simp add: StdDev_def)

lemma ZScore_short: "length xs < 2 \<Longrightarrow> ZScore x xs = NaN"
  by (simp add: ZScore_def)

lemma foldl_fadd_NaN: "foldl (\<lambda>s x. fadd s (g x)) NaN xs = NaN"
  by (induction xs) auto

lemma fsum_NaN: "NaN \<in> set xs \<Longrightarrow> fsum xs = NaN"
proof -
  have "NaN \<in> set xs \<Longrightarrow> foldl fadd a xs = NaN" for a
    by (induction xs arbitrary: a) (auto simp: foldl_fadd_NaN[of "\<lambda>x. x", simplified])
  then show "NaN \<in> set xs \<Longrightarrow> fsum xs = NaN" by (simp add: fsum_def)
qed

text \<open>A NaN observation makes every statistic of the series NaN.\<close>

lemma Mean_NaN: "NaN \<in> set xs \<Longrightarrow> Mean xs = NaN"
  by (simp add: Mean_def fsum_NaN)

lemma sum_sq_dev_NaN: "xs \<noteq> [] \<Longrightarrow> sum_sq_dev NaN xs = NaN"
  by (cases xs) (auto simp: sum_sq_dev_def foldl_fadd_NaN[of "\<lambda>x. NaN", simplified])

lemma StdDev_NaN: "NaN \<in> set xs \<Longrightarrow> StdDev xs = NaN"
  by (cases xs) (auto simp: StdDev_def Mean_NaN sum_sq_dev_NaN)

lemma ZScore_NaN: "NaN \<in> set xs \<Longrightarrow> ZScore x xs = NaN"
  by (simp add: ZScore_def StdDev_NaN)

section \<open>Bounds of sums, means and deviations\<close>

text \<open>\<open>dyadic a\<close>: zero or a signed power of two of moderate size; its multiples up to \<open>2^53\<close> are float64 values.\<close>

definition dyadic :: "rat \<Rightarrow> bool" where
  "dyadic a \<longleftrightarrow> (\<exists>m k. \<bar>m\<bar> \<le> 1 \<and> - 900 \<le> k \<and> k \<le> 900 \<and> a = of_int m * 2 powi k)"

lemma dyadic_powi [intro]: "- 900 \<le> k \<Longrightarrow> k \<le> 900 \<Longrightarrow> dyadic (2 powi k)"
  unfolding dyadic_def by (rule exI[of _ 1]) auto

lemma dyadic_0 [simp]: "dyadic 0"
  unfolding dyadic_def by (rule exI[of _ 0]) auto

lemma dyadic_1 [simp]: "dyadic 1"
  using dyadic_powi[of 0] by simp

lemma dyadic_2 [simp]: "dyadic 2"
  using dyadic_powi[of 1] by simp

lemma dyadic_neg [simp]: "dyadic (- a) \<longleftrightarrow> dyadic a"
proof -
  have "dyadic (- a)" if "dyadic a" for a
    using that unfolding dyadic_def
    by (metis abs_minus_cancel mult_minus_left of_int_minus)
  from this[of a] this[of "- a"] show ?thesis by auto
qed

lemma dyadic_times:
  assumes "dyadic a" and "n < 2 ^ 53"
  shows "rq (of_nat n * a) = of_nat n * a" and "\<bar>of_nat n * a\<bar> \<le> 2 powi 1023"
proof -
  obtain m k where a: "\<bar>m\<bar> \<le> 1" "- 900 \<le> k" "k \<le> 900" "a = of_int m * 2 powi k"
    using assms(1) by (auto simp: dyadic_def)
  have e: "of_nat n * a = of_int (int n * m) * 2 powi k" by (simp add: a(4))
  have "\<bar>int n * m\<bar> \<le> int n" using a(1) by (simp add: abs_mult mult_left_le)
  moreover have "int n < 2 ^ 53" using assms(2) by simp
  ultimately have l: "\<bar>int n * m\<bar> < 2 ^ 53" by (rule le_less_trans)
  show "rq (of_nat n * a) = of_nat n * a"
    unfolding e by (rule rq_exact) (use l a in auto)
  have "\<bar>of_nat n * a\<bar> = of_int \<bar>int n * m\<bar> * 2 powi k" unfolding e by (simp add: abs_mult)
  also have "\<dots> \<le> of_int (2 ^ 53) * 2 powi k"
    by (rule mult_right_mono) (use l in \<open>simp_all only: of_int_le_iff less_imp_le two_powi_pos\<close>)
  also have "\<dots> = 2 powi (53 + k)" by (simp add: two_powi_add)
  also have "\<dots> \<le> 2 powi 1023" using a by (simp only: two_powi_le_iff)
  finally show "\<bar>of_nat n * a\<bar> \<le> 2 powi 1023" .
qed

lemma dyadic_rq: "dyadic a \<Longrightarrow> rq a = a \<and> \<bar>a\<bar> \<le> 2 powi 1023"
  using dyadic_times[of a 1] by simp

lemma foldl_sum_in:
  assumes "dyadic a" "dyadic b" "length xs < 2 ^ 53" "\<And>x. x \<in> set xs \<Longrightarrow> fin_in a b (g x)"
  shows "fin_in (of_nat (length xs) * a) (of_nat (length xs) * b) (foldl (\<lambda>s x. fadd s (g x)) fzero xs)"
  using assms(3,4)
proof (induction xs rule: rev_induct)
  case (snoc x xs)
  have n: "length xs < 2 ^ 53" "Suc (length xs) < 2 ^ 53" using snoc.prems by auto
  let ?s = "foldl (\<lambda>s x. fadd s (g x)) fzero xs"
  have ih: "fin_in (of_nat (length xs) * a) (of_nat (length xs) * b) ?s" using snoc n by simp
  have eq: "of_nat (length xs) * c + c = of_nat (Suc (length xs)) * c" for c :: rat
    by (simp add: distrib_right)
  have "fin_in (of_nat (length xs) * a + a) (of_nat (length xs) * b + b) (fadd ?s (g x))"
    by (rule fadd_in[OF ih])
      (use snoc.prems in \<open>simp_all only: eq dyadic_times[OF assms(1) n(2)] dyadic_times[OF assms(2) n(2)],
        simp_all\<close>)
  then show ?case by (simp only: eq foldl_append length_append) simp
qed simp

lemma fsum_in:
  assumes "dyadic a" "dyadic b" "length xs < 2 ^ 53" "\<And>x. x \<in> set xs \<Longrightarrow> fin_in a b x"
  shows "fin_in (of_nat (length xs) * a) (of_nat (length xs) * b) (fsum xs)"
  using foldl_sum_in[of a b xs "\<lambda>x. x"] assms by (simp add: fsum_def)

lemma fdiv_nat_in:
  assumes "fin_in (of_nat n * a) (of_nat n * b) x" "0 < n" "n < 2 ^ 53" "dyadic a" "dyadic b"
  shows "fin_in a b (fdiv x (f_of_int (int n)))"
proof -
  have f: "is_finite (f_of_int (int n))" "qv (f_of_int (int n)) = of_nat n"
    using f_of_int_fin[of "int n"] assms(3) by auto
  have "a \<le> qv x / of_nat n" "qv x / of_nat n \<le> b"
    using assms(1,2) by (auto simp: fin_in_def field_simps)
  with fin_in_rnd_op[of a "qv x / of_nat n" b] dyadic_rq[OF assms(4)] dyadic_rq[OF assms(5)]
  have "\<bar>rq (qv x / of_nat n)\<bar> < overflow" "a \<le> rq (qv x / of_nat n)" "rq (qv x / of_nat n) \<le> b" by auto
  then show ?thesis using fdiv_fin[of x "f_of_int (int n)"] f assms(1,2) by (auto simp: fin_in_def)
qed

text \<open>The mean of values within dyadic bounds stays within them, rounding included.\<close>

lemma mean_in:
  assumes "xs \<noteq> []" "length xs < 2 ^ 53" "\<And>x. x \<in> set xs \<Longrightarrow> fin_in a b x" "dyadic a" "dyadic b"
  shows "fin_in a b (fdiv (fsum xs) (flen xs))"
  unfolding flen_def by (rule fdiv_nat_in) (use assms fsum_in[of a b xs] in auto)

lemma fmul_square_in:
  assumes "fin_in (- c) c d" "dyadic (c * c)"
  shows "fin_in 0 (c * c) (fmul d d)"
proof -
  have "\<bar>qv d\<bar> \<le> c" using assms(1) by (auto simp: fin_in_def abs_le_iff)
  then have "\<bar>qv d\<bar> * \<bar>qv d\<bar> \<le> c * c" by (intro mult_mono) auto
  then have "qv d * qv d \<le> c * c" by simp
  then show ?thesis
    using fin_in_rnd_op[of 0 "qv d * qv d" "c * c"] dyadic_rq[OF assms(2)] assms(1) fmul_fin[of d d]
    by (auto simp: fin_in_def less_imp_le)
qed

lemma sum_sq_dev_in:
  assumes "fin_in (- B) B m" "\<And>x. x \<in> set xs \<Longrightarrow> fin_in (- B) B x" "length xs < 2 ^ 53"
    "dyadic (2 * B)" "dyadic (2 * B * (2 * B))"
  shows "fin_in 0 (of_nat (length xs) * (2 * B * (2 * B))) (sum_sq_dev m xs)"
proof -
  have e: "- B - B = - (2 * B)" "B - - B = 2 * B" by simp_all
  have d: "fin_in (- (2 * B)) (2 * B) (fsub x m)" if "x \<in> set xs" for x
    using fsub_in[OF assms(2)[OF that] assms(1)] dyadic_rq[OF assms(4)]
    unfolding e by (simp add: rq_minus)
  show ?thesis
    unfolding sum_sq_dev_def Let_def
    using foldl_sum_in[OF dyadic_0 assms(5,3), of "\<lambda>x. fmul (fsub x m) (fsub x m)", OF fmul_square_in[OF d assms(5)]]
    by simp
qed

lemma fsqrt_fin:
  assumes "fin_in 0 (c * c) x" "0 \<le> c" "dyadic c"
  shows "fin_in 0 c (fsqrt x)"
proof (cases "qv x = 0")
  case True
  then show ?thesis using assms by (cases x) (auto simp: fin_in_def fsqrt_def)
next
  case False
  with assms(1) obtain q where x: "x = Fin q" "0 < q" "q \<le> c * c" by (cases x) (auto simp: fin_in_def)
  have "real_of_rat q \<le> (real_of_rat c)\<^sup>2" using x(3) by (simp add: power2_eq_square of_rat_less_eq flip: of_rat_mult)
  then have s: "sqrt (real_of_rat q) \<le> real_of_rat c" using assms(2) by (intro real_le_lsqrt) auto
  have "rq (sqrt (real_of_rat q)) \<le> rq (real_of_rat c)" using s by (rule rq_mono)
  then have u: "rq (sqrt (real_of_rat q)) \<le> c" using dyadic_rq[OF assms(3)] by (simp add: rq_of_rat)
  have "0 \<le> rq (sqrt (real_of_rat q))" by (rule rq_nonneg) (use x in simp)
  moreover have "c < overflow" using rq_small[of c] dyadic_rq[OF assms(3)] by auto
  ultimately show ?thesis
    using u rnd_finite[of "sqrt (real_of_rat q)"] x by (simp add: fsqrt_correctly_rounded fin_in_def)
qed

text \<open>The sample standard deviation of values in \<open>[-B, B]\<close> is finite and at most \<open>4 B\<close>.\<close>

lemma sample_dev_in:
  assumes "fin_in (- B) B m" "\<And>x. x \<in> set xs \<Longrightarrow> fin_in (- B) B x" "2 \<le> length xs" "length xs < 2 ^ 52"
    "B = 2 powi k" "- 400 \<le> k" "k \<le> 400"
  shows "fin_in 0 (4 * B) (fsqrt (fdiv (sum_sq_dev m xs) (f_of_int (int (length xs) - 1))))"
proof -
  have p: "2 * B = 2 powi (k + 1)" "4 * B = 2 powi (k + 2)" "4 * B * (4 * B) = 2 powi (2 * k + 4)"
    "2 * B * (2 * B) = 2 powi (2 * k + 2)"
  proof -
    show "2 * B = 2 powi (k + 1)" "4 * B = 2 powi (k + 2)" by (simp_all add: assms(5) two_powi_add)
    then show "4 * B * (4 * B) = 2 powi (2 * k + 4)" "2 * B * (2 * B) = 2 powi (2 * k + 2)"
      by (simp_all flip: two_powi_add)
  qed
  have n: "int (length xs) - 1 = int (length xs - 1)" "0 < length xs - 1" "length xs - 1 < 2 ^ 53"
    using assms(3,4) by auto
  have s: "fin_in 0 (of_nat (length xs) * (2 * B * (2 * B))) (sum_sq_dev m xs)"
    by (rule sum_sq_dev_in) (use assms p in auto)
  have "of_nat (length xs) \<le> (of_nat (4 * (length xs - 1)) :: rat)" using assms(3) by (simp only: of_nat_le_iff)
  then have "of_nat (length xs) * (2 * B * (2 * B)) \<le> of_nat (4 * (length xs - 1)) * (2 * B * (2 * B))"
    by (rule mult_right_mono) (simp add: p)
  also have "\<dots> = of_nat (length xs - 1) * (4 * B * (4 * B))" by simp
  finally have "fin_in (of_nat (length xs - 1) * 0) (of_nat (length xs - 1) * (4 * B * (4 * B))) (sum_sq_dev m xs)"
    using s by (auto simp: fin_in_def mult_ac)
  moreover have dy: "dyadic (4 * B * (4 * B))" "dyadic (4 * B)"
    using dyadic_powi[of "2 * k + 4"] dyadic_powi[of "k + 2"] assms(6,7) by (simp_all only: p(3), simp add: p(2))
  ultimately have "fin_in 0 (4 * B * (4 * B)) (fdiv (sum_sq_dev m xs) (f_of_int (int (length xs) - 1)))"
    unfolding n(1) by (intro fdiv_nat_in n dyadic_0)
  then show ?thesis by (rule fsqrt_fin) (simp_all only: dy, simp add: assms(5) less_imp_le)
qed

context go_libm
begin

lemma TanhSquash_range: "TanhSquash M z scale = NaN \<or> fin_in (- 1) 1 (TanhSquash M z scale)"
proof (cases "fdiv z scale = NaN")
  case True
  then show ?thesis by (simp add: TanhSquash_def)
next
  case False
  then show ?thesis using tanh_range[OF False] by (auto simp: TanhSquash_def)
qed

lemma BSGamma_usable: "\<not> isNaN (BSGamma M s k iv n r) \<and> \<not> isInf (BSGamma M s k iv n r)"
  by (auto simp: BSGamma_def Let_def)

end

end
