(* ===== verification/RegimePipeline.thy ===== *)
theory RegimePipeline
  imports MathStats
begin

text \<open>
  The aggregation core, \<open>internal/regime\<close> (\<open>config.go\<close>, \<open>domains.go\<close>, \<open>smoothing.go\<close>,
  \<open>pipeline.go\<close>): redistribution of the domain weights over the domains present, normalisation of
  the scores, the weighted sums, transition risk, smoothing, the final probabilities and the top
  drivers.  A \<open>range\<close> over a map takes its visiting order \<open>ks\<close> as an argument.
\<close>

section \<open>Configuration\<close>

record regime_config =
  rc_model_version :: string
  rc_config_version :: string
  rc_code_sha :: string
  rc_weights :: "(domain_code \<rightharpoonup> f64) option"
  rc_sigmoid_k :: f64
  rc_roc_window :: int
  rc_roc_weight :: f64
  rc_div_weight :: f64
  rc_baseline :: f64
  rc_min_coverage :: f64
  rc_norm_lookback :: int
  rc_norm_min_samples :: int
  rc_span :: int

definition default_weights :: "domain_code \<rightharpoonup> f64" where
  "default_weights = map_of [(DomainLiquidity, lit (25 / 100)), (DomainLeverage, lit (20 / 100)),
     (DomainMarketStress, lit (20 / 100)), (DomainCapitalFlows, lit (20 / 100)),
     (DomainVolatility, lit (15 / 100))]"

definition or_default :: "f64 \<Rightarrow> f64 \<Rightarrow> f64" where
  "or_default x d = (if feq x fzero then d else x)"

definition or_default_int :: "int \<Rightarrow> int \<Rightarrow> int" where
  "or_default_int x d = (if x = 0 then d else x)"

definition Config_Defaults :: "regime_config \<Rightarrow> regime_config" where
  "Config_Defaults c = c\<lparr>
     rc_weights := (case rc_weights c of None \<Rightarrow> Some default_weights | Some w \<Rightarrow> Some w),
     rc_sigmoid_k := or_default (rc_sigmoid_k c) (lit (15 / 10)),
     rc_roc_window := or_default_int (rc_roc_window c) 14,
     rc_roc_weight := or_default (rc_roc_weight c) (lit (7 / 10)),
     rc_div_weight := or_default (rc_div_weight c) (lit (3 / 10)),
     rc_baseline := or_default (rc_baseline c) (lit (30 / 100)),
     rc_min_coverage := or_default (rc_min_coverage c) (lit (6 / 10)),
     rc_norm_lookback := or_default_int (rc_norm_lookback c) 365,
     rc_norm_min_samples := or_default_int (rc_norm_min_samples c) 60,
     rc_span := or_default_int (rc_span c) 21\<rparr>"

definition DefaultConfig :: regime_config where
  "DefaultConfig = Config_Defaults \<lparr>rc_model_version = [], rc_config_version = [], rc_code_sha = [],
     rc_weights = None, rc_sigmoid_k = fzero, rc_roc_window = 0, rc_roc_weight = fzero,
     rc_div_weight = fzero, rc_baseline = fzero, rc_min_coverage = fzero, rc_norm_lookback = 0,
     rc_norm_min_samples = 0, rc_span = 0\<rparr>"

definition cfg_weights :: "regime_config \<Rightarrow> domain_code \<rightharpoonup> f64" where
  "cfg_weights c = (case rc_weights c of None \<Rightarrow> Map.empty | Some w \<Rightarrow> w)"

section \<open>Coverage\<close>

definition presentSet :: "(domain_code \<rightharpoonup> f64) \<Rightarrow> domain_code \<rightharpoonup> bool" where
  "presentSet scores = map_of (map (\<lambda>d. (d, scores d \<noteq> None)) AllDomains)"

text \<open>\<open>len(scores)\<close> of a Go map is the number of its keys.\<close>

definition coverageFraction :: "(domain_code \<rightharpoonup> f64) \<Rightarrow> f64" where
  "coverageFraction scores = fdiv (f_of_int (int (card (dom scores)))) (flen AllDomains)"

section \<open>Arithmetic helpers of the package\<close>

definition sigmoid :: "libm \<Rightarrow> f64 \<Rightarrow> f64" where
  "sigmoid M x = fdiv fone (fadd fone (m_exp M (fneg x)))"

definition clip :: "f64 \<Rightarrow> f64 \<Rightarrow> f64 \<Rightarrow> f64" where
  "clip x lo hi = (if flt x lo then lo else if flt hi x then hi else x)"

definition mean :: "f64 list \<Rightarrow> f64" where
  "mean xs = (if xs = [] then fzero else fdiv (fsum xs) (flen xs))"

definition stddev :: "f64 list \<Rightarrow> f64" where
  "stddev xs = (if length xs < 2 then fzero
     else fsqrt (fdiv (sum_sq_dev (mean xs) xs) (f_of_int (int (length xs) - 1))))"

definition signf :: "f64 \<Rightarrow> f64" where
  "signf x = (if flt fzero x then fone else if flt x fzero then fneg fone else fzero)"

section \<open>Smoothing\<close>

definition alphaFromSpan :: "int \<Rightarrow> f64" where
  "alphaFromSpan n = (if n \<le> 1 then fone else fdiv (lit 2) (fadd (f_of_int n) fone))"

definition ema_step :: "f64 \<Rightarrow> f64 \<Rightarrow> f64 \<Rightarrow> f64" where
  "ema_step alpha x ema = fadd (fmul alpha x) (fmul (fsub fone alpha) ema)"

definition emaSmooth :: "f64 \<Rightarrow> f64 list \<Rightarrow> int \<Rightarrow> f64" where
  "emaSmooth raw prev n =
     (if n \<le> 1 then raw
      else case prev of [] \<Rightarrow> raw
        | p # ps \<Rightarrow> let alpha = alphaFromSpan n;
                       ema = foldl (\<lambda>ema x. ema_step alpha x ema) p ps
                   in ema_step alpha raw ema)"

section \<open>Weights, normalisation, weighted sums\<close>

definition redistributeWeights ::
  "domain_code list \<Rightarrow> (domain_code \<rightharpoonup> f64) \<Rightarrow> (domain_code \<rightharpoonup> bool) \<Rightarrow> domain_code \<rightharpoonup> f64" where
  "redistributeWeights ks nominal present =
     (let sumPresent = foldl (\<lambda>s d. if mget False present d then fadd s (mget fzero nominal d) else s) fzero ks
      in if feq sumPresent fzero then nominal
         else (\<lambda>d. case nominal d of None \<Rightarrow> None
                   | Some w \<Rightarrow> if mget False present d then Some (fdiv w sumPresent) else None))"

definition normalizeScores ::
  "(domain_code \<rightharpoonup> f64) \<Rightarrow> (domain_code \<rightharpoonup> f64 list) \<Rightarrow> int \<Rightarrow> domain_code \<rightharpoonup> f64" where
  "normalizeScores scores histories minSamples = (\<lambda>d. case scores d of None \<Rightarrow> None
     | Some s \<Rightarrow> let hist = mget [] histories d
                in if int (length hist) < minSamples then Some s
                   else let m = mean hist; sd = stddev hist
                        in if feq sd fzero then Some s else Some (fdiv (fsub s m) sd))"

definition weightedSumRaw ::
  "domain_code list \<Rightarrow> (domain_code \<rightharpoonup> f64) \<Rightarrow> (domain_code \<rightharpoonup> f64) \<Rightarrow> f64" where
  "weightedSumRaw ks scores weights =
     foldl (\<lambda>raw d. fadd raw (fmul (mget fzero weights d) (mget fzero scores d))) fzero ks"

definition weightedSumNormalized ::
  "domain_code list \<Rightarrow> (domain_code \<rightharpoonup> f64) \<Rightarrow> (domain_code \<rightharpoonup> f64) \<Rightarrow> (domain_code \<rightharpoonup> f64) \<times> f64 \<times> f64" where
  "weightedSumNormalized ks nrm weights =
     (let contributions = (\<lambda>d. map_option (\<lambda>w. fmul w (mget fzero nrm d)) (weights d));
          total = foldl (\<lambda>s d. fadd s (mget fzero contributions d)) fzero ks
      in (contributions, clip total (lit (- 2)) (lit 2), total))"

section \<open>Transition risk\<close>

record transition_inputs =
  ti_normalized :: "domain_code \<rightharpoonup> f64"
  ti_roc :: "f64 list"
  ti_hist_rocs :: "f64 list"
  ti_hist_divs :: "f64 list"
  ti_same_direction :: bool
  ti_checked :: bool

text \<open>The z-score of today's value, or its fallback when the history is short.\<close>

definition hist_z :: "f64 list \<Rightarrow> f64 \<Rightarrow> f64 \<Rightarrow> f64" where
  "hist_z hist v fallback =
     (if 10 \<le> length hist then
        let m = mean hist; sd = stddev hist in if flt fzero sd then fdiv (fsub v m) sd else fzero
      else fallback)"

definition norm_vals :: "(domain_code \<rightharpoonup> f64) \<Rightarrow> f64 list" where
  "norm_vals nrm = List.map_filter nrm AllDomains"

definition computeTransitionRisk :: "libm \<Rightarrow> transition_inputs \<Rightarrow> regime_config \<Rightarrow> f64" where
  "computeTransitionRisk M inp cfg =
     (let meanRoc = (if ti_roc inp \<noteq> [] then mean (ti_roc inp) else fzero);
          normVals = norm_vals (ti_normalized inp);
          divergence = (if 2 \<le> length normVals then stddev normVals else fzero);
          rocZ = hist_z (ti_hist_rocs inp) meanRoc (fmul meanRoc (lit 10));
          divZ = hist_z (ti_hist_divs inp) divergence divergence;
          discount = (if ti_checked inp \<and> ti_same_direction inp then lit (7 / 10) else lit 1);
          raw = fadd (fmul (rc_roc_weight cfg) (m_tanh M (fdiv (fabs rocZ) (lit 2))))
                     (fmul (rc_div_weight cfg) (m_tanh M (fdiv (fabs divZ) (lit 2))));
          b0 = rc_baseline cfg;
          baseline = (if flt b0 fzero \<or> fle fone b0 then fzero else b0);
          shifted = (if flt fzero baseline then fdiv (fsub raw baseline) (fsub fone baseline) else raw)
      in clip (fmul discount (clip shifted fzero fone)) fzero fone)"

text \<open>Points of the series by formatted date; a later point of the same day wins.\<close>

definition indByDate :: "indicator_point list \<Rightarrow> string \<rightharpoonup> f64" where
  "indByDate series = foldl (\<lambda>m p. m(fmt_day (ip_value_date p) \<mapsto> ip_indicator p)) Map.empty series"

definition roc_at :: "(string \<rightharpoonup> f64) \<Rightarrow> gotime \<Rightarrow> int \<Rightarrow> f64 list" where
  "roc_at m d w = (case (m (fmt_day d), m (fmt_day (add_days d (- w)))) of
      (Some cu, Some prev) \<Rightarrow> [fdiv (fabs (fsub cu prev)) (f_of_int w)] | _ \<Rightarrow> [])"

definition div_at :: "(string \<rightharpoonup> f64) \<Rightarrow> gotime \<Rightarrow> f64 list" where
  "div_at m d = (let window = List.map_filter (\<lambda>j. m (fmt_day (add_days d j))) [-3 .. 3]
                 in if 2 \<le> length window then [stddev window] else [])"

definition computeHistoricalRocDiv ::
  "indicator_point list \<Rightarrow> gotime \<Rightarrow> int \<Rightarrow> int \<Rightarrow> f64 list \<times> f64 list" where
  "computeHistoricalRocDiv series valueDate rocWindowDays lookbackDays =
     (let m = indByDate series; ds = map (\<lambda>i. add_days valueDate (- (int i + 1))) [0 ..< nat lookbackDays]
      in (concat (map (\<lambda>d. roc_at m d rocWindowDays) ds), concat (map (div_at m) ds)))"

section \<open>Probabilities and drivers\<close>

definition finalProbabilities :: "libm \<Rightarrow> f64 \<Rightarrow> f64 \<Rightarrow> f64 \<Rightarrow> f64 \<times> f64" where
  "finalProbabilities M indicator transitionRisk sigmoidK =
     (let baselineOn = sigmoid M (fmul sigmoidK indicator)
      in (fmul (fsub fone transitionRisk) baselineOn,
          fmul (fsub fone transitionRisk) (fsub fone baselineOn)))"

definition buildTopDrivers :: "domain_code list \<Rightarrow> (domain_code \<rightharpoonup> f64) \<Rightarrow> top_driver list" where
  "buildTopDrivers ks contributions =
     (let entries = map (\<lambda>d. let c = mget fzero contributions d in (d, c, fabs c)) ks;
          absSum = foldl (\<lambda>s (d, c, a). fadd s a) fzero entries;
          sorted = sort_slice (\<lambda>(_, _, a) (_, _, b). flt b a) entries
      in map (\<lambda>(d, c, a). \<lparr>td_domain = d, td_contribution = c,
                td_share = (if flt fzero absSum then fdiv a absSum else fzero)\<rparr>) sorted)"

section \<open>The exported wrappers\<close>

definition RedistributeWeights where "RedistributeWeights = redistributeWeights"
definition NormalizeScores where "NormalizeScores = normalizeScores"
definition WeightedSumRaw where "WeightedSumRaw = weightedSumRaw"
definition WeightedSumNormalized where "WeightedSumNormalized = weightedSumNormalized"
definition ComputeTransitionRisk where "ComputeTransitionRisk = computeTransitionRisk"
definition ComputeHistoricalRocDiv where "ComputeHistoricalRocDiv = computeHistoricalRocDiv"
definition EmaSmooth where "EmaSmooth = emaSmooth"
definition FinalProbabilities where "FinalProbabilities = finalProbabilities"
definition BuildTopDrivers where "BuildTopDrivers = buildTopDrivers"
definition PresentSet where "PresentSet = presentSet"
definition CoverageFraction where "CoverageFraction = coverageFraction"
definition SignF where "SignF = signf"
definition Clip where "Clip = clip"

lemmas exported_defs [simp] = RedistributeWeights_def NormalizeScores_def WeightedSumRaw_def
  WeightedSumNormalized_def ComputeTransitionRisk_def ComputeHistoricalRocDiv_def EmaSmooth_def
  FinalProbabilities_def BuildTopDrivers_def PresentSet_def CoverageFraction_def SignF_def Clip_def


section \<open>Clipping and the sigmoid\<close>

lemma clip_NaN [simp]: "clip NaN lo hi = NaN"
  by (simp add: clip_def)

lemma clip_range: "a \<le> b \<Longrightarrow> x \<noteq> NaN \<Longrightarrow> fin_in a b (clip x (Fin a) (Fin b))"
  by (cases x) (auto simp: clip_def fin_in_def)

lemma clip_id: "fin_in a b x \<Longrightarrow> clip x (Fin a) (Fin b) = x"
  by (cases x) (auto simp: clip_def fin_in_def)

lemma clip_idem: "a \<le> b \<Longrightarrow> clip (clip x (Fin a) (Fin b)) (Fin a) (Fin b) = clip x (Fin a) (Fin b)"
  by (cases "x = NaN") (simp_all add: clip_id clip_range)

lemma clip_mono:
  assumes "a \<le> b" and "fle x y"
  shows "fle (clip x (Fin a) (Fin b)) (clip y (Fin a) (Fin b))"
  using assms by (cases x; cases y) (auto simp: clip_def)

context go_libm
begin

lemma sigmoid_range: "x \<noteq> NaN \<Longrightarrow> fin_in 0 1 (sigmoid M x)"
proof -
  assume "x \<noteq> NaN"
  then have "fneg x \<noteq> NaN" by (cases x) auto
  then have e: "fle fzero (m_exp M (fneg x))" by (rule exp_nonneg)
  define e1 where "e1 = fadd fone (m_exp M (fneg x))"
  have "fle fone e1"
  proof (cases "m_exp M (fneg x)")
    case (Fin q)
    with e have q: "0 \<le> q" by simp
    have "1 \<le> rq (1 + q)" using rq_mono[of 1 "1 + q"] q by simp
    then show ?thesis using Fin q by (auto simp: e1_def rnd_def Let_def)
  next
    case NZero
    then show ?thesis by (simp add: e1_def)
  qed (use e in \<open>auto simp: e1_def\<close>)
  then show ?thesis
  proof (cases e1)
    case (Fin q)
    with \<open>fle fone e1\<close> have q: "1 \<le> q" by simp
    then have "fin_in 0 1 (rnd (1 / q))"
      using fin_in_rnd_op[of 0 "1 / q" 1] rnd_finite[of "1 / q"] by (auto simp: fin_in_def less_imp_le)
    with q show ?thesis by (simp add: sigmoid_def Fin flip: e1_def)
  qed (auto simp: sigmoid_def fin_in_def zero_of_def simp flip: e1_def)
qed

end

lemma split_unit_error:
  fixes s t s' a p q e :: rat
  assumes "0 \<le> a" "a \<le> 1" "0 \<le> e" "\<bar>s' - (1 - s)\<bar> \<le> e" "\<bar>a - (1 - t)\<bar> \<le> e"
    "\<bar>p - a * s\<bar> \<le> e" "\<bar>q - a * s'\<bar> \<le> e"
  shows "\<bar>p + q + t - 1\<bar> \<le> 4 * e"
proof -
  have "\<bar>a * (s' - (1 - s))\<bar> \<le> e" using assms(1-4) by (intro mult_in_unit)
  then have "\<bar>a * s + a * s' - a\<bar> \<le> e" by (simp add: algebra_simps)
  then show ?thesis using assms(5-7) by linarith
qed

section \<open>Exponential smoothing\<close>

lemma alpha_range:
  assumes "2 \<le> n" "n < 2 ^ 52"
  shows "fin_in (1 / 2 ^ 53) 1 (alphaFromSpan n)"
proof -
  have l2: "lit 2 = Fin 2" by (simp add: f64_eval)
  have f: "is_finite (f_of_int n)" "qv (f_of_int n) = of_int n" using f_of_int_fin[of n] assms by auto
  have r: "rq (of_int n + 1 :: rat) = of_int n + 1" using rq_of_int[of "n + 1", where 'a = rat] assms by simp
  have "(of_int 2 :: rat) \<le> of_int n" "of_int n \<le> (of_int (2 ^ 52) :: rat)"
    using assms by (simp_all only: of_int_le_iff less_imp_le)
  then have n2: "(2::rat) \<le> of_int n" "of_int n \<le> (2::rat) ^ 52" by simp_all
  have "of_int n + 1 \<le> (2 powi 1023 :: rat)"
    using n2(2) two_powi_le_iff[of 53 1023, where 'a = rat] by simp
  then have n53: "\<bar>of_int n + 1 :: rat\<bar> < overflow" using rq_small[of "of_int n + 1 :: rat"] n2(1) r by simp
  have d: "is_finite (fadd (f_of_int n) fone)" "qv (fadd (f_of_int n) fone) = of_int n + 1"
    using fadd_fin[of "f_of_int n" fone] f r n53 by simp_all
  have "1 / 2 ^ 53 \<le> 2 / (of_int n + 1 :: rat)" "2 / (of_int n + 1 :: rat) \<le> 1"
    using n2 by (simp_all add: pos_le_divide_eq pos_divide_le_eq)
  moreover have "rq (1 / 2 ^ 53 :: rat) = 1 / 2 ^ 53"
    using rq_powi[of "- 53", where 'a = rat] by (simp add: power_int_minus_divide)
  ultimately have "\<bar>rq (2 / (of_int n + 1 :: rat))\<bar> < overflow \<and> 1 / 2 ^ 53 \<le> rq (2 / (of_int n + 1 :: rat))
      \<and> rq (2 / (of_int n + 1 :: rat)) \<le> 1"
    by (intro fin_in_rnd_op) (simp_all add: less_imp_le)
  then show ?thesis
    using fdiv_fin[of "Fin 2" "fadd (f_of_int n) fone"] d n2 assms
    by (auto simp: alphaFromSpan_def l2 fin_in_def)
qed

lemma ema_step_in:
  assumes "fin_in 0 1 alpha" "is_f64 alpha" "fin_in l B x" "fin_in l B e" "B = 2 powi k" "0 \<le> k" "k \<le> 900"
    "l = 0 \<or> l = - B"
  shows "fin_in l B (ema_step alpha x e)"
proof -
  let ?a = "qv alpha" and ?b = "qv (fsub fone alpha)"
  have "2 * B = 2 powi (1 + k)" by (simp add: assms(5) two_powi_add)
  also have "\<dots> \<le> 2 powi 1023" using assms(7) by (simp only: two_powi_le_iff)
  finally have B2: "2 * B \<le> 2 powi 1023" .
  have B0: "0 \<le> B" "rq B = B" using assms(5,6) by (simp_all add: less_imp_le rq_powi)
  have sym: "fin_in (- B) B x" "fin_in (- B) B e" using assms(3,4,8) B0(1) by (auto simp: fin_in_def)
  then have xe: "is_finite x" "is_finite e" "\<bar>qv x\<bar> \<le> B" "\<bar>qv e\<bar> \<le> B"
    by (auto simp: fin_in_def abs_le_iff)
  have b: "fin_in 0 1 (fsub fone alpha)" using assms(1) by (rule one_minus_unit)
  have ab: "?a + ?b \<le> 1 + 1 / 2 ^ 54" using one_minus_error[OF assms(1)] by linarith
  have r: "rq ?a = ?a" "rq ?b = ?b" by (rule is_f64_qv, fact assms(2)) (rule is_f64_qv, rule is_f64_sub, rule is_f64_small_int, fact assms(2))
  have p: "is_finite alpha" "0 \<le> ?a" "?a \<le> 1" "is_finite (fsub fone alpha)" "0 \<le> ?b" "?b \<le> 1"
    using assms(1) b by (auto simp: fin_in_def)
  have "B \<le> 2 powi 1023" using B0(1) B2 by linarith
  note m = fmul_unit_in[OF assms(1) sym(1) B0(2) this] fmul_unit_in[OF b sym(2) B0(2) this]
  have sm: "\<bar>rq (?a * qv x)\<bar> < overflow" "\<bar>rq (?b * qv e)\<bar> < overflow"
    using mult_in_unit[OF p(2,3) xe(3)] mult_in_unit[OF p(5,6) xe(4)] \<open>B \<le> 2 powi 1023\<close>
    by (meson rq_small order_trans)+
  have v: "qv (fmul alpha x) = rq (?a * qv x)" "qv (fmul (fsub fone alpha) e) = rq (?b * qv e)"
    using fmul_fin[OF p(1) xe(1) sm(1)] fmul_fin[OF p(4) xe(2) sm(2)] by simp_all
  let ?s = "rq (?a * qv x) + rq (?b * qv e)"
  have "\<bar>?s\<bar> \<le> 2 * B" using m by (auto simp: fin_in_def v abs_le_iff)
  then have s: "\<bar>rq ?s\<bar> < overflow" using B2 by (meson rq_small order_trans)
  have res: "is_finite (ema_step alpha x e)" "qv (ema_step alpha x e) = rq ?s"
    using fadd_fin[of "fmul alpha x" "fmul (fsub fone alpha) e"] m s by (simp_all add: ema_step_def fin_in_def v)
  note cv = rq_convex_le[OF r(1) p(2) r(2) p(5) ab assms(5,6)]
  have up: "rq ?s \<le> B" using assms(3,4) by (intro cv) (auto simp: fin_in_def)
  have lo: "l \<le> rq ?s"
  proof (cases "l = 0")
    case True
    then have "0 \<le> rq (?a * qv x)" "0 \<le> rq (?b * qv e)"
      using assms(3,4) p by (auto simp: fin_in_def intro!: rq_nonneg)
    then show ?thesis using True by (simp add: rq_nonneg)
  next
    case False
    have "rq (rq (?a * - qv x) + rq (?b * - qv e)) \<le> B" using xe by (intro cv) (auto simp: abs_le_iff)
    also have "rq (?a * - qv x) + rq (?b * - qv e) = - ?s" by (simp add: rq_minus)
    finally show ?thesis using False assms(8) by (simp only: rq_minus) simp
  qed
  show ?thesis using up lo res by (simp add: fin_in_def)
qed

lemma is_f64_alpha [simp]: "is_f64 (alphaFromSpan n)"
  by (simp add: alphaFromSpan_def overflow_def)

lemma alpha_unit: "n < 2 ^ 52 \<Longrightarrow> fin_in 0 1 (alphaFromSpan n)"
  using alpha_range[of n] by (cases "n \<le> 1") (auto simp: alphaFromSpan_def fin_in_def intro: order_trans[rotated])

text \<open>The exponential average of values in a range stays in the range, for \<open>[0, 2^k]\<close> and \<open>[-2^k, 2^k]\<close>.\<close>

lemma emaSmooth_in:
  assumes "fin_in l B raw" "\<And>p. p \<in> set prev \<Longrightarrow> fin_in l B p" "n < 2 ^ 52"
    "B = 2 powi k" "0 \<le> k" "k \<le> 900" "l = 0 \<or> l = - B"
  shows "fin_in l B (emaSmooth raw prev n)"
proof -
  note st = ema_step_in[OF alpha_unit[OF assms(3)] is_f64_alpha _ _ assms(4-7)]
  have "fin_in l B (foldl (\<lambda>ema x. ema_step (alphaFromSpan n) x ema) p ps)" if "prev = p # ps" for p ps
    by (rule foldl_inv) (use assms(2) that in \<open>auto intro: st\<close>)
  then show ?thesis using assms(1) by (auto simp: emaSmooth_def Let_def split: list.splits intro: st)
qed

lemma emaSmooth_no_history [simp]: "emaSmooth raw [] n = raw" "n \<le> 1 \<Longrightarrow> emaSmooth raw prev n = raw"
  by (simp_all add: emaSmooth_def)

section \<open>The final probabilities\<close>

context go_libm
begin

lemma finalProbabilities_range:
  assumes "fin_in 0 1 tr" "fmul k ind \<noteq> NaN"
  shows "fin_in 0 1 (fst (finalProbabilities M ind tr k))" and "fin_in 0 1 (snd (finalProbabilities M ind tr k))"
  using assms sigmoid_range[OF assms(2)]
  by (auto simp: finalProbabilities_def Let_def intro!: fmul_unit_unit one_minus_unit)

lemma finalProbabilities_sum:
  assumes "fin_in 0 1 tr" "fmul k ind \<noteq> NaN"
  shows "\<bar>qv (fst (finalProbabilities M ind tr k)) + qv (snd (finalProbabilities M ind tr k)) + qv tr - 1\<bar> \<le> 1 / 2 ^ 52"
proof -
  let ?s = "sigmoid M (fmul k ind)" and ?a = "fsub fone tr"
  have s: "fin_in 0 1 ?s" by (rule sigmoid_range) (fact assms(2))
  have a: "fin_in 0 1 ?a" "fin_in 0 1 (fsub fone ?s)" using assms(1) s by (simp_all add: one_minus_unit)
  have "\<bar>qv (fmul ?a ?s) + qv (fmul ?a (fsub fone ?s)) + qv tr - 1\<bar> \<le> 4 * (1 / 2 ^ 54)"
    by (rule split_unit_error[OF _ _ _ one_minus_error[OF s] one_minus_error[OF assms(1)]
          fmul_unit_error[OF a(1) s] fmul_unit_error[OF a]])
      (use a(1) in \<open>auto simp: fin_in_def\<close>)
  then show ?thesis by (simp add: finalProbabilities_def Let_def)
qed

end

section \<open>Transition risk\<close>

lemma computeTransitionRisk_range:
  "computeTransitionRisk M inp cfg = NaN \<or> fin_in 0 1 (computeTransitionRisk M inp cfg)"
proof -
  have "clip x fzero fone = NaN \<or> fin_in 0 1 (clip x fzero fone)" for x
    using clip_range[of 0 1 x] by (cases "x = NaN") auto
  then show ?thesis by (auto simp: computeTransitionRisk_def Let_def)
qed

lemma lit_consts: "lit (7 / 10) = Fin (3152519739159347 / 4503599627370496)" "lit 1 = fone" "lit 2 = Fin 2" "lit 10 = Fin 10"
  "lit (3 / 10) = Fin (5404319552844595 / 18014398509481984)" "lit (- 2) = Fin (- 2)" "lit (6 / 10) = Fin (5404319552844595 / 9007199254740992)"
  by (simp_all add: f64_eval)

text \<open>When the momentum agrees in all domains, at most 0.7 of the risk is reported.\<close>

lemma computeTransitionRisk_discount:
  assumes "ti_checked inp" "ti_same_direction inp"
  shows "\<not> flt (lit (7 / 10)) (computeTransitionRisk M inp cfg)"
proof -
  let ?c = "Fin (3152519739159347 / 4503599627370496)"
  have "\<not> flt ?c (clip (fmul ?c (clip x fzero fone)) fzero fone)" for x
  proof (cases "x = NaN")
    case False
    then have u: "fin_in 0 1 (clip x fzero fone)" by (simp add: clip_range)
    define y where "y = clip x fzero fone"
    have "qv ?c * qv y \<le> qv ?c" using u by (auto simp: fin_in_def y_def)
    then have "rq (qv ?c * qv y) \<le> rq (qv ?c)" by (rule rq_mono)
    moreover have "rq (qv ?c) = qv ?c" by (simp add: f64_eval)
    moreover have "fin_in 0 1 (fmul ?c y)" using u unfolding y_def by (intro fmul_unit_unit) auto
    ultimately have "fin_in 0 (3152519739159347 / 4503599627370496) (fmul ?c y)"
      using fmul_fin[of ?c y] fin_in_rnd_op[of 0 "qv ?c * qv y" 1] u by (auto simp: fin_in_def y_def mult_le_one less_imp_le)
    moreover then have "clip (fmul ?c y) fzero fone = fmul ?c y" by (intro clip_id) (auto simp: fin_in_def)
    ultimately show ?thesis unfolding y_def[symmetric] by (cases "fmul ?c y") (auto simp: fin_in_def)
  qed simp
  then show ?thesis using assms by (simp add: computeTransitionRisk_def Let_def lit_consts)
qed

lemma regime_mean_in:
  assumes "length xs < 2 ^ 53" "\<And>x. x \<in> set xs \<Longrightarrow> fin_in a b x" "dyadic a" "dyadic b" "a \<le> 0" "0 \<le> b"
  shows "fin_in a b (mean xs)"
  using mean_in[of xs a b] assms by (auto simp: mean_def)

lemma regime_stddev_in:
  assumes "\<And>x. x \<in> set xs \<Longrightarrow> fin_in (- B) B x" "length xs < 2 ^ 52" "B = 2 powi k" "- 400 \<le> k" "k \<le> 400"
  shows "fin_in 0 (4 * B) (stddev xs)"
proof (cases "length xs < 2")
  case True
  then show ?thesis using assms(3) by (simp add: stddev_def less_imp_le)
next
  case False
  have B: "dyadic B" "0 \<le> B" using assms(3-5) by (auto simp: less_imp_le)
  have "fin_in (- B) B (mean xs)" by (rule regime_mean_in) (use assms(1,2) B in auto)
  then show ?thesis using False assms by (simp add: stddev_def sample_dev_in)
qed

context go_libm
begin

lemma tanh_half_unit: "z \<noteq> NaN \<Longrightarrow> fin_in 0 1 (m_tanh M (fdiv (fabs z) (lit 2)))"
  by (rule tanh_unit) (cases z; auto simp: lit_consts fle_zero_rnd fabs_def zero_of_def)

lemma risk_raw_in:
  assumes "fin_in 0 1 w" "fin_in 0 1 v" "y \<noteq> NaN" "z \<noteq> NaN"
  shows "fin_in 0 2 (fadd (fmul w (m_tanh M (fdiv (fabs y) (lit 2)))) (fmul v (m_tanh M (fdiv (fabs z) (lit 2)))))"
  using fadd_in[of 0 1 _ 0 1, OF fmul_unit_unit[OF assms(1) tanh_half_unit[OF assms(3)]]
      fmul_unit_unit[OF assms(2) tanh_half_unit[OF assms(4)]]]
    rq_of_int[of 2, where 'a = rat] two_powi_le_iff[of 1 1023, where 'a = rat] by simp

end

section \<open>Weights\<close>

lemma foldl_if_filter: "foldl (\<lambda>s d. if P d then f s d else s) a ks = foldl f a (filter P ks)"
  by (induction ks arbitrary: a) auto

definition present_keys :: "domain_code list \<Rightarrow> (domain_code \<rightharpoonup> bool) \<Rightarrow> domain_code list" where
  "present_keys ks present = filter (mget False present) ks"

definition weight_sum :: "domain_code list \<Rightarrow> (domain_code \<rightharpoonup> f64) \<Rightarrow> f64" where
  "weight_sum ks w = foldl (\<lambda>s d. fadd s (mget fzero w d)) fzero ks"

lemma redistributeWeights_alt:
  "redistributeWeights ks nominal present =
     (if feq (weight_sum (present_keys ks present) nominal) fzero then nominal
      else (\<lambda>d. if mget False present d
                then map_option (\<lambda>w. fdiv w (weight_sum (present_keys ks present) nominal)) (nominal d) else None))"
  by (auto simp: redistributeWeights_def Let_def foldl_if_filter weight_sum_def present_keys_def split: option.splits)

lemma redistributeWeights_dom:
  "dom (redistributeWeights ks nominal present) =
     (if feq (weight_sum (present_keys ks present) nominal) fzero then dom nominal
      else {d \<in> dom nominal. mget False present d})"
  by (auto simp: redistributeWeights_alt split: if_splits)

text \<open>Sums of non-negative values: an addend never exceeds the rounded sum.\<close>

lemma foldl_sum_ge:
  assumes "length xs < 2 ^ 53" "\<And>x. x \<in> set xs \<Longrightarrow> fin_in 0 B (g x)" "\<And>x. x \<in> set xs \<Longrightarrow> is_f64 (g x)"
    and "dyadic B" "y \<in> set xs"
  shows "qv (g y) \<le> qv (foldl (\<lambda>s x. fadd s (g x)) fzero xs)"
  using assms(1-3,5)
proof (induction xs rule: rev_induct)
  case (snoc x xs)
  let ?s = "foldl (\<lambda>s x. fadd s (g x)) fzero xs"
  have n: "length xs < 2 ^ 53" "Suc (length xs) < 2 ^ 53" using snoc.prems(1) by simp_all
  have s: "fin_in (of_nat (length xs) * 0) (of_nat (length xs) * B) ?s"
    by (rule foldl_sum_in) (use snoc.prems n assms(4) in auto)
  have x: "fin_in 0 B (g x)" "rq (qv (g x)) = qv (g x)" using snoc.prems by (simp_all add: is_f64_qv)
  have "of_nat (Suc (length xs)) * B \<le> 2 powi 1023" using dyadic_times(2)[OF assms(4) n(2)] by linarith
  then have "\<bar>qv ?s + qv (g x)\<bar> \<le> 2 powi 1023"
    using s x(1) by (simp only: fin_in_def of_nat_Suc distrib_right) linarith
  then have small: "\<bar>rq (qv ?s + qv (g x))\<bar> < overflow" by (rule rq_small)
  have v: "qv (fadd ?s (g x)) = rq (qv ?s + qv (g x))"
    using fadd_fin(2)[OF _ _ small] s x by (simp add: fin_in_def)
  have "rq (qv ?s) \<le> rq (qv ?s + qv (g x))" "rq (qv (g x)) \<le> rq (qv ?s + qv (g x))"
    using s x(1) by (auto simp: fin_in_def intro!: rq_mono)
  moreover have "is_f64 ?s" by (rule foldl_inv) (use snoc.prems(3) in \<open>auto simp: overflow_def\<close>)
  then have "rq (qv ?s) = qv ?s" by (rule is_f64_qv)
  ultimately show ?case using snoc n x v by auto
qed simp

lemma redistributeWeights_unit:
  assumes "\<And>d. fin_in 0 1 (mget fzero nominal d)" "\<And>d. is_f64 (mget fzero nominal d)"
    and "length ks < 2 ^ 53" "dom nominal \<subseteq> set ks" "redistributeWeights ks nominal present d = Some w"
  shows "fin_in 0 1 w"
proof (cases "feq (weight_sum (present_keys ks present) nominal) fzero")
  case True
  then show ?thesis using assms(1)[of d] assms(5) by (simp add: redistributeWeights_alt)
next
  case False
  let ?ps = "present_keys ks present"
  define s where "s = weight_sum ?ps nominal"
  obtain v where v: "nominal d = Some v" "mget False present d" "w = fdiv v s"
    using assms(5) False by (auto simp: redistributeWeights_alt s_def split: if_splits)
  have "length ?ps \<le> length ks" unfolding present_keys_def by (rule length_filter_le)
  then have ps: "length ?ps < 2 ^ 53" using assms(3) by (rule le_less_trans)
  have dps: "d \<in> set ?ps" using assms(4) v by (auto simp: present_keys_def)
  have "fin_in (of_nat (length ?ps) * 0) (of_nat (length ?ps) * 1) s"
    unfolding s_def weight_sum_def by (rule foldl_sum_in) (use assms(1) ps in auto)
  then have s: "is_finite s" "0 \<le> qv s" by (auto simp: fin_in_def)
  have "qv (mget fzero nominal d) \<le> qv s"
    unfolding s_def weight_sum_def by (rule foldl_sum_ge[where B = 1]) (use assms(1,2) ps dps in auto)
  then have vs: "qv v \<le> qv s" using v by simp
  have v01: "is_finite v" "0 \<le> qv v" using assms(1)[of d] v by (auto simp: fin_in_def)
  have "qv s \<noteq> 0" using False s by (simp add: f64_fin flip: s_def)
  then have "0 \<le> qv v / qv s" "qv v / qv s \<le> 1" using vs v01 s by (auto simp: divide_le_eq_1)
  with fin_in_rnd_op[of 0 "qv v / qv s" 1] have "\<bar>rq (qv v / qv s)\<bar> < overflow" "0 \<le> rq (qv v / qv s)" "rq (qv v / qv s) \<le> 1"
    by (auto simp: less_imp_le)
  then show ?thesis using fdiv_fin[of v s] v01 s \<open>qv s \<noteq> 0\<close> v(3) by (auto simp: fin_in_def)
qed


text \<open>The rounded sum is close to the exact one, and the redistributed weights add up to one again.\<close>

lemma rq_error_two: "0 \<le> (x::rat) \<Longrightarrow> x \<le> 2 \<Longrightarrow> \<bar>rq x - x\<bar> \<le> 1 / 2 ^ 53"
proof (cases "x \<le> 1 \<or> x = 2")
  case True
  assume "0 \<le> x" "x \<le> 2"
  with True show ?thesis
    using rq_error_unit[of x] rq_of_int[of 2, where 'a = rat] by (auto simp: field_simps)
next
  case False
  assume "0 \<le> x" "x \<le> 2"
  with False have "expo x = 0" by (intro expo_unique) auto
  then have "2 powi ulpe x / 2 \<le> (1 / 2 ^ 53 :: rat)" by (simp add: ulpe_def power_int_minus_divide)
  then show ?thesis using rq_error[of x] by linarith
qed

lemma foldl_sum_error:
  assumes "\<And>x. x \<in> set xs \<Longrightarrow> fin_in 0 1 (g x)" "sum_list (map (\<lambda>x. qv (g x)) xs) \<le> 3 / 2" "length xs < 2 ^ 20"
  shows "is_finite (foldl (\<lambda>s x. fadd s (g x)) fzero xs) \<and>
    \<bar>qv (foldl (\<lambda>s x. fadd s (g x)) fzero xs) - sum_list (map (\<lambda>x. qv (g x)) xs)\<bar> \<le> of_nat (length xs) / 2 ^ 53 \<and>
    0 \<le> qv (foldl (\<lambda>s x. fadd s (g x)) fzero xs)"
  using assms
proof (induction xs rule: rev_induct)
  case (snoc x xs)
  define s where "s = foldl (\<lambda>s x. fadd s (g x)) fzero xs"
  define t where "t = sum_list (map (\<lambda>x. qv (g x)) xs)"
  have x: "is_finite (g x)" "0 \<le> qv (g x)" "qv (g x) \<le> 1" using snoc.prems(1)[of x] by (auto simp: fin_in_def)
  have tx: "t + qv (g x) \<le> 3 / 2" using snoc.prems(2) by (simp add: t_def)
  have ih: "is_finite s" "\<bar>qv s - t\<bar> \<le> of_nat (length xs) / 2 ^ 53" "0 \<le> qv s"
    using snoc tx x(2) by (simp_all add: s_def t_def)
  have "(of_nat (length xs) :: rat) \<le> of_nat (2 ^ 20)" using snoc.prems(3) by (simp only: of_nat_le_iff) simp
  then have "of_nat (length xs) / 2 ^ 53 \<le> (1 / 2 :: rat)" by simp
  then have b: "0 \<le> qv s + qv (g x)" "qv s + qv (g x) \<le> 2" using ih tx x by linarith+
  have "2 \<le> (2::rat) powi 1023" using two_powi_le_iff[of 1 1023, where 'a = rat] by simp
  then have o: "\<bar>rq (qv s + qv (g x))\<bar> < overflow" using b by (intro rq_small) linarith
  have f: "is_finite (fadd s (g x))" "qv (fadd s (g x)) = rq (qv s + qv (g x))" using fadd_fin[OF ih(1) x(1) o] by auto
  have "\<bar>rq (qv s + qv (g x)) - (qv s + qv (g x))\<bar> \<le> 1 / 2 ^ 53" using b by (rule rq_error_two)
  then have "\<bar>qv (fadd s (g x)) - (t + qv (g x))\<bar> \<le> of_nat (length xs) / 2 ^ 53 + 1 / 2 ^ 53"
    using ih(2) unfolding f(2) by linarith
  then show ?case using f rq_nonneg[OF b(1)] by (simp add: t_def add_divide_distrib flip: s_def)
qed simp

lemma redistributed_sum:
  assumes "\<And>d. d \<in> set ps \<Longrightarrow> fin_in (1 / 8) 1 (g d)" "\<And>d. d \<in> set ps \<Longrightarrow> is_f64 (g d)"
    and "sum_list (map (\<lambda>d. qv (g d)) ps) \<le> 3 / 2" "length ps < 2 ^ 20" "ps \<noteq> []"
  defines "s \<equiv> foldl (\<lambda>s d. fadd s (g d)) fzero ps"
  shows "\<bar>sum_list (map (\<lambda>d. qv (fdiv (g d) s)) ps) - 1\<bar> \<le> of_nat (length ps) / 2 ^ 49"
proof -
  define n :: rat where "n = of_nat (length ps)"
  define t where "t = sum_list (map (\<lambda>d. qv (g d)) ps)"
  have u: "fin_in 0 1 (g d)" if "d \<in> set ps" for d using assms(1)[OF that] by (auto simp: fin_in_def)
  have s: "is_finite s" "\<bar>qv s - t\<bar> \<le> n / 2 ^ 53"
    using foldl_sum_error[OF u assms(3,4)] by (auto simp: s_def t_def n_def)
  have ge: "qv (g d) \<le> qv s" if "d \<in> set ps" for d
    unfolding s_def by (rule foldl_sum_ge[where xs = ps and B = 1]) (use u assms(2,4) that in auto)
  obtain d0 where "d0 \<in> set ps" using assms(5) by (cases ps) auto
  then have s8: "1 / 8 \<le> qv s" using ge[of d0] assms(1)[of d0] by (auto simp: fin_in_def)
  have q: "\<bar>qv (fdiv (g d) s) - qv (g d) / qv s\<bar> \<le> 1 / 2 ^ 54" if "d \<in> set ps" for d
  proof -
    have b: "0 \<le> qv (g d) / qv s" "qv (g d) / qv s \<le> 1" using u[OF that] ge[OF that] s8 by (auto simp: fin_in_def)
    have "qv (fdiv (g d) s) = rq (qv (g d) / qv s)"
      using fdiv_fin(2)[of "g d" s] u[OF that] s s8 fin_in_rnd_op[OF b] by (auto simp: fin_in_def less_imp_le)
    then show ?thesis using rq_error_unit[OF b] by simp
  qed
  define e :: rat where "e = 1 / 2 ^ 54"
  have "\<bar>sum_list (map (\<lambda>d. qv (fdiv (g d) s)) qs) - sum_list (map (\<lambda>d. qv (g d)) qs) / qv s\<bar> \<le> of_nat (length qs) * e"
    if "set qs \<subseteq> set ps" for qs
    using that
  proof (induction qs)
    case (Cons d qs)
    then have "\<bar>qv (fdiv (g d) s) - qv (g d) / qv s\<bar> \<le> e" using q[of d] by (simp add: e_def)
    moreover have "\<bar>sum_list (map (\<lambda>d. qv (fdiv (g d) s)) qs) - sum_list (map (\<lambda>d. qv (g d)) qs) / qv s\<bar> \<le> of_nat (length qs) * e"
      using Cons by simp
    ultimately show ?case by (simp only: list.map sum_list.Cons add_divide_distrib length_Cons of_nat_Suc distrib_right)
  qed simp
  then have a: "\<bar>sum_list (map (\<lambda>d. qv (fdiv (g d) s)) ps) - t / qv s\<bar> \<le> n / 2 ^ 54" by (simp add: t_def n_def e_def)
  have "\<bar>t / qv s - 1\<bar> = \<bar>qv s - t\<bar> / qv s" using s8 by (simp add: field_simps abs_minus_commute)
  also have "\<dots> \<le> (n / 2 ^ 53) / (1 / 8)" using s8 s(2) by (intro frac_le) (auto simp: n_def)
  finally have "\<bar>t / qv s - 1\<bar> \<le> n / 2 ^ 50" by simp
  moreover have "0 \<le> n" by (simp add: n_def)
  moreover have "n / 2 ^ 50 + n / 2 ^ 54 \<le> n / 2 ^ 49" if "0 \<le> n" using that by simp
  ultimately have "\<bar>sum_list (map (\<lambda>d. qv (fdiv (g d) s)) ps) - 1\<bar> \<le> n / 2 ^ 49"
    using a abs_triangle_ineq[of "sum_list (map (\<lambda>d. qv (fdiv (g d) s)) ps) - t / qv s" "t / qv s - 1"] by simp
  then show ?thesis by (simp add: n_def)
qed


lemma enum_sub: "enumerates ks m \<Longrightarrow> d \<in> set (present_keys ks present) \<Longrightarrow> \<exists>v. m d = Some v"
  by (auto simp: present_keys_def enumerates_def)

lemma redistributeWeights_sum:
  assumes "enumerates ks nominal" "\<And>d v. nominal d = Some v \<Longrightarrow> fin_in (1 / 8) 1 v \<and> is_f64 v"
    and "sum_list (map (\<lambda>d. qv (mget fzero nominal d)) ks) \<le> 3 / 2" "length ks < 2 ^ 20"
    and "present_keys ks present \<noteq> []"
  shows "\<bar>sum_list (map (\<lambda>d. qv (mget fzero (redistributeWeights ks nominal present) d)) (present_keys ks present)) - 1\<bar>
    \<le> of_nat (length ks) / 2 ^ 49"
proof -
  let ?ps = "present_keys ks present" and ?g = "mget fzero nominal"
  have g: "fin_in (1 / 8) 1 (?g d)" "is_f64 (?g d)" if "d \<in> set ks" for d
    using assms(1,2) that by (auto simp: enumerates_def)
  then have g0: "0 \<le> qv (?g d)" if "d \<in> set ks" for d using g(1)[OF that] by (auto simp: fin_in_def)
  have le: "length ?ps \<le> length ks" by (simp add: present_keys_def)
  have "sum_list (map (\<lambda>d. qv (?g d)) (filter P ks)) \<le> sum_list (map (\<lambda>d. qv (?g d)) ks)" for P
    using g0 by (induction ks) (auto intro: add_increasing)
  then have total: "sum_list (map (\<lambda>d. qv (?g d)) ?ps) \<le> 3 / 2" unfolding present_keys_def by (rule order_trans) (fact assms(3))
  have sub: "set ?ps \<subseteq> set ks" by (auto simp: present_keys_def)
  obtain d0 where d0: "d0 \<in> set ?ps" using assms(5) by (cases ?ps) auto
  have u: "fin_in 0 1 (?g d)" if "d \<in> set ?ps" for d using g(1)[of d] sub that by (auto simp: fin_in_def)
  have "qv (?g d0) \<le> qv (weight_sum ?ps nominal)"
    unfolding weight_sum_def by (rule foldl_sum_ge[where B = 1]) (use u g(2) sub d0 le assms(4) in auto)
  then have "qv (weight_sum ?ps nominal) \<noteq> 0" using g(1)[of d0] sub d0 by (auto simp: fin_in_def)
  then have "\<not> feq (weight_sum ?ps nominal) fzero" by (cases "weight_sum ?ps nominal") auto
  then have e: "mget fzero (redistributeWeights ks nominal present) d = fdiv (?g d) (weight_sum ?ps nominal)" if "d \<in> set ?ps" for d
    using that enum_sub[OF assms(1) that] by (auto simp: redistributeWeights_alt present_keys_def)
  have "\<bar>sum_list (map (\<lambda>d. qv (fdiv (?g d) (weight_sum ?ps nominal))) ?ps) - 1\<bar> \<le> of_nat (length ?ps) / 2 ^ 49"
    unfolding weight_sum_def using g sub le assms(4) by (intro redistributed_sum total assms(5)) auto
  also have "\<dots> \<le> of_nat (length ks) / 2 ^ 49" using le by (intro divide_right_mono) auto
  finally show ?thesis using e by (simp cong: map_cong)
qed

lemma default_weights_values:
  "default_weights d = Some v \<Longrightarrow> fin_in (1 / 8) 1 v \<and> is_f64 v"
  by (auto simp: default_weights_def lit_def split: if_splits simp del: fin_in_Fin) (simp_all add: f64_eval)

definition three_present :: "domain_code \<rightharpoonup> bool" where
  "three_present = presentSet [DomainLiquidity \<mapsto> fone, DomainLeverage \<mapsto> fone, DomainVolatility \<mapsto> fone]"

definition other_order :: "domain_code list" where
  "other_order = [DomainLiquidity, DomainVolatility, DomainLeverage, DomainMarketStress, DomainCapitalFlows]"

lemma default_enumerated: "enumerates AllDomains default_weights" "enumerates other_order default_weights"
  by (auto simp: enumerates_def default_weights_def AllDomains_def other_order_def domain_defs)

lemma redistributeWeights_order:
  "redistributeWeights AllDomains default_weights three_present DomainLiquidity \<noteq>
   redistributeWeights other_order default_weights three_present DomainLiquidity"
  by (simp add: redistributeWeights_def default_weights_def three_present_def presentSet_def AllDomains_def
      other_order_def domain_defs f64_eval mget_def)

section \<open>Normalised scores and weighted sums\<close>

lemma normalizeScores_dom [simp]: "dom (normalizeScores scores hist k) = dom scores"
  by (auto simp: normalizeScores_def Let_def split: option.splits)

lemma normalizeScores_short:
  "scores d = Some s \<Longrightarrow> int (length (mget [] hist d)) < k \<Longrightarrow> normalizeScores scores hist k d = Some s"
  by (simp add: normalizeScores_def)

lemma normalizeScores_defined:
  assumes "normalizeScores scores hist n d = Some v"
    and "\<And>d s. scores d = Some s \<Longrightarrow> is_finite s"
    and "\<And>x. x \<in> set (mget [] hist d) \<Longrightarrow> fin_in (- B) B x" "length (mget [] hist d) < 2 ^ 52"
    and "B = 2 powi k" "- 400 \<le> k" "k \<le> 400"
  shows "v \<noteq> NaN"
proof -
  obtain s where s: "scores d = Some s" "is_finite s" using assms(1,2) by (auto simp: normalizeScores_def split: option.splits)
  let ?h = "mget [] hist d"
  have B: "dyadic B" "0 \<le> B" using assms(5-7) by (auto simp: less_imp_le)
  have m: "fin_in (- B) B (mean ?h)" by (rule regime_mean_in) (use assms B in auto)
  have sd: "fin_in 0 (4 * B) (stddev ?h)" by (rule regime_stddev_in) (use assms in auto)
  have "fdiv (fsub s (mean ?h)) (stddev ?h) \<noteq> NaN" if "\<not> feq (stddev ?h) fzero"
    using that s m sd by (intro fdiv_pos_not_NaN fsub_not_NaN) (auto simp: fin_in_def f64_fin)
  moreover have "s \<noteq> NaN" using s(2) by auto
  ultimately show ?thesis using assms(1) s(1) by (auto simp: normalizeScores_def Let_def split: if_splits)
qed

lemma weightedSumNormalized_dom: "dom (fst (weightedSumNormalized ks nrm w)) = dom w"
  by (auto simp: weightedSumNormalized_def Let_def)

lemma weightedSumNormalized_clipped:
  "fst (snd (weightedSumNormalized ks nrm w)) = NaN \<or> fin_in (- 2) 2 (fst (snd (weightedSumNormalized ks nrm w)))"
proof -
  have "clip x (Fin (- 2)) (Fin 2) = NaN \<or> fin_in (- 2) 2 (clip x (Fin (- 2)) (Fin 2))" for x
    using clip_range[of "- 2" 2 x] by (cases "x = NaN") auto
  then show ?thesis by (simp add: weightedSumNormalized_def Let_def lit_consts)
qed

lemma weightedSumNormalized_defined:
  assumes "enumerates ks w" "\<And>d v. w d = Some v \<Longrightarrow> fin_in 0 1 v" "\<And>d v. nrm d = Some v \<Longrightarrow> fin_in (- B) B v"
    and "B = 2 powi k" "0 \<le> k" "k \<le> 900" "length ks < 2 ^ 53"
  shows "fin_in (- 2) 2 (fst (snd (weightedSumNormalized ks nrm w)))"
proof -
  have B: "dyadic B" "0 \<le> B" using assms(4-6) by (auto simp: less_imp_le)
  let ?c = "\<lambda>d. map_option (\<lambda>w. fmul w (mget fzero nrm d)) (w d)"
  have "fin_in (of_nat (length ks) * - B) (of_nat (length ks) * B) (foldl (\<lambda>s d. fadd s (mget fzero ?c d)) fzero ks)"
  proof (rule foldl_sum_in)
    fix d assume "d \<in> set ks"
    then obtain v where v: "w d = Some v" using assms(1) by (auto simp: enumerates_def)
    have "fin_in (- B) B (mget fzero nrm d)" using assms(3)[of d] B by (cases "nrm d") auto
    then have "fin_in (- B) B (fmul v (mget fzero nrm d))"
      using fmul_unit_in[OF assms(2)[OF v]] dyadic_rq[OF B(1)] B(2) by simp
    then show "fin_in (- B) B (mget fzero ?c d)" by (simp add: v mget_def)
  qed (use B assms(7) in auto)
  then have "foldl (\<lambda>s d. fadd s (mget fzero ?c d)) fzero ks \<noteq> NaN" by (rule fin_in_not_NaN)
  then show ?thesis by (simp add: weightedSumNormalized_def Let_def lit_consts clip_range)
qed

section \<open>Coverage\<close>

lemma presentSet_iff: "d \<in> set AllDomains \<Longrightarrow> presentSet scores d = Some (scores d \<noteq> None)"
  by (auto simp: presentSet_def AllDomains_def domain_defs)

lemma presentSet_mget: "dom scores \<subseteq> set AllDomains \<Longrightarrow> mget False (presentSet scores) d \<longleftrightarrow> d \<in> dom scores"
proof (cases "d \<in> set AllDomains")
  case False
  assume a: "dom scores \<subseteq> set AllDomains"
  have "presentSet scores d = None" using False by (simp add: presentSet_def AllDomains_def domain_defs)
  then show ?thesis using False a by auto
qed (auto simp: presentSet_iff mget_def)

text \<open>With the default threshold of 0.6, coverage is sufficient exactly from three of the five domains on.\<close>

lemma coverageFraction_threshold:
  assumes "dom scores \<subseteq> set AllDomains"
  shows "flt (coverageFraction scores) (lit (6 / 10)) \<longleftrightarrow> card (dom scores) < 3"
proof -
  have "card (dom scores) \<le> card (set AllDomains)" using assms by (intro card_mono) auto
  also have "\<dots> = 5" using distinct_card[OF AllDomains_distinct] by simp
  finally have "card (dom scores) \<in> {0, 1, 2, 3, 4, 5}" by auto
  then show ?thesis
    by (elim insertE emptyE) (simp_all add: coverageFraction_def flen_def f64_eval)
qed

section \<open>Top drivers\<close>

lemma buildTopDrivers_perm: "mset (map (\<lambda>t. (td_domain t, td_contribution t)) (buildTopDrivers ks c)) = mset (map (\<lambda>d. (d, mget fzero c d)) ks)"
proof -
  let ?e = "map (\<lambda>d. let v = mget fzero c d in (d, v, fabs v)) ks"
  have "mset (map (\<lambda>(d, v, a). (d, v)) (sort_slice lt ?e)) = mset (map (\<lambda>(d, v, a). (d, v)) ?e)" for lt
    by (simp only: mset_map mset_sort_slice)
  then show ?thesis by (simp add: buildTopDrivers_def Let_def case_prod_unfold o_def)
qed

lemma flt_ntrans: "x \<noteq> NaN \<Longrightarrow> y \<noteq> NaN \<Longrightarrow> z \<noteq> NaN \<Longrightarrow> \<not> flt x y \<Longrightarrow> \<not> flt y z \<Longrightarrow> \<not> flt x z"
  by (cases x; cases y; cases z) auto

lemma fabs_not_NaN [simp]: "fabs x = NaN \<longleftrightarrow> x = NaN"
  by (cases x) (auto simp: fabs_def)

lemma buildTopDrivers_sorted:
  assumes "\<And>d. d \<in> set ks \<Longrightarrow> mget fzero c d \<noteq> NaN"
  shows "sorted_wrt (\<lambda>s t. \<not> flt (fabs (td_contribution s)) (fabs (td_contribution t))) (buildTopDrivers ks c)"
proof -
  let ?e = "map (\<lambda>d. let v = mget fzero c d in (d, v, fabs v)) ks"
  let ?lt = "\<lambda>(_, _, a) (_, _, b). flt b a"
  have srt: "sorted_wrt (\<lambda>x y. \<not> ?lt y x) (sort_slice ?lt ?e)"
  proof (rule sorted_sort_slice_on[where A = "{(d, v, a). a \<noteq> NaN}"])
    fix x y z :: "domain_code \<times> f64 \<times> f64"
    assume "x \<in> {(d, v, a). a \<noteq> NaN}" "y \<in> {(d, v, a). a \<noteq> NaN}" "z \<in> {(d, v, a). a \<noteq> NaN}"
      "\<not> ?lt y x" "\<not> ?lt z y"
    then show "\<not> ?lt z x" using flt_ntrans[of "snd (snd x)" "snd (snd y)" "snd (snd z)"] by (auto split: prod.splits)
  qed (use assms flt_asym in \<open>auto simp: Let_def\<close>)
  have key: "snd (snd x) = fabs (fst (snd x))" if "x \<in> set (sort_slice ?lt ?e)" for x using that by (auto simp: Let_def)
  show ?thesis
    unfolding buildTopDrivers_def Let_def sorted_wrt_map
  proof (rule sorted_wrt_mono_rel[OF _ srt[unfolded Let_def]], goal_cases)
    case (1 x y)
    then show ?case using key[unfolded Let_def, of x] key[unfolded Let_def, of y] by (cases x rule: prod_cases3; cases y rule: prod_cases3) simp
  qed
qed

lemma fabs_in: "fin_in (- B) B x \<Longrightarrow> fin_in 0 B (fabs x)"
  by (cases x) (auto simp: fabs_def fin_in_def)

lemma is_f64_fabs [simp]: "is_f64 x \<Longrightarrow> is_f64 (fabs x)"
  by (cases x) (simp_all add: fabs_def flip: rq_abs)

lemma buildTopDrivers_share:
  assumes "\<And>d. d \<in> set ks \<Longrightarrow> fin_in (- B) B (mget fzero c d)" "\<And>d. d \<in> set ks \<Longrightarrow> is_f64 (mget fzero c d)"
    and "dyadic B" "length ks < 2 ^ 53" "t \<in> set (buildTopDrivers ks c)"
  shows "fin_in 0 1 (td_share t)"
proof -
  let ?g = "\<lambda>d. fabs (mget fzero c d)"
  define s where "s = foldl (\<lambda>s d. fadd s (?g d)) fzero ks"
  have g: "fin_in 0 B (?g d)" "is_f64 (?g d)" if "d \<in> set ks" for d
    using assms(1,2)[OF that] by (simp_all add: fabs_in)
  have e: "foldl (\<lambda>s (d, c, a). fadd s a) z (map (\<lambda>d. let v = mget fzero c d in (d, v, fabs v)) xs) = foldl (\<lambda>s d. fadd s (?g d)) z xs" for xs z
    by (induction xs arbitrary: z) (auto simp: Let_def)
  obtain d where d: "d \<in> set ks" "td_share t = (if flt fzero s then fdiv (?g d) s else fzero)"
    using assms(5) by (auto simp: buildTopDrivers_def Let_def e[unfolded Let_def] s_def)
  show ?thesis
  proof (cases "flt fzero s")
    case True
    have "fin_in (of_nat (length ks) * 0) (of_nat (length ks) * B) s"
      unfolding s_def by (rule foldl_sum_in) (use assms(3,4) g in auto)
    then have s: "is_finite s" by (simp add: fin_in_def)
    with True have s0: "0 < qv s" by (simp add: f64_fin)
    have "qv (?g d) \<le> qv s"
      unfolding s_def by (rule foldl_sum_ge[where B = B]) (use assms(3,4) g d in auto)
    then have b: "0 \<le> qv (?g d) / qv s" "qv (?g d) / qv s \<le> 1" using g(1)[OF d(1)] s0 by (auto simp: fin_in_def)
    show ?thesis using fdiv_fin[of "?g d" s] fin_in_rnd_op[OF b] s s0 g(1)[OF d(1)] True
      by (auto simp: d(2) fin_in_def less_imp_le)
  qed (simp add: d(2))
qed

section \<open>Historical rates of change and dispersion\<close>

lemma fdiv_ge1_in:
  assumes "fin_in 0 b x" "0 < w" "w < 2 ^ 53" "dyadic b"
  shows "fin_in 0 b (fdiv x (f_of_int w))"
proof -
  have "qv x \<le> b * of_int w"
  proof -
    have "(1::rat) \<le> of_int w" using assms(2) by simp
    moreover have "0 \<le> b" using assms(1) by (auto simp: fin_in_def)
    ultimately have "b * 1 \<le> b * of_int w" by (intro mult_left_mono)
    then show ?thesis using assms(1) by (auto simp: fin_in_def)
  qed
  then have "fin_in (of_nat (nat w) * 0) (of_nat (nat w) * b) x" using assms by (auto simp: fin_in_def mult.commute)
  from fdiv_nat_in[OF this] assms show ?thesis by auto
qed

lemma indByDate_ran: "indByDate series k = Some v \<Longrightarrow> \<exists>p\<in>set series. v = ip_indicator p \<and> k = fmt_day (ip_value_date p)"
proof -
  have "foldl (\<lambda>m p. m(fmt_day (ip_value_date p) \<mapsto> ip_indicator p)) m xs k = Some v \<Longrightarrow>
      m k = Some v \<or> (\<exists>p\<in>set xs. v = ip_indicator p \<and> k = fmt_day (ip_value_date p))" for m xs
    by (induction xs arbitrary: m) (fastforce split: if_splits)+
  then show "indByDate series k = Some v \<Longrightarrow> \<exists>p\<in>set series. v = ip_indicator p \<and> k = fmt_day (ip_value_date p)"
    by (fastforce simp: indByDate_def)
qed

lemma computeHistoricalRocDiv_length:
  "length (fst (computeHistoricalRocDiv series vd w n)) \<le> nat n"
  "length (snd (computeHistoricalRocDiv series vd w n)) \<le> nat n"
  unfolding computeHistoricalRocDiv_def Let_def fst_conv snd_conv
  by (rule order_trans[OF concat_length_le]; auto simp: roc_at_def div_at_def Let_def split: option.splits)+

lemma roc_at_mem: "x \<in> set (roc_at m d w) \<Longrightarrow>
    \<exists>da db a b. m da = Some a \<and> m db = Some b \<and> x = fdiv (fabs (fsub a b)) (f_of_int w)"
  by (cases "m (fmt_day d)"; cases "m (fmt_day (add_days d (- w)))") (auto simp: roc_at_def)

lemma div_at_mem:
  assumes "x \<in> set (div_at m d)"
  obtains xs where "x = stddev xs" "length xs \<le> 7" "set xs \<subseteq> ran m"
proof -
  have e: "x = stddev (List.map_filter (\<lambda>j. m (fmt_day (add_days d j))) [- 3..3])"
    using assms by (auto simp only: div_at_def Let_def set_simps split: if_splits)
  have "length [- 3..3::int] = 7" by simp
  with that[OF e] map_filter_bounds[of "\<lambda>j. m (fmt_day (add_days d j))" "[- 3..3]"] show thesis
    by (simp only: ran_def) blast
qed

lemma computeHistoricalRocDiv_bounds:
  assumes "\<And>p. p \<in> set series \<Longrightarrow> fin_in (- B) B (ip_indicator p)" "B = 2 powi k" "0 \<le> k" "k \<le> 390" "0 < w" "w < 2 ^ 53"
  shows "x \<in> set (fst (computeHistoricalRocDiv series vd w n)) \<Longrightarrow> fin_in 0 (2 * B) x"
    and "x \<in> set (snd (computeHistoricalRocDiv series vd w n)) \<Longrightarrow> fin_in 0 (4 * B) x"
proof -
  have v: "fin_in (- B) B v" if "indByDate series d = Some v" for d v
    using indByDate_ran[OF that] assms(1) by auto
  have B2: "2 * B = 2 powi (1 + k)" by (simp add: assms(2) two_powi_add)
  then have dB: "dyadic (2 * B)" unfolding B2 using assms(3,4) by auto
  have e: "- B - B = - (2 * B)" "B - - B = 2 * B" by simp_all
  { assume "x \<in> set (fst (computeHistoricalRocDiv series vd w n))"
    then obtain a b da db where "indByDate series da = Some a" "indByDate series db = Some b"
      and ab: "x = fdiv (fabs (fsub a b)) (f_of_int w)"
      using roc_at_mem by (fastforce simp: computeHistoricalRocDiv_def Let_def)
    then have v: "fin_in (- B) B a" "fin_in (- B) B b" using v by auto
    have "fin_in (- (2 * B)) (2 * B) (fsub a b)"
      using fsub_in[OF v] dyadic_rq[OF dB] unfolding e by (simp add: rq_minus)
    then show "fin_in 0 (2 * B) x" unfolding ab by (intro fdiv_ge1_in fabs_in assms dB) }
  { assume "x \<in> set (snd (computeHistoricalRocDiv series vd w n))"
    then obtain d where "x \<in> set (div_at (indByDate series) d)" by (auto simp: computeHistoricalRocDiv_def Let_def)
    then obtain xs where xs: "x = stddev xs" "length xs \<le> 7" "set xs \<subseteq> ran (indByDate series)" by (rule div_at_mem)
    show "fin_in 0 (4 * B) x" unfolding xs(1)
      by (intro regime_stddev_in[OF _ _ assms(2)]) (use v xs assms(3,4) in \<open>auto simp: ran_def\<close>) }
qed

text \<open>The points that matter: from \<open>lookback + max 3 w\<close> days before the value date to two days after it.\<close>

lemma computeHistoricalRocDiv_cong:
  assumes "\<And>i. - n - max 3 w \<le> i \<Longrightarrow> i \<le> 2 \<Longrightarrow>
      indByDate s1 (fmt_day (add_days vd i)) = indByDate s2 (fmt_day (add_days vd i))" "0 \<le> w"
  shows "computeHistoricalRocDiv s1 vd w n = computeHistoricalRocDiv s2 vd w n"
proof -
  have r: "roc_at (indByDate s1) (add_days vd (- (int i + 1))) w = roc_at (indByDate s2) (add_days vd (- (int i + 1))) w"
    if "i < nat n" for i
    using that assms(1)[of "- (int i + 1)"] assms(1)[of "- (int i + 1) - w"] assms(2) by (simp add: roc_at_def)
  have d: "div_at (indByDate s1) (add_days vd (- (int i + 1))) = div_at (indByDate s2) (add_days vd (- (int i + 1)))"
    if "i < nat n" for i
  proof -
    have "indByDate s1 (fmt_day (add_days vd (- (int i + 1) + j))) = indByDate s2 (fmt_day (add_days vd (- (int i + 1) + j)))"
      if "j \<in> set [- 3..3]" for j
      using that \<open>i < nat n\<close> by (intro assms(1)) auto
    then have "List.map_filter (\<lambda>j. indByDate s1 (fmt_day (add_days (add_days vd (- (int i + 1))) j))) [- 3..3] =
        List.map_filter (\<lambda>j. indByDate s2 (fmt_day (add_days (add_days vd (- (int i + 1))) j))) [- 3..3]"
      by (intro map_filter_cong) (simp only: add_days_add)
    then show ?thesis by (simp only: div_at_def)
  qed
  show ?thesis using r d by (auto simp: computeHistoricalRocDiv_def Let_def intro!: arg_cong[where f = concat])
qed

text \<open>A deviation may overflow, but it is never NaN.\<close>

lemma fadd_nneg_not_NaN: "nneg x \<Longrightarrow> nneg y \<Longrightarrow> x \<noteq> NaN \<Longrightarrow> y \<noteq> NaN \<Longrightarrow> fadd x y \<noteq> NaN"
  by (cases x; cases y) (auto split: if_splits)

lemma square_not_NaN: "x \<noteq> NaN \<Longrightarrow> fmul x x \<noteq> NaN"
  by (cases x) (auto simp: zero_of_def)

lemma sum_sq_dev_not_NaN:
  assumes "is_finite m" "\<And>x. x \<in> set xs \<Longrightarrow> is_finite x"
  shows "sum_sq_dev m xs \<noteq> NaN"
proof -
  have "nneg s \<and> s \<noteq> NaN \<Longrightarrow> x \<in> set xs \<Longrightarrow>
      nneg (fadd s (fmul (fsub x m) (fsub x m))) \<and> fadd s (fmul (fsub x m) (fsub x m)) \<noteq> NaN" for s x
    using assms fsub_not_NaN[of x m] by (simp add: nneg_fadd nneg_square fadd_nneg_not_NaN square_not_NaN)
  then have "nneg (sum_sq_dev m xs) \<and> sum_sq_dev m xs \<noteq> NaN"
    unfolding sum_sq_dev_def Let_def by (rule foldl_inv[where P = "\<lambda>s. nneg s \<and> s \<noteq> NaN", rotated]) simp_all
  then show ?thesis by simp
qed

lemma regime_stddev_not_NaN:
  assumes "\<And>x. x \<in> set xs \<Longrightarrow> fin_in (- B) B x" "length xs < 2 ^ 52" "B = 2 powi k" "- 900 \<le> k" "k \<le> 900"
  shows "stddev xs \<noteq> NaN"
proof (cases "length xs < 2")
  case False
  have B: "dyadic B" "0 \<le> B" using assms(3-5) by (auto simp: less_imp_le)
  have "fin_in (- B) B (mean xs)" by (rule regime_mean_in) (use assms(1,2) B in auto)
  then have s: "sum_sq_dev (mean xs) xs \<noteq> NaN" using assms(1) by (intro sum_sq_dev_not_NaN) (auto simp: fin_in_def)
  have n: "\<bar>int (length xs) - 1\<bar> < 2 ^ 53" "1 \<le> int (length xs) - 1" using False assms(2) by auto
  then have d: "is_finite (f_of_int (int (length xs) - 1))" "0 < qv (f_of_int (int (length xs) - 1))"
    using f_of_int_fin[OF n(1)] by auto
  have "fdiv (sum_sq_dev (mean xs) xs) (f_of_int (int (length xs) - 1)) \<noteq> NaN" using s d by (rule fdiv_pos_not_NaN)
  moreover have "nneg (fdiv (sum_sq_dev (mean xs) xs) (f_of_int (int (length xs) - 1)))"
    using d by (intro nneg_fdiv_pos nneg_sum_sq_dev)
  ultimately show ?thesis using False fsqrt_not_NaN by (auto simp: stddev_def nneg_def)
qed (simp add: stddev_def)

section \<open>Normalised scores are finite\<close>

lemma is_f64_min: "is_f64 (Fin q) \<Longrightarrow> 0 < q \<Longrightarrow> 2 powi (- 1074) \<le> q"
proof -
  assume a: "is_f64 (Fin q)" "0 < q"
  define m where "m = rhe (q / 2 powi ulpe q)"
  have q: "q = of_int m * 2 powi ulpe q" using a(1) by (simp add: rq_def m_def)
  have "0 < m" using a(2) q by (metis mult_less_0_iff of_int_0_less_iff two_powi_pos zero_less_mult_iff not_less_iff_gr_or_eq)
  then have "1 * 2 powi ulpe q \<le> of_int m * (2 powi ulpe q :: rat)" by (intro mult_right_mono) (auto simp: less_imp_le)
  then have "2 powi ulpe q \<le> q" using q by simp
  moreover have "(2::rat) powi (- 1074) \<le> 2 powi ulpe q" by (simp only: two_powi_le_iff) (simp add: ulpe_def)
  ultimately show ?thesis by (rule order_trans[rotated])
qed

lemma fsqrt_min:
  assumes "is_f64 x" "flt fzero (fsqrt x)" "is_finite (fsqrt x)"
  shows "2 powi (- 537) \<le> qv (fsqrt x)"
proof -
  have "x \<noteq> NaN" "x \<noteq> NZero" "\<forall>s. x \<noteq> Inf s" using assms(2,3) by (auto simp: fsqrt_def split: if_splits)
  then obtain q where x: "x = Fin q" by (cases x) auto
  have q: "0 < q" using assms(2) by (auto simp: x fsqrt_def not_less split: if_splits)
  have "(2 powi (- 537))\<^sup>2 = (2 powi (- 1074) :: real)" by (simp add: power2_eq_square flip: two_powi_add)
  also have "\<dots> = real_of_rat (2 powi (- 1074))" by (rule of_rat_powi[symmetric])
  also have "\<dots> \<le> real_of_rat q" using is_f64_min[of q] assms(1) q x by (simp only: of_rat_less_eq)
  finally have "2 powi (- 537) \<le> sqrt (real_of_rat q)" by (rule real_le_rsqrt)
  then have "rq (2 powi (- 537) :: real) \<le> rq (sqrt (real_of_rat q))" by (rule rq_mono)
  moreover have "rq (2 powi (- 537) :: real) = 2 powi (- 537)" by (rule rq_powi) simp
  moreover have "qv (fsqrt x) = rq (sqrt (real_of_rat q))"
    using assms(3) q by (auto simp: x fsqrt_correctly_rounded rnd_def Let_def split: if_splits)
  ultimately show ?thesis by simp
qed

lemma is_f64_fsqrt [simp]: "is_f64 (fsqrt x)" if "is_f64 x"
  using that by (cases x) (auto simp: fsqrt_def)

lemma is_f64_foldl: "is_f64 a \<Longrightarrow> (\<And>s x. is_f64 s \<Longrightarrow> is_f64 (f s x)) \<Longrightarrow> is_f64 (foldl f a xs)"
  by (rule foldl_inv) auto


lemma stddev_min:
  assumes "\<And>x. x \<in> set xs \<Longrightarrow> is_f64 x" "is_finite (stddev xs)" "\<not> feq (stddev xs) fzero" "length xs < 2 ^ 52"
  shows "2 powi (- 537) \<le> qv (stddev xs)"
proof -
  have l: "\<not> length xs < 2" using assms(3) by (auto simp: stddev_def)
  have f0: "is_f64 fzero" by (rule is_f64_small_int)
  have "is_f64 (fsum xs)" unfolding fsum_def
    by (rule foldl_inv) (use assms(1) f0 in auto)
  then have m: "is_f64 (mean xs)" using f0 by (simp add: mean_def flen_def)
  have "is_f64 (sum_sq_dev (mean xs) xs)" unfolding sum_sq_dev_def Let_def
    by (rule foldl_inv) (use assms(1) f0 m in auto)
  then have s: "is_f64 (fdiv (sum_sq_dev (mean xs) xs) (f_of_int (int (length xs) - 1)))" by simp
  have e: "stddev xs = fsqrt (fdiv (sum_sq_dev (mean xs) xs) (f_of_int (int (length xs) - 1)))"
    using l by (simp add: stddev_def)
  have n: "\<bar>int (length xs) - 1\<bar> < 2 ^ 53" "1 \<le> int (length xs) - 1" using l assms(4) by auto
  have "nneg (stddev xs)" unfolding e
    by (intro nneg_fsqrt nneg_fdiv_pos nneg_sum_sq_dev) (use f_of_int_fin[OF n(1)] n(2) in auto)
  then have "flt fzero (stddev xs)" using assms(2,3) by (cases "stddev xs") auto
  then show ?thesis using assms(2) unfolding e by (intro fsqrt_min s)
qed

text \<open>Scores in \<open>[-1, 1]\<close> normalise to finite values, however small the deviation.\<close>

lemma normalizeScores_in:
  assumes "normalizeScores scores hist n d = Some v" "\<And>s. scores d = Some s \<Longrightarrow> fin_in (- 1) 1 s"
    and "\<And>x. x \<in> set (mget [] hist d) \<Longrightarrow> fin_in (- 1) 1 x \<and> is_f64 x" "length (mget [] hist d) < 2 ^ 52"
  shows "fin_in (- (2 powi 538)) (2 powi 538) v"
proof -
  obtain s where s: "scores d = Some s" "fin_in (- 1) 1 s" using assms(1,2) by (auto simp: normalizeScores_def split: option.splits)
  let ?h = "mget [] hist d"
  have "(1::rat) \<le> 2 powi 538" using two_powi_le_iff[of 0 538, where 'a = rat] by simp
  then have s': "fin_in (- (2 powi 538)) (2 powi 538) s" using s(2) by (auto simp: fin_in_def)
  have m: "fin_in (- 1) 1 (mean ?h)" by (rule regime_mean_in) (use assms(3,4) in auto)
  have sd: "fin_in 0 (4 * 1) (stddev ?h)" by (rule regime_stddev_in[where k = 0]) (use assms(3,4) in auto)
  have "fin_in (- (2 powi 538)) (2 powi 538) (fdiv (fsub s (mean ?h)) (stddev ?h))" if ne: "\<not> feq (stddev ?h) fzero"
  proof -
    define D where "D = qv (stddev ?h)"
    have f: "is_finite (stddev ?h)" using sd by (simp add: fin_in_def)
    have D: "2 powi (- 537) \<le> D" unfolding D_def by (rule stddev_min) (use assms(3,4) f ne in auto)
    then have D0: "0 < D" using two_powi_pos[of "- 537", where 'a = rat] by linarith
    have two: "rq (- 1 - 1 :: rat) = - 1 - 1" "rq (1 - - 1 :: rat) = 1 - - 1"
      using rq_of_int[of 2, where 'a = rat] rq_of_int[of "- 2", where 'a = rat] by simp_all
    have big: "\<bar>- 1 - 1 :: rat\<bar> \<le> 2 powi 1023" "\<bar>1 - - 1 :: rat\<bar> \<le> 2 powi 1023"
      using two_powi_le_iff[of 1 1023, where 'a = rat] by simp_all
    define x where "x = fsub s (mean ?h)"
    have x: "fin_in (- 1 - 1) (1 - - 1) x" unfolding x_def by (rule fsub_in[OF s(2) m two big])
    have "\<bar>qv x\<bar> \<le> 2" using x by (auto simp: fin_in_def abs_le_iff)
    then have "\<bar>qv x / D\<bar> \<le> 2 / 2 powi (- 537)" using D D0 by (simp only: abs_divide abs_of_pos) (rule frac_le; simp)
    also have "\<dots> = 2 powi 538" using two_powi_add[of 1 537, where 'a = rat] by (simp only: power_int_minus divide_inverse inverse_inverse_eq) simp
    finally have "\<bar>qv x / D\<bar> \<le> 2 powi 538" .
    then have q: "- (2 powi 538) \<le> qv x / D" "qv x / D \<le> 2 powi 538" by (simp_all only: abs_le_iff minus_le_iff)
    have r: "rq (2 powi 538 :: rat) = 2 powi 538" by (rule rq_powi) simp
    have b: "\<bar>2 powi 538 :: rat\<bar> \<le> 2 powi 1023" by (simp only: abs_of_pos two_powi_pos two_powi_le_iff)
    have "\<bar>rq (qv x / D)\<bar> < overflow \<and> - (2 powi 538) \<le> rq (qv x / D) \<and> rq (qv x / D) \<le> 2 powi 538"
      by (rule fin_in_rnd_op[OF q _ r _ b]) (simp_all only: rq_minus r abs_minus_cancel b)
    then show ?thesis
      using fdiv_fin[of x "stddev ?h"] f x D0 unfolding x_def[symmetric] D_def[symmetric] by (auto simp: fin_in_def)
  qed
  then show ?thesis using assms(1) s(1) s' by (auto simp: normalizeScores_def Let_def split: if_splits)
qed

lemma hist_z_not_NaN:
  assumes "\<And>x. x \<in> set hist \<Longrightarrow> fin_in (- B) B x" "length hist < 2 ^ 52" "B = 2 powi k" "- 400 \<le> k" "k \<le> 400"
    "v \<noteq> NaN" "fb \<noteq> NaN"
  shows "hist_z hist v fb \<noteq> NaN"
proof -
  have B: "dyadic B" "0 \<le> B" using assms(3-5) by (auto simp: less_imp_le)
  have m: "fin_in (- B) B (mean hist)" by (rule regime_mean_in) (use assms(1,2) B in auto)
  have s: "fin_in 0 (4 * B) (stddev hist)" by (rule regime_stddev_in) (use assms in auto)
  have "fsub v (mean hist) \<noteq> NaN"
    using assms(6) m by (cases v; cases "mean hist") (auto simp: fin_in_def fsub_def fneg_def)
  then have "fdiv (fsub v (mean hist)) (stddev hist) \<noteq> NaN" if "flt fzero (stddev hist)"
    using that s by (intro fdiv_pos_not_NaN) (auto simp: fin_in_def f64_fin)
  then show ?thesis using assms(7) by (auto simp: hist_z_def Let_def)
qed

context go_libm
begin

lemma computeTransitionRisk_in:
  assumes roc: "\<And>x. x \<in> set (ti_roc inp) \<union> set (ti_hist_rocs inp) \<union> set (ti_hist_divs inp) \<Longrightarrow> fin_in (- B) B x"
    and nrm: "\<And>x. x \<in> ran (ti_normalized inp) \<Longrightarrow> fin_in (- C) C x"
    and len: "length (ti_roc inp) < 2 ^ 52" "length (ti_hist_rocs inp) < 2 ^ 52" "length (ti_hist_divs inp) < 2 ^ 52"
    and B: "B = 2 powi k" "0 \<le> k" "k \<le> 400" and C: "C = 2 powi k'" "0 \<le> k'" "k' \<le> 900"
    and cfg: "fin_in 0 1 (rc_roc_weight cfg)" "fin_in 0 1 (rc_div_weight cfg)" "is_finite (rc_baseline cfg)" "is_f64 (rc_baseline cfg)"
  shows "fin_in 0 1 (computeTransitionRisk M inp cfg)"
proof -
  define mr where "mr = (if ti_roc inp \<noteq> [] then mean (ti_roc inp) else fzero)"
  define dv where "dv = (if 2 \<le> length (norm_vals (ti_normalized inp)) then stddev (norm_vals (ti_normalized inp)) else fzero)"
  define ry where "ry = hist_z (ti_hist_rocs inp) mr (fmul mr (lit 10))"
  define dz where "dz = hist_z (ti_hist_divs inp) dv dv"
  have dB: "dyadic B" "0 \<le> B" "- 400 \<le> k" using B by (auto simp: less_imp_le)
  have "fin_in (- B) B (mean (ti_roc inp))" by (rule regime_mean_in) (use roc len dB in auto)
  then have mr: "is_finite mr" by (auto simp: mr_def fin_in_def)
  have nv: "set (norm_vals (ti_normalized inp)) \<subseteq> ran (ti_normalized inp)" "length (norm_vals (ti_normalized inp)) \<le> 5"
    using length_filter_le[of _ AllDomains]
    by (auto simp: norm_vals_def ran_def List.map_filter_def)
  have "stddev (norm_vals (ti_normalized inp)) \<noteq> NaN"
    by (rule regime_stddev_not_NaN[OF _ _ C(1)]) (use nrm nv C in auto)
  then have dv: "dv \<noteq> NaN" by (auto simp: dv_def)
  have mr0: "mr \<noteq> NaN" using mr by auto
  have "fmul mr (lit 10) \<noteq> NaN" using mr by (cases mr) (auto simp: lit_consts zero_of_def)
  then have ry: "ry \<noteq> NaN" unfolding ry_def
    by (intro hist_z_not_NaN[OF _ _ B(1)]) (use roc len B dB mr0 in auto)
  have dz: "dz \<noteq> NaN" unfolding dz_def
    by (rule hist_z_not_NaN[OF _ _ B(1)]) (use roc len B dB dv in auto)
  define raw where "raw = fadd (fmul (rc_roc_weight cfg) (m_tanh M (fdiv (fabs ry) (lit 2))))
      (fmul (rc_div_weight cfg) (m_tanh M (fdiv (fabs dz) (lit 2))))"
  have raw: "fin_in 0 2 raw" unfolding raw_def by (rule risk_raw_in) (fact cfg ry dz)+
  define b where "b = (if flt (rc_baseline cfg) fzero \<or> fle fone (rc_baseline cfg) then fzero else rc_baseline cfg)"
  have b: "is_finite b" "is_f64 b" "flt b fone" using cfg(3,4) by (cases "rc_baseline cfg"; auto simp: b_def overflow_def)+
  define sh where "sh = (if flt fzero b then fdiv (fsub raw b) (fsub fone b) else raw)"
  have "sh \<noteq> NaN"
    using raw b one_minus_pos[OF b(2)] fdiv_pos_not_NaN[OF fsub_not_NaN]
    by (auto simp: sh_def fin_in_def)
  then have sh: "fin_in 0 1 (clip sh fzero fone)" by (simp add: clip_range)
  define dc where "dc = (if ti_checked inp \<and> ti_same_direction inp then lit (7 / 10) else lit 1)"
  have dc: "fin_in 0 1 dc" by (simp add: dc_def lit_consts)
  have "computeTransitionRisk M inp cfg = clip (fmul dc (clip sh fzero fone)) fzero fone"
    unfolding computeTransitionRisk_def Let_def mr_def dv_def ry_def dz_def raw_def b_def sh_def dc_def ..
  then show ?thesis using fmul_unit_unit[OF dc sh] by (simp add: clip_id)
qed

end

lemma weightedSumRaw_in:
  assumes "\<And>d. fin_in 0 1 (mget fzero w d)" "\<And>d. fin_in (- 1) 1 (mget fzero scores d)" "length ks \<le> 8"
  shows "fin_in (- 8) 8 (weightedSumRaw ks scores w)"
proof -
  have "fin_in (of_nat (length ks) * - 1) (of_nat (length ks) * 1) (weightedSumRaw ks scores w)"
    unfolding weightedSumRaw_def
  proof (rule foldl_sum_in)
    show "fin_in (- 1) 1 (fmul (mget fzero w d) (mget fzero scores d))" for d
      using fmul_unit_in[OF assms(1,2)] two_powi_le_iff[of 0 1023, where 'a = rat] by simp
  qed (use assms(3) in auto)
  moreover have "of_nat (length ks) \<le> (8::rat)" using assms(3) by (metis of_nat_le_iff of_nat_numeral)
  ultimately show ?thesis by (auto simp: fin_in_def)
qed

end
