(* ===== verification/RegimeService.thy ===== *)
theory RegimeService
  imports RegimePipeline
begin

text \<open>
  \<open>internal/regime/service.go\<close> and \<open>port.go\<close>: the service that turns the domain scores of a day
  into a regime state, over the interfaces it is given.  An interface is a record of calls on an
  arbitrary world \<open>'w\<close>.  The visiting orders of the \<open>range\<close> loops over maps are given by
  \<open>map_order\<close>, one choice per loop, for every asset and day.
\<close>

section \<open>Ports\<close>

record trailing_point =
  tp_value_date :: gotime
  tp_indicator :: f64
  tp_transition :: f64

record 'w regime_repo =
  rr_Save :: "regime_state \<Rightarrow> ('w, unit) io"
  rr_GetLatest :: "asset \<Rightarrow> ('w, regime_state) io"
  rr_GetByDate :: "asset \<Rightarrow> gotime \<Rightarrow> ('w, regime_state) io"
  rr_GetHistory :: "asset \<Rightarrow> gotime \<Rightarrow> gotime \<Rightarrow> ('w, regime_state list) io"
  rr_GetIndicatorRawSeries :: "asset \<Rightarrow> gotime \<Rightarrow> gotime \<Rightarrow> ('w, indicator_point list) io"
  rr_GetSmoothingTrailing :: "asset \<Rightarrow> gotime \<Rightarrow> gotime \<Rightarrow> gotime \<Rightarrow> ('w, trailing_point list) io"

record 'w score_reader =
  sr_GetLatestAll :: "asset \<Rightarrow> gotime \<Rightarrow> gotime \<Rightarrow> ('w, domain_code \<rightharpoonup> f64) io"
  sr_GetByDate :: "asset \<Rightarrow> domain_code \<Rightarrow> gotime \<Rightarrow> gotime \<Rightarrow> ('w, f64 \<times> bool) io"
  sr_GetHistory :: "asset \<Rightarrow> domain_code \<Rightarrow> int \<Rightarrow> ('w, f64 list) io"

type_synonym 'w publisher = "event \<Rightarrow> ('w, unit) io"
type_synonym 'w clock = "('w, gotime) io"

record map_order =
  mo_weights :: "domain_code set \<Rightarrow> domain_code list"
  mo_scores :: "domain_code set \<Rightarrow> domain_code list"
  mo_raw :: "domain_code set \<Rightarrow> domain_code list"
  mo_norm :: "domain_code set \<Rightarrow> domain_code list"
  mo_drivers :: "domain_code set \<Rightarrow> domain_code list"

definition lists_keys :: "(domain_code set \<Rightarrow> domain_code list) \<Rightarrow> bool" where
  "lists_keys f \<longleftrightarrow> (\<forall>S. S \<subseteq> set AllDomains \<longrightarrow> distinct (f S) \<and> set (f S) = S)"

definition orders_ok :: "map_order \<Rightarrow> bool" where
  "orders_ok o' \<longleftrightarrow> lists_keys (mo_weights o') \<and> lists_keys (mo_scores o') \<and> lists_keys (mo_raw o') \<and>
     lists_keys (mo_norm o') \<and> lists_keys (mo_drivers o')"

record 'w regime_service =
  sv_repo :: "'w regime_repo"
  sv_reader :: "'w score_reader"
  sv_publish :: "'w publisher"
  sv_clock :: "'w clock"
  sv_cfg :: regime_config
  sv_assets :: "asset list"

section \<open>The service\<close>

definition regime_NewService :: "'w regime_repo \<Rightarrow> 'w score_reader \<Rightarrow> 'w publisher \<Rightarrow> 'w clock \<Rightarrow>
    regime_config \<Rightarrow> asset list \<Rightarrow> 'w regime_service" where
  "regime_NewService repo reader pub clk cfg assets =
     \<lparr>sv_repo = repo, sv_reader = reader, sv_publish = pub, sv_clock = clk, sv_cfg = Config_Defaults cfg,
      sv_assets = (if assets = [] then AssetsTradeable else assets)\<rparr>"

text \<open>The change of each present domain's score over the rate-of-change window.\<close>

definition roc_per_domain :: "'w regime_service \<Rightarrow> asset \<Rightarrow> gotime \<Rightarrow> gotime \<Rightarrow>
    (domain_code \<rightharpoonup> f64) \<Rightarrow> (domain_code \<rightharpoonup> bool) \<Rightarrow> ('w, f64 list) io" where
  "roc_per_domain s a valueDate cutoff scores present =
     (let refDate = add_days valueDate (- rc_roc_window (sv_cfg s))
      in foldE (\<lambda>rocs d.
           if \<not> mget False present d then ret rocs
           else bindE (wrapE ''domain score on'' [AStr (fmt_day refDate)] (sr_GetByDate (sv_reader s) a d refDate cutoff))
             (\<lambda>(past, found). if \<not> found then ret rocs
                else ret (rocs @ [fdiv (fabs (fsub (mget fzero scores d) past)) (f_of_int (rc_roc_window (sv_cfg s)))])))
         [] AllDomains)"

text \<open>The momentum loop: it stops at the first present domain that has no past score or another sign.\<close>

fun momentum :: "'w regime_service \<Rightarrow> asset \<Rightarrow> gotime \<Rightarrow> gotime \<Rightarrow> (domain_code \<rightharpoonup> f64) \<Rightarrow>
    (domain_code \<rightharpoonup> bool) \<Rightarrow> bool \<Rightarrow> domain_code list \<Rightarrow> ('w, bool \<times> bool) io" where
  "momentum s a day cutoff normalized present checkedAny [] = ret (True, checkedAny)"
| "momentum s a day cutoff normalized present checkedAny (d # ds) =
     (if \<not> mget False present d then momentum s a day cutoff normalized present checkedAny ds
      else bindE (wrapE ''momentum lookup'' [AStr d] (sr_GetByDate (sv_reader s) a d day cutoff))
        (\<lambda>(past, found).
           if \<not> found then ret (False, checkedAny)
           else if \<not> feq (signf (mget fzero normalized d)) (signf past) then ret (False, checkedAny)
           else momentum s a day cutoff normalized present True ds))"

definition gatherTransitionRiskInputs :: "'w regime_service \<Rightarrow> asset \<Rightarrow> gotime \<Rightarrow> gotime \<Rightarrow>
    (domain_code \<rightharpoonup> f64) \<Rightarrow> (domain_code \<rightharpoonup> f64) \<Rightarrow> (domain_code \<rightharpoonup> bool) \<Rightarrow> ('w, transition_inputs) io" where
  "gatherTransitionRiskInputs s a valueDate cutoff scores normalized present =
     bindE (roc_per_domain s a valueDate cutoff scores present) (\<lambda>rocs.
     bindE (wrapE ''indicator raw series'' []
        (rr_GetIndicatorRawSeries (sv_repo s) a (add_days valueDate (- 90 - rc_roc_window (sv_cfg s))) (add_days valueDate (- 1))))
     (\<lambda>rawSeries.
        let (hrocs, hdivs) = computeHistoricalRocDiv rawSeries valueDate (rc_roc_window (sv_cfg s)) 90
        in bindE (momentum s a (add_days valueDate (- 3)) cutoff normalized present False AllDomains)
             (\<lambda>(allSameDir, checkedAny).
                ret \<lparr>ti_normalized = normalized, ti_roc = rocs, ti_hist_rocs = hrocs, ti_hist_divs = hdivs,
                     ti_same_direction = checkedAny \<and> allSameDir, ti_checked = checkedAny\<rparr>)))"

text \<open>The smoothing step of \<open>computeOne\<close>.\<close>

definition smooth :: "'w regime_service \<Rightarrow> asset \<Rightarrow> gotime \<Rightarrow> gotime \<Rightarrow> f64 \<Rightarrow> f64 \<Rightarrow> ('w, f64 \<times> f64) io" where
  "smooth s a valueDate cutoff normIndicator transRisk =
     (let n = rc_span (sv_cfg s)
      in if 1 < n then
           bindE (wrapE ''smoothing trailing'' []
              (rr_GetSmoothingTrailing (sv_repo s) a (add_days valueDate (- 2 * n)) (add_days valueDate (- 1)) cutoff))
           (\<lambda>trail. ret (emaSmooth normIndicator (map tp_indicator trail) n,
                         clip (emaSmooth transRisk (map tp_transition trail) n) fzero fone))
         else ret (normIndicator, transRisk))"

definition regime_event :: "regime_config \<Rightarrow> asset \<Rightarrow> gotime \<Rightarrow> f64 \<Rightarrow> f64 \<Rightarrow> f64 \<Rightarrow> f64 \<Rightarrow> event" where
  "regime_event cfg a valueDate indicator riskOn riskOff transRisk =
     \<lparr>ev_topic = ''regime.state.completed.v1'',
      ev_aggregate = a @ '':'' @ fmt_day valueDate,
      ev_payload = map_of [(''asset'', AStr a), (''value_date'', AStr (fmt_day valueDate)),
        (''regime_indicator'', AFloat indicator), (''risk_on'', AFloat riskOn), (''risk_off'', AFloat riskOff),
        (''transition_risk'', AFloat transRisk), (''model_version'', AStr (rc_model_version cfg)),
        (''config_version'', AStr (rc_config_version cfg))]\<rparr>"

text \<open>The end of \<open>computeOne\<close>: the probabilities, the state, saving it and publishing the event.\<close>

definition store_state :: "libm \<Rightarrow> 'w regime_service \<Rightarrow> map_order \<Rightarrow> asset \<Rightarrow> gotime \<Rightarrow> (domain_code \<rightharpoonup> f64) \<Rightarrow>
    (domain_code \<rightharpoonup> bool) \<Rightarrow> f64 \<Rightarrow> (domain_code \<rightharpoonup> f64) \<Rightarrow> f64 \<Rightarrow> f64 \<Rightarrow> ('w, unit) io" where
  "store_state M s o' a valueDate effectiveWeights present rawIndicator contributions indicator transRisk =
     (let cfg = sv_cfg s;
          (riskOn, riskOff) = finalProbabilities M indicator transRisk (rc_sigmoid_k cfg);
          state = \<lparr>rs_asset = a, rs_value_date = valueDate, rs_indicator = indicator, rs_indicator_raw = rawIndicator,
             rs_risk_on = riskOn, rs_risk_off = riskOff, rs_transition = transRisk,
             rs_model_version = rc_model_version cfg, rs_config_version = rc_config_version cfg,
             rs_code_sha = rc_code_sha cfg, rs_contributions = contributions,
             rs_top_drivers = buildTopDrivers (mo_drivers o' (dom contributions)) contributions,
             rs_weights = effectiveWeights,
             rs_coverage = map_of (map (\<lambda>d. (d, mget False present d)) AllDomains), rs_flags = []\<rparr>
      in seqE (wrapE ''save regime state'' [] (rr_Save (sv_repo s) state))
              (sv_publish s (regime_event cfg a valueDate indicator riskOn riskOff transRisk)))"

definition computeOne :: "libm \<Rightarrow> (asset \<Rightarrow> gotime \<Rightarrow> map_order) \<Rightarrow> 'w regime_service \<Rightarrow>
    asset \<Rightarrow> gotime \<Rightarrow> gotime \<Rightarrow> ('w, unit) io" where
  "computeOne M ord s a valueDate cutoff =
     (let cfg = sv_cfg s; o' = ord a valueDate in
      bindE (wrapE ''read domain scores'' [] (sr_GetLatestAll (sv_reader s) a valueDate cutoff)) (\<lambda>scores.
      if flt (coverageFraction scores) (rc_min_coverage cfg) then
        throw (Wrap '': %.0f%% (need %.0f%%)'' [AFloat (fmul (coverageFraction scores) (lit 100)),
                 AFloat (fmul (rc_min_coverage cfg) (lit 100))] ErrInsufficientCoverage)
      else
      let present = presentSet scores;
          weights = cfg_weights cfg;
          effectiveWeights = redistributeWeights (mo_weights o' (dom weights)) weights present
      in
      bindE (foldE (\<lambda>hs d. bindE (wrapE ''domain history'' [AStr d]
                (sr_GetHistory (sv_reader s) a d (rc_norm_lookback cfg))) (\<lambda>h. ret (hs(d \<mapsto> h))))
             Map.empty (mo_scores o' (dom scores))) (\<lambda>histories.
      let normalized = normalizeScores scores histories (rc_norm_min_samples cfg);
          rawIndicator = weightedSumRaw (mo_raw o' (dom effectiveWeights)) scores effectiveWeights;
          (contributions, normIndicator, unclipped) =
             weightedSumNormalized (mo_norm o' (dom effectiveWeights)) normalized effectiveWeights
      in
      bindE (wrapE ''transition risk inputs'' []
         (gatherTransitionRiskInputs s a valueDate cutoff scores normalized present)) (\<lambda>trInputs.
      bindE (smooth s a valueDate cutoff normIndicator (computeTransitionRisk M trInputs cfg)) (\<lambda>(indicator, transRisk).
      store_state M s o' a valueDate effectiveWeights present rawIndicator contributions indicator transRisk)))))"

definition RunOnce :: "libm \<Rightarrow> (asset \<Rightarrow> gotime \<Rightarrow> map_order) \<Rightarrow> 'w regime_service \<Rightarrow> gotime \<Rightarrow> ('w, unit) io" where
  "RunOnce M ord s valueDate =
     (let vd = UTCDay valueDate in
      bindE (sv_clock s) (\<lambda>cutoff.
        forE (\<lambda>a. wrapE ''regime'' [AStr a, AStr (fmt_day vd)] (computeOne M ord s a vd cutoff)) (sv_assets s)))"

text \<open>\<open>RunBackfill\<close> logs a failing day and goes on; its cutoff lies a day ahead of the clock.\<close>

definition RunBackfill :: "libm \<Rightarrow> (asset \<Rightarrow> gotime \<Rightarrow> map_order) \<Rightarrow> 'w regime_service \<Rightarrow> gotime \<Rightarrow> gotime \<Rightarrow> ('w, unit) io" where
  "RunBackfill M ord s from to =
     (let f = UTCDay from; t = UTCDay to in
      if t < f then throw (Fresh ''backfill from (%s) after to (%s)'' [AStr (fmt_day f), AStr (fmt_day t)])
      else bindE (sv_clock s) (\<lambda>now.
        let cutoff = now + 24 * hour_ns in
        forE (\<lambda>d. forE (\<lambda>a. bindE (attempt (computeOne M ord s a d cutoff)) (\<lambda>_. ret ())) (sv_assets s))
          (day_range f t)))"

definition regime_Compute :: "libm \<Rightarrow> (asset \<Rightarrow> gotime \<Rightarrow> map_order) \<Rightarrow> 'w regime_service \<Rightarrow> asset \<Rightarrow> gotime \<Rightarrow> ('w, unit) io" where
  "regime_Compute M ord s a valueDate =
     bindE (sv_clock s) (\<lambda>cutoff. computeOne M ord s a (UTCDay valueDate) cutoff)"

definition regime_GetLatest :: "'w regime_service \<Rightarrow> asset \<Rightarrow> ('w, regime_state) io" where
  "regime_GetLatest s a = rr_GetLatest (sv_repo s) a"

definition regime_GetByDate :: "'w regime_service \<Rightarrow> asset \<Rightarrow> gotime \<Rightarrow> ('w, regime_state) io" where
  "regime_GetByDate s a d = rr_GetByDate (sv_repo s) a (UTCDay d)"

definition regime_GetHistory :: "'w regime_service \<Rightarrow> asset \<Rightarrow> gotime \<Rightarrow> gotime \<Rightarrow> ('w, regime_state list) io" where
  "regime_GetHistory s a from to = rr_GetHistory (sv_repo s) a (UTCDay from) (UTCDay to)"

section \<open>What the ports promise, and what the service then guarantees\<close>

definition regime_cfg_ok :: "regime_config \<Rightarrow> bool" where
  "regime_cfg_ok cfg \<longleftrightarrow> dom (cfg_weights cfg) \<subseteq> set AllDomains \<and>
     (\<forall>v\<in>ran (cfg_weights cfg). fin_in 0 1 v \<and> is_f64 v) \<and>
     fin_in 0 1 (rc_roc_weight cfg) \<and> fin_in 0 1 (rc_div_weight cfg) \<and>
     is_finite (rc_baseline cfg) \<and> is_f64 (rc_baseline cfg) \<and> is_finite (rc_sigmoid_k cfg) \<and>
     0 < rc_roc_window cfg \<and> rc_roc_window cfg < 2 ^ 53 \<and> rc_span cfg < 2 ^ 52"

lemma cfg_dom: "regime_cfg_ok cfg \<Longrightarrow> finite (dom (cfg_weights cfg)) \<and> card (dom (cfg_weights cfg)) \<le> 5"
proof -
  assume "regime_cfg_ok cfg"
  then have sub: "dom (cfg_weights cfg) \<subseteq> set AllDomains" by (simp add: regime_cfg_ok_def)
  have "card (dom (cfg_weights cfg)) \<le> card (set AllDomains)" using sub by (intro card_mono) auto
  also have "\<dots> = 5" using distinct_card[OF AllDomains_distinct] by simp
  finally show ?thesis using finite_subset[OF sub] by simp
qed

text \<open>A state the engine may store: finite, in range, with probabilities that add up to one.\<close>

definition good_state :: "regime_state \<Rightarrow> bool" where
  "good_state st \<longleftrightarrow> fin_in (- 2) 2 (rs_indicator st) \<and> fin_in (- 8) 8 (rs_indicator_raw st) \<and>
     fin_in 0 1 (rs_risk_on st) \<and> fin_in 0 1 (rs_risk_off st) \<and> fin_in 0 1 (rs_transition st) \<and>
     \<bar>qv (rs_risk_on st) + qv (rs_risk_off st) + qv (rs_transition st) - 1\<bar> \<le> 1 / 2 ^ 52"

definition scores_in :: "(domain_code \<rightharpoonup> f64) \<Rightarrow> bool" where
  "scores_in m \<longleftrightarrow> (\<forall>v\<in>ran m. fin_in (- 1) 1 v)"

definition history_in :: "f64 list \<Rightarrow> bool" where
  "history_in h \<longleftrightarrow> length h < 2 ^ 52 \<and> (\<forall>x\<in>set h. fin_in (- 1) 1 x \<and> is_f64 x)"

definition series_in :: "indicator_point list \<Rightarrow> bool" where
  "series_in ps \<longleftrightarrow> (\<forall>p\<in>set ps. fin_in (- 8) 8 (ip_indicator p))"

definition trail_in :: "trailing_point list \<Rightarrow> bool" where
  "trail_in ps \<longleftrightarrow> (\<forall>p\<in>set ps. fin_in (- 2) 2 (tp_indicator p) \<and> fin_in 0 1 (tp_transition p))"

definition inputs_in :: "(domain_code \<rightharpoonup> f64) \<Rightarrow> transition_inputs \<Rightarrow> bool" where
  "inputs_in normalized inp \<longleftrightarrow> ti_normalized inp = normalized \<and> length (ti_roc inp) < 2 ^ 52 \<and>
     length (ti_hist_rocs inp) < 2 ^ 52 \<and> length (ti_hist_divs inp) < 2 ^ 52 \<and>
     (\<forall>x \<in> set (ti_roc inp) \<union> set (ti_hist_rocs inp) \<union> set (ti_hist_divs inp). fin_in (- 32) 32 x)"

lemma powi_facts: "2 powi 5 = (32::rat)" "2 powi 1 = (2::rat)" "2 powi 3 = (8::rat)" "2 powi 0 = (1::rat)"
  by simp_all

lemma scores_in_mget: "scores_in m \<Longrightarrow> fin_in (- 1) 1 (mget fzero m d)"
  by (cases "m d") (auto simp: scores_in_def ran_def)

lemma roc_in:
  assumes "fin_in (- 1) 1 x" "fin_in (- 1) 1 y" "0 < w" "w < 2 ^ 53"
  shows "fin_in (- 32) 32 (fdiv (fabs (fsub x y)) (f_of_int w))"
proof -
  have e: "- 1 - 1 = - (2::rat)" "1 - - 1 = (2::rat)" by simp_all
  have "fin_in (- 2) 2 (fsub x y)"
    using fsub_in[OF assms(1,2)] dyadic_rq[OF dyadic_2] unfolding e by (simp add: rq_minus)
  then have "fin_in 0 2 (fdiv (fabs (fsub x y)) (f_of_int w))" by (intro fdiv_ge1_in fabs_in assms dyadic_2)
  then show ?thesis by (auto simp: fin_in_def)
qed

lemma hist_series_in:
  assumes "series_in ps" "0 < w" "w < 2 ^ 53"
  shows "x \<in> set (fst (computeHistoricalRocDiv ps vd w n)) \<union> set (snd (computeHistoricalRocDiv ps vd w n)) \<Longrightarrow> fin_in (- 32) 32 x"
proof -
  assume x: "x \<in> set (fst (computeHistoricalRocDiv ps vd w n)) \<union> set (snd (computeHistoricalRocDiv ps vd w n))"
  have p: "fin_in (- 8) 8 (ip_indicator p)" if "p \<in> set ps" for p using assms(1) that by (simp add: series_in_def)
  have k: "(8::rat) = 2 powi 3" "(0::int) \<le> 3" "(3::int) \<le> 390" by simp_all
  have "fin_in 0 (2 * 8) x \<or> fin_in 0 (4 * 8) x"
    using x computeHistoricalRocDiv_bounds[OF p k assms(2,3)] by blast
  then show ?thesis by (auto simp: fin_in_def)
qed

lemma effective_unit:
  assumes "regime_cfg_ok cfg" "lists_keys f"
  shows "fin_in 0 1 (mget fzero (redistributeWeights (f (dom (cfg_weights cfg))) (cfg_weights cfg) present) d)"
    and "dom (redistributeWeights (f (dom (cfg_weights cfg))) (cfg_weights cfg) present) \<subseteq> dom (cfg_weights cfg)"
proof -
  let ?w = "cfg_weights cfg" and ?ks = "f (dom (cfg_weights cfg))"
  let ?eff = "redistributeWeights ?ks ?w present"
  have ks: "set ?ks = dom ?w" "distinct ?ks" using assms by (auto simp: regime_cfg_ok_def lists_keys_def)
  have "length ?ks = card (dom ?w)" using ks distinct_card by metis
  then have len: "length ?ks < 2 ^ 53" using cfg_dom[OF assms(1)] by simp
  have a: "fin_in 0 1 v \<and> is_f64 v" if "?w d = Some v" for d v
    using assms(1) ranI[of ?w, OF that] unfolding regime_cfg_ok_def by blast
  have w: "fin_in 0 1 (mget fzero ?w d)" "is_f64 (mget fzero ?w d)" for d
    using a[of d] by (cases "?w d"; simp add: overflow_def)+
  show "fin_in 0 1 (mget fzero ?eff d)"
  proof (cases "?eff d")
    case (Some v)
    then show ?thesis using redistributeWeights_unit[OF w len _ Some] ks(1) by simp
  qed simp
  show "dom ?eff \<subseteq> dom ?w" by (auto simp: redistributeWeights_dom)
qed

locale regime_ports = go_libm M for M +
  fixes I :: "'w \<Rightarrow> bool" and s :: "'w regime_service" and ord :: "asset \<Rightarrow> gotime \<Rightarrow> map_order"
  assumes orders: "orders_ok (ord a vd)" and cfg: "regime_cfg_ok (sv_cfg s)"
    and latest_ok: "valid_io I (sr_GetLatestAll (sv_reader s) a vd c) scores_in"
    and bydate_ok: "valid_io I (sr_GetByDate (sv_reader s) a dm vd c) (\<lambda>(v, found). fin_in (- 1) 1 v)"
    and history_ok: "valid_io I (sr_GetHistory (sv_reader s) a dm n) history_in"
    and series_ok: "valid_io I (rr_GetIndicatorRawSeries (sv_repo s) a from to) series_in"
    and trail_ok: "valid_io I (rr_GetSmoothingTrailing (sv_repo s) a from to c) trail_in"
    and save_ok: "good_state st \<Longrightarrow> valid_io I (rr_Save (sv_repo s) st) (\<lambda>_. True)"
    and publish_ok: "valid_io I (sv_publish s ev) (\<lambda>_. True)"
    and clock_ok: "valid_io I (sv_clock s) (\<lambda>_. True)"
begin

lemma roc_per_domain_valid:
  assumes "scores_in scores"
  shows "valid_io I (roc_per_domain s a vd c scores present) (\<lambda>rs. length rs \<le> 5 \<and> (\<forall>x\<in>set rs. fin_in (- 32) 32 x))"
proof -
  have w: "0 < rc_roc_window (sv_cfg s)" "rc_roc_window (sv_cfg s) < 2 ^ 53" using cfg by (auto simp: regime_cfg_ok_def)
  have step: "valid_io I (foldE (\<lambda>rocs d.
           if \<not> mget False present d then ret rocs
           else bindE (wrapE ''domain score on'' [AStr (fmt_day (add_days vd (- rc_roc_window (sv_cfg s))))]
                  (sr_GetByDate (sv_reader s) a d (add_days vd (- rc_roc_window (sv_cfg s))) c))
             (\<lambda>(past, found). if \<not> found then ret rocs
                else ret (rocs @ [fdiv (fabs (fsub (mget fzero scores d) past)) (f_of_int (rc_roc_window (sv_cfg s)))])))
         rs0 ds) (\<lambda>rs. length rs \<le> length rs0 + length ds \<and> (\<forall>x\<in>set rs. fin_in (- 32) 32 x))"
    if "\<forall>x\<in>set rs0. fin_in (- 32) 32 x" for rs0 ds
    using that
  proof (induction ds arbitrary: rs0)
    case Nil
    then show ?case unfolding foldE.simps by (intro valid_ret) simp
  next
    case (Cons d ds)
    have one: "valid_io I (if \<not> mget False present d then ret rs0
           else bindE (wrapE ''domain score on'' [AStr (fmt_day (add_days vd (- rc_roc_window (sv_cfg s))))]
                  (sr_GetByDate (sv_reader s) a d (add_days vd (- rc_roc_window (sv_cfg s))) c))
             (\<lambda>(past, found). if \<not> found then ret rs0
                else ret (rs0 @ [fdiv (fabs (fsub (mget fzero scores d) past)) (f_of_int (rc_roc_window (sv_cfg s)))])))
        (\<lambda>rs. length rs \<le> Suc (length rs0) \<and> (\<forall>x\<in>set rs. fin_in (- 32) 32 x))"
      using Cons.prems
      by (auto intro!: valid_ret valid_bindE[OF valid_wrapE[OF bydate_ok]] roc_in w scores_in_mget assms)
    show ?case unfolding foldE.simps
      by (rule valid_bindE[OF one], rule valid_io_weaken[OF Cons.IH]) auto
  qed
  have "valid_io I (roc_per_domain s a vd c scores present) (\<lambda>rs. length rs \<le> length ([] :: f64 list) + length AllDomains \<and> (\<forall>x\<in>set rs. fin_in (- 32) 32 x))"
    unfolding roc_per_domain_def Let_def by (rule step) simp
  then show ?thesis by simp
qed

lemma momentum_valid: "valid_io I (momentum s a d c normalized present b ds) (\<lambda>_. True)"
proof (induction ds arbitrary: b)
  case (Cons d' ds)
  show ?case unfolding momentum.simps
    using Cons.IH by (auto intro!: valid_ret valid_bindE[OF valid_wrapE[OF bydate_ok]])
qed (simp only: momentum.simps valid_ret)

lemma gather_valid:
  assumes "scores_in scores"
  shows "valid_io I (gatherTransitionRiskInputs s a vd c scores normalized present) (inputs_in normalized)"
proof -
  have w: "0 < rc_roc_window (sv_cfg s)" "rc_roc_window (sv_cfg s) < 2 ^ 53" using cfg by (auto simp: regime_cfg_ok_def)
  have len: "length (fst (computeHistoricalRocDiv ps vd k 90)) < 2 ^ 52" "length (snd (computeHistoricalRocDiv ps vd k 90)) < 2 ^ 52" for ps k
    using computeHistoricalRocDiv_length[of ps vd k 90] by simp_all
  show ?thesis
    unfolding gatherTransitionRiskInputs_def
  proof (rule valid_bindE[OF roc_per_domain_valid[OF assms]], rule valid_bindE[OF valid_wrapE[OF series_ok]])
    fix rocs ps
    assume r: "length rocs \<le> 5 \<and> (\<forall>x\<in>set rocs. fin_in (- 32) 32 x)" and ps: "series_in ps"
    obtain hr hd where h: "computeHistoricalRocDiv ps vd (rc_roc_window (sv_cfg s)) 90 = (hr, hd)" by (cases "computeHistoricalRocDiv ps vd (rc_roc_window (sv_cfg s)) 90")
    have "\<forall>x\<in>set hr \<union> set hd. fin_in (- 32) 32 x" using hist_series_in[OF ps w, of _ vd 90] by (simp add: h)
    then show "valid_io I (let (hrocs, hdivs) = computeHistoricalRocDiv ps vd (rc_roc_window (sv_cfg s)) 90
        in bindE (momentum s a (add_days vd (- 3)) c normalized present False AllDomains)
             (\<lambda>(allSameDir, checkedAny).
                ret \<lparr>ti_normalized = normalized, ti_roc = rocs, ti_hist_rocs = hrocs, ti_hist_divs = hdivs,
                     ti_same_direction = checkedAny \<and> allSameDir, ti_checked = checkedAny\<rparr>)) (inputs_in normalized)"
      using r len[of ps "rc_roc_window (sv_cfg s)"] unfolding h Let_def
      by (auto intro!: valid_bindE[OF momentum_valid] valid_ret simp: inputs_in_def)
  qed
qed


lemma smooth_valid:
  assumes "fin_in (- 2) 2 i" "fin_in 0 1 r"
  shows "valid_io I (smooth s a vd c i r) (\<lambda>(j, t). fin_in (- 2) 2 j \<and> fin_in 0 1 t)"
proof (cases "1 < rc_span (sv_cfg s)")
  case True
  have n: "rc_span (sv_cfg s) < 2 ^ 52" using cfg by (simp add: regime_cfg_ok_def)
  have "fin_in (- 2) 2 (emaSmooth i (map tp_indicator trail) (rc_span (sv_cfg s))) \<and>
      fin_in 0 1 (clip (emaSmooth r (map tp_transition trail) (rc_span (sv_cfg s))) fzero fone)" if "trail_in trail" for trail
  proof
    show "fin_in (- 2) 2 (emaSmooth i (map tp_indicator trail) (rc_span (sv_cfg s)))"
      by (rule emaSmooth_in[where k = 1]) (use assms n that in \<open>auto simp: trail_in_def\<close>)
    have "fin_in 0 1 (emaSmooth r (map tp_transition trail) (rc_span (sv_cfg s)))"
      by (rule emaSmooth_in[where k = 0]) (use assms n that in \<open>auto simp: trail_in_def\<close>)
    then show "fin_in 0 1 (clip (emaSmooth r (map tp_transition trail) (rc_span (sv_cfg s))) fzero fone)"
      by (simp add: clip_id)
  qed
  then show ?thesis using True
    by (simp only: smooth_def Let_def if_True) (intro valid_bindE[OF valid_wrapE[OF trail_ok]] valid_ret, simp)
qed (use assms in \<open>simp only: smooth_def Let_def if_False, intro valid_ret, simp\<close>)

lemma histories_valid:
  "valid_io I (foldE (\<lambda>hs d. bindE (wrapE ''domain history'' [AStr d]
        (sr_GetHistory (sv_reader s) a d n)) (\<lambda>h. ret (hs(d \<mapsto> h)))) Map.empty ds)
     (\<lambda>hs. \<forall>d. history_in (mget [] hs d))"
proof (rule valid_foldE)
  show "\<forall>d. history_in (mget [] Map.empty d)" by (simp add: history_in_def)
  fix hs :: "domain_code \<rightharpoonup> f64 list" and d
  assume "\<forall>d. history_in (mget [] hs d)"
  then have "\<forall>e. history_in (mget [] (hs(d \<mapsto> h)) e)" if "history_in h" for h
    using that by (simp add: mget_def)
  then show "valid_io I (bindE (wrapE ''domain history'' [AStr d] (sr_GetHistory (sv_reader s) a d n))
      (\<lambda>h. ret (hs(d \<mapsto> h)))) (\<lambda>hs. \<forall>d. history_in (mget [] hs d))"
    by (intro valid_bindE[OF valid_wrapE[OF history_ok]] valid_ret)
qed

lemma final_good:
  assumes "fin_in (- 2) 2 j" "fin_in 0 1 t" "fin_in (- 8) 8 raw"
    and "finalProbabilities M j t (rc_sigmoid_k (sv_cfg s)) = (on, off)"
    and "rs_indicator st = j" "rs_indicator_raw st = raw" "rs_risk_on st = on" "rs_risk_off st = off" "rs_transition st = t"
  shows "good_state st"
proof -
  have "is_finite (rc_sigmoid_k (sv_cfg s))" using cfg by (simp add: regime_cfg_ok_def)
  then have "fmul (rc_sigmoid_k (sv_cfg s)) j \<noteq> NaN"
    using assms(1) by (cases "rc_sigmoid_k (sv_cfg s)"; cases j) (auto simp: zero_of_def fin_in_def)
  from finalProbabilities_range[OF assms(2) this] finalProbabilities_sum[OF assms(2) this]
  show ?thesis using assms by (simp add: good_state_def)
qed

lemma risk_in:
  assumes "inputs_in nrm inp" "\<And>d v. nrm d = Some v \<Longrightarrow> fin_in (- (2 powi 538)) (2 powi 538) v"
  shows "fin_in 0 1 (computeTransitionRisk M inp (sv_cfg s))"
proof (rule computeTransitionRisk_in[where B = 32 and k = 5 and C = "2 powi 538" and k' = 538])
  show "fin_in 0 1 (rc_roc_weight (sv_cfg s))" "fin_in 0 1 (rc_div_weight (sv_cfg s))"
    "is_finite (rc_baseline (sv_cfg s))" "is_f64 (rc_baseline (sv_cfg s))"
    using cfg unfolding regime_cfg_ok_def by blast+
  fix x assume "x \<in> ran (ti_normalized inp)"
  then obtain d where "nrm d = Some x" using assms(1) by (auto simp: inputs_in_def ran_def)
  then show "fin_in (- (2 powi 538)) (2 powi 538) x" by (rule assms(2))
qed (use assms(1) in \<open>auto simp: inputs_in_def\<close>)

lemma store_valid:
  assumes "fin_in (- 8) 8 r" "fin_in (- 2) 2 i" "fin_in 0 1 t"
  shows "valid_io I (store_state M s o' a vd eff present r cn i t) (\<lambda>_. True)"
proof -
  obtain on off where f: "finalProbabilities M i t (rc_sigmoid_k (sv_cfg s)) = (on, off)"
    by (cases "finalProbabilities M i t (rc_sigmoid_k (sv_cfg s))")
  show ?thesis
    unfolding store_state_def Let_def f prod.case
    by (rule valid_seqE[OF valid_wrapE[OF save_ok] publish_ok]) (rule final_good[OF assms(2,3,1) f]; simp)
qed

theorem computeOne_valid: "valid_io I (computeOne M ord s a vd c) (\<lambda>_. True)"
proof -
  let ?cfg = "sv_cfg s" and ?o = "ord a vd"
  let ?w = "cfg_weights ?cfg"
  have lk: "lists_keys (mo_weights ?o)" "lists_keys (mo_scores ?o)" "lists_keys (mo_raw ?o)" "lists_keys (mo_norm ?o)"
    using orders[of a vd] by (auto simp: orders_ok_def)
  have step: "valid_io I (bindE (foldE (\<lambda>hs d. bindE (wrapE ''domain history'' [AStr d]
                (sr_GetHistory (sv_reader s) a d (rc_norm_lookback ?cfg))) (\<lambda>h. ret (hs(d \<mapsto> h))))
             Map.empty ds) (\<lambda>histories.
      let normalized = normalizeScores scores histories (rc_norm_min_samples ?cfg);
          rawIndicator = weightedSumRaw (mo_raw ?o (dom eff)) scores eff;
          (contributions, normIndicator, unclipped) =
             weightedSumNormalized (mo_norm ?o (dom eff)) normalized eff
      in
      bindE (wrapE ''transition risk inputs'' []
         (gatherTransitionRiskInputs s a vd c scores normalized present)) (\<lambda>trInputs.
      bindE (smooth s a vd c normIndicator (computeTransitionRisk M trInputs ?cfg)) (\<lambda>(indicator, transRisk).
        store_state M s ?o a vd eff present rawIndicator contributions indicator transRisk)))) (\<lambda>_. True)"
    if eff: "\<And>d. fin_in 0 1 (mget fzero eff d)" "dom eff \<subseteq> dom ?w" and sc: "scores_in scores"
    for scores eff present ds
  proof (rule valid_bindE[OF histories_valid])
    fix hs :: "domain_code \<rightharpoonup> f64 list" assume hs: "\<forall>d. history_in (mget [] hs d)"
    have fin: "finite (dom ?w)" "card (dom ?w) \<le> 5" using cfg_dom[OF cfg] by auto
    have fe: "dom eff \<subseteq> set AllDomains" "card (dom eff) \<le> 5"
      using cfg eff(2) card_mono[OF fin(1) eff(2)] fin(2) by (auto simp: regime_cfg_ok_def)
    have en: "enumerates (mo_norm ?o (dom eff)) eff" "length (mo_norm ?o (dom eff)) < 2 ^ 53" "length (mo_raw ?o (dom eff)) \<le> 8"
      using lk fe by (auto simp: enumerates_def lists_keys_def distinct_card[symmetric])
    define nrm where "nrm = normalizeScores scores hs (rc_norm_min_samples ?cfg)"
    have nb: "fin_in (- (2 powi 538)) (2 powi 538) v" if "nrm d = Some v" for d v
      by (rule normalizeScores_in[OF that[unfolded nrm_def]])
        (use sc hs in \<open>auto simp: scores_in_def ran_def history_in_def\<close>)
    have raw: "fin_in (- 8) 8 (weightedSumRaw (mo_raw ?o (dom eff)) scores eff)"
      by (rule weightedSumRaw_in) (use eff(1) sc en(3) scores_in_mget in auto)
    obtain cn i u where wn: "weightedSumNormalized (mo_norm ?o (dom eff)) nrm eff = (cn, i, u)"
      by (cases "weightedSumNormalized (mo_norm ?o (dom eff)) nrm eff")
    have eu: "fin_in 0 1 v" if "eff d = Some v" for d v using eff(1)[of d] that by simp
    have "fin_in (- 2) 2 (fst (snd (weightedSumNormalized (mo_norm ?o (dom eff)) nrm eff)))"
      by (rule weightedSumNormalized_defined[where k = 538, OF en(1) eu nb refl]) (use en(2) in auto)
    then have i: "fin_in (- 2) 2 i" by (simp add: wn)
    show "valid_io I (let normalized = normalizeScores scores hs (rc_norm_min_samples ?cfg);
          rawIndicator = weightedSumRaw (mo_raw ?o (dom eff)) scores eff;
          (contributions, normIndicator, unclipped) =
             weightedSumNormalized (mo_norm ?o (dom eff)) normalized eff
      in
      bindE (wrapE ''transition risk inputs'' []
         (gatherTransitionRiskInputs s a vd c scores normalized present)) (\<lambda>trInputs.
      bindE (smooth s a vd c normIndicator (computeTransitionRisk M trInputs ?cfg)) (\<lambda>(indicator, transRisk).
        store_state M s ?o a vd eff present rawIndicator contributions indicator transRisk))) (\<lambda>_. True)"
      unfolding Let_def nrm_def[symmetric] wn prod.case
    proof (rule valid_bindE[OF valid_wrapE[OF gather_valid[OF sc]]])
      fix inp assume "inputs_in nrm inp"
      then have r: "fin_in 0 1 (computeTransitionRisk M inp ?cfg)" by (rule risk_in) (fact nb)
      show "valid_io I (bindE (smooth s a vd c i (computeTransitionRisk M inp ?cfg))
          (\<lambda>(indicator, transRisk). store_state M s ?o a vd eff present (weightedSumRaw (mo_raw ?o (dom eff)) scores eff) cn indicator transRisk)) (\<lambda>_. True)"
        by (rule valid_bindE[OF smooth_valid[OF i r]]) (auto intro: store_valid raw)
    qed
  qed
  show ?thesis
    unfolding computeOne_def Let_def
  proof (rule valid_bindE[OF valid_wrapE[OF latest_ok]])
    fix scores assume sc: "scores_in scores"
    let ?eff = "redistributeWeights (mo_weights ?o (dom ?w)) ?w (presentSet scores)"
    note eu = effective_unit[OF cfg lk(1), of "presentSet scores"]
    show "valid_io I (if flt (coverageFraction scores) (rc_min_coverage ?cfg)
        then throw (Wrap '': %.0f%% (need %.0f%%)'' [AFloat (fmul (coverageFraction scores) (lit 100)),
                 AFloat (fmul (rc_min_coverage ?cfg) (lit 100))] ErrInsufficientCoverage)
        else bindE (foldE (\<lambda>hs d. bindE (wrapE ''domain history'' [AStr d]
                (sr_GetHistory (sv_reader s) a d (rc_norm_lookback ?cfg))) (\<lambda>h. ret (hs(d \<mapsto> h))))
             Map.empty (mo_scores ?o (dom scores))) (\<lambda>histories.
      case weightedSumNormalized (mo_norm ?o (dom ?eff)) (normalizeScores scores histories (rc_norm_min_samples ?cfg)) ?eff of
        (contributions, normIndicator, unclipped) \<Rightarrow>
      bindE (wrapE ''transition risk inputs'' []
         (gatherTransitionRiskInputs s a vd c scores (normalizeScores scores histories (rc_norm_min_samples ?cfg)) (presentSet scores))) (\<lambda>trInputs.
      bindE (smooth s a vd c normIndicator (computeTransitionRisk M trInputs ?cfg)) (\<lambda>(indicator, transRisk).
        store_state M s ?o a vd ?eff (presentSet scores) (weightedSumRaw (mo_raw ?o (dom ?eff)) scores ?eff)
          contributions indicator transRisk)))) (\<lambda>_. True)"
      using step[unfolded Let_def, OF eu sc] by (simp only: valid_throw split: if_split) simp
  qed
qed

lemma RunOnce_valid: "valid_io I (RunOnce M ord s vd) (\<lambda>_. True)"
  unfolding RunOnce_def Let_def
  by (intro valid_bindE[OF clock_ok] valid_forE valid_wrapE computeOne_valid)

lemma RunBackfill_valid: "valid_io I (RunBackfill M ord s from to) (\<lambda>_. True)"
proof -
  have "valid_io I (bindE (attempt (computeOne M ord s a d c)) (\<lambda>_. ret ())) (\<lambda>_. True)" for a d c
    by (intro valid_bindE[OF valid_attempt[OF computeOne_valid]] valid_ret) simp
  then show ?thesis
    unfolding RunBackfill_def Let_def by (auto intro!: valid_throw valid_bindE[OF clock_ok] valid_forE)
qed

lemma Compute_valid: "valid_io I (regime_Compute M ord s a vd) (\<lambda>_. True)"
  unfolding regime_Compute_def by (intro valid_bindE[OF clock_ok] computeOne_valid)

end

section \<open>The reading part\<close>

text \<open>\<open>computeOne\<close> up to the point where everything is read and computed: it is this, then \<open>store_state\<close>.\<close>

definition compute_inputs :: "libm \<Rightarrow> (asset \<Rightarrow> gotime \<Rightarrow> map_order) \<Rightarrow> 'w regime_service \<Rightarrow> asset \<Rightarrow> gotime \<Rightarrow> gotime \<Rightarrow>
    ('w, (domain_code \<rightharpoonup> f64) \<times> (domain_code \<rightharpoonup> bool) \<times> f64 \<times> (domain_code \<rightharpoonup> f64) \<times> f64 \<times> f64) io" where
  "compute_inputs M ord s a vd cutoff =
     (let cfg = sv_cfg s; o' = ord a vd in
      bindE (wrapE ''read domain scores'' [] (sr_GetLatestAll (sv_reader s) a vd cutoff)) (\<lambda>scores.
      if flt (coverageFraction scores) (rc_min_coverage cfg) then
        throw (Wrap '': %.0f%% (need %.0f%%)'' [AFloat (fmul (coverageFraction scores) (lit 100)),
                 AFloat (fmul (rc_min_coverage cfg) (lit 100))] ErrInsufficientCoverage)
      else
      let eff = redistributeWeights (mo_weights o' (dom (cfg_weights cfg))) (cfg_weights cfg) (presentSet scores) in
      bindE (foldE (\<lambda>hs d. bindE (wrapE ''domain history'' [AStr d]
                (sr_GetHistory (sv_reader s) a d (rc_norm_lookback cfg))) (\<lambda>h. ret (hs(d \<mapsto> h))))
             Map.empty (mo_scores o' (dom scores))) (\<lambda>hs.
      let nrm = normalizeScores scores hs (rc_norm_min_samples cfg);
          (cn, i, u) = weightedSumNormalized (mo_norm o' (dom eff)) nrm eff in
      bindE (wrapE ''transition risk inputs'' []
         (gatherTransitionRiskInputs s a vd cutoff scores nrm (presentSet scores))) (\<lambda>inp.
      bindE (smooth s a vd cutoff i (computeTransitionRisk M inp cfg)) (\<lambda>(j, t).
      ret (eff, presentSet scores, weightedSumRaw (mo_raw o' (dom eff)) scores eff, cn, j, t))))))"

lemma bindE_cong: "(\<And>x. f x = g x) \<Longrightarrow> bindE m f = bindE m g"
  by presburger

lemma computeOne_split:
  "computeOne M ord s a vd c = bindE (compute_inputs M ord s a vd c)
     (\<lambda>(eff, present, raw, cn, i, t). store_state M s (ord a vd) a vd eff present raw cn i t)"
  unfolding computeOne_def compute_inputs_def Let_def
  by (auto simp: bindE_assoc case_prod_unfold intro!: bindE_cong)

section \<open>Steps\<close>

text \<open>What every port call obeys, every method of the service obeys.\<close>

locale regime_reads = io_rel R for R +
  fixes s :: "'w regime_service"
  assumes step_latest: "obeys R (sr_GetLatestAll (sv_reader s) a vd c)"
    and step_bydate: "obeys R (sr_GetByDate (sv_reader s) a dm vd c)"
    and step_history: "obeys R (sr_GetHistory (sv_reader s) a dm n)"
    and step_series: "obeys R (rr_GetIndicatorRawSeries (sv_repo s) a from to)"
    and step_trail: "obeys R (rr_GetSmoothingTrailing (sv_repo s) a from to c)"
begin

lemma momentum_steps: "obeys R (momentum s a d c normalized present b ds)"
  by (induction ds arbitrary: b)
    (auto simp only: momentum.simps split: if_splits prod.splits intro!: obeys_rules step_bydate)

lemma gather_steps: "obeys R (gatherTransitionRiskInputs s a vd c scores normalized present)"
  unfolding gatherTransitionRiskInputs_def roc_per_domain_def Let_def
  by (auto split: prod.splits intro!: obeys_bindE obeys_wrapE obeys_foldE obeys_ret momentum_steps step_bydate step_series)

lemma smooth_steps: "obeys R (smooth s a vd c i r)"
  unfolding smooth_def Let_def by (auto intro!: obeys_bindE obeys_wrapE obeys_ret step_trail)

lemma inputs_steps: "obeys R (compute_inputs M ord s a vd c)"
  unfolding compute_inputs_def Let_def
  by (auto split: prod.splits intro!: obeys_bindE obeys_wrapE obeys_foldE obeys_ret obeys_throw
      step_latest step_history gather_steps smooth_steps)

end

locale regime_steps = regime_reads +
  assumes step_save: "obeys R (rr_Save (sv_repo s) st)"
    and step_publish: "obeys R (sv_publish s ev)"
    and step_clock: "obeys R (sv_clock s)"
begin

lemma store_steps: "obeys R (store_state M s o' a vd eff present r cn i t)"
  unfolding store_state_def Let_def by (auto split: prod.splits intro!: obeys_seqE obeys_wrapE step_save step_publish)

lemma computeOne_steps: "obeys R (computeOne M ord s a vd c)"
  unfolding computeOne_split by (auto split: prod.splits intro!: obeys_bindE inputs_steps store_steps)

lemma RunOnce_steps: "obeys R (RunOnce M ord s vd)"
  unfolding RunOnce_def Let_def by (intro obeys_bindE obeys_forE obeys_wrapE step_clock computeOne_steps)

lemma RunBackfill_steps: "obeys R (RunBackfill M ord s from to)"
  unfolding RunBackfill_def Let_def
  by (auto intro!: obeys_bindE obeys_forE obeys_attempt obeys_ret obeys_throw step_clock computeOne_steps)

lemma Compute_steps: "obeys R (regime_Compute M ord s a vd)"
  unfolding regime_Compute_def by (intro obeys_bindE step_clock computeOne_steps)

end

section \<open>Errors\<close>

lemma computeOne_coverage:
  assumes "sr_GetLatestAll (sv_reader s) a vd c w = (Inr scores, w')"
    and "flt (coverageFraction scores) (rc_min_coverage (sv_cfg s))"
  shows "\<exists>e. computeOne M ord s a vd c w = (Inl e, w') \<and> errors_Is e ErrInsufficientCoverage"
  using assms by (auto simp: computeOne_def Let_def bindE_def wrapE_def)

text \<open>\<open>RunBackfill\<close> succeeds whenever the interval is not empty: failing days are skipped.\<close>

lemma forE_total: "(\<And>x w. x \<in> set xs \<Longrightarrow> \<exists>w'. f x w = (Inr (), w')) \<Longrightarrow> \<exists>w'. forE f xs w = (Inr (), w')"
proof (induction xs arbitrary: w)
  case (Cons x xs)
  then obtain w1 where "f x w = (Inr (), w1)" by fastforce
  with Cons show ?case by (simp add: seqE_def bindE_def)
qed simp

lemma RunBackfill_total:
  assumes "UTCDay from \<le> UTCDay to" and "\<And>w. \<exists>t w'. sv_clock s w = (Inr t, w')"
  shows "\<exists>w'. RunBackfill M ord s from to w = (Inr (), w')"
proof -
  obtain t w1 where c: "sv_clock s w = (Inr t, w1)" using assms(2) by blast
  have b: "\<exists>w'. bindE (attempt m) (\<lambda>_. ret ()) w = (Inr (), w')" for m :: "('a, unit) io" and w
    by (cases "m w") (simp add: bindE_def attempt_def)
  have "\<exists>w'. forE (\<lambda>d. forE (\<lambda>a. bindE (attempt (computeOne M ord s a d (t + 24 * hour_ns))) (\<lambda>_. ret ())) (sv_assets s))
          (day_range (UTCDay from) (UTCDay to)) w1 = (Inr (), w')"
    by (intro forE_total b)
  then show ?thesis using assms(1) c by (simp add: RunBackfill_def Let_def bindE_def)
qed

end
