(* ===== verification/Store.thy ===== *)
theory Store
  imports Domain
begin

text \<open>
  Bitemporal tables.  A table is the list of its rows in insertion order; a row has the time it
  was ingested and its columns.  The queries of \<open>internal/storage\<close> are instances of three
  shapes: the latest row (\<open>ORDER BY ingested_at DESC LIMIT 1\<close>), the latest row per key
  (\<open>DISTINCT ON (k) ... ORDER BY k, ingested_at DESC\<close>) and the restriction to the rows
  ingested by a cutoff.  Rows with equal ingestion times are resolved by position, which stands
  for the order the database happens to return them in.
\<close>

record 'a row =
  r_ingested :: gotime
  r_val :: 'a

type_synonym 'a table = "'a row list"

fun latest :: "'a table \<Rightarrow> 'a row option" where
  "latest [] = None"
| "latest (r # rs) = (case latest rs of None \<Rightarrow> Some r
     | Some s \<Rightarrow> if r_ingested r < r_ingested s then Some s else Some r)"

definition as_of :: "gotime \<Rightarrow> 'a table \<Rightarrow> 'a table" where
  "as_of cutoff t = filter (\<lambda>r. r_ingested r \<le> cutoff) t"

definition where_rows :: "('a \<Rightarrow> bool) \<Rightarrow> 'a table \<Rightarrow> 'a table" where
  "where_rows P t = filter (\<lambda>r. P (r_val r)) t"

text \<open>The keys in ascending order, each once, with the latest row of each.\<close>

definition keys_of :: "('a \<Rightarrow> 'k::linorder) \<Rightarrow> 'a table \<Rightarrow> 'k list" where
  "keys_of k t = sort (remdups (map (k \<circ> r_val) t))"

definition latest_by :: "('a \<Rightarrow> 'k::linorder) \<Rightarrow> 'a table \<Rightarrow> 'a list" where
  "latest_by k t = List.map_filter (\<lambda>x. map_option r_val (latest (where_rows (\<lambda>v. k v = x) t))) (keys_of k t)"

definition latest_map :: "('a \<Rightarrow> 'k) \<Rightarrow> 'a table \<Rightarrow> 'k \<rightharpoonup> 'a" where
  "latest_map k t x = map_option r_val (latest (where_rows (\<lambda>v. k v = x) t))"

section \<open>The latest row\<close>

lemma latest_None [simp]: "latest t = None \<longleftrightarrow> t = []"
  by (cases t) (auto split: option.splits)

lemma latest_Some:
  "latest t = Some r \<Longrightarrow> r \<in> set t \<and> (\<forall>s\<in>set t. r_ingested s \<le> r_ingested r)"
  by (induction t arbitrary: r) (fastforce split: option.splits if_splits)+

lemma latest_unique:
  assumes "r \<in> set t" and "\<And>s. s \<in> set t \<Longrightarrow> s \<noteq> r \<Longrightarrow> r_ingested s < r_ingested r"
  shows "latest t = Some r"
proof (cases "latest t")
  case (Some s)
  then have s: "s \<in> set t" "r_ingested r \<le> r_ingested s" using latest_Some assms(1) by blast+
  then show ?thesis using Some assms(2)[of s] by (cases "s = r") auto
qed (use assms(1) in auto)

text \<open>A row ingested after all others is the latest.\<close>

lemma latest_snoc:
  assumes "\<And>s. s \<in> set t \<Longrightarrow> r_ingested s < r_ingested r"
  shows "latest (t @ [r]) = Some r"
  by (rule latest_unique) (use assms in auto)

lemma where_rows_append [simp]: "where_rows P (t @ u) = where_rows P t @ where_rows P u"
  by (simp add: where_rows_def)

lemma as_of_append [simp]: "as_of c (t @ u) = as_of c t @ as_of c u"
  by (simp add: as_of_def)

lemma where_rows_Nil [simp]: "where_rows P [] = []" and as_of_Nil [simp]: "as_of c [] = []"
  by (simp_all add: where_rows_def as_of_def)

lemma where_rows_Cons [simp]: "where_rows P (r # t) = (if P (r_val r) then r # where_rows P t else where_rows P t)"
  by (simp add: where_rows_def)

lemma as_of_Cons [simp]: "as_of c (r # t) = (if r_ingested r \<le> c then r # as_of c t else as_of c t)"
  by (simp add: as_of_def)

lemma set_where_rows [simp]: "r \<in> set (where_rows P t) \<longleftrightarrow> r \<in> set t \<and> P (r_val r)"
  by (simp add: where_rows_def)

lemma set_as_of [simp]: "r \<in> set (as_of c t) \<longleftrightarrow> r \<in> set t \<and> r_ingested r \<le> c"
  by (simp add: as_of_def)

lemma as_of_idem [simp]: "as_of c (as_of c t) = as_of c t"
  by (simp add: as_of_def)

lemma where_as_of: "where_rows P (as_of c t) = as_of c (where_rows P t)"
  by (induction t) auto

section \<open>One row per key\<close>

lemma latest_by_map_fst:
  "map (\<lambda>v. k v) (latest_by k t) = keys_of k t"
proof -
  have "map k (List.map_filter (\<lambda>x. map_option r_val (latest (where_rows (\<lambda>v. k v = x) t))) ks) = ks"
    if "set ks \<subseteq> k ` r_val ` set t" for ks
    using that
  proof (induction ks)
    case (Cons x ks)
    then obtain r where "r \<in> set t" "k (r_val r) = x" by auto
    then have "where_rows (\<lambda>v. k v = x) t \<noteq> []" by (metis set_where_rows empty_iff empty_set)
    then obtain s where s: "latest (where_rows (\<lambda>v. k v = x) t) = Some s" by fastforce
    then have "k (r_val s) = x" using latest_Some[OF s] by auto
    then show ?case using Cons s by simp
  qed simp
  from this[of "keys_of k t"] show ?thesis by (simp add: latest_by_def keys_of_def image_comp)
qed

text \<open>The rows come in strictly ascending order of their keys: one per key.\<close>

lemma latest_by_sorted: "sorted (map k (latest_by k t))" and latest_by_distinct: "distinct (map k (latest_by k t))"
  by (simp_all add: latest_by_map_fst keys_of_def)

lemma latest_by_mem:
  "v \<in> set (latest_by k t) \<longleftrightarrow> (\<exists>r. latest (where_rows (\<lambda>u. k u = k v) t) = Some r \<and> r_val r = v)"
proof -
  have key: "k (r_val r) = x" if "latest (where_rows (\<lambda>u. k u = x) t) = Some r" for r x
    using latest_Some[OF that] by simp
  have "v \<in> set (latest_by k t) \<longleftrightarrow> (\<exists>x \<in> k ` r_val ` set t. \<exists>r. latest (where_rows (\<lambda>u. k u = x) t) = Some r \<and> r_val r = v)"
    by (simp add: latest_by_def map_filter_bounds keys_of_def image_comp)
  also have "\<dots> \<longleftrightarrow> (\<exists>r. latest (where_rows (\<lambda>u. k u = k v) t) = Some r \<and> r_val r = v)"
  proof
    assume "\<exists>r. latest (where_rows (\<lambda>u. k u = k v) t) = Some r \<and> r_val r = v"
    then obtain r where "latest (where_rows (\<lambda>u. k u = k v) t) = Some r" "r_val r = v" by blast
    moreover from this have "r \<in> set t" using latest_Some by fastforce
    ultimately show "\<exists>x \<in> k ` r_val ` set t. \<exists>r. latest (where_rows (\<lambda>u. k u = x) t) = Some r \<and> r_val r = v" by blast
  qed (use key in auto)
  finally show ?thesis .
qed

lemma latest_by_mem_table: "v \<in> set (latest_by k t) \<Longrightarrow> \<exists>r\<in>set t. r_val r = v"
  using latest_Some by (fastforce simp: latest_by_mem)

lemma latest_map_dom: "x \<in> dom (latest_map k t) \<longleftrightarrow> (\<exists>r\<in>set t. k (r_val r) = x)"
  by (auto simp: latest_map_def dom_def where_rows_def filter_empty_conv)

lemma latest_map_mem: "latest_map k t x = Some v \<Longrightarrow> k v = x \<and> (\<exists>r\<in>set t. r_val r = v)"
  using latest_Some by (fastforce simp: latest_map_def)

section \<open>Point-in-time queries\<close>

text \<open>
  The contract of a query with a cutoff: it depends on the rows ingested by the cutoff alone.
  Then it answers the same at every later time, whatever has been inserted since: this is what
  makes a computation repeatable.
\<close>

locale point_in_time =
  fixes q :: "'a table \<Rightarrow> gotime \<Rightarrow> 'r"
  assumes visible: "q t c = q (as_of c t) c"
begin

lemma stable: "(\<And>r. r \<in> set new \<Longrightarrow> c < r_ingested r) \<Longrightarrow> q (t @ new) c = q t c"
  by (metis (no_types, lifting) visible as_of_append as_of_def filter_False append_Nil2 not_le)

lemma agree: "as_of c t = as_of c u \<Longrightarrow> q t c = q u c"
  by (metis visible)

lemma stable_fold:
  "(\<And>us r. us \<in> set batches \<Longrightarrow> r \<in> set us \<Longrightarrow> c < r_ingested r) \<Longrightarrow> q (t @ concat batches) c = q t c"
  by (rule stable) auto

end

end
