(* ===== verification/LeverageRows.thy ===== *)
theory LeverageRows
  imports Domain
begin

text \<open>
  The raw rows of the leverage domain (\<open>internal/leverage/port.go\<close>), which its repository stores
  field by field.
\<close>

record oi_row =
  or_value_date :: gotime
  or_asset :: asset
  or_exchange :: string
  or_usd :: f64
  or_source :: string
  or_hash :: string

record funding_row =
  fu_time :: gotime
  fu_asset :: asset
  fu_exchange :: string
  fu_rate :: f64
  fu_source :: string
  fu_hash :: string

record basis_row =
  bs_value_date :: gotime
  bs_symbol :: string
  bs_exchange :: string
  bs_annualized :: f64
  bs_close :: f64
  bs_source :: string
  bs_hash :: string

record deribit_basis_row =
  db_value_date :: gotime
  db_asset :: asset
  db_instrument :: string
  db_futures :: f64
  db_spot :: f64
  db_annualized :: f64
  db_days :: int
  db_source :: string
  db_hash :: string

record liqs_row =
  lq_value_date :: gotime
  lq_asset :: asset
  lq_exchange :: string
  lq_long :: f64
  lq_short :: f64
  lq_source :: string
  lq_hash :: string

record ls_row =
  lr_value_date :: gotime
  lr_symbol :: string
  lr_exchange :: string
  lr_long :: f64
  lr_short :: f64
  lr_ratio :: f64
  lr_source :: string
  lr_hash :: string

record taker_row =
  tk_value_date :: gotime
  tk_symbol :: string
  tk_buy :: f64
  tk_sell :: f64
  tk_source :: string
  tk_hash :: string

record borrow_row =
  bo_value_date :: gotime
  bo_symbol :: string
  bo_exchange :: string
  bo_rate :: f64
  bo_source :: string
  bo_hash :: string

text \<open>\<open>LSRatioKind\<close> is a string type.\<close>

type_synonym ls_kind = string

definition LSGlobal :: ls_kind where "LSGlobal = ''global''"
definition LSTopAccount :: ls_kind where "LSTopAccount = ''top_account''"
definition LSTopPosition :: ls_kind where "LSTopPosition = ''top_position''"

end
