(* ===== verification/DomainRows.thy ===== *)
theory DomainRows
  imports LeverageRows
begin

text \<open>
  The raw rows of the market stress, volatility and capital flows domains, which their repositories
  store field by field.
\<close>

section \<open>Market stress\<close>

record kline_row =
  kl_value_date :: gotime
  kl_symbol :: string
  kl_close :: f64
  kl_volume :: f64
  kl_source :: string
  kl_hash :: string

record ohlc_row =
  ko_value_date :: gotime
  ko_pair :: string
  ko_open :: f64
  ko_high :: f64
  ko_low :: f64
  ko_close :: f64
  ko_volume :: f64
  ko_source :: string
  ko_hash :: string

record candle_row =
  cn_value_date :: gotime
  cn_product :: string
  cn_close :: f64
  cn_volume :: f64
  cn_source :: string
  cn_hash :: string

record premium_row =
  pr_value_date :: gotime
  pr_usd :: f64
  pr_rate :: f64
  pr_coinbase :: f64
  pr_source :: string
  pr_hash :: string

record book_row =
  bk_value_date :: gotime
  bk_symbol :: string
  bk_range :: string
  bk_bids_usd :: f64
  bk_bids_qty :: f64
  bk_asks_usd :: f64
  bk_asks_qty :: f64
  bk_source :: string
  bk_hash :: string

record fsratio_row =
  fq_value_date :: gotime
  fq_symbol :: string
  fq_ratio :: f64
  fq_futures :: f64
  fq_spot :: f64
  fq_source :: string
  fq_hash :: string

section \<open>Volatility\<close>

record dvol_row =
  dv_value_date :: gotime
  dv_asset :: asset
  dv_close :: f64
  dv_source :: string
  dv_hash :: string

record options_info_row =
  oq_value_date :: gotime
  oq_symbol :: string
  oq_exchange :: string
  oq_oi :: f64
  oq_share :: f64
  oq_change24h :: f64
  oq_oi_usd :: f64
  oq_volume :: f64
  oq_volume_change :: f64
  oq_call_oi :: f64
  oq_put_oi :: f64
  oq_source :: string
  oq_hash :: string

record options_oi_row =
  oh_value_date :: gotime
  oh_symbol :: string
  oh_exchange :: string
  oh_oi :: f64
  oh_source :: string
  oh_hash :: string

record max_pain_row =
  mp_value_date :: gotime
  mp_expiry :: gotime
  mp_symbol :: string
  mp_exchange :: string
  mp_price :: f64
  mp_call_oi :: f64
  mp_put_oi :: f64
  mp_call_usd :: f64
  mp_put_usd :: f64
  mp_call_value :: f64
  mp_put_value :: f64
  mp_source :: string
  mp_hash :: string

record chain_row =
  ch_value_date :: gotime
  ch_asset :: asset
  ch_instrument :: string
  ch_expiry :: gotime
  ch_strike :: f64
  ch_put :: bool
  ch_oi :: f64
  ch_iv :: f64
  ch_underlying :: f64
  ch_source :: string
  ch_hash :: string

section \<open>Capital flows\<close>

record etf_flow_row =
  ef_value_date :: gotime
  ef_kind :: string
  ef_usd :: f64
  ef_price :: f64
  ef_source :: string
  ef_hash :: string

record lth_row =
  lh_value_date :: gotime
  lh_asset :: asset
  lh_supply :: f64
  lh_source :: string
  lh_hash :: string

record miner_row =
  mn_value_date :: gotime
  mn_asset :: asset
  mn_usd :: f64
  mn_source :: string
  mn_hash :: string

record stable_mcap_row =
  sc_value_date :: gotime
  sc_cap :: f64
  sc_price :: f64
  sc_source :: string
  sc_hash :: string

record balance_row =
  eb_value_date :: gotime
  eb_symbol :: string
  eb_exchange :: string
  eb_total :: f64
  eb_change1d :: f64
  eb_change7d :: f64
  eb_change30d :: f64
  eb_pct1d :: f64
  eb_pct7d :: f64
  eb_pct30d :: f64
  eb_source :: string
  eb_hash :: string

record margin_row =
  bm_value_date :: gotime
  bm_symbol :: string
  bm_long :: f64
  bm_short :: f64
  bm_source :: string
  bm_hash :: string

record etf_list_row =
  et_value_date :: gotime
  et_ticker :: string
  et_fund :: string
  et_region :: string
  et_status :: string
  et_venue :: string
  et_kind :: string
  et_shares :: f64
  et_aum :: f64
  et_fee :: f64
  et_volume :: f64
  et_price_change :: f64
  et_nav :: f64
  et_premium :: f64
  et_holding :: f64
  et_pct24h :: f64
  et_qty24h :: f64
  et_pct7d :: f64
  et_qty7d :: f64
  et_source :: string
  et_hash :: string

record etf_aum_row =
  ea_value_date :: gotime
  ea_ticker :: string
  ea_aum :: f64
  ea_source :: string
  ea_hash :: string

end
