(* ===== verification/Storage.thy ===== *)
theory Storage
  imports Store DomainRows
begin

text \<open>
  \<open>internal/storage\<close> (\<open>storage.go\<close>, \<open>regime.go\<close>) and \<open>internal/outbox\<close>: the database the engine
  runs on, the transactions and the SQL of each query and insert.  The world holds the tables, a
  clock and a fault plan: every interaction with the database is a numbered tick, at which the
  driver fails when the plan says so; begin, statement and commit are separate ticks.
\<close>

section \<open>Storage rows\<close>

record stablecoin_row =
  sp_value_date :: gotime
  sp_stablecoin :: string
  sp_metric :: string
  sp_value :: f64
  sp_source :: string
  sp_hash :: string

record tvl_row =
  tv_value_date :: gotime
  tv_chain :: string
  tv_usd :: f64
  tv_source :: string
  tv_hash :: string

record netflow_row =
  nf_value_date :: gotime
  nf_asset :: asset
  nf_inflow :: "f64 option"
  nf_outflow :: "f64 option"
  nf_netflow :: "f64 option"
  nf_source :: string
  nf_hash :: string

record mcap_row =
  mc_value_date :: gotime
  mc_coin :: string
  mc_cap :: f64
  mc_price :: f64
  mc_source :: string
  mc_hash :: string

record model_config =
  cf_version :: string
  cf_scope :: string
  cf_model_version :: string
  cf_body :: string
  cf_parsed :: "string \<rightharpoonup> anyval"

record smoothing_point =
  sm_value_date :: gotime
  sm_indicator :: f64
  sm_transition :: f64

text \<open>
  The raw tables of the other domains share one heap: the constructor (and, for the long-short ratios,
  the kind) is the table.  Their features are kept with the name of their table.
\<close>

datatype raw_row =
    RawExchangeOI oi_row
  | RawExchangeFunding funding_row
  | RawExchangeLiquidations liqs_row
  | RawCoinglassFuturesBasis basis_row
  | RawCoinglassLongShortRatio string ls_row
  | RawCoinglassTakerVolume taker_row
  | RawCoinglassBorrowRate borrow_row
  | RawDeribitBasis deribit_basis_row
  | RawBinanceKline kline_row
  | RawKrakenOHLC ohlc_row
  | RawCoinbaseCandle candle_row
  | RawCoinglassCoinbasePremium premium_row
  | RawCoinglassOrderbookAggregated book_row
  | RawCoinglassFuturesSpotVolRatio fsratio_row
  | RawDeribitDVOL dvol_row
  | RawCoinglassOptionsInfo options_info_row
  | RawCoinglassOptionsOIHistory options_oi_row
  | RawCoinglassOptionsMaxPain max_pain_row
  | RawDeribitOptionsChain chain_row
  | RawCoinglassETFFlow etf_flow_row
  | RawGlassnodeLTHSupply lth_row
  | RawGlassnodeMinerFlow miner_row
  | RawCoinglassStablecoinMcap stable_mcap_row
  | RawCoinglassExchangeBalance balance_row
  | RawCoinglassBitfinexMargin margin_row
  | RawCoinglassETFListItem etf_list_row
  | RawCoinglassETFAUMHistory etf_aum_row

section \<open>The world and transactions\<close>

record world =
  w_ticks :: nat
  w_clock :: "nat \<Rightarrow> gotime"
  w_fault :: "nat \<Rightarrow> err option"
  w_txtime :: gotime
  w_stable :: "stablecoin_row table"
  w_tvl :: "tvl_row table"
  w_netflow :: "netflow_row table"
  w_mcap :: "mcap_row table"
  w_features :: "feature table"
  w_raws :: "raw_row table"
  w_dfeatures :: "(string \<times> feature) table"
  w_scores :: "domain_score table"
  w_regimes :: "regime_state table"
  w_outbox :: "event table"
  w_configs :: "model_config list"

definition clock_Now :: "('a world_scheme, gotime) io" where
  "clock_Now w = (Inr (w_clock w (w_ticks w)), w\<lparr>w_ticks := Suc (w_ticks w)\<rparr>)"

definition db_op :: "('a world_scheme, unit) io" where
  "db_op w = ((case w_fault w (w_ticks w) of None \<Rightarrow> Inr () | Some e \<Rightarrow> Inl e), w\<lparr>w_ticks := Suc (w_ticks w)\<rparr>)"

definition db_read :: "('a world_scheme \<Rightarrow> 'r) \<Rightarrow> ('a world_scheme, 'r) io" where
  "db_read f = bindE db_op (\<lambda>_ w. (Inr (f w), w))"

definition db_write :: "('a world_scheme \<Rightarrow> err + 'a world_scheme) \<Rightarrow> ('a world_scheme, unit) io" where
  "db_write f = bindE db_op (\<lambda>_ w. case f w of Inl e \<Rightarrow> (Inl e, w) | Inr w' \<Rightarrow> (Inr (), w'))"

text \<open>\<open>QueryRow(...).Scan\<close>: no row is the error \<open>ErrNoRows\<close>.\<close>

definition query_row :: "('a world_scheme \<Rightarrow> 'r option) \<Rightarrow> ('a world_scheme, 'r) io" where
  "query_row f = bindE (db_read f) (\<lambda>r. case r of None \<Rightarrow> throw ErrNoRows | Some v \<Rightarrow> ret v)"

text \<open>\<open>Query\<close>, then the scan of the rows.\<close>

definition query_rows :: "string \<Rightarrow> anyval list \<Rightarrow> ('a world_scheme \<Rightarrow> 'r) \<Rightarrow> ('a world_scheme, 'r) io" where
  "query_rows msg vs f = seqE (wrapE msg vs db_op) (db_read f)"

definition query_plain :: "('a world_scheme \<Rightarrow> 'r) \<Rightarrow> ('a world_scheme, 'r) io" where
  "query_plain f = seqE db_op (db_read f)"

text \<open>
  \<open>Pool.InTx\<close>: \<open>now()\<close> is the time the transaction began; a failing body or commit rolls every
  table back to where the transaction found it.
\<close>

definition begin_tx :: "('a world_scheme, unit) io" where
  "begin_tx w = db_op (w\<lparr>w_txtime := w_clock w (w_ticks w)\<rparr>)"

definition rollback :: "'a world_scheme \<Rightarrow> 'a world_scheme \<Rightarrow> 'a world_scheme" where
  "rollback w w' = w\<lparr>w_ticks := w_ticks w', w_txtime := w_txtime w'\<rparr>"

definition InTx :: "('a world_scheme, 'r) io \<Rightarrow> ('a world_scheme, 'r) io" where
  "InTx body w =
     (case wrapE ''begin tx'' [] begin_tx w of
        (Inl e, w1) \<Rightarrow> (Inl e, w1)
      | (Inr _, w1) \<Rightarrow>
          (case body w1 of
             (Inl e, w2) \<Rightarrow> (Inl e, rollback w1 w2)
           | (Inr x, w2) \<Rightarrow>
               (case db_op w2 of
                  (Inl e, w3) \<Rightarrow> (Inl e, rollback w1 w3)
                | (Inr _, w3) \<Rightarrow> (Inr x, w3))))"

section \<open>Column encodings\<close>

text \<open>NUMERIC and JSONB know no negative zero; JSON has no NaN and no infinities.\<close>

definition num_col :: "f64 \<Rightarrow> f64" where
  "num_col x = (if x = NZero then fzero else x)"

definition json_err :: err where
  "json_err = Fresh ''json: unsupported value'' []"

definition json_floats :: "(string \<rightharpoonup> f64) \<Rightarrow> bool" where
  "json_floats m \<longleftrightarrow> (\<forall>v\<in>ran m. is_finite v)"

definition jsonb_floats :: "(string \<rightharpoonup> f64) \<Rightarrow> string \<rightharpoonup> f64" where
  "jsonb_floats m = (\<lambda>k. map_option num_col (m k))"

fun json_any :: "anyval \<Rightarrow> bool" where
  "json_any (AFloat x) = is_finite x"
| "json_any (AList vs) = list_all json_any vs"
| "json_any _ = True"

definition json_anys :: "(string \<rightharpoonup> anyval) \<Rightarrow> bool" where
  "json_anys m \<longleftrightarrow> (\<forall>v\<in>ran m. json_any v)"

definition json_drivers :: "top_driver list \<Rightarrow> bool" where
  "json_drivers ds \<longleftrightarrow> (\<forall>d\<in>set ds. is_finite (td_contribution d) \<and> is_finite (td_share d))"

definition jsonb_driver :: "top_driver \<Rightarrow> top_driver" where
  "jsonb_driver d = d\<lparr>td_contribution := num_col (td_contribution d), td_share := num_col (td_share d)\<rparr>"

section \<open>Inserts\<close>

text \<open>
  \<open>insert_pk\<close>: the primary key is the key columns and the ingestion time.  \<open>insert_dedupe\<close>: with
  \<open>ON CONFLICT (key, payload_hash) DO NOTHING\<close>; a clash of the primary key is still an error.
\<close>

definition unique_violation :: err where
  "unique_violation = Fresh ''duplicate key value violates unique constraint'' []"

definition insert_pk :: "('a \<Rightarrow> 'k) \<Rightarrow> gotime \<Rightarrow> 'a \<Rightarrow> 'a table \<Rightarrow> err + 'a table" where
  "insert_pk k now v t =
     (if \<exists>r\<in>set t. k (r_val r) = k v \<and> r_ingested r = now then Inl unique_violation
      else Inr (t @ [\<lparr>r_ingested = now, r_val = v\<rparr>]))"

definition insert_dedupe :: "('a \<Rightarrow> 'k) \<Rightarrow> ('a \<Rightarrow> string) \<Rightarrow> gotime \<Rightarrow> 'a \<Rightarrow> 'a table \<Rightarrow> err + 'a table" where
  "insert_dedupe k h now v t =
     (if \<exists>r\<in>set t. k (r_val r) = k v \<and> h (r_val r) = h v then Inr t else insert_pk k now v t)"

definition InsertRawStablecoinSupply :: "stablecoin_row \<Rightarrow> ('a world_scheme, unit) io" where
  "InsertRawStablecoinSupply r = db_write (\<lambda>w. map_sum id (\<lambda>t. w\<lparr>w_stable := t\<rparr>)
     (insert_dedupe (\<lambda>x. (sp_value_date x, sp_stablecoin x, sp_metric x)) sp_hash (w_txtime w)
        (r\<lparr>sp_value := num_col (sp_value r)\<rparr>) (w_stable w)))"

definition InsertRawChainTVL :: "tvl_row \<Rightarrow> ('a world_scheme, unit) io" where
  "InsertRawChainTVL r = db_write (\<lambda>w. map_sum id (\<lambda>t. w\<lparr>w_tvl := t\<rparr>)
     (insert_dedupe (\<lambda>x. (tv_value_date x, tv_chain x)) tv_hash (w_txtime w)
        (r\<lparr>tv_usd := num_col (tv_usd r)\<rparr>) (w_tvl w)))"

definition InsertRawExchangeNetflow :: "netflow_row \<Rightarrow> ('a world_scheme, unit) io" where
  "InsertRawExchangeNetflow r = db_write (\<lambda>w. map_sum id (\<lambda>t. w\<lparr>w_netflow := t\<rparr>)
     (insert_dedupe (\<lambda>x. (nf_value_date x, nf_asset x)) nf_hash (w_txtime w)
        (r\<lparr>nf_inflow := map_option num_col (nf_inflow r), nf_outflow := map_option num_col (nf_outflow r),
           nf_netflow := map_option num_col (nf_netflow r)\<rparr>) (w_netflow w)))"

definition InsertRawMarketCap :: "mcap_row \<Rightarrow> ('a world_scheme, unit) io" where
  "InsertRawMarketCap r = db_write (\<lambda>w. map_sum id (\<lambda>t. w\<lparr>w_mcap := t\<rparr>)
     (insert_dedupe (\<lambda>x. (mc_value_date x, mc_coin x)) mc_hash (w_txtime w)
        (r\<lparr>mc_cap := num_col (mc_cap r), mc_price := num_col (mc_price r)\<rparr>) (w_mcap w)))"

definition InsertLiquidityFeature :: "feature \<Rightarrow> ('a world_scheme, unit) io" where
  "InsertLiquidityFeature f = db_write (\<lambda>w. map_sum id (\<lambda>t. w\<lparr>w_features := t\<rparr>)
     (insert_pk (\<lambda>x. (ft_value_date x, ft_asset x, ft_timeframe x, ft_key x)) (w_txtime w) f (w_features w)))"

text \<open>The table checks \<open>score BETWEEN -1 AND 1\<close>, which NaN does not satisfy.\<close>

definition check_violation :: err where
  "check_violation = Fresh ''new row violates check constraint domain_scores_score_check'' []"

definition InsertDomainScore :: "domain_score \<Rightarrow> ('a world_scheme, unit) io" where
  "InsertDomainScore s =
     (if \<not> json_floats (ds_components s) \<or> \<not> json_anys (ds_quality s) then throw json_err
      else db_write (\<lambda>w.
        if \<not> (fle (fneg fone) (ds_score s) \<and> fle (ds_score s) fone) then Inl check_violation
        else map_sum id (\<lambda>t. w\<lparr>w_scores := t\<rparr>)
          (insert_pk (\<lambda>x. (ds_asset x, ds_domain x, ds_value_date x, ds_model_version x, ds_config_version x))
             (w_txtime w) (s\<lparr>ds_components := jsonb_floats (ds_components s)\<rparr>) (w_scores w))))"

definition InsertRegimeState :: "regime_state \<Rightarrow> ('a world_scheme, unit) io" where
  "InsertRegimeState s =
     (if \<not> json_floats (rs_contributions s) \<or> \<not> json_drivers (rs_top_drivers s) \<or> \<not> json_floats (rs_weights s)
      then throw json_err
      else db_write (\<lambda>w. map_sum id (\<lambda>t. w\<lparr>w_regimes := t\<rparr>)
        (insert_pk (\<lambda>x. (rs_asset x, rs_value_date x, rs_model_version x, rs_config_version x)) (w_txtime w)
           (s\<lparr>rs_contributions := jsonb_floats (rs_contributions s), rs_top_drivers := map jsonb_driver (rs_top_drivers s),
              rs_weights := jsonb_floats (rs_weights s)\<rparr>) (w_regimes w))))"

definition UpsertModelConfig :: "model_config \<Rightarrow> ('a world_scheme, unit) io" where
  "UpsertModelConfig c = (if \<not> json_anys (cf_parsed c) then throw json_err
     else db_write (\<lambda>w. Inr (if \<exists>x\<in>set (w_configs w). cf_version x = cf_version c then w
       else w\<lparr>w_configs := w_configs w @ [c]\<rparr>)))"

definition Enqueue :: "event \<Rightarrow> ('a world_scheme, unit) io" where
  "Enqueue e = (if \<not> json_anys (ev_payload e) then throw (Wrap ''marshal outbox payload'' [] json_err)
     else db_write (\<lambda>w. Inr (w\<lparr>w_outbox := w_outbox w @ [\<lparr>r_ingested = w_txtime w, r_val = e\<rparr>]\<rparr>)))"

section \<open>Queries\<close>

text \<open>The part of a table a query selects, and the query as a function of the table.\<close>

definition q_stable :: "string \<Rightarrow> gotime \<Rightarrow> stablecoin_row table \<Rightarrow> gotime \<Rightarrow> f64 option" where
  "q_stable coin vd t cutoff = map_option (sp_value \<circ> r_val) (latest (as_of cutoff (where_rows
     (\<lambda>x. sp_value_date x = vd \<and> sp_stablecoin x = coin \<and> sp_metric x = ''circulating_supply_usd'') t)))"

definition GetRawStablecoinSupplyAsOf :: "string \<Rightarrow> gotime \<Rightarrow> gotime \<Rightarrow> ('a world_scheme, f64) io" where
  "GetRawStablecoinSupplyAsOf coin vd cutoff = query_row (\<lambda>w. q_stable coin vd (w_stable w) cutoff)"

definition SumRawStablecoinSupplyAsOf :: "string list \<Rightarrow> gotime \<Rightarrow> gotime \<Rightarrow> ('a world_scheme, f64 \<times> int) io" where
  "SumRawStablecoinSupplyAsOf symbols vd cutoff =
     foldE (\<lambda>(total, found) sym w. case GetRawStablecoinSupplyAsOf sym vd cutoff w of
          (Inl e, w') \<Rightarrow> if e = ErrNoRows then (Inr (total, found), w')
                         else (Inl (Wrap ''sum stablecoin'' [AStr sym] e), w')
        | (Inr v, w') \<Rightarrow> (Inr (fadd total v, found + 1), w'))
       (fzero, 0) symbols"

definition q_tvl :: "string \<Rightarrow> gotime \<Rightarrow> tvl_row table \<Rightarrow> gotime \<Rightarrow> f64 option" where
  "q_tvl chain vd t cutoff = map_option (tv_usd \<circ> r_val)
     (latest (as_of cutoff (where_rows (\<lambda>x. tv_chain x = chain \<and> tv_value_date x = vd) t)))"

definition GetRawChainTVLAsOf :: "string \<Rightarrow> gotime \<Rightarrow> gotime \<Rightarrow> ('a world_scheme, f64) io" where
  "GetRawChainTVLAsOf chain vd cutoff = query_row (\<lambda>w. q_tvl chain vd (w_tvl w) cutoff)"

definition q_netflow :: "asset \<Rightarrow> gotime \<Rightarrow> gotime \<Rightarrow> netflow_row table \<Rightarrow> gotime \<Rightarrow> f64 option list" where
  "q_netflow a from to t cutoff = map nf_netflow (latest_by nf_value_date (as_of cutoff
     (where_rows (\<lambda>x. nf_asset x = a \<and> from \<le> nf_value_date x \<and> nf_value_date x \<le> to) t)))"

definition sum_some :: "f64 option list \<Rightarrow> f64 \<times> int" where
  "sum_some vs = foldl (\<lambda>(s, n) v. case v of None \<Rightarrow> (s, n) | Some x \<Rightarrow> (fadd s x, n + 1)) (fzero, 0) vs"

definition Sum7dNetflow :: "asset \<Rightarrow> gotime \<Rightarrow> gotime \<Rightarrow> ('a world_scheme, f64 \<times> bool) io" where
  "Sum7dNetflow a vd cutoff = bindE (query_plain (\<lambda>w. q_netflow a (add_days vd (- 6)) vd (w_netflow w) cutoff))
     (\<lambda>vs. let (s, n) = sum_some vs in if n < 7 then ret (fzero, False) else ret (s, True))"

definition q_mcap :: "string \<Rightarrow> gotime \<Rightarrow> mcap_row table \<Rightarrow> gotime \<Rightarrow> f64 option" where
  "q_mcap coin vd t cutoff = map_option (mc_cap \<circ> r_val)
     (latest (as_of cutoff (where_rows (\<lambda>x. mc_coin x = coin \<and> mc_value_date x = vd) t)))"

definition GetMarketCapAsOf :: "string \<Rightarrow> gotime \<Rightarrow> gotime \<Rightarrow> ('a world_scheme, f64) io" where
  "GetMarketCapAsOf coin vd cutoff = query_row (\<lambda>w. q_mcap coin vd (w_mcap w) cutoff)"

definition q_feature :: "feature_key \<Rightarrow> asset \<Rightarrow> gotime \<Rightarrow> feature table \<Rightarrow> gotime \<Rightarrow> f64 option" where
  "q_feature k a vd t cutoff = map_option (ft_value \<circ> r_val) (latest (as_of cutoff
     (where_rows (\<lambda>x. fk_name (ft_key x) = fk_name k \<and> fk_version (ft_key x) = fk_version k \<and>
        ft_asset x = a \<and> ft_value_date x = vd) t)))"

definition GetLatestLiquidityFeature :: "feature_key \<Rightarrow> asset \<Rightarrow> gotime \<Rightarrow> gotime \<Rightarrow> ('a world_scheme, f64) io" where
  "GetLatestLiquidityFeature k a vd cutoff = query_row (\<lambda>w. q_feature k a vd (w_features w) cutoff)"

definition q_feature_series :: "feature_key \<Rightarrow> asset \<Rightarrow> gotime \<Rightarrow> gotime \<Rightarrow> feature table \<Rightarrow> gotime \<Rightarrow> f64 list" where
  "q_feature_series k a from to t cutoff = map ft_value (latest_by ft_value_date (as_of cutoff
     (where_rows (\<lambda>x. fk_name (ft_key x) = fk_name k \<and> fk_version (ft_key x) = fk_version k \<and>
        ft_asset x = a \<and> from \<le> ft_value_date x \<and> ft_value_date x \<le> to) t)))"

definition GetLiquidityFeatureSeries :: "feature_key \<Rightarrow> asset \<Rightarrow> gotime \<Rightarrow> gotime \<Rightarrow> gotime \<Rightarrow> ('a world_scheme, f64 list) io" where
  "GetLiquidityFeatureSeries k a from to cutoff = query_plain (\<lambda>w. q_feature_series k a from to (w_features w) cutoff)"

definition q_scores :: "asset \<Rightarrow> gotime \<Rightarrow> domain_score table \<Rightarrow> gotime \<Rightarrow> string \<rightharpoonup> f64" where
  "q_scores a vd t cutoff = (\<lambda>d. map_option ds_score (latest_map ds_domain (as_of cutoff
     (where_rows (\<lambda>x. ds_asset x = a \<and> ds_value_date x = vd) t)) d))"

definition GetLatestDomainScores :: "asset \<Rightarrow> gotime \<Rightarrow> gotime \<Rightarrow> ('a world_scheme, string \<rightharpoonup> f64) io" where
  "GetLatestDomainScores a vd cutoff = query_rows ''query domain scores'' [] (\<lambda>w. q_scores a vd (w_scores w) cutoff)"

text \<open>\<open>CURRENT_DATE\<close> is the day the transaction began; there is no cutoff.\<close>

definition q_score_history :: "asset \<Rightarrow> string \<Rightarrow> int \<Rightarrow> gotime \<Rightarrow> domain_score table \<Rightarrow> f64 list" where
  "q_score_history a d lookback today t = map ds_score (latest_by ds_value_date
     (where_rows (\<lambda>x. ds_asset x = a \<and> ds_domain x = d \<and> add_days (UTCDay today) (- lookback) \<le> ds_value_date x) t))"

definition GetDomainScoreHistory :: "asset \<Rightarrow> string \<Rightarrow> int \<Rightarrow> ('a world_scheme, f64 list) io" where
  "GetDomainScoreHistory a d lookback =
     query_rows ''query domain score history'' [] (\<lambda>w. q_score_history a d lookback (w_txtime w) (w_scores w))"

definition q_score :: "asset \<Rightarrow> string \<Rightarrow> gotime \<Rightarrow> domain_score table \<Rightarrow> gotime \<Rightarrow> f64 option" where
  "q_score a d vd t cutoff = map_option (ds_score \<circ> r_val) (latest (as_of cutoff
     (where_rows (\<lambda>x. ds_asset x = a \<and> ds_domain x = d \<and> ds_value_date x = vd) t)))"

text \<open>The test is on the error's text.\<close>

definition no_rows_text :: "err \<Rightarrow> bool" where
  "no_rows_text e \<longleftrightarrow> e = ErrNoRows \<or> e = Fresh ''no rows in result set'' []"

definition GetDomainScoreOnDate :: "asset \<Rightarrow> string \<Rightarrow> gotime \<Rightarrow> gotime \<Rightarrow> ('a world_scheme, f64 \<times> bool) io" where
  "GetDomainScoreOnDate a d vd cutoff w = (case query_row (\<lambda>w. q_score a d vd (w_scores w) cutoff) w of
       (Inl e, w') \<Rightarrow> if no_rows_text e then (Inr (fzero, False), w')
                      else (Inl (Wrap ''query domain score on date'' [] e), w')
     | (Inr v, w') \<Rightarrow> (Inr (v, True), w'))"

text \<open>\<open>ORDER BY value_date DESC, ingested_at DESC LIMIT 1\<close>: the last of the latest rows per day.\<close>

definition q_regime_latest :: "asset \<Rightarrow> regime_state table \<Rightarrow> regime_state option" where
  "q_regime_latest a t = (case latest_by rs_value_date (where_rows (\<lambda>x. rs_asset x = a) t) of
      [] \<Rightarrow> None | s # ss \<Rightarrow> Some (last (s # ss)))"

definition row_or_nil :: "string \<Rightarrow> ('a world_scheme \<Rightarrow> 'r option) \<Rightarrow> ('a world_scheme, 'r option) io" where
  "row_or_nil msg f w = (case query_row f w of
       (Inl e, w') \<Rightarrow> if e = ErrNoRows then (Inr None, w') else (Inl (Wrap msg [] e), w')
     | (Inr s, w') \<Rightarrow> (Inr (Some s), w'))"

definition GetLatestRegimeState :: "asset \<Rightarrow> ('a world_scheme, regime_state option) io" where
  "GetLatestRegimeState a = row_or_nil ''latest regime state'' (\<lambda>w. q_regime_latest a (w_regimes w))"

definition q_regime_history :: "asset \<Rightarrow> gotime \<Rightarrow> gotime \<Rightarrow> regime_state table \<Rightarrow> regime_state list" where
  "q_regime_history a from to t = latest_by rs_value_date
     (where_rows (\<lambda>x. rs_asset x = a \<and> from \<le> rs_value_date x \<and> rs_value_date x \<le> to) t)"

definition GetRegimeStateHistory :: "asset \<Rightarrow> gotime \<Rightarrow> gotime \<Rightarrow> ('a world_scheme, regime_state list) io" where
  "GetRegimeStateHistory a from to =
     query_rows ''history regime state'' [] (\<lambda>w. q_regime_history a from to (w_regimes w))"

definition q_regime_on :: "asset \<Rightarrow> gotime \<Rightarrow> regime_state table \<Rightarrow> regime_state option" where
  "q_regime_on a d t = map_option r_val (latest (where_rows (\<lambda>x. rs_asset x = a \<and> rs_value_date x = d) t))"

definition GetRegimeStateByDate :: "asset \<Rightarrow> gotime \<Rightarrow> ('a world_scheme, regime_state option) io" where
  "GetRegimeStateByDate a d = row_or_nil ''regime state by date'' (\<lambda>w. q_regime_on a d (w_regimes w))"

definition q_timeline :: "asset \<Rightarrow> string \<Rightarrow> gotime \<Rightarrow> gotime \<Rightarrow> domain_score table \<Rightarrow> domain_score list" where
  "q_timeline a d from to t = latest_by ds_value_date
     (where_rows (\<lambda>x. ds_asset x = a \<and> ds_domain x = d \<and> from \<le> ds_value_date x \<and> ds_value_date x \<le> to) t)"

definition GetDomainScoreTimeline :: "asset \<Rightarrow> string \<Rightarrow> gotime \<Rightarrow> gotime \<Rightarrow> ('a world_scheme, domain_score list) io" where
  "GetDomainScoreTimeline a d from to =
     query_rows ''domain score timeline'' [] (\<lambda>w. q_timeline a d from to (w_scores w))"

definition queryRegimeSeries :: "asset \<Rightarrow> gotime \<Rightarrow> gotime \<Rightarrow> string \<Rightarrow> (regime_state \<Rightarrow> f64) \<Rightarrow> ('a world_scheme, indicator_point list) io" where
  "queryRegimeSeries a from to column sel =
     query_rows ''query regime %s series'' [AStr column] (\<lambda>w.
       map (\<lambda>s. \<lparr>ip_value_date = rs_value_date s, ip_indicator = sel s\<rparr>) (q_regime_history a from to (w_regimes w)))"

definition GetRegimeIndicatorSeries :: "asset \<Rightarrow> gotime \<Rightarrow> gotime \<Rightarrow> ('a world_scheme, indicator_point list) io" where
  "GetRegimeIndicatorSeries a from to = queryRegimeSeries a from to ''regime_indicator'' rs_indicator"

definition GetRegimeIndicatorRawSeries :: "asset \<Rightarrow> gotime \<Rightarrow> gotime \<Rightarrow> ('a world_scheme, indicator_point list) io" where
  "GetRegimeIndicatorRawSeries a from to = queryRegimeSeries a from to ''regime_indicator_raw'' rs_indicator_raw"

definition q_smoothing :: "asset \<Rightarrow> gotime \<Rightarrow> gotime \<Rightarrow> regime_state table \<Rightarrow> gotime \<Rightarrow> smoothing_point list" where
  "q_smoothing a from to t cutoff =
     map (\<lambda>s. \<lparr>sm_value_date = rs_value_date s, sm_indicator = rs_indicator s, sm_transition = rs_transition s\<rparr>)
       (latest_by rs_value_date (as_of cutoff
          (where_rows (\<lambda>x. rs_asset x = a \<and> from \<le> rs_value_date x \<and> rs_value_date x \<le> to) t)))"

definition GetRegimeSmoothingTrailing :: "asset \<Rightarrow> gotime \<Rightarrow> gotime \<Rightarrow> gotime \<Rightarrow> ('a world_scheme, smoothing_point list) io" where
  "GetRegimeSmoothingTrailing a from to cutoff =
     query_rows ''query regime smoothing trailing'' [] (\<lambda>w. q_smoothing a from to (w_regimes w) cutoff)"

section \<open>Running the database operations\<close>

lemma db_op_cases:
  obtains (ok) "db_op w = (Inr (), w\<lparr>w_ticks := Suc (w_ticks w)\<rparr>)"
  | (fault) e where "db_op w = (Inl e, w\<lparr>w_ticks := Suc (w_ticks w)\<rparr>)"
  by (cases "w_fault w (w_ticks w)") (auto simp: db_op_def)

definition fault_free :: "'a world_scheme \<Rightarrow> bool" where
  "fault_free w \<longleftrightarrow> (\<forall>n. w_fault w n = None)"

lemma db_op_ok [simp]: "fault_free w \<Longrightarrow> db_op w = (Inr (), w\<lparr>w_ticks := Suc (w_ticks w)\<rparr>)"
  by (simp add: db_op_def fault_free_def)

lemma fault_free_upd [simp]: "fault_free (w\<lparr>w_ticks := n\<rparr>) = fault_free w" "fault_free (w\<lparr>w_txtime := t\<rparr>) = fault_free w"
  by (simp_all add: fault_free_def)

text \<open>\<open>frozen w\<close>: the world up to the tick counter and the transaction time.\<close>

definition frozen :: "'a world_scheme \<Rightarrow> 'a world_scheme" where
  "frozen w = w\<lparr>w_ticks := 0, w_txtime := 0\<rparr>"

lemma frozen_ticks [simp]: "frozen (w\<lparr>w_ticks := n\<rparr>) = frozen w" "frozen (w\<lparr>w_txtime := t\<rparr>) = frozen w"
  by (simp_all add: frozen_def)

lemma frozen_rollback [simp]: "frozen (rollback w w') = frozen w"
  by (simp add: frozen_def rollback_def)

lemma frozen_db_op [simp]: "frozen (snd (db_op w)) = frozen w"
  by (cases w rule: db_op_cases) simp_all

lemma frozen_clock_Now [simp]: "frozen (snd (clock_Now w)) = frozen w"
  by (simp add: clock_Now_def)

lemma frozen_db_read [simp]: "frozen (snd (db_read f w)) = frozen w"
  by (cases w rule: db_op_cases) (simp_all add: db_read_def bindE_def)

lemma frozen_query_row [simp]: "frozen (snd (query_row f w)) = frozen w"
  by (cases w rule: db_op_cases) (auto simp: query_row_def db_read_def bindE_def split: option.splits)

lemma frozen_query_rows [simp]: "frozen (snd (query_rows msg vs f w)) = frozen w"
  by (cases w rule: db_op_cases) (simp_all add: query_rows_def seqE_def bindE_def wrapE_def)

lemma frozen_query_plain [simp]: "frozen (snd (query_plain f w)) = frozen w"
  by (cases w rule: db_op_cases) (simp_all add: query_plain_def seqE_def bindE_def)

lemma frozen_row_or_nil [simp]: "frozen (snd (row_or_nil msg f w)) = frozen w"
  by (cases w rule: db_op_cases) (auto simp: row_or_nil_def query_row_def db_read_def bindE_def split: option.splits)

text \<open>A failed transaction leaves every table as it was, whatever its body did.\<close>

lemma InTx_error: "InTx body w = (Inl e, w') \<Longrightarrow> frozen w' = frozen w"
proof -
  assume a: "InTx body w = (Inl e, w')"
  show ?thesis
  proof (cases "wrapE ''begin tx'' [] begin_tx w")
    case (Pair r w1)
    have f: "frozen w1 = frozen w"
      using Pair snd_wrapE[of "''begin tx''" "[]" begin_tx w] frozen_db_op[of "w\<lparr>w_txtime := w_clock w (w_ticks w)\<rparr>"]
      by (simp add: begin_tx_def)
    then show ?thesis
      using a Pair by (auto simp: InTx_def split: sum.splits prod.splits)
  qed
qed

lemma InTx_ok:
  assumes "InTx body w = (Inr x, w')"
  obtains w1 w2 where "w1 = w\<lparr>w_txtime := w_clock w (w_ticks w), w_ticks := Suc (w_ticks w)\<rparr>"
    "body w1 = (Inr x, w2)" "w' = w2\<lparr>w_ticks := Suc (w_ticks w2)\<rparr>"
proof -
  define w0 where "w0 = w\<lparr>w_txtime := w_clock w (w_ticks w)\<rparr>"
  define w1 where "w1 = w0\<lparr>w_ticks := Suc (w_ticks w0)\<rparr>"
  have b: "begin_tx w = db_op w0" by (simp add: begin_tx_def w0_def)
  have "wrapE ''begin tx'' [] begin_tx w = (Inr (), w1)"
    using assms by (cases w0 rule: db_op_cases) (auto simp: InTx_def wrapE_def b w1_def)
  with assms obtain w2 where w2: "body w1 = (Inr x, w2)" "db_op w2 = (Inr (), w')"
    by (auto simp: InTx_def split: sum.splits prod.splits)
  then have "w' = w2\<lparr>w_ticks := Suc (w_ticks w2)\<rparr>" by (cases w2 rule: db_op_cases) auto
  with w2(1) show thesis by (intro that[of w1 w2]) (simp_all add: w1_def w0_def)
qed

lemma InTx_fault_free:
  assumes "fault_free w"
    and "body (w\<lparr>w_txtime := w_clock w (w_ticks w), w_ticks := Suc (w_ticks w)\<rparr>) = (Inr x, w2)" "fault_free w2"
  shows "InTx body w = (Inr x, w2\<lparr>w_ticks := Suc (w_ticks w2)\<rparr>)"
  using assms by (simp add: InTx_def wrapE_def begin_tx_def)

text \<open>A transaction that only reads keeps the tables in every case.\<close>

lemma InTx_reads:
  assumes "\<And>w. frozen (snd (body w)) = frozen w"
  shows "frozen (snd (InTx body w)) = frozen w"
proof (cases "InTx body w")
  case (Pair r w')
  show ?thesis
  proof (cases r)
    case (Inl e)
    then show ?thesis using InTx_error Pair by auto
  next
    case (Inr x)
    with Pair obtain w1 w2 where w: "w1 = w\<lparr>w_txtime := w_clock w (w_ticks w), w_ticks := Suc (w_ticks w)\<rparr>"
      "body w1 = (Inr x, w2)" "w' = w2\<lparr>w_ticks := Suc (w_ticks w2)\<rparr>" by (auto elim: InTx_ok)
    have "frozen w2 = frozen w1" using assms[of w1] w(2) by simp
    then show ?thesis using w(1,3) Pair by simp
  qed
qed

section \<open>Queries with a cutoff\<close>

interpretation pit_stable: point_in_time "q_stable coin vd"
  by unfold_locales (simp add: q_stable_def where_as_of)

interpretation pit_tvl: point_in_time "q_tvl chain vd"
  by unfold_locales (simp add: q_tvl_def where_as_of)

interpretation pit_netflow: point_in_time "q_netflow a from to"
  by unfold_locales (simp add: q_netflow_def where_as_of)

interpretation pit_mcap: point_in_time "q_mcap coin vd"
  by unfold_locales (simp add: q_mcap_def where_as_of)

interpretation pit_feature: point_in_time "q_feature k a vd"
  by unfold_locales (simp add: q_feature_def where_as_of)

interpretation pit_feature_series: point_in_time "q_feature_series k a from to"
  by unfold_locales (simp add: q_feature_series_def where_as_of)

interpretation pit_scores: point_in_time "q_scores a vd"
  by unfold_locales (simp add: q_scores_def where_as_of)

interpretation pit_score: point_in_time "q_score a d vd"
  by unfold_locales (simp add: q_score_def where_as_of)

interpretation pit_smoothing: point_in_time "q_smoothing a from to"
  by unfold_locales (simp add: q_smoothing_def where_as_of)

section \<open>The tables only grow\<close>

definition appends :: "(gotime \<Rightarrow> bool) \<Rightarrow> 'x table \<Rightarrow> 'x table \<Rightarrow> bool" where
  "appends P t t' \<longleftrightarrow> (\<exists>new. t' = t @ new \<and> (\<forall>r\<in>set new. P (r_ingested r)))"

lemma appends_refl [simp]: "appends P t t"
  by (simp add: appends_def)

lemma appends_mono: "appends P t t' \<Longrightarrow> (\<And>x. P x \<Longrightarrow> Q x) \<Longrightarrow> appends Q t t'"
  by (auto simp: appends_def)

lemma appends_trans: "appends P t t' \<Longrightarrow> appends P t' t'' \<Longrightarrow> appends P t t''"
  by (fastforce simp: appends_def)

lemma as_of_appends: "appends P t t' \<Longrightarrow> (\<And>x. P x \<Longrightarrow> c < x) \<Longrightarrow> as_of c t' = as_of c t"
  by (fastforce simp: appends_def as_of_def filter_empty_conv)

definition grows :: "(gotime \<Rightarrow> bool) \<Rightarrow> 'a world_scheme \<Rightarrow> 'a world_scheme \<Rightarrow> bool" where
  "grows P w w' \<longleftrightarrow> w_clock w' = w_clock w \<and> w_fault w' = w_fault w \<and> w_ticks w \<le> w_ticks w' \<and>
     appends P (w_stable w) (w_stable w') \<and> appends P (w_tvl w) (w_tvl w') \<and>
     appends P (w_netflow w) (w_netflow w') \<and> appends P (w_mcap w) (w_mcap w') \<and>
     appends P (w_features w) (w_features w') \<and> appends P (w_scores w) (w_scores w') \<and>
     appends P (w_raws w) (w_raws w') \<and> appends P (w_dfeatures w) (w_dfeatures w') \<and>
     appends P (w_regimes w) (w_regimes w') \<and> appends P (w_outbox w) (w_outbox w')"

lemma grows_refl [simp]: "grows P w w"
  by (simp add: grows_def)

lemma grows_trans: "grows P w w' \<Longrightarrow> grows P w' w'' \<Longrightarrow> grows P w w''"
  unfolding grows_def by (auto intro: appends_trans order_trans)

lemma grows_mono: "grows P w w' \<Longrightarrow> (\<And>x. P x \<Longrightarrow> Q x) \<Longrightarrow> grows Q w w'"
  unfolding grows_def by (auto intro: appends_mono)

lemma grows_frozen:
  assumes "frozen w' = frozen w" "w_ticks w \<le> w_ticks w'"
  shows "grows P w w'"
proof -
  have "w_clock w' = w_clock w" "w_fault w' = w_fault w" "w_stable w' = w_stable w" "w_tvl w' = w_tvl w"
    "w_netflow w' = w_netflow w" "w_mcap w' = w_mcap w" "w_features w' = w_features w" "w_scores w' = w_scores w"
    "w_regimes w' = w_regimes w" "w_outbox w' = w_outbox w" "w_raws w' = w_raws w" "w_dfeatures w' = w_dfeatures w"
    using arg_cong[OF assms(1), of w_clock] arg_cong[OF assms(1), of w_fault] arg_cong[OF assms(1), of w_stable]
      arg_cong[OF assms(1), of w_tvl] arg_cong[OF assms(1), of w_netflow] arg_cong[OF assms(1), of w_mcap]
      arg_cong[OF assms(1), of w_features] arg_cong[OF assms(1), of w_scores] arg_cong[OF assms(1), of w_regimes]
      arg_cong[OF assms(1), of w_outbox] arg_cong[OF assms(1), of w_raws] arg_cong[OF assms(1), of w_dfeatures] by (simp_all add: frozen_def)
  then show ?thesis using assms(2) by (simp add: grows_def)
qed


text \<open>Inside a transaction rows are stamped with its time; outside, with clock readings made since.\<close>

definition in_tx :: "'a world_scheme \<Rightarrow> 'a world_scheme \<Rightarrow> bool" where
  "in_tx w w' \<longleftrightarrow> grows (\<lambda>t. t = w_txtime w) w w' \<and> w_txtime w' = w_txtime w"

definition evolves :: "'a world_scheme \<Rightarrow> 'a world_scheme \<Rightarrow> bool" where
  "evolves w w' \<longleftrightarrow> grows (\<lambda>t. \<exists>n. w_ticks w \<le> n \<and> n < w_ticks w' \<and> t = w_clock w n) w w'"

lemma grows_ticks: "grows P w w' \<Longrightarrow> w_ticks w \<le> w_ticks w'" and grows_clock: "grows P w w' \<Longrightarrow> w_clock w' = w_clock w"
  by (simp_all add: grows_def)

lemma in_tx_trans: "in_tx w w' \<Longrightarrow> in_tx w' w'' \<Longrightarrow> in_tx w w''"
  unfolding in_tx_def by (auto intro: grows_trans)

lemma evolves_trans: "evolves w w' \<Longrightarrow> evolves w' w'' \<Longrightarrow> evolves w w''"
proof -
  assume a: "evolves w w'" "evolves w' w''"
  have t: "w_ticks w \<le> w_ticks w'" "w_ticks w' \<le> w_ticks w''" "w_clock w' = w_clock w"
    using a by (auto simp: evolves_def dest: grows_ticks grows_clock)
  let ?P = "\<lambda>t. \<exists>n. w_ticks w \<le> n \<and> n < w_ticks w'' \<and> t = w_clock w n"
  have "grows ?P w w'" by (rule grows_mono[OF a(1)[unfolded evolves_def]]) (use t in auto)
  moreover have "grows ?P w' w''"
  proof (rule grows_mono[OF a(2)[unfolded evolves_def]])
    fix x assume "\<exists>n\<ge>w_ticks w'. n < w_ticks w'' \<and> x = w_clock w' n"
    then obtain n where "w_ticks w' \<le> n" "n < w_ticks w''" "x = w_clock w n" unfolding t(3) by blast
    then show "?P x" using t(1) by (intro exI[of _ n]) auto
  qed
  ultimately show ?thesis unfolding evolves_def by (rule grows_trans)
qed

interpretation itx: io_rel in_tx
  by unfold_locales (simp add: in_tx_def, rule in_tx_trans)

interpretation evo: io_rel evolves
  by unfold_locales (simp add: evolves_def, rule evolves_trans)

lemma ticks_db_op [simp]: "w_ticks (snd (db_op w)) = Suc (w_ticks w)"
  by (simp add: db_op_def)

lemma txtime_db_op [simp]: "w_txtime (snd (db_op w)) = w_txtime w"
  by (simp add: db_op_def)

lemma in_tx_db_op: "obeys in_tx db_op"
  by (rule obeysI) (simp add: in_tx_def grows_frozen)

lemma in_tx_db_read: "obeys in_tx (db_read f)"
  unfolding db_read_def by (intro itx.obeys_bindE in_tx_db_op itx.obeys_pure)

lemma in_tx_query_row: "obeys in_tx (query_row f)"
  unfolding query_row_def by (intro itx.obeys_bindE in_tx_db_read) (auto split: option.splits intro: itx.obeys_rules)

lemma in_tx_query_rows: "obeys in_tx (query_rows msg vs f)"
  unfolding query_rows_def by (intro itx.obeys_rules in_tx_db_read in_tx_db_op)

lemma in_tx_query_plain: "obeys in_tx (query_plain f)"
  unfolding query_plain_def by (intro itx.obeys_rules in_tx_db_read in_tx_db_op)

lemma in_tx_db_write:
  assumes "\<And>w w'. f w = Inr w' \<Longrightarrow> in_tx w w'"
  shows "obeys in_tx (db_write f)"
  unfolding db_write_def
proof (rule itx.obeys_bindE[OF in_tx_db_op], rule obeysI)
  fix w :: "'a world_scheme"
  show "in_tx w (snd (case f w of Inl e \<Rightarrow> (Inl e, w) | Inr w' \<Rightarrow> (Inr (), w')))"
    using assms[of w] itx.refl[of w] by (cases "f w") auto
qed

lemma insert_pk_appends: "insert_pk k now v t = Inr t' \<Longrightarrow> appends (\<lambda>x. x = now) t t'"
  by (auto simp: insert_pk_def appends_def split: if_splits)

lemma insert_dedupe_appends: "insert_dedupe k h now v t = Inr t' \<Longrightarrow> appends (\<lambda>x. x = now) t t'"
  by (auto simp: insert_dedupe_def intro: insert_pk_appends split: if_splits)

lemma map_sum_Inr: "map_sum id f x = Inr y \<longleftrightarrow> (\<exists>z. x = Inr z \<and> y = f z)"
  by (cases x) auto

lemmas in_tx_simps = in_tx_def grows_def map_sum_Inr

lemma in_tx_inserts:
  "obeys in_tx (InsertRawStablecoinSupply r1)" "obeys in_tx (InsertRawChainTVL r2)"
  "obeys in_tx (InsertRawExchangeNetflow r3)" "obeys in_tx (InsertRawMarketCap r4)"
  "obeys in_tx (InsertLiquidityFeature f)"
  unfolding InsertRawStablecoinSupply_def InsertRawChainTVL_def InsertRawExchangeNetflow_def InsertRawMarketCap_def
    InsertLiquidityFeature_def
  by (rule in_tx_db_write; auto simp: in_tx_simps dest!: insert_dedupe_appends insert_pk_appends)+

lemma in_tx_InsertDomainScore: "obeys in_tx (InsertDomainScore s)"
  unfolding InsertDomainScore_def
  by (rule itx.obeys_if[OF itx.obeys_throw], rule in_tx_db_write)
    (auto simp: in_tx_simps dest!: insert_pk_appends split: if_splits)

lemma in_tx_InsertRegimeState: "obeys in_tx (InsertRegimeState r)"
  unfolding InsertRegimeState_def
  by (rule itx.obeys_if[OF itx.obeys_throw], rule in_tx_db_write) (auto simp: in_tx_simps dest!: insert_pk_appends)

lemma in_tx_UpsertModelConfig: "obeys in_tx (UpsertModelConfig c)"
  unfolding UpsertModelConfig_def
  by (rule itx.obeys_if[OF itx.obeys_throw], rule in_tx_db_write) (auto simp: in_tx_simps)

lemma in_tx_Enqueue: "obeys in_tx (Enqueue e)"
  unfolding Enqueue_def
  by (rule itx.obeys_if[OF itx.obeys_throw], rule in_tx_db_write) (auto simp: in_tx_simps appends_def)

text \<open>A transaction whose body only appends makes the world evolve, whatever the outcome.\<close>

lemma InTx_ticks:
  assumes "obeys in_tx body"
  shows "w_ticks w \<le> w_ticks (snd (InTx body w))"
proof (cases "wrapE ''begin tx'' [] begin_tx w")
  case (Pair r1 w1)
  have t1: "w_ticks w1 = Suc (w_ticks w)"
    using Pair snd_wrapE[of "''begin tx''" "[]" begin_tx w] by (simp add: begin_tx_def)
  obtain r2 w2 where w2: "body w1 = (r2, w2)" by (cases "body w1") auto
  have "w_ticks w1 \<le> w_ticks w2" using obeysD[OF assms w2] by (auto simp: in_tx_def dest: grows_ticks)
  moreover obtain r3 w3 where "db_op w2 = (r3, w3)" "w_ticks w3 = Suc (w_ticks w2)"
    using ticks_db_op[of w2] by (cases "db_op w2") auto
  ultimately show ?thesis using t1 w2 Pair by (auto simp: InTx_def rollback_def split: sum.splits)
qed

lemma evolves_InTx:
  assumes "obeys in_tx body"
  shows "obeys evolves (InTx body)"
proof (rule obeysI)
  fix w :: "'a world_scheme"
  show "evolves w (snd (InTx body w))"
  proof (cases "InTx body w")
    case (Pair r w')
    show ?thesis
    proof (cases r)
      case (Inr x)
      with Pair obtain w1 w2 where w: "w1 = w\<lparr>w_txtime := w_clock w (w_ticks w), w_ticks := Suc (w_ticks w)\<rparr>"
        "body w1 = (Inr x, w2)" "w' = w2\<lparr>w_ticks := Suc (w_ticks w2)\<rparr>" by (auto elim: InTx_ok)
      have "in_tx w1 w2" using assms w(2) by (rule obeysD)
      then have g: "grows (\<lambda>t. t = w_clock w (w_ticks w)) w1 w2" by (simp add: in_tx_def w(1))
      let ?P = "\<lambda>t. \<exists>n. w_ticks w \<le> n \<and> n < w_ticks w' \<and> t = w_clock w n"
      have "w_ticks w < w_ticks w'" using grows_ticks[OF g] by (simp add: w(1,3))
      then have "grows ?P w1 w2" using grows_mono[OF g, of ?P] by auto
      then have "grows ?P w w'" by (auto simp: w(1,3) grows_def)
      then show ?thesis using Pair by (simp add: evolves_def)
    next
      case (Inl e)
      have "frozen w' = frozen w" using Pair Inl InTx_error by simp
      moreover have "w_ticks w \<le> w_ticks w'" using InTx_ticks[OF assms, of w] Pair by simp
      ultimately show ?thesis using Pair by (simp add: evolves_def grows_frozen)
    qed
  qed
qed

lemma evolves_read:
  assumes "obeys in_tx m" "\<And>w. frozen (snd (m w)) = frozen w"
  shows "obeys evolves m"
proof (rule obeysI)
  fix w
  have "in_tx w (snd (m w))" using assms(1) by (simp add: obeys_def)
  then show "evolves w (snd (m w))"
    unfolding evolves_def using assms(2)[of w] by (intro grows_frozen) (auto simp: in_tx_def dest: grows_ticks)
qed

lemma in_tx_row_or_nil: "obeys in_tx (row_or_nil msg l)"
  unfolding row_or_nil_def by (rule itx.obeys_case[OF in_tx_query_row]) (simp_all add: obeys_def itx.refl)

lemma in_tx_clock_Now: "obeys in_tx clock_Now"
  by (rule obeysI) (simp add: in_tx_def grows_def clock_Now_def)

lemmas evolves_reads = evolves_read[OF in_tx_db_op frozen_db_op] evolves_read[OF in_tx_db_read frozen_db_read]
  evolves_read[OF in_tx_query_row frozen_query_row] evolves_read[OF in_tx_query_rows frozen_query_rows]
  evolves_read[OF in_tx_query_plain frozen_query_plain] evolves_read[OF in_tx_row_or_nil frozen_row_or_nil]
  evolves_read[OF in_tx_clock_Now frozen_clock_Now]

text \<open>What a query with a cutoff saw, it sees in every later world: nothing is ingested in the past.\<close>

lemma evolves_as_of:
  assumes "evolves w w'" "strict_mono (w_clock w)" "cutoff < w_clock w (w_ticks w)"
  shows "as_of cutoff (w_stable w') = as_of cutoff (w_stable w)" "as_of cutoff (w_tvl w') = as_of cutoff (w_tvl w)"
    "as_of cutoff (w_netflow w') = as_of cutoff (w_netflow w)" "as_of cutoff (w_mcap w') = as_of cutoff (w_mcap w)"
    "as_of cutoff (w_features w') = as_of cutoff (w_features w)" "as_of cutoff (w_scores w') = as_of cutoff (w_scores w)"
    "as_of cutoff (w_regimes w') = as_of cutoff (w_regimes w)" "as_of cutoff (w_raws w') = as_of cutoff (w_raws w)"
    "as_of cutoff (w_dfeatures w') = as_of cutoff (w_dfeatures w)"
proof -
  have "cutoff < t" if "\<exists>n. w_ticks w \<le> n \<and> n < w_ticks w' \<and> t = w_clock w n" for t
    using that assms(2,3) by (auto simp: strict_mono_less_eq intro: order_less_le_trans)
  note late = this
  have g: "grows (\<lambda>t. \<exists>n. w_ticks w \<le> n \<and> n < w_ticks w' \<and> t = w_clock w n) w w'"
    using assms(1) by (simp add: evolves_def)
  show "as_of cutoff (w_stable w') = as_of cutoff (w_stable w)" "as_of cutoff (w_tvl w') = as_of cutoff (w_tvl w)"
    "as_of cutoff (w_netflow w') = as_of cutoff (w_netflow w)" "as_of cutoff (w_mcap w') = as_of cutoff (w_mcap w)"
    "as_of cutoff (w_features w') = as_of cutoff (w_features w)" "as_of cutoff (w_scores w') = as_of cutoff (w_scores w)"
    "as_of cutoff (w_regimes w') = as_of cutoff (w_regimes w)" "as_of cutoff (w_raws w') = as_of cutoff (w_raws w)"
    "as_of cutoff (w_dfeatures w') = as_of cutoff (w_dfeatures w)"
    using g unfolding grows_def by (auto intro: as_of_appends late)
qed

section \<open>Calls that succeed and change nothing\<close>

lemma query_rows_ok: "fault_free w \<Longrightarrow>
    query_rows msg vs f w = (Inr (f (w\<lparr>w_ticks := Suc (Suc (w_ticks w))\<rparr>)), w\<lparr>w_ticks := Suc (Suc (w_ticks w))\<rparr>)"
  by (simp add: query_rows_def db_read_def seqE_def bindE_def wrapE_def)

text \<open>
  \<open>answers F m x\<close>: on every world with the data \<open>F\<close> the call succeeds with the result \<open>x\<close> and
  leaves the data as they are.
\<close>

definition answers :: "'a world_scheme \<Rightarrow> ('a world_scheme, 'r) io \<Rightarrow> 'r \<Rightarrow> bool" where
  "answers F m x \<longleftrightarrow> (\<forall>w. frozen w = F \<longrightarrow> (\<exists>w'. m w = (Inr x, w') \<and> frozen w' = F))"

lemma answersI: "(\<And>w. frozen w = F \<Longrightarrow> \<exists>w'. m w = (Inr x, w') \<and> frozen w' = F) \<Longrightarrow> answers F m x"
  by (simp add: answers_def)

lemma answersD: "answers F m x \<Longrightarrow> frozen w = F \<Longrightarrow> \<exists>w'. m w = (Inr x, w') \<and> frozen w' = F"
  by (simp add: answers_def)

lemma answers_ret: "answers F (ret x) x"
  by (simp add: answers_def)

lemma answers_ret': "x = y \<Longrightarrow> answers F (ret x) y"
  by (simp add: answers_ret)

lemma answers_bindE: "answers F m x \<Longrightarrow> answers F (f x) y \<Longrightarrow> answers F (bindE m f) y"
  unfolding answers_def bindE_def by fastforce

lemma answers_wrapE: "answers F m x \<Longrightarrow> answers F (wrapE s vs m) x"
  unfolding answers_def wrapE_def by fastforce

lemma answers_foldE_Nil: "answers F (foldE f s []) s"
  by (simp add: answers_ret)

lemma answers_foldE_Cons: "answers F (f s x) s1 \<Longrightarrow> answers F (foldE f s1 xs) s2 \<Longrightarrow> answers F (foldE f s (x # xs)) s2"
  unfolding foldE.simps by (rule answers_bindE)

lemma answers_foldE_const: "(\<And>x. x \<in> set xs \<Longrightarrow> answers F (f s x) s) \<Longrightarrow> answers F (foldE f s xs) s"
  by (induction xs) (auto intro: answers_foldE_Nil answers_foldE_Cons simp del: foldE.simps)

lemma frozen_sel [simp]: "fault_free (frozen w) = fault_free w" "w_scores (frozen w) = w_scores w" "w_regimes (frozen w) = w_regimes w"
  "w_clock (frozen w) = w_clock w"
  by (simp_all add: frozen_def fault_free_def)

lemma answers_query_rows:
  assumes "fault_free F" "\<And>w. f (frozen w) = f w"
  shows "answers F (query_rows msg vs f) (f F)"
proof (rule answersI)
  fix w assume w: "frozen w = F"
  then have "fault_free w" using assms(1) by auto
  moreover have "f (w\<lparr>w_ticks := n\<rparr>) = f F" for n using assms(2)[of w] assms(2)[of "w\<lparr>w_ticks := n\<rparr>"] w by simp
  ultimately show "\<exists>w'. query_rows msg vs f w = (Inr (f F), w') \<and> frozen w' = F" using w by (simp add: query_rows_ok)
qed

lemma answers_InTx:
  assumes "fault_free F" "answers F m x"
  shows "answers F (InTx m) x"
proof (rule answersI)
  fix w assume w: "frozen w = F"
  let ?w1 = "w\<lparr>w_txtime := w_clock w (w_ticks w), w_ticks := Suc (w_ticks w)\<rparr>"
  have "frozen ?w1 = F" using w by simp
  then obtain w2 where "m ?w1 = (Inr x, w2)" "frozen w2 = F" using answersD[OF assms(2)] by blast
  moreover from this have "fault_free w" "fault_free w2" using assms(1) w frozen_sel(1) by metis+
  ultimately show "\<exists>w'. InTx m w = (Inr x, w') \<and> frozen w' = F"
    using InTx_fault_free[of w m x w2] by auto
qed

end
