(* ===== verification/PgRegime.thy ===== *)
theory PgRegime
  imports RegimeService Storage
begin

text \<open>
  \<open>internal/infra/postgres/regime\<close> and \<open>.../outbox\<close>: the regime service's ports on the database.
\<close>

section \<open>The regime repository\<close>

text \<open>The conversions copy field by field; string-keyed maps and the domain's maps coincide.\<close>

definition toStorageRegimeState :: "regime_state \<Rightarrow> regime_state" where
  "toStorageRegimeState s = \<lparr>rs_asset = rs_asset s, rs_value_date = rs_value_date s,
     rs_indicator = rs_indicator s, rs_indicator_raw = rs_indicator_raw s,
     rs_risk_on = rs_risk_on s, rs_risk_off = rs_risk_off s, rs_transition = rs_transition s,
     rs_model_version = rs_model_version s, rs_config_version = rs_config_version s, rs_code_sha = rs_code_sha s,
     rs_contributions = rs_contributions s,
     rs_top_drivers = map (\<lambda>d. \<lparr>td_domain = td_domain d, td_contribution = td_contribution d, td_share = td_share d\<rparr>)
       (rs_top_drivers s),
     rs_weights = rs_weights s, rs_coverage = rs_coverage s, rs_flags = rs_flags s\<rparr>"

definition fromStorageRegimeState :: "regime_state \<Rightarrow> regime_state" where
  "fromStorageRegimeState s = \<lparr>rs_asset = rs_asset s, rs_value_date = rs_value_date s,
     rs_indicator = rs_indicator s, rs_indicator_raw = rs_indicator_raw s,
     rs_risk_on = rs_risk_on s, rs_risk_off = rs_risk_off s, rs_transition = rs_transition s,
     rs_model_version = rs_model_version s, rs_config_version = rs_config_version s, rs_code_sha = rs_code_sha s,
     rs_contributions = rs_contributions s,
     rs_top_drivers = map (\<lambda>d. \<lparr>td_domain = td_domain d, td_contribution = td_contribution d, td_share = td_share d\<rparr>)
       (rs_top_drivers s),
     rs_weights = rs_weights s, rs_coverage = rs_coverage s, rs_flags = rs_flags s\<rparr>"

definition RegimeRepo_Save :: "regime_state \<Rightarrow> ('a world_scheme, unit) io" where
  "RegimeRepo_Save s = (case RegimeState_Validate s of
      Some e \<Rightarrow> throw (Wrap ''invalid regime state'' [] e)
    | None \<Rightarrow> InTx (InsertRegimeState (toStorageRegimeState s)))"

text \<open>\<open>nil\<close> from the storage layer is \<open>ErrNotFound\<close>.\<close>

definition found_or_err :: "('w, regime_state option) io \<Rightarrow> ('w, regime_state) io" where
  "found_or_err m = bindE m (\<lambda>r. case r of None \<Rightarrow> throw ErrNotFound | Some s \<Rightarrow> ret (fromStorageRegimeState s))"

definition RegimeRepo_GetLatest :: "asset \<Rightarrow> ('a world_scheme, regime_state) io" where
  "RegimeRepo_GetLatest a = found_or_err (GetLatestRegimeState a)"

definition RegimeRepo_GetByDate :: "asset \<Rightarrow> gotime \<Rightarrow> ('a world_scheme, regime_state) io" where
  "RegimeRepo_GetByDate a d = found_or_err (GetRegimeStateByDate a d)"

definition RegimeRepo_GetHistory :: "asset \<Rightarrow> gotime \<Rightarrow> gotime \<Rightarrow> ('a world_scheme, regime_state list) io" where
  "RegimeRepo_GetHistory a from to =
     bindE (GetRegimeStateHistory a from to) (\<lambda>rows. ret (map fromStorageRegimeState rows))"

text \<open>
  When the transaction fails with \<open>ErrNoRows\<close>, what the closure had collected is returned:
  nothing, unless only the commit failed.
\<close>

definition collected :: "('a world_scheme, 'r list) io \<Rightarrow> 'a world_scheme \<Rightarrow> 'r list" where
  "collected body w = (case begin_tx w of (Inl _, _) \<Rightarrow> []
     | (Inr _, w1) \<Rightarrow> (case body w1 of (Inl _, _) \<Rightarrow> [] | (Inr xs, _) \<Rightarrow> xs))"

definition InTx_or_collected :: "('a world_scheme, 'r list) io \<Rightarrow> ('a world_scheme, 'r list) io" where
  "InTx_or_collected body w = (case InTx body w of
       (Inl e, w') \<Rightarrow> if errors_Is e ErrNoRows then (Inr (collected body w), w') else (Inl e, w')
     | (Inr xs, w') \<Rightarrow> (Inr xs, w'))"

definition RegimeRepo_GetIndicatorRawSeries :: "asset \<Rightarrow> gotime \<Rightarrow> gotime \<Rightarrow> ('a world_scheme, indicator_point list) io" where
  "RegimeRepo_GetIndicatorRawSeries a from to = InTx_or_collected (bindE (GetRegimeIndicatorRawSeries a from to) (\<lambda>pts.
     ret (map (\<lambda>p. \<lparr>ip_value_date = ip_value_date p, ip_indicator = ip_indicator p\<rparr>) pts)))"

definition RegimeRepo_GetSmoothingTrailing :: "asset \<Rightarrow> gotime \<Rightarrow> gotime \<Rightarrow> gotime \<Rightarrow> ('a world_scheme, trailing_point list) io" where
  "RegimeRepo_GetSmoothingTrailing a from to cutoff = InTx (bindE (GetRegimeSmoothingTrailing a from to cutoff) (\<lambda>pts.
     ret (map (\<lambda>p. \<lparr>tp_value_date = sm_value_date p, tp_indicator = sm_indicator p, tp_transition = sm_transition p\<rparr>) pts)))"

definition pg_regime_repo :: "'a world_scheme regime_repo" where
  "pg_regime_repo = \<lparr>rr_Save = RegimeRepo_Save, rr_GetLatest = RegimeRepo_GetLatest,
     rr_GetByDate = RegimeRepo_GetByDate, rr_GetHistory = RegimeRepo_GetHistory,
     rr_GetIndicatorRawSeries = RegimeRepo_GetIndicatorRawSeries,
     rr_GetSmoothingTrailing = RegimeRepo_GetSmoothingTrailing\<rparr>"

section \<open>The score reader\<close>

definition queryAssetFor :: "asset \<Rightarrow> domain_code \<Rightarrow> asset" where
  "queryAssetFor a d = (if d = DomainCapitalFlows then AssetGlobal else a)"

definition merge_global :: "(domain_code \<rightharpoonup> f64) \<Rightarrow> (domain_code \<rightharpoonup> f64) \<Rightarrow> domain_code \<rightharpoonup> f64" where
  "merge_global assetMap globalMap =
     (\<lambda>d. if d = DomainCapitalFlows then globalMap DomainCapitalFlows else assetMap d)"

definition ScoreReader_GetLatestAll :: "asset \<Rightarrow> gotime \<Rightarrow> gotime \<Rightarrow> ('a world_scheme, domain_code \<rightharpoonup> f64) io" where
  "ScoreReader_GetLatestAll a vd cutoff = InTx (
     bindE (GetLatestDomainScores a vd cutoff) (\<lambda>assetMap.
     bindE (GetLatestDomainScores AssetGlobal vd cutoff) (\<lambda>globalMap.
     ret (merge_global assetMap globalMap))))"

definition ScoreReader_GetByDate :: "asset \<Rightarrow> domain_code \<Rightarrow> gotime \<Rightarrow> gotime \<Rightarrow> ('a world_scheme, f64 \<times> bool) io" where
  "ScoreReader_GetByDate a d vd cutoff = InTx (GetDomainScoreOnDate (queryAssetFor a d) d vd cutoff)"

definition ScoreReader_GetHistory :: "asset \<Rightarrow> domain_code \<Rightarrow> int \<Rightarrow> ('a world_scheme, f64 list) io" where
  "ScoreReader_GetHistory a d lookback = InTx (GetDomainScoreHistory (queryAssetFor a d) d lookback)"

definition pg_score_reader :: "'a world_scheme score_reader" where
  "pg_score_reader = \<lparr>sr_GetLatestAll = ScoreReader_GetLatestAll, sr_GetByDate = ScoreReader_GetByDate,
     sr_GetHistory = ScoreReader_GetHistory\<rparr>"

section \<open>The outbox publisher\<close>

definition Publisher_Publish :: "'a world_scheme publisher" where
  "Publisher_Publish ev = InTx (Enqueue \<lparr>ev_topic = ev_topic ev, ev_aggregate = ev_aggregate ev, ev_payload = ev_payload ev\<rparr>)"

definition pg_regime_service :: "regime_config \<Rightarrow> asset list \<Rightarrow> 'a world_scheme regime_service" where
  "pg_regime_service cfg assets =
     regime_NewService pg_regime_repo pg_score_reader Publisher_Publish clock_Now cfg assets"

section \<open>Every call of the ports only appends\<close>

lemma evolves_InTx_or_collected: "obeys in_tx b \<Longrightarrow> obeys evolves (InTx_or_collected b)"
proof (rule obeysI)
  fix w assume "obeys in_tx b"
  then have "evolves w (snd (InTx b w))" using evolves_InTx by (auto simp: obeys_def)
  then show "evolves w (snd (InTx_or_collected b w))"
    by (auto simp: InTx_or_collected_def split: prod.splits sum.splits)
qed

lemma evolves_RegimeRepo:
  "obeys evolves (RegimeRepo_Save st)" "obeys evolves (RegimeRepo_GetLatest a)" "obeys evolves (RegimeRepo_GetByDate a d)"
  "obeys evolves (RegimeRepo_GetHistory a from to)" "obeys evolves (RegimeRepo_GetIndicatorRawSeries a from to)"
  "obeys evolves (RegimeRepo_GetSmoothingTrailing a from to c)"
proof -
  show "obeys evolves (RegimeRepo_Save st)"
    by (auto simp: RegimeRepo_Save_def split: option.splits intro!: evo.obeys_throw evolves_InTx in_tx_InsertRegimeState)
  have f: "obeys evolves (found_or_err m)" if "obeys evolves m" for m
    unfolding found_or_err_def by (rule evo.obeys_bindE[OF that]) (auto split: option.splits intro: evo.obeys_rules)
  show "obeys evolves (RegimeRepo_GetLatest a)" "obeys evolves (RegimeRepo_GetByDate a d)"
    unfolding RegimeRepo_GetLatest_def RegimeRepo_GetByDate_def GetLatestRegimeState_def GetRegimeStateByDate_def
    by (intro f evolves_reads)+
  show "obeys evolves (RegimeRepo_GetHistory a from to)"
    unfolding RegimeRepo_GetHistory_def GetRegimeStateHistory_def by (intro evo.obeys_bindE evolves_reads evo.obeys_ret)
  show "obeys evolves (RegimeRepo_GetSmoothingTrailing a from to c)"
    unfolding RegimeRepo_GetSmoothingTrailing_def GetRegimeSmoothingTrailing_def
    by (intro evolves_InTx itx.obeys_bindE in_tx_query_rows itx.obeys_ret)
  show "obeys evolves (RegimeRepo_GetIndicatorRawSeries a from to)"
    unfolding RegimeRepo_GetIndicatorRawSeries_def GetRegimeIndicatorRawSeries_def queryRegimeSeries_def
    by (intro evolves_InTx_or_collected itx.obeys_bindE in_tx_query_rows itx.obeys_ret)
qed

lemma in_tx_GetDomainScoreOnDate: "obeys in_tx (GetDomainScoreOnDate a d vd c)"
  unfolding GetDomainScoreOnDate_def
  by (rule itx.obeys_case[OF in_tx_query_row]) (simp_all add: obeys_def itx.refl)

lemma evolves_ScoreReader:
  "obeys evolves (ScoreReader_GetLatestAll a vd c)" "obeys evolves (ScoreReader_GetByDate a d vd c)"
  "obeys evolves (ScoreReader_GetHistory a d n)"
  unfolding ScoreReader_GetLatestAll_def ScoreReader_GetByDate_def ScoreReader_GetHistory_def
    GetLatestDomainScores_def GetDomainScoreHistory_def
  by (intro evolves_InTx itx.obeys_bindE in_tx_query_rows itx.obeys_ret in_tx_GetDomainScoreOnDate)+

lemma evolves_Publish: "obeys evolves (Publisher_Publish ev)"
  unfolding Publisher_Publish_def by (intro evolves_InTx in_tx_Enqueue)

lemmas pg_ports = pg_regime_service_def regime_NewService_def pg_regime_repo_def pg_score_reader_def

interpretation pg_steps: regime_steps evolves "pg_regime_service cfg assets"
  by unfold_locales
    (simp_all add: pg_ports evolves_RegimeRepo evolves_ScoreReader evolves_Publish evolves_reads(7))

section \<open>The invariant of the stored data\<close>

definition db_ok :: "'a world_scheme \<Rightarrow> bool" where
  "db_ok w \<longleftrightarrow> length (w_scores w) < 2 ^ 52 \<and>
     (\<forall>r\<in>set (w_scores w). fin_in (- 1) 1 (ds_score (r_val r)) \<and> is_f64 (ds_score (r_val r))) \<and>
     (\<forall>r\<in>set (w_regimes w). good_state (r_val r) \<and> RegimeState_Validate (r_val r) = None)"

lemma db_ok_frozen: "frozen w' = frozen w \<Longrightarrow> db_ok w' = db_ok w"
proof -
  assume a: "frozen w' = frozen w"
  have "w_scores w' = w_scores w" "w_regimes w' = w_regimes w"
    using arg_cong[OF a, of w_scores] arg_cong[OF a, of w_regimes] by (simp_all add: frozen_def)
  then show ?thesis by (simp add: db_ok_def)
qed

text \<open>A read keeps the invariant, and its result is computed from tables that satisfy it.\<close>

lemma valid_read:
  assumes "\<And>w. frozen (snd (m w)) = frozen w" "\<And>w x w'. db_ok w \<Longrightarrow> m w = (Inr x, w') \<Longrightarrow> Q x"
  shows "valid_io db_ok m Q"
proof (rule valid_ioI)
  show "db_ok (snd (m w))" if "db_ok w" for w using db_ok_frozen[OF assms(1)[of w]] that by simp
qed (fact assms(2))

lemma query_rows_result: "query_rows msg vs f w = (Inr x, w') \<Longrightarrow> \<exists>n. x = f (w\<lparr>w_ticks := n\<rparr>)"
  by (cases w rule: db_op_cases)
    (auto simp: query_rows_def db_read_def seqE_def bindE_def wrapE_def db_op_def split: option.splits)

lemma query_row_result: "query_row f w = (Inr x, w') \<Longrightarrow> \<exists>n. f (w\<lparr>w_ticks := n\<rparr>) = Some x"
  by (auto simp: query_row_def db_read_def bindE_def db_op_def split: option.splits)

lemma valid_query_rows:
  assumes "\<And>w. db_ok w \<Longrightarrow> Q (f w)"
  shows "valid_io db_ok (query_rows msg vs f) Q"
proof (rule valid_read)
  fix w x w' assume "db_ok w" "query_rows msg vs f w = (Inr x, w')"
  moreover obtain n where "x = f (w\<lparr>w_ticks := n\<rparr>)" using query_rows_result[OF calculation(2)] by blast
  moreover have "db_ok (w\<lparr>w_ticks := n\<rparr>)" using \<open>db_ok w\<close> by (simp add: db_ok_def)
  ultimately show "Q x" using assms by blast
qed simp

lemma valid_InTx:
  assumes "valid_io db_ok body Q"
  shows "valid_io db_ok (InTx body) Q"
proof (rule valid_ioI)
  fix w :: "'a world_scheme" assume I: "db_ok w"
  define w1 where "w1 = w\<lparr>w_txtime := w_clock w (w_ticks w), w_ticks := Suc (w_ticks w)\<rparr>"
  have I1: "db_ok w1" using I by (simp add: db_ok_def w1_def)
  { fix x w' assume r: "InTx body w = (Inr x, w')"
    then obtain w2 where b: "body w1 = (Inr x, w2)" "w' = w2\<lparr>w_ticks := Suc (w_ticks w2)\<rparr>"
      by (rule InTx_ok) (simp add: w1_def)
    then have "Q x" "db_ok w2" using valid_io_result[OF assms I1] valid_io_keeps[OF assms I1] by auto
    then have "Q x" "db_ok w'" by (simp_all add: b(2) db_ok_def) }
  note ok = this
  show "db_ok (snd (InTx body w))"
  proof (cases "InTx body w")
    case (Pair r w')
    then show ?thesis using ok(2)[of _ w'] InTx_error[of body w _ w'] I db_ok_frozen by (cases r) auto
  qed
  show "\<And>x w'. InTx body w = (Inr x, w') \<Longrightarrow> Q x" by (rule ok(1))
qed


lemma valid_InTx_or_collected:
  assumes "valid_io db_ok body (list_all P)"
  shows "valid_io db_ok (InTx_or_collected body) (list_all P)"
proof (rule valid_ioI)
  fix w :: "'a world_scheme" assume I: "db_ok w"
  note v = valid_InTx[OF assms]
  show "db_ok (snd (InTx_or_collected body w))"
    using valid_io_keeps[OF v I] by (auto simp: InTx_or_collected_def split: prod.splits sum.splits)
  have c: "list_all P (collected body w)"
  proof (cases "begin_tx w")
    case (Pair r w1)
    have "frozen w1 = frozen w"
      using Pair frozen_db_op[of "w\<lparr>w_txtime := w_clock w (w_ticks w)\<rparr>"] by (simp add: begin_tx_def)
    then have "db_ok w1" using I db_ok_frozen by blast
    then show ?thesis using Pair valid_io_result[OF assms]
      by (auto simp: collected_def split: prod.splits sum.splits)
  qed
  fix x w' assume "InTx_or_collected body w = (Inr x, w')"
  then show "list_all P x"
    using c valid_io_result[OF v I] by (auto simp: InTx_or_collected_def split: prod.splits sum.splits if_splits)
qed

text \<open>What the queries return from tables that satisfy the invariant.\<close>

lemma latest_by_all: "(\<And>r. r \<in> set t \<Longrightarrow> P (r_val r)) \<Longrightarrow> v \<in> set (latest_by k t) \<Longrightarrow> P v"
  using latest_by_mem_table by metis

lemma score_row_ok: "db_ok w \<Longrightarrow> r \<in> set (w_scores w) \<Longrightarrow> fin_in (- 1) 1 (ds_score (r_val r)) \<and> is_f64 (ds_score (r_val r))"
  by (simp add: db_ok_def)

lemma regime_row_ok: "db_ok w \<Longrightarrow> r \<in> set (w_regimes w) \<Longrightarrow> good_state (r_val r)"
  by (simp add: db_ok_def)

lemma q_scores_in: "db_ok w \<Longrightarrow> scores_in (q_scores a vd (w_scores w) c)"
  unfolding scores_in_def q_scores_def
  by (auto simp: ran_def dest!: latest_map_mem intro: score_row_ok[THEN conjunct1])

lemma keys_of_length: "length (keys_of k t) \<le> length t"
  using length_remdups_leq[of "map (k \<circ> r_val) t"] by (simp add: keys_of_def)

lemma latest_by_length: "length (latest_by k t) \<le> length t"
  using map_filter_bounds(1) keys_of_length order_trans unfolding latest_by_def by blast

lemma q_history_in: "db_ok w \<Longrightarrow> history_in (q_score_history a d n today (w_scores w))"
proof -
  assume I: "db_ok w"
  let ?t = "where_rows (\<lambda>x. ds_asset x = a \<and> ds_domain x = d \<and> add_days (UTCDay today) (- n) \<le> ds_value_date x) (w_scores w)"
  have "length (latest_by ds_value_date ?t) \<le> length ?t" by (rule latest_by_length)
  also have "\<dots> \<le> length (w_scores w)" by (simp add: where_rows_def)
  also have "\<dots> < 2 ^ 52" using I by (simp add: db_ok_def)
  finally have l: "length (latest_by ds_value_date ?t) < 2 ^ 52" .
  have "fin_in (- 1) 1 (ds_score v) \<and> is_f64 (ds_score v)" if "v \<in> set (latest_by ds_value_date ?t)" for v
    using that by (rule latest_by_all[rotated]) (use score_row_ok[OF I] in auto)
  with l show ?thesis by (simp add: history_in_def q_score_history_def)
qed

lemma q_regime_history_ok: "db_ok w \<Longrightarrow> v \<in> set (q_regime_history a from to (w_regimes w)) \<Longrightarrow> good_state v"
  unfolding q_regime_history_def by (rule latest_by_all[rotated]) (use regime_row_ok in auto)

lemma q_smoothing_ok:
  "db_ok w \<Longrightarrow> p \<in> set (q_smoothing a from to (w_regimes w) c) \<Longrightarrow> fin_in (- 2) 2 (sm_indicator p) \<and> fin_in 0 1 (sm_transition p)"
proof -
  assume I: "db_ok w" and "p \<in> set (q_smoothing a from to (w_regimes w) c)"
  then obtain v where v: "v \<in> set (latest_by rs_value_date (as_of c
          (where_rows (\<lambda>x. rs_asset x = a \<and> from \<le> rs_value_date x \<and> rs_value_date x \<le> to) (w_regimes w))))"
    "sm_indicator p = rs_indicator v" "sm_transition p = rs_transition v" by (auto simp: q_smoothing_def)
  have "good_state v" using v(1) by (rule latest_by_all[rotated]) (use regime_row_ok[OF I] in auto)
  then show ?thesis using v by (simp add: good_state_def)
qed

section \<open>The ports keep their promises\<close>

lemma merge_global_in: "scores_in m \<Longrightarrow> scores_in g \<Longrightarrow> scores_in (merge_global m g)"
  by (auto simp: merge_global_def scores_in_def ran_def split: if_splits)

lemma valid_GetLatestAll: "valid_io db_ok (ScoreReader_GetLatestAll a vd c) scores_in"
  unfolding ScoreReader_GetLatestAll_def GetLatestDomainScores_def
  by (intro valid_InTx valid_bindE[OF valid_query_rows[of scores_in]] valid_ret merge_global_in q_scores_in)

lemma valid_GetByDate: "valid_io db_ok (ScoreReader_GetByDate a d vd c) (\<lambda>(v, found). fin_in (- 1) 1 v)"
  unfolding ScoreReader_GetByDate_def
proof (rule valid_InTx, rule valid_read)
  fix w x w'
  assume I: "db_ok w" and r: "GetDomainScoreOnDate (queryAssetFor a d) d vd c w = (Inr x, w')"
  have "fin_in (- 1) 1 v" if "q_score a' d vd (w_scores w) c = Some v" for v a'
    using that latest_Some score_row_ok[OF I] by (fastforce simp: q_score_def)
  then show "case x of (v, found) \<Rightarrow> fin_in (- 1) 1 v"
    using r by (auto simp: GetDomainScoreOnDate_def dest!: query_row_result split: prod.splits sum.splits if_splits)
next
  fix w :: "'a world_scheme"
  show "frozen (snd (GetDomainScoreOnDate (queryAssetFor a d) d vd c w)) = frozen w"
    using frozen_query_row[of "\<lambda>w. q_score (queryAssetFor a d) d vd (w_scores w) c" w]
    by (cases "query_row (\<lambda>w. q_score (queryAssetFor a d) d vd (w_scores w) c) w")
      (auto simp: GetDomainScoreOnDate_def simp del: frozen_query_row split: sum.splits)
qed

lemma valid_GetHistory: "valid_io db_ok (ScoreReader_GetHistory a d n) history_in"
  unfolding ScoreReader_GetHistory_def GetDomainScoreHistory_def
  by (intro valid_InTx valid_query_rows q_history_in)

lemma valid_GetIndicatorRawSeries: "valid_io db_ok (RegimeRepo_GetIndicatorRawSeries a from to) series_in"
proof -
  let ?P = "\<lambda>p. fin_in (- 8) 8 (ip_indicator p)"
  have "valid_io db_ok (RegimeRepo_GetIndicatorRawSeries a from to) (list_all ?P)"
    unfolding RegimeRepo_GetIndicatorRawSeries_def GetRegimeIndicatorRawSeries_def queryRegimeSeries_def
    by (intro valid_InTx_or_collected valid_bindE[OF valid_query_rows[of "list_all ?P"]] valid_ret)
      (auto simp: list_all_iff good_state_def dest: q_regime_history_ok)
  then show ?thesis by (rule valid_io_weaken) (simp add: series_in_def list_all_iff)
qed

lemma valid_GetSmoothingTrailing: "valid_io db_ok (RegimeRepo_GetSmoothingTrailing a from to c) trail_in"
  unfolding RegimeRepo_GetSmoothingTrailing_def GetRegimeSmoothingTrailing_def
  by (intro valid_InTx valid_bindE[OF valid_query_rows[of "\<lambda>ps. \<forall>p\<in>set ps. fin_in (- 2) 2 (sm_indicator p) \<and> fin_in 0 1 (sm_transition p)"]] valid_ret)
    (auto simp: trail_in_def dest: q_smoothing_ok)

lemma valid_db_write:
  assumes "\<And>w w'. db_ok w \<Longrightarrow> f w = Inr w' \<Longrightarrow> db_ok w'"
  shows "valid_io db_ok (db_write f) (\<lambda>_. True)"
proof (rule valid_ioI)
  fix w :: "'a world_scheme" assume "db_ok w"
  then have "db_ok (snd (db_op w))" using db_ok_frozen[OF frozen_db_op] by blast
  then show "db_ok (snd (db_write f w))"
    using assms by (auto simp: db_write_def bindE_def split: prod.splits sum.splits)
qed simp

lemma valid_Save:
  assumes "good_state st"
  shows "valid_io db_ok (RegimeRepo_Save st) (\<lambda>_. True)"
proof -
  have g: "good_state (toStorageRegimeState st\<lparr>rs_contributions := c, rs_top_drivers := d, rs_weights := e\<rparr>)" for c d e
    using assms by (simp add: good_state_def toStorageRegimeState_def)
  have v: "RegimeState_Validate (toStorageRegimeState st\<lparr>rs_contributions := c, rs_top_drivers := d, rs_weights := e\<rparr>) = None"
    if "RegimeState_Validate st = None" for c d e
    using that by (simp add: RegimeState_Validate_None toStorageRegimeState_def del: first_bad_prob.simps)
  have "valid_io db_ok (InsertRegimeState (toStorageRegimeState st)) (\<lambda>_. True)" if "RegimeState_Validate st = None"
    using that unfolding InsertRegimeState_def
    using g v[OF that] by (auto simp: map_sum_Inr insert_pk_def db_ok_def split: if_splits intro!: valid_throw valid_db_write)
  then show ?thesis by (auto simp: RegimeRepo_Save_def split: option.splits intro!: valid_throw valid_InTx)
qed

lemma valid_Publish: "valid_io db_ok (Publisher_Publish ev) (\<lambda>_. True)"
  unfolding Publisher_Publish_def Enqueue_def
  by (auto simp: db_ok_def intro!: valid_throw valid_InTx valid_db_write)

lemma valid_clock_Now: "valid_io db_ok clock_Now (\<lambda>_. True)"
  by (intro valid_read) simp_all

lemma pg_is_ports:
  assumes "go_libm M" "\<And>a d. orders_ok (ord a d)" "regime_cfg_ok (Config_Defaults cfg)"
  shows "regime_ports M db_ok (pg_regime_service cfg assets) ord"
  by (intro regime_ports.intro regime_ports_axioms.intro assms(1))
    (simp_all add: pg_ports assms(2,3) valid_GetLatestAll valid_GetByDate valid_GetHistory valid_GetIndicatorRawSeries
      valid_GetSmoothingTrailing valid_Save valid_Publish valid_clock_Now)

definition listed :: "domain_code set \<Rightarrow> domain_code list" where
  "listed S = filter (\<lambda>d. d \<in> S) AllDomains"

definition listed_order :: "asset \<Rightarrow> gotime \<Rightarrow> map_order" where
  "listed_order a d = \<lparr>mo_weights = listed, mo_scores = listed, mo_raw = listed, mo_norm = listed, mo_drivers = listed\<rparr>"

lemma listed_order_ok: "orders_ok (listed_order a d)"
  by (auto simp: orders_ok_def lists_keys_def listed_order_def listed_def)

definition empty_config :: regime_config where
  "empty_config = \<lparr>rc_model_version = ''regime_v1.0.0'', rc_config_version = ''sha256:0123456789abcdef'', rc_code_sha = ''dev'',
     rc_weights = None, rc_sigmoid_k = fzero, rc_roc_window = 0, rc_roc_weight = fzero,
     rc_div_weight = fzero, rc_baseline = fzero, rc_min_coverage = fzero, rc_norm_lookback = 0,
     rc_norm_min_samples = 0, rc_span = 0\<rparr>"

lemma default_weights_dom: "dom default_weights = set AllDomains"
  by (auto simp: default_weights_def AllDomains_def)

lemma Defaults_ok:
  assumes "rc_weights cfg = None" "rc_sigmoid_k cfg = fzero" "rc_roc_window cfg = 0" "rc_roc_weight cfg = fzero"
    "rc_div_weight cfg = fzero" "rc_baseline cfg = fzero" "rc_span cfg = 0"
  shows "regime_cfg_ok (Config_Defaults cfg)"
proof -
  have w: "cfg_weights (Config_Defaults cfg) = default_weights" using assms(1) by (simp add: cfg_weights_def Config_Defaults_def)
  have v: "fin_in 0 1 v \<and> is_f64 v" if v: "v \<in> ran default_weights" for v
  proof -
    obtain d where "default_weights d = Some v" using v by (auto simp: ran_def)
    then have "fin_in (1 / 8) 1 v \<and> is_f64 v" by (rule default_weights_values)
    then show ?thesis by (auto intro: fin_in_mono)
  qed
  have l: "fin_in 0 1 (lit (7 / 10))" "fin_in 0 1 (lit (3 / 10))" "is_finite (lit (30 / 100))" "is_finite (lit (15 / 10))"
    by (simp_all add: f64_eval)
  have c: "rc_roc_weight (Config_Defaults cfg) = lit (7 / 10)" "rc_div_weight (Config_Defaults cfg) = lit (3 / 10)"
    "rc_baseline (Config_Defaults cfg) = lit (30 / 100)" "rc_sigmoid_k (Config_Defaults cfg) = lit (15 / 10)"
    "rc_roc_window (Config_Defaults cfg) = 14" "rc_span (Config_Defaults cfg) = 21"
    using assms(2-) by (simp_all add: Config_Defaults_def or_default_def or_default_int_def)
  show ?thesis unfolding regime_cfg_ok_def w c default_weights_dom using v l by simp
qed

interpretation default_ports: regime_ports ideal_libm db_ok "pg_regime_service empty_config []" listed_order
  by (rule pg_is_ports[OF ideal.go_libm_axioms listed_order_ok Defaults_ok]) (simp_all add: empty_config_def)

section \<open>What a run writes\<close>

definition same_data :: "'a world_scheme \<Rightarrow> 'a world_scheme \<Rightarrow> bool" where
  "same_data w w' \<longleftrightarrow> frozen w' = frozen w"

interpretation sd: io_rel same_data
  by unfold_locales (simp_all add: same_data_def)

lemma same_InTx: "(\<And>w. frozen (snd (body w)) = frozen w) \<Longrightarrow> obeys same_data (InTx body)"
  by (rule obeysI) (simp add: same_data_def InTx_reads)

lemma frozen_bindE_ret [simp]: "frozen (snd (bindE m (\<lambda>x. ret (f x)) w)) = frozen (snd (m w))"
  by (auto simp: bindE_def split: prod.splits sum.splits)

lemma frozen_GetDomainScoreOnDate: "frozen (snd (GetDomainScoreOnDate a d vd c w)) = frozen w"
  using frozen_query_row[of "\<lambda>w. q_score a d vd (w_scores w) c" w]
  by (cases "query_row (\<lambda>w. q_score a d vd (w_scores w) c) w")
    (auto simp: GetDomainScoreOnDate_def simp del: frozen_query_row split: sum.splits)

lemma same_query_rows: "obeys same_data (query_rows m v f)"
  by (rule obeysI) (simp add: same_data_def)

lemma frozen_two_queries:
  "frozen (snd (bindE (query_rows m1 v1 f1) (\<lambda>x. bindE (query_rows m2 v2 f2) (\<lambda>y. ret (g x y))) w)) = frozen w"
proof -
  have "obeys same_data (bindE (query_rows m1 v1 f1) (\<lambda>x. bindE (query_rows m2 v2 f2) (\<lambda>y. ret (g x y))))"
    by (intro sd.obeys_bindE sd.obeys_ret same_query_rows)
  then show ?thesis by (simp add: obeys_def same_data_def)
qed

lemma same_reads:
  "obeys same_data (ScoreReader_GetLatestAll a vd c)" "obeys same_data (ScoreReader_GetByDate a d vd c)"
  "obeys same_data (ScoreReader_GetHistory a d n)" "obeys same_data (RegimeRepo_GetIndicatorRawSeries a from to)"
  "obeys same_data (RegimeRepo_GetSmoothingTrailing a from to c)"
proof -
  show "obeys same_data (ScoreReader_GetLatestAll a vd c)"
    unfolding ScoreReader_GetLatestAll_def GetLatestDomainScores_def by (intro same_InTx frozen_two_queries)
  show "obeys same_data (ScoreReader_GetByDate a d vd c)"
    unfolding ScoreReader_GetByDate_def by (intro same_InTx frozen_GetDomainScoreOnDate)
  show "obeys same_data (ScoreReader_GetHistory a d n)"
    unfolding ScoreReader_GetHistory_def GetDomainScoreHistory_def by (intro same_InTx frozen_query_rows)
  show "obeys same_data (RegimeRepo_GetSmoothingTrailing a from to c)"
    unfolding RegimeRepo_GetSmoothingTrailing_def GetRegimeSmoothingTrailing_def by (intro same_InTx) simp
  show "obeys same_data (RegimeRepo_GetIndicatorRawSeries a from to)"
  proof (rule obeysI)
    fix w :: "'g world_scheme"
    let ?b = "bindE (GetRegimeIndicatorRawSeries a from to)
       (\<lambda>pts. ret (map (\<lambda>p. \<lparr>ip_value_date = ip_value_date p, ip_indicator = ip_indicator p\<rparr>) pts))"
    have "frozen (snd (InTx ?b w)) = frozen w"
      by (rule InTx_reads) (simp add: GetRegimeIndicatorRawSeries_def queryRegimeSeries_def)
    then show "same_data w (snd (RegimeRepo_GetIndicatorRawSeries a from to w))"
      unfolding RegimeRepo_GetIndicatorRawSeries_def
      by (auto simp: same_data_def InTx_or_collected_def split: prod.splits sum.splits)
  qed
qed

interpretation pg_reads: regime_reads same_data "pg_regime_service cfg assets"
  by unfold_locales (simp_all add: pg_ports same_reads)

lemma sv_sel [simp]:
  "sv_repo (pg_regime_service cfg assets) = pg_regime_repo" "sv_reader (pg_regime_service cfg assets) = pg_score_reader"
  "sv_publish (pg_regime_service cfg assets) = Publisher_Publish" "sv_clock (pg_regime_service cfg assets) = clock_Now"
  "sv_cfg (pg_regime_service cfg assets) = Config_Defaults cfg"
  "sv_assets (pg_regime_service cfg assets) = (if assets = [] then AssetsTradeable else assets)"
  "rr_Save pg_regime_repo = RegimeRepo_Save"
  by (simp_all add: pg_ports)

lemma bindE_cases:
  assumes "bindE m f w = (Inr y, w')"
  obtains x w1 where "m w = (Inr x, w1)" "f x w1 = (Inr y, w')"
  using assms by (auto simp: bindE_eq_Inr)

text \<open>A successful insert adds one row with the transaction's time.\<close>

lemma Save_ok:
  assumes "RegimeRepo_Save st w = (Inr (), w')"
  obtains row where "r_ingested row = w_clock w (w_ticks w)" "rs_asset (r_val row) = rs_asset st"
    "rs_value_date (r_val row) = rs_value_date st" "rs_indicator (r_val row) = rs_indicator st"
    "rs_risk_on (r_val row) = rs_risk_on st" "rs_risk_off (r_val row) = rs_risk_off st" "rs_transition (r_val row) = rs_transition st"
    "rs_coverage (r_val row) = rs_coverage st"
    "w_regimes w' = w_regimes w @ [row]" "w_outbox w' = w_outbox w" "w_scores w' = w_scores w"
proof -
  have v: "RegimeState_Validate st = None" and t: "InTx (InsertRegimeState (toStorageRegimeState st)) w = (Inr (), w')"
    using assms by (auto simp: RegimeRepo_Save_def split: option.splits)
  obtain w1 w2 where w: "w1 = w\<lparr>w_txtime := w_clock w (w_ticks w), w_ticks := Suc (w_ticks w)\<rparr>"
    "InsertRegimeState (toStorageRegimeState st) w1 = (Inr (), w2)" "w' = w2\<lparr>w_ticks := Suc (w_ticks w2)\<rparr>"
    using t by (rule InTx_ok)
  define st' where "st' = toStorageRegimeState st\<lparr>rs_contributions := jsonb_floats (rs_contributions st),
    rs_top_drivers := map jsonb_driver (rs_top_drivers (toStorageRegimeState st)), rs_weights := jsonb_floats (rs_weights st)\<rparr>"
  have "w_regimes w2 = w_regimes w1 @ [\<lparr>r_ingested = w_txtime w1, r_val = st'\<rparr>] \<and> w_outbox w2 = w_outbox w1 \<and> w_scores w2 = w_scores w1"
    using w(2) by (cases w1 rule: db_op_cases)
      (auto simp: InsertRegimeState_def db_write_def bindE_def insert_pk_def st'_def toStorageRegimeState_def split: if_splits)
  then show thesis
    by (intro that[of "\<lparr>r_ingested = w_txtime w1, r_val = st'\<rparr>"]) (simp_all add: w(1,3) st'_def toStorageRegimeState_def)
qed

lemma Publish_ok:
  assumes "Publisher_Publish ev w = (Inr (), w')"
  obtains row where "r_val row = ev" "w_outbox w' = w_outbox w @ [row]" "w_regimes w' = w_regimes w" "w_scores w' = w_scores w"
proof -
  obtain w1 w2 where w: "w1 = w\<lparr>w_txtime := w_clock w (w_ticks w), w_ticks := Suc (w_ticks w)\<rparr>"
    "Enqueue \<lparr>ev_topic = ev_topic ev, ev_aggregate = ev_aggregate ev, ev_payload = ev_payload ev\<rparr> w1 = (Inr (), w2)"
    "w' = w2\<lparr>w_ticks := Suc (w_ticks w2)\<rparr>"
    using assms unfolding Publisher_Publish_def by (rule InTx_ok)
  have "w_outbox w2 = w_outbox w1 @ [\<lparr>r_ingested = w_txtime w1, r_val = ev\<rparr>] \<and> w_regimes w2 = w_regimes w1 \<and> w_scores w2 = w_scores w1"
    using w(2) by (cases w1 rule: db_op_cases) (auto simp: Enqueue_def db_write_def bindE_def split: if_splits)
  then show thesis by (intro that[of "\<lparr>r_ingested = w_txtime w1, r_val = ev\<rparr>"]) (simp_all add: w(1,3))
qed

text \<open>A successful \<open>computeOne\<close> writes one state and one event about it.\<close>

definition wrote :: "asset \<Rightarrow> gotime \<Rightarrow> 'a world_scheme \<Rightarrow> 'a world_scheme \<Rightarrow> bool" where
  "wrote a vd w w' \<longleftrightarrow> (\<exists>row ev. w_regimes w' = w_regimes w @ [row] \<and> w_outbox w' = w_outbox w @ [ev] \<and> w_scores w' = w_scores w \<and>
     rs_asset (r_val row) = a \<and> rs_value_date (r_val row) = vd \<and>
     ev_topic (r_val ev) = ''regime.state.completed.v1'' \<and> ev_aggregate (r_val ev) = a @ '':'' @ fmt_day vd \<and>
     ev_payload (r_val ev) ''regime_indicator'' = Some (AFloat (rs_indicator (r_val row))) \<and>
     ev_payload (r_val ev) ''risk_on'' = Some (AFloat (rs_risk_on (r_val row))) \<and>
     ev_payload (r_val ev) ''risk_off'' = Some (AFloat (rs_risk_off (r_val row))) \<and>
     ev_payload (r_val ev) ''transition_risk'' = Some (AFloat (rs_transition (r_val row))))"

lemma store_wrote:
  assumes "store_state M (pg_regime_service cfg assets) o' a vd eff present raw cn i t w = (Inr (), w')"
  shows "wrote a vd w w'"
proof -
  obtain on off where f: "finalProbabilities M i t (rc_sigmoid_k (Config_Defaults cfg)) = (on, off)"
    by (cases "finalProbabilities M i t (rc_sigmoid_k (Config_Defaults cfg))")
  obtain st w1 where st: "RegimeRepo_Save st w = (Inr (), w1)" "rs_asset st = a" "rs_value_date st = vd" "rs_indicator st = i"
    "rs_risk_on st = on" "rs_risk_off st = off" "rs_transition st = t"
    and p: "Publisher_Publish (regime_event (Config_Defaults cfg) a vd i on off t) w1 = (Inr (), w')"
    using assms by (fastforce simp: store_state_def Let_def f seqE_eq_Inr wrapE_eq_Inr)
  obtain row where r: "rs_asset (r_val row) = rs_asset st"
    "rs_value_date (r_val row) = rs_value_date st" "rs_indicator (r_val row) = rs_indicator st"
    "rs_risk_on (r_val row) = rs_risk_on st" "rs_risk_off (r_val row) = rs_risk_off st" "rs_transition (r_val row) = rs_transition st"
    "w_regimes w1 = w_regimes w @ [row]" "w_outbox w1 = w_outbox w" "w_scores w1 = w_scores w" using Save_ok[OF st(1)] by metis
  obtain ev where e: "r_val ev = regime_event (Config_Defaults cfg) a vd i on off t" "w_outbox w' = w_outbox w1 @ [ev]"
    "w_regimes w' = w_regimes w1" "w_scores w' = w_scores w1" using p by (rule Publish_ok)
  show ?thesis unfolding wrote_def
    by (rule exI[of _ row], rule exI[of _ ev]) (use r e st in \<open>simp add: regime_event_def\<close>)
qed

lemma computeOne_wrote:
  assumes "computeOne M ord (pg_regime_service cfg assets) a vd c w = (Inr (), w')"
  shows "wrote a vd w w'"
proof -
  obtain x w1 where x: "compute_inputs M ord (pg_regime_service cfg assets) a vd c w = (Inr x, w1)"
    and s: "(case x of (eff, present, raw, cn, i, t) \<Rightarrow>
       store_state M (pg_regime_service cfg assets) (ord a vd) a vd eff present raw cn i t) w1 = (Inr (), w')"
    using assms unfolding computeOne_split by (rule bindE_cases)
  have "same_data w w1" using pg_reads.inputs_steps x by (rule obeysD)
  then have "frozen w1 = frozen w" by (simp add: same_data_def)
  note f = arg_cong[OF this, of w_regimes] arg_cong[OF this, of w_outbox] arg_cong[OF this, of w_scores]
  have "w_regimes w1 = w_regimes w" "w_outbox w1 = w_outbox w" "w_scores w1 = w_scores w"
    using f by (simp_all add: frozen_def)
  moreover have "wrote a vd w1 w'" using s by (cases x) (auto intro: store_wrote)
  ultimately show ?thesis by (simp add: wrote_def)
qed

text \<open>A successful run: one state and one event per asset, in order.\<close>

fun wrote_all :: "asset list \<Rightarrow> gotime \<Rightarrow> 'a world_scheme \<Rightarrow> 'a world_scheme \<Rightarrow> bool" where
  "wrote_all [] vd w w' = (w_regimes w' = w_regimes w \<and> w_outbox w' = w_outbox w \<and> w_scores w' = w_scores w)"
| "wrote_all (a # as) vd w w' = (\<exists>w1. wrote a vd w w1 \<and> wrote_all as vd w1 w')"

lemma RunOnce_wrote:
  assumes "RunOnce M ord (pg_regime_service cfg assets) vd w = (Inr (), w')"
  shows "wrote_all (if assets = [] then AssetsTradeable else assets) (UTCDay vd) w w'"
proof -
  let ?f = "\<lambda>c a. wrapE ''regime'' [AStr a, AStr (fmt_day (UTCDay vd))] (computeOne M ord (pg_regime_service cfg assets) a (UTCDay vd) c)"
  have loop: "forE (?f c) as w = (Inr (), w') \<Longrightarrow> wrote_all as (UTCDay vd) w w'" for c as w
    by (induction as arbitrary: w) (auto simp: seqE_eq_Inr wrapE_eq_Inr dest: computeOne_wrote)
  obtain c w1 where c: "clock_Now w = (Inr c, w1)" "forE (?f c) (if assets = [] then AssetsTradeable else assets) w1 = (Inr (), w')"
    using assms unfolding RunOnce_def Let_def by (auto elim!: bindE_cases)
  have w1: "w_regimes w1 = w_regimes w" "w_outbox w1 = w_outbox w" "w_scores w1 = w_scores w"
    using c(1) by (auto simp: clock_Now_def)
  have "wrote_all as d w1 w'' \<Longrightarrow> wrote_all as d w w''" for as d w''
    using w1 by (cases as) (auto simp: wrote_def)
  then show ?thesis using loop[OF c(2)] by blast
qed

section \<open>What a failure leaves\<close>

lemma storage_id: "fromStorageRegimeState st = st" "toStorageRegimeState st = st"
  by (simp_all add: fromStorageRegimeState_def toStorageRegimeState_def map_idI)

lemma frozen_upd: "frozen (w\<lparr>w_ticks := n\<rparr>) = frozen w" "frozen (w\<lparr>w_txtime := t\<rparr>) = frozen w"
  "frozen (w\<lparr>w_regimes := rs\<rparr>) = (frozen w)\<lparr>w_regimes := rs\<rparr>"
  by (simp_all add: frozen_def)

lemma Save_frozen:
  assumes "RegimeRepo_Save st w = (Inr (), w')"
  obtains row where "frozen w' = frozen (w\<lparr>w_regimes := w_regimes w @ [row]\<rparr>)"
    "rs_asset (r_val row) = rs_asset st" "rs_value_date (r_val row) = rs_value_date st"
proof -
  have t: "InTx (InsertRegimeState (toStorageRegimeState st)) w = (Inr (), w')"
    using assms by (auto simp: RegimeRepo_Save_def split: option.splits)
  obtain w1 w2 where w: "w1 = w\<lparr>w_txtime := w_clock w (w_ticks w), w_ticks := Suc (w_ticks w)\<rparr>"
    "InsertRegimeState (toStorageRegimeState st) w1 = (Inr (), w2)" "w' = w2\<lparr>w_ticks := Suc (w_ticks w2)\<rparr>"
    using t by (rule InTx_ok)
  obtain row where "w2 = w1\<lparr>w_ticks := Suc (w_ticks w1), w_regimes := w_regimes w1 @ [row]\<rparr>"
    "rs_asset (r_val row) = rs_asset st" "rs_value_date (r_val row) = rs_value_date st"
    using w(2) by (cases w1 rule: db_op_cases)
      (auto simp: InsertRegimeState_def db_write_def bindE_def insert_pk_def toStorageRegimeState_def split: if_splits)
  then show thesis by (intro that[of row]) (simp_all add: w(1,3) frozen_upd)
qed

lemma store_state_fails:
  assumes "store_state M (pg_regime_service cfg assets) o' a vd eff present raw cn i t w = (Inl e, w')"
  shows "frozen w' = frozen w \<or>
    (\<exists>row. frozen w' = frozen (w\<lparr>w_regimes := w_regimes w @ [row]\<rparr>) \<and> rs_asset (r_val row) = a \<and> rs_value_date (r_val row) = vd)"
proof -
  obtain on off where f: "finalProbabilities M i t (rc_sigmoid_k (Config_Defaults cfg)) = (on, off)"
    by (cases "finalProbabilities M i t (rc_sigmoid_k (Config_Defaults cfg))")
  obtain st ev where st: "rs_asset st = a" "rs_value_date st = vd"
    and s: "seqE (wrapE ''save regime state'' [] (RegimeRepo_Save st)) (Publisher_Publish ev) w = (Inl e, w')"
    using assms by (simp add: store_state_def Let_def f) (erule that[rotated 2]; simp)
  show ?thesis
  proof (cases "RegimeRepo_Save st w")
    case (Pair r w1)
    show ?thesis
    proof (cases r)
      case (Inl e')
      then have "w' = w1" using s Pair by (simp add: io_simps)
      moreover have "frozen w1 = frozen w" using Pair Inl
        by (auto simp: RegimeRepo_Save_def intro: InTx_error split: option.splits)
      ultimately show ?thesis by simp
    next
      case (Inr u)
      then have "Publisher_Publish ev w1 = (Inl e, w')" using s Pair by (simp add: io_simps)
      then have f1: "frozen w' = frozen w1" unfolding Publisher_Publish_def by (rule InTx_error)
      have "RegimeRepo_Save st w = (Inr (), w1)" using Pair Inr by simp
      then obtain row where "frozen w1 = frozen (w\<lparr>w_regimes := w_regimes w @ [row]\<rparr>)"
        "rs_asset (r_val row) = rs_asset st" "rs_value_date (r_val row) = rs_value_date st" by (rule Save_frozen)
      then show ?thesis using f1 st by (intro disjI2 exI[of _ row]) simp
    qed
  qed
qed

lemma computeOne_fails:
  assumes "computeOne M ord (pg_regime_service cfg assets) a vd c w = (Inl e, w')"
  shows "frozen w' = frozen w \<or>
    (\<exists>row. frozen w' = frozen (w\<lparr>w_regimes := w_regimes w @ [row]\<rparr>) \<and> rs_asset (r_val row) = a \<and> rs_value_date (r_val row) = vd)"
proof (cases "compute_inputs M ord (pg_regime_service cfg assets) a vd c w")
  case (Pair r w1)
  have "same_data w w1" using pg_reads.inputs_steps Pair by (rule obeysD)
  then have f: "frozen w1 = frozen w" by (simp add: same_data_def)
  have fr: "w_regimes w1 = w_regimes w" using arg_cong[OF f, of w_regimes] by (simp add: frozen_def)
  show ?thesis
  proof (cases r)
    case (Inl e')
    then show ?thesis using assms Pair f by (simp add: computeOne_split bindE_def)
  next
    case (Inr x)
    then have "(case x of (eff, present, raw, cn, i, t) \<Rightarrow>
       store_state M (pg_regime_service cfg assets) (ord a vd) a vd eff present raw cn i t) w1 = (Inl e, w')"
      using assms Pair by (simp add: computeOne_split bindE_def)
    then have "frozen w' = frozen w1 \<or>
      (\<exists>row. frozen w' = frozen (w1\<lparr>w_regimes := w_regimes w1 @ [row]\<rparr>) \<and> rs_asset (r_val row) = a \<and> rs_value_date (r_val row) = vd)"
      by (cases x) (auto dest: store_state_fails)
    then show ?thesis by (simp add: f fr frozen_upd)
  qed
qed

lemma pg_latest_all_ok:
  assumes "fault_free w"
  shows "\<exists>w'. ScoreReader_GetLatestAll a vd c w =
     (Inr (merge_global (q_scores a vd (w_scores w) c) (q_scores AssetGlobal vd (w_scores w) c)), w')"
  unfolding ScoreReader_GetLatestAll_def GetLatestDomainScores_def
  by (rule exI, rule InTx_fault_free[OF assms], simp add: query_rows_ok assms bindE_def, simp add: assms)

lemma pg_sparse_day:
  assumes "fault_free w" "rc_min_coverage (Config_Defaults cfg) = lit (6 / 10)"
    and "scores = merge_global (q_scores a vd (w_scores w) c) (q_scores AssetGlobal vd (w_scores w) c)"
    and "dom scores \<subseteq> set AllDomains" "card (dom scores) < 3"
  shows "\<exists>e w'. computeOne M ord (pg_regime_service cfg assets) a vd c w = (Inl e, w') \<and>
    errors_Is e ErrInsufficientCoverage \<and> frozen w' = frozen w"
proof -
  obtain w' where r: "ScoreReader_GetLatestAll a vd c w = (Inr scores, w')" using pg_latest_all_ok[OF assms(1)] assms(3) by blast
  have "flt (coverageFraction scores) (rc_min_coverage (Config_Defaults cfg))"
    using coverageFraction_threshold[OF assms(4)] assms(2,5) by simp
  moreover have "sr_GetLatestAll (sv_reader (pg_regime_service cfg assets)) a vd c w = (Inr scores, w')"
    using r by (simp add: pg_ports)
  ultimately obtain e where e: "computeOne M ord (pg_regime_service cfg assets) a vd c w = (Inl e, w')" "errors_Is e ErrInsufficientCoverage"
    using computeOne_coverage[of "pg_regime_service cfg assets" a vd c w scores w' M ord] by auto
  have "same_data w w'" using same_reads(1) r by (rule obeysD)
  then show ?thesis using e by (auto simp: same_data_def)
qed

text \<open>The row of a successful \<open>computeOne\<close> says which domains were present.\<close>

lemma store_coverage:
  assumes "store_state M (pg_regime_service cfg assets) o' a vd eff present raw cn i t w = (Inr (), w')"
  shows "\<exists>row. w_regimes w' = w_regimes w @ [row] \<and>
    rs_coverage (r_val row) = map_of (map (\<lambda>d. (d, mget False present d)) AllDomains)"
proof -
  obtain st w1 ev where st: "RegimeRepo_Save st w = (Inr (), w1)" "rs_coverage st = map_of (map (\<lambda>d. (d, mget False present d)) AllDomains)"
    and p: "Publisher_Publish ev w1 = (Inr (), w')"
    using assms by (auto simp: store_state_def Let_def seqE_eq_Inr wrapE_eq_Inr split: prod.splits)
  obtain row where r: "rs_coverage (r_val row) = rs_coverage st" "w_regimes w1 = w_regimes w @ [row]" using st(1) by (rule Save_ok)
  obtain e where "w_regimes w' = w_regimes w1" using p by (rule Publish_ok)
  then show ?thesis using r st(2) by auto
qed

lemma compute_inputs_present:
  assumes "fault_free w" "compute_inputs M ord (pg_regime_service cfg assets) a vd c w = (Inr (eff, present, raw, cn, i, t), w')"
  shows "present = presentSet (merge_global (q_scores a vd (w_scores w) c) (q_scores AssetGlobal vd (w_scores w) c))"
proof -
  obtain w1 where "ScoreReader_GetLatestAll a vd c w =
     (Inr (merge_global (q_scores a vd (w_scores w) c) (q_scores AssetGlobal vd (w_scores w) c)), w1)" (is "_ = (Inr ?m, _)")
    using pg_latest_all_ok[OF assms(1)] by blast
  then have x: "bindE (wrapE ''read domain scores'' [] (sr_GetLatestAll pg_score_reader a vd c)) f w = f ?m w1" for f
    by (simp add: pg_score_reader_def wrapE_def bindE_def)
  show ?thesis
    using assms(2) unfolding compute_inputs_def Let_def sv_sel x
    by (auto elim!: bindE_cases simp del: sv_sel split: if_splits prod.splits)
qed

lemma computeOne_covers:
  assumes "fault_free w" "computeOne M ord (pg_regime_service cfg assets) a vd c w = (Inr (), w')"
    and "\<forall>d\<in>set AllDomains. merge_global (q_scores a vd (w_scores w) c) (q_scores AssetGlobal vd (w_scores w) c) d \<noteq> None"
  shows "\<exists>row. w_regimes w' = w_regimes w @ [row] \<and> rs_asset (r_val row) = a \<and> rs_value_date (r_val row) = vd \<and>
    (\<forall>d\<in>set AllDomains. rs_coverage (r_val row) d = Some True)"
proof -
  obtain x w1 where x: "compute_inputs M ord (pg_regime_service cfg assets) a vd c w = (Inr x, w1)"
    and s: "(case x of (eff, present, raw, cn, i, t) \<Rightarrow>
       store_state M (pg_regime_service cfg assets) (ord a vd) a vd eff present raw cn i t) w1 = (Inr (), w')"
    using assms(2) unfolding computeOne_split by (rule bindE_cases)
  obtain eff present raw cn i t where x': "x = (eff, present, raw, cn, i, t)" by (cases x)
  have "same_data w w1" using pg_reads.inputs_steps x by (rule obeysD)
  then have "frozen w1 = frozen w" by (simp add: same_data_def)
  from arg_cong[OF this, of w_regimes] have "w_regimes w1 = w_regimes w" by (simp add: frozen_def)
  then obtain row where row: "w_regimes w' = w_regimes w @ [row]"
    "rs_coverage (r_val row) = map_of (map (\<lambda>d. (d, mget False present d)) AllDomains)"
    using store_coverage s x' by fastforce
  have "wrote a vd w w'" using assms(2) by (rule computeOne_wrote)
  then have "rs_asset (r_val row) = a" "rs_value_date (r_val row) = vd" using row(1) by (auto simp: wrote_def)
  moreover have "present = presentSet (merge_global (q_scores a vd (w_scores w) c) (q_scores AssetGlobal vd (w_scores w) c))"
    using compute_inputs_present[OF assms(1)] x x' by simp
  then have "\<forall>d\<in>set AllDomains. rs_coverage (r_val row) d = Some True"
    using assms(3) unfolding row(2) by (simp add: presentSet_def mget_def AllDomains_def domain_defs)
  ultimately show ?thesis using row(1) by blast
qed

section \<open>What the ports answer on a database without faults\<close>

lemma answers_InTx_or_collected: "fault_free F \<Longrightarrow> answers F m x \<Longrightarrow> answers F (InTx_or_collected m) x"
  using answers_InTx[of F m x] by (fastforce simp: answers_def InTx_or_collected_def)

lemma answers_GetLatestAll:
  assumes "fault_free F"
  shows "answers F (ScoreReader_GetLatestAll a vd c)
    (merge_global (q_scores a vd (w_scores F) c) (q_scores AssetGlobal vd (w_scores F) c))"
  unfolding ScoreReader_GetLatestAll_def GetLatestDomainScores_def
  by (intro answers_InTx assms answers_bindE[OF answers_query_rows[OF assms]] answers_ret) simp_all

lemma answers_GetHistory:
  assumes "fault_free F" "\<And>k. q_score_history (queryAssetFor a dm) dm n (w_clock F k) (w_scores F) = h"
  shows "answers F (ScoreReader_GetHistory a dm n) h"
proof (rule answersI)
  fix w assume w: "frozen w = F"
  then have ff: "fault_free w" using assms(1) by auto
  have "ScoreReader_GetHistory a dm n w = (Inr h, w\<lparr>w_txtime := w_clock w (w_ticks w), w_ticks := w_ticks w + 4\<rparr>)"
    unfolding ScoreReader_GetHistory_def GetDomainScoreHistory_def
    by (subst InTx_fault_free[OF ff query_rows_ok]) (use ff w assms(2) in auto)
  then show "\<exists>w'. ScoreReader_GetHistory a dm n w = (Inr h, w') \<and> frozen w' = F" using w by simp
qed

lemma answers_GetByDate_none:
  assumes "fault_free F" "q_score (queryAssetFor a d) d vd (w_scores F) c = None"
  shows "answers F (ScoreReader_GetByDate a d vd c) (fzero, False)"
  unfolding ScoreReader_GetByDate_def
proof (rule answers_InTx[OF assms(1)], rule answersI)
  fix w assume w: "frozen w = F"
  then have "fault_free w" using assms(1) by auto
  then show "\<exists>w'. GetDomainScoreOnDate (queryAssetFor a d) d vd c w = (Inr (fzero, False), w') \<and> frozen w' = F"
    using w assms(2) by (auto simp: GetDomainScoreOnDate_def query_row_def db_read_def bindE_def no_rows_text_def)
qed

lemma answers_GetIndicatorRawSeries:
  assumes "fault_free F"
  shows "answers F (RegimeRepo_GetIndicatorRawSeries a from to)
    (map (\<lambda>s. \<lparr>ip_value_date = rs_value_date s, ip_indicator = rs_indicator_raw s\<rparr>) (q_regime_history a from to (w_regimes F)))"
  unfolding RegimeRepo_GetIndicatorRawSeries_def GetRegimeIndicatorRawSeries_def queryRegimeSeries_def
  by (intro answers_InTx_or_collected assms answers_bindE[OF answers_query_rows[OF assms]] answers_ret') simp_all

lemma answers_GetSmoothingTrailing:
  assumes "fault_free F"
  shows "answers F (RegimeRepo_GetSmoothingTrailing a from to c)
    (map (\<lambda>p. \<lparr>tp_value_date = sm_value_date p, tp_indicator = sm_indicator p, tp_transition = sm_transition p\<rparr>)
      (q_smoothing a from to (w_regimes F) c))"
  unfolding RegimeRepo_GetSmoothingTrailing_def GetRegimeSmoothingTrailing_def
  by (intro answers_InTx assms answers_bindE[OF answers_query_rows[OF assms]] answers_ret) simp_all

text \<open>Saving a valid state and publishing an encodable event succeed.\<close>

lemma Save_runs:
  assumes "fault_free w" "RegimeState_Validate st = None" "json_floats (rs_contributions st)" "json_drivers (rs_top_drivers st)"
    "json_floats (rs_weights st)" "\<forall>r\<in>set (w_regimes w). rs_asset (r_val r) = rs_asset st \<longrightarrow> rs_value_date (r_val r) \<noteq> rs_value_date st"
  shows "\<exists>w'. RegimeRepo_Save st w = (Inr (), w') \<and> fault_free w'"
proof -
  let ?w1 = "w\<lparr>w_txtime := w_clock w (w_ticks w), w_ticks := Suc (w_ticks w)\<rparr>"
  have "\<exists>w2. InsertRegimeState st ?w1 = (Inr (), w2) \<and> fault_free w2"
    using assms by (auto simp: InsertRegimeState_def db_write_def bindE_def insert_pk_def fault_free_def)
  then obtain w2 where "InsertRegimeState st ?w1 = (Inr (), w2)" "fault_free w2" by blast
  then show ?thesis using InTx_fault_free[OF assms(1), of "InsertRegimeState st"] assms(2)
    by (auto simp: RegimeRepo_Save_def storage_id)
qed

lemma Publish_runs:
  assumes "fault_free w" "json_anys (ev_payload ev)"
  shows "\<exists>w'. Publisher_Publish ev w = (Inr (), w')"
proof -
  let ?w1 = "w\<lparr>w_txtime := w_clock w (w_ticks w), w_ticks := Suc (w_ticks w)\<rparr>"
  have "\<exists>w2. Enqueue \<lparr>ev_topic = ev_topic ev, ev_aggregate = ev_aggregate ev, ev_payload = ev_payload ev\<rparr> ?w1 = (Inr (), w2) \<and> fault_free w2"
    using assms by (auto simp: Enqueue_def db_write_def bindE_def fault_free_def)
  then show ?thesis using InTx_fault_free[OF assms(1)] by (fastforce simp: Publisher_Publish_def)
qed

lemma json_regime_event:
  "is_finite i \<Longrightarrow> is_finite on \<Longrightarrow> is_finite off \<Longrightarrow> is_finite t \<Longrightarrow> json_anys (ev_payload (regime_event cfg a vd i on off t))"
  using ran_map_of_sub unfolding json_anys_def regime_event_def event.simps by fastforce

end
