(* ===== verification/ExampleRun.thy ===== *)
theory ExampleRun
  imports PgRegime
begin

text \<open>
  Concrete databases and a complete run on one of them.  They serve the witnesses: each property
  is applied at an input where its hypotheses hold.
\<close>

section \<open>Example data\<close>

definition start_world :: "domain_score list \<Rightarrow> world" where
  "start_world ss = \<lparr>w_ticks = 0, w_clock = (\<lambda>n. 1000 + int n), w_fault = (\<lambda>n. None), w_txtime = 0, w_stable = [], w_tvl = [],
     w_netflow = [], w_mcap = [], w_features = [], w_raws = [], w_dfeatures = [], w_scores = map (\<lambda>s. \<lparr>r_ingested = 500, r_val = s\<rparr>) ss, w_regimes = [],
     w_outbox = [], w_configs = []\<rparr>"

definition ex_day :: gotime where
  "ex_day = 20000 * day_ns"

definition ex_score :: "domain_code \<Rightarrow> f64 \<Rightarrow> domain_score" where
  "ex_score d v = \<lparr>ds_asset = AssetBTC, ds_domain = d, ds_value_date = ex_day, ds_score = v, ds_components = Map.empty,
     ds_features_used = [], ds_model_version = ''m'', ds_config_version = ''c'', ds_code_sha = ''dev'',
     ds_sources = Map.empty, ds_quality = Map.empty\<rparr>"

definition ex_state :: "f64 \<Rightarrow> regime_state" where
  "ex_state i = \<lparr>rs_asset = AssetBTC, rs_value_date = ex_day, rs_indicator = i, rs_indicator_raw = i, rs_risk_on = fzero, rs_risk_off = fzero,
     rs_transition = fone, rs_model_version = ''m'', rs_config_version = ''c'', rs_code_sha = ''dev'', rs_contributions = Map.empty,
     rs_top_drivers = [], rs_weights = Map.empty, rs_coverage = Map.empty, rs_flags = []\<rparr>"

lemma ex_scores: "merge_global (q_scores a vd (w_scores (start_world [])) c) (q_scores b vd (w_scores (start_world [])) c) = Map.empty"
  by (auto simp: q_scores_def start_world_def latest_map_def merge_global_def)

lemma ex_state_valid: "RegimeState_Validate (ex_state fzero) = None"
  by (simp add: RegimeState_Validate_def ex_state_def Asset_Validate_def ex_day_def day_ns_def zero_time_def f64_eval)

lemma ex_Save: "\<exists>w'. RegimeRepo_Save (ex_state fzero) (start_world []) = (Inr (), w')"
  unfolding RegimeRepo_Save_def ex_state_valid storage_id option.case
  by (simp add: InTx_def begin_tx_def wrapE_def db_op_def start_world_def
      InsertRegimeState_def db_write_def bindE_def insert_pk_def ex_state_def json_floats_def json_drivers_def)

lemma ex_sparse:
  "\<exists>e w'. computeOne ideal_libm listed_order (pg_regime_service empty_config []) AssetBTC ex_day 900 (start_world []) = (Inl e, w')"
  using pg_sparse_day[OF _ _ ex_scores[symmetric], where cfg = empty_config and M = ideal_libm and ord = listed_order
      and assets = "[]" and a = AssetBTC and vd = ex_day and c = 900]
  by (simp add: empty_config_def Config_Defaults_def or_default_def fault_free_def start_world_def) blast

section \<open>A run that succeeds\<close>

text \<open>A day on which every domain scores zero, on an empty history.\<close>

definition zero_day :: world where
  "zero_day = start_world (map (\<lambda>d. (ex_score d fzero)\<lparr>ds_asset := queryAssetFor AssetBTC d\<rparr>) AllDomains)\<lparr>w_clock := (\<lambda>_. 1000)\<rparr>"

lemma zero_day_scores:
  assumes "500 \<le> c"
  shows "merge_global (q_scores AssetBTC ex_day (w_scores zero_day) c) (q_scores AssetGlobal ex_day (w_scores zero_day) c) =
    (\<lambda>d. if d \<in> set AllDomains then Some fzero else None)"
  using assms
  by (auto simp: zero_day_def start_world_def merge_global_def q_scores_def latest_map_def AllDomains_def queryAssetFor_def
      ex_score_def asset_defs domain_defs intro!: ext)

lemma zero_day_history:
  "0 \<le> n \<Longrightarrow> d \<in> set AllDomains \<Longrightarrow> q_score_history (queryAssetFor AssetBTC d) d n 1000 (w_scores zero_day) = [fzero]"
  by (auto simp: zero_day_def start_world_def AllDomains_def queryAssetFor_def ex_score_def asset_defs domain_defs
      q_score_history_def latest_by_def keys_of_def UTCDay_def day_of_def add_days_def ex_day_def day_ns_def)

lemma zero_day_past: "d \<noteq> 0 \<Longrightarrow> q_score (queryAssetFor AssetBTC dm) dm (add_days ex_day d) (w_scores zero_day) c = None"
  by (auto simp: q_score_def zero_day_def start_world_def AllDomains_def ex_score_def add_days_def ex_day_def day_ns_def)

abbreviation "example_service \<equiv> pg_regime_service empty_config [AssetBTC] :: world regime_service"

lemma zero_cfg: "sv_cfg example_service = Config_Defaults empty_config"
  "rc_min_coverage (Config_Defaults empty_config) = lit (6 / 10)" "rc_roc_window (Config_Defaults empty_config) = 14"
  "rc_span (Config_Defaults empty_config) = 21" "cfg_weights (Config_Defaults empty_config) = default_weights"
  "rc_norm_lookback (Config_Defaults empty_config) = 365" "rc_norm_min_samples (Config_Defaults empty_config) = 60"
  by (simp_all add: Config_Defaults_def empty_config_def or_default_def or_default_int_def cfg_weights_def)

abbreviation "zeros \<equiv> (\<lambda>d. if d \<in> set AllDomains then Some fzero else None)"

lemma zero_day_ff: "fault_free (frozen zero_day)"
  unfolding frozen_sel by (simp add: fault_free_def zero_day_def start_world_def)

lemma zero_risk_inputs:
  "answers (frozen zero_day) (gatherTransitionRiskInputs example_service AssetBTC ex_day c zeros zeros (presentSet zeros))
    \<lparr>ti_normalized = zeros, ti_roc = [], ti_hist_rocs = [], ti_hist_divs = [], ti_same_direction = False, ti_checked = False\<rparr>"
proof -
  note past = answers_GetByDate_none[OF zero_day_ff, of AssetBTC, unfolded frozen_sel, OF zero_day_past]
  have p: "mget False (presentSet zeros) d = (d \<in> set AllDomains)" for d
    using presentSet_mget[of zeros d] by (auto simp: dom_def)
  have rd: "sr_GetByDate (sv_reader example_service) = ScoreReader_GetByDate"
    "rr_GetIndicatorRawSeries (sv_repo example_service) = RegimeRepo_GetIndicatorRawSeries" by (simp_all add: pg_ports)
  have r: "answers (frozen zero_day) (roc_per_domain example_service AssetBTC ex_day c zeros (presentSet zeros)) []"
    unfolding roc_per_domain_def Let_def zero_cfg rd p
    by (rule answers_foldE_const, simp only: not_True_eq_False if_False,
        rule answers_bindE[OF answers_wrapE[OF past]]) (simp_all add: answers_ret)
  have m1: "answers (frozen zero_day) (momentum example_service AssetBTC (add_days ex_day (- 3)) c zeros (presentSet zeros) False (d # ds)) (False, False)"
    if d: "d \<in> set AllDomains" for d ds
    unfolding momentum.simps(2) rd p eqTrueI[OF d] not_True_eq_False if_False
    by (rule answers_bindE[OF answers_wrapE[OF past]]) (simp_all add: answers_ret)
  have m: "answers (frozen zero_day) (momentum example_service AssetBTC (add_days ex_day (- 3)) c zeros (presentSet zeros) False AllDomains) (False, False)"
    using m1[of "hd AllDomains" "tl AllDomains"] by (simp add: AllDomains_def del: momentum.simps)
  have h: "map (\<lambda>s. \<lparr>ip_value_date = rs_value_date s, ip_indicator = rs_indicator_raw s\<rparr>)
      (q_regime_history a d1 d2 (w_regimes (frozen zero_day))) = []" for a d1 d2
    by (simp add: zero_day_def start_world_def q_regime_history_def latest_by_def keys_of_def)
  have hr: "computeHistoricalRocDiv [] ex_day 14 90 = ([], [])"
    by (simp add: computeHistoricalRocDiv_def roc_at_def div_at_def indByDate_def List.map_filter_def)
  show ?thesis
    unfolding gatherTransitionRiskInputs_def zero_cfg rd
    by (rule answers_bindE[OF r], rule answers_bindE[OF answers_wrapE[OF answers_GetIndicatorRawSeries[OF zero_day_ff, unfolded h]]],
        unfold hr Let_def prod.case, rule answers_bindE[OF m]) (simp add: answers_ret)
qed

lemma zero_present: "mget False (presentSet zeros) d = (d \<in> set AllDomains)"
  using presentSet_mget[of zeros d] by (auto simp: dom_def)

lemma zero_eff:
  fixes eff defines "eff \<equiv> redistributeWeights (listed (dom default_weights)) default_weights (presentSet zeros)"
  shows "dom eff = set AllDomains" "\<And>d w. eff d = Some w \<Longrightarrow> fin_in 0 1 w"
proof -
  have l: "listed (dom default_weights) = AllDomains" by (simp add: listed_def default_weights_dom)
  have s: "\<not> feq (weight_sum (present_keys AllDomains (presentSet zeros)) default_weights) fzero"
    unfolding present_keys_def zero_present
    by (simp add: weight_sum_def AllDomains_def default_weights_def domain_defs mget_def f64_eval)
  show "dom eff = set AllDomains" unfolding eff_def l redistributeWeights_dom zero_present
    using s by (simp add: default_weights_dom)
  show "\<And>d w. eff d = Some w \<Longrightarrow> fin_in 0 1 w"
proof -
    fix d w assume w: "eff d = Some w"
    have cfg: "regime_cfg_ok (Config_Defaults empty_config)" by (rule Defaults_ok) (simp_all add: empty_config_def)
    have "lists_keys listed" by (auto simp: lists_keys_def listed_def)
    from effective_unit(1)[OF cfg this, unfolded zero_cfg, of "presentSet zeros" d] show "fin_in 0 1 w"
      using w by (simp add: eff_def)
  qed
qed

lemma mul_zero: "fin_in 0 1 w \<Longrightarrow> fmul w fzero \<in> {fzero, NZero}"
  by (cases w) (auto simp: zero_of_def f64_eval fin_in_def)

lemma sum_zeros: "(\<And>d. d \<in> set ks \<Longrightarrow> g d \<in> {fzero, NZero}) \<Longrightarrow> foldl (\<lambda>s d. fadd s (g d)) fzero ks = fzero"
proof (induction ks)
  case (Cons d ks)
  have "g d \<in> {fzero, NZero}" by (rule Cons.prems) simp
  then have "fadd fzero (g d) = fzero" by (auto simp: f64_eval)
  with Cons show ?case by simp
qed simp

lemma zero_sums:
  fixes eff defines "eff \<equiv> redistributeWeights (listed (dom default_weights)) default_weights (presentSet zeros)"
  shows "\<exists>cn. weightedSumNormalized ks zeros eff = (cn, fzero, fzero) \<and> dom cn = dom eff \<and> (\<forall>v\<in>ran cn. v \<in> {fzero, NZero})"
    and "weightedSumRaw ks zeros eff = fzero"
proof -
  have m: "fmul w fzero \<in> {fzero, NZero}" if "eff d = Some w" for d w
    using zero_eff(2)[of d w] that unfolding eff_def by (rule_tac mul_zero) 
  have g: "mget fzero zeros d = fzero" for d by (simp add: mget_def)
  let ?c = "\<lambda>d. map_option (\<lambda>w. fmul w (mget fzero zeros d)) (eff d)"
  have s: "mget fzero ?c d \<in> {fzero, NZero}" for d unfolding g using m[of d] by (cases "eff d") simp_all
  have r: "v \<in> {fzero, NZero}" if "v \<in> ran ?c" for v using that m unfolding g by (auto simp: ran_def)
  have cl: "clip fzero (lit (- 2)) (lit 2) = fzero" by (simp add: clip_def f64_eval)
  have "weightedSumNormalized ks zeros eff = (?c, fzero, fzero)"
    unfolding weightedSumNormalized_def Let_def sum_zeros[OF s] cl ..
  moreover have "dom ?c = dom eff" by auto
  ultimately show "\<exists>cn. weightedSumNormalized ks zeros eff = (cn, fzero, fzero) \<and> dom cn = dom eff \<and> (\<forall>v\<in>ran cn. v \<in> {fzero, NZero})"
    using r by blast
  have "fmul (mget fzero eff d) fzero \<in> {fzero, NZero}" for d
    using m[of d] by (cases "eff d") (simp_all add: f64_eval)
  then show "weightedSumRaw ks zeros eff = fzero"
    unfolding weightedSumRaw_def g by (rule_tac sum_zeros)
qed

lemma zero_risk:
  "computeTransitionRisk ideal_libm \<lparr>ti_normalized = zeros, ti_roc = [], ti_hist_rocs = [], ti_hist_divs = [],
     ti_same_direction = False, ti_checked = False\<rparr> (Config_Defaults empty_config) = fzero"
proof -
  have n: "norm_vals zeros = [fzero, fzero, fzero, fzero, fzero]"
    by (simp add: norm_vals_def AllDomains_def)
  have d: "stddev [fzero, fzero, fzero, fzero, fzero] = fzero"
    by (simp add: stddev_def mean_def fsum_def flen_def sum_sq_dev_def fsqrt_def f64_eval)
  have t: "m_tanh ideal_libm fzero = fzero" by (simp add: ideal_libm_def ideal_tanh_def)
  have z: "fdiv (fabs fzero) (lit 2) = fzero" "fmul fzero (lit 10) = fzero" by (simp_all add: f64_eval)
  have c: "rc_roc_weight (Config_Defaults empty_config) = lit (7 / 10)" "rc_div_weight (Config_Defaults empty_config) = lit (3 / 10)"
    "rc_baseline (Config_Defaults empty_config) = lit (30 / 100)"
    by (simp_all add: Config_Defaults_def empty_config_def or_default_def)
  have h: "hist_z [] fzero fzero = fzero" by (simp add: hist_z_def)
  have r: "fadd (fmul (lit (7 / 10)) fzero) (fmul (lit (3 / 10)) fzero) = fzero" by (simp add: f64_eval)
  have b: "\<not> flt (lit (30 / 100)) fzero" "\<not> fle fone (lit (30 / 100))" "flt fzero (lit (30 / 100))" by (simp_all add: f64_eval)
  have s: "clip (fdiv (fsub fzero (lit (30 / 100))) (fsub fone (lit (30 / 100)))) fzero fone = fzero"
    by (simp add: clip_def f64_eval)
  have e: "clip (fmul (lit 1) fzero) fzero fone = fzero" by (simp add: clip_def f64_eval)
  have l: "2 \<le> length [fzero, fzero, fzero, fzero, fzero]" by simp
  show ?thesis
    unfolding computeTransitionRisk_def transition_inputs.simps n Let_def c
    by (simp only: d h z t r b s e l if_True if_False simp_thms not_False_eq_True)
qed

lemma half_half:
  "finalProbabilities ideal_libm fzero fzero (rc_sigmoid_k (Config_Defaults empty_config)) = (lit (1 / 2), lit (1 / 2))"
proof -
  have e: "m_exp ideal_libm NZero = fone" "fneg fzero = NZero"
    by (simp_all add: ideal_libm_def ideal_exp_def rf_def f64_eval zero_of_def del: One_nat_def)
  show ?thesis
    by (simp add: finalProbabilities_def sigmoid_def Config_Defaults_def or_default_def empty_config_def e f64_eval)
qed

lemma half_valid:
  assumes "rs_asset st = AssetBTC" "rs_value_date st = ex_day" "rs_indicator st = fzero"
    "rs_risk_on st = lit (1 / 2)" "rs_risk_off st = lit (1 / 2)" "rs_transition st = fzero" "rs_model_version st \<noteq> []"
  shows "RegimeState_Validate st = None"
  using assms by (simp add: RegimeState_Validate_def Asset_Validate_def ex_day_def day_ns_def zero_time_def f64_eval)

lemma drivers_json:
  assumes "\<And>d. d \<in> set ks \<Longrightarrow> mget fzero c d \<in> {fzero, NZero}"
  shows "json_drivers (buildTopDrivers ks c)"
proof -
  have a: "fabs (mget fzero c d) = fzero" if "d \<in> set ks" for d using assms[OF that] by (auto simp: f64_eval)
  have s: "foldl (\<lambda>s (d, c, a). fadd s a) fzero (map (\<lambda>d. (d, mget fzero c d, fabs (mget fzero c d))) ks) = fzero"
  proof -
    have "foldl (\<lambda>s (d, c, a). fadd s a) x (map (\<lambda>d. (d, mget fzero c d, fabs (mget fzero c d))) ds) = foldl (\<lambda>s d. fadd s (fabs (mget fzero c d))) x ds" for x ds
      by (induction ds arbitrary: x) auto
    then show ?thesis using sum_zeros[of ks "\<lambda>d. fabs (mget fzero c d)"] a by simp
  qed
  show ?thesis
    using assms unfolding json_drivers_def buildTopDrivers_def Let_def s by fastforce
qed

lemma zero_inputs:
  assumes "500 \<le> c"
  shows "\<exists>eff cn. answers (frozen zero_day) (compute_inputs ideal_libm listed_order example_service AssetBTC ex_day c)
      (eff, presentSet zeros, fzero, cn, fzero, fzero) \<and> (\<forall>v\<in>ran cn. v \<in> {fzero, NZero}) \<and> dom cn = set AllDomains \<and> json_floats eff"
proof -
  let ?eff = "redistributeWeights (listed (dom default_weights)) default_weights (presentSet zeros)"
  obtain cn where cn: "weightedSumNormalized (listed (dom ?eff)) zeros ?eff = (cn, fzero, fzero)" "dom cn = set AllDomains"
    "\<forall>v\<in>ran cn. v \<in> {fzero, NZero}" using zero_sums(1)[of "listed (dom ?eff)"] zero_eff(1) by auto
  have rd: "sr_GetLatestAll (sv_reader example_service) = ScoreReader_GetLatestAll"
    "sr_GetHistory (sv_reader example_service) = ScoreReader_GetHistory"
    "rr_GetSmoothingTrailing (sv_repo example_service) = RegimeRepo_GetSmoothingTrailing" by (simp_all add: pg_ports)
  have cov: "\<not> flt (coverageFraction zeros) (rc_min_coverage (Config_Defaults empty_config))"
  proof -
    have d: "dom zeros = set AllDomains" by (auto simp: dom_def)
    have "card (set AllDomains) = 5" using distinct_card[OF AllDomains_distinct] by simp
    then show ?thesis using coverageFraction_threshold[of zeros] d by (simp add: zero_cfg)
  qed
  have latest: "answers (frozen zero_day) (ScoreReader_GetLatestAll AssetBTC ex_day c) zeros"
    using answers_GetLatestAll[OF zero_day_ff, of AssetBTC ex_day c] zero_day_scores[OF assms] by simp
  have hist: "answers (frozen zero_day) (ScoreReader_GetHistory AssetBTC d 365) [fzero]" if "d \<in> set AllDomains" for d
    by (rule answers_GetHistory[OF zero_day_ff]) (use zero_day_history[OF _ that, of 365] in \<open>simp add: zero_day_def\<close>)
  define step where "step hs d = bindE (wrapE ''domain history'' [AStr d] (ScoreReader_GetHistory AssetBTC d 365))
    (\<lambda>h. ret (hs(d \<mapsto> h)) :: (world, domain_code \<rightharpoonup> f64 list) io)" for hs d
  have one: "answers (frozen zero_day) (step hs d) (hs(d \<mapsto> [fzero]))" if "d \<in> set AllDomains" for hs d
    unfolding step_def by (rule answers_bindE[OF answers_wrapE[OF hist[OF that]] answers_ret])
  have loop: "\<exists>hs. answers (frozen zero_day) (foldE step hs0 ds) hs \<and> (\<forall>d. length (mget [] hs d) \<le> 1)"
    if "set ds \<subseteq> set AllDomains" "\<forall>d. length (mget [] hs0 d) \<le> 1" for ds hs0
    using that
  proof (induction ds arbitrary: hs0)
    case Nil
    show ?case by (rule exI[of _ hs0], rule conjI[OF answers_foldE_Nil Nil(2)])
  next
    case (Cons d ds)
    have "\<forall>e. length (mget [] (hs0(d \<mapsto> [fzero])) e) \<le> 1" using Cons.prems(2) by (simp add: mget_def)
    moreover have "set ds \<subseteq> set AllDomains" "d \<in> set AllDomains" using Cons.prems by simp_all
    ultimately show ?case using Cons.IH[of "hs0(d \<mapsto> [fzero])"] answers_foldE_Cons[where f = step, OF one[of d hs0]] by blast
  qed
  have dz: "listed (dom zeros) = AllDomains" by (simp add: listed_def dom_def)
  obtain hs where hs: "answers (frozen zero_day) (foldE step Map.empty AllDomains) hs" "\<forall>d. length (mget [] hs d) \<le> 1"
    using loop[of AllDomains Map.empty] by auto
  have nrm: "normalizeScores zeros hs 60 = zeros"
  proof
    fix d have "int (length (mget [] hs d)) < 60" using hs(2)[rule_format, of d] by simp
    then show "normalizeScores zeros hs 60 d = zeros d" by (simp add: normalizeScores_def)
  qed
  have trail: "map (\<lambda>p. \<lparr>tp_value_date = sm_value_date p, tp_indicator = sm_indicator p, tp_transition = sm_transition p\<rparr>)
      (q_smoothing a d1 d2 (w_regimes (frozen zero_day)) c) = []" for a d1 d2 c
    by (simp add: zero_day_def start_world_def q_smoothing_def latest_by_def keys_of_def)
  have span: "(1::int) < 21" by simp
  have sm: "answers (frozen zero_day) (smooth example_service AssetBTC ex_day c fzero fzero) (fzero, fzero)"
    unfolding smooth_def Let_def zero_cfg rd if_P[OF span]
    by (rule answers_bindE[OF answers_wrapE[OF answers_GetSmoothingTrailing[OF zero_day_ff, unfolded trail]]])
      (rule answers_ret', simp add: emaSmooth_def clip_def)
  have "answers (frozen zero_day) (compute_inputs ideal_libm listed_order example_service AssetBTC ex_day c)
      (?eff, presentSet zeros, fzero, cn, fzero, fzero)"
    unfolding compute_inputs_def Let_def zero_cfg rd listed_order_def map_order.simps
    by (rule answers_bindE[OF answers_wrapE[OF latest]], unfold if_not_P[OF cov[unfolded zero_cfg]] dz step_def[symmetric],
        rule answers_bindE[OF hs(1)], unfold nrm cn(1) prod.case,
        rule answers_bindE[OF answers_wrapE[OF zero_risk_inputs]], unfold zero_risk,
        rule answers_bindE[OF sm]) (simp add: zero_sums(2) answers_ret)
  moreover have "json_floats ?eff" using zero_eff(2) by (auto simp: json_floats_def ran_def fin_in_def)
  ultimately show ?thesis using cn by blast
qed


lemma zero_store:
  assumes "frozen w = frozen zero_day" "\<forall>v\<in>ran cn. v \<in> {fzero, NZero}" "dom cn = set AllDomains" "json_floats eff"
  shows "\<exists>w'. store_state ideal_libm example_service (listed_order AssetBTC ex_day) AssetBTC ex_day eff (presentSet zeros)
    fzero cn fzero fzero w = (Inr (), w')"
proof -
  obtain st ev where run: "store_state ideal_libm example_service (listed_order AssetBTC ex_day) AssetBTC ex_day eff (presentSet zeros)
      fzero cn fzero fzero = seqE (wrapE ''save regime state'' [] (RegimeRepo_Save st)) (Publisher_Publish ev)"
    and st: "rs_asset st = AssetBTC" "rs_value_date st = ex_day" "rs_indicator st = fzero" "rs_risk_on st = lit (1 / 2)"
      "rs_risk_off st = lit (1 / 2)" "rs_transition st = fzero" "rs_model_version st = ''regime_v1.0.0''"
      "rs_contributions st = cn" "rs_weights st = eff" "rs_top_drivers st = buildTopDrivers AllDomains cn"
    and ev: "ev = regime_event (Config_Defaults empty_config) AssetBTC ex_day fzero (lit (1 / 2)) (lit (1 / 2)) fzero"
    by (rule that, unfold store_state_def Let_def sv_sel half_half prod.case, rule refl)
      (simp_all add: empty_config_def Config_Defaults_def listed_order_def listed_def assms(3))
  have "fault_free w" using assms(1) zero_day_ff frozen_sel(1)[of w] by simp
  moreover have "RegimeState_Validate st = None" using st by (intro half_valid) simp_all
  moreover have "json_floats (rs_contributions st)" using assms(2) st by (auto simp: json_floats_def)
  moreover have "json_drivers (rs_top_drivers st)" unfolding st
  proof (rule drivers_json)
    fix d assume "d \<in> set AllDomains"
    then obtain v where "cn d = Some v" using assms(3) by blast
    then show "mget fzero cn d \<in> {fzero, NZero}" using assms(2) by (auto simp: ran_def)
  qed
  moreover have "json_floats (rs_weights st)" using assms(4) st by simp
  moreover have "w_regimes w = []" using arg_cong[OF assms(1), of w_regimes] by (simp add: zero_day_def start_world_def)
  ultimately obtain w1 where w1: "RegimeRepo_Save st w = (Inr (), w1)" "fault_free w1" using Save_runs[of w st] by auto
  have "json_anys (ev_payload ev)" unfolding ev by (rule json_regime_event) (simp_all add: f64_eval)
  then obtain w2 where "Publisher_Publish ev w1 = (Inr (), w2)" using Publish_runs[OF w1(2)] by blast
  then show ?thesis unfolding run using w1 by (simp add: io_simps)
qed

lemma zero_day_runs:
  "\<exists>w'. RunOnce ideal_libm listed_order example_service ex_day zero_day = (Inr (), w')"
proof -
  obtain eff cn where c: "answers (frozen zero_day) (compute_inputs ideal_libm listed_order example_service AssetBTC ex_day 1000)
      (eff, presentSet zeros, fzero, cn, fzero, fzero)" "\<forall>v\<in>ran cn. v \<in> {fzero, NZero}" "dom cn = set AllDomains" "json_floats eff"
    using zero_inputs[of 1000] by auto
  let ?w = "zero_day\<lparr>w_ticks := Suc 0\<rparr>"
  have f: "frozen ?w = frozen zero_day" by simp
  obtain w1 where w1: "compute_inputs ideal_libm listed_order example_service AssetBTC ex_day 1000 ?w =
      (Inr (eff, presentSet zeros, fzero, cn, fzero, fzero), w1)" "frozen w1 = frozen zero_day" using answersD[OF c(1) f] by blast
  obtain w2 where "store_state ideal_libm example_service (listed_order AssetBTC ex_day) AssetBTC ex_day eff (presentSet zeros)
    fzero cn fzero fzero w1 = (Inr (), w2)" using zero_store[OF w1(2) c(2-4)] by blast
  then have "computeOne ideal_libm listed_order example_service AssetBTC ex_day 1000 ?w = (Inr (), w2)"
    using w1(1) by (simp add: computeOne_split bindE_def)
  moreover have "UTCDay ex_day = ex_day" by (simp add: UTCDay_def ex_day_def day_of_def day_ns_def)
  moreover have "clock_Now zero_day = (Inr 1000, ?w)" by (simp add: clock_Now_def zero_day_def start_world_def)
  ultimately show ?thesis by (simp add: RunOnce_def io_simps)
qed

end
