(* ===== verification/FeatureLib.thy ===== *)
theory FeatureLib
  imports MathStats
begin

text \<open>
  What the five domain services share: the feature and score ports, the feature calculations that
  each package's \<open>features.go\<close> repeats, the calls that look features up or save them, and
  the signals from which every \<open>computeScore\<close> builds its components.
\<close>

section \<open>Ports\<close>

record 'w feature_repo =
  fr_Save :: "feature \<Rightarrow> ('w, unit) io"
  fr_GetLatest :: "feature_key \<Rightarrow> asset \<Rightarrow> gotime \<Rightarrow> gotime \<Rightarrow> ('w, f64) io"
  fr_GetSeries :: "feature_key \<Rightarrow> asset \<Rightarrow> gotime \<Rightarrow> gotime \<Rightarrow> gotime \<Rightarrow> ('w, f64 list) io"

type_synonym 'w score_repo = "domain_score \<Rightarrow> ('w, unit) io"

definition fkey :: "string \<Rightarrow> string \<Rightarrow> feature_key" where
  "fkey n v = \<lparr>fk_name = n, fk_version = v\<rparr>"

section \<open>Feature calculations\<close>

text \<open>\<open>(value, ok)\<close> results: \<open>None\<close> is \<open>(0, false)\<close>.\<close>

definition PctChange :: "f64 \<Rightarrow> f64 \<Rightarrow> f64 option" where
  "PctChange now past =
     (if feq past fzero \<or> isNaN now \<or> isNaN past \<or> isInf now \<or> isInf past then None
      else Some (fdiv (fsub now past) past))"

definition Ratio :: "f64 \<Rightarrow> f64 \<Rightarrow> f64 option" where
  "Ratio numer denom =
     (if feq denom fzero \<or> isNaN numer \<or> isNaN denom \<or> isInf numer \<or> isInf denom then None
      else Some (fdiv numer denom))"

text \<open>Every caller passes a positive \<open>minObs\<close>, so the series is not empty when its last element is read.\<close>

definition ZScoreLatest :: "f64 list \<Rightarrow> int \<Rightarrow> f64 option" where
  "ZScoreLatest series minObs =
     (if int (length series) < minObs then None
      else let z = ZScore (last series) series in if isNaN z \<or> isInf z then None else Some z)"

definition PercentileRank :: "f64 \<Rightarrow> f64 list \<Rightarrow> f64 option" where
  "PercentileRank x xs =
     (if xs = [] then None
      else Some (fdiv (f_of_int (int (length (filter (\<lambda>v. fle v x) xs)))) (flen xs)))"

text \<open>\<open>CGOptionsOIVelocity30d\<close>, and \<open>StablecoinMcapVelocity30d\<close> of the capital flows.\<close>

definition Velocity30d :: "f64 \<Rightarrow> f64 \<Rightarrow> f64 option" where
  "Velocity30d now past =
     (if feq past fzero \<or> isNaN now \<or> isNaN past \<or> isInf now \<or> isInf past then None
      else Some (fdiv (fsub now past) (lit 30)))"

definition CoinIDForAsset :: "string \<Rightarrow> string" where
  "CoinIDForAsset a = (if a = ''BTC'' then ''bitcoin'' else if a = ''ETH'' then ''ethereum'' else [])"

lemma PctChange_not_NaN: "PctChange now past = Some v \<Longrightarrow> v \<noteq> NaN"
proof -
  assume a: "PctChange now past = Some v"
  then have f: "is_finite now" "is_finite past" "\<not> feq past fzero" "v = fdiv (fsub now past) past"
    by (auto simp: PctChange_def is_finite_iff split: if_splits)
  then show "v \<noteq> NaN"
    by (cases now; cases past) (auto simp: fsub_def zero_of_def rnd_def Let_def fneg_def split: if_splits)
qed

lemma ZScoreLatest_finite: "ZScoreLatest s n = Some z \<Longrightarrow> is_finite z \<and> n \<le> int (length s)"
  by (auto simp: ZScoreLatest_def is_finite_iff Let_def split: if_splits)

lemma PercentileRank_unit: "PercentileRank x xs = Some v \<Longrightarrow> length xs < 2 ^ 53 \<Longrightarrow> fin_in 0 1 v"
proof -
  assume a: "PercentileRank x xs = Some v" "length xs < 2 ^ 53"
  let ?k = "length (filter (\<lambda>v. fle v x) xs)"
  have k: "?k \<le> length xs" by simp
  have f: "is_finite (f_of_int (int ?k))" "qv (f_of_int (int ?k)) = of_nat ?k" 
  proof -
    have "?k < 2 ^ 53" using k a(2) by (rule order_le_less_trans)
    then have "int ?k < 2 ^ 53" unfolding of_nat_less_iff[where 'a = int, symmetric] of_nat_power of_nat_numeral .
    then have "\<bar>int ?k\<bar> < 2 ^ 53" by (simp only: abs_of_nat)
    from f_of_int_fin[OF this] show "is_finite (f_of_int (int ?k))" "qv (f_of_int (int ?k)) = of_nat ?k" by simp_all
  qed
  have "fin_in (of_nat (length xs) * 0) (of_nat (length xs) * 1) (f_of_int (int ?k))" using f k by (simp add: fin_in_def)
  then have "fin_in 0 1 (fdiv (f_of_int (int ?k)) (f_of_int (int (length xs))))"
    by (rule fdiv_nat_in) (use a in \<open>auto simp: PercentileRank_def split: if_splits\<close>)
  then show "fin_in 0 1 v" using a(1) by (auto simp: PercentileRank_def flen_def split: if_splits)
qed

section \<open>Calls on the feature port\<close>

text \<open>\<open>saveFeature\<close>: unusable values are dropped, a failing save is only logged.\<close>

definition save_feature :: "'w feature_repo \<Rightarrow> string \<Rightarrow> feature_key \<Rightarrow> asset \<Rightarrow> gotime \<Rightarrow> f64 \<Rightarrow> string \<Rightarrow> string \<Rightarrow> ('w, unit) io" where
  "save_feature fr sha k a vd v srcName srcVer =
     (if isNaN v \<or> isInf v then ret ()
      else bindE (attempt (fr_Save fr \<lparr>ft_key = k, ft_asset = a, ft_value_date = vd, ft_timeframe = ''1d'', ft_value = v,
             ft_sources = [srcName \<mapsto> srcVer], ft_code_sha = sha\<rparr>)) (\<lambda>_. ret ()))"

text \<open>\<open>if v, ok := f(); ok { ... }\<close>.\<close>

definition when_some :: "('w, 'a option) io \<Rightarrow> ('a \<Rightarrow> ('w, unit) io) \<Rightarrow> ('w, unit) io" where
  "when_some m k = bindE m (\<lambda>r. case r of None \<Rightarrow> ret () | Some v \<Rightarrow> k v)"

text \<open>\<open>if v, err := f(); err == nil { ... } else if !errors.Is(err, domain.ErrNotFound) { return err }\<close>.\<close>

definition if_found :: "('w, 'a) io \<Rightarrow> ('a \<Rightarrow> ('w, unit) io) \<Rightarrow> ('w, unit) io" where
  "if_found m k = bindE (attempt m) (\<lambda>r. case r of Inr v \<Rightarrow> k v
     | Inl e \<Rightarrow> if errors_Is e ErrNotFound then ret () else throw e)"

text \<open>The same as a value: the zero value and \<open>false\<close> when the feature is not found.\<close>

definition feature_value :: "'w feature_repo \<Rightarrow> feature_key \<Rightarrow> asset \<Rightarrow> gotime \<Rightarrow> gotime \<Rightarrow> ('w, f64 \<times> bool) io" where
  "feature_value fr k a vd cutoff = bindE (attempt (fr_GetLatest fr k a vd cutoff)) (\<lambda>r. case r of Inr v \<Rightarrow> ret (v, True)
     | Inl e \<Rightarrow> if errors_Is e ErrNotFound then ret (fzero, False) else throw e)"

text \<open>The same for a look-up of the raw port.\<close>

definition found_value :: "('w, f64) io \<Rightarrow> ('w, f64 \<times> bool) io" where
  "found_value m = bindE (attempt m) (\<lambda>r. case r of Inr v \<Rightarrow> ret (v, True)
     | Inl e \<Rightarrow> if errors_Is e ErrNotFound then ret (fzero, False) else throw e)"

text \<open>With the additional test \<open>!math.IsNaN(v)\<close>.\<close>

definition feature_number :: "'w feature_repo \<Rightarrow> feature_key \<Rightarrow> asset \<Rightarrow> gotime \<Rightarrow> gotime \<Rightarrow> ('w, f64 \<times> bool) io" where
  "feature_number fr k a vd cutoff = bindE (attempt (fr_GetLatest fr k a vd cutoff)) (\<lambda>r. case r of
       Inr v \<Rightarrow> if isNaN v then ret (fzero, False) else ret (v, True)
     | Inl e \<Rightarrow> if errors_Is e ErrNotFound then ret (fzero, False) else throw e)"

definition try_zscore :: "'w feature_repo \<Rightarrow> feature_key \<Rightarrow> asset \<Rightarrow> gotime \<Rightarrow> gotime \<Rightarrow> int \<Rightarrow> int \<Rightarrow> ('w, f64 option) io" where
  "try_zscore fr k a vd cutoff window minObs =
     bindE (attempt (fr_GetSeries fr k a (add_days vd (- (window - 1))) vd cutoff)) (\<lambda>r. case r of
       Inl e \<Rightarrow> ret None | Inr series \<Rightarrow> ret (ZScoreLatest series minObs))"

text \<open>\<open>if z, ok := s.tryComputeZScore(...); ok { s.saveFeature(...) }\<close>.\<close>

definition zscore_step :: "'w feature_repo \<Rightarrow> string \<Rightarrow> feature_key \<Rightarrow> feature_key \<Rightarrow> asset \<Rightarrow> gotime \<Rightarrow> gotime \<Rightarrow> int \<Rightarrow> int \<Rightarrow>
    string \<Rightarrow> string \<Rightarrow> ('w, unit) io" where
  "zscore_step fr sha src zkey a vd cutoff window minObs srcName srcVer =
     when_some (try_zscore fr src a vd cutoff window minObs) (\<lambda>z. save_feature fr sha zkey a vd z srcName srcVer)"

text \<open>\<open>if v, ok, err := f(); err == nil && ok { ... }\<close>: errors count as missing.\<close>

definition if_ok :: "('w, 'a option) io \<Rightarrow> ('a \<Rightarrow> ('w, unit) io) \<Rightarrow> ('w, unit) io" where
  "if_ok m k = bindE (attempt m) (\<lambda>r. case r of Inr (Some v) \<Rightarrow> k v | _ \<Rightarrow> ret ())"

text \<open>\<open>if err != nil { slog.Warn(...); continue }\<close>: a failure is logged and the rest skipped.\<close>

definition or_skip :: "('w, 'a) io \<Rightarrow> ('a \<Rightarrow> ('w, unit) io) \<Rightarrow> ('w, unit) io" where
  "or_skip m k = bindE (attempt m) (\<lambda>r. case r of Inl e \<Rightarrow> ret () | Inr x \<Rightarrow> k x)"

text \<open>Rows that are not empty are saved and announced.\<close>

definition save_rows :: "'r list \<Rightarrow> ('w, unit) io \<Rightarrow> ('w, unit) io \<Rightarrow> ('w, unit) io" where
  "save_rows rows save publish = (if rows = [] then ret () else seqE save publish)"

definition rows_event :: "string \<Rightarrow> string \<Rightarrow> asset \<Rightarrow> (string \<times> anyval) list \<Rightarrow> 'r list \<Rightarrow> event" where
  "rows_event topic aggregate a extra rows = \<lparr>ev_topic = topic, ev_aggregate = aggregate,
     ev_payload = map_of ([(''rows'', AInt (int (length rows))), (''asset'', AStr a)] @ extra)\<rparr>"

section \<open>Signals\<close>

text \<open>A component is the squashed feature when it is available and a number.\<close>

definition opt_signal :: "libm \<Rightarrow> f64 \<Rightarrow> bool \<Rightarrow> f64 \<Rightarrow> f64 option" where
  "opt_signal M scale ok z = (if ok \<and> \<not> isNaN z then Some (TanhSquash M z scale) else None)"

definition signal :: "libm \<Rightarrow> f64 \<Rightarrow> bool \<Rightarrow> f64 \<Rightarrow> f64" where
  "signal M scale ok z = (case opt_signal M scale ok z of None \<Rightarrow> fzero | Some s \<Rightarrow> s)"

definition neg_signal :: "libm \<Rightarrow> f64 \<Rightarrow> bool \<Rightarrow> f64 \<Rightarrow> f64" where
  "neg_signal M scale ok z = (case opt_signal M scale ok z of None \<Rightarrow> fzero | Some s \<Rightarrow> fneg s)"

text \<open>\<open>c += s; n++\<close> for every available signal, then \<open>c /= n\<close> when there was one.\<close>

definition avg_signals :: "f64 option list \<Rightarrow> f64 \<times> f64" where
  "avg_signals cs =
     (let (c, n) = foldl (\<lambda>(c, n) s. case s of None \<Rightarrow> (c, n) | Some x \<Rightarrow> (fadd c x, fadd n fone)) (fzero, fzero) cs
      in (if flt fzero n then fdiv c n else c, n))"

definition clamp1 :: "f64 \<Rightarrow> f64" where
  "clamp1 x = (if flt fone x then fone else if flt x (fneg fone) then fneg fone else x)"

lemma clamp1_in: "x \<noteq> NaN \<Longrightarrow> fin_in (- 1) 1 (clamp1 x)"
  by (cases x) (auto simp: clamp1_def fneg_def fin_in_def)

lemma clamp1_f64: "is_f64 x \<Longrightarrow> is_f64 (clamp1 x)"
  unfolding clamp1_def using is_f64_small_int(2) is_f64_neg[OF is_f64_small_int(2)] by simp

text \<open>The scale of the squashing: finite and not zero.\<close>

definition scale_ok :: "f64 \<Rightarrow> bool" where
  "scale_ok s \<longleftrightarrow> is_finite s \<and> qv s \<noteq> 0"

lemma scaled_not_NaN: "scale_ok s \<Longrightarrow> z \<noteq> NaN \<Longrightarrow> fdiv z s \<noteq> NaN"
  by (cases z; cases s) (auto simp: scale_ok_def zero_of_def rnd_def Let_def)

context go_libm
begin

lemma squash_in: "scale_ok s \<Longrightarrow> z \<noteq> NaN \<Longrightarrow> fin_in (- 1) 1 (TanhSquash M z s)"
  using tanh_range[OF scaled_not_NaN] by (simp add: TanhSquash_def isNaN_def)

lemma opt_signal_in: "scale_ok s \<Longrightarrow> opt_signal M s ok z = Some x \<Longrightarrow> fin_in (- 1) 1 x"
  by (auto simp: opt_signal_def isNaN_def squash_in split: if_splits)

lemma signal_in: "scale_ok s \<Longrightarrow> fin_in (- 1) 1 (signal M s ok z)"
  using opt_signal_in by (auto simp: signal_def split: option.splits)

lemma neg_signal_in: "scale_ok s \<Longrightarrow> fin_in (- 1) 1 (neg_signal M s ok z)"
  using opt_signal_in fneg_in[of "- 1" 1] by (fastforce simp: neg_signal_def split: option.splits)

end

lemma fin_in_neg1: "fin_in (- 1) 1 x \<Longrightarrow> fin_in (- 1) 1 (fneg x)"
  using fneg_in[of "- 1" 1 x] by simp

lemma avg_signals_in:
  assumes "\<And>s x. s \<in> set cs \<Longrightarrow> s = Some x \<Longrightarrow> fin_in (- 1) 1 x" "length cs < 2 ^ 53"
  shows "fin_in (- 1) 1 (fst (avg_signals cs)) \<and> is_finite (snd (avg_signals cs))"
proof -
  let ?f = "\<lambda>(c, n) s. case s of None \<Rightarrow> (c, n) | Some x \<Rightarrow> (fadd c x, fadd n fone)"
  let ?xs = "List.map_filter id cs"
  have one: "fadd (f_of_int (int n)) fone = f_of_int (int (Suc n))" if "Suc n < 2 ^ 53" for n
  proof -
    have i: "\<bar>int n\<bar> < 2 ^ 53" "\<bar>int (Suc n)\<bar> < 2 ^ 53" using that by auto
    have o: "(1::int) < 2 ^ 53" by simp
    have "fadd (f_of_int (int n)) fone = rnd (of_int (int n) + (1::rat))"
      using f_of_int_fin[OF i(1)] by (cases "f_of_int (int n)") (auto simp: rnd_def)
    then show ?thesis by (simp add: f_of_int_def add.commute)
  qed
  have run: "foldl ?f (fzero, fzero) ds = (fsum (List.map_filter id ds), f_of_int (int (length (List.map_filter id ds))))"
    if "length ds < 2 ^ 53" for ds
    using that
  proof (induction ds rule: rev_induct)
    case Nil
    then show ?case by (simp add: fsum_def f_of_int_def rnd_def zero_of_def Let_def overflow_def)
  next
    case (snoc d ds)
    have "length (List.map_filter id ds) \<le> length ds" using map_filter_bounds(1) by blast
    then have "Suc (length (List.map_filter id ds)) < 2 ^ 53" if "d \<noteq> None" using snoc.prems by simp
    then show ?case using snoc one[of "length (List.map_filter id ds)"]
      by (cases d) (simp_all add: fsum_def List.map_filter_def)
  qed
  have l: "length ?xs < 2 ^ 53" using map_filter_bounds(1)[of id cs] assms(2) by simp
  have x: "fin_in (- 1) 1 x" if "x \<in> set ?xs" for x using that assms(1) by (auto simp: map_filter_bounds)
  have d: "dyadic (- 1)" "dyadic 1" by simp_all
  have n: "is_finite (f_of_int (int (length ?xs)))" "qv (f_of_int (int (length ?xs))) = of_nat (length ?xs)"
    using f_of_int_fin[of "int (length ?xs)"] l by auto
  show ?thesis
  proof (cases "?xs = []")
    case True
    have z: "f_of_int (int (length ([]::f64 list))) = fzero" by (simp add: f_of_int_def rnd_def zero_of_def not_le)
    show ?thesis unfolding avg_signals_def run[OF assms(2)] True z by (simp add: fsum_def)
  next
    case False
    have "fin_in (- 1) 1 (fdiv (fsum ?xs) (flen ?xs))" by (rule mean_in[OF False l x d])
    moreover have "flt fzero (f_of_int (int (length ?xs)))" using n False by (cases "f_of_int (int (length ?xs))") auto
    ultimately show ?thesis using run[OF assms(2)] n by (simp add: avg_signals_def flen_def)
  qed
qed

section \<open>Configuration defaults, events and the saved score\<close>

text \<open>\<open>if c.X == 0 { c.X = d }\<close>.\<close>

definition if_zero :: "f64 \<Rightarrow> rat \<Rightarrow> f64" where
  "if_zero x d = (if feq x fzero then lit d else x)"

definition ingest_event :: "string \<Rightarrow> string \<Rightarrow> (string \<times> anyval) list \<Rightarrow> int \<Rightarrow> event" where
  "ingest_event topic aggregate extra n =
     \<lparr>ev_topic = topic, ev_aggregate = aggregate, ev_payload = map_of ((''rows_touched'', AInt n) # extra)\<rparr>"

definition score_event :: "string \<Rightarrow> string \<Rightarrow> string \<Rightarrow> asset \<Rightarrow> gotime \<Rightarrow> f64 \<Rightarrow> event" where
  "score_event topic model config a vd score =
     \<lparr>ev_topic = topic, ev_aggregate = a @ '':'' @ fmt_day vd,
      ev_payload = map_of [(''asset'', AStr a), (''value_date'', AStr (fmt_day vd)), (''score'', AFloat score),
        (''model_version'', AStr model), (''config_version'', AStr config)]\<rparr>"

text \<open>The end of every \<open>computeAssetDay\<close>: the score is saved, then its event published.\<close>

definition store_score :: "'w score_repo \<Rightarrow> (event \<Rightarrow> ('w, unit) io) \<Rightarrow> (f64 \<Rightarrow> event) \<Rightarrow> domain_score \<Rightarrow> ('w, unit) io" where
  "store_score save publish ev score = seqE (wrapE ''save score'' [] (save score)) (publish (ev (ds_score score)))"

section \<open>Weighted sums\<close>

lemma fadd_nat:
  assumes "fin_in (- of_nat m) (of_nat m) x" "fin_in (- of_nat n) (of_nat n) y" "m + n < 2 ^ 53"
  shows "fin_in (- of_nat (m + n)) (of_nat (m + n)) (fadd x y)"
proof -
  have d: "rq (of_nat (m + n) * (1::rat)) = of_nat (m + n) * 1" "\<bar>of_nat (m + n) * (1::rat)\<bar> \<le> 2 powi 1023"
    using dyadic_times[OF dyadic_1 assms(3)] by simp_all
  have e: "- of_nat m + - of_nat n = - (of_nat (m + n) :: rat)" "of_nat m + of_nat n = (of_nat (m + n) :: rat)" by simp_all
  show ?thesis
    using fadd_in[OF assms(1,2)] d unfolding e rq_minus mult_1_right abs_minus_cancel by metis
qed

lemma weighted: "fin_in 0 1 w \<Longrightarrow> fin_in (- 1) 1 c \<Longrightarrow> fin_in (- of_nat 1) (of_nat 1) (fmul w c)"
  using fmul_unit_in[of w 1 c] dyadic_rq[OF dyadic_1] by simp

text \<open>The clamped sum of three, four or five weighted components.\<close>

lemma clamp1_weighted:
  assumes "fin_in 0 1 w1" "fin_in (- 1) 1 c1" "fin_in 0 1 w2" "fin_in (- 1) 1 c2" "fin_in 0 1 w3" "fin_in (- 1) 1 c3"
  shows "fin_in (- 1) 1 (clamp1 (fadd (fadd (fmul w1 c1) (fmul w2 c2)) (fmul w3 c3)))"
    and "fin_in 0 1 w4 \<Longrightarrow> fin_in (- 1) 1 c4 \<Longrightarrow>
      fin_in (- 1) 1 (clamp1 (fadd (fadd (fadd (fmul w1 c1) (fmul w2 c2)) (fmul w3 c3)) (fmul w4 c4)))"
    and "fin_in 0 1 w4 \<Longrightarrow> fin_in (- 1) 1 c4 \<Longrightarrow> fin_in 0 1 w5 \<Longrightarrow> fin_in (- 1) 1 c5 \<Longrightarrow>
      fin_in (- 1) 1 (clamp1 (fadd (fadd (fadd (fadd (fmul w1 c1) (fmul w2 c2)) (fmul w3 c3)) (fmul w4 c4)) (fmul w5 c5)))"
proof -
  note s3 = fadd_nat[OF fadd_nat[OF weighted[OF assms(1,2)] weighted[OF assms(3,4)]] weighted[OF assms(5,6)]]
  have b: "(1::nat) + 1 < 2 ^ 53" "(1::nat) + 1 + 1 < 2 ^ 53" "(1::nat) + 1 + 1 + 1 < 2 ^ 53" "(1::nat) + 1 + 1 + 1 + 1 < 2 ^ 53" by simp_all
  show "fin_in (- 1) 1 (clamp1 (fadd (fadd (fmul w1 c1) (fmul w2 c2)) (fmul w3 c3)))"
    by (rule clamp1_in[OF fin_in_not_NaN[OF s3[OF b(1,2)]]])
  show "fin_in (- 1) 1 (clamp1 (fadd (fadd (fadd (fmul w1 c1) (fmul w2 c2)) (fmul w3 c3)) (fmul w4 c4)))"
    if "fin_in 0 1 w4" "fin_in (- 1) 1 c4"
    by (rule clamp1_in[OF fin_in_not_NaN[OF fadd_nat[OF s3[OF b(1,2)] weighted[OF that] b(3)]]])
  show "fin_in (- 1) 1 (clamp1 (fadd (fadd (fadd (fadd (fmul w1 c1) (fmul w2 c2)) (fmul w3 c3)) (fmul w4 c4)) (fmul w5 c5)))"
    if "fin_in 0 1 w4" "fin_in (- 1) 1 c4" "fin_in 0 1 w5" "fin_in (- 1) 1 c5"
    by (rule clamp1_in[OF fin_in_not_NaN[OF fadd_nat[OF fadd_nat[OF s3[OF b(1,2)] weighted[OF that(1,2)] b(3)] weighted[OF that(3,4)] b(4)]]])
qed

lemma clamp1_weighted6:
  assumes "fin_in 0 1 w1" "fin_in (- 1) 1 c1" "fin_in 0 1 w2" "fin_in (- 1) 1 c2" "fin_in 0 1 w3" "fin_in (- 1) 1 c3"
    "fin_in 0 1 w4" "fin_in (- 1) 1 c4" "fin_in 0 1 w5" "fin_in (- 1) 1 c5" "fin_in 0 1 w6" "fin_in (- 1) 1 c6"
  shows "fin_in (- 1) 1 (clamp1 (fadd (fadd (fadd (fadd (fadd (fmul w1 c1) (fmul w2 c2)) (fmul w3 c3)) (fmul w4 c4)) (fmul w5 c5)) (fmul w6 c6)))"
  by (rule clamp1_in[OF fin_in_not_NaN], rule fadd_nat[where m = "1 + 1 + 1 + 1 + 1" and n = 1],
      rule fadd_nat[where m = "1 + 1 + 1 + 1" and n = 1], rule fadd_nat[where m = "1 + 1 + 1" and n = 1],
      rule fadd_nat[where m = "1 + 1" and n = 1], rule fadd_nat[where m = 1 and n = 1])
    (use assms in \<open>simp_all add: weighted[simplified]\<close>)

lemma fin_in_fzero [simp]: "fin_in (- 1) 1 fzero"
  by simp

lemma if_zero_idem: "if_zero (if_zero x d) d = if_zero x d"
  by (auto simp: if_zero_def)

lemma centred_not_NaN: "\<not> isNaN x \<Longrightarrow> fmul (fsub x (lit (1 / 2))) (lit 4) \<noteq> NaN"
proof -
  have l: "lit (1 / 2) = Fin (1 / 2)" "lit 4 = Fin 4" by (simp_all add: f64_eval)
  show "\<not> isNaN x \<Longrightarrow> fmul (fsub x (lit (1 / 2))) (lit 4) \<noteq> NaN"
    unfolding l by (cases x) (auto simp: fsub_def fneg_def rnd_def zero_of_def Let_def split: if_splits)
qed

lemma half_in: "fin_in (- 1) 1 x \<Longrightarrow> fin_in (- 1) 1 y \<Longrightarrow> fin_in (- 1) 1 (fdiv (fadd x y) (lit 2))"
proof -
  assume a: "fin_in (- 1) 1 x" "fin_in (- 1) 1 y"
  have "fin_in (- of_nat (1 + 1)) (of_nat (1 + 1)) (fadd x y)" by (rule fadd_nat) (use a in auto)
  then have s: "fin_in (of_nat 2 * - 1) (of_nat 2 * 1) (fadd x y)" by simp
  have "fin_in (- 1) 1 (fdiv (fadd x y) (f_of_int (int 2)))" by (rule fdiv_nat_in[OF s]) simp_all
  then show ?thesis by (simp add: lit_def f_of_int_def)
qed

lemma fmul_zero: "is_finite w \<Longrightarrow> feq (fmul w fzero) fzero \<and> is_finite (fmul w fzero)"
  by (cases w) (auto simp: zero_of_def)

lemma fadd_zero: "feq x fzero \<Longrightarrow> feq y fzero \<Longrightarrow> feq (fadd x y) fzero"
  by (cases x; cases y) (auto simp: rnd_def zero_of_def Let_def not_le)

lemma clamp1_zero: "feq x fzero \<Longrightarrow> feq (clamp1 x) fzero"
  by (cases x) (auto simp: clamp1_def fneg_def)

section \<open>What the calls obey\<close>

context io_rel
begin

lemma obeys_when_some: "obeys R m \<Longrightarrow> (\<And>x. obeys R (k x)) \<Longrightarrow> obeys R (when_some m k)"
  unfolding when_some_def by (intro obeys_bindE obeys_option obeys_ret)

lemma obeys_if_found: "obeys R m \<Longrightarrow> (\<And>x. obeys R (k x)) \<Longrightarrow> obeys R (if_found m k)"
  unfolding if_found_def by (intro obeys_bindE obeys_attempt obeys_sum obeys_if obeys_ret obeys_throw)

lemma obeys_or_skip: "obeys R m \<Longrightarrow> (\<And>x. obeys R (k x)) \<Longrightarrow> obeys R (or_skip m k)"
  unfolding or_skip_def by (intro obeys_bindE obeys_attempt obeys_sum obeys_ret)

lemma obeys_save_rows: "obeys R s \<Longrightarrow> obeys R p \<Longrightarrow> obeys R (save_rows rows s p)"
  unfolding save_rows_def by (intro obeys_if obeys_ret obeys_seqE)

lemma obeys_store_score:
  "obeys R (save score) \<Longrightarrow> (\<And>ev. obeys R (pub ev)) \<Longrightarrow> obeys R (store_score save pub e score)"
  unfolding store_score_def by (intro obeys_seqE obeys_wrapE)

lemma obeys_if_ok: "obeys R m \<Longrightarrow> (\<And>x. obeys R (k x)) \<Longrightarrow> obeys R (if_ok m k)"
  unfolding if_ok_def by (intro obeys_bindE obeys_attempt obeys_sum obeys_option obeys_ret)

lemma obeys_found_value: "obeys R m \<Longrightarrow> obeys R (found_value m)"
  unfolding found_value_def by (intro obeys_bindE obeys_attempt obeys_sum obeys_if obeys_ret obeys_throw)

lemmas obeys_more = obeys_found_value obeys_if_ok obeys_rules obeys_when_some obeys_if_found obeys_or_skip obeys_save_rows

end

text \<open>The feature port.\<close>

locale feature_port = io_rel R for R :: "'w \<Rightarrow> 'w \<Rightarrow> bool" +
  fixes fr :: "'w feature_repo"
  assumes Save: "obeys R (fr_Save fr f)"
    and GetLatest: "obeys R (fr_GetLatest fr k a vd c)"
    and GetSeries: "obeys R (fr_GetSeries fr k a from to c)"
begin

lemma obeys_save_feature: "obeys R (save_feature fr sha k a vd v sn sv)"
  unfolding save_feature_def by (intro obeys_more Save)

lemma obeys_feature_value: "obeys R (feature_value fr k a vd c)"
  unfolding feature_value_def by (intro obeys_more GetLatest)

lemma obeys_feature_number: "obeys R (feature_number fr k a vd c)"
  unfolding feature_number_def by (intro obeys_more GetLatest)

lemma obeys_try_zscore: "obeys R (try_zscore fr k a vd c w n)"
  unfolding try_zscore_def by (intro obeys_more GetSeries)

lemma obeys_zscore_step: "obeys R (zscore_step fr sha sk zk a vd c w n sn sv)"
  unfolding zscore_step_def by (intro obeys_more obeys_try_zscore obeys_save_feature)

lemmas obeys_features = obeys_zscore_step GetLatest GetSeries Save obeys_save_feature obeys_feature_value obeys_feature_number obeys_try_zscore

end

section \<open>Calls that must succeed\<close>

lemma total_when_some: "total_io I m (\<lambda>_. True) \<Longrightarrow> (\<And>x. total_io I (k x) (\<lambda>_. True)) \<Longrightarrow> total_io I (when_some m k) (\<lambda>_. True)"
  unfolding when_some_def by (rule total_bindE[where Q = "\<lambda>_. True"]) (auto intro: total_option total_ret)

lemma total_if_found: "finds I m \<Longrightarrow> (\<And>x. total_io I (k x) (\<lambda>_. True)) \<Longrightarrow> total_io I (if_found m k) (\<lambda>_. True)"
  unfolding if_found_def by (rule total_bindE[OF total_attempt_finds]) (auto split: sum.split intro: total_ret)

lemma total_feature_value: "finds I (fr_GetLatest fr k a vd c) \<Longrightarrow> total_io I (feature_value fr k a vd c) (\<lambda>_. True)"
  unfolding feature_value_def by (rule total_bindE[OF total_attempt_finds]) (auto split: sum.split intro: total_ret)

lemma total_found_value: "finds I m \<Longrightarrow> total_io I (found_value m) (\<lambda>_. True)"
  unfolding found_value_def by (rule total_bindE[OF total_attempt_finds]) (auto split: sum.split intro: total_ret)

lemma total_feature_number:
  "finds I (fr_GetLatest fr k a vd c) \<Longrightarrow> total_io I (feature_number fr k a vd c) (\<lambda>(v, ok). ok \<longrightarrow> \<not> isNaN v)"
  unfolding feature_number_def by (rule total_bindE[OF total_attempt_finds]) (auto split: sum.split intro: total_ret)

lemma total_save_feature:
  "(\<And>f w. I w \<Longrightarrow> I (snd (fr_Save fr f w))) \<Longrightarrow> total_io I (save_feature fr sha k a vd v sn sv) (\<lambda>_. True)"
  unfolding save_feature_def by (intro total_if total_ret TrueI total_bindE[OF total_attempt])

lemma total_try_zscore:
  "(\<And>k a from to w. I w \<Longrightarrow> I (snd (fr_GetSeries fr k a from to c w))) \<Longrightarrow> total_io I (try_zscore fr k a vd c n m) (\<lambda>_. True)"
  unfolding try_zscore_def by (rule total_bindE[OF total_attempt]) (auto split: sum.split intro: total_ret)

lemma total_if_ok: "total_io I (attempt m) (\<lambda>_. True) \<Longrightarrow> (\<And>x. total_io I (k x) (\<lambda>_. True)) \<Longrightarrow> total_io I (if_ok m k) (\<lambda>_. True)"
  unfolding if_ok_def by (rule total_bind1) (auto split: sum.split option.split intro: total_ret)

lemma total_or_skip: "total_io I (attempt m) (\<lambda>_. True) \<Longrightarrow> (\<And>x. total_io I (k x) (\<lambda>_. True)) \<Longrightarrow> total_io I (or_skip m k) (\<lambda>_. True)"
  unfolding or_skip_def by (rule total_bind1) (auto split: sum.split intro: total_ret)

lemma total_zscore_step:
  "(\<And>f w. I w \<Longrightarrow> I (snd (fr_Save fr f w))) \<Longrightarrow> (\<And>k a from to w. I w \<Longrightarrow> I (snd (fr_GetSeries fr k a from to c w))) \<Longrightarrow>
    total_io I (zscore_step fr sha sk zk a vd c n m sn sv) (\<lambda>_. True)"
  unfolding zscore_step_def by (intro total_when_some total_try_zscore total_save_feature)

lemma total_store_score:
  "total_io I (save sc) (\<lambda>_. True) \<Longrightarrow> total_io I (pub (ev (ds_score sc))) (\<lambda>_. True) \<Longrightarrow>
    total_io I (store_score save pub ev sc) (\<lambda>_. True)"
  unfolding store_score_def by (intro total_seqE total_wrapE)

end
