(* ===== verification/Liquidity.thy ===== *)
theory Liquidity
  imports FeatureLib
begin

text \<open>
  \<open>internal/liquidity\<close>: configuration, ports, the score of a day (\<open>pipeline.go\<close>) and the service
  (\<open>service.go\<close>) that ingests the raw series, derives the features of a day and stores its score.
\<close>

section \<open>Configuration\<close>

record liq_config =
  lc_model_version :: string
  lc_config_version :: string
  lc_code_sha :: string
  lc_supply :: string
  lc_growth :: string
  lc_zscore :: string
  lc_netflow7d :: string
  lc_netflow_z :: string
  lc_tvl :: string
  lc_tvl_growth :: string
  lc_tvl_z :: string
  lc_supply_major :: string
  lc_ssr :: string
  lc_ssr_pct :: string
  lc_w_stable :: f64
  lc_w_netflow :: f64
  lc_w_defi :: f64
  lc_scale :: f64

definition liq_Defaults :: "liq_config \<Rightarrow> liq_config" where
  "liq_Defaults c = c\<lparr>lc_w_stable := if_zero (lc_w_stable c) (40 / 100),
     lc_w_netflow := if_zero (lc_w_netflow c) (35 / 100),
     lc_w_defi := if_zero (lc_w_defi c) (25 / 100), lc_scale := if_zero (lc_scale c) 2\<rparr>"

section \<open>Ports\<close>

record liq_supply_row =
  ls_value_date :: gotime
  ls_stablecoin :: string
  ls_metric :: string
  ls_value :: f64
  ls_source :: string
  ls_hash :: string

record liq_supply_point =
  lsp_date :: gotime
  lsp_symbol :: string
  lsp_usd :: f64
  lsp_hash :: string

record liq_tvl_row =
  lt_value_date :: gotime
  lt_chain :: string
  lt_usd :: f64
  lt_source :: string
  lt_hash :: string

record liq_tvl_point =
  ltp_date :: gotime
  ltp_usd :: f64
  ltp_hash :: string

record liq_netflow_row =
  ln_value_date :: gotime
  ln_asset :: asset
  ln_inflow :: "f64 option"
  ln_outflow :: "f64 option"
  ln_netflow :: "f64 option"
  ln_source :: string
  ln_hash :: string

record liq_netflow_point =
  lnp_date :: gotime
  lnp_asset :: asset
  lnp_inflow :: "f64 option"
  lnp_outflow :: "f64 option"
  lnp_netflow :: "f64 option"
  lnp_hash :: string

record liq_mcap_row =
  lm_value_date :: gotime
  lm_coin :: string
  lm_cap :: f64
  lm_price :: f64
  lm_source :: string
  lm_hash :: string

record liq_mcap_point =
  lmp_date :: gotime
  lmp_coin :: string
  lmp_cap :: f64
  lmp_price :: f64
  lmp_hash :: string

record 'w liq_raws =
  lr_SaveStablecoinSupply :: "liq_supply_row list \<Rightarrow> ('w, unit) io"
  lr_SaveChainTVL :: "liq_tvl_row list \<Rightarrow> ('w, unit) io"
  lr_SaveExchangeNetflow :: "liq_netflow_row list \<Rightarrow> ('w, unit) io"
  lr_SaveMarketCap :: "liq_mcap_row list \<Rightarrow> ('w, unit) io"
  lr_GetStablecoinSupplyAsOf :: "string \<Rightarrow> gotime \<Rightarrow> gotime \<Rightarrow> ('w, f64) io"
  lr_SumStablecoinSupplyAsOf :: "string list \<Rightarrow> gotime \<Rightarrow> gotime \<Rightarrow> ('w, f64 \<times> int) io"
  lr_GetChainTVLAsOf :: "string \<Rightarrow> gotime \<Rightarrow> gotime \<Rightarrow> ('w, f64) io"
  lr_Sum7dNetflow :: "asset \<Rightarrow> gotime \<Rightarrow> gotime \<Rightarrow> ('w, f64 \<times> bool) io"
  lr_GetMarketCapAsOf :: "string \<Rightarrow> gotime \<Rightarrow> gotime \<Rightarrow> ('w, f64) io"

record 'w stable_provider =
  sp_FetchAll :: "('w, liq_supply_point list) io"
  sp_FetchPer :: "('w, liq_supply_point list) io"

type_synonym 'w tvl_provider = "string \<Rightarrow> ('w, liq_tvl_point list) io"
type_synonym 'w netflow_provider = "asset list \<Rightarrow> gotime \<Rightarrow> gotime \<Rightarrow> ('w, liq_netflow_point list) io"
type_synonym 'w mcap_provider = "string \<Rightarrow> ('w, liq_mcap_point list) io"

section \<open>Features\<close>

definition StablecoinSupplyTotalName where "StablecoinSupplyTotalName = ''stablecoin_supply_total''"
definition StablecoinSupplyMajorName where "StablecoinSupplyMajorName = ''stablecoin_supply_usdt_usdc_dai''"
definition StablecoinGrowth30dName where "StablecoinGrowth30dName = ''stablecoin_growth_30d''"
definition StablecoinGrowthZScore90dName where "StablecoinGrowthZScore90dName = ''stablecoin_growth_zscore_90d''"
definition SSRName where "SSRName = ''ssr''"
definition SSRPercentileRank365dName where "SSRPercentileRank365dName = ''ssr_percentile_rank_365d''"
definition ExchangeNetflow7dName where "ExchangeNetflow7dName = ''exchange_netflow_7d''"
definition ExchangeNetflowZScore180dName where "ExchangeNetflowZScore180dName = ''exchange_netflow_zscore_180d''"
definition DefiTVLUsdName where "DefiTVLUsdName = ''defi_tvl_usd''"
definition DefiTVLGrowth30dName where "DefiTVLGrowth30dName = ''defi_tvl_growth_30d''"
definition DefiTVLGrowthZScore180dName where "DefiTVLGrowthZScore180dName = ''defi_tvl_growth_zscore_180d''"

section \<open>The score\<close>

record liq_inputs =
  li_asset :: asset
  li_value_date :: gotime
  li_z_stable :: f64
  li_z_stable_ok :: bool
  li_ssr :: f64
  li_ssr_ok :: bool
  li_z_netflow :: f64
  li_z_netflow_ok :: bool
  li_z_tvl :: f64
  li_z_tvl_ok :: bool
  li_features :: "string list"

definition liq_stable_component :: "libm \<Rightarrow> liq_inputs \<Rightarrow> f64 \<Rightarrow> f64" where
  "liq_stable_component M i scale =
     (if li_z_stable_ok i \<and> \<not> isNaN (li_z_stable i) then
        let stableSignal = TanhSquash M (li_z_stable i) scale
        in if li_ssr_ok i then
             let ssrSignal = fneg (TanhSquash M (fmul (fsub (li_ssr i) (lit (1 / 2))) (lit 4)) scale)
             in fdiv (fadd stableSignal ssrSignal) (lit 2)
           else stableSignal
      else fzero)"

definition liq_computeScore :: "libm \<Rightarrow> liq_inputs \<Rightarrow> liq_config \<Rightarrow> domain_score" where
  "liq_computeScore M i cfg0 =
     (let cfg = liq_Defaults cfg0;
          cs = liq_stable_component M i (lc_scale cfg);
          cn = neg_signal M (lc_scale cfg) (li_z_netflow_ok i) (li_z_netflow i);
          cd = signal M (lc_scale cfg) (li_z_tvl_ok i) (li_z_tvl i);
          score = clamp1 (fadd (fadd (fmul (lc_w_stable cfg) cs) (fmul (lc_w_netflow cfg) cn)) (fmul (lc_w_defi cfg) cd))
      in \<lparr>ds_asset = li_asset i, ds_domain = DomainLiquidity, ds_value_date = li_value_date i, ds_score = score,
          ds_components = map_of [(''component_stablecoin_capital'', cs), (''component_exchange_netflow'', cn),
             (''component_defi_capital'', cd)],
          ds_features_used = li_features i, ds_model_version = lc_model_version cfg,
          ds_config_version = lc_config_version cfg, ds_code_sha = lc_code_sha cfg,
          ds_sources = map_of [(''defillama_stablecoin_supply'', ''defillama_v1''),
             (''coinmetrics_exchange_netflow'', ''coinmetrics_v1''), (''defillama_tvl'', ''defillama_v1''),
             (''coingecko_market_cap'', ''coingecko_v1'')],
          ds_quality = map_of [
             (''partial_coverage'', ABool (\<not> li_z_stable_ok i \<or> \<not> li_z_netflow_ok i \<or> \<not> li_z_tvl_ok i)),
             (''stablecoin_zscore_available'', ABool (li_z_stable_ok i)),
             (''ssr_percentile_available'', ABool (li_ssr_ok i)),
             (''netflow_zscore_available'', ABool (li_z_netflow_ok i)),
             (''tvl_zscore_available'', ABool (li_z_tvl_ok i))]\<rparr>)"

section \<open>The service\<close>

record 'w liq_service =
  lv_features :: "'w feature_repo"
  lv_scores :: "'w score_repo"
  lv_raws :: "'w liq_raws"
  lv_stable :: "'w stable_provider option"
  lv_tvl :: "'w tvl_provider option"
  lv_netflow :: "'w netflow_provider option"
  lv_mcap :: "'w mcap_provider option"
  lv_publish :: "event \<Rightarrow> ('w, unit) io"
  lv_clock :: "('w, gotime) io"
  lv_cfg :: liq_config
  lv_assets :: "asset list"

definition liq_NewService where
  "liq_NewService featRepo scoreRepo rawRepo stablep tvl netflow mcap pub clk cfg assets =
     \<lparr>lv_features = featRepo, lv_scores = scoreRepo, lv_raws = rawRepo, lv_stable = stablep, lv_tvl = tvl,
      lv_netflow = netflow, lv_mcap = mcap, lv_publish = pub, lv_clock = clk, lv_cfg = liq_Defaults cfg,
      lv_assets = (if assets = [] then AssetsTradeable else assets)\<rparr>"

subsection \<open>Ingestion\<close>

definition ingestStablecoinSupply :: "'w liq_service \<Rightarrow> ('w, unit) io" where
  "ingestStablecoinSupply s = (case lv_stable s of None \<Rightarrow> ret () | Some p \<Rightarrow>
     bindE (sp_FetchAll p) (\<lambda>pts. if pts = [] then ret () else
       let rows = map (\<lambda>p. \<lparr>ls_value_date = lsp_date p, ls_stablecoin = ''AGGREGATE'', ls_metric = ''circulating_supply_usd'',
              ls_value = lsp_usd p, ls_source = ''defillama_v1'', ls_hash = lsp_hash p\<rparr>) pts
       in seqE (lr_SaveStablecoinSupply (lv_raws s) rows)
            (lv_publish s (ingest_event ''raw.liquidity.stablecoin_supply.ingested.v1''
               (''defillama:'' @ fmt_day (lsp_date (last pts))) [] (int (length rows))))))"

definition ingestPerStablecoinSupply :: "'w liq_service \<Rightarrow> ('w, unit) io" where
  "ingestPerStablecoinSupply s = (case lv_stable s of None \<Rightarrow> ret () | Some p \<Rightarrow>
     bindE (sp_FetchPer p) (\<lambda>pts. if pts = [] then ret () else
       let rows = map (\<lambda>p. \<lparr>ls_value_date = lsp_date p, ls_stablecoin = lsp_symbol p, ls_metric = ''circulating_supply_usd'',
              ls_value = lsp_usd p, ls_source = ''defillama_v1'', ls_hash = lsp_hash p\<rparr>) pts
       in seqE (lr_SaveStablecoinSupply (lv_raws s) rows)
            (lv_publish s (ingest_event ''raw.liquidity.per_stablecoin_supply.ingested.v1''
               (''defillama_per_stablecoin:'' @ fmt_day (lsp_date (last pts))) [] (int (length rows))))))"

definition ingestChainTVL :: "'w liq_service \<Rightarrow> ('w, unit) io" where
  "ingestChainTVL s = (case lv_tvl s of None \<Rightarrow> ret () | Some fetch \<Rightarrow>
     bindE (fetch ''Ethereum'') (\<lambda>pts. if pts = [] then ret () else
       let rows = map (\<lambda>p. \<lparr>lt_value_date = ltp_date p, lt_chain = ''Ethereum'', lt_usd = ltp_usd p,
              lt_source = ''defillama_v1'', lt_hash = ltp_hash p\<rparr>) pts
       in seqE (lr_SaveChainTVL (lv_raws s) rows)
            (lv_publish s (ingest_event ''raw.liquidity.tvl.ingested.v1''
               (''defillama_tvl:'' @ fmt_day (ltp_date (last pts))) [(''chain'', AStr ''Ethereum'')] (int (length rows))))))"

text \<open>A failing market cap fetch is logged and its coin skipped.\<close>

definition ingestMarketCap :: "'w liq_service \<Rightarrow> string list \<Rightarrow> ('w, unit) io" where
  "ingestMarketCap s coinIDs = (case lv_mcap s of None \<Rightarrow> ret () | Some fetch \<Rightarrow>
     forE (\<lambda>coinID. bindE (attempt (fetch coinID)) (\<lambda>r. case r of Inl _ \<Rightarrow> ret () | Inr pts \<Rightarrow>
       if pts = [] then ret () else
       let rows = map (\<lambda>p. \<lparr>lm_value_date = lmp_date p, lm_coin = lmp_coin p, lm_cap = lmp_cap p, lm_price = lmp_price p,
              lm_source = ''coingecko_v1'', lm_hash = lmp_hash p\<rparr>) pts
       in seqE (lr_SaveMarketCap (lv_raws s) rows)
            (lv_publish s (ingest_event ''raw.liquidity.market_cap.ingested.v1''
               (''coingecko:'' @ coinID @ '':'' @ fmt_day (lmp_date (last pts))) [(''coin_id'', AStr coinID)] (int (length rows))))))
       coinIDs)"

definition ingestExchangeNetflow :: "'w liq_service \<Rightarrow> gotime \<Rightarrow> gotime \<Rightarrow> ('w, unit) io" where
  "ingestExchangeNetflow s start fin = (case lv_netflow s of None \<Rightarrow> ret () | Some fetch \<Rightarrow>
     bindE (fetch (lv_assets s) start fin) (\<lambda>pts. if pts = [] then ret () else
       let rows = map (\<lambda>p. \<lparr>ln_value_date = lnp_date p, ln_asset = lnp_asset p, ln_inflow = lnp_inflow p,
              ln_outflow = lnp_outflow p, ln_netflow = lnp_netflow p, ln_source = ''coinmetrics_v1'', ln_hash = lnp_hash p\<rparr>) pts
       in seqE (lr_SaveExchangeNetflow (lv_raws s) rows)
            (lv_publish s (ingest_event ''raw.liquidity.exchange_netflow.ingested.v1''
               (''coinmetrics:'' @ fmt_day (lnp_date (last pts))) [] (int (length rows))))))"

definition liq_ingestAll :: "'w liq_service \<Rightarrow> gotime \<Rightarrow> gotime \<Rightarrow> ('w, unit) io" where
  "liq_ingestAll s from to =
     seqE (wrapE ''ingest supply'' [] (ingestStablecoinSupply s))
    (seqE (wrapE ''ingest per-stablecoin supply'' [] (ingestPerStablecoinSupply s))
    (seqE (wrapE ''ingest tvl'' [] (ingestChainTVL s))
    (seqE (wrapE ''ingest market_cap'' [] (ingestMarketCap s [''ethereum'']))
          (wrapE ''ingest netflow'' [] (ingestExchangeNetflow s from to)))))"

subsection \<open>Features of a day\<close>

definition liq_saveFeature :: "'w liq_service \<Rightarrow> feature_key \<Rightarrow> asset \<Rightarrow> gotime \<Rightarrow> f64 \<Rightarrow> string \<Rightarrow> string \<Rightarrow> ('w, unit) io" where
  "liq_saveFeature s k a vd v srcName srcVer = save_feature (lv_features s) (lc_code_sha (lv_cfg s)) k a vd v srcName srcVer"

definition liq_saveGlobalFeature :: "'w liq_service \<Rightarrow> feature_key \<Rightarrow> gotime \<Rightarrow> f64 \<Rightarrow> string \<Rightarrow> string \<Rightarrow> ('w, unit) io" where
  "liq_saveGlobalFeature s k vd v srcName srcVer = liq_saveFeature s k AssetGlobal vd v srcName srcVer"

definition liq_tryComputeGrowth :: "'w liq_service \<Rightarrow> feature_key \<Rightarrow> gotime \<Rightarrow> gotime \<Rightarrow> int \<Rightarrow> ('w, f64 option) io" where
  "liq_tryComputeGrowth s k vd cutoff window =
     bindE (attempt (fr_GetLatest (lv_features s) k AssetGlobal vd cutoff)) (\<lambda>r. case r of Inl e \<Rightarrow> ret None | Inr now \<Rightarrow>
     bindE (attempt (fr_GetLatest (lv_features s) k AssetGlobal (add_days vd (- window)) cutoff)) (\<lambda>r.
       case r of Inl e \<Rightarrow> ret None | Inr earlier \<Rightarrow> ret (PctChange now earlier)))"

definition liq_tryComputeZScore :: "'w liq_service \<Rightarrow> feature_key \<Rightarrow> asset \<Rightarrow> gotime \<Rightarrow> gotime \<Rightarrow> int \<Rightarrow> int \<Rightarrow> ('w, f64 option) io" where
  "liq_tryComputeZScore s k a vd cutoff window minObs = try_zscore (lv_features s) k a vd cutoff window minObs"

definition liq_tryComputePercentileRank :: "'w liq_service \<Rightarrow> feature_key \<Rightarrow> asset \<Rightarrow> gotime \<Rightarrow> gotime \<Rightarrow> int \<Rightarrow> int \<Rightarrow> ('w, f64 option) io" where
  "liq_tryComputePercentileRank s k a vd cutoff window minObs =
     bindE (attempt (fr_GetLatest (lv_features s) k a vd cutoff)) (\<lambda>r. case r of Inl e \<Rightarrow> ret None | Inr current \<Rightarrow>
     bindE (attempt (fr_GetSeries (lv_features s) k a (add_days vd (- window)) vd cutoff)) (\<lambda>r. case r of
       Inl e \<Rightarrow> ret None
     | Inr series \<Rightarrow> if int (length series) < minObs then ret None else ret (PercentileRank current series)))"

definition liq_computeGlobalFeatures :: "'w liq_service \<Rightarrow> gotime \<Rightarrow> gotime \<Rightarrow> ('w, unit) io" where
  "liq_computeGlobalFeatures s vd cutoff =
     (let cfg = lv_cfg s; raws = lv_raws s;
          supplyKey = fkey StablecoinSupplyTotalName (lc_supply cfg);
          majorKey = fkey StablecoinSupplyMajorName (lc_supply_major cfg);
          growthKey = fkey StablecoinGrowth30dName (lc_growth cfg);
          zscoreKey = fkey StablecoinGrowthZScore90dName (lc_zscore cfg);
          tvlKey = fkey DefiTVLUsdName (lc_tvl cfg);
          tvlGrowthKey = fkey DefiTVLGrowth30dName (lc_tvl_growth cfg);
          tvlZKey = fkey DefiTVLGrowthZScore180dName (lc_tvl_z cfg)
      in
      seqE (if_found (lr_GetStablecoinSupplyAsOf raws ''AGGREGATE'' vd cutoff)
        (\<lambda>v. liq_saveGlobalFeature s supplyKey vd v ''defillama_stablecoin_supply'' ''defillama_v1''))
     (seqE (bindE (lr_SumStablecoinSupplyAsOf raws [''USDT'', ''USDC'', ''DAI''] vd cutoff) (\<lambda>(sum, found).
        if 0 < found then liq_saveGlobalFeature s majorKey vd sum ''defillama_stablecoin_supply'' ''defillama_v1'' else ret ()))
     (seqE (when_some (liq_tryComputeGrowth s supplyKey vd cutoff 30)
        (\<lambda>growth. liq_saveGlobalFeature s growthKey vd growth ''defillama_stablecoin_supply'' ''defillama_v1''))
     (seqE (when_some (liq_tryComputeZScore s growthKey AssetGlobal vd cutoff 90 30)
        (\<lambda>z. liq_saveGlobalFeature s zscoreKey vd z ''defillama_stablecoin_supply'' ''defillama_v1''))
     (seqE (if_found (lr_GetChainTVLAsOf raws ''Ethereum'' vd cutoff)
        (\<lambda>v. liq_saveGlobalFeature s tvlKey vd v ''defillama_tvl'' ''defillama_v1''))
     (seqE (when_some (liq_tryComputeGrowth s tvlKey vd cutoff 30)
        (\<lambda>growth. liq_saveGlobalFeature s tvlGrowthKey vd growth ''defillama_tvl'' ''defillama_v1''))
      (when_some (liq_tryComputeZScore s tvlGrowthKey AssetGlobal vd cutoff 180 60)
        (\<lambda>z. liq_saveGlobalFeature s tvlZKey vd z ''defillama_tvl'' ''defillama_v1''))))))))"

subsection \<open>The score of a day\<close>

definition liq_gatherScoreInputs :: "'w liq_service \<Rightarrow> asset \<Rightarrow> gotime \<Rightarrow> gotime \<Rightarrow> ('w, liq_inputs) io" where
  "liq_gatherScoreInputs s a vd cutoff =
     (let cfg = lv_cfg s; fr = lv_features s;
          stableKey = fkey StablecoinGrowthZScore90dName (lc_zscore cfg);
          ssrKey = fkey SSRPercentileRank365dName (lc_ssr_pct cfg);
          netflowKey = fkey ExchangeNetflowZScore180dName (lc_netflow_z cfg);
          tvlKey = fkey DefiTVLGrowthZScore180dName (lc_tvl_z cfg)
      in
      bindE (feature_value fr stableKey AssetGlobal vd cutoff) (\<lambda>(zs, zsOk).
      bindE (feature_number fr ssrKey a vd cutoff) (\<lambda>(ssr, ssrOk).
      bindE (feature_value fr netflowKey a vd cutoff) (\<lambda>(zn, znOk).
      bindE (feature_value fr tvlKey AssetGlobal vd cutoff) (\<lambda>(zt, ztOk).
        ret \<lparr>li_asset = a, li_value_date = vd, li_z_stable = zs, li_z_stable_ok = zsOk, li_ssr = ssr, li_ssr_ok = ssrOk,
             li_z_netflow = zn, li_z_netflow_ok = znOk, li_z_tvl = zt, li_z_tvl_ok = ztOk,
             li_features = [FeatureKey_String stableKey, FeatureKey_String ssrKey, FeatureKey_String netflowKey,
                FeatureKey_String tvlKey]\<rparr>)))))"

definition liq_assetFeatures :: "'w liq_service \<Rightarrow> asset \<Rightarrow> gotime \<Rightarrow> gotime \<Rightarrow> ('w, unit) io" where
  "liq_assetFeatures s a vd cutoff =
     (let cfg = lv_cfg s; raws = lv_raws s;
          netflow7Key = fkey ExchangeNetflow7dName (lc_netflow7d cfg);
          netflowZKey = fkey ExchangeNetflowZScore180dName (lc_netflow_z cfg);
          ssrKey = fkey SSRName (lc_ssr cfg);
          ssrPctKey = fkey SSRPercentileRank365dName (lc_ssr_pct cfg);
          supplyKey = fkey StablecoinSupplyTotalName (lc_supply cfg)
      in
      seqE (bindE (lr_Sum7dNetflow raws a vd cutoff) (\<lambda>(sum, complete).
        if complete then liq_saveFeature s netflow7Key a vd sum ''coinmetrics_exchange_netflow'' ''coinmetrics_v1'' else ret ()))
     (seqE (when_some (liq_tryComputeZScore s netflow7Key a vd cutoff 180 60)
        (\<lambda>z. liq_saveFeature s netflowZKey a vd z ''coinmetrics_exchange_netflow'' ''coinmetrics_v1''))
     (seqE (bindE (attempt (lr_GetMarketCapAsOf raws (CoinIDForAsset a) vd cutoff)) (\<lambda>r. case r of Inl e \<Rightarrow> ret () | Inr mcap \<Rightarrow>
        if flt fzero mcap then
          bindE (attempt (fr_GetLatest (lv_features s) supplyKey AssetGlobal vd cutoff)) (\<lambda>r. case r of Inl e \<Rightarrow> ret () | Inr supply \<Rightarrow>
            if flt fzero supply then liq_saveFeature s ssrKey a vd (fdiv mcap supply) ''coingecko_market_cap'' ''coingecko_v1''
            else ret ())
        else ret ()))
      (when_some (liq_tryComputePercentileRank s ssrKey a vd cutoff 365 30)
        (\<lambda>pct. liq_saveFeature s ssrPctKey a vd pct ''coingecko_market_cap'' ''coingecko_v1'')))))"

definition liq_computeAssetDay :: "libm \<Rightarrow> 'w liq_service \<Rightarrow> asset \<Rightarrow> gotime \<Rightarrow> gotime \<Rightarrow> ('w, unit) io" where
  "liq_computeAssetDay M s a vd cutoff =
     seqE (liq_assetFeatures s a vd cutoff)
     (bindE (wrapE ''gather score inputs'' [] (liq_gatherScoreInputs s a vd cutoff)) (\<lambda>i.
       store_score (lv_scores s) (lv_publish s) (score_event ''scores.liquidity.completed.v1''
         (lc_model_version (lv_cfg s)) (lc_config_version (lv_cfg s)) a vd) (liq_computeScore M i (lv_cfg s))))"

definition liq_computeDay :: "libm \<Rightarrow> 'w liq_service \<Rightarrow> gotime \<Rightarrow> gotime \<Rightarrow> ('w, unit) io" where
  "liq_computeDay M s vd cutoff =
     seqE (wrapE ''global features'' [] (liq_computeGlobalFeatures s vd cutoff))
       (forE (\<lambda>a. wrapE ''asset'' [AStr a] (liq_computeAssetDay M s a vd cutoff)) (lv_assets s))"

definition liq_computeRange :: "libm \<Rightarrow> 'w liq_service \<Rightarrow> gotime \<Rightarrow> gotime \<Rightarrow> gotime \<Rightarrow> ('w, unit) io" where
  "liq_computeRange M s from to cutoff =
     forE (\<lambda>d. wrapE ''day'' [AStr (fmt_day d)] (liq_computeDay M s d cutoff)) (day_range from to)"

definition liq_RunOnce :: "libm \<Rightarrow> 'w liq_service \<Rightarrow> gotime \<Rightarrow> ('w, unit) io" where
  "liq_RunOnce M s valueDate =
     (let vd = UTCDay valueDate in
      seqE (liq_ingestAll s (add_days vd (- 210)) vd)
       (bindE (lv_clock s) (\<lambda>cutoff. liq_computeRange M s vd vd cutoff)))"

definition liq_RunBackfill :: "libm \<Rightarrow> 'w liq_service \<Rightarrow> gotime \<Rightarrow> gotime \<Rightarrow> ('w, unit) io" where
  "liq_RunBackfill M s from to =
     (let f = UTCDay from; t = UTCDay to in
      if t < f then throw (Fresh ''backfill from (%s) after to (%s)'' [AStr (fmt_day f), AStr (fmt_day t)])
      else seqE (liq_ingestAll s f t)
        (bindE (lv_clock s) (\<lambda>now. liq_computeRange M s f t (now + 24 * hour_ns))))"

section \<open>The score is in range\<close>

definition liq_cfg_ok :: "liq_config \<Rightarrow> bool" where
  "liq_cfg_ok c \<longleftrightarrow> fin_in 0 1 (lc_w_stable (liq_Defaults c)) \<and> fin_in 0 1 (lc_w_netflow (liq_Defaults c)) \<and>
     fin_in 0 1 (lc_w_defi (liq_Defaults c)) \<and> scale_ok (lc_scale (liq_Defaults c))"

lemma liq_Defaults_idem [simp]: "liq_Defaults (liq_Defaults c) = liq_Defaults c"
  by (simp add: liq_Defaults_def if_zero_idem)

definition liq_usable :: "liq_inputs \<Rightarrow> bool" where
  "liq_usable i \<longleftrightarrow> (li_ssr_ok i \<longrightarrow> \<not> isNaN (li_ssr i))"

context go_libm
begin

lemma liq_stable_in: "scale_ok s \<Longrightarrow> liq_usable i \<Longrightarrow> fin_in (- 1) 1 (liq_stable_component M i s)"
  unfolding liq_stable_component_def Let_def liq_usable_def
  by (auto simp: isNaN_def[of "li_z_stable i"] intro!: half_in fin_in_neg1 squash_in centred_not_NaN)

lemma liq_score_in:
  assumes "liq_cfg_ok c" "liq_usable i"
  shows "fin_in (- 1) 1 (ds_score (liq_computeScore M i c))"
    and "\<forall>v\<in>ran (ds_components (liq_computeScore M i c)). fin_in (- 1) 1 v"
proof -
  note w = assms(1)[unfolded liq_cfg_ok_def]
  have s: "scale_ok (lc_scale (liq_Defaults c))" using w by simp
  note comps = liq_stable_in[OF s assms(2)] neg_signal_in[OF s] signal_in[OF s]
  show "fin_in (- 1) 1 (ds_score (liq_computeScore M i c))"
    unfolding liq_computeScore_def Let_def by (simp, rule clamp1_weighted(1)) (use w comps in simp_all)
  show "\<forall>v\<in>ran (ds_components (liq_computeScore M i c)). fin_in (- 1) 1 v"
    unfolding liq_computeScore_def Let_def using comps by (auto simp: ran_def split: if_splits)
qed

end

text \<open>Without any feature the score is zero and flagged as partial.\<close>

definition liq_nothing :: "liq_inputs \<Rightarrow> bool" where
  "liq_nothing i \<longleftrightarrow> \<not> li_z_stable_ok i \<and> \<not> li_z_netflow_ok i \<and> \<not> li_z_tvl_ok i"

lemma liq_score_zero:
  assumes "liq_cfg_ok c" "liq_nothing i"
  shows "feq (ds_score (liq_computeScore M i c)) fzero"
proof -
  have w: "is_finite (lc_w_stable (liq_Defaults c))" "is_finite (lc_w_netflow (liq_Defaults c))" "is_finite (lc_w_defi (liq_Defaults c))"
    using assms(1) by (auto simp: liq_cfg_ok_def fin_in_def)
  have "liq_stable_component M i s = fzero" "neg_signal M s (li_z_netflow_ok i) (li_z_netflow i) = fzero"
    "signal M s (li_z_tvl_ok i) (li_z_tvl i) = fzero" for s
    using assms(2) by (simp_all add: liq_nothing_def liq_stable_component_def neg_signal_def signal_def opt_signal_def)
  then show ?thesis
    unfolding liq_computeScore_def Let_def by (simp add: clamp1_zero fadd_zero fmul_zero w)
qed

section \<open>What the service's steps obey\<close>

locale liq_ingest_ports = io_rel R for R :: "'w \<Rightarrow> 'w \<Rightarrow> bool" +
  fixes s :: "'w liq_service"
  assumes saves: "obeys R (lr_SaveStablecoinSupply (lv_raws s) r1)" "obeys R (lr_SaveChainTVL (lv_raws s) r2)"
      "obeys R (lr_SaveExchangeNetflow (lv_raws s) r3)" "obeys R (lr_SaveMarketCap (lv_raws s) r4)"
    and stable: "lv_stable s = Some p \<Longrightarrow> obeys R (sp_FetchAll p) \<and> obeys R (sp_FetchPer p)"
    and tvl: "lv_tvl s = Some ft \<Longrightarrow> obeys R (ft chain)"
    and netflow: "lv_netflow s = Some fn \<Longrightarrow> obeys R (fn as from to)"
    and mcap: "lv_mcap s = Some fm \<Longrightarrow> obeys R (fm coin)"
    and publish: "obeys R (lv_publish s ev)"
begin

lemma ingest_obeys: "obeys R (liq_ingestAll s from to)"
  unfolding liq_ingestAll_def ingestStablecoinSupply_def ingestPerStablecoinSupply_def ingestChainTVL_def
    ingestMarketCap_def ingestExchangeNetflow_def Let_def
  by (intro obeys_more saves publish) (auto intro: netflow mcap tvl dest: stable)

end

locale liq_day_ports = feature_port R "lv_features s" for R :: "'w \<Rightarrow> 'w \<Rightarrow> bool" and s :: "'w liq_service" +
  assumes raws: "obeys R (lr_GetStablecoinSupplyAsOf (lv_raws s) coin vd c)" "obeys R (lr_SumStablecoinSupplyAsOf (lv_raws s) syms vd c)"
      "obeys R (lr_GetChainTVLAsOf (lv_raws s) chain vd c)" "obeys R (lr_Sum7dNetflow (lv_raws s) a vd c)"
      "obeys R (lr_GetMarketCapAsOf (lv_raws s) coinID vd c)"
begin

lemma global_obeys: "obeys R (liq_computeGlobalFeatures s vd c)"
  unfolding liq_computeGlobalFeatures_def liq_tryComputeGrowth_def liq_tryComputeZScore_def liq_saveGlobalFeature_def
    liq_saveFeature_def Let_def
  by (intro obeys_more raws obeys_features)

lemma asset_obeys: "obeys R (liq_assetFeatures s a vd c)"
  unfolding liq_assetFeatures_def liq_tryComputePercentileRank_def liq_tryComputeZScore_def liq_saveFeature_def Let_def
  by (intro obeys_more raws obeys_features)

lemma gather_obeys: "obeys R (liq_gatherScoreInputs s a vd c)"
  unfolding liq_gatherScoreInputs_def Let_def by (intro obeys_more obeys_features)

end

locale liq_ports = liq_ingest_ports R s + liq_day_ports R s for R :: "'w \<Rightarrow> 'w \<Rightarrow> bool" and s :: "'w liq_service" +
  assumes scores: "obeys R (lv_scores s sc)" and clock: "obeys R (lv_clock s)"
begin

lemma range_obeys: "obeys R (liq_computeRange M s f t c)"
  unfolding liq_computeRange_def liq_computeDay_def liq_computeAssetDay_def
  by (intro obeys_more obeys_store_score global_obeys asset_obeys gather_obeys scores publish)

lemma RunOnce_obeys: "obeys R (liq_RunOnce M s vd)"
  unfolding liq_RunOnce_def Let_def by (intro obeys_more ingest_obeys clock range_obeys)

lemma RunBackfill_obeys: "obeys R (liq_RunBackfill M s f t)"
  unfolding liq_RunBackfill_def Let_def by (intro obeys_more ingest_obeys clock range_obeys)

end

end
