(* ===== verification/StorageLeverage.thy ===== *)
theory StorageLeverage
  imports Storage MathStats
begin

text \<open>
  \<open>internal/storage/leverage.go\<close>: the raw rows and the features of the leverage domain.  Their
  inserts have \<open>ON CONFLICT DO NOTHING\<close> without a target, so a clash of the primary key is passed over
  like a repeated payload.  The aggregates of SQL and the collation of text are parameters.
\<close>

section \<open>The shared heap of raw rows\<close>

fun raw_key :: "raw_row \<Rightarrow> string \<times> gotime list \<times> string list" where
  "raw_key (RawExchangeOI r) = (''raw_exchange_oi'', [or_value_date r], [or_asset r, or_exchange r])"
| "raw_key (RawExchangeFunding r) = (''raw_exchange_funding'', [fu_time r], [fu_asset r, fu_exchange r])"
| "raw_key (RawExchangeLiquidations r) = (''raw_exchange_liquidations'', [lq_value_date r], [lq_asset r, lq_exchange r])"
| "raw_key (RawCoinglassFuturesBasis r) = (''raw_coinglass_futures_basis'', [bs_value_date r], [bs_symbol r, bs_exchange r])"
| "raw_key (RawCoinglassLongShortRatio t r) = (t, [lr_value_date r], [lr_symbol r, lr_exchange r])"
| "raw_key (RawCoinglassTakerVolume r) = (''raw_coinglass_taker_volume_aggregated'', [tk_value_date r], [tk_symbol r])"
| "raw_key (RawCoinglassBorrowRate r) = (''raw_coinglass_borrow_rate'', [bo_value_date r], [bo_symbol r, bo_exchange r])"
| "raw_key (RawDeribitBasis r) = (''raw_deribit_basis'', [db_value_date r], [db_asset r])"
| "raw_key (RawBinanceKline r) = (''raw_binance_klines'', [kl_value_date r], [kl_symbol r])"
| "raw_key (RawKrakenOHLC r) = (''raw_kraken_ohlc'', [ko_value_date r], [ko_pair r])"
| "raw_key (RawCoinbaseCandle r) = (''raw_coinbase_candles'', [cn_value_date r], [cn_product r])"
| "raw_key (RawCoinglassCoinbasePremium r) = (''raw_coinglass_coinbase_premium'', [pr_value_date r], [])"
| "raw_key (RawCoinglassOrderbookAggregated r) = (''raw_coinglass_orderbook_aggregated'', [bk_value_date r], [bk_symbol r, bk_range r])"
| "raw_key (RawCoinglassFuturesSpotVolRatio r) = (''raw_coinglass_futures_spot_vol_ratio'', [fq_value_date r], [fq_symbol r])"
| "raw_key (RawDeribitDVOL r) = (''raw_deribit_dvol'', [dv_value_date r], [dv_asset r])"
| "raw_key (RawCoinglassOptionsInfo r) = (''raw_coinglass_options_info'', [oq_value_date r], [oq_symbol r, oq_exchange r])"
| "raw_key (RawCoinglassOptionsOIHistory r) = (''raw_coinglass_options_oi_history'', [oh_value_date r], [oh_symbol r, oh_exchange r])"
| "raw_key (RawCoinglassOptionsMaxPain r) = (''raw_coinglass_options_max_pain'', [mp_value_date r, mp_expiry r], [mp_symbol r, mp_exchange r])"
| "raw_key (RawDeribitOptionsChain r) = (''raw_deribit_options_chain'', [ch_value_date r], [ch_asset r, ch_instrument r])"
| "raw_key (RawCoinglassETFFlow r) = (''raw_coinglass_etf_flows'', [ef_value_date r], [ef_kind r])"
| "raw_key (RawGlassnodeLTHSupply r) = (''raw_glassnode_lth_supply'', [lh_value_date r], [lh_asset r])"
| "raw_key (RawGlassnodeMinerFlow r) = (''raw_glassnode_miner_flow'', [mn_value_date r], [mn_asset r])"
| "raw_key (RawCoinglassStablecoinMcap r) = (''raw_coinglass_stablecoin_mcap'', [sc_value_date r], [])"
| "raw_key (RawCoinglassExchangeBalance r) = (''raw_coinglass_exchange_balance'', [eb_value_date r], [eb_symbol r, eb_exchange r])"
| "raw_key (RawCoinglassBitfinexMargin r) = (''raw_coinglass_bitfinex_margin'', [bm_value_date r], [bm_symbol r])"
| "raw_key (RawCoinglassETFListItem r) = (''raw_coinglass_etf_list'', [et_value_date r], [et_ticker r])"
| "raw_key (RawCoinglassETFAUMHistory r) = (''raw_coinglass_etf_aum_history'', [ea_value_date r], [ea_ticker r])"

fun raw_hash :: "raw_row \<Rightarrow> string" where
  "raw_hash (RawExchangeOI r) = or_hash r"
| "raw_hash (RawExchangeFunding r) = fu_hash r"
| "raw_hash (RawExchangeLiquidations r) = lq_hash r"
| "raw_hash (RawCoinglassFuturesBasis r) = bs_hash r"
| "raw_hash (RawCoinglassLongShortRatio t r) = lr_hash r"
| "raw_hash (RawCoinglassTakerVolume r) = tk_hash r"
| "raw_hash (RawCoinglassBorrowRate r) = bo_hash r"
| "raw_hash (RawDeribitBasis r) = db_hash r"
| "raw_hash (RawBinanceKline r) = kl_hash r"
| "raw_hash (RawKrakenOHLC r) = ko_hash r"
| "raw_hash (RawCoinbaseCandle r) = cn_hash r"
| "raw_hash (RawCoinglassCoinbasePremium r) = pr_hash r"
| "raw_hash (RawCoinglassOrderbookAggregated r) = bk_hash r"
| "raw_hash (RawCoinglassFuturesSpotVolRatio r) = fq_hash r"
| "raw_hash (RawDeribitDVOL r) = dv_hash r"
| "raw_hash (RawCoinglassOptionsInfo r) = oq_hash r"
| "raw_hash (RawCoinglassOptionsOIHistory r) = oh_hash r"
| "raw_hash (RawCoinglassOptionsMaxPain r) = mp_hash r"
| "raw_hash (RawDeribitOptionsChain r) = ch_hash r"
| "raw_hash (RawCoinglassETFFlow r) = ef_hash r"
| "raw_hash (RawGlassnodeLTHSupply r) = lh_hash r"
| "raw_hash (RawGlassnodeMinerFlow r) = mn_hash r"
| "raw_hash (RawCoinglassStablecoinMcap r) = sc_hash r"
| "raw_hash (RawCoinglassExchangeBalance r) = eb_hash r"
| "raw_hash (RawCoinglassBitfinexMargin r) = bm_hash r"
| "raw_hash (RawCoinglassETFListItem r) = et_hash r"
| "raw_hash (RawCoinglassETFAUMHistory r) = ea_hash r"

definition insert_raw :: "gotime \<Rightarrow> raw_row \<Rightarrow> raw_row table \<Rightarrow> raw_row table" where
  "insert_raw now v t =
     (if \<exists>r\<in>set t. raw_key (r_val r) = raw_key v \<and> (raw_hash (r_val r) = raw_hash v \<or> r_ingested r = now) then t
      else t @ [\<lparr>r_ingested = now, r_val = v\<rparr>])"

definition exec_raw :: "raw_row \<Rightarrow> ('a world_scheme, unit) io" where
  "exec_raw r = db_write (\<lambda>w. Inr (w\<lparr>w_raws := insert_raw (w_txtime w) r (w_raws w)\<rparr>))"

text \<open>The rows of one table, in insertion order.\<close>

definition rows_of :: "(raw_row \<Rightarrow> 'x option) \<Rightarrow> raw_row table \<Rightarrow> 'x table" where
  "rows_of sel t = List.map_filter (\<lambda>r. map_option (\<lambda>x. \<lparr>r_ingested = r_ingested r, r_val = x\<rparr>) (sel (r_val r))) t"

definition oi_of :: "raw_row \<Rightarrow> oi_row option" where "oi_of r = (case r of RawExchangeOI x \<Rightarrow> Some x | _ \<Rightarrow> None)"
definition funding_of :: "raw_row \<Rightarrow> funding_row option" where "funding_of r = (case r of RawExchangeFunding x \<Rightarrow> Some x | _ \<Rightarrow> None)"
definition liqs_of :: "raw_row \<Rightarrow> liqs_row option" where "liqs_of r = (case r of RawExchangeLiquidations x \<Rightarrow> Some x | _ \<Rightarrow> None)"
definition basis_of :: "raw_row \<Rightarrow> basis_row option" where "basis_of r = (case r of RawCoinglassFuturesBasis x \<Rightarrow> Some x | _ \<Rightarrow> None)"
definition ls_of :: "string \<Rightarrow> raw_row \<Rightarrow> ls_row option" where
  "ls_of tbl r = (case r of RawCoinglassLongShortRatio t x \<Rightarrow> if t = tbl then Some x else None | _ \<Rightarrow> None)"
definition taker_of :: "raw_row \<Rightarrow> taker_row option" where "taker_of r = (case r of RawCoinglassTakerVolume x \<Rightarrow> Some x | _ \<Rightarrow> None)"
definition deribit_of :: "raw_row \<Rightarrow> deribit_basis_row option" where "deribit_of r = (case r of RawDeribitBasis x \<Rightarrow> Some x | _ \<Rightarrow> None)"
definition kline_of :: "raw_row \<Rightarrow> kline_row option" where "kline_of r = (case r of RawBinanceKline x \<Rightarrow> Some x | _ \<Rightarrow> None)"
definition ohlc_of :: "raw_row \<Rightarrow> ohlc_row option" where "ohlc_of r = (case r of RawKrakenOHLC x \<Rightarrow> Some x | _ \<Rightarrow> None)"
definition candle_of :: "raw_row \<Rightarrow> candle_row option" where "candle_of r = (case r of RawCoinbaseCandle x \<Rightarrow> Some x | _ \<Rightarrow> None)"
definition premium_of :: "raw_row \<Rightarrow> premium_row option" where "premium_of r = (case r of RawCoinglassCoinbasePremium x \<Rightarrow> Some x | _ \<Rightarrow> None)"
definition book_of :: "raw_row \<Rightarrow> book_row option" where "book_of r = (case r of RawCoinglassOrderbookAggregated x \<Rightarrow> Some x | _ \<Rightarrow> None)"
definition fsratio_of :: "raw_row \<Rightarrow> fsratio_row option" where "fsratio_of r = (case r of RawCoinglassFuturesSpotVolRatio x \<Rightarrow> Some x | _ \<Rightarrow> None)"
definition dvol_of :: "raw_row \<Rightarrow> dvol_row option" where "dvol_of r = (case r of RawDeribitDVOL x \<Rightarrow> Some x | _ \<Rightarrow> None)"
definition options_info_of :: "raw_row \<Rightarrow> options_info_row option" where "options_info_of r = (case r of RawCoinglassOptionsInfo x \<Rightarrow> Some x | _ \<Rightarrow> None)"
definition options_oi_of :: "raw_row \<Rightarrow> options_oi_row option" where "options_oi_of r = (case r of RawCoinglassOptionsOIHistory x \<Rightarrow> Some x | _ \<Rightarrow> None)"
definition max_pain_of :: "raw_row \<Rightarrow> max_pain_row option" where "max_pain_of r = (case r of RawCoinglassOptionsMaxPain x \<Rightarrow> Some x | _ \<Rightarrow> None)"
definition chain_of :: "raw_row \<Rightarrow> chain_row option" where "chain_of r = (case r of RawDeribitOptionsChain x \<Rightarrow> Some x | _ \<Rightarrow> None)"
definition etf_flow_of :: "raw_row \<Rightarrow> etf_flow_row option" where "etf_flow_of r = (case r of RawCoinglassETFFlow x \<Rightarrow> Some x | _ \<Rightarrow> None)"
definition lth_of :: "raw_row \<Rightarrow> lth_row option" where "lth_of r = (case r of RawGlassnodeLTHSupply x \<Rightarrow> Some x | _ \<Rightarrow> None)"
definition stable_mcap_of :: "raw_row \<Rightarrow> stable_mcap_row option" where "stable_mcap_of r = (case r of RawCoinglassStablecoinMcap x \<Rightarrow> Some x | _ \<Rightarrow> None)"
definition balance_of :: "raw_row \<Rightarrow> balance_row option" where "balance_of r = (case r of RawCoinglassExchangeBalance x \<Rightarrow> Some x | _ \<Rightarrow> None)"
definition margin_of :: "raw_row \<Rightarrow> margin_row option" where "margin_of r = (case r of RawCoinglassBitfinexMargin x \<Rightarrow> Some x | _ \<Rightarrow> None)"
definition etf_list_of :: "raw_row \<Rightarrow> etf_list_row option" where "etf_list_of r = (case r of RawCoinglassETFListItem x \<Rightarrow> Some x | _ \<Rightarrow> None)"
definition etf_aum_of :: "raw_row \<Rightarrow> etf_aum_row option" where "etf_aum_of r = (case r of RawCoinglassETFAUMHistory x \<Rightarrow> Some x | _ \<Rightarrow> None)"

text \<open>What SQL leaves to the database: the order of text keys, its averages and its NUMERIC sums.\<close>

record sql_lib =
  sq_order :: "string set \<Rightarrow> string list"
  sq_avg :: "f64 list \<Rightarrow> f64"
  sq_add :: "f64 \<Rightarrow> f64 \<Rightarrow> f64"
  sq_sum :: "f64 list \<Rightarrow> f64"

text \<open>\<open>SELECT DISTINCT ON (k) ... ORDER BY k, ingested_at DESC\<close>.\<close>

definition latest_each :: "(string set \<Rightarrow> string list) \<Rightarrow> ('x \<Rightarrow> string) \<Rightarrow> 'x table \<Rightarrow> 'x list" where
  "latest_each ord k t = List.map_filter (\<lambda>x. map_option r_val (latest (where_rows (\<lambda>v. k v = x) t))) (ord (set (map (k \<circ> r_val) t)))"

text \<open>\<open>total += v; n++\<close> over the scanned rows; \<open>n > 0\<close> is the flag.\<close>

definition scan_total :: "f64 list \<Rightarrow> f64 option" where
  "scan_total vs = (if vs = [] then None else Some (fsum vs))"

text \<open>A missing row is \<open>(0, false, nil)\<close>.\<close>

definition row_or_none :: "('a world_scheme \<Rightarrow> 'r option) \<Rightarrow> ('a world_scheme, 'r option) io" where
  "row_or_none f w = (case query_row f w of (Inl e, w') \<Rightarrow> if e = ErrNoRows then (Inr None, w') else (Inl e, w')
     | (Inr v, w') \<Rightarrow> (Inr (Some v), w'))"

text \<open>The shapes the queries of the three other domains share: the latest row, one row per day, one row per text key.\<close>

definition latest_raw :: "(raw_row \<Rightarrow> 'x option) \<Rightarrow> ('x \<Rightarrow> bool) \<Rightarrow> ('x \<Rightarrow> 'r) \<Rightarrow> gotime \<Rightarrow> ('a world_scheme, 'r option) io" where
  "latest_raw sel P f cutoff = row_or_none (\<lambda>w. map_option (f \<circ> r_val) (latest (as_of cutoff (where_rows P (rows_of sel (w_raws w))))))"

definition daily_raw :: "(raw_row \<Rightarrow> 'x option) \<Rightarrow> ('x \<Rightarrow> bool) \<Rightarrow> ('x \<Rightarrow> gotime) \<Rightarrow> ('x \<Rightarrow> 'r) \<Rightarrow> gotime \<Rightarrow> ('a world_scheme, 'r list) io" where
  "daily_raw sel P d f cutoff = query_plain (\<lambda>w. map f (latest_by d (as_of cutoff (where_rows P (rows_of sel (w_raws w))))))"

definition each_raw :: "sql_lib \<Rightarrow> (raw_row \<Rightarrow> 'x option) \<Rightarrow> ('x \<Rightarrow> bool) \<Rightarrow> ('x \<Rightarrow> string) \<Rightarrow> gotime \<Rightarrow> 'a world_scheme \<Rightarrow> 'x list" where
  "each_raw L sel P k cutoff w = latest_each (sq_order L) k (as_of cutoff (where_rows P (rows_of sel (w_raws w))))"

text \<open>\<open>SUM\<close> of no rows is NULL.\<close>

definition sum_col :: "sql_lib \<Rightarrow> f64 list \<Rightarrow> f64 option" where
  "sum_col L vs = (if vs = [] then None else Some (sq_sum L vs))"

text \<open>A row of aggregates always exists; what it says may be NULL.\<close>

definition aggregate_row :: "('a world_scheme \<Rightarrow> 'r option) \<Rightarrow> ('a world_scheme, 'r option) io" where
  "aggregate_row f = bindE (row_or_none (\<lambda>w. Some (f w))) (\<lambda>r. ret (case r of None \<Rightarrow> None | Some v \<Rightarrow> v))"

section \<open>Inserts\<close>

definition InsertRawExchangeOI :: "oi_row \<Rightarrow> ('a world_scheme, unit) io" where
  "InsertRawExchangeOI r = exec_raw (RawExchangeOI (r\<lparr>or_usd := num_col (or_usd r)\<rparr>))"

definition InsertRawExchangeFunding :: "funding_row \<Rightarrow> ('a world_scheme, unit) io" where
  "InsertRawExchangeFunding r = exec_raw (RawExchangeFunding r)"

definition InsertRawExchangeLiquidations :: "liqs_row \<Rightarrow> ('a world_scheme, unit) io" where
  "InsertRawExchangeLiquidations r = exec_raw (RawExchangeLiquidations (r\<lparr>lq_long := num_col (lq_long r), lq_short := num_col (lq_short r)\<rparr>))"

definition InsertRawCoinglassFuturesBasis :: "basis_row \<Rightarrow> ('a world_scheme, unit) io" where
  "InsertRawCoinglassFuturesBasis r = exec_raw (RawCoinglassFuturesBasis
     (r\<lparr>bs_annualized := num_col (bs_annualized r), bs_close := num_col (bs_close r)\<rparr>))"

definition LSRatioKind_table :: "ls_kind \<Rightarrow> string" where
  "LSRatioKind_table k = (if k = LSGlobal then ''raw_coinglass_long_short_global''
     else if k = LSTopAccount then ''raw_coinglass_long_short_top_account''
     else if k = LSTopPosition then ''raw_coinglass_long_short_top_position'' else [])"

definition InsertRawCoinglassLongShortRatio :: "ls_kind \<Rightarrow> ls_row \<Rightarrow> ('a world_scheme, unit) io" where
  "InsertRawCoinglassLongShortRatio kind r = (let tbl = LSRatioKind_table kind in
     if tbl = [] then throw (Fresh ''unknown LSRatioKind %q'' [AStr kind])
     else exec_raw (RawCoinglassLongShortRatio tbl
       (r\<lparr>lr_long := num_col (lr_long r), lr_short := num_col (lr_short r), lr_ratio := num_col (lr_ratio r)\<rparr>)))"

definition InsertRawCoinglassTakerVolume :: "taker_row \<Rightarrow> ('a world_scheme, unit) io" where
  "InsertRawCoinglassTakerVolume r = exec_raw (RawCoinglassTakerVolume (r\<lparr>tk_buy := num_col (tk_buy r), tk_sell := num_col (tk_sell r)\<rparr>))"

definition InsertRawCoinglassBorrowRate :: "borrow_row \<Rightarrow> ('a world_scheme, unit) io" where
  "InsertRawCoinglassBorrowRate r = exec_raw (RawCoinglassBorrowRate (r\<lparr>bo_rate := num_col (bo_rate r)\<rparr>))"

definition InsertRawDeribitBasis :: "deribit_basis_row \<Rightarrow> ('a world_scheme, unit) io" where
  "InsertRawDeribitBasis r = exec_raw (RawDeribitBasis r)"

section \<open>Queries\<close>

definition AggregatedOIAsOf :: "sql_lib \<Rightarrow> asset \<Rightarrow> gotime \<Rightarrow> gotime \<Rightarrow> ('a world_scheme, f64 option) io" where
  "AggregatedOIAsOf L a vd cutoff = query_plain (\<lambda>w. scan_total (map or_usd (latest_each (sq_order L) or_exchange
     (as_of cutoff (where_rows (\<lambda>x. or_asset x = a \<and> or_value_date x = vd \<and> or_exchange x \<noteq> ''coinglass_aggregated'')
        (rows_of oi_of (w_raws w)))))))"

definition CoinglassAggregatedOIAsOf :: "asset \<Rightarrow> gotime \<Rightarrow> gotime \<Rightarrow> ('a world_scheme, f64 option) io" where
  "CoinglassAggregatedOIAsOf a vd cutoff = row_or_none (\<lambda>w. map_option (or_usd \<circ> r_val) (latest
     (as_of cutoff (where_rows (\<lambda>x. or_asset x = a \<and> or_exchange x = ''coinglass_aggregated'' \<and> or_value_date x = vd)
        (rows_of oi_of (w_raws w))))))"

text \<open>
  The average of no rows is NULL, which does not scan; this and every other error of the query is
  \<open>(0, false, nil)\<close>.  The inner query has one row per exchange and funding time.
\<close>

definition q_funding :: "(string set \<Rightarrow> string list) \<Rightarrow> asset \<Rightarrow> gotime \<Rightarrow> funding_row table \<Rightarrow> gotime \<Rightarrow> f64 list" where
  "q_funding ord a vd t cutoff =
     (let u = as_of cutoff (where_rows (\<lambda>x. fu_asset x = a \<and> vd \<le> fu_time x \<and> fu_time x < add_days vd 1) t)
      in concat (map (\<lambda>e. map fu_rate (latest_by fu_time (where_rows (\<lambda>x. fu_exchange x = e) u)))
           (ord (set (map (fu_exchange \<circ> r_val) u)))))"

definition DailyAvgFundingAsOf :: "sql_lib \<Rightarrow> asset \<Rightarrow> gotime \<Rightarrow> gotime \<Rightarrow> ('a world_scheme, f64 option) io" where
  "DailyAvgFundingAsOf L a vd cutoff = bindE (attempt (query_row (\<lambda>w.
       let rates = q_funding (sq_order L) a vd (rows_of funding_of (w_raws w)) cutoff
       in if rates = [] then None else Some (sq_avg L rates))))
     (\<lambda>r. case r of Inl e \<Rightarrow> ret None | Inr v \<Rightarrow> ret (Some v))"

definition DailyTotalLiquidationsAsOf :: "sql_lib \<Rightarrow> asset \<Rightarrow> gotime \<Rightarrow> gotime \<Rightarrow> ('a world_scheme, f64 option) io" where
  "DailyTotalLiquidationsAsOf L a vd cutoff = query_plain (\<lambda>w. scan_total (map (\<lambda>x. sq_add L (lq_long x) (lq_short x))
     (latest_each (sq_order L) lq_exchange (as_of cutoff
        (where_rows (\<lambda>x. lq_asset x = a \<and> lq_value_date x = vd \<and> lq_exchange x \<noteq> ''coinglass_aggregated'')
           (rows_of liqs_of (w_raws w)))))))"

definition CoinglassAggregatedLiquidationsAsOf :: "sql_lib \<Rightarrow> asset \<Rightarrow> gotime \<Rightarrow> gotime \<Rightarrow> ('a world_scheme, f64 option) io" where
  "CoinglassAggregatedLiquidationsAsOf L a vd cutoff = row_or_none (\<lambda>w. map_option (\<lambda>r. sq_add L (lq_long (r_val r)) (lq_short (r_val r)))
     (latest (as_of cutoff (where_rows (\<lambda>x. lq_asset x = a \<and> lq_exchange x = ''coinglass_aggregated'' \<and> lq_value_date x = vd)
        (rows_of liqs_of (w_raws w))))))"

definition GetCoinglassFuturesBasisAsOf :: "string \<Rightarrow> string \<Rightarrow> gotime \<Rightarrow> gotime \<Rightarrow> ('a world_scheme, f64 option) io" where
  "GetCoinglassFuturesBasisAsOf smb exch vd cutoff = row_or_none (\<lambda>w. map_option (bs_annualized \<circ> r_val) (latest (as_of cutoff
     (where_rows (\<lambda>x. bs_symbol x = smb \<and> bs_exchange x = exch \<and> bs_value_date x = vd) (rows_of basis_of (w_raws w))))))"

definition GetCoinglassLSRatioAvgAsOf :: "sql_lib \<Rightarrow> ls_kind \<Rightarrow> string \<Rightarrow> gotime \<Rightarrow> gotime \<Rightarrow> ('a world_scheme, f64 option) io" where
  "GetCoinglassLSRatioAvgAsOf L kind smb vd cutoff = (let tbl = LSRatioKind_table kind in
     if tbl = [] then throw (Fresh ''unknown LSRatioKind %q'' [AStr kind])
     else bindE (query_row (\<lambda>w. Some (let ratios = map lr_ratio (latest_each (sq_order L) lr_exchange (as_of cutoff
            (where_rows (\<lambda>x. lr_symbol x = smb \<and> lr_value_date x = vd) (rows_of (ls_of tbl) (w_raws w)))))
          in if ratios = [] then None else Some (sq_avg L ratios)))) ret)"

definition GetCoinglassTakerVolumeAsOf :: "string \<Rightarrow> gotime \<Rightarrow> gotime \<Rightarrow> ('a world_scheme, (f64 \<times> f64) option) io" where
  "GetCoinglassTakerVolumeAsOf smb vd cutoff = row_or_none (\<lambda>w. map_option (\<lambda>r. (tk_buy (r_val r), tk_sell (r_val r))) (latest (as_of cutoff
     (where_rows (\<lambda>x. tk_symbol x = smb \<and> tk_value_date x = vd) (rows_of taker_of (w_raws w))))))"

definition GetDeribitBasisAsOf :: "asset \<Rightarrow> gotime \<Rightarrow> gotime \<Rightarrow> ('a world_scheme, f64 option) io" where
  "GetDeribitBasisAsOf a vd cutoff = row_or_none (\<lambda>w. map_option (db_annualized \<circ> r_val) (latest (as_of cutoff
     (where_rows (\<lambda>x. db_asset x = a \<and> db_value_date x = vd) (rows_of deribit_of (w_raws w))))))"

section \<open>Features by table\<close>

definition dtable :: "string \<Rightarrow> 'a world_scheme \<Rightarrow> feature table" where
  "dtable tbl w = List.map_filter (\<lambda>r. if fst (r_val r) = tbl then Some \<lparr>r_ingested = r_ingested r, r_val = snd (r_val r)\<rparr> else None) (w_dfeatures w)"

definition insert_feature :: "gotime \<Rightarrow> string \<times> feature \<Rightarrow> (string \<times> feature) table \<Rightarrow> (string \<times> feature) table" where
  "insert_feature now v t =
     (let k = (\<lambda>(tbl, f). (tbl, ft_value_date f, ft_asset f, ft_timeframe f, ft_key f)) in
      if \<exists>r\<in>set t. k (r_val r) = k v \<and> r_ingested r = now then t else t @ [\<lparr>r_ingested = now, r_val = v\<rparr>])"

definition InsertDomainFeature :: "string \<Rightarrow> feature \<Rightarrow> ('a world_scheme, unit) io" where
  "InsertDomainFeature tbl f = db_write (\<lambda>w. Inr (w\<lparr>w_dfeatures := insert_feature (w_txtime w) (tbl, f) (w_dfeatures w)\<rparr>))"

definition InsertLeverageFeature :: "feature \<Rightarrow> ('a world_scheme, unit) io" where
  "InsertLeverageFeature f = InsertDomainFeature ''features_leverage'' f"

definition GetLatestLeverageFeature :: "feature_key \<Rightarrow> asset \<Rightarrow> gotime \<Rightarrow> gotime \<Rightarrow> ('a world_scheme, f64) io" where
  "GetLatestLeverageFeature k a vd cutoff = query_row (\<lambda>w. q_feature k a vd (dtable ''features_leverage'' w) cutoff)"

definition GetLatestLeverageFeatureAnyVersion :: "string \<Rightarrow> asset \<Rightarrow> gotime \<Rightarrow> gotime \<Rightarrow> ('a world_scheme, f64) io" where
  "GetLatestLeverageFeatureAnyVersion name a vd cutoff = query_row (\<lambda>w. map_option (ft_value \<circ> r_val) (latest (as_of cutoff
     (where_rows (\<lambda>x. fk_name (ft_key x) = name \<and> ft_asset x = a \<and> ft_value_date x = vd) (dtable ''features_leverage'' w)))))"

definition GetLeverageFeatureSeries :: "feature_key \<Rightarrow> asset \<Rightarrow> gotime \<Rightarrow> gotime \<Rightarrow> gotime \<Rightarrow> ('a world_scheme, f64 list) io" where
  "GetLeverageFeatureSeries k a from to cutoff = query_plain (\<lambda>w. q_feature_series k a from to (dtable ''features_leverage'' w) cutoff)"

section \<open>What these operations keep\<close>

lemma insert_raw_appends: "appends (\<lambda>x. x = now) t (insert_raw now v t)"
  by (auto simp: insert_raw_def appends_def)

lemma insert_feature_appends: "appends (\<lambda>x. x = now) t (insert_feature now v t)"
  by (auto simp: insert_feature_def appends_def Let_def)

lemma in_tx_exec_raw: "obeys in_tx (exec_raw r)"
  unfolding exec_raw_def by (rule in_tx_db_write) (auto simp: in_tx_simps insert_raw_appends)

lemma in_tx_InsertDomainFeature: "obeys in_tx (InsertDomainFeature tbl f)"
  unfolding InsertDomainFeature_def by (rule in_tx_db_write) (auto simp: in_tx_simps insert_feature_appends)

lemma frozen_row_or_none [simp]: "frozen (snd (row_or_none f w)) = frozen w"
  using frozen_query_row[of f w]
  by (cases "query_row f w"; cases "fst (query_row f w)") (simp_all add: row_or_none_def del: frozen_query_row)

lemma in_tx_row_or_none: "obeys in_tx (row_or_none f)"
proof -
  have "row_or_none f = (\<lambda>w. case query_row f w of
      (Inl e, w') \<Rightarrow> (if e = ErrNoRows then ret None else throw e) w' | (Inr v, w') \<Rightarrow> ret (Some v) w')"
    by (rule ext) (auto simp: row_or_none_def split: prod.splits sum.splits)
  then show ?thesis by (simp only:) (intro itx.obeys_case in_tx_query_row itx.obeys_rules)
qed

lemma as_of_dtable: "as_of c (dtable tbl w) =
    List.map_filter (\<lambda>r. if fst (r_val r) = tbl then Some \<lparr>r_ingested = r_ingested r, r_val = snd (r_val r)\<rparr> else None) (as_of c (w_dfeatures w))"
proof -
  have "as_of c (List.map_filter (\<lambda>r. if fst (r_val r) = tbl then Some \<lparr>r_ingested = r_ingested r, r_val = snd (r_val r)\<rparr> else None) t) =
    List.map_filter (\<lambda>r. if fst (r_val r) = tbl then Some \<lparr>r_ingested = r_ingested r, r_val = snd (r_val r)\<rparr> else None) (as_of c t)"
    for t :: "(string \<times> feature) table"
    by (induction t) auto
  then show ?thesis by (simp add: dtable_def)
qed

end
