(* ===== verification/StorageDomains.thy ===== *)
theory StorageDomains
  imports StorageLeverage
begin

text \<open>
  \<open>internal/storage\<close>: the raw rows and the features of the market stress (\<open>market_stress.go\<close>), volatility
  (\<open>volatility.go\<close>) and capital flows (\<open>capital_flows.go\<close>) domains, over the shared heap of raw rows.
  Columns of type NUMERIC store no negative zero; \<open>expiry_date\<close> is a DATE.
\<close>

section \<open>Market stress\<close>

definition InsertRawKrakenOHLC :: "ohlc_row \<Rightarrow> ('a world_scheme, unit) io" where
  "InsertRawKrakenOHLC r = exec_raw (RawKrakenOHLC r)"

definition GetKrakenCloseAsOf :: "string \<Rightarrow> gotime \<Rightarrow> gotime \<Rightarrow> ('a world_scheme, f64 option) io" where
  "GetKrakenCloseAsOf pair vd cutoff = latest_raw ohlc_of (\<lambda>x. ko_pair x = pair \<and> ko_value_date x = vd) ko_close cutoff"

definition InsertRawCoinbaseCandle :: "candle_row \<Rightarrow> ('a world_scheme, unit) io" where
  "InsertRawCoinbaseCandle r = exec_raw (RawCoinbaseCandle r)"

definition GetCoinbaseCloseAsOf :: "string \<Rightarrow> gotime \<Rightarrow> gotime \<Rightarrow> ('a world_scheme, f64 option) io" where
  "GetCoinbaseCloseAsOf product vd cutoff = latest_raw candle_of (\<lambda>x. cn_product x = product \<and> cn_value_date x = vd) cn_close cutoff"

definition InsertRawBinanceKline :: "kline_row \<Rightarrow> ('a world_scheme, unit) io" where
  "InsertRawBinanceKline r = exec_raw (RawBinanceKline r)"

definition GetBinanceKlineCloseAsOf :: "string \<Rightarrow> gotime \<Rightarrow> gotime \<Rightarrow> ('a world_scheme, f64 option) io" where
  "GetBinanceKlineCloseAsOf smb vd cutoff = latest_raw kline_of (\<lambda>x. kl_symbol x = smb \<and> kl_value_date x = vd) kl_close cutoff"

definition GetBinanceKlineCloseSeries :: "string \<Rightarrow> gotime \<Rightarrow> gotime \<Rightarrow> gotime \<Rightarrow> ('a world_scheme, f64 list) io" where
  "GetBinanceKlineCloseSeries smb from to cutoff =
     daily_raw kline_of (\<lambda>x. kl_symbol x = smb \<and> from \<le> kl_value_date x \<and> kl_value_date x \<le> to) kl_value_date kl_close cutoff"

definition InsertRawCoinglassCoinbasePremium :: "premium_row \<Rightarrow> ('a world_scheme, unit) io" where
  "InsertRawCoinglassCoinbasePremium r = exec_raw (RawCoinglassCoinbasePremium
     (r\<lparr>pr_usd := num_col (pr_usd r), pr_rate := num_col (pr_rate r), pr_coinbase := num_col (pr_coinbase r)\<rparr>))"

definition GetCoinglassCoinbasePremiumRateAsOf :: "gotime \<Rightarrow> gotime \<Rightarrow> ('a world_scheme, f64 option) io" where
  "GetCoinglassCoinbasePremiumRateAsOf vd cutoff = latest_raw premium_of (\<lambda>x. pr_value_date x = vd) pr_rate cutoff"

definition InsertRawCoinglassOrderbookAggregated :: "book_row \<Rightarrow> ('a world_scheme, unit) io" where
  "InsertRawCoinglassOrderbookAggregated r = exec_raw (RawCoinglassOrderbookAggregated
     (r\<lparr>bk_range := (if bk_range r = [] then ''1'' else bk_range r), bk_bids_usd := num_col (bk_bids_usd r),
        bk_bids_qty := num_col (bk_bids_qty r), bk_asks_usd := num_col (bk_asks_usd r), bk_asks_qty := num_col (bk_asks_qty r)\<rparr>))"

text \<open>\<open>denom := a + b; if denom <= 0 ... (a - b) / denom\<close>.\<close>

definition imbalance :: "f64 \<times> f64 \<Rightarrow> f64 option" where
  "imbalance p = (let (a, b) = p; denom = fadd a b in if fle denom fzero then None else Some (fdiv (fsub a b) denom))"

definition GetCoinglassOrderbookImbalanceAsOf :: "string \<Rightarrow> gotime \<Rightarrow> gotime \<Rightarrow> ('a world_scheme, f64 option) io" where
  "GetCoinglassOrderbookImbalanceAsOf smb vd cutoff =
     bindE (latest_raw book_of (\<lambda>x. bk_symbol x = smb \<and> bk_range x = ''1'' \<and> bk_value_date x = vd)
       (\<lambda>x. (bk_bids_usd x, bk_asks_usd x)) cutoff)
     (\<lambda>r. ret (case r of None \<Rightarrow> None | Some p \<Rightarrow> imbalance p))"

definition InsertRawCoinglassFuturesSpotVolRatio :: "fsratio_row \<Rightarrow> ('a world_scheme, unit) io" where
  "InsertRawCoinglassFuturesSpotVolRatio r = exec_raw (RawCoinglassFuturesSpotVolRatio
     (r\<lparr>fq_ratio := num_col (fq_ratio r), fq_futures := num_col (fq_futures r), fq_spot := num_col (fq_spot r)\<rparr>))"

definition GetCoinglassFuturesSpotRatioAsOf :: "string \<Rightarrow> gotime \<Rightarrow> gotime \<Rightarrow> ('a world_scheme, f64 option) io" where
  "GetCoinglassFuturesSpotRatioAsOf smb vd cutoff = latest_raw fsratio_of (\<lambda>x. fq_symbol x = smb \<and> fq_value_date x = vd) fq_ratio cutoff"

definition InsertMarketStressFeature :: "feature \<Rightarrow> ('a world_scheme, unit) io" where
  "InsertMarketStressFeature f = InsertDomainFeature ''features_market_stress'' f"

definition GetLatestMarketStressFeature :: "feature_key \<Rightarrow> asset \<Rightarrow> gotime \<Rightarrow> gotime \<Rightarrow> ('a world_scheme, f64) io" where
  "GetLatestMarketStressFeature k a vd cutoff = query_row (\<lambda>w. q_feature k a vd (dtable ''features_market_stress'' w) cutoff)"

definition GetMarketStressFeatureSeries :: "feature_key \<Rightarrow> asset \<Rightarrow> gotime \<Rightarrow> gotime \<Rightarrow> gotime \<Rightarrow> ('a world_scheme, f64 list) io" where
  "GetMarketStressFeatureSeries k a from to cutoff = query_plain (\<lambda>w. q_feature_series k a from to (dtable ''features_market_stress'' w) cutoff)"

section \<open>Volatility\<close>

definition InsertRawDeribitDVOL :: "dvol_row \<Rightarrow> ('a world_scheme, unit) io" where
  "InsertRawDeribitDVOL r = exec_raw (RawDeribitDVOL r)"

definition GetDVOLCloseAsOf :: "asset \<Rightarrow> gotime \<Rightarrow> gotime \<Rightarrow> ('a world_scheme, f64 option) io" where
  "GetDVOLCloseAsOf a vd cutoff = latest_raw dvol_of (\<lambda>x. dv_asset x = a \<and> dv_value_date x = vd) dv_close cutoff"

definition GetDVOLCloseSeries :: "asset \<Rightarrow> gotime \<Rightarrow> gotime \<Rightarrow> gotime \<Rightarrow> ('a world_scheme, f64 list) io" where
  "GetDVOLCloseSeries a from to cutoff =
     daily_raw dvol_of (\<lambda>x. dv_asset x = a \<and> from \<le> dv_value_date x \<and> dv_value_date x \<le> to) dv_value_date dv_close cutoff"

text \<open>\<open>for i := 1; i < len(closes); i++\<close>: a step from a price that is not positive is left out.\<close>

fun kline_returns :: "libm \<Rightarrow> f64 list \<Rightarrow> f64 list" where
  "kline_returns M (p # q # ps) =
     (if fle p fzero then kline_returns M (q # ps) else m_log M (fdiv q p) # kline_returns M (q # ps))"
| "kline_returns M ps = []"

text \<open>The annualised sample standard deviation of at least ten log returns of at least twenty closes, in percent.\<close>

definition realized_vol :: "libm \<Rightarrow> f64 list \<Rightarrow> f64 option" where
  "realized_vol M closes =
     (if length closes < 20 then None
      else let rs = kline_returns M closes in
        if length rs < 10 then None
        else let mean = fdiv (fsum rs) (flen rs);
                 sumSq = foldl (\<lambda>s r. let d = fsub r mean in fadd s (fmul d d)) fzero rs;
                 std = fsqrt (fdiv sumSq (f_of_int (int (length rs) - 1)))
             in Some (fmul (fmul std (fsqrt (lit 365))) (lit 100)))"

definition RealizedVol30d :: "libm \<Rightarrow> string \<Rightarrow> gotime \<Rightarrow> gotime \<Rightarrow> ('a world_scheme, f64 option) io" where
  "RealizedVol30d M smb vd cutoff =
     bindE (GetBinanceKlineCloseSeries smb (add_days vd (- 30)) vd cutoff) (\<lambda>closes. ret (realized_vol M closes))"

definition InsertRawCoinglassOptionsInfo :: "options_info_row \<Rightarrow> ('a world_scheme, unit) io" where
  "InsertRawCoinglassOptionsInfo r = exec_raw (RawCoinglassOptionsInfo
     (r\<lparr>oq_oi := num_col (oq_oi r), oq_share := num_col (oq_share r), oq_change24h := num_col (oq_change24h r),
        oq_oi_usd := num_col (oq_oi_usd r), oq_volume := num_col (oq_volume r), oq_volume_change := num_col (oq_volume_change r),
        oq_call_oi := num_col (oq_call_oi r), oq_put_oi := num_col (oq_put_oi r)\<rparr>))"

definition put_call :: "f64 option \<times> f64 option \<Rightarrow> f64 option" where
  "put_call p = (case p of (Some c, Some q) \<Rightarrow> if fle c fzero then None else Some (fdiv q c) | _ \<Rightarrow> None)"

definition GetCoinglassOptionsPutCallRatioAsOf :: "sql_lib \<Rightarrow> string \<Rightarrow> gotime \<Rightarrow> gotime \<Rightarrow> ('a world_scheme, f64 option) io" where
  "GetCoinglassOptionsPutCallRatioAsOf L smb vd cutoff =
     aggregate_row (\<lambda>w. let rows = each_raw L options_info_of (\<lambda>x. oq_symbol x = smb \<and> oq_value_date x = vd) oq_exchange cutoff w
        in put_call (sum_col L (map oq_call_oi rows), sum_col L (map oq_put_oi rows)))"

definition InsertRawCoinglassOptionsOIHistory :: "options_oi_row \<Rightarrow> ('a world_scheme, unit) io" where
  "InsertRawCoinglassOptionsOIHistory r = exec_raw (RawCoinglassOptionsOIHistory (r\<lparr>oh_oi := num_col (oh_oi r)\<rparr>))"

definition GetCoinglassOptionsAggregatedOIAsOf :: "sql_lib \<Rightarrow> string \<Rightarrow> gotime \<Rightarrow> gotime \<Rightarrow> ('a world_scheme, f64 option) io" where
  "GetCoinglassOptionsAggregatedOIAsOf L smb vd cutoff =
     aggregate_row (\<lambda>w. sum_col L (map oh_oi (each_raw L options_oi_of (\<lambda>x. oh_symbol x = smb \<and> oh_value_date x = vd) oh_exchange cutoff w)))"

definition InsertRawCoinglassOptionsMaxPain :: "max_pain_row \<Rightarrow> ('a world_scheme, unit) io" where
  "InsertRawCoinglassOptionsMaxPain r = exec_raw (RawCoinglassOptionsMaxPain
     (r\<lparr>mp_expiry := UTCDay (mp_expiry r), mp_price := num_col (mp_price r), mp_call_oi := num_col (mp_call_oi r),
        mp_put_oi := num_col (mp_put_oi r), mp_call_usd := num_col (mp_call_usd r), mp_put_usd := num_col (mp_put_usd r),
        mp_call_value := num_col (mp_call_value r), mp_put_value := num_col (mp_put_value r)\<rparr>))"

text \<open>\<open>ORDER BY expiry_date ASC, ingested_at DESC LIMIT 1\<close>: the head of the latest rows of each expiry.\<close>

definition nearest_expiry :: "string \<Rightarrow> string \<Rightarrow> gotime \<Rightarrow> (max_pain_row \<Rightarrow> 'r) \<Rightarrow> gotime \<Rightarrow> ('a world_scheme, 'r option) io" where
  "nearest_expiry smb exch vd f cutoff = row_or_none (\<lambda>w.
     case latest_by mp_expiry (as_of cutoff (where_rows (\<lambda>x. mp_symbol x = smb \<and> mp_exchange x = exch \<and> mp_value_date x = vd \<and> vd \<le> mp_expiry x)
       (rows_of max_pain_of (w_raws w)))) of [] \<Rightarrow> None | r # _ \<Rightarrow> Some (f r))"

definition GetCoinglassOptionsMaxPainNearestAsOf :: "string \<Rightarrow> string \<Rightarrow> gotime \<Rightarrow> gotime \<Rightarrow> ('a world_scheme, f64 option) io" where
  "GetCoinglassOptionsMaxPainNearestAsOf smb exch vd cutoff = nearest_expiry smb exch vd mp_price cutoff"

definition GetCoinglassOptionsDealerSkewProxyAsOf :: "string \<Rightarrow> string \<Rightarrow> gotime \<Rightarrow> gotime \<Rightarrow> ('a world_scheme, f64 option) io" where
  "GetCoinglassOptionsDealerSkewProxyAsOf smb exch vd cutoff =
     bindE (nearest_expiry smb exch vd (\<lambda>x. (mp_call_usd x, mp_put_usd x)) cutoff)
     (\<lambda>r. ret (case r of None \<Rightarrow> None | Some p \<Rightarrow> imbalance p))"

definition InsertRawDeribitOptionsChain :: "chain_row \<Rightarrow> ('a world_scheme, unit) io" where
  "InsertRawDeribitOptionsChain r = exec_raw (RawDeribitOptionsChain
     (r\<lparr>ch_expiry := UTCDay (ch_expiry r), ch_strike := num_col (ch_strike r), ch_oi := num_col (ch_oi r), ch_iv := num_col (ch_iv r),
        ch_underlying := num_col (ch_underlying r)\<rparr>))"

record chain_point =
  cp_expiry :: gotime
  cp_strike :: f64
  cp_put :: bool
  cp_oi :: f64
  cp_iv :: f64
  cp_underlying :: f64

definition chain_point_of :: "chain_row \<Rightarrow> chain_point" where
  "chain_point_of x = \<lparr>cp_expiry = ch_expiry x, cp_strike = ch_strike x, cp_put = ch_put x, cp_oi = ch_oi x, cp_iv = ch_iv x,
     cp_underlying = ch_underlying x\<rparr>"

definition GetDeribitOptionsChainAsOf :: "sql_lib \<Rightarrow> asset \<Rightarrow> gotime \<Rightarrow> gotime \<Rightarrow> ('a world_scheme, chain_point list) io" where
  "GetDeribitOptionsChainAsOf L a vd cutoff =
     query_plain (\<lambda>w. map chain_point_of (each_raw L chain_of (\<lambda>x. ch_asset x = a \<and> ch_value_date x = vd) ch_instrument cutoff w))"

definition InsertVolatilityFeature :: "feature \<Rightarrow> ('a world_scheme, unit) io" where
  "InsertVolatilityFeature f = InsertDomainFeature ''features_volatility'' f"

definition GetLatestVolatilityFeature :: "feature_key \<Rightarrow> asset \<Rightarrow> gotime \<Rightarrow> gotime \<Rightarrow> ('a world_scheme, f64) io" where
  "GetLatestVolatilityFeature k a vd cutoff = query_row (\<lambda>w. q_feature k a vd (dtable ''features_volatility'' w) cutoff)"

definition GetVolatilityFeatureSeries :: "feature_key \<Rightarrow> asset \<Rightarrow> gotime \<Rightarrow> gotime \<Rightarrow> gotime \<Rightarrow> ('a world_scheme, f64 list) io" where
  "GetVolatilityFeatureSeries k a from to cutoff = query_plain (\<lambda>w. q_feature_series k a from to (dtable ''features_volatility'' w) cutoff)"

section \<open>Capital flows\<close>

definition InsertRawCoinglassETFFlow :: "etf_flow_row \<Rightarrow> ('a world_scheme, unit) io" where
  "InsertRawCoinglassETFFlow r = exec_raw (RawCoinglassETFFlow r)"

definition CombinedETFFlowAsOf :: "sql_lib \<Rightarrow> gotime \<Rightarrow> gotime \<Rightarrow> ('a world_scheme, f64 option) io" where
  "CombinedETFFlowAsOf L vd cutoff =
     query_plain (\<lambda>w. scan_total (map ef_usd (each_raw L etf_flow_of (\<lambda>x. ef_value_date x = vd) ef_kind cutoff w)))"

definition InsertRawGlassnodeLTHSupply :: "lth_row \<Rightarrow> ('a world_scheme, unit) io" where
  "InsertRawGlassnodeLTHSupply r = exec_raw (RawGlassnodeLTHSupply r)"

definition GetLTHSupplyAsOf :: "asset \<Rightarrow> gotime \<Rightarrow> gotime \<Rightarrow> ('a world_scheme, f64) io" where
  "GetLTHSupplyAsOf a vd cutoff = query_row (\<lambda>w. map_option (lh_supply \<circ> r_val) (latest (as_of cutoff
     (where_rows (\<lambda>x. lh_asset x = a \<and> lh_value_date x = vd) (rows_of lth_of (w_raws w))))))"

definition GetLTHSupplySeries :: "asset \<Rightarrow> gotime \<Rightarrow> gotime \<Rightarrow> gotime \<Rightarrow> ('a world_scheme, f64 list) io" where
  "GetLTHSupplySeries a from to cutoff =
     daily_raw lth_of (\<lambda>x. lh_asset x = a \<and> from \<le> lh_value_date x \<and> lh_value_date x \<le> to) lh_value_date lh_supply cutoff"

definition InsertRawGlassnodeMinerFlow :: "miner_row \<Rightarrow> ('a world_scheme, unit) io" where
  "InsertRawGlassnodeMinerFlow r = exec_raw (RawGlassnodeMinerFlow r)"

definition InsertCapitalFlowsFeature :: "feature \<Rightarrow> ('a world_scheme, unit) io" where
  "InsertCapitalFlowsFeature f = InsertDomainFeature ''features_capital_flows'' f"

definition GetLatestCapitalFlowsFeature :: "feature_key \<Rightarrow> asset \<Rightarrow> gotime \<Rightarrow> gotime \<Rightarrow> ('a world_scheme, f64) io" where
  "GetLatestCapitalFlowsFeature k a vd cutoff = query_row (\<lambda>w. q_feature k a vd (dtable ''features_capital_flows'' w) cutoff)"

definition GetCapitalFlowsFeatureSeries :: "feature_key \<Rightarrow> asset \<Rightarrow> gotime \<Rightarrow> gotime \<Rightarrow> gotime \<Rightarrow> ('a world_scheme, f64 list) io" where
  "GetCapitalFlowsFeatureSeries k a from to cutoff = query_plain (\<lambda>w. q_feature_series k a from to (dtable ''features_capital_flows'' w) cutoff)"

definition InsertRawCoinglassStablecoinMcap :: "stable_mcap_row \<Rightarrow> ('a world_scheme, unit) io" where
  "InsertRawCoinglassStablecoinMcap r = exec_raw (RawCoinglassStablecoinMcap (r\<lparr>sc_cap := num_col (sc_cap r), sc_price := num_col (sc_price r)\<rparr>))"

definition GetCoinglassStablecoinMcapAsOf :: "gotime \<Rightarrow> gotime \<Rightarrow> ('a world_scheme, f64 option) io" where
  "GetCoinglassStablecoinMcapAsOf vd cutoff = latest_raw stable_mcap_of (\<lambda>x. sc_value_date x = vd) sc_cap cutoff"

definition GetCoinglassStablecoinMcapSeries :: "gotime \<Rightarrow> gotime \<Rightarrow> gotime \<Rightarrow> ('a world_scheme, f64 list) io" where
  "GetCoinglassStablecoinMcapSeries from to cutoff =
     daily_raw stable_mcap_of (\<lambda>x. from \<le> sc_value_date x \<and> sc_value_date x \<le> to) sc_value_date sc_cap cutoff"

definition InsertRawCoinglassExchangeBalance :: "balance_row \<Rightarrow> ('a world_scheme, unit) io" where
  "InsertRawCoinglassExchangeBalance r = exec_raw (RawCoinglassExchangeBalance
     (r\<lparr>eb_total := num_col (eb_total r), eb_change1d := num_col (eb_change1d r), eb_change7d := num_col (eb_change7d r),
        eb_change30d := num_col (eb_change30d r), eb_pct1d := num_col (eb_pct1d r), eb_pct7d := num_col (eb_pct7d r),
        eb_pct30d := num_col (eb_pct30d r)\<rparr>))"

definition getExchangeBalanceChangeSumAsOf :: "sql_lib \<Rightarrow> string \<Rightarrow> gotime \<Rightarrow> gotime \<Rightarrow> (balance_row \<Rightarrow> f64) \<Rightarrow> ('a world_scheme, f64 option) io" where
  "getExchangeBalanceChangeSumAsOf L smb vd cutoff column =
     aggregate_row (\<lambda>w. sum_col L (map column (each_raw L balance_of (\<lambda>x. eb_symbol x = smb \<and> eb_value_date x = vd) eb_exchange cutoff w)))"

definition GetCoinglassExchangeBalanceChange7dSumAsOf :: "sql_lib \<Rightarrow> string \<Rightarrow> gotime \<Rightarrow> gotime \<Rightarrow> ('a world_scheme, f64 option) io" where
  "GetCoinglassExchangeBalanceChange7dSumAsOf L smb vd cutoff = getExchangeBalanceChangeSumAsOf L smb vd cutoff eb_change7d"

definition GetCoinglassExchangeBalanceChange30dSumAsOf :: "sql_lib \<Rightarrow> string \<Rightarrow> gotime \<Rightarrow> gotime \<Rightarrow> ('a world_scheme, f64 option) io" where
  "GetCoinglassExchangeBalanceChange30dSumAsOf L smb vd cutoff = getExchangeBalanceChangeSumAsOf L smb vd cutoff eb_change30d"

definition InsertRawCoinglassBitfinexMargin :: "margin_row \<Rightarrow> ('a world_scheme, unit) io" where
  "InsertRawCoinglassBitfinexMargin r = exec_raw (RawCoinglassBitfinexMargin (r\<lparr>bm_long := num_col (bm_long r), bm_short := num_col (bm_short r)\<rparr>))"

definition GetCoinglassBitfinexMarginAsOf :: "string \<Rightarrow> gotime \<Rightarrow> gotime \<Rightarrow> ('a world_scheme, (f64 \<times> f64) option) io" where
  "GetCoinglassBitfinexMarginAsOf smb vd cutoff =
     latest_raw margin_of (\<lambda>x. bm_symbol x = smb \<and> bm_value_date x = vd) (\<lambda>x. (bm_long x, bm_short x)) cutoff"

definition InsertRawCoinglassETFListItem :: "etf_list_row \<Rightarrow> ('a world_scheme, unit) io" where
  "InsertRawCoinglassETFListItem r = exec_raw (RawCoinglassETFListItem
     (r\<lparr>et_shares := num_col (et_shares r), et_aum := num_col (et_aum r), et_fee := num_col (et_fee r), et_volume := num_col (et_volume r),
        et_price_change := num_col (et_price_change r), et_nav := num_col (et_nav r), et_premium := num_col (et_premium r),
        et_holding := num_col (et_holding r), et_pct24h := num_col (et_pct24h r), et_qty24h := num_col (et_qty24h r),
        et_pct7d := num_col (et_pct7d r), et_qty7d := num_col (et_qty7d r)\<rparr>))"

definition GetCoinglassETFListAUMTotalAsOf :: "sql_lib \<Rightarrow> gotime \<Rightarrow> gotime \<Rightarrow> ('a world_scheme, f64 option) io" where
  "GetCoinglassETFListAUMTotalAsOf L vd cutoff =
     aggregate_row (\<lambda>w. sum_col L (map et_aum (each_raw L etf_list_of (\<lambda>x. et_value_date x = vd) et_ticker cutoff w)))"

text \<open>The Herfindahl index of the funds with assets.\<close>

definition hhi_of :: "f64 list \<Rightarrow> f64 option" where
  "hhi_of vs =
     (let aums = filter (\<lambda>a. flt fzero a) vs; total = fsum aums
      in if fle total fzero \<or> aums = [] then None
         else Some (foldl (\<lambda>h a. let s = fdiv a total in fadd h (fmul s s)) fzero aums))"

definition GetCoinglassETFListConcentrationHHIAsOf :: "sql_lib \<Rightarrow> gotime \<Rightarrow> gotime \<Rightarrow> ('a world_scheme, f64 option) io" where
  "GetCoinglassETFListConcentrationHHIAsOf L vd cutoff =
     query_plain (\<lambda>w. hhi_of (map et_aum (each_raw L etf_list_of (\<lambda>x. et_value_date x = vd) et_ticker cutoff w)))"

definition InsertRawCoinglassETFAUMHistory :: "etf_aum_row \<Rightarrow> ('a world_scheme, unit) io" where
  "InsertRawCoinglassETFAUMHistory r = exec_raw (RawCoinglassETFAUMHistory (r\<lparr>ea_aum := num_col (ea_aum r)\<rparr>))"

definition positive_total :: "f64 option \<Rightarrow> f64 option" where
  "positive_total r = (case r of None \<Rightarrow> None | Some v \<Rightarrow> if fle v fzero then None else Some v)"

definition GetCoinglassETFAUMHistoryTotalAsOf :: "sql_lib \<Rightarrow> gotime \<Rightarrow> gotime \<Rightarrow> ('a world_scheme, f64 option) io" where
  "GetCoinglassETFAUMHistoryTotalAsOf L vd cutoff =
     aggregate_row (\<lambda>w. positive_total (sum_col L (map ea_aum (each_raw L etf_aum_of (\<lambda>x. ea_value_date x = vd) ea_ticker cutoff w))))"

end
