(* ===== verification/PgScores.thy ===== *)
theory PgScores
  imports FeatureLib PgRegime StorageDomains
begin

text \<open>
  What the postgres repositories of the five domains share, and what follows for their services: the
  score repository, the steps that append without touching the scores or the features, a database
  without faults, and the locale \<open>scored_run\<close> of a run that ingests, reads the clock once, derives features,
  gathers inputs and stores one score per asset.
\<close>

section \<open>Repositories\<close>

text \<open>\<open>pgx.ErrNoRows\<close> from the transaction becomes \<open>domain.ErrNotFound\<close>.\<close>

definition InTx_found :: "('a world_scheme, 'r) io \<Rightarrow> ('a world_scheme, 'r) io" where
  "InTx_found body w = (case InTx body w of
       (Inl e, w') \<Rightarrow> if errors_Is e ErrNoRows then (Inl ErrNotFound, w') else (Inl e, w')
     | (Inr x, w') \<Rightarrow> (Inr x, w'))"

definition ScoreRepo_Save :: "domain_score \<Rightarrow> ('a world_scheme, unit) io" where
  "ScoreRepo_Save s = (case DomainScore_Validate s of Some e \<Rightarrow> throw (Wrap ''invalid score'' [] e)
     | None \<Rightarrow> InTx (InsertDomainScore s))"

text \<open>A feature repository over one of the tables, as each domain has it.\<close>

definition FeatureRepo_Save :: "(feature \<Rightarrow> ('a world_scheme, unit) io) \<Rightarrow> feature \<Rightarrow> ('a world_scheme, unit) io" where
  "FeatureRepo_Save ins f = (case Feature_Validate f of Some e \<Rightarrow> throw (Wrap ''invalid feature'' [] e) | None \<Rightarrow> InTx (ins f))"

section \<open>Steps that leave a table alone\<close>

definition same_sel :: "('w \<Rightarrow> 'x) \<Rightarrow> 'w \<Rightarrow> 'w \<Rightarrow> bool" where
  "same_sel f w w' \<longleftrightarrow> f w' = f w"

interpretation ss: io_rel "same_sel f"
  by unfold_locales (simp_all add: same_sel_def)

locale table_sel =
  fixes f :: "'a world_scheme \<Rightarrow> 'x"
  assumes ticks: "f (w\<lparr>w_ticks := n\<rparr>) = f w" and txtime: "f (w\<lparr>w_txtime := t\<rparr>) = f w"
begin

lemma on_frozen: "f (frozen w) = f w"
  by (simp add: frozen_def ticks txtime)

lemma on_read: "(\<And>w. frozen (snd (m w)) = frozen w) \<Longrightarrow> obeys (same_sel f) m"
  unfolding obeys_def same_sel_def by (metis on_frozen)

lemma on_write: "(\<And>w w'. g w = Inr w' \<Longrightarrow> f w' = f w) \<Longrightarrow> obeys (same_sel f) (db_write g)"
  unfolding db_write_def
proof (rule ss.obeys_bindE[OF on_read[OF frozen_db_op]], rule obeysI)
  fix w assume a: "\<And>w w'. g w = Inr w' \<Longrightarrow> f w' = f w"
  show "same_sel f w (snd (case g w of Inl e \<Rightarrow> (Inl e, w) | Inr w' \<Rightarrow> (Inr (), w')))"
    using a[of w] by (cases "g w") (auto simp: same_sel_def)
qed

lemma on_InTx: "obeys (same_sel f) b \<Longrightarrow> obeys (same_sel f) (InTx b)"
proof (rule obeysI)
  fix w assume b: "obeys (same_sel f) b"
  show "same_sel f w (snd (InTx b w))"
  proof (cases "InTx b w")
    case (Pair r w')
    show ?thesis
    proof (cases r)
      case (Inl e)
      then have "frozen w' = frozen w" using Pair InTx_error by simp
      then show ?thesis using Pair on_frozen[of w] on_frozen[of w'] by (simp add: same_sel_def)
    next
      case (Inr x)
      then have "InTx b w = (Inr x, w')" using Pair by simp
      then obtain w1 w2 where w: "w1 = w\<lparr>w_txtime := w_clock w (w_ticks w), w_ticks := Suc (w_ticks w)\<rparr>" "b w1 = (Inr x, w2)"
        "w' = w2\<lparr>w_ticks := Suc (w_ticks w2)\<rparr>" by (rule InTx_ok)
      then have "f w2 = f w1" using obeysD[OF b w(2)] by (simp add: same_sel_def)
      then show ?thesis using Pair w(1,3) by (simp add: same_sel_def ticks txtime)
    qed
  qed
qed

end

interpretation keep_scores: table_sel w_scores
  by unfold_locales simp_all

interpretation keep_features: table_sel "\<lambda>w. (w_features w, w_dfeatures w)"
  by unfold_locales simp_all

lemma snd_InTx_found [simp]: "snd (InTx_found b w) = snd (InTx b w)"
  by (auto simp: InTx_found_def split: prod.splits sum.splits)

lemma obeys_InTx_found: "obeys R (InTx b) \<Longrightarrow> obeys R (InTx_found b)"
  by (simp add: obeys_def)

lemma same_data_sel: "table_sel f \<Longrightarrow> obeys same_data m \<Longrightarrow> obeys (same_sel f) m"
  by (rule table_sel.on_read) (auto simp: obeys_def same_data_def)

lemma evolves_ticks: "evolves w w' \<Longrightarrow> w_ticks w \<le> w_ticks w' \<and> w_clock w' = w_clock w"
  by (auto simp: evolves_def grows_def)

lemma evolves_tick: "evolves w (w\<lparr>w_ticks := Suc (w_ticks w)\<rparr>)"
  by (simp add: evolves_def grows_def)

lemma InTx_found_ok: "InTx_found b w = (Inr x, w') \<longleftrightarrow> InTx b w = (Inr x, w')"
  by (auto simp: InTx_found_def split: prod.splits sum.splits if_splits)

text \<open>\<open>feature_step\<close>: appends, but never a score; \<open>ingest_step\<close>: no feature either.\<close>

definition feature_step :: "'a world_scheme \<Rightarrow> 'a world_scheme \<Rightarrow> bool" where
  "feature_step w w' \<longleftrightarrow> evolves w w' \<and> w_scores w' = w_scores w"

definition ingest_step :: "'a world_scheme \<Rightarrow> 'a world_scheme \<Rightarrow> bool" where
  "ingest_step w w' \<longleftrightarrow> feature_step w w' \<and> w_features w' = w_features w \<and> w_dfeatures w' = w_dfeatures w"

interpretation fstep: io_rel feature_step
  by unfold_locales (auto simp: feature_step_def evo.refl intro: evo.trans)

interpretation istep: io_rel ingest_step
  by unfold_locales (auto simp: ingest_step_def fstep.refl intro: fstep.trans)

lemma feature_stepI: "obeys evolves m \<Longrightarrow> obeys (same_sel w_scores) m \<Longrightarrow> obeys feature_step m"
  by (simp add: obeys_def feature_step_def same_sel_def)

lemma ingest_stepI: "obeys evolves m \<Longrightarrow> obeys (same_sel w_scores) m \<Longrightarrow> obeys (same_sel (\<lambda>w. (w_features w, w_dfeatures w))) m \<Longrightarrow> obeys ingest_step m"
  by (simp add: obeys_def ingest_step_def feature_step_def same_sel_def)

lemma ingest_evolves: "obeys ingest_step m \<Longrightarrow> obeys evolves m" and ingest_feature: "obeys ingest_step m \<Longrightarrow> obeys feature_step m"
  by (simp_all add: obeys_def ingest_step_def feature_step_def)

lemma feature_evolves: "obeys feature_step m \<Longrightarrow> obeys evolves m"
  by (simp add: obeys_def feature_step_def)

lemma step_InTx_read: "obeys in_tx b \<Longrightarrow> obeys same_data b \<Longrightarrow> obeys ingest_step (InTx b)"
  by (intro ingest_stepI evolves_InTx keep_scores.on_InTx keep_features.on_InTx same_data_sel keep_scores.table_sel_axioms
    keep_features.table_sel_axioms)

lemma step_InTx:
  "obeys in_tx b \<Longrightarrow> obeys (same_sel w_scores) b \<Longrightarrow> obeys (same_sel (\<lambda>w. (w_features w, w_dfeatures w))) b \<Longrightarrow> obeys ingest_step (InTx b)"
  by (intro ingest_stepI evolves_InTx keep_scores.on_InTx keep_features.on_InTx)

lemma step_Publish: "obeys ingest_step (Publisher_Publish ev)"
  unfolding Publisher_Publish_def
proof (rule step_InTx[OF in_tx_Enqueue])
  show "obeys (same_sel w_scores) (Enqueue e)" "obeys (same_sel (\<lambda>w. (w_features w, w_dfeatures w))) (Enqueue e)" for e
    unfolding Enqueue_def
    by (rule ss.obeys_if[OF ss.obeys_throw], rule keep_scores.on_write keep_features.on_write; auto)+
qed

lemma step_clock: "obeys ingest_step clock_Now"
  by (intro ingest_stepI evolves_reads keep_scores.on_read keep_features.on_read frozen_clock_Now)

lemma evolves_ScoreRepo_Save: "obeys evolves (ScoreRepo_Save s)"
  unfolding ScoreRepo_Save_def by (intro evo.obeys_option evolves_InTx in_tx_InsertDomainScore evo.obeys_throw)



section \<open>One score per asset\<close>

lemma forE_rows:
  assumes "\<And>a w w'. J w \<Longrightarrow> f a w = (Inr (), w') \<Longrightarrow> \<exists>row. tbl w' = tbl w @ [row] \<and> P a row \<and> J w'"
  shows "J w \<Longrightarrow> forE f as w = (Inr (), w') \<Longrightarrow> \<exists>new. tbl w' = tbl w @ new \<and> list_all2 P as new \<and> J w'"
proof (induction as arbitrary: w)
  case (Cons a as)
  then obtain w1 where w1: "f a w = (Inr (), w1)" "forE f as w1 = (Inr (), w')" by (auto simp: seqE_eq_Inr)
  then obtain row where row: "tbl w1 = tbl w @ [row]" "P a row" "J w1" using assms Cons.prems(1) by blast
  then obtain new where "tbl w' = tbl w1 @ new" "list_all2 P as new" "J w'" using Cons.IH[OF row(3) w1(2)] by blast
  then show ?case using row by (intro exI[of _ "row # new"]) simp
qed simp

text \<open>The row a score becomes: JSONB has no negative zero.\<close>

definition score_row :: "domain_score \<Rightarrow> domain_score" where
  "score_row s = s\<lparr>ds_components := jsonb_floats (ds_components s)\<rparr>"

lemma score_row_sel [simp]: "ds_asset (score_row s) = ds_asset s" "ds_domain (score_row s) = ds_domain s"
  "ds_value_date (score_row s) = ds_value_date s" "ds_score (score_row s) = ds_score s" "ds_quality (score_row s) = ds_quality s"
  by (simp_all add: score_row_def)

lemma ScoreRepo_Save_ok:
  assumes "ScoreRepo_Save s w = (Inr (), w')"
  shows "\<exists>row. w_scores w' = w_scores w @ [row] \<and> r_val row = score_row s \<and> evolves w w'"
proof -
  have t: "InTx (InsertDomainScore s) w = (Inr (), w')" using assms by (auto simp: ScoreRepo_Save_def split: option.splits)
  obtain w1 w2 where w: "w1 = w\<lparr>w_txtime := w_clock w (w_ticks w), w_ticks := Suc (w_ticks w)\<rparr>"
    "InsertDomainScore s w1 = (Inr (), w2)" "w' = w2\<lparr>w_ticks := Suc (w_ticks w2)\<rparr>" using t by (rule InTx_ok)
  have "\<exists>row. w_scores w2 = w_scores w1 @ [row] \<and> r_val row = score_row s"
    using w(2) by (cases w1 rule: db_op_cases)
      (auto simp: InsertDomainScore_def db_write_def bindE_def insert_pk_def score_row_def split: if_splits sum.splits)
  then show ?thesis using w(1,3) obeysD[OF evolves_ScoreRepo_Save assms] by simp
qed

lemma store_score_row:
  assumes "store_score ScoreRepo_Save Publisher_Publish e sc w = (Inr (), w')"
  shows "\<exists>row. w_scores w' = w_scores w @ [row] \<and> r_val row = score_row sc \<and> evolves w w'"
proof -
  obtain w1 where w1: "ScoreRepo_Save sc w = (Inr (), w1)" "Publisher_Publish (e (ds_score sc)) w1 = (Inr (), w')"
    using assms by (auto simp: store_score_def io_Inr_iff)
  have "ingest_step w1 w'" using step_Publish w1(2) by (rule obeysD)
  then show ?thesis using ScoreRepo_Save_ok[OF w1(1)] by (auto simp: ingest_step_def feature_step_def intro: evo.trans)
qed

lemma feature_value_flag: "feature_value fr k a vd c w = (Inr (v, ok), w') \<Longrightarrow> ok \<Longrightarrow> \<exists>w1. fr_GetLatest fr k a vd c w = (Inr v, w1)"
  by (auto simp: feature_value_def bindE_def attempt_def split: prod.splits sum.splits if_splits)

lemma feature_number_flag: "feature_number fr k a vd c w = (Inr (v, ok), w') \<Longrightarrow> ok \<Longrightarrow>
    \<not> isNaN v \<and> (\<exists>w1. fr_GetLatest fr k a vd c w = (Inr v, w1))"
  by (auto simp: feature_number_def bindE_def attempt_def split: prod.splits sum.splits if_splits)


section \<open>What a run sees of the features\<close>

text \<open>
  Features are stamped when they are saved, which is after the cutoff was read: the look-ups of a
  run see only what earlier runs stored.  \<open>nothing_yet\<close>: as of the cutoff the table has no feature of the day.
\<close>

definition nothing_yet :: "('a world_scheme \<Rightarrow> feature table) \<Rightarrow> gotime \<Rightarrow> gotime \<Rightarrow> 'a world_scheme \<Rightarrow> bool" where
  "nothing_yet tbl vd c w \<longleftrightarrow> strict_mono (w_clock w) \<and> c < w_clock w (w_ticks w) \<and>
     (\<forall>r\<in>set (as_of c (tbl w)). ft_value_date (r_val r) \<noteq> vd)"

locale feature_view =
  fixes tbl :: "'a world_scheme \<Rightarrow> feature table"
  assumes past: "evolves w w' \<Longrightarrow> strict_mono (w_clock w) \<Longrightarrow> c < w_clock w (w_ticks w) \<Longrightarrow> as_of c (tbl w') = as_of c (tbl w)"
    and ingest: "ingest_step w w' \<Longrightarrow> tbl w' = tbl w"
    and txtime: "tbl (w\<lparr>w_txtime := t\<rparr>) = tbl w" and ticks: "tbl (w\<lparr>w_ticks := n\<rparr>) = tbl w"
begin

lemma nothing_yet_evolves: "evolves w w' \<Longrightarrow> nothing_yet tbl vd c w \<Longrightarrow> nothing_yet tbl vd c w'"
  using past[of w w' c] evolves_ticks[of w w']
  by (auto simp: nothing_yet_def strict_mono_less_eq intro: order_less_le_trans)

lemma nothing_yet_start:
  assumes "ingest_step w w1" "strict_mono (w_clock w)" "\<forall>r\<in>set (tbl w). ft_value_date (r_val r) \<noteq> vd"
  shows "nothing_yet tbl vd (w_clock w1 (w_ticks w1)) (w1\<lparr>w_ticks := Suc (w_ticks w1)\<rparr>)"
  using assms ingest[of w w1] evolves_ticks[of w w1]
  by (auto simp: nothing_yet_def ingest_step_def feature_step_def strict_mono_less ticks)

lemma no_feature:
  assumes "nothing_yet tbl vd c w" "get = (\<lambda>w. q_feature k a vd (tbl w) c)"
  shows "InTx_found (query_row get) w \<noteq> (Inr v, w')"
proof
  assume "InTx_found (query_row get) w = (Inr v, w')"
  then have "InTx (query_row get) w = (Inr v, w')" by (simp add: InTx_found_ok)
  then obtain w1 w2 where w: "w1 = w\<lparr>w_txtime := w_clock w (w_ticks w), w_ticks := Suc (w_ticks w)\<rparr>"
    "query_row get w1 = (Inr v, w2)" by (rule InTx_ok)
  then obtain r where "latest (as_of c (where_rows (\<lambda>x. fk_name (ft_key x) = fk_name k \<and> fk_version (ft_key x) = fk_version k \<and>
      ft_asset x = a \<and> ft_value_date x = vd) (tbl w))) = Some r"
    using query_row_result[OF w(2)] by (auto simp: q_feature_def assms(2) txtime ticks)
  then show False using latest_Some assms(1) by (fastforce simp: nothing_yet_def)
qed

end

interpretation liq_view: feature_view w_features
  by unfold_locales (simp_all add: evolves_as_of(5) ingest_step_def)

interpretation table_view: feature_view "dtable tbl"
proof
  show "as_of c (dtable tbl w') = as_of c (dtable tbl w)"
    if "evolves w w'" "strict_mono (w_clock w)" "c < w_clock w (w_ticks w)" for w w' :: "'a world_scheme" and c
    using evolves_as_of(9)[OF that] by (simp add: as_of_dtable)
qed (simp_all add: dtable_def ingest_step_def)

section \<open>A run that scores\<close>

locale scoring_run =
  fixes run :: "('a world_scheme, unit) io" and ingest_all :: "('a world_scheme, unit) io"
    and prep :: "gotime \<Rightarrow> ('a world_scheme, unit) io" and feats :: "asset \<Rightarrow> gotime \<Rightarrow> ('a world_scheme, unit) io"
    and gather :: "asset \<Rightarrow> gotime \<Rightarrow> ('a world_scheme, 'i) io" and score :: "'i \<Rightarrow> domain_score"
    and ev :: "asset \<Rightarrow> f64 \<Rightarrow> event" and vd :: gotime and assets :: "asset list"
  assumes run_eq: "run = seqE ingest_all (bindE clock_Now (\<lambda>c. wrapE ''day'' [AStr (fmt_day vd)] (seqE (prep c)
      (forE (\<lambda>a. wrapE ''asset'' [AStr a] (seqE (feats a c) (bindE (wrapE ''gather score inputs'' [] (gather a c))
         (\<lambda>i. store_score ScoreRepo_Save Publisher_Publish (ev a) (score i))))) assets))))"
    and ingest_ok: "obeys feature_step ingest_all" and prep_ok: "obeys feature_step (prep c)"
    and feats_ok: "obeys feature_step (feats a c)" and gather_ok: "obeys feature_step (gather a c)"
begin

lemma asset_row:
  assumes I: "\<forall>w w'. evolves w w' \<longrightarrow> I w \<longrightarrow> I w'"
    and Q: "\<forall>w i w'. I w \<longrightarrow> gather a c w = (Inr i, w') \<longrightarrow> Q i"
    and w: "I w" "seqE (feats a c) (bindE (wrapE ''gather score inputs'' [] (gather a c))
         (\<lambda>i. store_score ScoreRepo_Save Publisher_Publish (ev a) (score i))) w = (Inr (), w')"
  shows "\<exists>row. w_scores w' = w_scores w @ [row] \<and> (\<exists>i. Q i \<and> r_val row = score_row (score i)) \<and> I w'"
proof -
  obtain w1 i w2 where s: "feats a c w = (Inr (), w1)" "gather a c w1 = (Inr i, w2)"
    "store_score ScoreRepo_Save Publisher_Publish (ev a) (score i) w2 = (Inr (), w')"
    using w(2) by (auto simp: io_Inr_iff)
  have f: "feature_step w w1" "feature_step w1 w2" using obeysD[OF feats_ok s(1)] obeysD[OF gather_ok s(2)] .
  have i1: "I w1" and i2: "I w2" using f w(1) I by (auto simp: feature_step_def)
  obtain row where r: "w_scores w' = w_scores w2 @ [row]" "r_val row = score_row (score i)" "evolves w2 w'"
    using store_score_row[OF s(3)] by blast
  have "Q i" "I w'" using Q I i1 i2 s(2) r(3) by blast+
  then show ?thesis using r f by (intro exI[of _ row]) (auto simp: feature_step_def)
qed

theorem run_rows:
  assumes run: "run w = (Inr (), w')"
    and I: "\<forall>c w w'. evolves w w' \<longrightarrow> I c w \<longrightarrow> I c w'"
    and start: "\<forall>w1. ingest_all w = (Inr (), w1) \<longrightarrow> I (w_clock w1 (w_ticks w1)) (w1\<lparr>w_ticks := Suc (w_ticks w1)\<rparr>)"
    and Q: "\<forall>c a w i w'. I c w \<longrightarrow> gather a c w = (Inr i, w') \<longrightarrow> Q a i"
  shows "\<exists>new. w_scores w' = w_scores w @ new \<and>
    list_all2 (\<lambda>a row. \<exists>i. Q a i \<and> r_val row = score_row (score i)) assets new"
proof -
  obtain w1 where w1: "ingest_all w = (Inr (), w1)" using run by (auto simp: run_eq io_Inr_iff)
  let ?c = "w_clock w1 (w_ticks w1)" and ?w1 = "w1\<lparr>w_ticks := Suc (w_ticks w1)\<rparr>"
  have st: "feature_step w w1" using ingest_ok w1 by (rule obeysD)
  obtain w2 where w2: "prep ?c ?w1 = (Inr (), w2)" and loop: "forE (\<lambda>a. wrapE ''asset'' [AStr a] (seqE (feats a ?c)
      (bindE (wrapE ''gather score inputs'' [] (gather a ?c))
         (\<lambda>i. store_score ScoreRepo_Save Publisher_Publish (ev a) (score i))))) assets w2 = (Inr (), w')"
    using run w1 by (auto simp: run_eq io_Inr_iff clock_Now_def)
  have p: "feature_step ?w1 w2" using prep_ok w2 by (rule obeysD)
  have Jc: "I ?c ?w1" using start w1 by blast
  then have J: "I ?c w2" using p I by (auto simp: feature_step_def)
  have "\<exists>new. w_scores w' = w_scores w2 @ new \<and>
    list_all2 (\<lambda>a row. \<exists>i. Q a i \<and> r_val row = score_row (score i)) assets new \<and> I ?c w'"
  proof (rule forE_rows[where J = "I ?c", OF _ J loop])
    fix a w w' assume a: "I ?c w" "wrapE ''asset'' [AStr a] (seqE (feats a ?c) (bindE (wrapE ''gather score inputs'' [] (gather a ?c))
         (\<lambda>i. store_score ScoreRepo_Save Publisher_Publish (ev a) (score i)))) w = (Inr (), w')"
    have "\<forall>w i w'. I ?c w \<longrightarrow> gather a ?c w = (Inr i, w') \<longrightarrow> Q a i" "\<forall>w w'. evolves w w' \<longrightarrow> I ?c w \<longrightarrow> I ?c w'" using Q I by blast+
    then show "\<exists>row. w_scores w' = w_scores w @ [row] \<and> (\<exists>i. Q a i \<and> r_val row = score_row (score i)) \<and> I ?c w'"
      using a by (intro asset_row[where I = "I ?c" and c = ?c]) (auto simp: wrapE_eq_Inr)
  qed
  then show ?thesis using st p by (auto simp: feature_step_def)
qed

lemma run_evolves: "obeys evolves run"
  unfolding run_eq store_score_def seqE_def
  by (intro evo.obeys_bindE evo.obeys_wrapE evo.obeys_forE feature_evolves[OF ingest_ok] feature_evolves[OF prep_ok]
    feature_evolves[OF feats_ok] feature_evolves[OF gather_ok] evolves_ScoreRepo_Save ingest_evolves[OF step_clock]
    ingest_evolves[OF step_Publish] evo.obeys_ret)

text \<open>Scores in range, and the first run of a day.\<close>

theorem run_scores:
  assumes "run w = (Inr (), w')"
    and "\<And>c a w i w'. gather a c w = (Inr i, w') \<Longrightarrow> ds_asset (score i) = a \<and> ds_domain (score i) = d \<and>
        ds_value_date (score i) = vd \<and> fin_in (- 1) 1 (ds_score (score i))"
  shows "\<exists>new. w_scores w' = w_scores w @ new \<and>
    list_all2 (\<lambda>a row. ds_asset (r_val row) = a \<and> ds_domain (r_val row) = d \<and> ds_value_date (r_val row) = vd \<and>
        fin_in (- 1) 1 (ds_score (r_val row))) assets new"
proof -
  obtain new where n: "w_scores w' = w_scores w @ new" "list_all2 (\<lambda>a row. \<exists>i. (ds_asset (score i) = a \<and> ds_domain (score i) = d \<and>
        ds_value_date (score i) = vd \<and> fin_in (- 1) 1 (ds_score (score i))) \<and> r_val row = score_row (score i)) assets new"
    using run_rows[where I = "\<lambda>_ _. True" and Q = "\<lambda>a i. ds_asset (score i) = a \<and> ds_domain (score i) = d \<and>
        ds_value_date (score i) = vd \<and> fin_in (- 1) 1 (ds_score (score i))", OF assms(1)] assms(2) by auto
  show ?thesis by (intro exI[of _ new] conjI n(1) list_all2_mono[OF n(2)]) auto
qed

end

text \<open>Where ingestion leaves the features alone, the first run of a day scores nothing.\<close>

locale scored_run = scoring_run +
  assumes ingest_raw: "obeys ingest_step ingest_all"
begin

theorem first_run:
  assumes "feature_view tbl" "run w = (Inr (), w')" "strict_mono (w_clock w)" "\<forall>r\<in>set (tbl w). ft_value_date (r_val r) \<noteq> vd"
    and "\<And>c a w i w'. nothing_yet tbl vd c w \<Longrightarrow> gather a c w = (Inr i, w') \<Longrightarrow> ds_asset (score i) = a \<and> feq (ds_score (score i)) fzero"
  shows "\<exists>new. w_scores w' = w_scores w @ new \<and>
    list_all2 (\<lambda>a row. ds_asset (r_val row) = a \<and> feq (ds_score (r_val row)) fzero) assets new"
proof -
  have I: "\<forall>c w w'. evolves w w' \<longrightarrow> nothing_yet tbl vd c w \<longrightarrow> nothing_yet tbl vd c w'"
    using feature_view.nothing_yet_evolves[OF assms(1)] by blast
  have S: "\<forall>w1. ingest_all w = (Inr (), w1) \<longrightarrow> nothing_yet tbl vd (w_clock w1 (w_ticks w1)) (w1\<lparr>w_ticks := Suc (w_ticks w1)\<rparr>)"
    using feature_view.nothing_yet_start[OF assms(1) _ assms(3,4)] obeysD[OF ingest_raw] by blast
  have Q: "\<forall>c a w i w'. nothing_yet tbl vd c w \<longrightarrow> gather a c w = (Inr i, w') \<longrightarrow> ds_asset (score i) = a \<and> feq (ds_score (score i)) fzero"
    using assms(5) by blast
  obtain new where n: "w_scores w' = w_scores w @ new" "list_all2 (\<lambda>a row. \<exists>i. (ds_asset (score i) = a \<and> feq (ds_score (score i)) fzero) \<and>
      r_val row = score_row (score i)) assets new" using run_rows[OF assms(2) I S Q] by blast
  show ?thesis by (intro exI[of _ new] conjI n(1) list_all2_mono[OF n(2)]) auto
qed

end

section \<open>A healthy database\<close>

definition healthy :: "'a world_scheme \<Rightarrow> bool" where
  "healthy w \<longleftrightarrow> fault_free w \<and> strict_mono (w_clock w) \<and> (\<forall>r\<in>set (w_scores w). r_ingested r < w_clock w (w_ticks w))"

lemma healthy_evolves: "evolves w w' \<Longrightarrow> healthy w \<Longrightarrow> healthy w'"
proof -
  assume e: "evolves w w'" and h: "healthy w"
  have g: "grows (\<lambda>t. \<exists>n. w_ticks w \<le> n \<and> n < w_ticks w' \<and> t = w_clock w n) w w'" using e by (simp add: evolves_def)
  then have c: "w_clock w' = w_clock w" "w_fault w' = w_fault w" "w_ticks w \<le> w_ticks w'" by (simp_all add: grows_def)
  obtain new where s: "w_scores w' = w_scores w @ new" "\<forall>r\<in>set new. \<exists>n. w_ticks w \<le> n \<and> n < w_ticks w' \<and> r_ingested r = w_clock w n"
    using g by (auto simp: grows_def appends_def)
  have m: "strict_mono (w_clock w)" using h by (simp add: healthy_def)
  have "r_ingested r < w_clock w (w_ticks w')" if "r \<in> set (w_scores w')" for r
  proof (cases "r \<in> set new")
    case True
    then show ?thesis using s(2) m by (auto simp: strict_mono_less)
  next
    case False
    then have "r_ingested r < w_clock w (w_ticks w)" using that s(1) h by (auto simp: healthy_def)
    also have "\<dots> \<le> w_clock w (w_ticks w')" using m c(3) by (simp add: strict_mono_less_eq)
    finally show ?thesis .
  qed
  then show "healthy w'" using h c by (simp add: healthy_def fault_free_def)
qed

lemma healthy_keeps: "obeys evolves m \<Longrightarrow> healthy w \<Longrightarrow> healthy (snd (m w))"
  using healthy_evolves by (auto simp: obeys_def)

lemma healthy_step: "obeys ingest_step m \<Longrightarrow> healthy w \<Longrightarrow> healthy (snd (m w))"
  by (rule healthy_keeps) (rule ingest_evolves)

lemma healthy_totalI:
  fixes m :: "('a world_scheme, 'r) io"
  assumes "obeys evolves m" "\<And>w. healthy w \<Longrightarrow> \<exists>x w'. m w = (Inr x, w') \<and> Q x"
  shows "total_io healthy m Q"
  unfolding total_io_def
proof (intro allI impI)
  fix w :: "'a world_scheme" assume h: "healthy w"
  then obtain x w' where "m w = (Inr x, w')" "Q x" using assms(2) by blast
  moreover from this have "healthy w'" using healthy_keeps[OF assms(1) h] by simp
  ultimately show "\<exists>x w'. m w = (Inr x, w') \<and> healthy w' \<and> Q x" by blast
qed

text \<open>Reads inside a transaction.\<close>

definition reads_ok :: "('a world_scheme, 'r) io \<Rightarrow> bool" where
  "reads_ok b \<longleftrightarrow> (\<forall>w. fault_free w \<longrightarrow> (\<exists>r n. b w = (r, w\<lparr>w_ticks := n\<rparr>) \<and> (\<forall>e. r = Inl e \<longrightarrow> e = ErrNoRows)))"

lemma reads_ok_query_row: "reads_ok (query_row f)"
  by (auto simp: reads_ok_def query_row_def db_read_def bindE_def split: option.splits)

lemma finds_InTx_found:
  fixes b :: "('a world_scheme, 'r) io"
  assumes "obeys ingest_step (InTx_found b)" "reads_ok b"
  shows "finds healthy (InTx_found b)"
  unfolding finds_def
proof (intro allI impI conjI)
  fix w :: "'a world_scheme" assume h: "healthy w"
  show "healthy (snd (InTx_found b w))" using assms(1) h by (rule healthy_step)
  fix e assume e: "fst (InTx_found b w) = Inl e"
  let ?w1 = "w\<lparr>w_txtime := w_clock w (w_ticks w), w_ticks := Suc (w_ticks w)\<rparr>"
  have ff: "fault_free w" "fault_free ?w1" using h by (simp_all add: healthy_def)
  obtain r n where r: "b ?w1 = (r, ?w1\<lparr>w_ticks := n\<rparr>)" "\<forall>e. r = Inl e \<longrightarrow> e = ErrNoRows"
    using assms(2) ff(2) unfolding reads_ok_def by blast
  show "errors_Is e ErrNotFound"
  proof (cases r)
    case (Inl e1)
    then have "InTx b w = (Inl ErrNoRows, rollback ?w1 (?w1\<lparr>w_ticks := n\<rparr>))"
      using r ff(1) by (simp add: InTx_def wrapE_def begin_tx_def)
    then show ?thesis using e by (simp add: InTx_found_def)
  next
    case (Inr x)
    have f1: "fault_free (?w1\<lparr>w_ticks := n\<rparr>)" using ff by simp
    have "b ?w1 = (Inr x, ?w1\<lparr>w_ticks := n\<rparr>)" using r(1) Inr by simp
    from InTx_fault_free[of w b x "?w1\<lparr>w_ticks := n\<rparr>", OF ff(1) this f1] have "InTx b w = (Inr x, ?w1\<lparr>w_ticks := Suc n\<rparr>)" by simp
    then show ?thesis using e by (simp add: InTx_found_def)
  qed
qed

lemma healthy_InTx_total:
  fixes b :: "('a world_scheme, 'r) io"
  assumes "obeys evolves (InTx b)" "\<And>w. fault_free w \<Longrightarrow> \<exists>x n. b w = (Inr x, w\<lparr>w_ticks := n\<rparr>)"
  shows "total_io healthy (InTx b) (\<lambda>_. True)"
proof (rule healthy_totalI[OF assms(1)])
  fix w :: "'a world_scheme" assume "healthy w"
  then have ff: "fault_free w" by (simp add: healthy_def)
  let ?w1 = "w\<lparr>w_txtime := w_clock w (w_ticks w), w_ticks := Suc (w_ticks w)\<rparr>"
  obtain x n where "b ?w1 = (Inr x, ?w1\<lparr>w_ticks := n\<rparr>)" using assms(2)[of ?w1] ff by auto
  then show "\<exists>x w'. InTx b w = (Inr x, w') \<and> True" using InTx_fault_free[OF ff, of b x] ff by auto
qed

section \<open>Queries and inserts of one statement\<close>

text \<open>\<open>quiet\<close>: a query that may run in a transaction and leaves every table alone.\<close>

definition quiet :: "('a world_scheme, 'r) io \<Rightarrow> bool" where
  "quiet m \<longleftrightarrow> obeys in_tx m \<and> obeys same_data m"

lemma quiet_reads: "quiet (query_row f)" "quiet (query_plain g)" "quiet (row_or_none h)"
  by (simp_all add: quiet_def in_tx_query_row in_tx_query_plain in_tx_row_or_none obeys_def[of same_data] same_data_def)

lemma quiet_rules: "quiet (ret x)" "quiet (throw e)" "quiet m \<Longrightarrow> (\<And>x. quiet (k x)) \<Longrightarrow> quiet (bindE m k)"
  "quiet m \<Longrightarrow> quiet (attempt m)" "quiet m \<Longrightarrow> quiet n \<Longrightarrow> quiet (if b then m else n)"
  "(\<And>e. quiet (f e)) \<Longrightarrow> (\<And>x. quiet (g x)) \<Longrightarrow> quiet (case r of Inl e \<Rightarrow> f e | Inr x \<Rightarrow> g x)"
  by (auto simp: quiet_def intro: itx.obeys_rules sd.obeys_rules split: sum.split)

lemmas quiet_intros = quiet_reads quiet_rules

text \<open>\<open>replies\<close>: on a database without faults the query succeeds.\<close>

definition replies :: "('a world_scheme, 'r) io \<Rightarrow> bool" where
  "replies m \<longleftrightarrow> (\<forall>w. fault_free w \<longrightarrow> (\<exists>x n. m w = (Inr x, w\<lparr>w_ticks := n\<rparr>)))"

lemma replies_query_plain: "replies (query_plain f)"
  by (auto simp: replies_def query_plain_def db_read_def seqE_def bindE_def Let_def)

lemma repliesI:
  assumes "\<And>w. fault_free w \<Longrightarrow> \<exists>x n. m w = (Inr x, w\<lparr>w_ticks := n\<rparr>)"
  shows "replies m"
  using assms by (simp add: replies_def)

lemma replies_row_or_none: "replies (row_or_none f)"
proof (rule repliesI)
  fix w :: "'a world_scheme" assume "fault_free w"
  then obtain r n where "query_row f w = (r, w\<lparr>w_ticks := n\<rparr>)" "\<forall>e. r = Inl e \<longrightarrow> e = ErrNoRows"
    using reads_ok_query_row[of f] unfolding reads_ok_def by blast
  then show "\<exists>x n. row_or_none f w = (Inr x, w\<lparr>w_ticks := n\<rparr>)"
    by (cases r) (auto simp: row_or_none_def)
qed

lemma replies_ret: "replies (ret x)"
proof (rule repliesI)
  fix w :: "'a world_scheme"
  show "\<exists>y n. ret x w = (Inr y, w\<lparr>w_ticks := n\<rparr>)" by (intro exI[of _ x] exI[of _ "w_ticks w"]) simp
qed

lemma replies_attempt: "reads_ok m \<Longrightarrow> replies (attempt m)"
proof (rule repliesI)
  fix w :: "'a world_scheme" assume "reads_ok m" "fault_free w"
  then obtain r n where "m w = (r, w\<lparr>w_ticks := n\<rparr>)" unfolding reads_ok_def by blast
  then show "\<exists>x n. attempt m w = (Inr x, w\<lparr>w_ticks := n\<rparr>)" by (auto simp: attempt_def)
qed

lemma replies_bindE: "replies m \<Longrightarrow> (\<And>x. replies (k x)) \<Longrightarrow> replies (bindE m k)"
proof (rule repliesI)
  fix w :: "'a world_scheme" assume a: "replies m" "\<And>x. replies (k x)" "fault_free w"
  then obtain x n where m: "m w = (Inr x, w\<lparr>w_ticks := n\<rparr>)" unfolding replies_def by blast
  have "fault_free (w\<lparr>w_ticks := n\<rparr>)" using a(3) by simp
  then obtain y n' where "k x (w\<lparr>w_ticks := n\<rparr>) = (Inr y, w\<lparr>w_ticks := n\<rparr>\<lparr>w_ticks := n'\<rparr>)"
    using a(2)[of x] unfolding replies_def by blast
  then show "\<exists>x n. bindE m k w = (Inr x, w\<lparr>w_ticks := n\<rparr>)" using m by (auto simp: bindE_def)
qed

lemma replies_sum: "(\<And>e. replies (f e)) \<Longrightarrow> (\<And>x. replies (g x)) \<Longrightarrow> replies (case r of Inl e \<Rightarrow> f e | Inr x \<Rightarrow> g x)"
  by (cases r) simp_all

lemmas replies_intros = replies_query_plain replies_row_or_none replies_ret replies_attempt replies_bindE replies_sum reads_ok_query_row

lemma step_quiet: "quiet b \<Longrightarrow> obeys ingest_step (InTx b)"
  unfolding quiet_def by (intro step_InTx_read) simp_all

lemma step_quiet_found: "quiet b \<Longrightarrow> obeys ingest_step (InTx_found b)"
  by (intro obeys_InTx_found step_quiet)

lemma finds_quiet: "quiet (query_row f) \<Longrightarrow> finds healthy (InTx_found (query_row f))"
  by (intro finds_InTx_found step_quiet_found reads_ok_query_row)

lemma total_replies: "quiet b \<Longrightarrow> replies b \<Longrightarrow> total_io healthy (InTx b) (\<lambda>_. True)"
  by (rule healthy_InTx_total[OF ingest_evolves[OF step_quiet]]) (simp_all add: replies_def)

lemma keep_exec_raw: "obeys (same_sel w_scores) (exec_raw r)" "obeys (same_sel (\<lambda>w. (w_features w, w_dfeatures w))) (exec_raw r)"
  unfolding exec_raw_def by (rule keep_scores.on_write keep_features.on_write; auto)+

lemma step_exec_raws: "(\<And>x. \<exists>r. ins x = exec_raw r) \<Longrightarrow> obeys ingest_step (if rows = [] then ret () else InTx (forE (\<lambda>x. wrapE (s x) (vs x) (ins x)) rows))"
proof -
  assume a: "\<And>x. \<exists>r. ins x = exec_raw r"
  have "obeys in_tx (ins x) \<and> obeys (same_sel w_scores) (ins x) \<and> obeys (same_sel (\<lambda>w. (w_features w, w_dfeatures w))) (ins x)" for x
    using a[of x] in_tx_exec_raw keep_exec_raw by auto
  then show ?thesis
    by (intro istep.obeys_if istep.obeys_ret step_InTx itx.obeys_forE itx.obeys_wrapE ss.obeys_forE ss.obeys_wrapE) auto
qed

lemma step_domain_feature: "obeys feature_step (FeatureRepo_Save (InsertDomainFeature tbl) f)"
  unfolding FeatureRepo_Save_def
proof (rule fstep.obeys_option)
  show "obeys feature_step (InTx (InsertDomainFeature tbl f))"
    by (intro feature_stepI evolves_InTx keep_scores.on_InTx in_tx_InsertDomainFeature)
      (unfold InsertDomainFeature_def, rule keep_scores.on_write, auto)
qed (rule fstep.obeys_throw)

text \<open>\<open>if len(rows) == 0 { return nil }\<close>, then the inserts in one transaction.\<close>

definition save_raws :: "('x \<Rightarrow> ('a world_scheme, unit) io) \<Rightarrow> 'x list \<Rightarrow> ('a world_scheme, unit) io" where
  "save_raws ins rows = (if rows = [] then ret () else InTx (forE ins rows))"

definition raw_insert :: "('a world_scheme, unit) io \<Rightarrow> bool" where
  "raw_insert m \<longleftrightarrow> obeys in_tx m \<and> obeys (same_sel w_scores) m \<and> obeys (same_sel (\<lambda>w. (w_features w, w_dfeatures w))) m"

lemma raw_insert_exec: "raw_insert (exec_raw r)"
  by (simp add: raw_insert_def in_tx_exec_raw keep_exec_raw)

lemma raw_insert_wrap: "raw_insert m \<Longrightarrow> raw_insert (wrapE s vs m)"
  by (simp add: raw_insert_def itx.obeys_wrapE ss.obeys_wrapE)

lemma step_save_raws: "(\<And>x. raw_insert (ins x)) \<Longrightarrow> obeys ingest_step (save_raws ins rows)"
  unfolding save_raws_def raw_insert_def
  by (intro istep.obeys_if istep.obeys_ret step_InTx itx.obeys_forE ss.obeys_forE) auto

section \<open>The feature tables of the domains\<close>

text \<open>Each domain's feature repository runs the queries of its own table.\<close>

definition table_features :: "string \<Rightarrow> 'a world_scheme feature_repo" where
  "table_features tbl = \<lparr>fr_Save = FeatureRepo_Save (InsertDomainFeature tbl),
     fr_GetLatest = (\<lambda>k a vd c. InTx_found (query_row (\<lambda>w. q_feature k a vd (dtable tbl w) c))),
     fr_GetSeries = (\<lambda>k a from to c. InTx (query_plain (\<lambda>w. q_feature_series k a from to (dtable tbl w) c)))\<rparr>"

interpretation tport: feature_port feature_step "table_features tbl"
  by unfold_locales (auto simp: table_features_def intro!: step_domain_feature ingest_feature step_quiet step_quiet_found quiet_reads)

lemma table_keeps:
  "healthy w \<Longrightarrow> healthy (snd (fr_Save (table_features tbl) f w))"
  "healthy w' \<Longrightarrow> healthy (snd (fr_GetLatest (table_features tbl) k a vd c w'))"
  "healthy w'' \<Longrightarrow> healthy (snd (fr_GetSeries (table_features tbl) k a from to c w''))"
  by (erule healthy_keeps[OF feature_evolves[OF tport.Save]] healthy_keeps[OF feature_evolves[OF tport.GetLatest]]
    healthy_keeps[OF feature_evolves[OF tport.GetSeries]])+

lemma total_table:
  "finds healthy (fr_GetLatest (table_features tbl) k a vd c)"
  "total_io healthy (fr_GetSeries (table_features tbl) k a from to c) (\<lambda>_. True)"
  "total_io healthy (save_feature (table_features tbl) sha k a vd v sn sv) (\<lambda>_. True)"
  "total_io healthy (zscore_step (table_features tbl) sha sk zk a vd c n m sn sv) (\<lambda>_. True)"
  "total_io healthy (attempt (fr_GetLatest (table_features tbl) k a vd c)) (\<lambda>_. True)"
  "total_io healthy (attempt (fr_GetSeries (table_features tbl) k a from to c)) (\<lambda>_. True)"
proof -
  show "finds healthy (fr_GetLatest (table_features tbl) k a vd c)"
    by (simp add: table_features_def finds_quiet quiet_reads)
  show "total_io healthy (fr_GetSeries (table_features tbl) k a from to c) (\<lambda>_. True)"
    by (simp add: table_features_def total_replies quiet_reads replies_query_plain)
qed (rule total_save_feature total_zscore_step total_attempt, (erule table_keeps)+)+

lemmas total_table_value = total_feature_value[OF total_table(1)] total_weaken[OF total_feature_number[OF total_table(1)] TrueI]

section \<open>The queries over the shared heap\<close>

lemma quiet_shapes: "quiet (latest_raw sel P f c)" "quiet (daily_raw sel P d f c)" "quiet (aggregate_row g)"
  "quiet (nearest_expiry smb exch vd h c)"
  unfolding latest_raw_def daily_raw_def aggregate_row_def nearest_expiry_def by (intro quiet_intros)+

lemma replies_shapes: "replies (latest_raw sel P f c)" "replies (daily_raw sel P d f c)" "replies (aggregate_row g)"
  "replies (nearest_expiry smb exch vd h c)"
  unfolding latest_raw_def daily_raw_def aggregate_row_def nearest_expiry_def by (intro replies_intros)+

text \<open>\<open>GetDVOLCloseAsOf\<close> and the like: a missing value becomes \<open>domain.ErrNotFound\<close>.\<close>

definition found_InTx :: "('a world_scheme, 'r option) io \<Rightarrow> ('a world_scheme, 'r) io" where
  "found_InTx b = bindE (InTx_found b) (\<lambda>r. case r of None \<Rightarrow> throw ErrNotFound | Some v \<Rightarrow> ret v)"

lemma step_found_InTx: "quiet b \<Longrightarrow> obeys ingest_step (found_InTx b)"
  unfolding found_InTx_def by (intro istep.obeys_bindE istep.obeys_option istep.obeys_ret istep.obeys_throw step_quiet_found)

lemma finds_found_InTx:
  assumes "quiet b" "replies b"
  shows "finds healthy (found_InTx b)"
  unfolding finds_def
proof (intro allI impI conjI)
  fix w :: "'a world_scheme" assume h: "healthy w"
  show "healthy (snd (found_InTx b w))" by (rule healthy_step[OF step_found_InTx[OF assms(1)] h])
  fix e assume e: "fst (found_InTx b w) = Inl e"
  obtain r w' where "InTx b w = (Inr r, w')" using total_ioD[OF total_replies[OF assms] h] by blast
  then have "InTx_found b w = (Inr r, w')" by (simp add: InTx_found_ok)
  then show "errors_Is e ErrNotFound" using e by (cases r) (auto simp: found_InTx_def bindE_def)
qed

text \<open>Saving a valid score and publishing its event.\<close>

lemma total_ScoreRepo_Save:
  assumes "DomainScore_Validate s = None" "json_floats (ds_components s)" "json_anys (ds_quality s)"
    "fle (fneg fone) (ds_score s)" "fle (ds_score s) fone"
  shows "total_io healthy (ScoreRepo_Save s) (\<lambda>_. True)"
proof (rule healthy_totalI[OF evolves_ScoreRepo_Save])
  fix w :: "'a world_scheme" assume h: "healthy w"
  then have ff: "fault_free w" by (simp add: healthy_def)
  let ?w1 = "w\<lparr>w_txtime := w_clock w (w_ticks w), w_ticks := Suc (w_ticks w)\<rparr>"
  have new: "\<forall>r\<in>set (w_scores w). r_ingested r \<noteq> w_clock w (w_ticks w)" using h by (auto simp: healthy_def)
  have "\<exists>w2. InsertDomainScore s ?w1 = (Inr (), w2) \<and> fault_free w2"
    using assms ff new by (auto simp: InsertDomainScore_def db_write_def bindE_def insert_pk_def fault_free_def)
  then obtain w2 where "InsertDomainScore s ?w1 = (Inr (), w2)" "fault_free w2" by blast
  then show "\<exists>x w'. ScoreRepo_Save s w = (Inr x, w') \<and> True"
    using InTx_fault_free[OF ff, of "InsertDomainScore s"] assms(1) by (auto simp: ScoreRepo_Save_def)
qed

lemma total_Publish: "json_anys (ev_payload ev) \<Longrightarrow> total_io healthy (Publisher_Publish ev) (\<lambda>_. True)"
  by (rule healthy_totalI[OF evolves_Publish]) (auto simp: healthy_def dest: Publish_runs)



text \<open>A score that can be stored.\<close>

definition storable :: "domain_score \<Rightarrow> bool" where
  "storable s \<longleftrightarrow> DomainScore_Validate s = None \<and> json_floats (ds_components s) \<and> json_anys (ds_quality s) \<and> fin_in (- 1) 1 (ds_score s)"

lemma storableI:
  assumes "Asset_Validate (ds_asset s) = None" "ds_domain s \<in> set AllDomains" "ds_value_date s \<noteq> zero_time" "ds_model_version s \<noteq> []"
    "fin_in (- 1) 1 (ds_score s)" "\<forall>v\<in>ran (ds_components s). fin_in (- 1) 1 v" "json_anys (ds_quality s)"
  shows "storable s"
proof -
  have "fin_in (qv (lit (- 10001 / 10000))) (qv (lit (10001 / 10000))) (ds_score s)" by (rule fin_in_mono[OF assms(5)]) simp_all
  then show ?thesis using assms by (auto simp: storable_def DomainScore_Validate_None json_floats_def fin_in_def)
qed

lemma score_event_json: "fin_in (- 1) 1 x \<Longrightarrow> json_anys (ev_payload (score_event t m c a vd x))"
  using ran_map_of_sub unfolding json_anys_def score_event_def event.simps fin_in_def by fastforce

lemma total_store:
  assumes "storable s" and p: "\<And>x. fin_in (- 1) 1 x \<Longrightarrow> json_anys (ev_payload (e x))"
  shows "total_io healthy (store_score ScoreRepo_Save Publisher_Publish e s) (\<lambda>_. True)"
proof -
  have s: "fin_in (- 1) 1 (ds_score s)" using assms by (simp add: storable_def)
  have b: "fle (fneg fone) (ds_score s)" "fle (ds_score s) fone"
    using s by (cases "ds_score s"; auto simp: fin_in_def fneg_def)+
  show ?thesis
    by (rule total_store_score, rule total_ScoreRepo_Save[OF _ _ _ b], use assms in \<open>simp_all add: storable_def total_Publish p\<close>)
qed

context scoring_run
begin

theorem run_succeeds:
  assumes "\<And>c. total_io healthy (prep c) (\<lambda>_. True)" "\<And>a c. total_io healthy (feats a c) (\<lambda>_. True)"
    and "\<And>a c. a \<in> set assets \<Longrightarrow> total_io healthy (gather a c) (\<lambda>i. storable (score i))"
    and json: "\<And>a x. fin_in (- 1) 1 x \<Longrightarrow> json_anys (ev_payload (ev a x))"
    and h: "healthy w" and ingest: "fst (ingest_all w) = Inr ()"
  shows "\<exists>w'. run w = (Inr (), w') \<and> healthy w'"
proof -
  obtain w1 where w1: "ingest_all w = (Inr (), w1)" using ingest by (metis prod.collapse)
  have "evolves w w1" using obeysD[OF ingest_ok w1] by (simp add: feature_step_def)
  then have h1: "healthy w1" using h by (rule healthy_evolves)
  have h2: "healthy (w1\<lparr>w_ticks := Suc (w_ticks w1)\<rparr>)" by (rule healthy_evolves[OF evolves_tick h1])
  have "total_io healthy (wrapE ''day'' [AStr (fmt_day vd)] (seqE (prep c)
      (forE (\<lambda>a. wrapE ''asset'' [AStr a] (seqE (feats a c) (bindE (wrapE ''gather score inputs'' [] (gather a c))
         (\<lambda>i. store_score ScoreRepo_Save Publisher_Publish (ev a) (score i))))) assets))) (\<lambda>_. True)" for c
    by (intro total_wrapE total_seq1 assms(1) total_forE, rule assms(2)) (rule total_bindE[OF total_wrapE[OF assms(3)]], assumption, rule total_store, assumption, rule json)
  from total_ioD[OF this h2] show ?thesis using w1 by (auto simp: run_eq seqE_def bindE_def clock_Now_def)
qed

end

end
