(* ===== verification/PgLiquidity.thy ===== *)
theory PgLiquidity
  imports Liquidity PgScores
begin

text \<open>
  \<open>internal/infra/postgres/liquidity\<close>: the ports of the liquidity service on the database, and what
  the service does there.
\<close>

section \<open>The repositories\<close>

definition LiqFeatureRepo_Save :: "feature \<Rightarrow> ('a world_scheme, unit) io" where
  "LiqFeatureRepo_Save f = FeatureRepo_Save InsertLiquidityFeature f"

definition LiqFeatureRepo_GetLatest :: "feature_key \<Rightarrow> asset \<Rightarrow> gotime \<Rightarrow> gotime \<Rightarrow> ('a world_scheme, f64) io" where
  "LiqFeatureRepo_GetLatest k a vd cutoff = InTx_found (GetLatestLiquidityFeature k a vd cutoff)"

definition LiqFeatureRepo_GetSeries :: "feature_key \<Rightarrow> asset \<Rightarrow> gotime \<Rightarrow> gotime \<Rightarrow> gotime \<Rightarrow> ('a world_scheme, f64 list) io" where
  "LiqFeatureRepo_GetSeries k a from to cutoff = InTx (GetLiquidityFeatureSeries k a from to cutoff)"

definition pg_liq_features :: "'a world_scheme feature_repo" where
  "pg_liq_features = \<lparr>fr_Save = LiqFeatureRepo_Save, fr_GetLatest = LiqFeatureRepo_GetLatest, fr_GetSeries = LiqFeatureRepo_GetSeries\<rparr>"

definition LiqRawRepo_SaveStablecoinSupply :: "liq_supply_row list \<Rightarrow> ('a world_scheme, unit) io" where
  "LiqRawRepo_SaveStablecoinSupply rows = (if rows = [] then ret () else InTx (forE (\<lambda>x.
     wrapE ''insert raw stablecoin'' [AStr (ls_stablecoin x), AStr (fmt_day (ls_value_date x))]
       (InsertRawStablecoinSupply \<lparr>sp_value_date = ls_value_date x, sp_stablecoin = ls_stablecoin x, sp_metric = ls_metric x,
          sp_value = ls_value x, sp_source = ls_source x, sp_hash = ls_hash x\<rparr>)) rows))"

definition LiqRawRepo_SaveChainTVL :: "liq_tvl_row list \<Rightarrow> ('a world_scheme, unit) io" where
  "LiqRawRepo_SaveChainTVL rows = (if rows = [] then ret () else InTx (forE (\<lambda>x.
     wrapE ''insert raw tvl'' [] (InsertRawChainTVL \<lparr>tv_value_date = lt_value_date x, tv_chain = lt_chain x,
          tv_usd = lt_usd x, tv_source = lt_source x, tv_hash = lt_hash x\<rparr>)) rows))"

definition LiqRawRepo_SaveExchangeNetflow :: "liq_netflow_row list \<Rightarrow> ('a world_scheme, unit) io" where
  "LiqRawRepo_SaveExchangeNetflow rows = (if rows = [] then ret () else InTx (forE (\<lambda>x.
     wrapE ''insert raw netflow'' [] (InsertRawExchangeNetflow \<lparr>nf_value_date = ln_value_date x, nf_asset = ln_asset x,
          nf_inflow = ln_inflow x, nf_outflow = ln_outflow x, nf_netflow = ln_netflow x, nf_source = ln_source x, nf_hash = ln_hash x\<rparr>)) rows))"

definition LiqRawRepo_SaveMarketCap :: "liq_mcap_row list \<Rightarrow> ('a world_scheme, unit) io" where
  "LiqRawRepo_SaveMarketCap rows = (if rows = [] then ret () else InTx (forE (\<lambda>x.
     wrapE ''insert raw mcap'' [] (InsertRawMarketCap \<lparr>mc_value_date = lm_value_date x, mc_coin = lm_coin x,
          mc_cap = lm_cap x, mc_price = lm_price x, mc_source = lm_source x, mc_hash = lm_hash x\<rparr>)) rows))"

definition LiqRawRepo_GetStablecoinSupplyAsOf :: "string \<Rightarrow> gotime \<Rightarrow> gotime \<Rightarrow> ('a world_scheme, f64) io" where
  "LiqRawRepo_GetStablecoinSupplyAsOf coin vd cutoff = InTx_found (GetRawStablecoinSupplyAsOf coin vd cutoff)"

definition LiqRawRepo_SumStablecoinSupplyAsOf :: "string list \<Rightarrow> gotime \<Rightarrow> gotime \<Rightarrow> ('a world_scheme, f64 \<times> int) io" where
  "LiqRawRepo_SumStablecoinSupplyAsOf symbols vd cutoff = InTx (SumRawStablecoinSupplyAsOf symbols vd cutoff)"

definition LiqRawRepo_GetChainTVLAsOf :: "string \<Rightarrow> gotime \<Rightarrow> gotime \<Rightarrow> ('a world_scheme, f64) io" where
  "LiqRawRepo_GetChainTVLAsOf chain vd cutoff = InTx_found (GetRawChainTVLAsOf chain vd cutoff)"

definition LiqRawRepo_Sum7dNetflow :: "asset \<Rightarrow> gotime \<Rightarrow> gotime \<Rightarrow> ('a world_scheme, f64 \<times> bool) io" where
  "LiqRawRepo_Sum7dNetflow a vd cutoff = InTx (Sum7dNetflow a vd cutoff)"

definition LiqRawRepo_GetMarketCapAsOf :: "string \<Rightarrow> gotime \<Rightarrow> gotime \<Rightarrow> ('a world_scheme, f64) io" where
  "LiqRawRepo_GetMarketCapAsOf coin vd cutoff = InTx_found (GetMarketCapAsOf coin vd cutoff)"

definition pg_liq_raws :: "'a world_scheme liq_raws" where
  "pg_liq_raws = \<lparr>lr_SaveStablecoinSupply = LiqRawRepo_SaveStablecoinSupply, lr_SaveChainTVL = LiqRawRepo_SaveChainTVL,
     lr_SaveExchangeNetflow = LiqRawRepo_SaveExchangeNetflow, lr_SaveMarketCap = LiqRawRepo_SaveMarketCap,
     lr_GetStablecoinSupplyAsOf = LiqRawRepo_GetStablecoinSupplyAsOf, lr_SumStablecoinSupplyAsOf = LiqRawRepo_SumStablecoinSupplyAsOf,
     lr_GetChainTVLAsOf = LiqRawRepo_GetChainTVLAsOf, lr_Sum7dNetflow = LiqRawRepo_Sum7dNetflow,
     lr_GetMarketCapAsOf = LiqRawRepo_GetMarketCapAsOf\<rparr>"

definition pg_liq_service :: "'a world_scheme stable_provider option \<Rightarrow> 'a world_scheme tvl_provider option \<Rightarrow>
    'a world_scheme netflow_provider option \<Rightarrow> 'a world_scheme mcap_provider option \<Rightarrow> liq_config \<Rightarrow> asset list \<Rightarrow>
    'a world_scheme liq_service" where
  "pg_liq_service sp tp np mp cfg assets =
     liq_NewService pg_liq_features ScoreRepo_Save pg_liq_raws sp tp np mp Publisher_Publish clock_Now cfg assets"

lemma pg_liq_sel [simp]:
  "lv_features (pg_liq_service sp tp np mp cfg assets) = pg_liq_features"
  "lv_scores (pg_liq_service sp tp np mp cfg assets) = ScoreRepo_Save"
  "lv_raws (pg_liq_service sp tp np mp cfg assets) = pg_liq_raws"
  "lv_stable (pg_liq_service sp tp np mp cfg assets) = sp" "lv_tvl (pg_liq_service sp tp np mp cfg assets) = tp"
  "lv_netflow (pg_liq_service sp tp np mp cfg assets) = np" "lv_mcap (pg_liq_service sp tp np mp cfg assets) = mp"
  "lv_publish (pg_liq_service sp tp np mp cfg assets) = Publisher_Publish"
  "lv_clock (pg_liq_service sp tp np mp cfg assets) = clock_Now"
  "lv_cfg (pg_liq_service sp tp np mp cfg assets) = liq_Defaults cfg"
  "lv_assets (pg_liq_service sp tp np mp cfg assets) = (if assets = [] then AssetsTradeable else assets)"
  by (simp_all add: pg_liq_service_def liq_NewService_def)

section \<open>What each port does to the tables\<close>

lemma liq_frozen_reads: "frozen (snd (GetRawStablecoinSupplyAsOf coin vd c w)) = frozen w"
  "frozen (snd (GetRawChainTVLAsOf chain vd c w)) = frozen w" "frozen (snd (GetMarketCapAsOf coin vd c w)) = frozen w"
  "frozen (snd (GetLatestLiquidityFeature k a vd c w)) = frozen w" "frozen (snd (GetLiquidityFeatureSeries k a from to c w)) = frozen w"
  by (simp_all add: GetRawStablecoinSupplyAsOf_def GetRawChainTVLAsOf_def GetMarketCapAsOf_def GetLatestLiquidityFeature_def
    GetLiquidityFeatureSeries_def)

lemma same_reads_more: "obeys same_data (GetRawStablecoinSupplyAsOf coin vd c)" "obeys same_data (query_plain f)"
  by (simp_all add: obeys_def same_data_def liq_frozen_reads)

lemma same_sum: "obeys same_data (SumRawStablecoinSupplyAsOf syms vd c)" "obeys same_data (Sum7dNetflow a vd c)"
proof -
  have "obeys same_data (\<lambda>w. case GetRawStablecoinSupplyAsOf sym vd c w of
          (Inl e, w') \<Rightarrow> if e = ErrNoRows then (Inr (total, found), w') else (Inl (Wrap ''sum stablecoin'' [AStr sym] e), w')
        | (Inr v, w') \<Rightarrow> (Inr (fadd total v, found + (1::int)), w'))" for sym total found
    by (rule sd.obeys_case[OF same_reads_more(1)]) (simp_all add: obeys_def same_data_def)
  then show "obeys same_data (SumRawStablecoinSupplyAsOf syms vd c)"
    unfolding SumRawStablecoinSupplyAsOf_def by (intro sd.obeys_foldE) (auto intro: sd.obeys_pair)
  show "obeys same_data (Sum7dNetflow a vd c)"
    unfolding Sum7dNetflow_def Let_def by (intro sd.obeys_rules same_reads_more)
qed

lemma in_tx_sums: "obeys in_tx (GetRawStablecoinSupplyAsOf coin vd c)" "obeys in_tx (SumRawStablecoinSupplyAsOf syms vd c)"
  "obeys in_tx (Sum7dNetflow a vd c)"
proof -
  show g: "obeys in_tx (GetRawStablecoinSupplyAsOf coin vd c)" for coin
    unfolding GetRawStablecoinSupplyAsOf_def by (rule in_tx_query_row)
  have "obeys in_tx (\<lambda>w. case GetRawStablecoinSupplyAsOf sym vd c w of
          (Inl e, w') \<Rightarrow> if e = ErrNoRows then (Inr (total, found), w') else (Inl (Wrap ''sum stablecoin'' [AStr sym] e), w')
        | (Inr v, w') \<Rightarrow> (Inr (fadd total v, found + (1::int)), w'))" for sym total found
    by (rule itx.obeys_case[OF g]) (simp_all add: obeys_def itx.refl)
  then show "obeys in_tx (SumRawStablecoinSupplyAsOf syms vd c)"
    unfolding SumRawStablecoinSupplyAsOf_def by (intro itx.obeys_foldE) (auto intro: itx.obeys_pair)
  show "obeys in_tx (Sum7dNetflow a vd c)"
    unfolding Sum7dNetflow_def Let_def query_plain_def by (intro itx.obeys_rules in_tx_db_read in_tx_db_op)
qed

lemma step_reads:
  "obeys ingest_step (LiqFeatureRepo_GetLatest k a vd c)" "obeys ingest_step (LiqFeatureRepo_GetSeries k a from to c)"
  "obeys ingest_step (LiqRawRepo_GetStablecoinSupplyAsOf coin vd c)" "obeys ingest_step (LiqRawRepo_SumStablecoinSupplyAsOf syms vd c)"
  "obeys ingest_step (LiqRawRepo_GetChainTVLAsOf chain vd c)" "obeys ingest_step (LiqRawRepo_Sum7dNetflow a vd c)"
  "obeys ingest_step (LiqRawRepo_GetMarketCapAsOf coinID vd c)"
  unfolding LiqFeatureRepo_GetLatest_def LiqFeatureRepo_GetSeries_def LiqRawRepo_GetStablecoinSupplyAsOf_def
    LiqRawRepo_SumStablecoinSupplyAsOf_def LiqRawRepo_GetChainTVLAsOf_def LiqRawRepo_Sum7dNetflow_def LiqRawRepo_GetMarketCapAsOf_def
  by (intro obeys_InTx_found step_InTx_read in_tx_sums same_sum;
      simp add: obeys_def same_data_def liq_frozen_reads GetLatestLiquidityFeature_def GetLiquidityFeatureSeries_def
        GetRawChainTVLAsOf_def GetMarketCapAsOf_def in_tx_query_row[unfolded obeys_def] in_tx_query_plain[unfolded obeys_def])+

lemma keep_raw_inserts:
  "obeys (same_sel w_scores) (InsertRawStablecoinSupply r1)" "obeys (same_sel (\<lambda>w. (w_features w, w_dfeatures w))) (InsertRawStablecoinSupply r1)"
    "obeys (same_sel w_scores) (InsertRawChainTVL r2)" "obeys (same_sel (\<lambda>w. (w_features w, w_dfeatures w))) (InsertRawChainTVL r2)"
    "obeys (same_sel w_scores) (InsertRawExchangeNetflow r3)" "obeys (same_sel (\<lambda>w. (w_features w, w_dfeatures w))) (InsertRawExchangeNetflow r3)"
    "obeys (same_sel w_scores) (InsertRawMarketCap r4)" "obeys (same_sel (\<lambda>w. (w_features w, w_dfeatures w))) (InsertRawMarketCap r4)"
  unfolding InsertRawStablecoinSupply_def InsertRawChainTVL_def InsertRawExchangeNetflow_def InsertRawMarketCap_def
  by (rule keep_scores.on_write keep_features.on_write; auto simp: map_sum_Inr)+

lemma step_raw_saves:
  "obeys ingest_step (LiqRawRepo_SaveStablecoinSupply r1)" "obeys ingest_step (LiqRawRepo_SaveChainTVL r2)"
  "obeys ingest_step (LiqRawRepo_SaveExchangeNetflow r3)" "obeys ingest_step (LiqRawRepo_SaveMarketCap r4)"
  unfolding LiqRawRepo_SaveStablecoinSupply_def LiqRawRepo_SaveChainTVL_def LiqRawRepo_SaveExchangeNetflow_def LiqRawRepo_SaveMarketCap_def
  by (intro istep.obeys_if istep.obeys_ret step_InTx itx.obeys_forE itx.obeys_wrapE in_tx_inserts ss.obeys_forE ss.obeys_wrapE
      keep_raw_inserts)+

lemma step_feature_Save: "obeys feature_step (LiqFeatureRepo_Save f)"
  unfolding LiqFeatureRepo_Save_def FeatureRepo_Save_def
proof (rule fstep.obeys_option)
  show "obeys feature_step (InTx (InsertLiquidityFeature f))"
    by (intro feature_stepI evolves_InTx keep_scores.on_InTx in_tx_inserts)
      (unfold InsertLiquidityFeature_def, rule keep_scores.on_write, auto simp: map_sum_Inr)
qed (rule fstep.obeys_throw)

text \<open>The data providers only talk to the network: they do not write to the database.\<close>

definition liq_providers_ok :: "'a world_scheme stable_provider option \<Rightarrow> 'a world_scheme tvl_provider option \<Rightarrow>
    'a world_scheme netflow_provider option \<Rightarrow> 'a world_scheme mcap_provider option \<Rightarrow> bool" where
  "liq_providers_ok sp tp np mp \<longleftrightarrow>
     (\<forall>p\<in>set_option sp. obeys ingest_step (sp_FetchAll p) \<and> obeys ingest_step (sp_FetchPer p)) \<and>
     (\<forall>f\<in>set_option tp. \<forall>c. obeys ingest_step (f c)) \<and>
     (\<forall>f\<in>set_option np. \<forall>as from to. obeys ingest_step (f as from to)) \<and>
     (\<forall>f\<in>set_option mp. \<forall>c. obeys ingest_step (f c))"

lemmas pg_liq_port_defs = pg_liq_features_def pg_liq_raws_def

interpretation pg_liq_day: liq_day_ports feature_step "pg_liq_service sp tp np mp cfg assets"
  by unfold_locales (simp_all add: pg_liq_port_defs step_feature_Save ingest_feature step_reads)

lemma pg_liq_ingest: "liq_providers_ok sp tp np mp \<Longrightarrow> liq_ingest_ports ingest_step (pg_liq_service sp tp np mp cfg assets)"
  by unfold_locales (auto simp: pg_liq_port_defs step_raw_saves step_Publish liq_providers_ok_def)

lemma pg_liq_evolves: "liq_providers_ok sp tp np mp \<Longrightarrow> liq_ports evolves (pg_liq_service sp tp np mp cfg assets)"
proof -
  assume p: "liq_providers_ok sp tp np mp"
  have e: "obeys evolves m" if "obeys feature_step m" for m :: "'b world_scheme \<Rightarrow> (err + 'c) \<times> 'b world_scheme"
    using that by (simp add: obeys_def feature_step_def)
  show ?thesis
    by unfold_locales (use p in \<open>auto simp: pg_liq_port_defs ingest_evolves step_raw_saves step_Publish step_reads step_clock
      evolves_ScoreRepo_Save liq_providers_ok_def intro: e step_feature_Save\<close>)
qed

interpretation pg_liq_offline: liq_ports evolves "pg_liq_service None None None None cfg assets"
  by (rule pg_liq_evolves) (simp add: liq_providers_ok_def)

lemma liq_score_sel [simp]: "ds_asset (liq_computeScore M i c) = li_asset i" "ds_domain (liq_computeScore M i c) = DomainLiquidity"
  "ds_value_date (liq_computeScore M i c) = li_value_date i"
  by (simp_all add: liq_computeScore_def Let_def)

text \<open>What the gathered inputs are.\<close>

lemma liq_gather_shape:
  assumes "liq_gatherScoreInputs s a vd c w = (Inr i, w')"
  shows "li_asset i = a" "li_value_date i = vd" "liq_usable i"
  using assms unfolding liq_gatherScoreInputs_def Let_def liq_usable_def
  by (auto simp: bindE_eq_Inr split: prod.splits dest: feature_number_flag)

section \<open>Runs\<close>

text \<open>The service runs as \<open>scored_run\<close> has it.\<close>

abbreviation liq_event :: "liq_config \<Rightarrow> gotime \<Rightarrow> asset \<Rightarrow> f64 \<Rightarrow> event" where
  "liq_event cfg vd a \<equiv> score_event ''scores.liquidity.completed.v1'' (lc_model_version cfg) (lc_config_version cfg) a vd"

lemma liq_scored_run:
  assumes "liq_providers_ok sp tp np mp"
  shows "scored_run (liq_RunOnce M (pg_liq_service sp tp np mp cfg assets) vd)
    (liq_ingestAll (pg_liq_service sp tp np mp cfg assets) (add_days (UTCDay vd) (- 210)) (UTCDay vd))
    (\<lambda>c. wrapE ''global features'' [] (liq_computeGlobalFeatures (pg_liq_service sp tp np mp cfg assets) (UTCDay vd) c))
    (\<lambda>a. liq_assetFeatures (pg_liq_service sp tp np mp cfg assets) a (UTCDay vd))
    (\<lambda>a. liq_gatherScoreInputs (pg_liq_service sp tp np mp cfg assets) a (UTCDay vd))
    (\<lambda>i. liq_computeScore M i (liq_Defaults cfg)) (liq_event (liq_Defaults cfg) (UTCDay vd)) (UTCDay vd) (if assets = [] then AssetsTradeable else assets)"
proof
  let ?s = "pg_liq_service sp tp np mp cfg assets"
  show "liq_RunOnce M ?s vd = seqE (liq_ingestAll ?s (add_days (UTCDay vd) (- 210)) (UTCDay vd)) (bindE clock_Now (\<lambda>c.
      wrapE ''day'' [AStr (fmt_day (UTCDay vd))] (seqE (wrapE ''global features'' [] (liq_computeGlobalFeatures ?s (UTCDay vd) c))
      (forE (\<lambda>a. wrapE ''asset'' [AStr a] (seqE (liq_assetFeatures ?s a (UTCDay vd) c)
         (bindE (wrapE ''gather score inputs'' [] (liq_gatherScoreInputs ?s a (UTCDay vd) c))
         (\<lambda>i. store_score ScoreRepo_Save Publisher_Publish (liq_event (liq_Defaults cfg) (UTCDay vd) a) (liq_computeScore M i (liq_Defaults cfg))))))
        (if assets = [] then AssetsTradeable else assets)))))"
    by (simp add: liq_RunOnce_def liq_computeRange_def day_range_self liq_computeDay_def liq_computeAssetDay_def Let_def seqE_ret split del: if_split)
  show "obeys ingest_step (liq_ingestAll ?s (add_days (UTCDay vd) (- 210)) (UTCDay vd))"
    by (rule liq_ingest_ports.ingest_obeys[OF pg_liq_ingest[OF assms]])
  then show "obeys feature_step (liq_ingestAll ?s (add_days (UTCDay vd) (- 210)) (UTCDay vd))" by (rule ingest_feature)
  show "obeys feature_step (wrapE ''global features'' [] (liq_computeGlobalFeatures ?s (UTCDay vd) c))" for c
    by (intro fstep.obeys_wrapE pg_liq_day.global_obeys)
qed (rule pg_liq_day.asset_obeys pg_liq_day.gather_obeys)+

interpretation liq_offline: scored_run "liq_RunOnce M (pg_liq_service None None None None cfg assets) vd"
    "liq_ingestAll (pg_liq_service None None None None cfg assets) (add_days (UTCDay vd) (- 210)) (UTCDay vd)"
    "\<lambda>c. wrapE ''global features'' [] (liq_computeGlobalFeatures (pg_liq_service None None None None cfg assets) (UTCDay vd) c)"
    "\<lambda>a. liq_assetFeatures (pg_liq_service None None None None cfg assets) a (UTCDay vd)"
    "\<lambda>a. liq_gatherScoreInputs (pg_liq_service None None None None cfg assets) a (UTCDay vd)"
    "\<lambda>i. liq_computeScore M i (liq_Defaults cfg)" "liq_event (liq_Defaults cfg) (UTCDay vd)" "UTCDay vd" "if assets = [] then AssetsTradeable else assets"
  by (rule liq_scored_run) (simp add: liq_providers_ok_def)

lemma liq_run_scores:
  assumes p: "liq_providers_ok sp tp np mp" and run: "liq_RunOnce M (pg_liq_service sp tp np mp cfg assets) vd w = (Inr (), w')"
    and cfg: "liq_cfg_ok cfg" and M: "go_libm M"
  shows "\<exists>new. w_scores w' = w_scores w @ new \<and>
    list_all2 (\<lambda>a row. ds_asset (r_val row) = a \<and> ds_domain (r_val row) = DomainLiquidity \<and> ds_value_date (r_val row) = UTCDay vd \<and>
        fin_in (- 1) 1 (ds_score (r_val row)))
      (if assets = [] then AssetsTradeable else assets) new"
  by (rule scoring_run.run_scores[OF liq_scored_run[OF p, THEN scored_run.axioms(1)] run])
    (use cfg in \<open>auto simp: liq_cfg_ok_def dest: liq_gather_shape intro!: go_libm.liq_score_in(1)[OF M]\<close>)

lemma liq_gather_nothing:
  assumes "nothing_yet w_features vd c w" "liq_gatherScoreInputs (pg_liq_service sp tp np mp cfg assets) a vd c w = (Inr i, w')"
  shows "liq_nothing i"
proof -
  let ?fr = "pg_liq_features :: 'a world_scheme feature_repo"
  have n: "fr_GetLatest ?fr k a vd c w \<noteq> (Inr v, w')" if "nothing_yet w_features vd c w" for k a v w w'
    using liq_view.no_feature[OF that] by (simp add: pg_liq_features_def LiqFeatureRepo_GetLatest_def GetLatestLiquidityFeature_def)
  have v: "\<not> ok" if "feature_value ?fr k a vd c w = (Inr (v, ok), w')" "nothing_yet w_features vd c w" for k a v ok w w'
    using feature_value_flag[OF that(1)] n[OF that(2)] by blast
  have fe: "evolves w w'" if "feature_value ?fr k a vd c w = (Inr x, w')" for k a x w w'
    using obeysD[OF pg_liq_day.obeys_feature_value[simplified] that] by (simp add: feature_step_def)
  have fn: "evolves w w'" if "feature_number ?fr k a vd c w = (Inr x, w')" for k a x w w'
    using obeysD[OF pg_liq_day.obeys_feature_number[simplified] that] by (simp add: feature_step_def)
  show ?thesis
    using assms unfolding liq_gatherScoreInputs_def Let_def liq_nothing_def
    by (auto simp: bindE_eq_Inr split: prod.splits) (metis v fe fn liq_view.nothing_yet_evolves)+
qed

lemma liq_first_run:
  assumes p: "liq_providers_ok sp tp np mp" and run: "liq_RunOnce M (pg_liq_service sp tp np mp cfg assets) vd w = (Inr (), w')"
    and cfg: "liq_cfg_ok cfg" and clk: "strict_mono (w_clock w)" and new: "\<forall>r\<in>set (w_features w). ft_value_date (r_val r) \<noteq> UTCDay vd"
  shows "\<exists>new. w_scores w' = w_scores w @ new \<and>
    list_all2 (\<lambda>a row. ds_asset (r_val row) = a \<and> feq (ds_score (r_val row)) fzero)
      (if assets = [] then AssetsTradeable else assets) new"
proof (rule scored_run.first_run[OF liq_scored_run[OF p] liq_view.feature_view_axioms run clk new])
  have c: "liq_cfg_ok (liq_Defaults cfg)" using cfg by (simp add: liq_cfg_ok_def)
  show "ds_asset (liq_computeScore M i (liq_Defaults cfg)) = a \<and> feq (ds_score (liq_computeScore M i (liq_Defaults cfg))) fzero"
    if "nothing_yet w_features (UTCDay vd) c' w1"
      "liq_gatherScoreInputs (pg_liq_service sp tp np mp cfg assets) a (UTCDay vd) c' w1 = (Inr i, w2)" for c' a w1 i w2
    using liq_gather_nothing[OF that] liq_gather_shape(1)[OF that(2)] liq_score_zero[OF c] by simp
qed

end
