(* ===== verification/LiquidityRun.thy ===== *)
theory LiquidityRun
  imports PgLiquidity ExampleRun
begin

text \<open>
  The liquidity service on a database without faults: once the ingestion has succeeded, the rest of
  a run succeeds.
\<close>

lemma finds_liq_ports:
  "finds healthy (LiqFeatureRepo_GetLatest k a vd c)" "finds healthy (LiqRawRepo_GetStablecoinSupplyAsOf coin vd c)"
  "finds healthy (LiqRawRepo_GetChainTVLAsOf chain vd c)" "finds healthy (LiqRawRepo_GetMarketCapAsOf coinID vd c)"
  unfolding LiqFeatureRepo_GetLatest_def LiqRawRepo_GetStablecoinSupplyAsOf_def LiqRawRepo_GetChainTVLAsOf_def
    LiqRawRepo_GetMarketCapAsOf_def
  by (rule finds_InTx_found, rule step_reads[unfolded LiqFeatureRepo_GetLatest_def LiqRawRepo_GetStablecoinSupplyAsOf_def
        LiqRawRepo_GetChainTVLAsOf_def LiqRawRepo_GetMarketCapAsOf_def],
      simp add: GetLatestLiquidityFeature_def GetRawStablecoinSupplyAsOf_def GetRawChainTVLAsOf_def GetMarketCapAsOf_def reads_ok_query_row)+

lemma sum_runs:
  "fault_free w \<Longrightarrow> \<exists>x n. foldE (\<lambda>(total, found) sym w. case GetRawStablecoinSupplyAsOf sym vd c w of
          (Inl e, w') \<Rightarrow> if e = ErrNoRows then (Inr (total, found), w') else (Inl (Wrap ''sum stablecoin'' [AStr sym] e), w')
        | (Inr v, w') \<Rightarrow> (Inr (fadd total v, found + (1::int)), w')) s syms w = (Inr x, w\<lparr>w_ticks := n\<rparr>)"
proof (induction syms arbitrary: s w)
  case Nil
  show ?case by (rule exI[of _ s], rule exI[of _ "w_ticks w"]) simp
next
  case (Cons sym syms)
  obtain r n where r: "GetRawStablecoinSupplyAsOf sym vd c w = (r, w\<lparr>w_ticks := n\<rparr>)" "\<forall>e. r = Inl e \<longrightarrow> e = ErrNoRows"
    using reads_ok_query_row Cons.prems unfolding reads_ok_def GetRawStablecoinSupplyAsOf_def by blast
  have "fault_free (w\<lparr>w_ticks := n\<rparr>)" using Cons.prems by simp
  note ih = Cons.IH[OF this]
  show ?case
  proof (cases r)
    case (Inl e)
    then show ?thesis using r ih[of s] by (cases s) (auto simp: bindE_def)
  next
    case (Inr v)
    then show ?thesis using r ih[of "(fadd (fst s) v, snd s + 1)"] by (cases s) (auto simp: bindE_def)
  qed
qed

lemma total_liq_sums: "total_io healthy (LiqRawRepo_SumStablecoinSupplyAsOf syms vd c) (\<lambda>_. True)"
  "total_io healthy (LiqRawRepo_Sum7dNetflow a vd c) (\<lambda>_. True)"
proof -
  note r = step_reads(4,6)[THEN ingest_evolves, unfolded LiqRawRepo_SumStablecoinSupplyAsOf_def LiqRawRepo_Sum7dNetflow_def]
  show "total_io healthy (LiqRawRepo_SumStablecoinSupplyAsOf syms vd c) (\<lambda>_. True)"
    unfolding LiqRawRepo_SumStablecoinSupplyAsOf_def
    by (rule healthy_InTx_total[OF r(1)]) (unfold SumRawStablecoinSupplyAsOf_def, rule sum_runs)
  show "total_io healthy (LiqRawRepo_Sum7dNetflow a vd c) (\<lambda>_. True)"
    unfolding LiqRawRepo_Sum7dNetflow_def
    by (rule healthy_InTx_total[OF r(2)])
      (auto simp: Sum7dNetflow_def query_plain_def db_read_def seqE_def bindE_def Let_def split: prod.splits)
qed

section \<open>The run succeeds\<close>

lemma total_GetLatest_attempt: "total_io healthy (attempt (LiqFeatureRepo_GetLatest k a vd c)) (\<lambda>_. True)"
  "total_io healthy (attempt (LiqFeatureRepo_GetSeries k a from to c)) (\<lambda>_. True)"
  "total_io healthy (attempt (LiqRawRepo_GetMarketCapAsOf coin vd c)) (\<lambda>_. True)"
  by (rule total_attempt, rule healthy_step, rule step_reads, assumption)+

lemma total_save: "total_io healthy (save_feature pg_liq_features sha k a vd v sn sv) (\<lambda>_. True)"
  by (rule total_save_feature, rule healthy_keeps)
    (use step_feature_Save in \<open>auto simp: pg_liq_features_def obeys_def feature_step_def\<close>)

lemma total_tries:
  "total_io healthy (liq_tryComputeGrowth (pg_liq_service sp tp np mp cfg assets) k vd c n) (\<lambda>_. True)"
  "total_io healthy (liq_tryComputeZScore (pg_liq_service sp tp np mp cfg assets) k a vd c n m) (\<lambda>_. True)"
  "total_io healthy (liq_tryComputePercentileRank (pg_liq_service sp tp np mp cfg assets) k a vd c n m) (\<lambda>_. True)"
  unfolding liq_tryComputeGrowth_def liq_tryComputeZScore_def try_zscore_def liq_tryComputePercentileRank_def
    pg_liq_sel pg_liq_features_def feature_repo.simps
  by (rule total_bindE[OF total_GetLatest_attempt(1)], auto split: sum.split intro!: total_ret total_bindE[OF total_GetLatest_attempt(1)]
      total_bindE[OF total_GetLatest_attempt(2)])

lemma total_liq_save: "total_io healthy (liq_saveFeature (pg_liq_service sp tp np mp cfg assets) k a vd v sn sv) (\<lambda>_. True)"
  "total_io healthy (liq_saveGlobalFeature (pg_liq_service sp tp np mp cfg assets) k vd v sn sv) (\<lambda>_. True)"
  by (simp_all add: liq_saveFeature_def liq_saveGlobalFeature_def total_save)

lemma total_computeGlobalFeatures: "total_io healthy (liq_computeGlobalFeatures (pg_liq_service sp tp np mp cfg assets) vd c) (\<lambda>_. True)"
proof -
  have sum: "total_io healthy (bindE (LiqRawRepo_SumStablecoinSupplyAsOf syms vd c) (\<lambda>(sum, found).
        if 0 < found then liq_saveGlobalFeature (pg_liq_service sp tp np mp cfg assets) k vd sum sn sv else ret ())) (\<lambda>_. True)" for syms k sn sv
    by (rule total_bindE[OF total_liq_sums(1)]) (auto intro!: total_liq_save total_ret)
  show ?thesis
    unfolding liq_computeGlobalFeatures_def Let_def pg_liq_sel pg_liq_raws_def liq_raws.simps
    by (intro total_seq1 sum total_if_found finds_liq_ports total_when_some total_tries total_liq_save)
qed

lemma total_assetFeatures: "total_io healthy (liq_assetFeatures (pg_liq_service sp tp np mp cfg assets) a vd c) (\<lambda>_. True)"
proof -
  have sum: "total_io healthy (bindE (LiqRawRepo_Sum7dNetflow a vd c) (\<lambda>(sum, complete).
        if complete then liq_saveFeature (pg_liq_service sp tp np mp cfg assets) k a vd sum sn sv else ret ())) (\<lambda>_. True)" for k sn sv
    by (rule total_bindE[OF total_liq_sums(2)]) (auto intro!: total_liq_save total_ret)
  have ssr: "total_io healthy (bindE (attempt (LiqRawRepo_GetMarketCapAsOf coin vd c)) (\<lambda>r. case r of Inl e \<Rightarrow> ret () | Inr mcap \<Rightarrow>
        if flt fzero mcap then
          bindE (attempt (LiqFeatureRepo_GetLatest k' AssetGlobal vd c)) (\<lambda>r. case r of Inl e \<Rightarrow> ret () | Inr supply \<Rightarrow>
            if flt fzero supply then liq_saveFeature (pg_liq_service sp tp np mp cfg assets) k a vd (fdiv mcap supply) sn sv
            else ret ())
        else ret ())) (\<lambda>_. True)" for coin k k' sn sv
    by (rule total_bindE[OF total_GetLatest_attempt(3)])
      (auto split: sum.split intro!: total_ret total_liq_save total_bindE[OF total_GetLatest_attempt(1)])
  show ?thesis
    unfolding liq_assetFeatures_def Let_def pg_liq_sel pg_liq_raws_def liq_raws.simps pg_liq_features_def feature_repo.simps
    by (intro total_seq1 sum ssr total_when_some total_tries total_liq_save)
qed

lemma total_gather:
  "total_io healthy (liq_gatherScoreInputs (pg_liq_service sp tp np mp cfg assets) a vd c)
     (\<lambda>i. li_asset i = a \<and> li_value_date i = vd \<and> liq_usable i)"
proof -
  have "total_io healthy (liq_gatherScoreInputs (pg_liq_service sp tp np mp cfg assets) a vd c) (\<lambda>_. True)"
    unfolding liq_gatherScoreInputs_def Let_def pg_liq_sel pg_liq_features_def
    by (rule total_bindE[OF total_feature_value], simp add: finds_liq_ports, clarsimp,
        rule total_bindE[OF total_feature_number], simp add: finds_liq_ports, clarsimp,
        rule total_bindE[OF total_feature_value], simp add: finds_liq_ports, clarsimp,
        rule total_bindE[OF total_feature_value], simp add: finds_liq_ports, clarsimp, rule total_ret, rule TrueI)
  note run = total_ioD[OF this]
  show ?thesis unfolding total_io_def
  proof (intro allI impI)
    fix w :: "'a world_scheme" assume "healthy w"
    then obtain i w' where g: "liq_gatherScoreInputs (pg_liq_service sp tp np mp cfg assets) a vd c w = (Inr i, w')" "healthy w'"
      using run by blast
    then show "\<exists>x w'. liq_gatherScoreInputs (pg_liq_service sp tp np mp cfg assets) a vd c w = (Inr x, w') \<and> healthy w' \<and>
        li_asset x = a \<and> li_value_date x = vd \<and> liq_usable x" using liq_gather_shape[OF g(1)] by blast
  qed
qed

text \<open>What a run needs of its arguments: a model version, known assets and a day other than the zero time.\<close>

lemma liq_storable:
  assumes M: "go_libm M" and "liq_cfg_ok cfg" "lc_model_version cfg \<noteq> []" "Asset_Validate (li_asset i) = None"
    "li_value_date i \<noteq> zero_time" and u: "liq_usable i"
  shows "storable (liq_computeScore M i (liq_Defaults cfg))"
proof (rule storableI)
  have c: "liq_cfg_ok (liq_Defaults cfg)" using assms(2) by (simp add: liq_cfg_ok_def)
  show "fin_in (- 1) 1 (ds_score (liq_computeScore M i (liq_Defaults cfg)))"
    "\<forall>v\<in>ran (ds_components (liq_computeScore M i (liq_Defaults cfg))). fin_in (- 1) 1 v"
    using go_libm.liq_score_in[OF M c u] by simp_all
  show "json_anys (ds_quality (liq_computeScore M i (liq_Defaults cfg)))"
    using ran_map_of_sub unfolding json_anys_def liq_computeScore_def Let_def domain_score.simps by fastforce
  show "ds_model_version (liq_computeScore M i (liq_Defaults cfg)) \<noteq> []"
    using assms(3) by (simp add: liq_computeScore_def Let_def liq_Defaults_def)
qed (use assms in \<open>simp_all add: AllDomains_def\<close>)

theorem liq_run_succeeds:
  assumes M: "go_libm M" and "liq_cfg_ok cfg" "lc_model_version cfg \<noteq> []" "\<forall>a\<in>set assets. Asset_Validate a = None" "UTCDay vd \<noteq> zero_time"
    and p: "liq_providers_ok sp tp np mp" and h: "healthy w"
    and ingest: "fst (liq_ingestAll (pg_liq_service sp tp np mp cfg assets) (add_days (UTCDay vd) (- 210)) (UTCDay vd) w) = Inr ()"
  shows "\<exists>w'. liq_RunOnce M (pg_liq_service sp tp np mp cfg assets) vd w = (Inr (), w') \<and> healthy w'"
proof (rule scoring_run.run_succeeds[OF liq_scored_run[OF p, THEN scored_run.axioms(1)] _ _ _ _ h ingest])
  fix a c assume "a \<in> set (if assets = [] then AssetsTradeable else assets)"
  then have v: "Asset_Validate a = None" using assms(4) AssetsTradeable_valid by (auto split: if_splits)
  show "total_io healthy (liq_gatherScoreInputs (pg_liq_service sp tp np mp cfg assets) a (UTCDay vd) c)
      (\<lambda>i. storable (liq_computeScore M i (liq_Defaults cfg)))"
    by (rule total_weaken[OF total_gather]) (use v assms in \<open>auto intro!: liq_storable\<close>)
qed (intro total_wrapE total_computeGlobalFeatures total_assetFeatures | erule score_event_json)+

section \<open>An example\<close>

definition ex_liq_config :: liq_config where
  "ex_liq_config = \<lparr>lc_model_version = ''liquidity_v1'', lc_config_version = ''c1'', lc_code_sha = ''dev'', lc_supply = ''v1'',
     lc_growth = ''v1'', lc_zscore = ''v1'', lc_netflow7d = ''v1'', lc_netflow_z = ''v1'', lc_tvl = ''v1'', lc_tvl_growth = ''v1'',
     lc_tvl_z = ''v1'', lc_supply_major = ''v1'', lc_ssr = ''v1'', lc_ssr_pct = ''v1'', lc_w_stable = fzero, lc_w_netflow = fzero,
     lc_w_defi = fzero, lc_scale = fzero\<rparr>"

lemma ex_liq_config_ok: "liq_cfg_ok ex_liq_config"
  by (simp add: liq_cfg_ok_def liq_Defaults_def if_zero_def ex_liq_config_def scale_ok_def f64_eval)

lemma start_healthy: "healthy (start_world ss)"
  by (auto simp: healthy_def start_world_def fault_free_def strict_mono_def)

lemma offline_ok: "liq_providers_ok None None None None"
  by (simp add: liq_providers_ok_def)

lemma offline_ingest: "fst (liq_ingestAll (pg_liq_service None None None None cfg assets) f t w) = Inr ()"
  by (simp add: liq_ingestAll_def ingestStablecoinSupply_def ingestPerStablecoinSupply_def ingestChainTVL_def
    ingestMarketCap_def ingestExchangeNetflow_def seqE_def bindE_def wrapE_def)

lemma ex_liq_runs: "\<exists>w'. liq_RunOnce ideal_libm (pg_liq_service None None None None ex_liq_config []) ex_day (start_world []) = (Inr (), w') \<and> healthy w'"
  by (rule liq_run_succeeds[OF ideal.go_libm_axioms ex_liq_config_ok _ _ _ offline_ok start_healthy offline_ingest])
    (simp_all add: ex_liq_config_def ex_day_def UTCDay_def day_of_def day_ns_def zero_time_def)

end
