(* ===== verification/Leverage.thy ===== *)
theory Leverage
  imports FeatureLib LeverageRows
begin

text \<open>
  \<open>internal/leverage\<close>: configuration, ports, features, the score of a day (\<open>pipeline.go\<close>) and the
  service (\<open>service.go\<close>).  \<open>(value, ok)\<close> results are options.  A \<open>range\<close> over a map visits its keys
  in an order the caller supplies.
\<close>

section \<open>Configuration\<close>

record lev_config =
  vc_model_version :: string
  vc_config_version :: string
  vc_code_sha :: string
  vc_intermediate :: string
  vc_final :: string
  vc_w_size :: f64
  vc_w_funding :: f64
  vc_w_basis :: f64
  vc_w_liq :: f64
  vc_w_momentum :: f64
  vc_w_crowd :: f64
  vc_scale :: f64

definition lev_Defaults :: "lev_config \<Rightarrow> lev_config" where
  "lev_Defaults c = c\<lparr>vc_w_size := if_zero (vc_w_size c) (255 / 1000), vc_w_funding := if_zero (vc_w_funding c) (1275 / 10000),
     vc_w_basis := if_zero (vc_w_basis c) (17 / 100), vc_w_liq := if_zero (vc_w_liq c) (17 / 100),
     vc_w_momentum := if_zero (vc_w_momentum c) (1275 / 10000), vc_w_crowd := if_zero (vc_w_crowd c) (15 / 100),
     vc_scale := if_zero (vc_scale c) 2\<rparr>"

section \<open>Ports\<close>

record oi_point =
  op_date :: gotime
  op_asset :: asset
  op_usd :: f64
  op_hash :: string

record funding_point =
  fp_time :: gotime
  fp_asset :: asset
  fp_rate :: f64
  fp_hash :: string

record basis_snapshot =
  bp_date :: gotime
  bp_asset :: asset
  bp_instrument :: string
  bp_futures :: f64
  bp_spot :: f64
  bp_annualized :: f64
  bp_days :: int
  bp_hash :: string

record cg_oi_point =
  co_date :: gotime
  co_asset :: asset
  co_exchange :: string
  co_usd :: f64
  co_hash :: string

record cg_basis_point =
  cb_date :: gotime
  cb_asset :: asset
  cb_symbol :: string
  cb_exchange :: string
  cb_annualized :: f64
  cb_close :: f64
  cb_hash :: string

record cg_liq_point =
  cl_date :: gotime
  cl_asset :: asset
  cl_long :: f64
  cl_short :: f64
  cl_hash :: string

record cg_ls_point =
  cs_date :: gotime
  cs_asset :: asset
  cs_exchange :: string
  cs_long :: f64
  cs_short :: f64
  cs_ratio :: f64
  cs_hash :: string

record cg_taker_point =
  ct_date :: gotime
  ct_asset :: asset
  ct_buy :: f64
  ct_sell :: f64
  ct_hash :: string

record cg_borrow_point =
  cw_date :: gotime
  cw_symbol :: string
  cw_exchange :: string
  cw_rate :: f64
  cw_hash :: string

record 'w lev_raws =
  vr_SaveExchangeOI :: "oi_row list \<Rightarrow> ('w, unit) io"
  vr_SaveExchangeFunding :: "funding_row list \<Rightarrow> ('w, unit) io"
  vr_SaveCoinglassFuturesBasis :: "basis_row list \<Rightarrow> ('w, unit) io"
  vr_SaveDeribitBasis :: "deribit_basis_row \<Rightarrow> ('w, unit) io"
  vr_SaveExchangeLiquidations :: "liqs_row list \<Rightarrow> ('w, unit) io"
  vr_AggregatedOIAsOf :: "asset \<Rightarrow> gotime \<Rightarrow> gotime \<Rightarrow> ('w, f64 option) io"
  vr_CoinglassAggregatedOIAsOf :: "asset \<Rightarrow> gotime \<Rightarrow> gotime \<Rightarrow> ('w, f64 option) io"
  vr_DailyAvgFundingAsOf :: "asset \<Rightarrow> gotime \<Rightarrow> gotime \<Rightarrow> ('w, f64 option) io"
  vr_DailyTotalLiquidationsAsOf :: "asset \<Rightarrow> gotime \<Rightarrow> gotime \<Rightarrow> ('w, f64 option) io"
  vr_CoinglassAggregatedLiquidationsAsOf :: "asset \<Rightarrow> gotime \<Rightarrow> gotime \<Rightarrow> ('w, f64 option) io"
  vr_GetCoinglassFuturesBasisAsOf :: "string \<Rightarrow> string \<Rightarrow> gotime \<Rightarrow> gotime \<Rightarrow> ('w, f64 option) io"
  vr_GetDeribitBasisAsOf :: "asset \<Rightarrow> gotime \<Rightarrow> gotime \<Rightarrow> ('w, f64 option) io"
  vr_GetMarketCapAsOf :: "string \<Rightarrow> gotime \<Rightarrow> gotime \<Rightarrow> ('w, f64) io"
  vr_SaveCoinglassLSRatio :: "ls_kind \<Rightarrow> ls_row list \<Rightarrow> ('w, unit) io"
  vr_SaveCoinglassTakerVolume :: "taker_row list \<Rightarrow> ('w, unit) io"
  vr_SaveCoinglassBorrowRate :: "borrow_row list \<Rightarrow> ('w, unit) io"
  vr_CoinglassLSRatioAvgAsOf :: "ls_kind \<Rightarrow> string \<Rightarrow> gotime \<Rightarrow> gotime \<Rightarrow> ('w, f64 option) io"
  vr_CoinglassTakerVolumeAsOf :: "string \<Rightarrow> gotime \<Rightarrow> gotime \<Rightarrow> ('w, (f64 \<times> f64) option) io"

type_synonym 'w oi_provider = "asset \<Rightarrow> gotime \<Rightarrow> gotime \<Rightarrow> ('w, oi_point list) io"
type_synonym 'w funding_provider = "asset \<Rightarrow> gotime \<Rightarrow> gotime \<Rightarrow> ('w, funding_point list) io"
type_synonym 'w basis_provider = "asset \<Rightarrow> ('w, basis_snapshot) io"
type_synonym 'w cg_basis_provider = "asset \<Rightarrow> string \<Rightarrow> int \<Rightarrow> ('w, cg_basis_point list) io"

record 'w cg_oi_provider =
  co_FetchOIHistory :: "asset \<Rightarrow> string \<Rightarrow> int \<Rightarrow> ('w, cg_oi_point list) io"
  co_FetchAggregatedOIHistoryRange :: "asset \<Rightarrow> gotime \<Rightarrow> gotime \<Rightarrow> int \<Rightarrow> ('w, cg_oi_point list) io"

record 'w cg_crowd_provider =
  cc_FetchLSRatio :: "ls_kind \<Rightarrow> asset \<Rightarrow> string \<Rightarrow> int \<Rightarrow> ('w, cg_ls_point list) io"
  cc_FetchAggregatedTakerVolume :: "asset \<Rightarrow> string list \<Rightarrow> int \<Rightarrow> ('w, cg_taker_point list) io"
  cc_FetchBorrowRate :: "string \<Rightarrow> string \<Rightarrow> int \<Rightarrow> ('w, cg_borrow_point list) io"

type_synonym 'w cg_liq_provider = "asset \<Rightarrow> string list \<Rightarrow> gotime \<Rightarrow> gotime \<Rightarrow> int \<Rightarrow> ('w, cg_liq_point list) io"

section \<open>Features\<close>

definition OIUsdRawName where "OIUsdRawName = ''oi_usd_raw''"
definition OIMcapRatioName where "OIMcapRatioName = ''oi_mcap_ratio''"
definition FundingRateDailyName where "FundingRateDailyName = ''funding_rate_daily''"
definition BasisFromFundingApproxName where "BasisFromFundingApproxName = ''basis_from_funding_approx''"
definition Basis3mDailyName where "Basis3mDailyName = ''basis_3m_daily''"
definition LiquidationsDailyLogName where "LiquidationsDailyLogName = ''liquidations_daily_log''"
definition OIChange30dName where "OIChange30dName = ''oi_change_30d''"
definition OIMcapPercentile365dName where "OIMcapPercentile365dName = ''oi_mcap_percentile_365d''"
definition FundingRateZScore90dName where "FundingRateZScore90dName = ''funding_rate_zscore_90d''"
definition Basis3mZScore90dName where "Basis3mZScore90dName = ''basis_3m_zscore_90d''"
definition LiquidationsStress60dName where "LiquidationsStress60dName = ''liquidations_stress_60d''"
definition OIChangeZScore30d180dName where "OIChangeZScore30d180dName = ''oi_change_zscore_30d_180d''"
definition TopTradersPositionSkewZName where "TopTradersPositionSkewZName = ''top_traders_position_skew_zscore_90d''"
definition CrowdVsSmartDivergenceZName where "CrowdVsSmartDivergenceZName = ''crowd_vs_smart_divergence_zscore_90d''"
definition TakerAggressionZName where "TakerAggressionZName = ''taker_aggression_zscore_90d''"
definition TopTradersPositionSkewDailyName where "TopTradersPositionSkewDailyName = ''top_traders_position_skew_daily''"
definition CrowdVsSmartDivergenceDailyName where "CrowdVsSmartDivergenceDailyName = ''crowd_vs_smart_divergence_daily''"
definition TakerAggressionDailyName where "TakerAggressionDailyName = ''taker_aggression_daily''"

record crowd_inputs =
  ci_global :: f64
  ci_top_account :: f64
  ci_top_position :: f64
  ci_buy :: f64
  ci_sell :: f64

definition TopTradersPositionSkewDaily :: "crowd_inputs \<Rightarrow> f64 option" where
  "TopTradersPositionSkewDaily i =
     (if fle (ci_top_position i) fzero then None else Some (fabs (fsub (ci_top_position i) fone)))"

definition CrowdVsSmartDivergenceDaily :: "libm \<Rightarrow> crowd_inputs \<Rightarrow> f64 option" where
  "CrowdVsSmartDivergenceDaily M i =
     (if fle (ci_top_account i) fzero \<or> fle (ci_global i) fzero then None
      else Some (m_log M (fdiv (ci_top_account i) (ci_global i))))"

definition TakerAggressionDaily :: "crowd_inputs \<Rightarrow> f64 option" where
  "TakerAggressionDaily i =
     (let denom = fadd (ci_buy i) (ci_sell i)
      in if fle denom fzero then None else Some (fdiv (fsub (ci_buy i) (ci_sell i)) denom))"

definition Log1p :: "libm \<Rightarrow> f64 \<Rightarrow> f64" where
  "Log1p M x = (if isNaN x \<or> isInf x then NaN else m_log1p M x)"

definition AnnualizedBasisFromFunding :: "f64 \<Rightarrow> f64" where
  "AnnualizedBasisFromFunding rate = fmul (fmul (fmul rate (lit 3)) (lit 365)) (lit 100)"

definition PerpSymbolForAsset :: "string \<Rightarrow> string" where
  "PerpSymbolForAsset a = (if a = ''BTC'' then ''BTCUSDT'' else if a = ''ETH'' then ''ETHUSDT'' else [])"

section \<open>The score\<close>

record lev_inputs =
  vi_asset :: asset
  vi_value_date :: gotime
  vi_oi :: f64
  vi_oi_ok :: bool
  vi_funding :: f64
  vi_funding_ok :: bool
  vi_basis :: f64
  vi_basis_ok :: bool
  vi_liq :: f64
  vi_liq_ok :: bool
  vi_oichange :: f64
  vi_oichange_ok :: bool
  vi_skew :: f64
  vi_skew_ok :: bool
  vi_div :: f64
  vi_div_ok :: bool
  vi_taker :: f64
  vi_taker_ok :: bool
  vi_features :: "string list"

definition lev_size :: "libm \<Rightarrow> f64 \<Rightarrow> bool \<Rightarrow> f64 \<Rightarrow> f64" where
  "lev_size M scale ok p =
     (if ok \<and> \<not> isNaN p then fneg (TanhSquash M (fmul (fsub p (lit (1 / 2))) (lit 4)) scale) else fzero)"

definition lev_crowd :: "libm \<Rightarrow> f64 \<Rightarrow> lev_inputs \<Rightarrow> f64 \<times> f64" where
  "lev_crowd M scale i = avg_signals [map_option fneg (opt_signal M scale (vi_skew_ok i) (vi_skew i)),
     opt_signal M scale (vi_div_ok i) (vi_div i), opt_signal M scale (vi_taker_ok i) (vi_taker i)]"

definition lev_computeScore :: "libm \<Rightarrow> lev_inputs \<Rightarrow> lev_config \<Rightarrow> domain_score" where
  "lev_computeScore M i cfg0 =
     (let cfg = lev_Defaults cfg0; scale = vc_scale cfg;
          size = lev_size M scale (vi_oi_ok i) (vi_oi i);
          funding = signal M scale (vi_funding_ok i) (vi_funding i);
          basis = signal M scale (vi_basis_ok i) (vi_basis i);
          liq = neg_signal M scale (vi_liq_ok i) (vi_liq i);
          momentum = neg_signal M scale (vi_oichange_ok i) (vi_oichange i);
          (crowd, crowdN) = lev_crowd M scale i;
          score = clamp1 (fadd (fadd (fadd (fadd (fadd (fmul (vc_w_size cfg) size) (fmul (vc_w_funding cfg) funding))
             (fmul (vc_w_basis cfg) basis)) (fmul (vc_w_liq cfg) liq)) (fmul (vc_w_momentum cfg) momentum)) (fmul (vc_w_crowd cfg) crowd))
      in \<lparr>ds_asset = vi_asset i, ds_domain = DomainLeverage, ds_value_date = vi_value_date i, ds_score = score,
          ds_components = map_of [(''component_size'', size), (''component_funding'', funding), (''component_basis'', basis),
             (''component_liq'', liq), (''component_momentum'', momentum), (''component_crowd_positioning'', crowd)],
          ds_features_used = vi_features i, ds_model_version = vc_model_version cfg,
          ds_config_version = vc_config_version cfg, ds_code_sha = vc_code_sha cfg,
          ds_sources = map_of [(''exchange_oi'', ''exchange_v1''), (''exchange_funding'', ''exchange_v1''),
             (''exchange_liqs'', ''exchange_v1''), (''deribit_basis'', ''deribit_v1''), (''coinglass_basis'', ''coinglass_v4'')],
          ds_quality = map_of [(''oi_available'', ABool (vi_oi_ok i)), (''funding_available'', ABool (vi_funding_ok i)),
             (''basis_available'', ABool (vi_basis_ok i)), (''liq_available'', ABool (vi_liq_ok i)),
             (''momentum_available'', ABool (vi_oichange_ok i)), (''position_skew_available'', ABool (vi_skew_ok i)),
             (''crowd_divergence_available'', ABool (vi_div_ok i)), (''taker_aggression_available'', ABool (vi_taker_ok i)),
             (''crowd_positioning_n'', AFloat crowdN),
             (''partial_coverage'', ABool (\<not> (vi_oi_ok i \<and> vi_funding_ok i \<and> vi_basis_ok i \<and> vi_liq_ok i \<and> vi_oichange_ok i \<and>
                (vi_skew_ok i \<or> vi_div_ok i \<or> vi_taker_ok i))))]\<rparr>)"

section \<open>The score is in range\<close>

definition lev_cfg_ok :: "lev_config \<Rightarrow> bool" where
  "lev_cfg_ok c \<longleftrightarrow> (let d = lev_Defaults c in fin_in 0 1 (vc_w_size d) \<and> fin_in 0 1 (vc_w_funding d) \<and> fin_in 0 1 (vc_w_basis d) \<and>
     fin_in 0 1 (vc_w_liq d) \<and> fin_in 0 1 (vc_w_momentum d) \<and> fin_in 0 1 (vc_w_crowd d) \<and> scale_ok (vc_scale d))"

lemma lev_Defaults_idem [simp]: "lev_Defaults (lev_Defaults c) = lev_Defaults c"
  by (simp add: lev_Defaults_def if_zero_idem)

lemma lev_score_sel [simp]: "ds_asset (lev_computeScore M i c) = vi_asset i" "ds_domain (lev_computeScore M i c) = DomainLeverage"
  "ds_value_date (lev_computeScore M i c) = vi_value_date i" "ds_model_version (lev_computeScore M i c) = vc_model_version c"
  by (simp_all add: lev_computeScore_def Let_def lev_Defaults_def split: prod.split)

context go_libm
begin

lemma lev_size_in: "scale_ok s \<Longrightarrow> fin_in (- 1) 1 (lev_size M s ok p)"
  unfolding lev_size_def by (auto intro!: fin_in_neg1 squash_in centred_not_NaN)

lemma lev_crowd_in: "scale_ok s \<Longrightarrow> fin_in (- 1) 1 (fst (lev_crowd M s i)) \<and> is_finite (snd (lev_crowd M s i))"
  unfolding lev_crowd_def by (rule avg_signals_in) (auto intro: opt_signal_in fin_in_neg1 dest!: sym[of "Some _"])

lemma lev_score_in:
  assumes "lev_cfg_ok c"
  shows "fin_in (- 1) 1 (ds_score (lev_computeScore M i c))"
    and "\<forall>v\<in>ran (ds_components (lev_computeScore M i c)). fin_in (- 1) 1 v"
proof -
  note w = assms[unfolded lev_cfg_ok_def Let_def]
  have s: "scale_ok (vc_scale (lev_Defaults c))" using w by simp
  obtain crowd n where cr: "lev_crowd M (vc_scale (lev_Defaults c)) i = (crowd, n)" by fastforce
  have c: "fin_in (- 1) 1 crowd" "is_finite n" using lev_crowd_in[OF s, of i] cr by simp_all
  note comps = lev_size_in[OF s] signal_in[OF s] neg_signal_in[OF s] c(1)
  show "fin_in (- 1) 1 (ds_score (lev_computeScore M i c))"
    unfolding lev_computeScore_def Let_def cr by (simp, rule clamp1_weighted6) (use w comps in simp_all)
  show "\<forall>v\<in>ran (ds_components (lev_computeScore M i c)). fin_in (- 1) 1 v"
    unfolding lev_computeScore_def Let_def cr prod.case domain_score.simps by (rule ran_map_of_all) (simp add: comps)
qed

end

definition lev_nothing :: "lev_inputs \<Rightarrow> bool" where
  "lev_nothing i \<longleftrightarrow> \<not> vi_oi_ok i \<and> \<not> vi_funding_ok i \<and> \<not> vi_basis_ok i \<and> \<not> vi_liq_ok i \<and> \<not> vi_oichange_ok i \<and>
     \<not> vi_skew_ok i \<and> \<not> vi_div_ok i \<and> \<not> vi_taker_ok i"

lemma lev_score_zero:
  assumes "lev_cfg_ok c" "lev_nothing i"
  shows "feq (ds_score (lev_computeScore M i c)) fzero"
proof -
  have w: "is_finite (vc_w_size (lev_Defaults c))" "is_finite (vc_w_funding (lev_Defaults c))" "is_finite (vc_w_basis (lev_Defaults c))"
    "is_finite (vc_w_liq (lev_Defaults c))" "is_finite (vc_w_momentum (lev_Defaults c))" "is_finite (vc_w_crowd (lev_Defaults c))"
    using assms(1) by (auto simp: lev_cfg_ok_def fin_in_def Let_def)
  have z: "lev_size M s (vi_oi_ok i) p = fzero" "signal M s (vi_funding_ok i) q = fzero" "signal M s (vi_basis_ok i) q = fzero"
    "neg_signal M s (vi_liq_ok i) q = fzero" "neg_signal M s (vi_oichange_ok i) q = fzero" "lev_crowd M s i = (fzero, fzero)" for s p q
    using assms(2) by (simp_all add: lev_nothing_def lev_size_def neg_signal_def signal_def opt_signal_def lev_crowd_def avg_signals_def)
  show ?thesis
    unfolding lev_computeScore_def Let_def z prod.case by (simp add: clamp1_zero fadd_zero fmul_zero w)
qed

section \<open>The service\<close>

record 'w lev_service =
  vs_features :: "'w feature_repo"
  vs_scores :: "'w score_repo"
  vs_raws :: "'w lev_raws"
  vs_oi :: "(string \<times> 'w oi_provider) list"
  vs_funding :: "(string \<times> 'w funding_provider) list"
  vs_basis :: "'w basis_provider option"
  vs_cgOI :: "'w cg_oi_provider option"
  vs_cgBasis :: "'w cg_basis_provider option"
  vs_cgLiq :: "'w cg_liq_provider option"
  vs_cgCrowd :: "'w cg_crowd_provider option"
  vs_publish :: "event \<Rightarrow> ('w, unit) io"
  vs_clock :: "('w, gotime) io"
  vs_cfg :: lev_config
  vs_assets :: "asset list"

text \<open>The provider maps as association lists in the order the \<open>range\<close> loops visit them; nil providers are dropped.\<close>

definition present_providers :: "(string \<times> 'p option) list \<Rightarrow> (string \<times> 'p) list" where
  "present_providers ps = List.map_filter (\<lambda>(n, p). map_option (Pair n) p) ps"

definition lev_NewService where
  "lev_NewService featRepo scoreRepo rawRepo oiProviders fundingProviders basisProv cgOI cgBasis cgLiq cgCrowd pub clk cfg assets =
     \<lparr>vs_features = featRepo, vs_scores = scoreRepo, vs_raws = rawRepo, vs_oi = present_providers oiProviders,
      vs_funding = present_providers fundingProviders, vs_basis = basisProv, vs_cgOI = cgOI, vs_cgBasis = cgBasis,
      vs_cgLiq = cgLiq, vs_cgCrowd = cgCrowd, vs_publish = pub, vs_clock = clk, vs_cfg = lev_Defaults cfg,
      vs_assets = (if assets = [] then AssetsTradeable else assets)\<rparr>"

end
