(* ===== verification/LeverageService.thy ===== *)
theory LeverageService
  imports Leverage
begin

text \<open>
  \<open>internal/leverage/service.go\<close>: ingestion, the features of a day, its score, and the runs.  The
  argument \<open>ord\<close> is the order in which the \<open>range\<close> loops over the paged points visit their keys.
\<close>

section \<open>Ingestion\<close>

definition crowdExchanges :: "string list" where
  "crowdExchanges = [''Binance'', ''OKX'', ''Bybit'']"

definition lev_crowd_ratios :: "'w lev_service \<Rightarrow> 'w cg_crowd_provider \<Rightarrow> asset \<Rightarrow> ('w, unit) io" where
  "lev_crowd_ratios s p a = forE (\<lambda>kind. forE (\<lambda>exch.
     or_skip (cc_FetchLSRatio p kind a exch 1000) (\<lambda>pts.
       let rows = map (\<lambda>p. \<lparr>lr_value_date = cs_date p, lr_symbol = a, lr_exchange = cs_exchange p, lr_long = cs_long p,
              lr_short = cs_short p, lr_ratio = cs_ratio p, lr_source = ''coinglass_v4'', lr_hash = cs_hash p\<rparr>) pts
       in save_rows rows (wrapE ''save L/S %s %s/%s'' [AStr kind, AStr a, AStr exch] (vr_SaveCoinglassLSRatio (vs_raws s) kind rows))
            (vs_publish s (rows_event (''raw.leverage.long_short.'' @ kind @ ''.coinglass_'' @ exch @ ''.ingested.v1'')
               (a @ '':'' @ kind @ '':'' @ exch) a [] rows)))) crowdExchanges) [LSGlobal, LSTopAccount, LSTopPosition]"

definition lev_crowd_taker :: "'w lev_service \<Rightarrow> 'w cg_crowd_provider \<Rightarrow> asset \<Rightarrow> ('w, unit) io" where
  "lev_crowd_taker s p a = or_skip (cc_FetchAggregatedTakerVolume p a [] 1000) (\<lambda>pts.
     let rows = map (\<lambda>p. \<lparr>tk_value_date = ct_date p, tk_symbol = a, tk_buy = ct_buy p, tk_sell = ct_sell p,
            tk_source = ''coinglass_v4'', tk_hash = ct_hash p\<rparr>) pts
     in save_rows rows (wrapE ''save taker volume'' [AStr a] (vr_SaveCoinglassTakerVolume (vs_raws s) rows))
          (vs_publish s (rows_event ''raw.leverage.taker_volume.coinglass_aggregated.ingested.v1'' (a @ '':taker_volume'') a [] rows)))"

definition lev_crowd_borrow :: "'w lev_service \<Rightarrow> 'w cg_crowd_provider \<Rightarrow> ('w, unit) io" where
  "lev_crowd_borrow s p = forE (\<lambda>exch. or_skip (cc_FetchBorrowRate p ''USDT'' exch 1000) (\<lambda>pts.
     if pts = [] then ret () else
       wrapE ''save borrow rate USDT'' [AStr exch] (vr_SaveCoinglassBorrowRate (vs_raws s)
         (map (\<lambda>p. \<lparr>bo_value_date = cw_date p, bo_symbol = cw_symbol p, bo_exchange = cw_exchange p, bo_rate = cw_rate p,
            bo_source = ''coinglass_v4'', bo_hash = cw_hash p\<rparr>) pts)))) crowdExchanges"

definition lev_ingestCoinglassCrowd :: "'w lev_service \<Rightarrow> ('w, unit) io" where
  "lev_ingestCoinglassCrowd s = (case vs_cgCrowd s of None \<Rightarrow> ret () | Some p \<Rightarrow>
     forE (\<lambda>a. seqE (lev_crowd_ratios s p a) (seqE (lev_crowd_taker s p a) (lev_crowd_borrow s p))) (vs_assets s))"

definition lev_ingestExchangeOI :: "'w lev_service \<Rightarrow> gotime \<Rightarrow> gotime \<Rightarrow> ('w, unit) io" where
  "lev_ingestExchangeOI s from to = forE (\<lambda>(name, fetch). forE (\<lambda>a.
     bindE (wrapE ''%s OI %s'' [AStr name, AStr a] (fetch a from to)) (\<lambda>pts.
       let rows = map (\<lambda>p. \<lparr>or_value_date = op_date p, or_asset = a, or_exchange = name, or_usd = op_usd p,
              or_source = ''exchange_v1'', or_hash = op_hash p\<rparr>) pts
       in save_rows rows (wrapE ''save %s OI %s'' [AStr name, AStr a] (vr_SaveExchangeOI (vs_raws s) rows))
            (vs_publish s (rows_event (''raw.leverage.oi.'' @ name @ ''.ingested.v1'') (a @ '':'' @ name) a [] rows))))
     (vs_assets s)) (vs_oi s)"

definition lev_ingestExchangeFunding :: "'w lev_service \<Rightarrow> gotime \<Rightarrow> gotime \<Rightarrow> ('w, unit) io" where
  "lev_ingestExchangeFunding s from to = forE (\<lambda>(name, fetch). forE (\<lambda>a.
     bindE (wrapE ''%s funding %s'' [AStr name, AStr a] (fetch a from to)) (\<lambda>pts.
       let rows = map (\<lambda>p. \<lparr>fu_time = fp_time p, fu_asset = a, fu_exchange = name, fu_rate = fp_rate p,
              fu_source = ''exchange_v1'', fu_hash = fp_hash p\<rparr>) pts
       in save_rows rows (wrapE ''save %s funding %s'' [AStr name, AStr a] (vr_SaveExchangeFunding (vs_raws s) rows))
            (vs_publish s (rows_event (''raw.leverage.funding.'' @ name @ ''.ingested.v1'') (a @ '':'' @ name) a [] rows))))
     (vs_assets s)) (vs_funding s)"

definition lev_ingestDeribitBasis :: "'w lev_service \<Rightarrow> ('w, unit) io" where
  "lev_ingestDeribitBasis s = (case vs_basis s of None \<Rightarrow> ret () | Some fetch \<Rightarrow>
     forE (\<lambda>a. or_skip (fetch a) (\<lambda>snap.
       wrapE ''save deribit basis'' [AStr a] (vr_SaveDeribitBasis (vs_raws s)
         \<lparr>db_value_date = bp_date snap, db_asset = a, db_instrument = bp_instrument snap, db_futures = bp_futures snap,
          db_spot = bp_spot snap, db_annualized = bp_annualized snap, db_days = bp_days snap, db_source = ''deribit_v1'',
          db_hash = bp_hash snap\<rparr>))) (vs_assets s))"

text \<open>
  The paged backfill: each page ends a day before the oldest point seen so far; it stops at an empty page, at
  the first day of 2020, when a page brings nothing older, or after ten pages.  Points are keyed by their
  second, so a later page replaces the points of an earlier one.
\<close>

definition coinglassAggMinDate :: gotime where
  "coinglassAggMinDate = day_of_civil 2020 1 1 * day_ns"

fun agg_pages :: "(gotime \<Rightarrow> ('w, 'p list) io) \<Rightarrow> ('p \<Rightarrow> gotime) \<Rightarrow> nat \<Rightarrow> gotime \<Rightarrow> gotime \<Rightarrow> (int \<rightharpoonup> 'p) \<Rightarrow> ('w, int \<rightharpoonup> 'p) io" where
  "agg_pages fetch date 0 end_t prevOldest pts_all = ret pts_all"
| "agg_pages fetch date (Suc n) end_t prevOldest pts_all = bindE (fetch end_t) (\<lambda>pts.
     case pts of [] \<Rightarrow> ret pts_all | p0 # _ \<Rightarrow>
       let oldest = foldl (\<lambda>o' p. if date p < o' then date p else o') (date p0) pts;
           all' = foldl (\<lambda>m p. m(unix_second (date p) \<mapsto> p)) pts_all pts
       in if \<not> coinglassAggMinDate < oldest then ret all'
          else if prevOldest \<noteq> zero_time \<and> \<not> oldest < prevOldest then ret all'
          else agg_pages fetch date n (oldest - 24 * hour_ns) oldest all')"

definition map_values :: "(int set \<Rightarrow> int list) \<Rightarrow> (int \<rightharpoonup> 'p) \<Rightarrow> 'p list" where
  "map_values ord m = List.map_filter m (ord (dom m))"

definition lev_backfillAggregatedOI :: "(int set \<Rightarrow> int list) \<Rightarrow> 'w cg_oi_provider \<Rightarrow> asset \<Rightarrow> ('w, cg_oi_point list) io" where
  "lev_backfillAggregatedOI ord p a =
     bindE (agg_pages (\<lambda>end_t. co_FetchAggregatedOIHistoryRange p a zero_time end_t 1000) co_date 10 zero_time zero_time Map.empty)
       (\<lambda>m. ret (map_values ord m))"

definition lev_backfillAggregatedLiquidations :: "(int set \<Rightarrow> int list) \<Rightarrow> 'w cg_liq_provider \<Rightarrow> asset \<Rightarrow> ('w, cg_liq_point list) io" where
  "lev_backfillAggregatedLiquidations ord fetch a =
     bindE (agg_pages (\<lambda>end_t. fetch a [] zero_time end_t 1000) cl_date 10 zero_time zero_time Map.empty)
       (\<lambda>m. ret (map_values ord m))"

definition lev_ingestCoinglassOI :: "(int set \<Rightarrow> int list) \<Rightarrow> 'w lev_service \<Rightarrow> gotime \<Rightarrow> gotime \<Rightarrow> ('w, unit) io" where
  "lev_ingestCoinglassOI ord s from to = (case vs_cgOI s of None \<Rightarrow> ret () | Some p \<Rightarrow>
     let fromDay = UTCDay from; toDay = UTCDay to in
     forE (\<lambda>a. seqE (forE (\<lambda>exch. or_skip (co_FetchOIHistory p a exch 2000) (\<lambda>pts.
         let exchKey = ''coinglass_'' @ exch;
             rows = map (\<lambda>p. \<lparr>or_value_date = co_date p, or_asset = a, or_exchange = exchKey, or_usd = co_usd p,
                or_source = ''coinglass_v4'', or_hash = co_hash p\<rparr>) (filter (\<lambda>p. \<not> (co_date p < fromDay \<or> toDay < co_date p)) pts)
         in save_rows rows (wrapE ''save coinglass OI %s/%s'' [AStr a, AStr exch] (vr_SaveExchangeOI (vs_raws s) rows))
              (vs_publish s (rows_event (''raw.leverage.oi.coinglass_'' @ exch @ ''.ingested.v1'') (a @ '':'' @ exchKey) a
                 [(''exchange'', AStr exch)] rows)))) [''Binance'', ''Bybit'', ''OKX''])
       (or_skip (lev_backfillAggregatedOI ord p a) (\<lambda>pts.
         let rows = map (\<lambda>p. \<lparr>or_value_date = co_date p, or_asset = a, or_exchange = ''coinglass_aggregated'', or_usd = co_usd p,
                or_source = ''coinglass_v4'', or_hash = co_hash p\<rparr>) pts
         in save_rows rows (wrapE ''save coinglass aggregated OI'' [AStr a] (vr_SaveExchangeOI (vs_raws s) rows))
              (vs_publish s (rows_event ''raw.leverage.oi.coinglass_aggregated.ingested.v1'' (a @ '':coinglass_aggregated'') a [] rows)))))
     (vs_assets s))"

definition lev_ingestCoinglassBasis :: "'w lev_service \<Rightarrow> ('w, unit) io" where
  "lev_ingestCoinglassBasis s = (case vs_cgBasis s of None \<Rightarrow> ret () | Some fetch \<Rightarrow>
     forE (\<lambda>a. or_skip (fetch a ''Binance'' 1000) (\<lambda>pts.
       let rows = map (\<lambda>p. \<lparr>bs_value_date = cb_date p, bs_symbol = cb_symbol p, bs_exchange = cb_exchange p,
              bs_annualized = cb_annualized p, bs_close = cb_close p, bs_source = ''coinglass_v4'', bs_hash = cb_hash p\<rparr>) pts
       in save_rows rows (wrapE ''save coinglass basis'' [AStr a] (vr_SaveCoinglassFuturesBasis (vs_raws s) rows))
            (vs_publish s (rows_event ''raw.leverage.coinglass_futures_basis.ingested.v1'' (a @ '':coinglass_basis'') a [] rows))))
     (vs_assets s))"

text \<open>Here a failing fetch is fatal.\<close>

definition lev_ingestCoinglassLiquidations :: "(int set \<Rightarrow> int list) \<Rightarrow> 'w lev_service \<Rightarrow> ('w, unit) io" where
  "lev_ingestCoinglassLiquidations ord s = (case vs_cgLiq s of None \<Rightarrow> ret () | Some fetch \<Rightarrow>
     forE (\<lambda>a. bindE (wrapE ''coinglass aggregated liquidations'' [AStr a] (lev_backfillAggregatedLiquidations ord fetch a)) (\<lambda>pts.
       let rows = map (\<lambda>p. \<lparr>lq_value_date = cl_date p, lq_asset = a, lq_exchange = ''coinglass_aggregated'', lq_long = cl_long p,
              lq_short = cl_short p, lq_source = ''coinglass_v4'', lq_hash = cl_hash p\<rparr>) pts
       in save_rows rows (wrapE ''save coinglass liquidations'' [AStr a] (vr_SaveExchangeLiquidations (vs_raws s) rows))
            (vs_publish s (rows_event ''raw.leverage.liquidations.coinglass_aggregated.ingested.v1'' (a @ '':coinglass_aggregated'') a [] rows))))
     (vs_assets s))"

definition lev_ingestAll :: "(int set \<Rightarrow> int list) \<Rightarrow> 'w lev_service \<Rightarrow> gotime \<Rightarrow> gotime \<Rightarrow> ('w, unit) io" where
  "lev_ingestAll ord s from to =
     seqE (wrapE ''ingest oi'' [] (lev_ingestExchangeOI s from to))
    (seqE (wrapE ''ingest funding'' [] (lev_ingestExchangeFunding s from to))
    (seqE (wrapE ''ingest deribit basis'' [] (lev_ingestDeribitBasis s))
    (seqE (wrapE ''ingest coinglass oi'' [] (lev_ingestCoinglassOI ord s from to))
    (seqE (wrapE ''ingest coinglass basis'' [] (lev_ingestCoinglassBasis s))
    (seqE (wrapE ''ingest coinglass liquidations'' [] (lev_ingestCoinglassLiquidations ord s))
          (wrapE ''ingest coinglass crowd'' [] (lev_ingestCoinglassCrowd s)))))))"

section \<open>Features of a day\<close>

definition lev_saveFeature :: "'w lev_service \<Rightarrow> feature_key \<Rightarrow> asset \<Rightarrow> gotime \<Rightarrow> f64 \<Rightarrow> string \<Rightarrow> string \<Rightarrow> ('w, unit) io" where
  "lev_saveFeature s k a vd v srcName srcVer = save_feature (vs_features s) (vc_code_sha (vs_cfg s)) k a vd v srcName srcVer"

definition lev_tryComputeZScore :: "'w lev_service \<Rightarrow> feature_key \<Rightarrow> asset \<Rightarrow> gotime \<Rightarrow> gotime \<Rightarrow> int \<Rightarrow> int \<Rightarrow> ('w, f64 option) io" where
  "lev_tryComputeZScore s k a vd cutoff window minObs = try_zscore (vs_features s) k a vd cutoff window minObs"

text \<open>Each of the following is a step of \<open>computeAssetDay\<close>, in its order; \<open>v\<close> and \<open>fv\<close> are the feature versions.\<close>

definition lev_oi_raw :: "'w lev_service \<Rightarrow> asset \<Rightarrow> gotime \<Rightarrow> gotime \<Rightarrow> ('w, f64 option) io" where
  "lev_oi_raw s a vd c =
     (let k = fkey OIUsdRawName (vc_intermediate (vs_cfg s)) in
      bindE (vr_CoinglassAggregatedOIAsOf (vs_raws s) a vd c) (\<lambda>r. case r of
        Some v \<Rightarrow> seqE (lev_saveFeature s k a vd v ''exchange_oi'' ''coinglass_v4'') (ret (Some v))
      | None \<Rightarrow> bindE (vr_AggregatedOIAsOf (vs_raws s) a vd c) (\<lambda>r. case r of
          Some v \<Rightarrow> seqE (lev_saveFeature s k a vd v ''exchange_oi'' ''exchange_v1'') (ret (Some v))
        | None \<Rightarrow> ret None)))"

text \<open>The market cap is that of bitcoin for every asset.\<close>

definition lev_oi_mcap :: "'w lev_service \<Rightarrow> f64 option \<Rightarrow> asset \<Rightarrow> gotime \<Rightarrow> gotime \<Rightarrow> ('w, unit) io" where
  "lev_oi_mcap s oi a vd c = (case oi of None \<Rightarrow> ret () | Some oiRaw \<Rightarrow>
     if_found (vr_GetMarketCapAsOf (vs_raws s) ''bitcoin'' vd c) (\<lambda>mcap.
       if flt fzero mcap then (case Ratio oiRaw mcap of None \<Rightarrow> ret () | Some q \<Rightarrow>
           lev_saveFeature s (fkey OIMcapRatioName (vc_intermediate (vs_cfg s))) a vd q ''coingecko_market_cap'' ''coingecko_v1'')
         else ret ()))"

definition lev_funding :: "'w lev_service \<Rightarrow> asset \<Rightarrow> gotime \<Rightarrow> gotime \<Rightarrow> ('w, f64 option) io" where
  "lev_funding s a vd c =
     bindE (vr_DailyAvgFundingAsOf (vs_raws s) a vd c) (\<lambda>r. case r of None \<Rightarrow> ret None | Some v \<Rightarrow>
       seqE (lev_saveFeature s (fkey FundingRateDailyName (vc_intermediate (vs_cfg s))) a vd v ''exchange_funding'' ''exchange_v1'') (ret (Some v)))"

definition lev_basis_approx :: "'w lev_service \<Rightarrow> f64 option \<Rightarrow> asset \<Rightarrow> gotime \<Rightarrow> ('w, unit) io" where
  "lev_basis_approx s funding a vd = (case funding of None \<Rightarrow> ret () | Some rate \<Rightarrow>
     lev_saveFeature s (fkey BasisFromFundingApproxName (vc_intermediate (vs_cfg s))) a vd (AnnualizedBasisFromFunding rate)
       ''exchange_funding'' ''exchange_v1'')"

definition lev_basis_daily :: "'w lev_service \<Rightarrow> f64 option \<Rightarrow> asset \<Rightarrow> gotime \<Rightarrow> gotime \<Rightarrow> ('w, unit) io" where
  "lev_basis_daily s funding a vd c =
     (let k = fkey Basis3mDailyName (vc_intermediate (vs_cfg s)); smb = PerpSymbolForAsset a in
      if smb = [] then ret () else
      bindE (vr_GetCoinglassFuturesBasisAsOf (vs_raws s) smb ''Binance'' vd c) (\<lambda>r. case r of
        Some v \<Rightarrow> lev_saveFeature s k a vd v ''coinglass_basis'' ''coinglass_v4''
      | None \<Rightarrow> bindE (vr_GetDeribitBasisAsOf (vs_raws s) a vd c) (\<lambda>r. case r of
          Some v \<Rightarrow> lev_saveFeature s k a vd v ''deribit_basis'' ''deribit_v1''
        | None \<Rightarrow> (case funding of None \<Rightarrow> ret () | Some rate \<Rightarrow>
            lev_saveFeature s k a vd (AnnualizedBasisFromFunding rate) ''exchange_funding'' ''exchange_v1''))))"

definition lev_liq_daily :: "libm \<Rightarrow> 'w lev_service \<Rightarrow> asset \<Rightarrow> gotime \<Rightarrow> gotime \<Rightarrow> ('w, unit) io" where
  "lev_liq_daily M s a vd c =
     (let k = fkey LiquidationsDailyLogName (vc_intermediate (vs_cfg s)) in
      bindE (vr_CoinglassAggregatedLiquidationsAsOf (vs_raws s) a vd c) (\<lambda>r. case r of
        Some v \<Rightarrow> (let l = Log1p M v in if \<not> isNaN l then lev_saveFeature s k a vd l ''exchange_liqs'' ''coinglass_v4'' else ret ())
      | None \<Rightarrow> bindE (vr_DailyTotalLiquidationsAsOf (vs_raws s) a vd c) (\<lambda>r. case r of
          Some v \<Rightarrow> (let l = Log1p M v in if \<not> isNaN l then lev_saveFeature s k a vd l ''exchange_liqs'' ''exchange_v1'' else ret ())
        | None \<Rightarrow> ret ())))"

definition lev_oi_change :: "'w lev_service \<Rightarrow> f64 option \<Rightarrow> asset \<Rightarrow> gotime \<Rightarrow> gotime \<Rightarrow> ('w, unit) io" where
  "lev_oi_change s oi a vd c = (case oi of None \<Rightarrow> ret () | Some oiRaw \<Rightarrow>
     if_found (fr_GetLatest (vs_features s) (fkey OIUsdRawName (vc_intermediate (vs_cfg s))) a (add_days vd (- 30)) c) (\<lambda>earlier.
       case PctChange oiRaw earlier of None \<Rightarrow> ret () | Some pct \<Rightarrow>
         lev_saveFeature s (fkey OIChange30dName (vc_intermediate (vs_cfg s))) a vd pct ''exchange_oi'' ''exchange_v1''))"

text \<open>A series that is not found counts as empty.\<close>

definition series_or_empty :: "('w, f64 list) io \<Rightarrow> ('w, f64 list) io" where
  "series_or_empty m = bindE (attempt m) (\<lambda>r. case r of Inr xs \<Rightarrow> ret xs | Inl e \<Rightarrow> if errors_Is e ErrNotFound then ret [] else throw e)"

definition lev_computeOIPercentile :: "'w lev_service \<Rightarrow> asset \<Rightarrow> gotime \<Rightarrow> gotime \<Rightarrow> feature_key \<Rightarrow> feature_key \<Rightarrow> f64 option \<Rightarrow>
    ('w, f64 option) io" where
  "lev_computeOIPercentile s a vd c oiMcapKey oiRawKey oi =
     (let from_t = add_days vd (- 365) in
      bindE (series_or_empty (fr_GetSeries (vs_features s) oiMcapKey a from_t vd c)) (\<lambda>ratioSeries.
      if 30 \<le> length ratioSeries then ret (PercentileRank (last ratioSeries) ratioSeries)
      else case oi of None \<Rightarrow> ret None | Some oiRaw \<Rightarrow>
        bindE (series_or_empty (fr_GetSeries (vs_features s) oiRawKey a from_t vd c)) (\<lambda>series.
          let rawSeries = series @ [oiRaw]
          in if length rawSeries < 30 then ret None else ret (PercentileRank oiRaw rawSeries))))"

definition lev_zscores :: "'w lev_service \<Rightarrow> f64 option \<Rightarrow> asset \<Rightarrow> gotime \<Rightarrow> gotime \<Rightarrow> ('w, unit) io" where
  "lev_zscores s oi a vd c =
     (let v = vc_intermediate (vs_cfg s); fv = vc_final (vs_cfg s) in
      seqE (when_some (lev_computeOIPercentile s a vd c (fkey OIMcapRatioName v) (fkey OIUsdRawName v) oi)
        (\<lambda>pct. lev_saveFeature s (fkey OIMcapPercentile365dName fv) a vd pct ''exchange_oi'' ''exchange_v1''))
     (seqE (when_some (lev_tryComputeZScore s (fkey FundingRateDailyName v) a vd c 90 30)
        (\<lambda>z. lev_saveFeature s (fkey FundingRateZScore90dName fv) a vd z ''exchange_funding'' ''exchange_v1''))
     (seqE (when_some (lev_tryComputeZScore s (fkey Basis3mDailyName v) a vd c 90 30)
        (\<lambda>z. lev_saveFeature s (fkey Basis3mZScore90dName fv) a vd z ''coinglass_basis'' ''coinglass_v4''))
     (seqE (when_some (lev_tryComputeZScore s (fkey LiquidationsDailyLogName v) a vd c 60 20)
        (\<lambda>z. lev_saveFeature s (fkey LiquidationsStress60dName fv) a vd z ''exchange_liqs'' ''exchange_v1''))
      (when_some (lev_tryComputeZScore s (fkey OIChange30dName v) a vd c 180 60)
        (\<lambda>z. lev_saveFeature s (fkey OIChangeZScore30d180dName fv) a vd z ''exchange_oi'' ''exchange_v1''))))))"

text \<open>Failing look-ups of the crowd data count as missing; \<open>None\<close> when nothing was found.\<close>

definition found_or :: "'b \<Rightarrow> ('w, 'a option) io \<Rightarrow> ('a \<Rightarrow> 'b) \<Rightarrow> ('w, 'b) io" where
  "found_or d m k = bindE (attempt m) (\<lambda>r. case r of Inr (Some v) \<Rightarrow> ret (k v) | _ \<Rightarrow> ret d)"

definition lev_gatherCrowdInputs :: "'w lev_service \<Rightarrow> asset \<Rightarrow> gotime \<Rightarrow> gotime \<Rightarrow> ('w, crowd_inputs option) io" where
  "lev_gatherCrowdInputs s a vd c =
     (let r = vs_raws s; none = \<lparr>ci_global = fzero, ci_top_account = fzero, ci_top_position = fzero, ci_buy = fzero, ci_sell = fzero\<rparr> in
      bindE (found_or (none, False) (vr_CoinglassLSRatioAvgAsOf r LSGlobal a vd c) (\<lambda>v. (none\<lparr>ci_global := v\<rparr>, True))) (\<lambda>(i, got).
      bindE (found_or (i, got) (vr_CoinglassLSRatioAvgAsOf r LSTopAccount a vd c) (\<lambda>v. (i\<lparr>ci_top_account := v\<rparr>, True))) (\<lambda>(i, got).
      bindE (found_or (i, got) (vr_CoinglassLSRatioAvgAsOf r LSTopPosition a vd c) (\<lambda>v. (i\<lparr>ci_top_position := v\<rparr>, True))) (\<lambda>(i, got).
      bindE (found_or (i, got) (vr_CoinglassTakerVolumeAsOf r a vd c) (\<lambda>(b, l). (i\<lparr>ci_buy := b, ci_sell := l\<rparr>, True))) (\<lambda>(i, got).
        ret (if got then Some i else None))))))"

definition save_opt :: "'w lev_service \<Rightarrow> string \<Rightarrow> asset \<Rightarrow> gotime \<Rightarrow> f64 option \<Rightarrow> string \<Rightarrow> ('w, unit) io" where
  "save_opt s name a vd r srcName = (case r of None \<Rightarrow> ret () | Some v \<Rightarrow>
     lev_saveFeature s (fkey name (vc_intermediate (vs_cfg s))) a vd v srcName ''coinglass_v4'')"

definition lev_crowd_features :: "libm \<Rightarrow> 'w lev_service \<Rightarrow> asset \<Rightarrow> gotime \<Rightarrow> gotime \<Rightarrow> ('w, unit) io" where
  "lev_crowd_features M s a vd c =
     seqE (when_some (lev_gatherCrowdInputs s a vd c) (\<lambda>i.
        seqE (save_opt s TopTradersPositionSkewDailyName a vd (TopTradersPositionSkewDaily i) ''coinglass_long_short'')
       (seqE (save_opt s CrowdVsSmartDivergenceDailyName a vd (CrowdVsSmartDivergenceDaily M i) ''coinglass_long_short'')
             (save_opt s TakerAggressionDailyName a vd (TakerAggressionDaily i) ''coinglass_taker_volume''))))
      (forE (\<lambda>(dailyName, zName, srcName, srcVer).
         when_some (lev_tryComputeZScore s (fkey dailyName (vc_intermediate (vs_cfg s))) a vd c 90 30)
           (\<lambda>z. lev_saveFeature s (fkey zName (vc_final (vs_cfg s))) a vd z srcName srcVer))
        [(TopTradersPositionSkewDailyName, TopTradersPositionSkewZName, ''coinglass_long_short'', ''coinglass_v4''),
         (CrowdVsSmartDivergenceDailyName, CrowdVsSmartDivergenceZName, ''coinglass_long_short'', ''coinglass_v4''),
         (TakerAggressionDailyName, TakerAggressionZName, ''coinglass_taker_volume'', ''coinglass_v4'')])"

definition lev_assetFeatures :: "libm \<Rightarrow> 'w lev_service \<Rightarrow> asset \<Rightarrow> gotime \<Rightarrow> gotime \<Rightarrow> ('w, unit) io" where
  "lev_assetFeatures M s a vd c =
     bindE (lev_oi_raw s a vd c) (\<lambda>oi.
     seqE (lev_oi_mcap s oi a vd c)
     (bindE (lev_funding s a vd c) (\<lambda>funding.
     seqE (lev_basis_approx s funding a vd)
    (seqE (lev_basis_daily s funding a vd c)
    (seqE (lev_liq_daily M s a vd c)
    (seqE (lev_oi_change s oi a vd c)
    (seqE (lev_zscores s oi a vd c)
          (lev_crowd_features M s a vd c))))))))"

section \<open>The score of a day\<close>

definition lev_gatherScoreInputs :: "'w lev_service \<Rightarrow> asset \<Rightarrow> gotime \<Rightarrow> gotime \<Rightarrow> ('w, lev_inputs) io" where
  "lev_gatherScoreInputs s a vd c =
     (let fr = vs_features s; fv = vc_final (vs_cfg s);
          oiKey = fkey OIMcapPercentile365dName fv; fundKey = fkey FundingRateZScore90dName fv;
          basisKey = fkey Basis3mZScore90dName fv; liqKey = fkey LiquidationsStress60dName fv;
          oiChangeKey = fkey OIChangeZScore30d180dName fv; posKey = fkey TopTradersPositionSkewZName fv;
          divKey = fkey CrowdVsSmartDivergenceZName fv; takKey = fkey TakerAggressionZName fv
      in
      bindE (feature_number fr oiKey a vd c) (\<lambda>(oi, oiOk).
      bindE (feature_number fr fundKey a vd c) (\<lambda>(fu, fuOk).
      bindE (feature_number fr basisKey a vd c) (\<lambda>(ba, baOk).
      bindE (feature_number fr liqKey a vd c) (\<lambda>(li, liOk).
      bindE (feature_number fr oiChangeKey a vd c) (\<lambda>(oc, ocOk).
      bindE (feature_number fr posKey a vd c) (\<lambda>(po, poOk).
      bindE (feature_number fr divKey a vd c) (\<lambda>(di, diOk).
      bindE (feature_number fr takKey a vd c) (\<lambda>(ta, taOk).
        ret \<lparr>vi_asset = a, vi_value_date = vd, vi_oi = oi, vi_oi_ok = oiOk, vi_funding = fu, vi_funding_ok = fuOk,
             vi_basis = ba, vi_basis_ok = baOk, vi_liq = li, vi_liq_ok = liOk, vi_oichange = oc, vi_oichange_ok = ocOk,
             vi_skew = po, vi_skew_ok = poOk, vi_div = di, vi_div_ok = diOk, vi_taker = ta, vi_taker_ok = taOk,
             vi_features = map FeatureKey_String [oiKey, fundKey, basisKey, liqKey, oiChangeKey, posKey, divKey, takKey]\<rparr>)))))))))"

definition lev_computeAssetDay :: "libm \<Rightarrow> 'w lev_service \<Rightarrow> asset \<Rightarrow> gotime \<Rightarrow> gotime \<Rightarrow> ('w, unit) io" where
  "lev_computeAssetDay M s a vd c =
     seqE (lev_assetFeatures M s a vd c)
     (bindE (wrapE ''gather score inputs'' [] (lev_gatherScoreInputs s a vd c)) (\<lambda>i.
       store_score (vs_scores s) (vs_publish s) (score_event ''scores.leverage.completed.v1''
         (vc_model_version (vs_cfg s)) (vc_config_version (vs_cfg s)) a vd) (lev_computeScore M i (vs_cfg s))))"

definition lev_computeDay :: "libm \<Rightarrow> 'w lev_service \<Rightarrow> gotime \<Rightarrow> gotime \<Rightarrow> ('w, unit) io" where
  "lev_computeDay M s vd c = forE (\<lambda>a. wrapE ''asset'' [AStr a] (lev_computeAssetDay M s a vd c)) (vs_assets s)"

definition lev_computeRange :: "libm \<Rightarrow> 'w lev_service \<Rightarrow> gotime \<Rightarrow> gotime \<Rightarrow> gotime \<Rightarrow> ('w, unit) io" where
  "lev_computeRange M s from to c = forE (\<lambda>d. wrapE ''day'' [AStr (fmt_day d)] (lev_computeDay M s d c)) (day_range from to)"

definition lev_RunOnce :: "libm \<Rightarrow> (int set \<Rightarrow> int list) \<Rightarrow> 'w lev_service \<Rightarrow> gotime \<Rightarrow> ('w, unit) io" where
  "lev_RunOnce M ord s valueDate =
     (let vd = UTCDay valueDate in
      seqE (lev_ingestAll ord s (add_days vd (- 7)) vd) (bindE (vs_clock s) (\<lambda>cutoff. lev_computeRange M s vd vd cutoff)))"

definition lev_RunBackfill :: "libm \<Rightarrow> (int set \<Rightarrow> int list) \<Rightarrow> 'w lev_service \<Rightarrow> gotime \<Rightarrow> gotime \<Rightarrow> ('w, unit) io" where
  "lev_RunBackfill M ord s from to =
     (let f = UTCDay from; t = UTCDay to in
      if t < f then throw (Fresh ''backfill from (%s) after to (%s)'' [AStr (fmt_day f), AStr (fmt_day t)])
      else seqE (lev_ingestAll ord s f t) (bindE (vs_clock s) (\<lambda>now. lev_computeRange M s f t (now + 24 * hour_ns))))"

section \<open>What the service's steps obey\<close>

context io_rel
begin

lemma obeys_agg_pages: "(\<And>t. obeys R (fetch t)) \<Longrightarrow> obeys R (agg_pages fetch date n end_t prev m)"
  by (induction n arbitrary: end_t prev m) (auto simp: Let_def intro!: obeys_rules split: list.split)

lemma obeys_found_or: "obeys R m \<Longrightarrow> obeys R (found_or d m k)"
  unfolding found_or_def by (intro obeys_bindE obeys_attempt obeys_sum obeys_option obeys_ret)

lemma obeys_series_or_empty: "obeys R m \<Longrightarrow> obeys R (series_or_empty m)"
  unfolding series_or_empty_def by (intro obeys_more)

end

locale lev_ingest_ports = io_rel R for R :: "'w \<Rightarrow> 'w \<Rightarrow> bool" +
  fixes s :: "'w lev_service"
  assumes saves: "obeys R (vr_SaveExchangeOI (vs_raws s) r1)" "obeys R (vr_SaveExchangeFunding (vs_raws s) r2)"
      "obeys R (vr_SaveCoinglassFuturesBasis (vs_raws s) r3)" "obeys R (vr_SaveDeribitBasis (vs_raws s) r4)"
      "obeys R (vr_SaveExchangeLiquidations (vs_raws s) r5)" "obeys R (vr_SaveCoinglassLSRatio (vs_raws s) kind r6)"
      "obeys R (vr_SaveCoinglassTakerVolume (vs_raws s) r7)" "obeys R (vr_SaveCoinglassBorrowRate (vs_raws s) r8)"
    and oi: "(n, f1) \<in> set (vs_oi s) \<Longrightarrow> obeys R (f1 a from to)"
    and funding: "(n, f2) \<in> set (vs_funding s) \<Longrightarrow> obeys R (f2 a from to)"
    and basis: "vs_basis s = Some f3 \<Longrightarrow> obeys R (f3 a)"
    and cgOI: "vs_cgOI s = Some p4 \<Longrightarrow> obeys R (co_FetchOIHistory p4 a exch lm) \<and> obeys R (co_FetchAggregatedOIHistoryRange p4 a from to lm)"
    and cgBasis: "vs_cgBasis s = Some f5 \<Longrightarrow> obeys R (f5 a exch lm)"
    and cgLiq: "vs_cgLiq s = Some f6 \<Longrightarrow> obeys R (f6 a exchs from to lm)"
    and cgCrowd: "vs_cgCrowd s = Some p7 \<Longrightarrow> obeys R (cc_FetchLSRatio p7 kind a exch lm) \<and>
      obeys R (cc_FetchAggregatedTakerVolume p7 a exchs lm) \<and> obeys R (cc_FetchBorrowRate p7 smb' exch lm)"
    and publish: "obeys R (vs_publish s ev)"
begin

lemma exchange_obeys: "obeys R (lev_ingestExchangeOI s from to)" "obeys R (lev_ingestExchangeFunding s from to)"
  unfolding lev_ingestExchangeOI_def lev_ingestExchangeFunding_def Let_def
  by (intro obeys_forE; clarsimp; intro obeys_more saves publish; erule oi funding)+

lemma coinglass_obeys: "obeys R (lev_ingestCoinglassOI ord s from to)" "obeys R (lev_ingestCoinglassBasis s)"
  "obeys R (lev_ingestCoinglassLiquidations ord s)" "obeys R (lev_ingestCoinglassCrowd s)" "obeys R (lev_ingestDeribitBasis s)"
  unfolding lev_ingestCoinglassOI_def lev_ingestCoinglassBasis_def lev_ingestCoinglassLiquidations_def lev_ingestCoinglassCrowd_def
    lev_ingestDeribitBasis_def lev_backfillAggregatedOI_def lev_backfillAggregatedLiquidations_def lev_crowd_ratios_def lev_crowd_taker_def
    lev_crowd_borrow_def Let_def
  by (intro obeys_more obeys_agg_pages saves publish; (drule cgOI cgCrowd, (elim conjE)?, assumption | erule basis cgBasis cgLiq))+

lemma ingest_obeys: "obeys R (lev_ingestAll ord s from to)"
  unfolding lev_ingestAll_def by (intro obeys_seqE obeys_wrapE exchange_obeys coinglass_obeys)

end

locale lev_day_ports = feature_port R "vs_features s" for R :: "'w \<Rightarrow> 'w \<Rightarrow> bool" and s :: "'w lev_service" +
  assumes raws: "obeys R (vr_AggregatedOIAsOf (vs_raws s) a vd c)" "obeys R (vr_CoinglassAggregatedOIAsOf (vs_raws s) a vd c)"
      "obeys R (vr_DailyAvgFundingAsOf (vs_raws s) a vd c)" "obeys R (vr_DailyTotalLiquidationsAsOf (vs_raws s) a vd c)"
      "obeys R (vr_CoinglassAggregatedLiquidationsAsOf (vs_raws s) a vd c)" "obeys R (vr_GetCoinglassFuturesBasisAsOf (vs_raws s) smb exch vd c)"
      "obeys R (vr_GetDeribitBasisAsOf (vs_raws s) a vd c)" "obeys R (vr_GetMarketCapAsOf (vs_raws s) coin vd c)"
      "obeys R (vr_CoinglassLSRatioAvgAsOf (vs_raws s) kind smb vd c)" "obeys R (vr_CoinglassTakerVolumeAsOf (vs_raws s) smb vd c)"
begin

lemma save_obeys: "obeys R (lev_saveFeature s k a vd v sn sv)" "obeys R (save_opt s n a vd r sn')"
  unfolding lev_saveFeature_def save_opt_def by (intro obeys_more obeys_features)+

lemma step_obeys: "obeys R (lev_oi_raw s a vd c)" "obeys R (lev_oi_mcap s oi a vd c)" "obeys R (lev_funding s a vd c)"
  "obeys R (lev_basis_approx s funding a vd)" "obeys R (lev_basis_daily s funding a vd c)" "obeys R (lev_liq_daily M s a vd c)"
  "obeys R (lev_oi_change s oi a vd c)"
  unfolding lev_oi_raw_def lev_oi_mcap_def lev_funding_def lev_basis_approx_def lev_basis_daily_def lev_liq_daily_def lev_oi_change_def Let_def
  by (intro obeys_more obeys_option raws obeys_features save_obeys)+

lemma zscores_obeys: "obeys R (lev_zscores s oi a vd c)"
  unfolding lev_zscores_def lev_computeOIPercentile_def lev_tryComputeZScore_def Let_def
  by (intro obeys_more obeys_option obeys_series_or_empty raws obeys_features save_obeys)

lemma crowd_obeys: "obeys R (lev_crowd_features M s a vd c)"
  unfolding lev_crowd_features_def lev_gatherCrowdInputs_def lev_tryComputeZScore_def Let_def
  by (intro obeys_more obeys_pair obeys_option obeys_found_or raws obeys_features save_obeys)

lemma asset_obeys: "obeys R (lev_assetFeatures M s a vd c)"
  unfolding lev_assetFeatures_def by (intro obeys_more step_obeys zscores_obeys crowd_obeys)

lemma gather_obeys: "obeys R (lev_gatherScoreInputs s a vd c)"
  unfolding lev_gatherScoreInputs_def Let_def by (intro obeys_more obeys_pair obeys_features)

end

locale lev_ports = lev_ingest_ports R s + lev_day_ports R s for R :: "'w \<Rightarrow> 'w \<Rightarrow> bool" and s :: "'w lev_service" +
  assumes scores: "obeys R (vs_scores s sc)" and clock: "obeys R (vs_clock s)"
begin

lemma range_obeys: "obeys R (lev_computeRange M s f t c)"
  unfolding lev_computeRange_def lev_computeDay_def lev_computeAssetDay_def
  by (intro obeys_more obeys_store_score asset_obeys gather_obeys scores publish)

lemma RunOnce_obeys: "obeys R (lev_RunOnce M ord s vd)"
  unfolding lev_RunOnce_def Let_def by (intro obeys_more ingest_obeys clock range_obeys)

lemma RunBackfill_obeys: "obeys R (lev_RunBackfill M ord s f t)"
  unfolding lev_RunBackfill_def Let_def by (intro obeys_more ingest_obeys clock range_obeys)

end

section \<open>The paged backfill\<close>

lemma agg_pages_calls: "(\<And>t n. snd (fetch t n) = Suc n) \<Longrightarrow> snd (agg_pages fetch date k end_t prev m n) \<le> n + k"
proof (induction k arbitrary: end_t prev m n)
  case (Suc k)
  obtain r where r: "fetch end_t n = (r, Suc n)" using Suc.prems[of end_t n] by (metis prod.collapse)
  show ?case
  proof (cases r)
    case (Inr pts)
    then show ?thesis using r Suc.IH[OF Suc.prems, of _ _ _ "Suc n"]
      by (cases pts) (auto simp: bindE_def Let_def)
  qed (use r in \<open>simp add: bindE_def\<close>)
qed simp

text \<open>A service that always has an older page.\<close>

definition endless_oi :: "nat cg_oi_provider" where
  "endless_oi = \<lparr>co_FetchOIHistory = (\<lambda>a exch lm n. (Inr [], Suc n)),
     co_FetchAggregatedOIHistoryRange = (\<lambda>a from to lm n. (Inr [\<lparr>co_date = 2000000000000000000 - int n * day_ns, co_asset = a,
        co_exchange = [], co_usd = fone, co_hash = []\<rparr>], Suc n))\<rparr>"

lemma coinglassAggMinDate_eq: "coinglassAggMinDate = 1577836800000000000"
  by code_simp

lemma endless_oi_calls: "snd (lev_backfillAggregatedOI ord endless_oi a 0) = 10"
  by (simp add: lev_backfillAggregatedOI_def endless_oi_def bindE_def Let_def eval_nat_numeral coinglassAggMinDate_eq zero_time_def day_ns_def)

end
