(* ===== verification/PgLeverage.thy ===== *)
theory PgLeverage
  imports LeverageService PgScores LiquidityRun "HOL-Library.List_Lexorder" "HOL-Library.Char_ord"
begin

text \<open>
  \<open>internal/infra/postgres/leverage\<close>: the ports of the leverage service on the database, and what the
  service does there.  The row types of the repository port and of the storage package coincide.
\<close>

section \<open>The repositories\<close>

definition LevFeatureRepo_Save :: "feature \<Rightarrow> ('a world_scheme, unit) io" where
  "LevFeatureRepo_Save f = FeatureRepo_Save InsertLeverageFeature f"

definition LevFeatureRepo_GetLatest :: "feature_key \<Rightarrow> asset \<Rightarrow> gotime \<Rightarrow> gotime \<Rightarrow> ('a world_scheme, f64) io" where
  "LevFeatureRepo_GetLatest k a vd cutoff = InTx_found (GetLatestLeverageFeature k a vd cutoff)"

definition LevFeatureRepo_GetSeries :: "feature_key \<Rightarrow> asset \<Rightarrow> gotime \<Rightarrow> gotime \<Rightarrow> gotime \<Rightarrow> ('a world_scheme, f64 list) io" where
  "LevFeatureRepo_GetSeries k a from to cutoff = InTx (GetLeverageFeatureSeries k a from to cutoff)"

definition pg_lev_features :: "'a world_scheme feature_repo" where
  "pg_lev_features = \<lparr>fr_Save = LevFeatureRepo_Save, fr_GetLatest = LevFeatureRepo_GetLatest, fr_GetSeries = LevFeatureRepo_GetSeries\<rparr>"

definition LevRawRepo_SaveExchangeOI :: "oi_row list \<Rightarrow> ('a world_scheme, unit) io" where
  "LevRawRepo_SaveExchangeOI rows = (if rows = [] then ret () else InTx (forE (\<lambda>x.
     wrapE ''insert raw oi %s/%s'' [AStr (or_asset x), AStr (or_exchange x)] (InsertRawExchangeOI x)) rows))"

definition LevRawRepo_SaveExchangeFunding :: "funding_row list \<Rightarrow> ('a world_scheme, unit) io" where
  "LevRawRepo_SaveExchangeFunding rows = (if rows = [] then ret () else InTx (forE (\<lambda>x.
     wrapE ''insert raw funding %s/%s'' [AStr (fu_asset x), AStr (fu_exchange x)] (InsertRawExchangeFunding x)) rows))"

definition LevRawRepo_SaveCoinglassFuturesBasis :: "basis_row list \<Rightarrow> ('a world_scheme, unit) io" where
  "LevRawRepo_SaveCoinglassFuturesBasis rows = (if rows = [] then ret () else InTx (forE (\<lambda>x.
     wrapE ''insert raw coinglass basis %s/%s'' [AStr (bs_symbol x), AStr (bs_exchange x)] (InsertRawCoinglassFuturesBasis x)) rows))"

definition LevRawRepo_SaveDeribitBasis :: "deribit_basis_row \<Rightarrow> ('a world_scheme, unit) io" where
  "LevRawRepo_SaveDeribitBasis row = InTx (InsertRawDeribitBasis row)"

definition LevRawRepo_SaveExchangeLiquidations :: "liqs_row list \<Rightarrow> ('a world_scheme, unit) io" where
  "LevRawRepo_SaveExchangeLiquidations rows = (if rows = [] then ret () else InTx (forE (\<lambda>x.
     wrapE ''insert raw liqs %s/%s'' [AStr (lq_asset x), AStr (lq_exchange x)] (InsertRawExchangeLiquidations x)) rows))"

definition LevRawRepo_SaveCoinglassLSRatio :: "ls_kind \<Rightarrow> ls_row list \<Rightarrow> ('a world_scheme, unit) io" where
  "LevRawRepo_SaveCoinglassLSRatio kind rows = (if rows = [] then ret () else InTx (forE (\<lambda>x.
     wrapE ''insert raw L/S %s %s/%s'' [AStr kind, AStr (lr_symbol x), AStr (lr_exchange x)] (InsertRawCoinglassLongShortRatio kind x)) rows))"

definition LevRawRepo_SaveCoinglassTakerVolume :: "taker_row list \<Rightarrow> ('a world_scheme, unit) io" where
  "LevRawRepo_SaveCoinglassTakerVolume rows = (if rows = [] then ret () else InTx (forE (\<lambda>x.
     wrapE ''insert raw taker volume'' [AStr (tk_symbol x)] (InsertRawCoinglassTakerVolume x)) rows))"

definition LevRawRepo_SaveCoinglassBorrowRate :: "borrow_row list \<Rightarrow> ('a world_scheme, unit) io" where
  "LevRawRepo_SaveCoinglassBorrowRate rows = (if rows = [] then ret () else InTx (forE (\<lambda>x.
     wrapE ''insert raw borrow %s/%s'' [AStr (bo_symbol x), AStr (bo_exchange x)] (InsertRawCoinglassBorrowRate x)) rows))"

definition LevRawRepo_GetMarketCapAsOf :: "string \<Rightarrow> gotime \<Rightarrow> gotime \<Rightarrow> ('a world_scheme, f64) io" where
  "LevRawRepo_GetMarketCapAsOf coin vd cutoff = InTx_found (GetMarketCapAsOf coin vd cutoff)"

text \<open>The other queries of the port run the query of the storage package in a transaction.\<close>

definition pg_lev_raws :: "sql_lib \<Rightarrow> 'a world_scheme lev_raws" where
  "pg_lev_raws L = \<lparr>vr_SaveExchangeOI = LevRawRepo_SaveExchangeOI, vr_SaveExchangeFunding = LevRawRepo_SaveExchangeFunding,
     vr_SaveCoinglassFuturesBasis = LevRawRepo_SaveCoinglassFuturesBasis, vr_SaveDeribitBasis = LevRawRepo_SaveDeribitBasis,
     vr_SaveExchangeLiquidations = LevRawRepo_SaveExchangeLiquidations,
     vr_AggregatedOIAsOf = (\<lambda>a vd c. InTx (AggregatedOIAsOf L a vd c)),
     vr_CoinglassAggregatedOIAsOf = (\<lambda>a vd c. InTx (CoinglassAggregatedOIAsOf a vd c)),
     vr_DailyAvgFundingAsOf = (\<lambda>a vd c. InTx (DailyAvgFundingAsOf L a vd c)),
     vr_DailyTotalLiquidationsAsOf = (\<lambda>a vd c. InTx (DailyTotalLiquidationsAsOf L a vd c)),
     vr_CoinglassAggregatedLiquidationsAsOf = (\<lambda>a vd c. InTx (CoinglassAggregatedLiquidationsAsOf L a vd c)),
     vr_GetCoinglassFuturesBasisAsOf = (\<lambda>smb exch vd c. InTx (GetCoinglassFuturesBasisAsOf smb exch vd c)),
     vr_GetDeribitBasisAsOf = (\<lambda>a vd c. InTx (GetDeribitBasisAsOf a vd c)),
     vr_GetMarketCapAsOf = LevRawRepo_GetMarketCapAsOf,
     vr_SaveCoinglassLSRatio = LevRawRepo_SaveCoinglassLSRatio, vr_SaveCoinglassTakerVolume = LevRawRepo_SaveCoinglassTakerVolume,
     vr_SaveCoinglassBorrowRate = LevRawRepo_SaveCoinglassBorrowRate,
     vr_CoinglassLSRatioAvgAsOf = (\<lambda>kind smb vd c. InTx (GetCoinglassLSRatioAvgAsOf L kind smb vd c)),
     vr_CoinglassTakerVolumeAsOf = (\<lambda>smb vd c. InTx (GetCoinglassTakerVolumeAsOf smb vd c))\<rparr>"

record 'w lev_providers =
  vp_oi :: "(string \<times> 'w oi_provider option) list"
  vp_funding :: "(string \<times> 'w funding_provider option) list"
  vp_basis :: "'w basis_provider option"
  vp_cgOI :: "'w cg_oi_provider option"
  vp_cgBasis :: "'w cg_basis_provider option"
  vp_cgLiq :: "'w cg_liq_provider option"
  vp_cgCrowd :: "'w cg_crowd_provider option"

definition pg_lev_service :: "sql_lib \<Rightarrow> 'a world_scheme lev_providers \<Rightarrow> lev_config \<Rightarrow> asset list \<Rightarrow> 'a world_scheme lev_service" where
  "pg_lev_service L P cfg assets =
     lev_NewService pg_lev_features ScoreRepo_Save (pg_lev_raws L) (vp_oi P) (vp_funding P) (vp_basis P) (vp_cgOI P) (vp_cgBasis P)
       (vp_cgLiq P) (vp_cgCrowd P) Publisher_Publish clock_Now cfg assets"

lemma pg_lev_sel [simp]:
  "vs_features (pg_lev_service L P cfg assets) = pg_lev_features" "vs_scores (pg_lev_service L P cfg assets) = ScoreRepo_Save"
  "vs_raws (pg_lev_service L P cfg assets) = pg_lev_raws L" "vs_oi (pg_lev_service L P cfg assets) = present_providers (vp_oi P)"
  "vs_funding (pg_lev_service L P cfg assets) = present_providers (vp_funding P)" "vs_basis (pg_lev_service L P cfg assets) = vp_basis P"
  "vs_cgOI (pg_lev_service L P cfg assets) = vp_cgOI P" "vs_cgBasis (pg_lev_service L P cfg assets) = vp_cgBasis P"
  "vs_cgLiq (pg_lev_service L P cfg assets) = vp_cgLiq P" "vs_cgCrowd (pg_lev_service L P cfg assets) = vp_cgCrowd P"
  "vs_publish (pg_lev_service L P cfg assets) = Publisher_Publish" "vs_clock (pg_lev_service L P cfg assets) = clock_Now"
  "vs_cfg (pg_lev_service L P cfg assets) = lev_Defaults cfg"
  "vs_assets (pg_lev_service L P cfg assets) = (if assets = [] then AssetsTradeable else assets)"
  by (simp_all add: pg_lev_service_def lev_NewService_def)

section \<open>What each port does to the tables\<close>

lemma lev_quiet: "quiet (AggregatedOIAsOf L a vd c)" "quiet (CoinglassAggregatedOIAsOf a vd c)" "quiet (DailyAvgFundingAsOf L a vd c)"
  "quiet (DailyTotalLiquidationsAsOf L a vd c)" "quiet (CoinglassAggregatedLiquidationsAsOf L a vd c)"
  "quiet (GetCoinglassFuturesBasisAsOf smb exch vd c)" "quiet (GetDeribitBasisAsOf a vd c)" "quiet (GetCoinglassLSRatioAvgAsOf L kind smb vd c)"
  "quiet (GetCoinglassTakerVolumeAsOf smb vd c)" "quiet (GetMarketCapAsOf coin vd c)" "quiet (GetLatestLeverageFeature k a vd c)"
  "quiet (GetLeverageFeatureSeries k a from to c)"
  unfolding AggregatedOIAsOf_def CoinglassAggregatedOIAsOf_def DailyAvgFundingAsOf_def DailyTotalLiquidationsAsOf_def
    CoinglassAggregatedLiquidationsAsOf_def GetCoinglassFuturesBasisAsOf_def GetDeribitBasisAsOf_def GetCoinglassLSRatioAvgAsOf_def
    GetCoinglassTakerVolumeAsOf_def GetMarketCapAsOf_def GetLatestLeverageFeature_def GetLeverageFeatureSeries_def Let_def
  by (intro quiet_intros)+

lemma lev_replies: "replies (AggregatedOIAsOf L a vd c)" "replies (CoinglassAggregatedOIAsOf a vd c)" "replies (DailyAvgFundingAsOf L a vd c)"
  "replies (DailyTotalLiquidationsAsOf L a vd c)" "replies (CoinglassAggregatedLiquidationsAsOf L a vd c)"
  "replies (GetCoinglassFuturesBasisAsOf smb exch vd c)" "replies (GetDeribitBasisAsOf a vd c)"
  "replies (GetCoinglassTakerVolumeAsOf smb vd c)" "replies (GetLeverageFeatureSeries k a from to c)"
  unfolding AggregatedOIAsOf_def CoinglassAggregatedOIAsOf_def DailyAvgFundingAsOf_def DailyTotalLiquidationsAsOf_def
    CoinglassAggregatedLiquidationsAsOf_def GetCoinglassFuturesBasisAsOf_def GetDeribitBasisAsOf_def
    GetCoinglassTakerVolumeAsOf_def GetLeverageFeatureSeries_def Let_def
  by (intro replies_intros)+

lemma step_lev_saves:
  "obeys ingest_step (LevRawRepo_SaveExchangeOI r1)" "obeys ingest_step (LevRawRepo_SaveExchangeFunding r2)"
  "obeys ingest_step (LevRawRepo_SaveCoinglassFuturesBasis r3)" "obeys ingest_step (LevRawRepo_SaveDeribitBasis r4)"
  "obeys ingest_step (LevRawRepo_SaveExchangeLiquidations r5)"
  "obeys ingest_step (LevRawRepo_SaveCoinglassTakerVolume r7)" "obeys ingest_step (LevRawRepo_SaveCoinglassBorrowRate r8)"
  unfolding LevRawRepo_SaveExchangeOI_def LevRawRepo_SaveExchangeFunding_def LevRawRepo_SaveCoinglassFuturesBasis_def
    LevRawRepo_SaveDeribitBasis_def LevRawRepo_SaveExchangeLiquidations_def
    LevRawRepo_SaveCoinglassTakerVolume_def LevRawRepo_SaveCoinglassBorrowRate_def InsertRawExchangeOI_def InsertRawExchangeFunding_def
    InsertRawCoinglassFuturesBasis_def InsertRawDeribitBasis_def InsertRawExchangeLiquidations_def
    InsertRawCoinglassTakerVolume_def InsertRawCoinglassBorrowRate_def
  by (rule step_exec_raws step_InTx[OF in_tx_exec_raw keep_exec_raw], (blast | rule exI, rule refl)?)+

lemma step_lev_ls: "obeys ingest_step (LevRawRepo_SaveCoinglassLSRatio kind rows)"
proof -
  have t: "obeys in_tx (InsertRawCoinglassLongShortRatio kind x)" "obeys (same_sel w_scores) (InsertRawCoinglassLongShortRatio kind x)"
    "obeys (same_sel (\<lambda>w. (w_features w, w_dfeatures w))) (InsertRawCoinglassLongShortRatio kind x)" for x
    unfolding InsertRawCoinglassLongShortRatio_def Let_def
    by (intro itx.obeys_if ss.obeys_if itx.obeys_throw ss.obeys_throw in_tx_exec_raw keep_exec_raw)+
  show ?thesis unfolding LevRawRepo_SaveCoinglassLSRatio_def
    by (intro istep.obeys_if istep.obeys_ret step_InTx itx.obeys_forE itx.obeys_wrapE ss.obeys_forE ss.obeys_wrapE t)
qed

lemma step_lev_feature: "obeys feature_step (LevFeatureRepo_Save f)"
  using step_domain_feature[of "''features_leverage''" f]
  unfolding LevFeatureRepo_Save_def FeatureRepo_Save_def InsertLeverageFeature_def .

text \<open>The data providers only talk to the network: they do not write to the database.\<close>

definition lev_providers_ok :: "'a world_scheme lev_providers \<Rightarrow> bool" where
  "lev_providers_ok P \<longleftrightarrow>
     (\<forall>(n, f)\<in>set (present_providers (vp_oi P)). \<forall>a from to. obeys ingest_step (f a from to)) \<and>
     (\<forall>(n, f)\<in>set (present_providers (vp_funding P)). \<forall>a from to. obeys ingest_step (f a from to)) \<and>
     (\<forall>f\<in>set_option (vp_basis P). \<forall>a. obeys ingest_step (f a)) \<and>
     (\<forall>p\<in>set_option (vp_cgOI P). \<forall>a exch from to lm. obeys ingest_step (co_FetchOIHistory p a exch lm) \<and>
        obeys ingest_step (co_FetchAggregatedOIHistoryRange p a from to lm)) \<and>
     (\<forall>f\<in>set_option (vp_cgBasis P). \<forall>a exch lm. obeys ingest_step (f a exch lm)) \<and>
     (\<forall>f\<in>set_option (vp_cgLiq P). \<forall>a exchs from to lm. obeys ingest_step (f a exchs from to lm)) \<and>
     (\<forall>p\<in>set_option (vp_cgCrowd P). \<forall>kind a exch exchs lm. obeys ingest_step (cc_FetchLSRatio p kind a exch lm) \<and>
        obeys ingest_step (cc_FetchAggregatedTakerVolume p a exchs lm) \<and> obeys ingest_step (cc_FetchBorrowRate p a exch lm))"

lemmas pg_lev_port_defs = pg_lev_features_def pg_lev_raws_def LevFeatureRepo_GetLatest_def LevFeatureRepo_GetSeries_def
  LevRawRepo_GetMarketCapAsOf_def

interpretation pg_lev_day: lev_day_ports feature_step "pg_lev_service L P cfg assets"
  by unfold_locales (simp_all add: pg_lev_port_defs step_lev_feature ingest_feature step_quiet step_quiet_found lev_quiet)

lemma pg_lev_ingest: "lev_providers_ok P \<Longrightarrow> lev_ingest_ports ingest_step (pg_lev_service L P cfg assets)"
  by unfold_locales (auto simp: pg_lev_port_defs step_lev_saves step_lev_ls step_Publish lev_providers_ok_def)

lemma pg_lev_evolves: "lev_providers_ok P \<Longrightarrow> lev_ports evolves (pg_lev_service L P cfg assets)"
proof -
  assume p: "lev_providers_ok P"
  have e: "obeys evolves m" if "obeys feature_step m" for m :: "'b world_scheme \<Rightarrow> (err + 'c) \<times> 'b world_scheme"
    using that by (simp add: obeys_def feature_step_def)
  show ?thesis
    by unfold_locales (use p in \<open>auto simp: pg_lev_port_defs step_lev_saves step_lev_ls step_Publish step_clock step_quiet
      step_quiet_found lev_quiet ingest_evolves evolves_ScoreRepo_Save lev_providers_ok_def intro: e step_lev_feature\<close>)
qed

section \<open>Runs\<close>

abbreviation lev_event :: "lev_config \<Rightarrow> gotime \<Rightarrow> asset \<Rightarrow> f64 \<Rightarrow> event" where
  "lev_event cfg vd a \<equiv> score_event ''scores.leverage.completed.v1'' (vc_model_version cfg) (vc_config_version cfg) a vd"

lemma lev_scored_run:
  assumes "lev_providers_ok P"
  shows "scored_run (lev_RunOnce M ord (pg_lev_service L P cfg assets) vd)
    (lev_ingestAll ord (pg_lev_service L P cfg assets) (add_days (UTCDay vd) (- 7)) (UTCDay vd)) (\<lambda>c. ret ())
    (\<lambda>a. lev_assetFeatures M (pg_lev_service L P cfg assets) a (UTCDay vd))
    (\<lambda>a. lev_gatherScoreInputs (pg_lev_service L P cfg assets) a (UTCDay vd))
    (\<lambda>i. lev_computeScore M i (lev_Defaults cfg)) (lev_event (lev_Defaults cfg) (UTCDay vd)) (UTCDay vd) (if assets = [] then AssetsTradeable else assets)"
proof
  let ?s = "pg_lev_service L P cfg assets"
  show "lev_RunOnce M ord ?s vd = seqE (lev_ingestAll ord ?s (add_days (UTCDay vd) (- 7)) (UTCDay vd)) (bindE clock_Now (\<lambda>c.
      wrapE ''day'' [AStr (fmt_day (UTCDay vd))] (seqE (ret ())
      (forE (\<lambda>a. wrapE ''asset'' [AStr a] (seqE (lev_assetFeatures M ?s a (UTCDay vd) c)
         (bindE (wrapE ''gather score inputs'' [] (lev_gatherScoreInputs ?s a (UTCDay vd) c))
         (\<lambda>i. store_score ScoreRepo_Save Publisher_Publish (lev_event (lev_Defaults cfg) (UTCDay vd) a) (lev_computeScore M i (lev_Defaults cfg))))))
        (if assets = [] then AssetsTradeable else assets)))))"
    by (simp add: lev_RunOnce_def lev_computeRange_def day_range_self lev_computeDay_def lev_computeAssetDay_def Let_def seqE_ret ret_seqE
      split del: if_split)
  show "obeys ingest_step (lev_ingestAll ord ?s (add_days (UTCDay vd) (- 7)) (UTCDay vd))"
    by (rule lev_ingest_ports.ingest_obeys[OF pg_lev_ingest[OF assms]])
  then show "obeys feature_step (lev_ingestAll ord ?s (add_days (UTCDay vd) (- 7)) (UTCDay vd))" by (rule ingest_feature)
qed (rule pg_lev_day.asset_obeys pg_lev_day.gather_obeys fstep.obeys_ret)+

definition offline_lev :: "'a world_scheme lev_providers" where
  "offline_lev = \<lparr>vp_oi = [], vp_funding = [], vp_basis = None, vp_cgOI = None, vp_cgBasis = None, vp_cgLiq = None, vp_cgCrowd = None\<rparr>"

lemma offline_lev_ok: "lev_providers_ok offline_lev"
  by (simp add: offline_lev_def lev_providers_ok_def present_providers_def List.map_filter_def)

interpretation lev_offline: scored_run "lev_RunOnce M ord (pg_lev_service L offline_lev cfg assets) vd"
    "lev_ingestAll ord (pg_lev_service L offline_lev cfg assets) (add_days (UTCDay vd) (- 7)) (UTCDay vd)" "\<lambda>c. ret ()"
    "\<lambda>a. lev_assetFeatures M (pg_lev_service L offline_lev cfg assets) a (UTCDay vd)"
    "\<lambda>a. lev_gatherScoreInputs (pg_lev_service L offline_lev cfg assets) a (UTCDay vd)"
    "\<lambda>i. lev_computeScore M i (lev_Defaults cfg)" "lev_event (lev_Defaults cfg) (UTCDay vd)" "UTCDay vd" "if assets = [] then AssetsTradeable else assets"
  by (rule lev_scored_run[OF offline_lev_ok])

lemma lev_gather_shape:
  assumes "lev_gatherScoreInputs s a vd c w = (Inr i, w')"
  shows "vi_asset i = a" "vi_value_date i = vd"
  using assms unfolding lev_gatherScoreInputs_def Let_def by (auto simp: bindE_eq_Inr split: prod.splits)

lemma lev_cfg_Defaults: "lev_cfg_ok (lev_Defaults cfg) = lev_cfg_ok cfg"
  by (simp add: lev_cfg_ok_def)

lemma lev_run_scores:
  assumes p: "lev_providers_ok P" and run: "lev_RunOnce M ord (pg_lev_service L P cfg assets) vd w = (Inr (), w')"
    and cfg: "lev_cfg_ok cfg" and M: "go_libm M"
  shows "\<exists>new. w_scores w' = w_scores w @ new \<and>
    list_all2 (\<lambda>a row. ds_asset (r_val row) = a \<and> ds_domain (r_val row) = DomainLeverage \<and> ds_value_date (r_val row) = UTCDay vd \<and>
        fin_in (- 1) 1 (ds_score (r_val row)))
      (if assets = [] then AssetsTradeable else assets) new"
  by (rule scoring_run.run_scores[OF lev_scored_run[OF p, THEN scored_run.axioms(1)] run])
    (use cfg in \<open>auto simp: lev_cfg_Defaults dest: lev_gather_shape intro!: go_libm.lev_score_in(1)[OF M]\<close>)

lemma lev_gather_nothing:
  assumes "nothing_yet (dtable ''features_leverage'') vd c w" "lev_gatherScoreInputs (pg_lev_service L P cfg assets) a vd c w = (Inr i, w')"
  shows "lev_nothing i"
proof -
  let ?fr = "pg_lev_features :: 'a world_scheme feature_repo"
  let ?N = "nothing_yet (dtable ''features_leverage'') vd c :: 'a world_scheme \<Rightarrow> bool"
  have n: "fr_GetLatest ?fr k a vd c w \<noteq> (Inr v, w')" if "?N w" for k a v w w'
    using table_view.no_feature[OF that] by (simp add: pg_lev_features_def LevFeatureRepo_GetLatest_def GetLatestLeverageFeature_def)
  have v: "\<not> ok" if "feature_number ?fr k a vd c w = (Inr (v, ok), w')" "?N w" for k a v ok w w'
    using feature_number_flag[OF that(1)] n[OF that(2)] by blast
  have N: "?N w'" if "feature_number ?fr k a vd c w = (Inr x, w')" "?N w" for k a x w w'
    using obeysD[OF pg_lev_day.obeys_feature_number[simplified] that(1)] that(2) table_view.nothing_yet_evolves by (auto simp: feature_step_def)
  show ?thesis
    using assms unfolding lev_gatherScoreInputs_def Let_def lev_nothing_def pg_lev_sel
    by (clarsimp simp: bindE_eq_Inr split: prod.splits) (metis v N)
qed

lemma lev_first_run:
  assumes p: "lev_providers_ok P" and run: "lev_RunOnce M ord (pg_lev_service L P cfg assets) vd w = (Inr (), w')"
    and cfg: "lev_cfg_ok cfg" and clk: "strict_mono (w_clock w)"
    and new: "\<forall>r\<in>set (dtable ''features_leverage'' w). ft_value_date (r_val r) \<noteq> UTCDay vd"
  shows "\<exists>new. w_scores w' = w_scores w @ new \<and>
    list_all2 (\<lambda>a row. ds_asset (r_val row) = a \<and> feq (ds_score (r_val row)) fzero)
      (if assets = [] then AssetsTradeable else assets) new"
proof (rule scored_run.first_run[OF lev_scored_run[OF p] table_view.feature_view_axioms run clk new])
  show "ds_asset (lev_computeScore M i (lev_Defaults cfg)) = a \<and> feq (ds_score (lev_computeScore M i (lev_Defaults cfg))) fzero"
    if "nothing_yet (dtable ''features_leverage'') (UTCDay vd) c' w1"
      "lev_gatherScoreInputs (pg_lev_service L P cfg assets) a (UTCDay vd) c' w1 = (Inr i, w2)" for c' a w1 i w2
    using lev_gather_nothing[OF that] lev_gather_shape(1)[OF that(2)] lev_score_zero[of "lev_Defaults cfg"] cfg
    by (simp add: lev_cfg_Defaults)
qed

section \<open>The run succeeds\<close>

lemma lev_storable:
  assumes M: "go_libm M" and "lev_cfg_ok cfg" "vc_model_version cfg \<noteq> []" "Asset_Validate (vi_asset i) = None" "vi_value_date i \<noteq> zero_time"
  shows "storable (lev_computeScore M i (lev_Defaults cfg))"
proof (rule storableI)
  have c: "lev_cfg_ok (lev_Defaults cfg)" using assms(2) by (simp add: lev_cfg_Defaults)
  show "fin_in (- 1) 1 (ds_score (lev_computeScore M i (lev_Defaults cfg)))"
    "\<forall>v\<in>ran (ds_components (lev_computeScore M i (lev_Defaults cfg))). fin_in (- 1) 1 v"
    using go_libm.lev_score_in[OF M c] by simp_all
  obtain crowd n where cr: "lev_crowd M (vc_scale (lev_Defaults cfg)) i = (crowd, n)" by fastforce
  have n: "is_finite n" using go_libm.lev_crowd_in[OF M, of "vc_scale (lev_Defaults cfg)" i] c cr by (simp add: lev_cfg_ok_def Let_def)
  show "json_anys (ds_quality (lev_computeScore M i (lev_Defaults cfg)))"
    unfolding json_anys_def lev_computeScore_def Let_def lev_Defaults_idem cr prod.case domain_score.simps
    by (rule ran_map_of_all) (simp add: n)
  show "ds_model_version (lev_computeScore M i (lev_Defaults cfg)) \<noteq> []"
    using assms(3) by (simp add: lev_Defaults_def)
qed (use assms in \<open>simp_all add: AllDomains_def\<close>)

lemma total_lev_raws:
  "total_io healthy (vr_AggregatedOIAsOf (pg_lev_raws L) a vd c) (\<lambda>_. True)"
  "total_io healthy (vr_CoinglassAggregatedOIAsOf (pg_lev_raws L) a vd c) (\<lambda>_. True)"
  "total_io healthy (vr_DailyAvgFundingAsOf (pg_lev_raws L) a vd c) (\<lambda>_. True)"
  "total_io healthy (vr_DailyTotalLiquidationsAsOf (pg_lev_raws L) a vd c) (\<lambda>_. True)"
  "total_io healthy (vr_CoinglassAggregatedLiquidationsAsOf (pg_lev_raws L) a vd c) (\<lambda>_. True)"
  "total_io healthy (vr_GetCoinglassFuturesBasisAsOf (pg_lev_raws L) smb exch vd c) (\<lambda>_. True)"
  "total_io healthy (vr_GetDeribitBasisAsOf (pg_lev_raws L) a vd c) (\<lambda>_. True)"
  "total_io healthy (attempt (vr_CoinglassLSRatioAvgAsOf (pg_lev_raws L) kind smb vd c)) (\<lambda>_. True)"
  "total_io healthy (attempt (vr_CoinglassTakerVolumeAsOf (pg_lev_raws L) smb vd c)) (\<lambda>_. True)"
  unfolding pg_lev_raws_def lev_raws.simps
  by (intro total_replies lev_quiet lev_replies total_attempt, (erule healthy_step[rotated], intro step_quiet lev_quiet)?)+

lemma total_lev_features: "finds healthy (fr_GetLatest pg_lev_features k a vd c)"
  "total_io healthy (fr_GetSeries pg_lev_features k a from to c) (\<lambda>_. True)" "finds healthy (vr_GetMarketCapAsOf (pg_lev_raws L) coin vd c)"
proof -
  show "finds healthy (fr_GetLatest pg_lev_features k a vd c)" "finds healthy (vr_GetMarketCapAsOf (pg_lev_raws L) coin vd c)"
    by (simp_all add: pg_lev_port_defs GetLatestLeverageFeature_def GetMarketCapAsOf_def finds_quiet quiet_reads)
  show "total_io healthy (fr_GetSeries pg_lev_features k a from to c) (\<lambda>_. True)"
    by (simp add: pg_lev_port_defs total_replies lev_quiet lev_replies)
qed

lemma total_lev_save: "total_io healthy (lev_saveFeature (pg_lev_service L P cfg assets) k a vd v sn sv) (\<lambda>_. True)"
  "total_io healthy (save_opt (pg_lev_service L P cfg assets) n a vd r sn) (\<lambda>_. True)"
proof -
  show s: "total_io healthy (lev_saveFeature (pg_lev_service L P cfg assets) k a vd v sn sv) (\<lambda>_. True)" for k v sv
    unfolding lev_saveFeature_def pg_lev_sel
    by (rule total_save_feature, rule healthy_keeps)
      (use step_lev_feature in \<open>auto simp: pg_lev_features_def obeys_def feature_step_def\<close>)
  show "total_io healthy (save_opt (pg_lev_service L P cfg assets) n a vd r sn) (\<lambda>_. True)"
    unfolding save_opt_def by (cases r) (simp_all add: total_ret s)
qed

lemma total_series_or_empty: "total_io I m (\<lambda>_. True) \<Longrightarrow> total_io I (series_or_empty m) (\<lambda>_. True)"
proof (rule total_weaken)
  assume "total_io I m (\<lambda>_. True)"
  then show "total_io I (series_or_empty m) (\<lambda>_. True)"
    unfolding total_io_def series_or_empty_def bindE_def attempt_def by (fastforce split: sum.split)
qed

lemma total_found_or: "total_io I (attempt m) (\<lambda>_. True) \<Longrightarrow> total_io I (found_or d m k) (\<lambda>_. True)"
  unfolding found_or_def by (rule total_bind1) (auto split: sum.split option.split intro: total_ret)

lemma total_GetSeries_tick: "healthy w \<Longrightarrow> healthy (snd (fr_GetSeries pg_lev_features k a from to c w))"
  using total_ioD[OF total_lev_features(2)] by (metis snd_conv)

lemma total_lev_zscore: "total_io healthy (lev_tryComputeZScore (pg_lev_service L P cfg assets) k a vd c n m) (\<lambda>_. True)"
  unfolding lev_tryComputeZScore_def pg_lev_sel by (rule total_try_zscore) (rule total_GetSeries_tick)

lemmas total_lev = total_lev_raws total_lev_save total_lev_zscore total_skip total_series_or_empty[OF total_lev_features(2)]
  total_found_or[OF total_lev_raws(8)] total_found_or[OF total_lev_raws(9)]

lemma total_lev_steps:
  "total_io healthy (lev_oi_raw (pg_lev_service L P cfg assets) a vd c) (\<lambda>_. True)"
  "total_io healthy (lev_oi_mcap (pg_lev_service L P cfg assets) oi a vd c) (\<lambda>_. True)"
  "total_io healthy (lev_funding (pg_lev_service L P cfg assets) a vd c) (\<lambda>_. True)"
  "total_io healthy (lev_basis_approx (pg_lev_service L P cfg assets) fu a vd) (\<lambda>_. True)"
  "total_io healthy (lev_basis_daily (pg_lev_service L P cfg assets) fu a vd c) (\<lambda>_. True)"
  "total_io healthy (lev_liq_daily M (pg_lev_service L P cfg assets) a vd c) (\<lambda>_. True)"
  "total_io healthy (lev_oi_change (pg_lev_service L P cfg assets) oi a vd c) (\<lambda>_. True)"
  unfolding lev_oi_raw_def lev_oi_mcap_def lev_funding_def lev_basis_approx_def lev_basis_daily_def lev_liq_daily_def lev_oi_change_def
    Let_def pg_lev_sel
  by (intro total_bind1 total_option total_seq1 total_if total_if_found total_lev_features total_lev)+

lemma total_lev_more:
  "total_io healthy (lev_zscores (pg_lev_service L P cfg assets) oi a vd c) (\<lambda>_. True)"
  "total_io healthy (lev_crowd_features M (pg_lev_service L P cfg assets) a vd c) (\<lambda>_. True)"
  unfolding lev_zscores_def lev_computeOIPercentile_def lev_crowd_features_def lev_gatherCrowdInputs_def Let_def pg_lev_sel
  by (intro total_bind1 total_option total_pair total_seq1 total_if total_when_some total_forE total_lev)+

lemma total_lev_assetFeatures: "total_io healthy (lev_assetFeatures M (pg_lev_service L P cfg assets) a vd c) (\<lambda>_. True)"
  unfolding lev_assetFeatures_def by (intro total_bind1 total_seq1 total_lev_steps total_lev_more)

lemma total_lev_gather: "total_io healthy (lev_gatherScoreInputs (pg_lev_service L P cfg assets) a vd c) (\<lambda>i. vi_asset i = a \<and> vi_value_date i = vd)"
  unfolding lev_gatherScoreInputs_def Let_def pg_lev_sel
  by (intro total_bind1[OF total_weaken[OF total_feature_number]] total_lev_features total_pair TrueI total_ret) simp

theorem lev_run_succeeds:
  assumes M: "go_libm M" and "lev_cfg_ok cfg" "vc_model_version cfg \<noteq> []" "\<forall>a\<in>set assets. Asset_Validate a = None" "UTCDay vd \<noteq> zero_time"
    and p: "lev_providers_ok P" and h: "healthy w"
    and ingest: "fst (lev_ingestAll ord (pg_lev_service L P cfg assets) (add_days (UTCDay vd) (- 7)) (UTCDay vd) w) = Inr ()"
  shows "\<exists>w'. lev_RunOnce M ord (pg_lev_service L P cfg assets) vd w = (Inr (), w') \<and> healthy w'"
proof (rule scoring_run.run_succeeds[OF lev_scored_run[OF p, THEN scored_run.axioms(1)] _ _ _ _ h ingest])
  fix a c assume "a \<in> set (if assets = [] then AssetsTradeable else assets)"
  then have v: "Asset_Validate a = None" using assms(4) AssetsTradeable_valid by (auto split: if_splits)
  show "total_io healthy (lev_gatherScoreInputs (pg_lev_service L P cfg assets) a (UTCDay vd) c)
      (\<lambda>i. storable (lev_computeScore M i (lev_Defaults cfg)))"
    by (rule total_weaken[OF total_lev_gather]) (use v assms in \<open>auto intro!: lev_storable\<close>)
qed (intro total_skip total_lev_assetFeatures | erule score_event_json)+

section \<open>An example\<close>

definition ex_lev_config :: lev_config where
  "ex_lev_config = \<lparr>vc_model_version = ''leverage_v1'', vc_config_version = ''c1'', vc_code_sha = ''dev'', vc_intermediate = ''v1'',
     vc_final = ''v1'', vc_w_size = fzero, vc_w_funding = fzero, vc_w_basis = fzero, vc_w_liq = fzero, vc_w_momentum = fzero,
     vc_w_crowd = fzero, vc_scale = fzero\<rparr>"

definition ex_sql_lib :: sql_lib where
  "ex_sql_lib = \<lparr>sq_order = sorted_list_of_set, sq_avg = (\<lambda>vs. fdiv (fsum vs) (flen vs)), sq_add = fadd, sq_sum = fsum\<rparr>"

lemma ex_lev_config_ok: "lev_cfg_ok ex_lev_config"
  by (simp add: lev_cfg_ok_def Let_def lev_Defaults_def if_zero_def ex_lev_config_def scale_ok_def f64_eval)

lemma offline_lev_ingest: "fst (lev_ingestAll ord (pg_lev_service L offline_lev cfg assets) f t w) = Inr ()"
  by (simp add: lev_ingestAll_def lev_ingestExchangeOI_def lev_ingestExchangeFunding_def lev_ingestDeribitBasis_def
    lev_ingestCoinglassOI_def lev_ingestCoinglassBasis_def lev_ingestCoinglassLiquidations_def lev_ingestCoinglassCrowd_def
    offline_lev_def present_providers_def List.map_filter_def seqE_def bindE_def wrapE_def)

lemma ex_lev_runs: "\<exists>w'. lev_RunOnce ideal_libm ord (pg_lev_service L offline_lev ex_lev_config []) ex_day (start_world []) = (Inr (), w') \<and> healthy w'"
  by (rule lev_run_succeeds[OF ideal.go_libm_axioms ex_lev_config_ok _ _ _ offline_lev_ok start_healthy offline_lev_ingest])
    (simp_all add: ex_lev_config_def ex_day_def UTCDay_def day_of_def day_ns_def zero_time_def)

end
