(* ===== verification/BacktestMetrics.thy ===== *)
theory BacktestMetrics
  imports MathStats
begin

text \<open>
  \<open>internal/backtest/classifier.go\<close> and \<open>metrics.go\<close>: the labels of replayed days, with and
  without hysteresis, and the measures taken of a labelled history: forward returns with their bootstrap
  intervals, persistence, lead times before known events, and a toy strategy.  A map keyed by day is a
  partial function on instants; every key the program uses is a UTC midnight.
\<close>

section \<open>The classifier\<close>

type_synonym label = string

definition LabelRiskOn :: label where "LabelRiskOn = ''risk_on''"
definition LabelRiskOff :: label where "LabelRiskOff = ''risk_off''"
definition LabelTransition :: label where "LabelTransition = ''transition''"

lemmas label_defs = LabelRiskOn_def LabelRiskOff_def LabelTransition_def

lemma labels_distinct [simp]:
  "LabelRiskOn \<noteq> LabelRiskOff" "LabelRiskOff \<noteq> LabelRiskOn" "LabelRiskOn \<noteq> LabelTransition"
  "LabelTransition \<noteq> LabelRiskOn" "LabelRiskOff \<noteq> LabelTransition" "LabelTransition \<noteq> LabelRiskOff"
  by (simp_all add: label_defs)

record classifier_config =
  cc_transition_high :: f64
  cc_risk_on_floor :: f64
  cc_risk_off_ceiling :: f64

definition DefaultClassifier :: classifier_config where
  "DefaultClassifier = \<lparr>cc_transition_high = lit (65 / 100), cc_risk_on_floor = lit (30 / 100),
     cc_risk_off_ceiling = lit (- 30 / 100)\<rparr>"

definition Classify :: "classifier_config \<Rightarrow> f64 \<Rightarrow> f64 \<Rightarrow> label" where
  "Classify cfg regimeIndicator transitionRisk =
     (if fle (cc_transition_high cfg) transitionRisk then LabelTransition
      else if flt (cc_risk_on_floor cfg) regimeIndicator then LabelRiskOn
      else if flt regimeIndicator (cc_risk_off_ceiling cfg) then LabelRiskOff
      else LabelTransition)"

record hysteresis_config =
  hy_transition_enter :: f64
  hy_transition_exit :: f64
  hy_risk_on_enter :: f64
  hy_risk_on_exit :: f64
  hy_risk_off_enter :: f64
  hy_risk_off_exit :: f64

definition DefaultHysteresis :: hysteresis_config where
  "DefaultHysteresis = \<lparr>hy_transition_enter = lit (86 / 100), hy_transition_exit = lit (80 / 100),
     hy_risk_on_enter = lit (20 / 100), hy_risk_on_exit = lit (5 / 100),
     hy_risk_off_enter = lit (- 20 / 100), hy_risk_off_exit = lit (- 5 / 100)\<rparr>"

definition Hysteresis_Validate :: "hysteresis_config \<Rightarrow> err option" where
  "Hysteresis_Validate c =
     (if \<not> flt (hy_transition_exit c) (hy_transition_enter c)
      then Some (Fresh ''hysteresis: TransitionEnter (%.3f) must exceed TransitionExit (%.3f)''
             [AFloat (hy_transition_enter c), AFloat (hy_transition_exit c)])
      else if \<not> flt (hy_risk_on_exit c) (hy_risk_on_enter c)
      then Some (Fresh ''hysteresis: RiskOnEnter (%.3f) must exceed RiskOnExit (%.3f)''
             [AFloat (hy_risk_on_enter c), AFloat (hy_risk_on_exit c)])
      else if \<not> flt (hy_risk_off_enter c) (hy_risk_off_exit c)
      then Some (Fresh ''hysteresis: RiskOffEnter (%.3f) must be below RiskOffExit (%.3f)''
             [AFloat (hy_risk_off_enter c), AFloat (hy_risk_off_exit c)])
      else None)"

definition ClassifyHysteresis :: "hysteresis_config \<Rightarrow> label \<Rightarrow> f64 \<Rightarrow> f64 \<Rightarrow> label" where
  "ClassifyHysteresis cfg prev regimeIndicator transitionRisk =
     (if fle (hy_transition_enter cfg) transitionRisk then LabelTransition
      else if prev = LabelRiskOn then
        if fle regimeIndicator (hy_risk_on_exit cfg) then
          if flt regimeIndicator (hy_risk_off_enter cfg) then LabelRiskOff else LabelTransition
        else LabelRiskOn
      else if prev = LabelRiskOff then
        if fle (hy_risk_off_exit cfg) regimeIndicator then
          if flt (hy_risk_on_enter cfg) regimeIndicator then LabelRiskOn else LabelTransition
        else LabelRiskOff
      else if flt transitionRisk (hy_transition_exit cfg) \<and> flt (hy_risk_on_enter cfg) regimeIndicator then LabelRiskOn
      else if flt transitionRisk (hy_transition_exit cfg) \<and> flt regimeIndicator (hy_risk_off_enter cfg) then LabelRiskOff
      else LabelTransition)"

lemma Hysteresis_Validate_None: "Hysteresis_Validate c = None \<longleftrightarrow>
    flt (hy_transition_exit c) (hy_transition_enter c) \<and> flt (hy_risk_on_exit c) (hy_risk_on_enter c) \<and>
    flt (hy_risk_off_enter c) (hy_risk_off_exit c)"
  by (simp add: Hysteresis_Validate_def)

lemma DefaultHysteresis_valid: "Hysteresis_Validate DefaultHysteresis = None"
  by (simp add: Hysteresis_Validate_None DefaultHysteresis_def f64_eval)

lemma flt_fle_trans: "flt x y \<Longrightarrow> fle y z \<Longrightarrow> flt x z" and fle_flt_trans: "fle x y \<Longrightarrow> flt y z \<Longrightarrow> flt x z"
  by (cases x; cases y; cases z; auto)+

lemma flt_not_fle: "flt x y \<Longrightarrow> \<not> fle y x"
  by (cases x; cases y) auto

text \<open>A label a day's figures led to is kept as long as the figures stay the same.\<close>

lemma hysteresis_settles:
  assumes "Hysteresis_Validate c = None"
  shows "ClassifyHysteresis c (ClassifyHysteresis c prev r t) r t = ClassifyHysteresis c prev r t"
proof -
  note v = assms[unfolded Hysteresis_Validate_None]
  have "flt (hy_risk_on_enter c) r \<Longrightarrow> \<not> fle r (hy_risk_on_exit c)"
    using v flt_not_fle flt_trans by blast
  moreover have "flt r (hy_risk_off_enter c) \<Longrightarrow> \<not> fle (hy_risk_off_exit c) r"
    using v flt_not_fle flt_trans by blast
  moreover have "fle r (hy_risk_on_exit c) \<Longrightarrow> \<not> flt (hy_risk_on_enter c) r"
    using v fle_flt_trans flt_asym by blast
  moreover have "fle (hy_risk_off_exit c) r \<Longrightarrow> \<not> flt r (hy_risk_off_enter c)"
    using v flt_fle_trans flt_asym by blast
  ultimately show ?thesis unfolding ClassifyHysteresis_def by (simp split: if_splits)
qed

text \<open>Within the dead band between exit and entry no label but the previous one is reached from a directional label.\<close>

lemma hysteresis_holds:
  assumes "flt t (hy_transition_enter c)"
  shows "flt (hy_risk_on_exit c) r \<Longrightarrow> ClassifyHysteresis c LabelRiskOn r t = LabelRiskOn"
    and "flt r (hy_risk_off_exit c) \<Longrightarrow> ClassifyHysteresis c LabelRiskOff r t = LabelRiskOff"
  using assms flt_not_fle by (auto simp: ClassifyHysteresis_def)

lemma hysteresis_label: "ClassifyHysteresis c prev r t \<in> {LabelRiskOn, LabelRiskOff, LabelTransition}"
  by (simp add: ClassifyHysteresis_def)

section \<open>Days and forward returns\<close>

record regime_day =
  rd_value_date :: gotime
  rd_indicator :: f64
  rd_risk_on :: f64
  rd_risk_off :: f64
  rd_transition :: f64
  rd_label :: label

type_synonym prices = "gotime \<rightharpoonup> f64"

text \<open>\<open>p, ok := prices[d]; ok && p > 0\<close> reads \<open>!ok || p <= 0\<close> in the code, which NaN passes.\<close>

definition usable :: "prices \<Rightarrow> gotime \<Rightarrow> f64 option" where
  "usable prices d = (case prices d of None \<Rightarrow> None | Some p \<Rightarrow> if fle p fzero then None else Some p)"

record forward_cell =
  fc_label :: label
  fc_horizon :: int
  fc_n :: nat
  fc_mean :: f64
  fc_median :: f64
  fc_hit_rate :: f64

type_synonym buckets = "label \<times> int \<Rightarrow> f64 list"

text \<open>The log returns of the days, by label and horizon, in the order the loops meet them.\<close>

definition bucket_day :: "libm \<Rightarrow> prices \<Rightarrow> int list \<Rightarrow> buckets \<Rightarrow> regime_day \<Rightarrow> buckets" where
  "bucket_day M prices horizons b d =
     (case usable prices (rd_value_date d) of None \<Rightarrow> b
      | Some p0 \<Rightarrow> foldl (\<lambda>b h. case usable prices (add_days (rd_value_date d) h) of None \<Rightarrow> b
          | Some p1 \<Rightarrow> b((rd_label d, h) := b (rd_label d, h) @ [m_log M (fdiv p1 p0)])) b horizons)"

definition return_buckets :: "libm \<Rightarrow> regime_day list \<Rightarrow> prices \<Rightarrow> int list \<Rightarrow> buckets" where
  "return_buckets M days prices horizons = foldl (bucket_day M prices horizons) (\<lambda>_. []) days"

definition middle :: "f64 list \<Rightarrow> f64" where
  "middle s = (let n = length s in
     if odd n then s ! (n div 2) else fdiv (fadd (s ! (n div 2 - 1)) (s ! (n div 2))) (lit 2))"

definition hit :: "label \<Rightarrow> f64 \<Rightarrow> bool" where
  "hit lbl v \<longleftrightarrow> lbl = LabelRiskOn \<and> flt fzero v \<or> lbl = LabelRiskOff \<and> flt v fzero"

definition forward_cell :: "label \<Rightarrow> int \<Rightarrow> f64 list \<Rightarrow> forward_cell" where
  "forward_cell lbl h vs =
     (if vs = [] then \<lparr>fc_label = lbl, fc_horizon = h, fc_n = 0, fc_mean = fzero, fc_median = fzero, fc_hit_rate = fzero\<rparr>
      else \<lparr>fc_label = lbl, fc_horizon = h, fc_n = length vs, fc_mean = fdiv (fsum vs) (flen vs),
        fc_median = middle (sort_float64s vs),
        fc_hit_rate = (if lbl \<noteq> LabelTransition then fdiv (flen (filter (hit lbl) vs)) (flen vs) else fzero)\<rparr>)"

definition ForwardReturnTable :: "libm \<Rightarrow> regime_day list \<Rightarrow> prices \<Rightarrow> int list \<Rightarrow> forward_cell list" where
  "ForwardReturnTable M days prices horizons =
     (let buckets = return_buckets M days prices horizons
      in concat (map (\<lambda>lbl. map (\<lambda>h. forward_cell lbl h (buckets (lbl, h))) horizons)
           [LabelRiskOn, LabelRiskOff, LabelTransition]))"

text \<open>The returns a bucket holds, as a list over the days: the reference for the nested loops.\<close>

definition day_returns :: "libm \<Rightarrow> prices \<Rightarrow> regime_day \<Rightarrow> int \<Rightarrow> f64 list" where
  "day_returns M prices d h = (case (usable prices (rd_value_date d), usable prices (add_days (rd_value_date d) h)) of
     (Some p0, Some p1) \<Rightarrow> [m_log M (fdiv p1 p0)] | _ \<Rightarrow> [])"

lemma bucket_day_at:
  assumes "distinct horizons"
  shows "bucket_day M prices horizons b d (l, h) =
     b (l, h) @ (if l = rd_label d \<and> h \<in> set horizons then day_returns M prices d h else [])"
proof (cases "usable prices (rd_value_date d)")
  case (Some p0)
  have "foldl (\<lambda>b h. case usable prices (add_days (rd_value_date d) h) of None \<Rightarrow> b
          | Some p1 \<Rightarrow> b((rd_label d, h) := b (rd_label d, h) @ [m_log M (fdiv p1 p0)])) b hs (l, h) =
      b (l, h) @ (if l = rd_label d \<and> h \<in> set hs then day_returns M prices d h else [])" if "distinct hs" for hs b
    using that by (induction hs arbitrary: b) (auto simp: day_returns_def Some split: option.split)
  from this[OF assms] show ?thesis by (simp add: bucket_day_def Some)
qed (simp add: bucket_day_def day_returns_def)

lemma return_buckets_at:
  assumes "distinct horizons" "h \<in> set horizons"
  shows "return_buckets M days prices horizons (l, h) =
     concat (map (\<lambda>d. day_returns M prices d h) (filter (\<lambda>d. rd_label d = l) days))"
proof -
  have "foldl (bucket_day M prices horizons) b days (l, h) =
      b (l, h) @ concat (map (\<lambda>d. day_returns M prices d h) (filter (\<lambda>d. rd_label d = l) days))" for b
    by (induction days arbitrary: b) (auto simp: bucket_day_at[OF assms(1)] assms(2))
  from this[of "\<lambda>_. []"] show ?thesis by (simp add: return_buckets_def)
qed

lemma day_returns_length: "length (day_returns M prices d h) =
    (if usable prices (rd_value_date d) \<noteq> None \<and> usable prices (add_days (rd_value_date d) h) \<noteq> None then 1 else 0)"
  by (auto simp: day_returns_def split: option.split)

text \<open>A share of a list is a fraction of one.\<close>

lemma flen_fin: "length xs < 2 ^ 53 \<Longrightarrow> is_finite (flen xs) \<and> qv (flen xs) = of_nat (length xs)"
  using f_of_int_fin[of "int (length xs)"] by (simp add: flen_def)

lemma share_unit:
  assumes "length ys \<le> length xs" "xs \<noteq> []" "length xs < 2 ^ 53"
  shows "fin_in 0 1 (fdiv (flen ys) (flen xs))"
proof -
  have f: "is_finite (flen ys)" "qv (flen ys) = of_nat (length ys)" "is_finite (flen xs)" "qv (flen xs) = of_nat (length xs)"
    using flen_fin[of ys] flen_fin[of xs] assms by auto
  have q: "0 \<le> (of_nat (length ys) / of_nat (length xs) :: rat)" "(of_nat (length ys) / of_nat (length xs) :: rat) \<le> 1"
    using assms by (auto simp: divide_le_eq)
  then have r: "0 \<le> rq (of_nat (length ys) / of_nat (length xs) :: rat)" "rq (of_nat (length ys) / of_nat (length xs) :: rat) \<le> 1"
    using rq_in[of 0 "of_nat (length ys) / of_nat (length xs)" 1] by auto
  have "\<bar>rq (of_nat (length ys) / of_nat (length xs) :: rat)\<bar> < overflow"
    using r by (simp add: overflow_def)
  then show ?thesis using fdiv_fin[of "flen ys" "flen xs"] f r assms by (simp add: fin_in_def)
qed

lemma forward_cell_hit_rate: "length vs < 2 ^ 53 \<Longrightarrow> fin_in 0 1 (fc_hit_rate (forward_cell lbl h vs))"
  by (cases "vs = []") (auto simp: forward_cell_def intro!: share_unit)

lemma ForwardReturnTable_length: "length (ForwardReturnTable M days prices horizons) = 3 * length horizons"
  by (simp add: ForwardReturnTable_def Let_def length_concat)

text \<open>Each horizon counts every labelled day with both prices exactly once over the three labels.\<close>

lemma ForwardReturnTable_counts:
  assumes "distinct horizons" "h \<in> set horizons"
    and "\<And>d. d \<in> set days \<Longrightarrow> rd_label d \<in> {LabelRiskOn, LabelRiskOff, LabelTransition}"
  shows "(\<Sum>c\<leftarrow>filter (\<lambda>c. fc_horizon c = h) (ForwardReturnTable M days prices horizons). fc_n c) =
    length (filter (\<lambda>d. usable prices (rd_value_date d) \<noteq> None \<and> usable prices (add_days (rd_value_date d) h) \<noteq> None) days)"
    (is "_ = length (filter ?ok days)")
proof -
  let ?b = "return_buckets M days prices horizons"
  have n: "fc_n (forward_cell l h' vs) = length vs" "fc_horizon (forward_cell l h' vs) = h'" for l h' vs
    by (simp_all add: forward_cell_def)
  have "filter (\<lambda>x. x = h) horizons = [h]"
    using assms(1,2) by (induction horizons) (auto intro!: filter_False)
  then have one: "filter (\<lambda>c. fc_horizon c = h) (map (\<lambda>h. forward_cell l h (?b (l, h))) horizons) = [forward_cell l h (?b (l, h))]" for l
    by (simp add: n filter_map o_def)
  have len: "length (?b (l, h)) = length (filter (\<lambda>d. rd_label d = l \<and> ?ok d) days)" for l
    unfolding return_buckets_at[OF assms(1,2)] by (induction days) (auto simp: day_returns_length)
  show ?thesis unfolding ForwardReturnTable_def Let_def
    by (simp add: one n len, insert assms(3), induction days) (auto)
qed

section \<open>Persistence\<close>

record label_run =
  pr_label :: label
  pr_start :: nat
  pr_end :: nat

text \<open>A new run starts at day \<open>i\<close> when its label differs from the run's or more than 36 hours have passed.\<close>

definition run_step :: "regime_day list \<Rightarrow> label_run list \<times> label_run \<Rightarrow> nat \<Rightarrow> label_run list \<times> label_run" where
  "run_step days s i = (case s of (runs, cur) \<Rightarrow>
     let gap = time_sub (rd_value_date (days ! i)) (rd_value_date (days ! (i - 1)))
     in if rd_label (days ! i) \<noteq> pr_label cur \<or> 36 * hour_ns < gap
        then (runs @ [cur\<lparr>pr_end := i - 1\<rparr>], \<lparr>pr_label = rd_label (days ! i), pr_start = i, pr_end = i\<rparr>)
        else (runs, cur))"

definition label_runs :: "regime_day list \<Rightarrow> label_run list" where
  "label_runs days =
     (case foldl (run_step days) ([], \<lparr>pr_label = rd_label (days ! 0), pr_start = 0, pr_end = 0\<rparr>) [1..<length days] of
        (runs, cur) \<Rightarrow> runs @ [cur\<lparr>pr_end := length days - 1\<rparr>])"

definition run_length :: "label_run \<Rightarrow> int" where
  "run_length r = int (pr_end r) - int (pr_start r) + 1"

definition middle_int :: "int list \<Rightarrow> f64" where
  "middle_int s = (let n = length s in
     if odd n then f_of_int (s ! (n div 2)) else fdiv (f_of_int (s ! (n div 2 - 1) + s ! (n div 2))) (lit 2))"

record persistence_stats =
  ps_mean_duration :: "label \<rightharpoonup> f64"
  ps_median_duration :: "label \<rightharpoonup> f64"
  ps_transitions :: int
  ps_per_year :: f64
  ps_flip_flop :: f64
  ps_total_days :: nat

definition durations :: "label_run list \<Rightarrow> label \<Rightarrow> int list" where
  "durations runs l = map run_length (filter (\<lambda>r. pr_label r = l) runs)"

definition flips :: "label_run list \<Rightarrow> nat list" where
  "flips runs = filter (\<lambda>i. run_length (runs ! i) \<le> 7 \<and> i + 1 < length runs \<and>
     pr_label (runs ! (i + 1)) = pr_label (runs ! (i - 1))) [1..<length runs]"

definition PersistenceMetrics :: "regime_day list \<Rightarrow> persistence_stats" where
  "PersistenceMetrics days =
     (if days = [] then \<lparr>ps_mean_duration = Map.empty, ps_median_duration = Map.empty, ps_transitions = 0,
        ps_per_year = fzero, ps_flip_flop = fzero, ps_total_days = 0\<rparr>
      else let runs = label_runs days; transitions = int (length runs) - 1;
             span = fdiv (dur_hours (time_sub (rd_value_date (last days)) (rd_value_date (hd days)))) (lit 24)
        in \<lparr>ps_mean_duration = (\<lambda>l. let ds = durations runs l in
                if ds = [] then None else Some (fdiv (f_of_int (sum_list ds)) (flen ds))),
            ps_median_duration = (\<lambda>l. let ds = durations runs l in
                if ds = [] then None else Some (middle_int (sort_ints ds))),
            ps_transitions = transitions,
            ps_per_year = (if flt fzero span then fdiv (fmul (f_of_int transitions) (lit 365)) span else fzero),
            ps_flip_flop = (if 0 < transitions then fdiv (flen (flips runs)) (f_of_int transitions) else fzero),
            ps_total_days = length days\<rparr>)"

text \<open>Where the history breaks, as a condition on neighbouring days.\<close>

definition breaks :: "regime_day list \<Rightarrow> nat \<Rightarrow> bool" where
  "breaks days i \<longleftrightarrow> rd_label (days ! i) \<noteq> rd_label (days ! (i - 1)) \<or>
     36 * hour_ns < time_sub (rd_value_date (days ! i)) (rd_value_date (days ! (i - 1)))"

definition run_days :: "label_run \<Rightarrow> nat list" where
  "run_days r = [pr_start r..<Suc (pr_end r)]"

definition run_inv :: "regime_day list \<Rightarrow> nat \<Rightarrow> label_run list \<times> label_run \<Rightarrow> bool" where
  "run_inv days k s = (case s of (runs, cur) \<Rightarrow>
     concat (map run_days runs) @ [pr_start cur..<k] = [0..<k] \<and> pr_start cur < k \<and>
     (\<forall>r\<in>set runs. pr_start r \<le> pr_end r \<and> (\<forall>i\<in>set (run_days r). rd_label (days ! i) = pr_label r)) \<and>
     (\<forall>i\<in>{pr_start cur..<k}. rd_label (days ! i) = pr_label cur) \<and>
     map pr_start runs @ [pr_start cur] = 0 # filter (breaks days) [1..<k])"

lemma run_inv_step:
  assumes "run_inv days k s" "1 \<le> k"
  shows "run_inv days (Suc k) (run_step days s k)"
proof -
  obtain runs cur where s: "s = (runs, cur)" by (cases s)
  note i = assms(1)[unfolded run_inv_def s prod.case]
  have lab: "rd_label (days ! (k - 1)) = pr_label cur" using i assms(2) by auto
  have start: "pr_start cur \<le> k - 1" using i assms(2) by auto
  have up: "[1..<Suc k] = [1..<k] @ [k]" using assms(2) by simp
  have ext: "[0..<Suc k] = [0..<k] @ [k]" by simp
  show ?thesis
  proof (cases "breaks days k")
    case True
    have st: "run_step days s k = (runs @ [cur\<lparr>pr_end := k - 1\<rparr>], \<lparr>pr_label = rd_label (days ! k), pr_start = k, pr_end = k\<rparr>)"
      using True unfolding breaks_def lab by (simp add: run_step_def s Let_def del: One_nat_def)
    have c: "run_days (cur\<lparr>pr_end := k - 1\<rparr>) = [pr_start cur..<k]" using assms(2) by (simp add: run_days_def)
    note c' = c[unfolded One_nat_def]
    show ?thesis unfolding st run_inv_def prod.case using i start True assms(2)
      by (simp add: c' up del: upt_Suc) (auto simp: ext c')
  next
    case False
    then have st: "run_step days s k = (runs, cur)" unfolding breaks_def lab by (simp add: run_step_def s Let_def del: One_nat_def)
    have e: "[pr_start cur..<Suc k] = [pr_start cur..<k] @ [k]" using i by simp
    have "rd_label (days ! k) = pr_label cur" using False lab by (simp add: breaks_def)
    then show ?thesis unfolding st run_inv_def prod.case using i False
      by (simp add: up e ext del: upt_Suc) (auto simp: less_Suc_eq)
  qed
qed

lemma label_runs_spec:
  assumes "days \<noteq> []"
  shows "concat (map run_days (label_runs days)) = [0..<length days]"
    and "\<And>r. r \<in> set (label_runs days) \<Longrightarrow> pr_start r \<le> pr_end r \<and> (\<forall>i\<in>set (run_days r). rd_label (days ! i) = pr_label r)"
    and "map pr_start (label_runs days) = 0 # filter (breaks days) [1..<length days]"
proof -
  let ?s0 = "([], \<lparr>pr_label = rd_label (days ! 0), pr_start = 0, pr_end = 0\<rparr>)"
  have "run_inv days (Suc n) (foldl (run_step days) ?s0 [1..<Suc n])" for n
  proof (induction n)
    case 0
    then show ?case by (simp add: run_inv_def)
  next
    case (Suc n)
    have "[1..<Suc (Suc n)] = [1..<Suc n] @ [Suc n]" by simp
    then show ?case using run_inv_step[OF Suc.IH] by (simp del: upt_Suc)
  qed
  from this[of "length days - 1"] assms
  have inv: "run_inv days (length days) (foldl (run_step days) ?s0 [1..<length days])" by (simp del: upt_Suc)
  obtain runs cur where f: "foldl (run_step days) ?s0 [1..<length days] = (runs, cur)" by fastforce
  note i = inv[unfolded run_inv_def f prod.case]
  have r: "label_runs days = runs @ [cur\<lparr>pr_end := length days - 1\<rparr>]" by (simp add: label_runs_def f del: One_nat_def)
  have c: "run_days (cur\<lparr>pr_end := length days - 1\<rparr>) = [pr_start cur..<length days]" using assms by (simp add: run_days_def)
  note c' = c[unfolded One_nat_def]
  show "concat (map run_days (label_runs days)) = [0..<length days]" using i unfolding r by (simp add: c del: One_nat_def)
  show "map pr_start (label_runs days) = 0 # filter (breaks days) [1..<length days]" using i unfolding r by (simp del: One_nat_def)
  show "pr_start x \<le> pr_end x \<and> (\<forall>i\<in>set (run_days x). rd_label (days ! i) = pr_label x)" if "x \<in> set (label_runs days)" for x
    using that i unfolding r by (auto simp: c')
qed

lemma label_runs_durations:
  assumes "days \<noteq> []"
  shows "sum_list (map run_length (label_runs days)) = int (length days)"
proof -
  have "sum_list (map run_length rs) = int (length (concat (map run_days rs)))"
    if "\<And>r. r \<in> set rs \<Longrightarrow> pr_start r \<le> pr_end r" for rs
    using that
  proof (induction rs)
    case (Cons r rs)
    have "pr_start r \<le> Suc (pr_end r)" using Cons.prems[of r] by simp
    then show ?case using Cons by (simp add: run_length_def run_days_def of_nat_diff del: upt_Suc)
  qed simp
  from this[of "label_runs days"] label_runs_spec(1,2)[OF assms] show ?thesis by simp
qed

lemma transitions_breaks: "days \<noteq> [] \<Longrightarrow> ps_transitions (PersistenceMetrics days) = int (length (filter (breaks days) [1..<length days]))"
  using arg_cong[OF label_runs_spec(3), of days length] by (simp add: PersistenceMetrics_def Let_def)

lemma flip_flop_unit:
  assumes "length days < 2 ^ 53"
  shows "fin_in 0 1 (ps_flip_flop (PersistenceMetrics days))"
proof (cases "days = []")
  case False
  let ?rs = "label_runs days"
  have len: "length ?rs = Suc (length (filter (breaks days) [1..<length days]))"
    using arg_cong[OF label_runs_spec(3)[OF False], of length] by simp
  have "length (filter (breaks days) [1..<length days]) \<le> length days - 1"
    by (metis length_filter_le length_upt)
  then have le: "length [1..<length ?rs] < 2 ^ 53" unfolding length_upt len using assms by linarith
  have t: "f_of_int (int (length ?rs) - 1) = flen [1..<length ?rs]" 
    unfolding flen_def by (rule arg_cong[of _ _ f_of_int]) (unfold length_upt len, linarith)
  have "fin_in 0 1 (fdiv (flen (flips ?rs)) (flen [1..<length ?rs]))" if "0 < int (length ?rs) - 1"
    unfolding flips_def by (rule share_unit[OF length_filter_le _ le]) (use that in auto)
  then show ?thesis using False by (simp add: PersistenceMetrics_def Let_def t del: One_nat_def)
qed (simp add: PersistenceMetrics_def)

section \<open>Lead times before events\<close>

record stress_event =
  se_name :: string
  se_peak :: gotime

definition mustDate :: "string \<Rightarrow> gotime" where
  "mustDate s = the (parse_day s)"

definition CalibrationEvents :: "stress_event list" where
  "CalibrationEvents = map (\<lambda>(n, d). \<lparr>se_name = n, se_peak = mustDate d\<rparr>)
     [(''China ban / leverage flush'', ''2021-05-19''), (''UST collapse'', ''2022-05-11''),
      (''3AC collapse'', ''2022-06-18''), (''FTX collapse'', ''2022-11-09''),
      (''USDC depeg / SVB'', ''2023-03-11''), (''Yen carry unwind'', ''2024-08-05'')]"

text \<open>None of the dates makes \<open>mustDate\<close> panic.\<close>

lemma CalibrationEvents_parse:
  "list_all (\<lambda>d. parse_day d \<noteq> None) [''2021-05-19'', ''2022-05-11'', ''2022-06-18'', ''2022-11-09'', ''2023-03-11'', ''2024-08-05'']"
  by code_simp

record event_lead =
  el_event :: stress_event
  el_risk_off :: int
  el_trans :: int
  el_regime :: f64
  el_transition :: f64
  el_present :: bool

definition lead_start :: "(gotime \<rightharpoonup> regime_day) \<Rightarrow> stress_event \<Rightarrow> event_lead" where
  "lead_start byDate ev = (case byDate (se_peak ev) of
     None \<Rightarrow> \<lparr>el_event = ev, el_risk_off = - 999, el_trans = - 999, el_regime = fzero, el_transition = fzero, el_present = False\<rparr>
   | Some d \<Rightarrow> \<lparr>el_event = ev, el_risk_off = - 999, el_trans = - 999, el_regime = rd_indicator d,
        el_transition = rd_transition d, el_present = True\<rparr>)"

definition lead_step :: "(gotime \<rightharpoonup> regime_day) \<Rightarrow> f64 \<Rightarrow> event_lead \<Rightarrow> int \<Rightarrow> event_lead" where
  "lead_step byDate threshold l offset = (case byDate (add_days (se_peak (el_event l)) offset) of
     None \<Rightarrow> l
   | Some d \<Rightarrow> l\<lparr>el_present := True,
       el_risk_off := (if el_risk_off l = - 999 \<and> flt (rd_indicator d) fzero then - offset else el_risk_off l),
       el_trans := (if el_trans l = - 999 \<and> flt threshold (rd_transition d) then - offset else el_trans l)\<rparr>)"

text \<open>\<open>for offset := -14; offset <= 3; offset++\<close>\<close>

definition event_window :: "int list" where
  "event_window = [- 14..3]"

lemma set_event_window: "k \<in> set event_window \<longleftrightarrow> - 14 \<le> k \<and> k \<le> 3"
  by (simp only: event_window_def set_upto atLeastAtMost_iff)

definition EventLeadTimes :: "(gotime \<rightharpoonup> regime_day) \<Rightarrow> stress_event list \<Rightarrow> f64 \<Rightarrow> event_lead list" where
  "EventLeadTimes byDate events threshold =
     map (\<lambda>ev. foldl (lead_step byDate threshold) (lead_start byDate ev) event_window) events"

text \<open>The lead of the first day of the window that satisfies a condition: the reference.\<close>

definition first_lead :: "(gotime \<rightharpoonup> regime_day) \<Rightarrow> gotime \<Rightarrow> (regime_day \<Rightarrow> bool) \<Rightarrow> int" where
  "first_lead byDate peak P = (case find (\<lambda>k. case byDate (add_days peak k) of None \<Rightarrow> False | Some d \<Rightarrow> P d) event_window of
     None \<Rightarrow> - 999 | Some k \<Rightarrow> - k)"

definition latched :: "(int \<Rightarrow> bool) \<Rightarrow> int \<Rightarrow> int list \<Rightarrow> int" where
  "latched Q a ks = (if a = - 999 then case find Q ks of None \<Rightarrow> - 999 | Some k \<Rightarrow> - k else a)"

lemma lead_fold:
  assumes "999 \<notin> set ks"
  shows "foldl (lead_step byDate thr) l ks = l\<lparr>
      el_present := el_present l \<or> (\<exists>k\<in>set ks. byDate (add_days (se_peak (el_event l)) k) \<noteq> None),
      el_risk_off := latched (\<lambda>k. case byDate (add_days (se_peak (el_event l)) k) of None \<Rightarrow> False | Some d \<Rightarrow> flt (rd_indicator d) fzero)
        (el_risk_off l) ks,
      el_trans := latched (\<lambda>k. case byDate (add_days (se_peak (el_event l)) k) of None \<Rightarrow> False | Some d \<Rightarrow> flt thr (rd_transition d))
        (el_trans l) ks\<rparr>"
  using assms
proof (induction ks arbitrary: l)
  case (Cons k ks)
  have "k \<noteq> 999" using Cons.prems by simp
  then have k: "- k \<noteq> - 999" by simp
  have ks: "999 \<notin> set ks" using Cons.prems by simp
  show ?case
  proof (cases "byDate (add_days (se_peak (el_event l)) k)")
    case None
    then have "lead_step byDate thr l k = l" by (simp add: lead_step_def)
    then show ?thesis using Cons.IH[OF ks] None by (simp add: latched_def)
  next
    case (Some d)
    show ?thesis unfolding foldl.simps Cons.IH[OF ks] using k Some
      by (simp add: lead_step_def latched_def)
  qed
qed (simp add: latched_def)

theorem EventLeadTimes_spec:
  "EventLeadTimes byDate events thr = map (\<lambda>ev.
     \<lparr>el_event = ev, el_risk_off = first_lead byDate (se_peak ev) (\<lambda>d. flt (rd_indicator d) fzero),
      el_trans = first_lead byDate (se_peak ev) (\<lambda>d. flt thr (rd_transition d)),
      el_regime = (case byDate (se_peak ev) of None \<Rightarrow> fzero | Some d \<Rightarrow> rd_indicator d),
      el_transition = (case byDate (se_peak ev) of None \<Rightarrow> fzero | Some d \<Rightarrow> rd_transition d),
      el_present = (\<exists>k\<in>set event_window. byDate (add_days (se_peak ev) k) \<noteq> None)\<rparr>) events"
  unfolding EventLeadTimes_def
proof (intro map_cong refl)
  fix ev assume "ev \<in> set events"
  have w: "999 \<notin> set event_window" by (simp add: set_event_window)
  have z: "byDate (se_peak ev) \<noteq> None \<Longrightarrow> \<exists>k\<in>set event_window. byDate (add_days (se_peak ev) k) \<noteq> None"
    by (rule bexI[of _ 0]) (auto simp: set_event_window)
  show "foldl (lead_step byDate thr) (lead_start byDate ev) event_window =
     \<lparr>el_event = ev, el_risk_off = first_lead byDate (se_peak ev) (\<lambda>d. flt (rd_indicator d) fzero),
      el_trans = first_lead byDate (se_peak ev) (\<lambda>d. flt thr (rd_transition d)),
      el_regime = (case byDate (se_peak ev) of None \<Rightarrow> fzero | Some d \<Rightarrow> rd_indicator d),
      el_transition = (case byDate (se_peak ev) of None \<Rightarrow> fzero | Some d \<Rightarrow> rd_transition d),
      el_present = (\<exists>k\<in>set event_window. byDate (add_days (se_peak ev) k) \<noteq> None)\<rparr>"
    unfolding lead_fold[OF w]
    using z by (cases "byDate (se_peak ev)") (simp_all add: lead_start_def latched_def first_lead_def)
qed

section \<open>The toy strategy\<close>

record strategy_stats =
  ss_return :: f64
  ss_vol :: f64
  ss_sharpe :: f64
  ss_max_dd :: f64
  ss_calmar :: f64
  ss_final :: f64
  ss_bh_return :: f64
  ss_bh_max_dd :: f64
  ss_bh_calmar :: f64

definition no_stats :: strategy_stats where
  "no_stats = \<lparr>ss_return = fzero, ss_vol = fzero, ss_sharpe = fzero, ss_max_dd = fzero, ss_calmar = fzero,
     ss_final = fzero, ss_bh_return = fzero, ss_bh_max_dd = fzero, ss_bh_calmar = fzero\<rparr>"

definition rebalanceCost :: f64 where
  "rebalanceCost = lit (5 / 10000)"

definition weightFor :: "label \<Rightarrow> f64" where
  "weightFor l = (if l = LabelRiskOn then lit 1 else if l = LabelRiskOff then lit 0 else lit (1 / 2))"

definition price_series :: "regime_day list \<Rightarrow> prices \<Rightarrow> (gotime \<times> f64) list" where
  "price_series days prices = List.map_filter (\<lambda>d. case prices (rd_value_date d) of None \<Rightarrow> None
     | Some p \<Rightarrow> if flt fzero p then Some (rd_value_date d, p) else None) days"

definition labelByDate :: "regime_day list \<Rightarrow> gotime \<rightharpoonup> label" where
  "labelByDate days = foldl (\<lambda>m d. m(rd_value_date d \<mapsto> rd_label d)) Map.empty days"

record toy_state =
  ts_equity :: f64
  ts_bh :: f64
  ts_equities :: "f64 list"
  ts_bhs :: "f64 list"
  ts_prev :: label
  ts_weight :: f64
  ts_logs :: "f64 list"

definition toy_start :: "label \<Rightarrow> toy_state" where
  "toy_start l = \<lparr>ts_equity = fone, ts_bh = fone, ts_equities = [], ts_bhs = [], ts_prev = l,
     ts_weight = weightFor l, ts_logs = []\<rparr>"

text \<open>The rebalancing of one day, and the day: \<open>p0\<close> and \<open>p1\<close> are the prices before and on it.\<close>

definition rebalance :: "label \<Rightarrow> toy_state \<Rightarrow> toy_state" where
  "rebalance l s = (if l \<noteq> ts_prev s
     then s\<lparr>ts_equity := fmul (ts_equity s) (fsub fone (fmul (fabs (fsub (weightFor l) (ts_weight s))) rebalanceCost)),
            ts_weight := weightFor l, ts_prev := l\<rparr>
     else s)"

definition toy_step :: "libm \<Rightarrow> (gotime \<rightharpoonup> label) \<Rightarrow> (gotime \<times> f64) list \<Rightarrow> toy_state \<Rightarrow> nat \<Rightarrow> toy_state" where
  "toy_step M labels series s i =
     (let ret = fsub (fdiv (snd (series ! i)) (snd (series ! (i - 1)))) (lit 1);
          s1 = rebalance (mget [] labels (fst (series ! i))) s;
          equity = fmul (ts_equity s1) (fadd (lit 1) (fmul (ts_weight s1) ret));
          bh = fmul (ts_bh s) (fadd (lit 1) ret);
          before = last (ts_equities s)
      in s1\<lparr>ts_equity := equity, ts_bh := bh, ts_equities := ts_equities s @ [equity], ts_bhs := ts_bhs s @ [bh],
           ts_logs := (if flt fzero equity \<and> 1 < i \<and> flt fzero before
              then ts_logs s @ [m_log M (fdiv equity before)] else ts_logs s)\<rparr>)"

definition dd_step :: "f64 \<times> f64 \<Rightarrow> f64 \<Rightarrow> f64 \<times> f64" where
  "dd_step s v = (let peak = (if flt (fst s) v then v else fst s); dd = fdiv (fsub peak v) peak
     in (peak, if flt (snd s) dd then dd else snd s))"

definition maxDrawdown :: "f64 list \<Rightarrow> f64" where
  "maxDrawdown equity = (case equity of [] \<Rightarrow> fzero | e # _ \<Rightarrow> snd (foldl dd_step (e, lit 0) equity))"

definition annual_vol :: "f64 list \<Rightarrow> f64" where
  "annual_vol rs = (let mean = fdiv (fsum rs) (flen rs)
     in fsqrt (fmul (fdiv (sum_sq_dev mean rs) (f_of_int (int (length rs) - 1))) (lit 365)))"

definition toy_run :: "libm \<Rightarrow> regime_day list \<Rightarrow> (gotime \<times> f64) list \<Rightarrow> toy_state" where
  "toy_run M days series = foldl (toy_step M (labelByDate days) series)
     (toy_start (mget [] (labelByDate days) (fst (hd series)))) [1..<length series]"

definition ToyStrategy :: "libm \<Rightarrow> regime_day list \<Rightarrow> prices \<Rightarrow> strategy_stats" where
  "ToyStrategy M days prices =
     (let series = price_series days prices in
      if length series < 2 then no_stats
      else let s = toy_run M days series;
               spanDays = fdiv (dur_hours (time_sub (fst (last series)) (fst (hd series)))) (lit 24);
               annual = (\<lambda>e. if flt fzero spanDays then fsub (m_pow M e (fdiv (lit 365) spanDays)) (lit 1) else fzero);
               ret = annual (ts_equity s); bhRet = annual (ts_bh s);
               vol = (if 1 < length (ts_logs s) then annual_vol (ts_logs s) else fzero);
               dd = maxDrawdown (ts_equities s); bhDD = maxDrawdown (ts_bhs s)
           in \<lparr>ss_return = ret, ss_vol = vol, ss_sharpe = (if flt fzero vol then fdiv ret vol else fzero),
               ss_max_dd = dd, ss_calmar = (if flt fzero dd then fdiv ret dd else fzero), ss_final = ts_equity s,
               ss_bh_return = bhRet, ss_bh_max_dd = bhDD, ss_bh_calmar = (if flt fzero bhDD then fdiv bhRet bhDD else fzero)\<rparr>)"

text \<open>A drawdown is a fraction of the peak.\<close>

lemma drawdown_unit:
  assumes "is_f64 p" "is_finite p" "0 < qv p" "is_finite v" "0 \<le> qv v" "qv v \<le> qv p" "\<bar>qv p\<bar> < overflow"
  shows "fin_in 0 1 (fdiv (fsub p v) p)"
proof -
  have r: "0 \<le> rq (qv p - qv v)" "rq (qv p - qv v) \<le> qv p"
    using rq_in[of 0 "qv p - qv v" "qv p"] is_f64_qv[OF assms(1)] assms by auto
  have "\<bar>rq (qv p - qv v)\<bar> < overflow" using r assms by linarith
  from fsub_fin[OF assms(2,4) this] have s: "is_finite (fsub p v)" "qv (fsub p v) = rq (qv p - qv v)" by auto
  have q: "0 \<le> qv (fsub p v) / qv p" "qv (fsub p v) / qv p \<le> 1" using r s assms by (auto simp: divide_le_eq)
  have t: "0 \<le> rq (qv (fsub p v) / qv p)" "rq (qv (fsub p v) / qv p) \<le> 1" using rq_in[OF q] by auto
  then have "\<bar>rq (qv (fsub p v) / qv p)\<bar> < overflow" by (simp add: overflow_def)
  from fdiv_fin[OF s(1) assms(2) _ this] t assms show ?thesis by (simp add: fin_in_def)
qed

definition positive :: "f64 \<Rightarrow> bool" where
  "positive x \<longleftrightarrow> is_f64 x \<and> is_finite x \<and> 0 < qv x \<and> \<bar>qv x\<bar> < overflow"

lemma maxDrawdown_unit:
  assumes "\<And>v. v \<in> set es \<Longrightarrow> positive v"
  shows "fin_in 0 1 (maxDrawdown es)"
proof (cases es)
  case (Cons e es')
  define I where "I = (\<lambda>s. positive (fst s) \<and> fin_in 0 1 (snd s))"
  have "I (foldl dd_step (e, lit 0) es)"
  proof (rule foldl_inv[where P = I])
    show "I (e, lit 0)" using assms[of e] Cons by (simp add: I_def lit_def rnd_def overflow_def zero_of_def)
  next
    fix s v assume s: "I s" and v: "v \<in> set es"
    have pv: "positive v" using assms v by simp
    define p' where "p' = (if flt (fst s) v then v else fst s)"
    have p': "positive p'" "qv v \<le> qv p'" using s pv fcmp_fin(1)[of "fst s" v] by (auto simp: p'_def I_def positive_def)
    have "fin_in 0 1 (fdiv (fsub p' v) p')" by (rule drawdown_unit) (use p' pv in \<open>auto simp: positive_def\<close>)
    then show "I (dd_step s v)"
      using s p' by (simp add: I_def dd_step_def Let_def p'_def[symmetric])
  qed
  then show ?thesis by (simp add: maxDrawdown_def Cons I_def)
qed (simp add: maxDrawdown_def)

text \<open>Before the second return there is no peak to fall from.\<close>

lemma maxDrawdown_single: "maxDrawdown [x] = fzero"
proof -
  have "\<not> flt (lit 0) (fdiv (fsub x x) x)"
    by (cases x) (auto simp: fsub_def fneg_def rnd_def lit_def zero_of_def overflow_def)
  then show ?thesis by (simp add: maxDrawdown_def dd_step_def Let_def lit_def rnd_def zero_of_def overflow_def)
qed

text \<open>Held through, the strategy is buy-and-hold to the last bit.\<close>

lemma fmul_one: "is_f64 x \<Longrightarrow> fmul fone x = x"
  by (cases x) (auto simp: rnd_def zero_of_def)

lemma labelByDate_const:
  assumes "\<forall>d\<in>set days. rd_label d = l"
  shows "labelByDate days t = (if t \<in> rd_value_date ` set days then Some l else None)"
proof -
  have "foldl (\<lambda>m d. m(rd_value_date d \<mapsto> rd_label d)) m days t = (if t \<in> rd_value_date ` set days then Some l else m t)" for m
    using assms by (induction days arbitrary: m) auto
  then show ?thesis by (simp add: labelByDate_def)
qed

lemma price_series_dates: "(t, p) \<in> set (price_series days prices) \<Longrightarrow> t \<in> rd_value_date ` set days"
  by (auto simp: price_series_def map_filter_bounds split: option.splits if_splits)

lemma series_label:
  assumes "\<forall>d\<in>set days. rd_label d = l" "i < length (price_series days prices)"
  shows "mget [] (labelByDate days) (fst (price_series days prices ! i)) = l"
proof -
  have "(fst (price_series days prices ! i), snd (price_series days prices ! i)) \<in> set (price_series days prices)"
    using assms(2) by simp
  from price_series_dates[OF this] show ?thesis by (simp add: labelByDate_const[OF assms(1)] mget_def)
qed

lemma lit_one: "lit 1 = fone"
  by (simp add: lit_def)

lemma is_f64_fadd: "is_f64 (fadd x y)"
  by (cases x; cases y; simp)

lemma is_f64_fsub: "is_f64 (fsub x y)"
  unfolding fsub_def by (rule is_f64_fadd)

lemma toy_run_invested:
  assumes "\<forall>d\<in>set days. rd_label d = LabelRiskOn" "price_series days prices = series" "2 \<le> length series"
  shows "ts_equity (toy_run M days series) = ts_bh (toy_run M days series) \<and>
    ts_equities (toy_run M days series) = ts_bhs (toy_run M days series)"
proof -
  define I where "I = (\<lambda>s::toy_state. ts_equity s = ts_bh s \<and> ts_equities s = ts_bhs s \<and> ts_prev s = LabelRiskOn \<and> ts_weight s = fone)"
  have l: "mget [] (labelByDate days) (fst (series ! i)) = LabelRiskOn" if "i < length series" for i
    using series_label[OF assms(1)] assms(2) that by blast
  have "series \<noteq> []" using assms(3) by auto
  then have hd: "mget [] (labelByDate days) (fst (hd series)) = LabelRiskOn" using l[of 0] by (simp add: hd_conv_nth)
  have "I (toy_run M days series)" unfolding toy_run_def
  proof (rule foldl_inv[where P = I])
    show "I (toy_start (mget [] (labelByDate days) (fst (hd series))))"
      by (simp add: hd I_def toy_start_def weightFor_def lit_one)
  next
    fix s i assume "I s" "i \<in> set [1..<length series]"
    then show "I (toy_step M (labelByDate days) series s i)"
      by (simp add: I_def toy_step_def Let_def rebalance_def l lit_one fmul_one[OF is_f64_fsub])
  qed
  then show ?thesis by (simp add: I_def)
qed

lemma ToyStrategy_invested:
  assumes "\<forall>d\<in>set days. rd_label d = LabelRiskOn"
  shows "ss_return (ToyStrategy M days prices) = ss_bh_return (ToyStrategy M days prices) \<and>
    ss_max_dd (ToyStrategy M days prices) = ss_bh_max_dd (ToyStrategy M days prices) \<and>
    ss_calmar (ToyStrategy M days prices) = ss_bh_calmar (ToyStrategy M days prices)"
  using toy_run_invested[OF assms refl, of prices M] by (simp add: ToyStrategy_def Let_def no_stats_def)

lemma ToyStrategy_two_prices:
  assumes "length (price_series days prices) = 2"
  shows "ss_max_dd (ToyStrategy M days prices) = fzero" and "ss_bh_max_dd (ToyStrategy M days prices) = fzero"
proof -
  have "\<exists>e b. ts_equities (toy_run M days (price_series days prices)) = [e] \<and> ts_bhs (toy_run M days (price_series days prices)) = [b]"
    using assms by (simp add: toy_run_def toy_step_def toy_start_def Let_def rebalance_def upt_rec)
  then show "ss_max_dd (ToyStrategy M days prices) = fzero" "ss_bh_max_dd (ToyStrategy M days prices) = fzero"
    using assms by (auto simp: ToyStrategy_def Let_def maxDrawdown_single)
qed

section \<open>Bootstrap intervals\<close>

text \<open>
  A random generator is a state and \<open>Intn\<close>, which draws a number below its bound.  The seed of the code is 1.
\<close>

type_synonym 'g intn = "'g \<Rightarrow> nat \<Rightarrow> nat \<times> 'g"

record forward_cell_ci = forward_cell +
  fc_ci_low :: f64
  fc_ci_high :: f64
  fc_resamples :: int

fun draw_sum :: "'g intn \<Rightarrow> f64 list \<Rightarrow> nat \<Rightarrow> f64 \<Rightarrow> 'g \<Rightarrow> f64 \<times> 'g" where
  "draw_sum intn vs 0 s g = (s, g)"
| "draw_sum intn vs (Suc n) s g = (case intn g (length vs) of (k, g') \<Rightarrow> draw_sum intn vs n (fadd s (vs ! k)) g')"

fun resample :: "'g intn \<Rightarrow> f64 list \<Rightarrow> nat \<Rightarrow> 'g \<Rightarrow> f64 list \<times> 'g" where
  "resample intn vs 0 g = ([], g)"
| "resample intn vs (Suc n) g = (case draw_sum intn vs (length vs) fzero g of (s, g') \<Rightarrow>
     case resample intn vs n g' of (ms, g'') \<Rightarrow> (fdiv s (flen vs) # ms, g''))"

definition lo_index :: "int \<Rightarrow> int" where
  "lo_index n = int_of_f (fmul (lit (25 / 1000)) (f_of_int n))"

definition hi_index :: "int \<Rightarrow> int" where
  "hi_index n = (let h = int_of_f (fmul (lit (975 / 1000)) (f_of_int n)) in if n \<le> h then n - 1 else h)"

definition ci_cell :: "forward_cell \<Rightarrow> f64 \<Rightarrow> f64 \<Rightarrow> int \<Rightarrow> forward_cell_ci" where
  "ci_cell c lo hi n = forward_cell.extend c \<lparr>fc_ci_low = lo, fc_ci_high = hi, fc_resamples = n\<rparr>"

definition bootstrap_cell :: "'g intn \<Rightarrow> buckets \<Rightarrow> int \<Rightarrow> 'g \<Rightarrow> forward_cell \<Rightarrow> forward_cell_ci \<times> 'g" where
  "bootstrap_cell intn buckets n g c =
     (let vs = buckets (fc_label c, fc_horizon c) in
      if 2 \<le> length vs then
        (case resample intn vs (nat n) g of (ms, g') \<Rightarrow>
           let means = sort_float64s ms
           in (ci_cell c (means ! nat (lo_index n)) (means ! nat (hi_index n)) n, g'))
      else (ci_cell c fzero fzero n, g))"

fun bootstrap_cells :: "'g intn \<Rightarrow> buckets \<Rightarrow> int \<Rightarrow> 'g \<Rightarrow> forward_cell list \<Rightarrow> forward_cell_ci list" where
  "bootstrap_cells intn buckets n g [] = []"
| "bootstrap_cells intn buckets n g (c # cs) =
     (case bootstrap_cell intn buckets n g c of (x, g') \<Rightarrow> x # bootstrap_cells intn buckets n g' cs)"

definition BootstrapForwardReturnCI :: "libm \<Rightarrow> 'g intn \<Rightarrow> 'g \<Rightarrow> regime_day list \<Rightarrow> prices \<Rightarrow> int list \<Rightarrow> int \<Rightarrow> forward_cell_ci list" where
  "BootstrapForwardReturnCI M intn seed days prices horizons nResamples =
     (let n = (if nResamples \<le> 0 then 1000 else nResamples)
      in bootstrap_cells intn (return_buckets M days prices horizons) n seed (ForwardReturnTable M days prices horizons))"

lemma resample_length: "length (fst (resample intn vs n g)) = n"
  by (induction n arbitrary: g) (simp_all add: split_beta)

text \<open>The two indices are in range and in order, whatever the number of resamples.\<close>

lemma lit_fin: "is_finite (lit q) \<and> qv (lit q) = rq q" if "\<bar>q\<bar> \<le> 2 powi 1023"
  using rnd_in_range[OF that] by (simp add: lit_def)

lemma scaled_index:
  assumes "fin_in 0 1 x" "0 \<le> n" "n < 2 ^ 53"
  shows "qv (fmul x (f_of_int n)) = rq (qv x * of_int n)" "0 \<le> rq (qv x * of_int n)" "rq (qv x * of_int n) \<le> of_int n"
proof -
  have f: "is_finite (f_of_int n)" "qv (f_of_int n) = of_int n" using f_of_int_fin[of n] assms by auto
  have b: "0 \<le> qv x * of_int n" "qv x * of_int n \<le> of_int n"
    using assms by (auto simp: fin_in_def intro: mult_left_le_one_le)
  have rn: "rq (of_int n :: rat) = of_int n" using assms by (intro rq_of_int) simp
  show r: "0 \<le> rq (qv x * of_int n)" "rq (qv x * of_int n) \<le> of_int n"
    using rq_in[OF b] rn by auto
  have "(of_int n :: rat) < of_int (2 ^ 53)" using assms(3) by (simp only: of_int_less_iff)
  then have "\<bar>rq (qv x * of_int n)\<bar> < overflow" using r by (simp add: overflow_def)
  then show "qv (fmul x (f_of_int n)) = rq (qv x * of_int n)"
    using fmul_fin[of x "f_of_int n"] f assms by (simp add: fin_in_def)
qed

lemma quantile_consts: "fin_in 0 1 (lit (25 / 1000))" "fin_in 0 1 (lit (975 / 1000))" "qv (lit (25 / 1000)) \<le> 1 / 2"
    "qv (lit (25 / 1000)) \<le> qv (lit (975 / 1000))"
  by (simp_all add: f64_eval)

lemma ci_indices:
  assumes "0 < n" "n < 2 ^ 53"
  shows "0 \<le> lo_index n" and "lo_index n \<le> hi_index n" and "hi_index n < n"
proof -
  let ?a = "qv (lit (25 / 1000)) * of_int n" and ?b = "qv (lit (975 / 1000)) * of_int n"
  have n: "0 \<le> n" using assms by simp
  note A = scaled_index[OF quantile_consts(1) n assms(2)] and B = scaled_index[OF quantile_consts(2) n assms(2)]
  have lo: "lo_index n = \<lfloor>rq ?a\<rfloor>" using A by (simp add: lo_index_def int_of_f_def trunc_rat_def)
  have hi: "hi_index n = (if n \<le> \<lfloor>rq ?b\<rfloor> then n - 1 else \<lfloor>rq ?b\<rfloor>)"
    using B by (simp add: hi_index_def int_of_f_def trunc_rat_def Let_def)
  have "?a \<le> ?b" using quantile_consts(4) n by (intro mult_right_mono) auto
  then have ab: "\<lfloor>rq ?a\<rfloor> \<le> \<lfloor>rq ?b\<rfloor>" by (intro floor_mono rq_mono)
  have h: "?a \<le> of_int n / 2" using mult_right_mono[OF quantile_consts(3), of "of_int n"] n by simp
  have "lo_index n < n"
  proof (cases "n = 1")
    case True
    have "rq ?a \<le> rq (1 / 2 :: rat)" using h True by (intro rq_mono) simp
    also have "rq (1 / 2 :: rat) = 1 / 2" using rq_powi[of "- 1"] by simp
    finally show ?thesis using True lo by (simp add: floor_less_iff)
  next
    case False
    then have "(of_int n / 2 :: rat) \<le> of_int (n - 1)" using assms(1) by simp
    then have "rq ?a \<le> rq (of_int (n - 1) :: rat)" using h by (intro rq_mono) linarith
    also have "\<dots> = of_int (n - 1)" using assms by (intro rq_of_int) simp
    finally have "\<lfloor>rq ?a\<rfloor> \<le> n - 1" by (simp add: floor_le_iff) linarith
    then show ?thesis using lo by simp
  qed
  then show "lo_index n \<le> hi_index n" using ab lo hi by auto
  show "0 \<le> lo_index n" using A lo by simp
  show "hi_index n < n" using hi by auto
qed

lemma bootstrap_cell_ordered:
  assumes "bootstrap_cell intn b n g c = (x, g')" "0 < n" "n < 2 ^ 53"
  shows "\<not> float_less (fc_ci_high x) (fc_ci_low x)"
proof (cases "2 \<le> length (b (fc_label c, fc_horizon c))")
  case True
  obtain ms g'' where r: "resample intn (b (fc_label c, fc_horizon c)) (nat n) g = (ms, g'')" by fastforce
  have len: "length (sort_float64s ms) = nat n"
    using resample_length[of intn "b (fc_label c, fc_horizon c)" "nat n" g] r by (simp add: sort_float64s_def)
  have x: "fc_ci_low x = sort_float64s ms ! nat (lo_index n)" "fc_ci_high x = sort_float64s ms ! nat (hi_index n)"
    using assms(1) True r by (auto simp: bootstrap_cell_def Let_def ci_cell_def forward_cell.extend_def)
  note i = ci_indices[OF assms(2,3)]
  show ?thesis
  proof (cases "lo_index n = hi_index n")
    case False
    then have "nat (lo_index n) < nat (hi_index n)" "nat (hi_index n) < length (sort_float64s ms)" using i len by auto
    then show ?thesis unfolding x using sorted_sort_float64s sorted_wrt_nth_less by blast
  qed (auto simp: x float_less_def)
next
  case False
  then show ?thesis using assms(1) by (auto simp: bootstrap_cell_def Let_def ci_cell_def forward_cell.extend_def float_less_def)
qed

lemma bootstrap_cells_ordered:
  assumes "0 < n" "n < 2 ^ 53"
  shows "x \<in> set (bootstrap_cells intn b n g cs) \<Longrightarrow> \<not> float_less (fc_ci_high x) (fc_ci_low x)"
  by (induction cs arbitrary: g) (auto split: prod.splits dest: bootstrap_cell_ordered[OF sym assms])

lemma BootstrapForwardReturnCI_ordered:
  assumes "x \<in> set (BootstrapForwardReturnCI M intn seed days prices horizons n)" "n < 2 ^ 53"
  shows "\<not> float_less (fc_ci_high x) (fc_ci_low x)"
  by (rule bootstrap_cells_ordered[OF _ _ assms(1)[unfolded BootstrapForwardReturnCI_def Let_def]]) (use assms(2) in auto)

section \<open>Ratios of an equity curve\<close>

definition log_returns :: "libm \<Rightarrow> f64 list \<Rightarrow> f64 list" where
  "log_returns M es = List.map_filter (\<lambda>i. if flt fzero (es ! (i - 1)) \<and> flt fzero (es ! i)
     then Some (m_log M (fdiv (es ! i) (es ! (i - 1)))) else None) [1..<length es]"

definition AnnualizedSharpe :: "libm \<Rightarrow> f64 list \<Rightarrow> f64" where
  "AnnualizedSharpe M es =
     (if length es < 3 then fzero
      else let rs = log_returns M es in
        if length rs < 2 then fzero
        else let mean = fdiv (fsum rs) (flen rs);
                 std = fsqrt (fdiv (sum_sq_dev mean rs) (f_of_int (int (length rs) - 1)))
             in if feq std (lit 0) then fzero else fdiv (fmul mean (fsqrt (lit 365))) std)"

definition AnnualizedCalmar :: "libm \<Rightarrow> f64 list \<Rightarrow> f64 \<Rightarrow> f64" where
  "AnnualizedCalmar M es spanDays =
     (if length es < 2 \<or> fle spanDays fzero then fzero
      else let final = last es in
        if fle final fzero then fzero
        else let annRet = fsub (m_pow M (fdiv final (hd es)) (fdiv (lit 365) spanDays)) (lit 1);
                 maxDD = maxDrawdown es
             in if fle maxDD fzero then fzero else fdiv annRet maxDD)"

section \<open>The sensitivity table\<close>

text \<open>
  \<open>%.kf\<close>: the exact value rounded to \<open>k\<close> decimals, ties to even; \<open>%ns\<close> and \<open>%-ns\<close> pad with blanks.
\<close>

definition fmt_nat :: "nat \<Rightarrow> nat \<Rightarrow> string" where
  "fmt_nat k n = dec (n div 10 ^ k) @ ''.'' @ pad0 k (dec (n mod 10 ^ k))"

definition fmt_f :: "nat \<Rightarrow> f64 \<Rightarrow> string" where
  "fmt_f k x = (case x of NaN \<Rightarrow> ''NaN'' | Inf s \<Rightarrow> if s then ''-Inf'' else ''+Inf''
     | NZero \<Rightarrow> ''-'' @ fmt_nat k 0
     | Fin q \<Rightarrow> (if q < 0 then ''-'' else []) @ fmt_nat k (nat (rhe (\<bar>q\<bar> * 10 ^ k))))"

definition pad_left :: "nat \<Rightarrow> string \<Rightarrow> string" where
  "pad_left n s = replicate (n - length s) (CHR '' '') @ s"

definition pad_right :: "nat \<Rightarrow> string \<Rightarrow> string" where
  "pad_right n s = s @ replicate (n - length s) (CHR '' '')"

abbreviation newline :: string where "newline \<equiv> [CHR 0x0A]"

record sensitivity_row =
  sn_parameter :: string
  sn_value :: f64
  sn_metrics :: "string \<rightharpoonup> f64"

definition sens_less :: "sensitivity_row \<Rightarrow> sensitivity_row \<Rightarrow> bool" where
  "sens_less a b = (if sn_parameter a \<noteq> sn_parameter b then str_less (sn_parameter a) (sn_parameter b)
     else flt (sn_value a) (sn_value b))"

definition SensitivitySweep :: "(string set \<Rightarrow> string list) \<Rightarrow> sensitivity_row list \<Rightarrow> string" where
  "SensitivitySweep ord rows =
     (if rows = [] then ''(empty sensitivity sweep)'' @ newline
      else let sorted_rows = sort_slice sens_less rows;
               metrics = sort_strings (ord (\<Union>r\<in>set rows. dom (sn_metrics r)))
           in pad_right 32 ''parameter'' @ '' '' @ pad_left 10 ''value'' @
              concat (map (\<lambda>m. '' '' @ pad_left 14 m) metrics) @ newline @
              concat (map (\<lambda>r. pad_right 32 (sn_parameter r) @ '' '' @ pad_left 10 (fmt_f 4 (sn_value r)) @
                concat (map (\<lambda>m. '' '' @ pad_left 14 (case sn_metrics r m of Some v \<Rightarrow> fmt_f 6 v | None \<Rightarrow> ''-'')) metrics) @
                newline) sorted_rows))"

text \<open>The table does not depend on the order the metric names are visited in.\<close>

lemma sorted_unique:
  assumes "sorted_wrt (\<lambda>a b. \<not> lt b a) xs" "sorted_wrt (\<lambda>a b. \<not> lt b a) ys" "mset xs = mset ys"
    and "\<And>a b. a \<in> set xs \<Longrightarrow> b \<in> set xs \<Longrightarrow> a \<noteq> b \<Longrightarrow> lt a b \<or> lt b a"
  shows "xs = ys"
  using assms
proof (induction xs arbitrary: ys)
  case (Cons x xs)
  from Cons.prems(3) obtain y ys' where ys: "ys = y # ys'" by (cases ys) auto
  have s: "set (x # xs) = set ys" using Cons.prems(3) by (metis set_mset_mset)
  have xy: "x = y"
  proof (rule ccontr)
    assume n: "x \<noteq> y"
    have "x \<in> set ys'" "y \<in> set xs" using n s ys by auto
    then show False using Cons.prems(1,2) Cons.prems(4)[of x y] n ys by auto
  qed
  have "xs = ys'"
    by (rule Cons.IH) (use Cons.prems xy ys in auto)
  then show ?case using xy ys by simp
qed simp

lemma sort_strings_sorted: "sorted_wrt (\<lambda>a b. \<not> str_less b a) (sort_strings xs)"
proof -
  have nt: "\<not> str_less y x \<Longrightarrow> \<not> str_less z y \<Longrightarrow> \<not> str_less z x" for x y z
    using str_less_total str_less_trans by metis
  show ?thesis unfolding sort_strings_def by (rule sorted_sort_slice) (fact str_less_asym nt)+
qed

lemma sort_strings_cong: "mset xs = mset ys \<Longrightarrow> sort_strings xs = sort_strings ys"
proof -
  assume m: "mset xs = mset ys"
  have e: "mset (sort_strings xs) = mset (sort_strings ys)" using m by (simp add: sort_strings_def)
  show ?thesis by (rule sorted_unique[OF sort_strings_sorted sort_strings_sorted e]) (use str_less_total in blast)
qed

lemma SensitivitySweep_order:
  assumes "\<And>S. finite S \<Longrightarrow> distinct (f S) \<and> set (f S) = S" "\<And>S. finite S \<Longrightarrow> distinct (g S) \<and> set (g S) = S"
    and "\<And>r. r \<in> set rows \<Longrightarrow> finite (dom (sn_metrics r))"
  shows "SensitivitySweep f rows = SensitivitySweep g rows"
proof -
  have "finite (\<Union>r\<in>set rows. dom (sn_metrics r))" using assms(3) by simp
  then have "mset (f (\<Union>r\<in>set rows. dom (sn_metrics r))) = mset (g (\<Union>r\<in>set rows. dom (sn_metrics r)))"
    using assms(1,2) by (simp add: set_eq_iff_mset_eq_distinct[symmetric])
  from sort_strings_cong[OF this] show ?thesis by (simp add: SensitivitySweep_def)
qed

end
