(* ===== verification/Backtest.thy ===== *)
theory Backtest
  imports RegimeService BacktestMetrics
begin

text \<open>
  \<open>internal/backtest\<close> (\<open>config.go\<close>, \<open>pipeline.go\<close>, \<open>port.go\<close>, \<open>service.go\<close>): the harness that replays
  the regime engine over a past period, stores its states under a run, and measures them.  The visiting
  orders of \<open>range\<close> loops over maps are arguments; \<open>H\<close> is the hexadecimal SHA-256 digest.
\<close>

section \<open>Configuration\<close>

record bt_config =
  bc_sla :: int
  bc_harness :: string
  bc_classifier :: classifier_config
  bc_code_sha :: string

definition HarnessVersion :: string where
  "HarnessVersion = ''harness_v1.0.0''"

definition zero_classifier :: "classifier_config \<Rightarrow> bool" where
  "zero_classifier c \<longleftrightarrow> feq (cc_transition_high c) fzero \<and> feq (cc_risk_on_floor c) fzero \<and> feq (cc_risk_off_ceiling c) fzero"

definition bt_Defaults :: "bt_config \<Rightarrow> bt_config" where
  "bt_Defaults c = c\<lparr>bc_sla := or_default_int (bc_sla c) 60,
     bc_harness := (if bc_harness c = [] then HarnessVersion else bc_harness c),
     bc_classifier := (if zero_classifier (bc_classifier c) then DefaultClassifier else bc_classifier c)\<rparr>"

definition bt_DefaultConfig :: bt_config where
  "bt_DefaultConfig = bt_Defaults \<lparr>bc_sla = 0, bc_harness = [],
     bc_classifier = \<lparr>cc_transition_high = fzero, cc_risk_on_floor = fzero, cc_risk_off_ceiling = fzero\<rparr>, bc_code_sha = []\<rparr>"

section \<open>Ports\<close>

type_synonym run_id = string

record backtest_run =
  br_id :: run_id
  br_mode :: string
  br_start :: gotime
  br_end :: gotime
  br_model_version :: string
  br_config_version :: string
  br_config_yaml :: string
  br_code_sha :: string
  br_data_hash :: string
  br_sla :: int
  br_parent :: "run_id option"
  br_harness :: string
  br_status :: string
  br_started :: gotime
  br_completed :: "gotime option"
  br_metadata :: "(string \<rightharpoonup> anyval) option"

record metric =
  me_name :: string
  me_scope :: string
  me_value :: f64
  me_metadata :: "(string \<rightharpoonup> anyval) option"

record price_point_at =
  pa_date :: gotime
  pa_price :: f64

record 'w run_repo =
  rp_Save :: "backtest_run \<Rightarrow> ('w, run_id) io"
  rp_Get :: "run_id \<Rightarrow> ('w, backtest_run) io"
  rp_UpdateStatus :: "run_id \<Rightarrow> string \<Rightarrow> gotime option \<Rightarrow> ('w, unit) io"

record 'w bt_state_repo =
  st_Save :: "run_id \<Rightarrow> regime_state \<Rightarrow> ('w, unit) io"
  st_GetByRun :: "run_id \<Rightarrow> ('w, regime_state list) io"

record 'w metrics_repo =
  mt_Save :: "run_id \<Rightarrow> metric \<Rightarrow> ('w, unit) io"
  mt_GetByRun :: "run_id \<Rightarrow> ('w, metric list) io"

type_synonym 'w bt_score_reader = "'w score_reader"
type_synonym 'w indicator_reader = "asset \<Rightarrow> gotime \<Rightarrow> gotime \<Rightarrow> gotime \<Rightarrow> ('w, indicator_point list) io"
type_synonym 'w price_reader = "asset \<Rightarrow> gotime \<Rightarrow> gotime \<Rightarrow> ('w, price_point_at list) io"

record 'w bt_service =
  bt_runs :: "'w run_repo"
  bt_states :: "'w bt_state_repo"
  bt_metrics :: "'w metrics_repo"
  bt_scores :: "'w bt_score_reader"
  bt_indicator :: "'w indicator_reader"
  bt_prices :: "'w price_reader"
  bt_clock :: "('w, gotime) io"
  bt_cfg :: bt_config
  bt_engine :: regime_config
  bt_assets :: "asset list"
  bt_yaml :: string

definition bt_NewService :: "'w run_repo \<Rightarrow> 'w bt_state_repo \<Rightarrow> 'w metrics_repo \<Rightarrow> 'w bt_score_reader \<Rightarrow>
    'w indicator_reader \<Rightarrow> 'w price_reader \<Rightarrow> ('w, gotime) io \<Rightarrow> bt_config \<Rightarrow> regime_config \<Rightarrow> string \<Rightarrow>
    asset list \<Rightarrow> 'w bt_service" where
  "bt_NewService runs states metrics scores indicator prices clk cfg engineCfg configYAML assets =
     \<lparr>bt_runs = runs, bt_states = states, bt_metrics = metrics, bt_scores = scores, bt_indicator = indicator,
      bt_prices = prices, bt_clock = clk, bt_cfg = bt_Defaults cfg, bt_engine = Config_Defaults engineCfg,
      bt_assets = (if assets = [] then AssetsTradeable else assets), bt_yaml = configYAML\<rparr>"

section \<open>The snapshot hash\<close>

type_synonym snapshot_key = "asset \<times> gotime"
type_synonym snapshot = "snapshot_key \<rightharpoonup> (domain_code \<rightharpoonup> f64)"

definition key_less :: "snapshot_key \<Rightarrow> snapshot_key \<Rightarrow> bool" where
  "key_less a b = (if fst a \<noteq> fst b then str_less (fst a) (fst b) else snd a < snd b)"

definition snapshot_line :: "(string set \<Rightarrow> string list) \<Rightarrow> snapshot_key \<Rightarrow> (domain_code \<rightharpoonup> f64) \<Rightarrow> string" where
  "snapshot_line dord k scores = fst k @ ''|'' @ fmt_day (snd k) @
     concat (map (\<lambda>d. ''|'' @ d @ ''='' @ fmt_f 12 (mget fzero scores d)) (sort_strings (dord (dom scores)))) @ newline"

definition SnapshotHash :: "(string \<Rightarrow> string) \<Rightarrow> (snapshot_key set \<Rightarrow> snapshot_key list) \<Rightarrow>
    (string set \<Rightarrow> string list) \<Rightarrow> snapshot \<Rightarrow> string" where
  "SnapshotHash H kord dord perDay =
     ''sha256:'' @ H (concat (map (\<lambda>k. snapshot_line dord k (mget Map.empty perDay k)) (sort_slice key_less (kord (dom perDay)))))"

definition lists_set :: "('k set \<Rightarrow> 'k list) \<Rightarrow> bool" where
  "lists_set f \<longleftrightarrow> (\<forall>S. finite S \<longrightarrow> distinct (f S) \<and> set (f S) = S)"

lemma lists_set_mset: "lists_set f \<Longrightarrow> lists_set g \<Longrightarrow> finite S \<Longrightarrow> mset (f S) = mset (g S)"
  unfolding lists_set_def by (metis set_eq_iff_mset_eq_distinct)

lemma key_less_asym: "key_less x y \<Longrightarrow> \<not> key_less y x"
  by (auto simp: key_less_def dest: str_less_asym split: if_splits)

lemma key_less_total: "x \<noteq> y \<Longrightarrow> key_less x y \<or> key_less y x"
  using str_less_total by (cases x; cases y) (auto simp: key_less_def neq_iff)

lemma key_less_trans: "key_less x y \<Longrightarrow> key_less y z \<Longrightarrow> key_less x z"
  using str_less_trans str_less_asym unfolding key_less_def by (smt (verit, best))

lemma sort_keys_sorted: "sorted_wrt (\<lambda>a b. \<not> key_less b a) (sort_slice key_less ks)"
proof (rule sorted_sort_slice)
  show "\<not> key_less z x" if "\<not> key_less y x" "\<not> key_less z y" for x y z
    using that key_less_total key_less_trans by metis
qed (rule key_less_asym)

text \<open>The hash is a function of the snapshot, not of the order its maps are visited in.\<close>

lemma SnapshotHash_order:
  assumes "lists_set kord" "lists_set kord'" "lists_set dord" "lists_set dord'"
    and "finite (dom perDay)" "\<And>k m. perDay k = Some m \<Longrightarrow> finite (dom m)"
  shows "SnapshotHash H kord dord perDay = SnapshotHash H kord' dord' perDay"
proof -
  have m: "mset (kord (dom perDay)) = mset (kord' (dom perDay))" by (rule lists_set_mset) (fact assms)+
  have keys: "sort_slice key_less (kord (dom perDay)) = sort_slice key_less (kord' (dom perDay))"
  proof (rule sorted_unique[OF sort_keys_sorted sort_keys_sorted])
  qed (simp_all add: m key_less_total)
  have line: "snapshot_line dord k (mget Map.empty perDay k) = snapshot_line dord' k (mget Map.empty perDay k)" for k
  proof -
    have "finite (dom (mget Map.empty perDay k))" using assms(6) by (cases "perDay k") auto
    from sort_strings_cong[OF lists_set_mset[OF assms(3,4) this]] show ?thesis by (simp only: snapshot_line_def)
  qed
  show ?thesis by (simp only: SnapshotHash_def keys line)
qed

section \<open>Replaying a day\<close>

definition bt_cutoff :: "'w bt_service \<Rightarrow> gotime \<Rightarrow> gotime" where
  "bt_cutoff s d = d + bc_sla (bt_cfg s) * minute_ns"

definition bt_roc_per_domain :: "'w bt_service \<Rightarrow> asset \<Rightarrow> gotime \<Rightarrow> gotime \<Rightarrow>
    (domain_code \<rightharpoonup> f64) \<Rightarrow> (domain_code \<rightharpoonup> bool) \<Rightarrow> ('w, f64 list) io" where
  "bt_roc_per_domain s a valueDate cutoff scores present =
     (let refDate = add_days valueDate (- rc_roc_window (bt_engine s))
      in foldE (\<lambda>rocs d.
           if \<not> mget False present d then ret rocs
           else bindE (wrapE ''domain score on'' [AStr (fmt_day refDate)] (sr_GetByDate (bt_scores s) a d refDate cutoff))
             (\<lambda>(past, found). if \<not> found then ret rocs
                else ret (rocs @ [fdiv (fabs (fsub (mget fzero scores d) past)) (f_of_int (rc_roc_window (bt_engine s)))])))
         [] AllDomains)"

fun bt_momentum :: "'w bt_service \<Rightarrow> asset \<Rightarrow> gotime \<Rightarrow> gotime \<Rightarrow> (domain_code \<rightharpoonup> f64) \<Rightarrow>
    (domain_code \<rightharpoonup> bool) \<Rightarrow> bool \<Rightarrow> domain_code list \<Rightarrow> ('w, bool \<times> bool) io" where
  "bt_momentum s a day cutoff normalized present checkedAny [] = ret (True, checkedAny)"
| "bt_momentum s a day cutoff normalized present checkedAny (d # ds) =
     (if \<not> mget False present d then bt_momentum s a day cutoff normalized present checkedAny ds
      else bindE (wrapE ''momentum lookup'' [AStr d] (sr_GetByDate (bt_scores s) a d day cutoff))
        (\<lambda>(past, found).
           if \<not> found then ret (False, checkedAny)
           else if \<not> feq (signf (mget fzero normalized d)) (signf past) then ret (False, checkedAny)
           else bt_momentum s a day cutoff normalized present True ds))"

definition bt_gatherTransitionRiskInputs :: "'w bt_service \<Rightarrow> asset \<Rightarrow> gotime \<Rightarrow> gotime \<Rightarrow>
    (domain_code \<rightharpoonup> f64) \<Rightarrow> (domain_code \<rightharpoonup> f64) \<Rightarrow> (domain_code \<rightharpoonup> bool) \<Rightarrow> ('w, transition_inputs) io" where
  "bt_gatherTransitionRiskInputs s a valueDate cutoff scores normalized present =
     bindE (bt_roc_per_domain s a valueDate cutoff scores present) (\<lambda>rocs.
     bindE (wrapE ''indicator raw series'' []
        (bt_indicator s a (add_days valueDate (- 90 - rc_roc_window (bt_engine s))) (add_days valueDate (- 1)) cutoff))
     (\<lambda>rawSeries.
        let (hrocs, hdivs) = ComputeHistoricalRocDiv rawSeries valueDate (rc_roc_window (bt_engine s)) 90
        in bindE (bt_momentum s a (add_days valueDate (- 3)) cutoff normalized present False AllDomains)
             (\<lambda>(allSameDir, checkedAny).
                ret \<lparr>ti_normalized = normalized, ti_roc = rocs, ti_hist_rocs = hrocs, ti_hist_divs = hdivs,
                     ti_same_direction = checkedAny \<and> allSameDir, ti_checked = checkedAny\<rparr>)))"

definition bt_computeOne :: "libm \<Rightarrow> (asset \<Rightarrow> gotime \<Rightarrow> map_order) \<Rightarrow> 'w bt_service \<Rightarrow>
    asset \<Rightarrow> gotime \<Rightarrow> ('w, regime_state) io" where
  "bt_computeOne M ord s a valueDate =
     (let cfg = bt_engine s; o' = ord a valueDate; cutoff = bt_cutoff s valueDate in
      bindE (wrapE ''read domain scores'' [] (sr_GetLatestAll (bt_scores s) a valueDate cutoff)) (\<lambda>scores.
      if flt (CoverageFraction scores) (rc_min_coverage cfg) then
        throw (Wrap '': %.0f%% (need %.0f%%)'' [AFloat (fmul (CoverageFraction scores) (lit 100)),
                 AFloat (fmul (rc_min_coverage cfg) (lit 100))] ErrInsufficientCoverage)
      else
      let present = PresentSet scores;
          weights = cfg_weights cfg;
          effW = RedistributeWeights (mo_weights o' (dom weights)) weights present
      in
      bindE (foldE (\<lambda>hs d. bindE (wrapE ''domain history'' [AStr d]
                (sr_GetHistory (bt_scores s) a d (rc_norm_lookback cfg))) (\<lambda>h. ret (hs(d \<mapsto> h))))
             Map.empty (mo_scores o' (dom scores))) (\<lambda>histories.
      let normalized = NormalizeScores scores histories (rc_norm_min_samples cfg);
          rawIndicator = WeightedSumRaw (mo_raw o' (dom effW)) scores effW;
          (contributions, normIndicator, unclipped) = WeightedSumNormalized (mo_norm o' (dom effW)) normalized effW
      in
      bindE (wrapE ''transition risk inputs'' []
         (bt_gatherTransitionRiskInputs s a valueDate cutoff scores normalized present)) (\<lambda>trInputs.
      let transRisk = ComputeTransitionRisk M trInputs cfg;
          indicator = (if 1 < rc_span cfg then EmaSmooth normIndicator [] (rc_span cfg) else normIndicator);
          (riskOn, riskOff) = FinalProbabilities M indicator transRisk (rc_sigmoid_k cfg)
      in ret \<lparr>rs_asset = a, rs_value_date = valueDate, rs_indicator = indicator, rs_indicator_raw = rawIndicator,
             rs_risk_on = riskOn, rs_risk_off = riskOff, rs_transition = transRisk,
             rs_model_version = rc_model_version cfg, rs_config_version = rc_config_version cfg,
             rs_code_sha = rc_code_sha cfg, rs_contributions = contributions,
             rs_top_drivers = BuildTopDrivers (mo_drivers o' (dom contributions)) contributions,
             rs_weights = effW,
             rs_coverage = map_of (map (\<lambda>d. (d, mget False present d)) AllDomains), rs_flags = []\<rparr>))))"

text \<open>A replayed day is the live engine's day, up to saving and publishing, when the engine does not smooth.\<close>

lemma bt_gather_live:
  assumes "bt_scores s = sv_reader L" "bt_engine s = sv_cfg L"
    and "\<And>a from to. bt_indicator s a from to cutoff = rr_GetIndicatorRawSeries (sv_repo L) a from to"
  shows "bt_gatherTransitionRiskInputs s a vd cutoff scores normalized present =
    gatherTransitionRiskInputs L a vd cutoff scores normalized present"
proof -
  have roc: "bt_roc_per_domain s a vd cutoff scores present = roc_per_domain L a vd cutoff scores present"
    unfolding bt_roc_per_domain_def roc_per_domain_def assms ..
  have mom: "bt_momentum s a day cutoff normalized present c ds = momentum L a day cutoff normalized present c ds" for day c ds
    by (induction ds arbitrary: c) (simp_all add: assms cong: if_cong)
  show ?thesis unfolding bt_gatherTransitionRiskInputs_def gatherTransitionRiskInputs_def roc mom assms ComputeHistoricalRocDiv_def ..
qed

lemma guarded_bind:
  assumes "\<And>y. f y = bindE (g y) k"
  shows "(if c then throw e else bindE h f) = bindE (if c then throw e else bindE h g) k"
proof -
  have "f = (\<lambda>y. bindE (g y) k)" by (rule ext) (rule assms)
  then show ?thesis by (simp add: bindE_assoc)
qed

lemma bt_computeOne_live:
  assumes "bt_scores s = sv_reader L" "bt_engine s = sv_cfg L" "rc_span (sv_cfg L) \<le> 1"
    and "\<And>a from to. bt_indicator s a from to (bt_cutoff s vd) = rr_GetIndicatorRawSeries (sv_repo L) a from to"
  shows "computeOne M ord L a vd (bt_cutoff s vd) = bindE (bt_computeOne M ord s a vd) (\<lambda>st.
     seqE (wrapE ''save regime state'' [] (rr_Save (sv_repo L) st))
       (sv_publish L (regime_event (sv_cfg L) a vd (rs_indicator st) (rs_risk_on st) (rs_risk_off st) (rs_transition st))))"
proof -
  have sp: "\<not> 1 < rc_span (sv_cfg L)" using assms(3) by simp
  note g = bt_gather_live[OF assms(1,2,4)]
  show ?thesis
    unfolding computeOne_def bt_computeOne_def assms(1,2) g Let_def bindE_assoc smooth_def store_state_def exported_defs
      if_not_P[OF sp] case_prod_beta
    by (intro bindE_cong guarded_bind) (simp add: bindE_assoc cong: bindE_cong)
qed

text \<open>The smoothing span has no influence: a replayed day has no trailing states to smooth over.\<close>

definition with_span :: "int \<Rightarrow> 'w bt_service \<Rightarrow> 'w bt_service" where
  "with_span n s = s\<lparr>bt_engine := bt_engine s\<lparr>rc_span := n\<rparr>\<rparr>"

lemma with_span_sel [simp]:
  "bt_runs (with_span n s) = bt_runs s" "bt_states (with_span n s) = bt_states s" "bt_metrics (with_span n s) = bt_metrics s"
  "bt_scores (with_span n s) = bt_scores s" "bt_indicator (with_span n s) = bt_indicator s" "bt_prices (with_span n s) = bt_prices s"
  "bt_clock (with_span n s) = bt_clock s" "bt_cfg (with_span n s) = bt_cfg s" "bt_assets (with_span n s) = bt_assets s"
  "bt_yaml (with_span n s) = bt_yaml s" "bt_engine (with_span n s) = (bt_engine s)\<lparr>rc_span := n\<rparr>"
  "bt_cutoff (with_span n s) d = bt_cutoff s d"
  by (simp_all add: with_span_def bt_cutoff_def)

lemma span_sel:
  fixes c :: regime_config
  shows "rc_min_coverage (c\<lparr>rc_span := n\<rparr>) = rc_min_coverage c" "rc_norm_lookback (c\<lparr>rc_span := n\<rparr>) = rc_norm_lookback c"
    "rc_norm_min_samples (c\<lparr>rc_span := n\<rparr>) = rc_norm_min_samples c" "rc_sigmoid_k (c\<lparr>rc_span := n\<rparr>) = rc_sigmoid_k c"
    "rc_model_version (c\<lparr>rc_span := n\<rparr>) = rc_model_version c" "rc_config_version (c\<lparr>rc_span := n\<rparr>) = rc_config_version c"
    "rc_code_sha (c\<lparr>rc_span := n\<rparr>) = rc_code_sha c" "rc_roc_window (c\<lparr>rc_span := n\<rparr>) = rc_roc_window c"
    "cfg_weights (c\<lparr>rc_span := n\<rparr>) = cfg_weights c" "computeTransitionRisk M i (c\<lparr>rc_span := n\<rparr>) = computeTransitionRisk M i c"
  by (simp_all add: cfg_weights_def computeTransitionRisk_def)

lemma bt_gather_span: "bt_gatherTransitionRiskInputs (with_span n s) a vd c scores nrm present =
    bt_gatherTransitionRiskInputs s a vd c scores nrm present"
proof -
  have mom: "bt_momentum (with_span n s) a d c nrm present b ds = bt_momentum s a d c nrm present b ds" for d b ds
    by (induction ds arbitrary: b) (simp_all cong: if_cong)
  have roc: "bt_roc_per_domain (with_span n s) a vd c scores present = bt_roc_per_domain s a vd c scores present"
    unfolding bt_roc_per_domain_def with_span_sel span_sel ..
  show ?thesis unfolding bt_gatherTransitionRiskInputs_def mom roc with_span_sel span_sel ..
qed

lemma bt_computeOne_span: "bt_computeOne M ord (with_span n s) a vd = bt_computeOne M ord s a vd"
  unfolding bt_computeOne_def Let_def bt_gather_span with_span_sel span_sel exported_defs emaSmooth_no_history if_cancel ..

section \<open>Replay\<close>

definition collectSnapshot :: "'w bt_service \<Rightarrow> gotime \<Rightarrow> gotime \<Rightarrow> ('w, snapshot) io" where
  "collectSnapshot s from to = foldE (\<lambda>out d. foldE (\<lambda>out a.
       bindE (sr_GetLatestAll (bt_scores s) a d (bt_cutoff s d))
         (\<lambda>scores. ret (if scores = Map.empty then out else out((a, d) \<mapsto> scores))))
     out (bt_assets s)) Map.empty (day_range from to)"

text \<open>A day that cannot be computed or saved is logged and skipped.\<close>

definition replay_one :: "libm \<Rightarrow> (asset \<Rightarrow> gotime \<Rightarrow> map_order) \<Rightarrow> 'w bt_service \<Rightarrow> run_id \<Rightarrow> gotime \<Rightarrow> asset \<Rightarrow> ('w, unit) io" where
  "replay_one M ord s runID d a = bindE (attempt (bt_computeOne M ord s a d)) (\<lambda>r. case r of
       Inl e \<Rightarrow> ret ()
     | Inr st \<Rightarrow> bindE (attempt (st_Save (bt_states s) runID st)) (\<lambda>_. ret ()))"

definition Replay :: "libm \<Rightarrow> (asset \<Rightarrow> gotime \<Rightarrow> map_order) \<Rightarrow> (snapshot \<Rightarrow> string) \<Rightarrow> 'w bt_service \<Rightarrow>
    gotime \<Rightarrow> gotime \<Rightarrow> run_id option \<Rightarrow> string \<Rightarrow> ('w, run_id) io" where
  "Replay M ord hash s periodStart periodEnd parent mode =
     (let ps = UTCDay periodStart; pe = UTCDay periodEnd in
      if pe < ps then throw (Fresh ''replay: periodStart (%s) after periodEnd (%s)'' [AStr (fmt_day ps), AStr (fmt_day pe)])
      else bindE (wrapE ''replay snapshot'' [] (collectSnapshot s ps pe)) (\<lambda>snapshot.
      bindE (bt_clock s) (\<lambda>now.
      let run = \<lparr>br_id = [], br_mode = (if mode = [] then ''replay'' else mode), br_start = ps, br_end = pe,
            br_model_version = rc_model_version (bt_engine s), br_config_version = rc_config_version (bt_engine s),
            br_config_yaml = bt_yaml s, br_code_sha = bc_code_sha (bt_cfg s), br_data_hash = hash snapshot,
            br_sla = bc_sla (bt_cfg s), br_parent = parent, br_harness = bc_harness (bt_cfg s), br_status = ''running'',
            br_started = now, br_completed = None, br_metadata = None\<rparr>
      in bindE (wrapE ''save run'' [] (rp_Save (bt_runs s) run)) (\<lambda>runID.
         seqE (forE (\<lambda>d. forE (replay_one M ord s runID d) (bt_assets s)) (day_range ps pe))
        (bindE (bt_clock s) (\<lambda>completed.
         bindE (attempt (rp_UpdateStatus (bt_runs s) runID ''completed'' (Some completed))) (\<lambda>_. ret runID)))))))"

text \<open>Once the run is saved nothing stops the replay but the clock, which does not fail.\<close>

lemma replay_one_total: "\<exists>w'. replay_one M ord s runID d a w = (Inr (), w')"
proof (cases "bt_computeOne M ord s a d w")
  case (Pair r w1)
  show ?thesis
    by (cases r; cases "st_Save (bt_states s) runID (projr r) w1")
      (simp_all add: replay_one_def bindE_def attempt_def Pair)
qed

lemma Replay_fails:
  assumes "Replay M ord hash s ps pe parent mode w = (Inl e, w')"
    and "\<And>w. \<exists>t w'. bt_clock s w = (Inr t, w')"
  shows "UTCDay pe < UTCDay ps \<and> w' = w \<or>
    (\<exists>e1. collectSnapshot s (UTCDay ps) (UTCDay pe) w = (Inl e1, w') \<and> e = Wrap ''replay snapshot'' [] e1) \<or>
    (\<exists>snap w1 t w2 run e1. collectSnapshot s (UTCDay ps) (UTCDay pe) w = (Inr snap, w1) \<and> bt_clock s w1 = (Inr t, w2) \<and>
       rp_Save (bt_runs s) run w2 = (Inl e1, w') \<and> e = Wrap ''save run'' [] e1 \<and> br_data_hash run = hash snap)"
proof (cases "UTCDay pe < UTCDay ps")
  case False
  show ?thesis
  proof (cases "collectSnapshot s (UTCDay ps) (UTCDay pe) w")
    case (Pair r w1)
    show ?thesis
    proof (cases r)
      case (Inl e1)
      then show ?thesis using assms(1) False Pair by (simp add: Replay_def Let_def bindE_def wrapE_def)
    next
      case (Inr snap)
      obtain t w2 where t: "bt_clock s w1 = (Inr t, w2)" using assms(2) by blast
      let ?run = "\<lparr>br_id = [], br_mode = (if mode = [] then ''replay'' else mode), br_start = UTCDay ps, br_end = UTCDay pe,
            br_model_version = rc_model_version (bt_engine s), br_config_version = rc_config_version (bt_engine s),
            br_config_yaml = bt_yaml s, br_code_sha = bc_code_sha (bt_cfg s), br_data_hash = hash snap,
            br_sla = bc_sla (bt_cfg s), br_parent = parent, br_harness = bc_harness (bt_cfg s), br_status = ''running'',
            br_started = t, br_completed = None, br_metadata = None\<rparr>"
      obtain r3 w3 where s3: "rp_Save (bt_runs s) ?run w2 = (r3, w3)" by fastforce
      show ?thesis
      proof (cases r3)
        case (Inl e1)
        have "e = Wrap ''save run'' [] e1 \<and> w' = w3"
          using assms(1) False Pair Inr t s3 Inl by (simp add: Replay_def Let_def bindE_def wrapE_def)
        moreover have "br_data_hash ?run = hash snap" by simp
        ultimately show ?thesis using Pair Inr t s3 Inl by blast
      next
        fix runID assume r3: "r3 = Inr runID"
        have "\<exists>w4. forE (\<lambda>d. forE (replay_one M ord s runID d) (bt_assets s)) (day_range (UTCDay ps) (UTCDay pe)) w3 = (Inr (), w4)"
          by (intro forE_total replay_one_total)
        then obtain w4 where w4: "forE (\<lambda>d. forE (replay_one M ord s runID d) (bt_assets s)) (day_range (UTCDay ps) (UTCDay pe)) w3 = (Inr (), w4)"
          by blast
        obtain t2 w5 where t2: "bt_clock s w4 = (Inr t2, w5)" using assms(2) by blast
        have "\<exists>w6. Replay M ord hash s ps pe parent mode w = (Inr runID, w6)"
          using False Pair Inr t s3 r3 w4 t2
          by (simp add: Replay_def Let_def bindE_def wrapE_def seqE_def attempt_def split_beta)
        then show ?thesis using assms(1) by simp
      qed
    qed
  qed
qed (use assms(1) in \<open>simp add: Replay_def Let_def\<close>)

text \<open>The span of the smoothing does not reach a replay at all.\<close>

lemma Replay_span: "Replay M ord hash (with_span n s) ps pe parent mode = Replay M ord hash s ps pe parent mode"
proof -
  have "collectSnapshot (with_span n s) = collectSnapshot s" by (intro ext) (simp add: collectSnapshot_def)
  moreover have "replay_one M ord (with_span n s) = replay_one M ord s"
    by (intro ext) (unfold replay_one_def bt_computeOne_span with_span_sel, rule refl)
  ultimately show ?thesis unfolding Replay_def Let_def with_span_sel span_sel by simp
qed

section \<open>Metrics of a run\<close>

fun toRegimeDays :: "label \<Rightarrow> regime_state list \<Rightarrow> regime_day list" where
  "toRegimeDays prev [] = []"
| "toRegimeDays prev (st # sts) =
     (let lbl = ClassifyHysteresis DefaultHysteresis prev (rs_indicator st) (rs_transition st)
      in \<lparr>rd_value_date = rs_value_date st, rd_indicator = rs_indicator st, rd_risk_on = rs_risk_on st,
          rd_risk_off = rs_risk_off st, rd_transition = rs_transition st, rd_label = lbl\<rparr> # toRegimeDays lbl sts)"

definition price_map :: "price_point_at list \<Rightarrow> prices" where
  "price_map pts = foldl (\<lambda>m p. m(UTCDay (pa_date p) \<mapsto> pa_price p)) Map.empty pts"

definition loadPrices :: "'w bt_service \<Rightarrow> asset \<Rightarrow> gotime \<Rightarrow> gotime \<Rightarrow> ('w, prices) io" where
  "loadPrices s a from to = bindE (bt_prices s a from to) (\<lambda>pts. ret (price_map pts))"

definition metric_of :: "string \<Rightarrow> string \<Rightarrow> f64 \<Rightarrow> (string \<times> anyval) list option \<Rightarrow> metric" where
  "metric_of n sc v meta = \<lparr>me_name = n, me_scope = sc, me_value = v, me_metadata = map_option map_of meta\<rparr>"

definition cell_scope :: "asset \<Rightarrow> label \<Rightarrow> int \<Rightarrow> string" where
  "cell_scope a l h = a @ ''|'' @ l @ ''|h='' @ itoa h"

definition horizons :: "int list" where "horizons = [30, 90, 180]"

definition byDate :: "regime_day list \<Rightarrow> gotime \<rightharpoonup> regime_day" where
  "byDate days = foldl (\<lambda>m d. m(rd_value_date d \<mapsto> d)) Map.empty days"

text \<open>The metrics of one asset, in the order they are saved.\<close>

definition asset_metrics :: "libm \<Rightarrow> 'g intn \<Rightarrow> 'g \<Rightarrow> (label set \<Rightarrow> label list) \<Rightarrow> asset \<Rightarrow> regime_day list \<Rightarrow> prices \<Rightarrow> metric list" where
  "asset_metrics M intn seed lord a days prices =
     (let fwd = ForwardReturnTable M days prices horizons;
          ci = BootstrapForwardReturnCI M intn seed days prices horizons 1000;
          persist = PersistenceMetrics days;
          strat = ToyStrategy M days prices;
          leads = EventLeadTimes (byDate days) CalibrationEvents (lit (6 / 10))
      in map (\<lambda>c. metric_of ''forward_return_mean'' (cell_scope a (fc_label c) (fc_horizon c)) (fc_mean c)
             (Some [(''n'', AInt (int (fc_n c))), (''median'', AFloat (fc_median c)), (''hit_rate'', AFloat (fc_hit_rate c))])) fwd
       @ concat (map (\<lambda>c. [metric_of ''forward_return_mean_ci_low'' (cell_scope a (fc_label c) (fc_horizon c)) (fc_ci_low c)
               (Some [(''n_resamples'', AInt (fc_resamples c))]),
             metric_of ''forward_return_mean_ci_high'' (cell_scope a (fc_label c) (fc_horizon c)) (fc_ci_high c)
               (Some [(''n_resamples'', AInt (fc_resamples c))])]) ci)
       @ [metric_of ''flip_flop_rate'' a (ps_flip_flop persist)
            (Some [(''transitions'', AInt (ps_transitions persist)), (''transitions_per_year'', AFloat (ps_per_year persist))])]
       @ map (\<lambda>l. metric_of ''mean_duration_days'' (a @ ''|'' @ l) (mget fzero (ps_mean_duration persist) l) None)
            (lord (dom (ps_mean_duration persist)))
       @ [metric_of ''strategy_calmar'' a (ss_calmar strat)
            (Some [(''sharpe'', AFloat (ss_sharpe strat)), (''ann_return'', AFloat (ss_return strat)),
                   (''max_dd'', AFloat (ss_max_dd strat)), (''buy_hold_calmar'', AFloat (ss_bh_calmar strat))]),
          metric_of ''strategy_sharpe'' a (ss_sharpe strat) None]
       @ map (\<lambda>e. metric_of ''event_first_risk_off_offset'' (a @ ''|'' @ se_name (el_event e)) (f_of_int (el_risk_off e))
            (Some [(''first_trans_offset'', AInt (el_trans e)), (''data_present'', ABool (el_present e))])) leads)"

definition ComputeMetrics :: "libm \<Rightarrow> 'g intn \<Rightarrow> 'g \<Rightarrow> (asset set \<Rightarrow> asset list) \<Rightarrow> (label set \<Rightarrow> label list) \<Rightarrow>
    'w bt_service \<Rightarrow> run_id \<Rightarrow> ('w, unit) io" where
  "ComputeMetrics M intn seed aord lord s runID =
     bindE (wrapE ''get run'' [AStr runID] (rp_Get (bt_runs s) runID)) (\<lambda>run.
     bindE (wrapE ''get states'' [AStr runID] (st_GetByRun (bt_states s) runID)) (\<lambda>rows.
     if rows = [] then throw (Fresh ''no replay states for run %s'' [AStr runID])
     else forE (\<lambda>a.
       let days = toRegimeDays LabelTransition (filter (\<lambda>r. rs_asset r = a) rows)
       in bindE (wrapE ''load prices'' [AStr a] (loadPrices s a (br_start run) (add_days (br_end run) 200))) (\<lambda>prices.
            forE (mt_Save (bt_metrics s) runID) (asset_metrics M intn seed lord a days prices)))
       (aord (rs_asset ` set rows))))"

section \<open>Sweeps\<close>

definition sweep_engine :: "string \<Rightarrow> f64 \<Rightarrow> regime_config \<Rightarrow> regime_config option" where
  "sweep_engine parameter v cfg =
     (if parameter = ''transition.baseline'' then Some (cfg\<lparr>rc_baseline := v\<rparr>)
      else if parameter = ''smoothing.span_days'' then Some (cfg\<lparr>rc_span := int_of_f v\<rparr>)
      else None)"

definition sweep_row :: "string \<Rightarrow> f64 \<Rightarrow> metric list \<Rightarrow> sensitivity_row" where
  "sweep_row parameter v ms = \<lparr>sn_parameter = parameter, sn_value = v,
     sn_metrics = foldl (\<lambda>m x. if me_name x \<in> {''flip_flop_rate'', ''strategy_calmar'', ''strategy_sharpe''}
        then m(me_scope x @ ''|'' @ me_name x \<mapsto> me_value x) else m) Map.empty ms\<rparr>"

text \<open>
  The method returns the runs and rows it got to together with its error; the engine's configuration is
  the original one again at every return.
\<close>

type_synonym sweep_result = "run_id list \<times> sensitivity_row list \<times> err option"

fun sweep_loop :: "(regime_config \<Rightarrow> ('w, run_id) io) \<Rightarrow> (run_id \<Rightarrow> ('w, unit) io) \<Rightarrow> (run_id \<Rightarrow> ('w, metric list) io) \<Rightarrow>
    regime_config \<Rightarrow> string \<Rightarrow> run_id list \<Rightarrow> sensitivity_row list \<Rightarrow> f64 list \<Rightarrow> ('w, sweep_result) io" where
  "sweep_loop replay metrics get cfg parameter out rows [] = ret (out, rows, None)"
| "sweep_loop replay metrics get cfg parameter out rows (v # vs) =
     (case sweep_engine parameter v cfg of
        None \<Rightarrow> ret (out, rows, Some (Fresh ''sweep: unsupported parameter %q'' [AStr parameter]))
      | Some e \<Rightarrow> bindE (attempt (replay e)) (\<lambda>r. case r of
          Inl err \<Rightarrow> ret (out, rows, Some (Wrap ''sweep value %v'' [AFloat v] err))
        | Inr runID \<Rightarrow> bindE (attempt (metrics runID)) (\<lambda>_. bindE (attempt (get runID)) (\<lambda>g. case g of
            Inl err \<Rightarrow> ret (out @ [runID], rows, Some (Wrap ''sweep metrics'' [AStr runID] err))
          | Inr ms \<Rightarrow> sweep_loop replay metrics get cfg parameter (out @ [runID]) (rows @ [sweep_row parameter v ms]) vs))))"

definition sweep_seed :: "'w bt_service \<Rightarrow> gotime \<Rightarrow> gotime \<Rightarrow> string \<Rightarrow> f64 list \<Rightarrow> gotime \<Rightarrow> backtest_run" where
  "sweep_seed s ps pe parameter values now = \<lparr>br_id = [], br_mode = ''sensitivity'', br_start = ps, br_end = pe,
     br_model_version = rc_model_version (bt_engine s), br_config_version = rc_config_version (bt_engine s),
     br_config_yaml = bt_yaml s, br_code_sha = bc_code_sha (bt_cfg s), br_data_hash = ''sha256:sweep-seed'',
     br_sla = bc_sla (bt_cfg s), br_parent = None, br_harness = bc_harness (bt_cfg s), br_status = ''running'',
     br_started = now, br_completed = None,
     br_metadata = Some (map_of [(''parameter'', AStr parameter), (''values'', AList (map AFloat values))])\<rparr>"

definition Sweep :: "libm \<Rightarrow> (asset \<Rightarrow> gotime \<Rightarrow> map_order) \<Rightarrow> (snapshot \<Rightarrow> string) \<Rightarrow> 'g intn \<Rightarrow> 'g \<Rightarrow>
    (asset set \<Rightarrow> asset list) \<Rightarrow> (label set \<Rightarrow> label list) \<Rightarrow> 'w bt_service \<Rightarrow> gotime \<Rightarrow> gotime \<Rightarrow> string \<Rightarrow> f64 list \<Rightarrow> ('w, sweep_result) io" where
  "Sweep M ord hash intn seed aord lord s ps pe parameter values =
     (if values = [] then ret ([], [], Some (Fresh ''sweep: empty values'' []))
      else bindE (bt_clock s) (\<lambda>now.
        bindE (attempt (rp_Save (bt_runs s) (sweep_seed s ps pe parameter values now))) (\<lambda>r. case r of
          Inl err \<Rightarrow> ret ([], [], Some (Wrap ''save sweep seed'' [] err))
        | Inr seedID \<Rightarrow>
            bindE (sweep_loop (\<lambda>e. Replay M ord hash (s\<lparr>bt_engine := e\<rparr>) ps pe (Some seedID) ''sensitivity'') (ComputeMetrics M intn seed aord lord s)
                (mt_GetByRun (bt_metrics s)) (bt_engine s) parameter [] [] values)
              (\<lambda>(out, rows, e). case e of
                 Some err \<Rightarrow> ret (out, rows, Some err)
               | None \<Rightarrow> bindE (bt_clock s) (\<lambda>completed.
                   bindE (attempt (rp_UpdateStatus (bt_runs s) seedID ''completed'' (Some completed))) (\<lambda>_. ret (out, rows, None)))))))"

text \<open>A sweep over the smoothing span replays the same configuration for every value.\<close>

lemma sweep_loop_cong:
  assumes "\<And>v e. v \<in> set vs \<Longrightarrow> sweep_engine p v cfg = Some e \<Longrightarrow> f e = f' e"
  shows "sweep_loop f m g cfg p out rows vs = sweep_loop f' m g cfg p out rows vs"
  using assms
proof (induction vs arbitrary: out rows)
  case (Cons v vs)
  show ?case
  proof (cases "sweep_engine p v cfg")
    case (Some e)
    have "f e = f' e" by (rule Cons.prems[OF _ Some]) simp
    moreover have "sweep_loop f m g cfg p out rows vs = sweep_loop f' m g cfg p out rows vs" for out rows
      by (rule Cons.IH, rule Cons.prems[rotated], assumption) simp
    ultimately show ?thesis unfolding sweep_loop.simps Some by simp
  qed simp
qed simp

lemma Sweep_span:
  "Sweep M ord hash intn seed aord lord s ps pe ''smoothing.span_days'' values =
   (if values = [] then ret ([], [], Some (Fresh ''sweep: empty values'' []))
    else bindE (bt_clock s) (\<lambda>now.
      bindE (attempt (rp_Save (bt_runs s) (sweep_seed s ps pe ''smoothing.span_days'' values now))) (\<lambda>r. case r of
        Inl err \<Rightarrow> ret ([], [], Some (Wrap ''save sweep seed'' [] err))
      | Inr seedID \<Rightarrow>
          bindE (sweep_loop (\<lambda>_. Replay M ord hash s ps pe (Some seedID) ''sensitivity'') (ComputeMetrics M intn seed aord lord s)
              (mt_GetByRun (bt_metrics s)) (bt_engine s) ''smoothing.span_days'' [] [] values)
            (\<lambda>(out, rows, e). case e of
               Some err \<Rightarrow> ret (out, rows, Some err)
             | None \<Rightarrow> bindE (bt_clock s) (\<lambda>completed.
                 bindE (attempt (rp_UpdateStatus (bt_runs s) seedID ''completed'' (Some completed))) (\<lambda>_. ret (out, rows, None)))))))"
proof -
  have "sweep_loop (\<lambda>e. Replay M ord hash (s\<lparr>bt_engine := e\<rparr>) ps pe (Some seedID) ''sensitivity'') (ComputeMetrics M intn seed aord lord s)
      (mt_GetByRun (bt_metrics s)) (bt_engine s) ''smoothing.span_days'' out rows vs =
    sweep_loop (\<lambda>_. Replay M ord hash s ps pe (Some seedID) ''sensitivity'') (ComputeMetrics M intn seed aord lord s)
      (mt_GetByRun (bt_metrics s)) (bt_engine s) ''smoothing.span_days'' out rows vs" for seedID out rows vs
  proof (rule sweep_loop_cong)
    fix v e assume "sweep_engine ''smoothing.span_days'' v (bt_engine s) = Some e"
    then have "e = (bt_engine s)\<lparr>rc_span := int_of_f v\<rparr>" by (simp add: sweep_engine_def)
    then have "s\<lparr>bt_engine := e\<rparr> = with_span (int_of_f v) s" by (simp add: with_span_def)
    then show "Replay M ord hash (s\<lparr>bt_engine := e\<rparr>) ps pe (Some seedID) ''sensitivity'' =
      Replay M ord hash s ps pe (Some seedID) ''sensitivity''" by (simp add: Replay_span)
  qed
  then show ?thesis unfolding Sweep_def by (simp only:)
qed

text \<open>A parameter the sweep does not know is noticed after its run has been saved as running, and it stays so.\<close>

lemma Sweep_unsupported:
  assumes "parameter \<notin> {''transition.baseline'', ''smoothing.span_days''}" "values \<noteq> []"
    and "bt_clock s w = (Inr now, w1)" "rp_Save (bt_runs s) (sweep_seed s ps pe parameter values now) w1 = (Inr seedID, w2)"
  shows "Sweep M ord hash intn seed aord lord s ps pe parameter values w =
    (Inr ([], [], Some (Fresh ''sweep: unsupported parameter %q'' [AStr parameter])), w2)"
proof (cases "values")
  case (Cons v vs)
  have "sweep_engine parameter v (bt_engine s) = None" using assms(1) by (simp add: sweep_engine_def)
  then show ?thesis using assms(2-4) Cons by (simp add: Sweep_def bindE_def attempt_def)
qed (use assms(2) in simp)

lemma toRegimeDays_dates: "map rd_value_date (toRegimeDays l sts) = map rs_value_date sts"
  by (induction sts arbitrary: l) (simp_all add: Let_def)

lemma toRegimeDays_labels: "d \<in> set (toRegimeDays l sts) \<Longrightarrow> rd_label d \<in> {LabelRiskOn, LabelRiskOff, LabelTransition}"
proof (induction sts arbitrary: l)
  case (Cons st sts)
  then show ?case using hysteresis_label[of DefaultHysteresis l "rs_indicator st" "rs_transition st"] by (auto simp: Let_def)
qed simp

section \<open>Relations every step of the harness obeys\<close>

text \<open>The client's part: what the ports obey, a replay, a computation of metrics and a sweep obey.\<close>

locale bt_steps = io_rel R for R :: "'w \<Rightarrow> 'w \<Rightarrow> bool" +
  fixes s :: "'w bt_service"
  assumes latest: "obeys R (sr_GetLatestAll (bt_scores s) a vd c)"
    and bydate: "obeys R (sr_GetByDate (bt_scores s) a d vd c)"
    and history: "obeys R (sr_GetHistory (bt_scores s) a d n)"
    and series: "obeys R (bt_indicator s a from to c)"
    and price: "obeys R (bt_prices s a from to)"
    and run_save: "obeys R (rp_Save (bt_runs s) run)" and run_get: "obeys R (rp_Get (bt_runs s) i)"
    and run_update: "obeys R (rp_UpdateStatus (bt_runs s) i st t)"
    and state_save: "obeys R (st_Save (bt_states s) i rs)" and state_get: "obeys R (st_GetByRun (bt_states s) i)"
    and metric_save: "obeys R (mt_Save (bt_metrics s) i m)" and metric_get: "obeys R (mt_GetByRun (bt_metrics s) i)"
    and clock: "obeys R (bt_clock s)"
begin

lemma momentum_steps: "obeys R (bt_momentum (s\<lparr>bt_engine := e\<rparr>) a d c nrm present b ds)"
  by (induction ds arbitrary: b) (auto intro!: obeys_bindE obeys_wrapE obeys_ret bydate split: prod.splits)

lemma gather_steps: "obeys R (bt_gatherTransitionRiskInputs (s\<lparr>bt_engine := e\<rparr>) a vd c scores nrm present)"
  unfolding bt_gatherTransitionRiskInputs_def bt_roc_per_domain_def Let_def
  by (auto intro!: obeys_bindE obeys_foldE obeys_wrapE obeys_ret bydate series momentum_steps split: prod.splits)

lemma bt_computeOne_steps: "obeys R (bt_computeOne M ord (s\<lparr>bt_engine := e\<rparr>) a vd)"
  unfolding bt_computeOne_def Let_def
  by (auto intro!: obeys_bindE obeys_foldE obeys_wrapE obeys_ret obeys_throw latest history gather_steps split: prod.splits)

lemma replay_one_steps: "obeys R (replay_one M ord (s\<lparr>bt_engine := e\<rparr>) i d a)"
  unfolding replay_one_def
  by (auto intro!: obeys_bindE obeys_attempt obeys_ret state_save bt_computeOne_steps split: sum.splits)

lemma snapshot_steps: "obeys R (collectSnapshot (s\<lparr>bt_engine := e\<rparr>) from to)"
  unfolding collectSnapshot_def bt_cutoff_def by (auto intro!: obeys_foldE obeys_bindE obeys_ret latest)

lemma Replay_engine_steps: "obeys R (Replay M ord hash (s\<lparr>bt_engine := e\<rparr>) ps pe parent mode)"
  unfolding Replay_def Let_def
  by (auto intro!: obeys_bindE obeys_seqE obeys_wrapE obeys_forE obeys_attempt obeys_ret obeys_throw
      snapshot_steps replay_one_steps run_save run_update clock)

lemma Replay_steps: "obeys R (Replay M ord hash s ps pe parent mode)"
  using Replay_engine_steps[of M ord hash "bt_engine s"] by simp

lemma ComputeMetrics_steps: "obeys R (ComputeMetrics M intn seed aord lord s i)"
  unfolding ComputeMetrics_def loadPrices_def Let_def
  by (auto intro!: obeys_bindE obeys_wrapE obeys_forE obeys_ret obeys_throw run_get state_get price metric_save)

lemma sweep_loop_steps: "obeys R (sweep_loop (\<lambda>e. Replay M ord hash (s\<lparr>bt_engine := e\<rparr>) ps pe parent mode)
    (ComputeMetrics M intn seed aord lord s) (mt_GetByRun (bt_metrics s)) cfg p out rows vs)"
  by (induction vs arbitrary: out rows)
    (auto intro!: obeys_bindE obeys_attempt obeys_ret Replay_engine_steps ComputeMetrics_steps metric_get split: option.splits sum.splits)

lemma Sweep_steps: "obeys R (Sweep M ord hash intn seed aord lord s ps pe p vs)"
  unfolding Sweep_def
  by (auto intro!: obeys_bindE obeys_attempt obeys_ret sweep_loop_steps run_save run_update clock split: option.splits sum.splits)

end

end
