(* ===== verification/PgBacktest.thy ===== *)
theory PgBacktest
  imports PgRegime StorageLeverage Backtest
begin

text \<open>
  \<open>internal/infra/postgres/backtest\<close> and the replay queries of \<open>internal/storage/backtest_reader.go\<close>:
  the ports of the harness on the database.  The world gets three more tables, which unlike the others
  are updated in place, and the source of the run identifiers.  A \<open>DATE\<close> column holds a UTC day.
\<close>

record bt_world = world +
  wb_runs :: "backtest_run list"
  wb_states :: "(run_id \<times> regime_state) list"
  wb_metrics :: "(run_id \<times> metric) list"
  wb_uuid :: "nat \<Rightarrow> run_id"

definition upsert :: "('a \<Rightarrow> 'k) \<Rightarrow> 'a \<Rightarrow> 'a list \<Rightarrow> 'a list" where
  "upsert k v t = (if \<exists>x\<in>set t. k x = k v then map (\<lambda>x. if k x = k v then v else x) t else t @ [v])"

definition fk_violation :: err where
  "fk_violation = Fresh ''insert or update violates foreign key constraint'' []"

definition mode_violation :: err where
  "mode_violation = Fresh ''new row violates check constraint backtest_runs_mode_check'' []"

definition run_exists :: "run_id \<Rightarrow> ('a bt_world_scheme) \<Rightarrow> bool" where
  "run_exists i w \<longleftrightarrow> (\<exists>r\<in>set (wb_runs w). br_id r = i)"

section \<open>Runs\<close>

text \<open>What JSON makes of a value: every number is a float.\<close>

fun json_back :: "anyval \<Rightarrow> anyval" where
  "json_back (AInt n) = AFloat (num_col (f_of_int n))"
| "json_back (AFloat x) = AFloat (num_col x)"
| "json_back (AList vs) = AList (map json_back vs)"
| "json_back v = v"

definition json_meta :: "(string \<rightharpoonup> anyval) option \<Rightarrow> (string \<rightharpoonup> anyval) option" where
  "json_meta m = map_option (\<lambda>f k. map_option json_back (f k)) m"

definition meta_ok :: "(string \<rightharpoonup> anyval) option \<Rightarrow> bool" where
  "meta_ok m \<longleftrightarrow> (case m of None \<Rightarrow> True | Some f \<Rightarrow> json_anys f)"

definition insert_run :: "backtest_run \<Rightarrow> ('a bt_world_scheme, run_id) io" where
  "insert_run run = bindE db_op (\<lambda>_ w.
     let i = wb_uuid w (w_ticks w) in
     if br_mode run \<notin> {''replay'', ''compare'', ''walk_forward'', ''sensitivity''} \<or>
        br_status run \<notin> {''running'', ''completed'', ''failed''} then (Inl mode_violation, w)
     else if run_exists i w then (Inl unique_violation, w)
     else if \<not> (case br_parent run of None \<Rightarrow> True | Some p \<Rightarrow> run_exists p w) then (Inl fk_violation, w)
     else (Inr i, w\<lparr>wb_runs := wb_runs w @ [run\<lparr>br_id := i, br_start := UTCDay (br_start run), br_end := UTCDay (br_end run),
             br_started := w_txtime w, br_completed := None, br_metadata := json_meta (br_metadata run)\<rparr>]\<rparr>))"

definition RunRepo_Save :: "backtest_run \<Rightarrow> ('a bt_world_scheme, run_id) io" where
  "RunRepo_Save run = (if \<not> meta_ok (br_metadata run) then throw (Wrap ''marshal metadata'' [] json_err)
     else wrapE ''save backtest run'' [] (InTx (insert_run run)))"

definition RunRepo_Get :: "run_id \<Rightarrow> ('a bt_world_scheme, backtest_run) io" where
  "RunRepo_Get i w = (case query_row (\<lambda>w. find (\<lambda>r. br_id r = i) (wb_runs w)) w of
       (Inl e, w') \<Rightarrow> (Inl (if errors_Is e ErrNoRows then ErrNotFound else Wrap ''get backtest run'' [] e), w')
     | (Inr r, w') \<Rightarrow> (Inr r, w'))"

definition RunRepo_UpdateStatus :: "run_id \<Rightarrow> string \<Rightarrow> gotime option \<Rightarrow> ('a bt_world_scheme, unit) io" where
  "RunRepo_UpdateStatus i status completedAt = wrapE ''update backtest run status'' [] (db_write (\<lambda>w.
     if status \<notin> {''running'', ''completed'', ''failed''} \<and> run_exists i w then Inl mode_violation
     else Inr (w\<lparr>wb_runs := map (\<lambda>r. if br_id r = i then r\<lparr>br_status := status, br_completed := completedAt\<rparr> else r) (wb_runs w)\<rparr>)))"

section \<open>Replayed states\<close>

text \<open>The columns of \<open>backtest_regime_states\<close>: the versions are those of the run.\<close>

definition state_row :: "regime_state \<Rightarrow> regime_state" where
  "state_row st = st\<lparr>rs_value_date := UTCDay (rs_value_date st), rs_model_version := [], rs_config_version := [], rs_code_sha := [],
     rs_contributions := jsonb_floats (rs_contributions st), rs_top_drivers := map jsonb_driver (rs_top_drivers st),
     rs_weights := jsonb_floats (rs_weights st)\<rparr>"

definition state_key :: "run_id \<times> regime_state \<Rightarrow> run_id \<times> asset \<times> gotime" where
  "state_key r = (fst r, rs_asset (snd r), rs_value_date (snd r))"

definition StateRepo_Save :: "run_id \<Rightarrow> regime_state \<Rightarrow> ('a bt_world_scheme, unit) io" where
  "StateRepo_Save i st =
     (if \<not> json_floats (rs_contributions st) \<or> \<not> json_floats (rs_weights st) \<or> \<not> json_drivers (rs_top_drivers st) then throw json_err
      else InTx (db_write (\<lambda>w. if \<not> run_exists i w then Inl fk_violation
        else Inr (w\<lparr>wb_states := upsert state_key (i, state_row st) (wb_states w)\<rparr>))))"

definition state_less :: "regime_state \<Rightarrow> regime_state \<Rightarrow> bool" where
  "state_less a b = (if rs_asset a \<noteq> rs_asset b then str_less (rs_asset a) (rs_asset b) else rs_value_date a < rs_value_date b)"

definition states_of_run :: "run_id \<Rightarrow> (run_id \<times> regime_state) list \<Rightarrow> regime_state list" where
  "states_of_run i t = sort_slice state_less (map snd (filter (\<lambda>r. fst r = i) t))"

definition StateRepo_GetByRun :: "run_id \<Rightarrow> ('a bt_world_scheme, regime_state list) io" where
  "StateRepo_GetByRun i = query_rows ''query backtest regime states'' [] (\<lambda>w. states_of_run i (wb_states w))"

section \<open>Metrics\<close>

definition metric_key :: "run_id \<times> metric \<Rightarrow> run_id \<times> string \<times> string" where
  "metric_key r = (fst r, me_name (snd r), me_scope (snd r))"

definition metric_row :: "metric \<Rightarrow> metric" where
  "metric_row m = m\<lparr>me_scope := (if me_scope m = [] then ''overall'' else me_scope m), me_metadata := json_meta (me_metadata m)\<rparr>"

definition MetricsRepo_Save :: "run_id \<Rightarrow> metric \<Rightarrow> ('a bt_world_scheme, unit) io" where
  "MetricsRepo_Save i m = (if \<not> meta_ok (me_metadata m) then throw (Wrap ''marshal metric metadata'' [] json_err)
     else InTx (db_write (\<lambda>w. if \<not> run_exists i w then Inl fk_violation
        else Inr (w\<lparr>wb_metrics := upsert metric_key (i, metric_row m) (wb_metrics w)\<rparr>))))"

definition metrics_of_run :: "sql_lib \<Rightarrow> run_id \<Rightarrow> (run_id \<times> metric) list \<Rightarrow> metric list" where
  "metrics_of_run L i t = (let ms = map snd (filter (\<lambda>r. fst r = i) t) in
     concat (map (\<lambda>n. concat (map (\<lambda>sc. filter (\<lambda>m. me_name m = n \<and> me_scope m = sc) ms)
         (sq_order L (me_scope ` set (filter (\<lambda>m. me_name m = n) ms))))) (sq_order L (me_name ` set ms))))"

definition MetricsRepo_GetByRun :: "sql_lib \<Rightarrow> run_id \<Rightarrow> ('a bt_world_scheme, metric list) io" where
  "MetricsRepo_GetByRun L i = query_rows ''query backtest metrics'' [] (\<lambda>w. metrics_of_run L i (wb_metrics w))"

section \<open>Scores, indicators and prices\<close>

text \<open>The score reader is the engine's, line for line.\<close>

definition bt_queryAssetFor :: "asset \<Rightarrow> domain_code \<Rightarrow> asset" where
  "bt_queryAssetFor a d = (if d = DomainCapitalFlows then AssetGlobal else a)"

definition BtScoreReader_GetLatestAll :: "asset \<Rightarrow> gotime \<Rightarrow> gotime \<Rightarrow> ('a world_scheme, domain_code \<rightharpoonup> f64) io" where
  "BtScoreReader_GetLatestAll a vd cutoff = InTx (
     bindE (GetLatestDomainScores a vd cutoff) (\<lambda>assetMap.
     bindE (GetLatestDomainScores AssetGlobal vd cutoff) (\<lambda>globalMap.
     ret (\<lambda>d. if d = DomainCapitalFlows then globalMap DomainCapitalFlows else assetMap d))))"

definition BtScoreReader_GetByDate :: "asset \<Rightarrow> domain_code \<Rightarrow> gotime \<Rightarrow> gotime \<Rightarrow> ('a world_scheme, f64 \<times> bool) io" where
  "BtScoreReader_GetByDate a d vd cutoff = InTx (GetDomainScoreOnDate (bt_queryAssetFor a d) d vd cutoff)"

definition BtScoreReader_GetHistory :: "asset \<Rightarrow> domain_code \<Rightarrow> int \<Rightarrow> ('a world_scheme, f64 list) io" where
  "BtScoreReader_GetHistory a d lookback = InTx (GetDomainScoreHistory (bt_queryAssetFor a d) d lookback)"

definition bt_score_reader :: "'a world_scheme bt_score_reader" where
  "bt_score_reader = \<lparr>sr_GetLatestAll = BtScoreReader_GetLatestAll, sr_GetByDate = BtScoreReader_GetByDate,
     sr_GetHistory = BtScoreReader_GetHistory\<rparr>"

text \<open>The cutoff is not used: the series is that of the live states.\<close>

definition BtIndicator_GetIndicatorRawSeries :: "'a world_scheme indicator_reader" where
  "BtIndicator_GetIndicatorRawSeries a from to cutoff = InTx_or_collected (bindE (GetRegimeIndicatorRawSeries a from to) (\<lambda>pts.
     ret (map (\<lambda>p. \<lparr>ip_value_date = ip_value_date p, ip_indicator = ip_indicator p\<rparr>) pts)))"

definition coinIDFor :: "asset \<Rightarrow> string" where
  "coinIDFor a = (if a = AssetBTC then ''bitcoin'' else if a = AssetETH then ''ethereum'' else [])"

definition q_prices :: "string \<Rightarrow> gotime \<Rightarrow> gotime \<Rightarrow> mcap_row table \<Rightarrow> price_point_at list" where
  "q_prices coin from to t = map (\<lambda>x. \<lparr>pa_date = mc_value_date x, pa_price = mc_price x\<rparr>) (latest_by mc_value_date
     (where_rows (\<lambda>x. mc_coin x = coin \<and> from \<le> mc_value_date x \<and> mc_value_date x \<le> to \<and> flt fzero (mc_price x)) t))"

text \<open>
  \<open>skip_to d\<close> is the inner loop: the points up to \<open>d\<close> are consumed and the last one is remembered.
\<close>

fun skip_to :: "gotime \<Rightarrow> (f64 \<times> gotime) \<Rightarrow> price_point_at list \<Rightarrow> (f64 \<times> gotime) \<times> price_point_at list" where
  "skip_to d l [] = (l, [])"
| "skip_to d l (p # ps) = (if pa_date p \<le> d then skip_to d (pa_price p, pa_date p) ps else (l, p # ps))"

fun fill_days :: "f64 \<times> gotime \<Rightarrow> price_point_at list \<Rightarrow> gotime list \<Rightarrow> price_point_at list" where
  "fill_days l ps [] = []"
| "fill_days l ps (d # ds) = (case skip_to d l ps of ((lastPrice, lastDate), ps') \<Rightarrow>
     (if flt fzero lastPrice \<and> int_of_f (fdiv (dur_hours (time_sub d lastDate)) (lit 24)) \<le> 7
      then [\<lparr>pa_date = d, pa_price = lastPrice\<rparr>] else []) @ fill_days (lastPrice, lastDate) ps' ds)"

definition forwardFillDaily :: "price_point_at list \<Rightarrow> gotime \<Rightarrow> gotime \<Rightarrow> price_point_at list" where
  "forwardFillDaily sparse from to = (if sparse = [] then []
     else fill_days (fzero, zero_time) sparse (day_range (UTCDay from) (UTCDay to)))"

definition GetPriceHistory :: "'a world_scheme price_reader" where
  "GetPriceHistory a from to =
     (if coinIDFor a = [] then throw (Fresh ''price reader: unsupported asset %s'' [AStr a])
      else bindE (query_rows ''query price history'' [] (\<lambda>w. q_prices (coinIDFor a) from to (w_mcap w)))
        (\<lambda>raw. ret (forwardFillDaily (map (\<lambda>p. p\<lparr>pa_date := UTCDay (pa_date p)\<rparr>) raw) from to)))"

definition pg_bt_service :: "sql_lib \<Rightarrow> bt_config \<Rightarrow> regime_config \<Rightarrow> string \<Rightarrow> asset list \<Rightarrow> 'a bt_world_scheme bt_service" where
  "pg_bt_service L cfg engineCfg yaml assets = bt_NewService
     \<lparr>rp_Save = RunRepo_Save, rp_Get = RunRepo_Get, rp_UpdateStatus = RunRepo_UpdateStatus\<rparr>
     \<lparr>st_Save = StateRepo_Save, st_GetByRun = StateRepo_GetByRun\<rparr>
     \<lparr>mt_Save = MetricsRepo_Save, mt_GetByRun = MetricsRepo_GetByRun L\<rparr>
     bt_score_reader BtIndicator_GetIndicatorRawSeries GetPriceHistory clock_Now cfg engineCfg yaml assets"

section \<open>The readers of the gateway\<close>

record run_summary =
  rsu_id :: run_id
  rsu_mode :: string
  rsu_start :: gotime
  rsu_end :: gotime
  rsu_model_version :: string
  rsu_config_version :: string
  rsu_status :: string
  rsu_started :: gotime
  rsu_completed :: "gotime option"
  rsu_parent :: "run_id option"

definition run_summary_of :: "backtest_run \<Rightarrow> run_summary" where
  "run_summary_of r = \<lparr>rsu_id = br_id r, rsu_mode = br_mode r, rsu_start = br_start r, rsu_end = br_end r,
     rsu_model_version = br_model_version r, rsu_config_version = br_config_version r, rsu_status = br_status r,
     rsu_started = br_started r, rsu_completed = br_completed r, rsu_parent = br_parent r\<rparr>"

definition ListBacktestRuns :: "int \<Rightarrow> ('a bt_world_scheme, run_summary list) io" where
  "ListBacktestRuns limit = (let n = (if limit \<le> 0 then 50 else limit) in
     query_plain (\<lambda>w. take (nat n) (map run_summary_of (sort_slice (\<lambda>a b. br_started b < br_started a) (wb_runs w)))))"

record event_result =
  er_name :: string
  er_peak :: gotime
  er_risk_off :: int
  er_trans :: int
  er_present :: bool

definition event_rows :: "run_id \<Rightarrow> asset \<Rightarrow> gotime \<Rightarrow> gotime \<Rightarrow> (run_id \<times> regime_state) list \<Rightarrow> regime_state list" where
  "event_rows i a from to t = sort_slice (\<lambda>x y. rs_value_date x < rs_value_date y)
     (map snd (filter (\<lambda>r. fst r = i \<and> rs_asset (snd r) = a \<and> UTCDay from \<le> rs_value_date (snd r) \<and>
        rs_value_date (snd r) \<le> UTCDay to) t))"

definition event_row_step :: "gotime \<Rightarrow> f64 \<Rightarrow> event_result \<Rightarrow> regime_state \<Rightarrow> event_result" where
  "event_row_step peak threshold r st =
     (let off = int_of_f (fdiv (dur_hours (time_sub peak (rs_value_date st))) (lit 24))
      in r\<lparr>er_present := True,
           er_risk_off := (if er_risk_off r = - 999 \<and> flt (rs_indicator st) fzero then off else er_risk_off r),
           er_trans := (if er_trans r = - 999 \<and> flt threshold (rs_transition st) then off else er_trans r)\<rparr>)"

definition event_result_of :: "f64 \<Rightarrow> stress_event \<Rightarrow> regime_state list \<Rightarrow> event_result" where
  "event_result_of threshold ev rows = foldl (event_row_step (se_peak ev) threshold)
     \<lparr>er_name = se_name ev, er_peak = se_peak ev, er_risk_off = - 999, er_trans = - 999, er_present = False\<rparr> rows"

text \<open>
  \<open>rows.Err()\<close> is not looked at: a result set that breaks off while it is read counts as ended.
\<close>

definition query_unchecked :: "('a world_scheme \<Rightarrow> 'r list) \<Rightarrow> ('a world_scheme, 'r list) io" where
  "query_unchecked f = seqE db_op (bindE (attempt (db_read f)) (\<lambda>r. case r of Inl e \<Rightarrow> ret [] | Inr rows \<Rightarrow> ret rows))"

definition GetBacktestEventResults :: "run_id \<Rightarrow> asset \<Rightarrow> stress_event list \<Rightarrow> f64 \<Rightarrow> ('a bt_world_scheme, event_result list) io" where
  "GetBacktestEventResults i a events threshold = foldE (\<lambda>out ev.
       bindE (query_unchecked (\<lambda>w. event_rows i a (add_days (se_peak ev) (- 14)) (add_days (se_peak ev) 3) (wb_states w)))
         (\<lambda>rows. ret (out @ [event_result_of threshold ev rows]))) [] events"

section \<open>Counting days\<close>

lemma rnd_int: "\<bar>n\<bar> < 2 ^ 53 \<Longrightarrow> is_finite (f_of_int n) \<and> qv (f_of_int n) = of_int n"
  using f_of_int_fin[of n] by simp

lemma day_count:
  assumes "\<bar>k\<bar> \<le> 100000"
  shows "int_of_f (fdiv (dur_hours (time_sub (add_days t k) t)) (lit 24)) = k"
proof -
  have k: "- 100000 \<le> k" "k \<le> 100000" using assms by auto
  have ts: "time_sub (add_days t k) t = k * day_ns"
    using k by (simp add: time_sub_def add_days_def day_ns_def)
  have q: "quot_go (k * day_ns) hour_ns = 24 * k"
    by (cases "k < 0"; cases "k = 0") (auto simp: quot_go_def day_ns_def hour_ns_def sgn_if abs_mult)
  then have r: "rem_go (k * day_ns) hour_ns = 0" by (simp add: rem_go_def day_ns_def hour_ns_def)
  have i: "is_finite (f_of_int (24 * k))" "qv (f_of_int (24 * k)) = of_int (24 * k)"
    using rnd_int[of "24 * k"] k by auto
  have z: "fdiv (f_of_int 0) (f_of_int hour_ns) = fzero" by (simp add: hour_ns_def f64_eval)
  have rq24: "rq (of_int (24 * k) :: rat) = of_int (24 * k)" using k by (intro rq_of_int) auto
  have small: "\<bar>of_int (24 * k) :: rat\<bar> < overflow"
  proof -
    have "\<bar>of_int (24 * k) :: rat\<bar> \<le> of_int 2400000" using k by (simp only: of_int_abs[symmetric] of_int_le_iff)
    also have "\<dots> < overflow" by (simp add: overflow_def)
    finally show ?thesis .
  qed
  have h: "is_finite (dur_hours (k * day_ns))" "qv (dur_hours (k * day_ns)) = of_int (24 * k)"
    using fadd_fin[of "f_of_int (24 * k)" fzero] i small rq24 by (simp_all add: dur_hours_def q r z)
  have l: "is_finite (lit 24)" "qv (lit 24) = 24" by (simp_all add: f64_eval)
  have "rq (of_int k :: rat) = of_int k" using k by (intro rq_of_int) auto
  moreover have "of_int (24 * k) / 24 = (of_int k :: rat)" by simp
  moreover have "\<bar>of_int k :: rat\<bar> < overflow" using small by (simp add: abs_mult)
  ultimately have "qv (fdiv (dur_hours (k * day_ns)) (lit 24)) = of_int k"
    using fdiv_fin[of "dur_hours (k * day_ns)" "lit 24"] h l by simp
  then show ?thesis by (simp add: ts int_of_f_def trunc_rat_def)
qed

section \<open>Forward filling\<close>

text \<open>The price of a day: that of the last point not after it, if it is at most a week old.\<close>

definition filled :: "price_point_at list \<Rightarrow> gotime \<Rightarrow> price_point_at option" where
  "filled sparse d = (case filter (\<lambda>p. pa_date p \<le> d) sparse of [] \<Rightarrow> None
     | ps \<Rightarrow> if flt fzero (pa_price (last ps)) \<and> d - pa_date (last ps) \<le> 7 * day_ns
             then Some \<lparr>pa_date = d, pa_price = pa_price (last ps)\<rparr> else None)"

definition seen :: "price_point_at list \<Rightarrow> f64 \<times> gotime" where
  "seen cs = (if cs = [] then (fzero, zero_time) else (pa_price (last cs), pa_date (last cs)))"

lemma skip_to_seen: "skip_to d (seen cs) ps = (seen (cs @ takeWhile (\<lambda>p. pa_date p \<le> d) ps), dropWhile (\<lambda>p. pa_date p \<le> d) ps)"
proof (induction ps arbitrary: cs)
  case (Cons p ps)
  show ?case using Cons[of "cs @ [p]"] by (simp add: seen_def split: if_splits)
qed simp

lemma filter_takeWhile: "sorted_wrt (\<lambda>p q. pa_date p \<le> pa_date q) ps \<Longrightarrow> filter (\<lambda>p. pa_date p \<le> d) ps = takeWhile (\<lambda>p. pa_date p \<le> d) ps"
proof (induction ps)
  case (Cons p ps)
  show ?case
  proof (cases "pa_date p \<le> d")
    case False
    then have "filter (\<lambda>p. pa_date p \<le> d) ps = []" using Cons.prems by (fastforce simp: filter_empty_conv)
    then show ?thesis using False by simp
  qed (use Cons in simp)
qed simp

lemma fill_days_filled:
  assumes "sorted_wrt (\<lambda>p q. pa_date p \<le> pa_date q) (cs @ ps)" "sorted ds"
    and "\<And>c d. c \<in> set cs \<Longrightarrow> d \<in> set ds \<Longrightarrow> pa_date c \<le> d"
    and "\<And>p d. p \<in> set (cs @ ps) \<Longrightarrow> d \<in> set ds \<Longrightarrow> pa_date p \<le> d \<Longrightarrow> \<exists>k. 0 \<le> k \<and> k \<le> 100000 \<and> d = add_days (pa_date p) k"
  shows "fill_days (seen cs) ps ds = List.map_filter (filled (cs @ ps)) ds"
  using assms
proof (induction ds arbitrary: cs ps)
  case (Cons d ds)
  let ?P = "\<lambda>p. pa_date p \<le> d"
  let ?cs = "cs @ takeWhile ?P ps" and ?ps = "dropWhile ?P ps"
  have split: "?cs @ ?ps = cs @ ps" by simp
  have IH: "fill_days (seen ?cs) ?ps ds = List.map_filter (filled (cs @ ps)) ds"
    unfolding split[symmetric]
  proof (rule Cons.IH)
    show "sorted ds" using Cons.prems(2) by simp
    show "pa_date c \<le> e" if "c \<in> set ?cs" "e \<in> set ds" for c e
      using that Cons.prems(2) Cons.prems(3)[of c e] by (auto dest!: set_takeWhileD)
  qed (use Cons.prems in \<open>simp_all add: split\<close>)
  have "filter ?P cs = cs" using Cons.prems(3) by (simp add: filter_id_conv)
  moreover have "filter ?P ps = takeWhile ?P ps" using Cons.prems(1) by (intro filter_takeWhile) (simp add: sorted_wrt_append)
  ultimately have f: "filter ?P (cs @ ps) = ?cs" by simp
  have day: "(if flt fzero (fst (seen ?cs)) \<and> int_of_f (fdiv (dur_hours (time_sub d (snd (seen ?cs)))) (lit 24)) \<le> 7
      then [\<lparr>pa_date = d, pa_price = fst (seen ?cs)\<rparr>] else []) = (case filled (cs @ ps) d of None \<Rightarrow> [] | Some x \<Rightarrow> [x])"
  proof (cases "?cs = []")
    case False
    define q where "q = last ?cs"
    have "q \<in> set (filter ?P (cs @ ps))" unfolding f q_def using False by (rule last_in_set)
    then obtain k where k: "0 \<le> k" "k \<le> 100000" "d = add_days (pa_date q) k" using Cons.prems(4)[of q d] by auto
    have "int_of_f (fdiv (dur_hours (time_sub d (pa_date q))) (lit 24)) = k"
      unfolding k(3) by (rule day_count) (use k in simp)
    moreover have "d - pa_date q \<le> 7 * day_ns \<longleftrightarrow> k \<le> 7" unfolding k(3) by (simp add: add_days_def day_ns_def)
    moreover have "filled (cs @ ps) d = (if flt fzero (pa_price q) \<and> d - pa_date q \<le> 7 * day_ns
        then Some \<lparr>pa_date = d, pa_price = pa_price q\<rparr> else None)"
    proof -
      obtain c cs' where "?cs = c # cs'" using False by (meson neq_Nil_conv)
      then show ?thesis unfolding filled_def f q_def by (simp only: list.case)
    qed
    moreover have "seen ?cs = (pa_price q, pa_date q)" unfolding seen_def q_def if_not_P[OF False] ..
    ultimately show ?thesis by simp
  qed (use f in \<open>simp add: filled_def seen_def\<close>)
  show ?case unfolding fill_days.simps skip_to_seen case_prod_beta fst_conv snd_conv prod.collapse IH day
    by (simp split: option.split)
qed simp

lemma sorted_day_range: "sorted (day_range d to)"
proof (induction d to rule: day_range.induct)
  case (1 d to)
  then show ?case by (auto simp: day_range.simps[of d to] day_range_mem add_days_def day_ns_def)
qed

lemma UTC_diff: "UTCDay t \<le> UTCDay u \<Longrightarrow> \<exists>k\<ge>0. UTCDay u = add_days (UTCDay t) k"
  by (rule exI[of _ "day_of u - day_of t"]) (auto simp: UTCDay_def day_of_def add_days_def day_ns_def)

theorem forwardFillDaily_spec:
  assumes "sorted_wrt (\<lambda>p q. pa_date p \<le> pa_date q) sparse"
    and "\<And>p. p \<in> set sparse \<Longrightarrow> pa_date p = UTCDay (pa_date p) \<and> UTCDay from \<le> pa_date p"
    and "UTCDay to \<le> add_days (UTCDay from) 100000"
  shows "forwardFillDaily sparse from to = List.map_filter (filled sparse) (day_range (UTCDay from) (UTCDay to))"
proof (cases "sparse = []")
  case False
  have "fill_days (seen []) sparse (day_range (UTCDay from) (UTCDay to)) = List.map_filter (filled ([] @ sparse)) (day_range (UTCDay from) (UTCDay to))"
  proof (rule fill_days_filled)
    fix p d assume p: "p \<in> set ([] @ sparse)" and d: "d \<in> set (day_range (UTCDay from) (UTCDay to))" and le: "pa_date p \<le> d"
    have "d = UTCDay d" "d \<le> UTCDay to" using d by (auto simp: day_range_mem UTCDay_add_days)
    moreover have pd: "pa_date p = UTCDay (pa_date p)" "UTCDay from \<le> pa_date p" using assms(2)[of p] p by auto
    ultimately obtain k where k: "0 \<le> k" "d = add_days (pa_date p) k" using UTC_diff[of "pa_date p" d] le by auto
    have "k \<le> 100000" using k pd(2) \<open>d \<le> UTCDay to\<close> assms(3) by (simp add: add_days_def day_ns_def)
    then show "\<exists>k. 0 \<le> k \<and> k \<le> 100000 \<and> d = add_days (pa_date p) k" using k by blast
  qed (use assms sorted_day_range in auto)
  then show ?thesis using False by (simp add: forwardFillDaily_def seen_def)
qed (simp add: forwardFillDaily_def filled_def map_filter_def)

end
