(* ===== verification/BacktestRun.thy ===== *)
theory BacktestRun
  imports PgBacktest
begin

text \<open>
  What holds of the backtest harness on its database: the event leads of the gateway agree with those of
  the harness, states and metrics are stored under unique keys and read back, the data hash depends on
  what was visible at the cutoffs alone, and computing the metrics of a run again changes nothing.
\<close>

section \<open>Event leads\<close>

definition run_rows :: "run_id \<Rightarrow> asset \<Rightarrow> (run_id \<times> regime_state) list \<Rightarrow> regime_state list" where
  "run_rows i a t = map snd (filter (\<lambda>r. fst r = i \<and> rs_asset (snd r) = a) t)"

text \<open>The key of the table: one row per run, asset and day.\<close>

definition states_ok :: "(run_id \<times> regime_state) list \<Rightarrow> bool" where
  "states_ok t \<longleftrightarrow> distinct (map state_key t) \<and> (\<forall>r\<in>set t. UTCDay (rs_value_date (snd r)) = rs_value_date (snd r))"

lemma run_rows_dates: "states_ok t \<Longrightarrow> distinct (map rs_value_date (run_rows i a t))"
proof -
  assume "states_ok t"
  then have "distinct (map state_key t)" by (simp add: states_ok_def)
  then show ?thesis unfolding run_rows_def
    by (induction t) (auto simp: state_key_def image_iff)
qed

definition row_on :: "regime_state list \<Rightarrow> gotime \<Rightarrow> regime_state option" where
  "row_on R d = find (\<lambda>st. rs_value_date st = d) R"

lemma row_on_Some: "distinct (map rs_value_date R) \<Longrightarrow> row_on R d = Some st \<longleftrightarrow> st \<in> set R \<and> rs_value_date st = d"
  unfolding row_on_def by (induction R) (auto simp: image_iff)

lemma row_on_None: "row_on R d = None \<longleftrightarrow> d \<notin> rs_value_date ` set R"
  unfolding row_on_def by (induction R) auto

lemma sorted_dates_distinct: "sorted_wrt (\<lambda>x y. rs_value_date x < rs_value_date y) xs \<Longrightarrow> distinct xs"
  by (induction xs) auto

text \<open>The rows of a window, day by day.\<close>

lemma event_rows_window:
  assumes "states_ok t" "UTCDay peak = peak"
  shows "event_rows i a (add_days peak (- 14)) (add_days peak 3) t =
    List.map_filter (\<lambda>k. row_on (run_rows i a t) (add_days peak k)) event_window"
proof -
  let ?R = "run_rows i a t"
  let ?in = "\<lambda>st. add_days peak (- 14) \<le> rs_value_date st \<and> rs_value_date st \<le> add_days peak 3"
  note d = run_rows_dates[OF assms(1), of i a]
  have dR: "distinct ?R" using d by (simp add: distinct_map)
  have u: "UTCDay (add_days peak n) = add_days peak n" for n using assms(2) by (simp add: UTCDay_add_days)
  have e: "map snd (filter (\<lambda>r. fst r = i \<and> rs_asset (snd r) = a \<and> ?in (snd r)) t) = filter ?in ?R"
    unfolding run_rows_def by (induction t) auto
  have days: "\<exists>k. rs_value_date st = add_days peak k" if "st \<in> set ?R" for st
  proof -
    have "UTCDay (rs_value_date st) = rs_value_date st" using that assms(1) by (auto simp: run_rows_def states_ok_def)
    then have "rs_value_date st = add_days peak (day_of (rs_value_date st) - day_of peak)"
      using assms(2) by (simp add: UTCDay_def add_days_def left_diff_distrib)
    then show ?thesis by blast
  qed
  let ?l = "sort_slice (\<lambda>x y. rs_value_date x < rs_value_date y) (filter ?in ?R)"
  let ?r = "List.map_filter (\<lambda>k. row_on ?R (add_days peak k)) event_window"
  have s1: "sorted_wrt (\<lambda>x y. \<not> rs_value_date y < rs_value_date x) ?l" by (rule sorted_sort_slice) auto
  have s2: "sorted_wrt (\<lambda>x y. rs_value_date x < rs_value_date y) (List.map_filter (\<lambda>k. row_on ?R (add_days peak k)) ks)"
    if "sorted_wrt (<) ks" for ks
    using that
  proof (induction ks)
    case (Cons k ks)
    have "rs_value_date y = add_days peak k'" if "row_on ?R (add_days peak k') = Some y" for y k'
      using that d by (simp add: row_on_Some)
    then show ?case using Cons by (auto simp: map_filter_bounds add_days_def day_ns_def split: option.split)
  qed simp
  have w: "sorted_wrt (<) event_window" by (simp add: event_window_def strict_sorted_iff del: upto.simps)
  note s2' = s2[OF w]
  have "distinct ?r" using sorted_dates_distinct[OF s2'] .
  moreover have "distinct ?l" 
    using mset_eq_imp_distinct_iff[of ?l "filter ?in ?R"] dR by simp
  moreover have "set ?l = set ?r"
  proof (intro set_eqI iffI)
    fix st assume "st \<in> set ?l"
    then have st: "st \<in> set ?R" "?in st" by auto
    then obtain k where k: "rs_value_date st = add_days peak k" using days by blast
    then have "k \<in> set event_window" using st(2) by (simp add: set_event_window add_days_le_iff)
    then show "st \<in> set ?r" using k st(1) d by (auto simp: map_filter_bounds row_on_Some)
  next
    fix st assume "st \<in> set ?r"
    then show "st \<in> set ?l" using d by (auto simp: map_filter_bounds row_on_Some set_event_window add_days_le_iff)
  qed
  ultimately have m: "mset ?l = mset ?r" using set_eq_iff_mset_eq_distinct by blast
  have "?l = ?r"
  proof (rule sorted_unique[OF s1 _ m])
    show "sorted_wrt (\<lambda>x y. \<not> rs_value_date y < rs_value_date x) ?r"
      by (rule sorted_wrt_mono_rel[OF _ s2']) auto
    fix x y assume "x \<in> set ?l" "y \<in> set ?l" "x \<noteq> y"
    then have "x \<in> set ?R" "y \<in> set ?R" by auto
    then have "rs_value_date x \<noteq> rs_value_date y" using \<open>x \<noteq> y\<close> d by (auto simp: distinct_map inj_on_def)
    then show "rs_value_date x < rs_value_date y \<or> rs_value_date y < rs_value_date x" by auto
  qed
  then show ?thesis by (simp add: event_rows_def u e)
qed

text \<open>The labelled days of a run, by date.\<close>

lemma byDate_Some:
  assumes "distinct (map rd_value_date days)"
  shows "byDate days d = Some x \<longleftrightarrow> x \<in> set days \<and> rd_value_date x = d"
proof -
  have "foldl (\<lambda>m d. m(rd_value_date d \<mapsto> d)) m days d = Some x \<longleftrightarrow>
      (if d \<in> rd_value_date ` set days then x \<in> set days \<and> rd_value_date x = d else m d = Some x)" for m
    using assms
  proof (induction days arbitrary: m)
    case (Cons y ys)
    have i: "inj_on rd_value_date (set (y # ys))" using Cons.prems by (simp only: distinct_map)
    then show ?case using Cons by (auto simp: inj_on_def image_iff)
  qed simp
  from this[of Map.empty] show ?thesis by (auto simp: byDate_def)
qed

lemma toRegimeDays_figures:
  "map (\<lambda>d. (rd_value_date d, rd_indicator d, rd_transition d)) (toRegimeDays l sts) =
   map (\<lambda>s. (rs_value_date s, rs_indicator s, rs_transition s)) sts"
  by (induction sts arbitrary: l) (simp_all add: Let_def)

lemma byDate_row:
  assumes "set sts = set R" "distinct (map rs_value_date sts)" "distinct (map rs_value_date R)"
  shows "(case byDate (toRegimeDays l sts) d of None \<Rightarrow> row_on R d = None
    | Some x \<Rightarrow> \<exists>st. row_on R d = Some st \<and> rs_indicator st = rd_indicator x \<and> rs_transition st = rd_transition x)"
proof -
  let ?days = "toRegimeDays l sts"
  have dd: "distinct (map rd_value_date ?days)" using assms(2) by (simp add: toRegimeDays_dates)
  have img: "(\<lambda>d. (rd_value_date d, rd_indicator d, rd_transition d)) ` set ?days =
      (\<lambda>s. (rs_value_date s, rs_indicator s, rs_transition s)) ` set R"
    using arg_cong[OF toRegimeDays_figures[of l sts], of set] assms(1) by simp
  show ?thesis
  proof (cases "byDate ?days d")
    case None
    have "d \<notin> rd_value_date ` set ?days"
      using None byDate_Some[OF dd, of d] by (auto simp: image_iff)
    then have "d \<notin> rs_value_date ` set R"
      using arg_cong[OF toRegimeDays_dates[of l sts], of set] assms(1) by simp
    then show ?thesis using None by (simp add: row_on_None)
  next
    case (Some x)
    then have x: "x \<in> set ?days" "rd_value_date x = d" by (simp_all add: byDate_Some[OF dd])
    then have "(d, rd_indicator x, rd_transition x) \<in> (\<lambda>s. (rs_value_date s, rs_indicator s, rs_transition s)) ` set R"
      unfolding img[symmetric] by (auto simp: image_iff)
    then obtain st where "st \<in> set R" "rs_value_date st = d" "rs_indicator st = rd_indicator x" "rs_transition st = rd_transition x" by auto
    then show ?thesis using Some row_on_Some[OF assms(3), of d st] by auto
  qed
qed

definition same_lead :: "event_lead \<Rightarrow> event_result \<Rightarrow> bool" where
  "same_lead l r \<longleftrightarrow> el_risk_off l = er_risk_off r \<and> el_trans l = er_trans r \<and> el_present l = er_present r"

lemma lead_step_event [simp]: "el_event (lead_step m thr l k) = el_event l"
  by (simp add: lead_step_def split: option.split)

lemma fold_same_lead:
  assumes "\<And>k. k \<in> set ks \<Longrightarrow> (case m (add_days peak k) of None \<Rightarrow> g k = None
      | Some x \<Rightarrow> \<exists>st. g k = Some st \<and> rs_indicator st = rd_indicator x \<and> rs_transition st = rd_transition x)"
    and "\<And>k st. g k = Some st \<Longrightarrow> rs_value_date st = add_days peak k" "\<And>k. k \<in> set ks \<Longrightarrow> \<bar>k\<bar> \<le> 100000"
    and "same_lead l r" "se_peak (el_event l) = peak"
  shows "same_lead (foldl (lead_step m thr) l ks) (foldl (event_row_step peak thr) r (List.map_filter g ks))"
  using assms
proof (induction ks arbitrary: l r)
  case (Cons k ks)
  have off: "int_of_f (fdiv (dur_hours (time_sub peak (add_days peak k))) (lit 24)) = - k"
    using day_count[of "- k" "add_days peak k"] Cons.prems(3)[of k] by simp
  show ?case
  proof (cases "m (add_days peak k)")
    case None
    then have g: "g k = None" using Cons.prems(1)[of k] by simp
    have "lead_step m thr l k = l" using None Cons.prems(5) by (simp add: lead_step_def)
    then show ?thesis using Cons.IH[of l r] Cons.prems g by simp
  next
    case (Some x)
    then obtain st where st: "g k = Some st" "rs_indicator st = rd_indicator x" "rs_transition st = rd_transition x"
      using Cons.prems(1)[of k] by auto
    have "same_lead (lead_step m thr l k) (event_row_step peak thr r st)"
      using Cons.prems(4,5) Some st Cons.prems(2)[OF st(1)] off by (simp add: same_lead_def lead_step_def event_row_step_def Let_def)
    then show ?thesis using Cons.IH[of "lead_step m thr l k" "event_row_step peak thr r st"] Cons.prems st(1) by simp
  qed
qed simp

lemma states_of_run_asset:
  "set (filter (\<lambda>r. rs_asset r = a) (states_of_run i t)) = set (run_rows i a t)"
  by (auto simp: states_of_run_def run_rows_def)

lemma states_of_run_dates:
  assumes "states_ok t"
  shows "distinct (map rs_value_date (filter (\<lambda>r. rs_asset r = a) (states_of_run i t)))"
proof -
  have "mset (filter (\<lambda>r. rs_asset r = a) (states_of_run i t)) = mset (run_rows i a t)"
    by (simp add: states_of_run_def run_rows_def mset_filter filter_map o_def) (induction t; auto)
  from arg_cong[OF this, of "image_mset rs_value_date"] run_rows_dates[OF assms, of i a]
  show ?thesis by (metis mset_eq_imp_distinct_iff mset_map)
qed

theorem event_leads_agree:
  assumes "states_ok t" "\<And>ev. ev \<in> set events \<Longrightarrow> UTCDay (se_peak ev) = se_peak ev"
  shows "list_all2 same_lead
    (EventLeadTimes (byDate (toRegimeDays l (filter (\<lambda>r. rs_asset r = a) (states_of_run i t)))) events thr)
    (map (\<lambda>ev. event_result_of thr ev (event_rows i a (add_days (se_peak ev) (- 14)) (add_days (se_peak ev) 3) t)) events)"
proof -
  let ?sts = "filter (\<lambda>r. rs_asset r = a) (states_of_run i t)" and ?R = "run_rows i a t"
  let ?m = "byDate (toRegimeDays l ?sts)"
  note dR = run_rows_dates[OF assms(1), of i a]
  have row: "(case ?m d of None \<Rightarrow> row_on ?R d = None
      | Some x \<Rightarrow> \<exists>st. row_on ?R d = Some st \<and> rs_indicator st = rd_indicator x \<and> rs_transition st = rd_transition x)" for d
    by (rule byDate_row[OF states_of_run_asset states_of_run_dates[OF assms(1)] dR])
  have "same_lead (foldl (lead_step ?m thr) (lead_start ?m ev) event_window)
      (event_result_of thr ev (event_rows i a (add_days (se_peak ev) (- 14)) (add_days (se_peak ev) 3) t))"
    if ev: "ev \<in> set events" for ev
  proof -
    let ?l = "lead_start ?m ev" and ?fin = "foldl (lead_step ?m thr)"
    have e: "el_event ?l = ev" by (simp add: lead_start_def split: option.split)
    have w: "999 \<notin> set event_window" by (simp add: set_event_window)
    have z: "byDate (toRegimeDays l ?sts) (se_peak ev) \<noteq> None \<Longrightarrow> \<exists>k\<in>set event_window. ?m (add_days (se_peak ev) k) \<noteq> None"
      by (rule bexI[of _ 0]) (auto simp: set_event_window)
    have "same_lead (?fin (?l\<lparr>el_present := False\<rparr>) event_window)
        (event_result_of thr ev (event_rows i a (add_days (se_peak ev) (- 14)) (add_days (se_peak ev) 3) t))"
      unfolding event_result_of_def event_rows_window[OF assms(1) assms(2)[OF ev]]
    proof (rule fold_same_lead)
      show "rs_value_date st = add_days (se_peak ev) k" if "row_on ?R (add_days (se_peak ev) k) = Some st" for k st
        using that dR by (simp add: row_on_Some)
      show "\<bar>k\<bar> \<le> 100000" if "k \<in> set event_window" for k using that unfolding set_event_window by arith
      show "same_lead (?l\<lparr>el_present := False\<rparr>)
          \<lparr>er_name = se_name ev, er_peak = se_peak ev, er_risk_off = - 999, er_trans = - 999, er_present = False\<rparr>"
        by (simp add: same_lead_def lead_start_def split: option.split)
    qed (use row e in auto)
    moreover have "el_risk_off (?fin ?l event_window) = el_risk_off (?fin (?l\<lparr>el_present := False\<rparr>) event_window)"
      "el_trans (?fin ?l event_window) = el_trans (?fin (?l\<lparr>el_present := False\<rparr>) event_window)"
      by (simp_all add: lead_fold[OF w])
    moreover have "el_present (?fin ?l event_window) = el_present (?fin (?l\<lparr>el_present := False\<rparr>) event_window)"
    proof (cases "?m (se_peak ev)")
      case None
      then show ?thesis by (simp add: lead_fold[OF w] lead_start_def)
    next
      case (Some x)
      then show ?thesis using z by (simp add: lead_fold[OF w] e)
    qed
    ultimately show ?thesis by (simp add: same_lead_def)
  qed
  then show ?thesis by (simp add: EventLeadTimes_def list_all2_map1 list_all2_map2 list_all2_same)
qed

section \<open>What the harness writes\<close>

text \<open>The live tables of a world, whatever the ticks of its clock.\<close>

definition live :: "'a bt_world_scheme \<Rightarrow> world" where
  "live w = world.truncate (frozen w)"

definition metrics_ok :: "(run_id \<times> metric) list \<Rightarrow> bool" where
  "metrics_ok t \<longleftrightarrow> distinct (map metric_key t)"

definition bt_step :: "'a bt_world_scheme \<Rightarrow> 'a bt_world_scheme \<Rightarrow> bool" where
  "bt_step w w' \<longleftrightarrow> live w' = live w \<and> (states_ok (wb_states w) \<longrightarrow> states_ok (wb_states w')) \<and>
     (metrics_ok (wb_metrics w) \<longrightarrow> metrics_ok (wb_metrics w'))"

interpretation bts: io_rel bt_step
  by unfold_locales (auto simp: bt_step_def)

lemma bt_frozen_same: "frozen w' = frozen w \<Longrightarrow> wb_states w' = wb_states w \<and> wb_metrics w' = wb_metrics w \<and> wb_runs w' = wb_runs w"
proof -
  assume e: "frozen w' = frozen w"
  show ?thesis using arg_cong[OF e, of wb_states] arg_cong[OF e, of wb_metrics] arg_cong[OF e, of wb_runs] by (simp add: frozen_def)
qed

lemma bt_frozen_step: "frozen w' = frozen w \<Longrightarrow> bt_step w w'"
  using bt_frozen_same[of w' w] by (simp add: bt_step_def live_def)

lemma bt_reads: "obeys same_data m \<Longrightarrow> obeys bt_step m"
  unfolding obeys_def same_data_def using bt_frozen_step by blast

lemma bt_InTx:
  assumes "obeys bt_step body"
  shows "obeys bt_step (InTx body)"
proof (rule obeysI)
  fix w :: "'a bt_world_scheme"
  have t: "bt_step w w'" if "wrapE s vs begin_tx w = (r, w')" for s vs w w' and r :: "err + unit"
    using that by (intro bt_frozen_step) (auto simp: wrapE_def begin_tx_def db_op_def split: option.splits)
  have c: "bt_step w w'" if "db_op w = (r, w')" for w w' :: "'a bt_world_scheme" and r
    using that by (intro bt_frozen_step) (auto simp: db_op_def)
  have rb: "bt_step w (rollback w1 w2)" if "bt_step w w1" for w w1 w2 :: "'a bt_world_scheme"
    using that bts.trans bt_frozen_step[of "rollback w1 w2" w1] by (metis frozen_rollback)
  have b: "bt_step w w'" if "body w = (r, w')" for w w' r using obeysD[OF assms that] .
  show "bt_step w (snd (InTx body w))"
  proof (cases "wrapE ''begin tx'' [] begin_tx w")
    case (Pair r1 w1)
    note s1 = t[OF Pair]
    obtain r2 w2 where p2: "body w1 = (r2, w2)" by fastforce
    note s2 = bts.trans[OF s1 b[OF p2]]
    obtain r3 w3 where p3: "db_op w2 = (r3, w3)" by fastforce
    note s3 = bts.trans[OF s2 c[OF p3]]
    show ?thesis using s1 s2 s3 rb[OF s1] by (cases r1; cases r2; cases r3; simp add: InTx_def Pair p2 p3)
  qed
qed

lemma bt_db_op: "obeys bt_step db_op"
  by (rule obeysI, rule bt_frozen_step) (simp add: db_op_def)

lemma bt_clock: "obeys bt_step clock_Now"
  by (rule obeysI, rule bt_frozen_step) (simp add: clock_Now_def)

lemma bt_db_write:
  assumes "\<And>w w'. f w = Inr w' \<Longrightarrow> bt_step w w'"
  shows "obeys bt_step (db_write f)"
  unfolding db_write_def
  by (intro bts.obeys_bindE bt_db_op obeysI) (auto split: sum.split simp: bts.refl dest: assms)

lemma upsert_keys: "map k (upsert k v t) = (if k v \<in> k ` set t then map k t else map k t @ [k v])"
  unfolding upsert_def by (auto simp: image_iff) metis

lemma upsert_distinct: "distinct (map k t) \<Longrightarrow> distinct (map k (upsert k v t))"
  by (auto simp: upsert_keys)

lemma set_upsert: "x \<in> set (upsert k v t) \<Longrightarrow> x = v \<or> x \<in> set t"
  by (auto simp: upsert_def split: if_splits)

lemma bt_StateRepo_Save: "obeys bt_step (StateRepo_Save i st)"
  unfolding StateRepo_Save_def
proof (intro bts.obeys_if bts.obeys_throw bt_InTx bt_db_write)
  fix w w' :: "'a bt_world_scheme"
  assume "(if \<not> run_exists i w then Inl fk_violation
      else Inr (w\<lparr>wb_states := upsert state_key (i, state_row st) (wb_states w)\<rparr>)) = Inr w'"
  then have w': "w' = w\<lparr>wb_states := upsert state_key (i, state_row st) (wb_states w)\<rparr>" by (simp split: if_splits)
  have "states_ok (upsert state_key (i, state_row st) t)" if "states_ok t" for t
    using that upsert_distinct set_upsert[of _ state_key "(i, state_row st)" t]
    by (fastforce simp: states_ok_def state_row_def)
  then show "bt_step w w'" by (simp add: w' bt_step_def live_def frozen_def world.truncate_def)
qed

lemma bt_MetricsRepo_Save: "obeys bt_step (MetricsRepo_Save i m)"
  unfolding MetricsRepo_Save_def
  by (intro bts.obeys_if bts.obeys_throw bt_InTx bt_db_write)
    (auto simp: bt_step_def live_def frozen_def world.truncate_def metrics_ok_def upsert_distinct split: if_splits)

lemma bt_RunRepo_Save: "obeys bt_step (RunRepo_Save run)"
  unfolding RunRepo_Save_def insert_run_def Let_def
  by (intro bts.obeys_if bts.obeys_throw bts.obeys_wrapE bt_InTx bts.obeys_bindE bt_db_op obeysI)
    (auto simp: bt_step_def live_def frozen_def world.truncate_def)

lemma bt_UpdateStatus: "obeys bt_step (RunRepo_UpdateStatus i st t)"
  unfolding RunRepo_UpdateStatus_def
  by (intro bts.obeys_wrapE bt_db_write)
    (auto simp: bt_step_def live_def frozen_def world.truncate_def split: if_splits)

lemma bt_RunRepo_Get: "obeys bt_step (RunRepo_Get i)"
proof (rule obeysI, rule bt_frozen_step)
  fix w :: "'a bt_world_scheme"
  show "frozen (snd (RunRepo_Get i w)) = frozen w"
    using frozen_query_row[of "\<lambda>w. find (\<lambda>r. br_id r = i) (wb_runs w)" w]
    by (cases "query_row (\<lambda>w. find (\<lambda>r. br_id r = i) (wb_runs w)) w")
      (auto simp: RunRepo_Get_def simp del: frozen_query_row split: sum.splits)
qed

text \<open>The score reader is the live one.\<close>

lemma bt_score_reader_live: "bt_score_reader = pg_score_reader"
  by (simp add: bt_score_reader_def pg_score_reader_def fun_eq_iff BtScoreReader_GetLatestAll_def ScoreReader_GetLatestAll_def
      BtScoreReader_GetByDate_def ScoreReader_GetByDate_def BtScoreReader_GetHistory_def ScoreReader_GetHistory_def
      bt_queryAssetFor_def queryAssetFor_def merge_global_def)

lemma bt_indicator_live: "BtIndicator_GetIndicatorRawSeries a from to c = RegimeRepo_GetIndicatorRawSeries a from to"
  by (simp add: BtIndicator_GetIndicatorRawSeries_def RegimeRepo_GetIndicatorRawSeries_def)

lemma bt_sel [simp]:
  "bt_scores (pg_bt_service L cfg e y assets) = pg_score_reader"
  "bt_indicator (pg_bt_service L cfg e y assets) = BtIndicator_GetIndicatorRawSeries"
  "bt_prices (pg_bt_service L cfg e y assets) = GetPriceHistory" "bt_clock (pg_bt_service L cfg e y assets) = clock_Now"
  "bt_runs (pg_bt_service L cfg e y assets) = \<lparr>rp_Save = RunRepo_Save, rp_Get = RunRepo_Get, rp_UpdateStatus = RunRepo_UpdateStatus\<rparr>"
  "bt_states (pg_bt_service L cfg e y assets) = \<lparr>st_Save = StateRepo_Save, st_GetByRun = StateRepo_GetByRun\<rparr>"
  "bt_metrics (pg_bt_service L cfg e y assets) = \<lparr>mt_Save = MetricsRepo_Save, mt_GetByRun = MetricsRepo_GetByRun L\<rparr>"
  "bt_engine (pg_bt_service L cfg e y assets) = Config_Defaults e" "bt_cfg (pg_bt_service L cfg e y assets) = bt_Defaults cfg"
  "bt_assets (pg_bt_service L cfg e y assets) = (if assets = [] then AssetsTradeable else assets)"
  by (simp_all add: pg_bt_service_def bt_NewService_def bt_score_reader_live)

lemma same_GetPriceHistory: "obeys same_data (GetPriceHistory a from to)"
  unfolding GetPriceHistory_def by (intro sd.obeys_if sd.obeys_throw sd.obeys_bindE sd.obeys_ret same_query_rows)

interpretation pg_bt: bt_steps bt_step "pg_bt_service L cfg e y assets"
  by unfold_locales
    (simp_all add: pg_score_reader_def bt_indicator_live same_reads same_GetPriceHistory bt_reads bt_RunRepo_Save bt_RunRepo_Get
      bt_UpdateStatus bt_StateRepo_Save bt_MetricsRepo_Save bt_clock StateRepo_GetByRun_def MetricsRepo_GetByRun_def same_query_rows)

section \<open>The replay and the live engine\<close>

lemma pg_computeOne_live:
  assumes "rc_span (Config_Defaults e) \<le> 1"
  shows "computeOne M ord (pg_regime_service e assets) a vd (vd + bc_sla (bt_Defaults cfg) * minute_ns) =
    bindE (bt_computeOne M ord (pg_bt_service L cfg e y assets) a vd) (\<lambda>st.
      seqE (wrapE ''save regime state'' [] (RegimeRepo_Save st))
        (Publisher_Publish (regime_event (Config_Defaults e) a vd (rs_indicator st) (rs_risk_on st) (rs_risk_off st) (rs_transition st))))"
  using bt_computeOne_live[where s = "pg_bt_service L cfg e y assets" and L = "pg_regime_service e assets" and vd = vd]
  by (simp add: assms bt_indicator_live pg_regime_repo_def bt_cutoff_def)

section \<open>The data hash\<close>

definition scores_at :: "domain_score table \<Rightarrow> asset \<Rightarrow> gotime \<Rightarrow> gotime \<Rightarrow> domain_code \<rightharpoonup> f64" where
  "scores_at t a d c = merge_global (q_scores a d t c) (q_scores AssetGlobal d t c)"

definition snapshot_of :: "(gotime \<Rightarrow> gotime) \<Rightarrow> asset list \<Rightarrow> gotime list \<Rightarrow> domain_score table \<Rightarrow> snapshot" where
  "snapshot_of cutoff assets ds t = foldl (\<lambda>out d. foldl (\<lambda>out a.
      if scores_at t a d (cutoff d) = Map.empty then out else out((a, d) \<mapsto> scores_at t a d (cutoff d))) out assets) Map.empty ds"

lemma answers_foldE: "(\<And>s x. x \<in> set xs \<Longrightarrow> answers F (f s x) (g s x)) \<Longrightarrow> answers F (foldE f s xs) (foldl g s xs)"
  by (induction xs arbitrary: s) (auto intro: answers_foldE_Nil answers_foldE_Cons simp del: foldE.simps)

lemma answers_snapshot:
  assumes "fault_free F" "bt_scores s = pg_score_reader"
  shows "answers F (collectSnapshot s from to) (snapshot_of (bt_cutoff s) (bt_assets s) (day_range from to) (w_scores F))"
  unfolding collectSnapshot_def snapshot_of_def scores_at_def assms(2)
  by (intro answers_foldE answers_bindE answers_ret')
    (simp_all add: pg_score_reader_def answers_GetLatestAll assms(1) del: fun_upd_apply)

lemma snapshot_agree:
  assumes "\<And>d. d \<in> set ds \<Longrightarrow> as_of (cutoff d) t = as_of (cutoff d) u"
  shows "snapshot_of cutoff assets ds t = snapshot_of cutoff assets ds u"
proof -
  have "scores_at t a d (cutoff d) = scores_at u a d (cutoff d)" if "d \<in> set ds" for a d
    unfolding scores_at_def by (simp only: pit_scores.agree[OF assms[OF that]])
  then show ?thesis unfolding snapshot_of_def by (intro foldl_cong refl) simp
qed

lemma collectSnapshot_pit:
  assumes "fault_free w" "fault_free w'" "bt_scores s = pg_score_reader"
    and "\<And>d. d \<in> set (day_range from to) \<Longrightarrow> as_of (bt_cutoff s d) (w_scores w) = as_of (bt_cutoff s d) (w_scores w')"
  shows "fst (collectSnapshot s from to w) = fst (collectSnapshot s from to w')"
proof -
  have "fst (collectSnapshot s from to v) = Inr (snapshot_of (bt_cutoff s) (bt_assets s) (day_range from to) (w_scores v))"
    if "fault_free v" for v
    using answersD[OF answers_snapshot[of "frozen v" s "from" "to"] refl] that assms(3) by auto
  then show ?thesis
    using snapshot_agree[of "day_range from to" "bt_cutoff s" "w_scores w" "w_scores w'" "bt_assets s"] assms by simp
qed

section \<open>Calls with a known effect\<close>

text \<open>\<open>becomes F m x G\<close>: on data \<open>F\<close> the call succeeds with \<open>x\<close> and leaves the data \<open>G\<close>; \<open>fails F m\<close>: it fails.\<close>

definition becomes :: "'a world_scheme \<Rightarrow> ('a world_scheme, 'r) io \<Rightarrow> 'r \<Rightarrow> 'a world_scheme \<Rightarrow> bool" where
  "becomes F m x G \<longleftrightarrow> (\<forall>w. frozen w = F \<longrightarrow> (\<exists>w'. m w = (Inr x, w') \<and> frozen w' = G))"

definition fails :: "'a world_scheme \<Rightarrow> ('a world_scheme, 'r) io \<Rightarrow> bool" where
  "fails F m \<longleftrightarrow> (\<forall>w. frozen w = F \<longrightarrow> (\<exists>e w'. m w = (Inl e, w')))"

lemma becomes_answers: "answers F m x \<Longrightarrow> becomes F m x F"
  by (simp add: answers_def becomes_def)

lemma becomes_ret: "becomes F (ret x) x F"
  by (simp add: becomes_def)

lemma becomes_bindE: "becomes F m x G \<Longrightarrow> becomes G (f x) y K \<Longrightarrow> becomes F (bindE m f) y K"
  unfolding becomes_def bindE_def by fastforce

lemma becomes_wrapE: "becomes F m x G \<Longrightarrow> becomes F (wrapE s vs m) x G"
  unfolding becomes_def wrapE_def by fastforce

lemma fails_throw: "fails F (throw e)" and fails_wrapE: "fails F m \<Longrightarrow> fails F (wrapE s vs m)"
  unfolding fails_def wrapE_def by fastforce+

lemma fails_bindE: "fails F m \<Longrightarrow> fails F (bindE m f)" and fails_bindE2: "becomes F m x G \<Longrightarrow> fails G (f x) \<Longrightarrow> fails F (bindE m f)"
  unfolding fails_def becomes_def bindE_def by fastforce+

lemma becomes_InTx:
  assumes "fault_free F" "fault_free G" "becomes F m x G"
  shows "becomes F (InTx m) x G"
  unfolding becomes_def
proof (intro allI impI)
  fix w assume w: "frozen w = F"
  let ?w1 = "w\<lparr>w_txtime := w_clock w (w_ticks w), w_ticks := Suc (w_ticks w)\<rparr>"
  have "frozen ?w1 = F" using w by simp
  then obtain w2 where "m ?w1 = (Inr x, w2)" "frozen w2 = G" using assms(3) unfolding becomes_def by blast
  moreover from this have "fault_free w" "fault_free w2" using assms(1,2) w frozen_sel(1) by metis+
  ultimately show "\<exists>w'. InTx m w = (Inr x, w') \<and> frozen w' = G" using InTx_fault_free[of w m x w2] by auto
qed

lemma becomes_db_write:
  assumes "fault_free F" "\<And>w. frozen w = F \<Longrightarrow> \<exists>w'. f w = Inr w' \<and> frozen w' = G"
  shows "becomes F (db_write f) () G"
  unfolding becomes_def
proof (intro allI impI)
  fix w assume w: "frozen w = F"
  then have ff: "fault_free w" using assms(1) by auto
  have "frozen (w\<lparr>w_ticks := Suc (w_ticks w)\<rparr>) = F" using w by simp
  then obtain w' where "f (w\<lparr>w_ticks := Suc (w_ticks w)\<rparr>) = Inr w'" "frozen w' = G" using assms(2) by blast
  then show "\<exists>w'. db_write f w = (Inr (), w') \<and> frozen w' = G" using ff by (simp add: db_write_def bindE_def)
qed

section \<open>Saved states are read back\<close>

lemma bt_frozen_fields: "frozen w = F \<Longrightarrow> wb_states w = wb_states F \<and> wb_metrics w = wb_metrics F \<and> wb_runs w = wb_runs F \<and> w_mcap w = w_mcap F"
  by (auto simp: frozen_def)

lemma run_exists_frozen: "frozen w = F \<Longrightarrow> run_exists i w = run_exists i F"
  unfolding run_exists_def using bt_frozen_fields[of w F] by simp

lemma StateRepo_Save_becomes:
  assumes "fault_free F" "run_exists i F" "json_floats (rs_contributions st)" "json_floats (rs_weights st)" "json_drivers (rs_top_drivers st)"
  shows "becomes F (StateRepo_Save i st) () (F\<lparr>wb_states := upsert state_key (i, state_row st) (wb_states F)\<rparr>)"
proof -
  have ff: "fault_free (F\<lparr>wb_states := x\<rparr>)" for x using assms(1) by (simp add: fault_free_def)
  have "becomes F (db_write (\<lambda>w. if \<not> run_exists i w then Inl fk_violation
        else Inr (w\<lparr>wb_states := upsert state_key (i, state_row st) (wb_states w)\<rparr>))) ()
      (F\<lparr>wb_states := upsert state_key (i, state_row st) (wb_states F)\<rparr>)"
  proof (rule becomes_db_write[OF assms(1)])
    fix w assume w: "frozen w = F"
    then show "\<exists>w'. (if \<not> run_exists i w then Inl fk_violation
        else Inr (w\<lparr>wb_states := upsert state_key (i, state_row st) (wb_states w)\<rparr>)) = Inr w' \<and>
        frozen w' = F\<lparr>wb_states := upsert state_key (i, state_row st) (wb_states F)\<rparr>"
      using assms(2) run_exists_frozen[OF w, of i] by (auto simp: frozen_def)
  qed
  from becomes_InTx[OF assms(1) ff this] show ?thesis using assms(3-5) by (simp add: StateRepo_Save_def)
qed

lemma upsert_mem: "v \<in> set (upsert k v t)"
  by (auto simp: upsert_def)

lemma state_round_trip:
  assumes "StateRepo_Save i st w = (Inr (), w1)" "fault_free w" "run_exists i w"
  shows "\<exists>rows w2. StateRepo_GetByRun i w1 = (Inr rows, w2) \<and> state_row st \<in> set rows"
proof -
  have j: "json_floats (rs_contributions st)" "json_floats (rs_weights st)" "json_drivers (rs_top_drivers st)"
    using assms(1) by (auto simp: StateRepo_Save_def split: if_splits)
  have "fault_free (frozen w)" "run_exists i (frozen w)" using assms(2,3) run_exists_frozen by auto
  from StateRepo_Save_becomes[OF this j] assms(1)
  have f: "frozen w1 = (frozen w)\<lparr>wb_states := upsert state_key (i, state_row st) (wb_states (frozen w))\<rparr>"
    by (auto simp: becomes_def)
  have s1: "wb_states w1 = upsert state_key (i, state_row st) (wb_states w)"
    using bt_frozen_fields[OF f] bt_frozen_fields[of w, OF refl] by simp
  have "fault_free (frozen w1)" unfolding f using assms(2) by (simp add: fault_free_def frozen_def)
  then have "fault_free w1" by simp
  then show ?thesis using upsert_mem[of "(i, state_row st)" state_key "wb_states w"]
    by (auto simp: StateRepo_GetByRun_def query_rows_ok states_of_run_def s1 image_iff intro!: bexI[of _ "(i, state_row st)"])
qed

end
