(* ===== verification/BacktestAgain.thy ===== *)
theory BacktestAgain
  imports BacktestRun PgScores
begin

text \<open>
  The tables of the harness as maps from keys, and the metrics of a run computed a second time.
\<close>

section \<open>A table that is updated in place is a map\<close>

definition table_map :: "('a \<Rightarrow> 'k) \<Rightarrow> 'a list \<Rightarrow> 'k \<rightharpoonup> 'a" where
  "table_map k t = (\<lambda>x. find (\<lambda>v. k v = x) t)"

lemma find_map_upd: "find (\<lambda>x. k x = y) (map (\<lambda>x. if k x = k v then v else x) t) =
    (if y = k v \<and> k v \<in> k ` set t then Some v else find (\<lambda>x. k x = y) t)"
  by (induction t) auto

lemma find_append: "find P (xs @ ys) = (case find P xs of None \<Rightarrow> find P ys | Some x \<Rightarrow> Some x)"
  by (induction xs) auto

lemma table_map_upsert: "table_map k (upsert k v t) = (table_map k t)(k v \<mapsto> v)"
proof (rule ext)
  fix y
  show "table_map k (upsert k v t) y = ((table_map k t)(k v \<mapsto> v)) y"
  proof (cases "k v \<in> k ` set t")
    case True
    then have "upsert k v t = map (\<lambda>x. if k x = k v then v else x) t" by (auto simp: upsert_def)
    then show ?thesis using True by (simp add: table_map_def find_map_upd)
  next
    case False
    then have "upsert k v t = t @ [v]" by (auto simp: upsert_def image_iff)
    moreover have "find (\<lambda>x. k x = k v) t = None" using False by (auto simp: find_None_iff image_iff)
    ultimately show ?thesis by (auto simp: table_map_def find_append split: option.split)
  qed
qed

text \<open>A state that was saved, whatever the faults of the database around it.\<close>

lemma StateRepo_Save_upsert:
  assumes "StateRepo_Save i st w = (Inr (), w')"
  shows "wb_states w' = upsert state_key (i, state_row st) (wb_states w) \<and> wb_runs w' = wb_runs w \<and> wb_metrics w' = wb_metrics w"
proof -
  let ?b = "db_write (\<lambda>w. if \<not> run_exists i w then Inl fk_violation
        else Inr (w\<lparr>wb_states := upsert state_key (i, state_row st) (wb_states w)\<rparr>)) :: ('a bt_world_scheme, unit) io"
  have "InTx ?b w = (Inr (), w')" using assms by (auto simp: StateRepo_Save_def split: if_splits)
  then obtain w1 w2 where w: "w1 = w\<lparr>w_txtime := w_clock w (w_ticks w), w_ticks := Suc (w_ticks w)\<rparr>"
    "?b w1 = (Inr (), w2)" "w' = w2\<lparr>w_ticks := Suc (w_ticks w2)\<rparr>" by (rule InTx_ok)
  have "wb_states w2 = upsert state_key (i, state_row st) (wb_states w1) \<and> wb_runs w2 = wb_runs w1 \<and> wb_metrics w2 = wb_metrics w1"
    using w(2) by (cases w1 rule: db_op_cases) (auto simp: db_write_def bindE_def split: if_splits)
  then show ?thesis using w(1,3) by simp
qed

lemma saved_state_read: "st \<in> set (states_of_run i (upsert state_key (i, st) t))"
  using upsert_mem[of "(i, st)" state_key t] by (auto simp: states_of_run_def image_iff intro!: bexI[of _ "(i, st)"])

section \<open>Writing the same rows twice\<close>

definition upserts :: "('a \<Rightarrow> 'k) \<Rightarrow> 'a list \<Rightarrow> 'a list \<Rightarrow> 'a list" where
  "upserts k vs t = foldl (\<lambda>t v. upsert k v t) t vs"

definition newest :: "('a \<Rightarrow> 'k) \<Rightarrow> 'a list \<Rightarrow> 'a \<Rightarrow> 'a" where
  "newest k vs x = (if filter (\<lambda>v. k v = k x) vs = [] then x else last (filter (\<lambda>v. k v = k x) vs))"

lemma newest_Nil [simp]: "newest k [] = (\<lambda>x. x)"
  by (simp add: newest_def fun_eq_iff)

lemma upserts_keys: "k ` set (upserts k vs t) = k ` set t \<union> k ` set vs"
proof (induction vs arbitrary: t)
  case (Cons v vs)
  have "k ` set (upsert k v t) = insert (k v) (k ` set t)"
    using arg_cong[OF upsert_keys[of k v t], of set] by auto
  then show ?case using Cons[of "upsert k v t"] by (simp add: upserts_def)
qed (simp add: upserts_def)

lemma upserts_present:
  assumes "k ` set vs \<subseteq> k ` set t"
  shows "upserts k vs t = map (newest k vs) t"
  using assms
proof (induction vs arbitrary: t)
  case (Cons v vs)
  let ?r = "\<lambda>x. if k x = k v then v else x"
  have kv: "k v \<in> k ` set t" using Cons.prems by simp
  then have u: "upsert k v t = map ?r t" by (auto simp: upsert_def)
  have "k ` set (upsert k v t) = k ` set t"
    using arg_cong[OF upsert_keys[of k v t], of set] kv by auto
  then have "upserts k vs (upsert k v t) = map (newest k vs) (map ?r t)" using Cons u by simp
  moreover have "newest k vs (?r x) = newest k (v # vs) x" for x
  proof (cases "k x = k v")
    case True
    have "filter (\<lambda>y. k y = k v) (v # vs) = v # filter (\<lambda>y. k y = k v) vs" by simp
    then show ?thesis using True unfolding newest_def by simp
  next
    case False
    then have "filter (\<lambda>y. k y = k x) (v # vs) = filter (\<lambda>y. k y = k x) vs" by auto
    then show ?thesis using False by (simp add: newest_def)
  qed
  ultimately show ?case by (simp add: upserts_def)
qed (simp add: upserts_def)

lemma newest_snoc: "newest k (vs @ [v]) x = (if k x = k v then v else newest k vs x)"
  by (simp add: newest_def)

lemma upserts_newest: "x \<in> set (upserts k vs t) \<Longrightarrow> newest k vs x = x"
proof (induction vs arbitrary: x rule: rev_induct)
  case (snoc v vs)
  have "upserts k (vs @ [v]) t = upsert k v (upserts k vs t)" by (simp add: upserts_def)
  then have "x = v \<or> k x \<noteq> k v \<and> x \<in> set (upserts k vs t)"
    using snoc.prems by (auto simp: upsert_def split: if_splits)
  then show ?case using snoc.IH by (auto simp: newest_snoc)
qed (simp add: newest_def)

lemma upserts_again: "upserts k vs (upserts k vs t) = upserts k vs t"
proof -
  have "upserts k vs (upserts k vs t) = map (newest k vs) (upserts k vs t)"
    by (rule upserts_present) (simp add: upserts_keys)
  also have "\<dots> = upserts k vs t" by (rule map_idI) (rule upserts_newest)
  finally show ?thesis .
qed

lemma upserts_append: "upserts k (vs @ ws) t = upserts k ws (upserts k vs t)"
  by (simp add: upserts_def)

section \<open>The effect of computing metrics\<close>

definition with_metrics :: "'a bt_world_scheme \<Rightarrow> (run_id \<times> metric) list \<Rightarrow> 'a bt_world_scheme" where
  "with_metrics F t = F\<lparr>wb_metrics := t\<rparr>"

lemma with_metrics_simps [simp]:
  "wb_metrics (with_metrics F t) = t" "wb_states (with_metrics F t) = wb_states F" "wb_runs (with_metrics F t) = wb_runs F"
  "w_mcap (with_metrics F t) = w_mcap F" "fault_free (with_metrics F t) = fault_free F"
  "with_metrics (with_metrics F t) u = with_metrics F u" "with_metrics F (wb_metrics F) = F"
  "run_exists i (with_metrics F t) = run_exists i F"
  by (simp_all add: with_metrics_def fault_free_def run_exists_def)

lemma MetricsRepo_Save_becomes:
  assumes "fault_free F" "run_exists i F" "meta_ok (me_metadata m)"
  shows "becomes F (MetricsRepo_Save i m) () (with_metrics F (upsert metric_key (i, metric_row m) (wb_metrics F)))"
proof -
  have "becomes F (db_write (\<lambda>w. if \<not> run_exists i w then Inl fk_violation
        else Inr (w\<lparr>wb_metrics := upsert metric_key (i, metric_row m) (wb_metrics w)\<rparr>))) ()
      (with_metrics F (upsert metric_key (i, metric_row m) (wb_metrics F)))"
  proof (rule becomes_db_write[OF assms(1)])
    fix w assume w: "frozen w = F"
    then show "\<exists>w'. (if \<not> run_exists i w then Inl fk_violation
        else Inr (w\<lparr>wb_metrics := upsert metric_key (i, metric_row m) (wb_metrics w)\<rparr>)) = Inr w' \<and>
        frozen w' = with_metrics F (upsert metric_key (i, metric_row m) (wb_metrics F))"
      using assms(2) run_exists_frozen[OF w, of i] by (auto simp: frozen_def with_metrics_def)
  qed
  from becomes_InTx[OF assms(1) _ this] show ?thesis using assms by (simp add: MetricsRepo_Save_def)
qed

definition metric_rows :: "run_id \<Rightarrow> metric list \<Rightarrow> (run_id \<times> metric) list" where
  "metric_rows i ms = map (\<lambda>m. (i, metric_row m)) ms"

lemma save_metrics_becomes:
  assumes "fault_free F" "run_exists i F" "\<forall>m\<in>set ms. meta_ok (me_metadata m)"
  shows "becomes F (forE (MetricsRepo_Save i) ms) () (with_metrics F (upserts metric_key (metric_rows i ms) (wb_metrics F)))"
  using assms
proof (induction ms arbitrary: F)
  case Nil
  show ?case unfolding forE.simps upserts_def metric_rows_def list.map foldl_Nil with_metrics_simps by (rule becomes_ret)
next
  case (Cons m ms)
  let ?G = "with_metrics F (upsert metric_key (i, metric_row m) (wb_metrics F))"
  have "becomes F (MetricsRepo_Save i m) () ?G" by (rule MetricsRepo_Save_becomes) (use Cons.prems in simp_all)
  moreover have "becomes ?G (forE (MetricsRepo_Save i) ms) () (with_metrics ?G (upserts metric_key (metric_rows i ms) (wb_metrics ?G)))"
    by (rule Cons.IH) (use Cons.prems in simp_all)
  ultimately show ?case unfolding forE.simps seqE_def
    by (intro becomes_bindE) (simp_all add: upserts_def metric_rows_def)
qed

lemma save_metrics_fails:
  assumes "fault_free F" "run_exists i F" "\<not> (\<forall>m\<in>set ms. meta_ok (me_metadata m))"
  shows "fails F (forE (MetricsRepo_Save i) ms)"
  using assms
proof (induction ms arbitrary: F)
  case (Cons m ms)
  show ?case
  proof (cases "meta_ok (me_metadata m)")
    case True
    let ?G = "with_metrics F (upsert metric_key (i, metric_row m) (wb_metrics F))"
    have "becomes F (MetricsRepo_Save i m) () ?G" by (rule MetricsRepo_Save_becomes) (use Cons.prems True in simp_all)
    moreover have "fails ?G (forE (MetricsRepo_Save i) ms)" by (rule Cons.IH) (use Cons.prems True in simp_all)
    ultimately show ?thesis unfolding forE.simps seqE_def by (rule fails_bindE2)
  next
    case False
    then have "fails F (MetricsRepo_Save i m)" using fails_throw by (simp add: MetricsRepo_Save_def)
    then show ?thesis unfolding forE.simps seqE_def by (rule fails_bindE)
  qed
qed simp

definition prices_of :: "asset \<Rightarrow> gotime \<Rightarrow> gotime \<Rightarrow> mcap_row table \<Rightarrow> prices" where
  "prices_of a from to t = price_map (forwardFillDaily (map (\<lambda>p. p\<lparr>pa_date := UTCDay (pa_date p)\<rparr>) (q_prices (coinIDFor a) from to t)) from to)"

lemma frozen_mcap: "w_mcap (frozen w) = w_mcap w"
  by (simp add: frozen_def)

lemma loadPrices_becomes:
  assumes "fault_free F" "coinIDFor a \<noteq> []" "bt_prices s = GetPriceHistory"
  shows "becomes F (loadPrices s a from to) (prices_of a from to (w_mcap F)) F"
proof -
  have "answers F (loadPrices s a from to) (prices_of a from to (w_mcap F))"
    unfolding loadPrices_def assms(3) GetPriceHistory_def prices_of_def if_not_P[OF assms(2)] bindE_assoc bindE_ret
    by (intro answers_bindE[OF answers_query_rows[OF assms(1)]] answers_ret) (simp add: frozen_mcap)
  then show ?thesis by (rule becomes_answers)
qed

lemma loadPrices_fails: "coinIDFor a = [] \<Longrightarrow> bt_prices s = GetPriceHistory \<Longrightarrow> fails F (loadPrices s a from to)"
  by (simp add: loadPrices_def GetPriceHistory_def fails_throw)

section \<open>Computing the metrics of a run\<close>

text \<open>The metrics of an asset, from the stored prices and the states of the run.\<close>

definition run_metrics :: "libm \<Rightarrow> 'g intn \<Rightarrow> 'g \<Rightarrow> (label set \<Rightarrow> label list) \<Rightarrow> mcap_row table \<Rightarrow> backtest_run \<Rightarrow>
    regime_state list \<Rightarrow> asset \<Rightarrow> metric list" where
  "run_metrics M intn seed lord t run rows a = asset_metrics M intn seed lord a
     (toRegimeDays LabelTransition (filter (\<lambda>r. rs_asset r = a) rows)) (prices_of a (br_start run) (add_days (br_end run) 200) t)"

definition asset_ok :: "libm \<Rightarrow> 'g intn \<Rightarrow> 'g \<Rightarrow> (label set \<Rightarrow> label list) \<Rightarrow> mcap_row table \<Rightarrow> backtest_run \<Rightarrow>
    regime_state list \<Rightarrow> asset \<Rightarrow> bool" where
  "asset_ok M intn seed lord t run rows a \<longleftrightarrow> coinIDFor a \<noteq> [] \<and> (\<forall>m\<in>set (run_metrics M intn seed lord t run rows a). meta_ok (me_metadata m))"

definition metrics_step :: "libm \<Rightarrow> 'g intn \<Rightarrow> 'g \<Rightarrow> (label set \<Rightarrow> label list) \<Rightarrow> 'w bt_service \<Rightarrow> run_id \<Rightarrow> backtest_run \<Rightarrow>
    regime_state list \<Rightarrow> asset \<Rightarrow> ('w, unit) io" where
  "metrics_step M intn seed lord s i run rows a = bindE (wrapE ''load prices'' [AStr a] (loadPrices s a (br_start run) (add_days (br_end run) 200)))
     (\<lambda>prices. forE (mt_Save (bt_metrics s) i) (asset_metrics M intn seed lord a (toRegimeDays LabelTransition (filter (\<lambda>r. rs_asset r = a) rows)) prices))"

lemma metrics_step_effect:
  assumes "fault_free F" "run_exists i F" "bt_prices s = GetPriceHistory" "mt_Save (bt_metrics s) = MetricsRepo_Save"
  shows "if asset_ok M intn seed lord (w_mcap F) run rows a
    then becomes F (metrics_step M intn seed lord s i run rows a) ()
      (with_metrics F (upserts metric_key (metric_rows i (run_metrics M intn seed lord (w_mcap F) run rows a)) (wb_metrics F)))
    else fails F (metrics_step M intn seed lord s i run rows a)"
proof (cases "coinIDFor a = []")
  case True
  then show ?thesis using fails_bindE[OF fails_wrapE[OF loadPrices_fails[OF _ assms(3)]]]
    by (simp add: asset_ok_def metrics_step_def)
next
  case False
  note l = becomes_wrapE[OF loadPrices_becomes[OF assms(1) False assms(3)]]
  show ?thesis
  proof (cases "asset_ok M intn seed lord (w_mcap F) run rows a")
    case True
    then have "\<forall>m\<in>set (run_metrics M intn seed lord (w_mcap F) run rows a). meta_ok (me_metadata m)" by (simp add: asset_ok_def)
    from save_metrics_becomes[OF assms(1,2) this]
    have "becomes F (metrics_step M intn seed lord s i run rows a) ()
      (with_metrics F (upserts metric_key (metric_rows i (run_metrics M intn seed lord (w_mcap F) run rows a)) (wb_metrics F)))"
      unfolding metrics_step_def assms(4) run_metrics_def by (rule becomes_bindE[OF l])
    then show ?thesis using True by simp
  next
    case no: False
    then have "\<not> (\<forall>m\<in>set (run_metrics M intn seed lord (w_mcap F) run rows a). meta_ok (me_metadata m))" using False by (simp add: asset_ok_def)
    from save_metrics_fails[OF assms(1,2) this]
    have "fails F (metrics_step M intn seed lord s i run rows a)"
      unfolding metrics_step_def assms(4) run_metrics_def by (rule fails_bindE2[OF l])
    then show ?thesis using no by simp
  qed
qed

lemma metrics_loop_effect:
  assumes "fault_free F" "run_exists i F" "bt_prices s = GetPriceHistory" "mt_Save (bt_metrics s) = MetricsRepo_Save"
  shows "if \<forall>a\<in>set as. asset_ok M intn seed lord (w_mcap F) run rows a
    then becomes F (forE (metrics_step M intn seed lord s i run rows) as) ()
      (with_metrics F (upserts metric_key (concat (map (\<lambda>a. metric_rows i (run_metrics M intn seed lord (w_mcap F) run rows a)) as)) (wb_metrics F)))
    else fails F (forE (metrics_step M intn seed lord s i run rows) as)"
  using assms
proof (induction as arbitrary: F)
  case Nil
  then show ?case by (simp add: upserts_def becomes_def)
next
  case (Cons a as)
  note one = metrics_step_effect[OF Cons.prems, of M intn seed lord run rows a]
  show ?case
  proof (cases "asset_ok M intn seed lord (w_mcap F) run rows a")
    case True
    let ?G = "with_metrics F (upserts metric_key (metric_rows i (run_metrics M intn seed lord (w_mcap F) run rows a)) (wb_metrics F))"
    have b: "becomes F (metrics_step M intn seed lord s i run rows a) () ?G" using one True by simp
    have "fault_free ?G" "run_exists i ?G" using Cons.prems by simp_all
    note rest = Cons.IH[OF this Cons.prems(3,4), unfolded with_metrics_simps]
    show ?thesis
    proof (cases "\<forall>a\<in>set as. asset_ok M intn seed lord (w_mcap F) run rows a")
      case all: True
      have "becomes F (forE (metrics_step M intn seed lord s i run rows) (a # as)) ()
        (with_metrics F (upserts metric_key (concat (map (\<lambda>a. metric_rows i (run_metrics M intn seed lord (w_mcap F) run rows a)) as))
          (upserts metric_key (metric_rows i (run_metrics M intn seed lord (w_mcap F) run rows a)) (wb_metrics F))))"
        unfolding forE.simps seqE_def by (rule becomes_bindE[OF b rest[unfolded if_P[OF all]]])
      then show ?thesis using all True by (simp add: upserts_append)
    next
      case False
      have "fails F (forE (metrics_step M intn seed lord s i run rows) (a # as))"
        unfolding forE.simps seqE_def by (rule fails_bindE2[OF b rest[unfolded if_not_P[OF False]]])
      then show ?thesis using False by auto
    qed
  next
    case False
    then have "fails F (forE (metrics_step M intn seed lord s i run rows) (a # as))"
      unfolding forE.simps seqE_def by (intro fails_bindE) (use one in simp)
    then show ?thesis using False by simp
  qed
qed

lemma answers_RunRepo_Get:
  assumes "fault_free F" and r: "find (\<lambda>r. br_id r = i) (wb_runs F) = Some run"
  shows "answers F (RunRepo_Get i) run"
proof (rule answersI)
  fix w :: "'a bt_world_scheme" assume w: "frozen w = F"
  have "frozen (w\<lparr>w_ticks := Suc (w_ticks w)\<rparr>) = F" using w by simp
  then have "find (\<lambda>r. br_id r = i) (wb_runs (w\<lparr>w_ticks := Suc (w_ticks w)\<rparr>)) = Some run" "fault_free w"
    using bt_frozen_fields r w assms(1) by (metis, auto)
  then show "\<exists>w'. RunRepo_Get i w = (Inr run, w') \<and> frozen w' = F"
    using w by (simp add: RunRepo_Get_def query_row_def bindE_def db_read_def)
qed

lemma RunRepo_Get_found: "RunRepo_Get i w = (Inr run, w') \<Longrightarrow> find (\<lambda>r. br_id r = i) (wb_runs w) = Some run"
  by (cases w rule: db_op_cases) (auto simp: RunRepo_Get_def query_row_def db_read_def bindE_def split: prod.splits sum.splits option.splits)

lemma answers_GetByRun: "fault_free F \<Longrightarrow> answers F (StateRepo_GetByRun i) (states_of_run i (wb_states F))"
  unfolding StateRepo_GetByRun_def by (rule answers_query_rows) (simp_all add: frozen_def)

text \<open>The whole call on data \<open>F\<close>: it stores the rows of every asset of the run, or fails.\<close>

definition metrics_rows :: "libm \<Rightarrow> 'g intn \<Rightarrow> 'g \<Rightarrow> (asset set \<Rightarrow> asset list) \<Rightarrow> (label set \<Rightarrow> label list) \<Rightarrow>
    mcap_row table \<Rightarrow> backtest_run \<Rightarrow> regime_state list \<Rightarrow> run_id \<Rightarrow> (run_id \<times> metric) list" where
  "metrics_rows M intn seed aord lord t run rows i =
     concat (map (\<lambda>a. metric_rows i (run_metrics M intn seed lord t run rows a)) (aord (rs_asset ` set rows)))"

lemma ComputeMetrics_effect:
  fixes F :: "'a bt_world_scheme"
  assumes s: "s = pg_bt_service L cfg engineCfg yaml assets" and ff: "fault_free F"
    and run: "find (\<lambda>r. br_id r = i) (wb_runs F) = Some run" and rows: "states_of_run i (wb_states F) = rows"
  shows "if rows \<noteq> [] \<and> (\<forall>a\<in>set (aord (rs_asset ` set rows)). asset_ok M intn seed lord (w_mcap F) run rows a)
    then becomes F (ComputeMetrics M intn seed aord lord s i) ()
      (with_metrics F (upserts metric_key (metrics_rows M intn seed aord lord (w_mcap F) run rows i) (wb_metrics F)))
    else fails F (ComputeMetrics M intn seed aord lord s i)"
proof -
  have sel: "rp_Get (bt_runs s) = RunRepo_Get" "st_GetByRun (bt_states s) = StateRepo_GetByRun" "bt_prices s = GetPriceHistory"
    "mt_Save (bt_metrics s) = MetricsRepo_Save" unfolding s pg_bt_service_def bt_NewService_def by simp_all
  have ex: "run_exists i F" using run unfolding run_exists_def by (auto simp: find_Some_iff)
  note get = becomes_wrapE[OF becomes_answers[OF answers_RunRepo_Get[OF ff run]]]
    becomes_wrapE[OF becomes_answers[OF answers_GetByRun[OF ff, of i, unfolded rows]]]
  note loop = metrics_loop_effect[OF ff ex sel(3,4), of "aord (rs_asset ` set rows)" M intn seed lord run rows]
  show ?thesis
  proof (cases "rows = []")
    case True
    have "fails F (ComputeMetrics M intn seed aord lord s i)" unfolding ComputeMetrics_def sel Let_def
      by (rule fails_bindE2[OF get(1)], rule fails_bindE2[OF get(2)]) (simp add: True fails_throw)
    then show ?thesis using True by simp
  next
    case ne: False
    show ?thesis
    proof (cases "\<forall>a\<in>set (aord (rs_asset ` set rows)). asset_ok M intn seed lord (w_mcap F) run rows a")
      case True
      have "becomes F (ComputeMetrics M intn seed aord lord s i) ()
        (with_metrics F (upserts metric_key (metrics_rows M intn seed aord lord (w_mcap F) run rows i) (wb_metrics F)))"
        unfolding ComputeMetrics_def sel metrics_rows_def Let_def
        by (rule becomes_bindE[OF get(1)], rule becomes_bindE[OF get(2)], unfold if_not_P[OF ne])
          (rule loop[unfolded if_P[OF True] metrics_step_def sel])
      then show ?thesis using ne True by simp
    next
      case False
      have "fails F (ComputeMetrics M intn seed aord lord s i)" unfolding ComputeMetrics_def sel Let_def
        by (rule fails_bindE2[OF get(1)], rule fails_bindE2[OF get(2)], unfold if_not_P[OF ne])
          (rule loop[unfolded if_not_P[OF False] metrics_step_def sel])
      then show ?thesis using False by auto
    qed
  qed
qed

text \<open>Computed again on what it left, it succeeds and leaves the data as they are.\<close>

theorem ComputeMetrics_again:
  fixes w :: "'a bt_world_scheme"
  assumes s: "s = pg_bt_service L cfg engineCfg yaml assets" and ff: "fault_free w"
    and ok: "ComputeMetrics M intn seed aord lord s i w = (Inr (), w1)"
  shows "\<exists>w2. ComputeMetrics M intn seed aord lord s i w1 = (Inr (), w2) \<and> frozen w2 = frozen w1"
proof -
  let ?F = "frozen w" and ?rows = "states_of_run i (wb_states w)" and ?CM = "ComputeMetrics M intn seed aord lord s i"
  have sel: "rp_Get (bt_runs s) = RunRepo_Get" unfolding s pg_bt_service_def bt_NewService_def by simp
  obtain run w' where "RunRepo_Get i w = (Inr run, w')" using ok unfolding ComputeMetrics_def sel by (auto simp: io_Inr_iff)
  from RunRepo_Get_found[OF this] have run: "find (\<lambda>r. br_id r = i) (wb_runs ?F) = Some run" by (simp add: frozen_def)
  have F: "fault_free ?F" "states_of_run i (wb_states ?F) = ?rows" using ff by (simp_all add: frozen_def)
  let ?ok = "?rows \<noteq> [] \<and> (\<forall>a\<in>set (aord (rs_asset ` set ?rows)). asset_ok M intn seed lord (w_mcap ?F) run ?rows a)"
  let ?R = "metrics_rows M intn seed aord lord (w_mcap ?F) run ?rows i"
  let ?G = "with_metrics ?F (upserts metric_key ?R (wb_metrics ?F))"
  note first = ComputeMetrics_effect[OF s F(1) run F(2), of aord M intn seed lord]
  have good: ?ok
  proof (rule ccontr)
    assume "\<not> ?ok"
    from first[unfolded if_not_P[OF this]] ok show False by (fastforce simp: fails_def)
  qed
  have G: "frozen w1 = ?G" using first[unfolded if_P[OF good]] ok by (fastforce simp: becomes_def)
  have g: "fault_free ?G" "find (\<lambda>r. br_id r = i) (wb_runs ?G) = Some run" "states_of_run i (wb_states ?G) = ?rows" "w_mcap ?G = w_mcap ?F"
    using F run by simp_all
  from ComputeMetrics_effect[OF s g(1,2,3), of aord M intn seed lord, unfolded g(4) if_P[OF good]]
  have "becomes ?G ?CM () (with_metrics ?G (upserts metric_key ?R (wb_metrics ?G)))" .
  then have "becomes ?G ?CM () ?G" by (simp add: upserts_again)
  then show ?thesis using G unfolding becomes_def by metis
qed

section \<open>The data hash\<close>

lemma latest_map_keys: "dom (latest_map k t) \<subseteq> k ` r_val ` set t"
  by (rule subsetI) (auto simp only: latest_map_dom)

lemma finite_q_scores: "finite (dom (q_scores a d t c))"
proof -
  have "dom (q_scores a d t c) \<subseteq> dom (latest_map ds_domain (as_of c (where_rows (\<lambda>x. ds_asset x = a \<and> ds_value_date x = d) t)))"
    by (auto simp: q_scores_def)
  then show ?thesis using finite_subset[OF latest_map_keys] by (rule finite_subset) (rule finite_imageI, simp)
qed

lemma finite_scores_at: "finite (dom (scores_at t a d c))"
proof -
  have "dom (scores_at t a d c) \<subseteq> dom (q_scores a d t c) \<union> dom (q_scores AssetGlobal d t c)"
    by (auto simp: scores_at_def merge_global_def split: if_splits)
  then show ?thesis by (rule finite_subset) (simp add: finite_q_scores)
qed

definition small :: "snapshot \<Rightarrow> bool" where
  "small m \<longleftrightarrow> finite (dom m) \<and> (\<forall>k v. m k = Some v \<longrightarrow> finite (dom v))"

lemma fold_small: "(\<And>m x. x \<in> set xs \<Longrightarrow> small m \<Longrightarrow> small (f m x)) \<Longrightarrow> small m \<Longrightarrow> small (foldl f m xs)"
  by (induction xs arbitrary: m) auto

lemma small_snapshot: "small (snapshot_of cutoff assets ds t)"
  unfolding snapshot_of_def
proof (intro fold_small)
  show "small Map.empty" by (simp add: small_def)
  show "small (if scores_at t a d (cutoff d) = Map.empty then m else m((a, d) \<mapsto> scores_at t a d (cutoff d)))" if "small m" for m d a
    using that finite_scores_at[of t a d "cutoff d"] by (auto simp: small_def)
qed

lemma hash_repeatable:
  assumes "lists_set kord" "lists_set kord'" "lists_set dord" "lists_set dord'" "fault_free w" "strict_mono (w_clock w)"
    and s: "s = pg_bt_service L cfg e y assets" and early: "\<forall>d\<in>set (day_range from to). bt_cutoff s d < w_clock w (w_ticks w)"
    and ev: "evolves w w'"
  shows "\<exists>snap. fst (collectSnapshot s from to w) = Inr snap \<and> fst (collectSnapshot s from to w') = Inr snap \<and>
    SnapshotHash H kord dord snap = SnapshotHash H kord' dord' snap"
proof -
  have pg: "bt_scores s = pg_score_reader" unfolding s pg_bt_service_def bt_NewService_def by (simp add: bt_score_reader_live)
  have ff: "fault_free w'" using assms(5) ev by (simp add: evolves_def grows_def fault_free_def)
  let ?snap = "snapshot_of (bt_cutoff s) (bt_assets s) (day_range from to) (w_scores w)"
  have "fst (collectSnapshot s from to w) = Inr ?snap"
    using answersD[OF answers_snapshot[of "frozen w" s "from" "to"] refl] assms(5) pg by auto
  moreover have "fst (collectSnapshot s from to w) = fst (collectSnapshot s from to w')"
    by (rule collectSnapshot_pit[OF assms(5) ff pg]) (use evolves_as_of(6)[OF ev assms(6)] early in simp)
  moreover have "SnapshotHash H kord dord ?snap = SnapshotHash H kord' dord' ?snap"
    using small_snapshot by (intro SnapshotHash_order assms(1-4)) (auto simp: small_def)
  ultimately show ?thesis by auto
qed

lemma run_evolves_to: "scoring_run run i p f g s e vd assets \<Longrightarrow> evolves w (snd (run w))"
  using scoring_run.run_evolves unfolding obeys_def by blast

text \<open>The steps of the harness on one database.\<close>

lemma harness_steps:
  fixes w :: "'a bt_world_scheme"
  shows "bt_step w (snd (Replay M ord hash (pg_bt_service L cfg e y assets) ps pe parent mode w))"
    and "bt_step w (snd (ComputeMetrics M intn seed aord lord (pg_bt_service L cfg e y assets) i w))"
    and "bt_step w (snd (Sweep M ord hash intn seed aord lord (pg_bt_service L cfg e y assets) ps pe parameter vs w))"
  by (rule pg_bt.Replay_steps[unfolded obeys_def, THEN spec] pg_bt.ComputeMetrics_steps[unfolded obeys_def, THEN spec]
    pg_bt.Sweep_steps[unfolded obeys_def, THEN spec])+

lemma bt_step_live: "bt_step w w' \<Longrightarrow> live w' = live w"
  by (simp add: bt_step_def)

lemma bt_step_keys: "bt_step w w' \<Longrightarrow> states_ok (wb_states w) \<Longrightarrow> metrics_ok (wb_metrics w) \<Longrightarrow>
    states_ok (wb_states w') \<and> metrics_ok (wb_metrics w')"
  by (simp add: bt_step_def)

end
