(* ===== verification/ExampleBacktest.thy ===== *)
theory ExampleBacktest
  imports "HOL-Library.Product_Lexorder" BacktestAgain ExampleRun PgLeverage
begin

text \<open>Concrete databases of the harness.\<close>

definition bt_tables :: "world \<Rightarrow> backtest_run list \<Rightarrow> (run_id \<times> regime_state) list \<Rightarrow> bt_world" where
  "bt_tables w runs states = world.extend w (bt_world.fields runs states [] (\<lambda>_. ''id''))"

lemma bt_tables_sel [simp]:
  "wb_runs (bt_tables w runs states) = runs" "wb_states (bt_tables w runs states) = states" "wb_metrics (bt_tables w runs states) = []"
  "w_mcap (bt_tables w runs states) = w_mcap w" "w_fault (bt_tables w runs states) = w_fault w" "w_scores (bt_tables w runs states) = w_scores w"
  "w_clock (bt_tables w runs states) = w_clock w" "w_ticks (bt_tables w runs states) = w_ticks w"
  by (simp_all add: bt_tables_def world.extend_def bt_world.fields_def)

definition ex_run :: backtest_run where
  "ex_run = \<lparr>br_id = ''id'', br_mode = ''replay'', br_start = ex_day, br_end = ex_day, br_model_version = ''m'', br_config_version = ''c'',
     br_config_yaml = [], br_code_sha = ''dev'', br_data_hash = [], br_sla = 60, br_parent = None, br_harness = HarnessVersion,
     br_status = ''running'', br_started = 0, br_completed = None, br_metadata = None\<rparr>"

text \<open>A run with one saved state and no prices.\<close>

definition ex_bt_world :: bt_world where
  "ex_bt_world = bt_tables (start_world []) [ex_run] [(''id'', ex_state fzero)]"

lemma ex_bt_facts: "fault_free ex_bt_world" "fault_free (frozen ex_bt_world)" "run_exists ''id'' (frozen ex_bt_world)"
  "wb_runs (frozen ex_bt_world) = [ex_run]" "wb_states (frozen ex_bt_world) = [(''id'', ex_state fzero)]" "w_mcap (frozen ex_bt_world) = []"
proof -
  note f = bt_frozen_fields[of ex_bt_world "frozen ex_bt_world", OF refl]
  show "fault_free ex_bt_world" by (simp add: fault_free_def ex_bt_world_def start_world_def)
  then show "fault_free (frozen ex_bt_world)" by simp
  show "wb_runs (frozen ex_bt_world) = [ex_run]" "wb_states (frozen ex_bt_world) = [(''id'', ex_state fzero)]" "w_mcap (frozen ex_bt_world) = []"
    using f by (simp_all add: ex_bt_world_def start_world_def)
  then show "run_exists ''id'' (frozen ex_bt_world)" by (simp add: run_exists_def ex_run_def)
qed

lemma ex_state_saved: "\<exists>w'. StateRepo_Save ''id'' (ex_state fone) ex_bt_world = (Inr (), w')"
proof -
  have "becomes (frozen ex_bt_world) (StateRepo_Save ''id'' (ex_state fone)) () ((frozen ex_bt_world)\<lparr>wb_states :=
      upsert state_key (''id'', state_row (ex_state fone)) (wb_states (frozen ex_bt_world))\<rparr>)"
    by (rule StateRepo_Save_becomes[OF ex_bt_facts(2,3)]) (simp_all add: ex_state_def json_floats_def json_drivers_def)
  then show ?thesis by (auto simp: becomes_def)
qed

lemma no_prices: "prices_of a from to [] = Map.empty"
  by (simp add: prices_of_def forwardFillDaily_def q_prices_def price_map_def where_rows_def latest_by_def keys_of_def List.map_filter_def)

lemma meta_okI: "\<forall>v\<in>snd ` set kvs. json_any v \<Longrightarrow> meta_ok (me_metadata (metric_of n sc x (Some kvs)))"
  by (auto simp: meta_ok_def metric_of_def json_anys_def dest!: ran_map_of_sub)

lemma meta_ok_None [simp]: "meta_ok (me_metadata (metric_of n sc x None))"
  by (simp add: meta_ok_def metric_of_def)

lemma sort_slice_one: "sort_slice lt [x] = [x]"
  using mset_sort_slice[of lt "[x]"] by (simp only: mset.simps mset_single_iff add_mset_eq_singleton_iff)

lemma no_returns: "return_buckets M days Map.empty hs = (\<lambda>_. [])"
  unfolding return_buckets_def by (induction days) (simp_all add: bucket_day_def usable_def)

lemma no_prices_forward:
  "c \<in> set (ForwardReturnTable M days Map.empty hs) \<Longrightarrow> is_finite (fc_median c) \<and> is_finite (fc_hit_rate c)"
  by (auto simp: ForwardReturnTable_def no_returns forward_cell_def)

lemma no_span: "\<not> flt fzero (fdiv (dur_hours 0) (lit 24))"
  by (simp add: dur_hours_def quot_go_def rem_go_def hour_ns_def f64_eval)

lemma one_day_persistence: "is_finite (ps_per_year (PersistenceMetrics [d]))"
  by (simp add: PersistenceMetrics_def Let_def time_sub_def no_span)

lemma one_day_metrics_ok:
  assumes "m \<in> set (asset_metrics M intn seed lord a [d] Map.empty)"
  shows "meta_ok (me_metadata m)"
  using assms one_day_persistence[of d] no_prices_forward[of _ M "[d]" horizons]
  unfolding asset_metrics_def Let_def
  by (auto intro!: meta_okI simp: ToyStrategy_def price_series_def List.map_filter_def no_stats_def)

lemma ex_metrics_computed:
  "\<exists>w1. ComputeMetrics M intn seed (\<lambda>_. [AssetBTC]) lord (pg_bt_service L cfg e y assets) ''id'' ex_bt_world = (Inr (), w1)"
proof -
  have rows: "states_of_run ''id'' (wb_states (frozen ex_bt_world)) = [ex_state fzero]"
    by (simp add: ex_bt_facts states_of_run_def sort_slice_one)
  have run: "find (\<lambda>r. br_id r = ''id'') (wb_runs (frozen ex_bt_world)) = Some ex_run" by (simp add: ex_bt_facts ex_run_def)
  have "asset_ok M intn seed lord (w_mcap (frozen ex_bt_world)) ex_run [ex_state fzero] AssetBTC"
    unfolding asset_ok_def run_metrics_def ex_bt_facts no_prices
    by (auto simp: Let_def ex_state_def intro: one_day_metrics_ok) (simp add: coinIDFor_def)
  then show ?thesis
    using ComputeMetrics_effect[OF refl ex_bt_facts(2) run rows, of "\<lambda>_. [AssetBTC]" M intn seed lord L cfg e y assets]
    by (auto simp: becomes_def)
qed

lemma ex_states_ok: "states_ok [(''id'', ex_state fzero)]"
  by (simp add: states_ok_def ex_state_def ex_day_def UTCDay_def day_of_def day_ns_def)

lemma ex_day_UTC: "UTCDay ex_day = ex_day"
  by (simp add: ex_day_def UTCDay_def day_of_def day_ns_def)

lemma sorted_lists_set: "lists_set sorted_list_of_set"
  by (simp add: lists_set_def)

lemma ex_bt_clock: "strict_mono (w_clock ex_bt_world)"
  by (simp add: ex_bt_world_def start_world_def strict_mono_def)

lemma ex_bt_early: "\<forall>d\<in>set (day_range (- 10 * day_ns) (- 10 * day_ns)).
    bt_cutoff (pg_bt_service ex_sql_lib bt_DefaultConfig empty_config [] []) d < w_clock ex_bt_world (w_ticks ex_bt_world)"
  by (simp add: day_range_self bt_cutoff_def pg_bt_service_def bt_NewService_def bt_Defaults_def bt_DefaultConfig_def or_default_int_def
    ex_bt_world_def start_world_def day_ns_def minute_ns_def)

lemma ex_bt_Save: "\<exists>w'. RegimeRepo_Save (ex_state fzero) ex_bt_world = (Inr (), w')"
  unfolding RegimeRepo_Save_def ex_state_valid storage_id option.case
  by (simp add: InTx_def begin_tx_def wrapE_def db_op_def start_world_def ex_bt_world_def bt_tables_def world.extend_def bt_world.fields_def
      InsertRegimeState_def db_write_def bindE_def insert_pk_def ex_state_def json_floats_def json_drivers_def)

end
