(* ===== verification/Volatility.thy ===== *)
theory Volatility
  imports FeatureLib StorageDomains
begin

text \<open>
  \<open>internal/volatility\<close>: configuration, ports, features, the score of a day (\<open>pipeline.go\<close>) and the
  service (\<open>service.go\<close>).
\<close>

section \<open>Configuration\<close>

record vol_config =
  wc_model_version :: string
  wc_config_version :: string
  wc_code_sha :: string
  wc_intermediate :: string
  wc_final :: string
  wc_w_fear :: f64
  wc_w_tail :: f64
  wc_w_vov :: f64
  wc_w_fear4 :: f64
  wc_w_term4 :: f64
  wc_w_tail4 :: f64
  wc_w_vov4 :: f64
  wc_w_cross :: f64
  wc_scale :: f64

definition vol_Defaults :: "vol_config \<Rightarrow> vol_config" where
  "vol_Defaults c = c\<lparr>wc_w_fear := if_zero (wc_w_fear c) (40 / 100), wc_w_tail := if_zero (wc_w_tail c) (35 / 100),
     wc_w_vov := if_zero (wc_w_vov c) (25 / 100), wc_w_fear4 := if_zero (wc_w_fear4 c) (30 / 100),
     wc_w_term4 := if_zero (wc_w_term4 c) (30 / 100), wc_w_tail4 := if_zero (wc_w_tail4 c) (25 / 100),
     wc_w_vov4 := if_zero (wc_w_vov4 c) (15 / 100), wc_w_cross := if_zero (wc_w_cross c) (20 / 100),
     wc_scale := if_zero (wc_scale c) 2\<rparr>"

section \<open>Ports\<close>

record dvol_point =
  dp_date :: gotime
  dp_asset :: asset
  dp_close :: f64
  dp_hash :: string

record options_snapshot =
  os_asset :: asset
  os_term :: f64
  os_has_term :: bool
  os_skew :: f64
  os_has_skew :: bool
  os_num :: int

record options_info_point =
  qp_exchange :: string
  qp_symbol :: string
  qp_oi :: f64
  qp_share :: f64
  qp_change24h :: f64
  qp_oi_usd :: f64
  qp_volume :: f64
  qp_volume_change :: f64
  qp_call_oi :: f64
  qp_put_oi :: f64
  qp_hash :: string

record options_oi_point =
  hp_date :: gotime
  hp_exchange :: string
  hp_symbol :: string
  hp_oi :: f64
  hp_hash :: string

record max_pain_point =
  pp_date :: gotime
  pp_symbol :: string
  pp_exchange :: string
  pp_price :: f64
  pp_call_oi :: f64
  pp_put_oi :: f64
  pp_call_usd :: f64
  pp_put_usd :: f64
  pp_call_value :: f64
  pp_put_value :: f64
  pp_hash :: string

record chain_snapshot =
  ck_instrument :: string
  ck_expiry :: gotime
  ck_strike :: f64
  ck_put :: bool
  ck_oi :: f64
  ck_iv :: f64
  ck_underlying :: f64
  ck_hash :: string

record 'w vol_raws =
  wr_SaveDVOL :: "dvol_row list \<Rightarrow> ('w, unit) io"
  wr_GetDVOLCloseAsOf :: "asset \<Rightarrow> gotime \<Rightarrow> gotime \<Rightarrow> ('w, f64) io"
  wr_RealizedVol30d :: "asset \<Rightarrow> gotime \<Rightarrow> gotime \<Rightarrow> ('w, f64 option) io"
  wr_SaveOptionsInfo :: "options_info_row list \<Rightarrow> ('w, unit) io"
  wr_SaveOptionsOIHistory :: "options_oi_row list \<Rightarrow> ('w, unit) io"
  wr_SaveOptionsMaxPain :: "max_pain_row list \<Rightarrow> ('w, unit) io"
  wr_AggregatedOIAsOf :: "string \<Rightarrow> gotime \<Rightarrow> gotime \<Rightarrow> ('w, f64 option) io"
  wr_PutCallRatioAsOf :: "string \<Rightarrow> gotime \<Rightarrow> gotime \<Rightarrow> ('w, f64 option) io"
  wr_MaxPainNearestAsOf :: "string \<Rightarrow> string \<Rightarrow> gotime \<Rightarrow> gotime \<Rightarrow> ('w, f64 option) io"
  wr_SpotCloseAsOf :: "string \<Rightarrow> gotime \<Rightarrow> gotime \<Rightarrow> ('w, f64 option) io"
  wr_SaveOptionsChain :: "chain_row list \<Rightarrow> ('w, unit) io"
  wr_OptionsChainAsOf :: "asset \<Rightarrow> gotime \<Rightarrow> gotime \<Rightarrow> ('w, chain_snapshot list) io"

type_synonym 'w dvol_provider = "asset \<Rightarrow> gotime \<Rightarrow> gotime \<Rightarrow> ('w, dvol_point list) io"
type_synonym 'w options_provider = "asset \<Rightarrow> ('w, options_snapshot) io"
type_synonym 'w chain_provider = "asset \<Rightarrow> ('w, chain_snapshot list) io"

record 'w cg_options_provider =
  cq_FetchOptionsInfo :: "string \<Rightarrow> ('w, options_info_point list) io"
  cq_FetchOptionsOIHistory :: "string \<Rightarrow> ('w, options_oi_point list) io"
  cq_FetchOptionsMaxPain :: "string \<Rightarrow> string \<Rightarrow> ('w, max_pain_point list) io"

section \<open>Features\<close>

definition DVOLDailyName where "DVOLDailyName = ''dvol_daily''"
definition RealizedVol30dName where "RealizedVol30dName = ''realized_vol_30d''"
definition IVRVSpreadDailyName where "IVRVSpreadDailyName = ''iv_rv_spread_daily''"
definition DVOLOfDVOL30dName where "DVOLOfDVOL30dName = ''dvol_of_dvol_30d''"
definition IVTermSlopeDailyName where "IVTermSlopeDailyName = ''iv_term_slope_daily''"
definition IVSkewDailyName where "IVSkewDailyName = ''iv_skew_daily''"
definition IVRVSpreadZScore90dName where "IVRVSpreadZScore90dName = ''iv_rv_spread_zscore_90d''"
definition IVSkewProxyZScore90dName where "IVSkewProxyZScore90dName = ''iv_skew_proxy_zscore_90d''"
definition DVOLOfDVOLZScore180dName where "DVOLOfDVOLZScore180dName = ''dvol_of_dvol_zscore_180d''"
definition IVTermSlopeZScore90dName where "IVTermSlopeZScore90dName = ''iv_term_slope_zscore_90d''"
definition IVSkewRealZScore90dName where "IVSkewRealZScore90dName = ''iv_skew_real_zscore_90d''"
definition CGOptionsAggOIDailyName where "CGOptionsAggOIDailyName = ''cg_options_agg_oi_daily''"
definition CGOptionsOIVelocity30dName where "CGOptionsOIVelocity30dName = ''cg_options_oi_velocity_30d''"
definition CGOptionsOIVelocityZScoreName where "CGOptionsOIVelocityZScoreName = ''cg_options_oi_velocity_zscore_90d''"
definition CGPutCallRatioDailyName where "CGPutCallRatioDailyName = ''cg_put_call_ratio_daily''"
definition CGPutCallRatioZScoreName where "CGPutCallRatioZScoreName = ''cg_put_call_ratio_zscore_90d''"
definition CGMaxPainDistancePctName where "CGMaxPainDistancePctName = ''cg_max_pain_distance_pct_daily''"
definition CGMaxPainDistanceZScoreName where "CGMaxPainDistanceZScoreName = ''cg_max_pain_distance_pct_zscore_90d''"
definition GEXNetDealerDailyName where "GEXNetDealerDailyName = ''gex_net_dealer_daily''"
definition GEXNetDealerZScore90dName where "GEXNetDealerZScore90dName = ''gex_net_dealer_zscore_90d''"

definition CGMaxPainDistancePct :: "f64 \<Rightarrow> f64 \<Rightarrow> f64 option" where
  "CGMaxPainDistancePct spot maxPain =
     (if fle spot fzero \<or> isNaN spot \<or> isNaN maxPain then None else Some (fdiv (fabs (fsub spot maxPain)) spot))"

definition AssetToBinanceSymbol :: "string \<Rightarrow> string" where
  "AssetToBinanceSymbol a = (if a = ''BTC'' then ''BTCUSDT'' else if a = ''ETH'' then ''ETHUSDT'' else [])"

definition feature_Diff :: "f64 \<Rightarrow> f64 \<Rightarrow> f64 option" where
  "feature_Diff now past = (if isNaN now \<or> isNaN past \<or> isInf now \<or> isInf past then None else Some (fsub now past))"

definition feature_StdDev :: "f64 list \<Rightarrow> int \<Rightarrow> f64 option" where
  "feature_StdDev xs minObs =
     (if int (length xs) < minObs then None
      else let sd = StdDev xs in if isNaN sd \<or> isInf sd then None else Some sd)"

section \<open>The score\<close>

record vol_inputs =
  wi_asset :: asset
  wi_value_date :: gotime
  wi_spread :: f64
  wi_spread_ok :: bool
  wi_skew_real :: f64
  wi_skew_real_ok :: bool
  wi_skew_proxy :: f64
  wi_skew_proxy_ok :: bool
  wi_vov :: f64
  wi_vov_ok :: bool
  wi_term :: f64
  wi_term_ok :: bool
  wi_velocity :: f64
  wi_velocity_ok :: bool
  wi_pcr :: f64
  wi_pcr_ok :: bool
  wi_pain :: f64
  wi_pain_ok :: bool
  wi_gex :: f64
  wi_gex_ok :: bool
  wi_features :: "string list"

definition vol_tail :: "libm \<Rightarrow> f64 \<Rightarrow> vol_inputs \<Rightarrow> f64" where
  "vol_tail M scale i =
     (if wi_skew_real_ok i \<and> \<not> isNaN (wi_skew_real i) then neg_signal M scale True (wi_skew_real i)
      else neg_signal M scale (wi_skew_proxy_ok i) (wi_skew_proxy i))"

definition vol_cross :: "libm \<Rightarrow> f64 \<Rightarrow> vol_inputs \<Rightarrow> f64 \<times> f64" where
  "vol_cross M scale i = avg_signals (map (map_option fneg)
     [opt_signal M scale (wi_velocity_ok i) (wi_velocity i), opt_signal M scale (wi_pcr_ok i) (wi_pcr i),
      opt_signal M scale (wi_pain_ok i) (wi_pain i), opt_signal M scale (wi_gex_ok i) (wi_gex i)])"

text \<open>Four components when the term structure is there, three otherwise; then the blend with the options data.\<close>

definition vol_use4 :: "vol_inputs \<Rightarrow> bool" where
  "vol_use4 i \<longleftrightarrow> wi_term_ok i \<and> \<not> isNaN (wi_term i)"

definition vol_base :: "vol_config \<Rightarrow> bool \<Rightarrow> f64 \<Rightarrow> f64 \<Rightarrow> f64 \<Rightarrow> f64 \<Rightarrow> f64" where
  "vol_base cfg use4 fear term tail vov =
     (if use4 then fadd (fadd (fadd (fmul (wc_w_fear4 cfg) fear) (fmul (wc_w_term4 cfg) term)) (fmul (wc_w_tail4 cfg) tail))
                     (fmul (wc_w_vov4 cfg) vov)
      else fadd (fadd (fmul (wc_w_fear cfg) fear) (fmul (wc_w_tail cfg) tail)) (fmul (wc_w_vov cfg) vov))"

definition vol_blend :: "vol_config \<Rightarrow> bool \<Rightarrow> f64 \<Rightarrow> f64 \<Rightarrow> f64" where
  "vol_blend cfg useCross score cross =
     (let w = wc_w_cross cfg in
      if useCross \<and> flt fzero w then fadd (fmul (fsub fone w) score) (fmul w cross) else score)"

definition vol_computeScore :: "libm \<Rightarrow> vol_inputs \<Rightarrow> vol_config \<Rightarrow> domain_score" where
  "vol_computeScore M i cfg0 =
     (let cfg = vol_Defaults cfg0; scale = wc_scale cfg;
          fear = neg_signal M scale (wi_spread_ok i) (wi_spread i);
          tail = vol_tail M scale i;
          vov = neg_signal M scale (wi_vov_ok i) (wi_vov i);
          term = neg_signal M scale (wi_term_ok i) (wi_term i);
          (cross, crossN) = vol_cross M scale i;
          useCross = flt fzero crossN;
          score = clamp1 (vol_blend cfg useCross (vol_base cfg (vol_use4 i) fear term tail vov) cross)
      in \<lparr>ds_asset = wi_asset i, ds_domain = DomainVolatility, ds_value_date = wi_value_date i, ds_score = score,
          ds_components = map_of [(''component_fear_premium'', fear), (''component_term_structure'', term),
             (''component_tail_risk'', tail), (''component_vov'', vov), (''component_options_cross_source'', cross)],
          ds_features_used = wi_features i, ds_model_version = wc_model_version cfg,
          ds_config_version = wc_config_version cfg, ds_code_sha = wc_code_sha cfg,
          ds_sources = map_of [(''deribit_dvol'', ''deribit_dvol_v1''), (''deribit_options'', ''deribit_options_v1''),
             (''binance_klines'', ''binance_spot_v1'')],
          ds_quality = map_of [(''spread_available'', ABool (wi_spread_ok i)), (''skew_real_available'', ABool (wi_skew_real_ok i)),
             (''skew_proxy_available'', ABool (wi_skew_proxy_ok i)), (''vov_available'', ABool (wi_vov_ok i)),
             (''term_structure_available'', ABool (wi_term_ok i)), (''cg_options_oi_velocity_available'', ABool (wi_velocity_ok i)),
             (''cg_put_call_ratio_available'', ABool (wi_pcr_ok i)), (''cg_max_pain_distance_available'', ABool (wi_pain_ok i)),
             (''gex_net_dealer_available'', ABool (wi_gex_ok i)), (''options_cross_source_n'', AFloat crossN),
             (''using_4_component'', ABool (vol_use4 i)), (''using_options_cross_source'', ABool useCross),
             (''partial_coverage'', ABool (\<not> (wi_spread_ok i \<and> wi_vov_ok i \<and> (wi_skew_real_ok i \<or> wi_skew_proxy_ok i))))]\<rparr>)"

section \<open>The score is in range\<close>

definition vol_cfg_ok :: "vol_config \<Rightarrow> bool" where
  "vol_cfg_ok c \<longleftrightarrow> (let d = vol_Defaults c in fin_in 0 1 (wc_w_fear d) \<and> fin_in 0 1 (wc_w_tail d) \<and> fin_in 0 1 (wc_w_vov d) \<and>
     fin_in 0 1 (wc_w_fear4 d) \<and> fin_in 0 1 (wc_w_term4 d) \<and> fin_in 0 1 (wc_w_tail4 d) \<and> fin_in 0 1 (wc_w_vov4 d) \<and>
     fin_in 0 1 (wc_w_cross d) \<and> scale_ok (wc_scale d))"

lemma vol_Defaults_idem [simp]: "vol_Defaults (vol_Defaults c) = vol_Defaults c"
  by (simp add: vol_Defaults_def if_zero_idem)

lemma vol_score_sel [simp]: "ds_asset (vol_computeScore M i c) = wi_asset i" "ds_domain (vol_computeScore M i c) = DomainVolatility"
  "ds_value_date (vol_computeScore M i c) = wi_value_date i" "ds_model_version (vol_computeScore M i c) = wc_model_version c"
  by (simp_all add: vol_computeScore_def Let_def vol_Defaults_def split: prod.split)

lemma vol_base_in:
  assumes "vol_cfg_ok c" "fin_in (- 1) 1 f" "fin_in (- 1) 1 t" "fin_in (- 1) 1 r" "fin_in (- 1) 1 v"
  shows "fin_in (- of_nat 4) (of_nat 4) (vol_base (vol_Defaults c) u f t r v)"
proof -
  note w = assms(1)[unfolded vol_cfg_ok_def Let_def]
  have b: "(1::nat) + 1 < 2 ^ 53" "(1::nat) + 1 + 1 < 2 ^ 53" "(1::nat) + 1 + 1 + 1 < 2 ^ 53" by simp_all
  let ?d = "vol_Defaults c"
  have "fin_in (- of_nat (1 + 1 + 1)) (of_nat (1 + 1 + 1)) (fadd (fadd (fmul (wc_w_fear ?d) f) (fmul (wc_w_tail ?d) r)) (fmul (wc_w_vov ?d) v))"
    by (intro fadd_nat weighted b) (use w assms in auto)
  then have three: "fin_in (- of_nat 4) (of_nat 4) (fadd (fadd (fmul (wc_w_fear ?d) f) (fmul (wc_w_tail ?d) r)) (fmul (wc_w_vov ?d) v))"
    by (rule fin_in_mono) simp_all
  have "fin_in (- of_nat (1 + 1 + 1 + 1)) (of_nat (1 + 1 + 1 + 1))
    (fadd (fadd (fadd (fmul (wc_w_fear4 ?d) f) (fmul (wc_w_term4 ?d) t)) (fmul (wc_w_tail4 ?d) r)) (fmul (wc_w_vov4 ?d) v))"
    by (intro fadd_nat weighted b) (use w assms in auto)
  then show ?thesis using three by (simp add: vol_base_def numeral_eq_Suc)
qed

lemma vol_blend_not_NaN:
  assumes "vol_cfg_ok c" "fin_in (- of_nat 4) (of_nat 4) s" "fin_in (- 1) 1 x"
  shows "vol_blend (vol_Defaults c) u s x \<noteq> NaN"
proof (cases "u \<and> flt fzero (wc_w_cross (vol_Defaults c))")
  case True
  let ?w = "wc_w_cross (vol_Defaults c)"
  have w: "fin_in 0 1 ?w" using assms(1) by (simp add: vol_cfg_ok_def Let_def)
  have d: "rq (4::rat) = 4" "(4::rat) \<le> 2 powi 1023" using dyadic_rq[of 4] dyadic_powi[of 2] by simp_all
  have "fin_in (- of_nat 4) (of_nat 4) (fmul (fsub fone ?w) s)"
    using fmul_unit_in[OF one_minus_unit[OF w], of 4 s] assms(2) d by simp
  moreover have "fin_in (- of_nat 1) (of_nat 1) (fmul ?w x)" using w assms(3) by (rule weighted)
  ultimately have "fin_in (- of_nat (4 + 1)) (of_nat (4 + 1)) (fadd (fmul (fsub fone ?w) s) (fmul ?w x))" by (rule fadd_nat) simp
  then show ?thesis using True fin_in_not_NaN by (auto simp: vol_blend_def Let_def)
next
  case False
  then show ?thesis using fin_in_not_NaN[OF assms(2)] by (auto simp: vol_blend_def Let_def)
qed

context go_libm
begin

lemma vol_tail_in: "scale_ok s \<Longrightarrow> fin_in (- 1) 1 (vol_tail M s i)"
  unfolding vol_tail_def by (simp add: neg_signal_in)

lemma vol_cross_in: "scale_ok s \<Longrightarrow> fin_in (- 1) 1 (fst (vol_cross M s i)) \<and> is_finite (snd (vol_cross M s i))"
  unfolding vol_cross_def by (rule avg_signals_in) (auto intro: opt_signal_in fin_in_neg1 dest!: sym[of "Some _"])

lemma vol_score_in:
  assumes "vol_cfg_ok c"
  shows "fin_in (- 1) 1 (ds_score (vol_computeScore M i c))"
    and "\<forall>v\<in>ran (ds_components (vol_computeScore M i c)). fin_in (- 1) 1 v"
proof -
  have s: "scale_ok (wc_scale (vol_Defaults c))" using assms by (simp add: vol_cfg_ok_def Let_def)
  obtain cross n where cr: "vol_cross M (wc_scale (vol_Defaults c)) i = (cross, n)" by fastforce
  have x: "fin_in (- 1) 1 cross" using vol_cross_in[OF s, of i] cr by simp
  note comps = neg_signal_in[OF s] vol_tail_in[OF s] x
  show "fin_in (- 1) 1 (ds_score (vol_computeScore M i c))"
    unfolding vol_computeScore_def Let_def cr
    by (simp, rule clamp1_in, rule vol_blend_not_NaN[OF assms vol_base_in[OF assms]]) (simp_all add: comps)
  show "\<forall>v\<in>ran (ds_components (vol_computeScore M i c)). fin_in (- 1) 1 v"
    unfolding vol_computeScore_def Let_def cr prod.case domain_score.simps by (rule ran_map_of_all) (simp add: comps)
qed

end

end
