(* ===== verification/VolatilityService.thy ===== *)
theory VolatilityService
  imports Volatility
begin

text \<open>
  \<open>internal/volatility/service.go\<close>: ingestion, the features of a day, its score, and the runs.
\<close>

record 'w vol_service =
  ws_features :: "'w feature_repo"
  ws_scores :: "'w score_repo"
  ws_raws :: "'w vol_raws"
  ws_dvol :: "'w dvol_provider option"
  ws_options :: "'w options_provider option"
  ws_cgOptions :: "'w cg_options_provider option"
  ws_chain :: "'w chain_provider option"
  ws_publish :: "event \<Rightarrow> ('w, unit) io"
  ws_clock :: "('w, gotime) io"
  ws_cfg :: vol_config
  ws_assets :: "asset list"

definition vol_NewService where
  "vol_NewService featRepo scoreRepo rawRepo dvol options cgOptions chain pub clk cfg assets =
     \<lparr>ws_features = featRepo, ws_scores = scoreRepo, ws_raws = rawRepo, ws_dvol = dvol, ws_options = options,
      ws_cgOptions = cgOptions, ws_chain = chain, ws_publish = pub, ws_clock = clk, ws_cfg = vol_Defaults cfg,
      ws_assets = (if assets = [] then AssetsTradeable else assets)\<rparr>"

section \<open>Ingestion\<close>

definition vol_sourceVersion :: "string \<Rightarrow> string" where
  "vol_sourceVersion srcName = (if srcName = ''deribit_dvol'' then ''deribit_dvol_v1''
     else if srcName = ''deribit_options'' then ''deribit_options_v1''
     else if srcName = ''binance_klines'' then ''binance_spot_v1'' else [])"

definition vol_saveFeature :: "'w vol_service \<Rightarrow> feature_key \<Rightarrow> asset \<Rightarrow> gotime \<Rightarrow> f64 \<Rightarrow> string \<Rightarrow> ('w, unit) io" where
  "vol_saveFeature s k a vd v srcName =
     save_feature (ws_features s) (wc_code_sha (ws_cfg s)) k a vd v srcName (vol_sourceVersion srcName)"

definition vol_ingestDVOL :: "'w vol_service \<Rightarrow> gotime \<Rightarrow> gotime \<Rightarrow> ('w, unit) io" where
  "vol_ingestDVOL s from to = (case ws_dvol s of None \<Rightarrow> ret () | Some fetch \<Rightarrow>
     forE (\<lambda>a. or_skip (fetch a from (to + 24 * hour_ns)) (\<lambda>pts.
       let rows = map (\<lambda>p. \<lparr>dv_value_date = dp_date p, dv_asset = a, dv_close = dp_close p, dv_source = ''deribit_dvol_v1'',
              dv_hash = dp_hash p\<rparr>) pts
       in save_rows rows (wrapE ''save dvol'' [AStr a] (wr_SaveDVOL (ws_raws s) rows))
            (ws_publish s (rows_event ''raw.volatility.dvol.ingested.v1'' (a @ '':dvol:'' @ fmt_day (dp_date (last pts))) a [] rows))))
     (ws_assets s))"

definition vol_ingestOptionsSnapshot :: "'w vol_service \<Rightarrow> gotime \<Rightarrow> ('w, unit) io" where
  "vol_ingestOptionsSnapshot s vd = (case ws_options s of None \<Rightarrow> ret () | Some fetch \<Rightarrow>
     forE (\<lambda>a. or_skip (fetch a) (\<lambda>snap.
       if \<not> os_has_term snap \<and> \<not> os_has_skew snap then ret ()
       else seqE (if os_has_term snap
              then vol_saveFeature s (fkey IVTermSlopeDailyName (wc_intermediate (ws_cfg s))) a vd (os_term snap) ''deribit_options''
              else ret ())
           (seqE (if os_has_skew snap
              then vol_saveFeature s (fkey IVSkewDailyName (wc_intermediate (ws_cfg s))) a vd (os_skew snap) ''deribit_options''
              else ret ())
           (ws_publish s \<lparr>ev_topic = ''raw.volatility.options.ingested.v1'', ev_aggregate = a @ '':options:'' @ fmt_day vd,
              ev_payload = map_of [(''asset'', AStr a), (''value_date'', AStr (fmt_day vd)), (''num_options'', AInt (os_num snap)),
                (''term_slope'', ABool (os_has_term snap)), (''skew'', ABool (os_has_skew snap))]\<rparr>)))) (ws_assets s))"

text \<open>Three snapshots per asset; none of them is announced.\<close>

definition vol_cg_info :: "'w vol_service \<Rightarrow> 'w cg_options_provider \<Rightarrow> gotime \<Rightarrow> asset \<Rightarrow> ('w, unit) io" where
  "vol_cg_info s p vd a = or_skip (cq_FetchOptionsInfo p a) (\<lambda>pts. if pts = [] then ret () else
     wrapE ''save options info'' [AStr a] (wr_SaveOptionsInfo (ws_raws s)
       (map (\<lambda>p. \<lparr>oq_value_date = vd, oq_symbol = a, oq_exchange = qp_exchange p, oq_oi = qp_oi p, oq_share = qp_share p,
          oq_change24h = qp_change24h p, oq_oi_usd = qp_oi_usd p, oq_volume = qp_volume p, oq_volume_change = qp_volume_change p,
          oq_call_oi = qp_call_oi p, oq_put_oi = qp_put_oi p, oq_source = ''coinglass_v4'', oq_hash = qp_hash p\<rparr>) pts)))"

definition vol_cg_oi :: "'w vol_service \<Rightarrow> 'w cg_options_provider \<Rightarrow> asset \<Rightarrow> ('w, unit) io" where
  "vol_cg_oi s p a = or_skip (cq_FetchOptionsOIHistory p a) (\<lambda>pts. if pts = [] then ret () else
     wrapE ''save options OI history'' [AStr a] (wr_SaveOptionsOIHistory (ws_raws s)
       (map (\<lambda>p. \<lparr>oh_value_date = hp_date p, oh_symbol = a, oh_exchange = hp_exchange p, oh_oi = hp_oi p,
          oh_source = ''coinglass_v4'', oh_hash = hp_hash p\<rparr>) pts)))"

definition vol_cg_pain :: "'w vol_service \<Rightarrow> 'w cg_options_provider \<Rightarrow> gotime \<Rightarrow> asset \<Rightarrow> ('w, unit) io" where
  "vol_cg_pain s p vd a = or_skip (cq_FetchOptionsMaxPain p a ''Deribit'') (\<lambda>pts. if pts = [] then ret () else
     wrapE ''save max pain'' [AStr a] (wr_SaveOptionsMaxPain (ws_raws s)
       (map (\<lambda>p. \<lparr>mp_value_date = vd, mp_expiry = pp_date p, mp_symbol = a, mp_exchange = pp_exchange p, mp_price = pp_price p,
          mp_call_oi = pp_call_oi p, mp_put_oi = pp_put_oi p, mp_call_usd = pp_call_usd p, mp_put_usd = pp_put_usd p,
          mp_call_value = pp_call_value p, mp_put_value = pp_put_value p, mp_source = ''coinglass_v4'', mp_hash = pp_hash p\<rparr>) pts)))"

definition vol_ingestCoinglassOptions :: "'w vol_service \<Rightarrow> gotime \<Rightarrow> ('w, unit) io" where
  "vol_ingestCoinglassOptions s vd = (case ws_cgOptions s of None \<Rightarrow> ret () | Some p \<Rightarrow>
     forE (\<lambda>a. seqE (vol_cg_info s p vd a) (seqE (vol_cg_oi s p a) (vol_cg_pain s p vd a))) (ws_assets s))"

definition vol_ingestDeribitOptionsChain :: "'w vol_service \<Rightarrow> gotime \<Rightarrow> ('w, unit) io" where
  "vol_ingestDeribitOptionsChain s vd = (case ws_chain s of None \<Rightarrow> ret () | Some fetch \<Rightarrow>
     forE (\<lambda>a. or_skip (fetch a) (\<lambda>snaps.
       let rows = map (\<lambda>p. \<lparr>ch_value_date = vd, ch_asset = a, ch_instrument = ck_instrument p, ch_expiry = ck_expiry p,
              ch_strike = ck_strike p, ch_put = ck_put p, ch_oi = ck_oi p, ch_iv = ck_iv p, ch_underlying = ck_underlying p,
              ch_source = ''deribit_v1'', ch_hash = ck_hash p\<rparr>) snaps
       in save_rows rows (wrapE ''save options chain'' [AStr a] (wr_SaveOptionsChain (ws_raws s) rows))
            (ws_publish s (rows_event ''raw.volatility.deribit_options_chain.ingested.v1'' (a @ '':options_chain:'' @ fmt_day vd) a [] rows))))
     (ws_assets s))"

section \<open>Features of a day\<close>

text \<open>
  The net gamma of the dealers over the chain, in millions: puts count negatively; options without a
  usable volatility or price, expired ones and those without gamma are left out.
\<close>

definition gex_step :: "libm \<Rightarrow> gotime \<Rightarrow> f64 \<times> bool \<Rightarrow> chain_snapshot \<Rightarrow> f64 \<times> bool" where
  "gex_step M vd acc c =
     (let (total, any) = acc; dte = int_of_f (fdiv (dur_hours (time_sub (ck_expiry c) vd)) (lit 24));
          gamma = BSGamma M (ck_underlying c) (ck_strike c) (ck_iv c) dte fzero in
      if fle (ck_iv c) fzero \<or> fle (ck_underlying c) fzero then acc
      else if dte \<le> 0 then acc
      else if fle gamma fzero then acc
      else let oiSigned = (if ck_put c then fneg (ck_oi c) else ck_oi c)
           in (fadd total (fmul (fmul (fmul oiSigned gamma) (ck_underlying c)) (ck_underlying c)), True))"

definition gex_total :: "libm \<Rightarrow> gotime \<Rightarrow> chain_snapshot list \<Rightarrow> f64 option" where
  "gex_total M vd chain =
     (let (total, any) = foldl (gex_step M vd) (fzero, False) chain in if any then Some (fdiv total (lit 1000000)) else None)"

definition vol_computeGEXNetDealer :: "libm \<Rightarrow> 'w vol_service \<Rightarrow> asset \<Rightarrow> gotime \<Rightarrow> gotime \<Rightarrow> ('w, f64 option) io" where
  "vol_computeGEXNetDealer M s a vd c = bindE (attempt (wr_OptionsChainAsOf (ws_raws s) a vd c)) (\<lambda>r. case r of
     Inl e \<Rightarrow> ret None | Inr chain \<Rightarrow> ret (gex_total M vd chain))"

definition vol_tryComputeStdDev :: "'w vol_service \<Rightarrow> feature_key \<Rightarrow> asset \<Rightarrow> gotime \<Rightarrow> gotime \<Rightarrow> int \<Rightarrow> int \<Rightarrow> ('w, f64 option) io" where
  "vol_tryComputeStdDev s k a vd c window minObs =
     bindE (attempt (fr_GetSeries (ws_features s) k a (add_days vd (- (window - 1))) vd c)) (\<lambda>r. case r of
       Inl e \<Rightarrow> ret None | Inr series \<Rightarrow> ret (feature_StdDev series minObs))"

text \<open>\<open>if z, ok := s.tryComputeZScore(...); ok { s.saveFeature(...) }\<close> of an intermediate and a final feature.\<close>

definition vol_zscore :: "'w vol_service \<Rightarrow> string \<Rightarrow> string \<Rightarrow> asset \<Rightarrow> gotime \<Rightarrow> gotime \<Rightarrow> int \<Rightarrow> int \<Rightarrow> string \<Rightarrow> ('w, unit) io" where
  "vol_zscore s daily z a vd c window minObs srcName =
     zscore_step (ws_features s) (wc_code_sha (ws_cfg s)) (fkey daily (wc_intermediate (ws_cfg s))) (fkey z (wc_final (ws_cfg s)))
       a vd c window minObs srcName (vol_sourceVersion srcName)"

definition vol_daily :: "'w vol_service \<Rightarrow> asset \<Rightarrow> gotime \<Rightarrow> gotime \<Rightarrow> ('w, unit) io" where
  "vol_daily s a vd c =
     (let v = wc_intermediate (ws_cfg s); dvolKey = fkey DVOLDailyName v; rvKey = fkey RealizedVol30dName v in
      seqE (if_found (wr_GetDVOLCloseAsOf (ws_raws s) a vd c) (\<lambda>x. vol_saveFeature s dvolKey a vd x ''deribit_dvol''))
     (seqE (when_some (wr_RealizedVol30d (ws_raws s) a vd c) (\<lambda>x. vol_saveFeature s rvKey a vd x ''binance_klines''))
     (seqE (if_found (fr_GetLatest (ws_features s) dvolKey a vd c) (\<lambda>dvol.
              if_found (fr_GetLatest (ws_features s) rvKey a vd c) (\<lambda>rv.
                case feature_Diff dvol rv of None \<Rightarrow> ret ()
                | Some spread \<Rightarrow> vol_saveFeature s (fkey IVRVSpreadDailyName v) a vd spread ''deribit_dvol'')))
      (when_some (vol_tryComputeStdDev s dvolKey a vd c 30 20)
         (\<lambda>sd. vol_saveFeature s (fkey DVOLOfDVOL30dName v) a vd sd ''deribit_dvol'')))))"

definition vol_zscores :: "'w vol_service \<Rightarrow> asset \<Rightarrow> gotime \<Rightarrow> gotime \<Rightarrow> ('w, unit) io" where
  "vol_zscores s a vd c =
      seqE (vol_zscore s IVRVSpreadDailyName IVRVSpreadZScore90dName a vd c 90 30 ''deribit_dvol'')
     (seqE (vol_zscore s DVOLDailyName IVSkewProxyZScore90dName a vd c 90 30 ''deribit_dvol'')
     (seqE (vol_zscore s DVOLOfDVOL30dName DVOLOfDVOLZScore180dName a vd c 180 60 ''deribit_dvol'')
     (seqE (vol_zscore s IVTermSlopeDailyName IVTermSlopeZScore90dName a vd c 90 30 ''deribit_options'')
           (vol_zscore s IVSkewDailyName IVSkewRealZScore90dName a vd c 90 30 ''deribit_options''))))"

text \<open>Failing look-ups of the two open interests are passed over, whatever the error.\<close>

definition vol_options :: "'w vol_service \<Rightarrow> asset \<Rightarrow> gotime \<Rightarrow> gotime \<Rightarrow> ('w, unit) io" where
  "vol_options s a vd c =
     (let v = wc_intermediate (ws_cfg s); oiKey = fkey CGOptionsAggOIDailyName v; binSym = AssetToBinanceSymbol a in
      seqE (when_some (wr_AggregatedOIAsOf (ws_raws s) a vd c) (\<lambda>oi. vol_saveFeature s oiKey a vd oi ''coinglass_options_oi''))
     (seqE (or_skip (fr_GetLatest (ws_features s) oiKey a vd c) (\<lambda>nowOI.
              or_skip (fr_GetLatest (ws_features s) oiKey a (add_days vd (- 30)) c) (\<lambda>pastOI.
                case Velocity30d nowOI pastOI of None \<Rightarrow> ret ()
                | Some x \<Rightarrow> vol_saveFeature s (fkey CGOptionsOIVelocity30dName v) a vd x ''coinglass_options_oi'')))
     (seqE (vol_zscore s CGOptionsOIVelocity30dName CGOptionsOIVelocityZScoreName a vd c 90 30 ''coinglass_options_oi'')
     (seqE (when_some (wr_PutCallRatioAsOf (ws_raws s) a vd c)
              (\<lambda>pcr. vol_saveFeature s (fkey CGPutCallRatioDailyName v) a vd pcr ''coinglass_options_info''))
     (seqE (vol_zscore s CGPutCallRatioDailyName CGPutCallRatioZScoreName a vd c 90 30 ''coinglass_options_info'')
     (seqE (when_some (wr_MaxPainNearestAsOf (ws_raws s) a ''Deribit'' vd c) (\<lambda>maxPain.
              if binSym = [] then ret () else
              if_ok (wr_SpotCloseAsOf (ws_raws s) binSym vd c) (\<lambda>spot.
                case CGMaxPainDistancePct spot maxPain of None \<Rightarrow> ret ()
                | Some x \<Rightarrow> vol_saveFeature s (fkey CGMaxPainDistancePctName v) a vd x ''coinglass_options_max_pain'')))
       (vol_zscore s CGMaxPainDistancePctName CGMaxPainDistanceZScoreName a vd c 90 30 ''coinglass_options_max_pain'')))))))"

definition vol_gex :: "libm \<Rightarrow> 'w vol_service \<Rightarrow> asset \<Rightarrow> gotime \<Rightarrow> gotime \<Rightarrow> ('w, unit) io" where
  "vol_gex M s a vd c =
     seqE (when_some (vol_computeGEXNetDealer M s a vd c)
       (\<lambda>x. vol_saveFeature s (fkey GEXNetDealerDailyName (wc_intermediate (ws_cfg s))) a vd x ''deribit_options_chain''))
      (vol_zscore s GEXNetDealerDailyName GEXNetDealerZScore90dName a vd c 90 30 ''deribit_options_chain'')"

definition vol_assetFeatures :: "libm \<Rightarrow> 'w vol_service \<Rightarrow> asset \<Rightarrow> gotime \<Rightarrow> gotime \<Rightarrow> ('w, unit) io" where
  "vol_assetFeatures M s a vd c =
     seqE (vol_daily s a vd c) (seqE (vol_zscores s a vd c) (seqE (vol_options s a vd c) (vol_gex M s a vd c)))"

section \<open>The score of a day\<close>

definition vol_gatherScoreInputs :: "'w vol_service \<Rightarrow> asset \<Rightarrow> gotime \<Rightarrow> gotime \<Rightarrow> ('w, vol_inputs) io" where
  "vol_gatherScoreInputs s a vd c =
     (let fr = ws_features s; fv = wc_final (ws_cfg s);
          spreadKey = fkey IVRVSpreadZScore90dName fv; skewRealKey = fkey IVSkewRealZScore90dName fv;
          skewProxyKey = fkey IVSkewProxyZScore90dName fv; vovKey = fkey DVOLOfDVOLZScore180dName fv;
          termKey = fkey IVTermSlopeZScore90dName fv; velKey = fkey CGOptionsOIVelocityZScoreName fv;
          pcrKey = fkey CGPutCallRatioZScoreName fv; mpKey = fkey CGMaxPainDistanceZScoreName fv;
          gexKey = fkey GEXNetDealerZScore90dName fv
      in
      bindE (feature_value fr spreadKey a vd c) (\<lambda>(sp, spOk).
      bindE (feature_value fr skewRealKey a vd c) (\<lambda>(sr, srOk).
      bindE (feature_value fr skewProxyKey a vd c) (\<lambda>(sk, skOk).
      bindE (feature_value fr vovKey a vd c) (\<lambda>(vo, voOk).
      bindE (feature_value fr termKey a vd c) (\<lambda>(te, teOk).
      bindE (feature_number fr velKey a vd c) (\<lambda>(ve, veOk).
      bindE (feature_number fr pcrKey a vd c) (\<lambda>(pc, pcOk).
      bindE (feature_number fr mpKey a vd c) (\<lambda>(pa, paOk).
      bindE (feature_number fr gexKey a vd c) (\<lambda>(ge, geOk).
        ret \<lparr>wi_asset = a, wi_value_date = vd, wi_spread = sp, wi_spread_ok = spOk, wi_skew_real = sr, wi_skew_real_ok = srOk,
             wi_skew_proxy = sk, wi_skew_proxy_ok = skOk, wi_vov = vo, wi_vov_ok = voOk, wi_term = te, wi_term_ok = teOk,
             wi_velocity = ve, wi_velocity_ok = veOk, wi_pcr = pc, wi_pcr_ok = pcOk, wi_pain = pa, wi_pain_ok = paOk,
             wi_gex = ge, wi_gex_ok = geOk,
             wi_features = map FeatureKey_String ([spreadKey, vovKey]
               @ (if srOk then [skewRealKey] else if skOk then [skewProxyKey] else []) @ (if teOk then [termKey] else [])
               @ (if veOk then [velKey] else []) @ (if pcOk then [pcrKey] else []) @ (if paOk then [mpKey] else [])
               @ (if geOk then [gexKey] else []))\<rparr>))))))))))"

definition vol_computeAssetDay :: "libm \<Rightarrow> 'w vol_service \<Rightarrow> asset \<Rightarrow> gotime \<Rightarrow> gotime \<Rightarrow> ('w, unit) io" where
  "vol_computeAssetDay M s a vd c =
     seqE (vol_assetFeatures M s a vd c)
     (bindE (wrapE ''gather score inputs'' [] (vol_gatherScoreInputs s a vd c)) (\<lambda>i.
       store_score (ws_scores s) (ws_publish s) (score_event ''scores.volatility.completed.v1''
         (wc_model_version (ws_cfg s)) (wc_config_version (ws_cfg s)) a vd) (vol_computeScore M i (ws_cfg s))))"

definition vol_computeDay :: "libm \<Rightarrow> 'w vol_service \<Rightarrow> gotime \<Rightarrow> gotime \<Rightarrow> ('w, unit) io" where
  "vol_computeDay M s vd c = forE (\<lambda>a. wrapE ''asset'' [AStr a] (vol_computeAssetDay M s a vd c)) (ws_assets s)"

definition vol_computeRange :: "libm \<Rightarrow> 'w vol_service \<Rightarrow> gotime \<Rightarrow> gotime \<Rightarrow> gotime \<Rightarrow> ('w, unit) io" where
  "vol_computeRange M s from to c = forE (\<lambda>d. wrapE ''day'' [AStr (fmt_day d)] (vol_computeDay M s d c)) (day_range from to)"

text \<open>The ingestion of a run; a backfill leaves out the option chain.\<close>

definition vol_ingest :: "'w vol_service \<Rightarrow> gotime \<Rightarrow> gotime \<Rightarrow> ('w, unit) io" where
  "vol_ingest s from to =
     seqE (wrapE ''ingest dvol'' [] (vol_ingestDVOL s from to))
    (seqE (wrapE ''ingest options'' [] (vol_ingestOptionsSnapshot s to))
          (wrapE ''ingest coinglass options'' [] (vol_ingestCoinglassOptions s to)))"

definition vol_ingestRun :: "'w vol_service \<Rightarrow> gotime \<Rightarrow> ('w, unit) io" where
  "vol_ingestRun s vd = seqE (vol_ingest s (add_days vd (- 7)) vd) (wrapE ''ingest deribit chain'' [] (vol_ingestDeribitOptionsChain s vd))"

definition vol_RunOnce :: "libm \<Rightarrow> 'w vol_service \<Rightarrow> gotime \<Rightarrow> ('w, unit) io" where
  "vol_RunOnce M s valueDate =
     (let vd = UTCDay valueDate in
      seqE (vol_ingestRun s vd) (bindE (ws_clock s) (\<lambda>cutoff. vol_computeRange M s vd vd cutoff)))"

definition vol_RunBackfill :: "libm \<Rightarrow> 'w vol_service \<Rightarrow> gotime \<Rightarrow> gotime \<Rightarrow> ('w, unit) io" where
  "vol_RunBackfill M s from to =
     (let f = UTCDay from; t = UTCDay to in
      if t < f then throw (Fresh ''backfill from (%s) after to (%s)'' [AStr (fmt_day f), AStr (fmt_day t)])
      else seqE (vol_ingest s f t) (bindE (ws_clock s) (\<lambda>now. vol_computeRange M s f t (now + 24 * hour_ns))))"

section \<open>What the service's steps obey\<close>

locale vol_ports = feature_port R "ws_features s" for R :: "'w \<Rightarrow> 'w \<Rightarrow> bool" and s :: "'w vol_service" +
  assumes saves: "obeys R (wr_SaveDVOL (ws_raws s) r1)" "obeys R (wr_SaveOptionsInfo (ws_raws s) r2)"
      "obeys R (wr_SaveOptionsOIHistory (ws_raws s) r3)" "obeys R (wr_SaveOptionsMaxPain (ws_raws s) r4)"
      "obeys R (wr_SaveOptionsChain (ws_raws s) r5)"
    and raws: "obeys R (wr_GetDVOLCloseAsOf (ws_raws s) a vd c)" "obeys R (wr_RealizedVol30d (ws_raws s) a vd c)"
      "obeys R (wr_AggregatedOIAsOf (ws_raws s) smb vd c)" "obeys R (wr_PutCallRatioAsOf (ws_raws s) smb vd c)"
      "obeys R (wr_MaxPainNearestAsOf (ws_raws s) smb exch vd c)" "obeys R (wr_SpotCloseAsOf (ws_raws s) smb vd c)"
      "obeys R (wr_OptionsChainAsOf (ws_raws s) a vd c)"
    and dvol: "ws_dvol s = Some f1 \<Longrightarrow> obeys R (f1 a from to)"
    and options: "ws_options s = Some f2 \<Longrightarrow> obeys R (f2 a)"
    and cg: "ws_cgOptions s = Some p \<Longrightarrow> obeys R (cq_FetchOptionsInfo p smb) \<and> obeys R (cq_FetchOptionsOIHistory p smb) \<and>
      obeys R (cq_FetchOptionsMaxPain p smb exch)"
    and chain: "ws_chain s = Some f3 \<Longrightarrow> obeys R (f3 a)"
    and publish: "obeys R (ws_publish s ev)" and clock: "obeys R (ws_clock s)"
begin

lemma save_obeys: "obeys R (vol_saveFeature s k a vd v sn)"
  unfolding vol_saveFeature_def by (intro obeys_features)

lemma ingest_obeys: "obeys R (vol_ingest s from to)"
  unfolding vol_ingest_def vol_ingestDVOL_def vol_ingestOptionsSnapshot_def vol_ingestCoinglassOptions_def vol_cg_info_def vol_cg_oi_def
    vol_cg_pain_def Let_def
  by (intro obeys_more obeys_option saves publish save_obeys; (drule cg, elim conjE, assumption | erule dvol options))

lemma ingestRun_obeys: "obeys R (vol_ingestRun s vd)"
  unfolding vol_ingestRun_def vol_ingestDeribitOptionsChain_def Let_def
  by (intro obeys_more obeys_option ingest_obeys saves publish; erule chain)

lemma daily_obeys: "obeys R (vol_daily s a vd c)"
  unfolding vol_daily_def vol_tryComputeStdDev_def Let_def
  by (intro obeys_more obeys_option obeys_sum raws obeys_features save_obeys)

lemma zscore_obeys: "obeys R (vol_zscore s d z a vd c w n sn)"
  unfolding vol_zscore_def by (rule obeys_zscore_step)

lemma asset_obeys: "obeys R (vol_assetFeatures M s a vd c)"
  unfolding vol_assetFeatures_def vol_zscores_def vol_options_def vol_gex_def vol_computeGEXNetDealer_def Let_def
  by (intro obeys_more obeys_option obeys_sum daily_obeys zscore_obeys raws obeys_features save_obeys)

lemma gather_obeys: "obeys R (vol_gatherScoreInputs s a vd c)"
  unfolding vol_gatherScoreInputs_def Let_def by (intro obeys_more obeys_pair obeys_features)

end

end
