(* ===== verification/PgVolatility.thy ===== *)
theory PgVolatility
  imports VolatilityService PgScores LiquidityRun PgLeverage
begin

text \<open>
  \<open>internal/infra/postgres/volatility\<close>: the ports of the volatility service on the database, and what the
  service does there.
\<close>

section \<open>The repositories\<close>

definition VolFeatureRepo_Save :: "feature \<Rightarrow> ('a world_scheme, unit) io" where
  "VolFeatureRepo_Save f = FeatureRepo_Save InsertVolatilityFeature f"

definition VolFeatureRepo_GetLatest :: "feature_key \<Rightarrow> asset \<Rightarrow> gotime \<Rightarrow> gotime \<Rightarrow> ('a world_scheme, f64) io" where
  "VolFeatureRepo_GetLatest k a vd cutoff = InTx_found (GetLatestVolatilityFeature k a vd cutoff)"

definition VolFeatureRepo_GetSeries :: "feature_key \<Rightarrow> asset \<Rightarrow> gotime \<Rightarrow> gotime \<Rightarrow> gotime \<Rightarrow> ('a world_scheme, f64 list) io" where
  "VolFeatureRepo_GetSeries k a from to cutoff = InTx (GetVolatilityFeatureSeries k a from to cutoff)"

definition pg_vol_features :: "'a world_scheme feature_repo" where
  "pg_vol_features = \<lparr>fr_Save = VolFeatureRepo_Save, fr_GetLatest = VolFeatureRepo_GetLatest, fr_GetSeries = VolFeatureRepo_GetSeries\<rparr>"

lemma pg_vol_features_table: "pg_vol_features = table_features ''features_volatility''"
proof -
  have "VolFeatureRepo_Save = FeatureRepo_Save (InsertDomainFeature ''features_volatility'')"
    unfolding VolFeatureRepo_Save_def[abs_def] InsertVolatilityFeature_def[abs_def] ..
  then show ?thesis
    by (simp add: pg_vol_features_def table_features_def VolFeatureRepo_GetLatest_def VolFeatureRepo_GetSeries_def
      GetLatestVolatilityFeature_def GetVolatilityFeatureSeries_def fun_eq_iff)
qed

definition VolRawRepo_SaveDVOL :: "dvol_row list \<Rightarrow> ('a world_scheme, unit) io" where
  "VolRawRepo_SaveDVOL rows = save_raws (\<lambda>x. wrapE ''insert raw dvol %s/%s'' [AStr (dv_asset x), AStr (fmt_day (dv_value_date x))]
     (InsertRawDeribitDVOL x)) rows"

definition VolRawRepo_GetDVOLCloseAsOf :: "asset \<Rightarrow> gotime \<Rightarrow> gotime \<Rightarrow> ('a world_scheme, f64) io" where
  "VolRawRepo_GetDVOLCloseAsOf a vd cutoff = found_InTx (GetDVOLCloseAsOf a vd cutoff)"

definition VolRawRepo_RealizedVol30d :: "libm \<Rightarrow> asset \<Rightarrow> gotime \<Rightarrow> gotime \<Rightarrow> ('a world_scheme, f64 option) io" where
  "VolRawRepo_RealizedVol30d M a vd cutoff = (let smb = AssetToBinanceSymbol a in
     if smb = [] then ret None else InTx (RealizedVol30d M smb vd cutoff))"

definition VolRawRepo_SaveCoinglassOptionsInfo :: "options_info_row list \<Rightarrow> ('a world_scheme, unit) io" where
  "VolRawRepo_SaveCoinglassOptionsInfo rows = save_raws InsertRawCoinglassOptionsInfo rows"

definition VolRawRepo_SaveCoinglassOptionsOIHistory :: "options_oi_row list \<Rightarrow> ('a world_scheme, unit) io" where
  "VolRawRepo_SaveCoinglassOptionsOIHistory rows = save_raws InsertRawCoinglassOptionsOIHistory rows"

definition VolRawRepo_SaveCoinglassOptionsMaxPain :: "max_pain_row list \<Rightarrow> ('a world_scheme, unit) io" where
  "VolRawRepo_SaveCoinglassOptionsMaxPain rows = save_raws InsertRawCoinglassOptionsMaxPain rows"

definition VolRawRepo_SpotCloseAsOf :: "string \<Rightarrow> gotime \<Rightarrow> gotime \<Rightarrow> ('a world_scheme, f64 option) io" where
  "VolRawRepo_SpotCloseAsOf smb vd cutoff = InTx (GetBinanceKlineCloseAsOf smb vd cutoff)"

definition VolRawRepo_SaveDeribitOptionsChain :: "chain_row list \<Rightarrow> ('a world_scheme, unit) io" where
  "VolRawRepo_SaveDeribitOptionsChain rows = save_raws InsertRawDeribitOptionsChain rows"

text \<open>The instrument and the hash are not read back.\<close>

definition chain_snapshot_of :: "chain_point \<Rightarrow> chain_snapshot" where
  "chain_snapshot_of p = \<lparr>ck_instrument = [], ck_expiry = cp_expiry p, ck_strike = cp_strike p, ck_put = cp_put p, ck_oi = cp_oi p,
     ck_iv = cp_iv p, ck_underlying = cp_underlying p, ck_hash = []\<rparr>"

definition VolRawRepo_GetDeribitOptionsChainAsOf :: "sql_lib \<Rightarrow> asset \<Rightarrow> gotime \<Rightarrow> gotime \<Rightarrow> ('a world_scheme, chain_snapshot list) io" where
  "VolRawRepo_GetDeribitOptionsChainAsOf L a vd cutoff =
     InTx (bindE (GetDeribitOptionsChainAsOf L a vd cutoff) (\<lambda>rows. ret (map chain_snapshot_of rows)))"

definition VolRawRepo_GetCoinglassOptionsAggregatedOIAsOf :: "sql_lib \<Rightarrow> string \<Rightarrow> gotime \<Rightarrow> gotime \<Rightarrow> ('a world_scheme, f64 option) io" where
  "VolRawRepo_GetCoinglassOptionsAggregatedOIAsOf L smb vd c = InTx (GetCoinglassOptionsAggregatedOIAsOf L smb vd c)"

definition VolRawRepo_GetCoinglassOptionsPutCallRatioAsOf :: "sql_lib \<Rightarrow> string \<Rightarrow> gotime \<Rightarrow> gotime \<Rightarrow> ('a world_scheme, f64 option) io" where
  "VolRawRepo_GetCoinglassOptionsPutCallRatioAsOf L smb vd c = InTx (GetCoinglassOptionsPutCallRatioAsOf L smb vd c)"

definition VolRawRepo_GetCoinglassOptionsMaxPainNearestAsOf :: "string \<Rightarrow> string \<Rightarrow> gotime \<Rightarrow> gotime \<Rightarrow> ('a world_scheme, f64 option) io" where
  "VolRawRepo_GetCoinglassOptionsMaxPainNearestAsOf smb exch vd c = InTx (GetCoinglassOptionsMaxPainNearestAsOf smb exch vd c)"

definition pg_vol_raws :: "libm \<Rightarrow> sql_lib \<Rightarrow> 'a world_scheme vol_raws" where
  "pg_vol_raws M L = \<lparr>wr_SaveDVOL = VolRawRepo_SaveDVOL, wr_GetDVOLCloseAsOf = VolRawRepo_GetDVOLCloseAsOf,
     wr_RealizedVol30d = VolRawRepo_RealizedVol30d M, wr_SaveOptionsInfo = VolRawRepo_SaveCoinglassOptionsInfo,
     wr_SaveOptionsOIHistory = VolRawRepo_SaveCoinglassOptionsOIHistory, wr_SaveOptionsMaxPain = VolRawRepo_SaveCoinglassOptionsMaxPain,
     wr_AggregatedOIAsOf = VolRawRepo_GetCoinglassOptionsAggregatedOIAsOf L,
     wr_PutCallRatioAsOf = VolRawRepo_GetCoinglassOptionsPutCallRatioAsOf L,
     wr_MaxPainNearestAsOf = VolRawRepo_GetCoinglassOptionsMaxPainNearestAsOf,
     wr_SpotCloseAsOf = VolRawRepo_SpotCloseAsOf, wr_SaveOptionsChain = VolRawRepo_SaveDeribitOptionsChain,
     wr_OptionsChainAsOf = VolRawRepo_GetDeribitOptionsChainAsOf L\<rparr>"

record 'w vol_providers =
  wp_dvol :: "'w dvol_provider option"
  wp_options :: "'w options_provider option"
  wp_cgOptions :: "'w cg_options_provider option"
  wp_chain :: "'w chain_provider option"

definition pg_vol_service :: "libm \<Rightarrow> sql_lib \<Rightarrow> 'a world_scheme vol_providers \<Rightarrow> vol_config \<Rightarrow> asset list \<Rightarrow> 'a world_scheme vol_service" where
  "pg_vol_service M L P cfg assets = vol_NewService pg_vol_features ScoreRepo_Save (pg_vol_raws M L) (wp_dvol P) (wp_options P)
     (wp_cgOptions P) (wp_chain P) Publisher_Publish clock_Now cfg assets"

lemma pg_vol_sel [simp]:
  "ws_features (pg_vol_service M L P cfg assets) = table_features ''features_volatility''"
  "ws_scores (pg_vol_service M L P cfg assets) = ScoreRepo_Save" "ws_raws (pg_vol_service M L P cfg assets) = pg_vol_raws M L"
  "ws_dvol (pg_vol_service M L P cfg assets) = wp_dvol P" "ws_options (pg_vol_service M L P cfg assets) = wp_options P"
  "ws_cgOptions (pg_vol_service M L P cfg assets) = wp_cgOptions P" "ws_chain (pg_vol_service M L P cfg assets) = wp_chain P"
  "ws_publish (pg_vol_service M L P cfg assets) = Publisher_Publish" "ws_clock (pg_vol_service M L P cfg assets) = clock_Now"
  "ws_cfg (pg_vol_service M L P cfg assets) = vol_Defaults cfg"
  "ws_assets (pg_vol_service M L P cfg assets) = (if assets = [] then AssetsTradeable else assets)"
  by (simp_all add: pg_vol_service_def vol_NewService_def pg_vol_features_table)

section \<open>What each port does to the tables\<close>

lemma step_vol_saves:
  "obeys ingest_step (VolRawRepo_SaveDVOL r1)" "obeys ingest_step (VolRawRepo_SaveCoinglassOptionsInfo r2)"
  "obeys ingest_step (VolRawRepo_SaveCoinglassOptionsOIHistory r3)" "obeys ingest_step (VolRawRepo_SaveCoinglassOptionsMaxPain r4)"
  "obeys ingest_step (VolRawRepo_SaveDeribitOptionsChain r5)"
  unfolding VolRawRepo_SaveDVOL_def VolRawRepo_SaveCoinglassOptionsInfo_def VolRawRepo_SaveCoinglassOptionsOIHistory_def
    VolRawRepo_SaveCoinglassOptionsMaxPain_def VolRawRepo_SaveDeribitOptionsChain_def InsertRawDeribitDVOL_def
    InsertRawCoinglassOptionsInfo_def InsertRawCoinglassOptionsOIHistory_def InsertRawCoinglassOptionsMaxPain_def
    InsertRawDeribitOptionsChain_def
  by (intro step_save_raws raw_insert_wrap raw_insert_exec)+

lemma vol_quiet: "quiet (GetDVOLCloseAsOf a vd c)" "quiet (RealizedVol30d M smb vd c)" "quiet (GetCoinglassOptionsAggregatedOIAsOf L smb vd c)"
  "quiet (GetCoinglassOptionsPutCallRatioAsOf L smb vd c)" "quiet (GetCoinglassOptionsMaxPainNearestAsOf smb exch vd c)"
  "quiet (GetBinanceKlineCloseAsOf smb vd c)" "quiet (bindE (GetDeribitOptionsChainAsOf L a vd c) (\<lambda>rows. ret (map chain_snapshot_of rows)))"
  unfolding GetDVOLCloseAsOf_def RealizedVol30d_def GetCoinglassOptionsAggregatedOIAsOf_def GetCoinglassOptionsPutCallRatioAsOf_def
    GetCoinglassOptionsMaxPainNearestAsOf_def GetBinanceKlineCloseAsOf_def GetDeribitOptionsChainAsOf_def GetBinanceKlineCloseSeries_def
  by (intro quiet_intros quiet_shapes)+

lemma vol_replies: "replies (GetDVOLCloseAsOf a vd c)" "replies (RealizedVol30d M smb vd c)"
  "replies (GetCoinglassOptionsAggregatedOIAsOf L smb vd c)" "replies (GetCoinglassOptionsPutCallRatioAsOf L smb vd c)"
  "replies (GetCoinglassOptionsMaxPainNearestAsOf smb exch vd c)" "replies (GetBinanceKlineCloseAsOf smb vd c)"
  "replies (bindE (GetDeribitOptionsChainAsOf L a vd c) (\<lambda>rows. ret (map chain_snapshot_of rows)))"
  unfolding GetDVOLCloseAsOf_def RealizedVol30d_def GetCoinglassOptionsAggregatedOIAsOf_def GetCoinglassOptionsPutCallRatioAsOf_def
    GetCoinglassOptionsMaxPainNearestAsOf_def GetBinanceKlineCloseAsOf_def GetDeribitOptionsChainAsOf_def GetBinanceKlineCloseSeries_def
  by (intro replies_intros replies_shapes)+

text \<open>The data providers only talk to the network: they do not write to the database.\<close>

definition vol_providers_ok :: "'a world_scheme vol_providers \<Rightarrow> bool" where
  "vol_providers_ok P \<longleftrightarrow> (\<forall>f\<in>set_option (wp_dvol P). \<forall>a from to. obeys ingest_step (f a from to)) \<and>
     (\<forall>f\<in>set_option (wp_options P). \<forall>a. obeys ingest_step (f a)) \<and>
     (\<forall>p\<in>set_option (wp_cgOptions P). \<forall>smb exch. obeys ingest_step (cq_FetchOptionsInfo p smb) \<and>
        obeys ingest_step (cq_FetchOptionsOIHistory p smb) \<and> obeys ingest_step (cq_FetchOptionsMaxPain p smb exch)) \<and>
     (\<forall>f\<in>set_option (wp_chain P). \<forall>a. obeys ingest_step (f a))"

lemma step_vol_raws:
  "obeys ingest_step (wr_GetDVOLCloseAsOf (pg_vol_raws M L) a vd c)" "obeys ingest_step (wr_RealizedVol30d (pg_vol_raws M L) a vd c)"
  "obeys ingest_step (wr_AggregatedOIAsOf (pg_vol_raws M L) smb vd c)" "obeys ingest_step (wr_PutCallRatioAsOf (pg_vol_raws M L) smb vd c)"
  "obeys ingest_step (wr_MaxPainNearestAsOf (pg_vol_raws M L) smb exch vd c)" "obeys ingest_step (wr_SpotCloseAsOf (pg_vol_raws M L) smb vd c)"
  "obeys ingest_step (wr_OptionsChainAsOf (pg_vol_raws M L) a vd c)"
  unfolding pg_vol_raws_def vol_raws.simps VolRawRepo_GetDVOLCloseAsOf_def VolRawRepo_RealizedVol30d_def VolRawRepo_SpotCloseAsOf_def
    VolRawRepo_GetCoinglassOptionsAggregatedOIAsOf_def VolRawRepo_GetCoinglassOptionsPutCallRatioAsOf_def VolRawRepo_GetCoinglassOptionsMaxPainNearestAsOf_def
    VolRawRepo_GetDeribitOptionsChainAsOf_def Let_def
  by (intro istep.obeys_if istep.obeys_ret step_found_InTx step_quiet vol_quiet)+

lemma pg_vol_ports:
  assumes "vol_providers_ok P"
  shows "vol_ports feature_step (pg_vol_service M L P cfg assets)"
  using assms unfolding vol_providers_ok_def
  by unfold_locales (auto simp: pg_vol_raws_def intro!: ingest_feature step_vol_saves step_Publish step_clock
      step_vol_raws[unfolded pg_vol_raws_def vol_raws.simps] tport.Save tport.GetLatest tport.GetSeries)

section \<open>Runs\<close>

abbreviation vol_event :: "vol_config \<Rightarrow> gotime \<Rightarrow> asset \<Rightarrow> f64 \<Rightarrow> event" where
  "vol_event cfg vd a \<equiv> score_event ''scores.volatility.completed.v1'' (wc_model_version cfg) (wc_config_version cfg) a vd"

text \<open>Ingestion saves features, so the run is a \<open>scoring_run\<close> only.\<close>

lemma vol_scoring_run:
  assumes "vol_providers_ok P"
  shows "scoring_run (vol_RunOnce M (pg_vol_service M L P cfg assets) vd)
    (vol_ingestRun (pg_vol_service M L P cfg assets) (UTCDay vd)) (\<lambda>c. ret ())
    (\<lambda>a. vol_assetFeatures M (pg_vol_service M L P cfg assets) a (UTCDay vd))
    (\<lambda>a. vol_gatherScoreInputs (pg_vol_service M L P cfg assets) a (UTCDay vd))
    (\<lambda>i. vol_computeScore M i (vol_Defaults cfg)) (vol_event (vol_Defaults cfg) (UTCDay vd)) (UTCDay vd)
    (if assets = [] then AssetsTradeable else assets)"
proof
  let ?s = "pg_vol_service M L P cfg assets"
  show "vol_RunOnce M ?s vd = seqE (vol_ingestRun ?s (UTCDay vd)) (bindE clock_Now (\<lambda>c.
      wrapE ''day'' [AStr (fmt_day (UTCDay vd))] (seqE (ret ())
      (forE (\<lambda>a. wrapE ''asset'' [AStr a] (seqE (vol_assetFeatures M ?s a (UTCDay vd) c)
         (bindE (wrapE ''gather score inputs'' [] (vol_gatherScoreInputs ?s a (UTCDay vd) c))
         (\<lambda>i. store_score ScoreRepo_Save Publisher_Publish (vol_event (vol_Defaults cfg) (UTCDay vd) a)
           (vol_computeScore M i (vol_Defaults cfg))))))
        (if assets = [] then AssetsTradeable else assets)))))"
    by (simp add: vol_RunOnce_def vol_computeRange_def day_range_self vol_computeDay_def vol_computeAssetDay_def Let_def seqE_ret ret_seqE
      split del: if_split)
  note ports = pg_vol_ports[OF assms]
  show "obeys feature_step (vol_ingestRun ?s (UTCDay vd))" by (rule vol_ports.ingestRun_obeys[OF ports])
  show "obeys feature_step (vol_assetFeatures M ?s a (UTCDay vd) c)" for a c by (rule vol_ports.asset_obeys[OF ports])
  show "obeys feature_step (vol_gatherScoreInputs ?s a (UTCDay vd) c)" for a c by (rule vol_ports.gather_obeys[OF ports])
qed (rule fstep.obeys_ret)

definition offline_vol :: "'a world_scheme vol_providers" where
  "offline_vol = \<lparr>wp_dvol = None, wp_options = None, wp_cgOptions = None, wp_chain = None\<rparr>"

lemma offline_vol_ok: "vol_providers_ok offline_vol"
  by (simp add: offline_vol_def vol_providers_ok_def)

interpretation vol_offline: vol_ports feature_step "pg_vol_service M L offline_vol cfg assets"
  by (rule pg_vol_ports[OF offline_vol_ok])

interpretation vol_offline_run: scoring_run "vol_RunOnce M (pg_vol_service M L offline_vol cfg assets) vd"
    "vol_ingestRun (pg_vol_service M L offline_vol cfg assets) (UTCDay vd)" "\<lambda>c. ret ()"
    "\<lambda>a. vol_assetFeatures M (pg_vol_service M L offline_vol cfg assets) a (UTCDay vd)"
    "\<lambda>a. vol_gatherScoreInputs (pg_vol_service M L offline_vol cfg assets) a (UTCDay vd)"
    "\<lambda>i. vol_computeScore M i (vol_Defaults cfg)" "vol_event (vol_Defaults cfg) (UTCDay vd)" "UTCDay vd"
    "if assets = [] then AssetsTradeable else assets"
  by (rule vol_scoring_run[OF offline_vol_ok])

lemma vol_gather_shape:
  assumes "vol_gatherScoreInputs s a vd c w = (Inr i, w')"
  shows "wi_asset i = a" "wi_value_date i = vd"
  using assms unfolding vol_gatherScoreInputs_def Let_def by (auto simp: bindE_eq_Inr split: prod.splits)

lemma vol_cfg_Defaults: "vol_cfg_ok (vol_Defaults cfg) = vol_cfg_ok cfg"
  by (simp add: vol_cfg_ok_def)

lemma vol_run_scores:
  assumes p: "vol_providers_ok P" and run: "vol_RunOnce M (pg_vol_service M L P cfg assets) vd w = (Inr (), w')"
    and cfg: "vol_cfg_ok cfg" and M: "go_libm M"
  shows "\<exists>new. w_scores w' = w_scores w @ new \<and>
    list_all2 (\<lambda>a row. ds_asset (r_val row) = a \<and> ds_domain (r_val row) = DomainVolatility \<and> ds_value_date (r_val row) = UTCDay vd \<and>
        fin_in (- 1) 1 (ds_score (r_val row)))
      (if assets = [] then AssetsTradeable else assets) new"
  by (rule scoring_run.run_scores[OF vol_scoring_run[OF p] run])
    (use cfg in \<open>auto simp: vol_cfg_Defaults dest: vol_gather_shape intro!: go_libm.vol_score_in(1)[OF M]\<close>)

section \<open>The run succeeds\<close>

lemma vol_storable:
  assumes M: "go_libm M" and "vol_cfg_ok cfg" "wc_model_version cfg \<noteq> []" "Asset_Validate (wi_asset i) = None" "wi_value_date i \<noteq> zero_time"
  shows "storable (vol_computeScore M i (vol_Defaults cfg))"
proof (rule storableI)
  have c: "vol_cfg_ok (vol_Defaults cfg)" using assms(2) by (simp add: vol_cfg_Defaults)
  show "fin_in (- 1) 1 (ds_score (vol_computeScore M i (vol_Defaults cfg)))"
    "\<forall>v\<in>ran (ds_components (vol_computeScore M i (vol_Defaults cfg))). fin_in (- 1) 1 v"
    using go_libm.vol_score_in[OF M c] by simp_all
  obtain x n where cr: "vol_cross M (wc_scale (vol_Defaults cfg)) i = (x, n)" by fastforce
  have n: "is_finite n" using go_libm.vol_cross_in[OF M, of "wc_scale (vol_Defaults cfg)" i] c cr by (simp add: vol_cfg_ok_def Let_def)
  show "json_anys (ds_quality (vol_computeScore M i (vol_Defaults cfg)))"
    unfolding json_anys_def vol_computeScore_def Let_def vol_Defaults_idem cr prod.case domain_score.simps
    by (rule ran_map_of_all) (simp add: n)
  show "ds_model_version (vol_computeScore M i (vol_Defaults cfg)) \<noteq> []"
    using assms(3) by (simp add: vol_Defaults_def)
qed (use assms in \<open>simp_all add: AllDomains_def\<close>)

lemma total_vol_raws:
  "finds healthy (wr_GetDVOLCloseAsOf (pg_vol_raws M L) a vd c)"
  "total_io healthy (wr_RealizedVol30d (pg_vol_raws M L) a vd c) (\<lambda>_. True)"
  "total_io healthy (wr_AggregatedOIAsOf (pg_vol_raws M L) smb vd c) (\<lambda>_. True)"
  "total_io healthy (wr_PutCallRatioAsOf (pg_vol_raws M L) smb vd c) (\<lambda>_. True)"
  "total_io healthy (wr_MaxPainNearestAsOf (pg_vol_raws M L) smb exch vd c) (\<lambda>_. True)"
  "total_io healthy (wr_SpotCloseAsOf (pg_vol_raws M L) smb vd c) (\<lambda>_. True)"
  "total_io healthy (wr_OptionsChainAsOf (pg_vol_raws M L) a vd c) (\<lambda>_. True)"
  unfolding pg_vol_raws_def vol_raws.simps VolRawRepo_GetDVOLCloseAsOf_def VolRawRepo_RealizedVol30d_def VolRawRepo_SpotCloseAsOf_def
    VolRawRepo_GetCoinglassOptionsAggregatedOIAsOf_def VolRawRepo_GetCoinglassOptionsPutCallRatioAsOf_def VolRawRepo_GetCoinglassOptionsMaxPainNearestAsOf_def
    VolRawRepo_GetDeribitOptionsChainAsOf_def Let_def
  by (intro finds_found_InTx total_if total_skip total_replies vol_quiet vol_replies)+

lemma total_vol_save: "total_io healthy (vol_saveFeature (pg_vol_service M L P cfg assets) k a vd v sn) (\<lambda>_. True)"
  "total_io healthy (vol_zscore (pg_vol_service M L P cfg assets) d z a vd c n m sn') (\<lambda>_. True)"
  unfolding vol_saveFeature_def vol_zscore_def pg_vol_sel by (rule total_table)+

lemmas total_vol = total_vol_raws total_vol_raws(2-)[THEN total_attempt1] total_vol_save total_table total_skip

lemma total_vol_assetFeatures: "total_io healthy (vol_assetFeatures M (pg_vol_service M' L P cfg assets) a vd c) (\<lambda>_. True)"
  unfolding vol_assetFeatures_def vol_daily_def vol_zscores_def vol_options_def vol_gex_def vol_computeGEXNetDealer_def
    vol_tryComputeStdDev_def Let_def pg_vol_sel
  by (intro total_seq1 total_when_some total_if_found total_or_skip total_if_ok total_option total_bind1 total_sum total_if total_vol)

lemma total_vol_gather: "total_io healthy (vol_gatherScoreInputs (pg_vol_service M L P cfg assets) a vd c) (\<lambda>i. wi_asset i = a \<and> wi_value_date i = vd)"
  unfolding vol_gatherScoreInputs_def Let_def pg_vol_sel
  by (intro total_bind1 total_table_value total_pair total_ret) simp

theorem vol_run_succeeds:
  assumes M: "go_libm M" and "vol_cfg_ok cfg" "wc_model_version cfg \<noteq> []" "\<forall>a\<in>set assets. Asset_Validate a = None" "UTCDay vd \<noteq> zero_time"
    and p: "vol_providers_ok P" and h: "healthy w"
    and ingest: "fst (vol_ingestRun (pg_vol_service M L P cfg assets) (UTCDay vd) w) = Inr ()"
  shows "\<exists>w'. vol_RunOnce M (pg_vol_service M L P cfg assets) vd w = (Inr (), w') \<and> healthy w'"
proof (rule scoring_run.run_succeeds[OF vol_scoring_run[OF p] _ _ _ _ h ingest])
  fix a c assume "a \<in> set (if assets = [] then AssetsTradeable else assets)"
  then have v: "Asset_Validate a = None" using assms(4) AssetsTradeable_valid by (auto split: if_splits)
  show "total_io healthy (vol_gatherScoreInputs (pg_vol_service M L P cfg assets) a (UTCDay vd) c)
      (\<lambda>i. storable (vol_computeScore M i (vol_Defaults cfg)))"
    by (rule total_weaken[OF total_vol_gather]) (use v assms in \<open>auto intro!: vol_storable\<close>)
qed (intro total_skip total_vol_assetFeatures | erule score_event_json)+

section \<open>An example\<close>

definition ex_vol_config :: vol_config where
  "ex_vol_config = \<lparr>wc_model_version = ''volatility_v1'', wc_config_version = ''c1'', wc_code_sha = ''dev'', wc_intermediate = ''v1'',
     wc_final = ''v1'', wc_w_fear = fzero, wc_w_tail = fzero, wc_w_vov = fzero, wc_w_fear4 = fzero, wc_w_term4 = fzero,
     wc_w_tail4 = fzero, wc_w_vov4 = fzero, wc_w_cross = fzero, wc_scale = fzero\<rparr>"

lemma ex_vol_config_ok: "vol_cfg_ok ex_vol_config"
  by (simp add: vol_cfg_ok_def Let_def vol_Defaults_def if_zero_def ex_vol_config_def scale_ok_def f64_eval)

lemma offline_vol_ingest: "fst (vol_ingestRun (pg_vol_service M L offline_vol cfg assets) vd w) = Inr ()"
  by (simp add: vol_ingestRun_def vol_ingest_def vol_ingestDVOL_def vol_ingestOptionsSnapshot_def vol_ingestCoinglassOptions_def
    vol_ingestDeribitOptionsChain_def offline_vol_def seqE_def bindE_def wrapE_def)

lemma ex_vol_runs: "\<exists>w'. vol_RunOnce ideal_libm (pg_vol_service ideal_libm L offline_vol ex_vol_config []) ex_day (start_world []) = (Inr (), w') \<and> healthy w'"
  by (rule vol_run_succeeds[OF ideal.go_libm_axioms ex_vol_config_ok _ _ _ offline_vol_ok start_healthy offline_vol_ingest])
    (simp_all add: ex_vol_config_def ex_day_def UTCDay_def day_of_def day_ns_def zero_time_def)

end
