(* ===== verification/MarketStress.thy ===== *)
theory MarketStress
  imports FeatureLib StorageDomains
begin

text \<open>
  \<open>internal/marketstress\<close>: configuration, ports, features (\<open>features/features.go\<close>) and the score of a
  day (\<open>pipeline.go\<close>).
\<close>

section \<open>Configuration\<close>

record mst_config =
  kc_model_version :: string
  kc_config_version :: string
  kc_code_sha :: string
  kc_intermediate :: string
  kc_final :: string
  kc_basis_version :: string
  kc_w_corr :: f64
  kc_w_peg :: f64
  kc_w_coinbase :: f64
  kc_w_basis :: f64
  kc_w_micro :: f64
  kc_scale :: f64

definition mst_Defaults :: "mst_config \<Rightarrow> mst_config" where
  "mst_Defaults c = c\<lparr>kc_w_corr := if_zero (kc_w_corr c) (24 / 100), kc_w_peg := if_zero (kc_w_peg c) (20 / 100),
     kc_w_coinbase := if_zero (kc_w_coinbase c) (12 / 100), kc_w_basis := if_zero (kc_w_basis c) (24 / 100),
     kc_w_micro := if_zero (kc_w_micro c) (20 / 100), kc_scale := if_zero (kc_scale c) 2\<rparr>"

section \<open>Ports\<close>

record kline_point =
  kp_time :: gotime
  kp_close :: f64
  kp_hash :: string

record ohlc_point =
  hc_date :: gotime
  hc_open :: f64
  hc_high :: f64
  hc_low :: f64
  hc_close :: f64
  hc_volume :: f64
  hc_hash :: string

record candle_point =
  dc_date :: gotime
  dc_product :: string
  dc_close :: f64
  dc_volume :: f64
  dc_hash :: string

record premium_point =
  mq_date :: gotime
  mq_usd :: f64
  mq_rate :: f64
  mq_coinbase :: f64
  mq_hash :: string

record book_point =
  ob_date :: gotime
  ob_symbol :: string
  ob_bids_usd :: f64
  ob_bids_qty :: f64
  ob_asks_usd :: f64
  ob_asks_qty :: f64
  ob_hash :: string

record fsratio_point =
  zp_date :: gotime
  zp_symbol :: string
  zp_ratio :: f64
  zp_futures :: f64
  zp_spot :: f64
  zp_hash :: string

record 'w mst_raws =
  kr_SaveBinanceKlines :: "kline_row list \<Rightarrow> ('w, unit) io"
  kr_SaveKrakenOHLC :: "ohlc_row list \<Rightarrow> ('w, unit) io"
  kr_SaveCoinbaseCandles :: "candle_row list \<Rightarrow> ('w, unit) io"
  kr_SavePremium :: "premium_row list \<Rightarrow> ('w, unit) io"
  kr_KlineCloseSeries :: "string \<Rightarrow> gotime \<Rightarrow> gotime \<Rightarrow> gotime \<Rightarrow> ('w, f64 list) io"
  kr_KlineCloseAsOf :: "string \<Rightarrow> gotime \<Rightarrow> gotime \<Rightarrow> ('w, f64) io"
  kr_KrakenCloseAsOf :: "string \<Rightarrow> gotime \<Rightarrow> gotime \<Rightarrow> ('w, f64) io"
  kr_CoinbaseCloseAsOf :: "string \<Rightarrow> gotime \<Rightarrow> gotime \<Rightarrow> ('w, f64) io"
  kr_PremiumRateAsOf :: "gotime \<Rightarrow> gotime \<Rightarrow> ('w, f64) io"
  kr_SaveOrderbook :: "book_row list \<Rightarrow> ('w, unit) io"
  kr_SaveFuturesSpot :: "fsratio_row list \<Rightarrow> ('w, unit) io"
  kr_OrderbookImbalanceAsOf :: "string \<Rightarrow> gotime \<Rightarrow> gotime \<Rightarrow> ('w, f64 option) io"
  kr_FuturesSpotRatioAsOf :: "string \<Rightarrow> gotime \<Rightarrow> gotime \<Rightarrow> ('w, f64 option) io"

type_synonym 'w kline_provider = "string \<Rightarrow> string \<Rightarrow> gotime \<Rightarrow> gotime \<Rightarrow> ('w, kline_point list) io"
type_synonym 'w ohlc_provider = "string \<Rightarrow> int \<Rightarrow> int \<Rightarrow> ('w, ohlc_point list) io"
type_synonym 'w candle_provider = "string \<Rightarrow> gotime \<Rightarrow> gotime \<Rightarrow> int \<Rightarrow> ('w, candle_point list) io"
type_synonym 'w premium_provider = "int \<Rightarrow> ('w, premium_point list) io"
type_synonym 'w basis_reader = "asset \<Rightarrow> gotime \<Rightarrow> gotime \<Rightarrow> ('w, f64) io"

record 'w micro_provider =
  mi_FetchOrderbookBidAsk :: "string \<Rightarrow> int \<Rightarrow> gotime \<Rightarrow> gotime \<Rightarrow> ('w, book_point list) io"
  mi_FetchFuturesSpotVolRatio :: "string \<Rightarrow> int \<Rightarrow> gotime \<Rightarrow> gotime \<Rightarrow> ('w, fsratio_point list) io"

section \<open>Features\<close>

definition BtcAltCorrelation30dName where "BtcAltCorrelation30dName = ''btc_alt_correlation_30d''"
definition PegDeviationDailyName where "PegDeviationDailyName = ''peg_deviation_daily''"
definition CoinbasePremiumAbsName where "CoinbasePremiumAbsName = ''coinbase_premium_abs_daily''"
definition BasisInversionDepthName where "BasisInversionDepthName = ''basis_inversion_depth_daily''"
definition BtcAltCorrelationZScore180dName where "BtcAltCorrelationZScore180dName = ''btc_alt_correlation_zscore_180d''"
definition StablecoinPegStressScoreName where "StablecoinPegStressScoreName = ''stablecoin_peg_stress_score''"
definition CoinbasePremiumAbsZScore90dName where "CoinbasePremiumAbsZScore90dName = ''coinbase_premium_abs_zscore_90d''"
definition BasisInversionDepthZScore180dName where "BasisInversionDepthZScore180dName = ''basis_inversion_depth_zscore_180d''"
definition BookImbalanceDailyName where "BookImbalanceDailyName = ''book_imbalance_daily''"
definition BookImbalanceZScoreName where "BookImbalanceZScoreName = ''book_imbalance_zscore_90d''"
definition FuturesSpotRatioDailyName where "FuturesSpotRatioDailyName = ''futures_spot_ratio_daily''"
definition FuturesSpotRatioZScoreName where "FuturesSpotRatioZScoreName = ''futures_spot_ratio_zscore_90d''"

definition AltSymbols :: "string list" where
  "AltSymbols = [''ETHUSDT'', ''SOLUSDT'', ''BNBUSDT'', ''XRPUSDT'', ''ADAUSDT'', ''DOGEUSDT'']"

text \<open>The loop of \<open>LogReturns\<close> is that of \<open>RealizedVol30d\<close>.\<close>

definition LogReturns :: "libm \<Rightarrow> f64 list \<Rightarrow> f64 list" where
  "LogReturns M prices = (if length prices < 2 then [] else kline_returns M prices)"

definition alt_correlation :: "f64 list \<Rightarrow> f64 list \<Rightarrow> f64 option" where
  "alt_correlation btc alt =
     (let n = min (length btc) (length alt) in
      if n < 10 then None
      else let c = Correlation (drop (length btc - n) btc) (drop (length alt - n) alt) in if isNaN c then None else Some c)"

definition AvgBtcAltCorrelation :: "f64 list \<Rightarrow> f64 list list \<Rightarrow> f64 option" where
  "AvgBtcAltCorrelation btc alts =
     (let (s, count) = foldl (\<lambda>(s, n) alt. case alt_correlation btc alt of None \<Rightarrow> (s, n) | Some c \<Rightarrow> (fadd s c, n + 1)) (fzero, 0::int) alts
      in if count = 0 then None else Some (fdiv s (f_of_int count)))"

definition max_dev :: "f64 \<Rightarrow> f64 \<times> bool \<Rightarrow> f64" where
  "max_dev m p = (let (v, ok) = p; d = fabs (fsub v fone) in if ok \<and> flt m d then d else m)"

definition PegDeviationScaled :: "libm \<Rightarrow> f64 \<times> bool \<Rightarrow> f64 \<times> bool \<Rightarrow> f64 option" where
  "PegDeviationScaled M usdt usdc =
     (if \<not> snd usdt \<and> \<not> snd usdc then None
      else Some (m_log1p M (fmul (max_dev (max_dev fzero usdt) usdc) (lit 10000))))"

definition CoinbasePremiumAbsFromPrices :: "f64 \<Rightarrow> f64 \<Rightarrow> f64 option" where
  "CoinbasePremiumAbsFromPrices cb bin = (if fle bin fzero then None else Some (fdiv (fabs (fsub cb bin)) bin))"

text \<open>\<open>math.Max\<close>.\<close>

definition go_max :: "f64 \<Rightarrow> f64 \<Rightarrow> f64" where
  "go_max x y = (if x = Inf False \<or> y = Inf False then Inf False
     else if isNaN x \<or> isNaN y then NaN
     else if feq x fzero \<and> feq x y then (if x = NZero then y else x)
     else if flt y x then x else y)"

definition BasisInversionDepth :: "f64 \<Rightarrow> f64" where
  "BasisInversionDepth basis = go_max fzero (fneg basis)"

section \<open>The score\<close>

record mst_inputs =
  ki_asset :: asset
  ki_value_date :: gotime
  ki_corr :: f64
  ki_corr_ok :: bool
  ki_peg :: f64
  ki_peg_ok :: bool
  ki_coinbase :: f64
  ki_coinbase_ok :: bool
  ki_basis :: f64
  ki_basis_ok :: bool
  ki_book :: f64
  ki_book_ok :: bool
  ki_fs :: f64
  ki_fs_ok :: bool
  ki_features :: "string list"

definition mst_micro :: "libm \<Rightarrow> f64 \<Rightarrow> mst_inputs \<Rightarrow> f64 \<times> f64" where
  "mst_micro M scale i = avg_signals [map_option fneg (opt_signal M scale (ki_book_ok i) (ki_book i)),
     opt_signal M scale (ki_fs_ok i) (ki_fs i)]"

definition mst_computeScore :: "libm \<Rightarrow> mst_inputs \<Rightarrow> mst_config \<Rightarrow> domain_score" where
  "mst_computeScore M i cfg0 =
     (let cfg = mst_Defaults cfg0; scale = kc_scale cfg;
          corr = signal M scale (ki_corr_ok i) (ki_corr i);
          peg = signal M scale (ki_peg_ok i) (ki_peg i);
          coinbase = signal M scale (ki_coinbase_ok i) (ki_coinbase i);
          basis = signal M scale (ki_basis_ok i) (ki_basis i);
          (micro, microN) = mst_micro M scale i;
          score = clamp1 (fneg (fadd (fadd (fadd (fadd (fmul (kc_w_corr cfg) corr) (fmul (kc_w_peg cfg) peg))
            (fmul (kc_w_coinbase cfg) coinbase)) (fmul (kc_w_basis cfg) basis)) (fmul (kc_w_micro cfg) micro)))
      in \<lparr>ds_asset = ki_asset i, ds_domain = DomainMarketStress, ds_value_date = ki_value_date i, ds_score = score,
          ds_components = map_of [(''component_correlation'', corr), (''component_peg'', peg), (''component_coinbase'', coinbase),
             (''component_basis_inversion'', basis), (''component_microstructure'', micro)],
          ds_features_used = ki_features i, ds_model_version = kc_model_version cfg,
          ds_config_version = kc_config_version cfg, ds_code_sha = kc_code_sha cfg,
          ds_sources = map_of [(''binance_klines'', ''binance_spot_v1''), (''kraken_ohlc'', ''kraken_v1''),
             (''coinbase_candles'', ''coinbase_v1''), (''leverage_basis'', kc_basis_version cfg)],
          ds_quality = map_of [(''partial_coverage'', ABool (\<not> ki_corr_ok i \<or> \<not> ki_peg_ok i \<or> \<not> ki_coinbase_ok i \<or> \<not> ki_basis_ok i)),
             (''correlation_available'', ABool (ki_corr_ok i)), (''peg_available'', ABool (ki_peg_ok i)),
             (''coinbase_available'', ABool (ki_coinbase_ok i)), (''basis_available'', ABool (ki_basis_ok i)),
             (''book_imbalance_available'', ABool (ki_book_ok i)), (''futures_spot_ratio_available'', ABool (ki_fs_ok i)),
             (''microstructure_n'', AFloat microN)]\<rparr>)"

section \<open>The score is in range\<close>

definition mst_cfg_ok :: "mst_config \<Rightarrow> bool" where
  "mst_cfg_ok c \<longleftrightarrow> (let d = mst_Defaults c in fin_in 0 1 (kc_w_corr d) \<and> fin_in 0 1 (kc_w_peg d) \<and> fin_in 0 1 (kc_w_coinbase d) \<and>
     fin_in 0 1 (kc_w_basis d) \<and> fin_in 0 1 (kc_w_micro d) \<and> scale_ok (kc_scale d))"

lemma mst_Defaults_idem [simp]: "mst_Defaults (mst_Defaults c) = mst_Defaults c"
  by (simp add: mst_Defaults_def if_zero_idem)

lemma mst_score_sel [simp]: "ds_asset (mst_computeScore M i c) = ki_asset i" "ds_domain (mst_computeScore M i c) = DomainMarketStress"
  "ds_value_date (mst_computeScore M i c) = ki_value_date i" "ds_model_version (mst_computeScore M i c) = kc_model_version c"
  by (simp_all add: mst_computeScore_def Let_def mst_Defaults_def split: prod.split)

lemma clamp1_neg_weighted5:
  assumes "fin_in 0 1 w1" "fin_in (- 1) 1 c1" "fin_in 0 1 w2" "fin_in (- 1) 1 c2" "fin_in 0 1 w3" "fin_in (- 1) 1 c3"
    "fin_in 0 1 w4" "fin_in (- 1) 1 c4" "fin_in 0 1 w5" "fin_in (- 1) 1 c5"
  shows "fin_in (- 1) 1 (clamp1 (fneg (fadd (fadd (fadd (fadd (fmul w1 c1) (fmul w2 c2)) (fmul w3 c3)) (fmul w4 c4)) (fmul w5 c5))))"
  by (rule clamp1_in, rule fin_in_not_NaN, rule fneg_in, rule fadd_nat[where m = "1 + 1 + 1 + 1" and n = 1],
      rule fadd_nat[where m = "1 + 1 + 1" and n = 1], rule fadd_nat[where m = "1 + 1" and n = 1], rule fadd_nat[where m = 1 and n = 1])
    (use assms in \<open>simp_all add: weighted[simplified]\<close>)

context go_libm
begin

lemma mst_micro_in: "scale_ok s \<Longrightarrow> fin_in (- 1) 1 (fst (mst_micro M s i)) \<and> is_finite (snd (mst_micro M s i))"
  unfolding mst_micro_def by (rule avg_signals_in) (auto intro: opt_signal_in fin_in_neg1 dest!: sym[of "Some _"])

lemma mst_score_in:
  assumes "mst_cfg_ok c"
  shows "fin_in (- 1) 1 (ds_score (mst_computeScore M i c))"
    and "\<forall>v\<in>ran (ds_components (mst_computeScore M i c)). fin_in (- 1) 1 v"
proof -
  note w = assms[unfolded mst_cfg_ok_def Let_def]
  have s: "scale_ok (kc_scale (mst_Defaults c))" using w by simp
  obtain x n where m: "mst_micro M (kc_scale (mst_Defaults c)) i = (x, n)" by fastforce
  have x: "fin_in (- 1) 1 x" using mst_micro_in[OF s, of i] m by simp
  show "fin_in (- 1) 1 (ds_score (mst_computeScore M i c))"
    unfolding mst_computeScore_def Let_def m prod.case domain_score.simps
    by (intro clamp1_neg_weighted5 signal_in[OF s] x) (use w in auto)
  show "\<forall>v\<in>ran (ds_components (mst_computeScore M i c)). fin_in (- 1) 1 v"
    unfolding mst_computeScore_def Let_def m prod.case domain_score.simps
    by (rule ran_map_of_all) (simp add: signal_in[OF s] x)
qed

end

end
