(* ===== verification/MarketStressService.thy ===== *)
theory MarketStressService
  imports MarketStress
begin

text \<open>
  \<open>internal/marketstress/service.go\<close>: ingestion, the features of a day, its score, and the runs.
\<close>

definition KlineSymbols :: "string list" where
  "KlineSymbols = [''BTCUSDT'', ''ETHUSDT'', ''SOLUSDT'', ''BNBUSDT'', ''XRPUSDT'', ''ADAUSDT'', ''DOGEUSDT'']"

definition KrakenPairs :: "string list" where
  "KrakenPairs = [''USDTUSD'', ''USDCUSD'']"

record 'w mst_service =
  ks_features :: "'w feature_repo"
  ks_scores :: "'w score_repo"
  ks_raws :: "'w mst_raws"
  ks_binance :: "'w kline_provider option"
  ks_kraken :: "'w ohlc_provider option"
  ks_coinbase :: "'w candle_provider option"
  ks_coinglass :: "'w premium_provider option"
  ks_cgMicro :: "'w micro_provider option"
  ks_leverage :: "'w basis_reader option"
  ks_publish :: "event \<Rightarrow> ('w, unit) io"
  ks_clock :: "('w, gotime) io"
  ks_cfg :: mst_config
  ks_assets :: "asset list"

definition mst_NewService where
  "mst_NewService featRepo scoreRepo rawRepo bin kr cb cg cgMicro lev pub clk cfg assets =
     \<lparr>ks_features = featRepo, ks_scores = scoreRepo, ks_raws = rawRepo, ks_binance = bin, ks_kraken = kr, ks_coinbase = cb,
      ks_coinglass = cg, ks_cgMicro = cgMicro, ks_leverage = lev, ks_publish = pub, ks_clock = clk, ks_cfg = mst_Defaults cfg,
      ks_assets = (if assets = [] then AssetsTradeable else assets)\<rparr>"

section \<open>Ingestion\<close>

definition raw_event :: "string \<Rightarrow> string \<Rightarrow> 'r list \<Rightarrow> (string \<times> anyval) list \<Rightarrow> event" where
  "raw_event topic aggregate rows extra = \<lparr>ev_topic = topic, ev_aggregate = aggregate,
     ev_payload = map_of ((''rows'', AInt (int (length rows))) # extra)\<rparr>"

text \<open>A failing provider of prices ends the ingestion.\<close>

definition mst_ingestKlines :: "'w mst_service \<Rightarrow> gotime \<Rightarrow> gotime \<Rightarrow> ('w, unit) io" where
  "mst_ingestKlines s from to = (case ks_binance s of None \<Rightarrow> ret () | Some fetch \<Rightarrow>
     forE (\<lambda>sm. bindE (wrapE ''binance klines'' [AStr sm] (fetch sm ''1d'' from to)) (\<lambda>pts.
       save_rows pts (kr_SaveBinanceKlines (ks_raws s) (map (\<lambda>p. \<lparr>kl_value_date = kp_time p, kl_symbol = sm, kl_close = kp_close p,
            kl_volume = fzero, kl_source = ''binance_spot_v1'', kl_hash = kp_hash p\<rparr>) pts))
         (ks_publish s (raw_event ''raw.market_stress.klines.ingested.v1'' (''binance:'' @ sm) pts [(''symbol'', AStr sm)]))))
     KlineSymbols)"

definition mst_ingestKrakenOHLC :: "'w mst_service \<Rightarrow> gotime \<Rightarrow> ('w, unit) io" where
  "mst_ingestKrakenOHLC s from = (case ks_kraken s of None \<Rightarrow> ret () | Some fetch \<Rightarrow>
     forE (\<lambda>pair. bindE (wrapE ''kraken OHLC'' [AStr pair] (fetch pair 1440 (unix_second from))) (\<lambda>pts.
       save_rows pts (kr_SaveKrakenOHLC (ks_raws s) (map (\<lambda>p. \<lparr>ko_value_date = hc_date p, ko_pair = pair, ko_open = hc_open p,
            ko_high = hc_high p, ko_low = hc_low p, ko_close = hc_close p, ko_volume = hc_volume p, ko_source = ''kraken_v1'',
            ko_hash = hc_hash p\<rparr>) pts))
         (ks_publish s (raw_event ''raw.market_stress.kraken.ingested.v1'' (''kraken:'' @ pair) pts [(''pair'', AStr pair)]))))
     KrakenPairs)"

definition mst_ingestCoinbaseCandles :: "'w mst_service \<Rightarrow> gotime \<Rightarrow> gotime \<Rightarrow> ('w, unit) io" where
  "mst_ingestCoinbaseCandles s from to = (case ks_coinbase s of None \<Rightarrow> ret () | Some fetch \<Rightarrow>
     bindE (wrapE ''coinbase candles'' [] (fetch ''BTC-USD'' from to 86400)) (\<lambda>pts.
       save_rows pts (kr_SaveCoinbaseCandles (ks_raws s) (map (\<lambda>p. \<lparr>cn_value_date = dc_date p, cn_product = dc_product p,
            cn_close = dc_close p, cn_volume = dc_volume p, cn_source = ''coinbase_v1'', cn_hash = dc_hash p\<rparr>) pts))
         (ks_publish s (raw_event ''raw.market_stress.coinbase.ingested.v1'' ''coinbase:BTC-USD'' pts []))))"

definition mst_ingestCoinbasePremium :: "'w mst_service \<Rightarrow> ('w, unit) io" where
  "mst_ingestCoinbasePremium s = (case ks_coinglass s of None \<Rightarrow> ret () | Some fetch \<Rightarrow>
     bindE (wrapE ''coinglass coinbase premium'' [] (fetch 1000)) (\<lambda>pts.
       save_rows pts (kr_SavePremium (ks_raws s) (map (\<lambda>p. \<lparr>pr_value_date = mq_date p, pr_usd = mq_usd p, pr_rate = mq_rate p,
            pr_coinbase = mq_coinbase p, pr_source = ''coinglass_v4'', pr_hash = mq_hash p\<rparr>) pts))
         (ks_publish s (raw_event ''raw.market_stress.coinglass_coinbase_premium.ingested.v1'' ''coinglass:coinbase_premium'' pts []))))"

text \<open>The microstructure data is optional: a failing provider is passed over, a failing save is not.\<close>

definition mst_micro_book :: "'w mst_service \<Rightarrow> 'w micro_provider \<Rightarrow> asset \<Rightarrow> ('w, unit) io" where
  "mst_micro_book s p a = or_skip (mi_FetchOrderbookBidAsk p a 1000 zero_time zero_time) (\<lambda>pts.
     save_rows pts (wrapE ''save orderbook'' [AStr a] (kr_SaveOrderbook (ks_raws s) (map (\<lambda>p. \<lparr>bk_value_date = ob_date p, bk_symbol = a,
          bk_range = ''1'', bk_bids_usd = ob_bids_usd p, bk_bids_qty = ob_bids_qty p, bk_asks_usd = ob_asks_usd p,
          bk_asks_qty = ob_asks_qty p, bk_source = ''coinglass_v4'', bk_hash = ob_hash p\<rparr>) pts)))
       (ks_publish s (rows_event ''raw.market_stress.orderbook.coinglass.ingested.v1'' (a @ '':orderbook'') a [] pts)))"

definition mst_micro_ratio :: "'w mst_service \<Rightarrow> 'w micro_provider \<Rightarrow> asset \<Rightarrow> ('w, unit) io" where
  "mst_micro_ratio s p a = or_skip (mi_FetchFuturesSpotVolRatio p a 1000 zero_time zero_time) (\<lambda>pts.
     save_rows pts (wrapE ''save futures/spot ratio'' [AStr a] (kr_SaveFuturesSpot (ks_raws s) (map (\<lambda>p. \<lparr>fq_value_date = zp_date p,
          fq_symbol = a, fq_ratio = zp_ratio p, fq_futures = zp_futures p, fq_spot = zp_spot p, fq_source = ''coinglass_v4'',
          fq_hash = zp_hash p\<rparr>) pts)))
       (ks_publish s (rows_event ''raw.market_stress.futures_spot_ratio.coinglass.ingested.v1'' (a @ '':futures_spot_ratio'') a [] pts)))"

definition mst_ingestCoinglassMicro :: "'w mst_service \<Rightarrow> ('w, unit) io" where
  "mst_ingestCoinglassMicro s = (case ks_cgMicro s of None \<Rightarrow> ret () | Some p \<Rightarrow>
     forE (\<lambda>a. seqE (mst_micro_book s p a) (mst_micro_ratio s p a)) (ks_assets s))"

definition mst_ingestAll :: "'w mst_service \<Rightarrow> gotime \<Rightarrow> gotime \<Rightarrow> ('w, unit) io" where
  "mst_ingestAll s from to =
     seqE (wrapE ''ingest klines'' [] (mst_ingestKlines s from to))
    (seqE (wrapE ''ingest kraken'' [] (mst_ingestKrakenOHLC s from))
    (seqE (wrapE ''ingest coinbase'' [] (mst_ingestCoinbaseCandles s from to))
    (seqE (wrapE ''ingest coinglass coinbase premium'' [] (mst_ingestCoinbasePremium s))
          (wrapE ''ingest coinglass micro'' [] (mst_ingestCoinglassMicro s)))))"

definition mst_BackfillKlines :: "'w mst_service \<Rightarrow> gotime \<Rightarrow> gotime \<Rightarrow> ('w, unit) io" where
  "mst_BackfillKlines s from to =
     (let f = UTCDay from; t = UTCDay to in
      if t < f then throw (Fresh ''backfill klines from (%s) after to (%s)'' [AStr (fmt_day f), AStr (fmt_day t)])
      else mst_ingestKlines s f t)"

section \<open>The features of the market\<close>

text \<open>The source names are their own versions.\<close>

definition mst_sourceVersionFor :: "string \<Rightarrow> string" where
  "mst_sourceVersionFor srcName = srcName"

definition mst_saveFeature :: "'w mst_service \<Rightarrow> feature_key \<Rightarrow> asset \<Rightarrow> gotime \<Rightarrow> f64 \<Rightarrow> string \<Rightarrow> string \<Rightarrow> ('w, unit) io" where
  "mst_saveFeature s k a vd v srcName srcVer = save_feature (ks_features s) (kc_code_sha (ks_cfg s)) k a vd v srcName srcVer"

definition mst_saveGlobalFeature :: "'w mst_service \<Rightarrow> feature_key \<Rightarrow> gotime \<Rightarrow> f64 \<Rightarrow> string \<Rightarrow> ('w, unit) io" where
  "mst_saveGlobalFeature s k vd v srcName = mst_saveFeature s k AssetGlobal vd v srcName (mst_sourceVersionFor srcName)"

definition mst_zscore :: "'w mst_service \<Rightarrow> string \<Rightarrow> string \<Rightarrow> asset \<Rightarrow> gotime \<Rightarrow> gotime \<Rightarrow> int \<Rightarrow> int \<Rightarrow> string \<Rightarrow> string \<Rightarrow> ('w, unit) io" where
  "mst_zscore s daily z a vd c window minObs srcName srcVer =
     zscore_step (ks_features s) (kc_code_sha (ks_cfg s)) (fkey daily (kc_intermediate (ks_cfg s))) (fkey z (kc_final (ks_cfg s)))
       a vd c window minObs srcName srcVer"

text \<open>A coin whose prices cannot be read is left out of the average.\<close>

definition mst_computeBtcAltCorrelation :: "libm \<Rightarrow> 'w mst_service \<Rightarrow> gotime \<Rightarrow> gotime \<Rightarrow> ('w, f64 option) io" where
  "mst_computeBtcAltCorrelation M s vd c =
     (let from = add_days vd (- 30); prices = (\<lambda>sm. kr_KlineCloseSeries (ks_raws s) sm from vd c) in
      bindE (prices ''BTCUSDT'') (\<lambda>btc.
      if length btc < 20 then ret None
      else bindE (foldE (\<lambda>alts sm. bindE (attempt (prices sm)) (\<lambda>r. ret (case r of Inl e \<Rightarrow> alts | Inr ps \<Rightarrow> alts @ [LogReturns M ps]))) [] AltSymbols)
        (\<lambda>alts. ret (AvgBtcAltCorrelation (LogReturns M btc) alts))))"

definition mst_computePegDeviation :: "libm \<Rightarrow> 'w mst_service \<Rightarrow> gotime \<Rightarrow> gotime \<Rightarrow> ('w, f64 option) io" where
  "mst_computePegDeviation M s vd c =
     bindE (found_value (kr_KrakenCloseAsOf (ks_raws s) ''USDTUSD'' vd c)) (\<lambda>usdt.
     bindE (found_value (kr_KrakenCloseAsOf (ks_raws s) ''USDCUSD'' vd c)) (\<lambda>usdc. ret (PegDeviationScaled M usdt usdc)))"

definition mst_computeCoinbasePremiumAbs :: "'w mst_service \<Rightarrow> gotime \<Rightarrow> gotime \<Rightarrow> ('w, f64 option) io" where
  "mst_computeCoinbasePremiumAbs s vd c =
     bindE (attempt (kr_PremiumRateAsOf (ks_raws s) vd c)) (\<lambda>r. case r of
       Inr rate \<Rightarrow> ret (Some (fabs rate))
     | Inl e \<Rightarrow> if \<not> errors_Is e ErrNotFound then throw e
         else bindE (found_value (kr_CoinbaseCloseAsOf (ks_raws s) ''BTC-USD'' vd c)) (\<lambda>cb.
              bindE (found_value (kr_KlineCloseAsOf (ks_raws s) ''BTCUSDT'' vd c)) (\<lambda>bin.
              ret (if \<not> snd cb \<or> \<not> snd bin then None else CoinbasePremiumAbsFromPrices (fst cb) (fst bin)))))"

definition mst_computeGlobalFeatures :: "libm \<Rightarrow> 'w mst_service \<Rightarrow> gotime \<Rightarrow> gotime \<Rightarrow> ('w, unit) io" where
  "mst_computeGlobalFeatures M s vd c =
     (let key = (\<lambda>n. fkey n (kc_intermediate (ks_cfg s)));
          z = (\<lambda>daily zn w n src. mst_zscore s daily zn AssetGlobal vd c w n src (mst_sourceVersionFor src)) in
      seqE (when_some (mst_computeBtcAltCorrelation M s vd c)
              (\<lambda>v. mst_saveGlobalFeature s (key BtcAltCorrelation30dName) vd v ''binance_spot_v1''))
     (seqE (when_some (mst_computePegDeviation M s vd c) (\<lambda>v. mst_saveGlobalFeature s (key PegDeviationDailyName) vd v ''kraken_v1''))
     (seqE (when_some (mst_computeCoinbasePremiumAbs s vd c) (\<lambda>v. mst_saveGlobalFeature s (key CoinbasePremiumAbsName) vd v ''coinglass_v4''))
     (seqE (z BtcAltCorrelation30dName BtcAltCorrelationZScore180dName 180 30 ''binance_spot_v1'')
     (seqE (z PegDeviationDailyName StablecoinPegStressScoreName 180 30 ''kraken_v1'')
           (z CoinbasePremiumAbsName CoinbasePremiumAbsZScore90dName 90 30 ''coinglass_v4''))))))"

section \<open>The features of an asset\<close>

definition mst_computeBasisInversionDepth :: "'w mst_service \<Rightarrow> asset \<Rightarrow> gotime \<Rightarrow> gotime \<Rightarrow> ('w, f64 option) io" where
  "mst_computeBasisInversionDepth s a vd c = (case ks_leverage s of None \<Rightarrow> ret None | Some get_basis \<Rightarrow>
     bindE (found_value (get_basis a vd c)) (\<lambda>r. ret (if snd r then Some (BasisInversionDepth (fst r)) else None)))"

definition mst_assetFeatures :: "'w mst_service \<Rightarrow> asset \<Rightarrow> gotime \<Rightarrow> gotime \<Rightarrow> ('w, unit) io" where
  "mst_assetFeatures s a vd c =
     (let key = (\<lambda>n. fkey n (kc_intermediate (ks_cfg s))); lv = kc_basis_version (ks_cfg s) in
      seqE (when_some (mst_computeBasisInversionDepth s a vd c)
              (\<lambda>v. mst_saveFeature s (key BasisInversionDepthName) a vd v ''leverage_basis'' lv))
     (seqE (mst_zscore s BasisInversionDepthName BasisInversionDepthZScore180dName a vd c 180 30 ''leverage_basis'' lv)
     (seqE (when_some (kr_OrderbookImbalanceAsOf (ks_raws s) a vd c)
              (\<lambda>v. mst_saveFeature s (key BookImbalanceDailyName) a vd v ''coinglass_orderbook'' ''coinglass_v4''))
     (seqE (mst_zscore s BookImbalanceDailyName BookImbalanceZScoreName a vd c 90 30 ''coinglass_orderbook'' ''coinglass_v4'')
     (seqE (when_some (kr_FuturesSpotRatioAsOf (ks_raws s) a vd c)
              (\<lambda>v. mst_saveFeature s (key FuturesSpotRatioDailyName) a vd v ''coinglass_futures_spot'' ''coinglass_v4''))
           (mst_zscore s FuturesSpotRatioDailyName FuturesSpotRatioZScoreName a vd c 90 30 ''coinglass_futures_spot'' ''coinglass_v4''))))))"

section \<open>The score of a day\<close>

definition mst_gatherScoreInputs :: "'w mst_service \<Rightarrow> asset \<Rightarrow> gotime \<Rightarrow> gotime \<Rightarrow> ('w, mst_inputs) io" where
  "mst_gatherScoreInputs s a vd c =
     (let fr = ks_features s; key = (\<lambda>n. fkey n (kc_final (ks_cfg s)));
          corrKey = key BtcAltCorrelationZScore180dName; pegKey = key StablecoinPegStressScoreName;
          cbKey = key CoinbasePremiumAbsZScore90dName; basisKey = key BasisInversionDepthZScore180dName;
          bookZKey = key BookImbalanceZScoreName; fsZKey = key FuturesSpotRatioZScoreName in
      bindE (feature_number fr corrKey AssetGlobal vd c) (\<lambda>(co, coOk).
      bindE (feature_number fr pegKey AssetGlobal vd c) (\<lambda>(pe, peOk).
      bindE (feature_number fr cbKey AssetGlobal vd c) (\<lambda>(cb, cbOk).
      bindE (feature_number fr basisKey a vd c) (\<lambda>(ba, baOk).
      bindE (feature_number fr bookZKey a vd c) (\<lambda>(bo, boOk).
      bindE (feature_number fr fsZKey a vd c) (\<lambda>(fs, fsOk).
        ret \<lparr>ki_asset = a, ki_value_date = vd, ki_corr = co, ki_corr_ok = coOk, ki_peg = pe, ki_peg_ok = peOk,
             ki_coinbase = cb, ki_coinbase_ok = cbOk, ki_basis = ba, ki_basis_ok = baOk, ki_book = bo, ki_book_ok = boOk,
             ki_fs = fs, ki_fs_ok = fsOk,
             ki_features = map FeatureKey_String [corrKey, pegKey, cbKey, basisKey, bookZKey, fsZKey]\<rparr>)))))))"

definition mst_computeAssetDay :: "libm \<Rightarrow> 'w mst_service \<Rightarrow> asset \<Rightarrow> gotime \<Rightarrow> gotime \<Rightarrow> ('w, unit) io" where
  "mst_computeAssetDay M s a vd c =
     seqE (mst_assetFeatures s a vd c)
     (bindE (wrapE ''gather score inputs'' [] (mst_gatherScoreInputs s a vd c)) (\<lambda>i.
       store_score (ks_scores s) (ks_publish s) (score_event ''scores.market_stress.completed.v1''
         (kc_model_version (ks_cfg s)) (kc_config_version (ks_cfg s)) a vd) (mst_computeScore M i (ks_cfg s))))"

definition mst_computeDay :: "libm \<Rightarrow> 'w mst_service \<Rightarrow> gotime \<Rightarrow> gotime \<Rightarrow> ('w, unit) io" where
  "mst_computeDay M s vd c =
     seqE (wrapE ''global features'' [] (mst_computeGlobalFeatures M s vd c))
       (forE (\<lambda>a. wrapE ''asset'' [AStr a] (mst_computeAssetDay M s a vd c)) (ks_assets s))"

definition mst_computeRange :: "libm \<Rightarrow> 'w mst_service \<Rightarrow> gotime \<Rightarrow> gotime \<Rightarrow> gotime \<Rightarrow> ('w, unit) io" where
  "mst_computeRange M s from to c = forE (\<lambda>d. wrapE ''day'' [AStr (fmt_day d)] (mst_computeDay M s d c)) (day_range from to)"

definition mst_RunOnce :: "libm \<Rightarrow> 'w mst_service \<Rightarrow> gotime \<Rightarrow> ('w, unit) io" where
  "mst_RunOnce M s valueDate =
     (let vd = UTCDay valueDate in
      seqE (mst_ingestAll s (add_days vd (- 210)) vd) (bindE (ks_clock s) (\<lambda>cutoff. mst_computeRange M s vd vd cutoff)))"

definition mst_RunBackfill :: "libm \<Rightarrow> 'w mst_service \<Rightarrow> gotime \<Rightarrow> gotime \<Rightarrow> ('w, unit) io" where
  "mst_RunBackfill M s from to =
     (let f = UTCDay from; t = UTCDay to in
      if t < f then throw (Fresh ''backfill from (%s) after to (%s)'' [AStr (fmt_day f), AStr (fmt_day t)])
      else seqE (mst_ingestAll s (add_days f (- 210)) t) (bindE (ks_clock s) (\<lambda>now. mst_computeRange M s f t (now + 24 * hour_ns))))"

section \<open>What the service's steps obey\<close>

locale mst_ingest_ports = io_rel R for R :: "'w \<Rightarrow> 'w \<Rightarrow> bool" +
  fixes s :: "'w mst_service"
  assumes saves: "obeys R (kr_SaveBinanceKlines (ks_raws s) r1)" "obeys R (kr_SaveKrakenOHLC (ks_raws s) r2)"
      "obeys R (kr_SaveCoinbaseCandles (ks_raws s) r3)" "obeys R (kr_SavePremium (ks_raws s) r4)"
      "obeys R (kr_SaveOrderbook (ks_raws s) r5)" "obeys R (kr_SaveFuturesSpot (ks_raws s) r6)"
    and klines: "ks_binance s = Some f1 \<Longrightarrow> obeys R (f1 sm iv from to)"
    and kraken: "ks_kraken s = Some f2 \<Longrightarrow> obeys R (f2 sm n m)"
    and coinbase: "ks_coinbase s = Some f3 \<Longrightarrow> obeys R (f3 sm from to n)"
    and coinglass: "ks_coinglass s = Some f4 \<Longrightarrow> obeys R (f4 n)"
    and micro: "ks_cgMicro s = Some p \<Longrightarrow> obeys R (mi_FetchOrderbookBidAsk p sm n from to) \<and>
      obeys R (mi_FetchFuturesSpotVolRatio p sm n from to)"
    and publish: "obeys R (ks_publish s ev)"
begin

lemma klines_obeys: "obeys R (mst_ingestKlines s from to)"
  unfolding mst_ingestKlines_def by (intro obeys_more obeys_option saves publish; erule klines)

lemma ingest_obeys: "obeys R (mst_ingestAll s from to)"
  unfolding mst_ingestAll_def mst_ingestKrakenOHLC_def mst_ingestCoinbaseCandles_def mst_ingestCoinbasePremium_def
    mst_ingestCoinglassMicro_def mst_micro_book_def mst_micro_ratio_def
  by (intro obeys_more obeys_option klines_obeys saves publish; (drule micro, elim conjE, assumption | erule kraken coinbase coinglass))

end

locale mst_day_ports = feature_port R "ks_features s" for R :: "'w \<Rightarrow> 'w \<Rightarrow> bool" and s :: "'w mst_service" +
  assumes raws: "obeys R (kr_KlineCloseSeries (ks_raws s) sm from to c)" "obeys R (kr_KlineCloseAsOf (ks_raws s) sm vd c)"
      "obeys R (kr_KrakenCloseAsOf (ks_raws s) sm vd c)" "obeys R (kr_CoinbaseCloseAsOf (ks_raws s) sm vd c)"
      "obeys R (kr_PremiumRateAsOf (ks_raws s) vd c)" "obeys R (kr_OrderbookImbalanceAsOf (ks_raws s) sm vd c)"
      "obeys R (kr_FuturesSpotRatioAsOf (ks_raws s) sm vd c)"
    and basis: "ks_leverage s = Some f \<Longrightarrow> obeys R (f a vd c)"
begin

lemma save_obeys: "obeys R (mst_saveFeature s k a vd v sn sv)"
  unfolding mst_saveFeature_def by (intro obeys_features)

lemma zscore_obeys: "obeys R (mst_zscore s d z a vd c w n sn sv)"
  unfolding mst_zscore_def by (rule obeys_zscore_step)

lemma correlation_obeys: "obeys R (mst_computeBtcAltCorrelation M s vd c)"
  unfolding mst_computeBtcAltCorrelation_def Let_def by (intro obeys_more obeys_foldE raws)

lemma global_obeys: "obeys R (mst_computeGlobalFeatures M s vd c)"
  unfolding mst_computeGlobalFeatures_def mst_computePegDeviation_def mst_computeCoinbasePremiumAbs_def mst_saveGlobalFeature_def Let_def
  by (intro obeys_more obeys_sum correlation_obeys zscore_obeys raws save_obeys)

lemma asset_obeys: "obeys R (mst_assetFeatures s a vd c)"
  unfolding mst_assetFeatures_def mst_computeBasisInversionDepth_def Let_def
  by (intro obeys_more obeys_option zscore_obeys raws save_obeys; erule basis)

lemma gather_obeys: "obeys R (mst_gatherScoreInputs s a vd c)"
  unfolding mst_gatherScoreInputs_def Let_def by (intro obeys_more obeys_pair obeys_features)

end

end
