(* ===== verification/PgStress.thy ===== *)
theory PgStress
  imports MarketStressService PgScores LiquidityRun PgLeverage
begin

text \<open>
  \<open>internal/infra/postgres/marketstress\<close>: the ports of the market stress service on the database, and what
  the service does there.
\<close>

section \<open>The repositories\<close>

definition MstFeatureRepo_Save :: "feature \<Rightarrow> ('a world_scheme, unit) io" where
  "MstFeatureRepo_Save f = FeatureRepo_Save InsertMarketStressFeature f"

definition MstFeatureRepo_GetLatest :: "feature_key \<Rightarrow> asset \<Rightarrow> gotime \<Rightarrow> gotime \<Rightarrow> ('a world_scheme, f64) io" where
  "MstFeatureRepo_GetLatest k a vd cutoff = InTx_found (GetLatestMarketStressFeature k a vd cutoff)"

definition MstFeatureRepo_GetSeries :: "feature_key \<Rightarrow> asset \<Rightarrow> gotime \<Rightarrow> gotime \<Rightarrow> gotime \<Rightarrow> ('a world_scheme, f64 list) io" where
  "MstFeatureRepo_GetSeries k a from to cutoff = InTx (GetMarketStressFeatureSeries k a from to cutoff)"

definition pg_mst_features :: "'a world_scheme feature_repo" where
  "pg_mst_features = \<lparr>fr_Save = MstFeatureRepo_Save, fr_GetLatest = MstFeatureRepo_GetLatest, fr_GetSeries = MstFeatureRepo_GetSeries\<rparr>"

lemma pg_mst_features_table: "pg_mst_features = table_features ''features_market_stress''"
proof -
  have "MstFeatureRepo_Save = FeatureRepo_Save (InsertDomainFeature ''features_market_stress'')"
    unfolding MstFeatureRepo_Save_def[abs_def] InsertMarketStressFeature_def[abs_def] ..
  then show ?thesis
    by (simp add: pg_mst_features_def table_features_def MstFeatureRepo_GetLatest_def MstFeatureRepo_GetSeries_def
      GetLatestMarketStressFeature_def GetMarketStressFeatureSeries_def fun_eq_iff)
qed

definition MstRawRepo_SaveBinanceKlines :: "kline_row list \<Rightarrow> ('a world_scheme, unit) io" where
  "MstRawRepo_SaveBinanceKlines rows = save_raws (\<lambda>x. wrapE ''insert binance kline %s/%s'' [AStr (kl_symbol x), AStr (fmt_day (kl_value_date x))]
     (InsertRawBinanceKline x)) rows"

definition MstRawRepo_SaveKrakenOHLC :: "ohlc_row list \<Rightarrow> ('a world_scheme, unit) io" where
  "MstRawRepo_SaveKrakenOHLC rows = save_raws (\<lambda>x. wrapE ''insert kraken ohlc'' [] (InsertRawKrakenOHLC x)) rows"

definition MstRawRepo_SaveCoinbaseCandles :: "candle_row list \<Rightarrow> ('a world_scheme, unit) io" where
  "MstRawRepo_SaveCoinbaseCandles rows = save_raws (\<lambda>x. wrapE ''insert coinbase candle'' [] (InsertRawCoinbaseCandle x)) rows"

definition MstRawRepo_SaveCoinglassCoinbasePremium :: "premium_row list \<Rightarrow> ('a world_scheme, unit) io" where
  "MstRawRepo_SaveCoinglassCoinbasePremium rows =
     save_raws (\<lambda>x. wrapE ''insert coinglass coinbase premium'' [] (InsertRawCoinglassCoinbasePremium x)) rows"

definition MstRawRepo_SaveCoinglassOrderbookAggregated :: "book_row list \<Rightarrow> ('a world_scheme, unit) io" where
  "MstRawRepo_SaveCoinglassOrderbookAggregated rows = save_raws InsertRawCoinglassOrderbookAggregated rows"

definition MstRawRepo_SaveCoinglassFuturesSpotVolRatio :: "fsratio_row list \<Rightarrow> ('a world_scheme, unit) io" where
  "MstRawRepo_SaveCoinglassFuturesSpotVolRatio rows = save_raws InsertRawCoinglassFuturesSpotVolRatio rows"

definition MstRawRepo_GetBinanceKlineCloseSeries :: "string \<Rightarrow> gotime \<Rightarrow> gotime \<Rightarrow> gotime \<Rightarrow> ('a world_scheme, f64 list) io" where
  "MstRawRepo_GetBinanceKlineCloseSeries smb from to cutoff = InTx (GetBinanceKlineCloseSeries smb from to cutoff)"

definition MstRawRepo_GetBinanceKlineCloseAsOf :: "string \<Rightarrow> gotime \<Rightarrow> gotime \<Rightarrow> ('a world_scheme, f64) io" where
  "MstRawRepo_GetBinanceKlineCloseAsOf smb vd cutoff = found_InTx (GetBinanceKlineCloseAsOf smb vd cutoff)"

definition MstRawRepo_GetKrakenCloseAsOf :: "string \<Rightarrow> gotime \<Rightarrow> gotime \<Rightarrow> ('a world_scheme, f64) io" where
  "MstRawRepo_GetKrakenCloseAsOf pair vd cutoff = found_InTx (GetKrakenCloseAsOf pair vd cutoff)"

definition MstRawRepo_GetCoinbaseCloseAsOf :: "string \<Rightarrow> gotime \<Rightarrow> gotime \<Rightarrow> ('a world_scheme, f64) io" where
  "MstRawRepo_GetCoinbaseCloseAsOf product vd cutoff = found_InTx (GetCoinbaseCloseAsOf product vd cutoff)"

definition MstRawRepo_GetCoinglassCoinbasePremiumRateAsOf :: "gotime \<Rightarrow> gotime \<Rightarrow> ('a world_scheme, f64) io" where
  "MstRawRepo_GetCoinglassCoinbasePremiumRateAsOf vd cutoff = found_InTx (GetCoinglassCoinbasePremiumRateAsOf vd cutoff)"

definition MstRawRepo_GetOrderbookImbalanceAsOf :: "string \<Rightarrow> gotime \<Rightarrow> gotime \<Rightarrow> ('a world_scheme, f64 option) io" where
  "MstRawRepo_GetOrderbookImbalanceAsOf smb vd cutoff = InTx (GetCoinglassOrderbookImbalanceAsOf smb vd cutoff)"

definition MstRawRepo_GetFuturesSpotRatioAsOf :: "string \<Rightarrow> gotime \<Rightarrow> gotime \<Rightarrow> ('a world_scheme, f64 option) io" where
  "MstRawRepo_GetFuturesSpotRatioAsOf smb vd cutoff = InTx (GetCoinglassFuturesSpotRatioAsOf smb vd cutoff)"

definition pg_mst_raws :: "'a world_scheme mst_raws" where
  "pg_mst_raws = \<lparr>kr_SaveBinanceKlines = MstRawRepo_SaveBinanceKlines, kr_SaveKrakenOHLC = MstRawRepo_SaveKrakenOHLC,
     kr_SaveCoinbaseCandles = MstRawRepo_SaveCoinbaseCandles, kr_SavePremium = MstRawRepo_SaveCoinglassCoinbasePremium,
     kr_KlineCloseSeries = MstRawRepo_GetBinanceKlineCloseSeries, kr_KlineCloseAsOf = MstRawRepo_GetBinanceKlineCloseAsOf,
     kr_KrakenCloseAsOf = MstRawRepo_GetKrakenCloseAsOf, kr_CoinbaseCloseAsOf = MstRawRepo_GetCoinbaseCloseAsOf,
     kr_PremiumRateAsOf = MstRawRepo_GetCoinglassCoinbasePremiumRateAsOf, kr_SaveOrderbook = MstRawRepo_SaveCoinglassOrderbookAggregated,
     kr_SaveFuturesSpot = MstRawRepo_SaveCoinglassFuturesSpotVolRatio, kr_OrderbookImbalanceAsOf = MstRawRepo_GetOrderbookImbalanceAsOf,
     kr_FuturesSpotRatioAsOf = MstRawRepo_GetFuturesSpotRatioAsOf\<rparr>"

text \<open>The reader of the leverage domain's basis.\<close>

definition GetBasis3mDailyAnyVersion :: "asset \<Rightarrow> gotime \<Rightarrow> gotime \<Rightarrow> ('a world_scheme, f64) io" where
  "GetBasis3mDailyAnyVersion a vd cutoff = InTx_found (GetLatestLeverageFeatureAnyVersion ''basis_3m_daily'' a vd cutoff)"

record 'w mst_providers =
  mp_binance :: "'w kline_provider option"
  mp_kraken :: "'w ohlc_provider option"
  mp_coinbase :: "'w candle_provider option"
  mp_coinglass :: "'w premium_provider option"
  mp_cgMicro :: "'w micro_provider option"

definition pg_mst_service :: "'a world_scheme mst_providers \<Rightarrow> mst_config \<Rightarrow> asset list \<Rightarrow> 'a world_scheme mst_service" where
  "pg_mst_service P cfg assets = mst_NewService pg_mst_features ScoreRepo_Save pg_mst_raws (mp_binance P) (mp_kraken P) (mp_coinbase P)
     (mp_coinglass P) (mp_cgMicro P) (Some GetBasis3mDailyAnyVersion) Publisher_Publish clock_Now cfg assets"

lemma pg_mst_sel [simp]:
  "ks_features (pg_mst_service P cfg assets) = table_features ''features_market_stress''"
  "ks_scores (pg_mst_service P cfg assets) = ScoreRepo_Save" "ks_raws (pg_mst_service P cfg assets) = pg_mst_raws"
  "ks_binance (pg_mst_service P cfg assets) = mp_binance P" "ks_kraken (pg_mst_service P cfg assets) = mp_kraken P"
  "ks_coinbase (pg_mst_service P cfg assets) = mp_coinbase P" "ks_coinglass (pg_mst_service P cfg assets) = mp_coinglass P"
  "ks_cgMicro (pg_mst_service P cfg assets) = mp_cgMicro P" "ks_leverage (pg_mst_service P cfg assets) = Some GetBasis3mDailyAnyVersion"
  "ks_publish (pg_mst_service P cfg assets) = Publisher_Publish" "ks_clock (pg_mst_service P cfg assets) = clock_Now"
  "ks_cfg (pg_mst_service P cfg assets) = mst_Defaults cfg"
  "ks_assets (pg_mst_service P cfg assets) = (if assets = [] then AssetsTradeable else assets)"
  by (simp_all add: pg_mst_service_def mst_NewService_def pg_mst_features_table)

section \<open>What each port does to the tables\<close>

lemma step_mst_saves:
  "obeys ingest_step (MstRawRepo_SaveBinanceKlines r1)" "obeys ingest_step (MstRawRepo_SaveKrakenOHLC r2)"
  "obeys ingest_step (MstRawRepo_SaveCoinbaseCandles r3)" "obeys ingest_step (MstRawRepo_SaveCoinglassCoinbasePremium r4)"
  "obeys ingest_step (MstRawRepo_SaveCoinglassOrderbookAggregated r5)" "obeys ingest_step (MstRawRepo_SaveCoinglassFuturesSpotVolRatio r6)"
  unfolding MstRawRepo_SaveBinanceKlines_def MstRawRepo_SaveKrakenOHLC_def MstRawRepo_SaveCoinbaseCandles_def
    MstRawRepo_SaveCoinglassCoinbasePremium_def MstRawRepo_SaveCoinglassOrderbookAggregated_def
    MstRawRepo_SaveCoinglassFuturesSpotVolRatio_def InsertRawBinanceKline_def InsertRawKrakenOHLC_def InsertRawCoinbaseCandle_def
    InsertRawCoinglassCoinbasePremium_def InsertRawCoinglassOrderbookAggregated_def InsertRawCoinglassFuturesSpotVolRatio_def
  by (intro step_save_raws raw_insert_wrap raw_insert_exec)+

lemma mst_quiet: "quiet (GetBinanceKlineCloseSeries smb f t c)" "quiet (GetBinanceKlineCloseAsOf smb vd c)" "quiet (GetKrakenCloseAsOf smb vd c)"
  "quiet (GetCoinbaseCloseAsOf smb vd c)" "quiet (GetCoinglassCoinbasePremiumRateAsOf vd c)" "quiet (GetCoinglassOrderbookImbalanceAsOf smb vd c)"
  "quiet (GetCoinglassFuturesSpotRatioAsOf smb vd c)" "quiet (GetLatestLeverageFeatureAnyVersion n a vd c)"
  unfolding GetBinanceKlineCloseSeries_def GetBinanceKlineCloseAsOf_def GetKrakenCloseAsOf_def GetCoinbaseCloseAsOf_def
    GetCoinglassCoinbasePremiumRateAsOf_def GetCoinglassOrderbookImbalanceAsOf_def GetCoinglassFuturesSpotRatioAsOf_def
    GetLatestLeverageFeatureAnyVersion_def
  by (intro quiet_intros quiet_shapes)+

lemma mst_replies: "replies (GetBinanceKlineCloseSeries smb f t c)" "replies (GetBinanceKlineCloseAsOf smb vd c)" "replies (GetKrakenCloseAsOf smb vd c)"
  "replies (GetCoinbaseCloseAsOf smb vd c)" "replies (GetCoinglassCoinbasePremiumRateAsOf vd c)" "replies (GetCoinglassOrderbookImbalanceAsOf smb vd c)"
  "replies (GetCoinglassFuturesSpotRatioAsOf smb vd c)"
  unfolding GetBinanceKlineCloseSeries_def GetBinanceKlineCloseAsOf_def GetKrakenCloseAsOf_def GetCoinbaseCloseAsOf_def
    GetCoinglassCoinbasePremiumRateAsOf_def GetCoinglassOrderbookImbalanceAsOf_def GetCoinglassFuturesSpotRatioAsOf_def
  by (intro replies_intros replies_shapes)+

definition mst_providers_ok :: "'a world_scheme mst_providers \<Rightarrow> bool" where
  "mst_providers_ok P \<longleftrightarrow> (\<forall>f\<in>set_option (mp_binance P). \<forall>sm iv from to. obeys ingest_step (f sm iv from to)) \<and>
     (\<forall>f\<in>set_option (mp_kraken P). \<forall>sm n m. obeys ingest_step (f sm n m)) \<and>
     (\<forall>f\<in>set_option (mp_coinbase P). \<forall>sm from to n. obeys ingest_step (f sm from to n)) \<and>
     (\<forall>f\<in>set_option (mp_coinglass P). \<forall>n. obeys ingest_step (f n)) \<and>
     (\<forall>p\<in>set_option (mp_cgMicro P). \<forall>sm n from to. obeys ingest_step (mi_FetchOrderbookBidAsk p sm n from to) \<and>
        obeys ingest_step (mi_FetchFuturesSpotVolRatio p sm n from to))"

lemmas pg_mst_port_defs = pg_mst_raws_def mst_raws.simps MstRawRepo_GetBinanceKlineCloseSeries_def MstRawRepo_GetBinanceKlineCloseAsOf_def
  MstRawRepo_GetKrakenCloseAsOf_def MstRawRepo_GetCoinbaseCloseAsOf_def MstRawRepo_GetCoinglassCoinbasePremiumRateAsOf_def
  MstRawRepo_GetOrderbookImbalanceAsOf_def MstRawRepo_GetFuturesSpotRatioAsOf_def GetBasis3mDailyAnyVersion_def

interpretation pg_mst_day: mst_day_ports feature_step "pg_mst_service P cfg assets"
  by unfold_locales (auto simp: pg_mst_port_defs intro!: ingest_feature step_quiet step_quiet_found step_found_InTx mst_quiet
      tport.Save tport.GetLatest tport.GetSeries)

lemma pg_mst_ingest: "mst_providers_ok P \<Longrightarrow> mst_ingest_ports ingest_step (pg_mst_service P cfg assets)"
  by unfold_locales (auto simp: pg_mst_port_defs step_mst_saves step_Publish mst_providers_ok_def)

section \<open>Runs\<close>

abbreviation mst_event :: "mst_config \<Rightarrow> gotime \<Rightarrow> asset \<Rightarrow> f64 \<Rightarrow> event" where
  "mst_event cfg vd a \<equiv> score_event ''scores.market_stress.completed.v1'' (kc_model_version cfg) (kc_config_version cfg) a vd"

lemma mst_scored_run:
  assumes "mst_providers_ok P"
  shows "scored_run (mst_RunOnce M (pg_mst_service P cfg assets) vd)
    (mst_ingestAll (pg_mst_service P cfg assets) (add_days (UTCDay vd) (- 210)) (UTCDay vd))
    (\<lambda>c. wrapE ''global features'' [] (mst_computeGlobalFeatures M (pg_mst_service P cfg assets) (UTCDay vd) c))
    (\<lambda>a. mst_assetFeatures (pg_mst_service P cfg assets) a (UTCDay vd))
    (\<lambda>a. mst_gatherScoreInputs (pg_mst_service P cfg assets) a (UTCDay vd))
    (\<lambda>i. mst_computeScore M i (mst_Defaults cfg)) (mst_event (mst_Defaults cfg) (UTCDay vd)) (UTCDay vd)
    (if assets = [] then AssetsTradeable else assets)"
proof
  let ?s = "pg_mst_service P cfg assets"
  show "mst_RunOnce M ?s vd = seqE (mst_ingestAll ?s (add_days (UTCDay vd) (- 210)) (UTCDay vd)) (bindE clock_Now (\<lambda>c.
      wrapE ''day'' [AStr (fmt_day (UTCDay vd))] (seqE (wrapE ''global features'' [] (mst_computeGlobalFeatures M ?s (UTCDay vd) c))
      (forE (\<lambda>a. wrapE ''asset'' [AStr a] (seqE (mst_assetFeatures ?s a (UTCDay vd) c)
         (bindE (wrapE ''gather score inputs'' [] (mst_gatherScoreInputs ?s a (UTCDay vd) c))
         (\<lambda>i. store_score ScoreRepo_Save Publisher_Publish (mst_event (mst_Defaults cfg) (UTCDay vd) a)
           (mst_computeScore M i (mst_Defaults cfg))))))
        (if assets = [] then AssetsTradeable else assets)))))"
    by (simp add: mst_RunOnce_def mst_computeRange_def day_range_self mst_computeDay_def mst_computeAssetDay_def Let_def seqE_ret ret_seqE
      split del: if_split)
  show "obeys ingest_step (mst_ingestAll ?s (add_days (UTCDay vd) (- 210)) (UTCDay vd))"
    by (rule mst_ingest_ports.ingest_obeys[OF pg_mst_ingest[OF assms]])
  then show "obeys feature_step (mst_ingestAll ?s (add_days (UTCDay vd) (- 210)) (UTCDay vd))" by (rule ingest_feature)
qed (rule fstep.obeys_wrapE pg_mst_day.global_obeys pg_mst_day.asset_obeys pg_mst_day.gather_obeys)+

definition offline_mst :: "'a world_scheme mst_providers" where
  "offline_mst = \<lparr>mp_binance = None, mp_kraken = None, mp_coinbase = None, mp_coinglass = None, mp_cgMicro = None\<rparr>"

lemma offline_mst_ok: "mst_providers_ok offline_mst"
  by (simp add: offline_mst_def mst_providers_ok_def)

interpretation mst_offline: mst_ingest_ports ingest_step "pg_mst_service offline_mst cfg assets"
  by (rule pg_mst_ingest[OF offline_mst_ok])

interpretation mst_offline_run: scored_run "mst_RunOnce M (pg_mst_service offline_mst cfg assets) vd"
    "mst_ingestAll (pg_mst_service offline_mst cfg assets) (add_days (UTCDay vd) (- 210)) (UTCDay vd)"
    "\<lambda>c. wrapE ''global features'' [] (mst_computeGlobalFeatures M (pg_mst_service offline_mst cfg assets) (UTCDay vd) c)"
    "\<lambda>a. mst_assetFeatures (pg_mst_service offline_mst cfg assets) a (UTCDay vd)"
    "\<lambda>a. mst_gatherScoreInputs (pg_mst_service offline_mst cfg assets) a (UTCDay vd)"
    "\<lambda>i. mst_computeScore M i (mst_Defaults cfg)" "mst_event (mst_Defaults cfg) (UTCDay vd)" "UTCDay vd"
    "if assets = [] then AssetsTradeable else assets"
  by (rule mst_scored_run[OF offline_mst_ok])

lemma mst_gather_shape:
  assumes "mst_gatherScoreInputs s a vd c w = (Inr i, w')"
  shows "ki_asset i = a" "ki_value_date i = vd"
  using assms unfolding mst_gatherScoreInputs_def Let_def by (auto simp: bindE_eq_Inr split: prod.splits)

lemma mst_cfg_Defaults: "mst_cfg_ok (mst_Defaults cfg) = mst_cfg_ok cfg"
  by (simp add: mst_cfg_ok_def)

lemma mst_run_scores:
  assumes p: "mst_providers_ok P" and run: "mst_RunOnce M (pg_mst_service P cfg assets) vd w = (Inr (), w')"
    and cfg: "mst_cfg_ok cfg" and M: "go_libm M"
  shows "\<exists>new. w_scores w' = w_scores w @ new \<and>
    list_all2 (\<lambda>a row. ds_asset (r_val row) = a \<and> ds_domain (r_val row) = DomainMarketStress \<and> ds_value_date (r_val row) = UTCDay vd \<and>
        fin_in (- 1) 1 (ds_score (r_val row)))
      (if assets = [] then AssetsTradeable else assets) new"
  by (rule scoring_run.run_scores[OF mst_scored_run[OF p, THEN scored_run.axioms(1)] run])
    (use cfg in \<open>auto simp: mst_cfg_Defaults dest: mst_gather_shape intro!: go_libm.mst_score_in(1)[OF M]\<close>)

section \<open>The run succeeds\<close>

lemma mst_storable:
  assumes M: "go_libm M" and "mst_cfg_ok cfg" "kc_model_version cfg \<noteq> []" "Asset_Validate (ki_asset i) = None" "ki_value_date i \<noteq> zero_time"
  shows "storable (mst_computeScore M i (mst_Defaults cfg))"
proof (rule storableI)
  have c: "mst_cfg_ok (mst_Defaults cfg)" using assms(2) by (simp add: mst_cfg_Defaults)
  show "fin_in (- 1) 1 (ds_score (mst_computeScore M i (mst_Defaults cfg)))"
    "\<forall>v\<in>ran (ds_components (mst_computeScore M i (mst_Defaults cfg))). fin_in (- 1) 1 v"
    using go_libm.mst_score_in[OF M c] by simp_all
  obtain x n where m: "mst_micro M (kc_scale (mst_Defaults cfg)) i = (x, n)" by fastforce
  have n: "is_finite n" using go_libm.mst_micro_in[OF M, of "kc_scale (mst_Defaults cfg)" i] c m by (simp add: mst_cfg_ok_def Let_def)
  show "json_anys (ds_quality (mst_computeScore M i (mst_Defaults cfg)))"
    unfolding json_anys_def mst_computeScore_def Let_def mst_Defaults_idem m prod.case domain_score.simps
    by (rule ran_map_of_all) (simp add: n)
  show "ds_model_version (mst_computeScore M i (mst_Defaults cfg)) \<noteq> []"
    using assms(3) by (simp add: mst_Defaults_def)
qed (use assms in \<open>simp_all add: AllDomains_def\<close>)

lemma total_mst_raws:
  "finds healthy (kr_KlineCloseAsOf pg_mst_raws smb vd c)"
  "finds healthy (kr_KrakenCloseAsOf pg_mst_raws smb vd c)"
  "finds healthy (kr_CoinbaseCloseAsOf pg_mst_raws smb vd c)"
  "finds healthy (kr_PremiumRateAsOf pg_mst_raws vd c)"
  "finds healthy (GetBasis3mDailyAnyVersion a vd c)"
  "total_io healthy (kr_KlineCloseSeries pg_mst_raws smb f t c) (\<lambda>_. True)"
  "total_io healthy (kr_OrderbookImbalanceAsOf pg_mst_raws smb vd c) (\<lambda>_. True)"
  "total_io healthy (kr_FuturesSpotRatioAsOf pg_mst_raws smb vd c) (\<lambda>_. True)"
  unfolding pg_mst_port_defs
  by (intro finds_found_InTx total_replies mst_quiet mst_replies | (unfold GetLatestLeverageFeatureAnyVersion_def, intro finds_quiet quiet_reads))+

lemma total_mst_save: "total_io healthy (mst_saveFeature (pg_mst_service P cfg assets) k a vd v sn sv) (\<lambda>_. True)"
  "total_io healthy (mst_zscore (pg_mst_service P cfg assets) d z a vd c n m sn' sv') (\<lambda>_. True)"
  unfolding mst_saveFeature_def mst_zscore_def pg_mst_sel by (rule total_table)+

lemma total_mst_correlation: "total_io healthy (mst_computeBtcAltCorrelation M (pg_mst_service P cfg assets) vd c) (\<lambda>_. True)"
  unfolding mst_computeBtcAltCorrelation_def Let_def pg_mst_sel
  by (intro total_bind1 total_if total_skip total_foldE total_attempt1 total_mst_raws TrueI)

lemma total_mst_premium: "total_io healthy (mst_computeCoinbasePremiumAbs (pg_mst_service P cfg assets) vd c) (\<lambda>_. True)"
  unfolding mst_computeCoinbasePremiumAbs_def pg_mst_sel
  by (rule total_bindE[OF total_attempt_finds[OF total_mst_raws(4)]])
    (auto split: sum.split intro!: total_ret total_bind1 total_found_value total_mst_raws)

lemma total_mst_global: "total_io healthy (mst_computeGlobalFeatures M (pg_mst_service P cfg assets) vd c) (\<lambda>_. True)"
  unfolding mst_computeGlobalFeatures_def mst_computePegDeviation_def mst_saveGlobalFeature_def Let_def
  by (intro total_seq1 total_when_some total_bind1 total_skip total_mst_correlation total_mst_premium total_mst_save)
    (simp_all add: total_found_value total_mst_raws)

lemma total_mst_assetFeatures: "total_io healthy (mst_assetFeatures (pg_mst_service P cfg assets) a vd c) (\<lambda>_. True)"
  unfolding mst_assetFeatures_def mst_computeBasisInversionDepth_def Let_def pg_mst_sel option.case
  by (intro total_seq1 total_when_some total_bind1 total_skip total_found_value total_mst_save total_mst_raws)

lemma total_mst_gather: "total_io healthy (mst_gatherScoreInputs (pg_mst_service P cfg assets) a vd c) (\<lambda>i. ki_asset i = a \<and> ki_value_date i = vd)"
  unfolding mst_gatherScoreInputs_def Let_def pg_mst_sel
  by (intro total_bind1 total_table_value total_pair total_ret) simp

theorem mst_run_succeeds:
  assumes M: "go_libm M" and "mst_cfg_ok cfg" "kc_model_version cfg \<noteq> []" "\<forall>a\<in>set assets. Asset_Validate a = None" "UTCDay vd \<noteq> zero_time"
    and p: "mst_providers_ok P" and h: "healthy w"
    and ingest: "fst (mst_ingestAll (pg_mst_service P cfg assets) (add_days (UTCDay vd) (- 210)) (UTCDay vd) w) = Inr ()"
  shows "\<exists>w'. mst_RunOnce M (pg_mst_service P cfg assets) vd w = (Inr (), w') \<and> healthy w'"
proof (rule scoring_run.run_succeeds[OF mst_scored_run[OF p, THEN scored_run.axioms(1)] _ _ _ _ h ingest])
  fix a c assume "a \<in> set (if assets = [] then AssetsTradeable else assets)"
  then have v: "Asset_Validate a = None" using assms(4) AssetsTradeable_valid by (auto split: if_splits)
  show "total_io healthy (mst_gatherScoreInputs (pg_mst_service P cfg assets) a (UTCDay vd) c)
      (\<lambda>i. storable (mst_computeScore M i (mst_Defaults cfg)))"
    by (rule total_weaken[OF total_mst_gather]) (use v assms in \<open>auto intro!: mst_storable\<close>)
qed (intro total_wrapE total_mst_global total_mst_assetFeatures | erule score_event_json)+

section \<open>An example\<close>

definition ex_mst_config :: mst_config where
  "ex_mst_config = \<lparr>kc_model_version = ''market_stress_v1'', kc_config_version = ''c1'', kc_code_sha = ''dev'', kc_intermediate = ''v1'',
     kc_final = ''v1'', kc_basis_version = ''v1'', kc_w_corr = fzero, kc_w_peg = fzero, kc_w_coinbase = fzero, kc_w_basis = fzero,
     kc_w_micro = fzero, kc_scale = fzero\<rparr>"

lemma ex_mst_config_ok: "mst_cfg_ok ex_mst_config"
  by (simp add: mst_cfg_ok_def Let_def mst_Defaults_def if_zero_def ex_mst_config_def scale_ok_def f64_eval)

lemma offline_mst_ingest: "fst (mst_ingestAll (pg_mst_service offline_mst cfg assets) f t w) = Inr ()"
  by (simp add: mst_ingestAll_def mst_ingestKlines_def mst_ingestKrakenOHLC_def mst_ingestCoinbaseCandles_def mst_ingestCoinbasePremium_def
    mst_ingestCoinglassMicro_def offline_mst_def seqE_def bindE_def wrapE_def)

lemma ex_mst_runs: "\<exists>w'. mst_RunOnce ideal_libm (pg_mst_service offline_mst ex_mst_config []) ex_day (start_world []) = (Inr (), w') \<and> healthy w'"
  by (rule mst_run_succeeds[OF ideal.go_libm_axioms ex_mst_config_ok _ _ _ offline_mst_ok start_healthy offline_mst_ingest])
    (simp_all add: ex_mst_config_def ex_day_def UTCDay_def day_of_def day_ns_def zero_time_def)

end
