(* ===== verification/CapitalFlows.thy ===== *)
theory CapitalFlows
  imports FeatureLib StorageDomains
begin

text \<open>
  \<open>internal/capitalflows\<close>: configuration, ports, features (\<open>features/features.go\<close>) and the score of a
  day (\<open>pipeline.go\<close>).
\<close>

section \<open>Configuration\<close>

record cfl_config =
  xc_model_version :: string
  xc_config_version :: string
  xc_code_sha :: string
  xc_intermediate :: string
  xc_final :: string
  xc_scale :: f64
  xc_w_etf :: f64
  xc_w_lth :: f64
  xc_w_miner :: f64
  xc_w_flow :: f64
  xc_w_lth_pre :: f64
  xc_w_miner_pre :: f64

text \<open>The weights of the miners have no default.\<close>

definition cfl_Defaults :: "cfl_config \<Rightarrow> cfl_config" where
  "cfl_Defaults c = c\<lparr>xc_scale := if_zero (xc_scale c) 2, xc_w_etf := if_zero (xc_w_etf c) (416 / 1000),
     xc_w_lth := if_zero (xc_w_lth c) (384 / 1000), xc_w_flow := if_zero (xc_w_flow c) (20 / 100),
     xc_w_lth_pre := if_zero (xc_w_lth_pre c) 1\<rparr>"

section \<open>Ports\<close>

record etf_flow_point =
  ep_date :: gotime
  ep_usd :: f64
  ep_price :: f64
  ep_hash :: string

record lth_point =
  lp_date :: gotime
  lp_supply :: f64
  lp_price :: f64
  lp_hash :: string

record btc_mcap_point =
  cm_date :: gotime
  cm_cap :: f64
  cm_price :: f64
  cm_hash :: string

record stable_mcap_point =
  sm_date :: gotime
  sm_cap :: f64
  sm_price :: f64
  sm_hash :: string

record balance_snapshot =
  bx_exchange :: string
  bx_symbol :: string
  bx_total :: f64
  bx_change1d :: f64
  bx_change7d :: f64
  bx_change30d :: f64
  bx_pct1d :: f64
  bx_pct7d :: f64
  bx_pct30d :: f64
  bx_hash :: string

record margin_point =
  gp_time :: gotime
  gp_symbol :: string
  gp_long :: f64
  gp_short :: f64
  gp_hash :: string

record etf_list_point =
  tp_ticker :: string
  tp_fund :: string
  tp_region :: string
  tp_status :: string
  tp_venue :: string
  tp_kind :: string
  tp_shares :: f64
  tp_aum :: f64
  tp_fee :: f64
  tp_volume :: f64
  tp_price_change :: f64
  tp_nav :: f64
  tp_premium :: f64
  tp_holding :: f64
  tp_pct24h :: f64
  tp_qty24h :: f64
  tp_pct7d :: f64
  tp_qty7d :: f64
  tp_update :: string
  tp_hash :: string

record etf_aum_point =
  ap_date :: gotime
  ap_ticker :: string
  ap_aum :: f64
  ap_hash :: string

record nearest_pain_point =
  np_expiry :: gotime
  np_symbol :: string
  np_exchange :: string
  np_price :: f64
  np_call_oi :: f64
  np_put_oi :: f64
  np_call_usd :: f64
  np_put_usd :: f64
  np_call_value :: f64
  np_put_value :: f64
  np_hash :: string

record 'w cfl_raws =
  xr_SaveETFFlows :: "etf_flow_row list \<Rightarrow> ('w, unit) io"
  xr_SaveLTHSupply :: "lth_row list \<Rightarrow> ('w, unit) io"
  xr_SaveBTCMarketCap :: "mcap_row list \<Rightarrow> ('w, unit) io"
  xr_CombinedETFFlowAsOf :: "gotime \<Rightarrow> gotime \<Rightarrow> ('w, f64 option) io"
  xr_LTHSupplyAsOf :: "asset \<Rightarrow> gotime \<Rightarrow> gotime \<Rightarrow> ('w, f64) io"
  xr_SaveStablecoinMcap :: "stable_mcap_row list \<Rightarrow> ('w, unit) io"
  xr_SaveExchangeBalance :: "balance_row list \<Rightarrow> ('w, unit) io"
  xr_SaveBitfinexMargin :: "margin_row list \<Rightarrow> ('w, unit) io"
  xr_StablecoinMcapAsOf :: "gotime \<Rightarrow> gotime \<Rightarrow> ('w, f64 option) io"
  xr_StablecoinMcapSeries :: "gotime \<Rightarrow> gotime \<Rightarrow> gotime \<Rightarrow> ('w, f64 list) io"
  xr_Balance7dAsOf :: "string \<Rightarrow> gotime \<Rightarrow> gotime \<Rightarrow> ('w, f64 option) io"
  xr_Balance30dAsOf :: "string \<Rightarrow> gotime \<Rightarrow> gotime \<Rightarrow> ('w, f64 option) io"
  xr_BitfinexMarginAsOf :: "string \<Rightarrow> gotime \<Rightarrow> gotime \<Rightarrow> ('w, (f64 \<times> f64) option) io"
  xr_SaveETFList :: "etf_list_row list \<Rightarrow> ('w, unit) io"
  xr_SaveETFAUMHistory :: "etf_aum_row list \<Rightarrow> ('w, unit) io"
  xr_SaveMaxPain :: "max_pain_row list \<Rightarrow> ('w, unit) io"
  xr_ETFListAUMTotalAsOf :: "gotime \<Rightarrow> gotime \<Rightarrow> ('w, f64 option) io"
  xr_ETFListHHIAsOf :: "gotime \<Rightarrow> gotime \<Rightarrow> ('w, f64 option) io"
  xr_ETFAUMHistoryTotalAsOf :: "gotime \<Rightarrow> gotime \<Rightarrow> ('w, f64 option) io"
  xr_DealerSkewAsOf :: "string \<Rightarrow> string \<Rightarrow> gotime \<Rightarrow> gotime \<Rightarrow> ('w, f64 option) io"

record 'w etf_provider =
  xe_FetchBTC :: "('w, etf_flow_point list) io"
  xe_FetchETH :: "('w, etf_flow_point list) io"

record 'w flow_provider =
  xl_FetchStablecoinMcap :: "('w, stable_mcap_point list) io"
  xl_FetchExchangeBalance :: "string \<Rightarrow> ('w, balance_snapshot list) io"
  xl_FetchBitfinexMargin :: "string \<Rightarrow> int \<Rightarrow> ('w, margin_point list) io"

record 'w inst_provider =
  xn_FetchETFList :: "('w, etf_list_point list) io"
  xn_FetchETFAUMHistory :: "string \<Rightarrow> ('w, etf_aum_point list) io"
  xn_FetchMaxPain :: "string \<Rightarrow> string \<Rightarrow> ('w, nearest_pain_point list) io"

section \<open>Features\<close>

definition ETFNetflowDailyName where "ETFNetflowDailyName = ''etf_netflow_daily''"
definition LTHSupplyDailyName where "LTHSupplyDailyName = ''lth_supply_daily''"
definition LTHSupplyChange30dName where "LTHSupplyChange30dName = ''lth_supply_change_30d''"
definition ETFNetflowZScore90dName where "ETFNetflowZScore90dName = ''etf_netflow_zscore_90d''"
definition LTHSupplyChangeZScore180dName where "LTHSupplyChangeZScore180dName = ''lth_supply_change_zscore_180d''"
definition MinerNetflowZScore180dName where "MinerNetflowZScore180dName = ''miner_netflow_zscore_180d''"
definition StablecoinMcapVelocity30dName where "StablecoinMcapVelocity30dName = ''stablecoin_mcap_velocity_30d''"
definition StablecoinVelocityZScore90dName where "StablecoinVelocityZScore90dName = ''stablecoin_mcap_velocity_zscore_90d''"
definition ExchangeBalanceChange7dName where "ExchangeBalanceChange7dName = ''exchange_balance_change_7d''"
definition ExchangeBalanceChangeZScore90dName where "ExchangeBalanceChangeZScore90dName = ''exchange_balance_change_zscore_90d''"
definition BitfinexMarginSkewDailyName where "BitfinexMarginSkewDailyName = ''bitfinex_margin_skew_daily''"
definition BitfinexMarginSkewZScore90dName where "BitfinexMarginSkewZScore90dName = ''bitfinex_margin_skew_zscore_90d''"
definition StablecoinDryPowderChange7dName where "StablecoinDryPowderChange7dName = ''stablecoin_dry_powder_change_7d''"
definition StablecoinDryPowderChange7dZName where "StablecoinDryPowderChange7dZName = ''stablecoin_dry_powder_change_7d_zscore_90d''"
definition StablecoinDryPowderChange30dName where "StablecoinDryPowderChange30dName = ''stablecoin_dry_powder_change_30d''"
definition StablecoinDryPowderChange30dZName where "StablecoinDryPowderChange30dZName = ''stablecoin_dry_powder_change_30d_zscore_90d''"
definition ETFAUMTotalDailyName where "ETFAUMTotalDailyName = ''etf_aum_total_daily''"
definition ETFAUMVelocity30dName where "ETFAUMVelocity30dName = ''etf_aum_velocity_30d''"
definition ETFAUMVelocityZScore90dName where "ETFAUMVelocityZScore90dName = ''etf_aum_velocity_zscore_90d''"
definition ETFConcentrationHHIDailyName where "ETFConcentrationHHIDailyName = ''etf_concentration_hhi_daily''"
definition ETFConcentrationHHIZScore90dName where "ETFConcentrationHHIZScore90dName = ''etf_concentration_hhi_zscore_90d''"
definition OptionsDealerSkewProxyDailyName where "OptionsDealerSkewProxyDailyName = ''options_dealer_skew_proxy_daily''"
definition OptionsDealerSkewProxyZScoreName where "OptionsDealerSkewProxyZScoreName = ''options_dealer_skew_proxy_zscore_90d''"

definition ETFAUMVelocity30d :: "f64 \<Rightarrow> f64 \<Rightarrow> f64 option" where
  "ETFAUMVelocity30d now past =
     (if fle past fzero \<or> isNaN now \<or> isNaN past \<or> isInf now \<or> isInf past then None
      else Some (fdiv (fsub now past) (lit 30)))"

definition OptionsDealerSkewProxy :: "f64 \<Rightarrow> f64 \<Rightarrow> f64 option" where
  "OptionsDealerSkewProxy callNotional putNotional =
     (let denom = fadd callNotional putNotional in
      if fle denom fzero \<or> isNaN callNotional \<or> isNaN putNotional then None
      else Some (fdiv (fsub callNotional putNotional) denom))"

definition BitfinexMarginSkew :: "libm \<Rightarrow> f64 \<times> f64 \<Rightarrow> f64 option" where
  "BitfinexMarginSkew M p =
     (let (lo, sh) = p in
      if isNaN lo \<or> isNaN sh \<or> flt lo fzero \<or> flt sh fzero then None
      else Some (m_log M (fdiv (fadd lo fone) (fadd sh fone))))"

section \<open>The score\<close>

definition ETFLaunchDate :: gotime where
  "ETFLaunchDate = day_of_civil 2024 1 11 * day_ns"

record cfl_inputs =
  xi_asset :: asset
  xi_value_date :: gotime
  xi_etf :: f64
  xi_etf_ok :: bool
  xi_lth :: f64
  xi_lth_ok :: bool
  xi_miner :: f64
  xi_miner_ok :: bool
  xi_stable :: f64
  xi_stable_ok :: bool
  xi_balance :: f64
  xi_balance_ok :: bool
  xi_margin :: f64
  xi_margin_ok :: bool
  xi_dry7 :: f64
  xi_dry7_ok :: bool
  xi_dry30 :: f64
  xi_dry30_ok :: bool
  xi_aum :: f64
  xi_aum_ok :: bool
  xi_hhi :: f64
  xi_hhi_ok :: bool
  xi_dealer :: f64
  xi_dealer_ok :: bool
  xi_features :: "string list"

definition cfl_postETF :: "gotime \<Rightarrow> bool" where
  "cfl_postETF vd \<longleftrightarrow> \<not> vd < ETFLaunchDate"

definition cfl_liquidity :: "libm \<Rightarrow> f64 \<Rightarrow> cfl_inputs \<Rightarrow> f64 \<times> f64" where
  "cfl_liquidity M scale i = avg_signals
     [opt_signal M scale (xi_stable_ok i) (xi_stable i),
      map_option fneg (opt_signal M scale (xi_balance_ok i) (xi_balance i)),
      opt_signal M scale (xi_margin_ok i) (xi_margin i),
      opt_signal M scale (xi_dry7_ok i) (xi_dry7 i),
      opt_signal M scale (xi_dry30_ok i) (xi_dry30 i),
      opt_signal M scale (xi_aum_ok i) (xi_aum i),
      map_option fneg (opt_signal M scale (xi_hhi_ok i) (xi_hhi i)),
      opt_signal M scale (xi_dealer_ok i) (xi_dealer i)]"

text \<open>Before the first fund only the holders and the miners count.\<close>

definition cfl_weighted :: "cfl_config \<Rightarrow> bool \<Rightarrow> f64 \<Rightarrow> f64 \<Rightarrow> f64 \<Rightarrow> f64 \<Rightarrow> f64" where
  "cfl_weighted cfg post etf lth miner flow =
     (if post then fadd (fadd (fadd (fmul (xc_w_etf cfg) etf) (fmul (xc_w_lth cfg) lth)) (fmul (xc_w_miner cfg) miner))
                     (fmul (xc_w_flow cfg) flow)
      else fadd (fmul (xc_w_lth_pre cfg) lth) (fmul (xc_w_miner_pre cfg) miner))"

definition cfl_partial :: "cfl_inputs \<Rightarrow> bool" where
  "cfl_partial i = (if cfl_postETF (xi_value_date i) then \<not> xi_etf_ok i \<or> \<not> xi_lth_ok i \<or> \<not> xi_miner_ok i
     else \<not> xi_lth_ok i \<or> \<not> xi_miner_ok i)"

definition cfl_computeScore :: "libm \<Rightarrow> cfl_inputs \<Rightarrow> cfl_config \<Rightarrow> domain_score" where
  "cfl_computeScore M i cfg0 =
     (let cfg = cfl_Defaults cfg0; scale = xc_scale cfg; post = cfl_postETF (xi_value_date i);
          etf = signal M scale (xi_etf_ok i) (xi_etf i);
          lth = signal M scale (xi_lth_ok i) (xi_lth i);
          miner = signal M scale (xi_miner_ok i) (xi_miner i);
          (flow, flowN) = cfl_liquidity M scale i
      in \<lparr>ds_asset = xi_asset i, ds_domain = DomainCapitalFlows, ds_value_date = xi_value_date i,
          ds_score = clamp1 (cfl_weighted cfg post etf lth miner flow),
          ds_components = map_of [(''component_etf'', etf), (''component_lth'', lth), (''component_miner'', miner),
             (''component_liquidity_flow'', flow)],
          ds_features_used = xi_features i, ds_model_version = xc_model_version cfg,
          ds_config_version = xc_config_version cfg, ds_code_sha = xc_code_sha cfg,
          ds_sources = map_of [(''coinglass_etf_flows'', ''coinglass_v4''), (''lth_supply'', ''coinglass_v4'')],
          ds_quality = map_of [(''post_etf'', ABool post), (''etf_available'', ABool (xi_etf_ok i)),
             (''lth_available'', ABool (xi_lth_ok i)), (''miner_available'', ABool (xi_miner_ok i)),
             (''stablecoin_velocity_available'', ABool (xi_stable_ok i)), (''exchange_balance_available'', ABool (xi_balance_ok i)),
             (''bitfinex_margin_available'', ABool (xi_margin_ok i)), (''stablecoin_dry_powder_7d_available'', ABool (xi_dry7_ok i)),
             (''stablecoin_dry_powder_30d_available'', ABool (xi_dry30_ok i)), (''etf_aum_velocity_available'', ABool (xi_aum_ok i)),
             (''etf_concentration_hhi_available'', ABool (xi_hhi_ok i)), (''options_dealer_skew_available'', ABool (xi_dealer_ok i)),
             (''liquidity_flow_n'', AFloat flowN), (''partial_coverage'', ABool (cfl_partial i)),
             (''display_name'', AStr ''Holder Conviction''),
             (''rename_note'', AStr ''domain_code=CAPITAL_FLOWS retained for DB schema stability; semantics since engine_v1.1.0 = Holder Conviction (ETF flows + LTH supply changes)'')]\<rparr>)"

section \<open>The score is in range\<close>

definition cfl_cfg_ok :: "cfl_config \<Rightarrow> bool" where
  "cfl_cfg_ok c \<longleftrightarrow> (let d = cfl_Defaults c in fin_in 0 1 (xc_w_etf d) \<and> fin_in 0 1 (xc_w_lth d) \<and> fin_in 0 1 (xc_w_miner d) \<and>
     fin_in 0 1 (xc_w_flow d) \<and> fin_in 0 1 (xc_w_lth_pre d) \<and> fin_in 0 1 (xc_w_miner_pre d) \<and> scale_ok (xc_scale d))"

lemma cfl_Defaults_idem [simp]: "cfl_Defaults (cfl_Defaults c) = cfl_Defaults c"
  by (simp add: cfl_Defaults_def if_zero_idem)

lemma cfl_score_sel [simp]: "ds_asset (cfl_computeScore M i c) = xi_asset i" "ds_domain (cfl_computeScore M i c) = DomainCapitalFlows"
  "ds_value_date (cfl_computeScore M i c) = xi_value_date i" "ds_model_version (cfl_computeScore M i c) = xc_model_version c"
  by (simp_all add: cfl_computeScore_def Let_def cfl_Defaults_def split: prod.split)

lemma cfl_partial_sel: "ds_quality (cfl_computeScore M i c) ''partial_coverage'' = Some (ABool (cfl_partial i))"
  by (simp add: cfl_computeScore_def Let_def split: prod.split)

lemma cfl_weighted_in:
  assumes "cfl_cfg_ok c" "fin_in (- 1) 1 e" "fin_in (- 1) 1 l" "fin_in (- 1) 1 m" "fin_in (- 1) 1 f"
  shows "fin_in (- 1) 1 (clamp1 (cfl_weighted (cfl_Defaults c) post e l m f))"
proof (cases post)
  case True
  then show ?thesis unfolding cfl_weighted_def if_P[OF True]
    by (intro clamp1_weighted(2)) (use assms in \<open>auto simp: cfl_cfg_ok_def Let_def\<close>)
next
  case False
  note w = assms(1)[unfolded cfl_cfg_ok_def Let_def]
  have "fin_in (- of_nat (1 + 1)) (of_nat (1 + 1)) (fadd (fmul (xc_w_lth_pre (cfl_Defaults c)) l) (fmul (xc_w_miner_pre (cfl_Defaults c)) m))"
    by (rule fadd_nat) (use w assms in \<open>simp_all add: weighted[simplified]\<close>)
  then show ?thesis using False fin_in_not_NaN by (auto simp: cfl_weighted_def intro!: clamp1_in)
qed

context go_libm
begin

lemma cfl_liquidity_in: "scale_ok s \<Longrightarrow> fin_in (- 1) 1 (fst (cfl_liquidity M s i)) \<and> is_finite (snd (cfl_liquidity M s i))"
  unfolding cfl_liquidity_def by (rule avg_signals_in) (auto intro: opt_signal_in fin_in_neg1 dest!: sym[of "Some _"])

lemma cfl_score_in:
  assumes "cfl_cfg_ok c"
  shows "fin_in (- 1) 1 (ds_score (cfl_computeScore M i c))"
    and "\<forall>v\<in>ran (ds_components (cfl_computeScore M i c)). fin_in (- 1) 1 v"
proof -
  have s: "scale_ok (xc_scale (cfl_Defaults c))" using assms by (simp add: cfl_cfg_ok_def Let_def)
  obtain x n where m: "cfl_liquidity M (xc_scale (cfl_Defaults c)) i = (x, n)" by fastforce
  have x: "fin_in (- 1) 1 x" using cfl_liquidity_in[OF s, of i] m by simp
  show "fin_in (- 1) 1 (ds_score (cfl_computeScore M i c))"
    unfolding cfl_computeScore_def Let_def m prod.case domain_score.simps
    by (intro cfl_weighted_in assms signal_in[OF s] x)
  show "\<forall>v\<in>ran (ds_components (cfl_computeScore M i c)). fin_in (- 1) 1 v"
    unfolding cfl_computeScore_def Let_def m prod.case domain_score.simps
    by (rule ran_map_of_all) (simp add: signal_in[OF s] x)
qed

end

end
