(* ===== verification/CapitalFlowsService.thy ===== *)
theory CapitalFlowsService
  imports CapitalFlows
begin

text \<open>
  \<open>internal/capitalflows/service.go\<close>: ingestion, the features of a day, its scores, and the runs.
\<close>

record 'w cfl_service =
  xs_features :: "'w feature_repo"
  xs_scores :: "'w score_repo"
  xs_raws :: "'w cfl_raws"
  xs_etf :: "'w etf_provider option"
  xs_lth :: "('w, lth_point list) io option"
  xs_mcap :: "('w, btc_mcap_point list) io option"
  xs_liquidity :: "'w flow_provider option"
  xs_inst :: "'w inst_provider option"
  xs_publish :: "event \<Rightarrow> ('w, unit) io"
  xs_clock :: "('w, gotime) io"
  xs_cfg :: cfl_config
  xs_assets :: "asset list"

definition cfl_NewService where
  "cfl_NewService featRepo scoreRepo rawRepo etf lth mcap liquidity inst pub clk cfg assets =
     \<lparr>xs_features = featRepo, xs_scores = scoreRepo, xs_raws = rawRepo, xs_etf = etf, xs_lth = lth, xs_mcap = mcap,
      xs_liquidity = liquidity, xs_inst = inst, xs_publish = pub, xs_clock = clk, xs_cfg = cfl_Defaults cfg,
      xs_assets = (if assets = [] then [AssetGlobal] else assets)\<rparr>"

section \<open>Ingestion\<close>

definition cfl_rows_event :: "string \<Rightarrow> string \<Rightarrow> 'r list \<Rightarrow> (string \<times> anyval) list \<Rightarrow> event" where
  "cfl_rows_event topic aggregate rows extra = \<lparr>ev_topic = topic, ev_aggregate = aggregate,
     ev_payload = map_of ((''rows'', AInt (int (length rows))) # extra)\<rparr>"

text \<open>A failing fetch of the fund flows or of the holders' supply ends the ingestion; the other sources are optional.\<close>

definition cfl_writeETFFlows :: "'w cfl_service \<Rightarrow> string \<Rightarrow> etf_flow_point list \<Rightarrow> ('w, unit) io" where
  "cfl_writeETFFlows s kind pts = save_rows pts
     (xr_SaveETFFlows (xs_raws s) (map (\<lambda>p. \<lparr>ef_value_date = ep_date p, ef_kind = kind, ef_usd = ep_usd p, ef_price = ep_price p,
        ef_source = ''coinglass_v4'', ef_hash = ep_hash p\<rparr>) pts))
     (xs_publish s (ingest_event (''raw.capital_flows.etf_'' @ kind @ ''.ingested.v1'')
        (''coinglass_etf:'' @ kind @ '':'' @ fmt_day (ep_date (last pts))) [(''flow_type'', AStr kind)] (int (length pts))))"

definition cfl_ingestETFFlows :: "'w cfl_service \<Rightarrow> ('w, unit) io" where
  "cfl_ingestETFFlows s = (case xs_etf s of None \<Rightarrow> ret () | Some p \<Rightarrow>
     bindE (wrapE ''fetch BTC ETF flows'' [] (xe_FetchBTC p)) (\<lambda>btc.
     seqE (cfl_writeETFFlows s ''BTC'' btc)
    (bindE (wrapE ''fetch ETH ETF flows'' [] (xe_FetchETH p)) (\<lambda>eth. cfl_writeETFFlows s ''ETH'' eth))))"

definition cfl_ingestLTHSupply :: "'w cfl_service \<Rightarrow> ('w, unit) io" where
  "cfl_ingestLTHSupply s = (case xs_lth s of None \<Rightarrow> ret () | Some fetch \<Rightarrow>
     bindE (wrapE ''fetch LTH supply'' [] fetch) (\<lambda>pts. save_rows pts
       (xr_SaveLTHSupply (xs_raws s) (map (\<lambda>p. \<lparr>lh_value_date = lp_date p, lh_asset = AssetBTC, lh_supply = lp_supply p,
          lh_source = ''coinglass_v4'', lh_hash = lp_hash p\<rparr>) pts))
       (xs_publish s (ingest_event ''raw.capital_flows.lth_supply.ingested.v1'' (''coinglass_lth:BTC:'' @ fmt_day (lp_date (last pts)))
          [] (int (length pts))))))"

definition cfl_ingestBTCMarketCap :: "'w cfl_service \<Rightarrow> ('w, unit) io" where
  "cfl_ingestBTCMarketCap s = (case xs_mcap s of None \<Rightarrow> ret () | Some fetch \<Rightarrow>
     or_skip fetch (\<lambda>pts. save_rows pts
       (xr_SaveBTCMarketCap (xs_raws s) (map (\<lambda>p. \<lparr>mc_value_date = cm_date p, mc_coin = ''bitcoin'', mc_cap = cm_cap p, mc_price = cm_price p,
          mc_source = ''coinglass_v4'', mc_hash = cm_hash p\<rparr>) pts))
       (xs_publish s (ingest_event ''raw.capital_flows.btc_market_cap.ingested.v1'' (''coinglass_mcap:bitcoin:'' @ fmt_day (cm_date (last pts)))
          [] (int (length pts))))))"

definition cfl_stablecoin_mcap :: "'w cfl_service \<Rightarrow> 'w flow_provider \<Rightarrow> ('w, unit) io" where
  "cfl_stablecoin_mcap s p = or_skip (xl_FetchStablecoinMcap p) (\<lambda>pts. save_rows pts
     (wrapE ''save stablecoin mcap'' [] (xr_SaveStablecoinMcap (xs_raws s) (map (\<lambda>p. \<lparr>sc_value_date = sm_date p, sc_cap = sm_cap p,
        sc_price = sm_price p, sc_source = ''coinglass_v4'', sc_hash = sm_hash p\<rparr>) pts)))
     (xs_publish s (cfl_rows_event ''raw.capital_flows.stablecoin_mcap.ingested.v1'' ''GLOBAL:stablecoin_mcap'' pts [])))"

definition cfl_exchange_balance :: "'w cfl_service \<Rightarrow> 'w flow_provider \<Rightarrow> gotime \<Rightarrow> string \<Rightarrow> ('w, unit) io" where
  "cfl_exchange_balance s p today sm = or_skip (xl_FetchExchangeBalance p sm) (\<lambda>snaps. save_rows snaps
     (wrapE ''save exchange balance'' [AStr sm] (xr_SaveExchangeBalance (xs_raws s) (map (\<lambda>p. \<lparr>eb_value_date = today, eb_symbol = sm,
        eb_exchange = bx_exchange p, eb_total = bx_total p, eb_change1d = bx_change1d p, eb_change7d = bx_change7d p,
        eb_change30d = bx_change30d p, eb_pct1d = bx_pct1d p, eb_pct7d = bx_pct7d p, eb_pct30d = bx_pct30d p,
        eb_source = ''coinglass_v4'', eb_hash = bx_hash p\<rparr>) snaps)))
     (xs_publish s (cfl_rows_event ''raw.capital_flows.exchange_balance.ingested.v1'' (sm @ '':exchange_balance'') snaps [(''symbol'', AStr sm)])))"

definition cfl_bitfinex_margin :: "'w cfl_service \<Rightarrow> 'w flow_provider \<Rightarrow> string \<Rightarrow> ('w, unit) io" where
  "cfl_bitfinex_margin s p sm = or_skip (xl_FetchBitfinexMargin p sm 1000) (\<lambda>pts. save_rows pts
     (wrapE ''save bitfinex margin'' [AStr sm] (xr_SaveBitfinexMargin (xs_raws s) (map (\<lambda>p. \<lparr>bm_value_date = gp_time p, bm_symbol = sm,
        bm_long = gp_long p, bm_short = gp_short p, bm_source = ''coinglass_v4'', bm_hash = gp_hash p\<rparr>) pts)))
     (xs_publish s (cfl_rows_event ''raw.capital_flows.bitfinex_margin.ingested.v1'' (sm @ '':bitfinex_margin'') pts [(''symbol'', AStr sm)])))"

definition cfl_ingestLiquidityFlow :: "'w cfl_service \<Rightarrow> ('w, unit) io" where
  "cfl_ingestLiquidityFlow s = (case xs_liquidity s of None \<Rightarrow> ret () | Some p \<Rightarrow>
     seqE (cfl_stablecoin_mcap s p)
    (bindE (xs_clock s) (\<lambda>now.
     seqE (forE (cfl_exchange_balance s p (UTCDay now)) [''BTC'', ''ETH'', ''USDT(ETH)'', ''USDC''])
          (forE (cfl_bitfinex_margin s p) [''BTC'', ''ETH'']))))"

text \<open>The funds of the day, and the history of the first five of the list.\<close>

definition cfl_etf_list_row :: "gotime \<Rightarrow> etf_list_point \<Rightarrow> etf_list_row" where
  "cfl_etf_list_row today p = \<lparr>et_value_date = today, et_ticker = tp_ticker p, et_fund = tp_fund p, et_region = tp_region p,
     et_status = tp_status p, et_venue = tp_venue p, et_kind = tp_kind p, et_shares = tp_shares p, et_aum = tp_aum p, et_fee = tp_fee p,
     et_volume = tp_volume p, et_price_change = tp_price_change p, et_nav = tp_nav p, et_premium = tp_premium p,
     et_holding = tp_holding p, et_pct24h = tp_pct24h p, et_qty24h = tp_qty24h p, et_pct7d = tp_pct7d p, et_qty7d = tp_qty7d p,
     et_source = ''coinglass_v4'', et_hash = tp_hash p\<rparr>"

definition cfl_etf_history :: "'w cfl_service \<Rightarrow> 'w inst_provider \<Rightarrow> string \<Rightarrow> ('w, unit) io" where
  "cfl_etf_history s p ticker = or_skip (xn_FetchETFAUMHistory p ticker) (\<lambda>pts. if pts = [] then ret () else
     wrapE ''save etf aum history'' [AStr ticker] (xr_SaveETFAUMHistory (xs_raws s)
       (map (\<lambda>p. \<lparr>ea_value_date = ap_date p, ea_ticker = ticker, ea_aum = ap_aum p, ea_source = ''coinglass_v4'', ea_hash = ap_hash p\<rparr>)
         (filter (\<lambda>p. \<not> fle (ap_aum p) fzero) pts))))"

definition cfl_etf_list :: "'w cfl_service \<Rightarrow> 'w inst_provider \<Rightarrow> gotime \<Rightarrow> ('w, unit) io" where
  "cfl_etf_list s p today = or_skip (xn_FetchETFList p) (\<lambda>items. if items = [] then ret () else
     seqE (wrapE ''save etf list'' [] (xr_SaveETFList (xs_raws s) (map (cfl_etf_list_row today) items)))
    (seqE (xs_publish s (cfl_rows_event ''raw.capital_flows.etf_list.ingested.v1'' ''GLOBAL:etf_list'' items []))
          (forE (cfl_etf_history s p) (map tp_ticker (take 5 items)))))"

definition cfl_max_pain :: "'w cfl_service \<Rightarrow> 'w inst_provider \<Rightarrow> gotime \<Rightarrow> string \<Rightarrow> ('w, unit) io" where
  "cfl_max_pain s p today sm = or_skip (xn_FetchMaxPain p sm ''Deribit'') (\<lambda>pts. if pts = [] then ret () else
     wrapE ''save max pain'' [AStr sm] (xr_SaveMaxPain (xs_raws s) (map (\<lambda>p. \<lparr>mp_value_date = today, mp_expiry = np_expiry p,
        mp_symbol = np_symbol p, mp_exchange = np_exchange p, mp_price = np_price p, mp_call_oi = np_call_oi p, mp_put_oi = np_put_oi p,
        mp_call_usd = np_call_usd p, mp_put_usd = np_put_usd p, mp_call_value = np_call_value p, mp_put_value = np_put_value p,
        mp_source = ''coinglass_v4'', mp_hash = np_hash p\<rparr>) pts)))"

definition cfl_ingestInstitutional :: "'w cfl_service \<Rightarrow> ('w, unit) io" where
  "cfl_ingestInstitutional s = (case xs_inst s of None \<Rightarrow> ret () | Some p \<Rightarrow>
     bindE (xs_clock s) (\<lambda>now. let today = UTCDay now in
       seqE (cfl_etf_list s p today) (forE (cfl_max_pain s p today) [''BTC'', ''ETH''])))"

definition cfl_ingestAll :: "'w cfl_service \<Rightarrow> ('w, unit) io" where
  "cfl_ingestAll s =
     seqE (wrapE ''ingest etf flows'' [] (cfl_ingestETFFlows s))
    (seqE (wrapE ''ingest lth supply'' [] (cfl_ingestLTHSupply s))
    (seqE (wrapE ''ingest btc market cap'' [] (cfl_ingestBTCMarketCap s))
    (seqE (wrapE ''ingest liquidity flow'' [] (cfl_ingestLiquidityFlow s))
          (wrapE ''ingest institutional'' [] (cfl_ingestInstitutional s)))))"

section \<open>Features of a day\<close>

definition cfl_saveFeature :: "'w cfl_service \<Rightarrow> string \<Rightarrow> asset \<Rightarrow> gotime \<Rightarrow> f64 \<Rightarrow> string \<Rightarrow> ('w, unit) io" where
  "cfl_saveFeature s daily a vd v srcName =
     save_feature (xs_features s) (xc_code_sha (xs_cfg s)) (fkey daily (xc_intermediate (xs_cfg s))) a vd v srcName ''coinglass_v4''"

definition cfl_zscore :: "'w cfl_service \<Rightarrow> string \<Rightarrow> string \<Rightarrow> asset \<Rightarrow> gotime \<Rightarrow> gotime \<Rightarrow> int \<Rightarrow> int \<Rightarrow> string \<Rightarrow> ('w, unit) io" where
  "cfl_zscore s daily z a vd c window minObs srcName =
     zscore_step (xs_features s) (xc_code_sha (xs_cfg s)) (fkey daily (xc_intermediate (xs_cfg s))) (fkey z (xc_final (xs_cfg s)))
       a vd c window minObs srcName ''coinglass_v4''"

text \<open>The look-ups of \<open>tryComputeLTHChange\<close>: any error counts as missing.\<close>

definition cfl_tryComputeLTHChange :: "'w cfl_service \<Rightarrow> gotime \<Rightarrow> gotime \<Rightarrow> ('w, f64 option) io" where
  "cfl_tryComputeLTHChange s vd c =
     (let key = fkey LTHSupplyDailyName (xc_intermediate (xs_cfg s)) in
      bindE (attempt (fr_GetLatest (xs_features s) key AssetBTC vd c)) (\<lambda>r. case r of Inl e \<Rightarrow> ret None | Inr now \<Rightarrow>
      bindE (attempt (fr_GetLatest (xs_features s) key AssetBTC (add_days vd (- 30)) c)) (\<lambda>q. case q of Inl e \<Rightarrow> ret None
        | Inr earlier \<Rightarrow> ret (PctChange now earlier))))"

definition cfl_holders :: "'w cfl_service \<Rightarrow> gotime \<Rightarrow> gotime \<Rightarrow> ('w, unit) io" where
  "cfl_holders s vd c =
      seqE (when_some (xr_CombinedETFFlowAsOf (xs_raws s) vd c)
              (\<lambda>v. cfl_saveFeature s ETFNetflowDailyName AssetGlobal vd v ''coinglass_etf_flows''))
     (seqE (cfl_zscore s ETFNetflowDailyName ETFNetflowZScore90dName AssetGlobal vd c 90 30 ''coinglass_etf_flows'')
     (seqE (if_found (xr_LTHSupplyAsOf (xs_raws s) AssetBTC vd c) (\<lambda>v. cfl_saveFeature s LTHSupplyDailyName AssetBTC vd v ''lth_supply''))
     (seqE (when_some (cfl_tryComputeLTHChange s vd c) (\<lambda>v. cfl_saveFeature s LTHSupplyChange30dName AssetBTC vd v ''lth_supply''))
           (cfl_zscore s LTHSupplyChange30dName LTHSupplyChangeZScore180dName AssetBTC vd c 180 60 ''lth_supply''))))"

text \<open>The features of the liquidity flow are of the whole market; whatever fails is left out.\<close>

definition cfl_z90 :: "'w cfl_service \<Rightarrow> string \<Rightarrow> string \<Rightarrow> gotime \<Rightarrow> gotime \<Rightarrow> string \<Rightarrow> ('w, unit) io" where
  "cfl_z90 s daily z vd c srcName = cfl_zscore s daily z AssetGlobal vd c 90 30 srcName"

definition cfl_stable :: "'w cfl_service \<Rightarrow> gotime \<Rightarrow> gotime \<Rightarrow> ('w, unit) io" where
  "cfl_stable s vd c =
     seqE (if_ok (xr_StablecoinMcapAsOf (xs_raws s) vd c) (\<lambda>nowMcap.
             if_ok (xr_StablecoinMcapAsOf (xs_raws s) (add_days vd (- 30)) c) (\<lambda>pastMcap.
               case Velocity30d nowMcap pastMcap of None \<Rightarrow> ret ()
               | Some v \<Rightarrow> cfl_saveFeature s StablecoinMcapVelocity30dName AssetGlobal vd v ''coinglass_stablecoin_mcap'')))
     (cfl_z90 s StablecoinMcapVelocity30dName StablecoinVelocityZScore90dName vd c ''coinglass_stablecoin_mcap'')"

definition cfl_dry_powder :: "'w cfl_service \<Rightarrow> (string \<Rightarrow> gotime \<Rightarrow> gotime \<Rightarrow> ('w, f64 option) io) \<Rightarrow> string \<Rightarrow> string \<Rightarrow>
    gotime \<Rightarrow> gotime \<Rightarrow> ('w, unit) io" where
  "cfl_dry_powder s get daily z vd c =
     seqE (bindE (foldE (\<lambda>acc sm. bindE (attempt (get sm vd c)) (\<lambda>r. ret (case r of Inr (Some v) \<Rightarrow> (fadd (fst acc) v, True) | _ \<Rightarrow> acc)))
            (fzero, False) [''USDT(ETH)'', ''USDC''])
          (\<lambda>(total, any). if any then cfl_saveFeature s daily AssetGlobal vd total ''coinglass_exchange_balance'' else ret ()))
     (cfl_z90 s daily z vd c ''coinglass_exchange_balance'')"

definition cfl_balances :: "'w cfl_service \<Rightarrow> gotime \<Rightarrow> gotime \<Rightarrow> ('w, unit) io" where
  "cfl_balances s vd c =
      seqE (if_ok (xr_Balance7dAsOf (xs_raws s) ''BTC'' vd c)
              (\<lambda>v. cfl_saveFeature s ExchangeBalanceChange7dName AssetGlobal vd v ''coinglass_exchange_balance''))
     (seqE (cfl_z90 s ExchangeBalanceChange7dName ExchangeBalanceChangeZScore90dName vd c ''coinglass_exchange_balance'')
     (seqE (cfl_dry_powder s (xr_Balance7dAsOf (xs_raws s)) StablecoinDryPowderChange7dName StablecoinDryPowderChange7dZName vd c)
           (cfl_dry_powder s (xr_Balance30dAsOf (xs_raws s)) StablecoinDryPowderChange30dName StablecoinDryPowderChange30dZName vd c)))"

definition cfl_margin :: "libm \<Rightarrow> 'w cfl_service \<Rightarrow> gotime \<Rightarrow> gotime \<Rightarrow> ('w, unit) io" where
  "cfl_margin M s vd c =
     seqE (if_ok (xr_BitfinexMarginAsOf (xs_raws s) ''BTC'' vd c) (\<lambda>p. case BitfinexMarginSkew M p of None \<Rightarrow> ret ()
             | Some v \<Rightarrow> cfl_saveFeature s BitfinexMarginSkewDailyName AssetGlobal vd v ''coinglass_bitfinex_margin''))
     (cfl_z90 s BitfinexMarginSkewDailyName BitfinexMarginSkewZScore90dName vd c ''coinglass_bitfinex_margin'')"

text \<open>The assets of the funds: from the list of the day, otherwise from the history.\<close>

definition cfl_etf_total :: "'w cfl_service \<Rightarrow> gotime \<Rightarrow> gotime \<Rightarrow> ('w, unit) io" where
  "cfl_etf_total s vd c =
     bindE (attempt (xr_ETFListAUMTotalAsOf (xs_raws s) vd c)) (\<lambda>r. case r of
       Inr (Some v) \<Rightarrow> cfl_saveFeature s ETFAUMTotalDailyName AssetGlobal vd v ''coinglass_etf_list''
     | _ \<Rightarrow> if_ok (xr_ETFAUMHistoryTotalAsOf (xs_raws s) vd c)
              (\<lambda>v. cfl_saveFeature s ETFAUMTotalDailyName AssetGlobal vd v ''coinglass_etf_aum_history''))"

definition cfl_funds :: "'w cfl_service \<Rightarrow> gotime \<Rightarrow> gotime \<Rightarrow> ('w, unit) io" where
  "cfl_funds s vd c =
     (let totalKey = fkey ETFAUMTotalDailyName (xc_intermediate (xs_cfg s)) in
      seqE (cfl_etf_total s vd c)
     (seqE (or_skip (fr_GetLatest (xs_features s) totalKey AssetGlobal vd c) (\<lambda>nowAUM.
              or_skip (fr_GetLatest (xs_features s) totalKey AssetGlobal (add_days vd (- 30)) c) (\<lambda>pastAUM.
                case ETFAUMVelocity30d nowAUM pastAUM of None \<Rightarrow> ret ()
                | Some v \<Rightarrow> cfl_saveFeature s ETFAUMVelocity30dName AssetGlobal vd v ''coinglass_etf_aum_history'')))
     (seqE (cfl_z90 s ETFAUMVelocity30dName ETFAUMVelocityZScore90dName vd c ''coinglass_etf_aum_history'')
     (seqE (if_ok (xr_ETFListHHIAsOf (xs_raws s) vd c) (\<lambda>v. cfl_saveFeature s ETFConcentrationHHIDailyName AssetGlobal vd v ''coinglass_etf_list''))
     (seqE (cfl_z90 s ETFConcentrationHHIDailyName ETFConcentrationHHIZScore90dName vd c ''coinglass_etf_list'')
     (seqE (if_ok (xr_DealerSkewAsOf (xs_raws s) ''BTC'' ''Deribit'' vd c)
              (\<lambda>v. cfl_saveFeature s OptionsDealerSkewProxyDailyName AssetGlobal vd v ''coinglass_options_max_pain''))
           (cfl_z90 s OptionsDealerSkewProxyDailyName OptionsDealerSkewProxyZScoreName vd c ''coinglass_options_max_pain'')))))))"

definition cfl_computeFeatures :: "libm \<Rightarrow> 'w cfl_service \<Rightarrow> gotime \<Rightarrow> gotime \<Rightarrow> ('w, unit) io" where
  "cfl_computeFeatures M s vd c =
     seqE (cfl_holders s vd c) (seqE (cfl_stable s vd c) (seqE (cfl_balances s vd c) (seqE (cfl_margin M s vd c) (cfl_funds s vd c))))"

section \<open>The scores of a day\<close>

text \<open>Nothing ever sets the miners' signal.\<close>

definition cfl_gatherScoreInputs :: "'w cfl_service \<Rightarrow> asset \<Rightarrow> gotime \<Rightarrow> gotime \<Rightarrow> ('w, cfl_inputs) io" where
  "cfl_gatherScoreInputs s a vd c =
     (let fr = xs_features s; key = (\<lambda>n. fkey n (xc_final (xs_cfg s)));
          etfKey = key ETFNetflowZScore90dName; lthKey = key LTHSupplyChangeZScore180dName; minerKey = key MinerNetflowZScore180dName;
          stableZKey = key StablecoinVelocityZScore90dName; exBalZKey = key ExchangeBalanceChangeZScore90dName;
          bfxSkewZKey = key BitfinexMarginSkewZScore90dName; dpZKey7d = key StablecoinDryPowderChange7dZName;
          dpZKey30d = key StablecoinDryPowderChange30dZName; etfVelZKey = key ETFAUMVelocityZScore90dName;
          hhiZKey = key ETFConcentrationHHIZScore90dName; dealerZKey = key OptionsDealerSkewProxyZScoreName in
      bindE (feature_value fr etfKey AssetGlobal vd c) (\<lambda>(et, etOk).
      bindE (feature_value fr lthKey AssetBTC vd c) (\<lambda>(lt, ltOk).
      bindE (feature_number fr stableZKey AssetGlobal vd c) (\<lambda>(st, stOk).
      bindE (feature_number fr exBalZKey AssetGlobal vd c) (\<lambda>(ba, baOk).
      bindE (feature_number fr bfxSkewZKey AssetGlobal vd c) (\<lambda>(ma, maOk).
      bindE (feature_number fr dpZKey7d AssetGlobal vd c) (\<lambda>(d7, d7Ok).
      bindE (feature_number fr dpZKey30d AssetGlobal vd c) (\<lambda>(d30, d30Ok).
      bindE (feature_number fr etfVelZKey AssetGlobal vd c) (\<lambda>(au, auOk).
      bindE (feature_number fr hhiZKey AssetGlobal vd c) (\<lambda>(hh, hhOk).
      bindE (feature_number fr dealerZKey AssetGlobal vd c) (\<lambda>(de, deOk).
        ret \<lparr>xi_asset = a, xi_value_date = vd, xi_etf = et, xi_etf_ok = etOk, xi_lth = lt, xi_lth_ok = ltOk,
             xi_miner = fzero, xi_miner_ok = False, xi_stable = st, xi_stable_ok = stOk, xi_balance = ba, xi_balance_ok = baOk,
             xi_margin = ma, xi_margin_ok = maOk, xi_dry7 = d7, xi_dry7_ok = d7Ok, xi_dry30 = d30, xi_dry30_ok = d30Ok,
             xi_aum = au, xi_aum_ok = auOk, xi_hhi = hh, xi_hhi_ok = hhOk, xi_dealer = de, xi_dealer_ok = deOk,
             xi_features = map FeatureKey_String [etfKey, lthKey, minerKey, stableZKey, exBalZKey, bfxSkewZKey, dpZKey7d, dpZKey30d,
               etfVelZKey, hhiZKey, dealerZKey]\<rparr>)))))))))))"

definition cfl_event :: "cfl_config \<Rightarrow> gotime \<Rightarrow> asset \<Rightarrow> f64 \<Rightarrow> event" where
  "cfl_event cfg vd a score =
     \<lparr>ev_topic = ''scores.capital_flows.completed.v1'', ev_aggregate = a @ '':'' @ fmt_day vd,
      ev_payload = map_of [(''asset'', AStr a), (''value_date'', AStr (fmt_day vd)), (''score'', AFloat score),
        (''post_etf'', ABool (cfl_postETF vd)), (''model_version'', AStr (xc_model_version cfg)), (''config_version'', AStr (xc_config_version cfg))]\<rparr>"

definition cfl_scoreAsset :: "libm \<Rightarrow> 'w cfl_service \<Rightarrow> asset \<Rightarrow> gotime \<Rightarrow> gotime \<Rightarrow> ('w, unit) io" where
  "cfl_scoreAsset M s a vd c =
     bindE (wrapE ''gather score inputs'' [] (cfl_gatherScoreInputs s a vd c)) (\<lambda>i.
       store_score (xs_scores s) (xs_publish s) (cfl_event (xs_cfg s) vd a) (cfl_computeScore M i (xs_cfg s)))"

definition cfl_computeDay :: "libm \<Rightarrow> 'w cfl_service \<Rightarrow> gotime \<Rightarrow> gotime \<Rightarrow> ('w, unit) io" where
  "cfl_computeDay M s vd c =
     seqE (wrapE ''features'' [] (cfl_computeFeatures M s vd c))
       (forE (\<lambda>a. wrapE ''asset'' [AStr a] (cfl_scoreAsset M s a vd c)) (xs_assets s))"

definition cfl_computeRange :: "libm \<Rightarrow> 'w cfl_service \<Rightarrow> gotime \<Rightarrow> gotime \<Rightarrow> gotime \<Rightarrow> ('w, unit) io" where
  "cfl_computeRange M s from to c = forE (\<lambda>d. wrapE ''day'' [AStr (fmt_day d)] (cfl_computeDay M s d c)) (day_range from to)"

definition cfl_RunOnce :: "libm \<Rightarrow> 'w cfl_service \<Rightarrow> gotime \<Rightarrow> ('w, unit) io" where
  "cfl_RunOnce M s valueDate =
     (let vd = UTCDay valueDate in
      seqE (cfl_ingestAll s) (bindE (xs_clock s) (\<lambda>cutoff. cfl_computeRange M s vd vd cutoff)))"

definition cfl_RunBackfill :: "libm \<Rightarrow> 'w cfl_service \<Rightarrow> gotime \<Rightarrow> gotime \<Rightarrow> ('w, unit) io" where
  "cfl_RunBackfill M s from to =
     (let f = UTCDay from; t = UTCDay to in
      if t < f then throw (Fresh ''backfill from (%s) after to (%s)'' [AStr (fmt_day f), AStr (fmt_day t)])
      else seqE (cfl_ingestAll s) (bindE (xs_clock s) (\<lambda>now. cfl_computeRange M s f t (now + 24 * hour_ns))))"

section \<open>What the service's steps obey\<close>

locale cfl_ingest_ports = io_rel R for R :: "'w \<Rightarrow> 'w \<Rightarrow> bool" +
  fixes s :: "'w cfl_service"
  assumes saves: "obeys R (xr_SaveETFFlows (xs_raws s) r1)" "obeys R (xr_SaveLTHSupply (xs_raws s) r2)"
      "obeys R (xr_SaveBTCMarketCap (xs_raws s) r3)" "obeys R (xr_SaveStablecoinMcap (xs_raws s) r4)"
      "obeys R (xr_SaveExchangeBalance (xs_raws s) r5)" "obeys R (xr_SaveBitfinexMargin (xs_raws s) r6)"
      "obeys R (xr_SaveETFList (xs_raws s) r7)" "obeys R (xr_SaveETFAUMHistory (xs_raws s) r8)"
      "obeys R (xr_SaveMaxPain (xs_raws s) r9)"
    and etf: "xs_etf s = Some p1 \<Longrightarrow> obeys R (xe_FetchBTC p1) \<and> obeys R (xe_FetchETH p1)"
    and lth: "xs_lth s = Some f2 \<Longrightarrow> obeys R f2"
    and mcap: "xs_mcap s = Some f3 \<Longrightarrow> obeys R f3"
    and liquidity: "xs_liquidity s = Some p4 \<Longrightarrow> obeys R (xl_FetchStablecoinMcap p4) \<and> obeys R (xl_FetchExchangeBalance p4 sm) \<and>
      obeys R (xl_FetchBitfinexMargin p4 sm n)"
    and inst: "xs_inst s = Some p5 \<Longrightarrow> obeys R (xn_FetchETFList p5) \<and> obeys R (xn_FetchETFAUMHistory p5 sm) \<and> obeys R (xn_FetchMaxPain p5 sm sx)"
    and publish: "obeys R (xs_publish s ev)" and clock: "obeys R (xs_clock s)"
begin

lemma prices_obeys: "obeys R (cfl_ingestETFFlows s)" "obeys R (cfl_ingestLTHSupply s)" "obeys R (cfl_ingestBTCMarketCap s)"
  unfolding cfl_ingestETFFlows_def cfl_writeETFFlows_def cfl_ingestLTHSupply_def cfl_ingestBTCMarketCap_def
  by (intro obeys_more obeys_option saves publish; (drule etf, elim conjE, assumption | erule lth mcap))+

lemma flows_obeys: "obeys R (cfl_ingestLiquidityFlow s)"
  unfolding cfl_ingestLiquidityFlow_def cfl_stablecoin_mcap_def cfl_exchange_balance_def cfl_bitfinex_margin_def
  by (intro obeys_more obeys_option saves publish clock; drule liquidity, elim conjE, assumption)

lemma inst_obeys: "obeys R (cfl_ingestInstitutional s)"
  unfolding cfl_ingestInstitutional_def cfl_etf_list_def cfl_etf_history_def cfl_max_pain_def Let_def
  by (intro obeys_more obeys_option saves publish clock; drule inst, elim conjE, assumption)

lemma ingest_obeys: "obeys R (cfl_ingestAll s)"
  unfolding cfl_ingestAll_def by (intro obeys_more prices_obeys flows_obeys inst_obeys)

end

locale cfl_day_ports = feature_port R "xs_features s" for R :: "'w \<Rightarrow> 'w \<Rightarrow> bool" and s :: "'w cfl_service" +
  assumes raws: "obeys R (xr_CombinedETFFlowAsOf (xs_raws s) vd c)" "obeys R (xr_LTHSupplyAsOf (xs_raws s) a vd c)"
      "obeys R (xr_StablecoinMcapAsOf (xs_raws s) vd c)" "obeys R (xr_Balance7dAsOf (xs_raws s) sm vd c)"
      "obeys R (xr_Balance30dAsOf (xs_raws s) sm vd c)" "obeys R (xr_BitfinexMarginAsOf (xs_raws s) sm vd c)"
      "obeys R (xr_ETFListAUMTotalAsOf (xs_raws s) vd c)" "obeys R (xr_ETFListHHIAsOf (xs_raws s) vd c)"
      "obeys R (xr_ETFAUMHistoryTotalAsOf (xs_raws s) vd c)" "obeys R (xr_DealerSkewAsOf (xs_raws s) sm sx vd c)"
begin

lemma save_obeys: "obeys R (cfl_saveFeature s n a vd v sn)" "obeys R (cfl_zscore s d z a vd c w m sn')" "obeys R (cfl_z90 s d z vd c sn')"
  unfolding cfl_z90_def cfl_saveFeature_def cfl_zscore_def by (intro obeys_features)+

lemma holders_obeys: "obeys R (cfl_holders s vd c)"
  unfolding cfl_holders_def cfl_tryComputeLTHChange_def Let_def by (intro obeys_more obeys_sum save_obeys raws GetLatest)

lemma dry_obeys: "(\<And>sm. obeys R (get sm vd c)) \<Longrightarrow> obeys R (cfl_dry_powder s get d z vd c)"
  unfolding cfl_dry_powder_def by (intro obeys_more obeys_foldE obeys_pair save_obeys)

lemma flow_features_obeys: "obeys R (cfl_stable s vd c)" "obeys R (cfl_balances s vd c)" "obeys R (cfl_margin M s vd c)"
  unfolding cfl_stable_def cfl_balances_def cfl_margin_def by (intro obeys_more obeys_option dry_obeys save_obeys raws)+

lemma funds_obeys: "obeys R (cfl_funds s vd c)"
  unfolding cfl_funds_def cfl_etf_total_def Let_def by (intro obeys_more obeys_sum obeys_option save_obeys raws GetLatest)

lemma features_obeys: "obeys R (cfl_computeFeatures M s vd c)"
  unfolding cfl_computeFeatures_def by (intro obeys_seqE holders_obeys flow_features_obeys funds_obeys)

lemma gather_obeys: "obeys R (cfl_gatherScoreInputs s a vd c)"
  unfolding cfl_gatherScoreInputs_def Let_def by (intro obeys_more obeys_pair obeys_features)

end

end
