(* ===== verification/PgFlows.thy ===== *)
theory PgFlows
  imports CapitalFlowsService PgScores LiquidityRun PgLeverage
begin

text \<open>
  \<open>internal/infra/postgres/capitalflows\<close>: the ports of the capital flows service on the database, and what
  the service does there.
\<close>

section \<open>The repositories\<close>

definition CflFeatureRepo_Save :: "feature \<Rightarrow> ('a world_scheme, unit) io" where
  "CflFeatureRepo_Save f = FeatureRepo_Save InsertCapitalFlowsFeature f"

definition CflFeatureRepo_GetLatest :: "feature_key \<Rightarrow> asset \<Rightarrow> gotime \<Rightarrow> gotime \<Rightarrow> ('a world_scheme, f64) io" where
  "CflFeatureRepo_GetLatest k a vd cutoff = InTx_found (GetLatestCapitalFlowsFeature k a vd cutoff)"

definition CflFeatureRepo_GetSeries :: "feature_key \<Rightarrow> asset \<Rightarrow> gotime \<Rightarrow> gotime \<Rightarrow> gotime \<Rightarrow> ('a world_scheme, f64 list) io" where
  "CflFeatureRepo_GetSeries k a from to cutoff = InTx (GetCapitalFlowsFeatureSeries k a from to cutoff)"

definition pg_cfl_features :: "'a world_scheme feature_repo" where
  "pg_cfl_features = \<lparr>fr_Save = CflFeatureRepo_Save, fr_GetLatest = CflFeatureRepo_GetLatest, fr_GetSeries = CflFeatureRepo_GetSeries\<rparr>"

lemma pg_cfl_features_table: "pg_cfl_features = table_features ''features_capital_flows''"
proof -
  have "CflFeatureRepo_Save = FeatureRepo_Save (InsertDomainFeature ''features_capital_flows'')"
    unfolding CflFeatureRepo_Save_def[abs_def] InsertCapitalFlowsFeature_def[abs_def] ..
  then show ?thesis
    by (simp add: pg_cfl_features_def table_features_def CflFeatureRepo_GetLatest_def CflFeatureRepo_GetSeries_def
      GetLatestCapitalFlowsFeature_def GetCapitalFlowsFeatureSeries_def fun_eq_iff)
qed

definition CflRawRepo_SaveETFFlows :: "etf_flow_row list \<Rightarrow> ('a world_scheme, unit) io" where
  "CflRawRepo_SaveETFFlows rows = save_raws (\<lambda>x. wrapE ''insert raw etf flow %s/%s'' [AStr (ef_kind x), AStr (fmt_day (ef_value_date x))] (InsertRawCoinglassETFFlow x)) rows"

definition CflRawRepo_SaveLTHSupply :: "lth_row list \<Rightarrow> ('a world_scheme, unit) io" where
  "CflRawRepo_SaveLTHSupply rows = save_raws (\<lambda>x. wrapE ''insert raw lth supply'' [] (InsertRawGlassnodeLTHSupply x)) rows"

definition CflRawRepo_SaveBTCMarketCap :: "mcap_row list \<Rightarrow> ('a world_scheme, unit) io" where
  "CflRawRepo_SaveBTCMarketCap rows = save_raws (\<lambda>x. wrapE ''insert raw mcap'' [] (InsertRawMarketCap x)) rows"

definition CflRawRepo_SaveStablecoinMcap :: "stable_mcap_row list \<Rightarrow> ('a world_scheme, unit) io" where
  "CflRawRepo_SaveStablecoinMcap rows = save_raws InsertRawCoinglassStablecoinMcap rows"

definition CflRawRepo_SaveExchangeBalance :: "balance_row list \<Rightarrow> ('a world_scheme, unit) io" where
  "CflRawRepo_SaveExchangeBalance rows = save_raws InsertRawCoinglassExchangeBalance rows"

definition CflRawRepo_SaveBitfinexMargin :: "margin_row list \<Rightarrow> ('a world_scheme, unit) io" where
  "CflRawRepo_SaveBitfinexMargin rows = save_raws InsertRawCoinglassBitfinexMargin rows"

definition CflRawRepo_SaveETFListSnapshot :: "etf_list_row list \<Rightarrow> ('a world_scheme, unit) io" where
  "CflRawRepo_SaveETFListSnapshot rows = save_raws InsertRawCoinglassETFListItem rows"

definition CflRawRepo_SaveETFAUMHistory :: "etf_aum_row list \<Rightarrow> ('a world_scheme, unit) io" where
  "CflRawRepo_SaveETFAUMHistory rows = save_raws InsertRawCoinglassETFAUMHistory rows"

definition CflRawRepo_SaveOptionsMaxPainNearest :: "max_pain_row list \<Rightarrow> ('a world_scheme, unit) io" where
  "CflRawRepo_SaveOptionsMaxPainNearest rows = save_raws InsertRawCoinglassOptionsMaxPain rows"

definition CflRawRepo_GetLTHSupplyAsOf :: "asset \<Rightarrow> gotime \<Rightarrow> gotime \<Rightarrow> ('a world_scheme, f64) io" where
  "CflRawRepo_GetLTHSupplyAsOf a vd cutoff = InTx_found (GetLTHSupplyAsOf a vd cutoff)"

definition CflRawRepo_CombinedETFFlowAsOf :: "sql_lib \<Rightarrow> gotime \<Rightarrow> gotime \<Rightarrow> ('a world_scheme, f64 option) io" where
  "CflRawRepo_CombinedETFFlowAsOf L vd c = InTx (CombinedETFFlowAsOf L vd c)"

definition CflRawRepo_GetStablecoinMcapAsOf :: "gotime \<Rightarrow> gotime \<Rightarrow> ('a world_scheme, f64 option) io" where
  "CflRawRepo_GetStablecoinMcapAsOf vd c = InTx (GetCoinglassStablecoinMcapAsOf vd c)"

definition CflRawRepo_GetStablecoinMcapSeries :: "gotime \<Rightarrow> gotime \<Rightarrow> gotime \<Rightarrow> ('a world_scheme, f64 list) io" where
  "CflRawRepo_GetStablecoinMcapSeries from to c = InTx (GetCoinglassStablecoinMcapSeries from to c)"

definition CflRawRepo_GetExchangeBalanceChange7dSumAsOf :: "sql_lib \<Rightarrow> string \<Rightarrow> gotime \<Rightarrow> gotime \<Rightarrow> ('a world_scheme, f64 option) io" where
  "CflRawRepo_GetExchangeBalanceChange7dSumAsOf L sm vd c = InTx (GetCoinglassExchangeBalanceChange7dSumAsOf L sm vd c)"

definition CflRawRepo_GetExchangeBalanceChange30dSumAsOf :: "sql_lib \<Rightarrow> string \<Rightarrow> gotime \<Rightarrow> gotime \<Rightarrow> ('a world_scheme, f64 option) io" where
  "CflRawRepo_GetExchangeBalanceChange30dSumAsOf L sm vd c = InTx (GetCoinglassExchangeBalanceChange30dSumAsOf L sm vd c)"

definition CflRawRepo_GetBitfinexMarginAsOf :: "string \<Rightarrow> gotime \<Rightarrow> gotime \<Rightarrow> ('a world_scheme, (f64 \<times> f64) option) io" where
  "CflRawRepo_GetBitfinexMarginAsOf sm vd c = InTx (GetCoinglassBitfinexMarginAsOf sm vd c)"

definition CflRawRepo_GetETFListAUMTotalAsOf :: "sql_lib \<Rightarrow> gotime \<Rightarrow> gotime \<Rightarrow> ('a world_scheme, f64 option) io" where
  "CflRawRepo_GetETFListAUMTotalAsOf L vd c = InTx (GetCoinglassETFListAUMTotalAsOf L vd c)"

definition CflRawRepo_GetETFListConcentrationHHIAsOf :: "sql_lib \<Rightarrow> gotime \<Rightarrow> gotime \<Rightarrow> ('a world_scheme, f64 option) io" where
  "CflRawRepo_GetETFListConcentrationHHIAsOf L vd c = InTx (GetCoinglassETFListConcentrationHHIAsOf L vd c)"

definition CflRawRepo_GetETFAUMHistoryTotalAsOf :: "sql_lib \<Rightarrow> gotime \<Rightarrow> gotime \<Rightarrow> ('a world_scheme, f64 option) io" where
  "CflRawRepo_GetETFAUMHistoryTotalAsOf L vd c = InTx (GetCoinglassETFAUMHistoryTotalAsOf L vd c)"

definition CflRawRepo_GetOptionsDealerSkewProxyAsOf :: "string \<Rightarrow> string \<Rightarrow> gotime \<Rightarrow> gotime \<Rightarrow> ('a world_scheme, f64 option) io" where
  "CflRawRepo_GetOptionsDealerSkewProxyAsOf sm exch vd c = InTx (GetCoinglassOptionsDealerSkewProxyAsOf sm exch vd c)"

definition pg_cfl_raws :: "sql_lib \<Rightarrow> 'a world_scheme cfl_raws" where
  "pg_cfl_raws L = \<lparr>xr_SaveETFFlows = CflRawRepo_SaveETFFlows, xr_SaveLTHSupply = CflRawRepo_SaveLTHSupply,
     xr_SaveBTCMarketCap = CflRawRepo_SaveBTCMarketCap, xr_CombinedETFFlowAsOf = CflRawRepo_CombinedETFFlowAsOf L,
     xr_LTHSupplyAsOf = CflRawRepo_GetLTHSupplyAsOf, xr_SaveStablecoinMcap = CflRawRepo_SaveStablecoinMcap,
     xr_SaveExchangeBalance = CflRawRepo_SaveExchangeBalance, xr_SaveBitfinexMargin = CflRawRepo_SaveBitfinexMargin,
     xr_StablecoinMcapAsOf = CflRawRepo_GetStablecoinMcapAsOf,
     xr_StablecoinMcapSeries = CflRawRepo_GetStablecoinMcapSeries,
     xr_Balance7dAsOf = CflRawRepo_GetExchangeBalanceChange7dSumAsOf L,
     xr_Balance30dAsOf = CflRawRepo_GetExchangeBalanceChange30dSumAsOf L,
     xr_BitfinexMarginAsOf = CflRawRepo_GetBitfinexMarginAsOf,
     xr_SaveETFList = CflRawRepo_SaveETFListSnapshot, xr_SaveETFAUMHistory = CflRawRepo_SaveETFAUMHistory,
     xr_SaveMaxPain = CflRawRepo_SaveOptionsMaxPainNearest,
     xr_ETFListAUMTotalAsOf = CflRawRepo_GetETFListAUMTotalAsOf L,
     xr_ETFListHHIAsOf = CflRawRepo_GetETFListConcentrationHHIAsOf L,
     xr_ETFAUMHistoryTotalAsOf = CflRawRepo_GetETFAUMHistoryTotalAsOf L,
     xr_DealerSkewAsOf = CflRawRepo_GetOptionsDealerSkewProxyAsOf\<rparr>"

record 'w cfl_providers =
  xp_etf :: "'w etf_provider option"
  xp_lth :: "('w, lth_point list) io option"
  xp_mcap :: "('w, btc_mcap_point list) io option"
  xp_liquidity :: "'w flow_provider option"
  xp_inst :: "'w inst_provider option"

definition pg_cfl_service :: "sql_lib \<Rightarrow> 'a world_scheme cfl_providers \<Rightarrow> cfl_config \<Rightarrow> asset list \<Rightarrow> 'a world_scheme cfl_service" where
  "pg_cfl_service L P cfg assets = cfl_NewService pg_cfl_features ScoreRepo_Save (pg_cfl_raws L) (xp_etf P) (xp_lth P) (xp_mcap P)
     (xp_liquidity P) (xp_inst P) Publisher_Publish clock_Now cfg assets"

lemma pg_cfl_sel [simp]:
  "xs_features (pg_cfl_service L P cfg assets) = table_features ''features_capital_flows''"
  "xs_scores (pg_cfl_service L P cfg assets) = ScoreRepo_Save" "xs_raws (pg_cfl_service L P cfg assets) = pg_cfl_raws L"
  "xs_etf (pg_cfl_service L P cfg assets) = xp_etf P" "xs_lth (pg_cfl_service L P cfg assets) = xp_lth P"
  "xs_mcap (pg_cfl_service L P cfg assets) = xp_mcap P" "xs_liquidity (pg_cfl_service L P cfg assets) = xp_liquidity P"
  "xs_inst (pg_cfl_service L P cfg assets) = xp_inst P" "xs_publish (pg_cfl_service L P cfg assets) = Publisher_Publish"
  "xs_clock (pg_cfl_service L P cfg assets) = clock_Now" "xs_cfg (pg_cfl_service L P cfg assets) = cfl_Defaults cfg"
  "xs_assets (pg_cfl_service L P cfg assets) = (if assets = [] then [AssetGlobal] else assets)"
  by (simp_all add: pg_cfl_service_def cfl_NewService_def pg_cfl_features_table)

section \<open>What each port does to the tables\<close>

lemma raw_insert_mcap: "raw_insert (InsertRawMarketCap r)"
  unfolding raw_insert_def by (intro conjI in_tx_inserts keep_raw_inserts)

lemma step_cfl_saves:
  "obeys ingest_step (CflRawRepo_SaveETFFlows r1)"
  "obeys ingest_step (CflRawRepo_SaveLTHSupply r2)"
  "obeys ingest_step (CflRawRepo_SaveBTCMarketCap r3)"
  "obeys ingest_step (CflRawRepo_SaveStablecoinMcap r4)"
  "obeys ingest_step (CflRawRepo_SaveExchangeBalance r5)"
  "obeys ingest_step (CflRawRepo_SaveBitfinexMargin r6)"
  "obeys ingest_step (CflRawRepo_SaveETFListSnapshot r7)"
  "obeys ingest_step (CflRawRepo_SaveETFAUMHistory r8)"
  "obeys ingest_step (CflRawRepo_SaveOptionsMaxPainNearest r9)"
  unfolding CflRawRepo_SaveETFFlows_def CflRawRepo_SaveLTHSupply_def CflRawRepo_SaveBTCMarketCap_def CflRawRepo_SaveStablecoinMcap_def CflRawRepo_SaveExchangeBalance_def CflRawRepo_SaveBitfinexMargin_def CflRawRepo_SaveETFListSnapshot_def CflRawRepo_SaveETFAUMHistory_def CflRawRepo_SaveOptionsMaxPainNearest_def
    InsertRawCoinglassETFFlow_def InsertRawGlassnodeLTHSupply_def InsertRawCoinglassStablecoinMcap_def InsertRawCoinglassExchangeBalance_def InsertRawCoinglassBitfinexMargin_def InsertRawCoinglassETFListItem_def InsertRawCoinglassETFAUMHistory_def InsertRawCoinglassOptionsMaxPain_def
  by (intro step_save_raws raw_insert_wrap raw_insert_mcap raw_insert_exec)+

lemma cfl_quiet:
  "quiet (CombinedETFFlowAsOf L vd c)"
  "quiet (GetCoinglassStablecoinMcapAsOf vd c)"
  "quiet (GetCoinglassExchangeBalanceChange7dSumAsOf L sm vd c)"
  "quiet (GetCoinglassExchangeBalanceChange30dSumAsOf L sm vd c)"
  "quiet (GetCoinglassBitfinexMarginAsOf sm vd c)"
  "quiet (GetCoinglassETFListAUMTotalAsOf L vd c)"
  "quiet (GetCoinglassETFListConcentrationHHIAsOf L vd c)"
  "quiet (GetCoinglassETFAUMHistoryTotalAsOf L vd c)"
  "quiet (GetCoinglassOptionsDealerSkewProxyAsOf sm exch vd c)"
  "quiet (GetLTHSupplyAsOf a vd c)"
  unfolding CombinedETFFlowAsOf_def GetCoinglassStablecoinMcapAsOf_def GetCoinglassExchangeBalanceChange7dSumAsOf_def GetCoinglassExchangeBalanceChange30dSumAsOf_def
    GetCoinglassBitfinexMarginAsOf_def GetCoinglassETFListAUMTotalAsOf_def GetCoinglassETFListConcentrationHHIAsOf_def GetCoinglassETFAUMHistoryTotalAsOf_def GetCoinglassOptionsDealerSkewProxyAsOf_def
    getExchangeBalanceChangeSumAsOf_def GetLTHSupplyAsOf_def
  by (intro quiet_intros quiet_shapes)+

lemma cfl_replies:
  "replies (CombinedETFFlowAsOf L vd c)"
  "replies (GetCoinglassStablecoinMcapAsOf vd c)"
  "replies (GetCoinglassExchangeBalanceChange7dSumAsOf L sm vd c)"
  "replies (GetCoinglassExchangeBalanceChange30dSumAsOf L sm vd c)"
  "replies (GetCoinglassBitfinexMarginAsOf sm vd c)"
  "replies (GetCoinglassETFListAUMTotalAsOf L vd c)"
  "replies (GetCoinglassETFListConcentrationHHIAsOf L vd c)"
  "replies (GetCoinglassETFAUMHistoryTotalAsOf L vd c)"
  "replies (GetCoinglassOptionsDealerSkewProxyAsOf sm exch vd c)"
  unfolding CombinedETFFlowAsOf_def GetCoinglassStablecoinMcapAsOf_def GetCoinglassExchangeBalanceChange7dSumAsOf_def GetCoinglassExchangeBalanceChange30dSumAsOf_def
    GetCoinglassBitfinexMarginAsOf_def GetCoinglassETFListAUMTotalAsOf_def GetCoinglassETFListConcentrationHHIAsOf_def GetCoinglassETFAUMHistoryTotalAsOf_def GetCoinglassOptionsDealerSkewProxyAsOf_def
    getExchangeBalanceChangeSumAsOf_def
  by (intro replies_intros replies_shapes)+

definition cfl_providers_ok :: "'a world_scheme cfl_providers \<Rightarrow> bool" where
  "cfl_providers_ok P \<longleftrightarrow> (\<forall>p\<in>set_option (xp_etf P). obeys ingest_step (xe_FetchBTC p) \<and> obeys ingest_step (xe_FetchETH p)) \<and>
     (\<forall>f\<in>set_option (xp_lth P). obeys ingest_step f) \<and> (\<forall>f\<in>set_option (xp_mcap P). obeys ingest_step f) \<and>
     (\<forall>p\<in>set_option (xp_liquidity P). \<forall>sm n. obeys ingest_step (xl_FetchStablecoinMcap p) \<and>
        obeys ingest_step (xl_FetchExchangeBalance p sm) \<and> obeys ingest_step (xl_FetchBitfinexMargin p sm n)) \<and>
     (\<forall>p\<in>set_option (xp_inst P). \<forall>sm sx. obeys ingest_step (xn_FetchETFList p) \<and>
        obeys ingest_step (xn_FetchETFAUMHistory p sm) \<and> obeys ingest_step (xn_FetchMaxPain p sm sx))"

lemmas pg_cfl_port_defs = pg_cfl_raws_def cfl_raws.simps CflRawRepo_GetLTHSupplyAsOf_def
  CflRawRepo_CombinedETFFlowAsOf_def CflRawRepo_GetStablecoinMcapAsOf_def CflRawRepo_GetStablecoinMcapSeries_def
  CflRawRepo_GetExchangeBalanceChange7dSumAsOf_def CflRawRepo_GetExchangeBalanceChange30dSumAsOf_def CflRawRepo_GetBitfinexMarginAsOf_def
  CflRawRepo_GetETFListAUMTotalAsOf_def CflRawRepo_GetETFListConcentrationHHIAsOf_def CflRawRepo_GetETFAUMHistoryTotalAsOf_def
  CflRawRepo_GetOptionsDealerSkewProxyAsOf_def

interpretation pg_cfl_day: cfl_day_ports feature_step "pg_cfl_service L P cfg assets"
  by unfold_locales (auto simp: pg_cfl_port_defs intro!: ingest_feature step_quiet step_quiet_found cfl_quiet
      tport.Save tport.GetLatest tport.GetSeries)

lemma pg_cfl_ingest: "cfl_providers_ok P \<Longrightarrow> cfl_ingest_ports ingest_step (pg_cfl_service L P cfg assets)"
  by unfold_locales (auto simp: pg_cfl_port_defs step_cfl_saves step_Publish step_clock cfl_providers_ok_def)

section \<open>Runs\<close>

text \<open>The features are of the whole market: a score has none of its own.\<close>

lemma cfl_scored_run:
  assumes "cfl_providers_ok P"
  shows "scored_run (cfl_RunOnce M (pg_cfl_service L P cfg assets) vd) (cfl_ingestAll (pg_cfl_service L P cfg assets))
    (\<lambda>c. wrapE ''features'' [] (cfl_computeFeatures M (pg_cfl_service L P cfg assets) (UTCDay vd) c)) (\<lambda>a c. ret ())
    (\<lambda>a. cfl_gatherScoreInputs (pg_cfl_service L P cfg assets) a (UTCDay vd))
    (\<lambda>i. cfl_computeScore M i (cfl_Defaults cfg)) (cfl_event (cfl_Defaults cfg) (UTCDay vd)) (UTCDay vd)
    (if assets = [] then [AssetGlobal] else assets)"
proof
  let ?s = "pg_cfl_service L P cfg assets"
  show "cfl_RunOnce M ?s vd = seqE (cfl_ingestAll ?s) (bindE clock_Now (\<lambda>c.
      wrapE ''day'' [AStr (fmt_day (UTCDay vd))] (seqE (wrapE ''features'' [] (cfl_computeFeatures M ?s (UTCDay vd) c))
      (forE (\<lambda>a. wrapE ''asset'' [AStr a] (seqE (ret ())
         (bindE (wrapE ''gather score inputs'' [] (cfl_gatherScoreInputs ?s a (UTCDay vd) c))
         (\<lambda>i. store_score ScoreRepo_Save Publisher_Publish (cfl_event (cfl_Defaults cfg) (UTCDay vd) a)
           (cfl_computeScore M i (cfl_Defaults cfg))))))
        (if assets = [] then [AssetGlobal] else assets)))))"
    by (simp add: cfl_RunOnce_def cfl_computeRange_def day_range_self cfl_computeDay_def cfl_scoreAsset_def Let_def seqE_ret ret_seqE
      split del: if_split)
  show "obeys ingest_step (cfl_ingestAll ?s)" by (rule cfl_ingest_ports.ingest_obeys[OF pg_cfl_ingest[OF assms]])
  then show "obeys feature_step (cfl_ingestAll ?s)" by (rule ingest_feature)
qed (rule fstep.obeys_wrapE fstep.obeys_ret pg_cfl_day.features_obeys pg_cfl_day.gather_obeys)+

definition offline_cfl :: "'a world_scheme cfl_providers" where
  "offline_cfl = \<lparr>xp_etf = None, xp_lth = None, xp_mcap = None, xp_liquidity = None, xp_inst = None\<rparr>"

lemma offline_cfl_ok: "cfl_providers_ok offline_cfl"
  by (simp add: offline_cfl_def cfl_providers_ok_def)

interpretation cfl_offline: cfl_ingest_ports ingest_step "pg_cfl_service L offline_cfl cfg assets"
  by (rule pg_cfl_ingest[OF offline_cfl_ok])

interpretation cfl_offline_run: scored_run "cfl_RunOnce M (pg_cfl_service L offline_cfl cfg assets) vd"
    "cfl_ingestAll (pg_cfl_service L offline_cfl cfg assets)"
    "\<lambda>c. wrapE ''features'' [] (cfl_computeFeatures M (pg_cfl_service L offline_cfl cfg assets) (UTCDay vd) c)" "\<lambda>a c. ret ()"
    "\<lambda>a. cfl_gatherScoreInputs (pg_cfl_service L offline_cfl cfg assets) a (UTCDay vd)"
    "\<lambda>i. cfl_computeScore M i (cfl_Defaults cfg)" "cfl_event (cfl_Defaults cfg) (UTCDay vd)" "UTCDay vd"
    "if assets = [] then [AssetGlobal] else assets"
  by (rule cfl_scored_run[OF offline_cfl_ok])

lemma cfl_gather_shape:
  assumes "cfl_gatherScoreInputs s a vd c w = (Inr i, w')"
  shows "xi_asset i = a" "xi_value_date i = vd" "\<not> xi_miner_ok i"
  using assms unfolding cfl_gatherScoreInputs_def Let_def by (auto simp: bindE_eq_Inr split: prod.splits)

lemma cfl_cfg_Defaults: "cfl_cfg_ok (cfl_Defaults cfg) = cfl_cfg_ok cfg"
  by (simp add: cfl_cfg_ok_def)

text \<open>Every score is in range and says that its coverage is partial.\<close>

lemma cfl_run_scores:
  assumes p: "cfl_providers_ok P" and run: "cfl_RunOnce M (pg_cfl_service L P cfg assets) vd w = (Inr (), w')"
    and cfg: "cfl_cfg_ok cfg" and M: "go_libm M"
  shows "\<exists>new. w_scores w' = w_scores w @ new \<and>
    list_all2 (\<lambda>a row. ds_asset (r_val row) = a \<and> ds_domain (r_val row) = DomainCapitalFlows \<and> ds_value_date (r_val row) = UTCDay vd \<and>
        fin_in (- 1) 1 (ds_score (r_val row)) \<and> ds_quality (r_val row) ''partial_coverage'' = Some (ABool True))
      (if assets = [] then [AssetGlobal] else assets) new"
proof -
  obtain new where new: "w_scores w' = w_scores w @ new"
    "list_all2 (\<lambda>a row. \<exists>i. (xi_asset i = a \<and> xi_value_date i = UTCDay vd \<and> \<not> xi_miner_ok i) \<and>
        r_val row = score_row (cfl_computeScore M i (cfl_Defaults cfg)))
      (if assets = [] then [AssetGlobal] else assets) new"
    using scoring_run.run_rows[OF cfl_scored_run[OF p, THEN scored_run.axioms(1)] run,
        where I = "\<lambda>_ _. True" and Q = "\<lambda>a i. xi_asset i = a \<and> xi_value_date i = UTCDay vd \<and> \<not> xi_miner_ok i"]
    by (auto dest: cfl_gather_shape)
  have c: "cfl_cfg_ok (cfl_Defaults cfg)" using cfg by (simp add: cfl_cfg_Defaults)
  show ?thesis
    by (intro exI[of _ new] conjI new(1) list_all2_mono[OF new(2)])
      (auto simp: cfl_partial_sel cfl_partial_def go_libm.cfl_score_in(1)[OF M c])
qed

section \<open>The run succeeds\<close>

lemma cfl_storable:
  assumes M: "go_libm M" and "cfl_cfg_ok cfg" "xc_model_version cfg \<noteq> []" "Asset_Validate (xi_asset i) = None" "xi_value_date i \<noteq> zero_time"
  shows "storable (cfl_computeScore M i (cfl_Defaults cfg))"
proof (rule storableI)
  have c: "cfl_cfg_ok (cfl_Defaults cfg)" using assms(2) by (simp add: cfl_cfg_Defaults)
  show "fin_in (- 1) 1 (ds_score (cfl_computeScore M i (cfl_Defaults cfg)))"
    "\<forall>v\<in>ran (ds_components (cfl_computeScore M i (cfl_Defaults cfg))). fin_in (- 1) 1 v"
    using go_libm.cfl_score_in[OF M c] by simp_all
  obtain x n where m: "cfl_liquidity M (xc_scale (cfl_Defaults cfg)) i = (x, n)" by fastforce
  have n: "is_finite n" using go_libm.cfl_liquidity_in[OF M, of "xc_scale (cfl_Defaults cfg)" i] c m by (simp add: cfl_cfg_ok_def Let_def)
  show "json_anys (ds_quality (cfl_computeScore M i (cfl_Defaults cfg)))"
    unfolding json_anys_def cfl_computeScore_def Let_def cfl_Defaults_idem m prod.case domain_score.simps
    by (rule ran_map_of_all) (simp add: n)
  show "ds_model_version (cfl_computeScore M i (cfl_Defaults cfg)) \<noteq> []"
    using assms(3) by (simp add: cfl_Defaults_def)
qed (use assms in \<open>simp_all add: AllDomains_def\<close>)

lemma total_cfl_raws:
  "finds healthy (xr_LTHSupplyAsOf (pg_cfl_raws L) a vd c)"
  "total_io healthy (xr_CombinedETFFlowAsOf (pg_cfl_raws L) vd c) (\<lambda>_. True)"
  "total_io healthy (xr_StablecoinMcapAsOf (pg_cfl_raws L) vd c) (\<lambda>_. True)"
  "total_io healthy (xr_Balance7dAsOf (pg_cfl_raws L) sm vd c) (\<lambda>_. True)"
  "total_io healthy (xr_Balance30dAsOf (pg_cfl_raws L) sm vd c) (\<lambda>_. True)"
  "total_io healthy (xr_BitfinexMarginAsOf (pg_cfl_raws L) sm vd c) (\<lambda>_. True)"
  "total_io healthy (xr_ETFListAUMTotalAsOf (pg_cfl_raws L) vd c) (\<lambda>_. True)"
  "total_io healthy (xr_ETFListHHIAsOf (pg_cfl_raws L) vd c) (\<lambda>_. True)"
  "total_io healthy (xr_ETFAUMHistoryTotalAsOf (pg_cfl_raws L) vd c) (\<lambda>_. True)"
  "total_io healthy (xr_DealerSkewAsOf (pg_cfl_raws L) sm exch vd c) (\<lambda>_. True)"
  unfolding pg_cfl_port_defs
  by (intro total_replies cfl_quiet cfl_replies | (unfold GetLTHSupplyAsOf_def, intro finds_quiet quiet_reads))+

lemma total_cfl_save: "total_io healthy (cfl_saveFeature (pg_cfl_service L P cfg assets) n a vd v sn) (\<lambda>_. True)"
  "total_io healthy (cfl_zscore (pg_cfl_service L P cfg assets) d z a vd c k m sn') (\<lambda>_. True)"
  "total_io healthy (cfl_z90 (pg_cfl_service L P cfg assets) d z vd c sn') (\<lambda>_. True)"
  unfolding cfl_z90_def cfl_saveFeature_def cfl_zscore_def pg_cfl_sel by (rule total_table)+

lemmas total_cfl = total_cfl_raws total_cfl_raws(2-)[THEN total_attempt1] total_cfl_save total_table total_skip

lemma total_cfl_holders: "total_io healthy (cfl_holders (pg_cfl_service L P cfg assets) vd c) (\<lambda>_. True)"
  unfolding cfl_holders_def cfl_tryComputeLTHChange_def Let_def pg_cfl_sel
  by (intro total_seq1 total_when_some total_if_found total_bind1 total_sum total_cfl)

lemma total_cfl_dry:
  "(\<And>sm. total_io healthy (get sm vd c) (\<lambda>_. True)) \<Longrightarrow> total_io healthy (cfl_dry_powder (pg_cfl_service L P cfg assets) get d z vd c) (\<lambda>_. True)"
  unfolding cfl_dry_powder_def
  by (intro total_seq1 total_bind1 total_foldE total_pair total_if total_attempt1 total_cfl_save total_skip TrueI)

lemma total_cfl_flows:
  "total_io healthy (cfl_stable (pg_cfl_service L P cfg assets) vd c) (\<lambda>_. True)"
  "total_io healthy (cfl_balances (pg_cfl_service L P cfg assets) vd c) (\<lambda>_. True)"
  "total_io healthy (cfl_margin M (pg_cfl_service L P cfg assets) vd c) (\<lambda>_. True)"
  unfolding cfl_stable_def cfl_balances_def cfl_margin_def pg_cfl_sel
  by (intro total_seq1 total_if_ok total_option total_cfl_dry total_cfl)+

lemma total_cfl_funds: "total_io healthy (cfl_funds (pg_cfl_service L P cfg assets) vd c) (\<lambda>_. True)"
  unfolding cfl_funds_def cfl_etf_total_def Let_def pg_cfl_sel
  by (intro total_seq1 total_bind1 total_sum total_or_skip total_if_ok total_option total_cfl)

lemma total_cfl_features: "total_io healthy (cfl_computeFeatures M (pg_cfl_service L P cfg assets) vd c) (\<lambda>_. True)"
  unfolding cfl_computeFeatures_def by (intro total_seq1 total_cfl_holders total_cfl_flows total_cfl_funds)

lemma total_cfl_gather: "total_io healthy (cfl_gatherScoreInputs (pg_cfl_service L P cfg assets) a vd c) (\<lambda>i. xi_asset i = a \<and> xi_value_date i = vd)"
  unfolding cfl_gatherScoreInputs_def Let_def pg_cfl_sel
  by (intro total_bind1 total_table_value total_pair total_ret) simp

lemma cfl_event_json: "fin_in (- 1) 1 x \<Longrightarrow> json_anys (ev_payload (cfl_event cfg vd a x))"
  using ran_map_of_sub unfolding json_anys_def cfl_event_def event.simps fin_in_def by fastforce

theorem cfl_run_succeeds:
  assumes M: "go_libm M" and "cfl_cfg_ok cfg" "xc_model_version cfg \<noteq> []" "\<forall>a\<in>set assets. Asset_Validate a = None" "UTCDay vd \<noteq> zero_time"
    and p: "cfl_providers_ok P" and h: "healthy w" and ingest: "fst (cfl_ingestAll (pg_cfl_service L P cfg assets) w) = Inr ()"
  shows "\<exists>w'. cfl_RunOnce M (pg_cfl_service L P cfg assets) vd w = (Inr (), w') \<and> healthy w'"
proof (rule scoring_run.run_succeeds[OF cfl_scored_run[OF p, THEN scored_run.axioms(1)] _ _ _ _ h ingest])
  fix a c assume "a \<in> set (if assets = [] then [AssetGlobal] else assets)"
  then have v: "Asset_Validate a = None" using assms(4) by (auto simp: Asset_Validate_def split: if_splits)
  show "total_io healthy (cfl_gatherScoreInputs (pg_cfl_service L P cfg assets) a (UTCDay vd) c)
      (\<lambda>i. storable (cfl_computeScore M i (cfl_Defaults cfg)))"
    by (rule total_weaken[OF total_cfl_gather]) (use v assms in \<open>auto intro!: cfl_storable\<close>)
qed (intro total_wrapE total_cfl_features total_skip | erule cfl_event_json)+

section \<open>An example\<close>

definition ex_cfl_config :: cfl_config where
  "ex_cfl_config = \<lparr>xc_model_version = ''capital_flows_v1'', xc_config_version = ''c1'', xc_code_sha = ''dev'', xc_intermediate = ''v1'',
     xc_final = ''v1'', xc_scale = fzero, xc_w_etf = fzero, xc_w_lth = fzero, xc_w_miner = fzero, xc_w_flow = fzero,
     xc_w_lth_pre = fzero, xc_w_miner_pre = fzero\<rparr>"

lemma ex_cfl_config_ok: "cfl_cfg_ok ex_cfl_config"
  by (simp add: cfl_cfg_ok_def Let_def cfl_Defaults_def if_zero_def ex_cfl_config_def scale_ok_def f64_eval)

lemma offline_cfl_ingest: "fst (cfl_ingestAll (pg_cfl_service L offline_cfl cfg assets) w) = Inr ()"
  by (simp add: cfl_ingestAll_def cfl_ingestETFFlows_def cfl_ingestLTHSupply_def cfl_ingestBTCMarketCap_def cfl_ingestLiquidityFlow_def
    cfl_ingestInstitutional_def offline_cfl_def seqE_def bindE_def wrapE_def)

lemma ex_cfl_runs: "\<exists>w'. cfl_RunOnce ideal_libm (pg_cfl_service L offline_cfl ex_cfl_config []) ex_day (start_world []) = (Inr (), w') \<and> healthy w'"
  by (rule cfl_run_succeeds[OF ideal.go_libm_axioms ex_cfl_config_ok _ _ _ offline_cfl_ok start_healthy offline_cfl_ingest])
    (simp_all add: ex_cfl_config_def ex_day_def UTCDay_def day_of_def day_ns_def zero_time_def)

end
