(* ===== verification/Config.thy ===== *)
theory Config
  imports Domain
begin

text \<open>
  \<open>internal/config\<close>: the YAML structures of the programs and \<open>Load\<close>.  Reading a file, decoding YAML and SHA-256 are
  parameters (record \<open>host\<close>), as is the environment of the process.
\<close>

section \<open>Structures\<close>

record database_config =
  db_url :: string

record schedule_config =
  sd_tick_every :: string

record llama_config =
  ll_url :: string
  ll_timeout :: int

record metrics_api_config =
  ma_url :: string
  ma_timeout :: int

record providers_config =
  pc_defillama :: llama_config
  pc_defillama_tvl :: llama_config
  pc_coinmetrics :: metrics_api_config

record feature_config =
  fc_name :: string
  fc_version :: string
  fc_params :: "string \<rightharpoonup> anyval"

record component_config =
  co_name :: string
  co_features :: "string list"
  co_weight :: f64
  co_invert :: bool

record scoring_config =
  so_version :: string
  so_components :: "component_config list"

record liquidity_yaml =
  ly_domain :: string
  ly_model :: string
  ly_assets :: "string list"
  ly_providers :: providers_config
  ly_features :: "feature_config list"
  ly_scoring :: scoring_config
  ly_database :: database_config
  ly_schedule :: schedule_config

record smoothing_yaml =
  sy_span :: int

record aggregation_yaml =
  ay_weights :: "string \<rightharpoonup> f64"

record probability_yaml =
  py_slope :: f64

record transition_yaml =
  ty_roc_window :: int
  ty_roc_weight :: f64
  ty_div_weight :: f64
  ty_baseline :: f64

record coverage_yaml =
  gy_min :: f64

record regime_yaml =
  ry_model :: string
  ry_assets :: "string list"
  ry_database :: database_config
  ry_schedule :: schedule_config
  ry_aggregation :: aggregation_yaml
  ry_probability :: probability_yaml
  ry_transition :: transition_yaml
  ry_coverage :: coverage_yaml
  ry_smoothing :: smoothing_yaml

record orch_provider =
  op_url :: string
  op_timeout :: int
  op_key :: string

record orch_providers =
  oq_defillama :: orch_provider
  oq_defillama_tvl :: orch_provider
  oq_coinmetrics :: orch_provider
  oq_binance :: orch_provider
  oq_binance_spot :: orch_provider
  oq_bybit :: orch_provider
  oq_okx :: orch_provider
  oq_deribit :: orch_provider
  oq_coinglass :: orch_provider
  oq_kraken :: orch_provider
  oq_coinbase :: orch_provider

record orch_basic =
  ol_model :: string

record orch_feats =
  of_model :: string
  of_intermediate :: string
  of_final :: string

record orch_stress = orch_feats +
  ot_basis_version :: string

record normalization_yaml =
  ny_lookback :: int
  ny_min_samples :: int

record orch_engine =
  oe_model :: string
  oe_weights :: "string \<rightharpoonup> f64"
  oe_slope :: f64
  oe_transition :: transition_yaml
  oe_normalization :: normalization_yaml
  oe_smoothing :: smoothing_yaml

record orch_domains =
  od_liquidity :: orch_basic
  od_leverage :: orch_feats
  od_market_stress :: orch_stress
  od_capital_flows :: orch_feats
  od_volatility :: orch_feats
  od_regime :: orch_engine

record orch_paths =
  oh_liquidity :: string

record orch_config =
  oc_database :: database_config
  oc_providers :: orch_providers
  oc_domains :: orch_domains
  oc_paths :: orch_paths
  oc_schedule :: schedule_config

record gateway_yaml =
  wy_listen :: string
  wy_database :: database_config

section \<open>Loading\<close>

record host =
  ho_read :: "string \<Rightarrow> err + string"
  ho_getenv :: "string \<Rightarrow> string"
  ho_sha256 :: "string \<Rightarrow> string"

record 'c loaded =
  ld_raw :: string
  ld_version :: string
  ld_parsed :: 'c

definition config_Load :: "host \<Rightarrow> (string \<Rightarrow> err + 'c) \<Rightarrow> string \<Rightarrow> err + 'c loaded" where
  "config_Load h decode path = (case ho_read h path of
      Inl e \<Rightarrow> Inl (Wrap ''read config %s'' [AStr path] e)
    | Inr raw \<Rightarrow> (case decode raw of
        Inl e \<Rightarrow> Inl (Wrap ''parse config %s'' [AStr path] e)
      | Inr parsed \<Rightarrow> Inr \<lparr>ld_raw = raw, ld_version = ''sha256:'' @ ho_sha256 h raw, ld_parsed = parsed\<rparr>))"

lemma config_Load_Inr:
  "config_Load h decode path = Inr ld \<longleftrightarrow> (\<exists>raw c. ho_read h path = Inr raw \<and> decode raw = Inr c \<and>
     ld = \<lparr>ld_raw = raw, ld_version = ''sha256:'' @ ho_sha256 h raw, ld_parsed = c\<rparr>)"
  by (auto simp: config_Load_def split: sum.splits)

text \<open>A pure result as a call: \<open>if err != nil { return err }\<close>.\<close>

definition liftE :: "err + 'r \<Rightarrow> ('w, 'r) io" where
  "liftE r = (case r of Inl e \<Rightarrow> throw e | Inr x \<Rightarrow> ret x)"

end
