(* ===== verification/Orchestrator.thy ===== *)
theory Orchestrator
  imports Config LiquidityRun PgLeverage PgVolatility PgStress PgFlows
begin

text \<open>
  \<open>cmd/orchestrator\<close>: the daily pipeline.  Each run takes the five domains and then the regime engine, one after
  the other; a step that fails is noted and the next one is run.  The services are built per step from the
  configuration, the repositories on the database and the clients of the data services, which are a parameter (record
  \<open>clients\<close>: what each adapter constructor returns for a base URL or key and a timeout).
\<close>

section \<open>Clients\<close>

record 'w clients =
  ct_stable :: "string \<Rightarrow> int \<Rightarrow> 'w stable_provider"
  ct_tvl :: "string \<Rightarrow> int \<Rightarrow> 'w tvl_provider"
  ct_netflow :: "string \<Rightarrow> int \<Rightarrow> 'w netflow_provider"
  ct_mcap :: "int \<Rightarrow> 'w mcap_provider"
  ct_oi :: "string \<Rightarrow> string \<Rightarrow> int \<Rightarrow> 'w oi_provider"
  ct_funding :: "string \<Rightarrow> string \<Rightarrow> int \<Rightarrow> 'w funding_provider"
  ct_basis :: "string \<Rightarrow> int \<Rightarrow> 'w basis_provider"
  ct_cgOI :: "string \<Rightarrow> int \<Rightarrow> 'w cg_oi_provider"
  ct_cgBasis :: "string \<Rightarrow> int \<Rightarrow> 'w cg_basis_provider"
  ct_cgLiq :: "string \<Rightarrow> int \<Rightarrow> 'w cg_liq_provider"
  ct_cgCrowd :: "string \<Rightarrow> int \<Rightarrow> 'w cg_crowd_provider"
  ct_etf :: "string \<Rightarrow> int \<Rightarrow> 'w etf_provider"
  ct_lth :: "string \<Rightarrow> int \<Rightarrow> ('w, lth_point list) io"
  ct_btc_mcap :: "string \<Rightarrow> int \<Rightarrow> ('w, btc_mcap_point list) io"
  ct_flow :: "string \<Rightarrow> int \<Rightarrow> 'w flow_provider"
  ct_inst :: "string \<Rightarrow> int \<Rightarrow> 'w inst_provider"
  ct_klines :: "string \<Rightarrow> int \<Rightarrow> 'w kline_provider"
  ct_ohlc :: "string \<Rightarrow> int \<Rightarrow> 'w ohlc_provider"
  ct_candles :: "string \<Rightarrow> int \<Rightarrow> 'w candle_provider"
  ct_premium :: "string \<Rightarrow> int \<Rightarrow> 'w premium_provider"
  ct_micro :: "string \<Rightarrow> int \<Rightarrow> 'w micro_provider"
  ct_dvol :: "string \<Rightarrow> int \<Rightarrow> 'w dvol_provider"
  ct_options :: "string \<Rightarrow> int \<Rightarrow> 'w options_provider"
  ct_chain :: "string \<Rightarrow> int \<Rightarrow> 'w chain_provider"
  ct_cgOptions :: "string \<Rightarrow> int \<Rightarrow> 'w cg_options_provider"

text \<open>What a run is given besides its configuration: the mathematical library, the database's own functions, the
  orders in which maps are walked, the host, the decoder of the liquidity YAML and the clients.\<close>

record 'w orch_env =
  oz_libm :: libm
  oz_sql :: sql_lib
  oz_days :: "int set \<Rightarrow> int list"
  oz_order :: "asset \<Rightarrow> gotime \<Rightarrow> map_order"
  oz_host :: host
  oz_liquidity_yaml :: "string \<Rightarrow> err + liquidity_yaml"
  oz_clients :: "'w clients"

section \<open>The steps\<close>

definition GitSHA :: string where "GitSHA = ''dev''"

definition defaultAssets :: "asset list" where "defaultAssets = [''BTC'', ''ETH'']"

definition second_ns :: int where "second_ns = 1000000000"

definition or_string :: "string \<Rightarrow> string \<Rightarrow> string" where
  "or_string s d = (if s = [] then d else s)"

definition loadLiquidityFeatureVersions :: "'w orch_env \<Rightarrow> string \<Rightarrow> err + (string \<rightharpoonup> string)" where
  "loadLiquidityFeatureVersions z path0 =
     (let path = or_string path0 ''configs/liquidity.yaml'' in
      case config_Load (oz_host z) (oz_liquidity_yaml z) path of
        Inl e \<Rightarrow> Inl (Wrap ''load liquidity config %s'' [AStr path] e)
      | Inr l \<Rightarrow> Inr (foldl (\<lambda>m f. m(fc_name f \<mapsto> fc_version f)) Map.empty (ly_features (ld_parsed l))))"

definition coinglassAPIKey :: "'w orch_env \<Rightarrow> orch_config \<Rightarrow> string" where
  "coinglassAPIKey z cfg = or_string (ho_getenv (oz_host z) ''COINGLASS_API_KEY'') (op_key (oq_coinglass (oc_providers cfg)))"

definition api_timeout :: "orch_provider \<Rightarrow> int" where
  "api_timeout p = op_timeout p * second_ns"

definition coinglass_timeout :: "orch_config \<Rightarrow> int" where
  "coinglass_timeout cfg = or_default_int (api_timeout (oq_coinglass (oc_providers cfg))) (30 * second_ns)"

text \<open>\<open>if from.Equal(to) { svc.RunOnce } else { svc.RunBackfill }\<close>.\<close>

definition once_or_range :: "(gotime \<Rightarrow> ('w, unit) io) \<Rightarrow> (gotime \<Rightarrow> gotime \<Rightarrow> ('w, unit) io) \<Rightarrow> gotime \<Rightarrow> gotime \<Rightarrow> ('w, unit) io" where
  "once_or_range one many f t = (if f = t then one f else many f t)"

definition string_of_key :: "(string \<rightharpoonup> string) \<Rightarrow> string \<Rightarrow> string" where
  "string_of_key m k = (case m k of None \<Rightarrow> [] | Some v \<Rightarrow> v)"

definition liquidity_cfg :: "orch_config \<Rightarrow> string \<Rightarrow> (string \<rightharpoonup> string) \<Rightarrow> liq_config" where
  "liquidity_cfg cfg ver fv =
     \<lparr>lc_model_version = ol_model (od_liquidity (oc_domains cfg)), lc_config_version = ver, lc_code_sha = GitSHA,
      lc_supply = string_of_key fv ''stablecoin_supply_total'', lc_growth = string_of_key fv ''stablecoin_growth_30d'',
      lc_zscore = string_of_key fv ''stablecoin_growth_zscore_90d'', lc_netflow7d = string_of_key fv ''exchange_netflow_7d'',
      lc_netflow_z = string_of_key fv ''exchange_netflow_zscore_180d'', lc_tvl = string_of_key fv ''defi_tvl_usd'',
      lc_tvl_growth = string_of_key fv ''defi_tvl_growth_30d'', lc_tvl_z = string_of_key fv ''defi_tvl_growth_zscore_180d'',
      lc_supply_major = string_of_key fv ''stablecoin_supply_usdt_usdc_dai'', lc_ssr = string_of_key fv ''ssr'',
      lc_ssr_pct = string_of_key fv ''ssr_percentile_rank_365d'',
      lc_w_stable = fzero, lc_w_netflow = fzero, lc_w_defi = fzero, lc_scale = fzero\<rparr>"

definition liquidity_service :: "'a world_scheme orch_env \<Rightarrow> orch_config \<Rightarrow> string \<Rightarrow> (string \<rightharpoonup> string) \<Rightarrow> 'a world_scheme liq_service" where
  "liquidity_service z cfg ver fv =
     (let p = oc_providers cfg; c = oz_clients z in
      pg_liq_service (Some (ct_stable c (op_url (oq_defillama p)) (api_timeout (oq_defillama p))))
        (Some (ct_tvl c (op_url (oq_defillama_tvl p)) (api_timeout (oq_defillama_tvl p))))
        (Some (ct_netflow c (op_url (oq_coinmetrics p)) (api_timeout (oq_coinmetrics p))))
        (Some (ct_mcap c (60 * second_ns))) (liquidity_cfg cfg ver fv) defaultAssets)"

definition runLiquidity :: "'a world_scheme orch_env \<Rightarrow> orch_config \<Rightarrow> string \<Rightarrow> gotime \<Rightarrow> gotime \<Rightarrow> ('a world_scheme, unit) io" where
  "runLiquidity z cfg ver from to =
     bindE (liftE (loadLiquidityFeatureVersions z (oh_liquidity (oc_paths cfg)))) (\<lambda>fv.
       once_or_range (liq_RunOnce (oz_libm z) (liquidity_service z cfg ver fv))
         (liq_RunBackfill (oz_libm z) (liquidity_service z cfg ver fv)) from to)"

definition leverage_cfg :: "orch_config \<Rightarrow> string \<Rightarrow> lev_config" where
  "leverage_cfg cfg ver = (let d = od_leverage (oc_domains cfg) in
     \<lparr>vc_model_version = of_model d, vc_config_version = ver, vc_code_sha = GitSHA, vc_intermediate = of_intermediate d,
      vc_final = of_final d, vc_w_size = fzero, vc_w_funding = fzero, vc_w_basis = fzero, vc_w_liq = fzero,
      vc_w_momentum = fzero, vc_w_crowd = fzero, vc_scale = fzero\<rparr>)"

definition leverage_providers :: "'w orch_env \<Rightarrow> orch_config \<Rightarrow> 'w lev_providers" where
  "leverage_providers z cfg =
     (let p = oc_providers cfg; c = oz_clients z; key = coinglassAPIKey z cfg; t = coinglass_timeout cfg;
          venues = [(''binance'', oq_binance p), (''bybit'', oq_bybit p), (''okx'', oq_okx p)] in
      \<lparr>vp_oi = map (\<lambda>(n, q). (n, Some (ct_oi c n (op_url q) (api_timeout q)))) venues,
       vp_funding = map (\<lambda>(n, q). (n, Some (ct_funding c n (op_url q) (api_timeout q)))) venues,
       vp_basis = Some (ct_basis c (op_url (oq_deribit p)) (api_timeout (oq_deribit p))),
       vp_cgOI = Some (ct_cgOI c key t), vp_cgBasis = Some (ct_cgBasis c key t),
       vp_cgLiq = Some (ct_cgLiq c key t), vp_cgCrowd = Some (ct_cgCrowd c key t)\<rparr>)"

definition leverage_service :: "'a world_scheme orch_env \<Rightarrow> orch_config \<Rightarrow> string \<Rightarrow> 'a world_scheme lev_service" where
  "leverage_service z cfg ver = pg_lev_service (oz_sql z) (leverage_providers z cfg) (leverage_cfg cfg ver) defaultAssets"

definition runLeverage :: "'a world_scheme orch_env \<Rightarrow> orch_config \<Rightarrow> string \<Rightarrow> gotime \<Rightarrow> gotime \<Rightarrow> ('a world_scheme, unit) io" where
  "runLeverage z cfg ver =
     once_or_range (lev_RunOnce (oz_libm z) (oz_days z) (leverage_service z cfg ver))
       (lev_RunBackfill (oz_libm z) (oz_days z) (leverage_service z cfg ver))"

definition flows_cfg :: "orch_config \<Rightarrow> string \<Rightarrow> cfl_config" where
  "flows_cfg cfg ver = (let d = od_capital_flows (oc_domains cfg) in
     \<lparr>xc_model_version = of_model d, xc_config_version = ver, xc_code_sha = GitSHA, xc_intermediate = of_intermediate d,
      xc_final = of_final d, xc_scale = fzero, xc_w_etf = fzero, xc_w_lth = fzero, xc_w_miner = fzero, xc_w_flow = fzero,
      xc_w_lth_pre = fzero, xc_w_miner_pre = fzero\<rparr>)"

definition flows_providers :: "'w orch_env \<Rightarrow> orch_config \<Rightarrow> 'w cfl_providers" where
  "flows_providers z cfg = (let c = oz_clients z; key = coinglassAPIKey z cfg; t = coinglass_timeout cfg in
     \<lparr>xp_etf = Some (ct_etf c key t), xp_lth = Some (ct_lth c key t), xp_mcap = Some (ct_btc_mcap c key t),
      xp_liquidity = Some (ct_flow c key t), xp_inst = Some (ct_inst c key t)\<rparr>)"

definition flows_service :: "'a world_scheme orch_env \<Rightarrow> orch_config \<Rightarrow> string \<Rightarrow> 'a world_scheme cfl_service" where
  "flows_service z cfg ver = pg_cfl_service (oz_sql z) (flows_providers z cfg) (flows_cfg cfg ver) [AssetGlobal]"

definition runCapitalFlows :: "'a world_scheme orch_env \<Rightarrow> orch_config \<Rightarrow> string \<Rightarrow> gotime \<Rightarrow> gotime \<Rightarrow> ('a world_scheme, unit) io" where
  "runCapitalFlows z cfg ver =
     once_or_range (cfl_RunOnce (oz_libm z) (flows_service z cfg ver)) (cfl_RunBackfill (oz_libm z) (flows_service z cfg ver))"

definition stress_cfg :: "orch_config \<Rightarrow> string \<Rightarrow> mst_config" where
  "stress_cfg cfg ver = (let d = od_market_stress (oc_domains cfg) in
     \<lparr>kc_model_version = of_model d, kc_config_version = ver, kc_code_sha = GitSHA, kc_intermediate = of_intermediate d,
      kc_final = of_final d, kc_basis_version = ot_basis_version d, kc_w_corr = fzero, kc_w_peg = fzero, kc_w_coinbase = fzero,
      kc_w_basis = fzero, kc_w_micro = fzero, kc_scale = fzero\<rparr>)"

definition stress_providers :: "'w orch_env \<Rightarrow> orch_config \<Rightarrow> 'w mst_providers" where
  "stress_providers z cfg =
     (let p = oc_providers cfg; c = oz_clients z; key = coinglassAPIKey z cfg; t = coinglass_timeout cfg in
      \<lparr>mp_binance = Some (ct_klines c (op_url (oq_binance_spot p)) (api_timeout (oq_binance_spot p))),
       mp_kraken = Some (ct_ohlc c (op_url (oq_kraken p)) (api_timeout (oq_kraken p))),
       mp_coinbase = Some (ct_candles c (op_url (oq_coinbase p)) (api_timeout (oq_coinbase p))),
       mp_coinglass = (if key = [] then None else Some (ct_premium c key t)),
       mp_cgMicro = (if key = [] then None else Some (ct_micro c key t))\<rparr>)"

definition stress_service :: "'a world_scheme orch_env \<Rightarrow> orch_config \<Rightarrow> string \<Rightarrow> 'a world_scheme mst_service" where
  "stress_service z cfg ver = pg_mst_service (stress_providers z cfg) (stress_cfg cfg ver) defaultAssets"

definition runMarketStress :: "'a world_scheme orch_env \<Rightarrow> orch_config \<Rightarrow> string \<Rightarrow> gotime \<Rightarrow> gotime \<Rightarrow> ('a world_scheme, unit) io" where
  "runMarketStress z cfg ver =
     once_or_range (mst_RunOnce (oz_libm z) (stress_service z cfg ver)) (mst_RunBackfill (oz_libm z) (stress_service z cfg ver))"

definition volatility_cfg :: "orch_config \<Rightarrow> string \<Rightarrow> vol_config" where
  "volatility_cfg cfg ver = (let d = od_volatility (oc_domains cfg) in
     \<lparr>wc_model_version = of_model d, wc_config_version = ver, wc_code_sha = GitSHA, wc_intermediate = of_intermediate d,
      wc_final = of_final d, wc_w_fear = fzero, wc_w_tail = fzero, wc_w_vov = fzero, wc_w_fear4 = fzero, wc_w_term4 = fzero,
      wc_w_tail4 = fzero, wc_w_vov4 = fzero, wc_w_cross = fzero, wc_scale = fzero\<rparr>)"

text \<open>Unlike the other steps this one looks for the key in the configuration only.\<close>

definition volatility_providers :: "'w orch_env \<Rightarrow> orch_config \<Rightarrow> 'w vol_providers" where
  "volatility_providers z cfg =
     (let p = oc_providers cfg; c = oz_clients z; k = op_key (oq_coinglass p); u = op_url (oq_deribit p); t = api_timeout (oq_deribit p) in
      \<lparr>wp_dvol = Some (ct_dvol c u t), wp_options = Some (ct_options c u t),
       wp_cgOptions = (if k = [] then None else Some (ct_cgOptions c k (coinglass_timeout cfg))),
       wp_chain = Some (ct_chain c u t)\<rparr>)"

definition volatility_service :: "'a world_scheme orch_env \<Rightarrow> orch_config \<Rightarrow> string \<Rightarrow> 'a world_scheme vol_service" where
  "volatility_service z cfg ver = pg_vol_service (oz_libm z) (oz_sql z) (volatility_providers z cfg) (volatility_cfg cfg ver) defaultAssets"

definition runVolatility :: "'a world_scheme orch_env \<Rightarrow> orch_config \<Rightarrow> string \<Rightarrow> gotime \<Rightarrow> gotime \<Rightarrow> ('a world_scheme, unit) io" where
  "runVolatility z cfg ver =
     once_or_range (vol_RunOnce (oz_libm z) (volatility_service z cfg ver)) (vol_RunBackfill (oz_libm z) (volatility_service z cfg ver))"

text \<open>A setting of the YAML replaces the default when it is positive.\<close>

definition if_positive :: "f64 \<Rightarrow> f64 \<Rightarrow> f64" where
  "if_positive x d = (if flt fzero x then x else d)"

definition if_positive_int :: "int \<Rightarrow> int \<Rightarrow> int" where
  "if_positive_int x d = (if 0 < x then x else d)"

definition engine_cfg :: "orch_config \<Rightarrow> string \<Rightarrow> regime_config" where
  "engine_cfg cfg ver =
     (let e = od_regime (oc_domains cfg); t = oe_transition e; d = DefaultConfig in
      d\<lparr>rc_model_version := oe_model e, rc_config_version := ver, rc_code_sha := GitSHA,
        rc_weights := (if oe_weights e = Map.empty then rc_weights d else Some (oe_weights e)),
        rc_sigmoid_k := if_positive (oe_slope e) (rc_sigmoid_k d),
        rc_roc_window := if_positive_int (ty_roc_window t) (rc_roc_window d),
        rc_roc_weight := if_positive (ty_roc_weight t) (rc_roc_weight d),
        rc_div_weight := if_positive (ty_div_weight t) (rc_div_weight d),
        rc_baseline := if_positive (ty_baseline t) (rc_baseline d),
        rc_norm_lookback := if_positive_int (ny_lookback (oe_normalization e)) (rc_norm_lookback d),
        rc_norm_min_samples := if_positive_int (ny_min_samples (oe_normalization e)) (rc_norm_min_samples d),
        rc_span := sy_span (oe_smoothing e)\<rparr>)"

definition engine_service :: "orch_config \<Rightarrow> string \<Rightarrow> 'a world_scheme regime_service" where
  "engine_service cfg ver = pg_regime_service (engine_cfg cfg ver) defaultAssets"

definition runRegimeEngine :: "'a world_scheme orch_env \<Rightarrow> orch_config \<Rightarrow> string \<Rightarrow> gotime \<Rightarrow> gotime \<Rightarrow> ('a world_scheme, unit) io" where
  "runRegimeEngine z cfg ver =
     once_or_range (RunOnce (oz_libm z) (oz_order z) (engine_service cfg ver))
       (RunBackfill (oz_libm z) (oz_order z) (engine_service cfg ver))"

section \<open>The run\<close>

definition orch_steps :: "'a world_scheme orch_env \<Rightarrow> orch_config \<Rightarrow> string \<Rightarrow> gotime \<Rightarrow> gotime \<Rightarrow> (string \<times> ('a world_scheme, unit) io) list" where
  "orch_steps z cfg ver from to =
     [(''liquidity'', runLiquidity z cfg ver from to), (''leverage'', runLeverage z cfg ver from to),
      (''capital_flows'', runCapitalFlows z cfg ver from to), (''market_stress'', runMarketStress z cfg ver from to),
      (''volatility'', runVolatility z cfg ver from to), (''regime_engine'', runRegimeEngine z cfg ver from to)]"

definition run_steps :: "(string \<times> ('w, unit) io) list \<Rightarrow> ('w, string list) io" where
  "run_steps steps = foldE (\<lambda>failed st. bindE (attempt (snd st)) (\<lambda>r. ret (case r of Inl e \<Rightarrow> failed @ [fst st] | Inr _ \<Rightarrow> failed))) [] steps"

definition orch_runOnce :: "'a world_scheme orch_env \<Rightarrow> orch_config \<Rightarrow> string \<Rightarrow> gotime \<Rightarrow> gotime \<Rightarrow> ('a world_scheme, unit) io" where
  "orch_runOnce z cfg ver from to = bindE (run_steps (orch_steps z cfg ver from to)) (\<lambda>failed.
     if failed \<noteq> [] then throw (Fresh ''steps failed: %v'' [AList (map AStr failed)]) else ret ())"

definition time_err :: "string \<Rightarrow> err" where
  "time_err s = Fresh ''parsing time %q'' [AStr s]"

definition resolveValueDate :: "string \<Rightarrow> ('a world_scheme, gotime) io" where
  "resolveValueDate override =
     (if override \<noteq> [] then
        (case parse_day override of None \<Rightarrow> throw (Wrap ''parse value-date'' [] (time_err override)) | Some t \<Rightarrow> ret t)
      else bindE clock_Now (\<lambda>now. ret (UTCDay now)))"

definition registerConfig :: "orch_config loaded \<Rightarrow> ('a world_scheme, unit) io" where
  "registerConfig ld = (let d = oc_domains (ld_parsed ld) in
     UpsertModelConfig \<lparr>cf_version = ld_version ld, cf_scope = ''orchestrator'', cf_model_version = oe_model (od_regime d), cf_body = ld_raw ld,
       cf_parsed = map_of [(''scope'', AStr ''orchestrator''), (''liquidity_model'', AStr (ol_model (od_liquidity d))),
         (''leverage_model'', AStr (of_model (od_leverage d))), (''market_stress_model'', AStr (of_model (od_market_stress d))),
         (''capital_flows_model'', AStr (of_model (od_capital_flows d))), (''volatility_model'', AStr (of_model (od_volatility d))),
         (''regime_engine_model'', AStr (oe_model (od_regime d)))]\<rparr>)"

text \<open>The daemon: an initial tick, then one per firing of its ticker until the process is told to stop; errors are logged.
  A bad \<open>-value-date\<close> leaves the zero time.\<close>

definition daemon_tick :: "'a world_scheme orch_env \<Rightarrow> orch_config \<Rightarrow> string \<Rightarrow> string \<Rightarrow> ('a world_scheme, unit) io" where
  "daemon_tick z cfg ver override = bindE (attempt (resolveValueDate override)) (\<lambda>r.
     let vd = (case r of Inl e \<Rightarrow> zero_time | Inr t \<Rightarrow> t) in
     bindE (attempt (orch_runOnce z cfg ver vd vd)) (\<lambda>_. ret ()))"

definition daemon :: "'a world_scheme orch_env \<Rightarrow> orch_config \<Rightarrow> string \<Rightarrow> string \<Rightarrow> nat \<Rightarrow> ('a world_scheme, unit) io" where
  "daemon z cfg ver override firings =
     seqE (daemon_tick z cfg ver override) (forE (\<lambda>_. daemon_tick z cfg ver []) (replicate firings ()))"

record orch_args =
  og_config :: string
  og_value_date :: string
  og_from :: string
  og_to :: string
  og_daemon :: bool

text \<open>\<open>run\<close>: \<open>decode\<close> reads the YAML, \<open>open_db\<close> connects, \<open>firings\<close> counts the ticks of a daemon.\<close>

definition orch_run :: "'a world_scheme orch_env \<Rightarrow> (string \<Rightarrow> err + orch_config) \<Rightarrow> (string \<Rightarrow> ('a world_scheme, unit) io) \<Rightarrow> nat \<Rightarrow>
    orch_args \<Rightarrow> ('a world_scheme, unit) io" where
  "orch_run z decode open_db firings g =
     bindE (liftE (config_Load (oz_host z) decode (og_config g))) (\<lambda>ld.
       let cfg = ld_parsed ld; ver = ld_version ld in
       seqE (wrapE ''open db'' [] (open_db (db_url (oc_database cfg))))
       (seqE (wrapE ''register config'' [] (registerConfig ld))
       (if og_from g \<noteq> [] then
          (if og_to g = [] then throw (Fresh ''-to required when -from is set'' [])
           else (case parse_day (og_from g) of None \<Rightarrow> throw (Wrap ''parse -from'' [] (time_err (og_from g)))
             | Some f \<Rightarrow> (case parse_day (og_to g) of None \<Rightarrow> throw (Wrap ''parse -to'' [] (time_err (og_to g)))
               | Some t \<Rightarrow> orch_runOnce z cfg ver f t)))
        else if og_daemon g then daemon z cfg ver (og_value_date g) firings
        else bindE (resolveValueDate (og_value_date g)) (\<lambda>vd. orch_runOnce z cfg ver vd vd))))"

end
