(* ===== verification/OrchestratorRun.thy ===== *)
theory OrchestratorRun
  imports Orchestrator
begin

text \<open>
  The daily pipeline: each step runs whatever the others did, and the error names exactly the steps that failed.
  On a database without faults, with services that answer, the five domain steps succeed, and the scores they
  store are all there for the regime engine that follows them.
\<close>

section \<open>Every step runs\<close>

fun failing :: "(string \<times> ('w, unit) io) list \<Rightarrow> 'w \<Rightarrow> string list" where
  "failing [] w = []"
| "failing ((n, m) # steps) w = (case m w of (Inl e, w') \<Rightarrow> n # failing steps w' | (Inr u, w') \<Rightarrow> failing steps w')"

definition world_after :: "(string \<times> ('w, unit) io) list \<Rightarrow> 'w \<Rightarrow> 'w" where
  "world_after steps w = foldl (\<lambda>w st. snd (snd st w)) w steps"

lemma run_steps_from:
  "foldE (\<lambda>failed st. bindE (attempt (snd st)) (\<lambda>r. ret (case r of Inl e \<Rightarrow> failed @ [fst st] | Inr _ \<Rightarrow> failed))) acc steps w =
     (Inr (acc @ failing steps w), world_after steps w)"
proof (induction steps arbitrary: acc w)
  case Nil
  show ?case by (simp add: world_after_def)
next
  case (Cons st steps)
  obtain n m where st: "st = (n, m)" by fastforce
  obtain r w' where m: "m w = (r, w')" by fastforce
  show ?case using Cons.IH[of _ w'] by (cases r) (simp_all add: st m bindE_def attempt_def world_after_def)
qed

lemma run_steps_eq: "run_steps steps w = (Inr (failing steps w), world_after steps w)"
  using run_steps_from[of "[]"] by (simp add: run_steps_def)

lemma runOnce_eq:
  "orch_runOnce z cfg ver f t w =
     ((if failing (orch_steps z cfg ver f t) w = [] then Inr ()
       else Inl (Fresh ''steps failed: %v'' [AList (map AStr (failing (orch_steps z cfg ver f t) w))])),
      world_after (orch_steps z cfg ver f t) w)"
  by (simp add: orch_runOnce_def bindE_def run_steps_eq)

lemma failing_append: "failing (xs @ ys) w = failing xs w @ failing ys (world_after xs w)"
  by (induction xs w rule: failing.induct) (auto simp: world_after_def split: prod.splits sum.splits)

lemma world_after_append: "world_after (xs @ ys) w = world_after ys (world_after xs w)"
  by (simp add: world_after_def)

section \<open>Clients that touch no score and no feature\<close>

definition clients_ok :: "'a world_scheme clients \<Rightarrow> bool" where
  "clients_ok c \<longleftrightarrow>
     (\<forall>u t. obeys ingest_step (sp_FetchAll (ct_stable c u t)) \<and> obeys ingest_step (sp_FetchPer (ct_stable c u t)) \<and>
        (\<forall>x. obeys ingest_step (ct_tvl c u t x)) \<and> (\<forall>as f to. obeys ingest_step (ct_netflow c u t as f to)) \<and>
        (\<forall>x. obeys ingest_step (ct_mcap c t x)) \<and>
        (\<forall>n a f to. obeys ingest_step (ct_oi c n u t a f to) \<and> obeys ingest_step (ct_funding c n u t a f to)) \<and>
        (\<forall>a. obeys ingest_step (ct_basis c u t a)) \<and>
        (\<forall>a exch f to lm. obeys ingest_step (co_FetchOIHistory (ct_cgOI c u t) a exch lm) \<and>
           obeys ingest_step (co_FetchAggregatedOIHistoryRange (ct_cgOI c u t) a f to lm)) \<and>
        (\<forall>a exch lm. obeys ingest_step (ct_cgBasis c u t a exch lm)) \<and>
        (\<forall>a exchs f to lm. obeys ingest_step (ct_cgLiq c u t a exchs f to lm)) \<and>
        (\<forall>kind a exch exchs lm. obeys ingest_step (cc_FetchLSRatio (ct_cgCrowd c u t) kind a exch lm) \<and>
           obeys ingest_step (cc_FetchAggregatedTakerVolume (ct_cgCrowd c u t) a exchs lm) \<and>
           obeys ingest_step (cc_FetchBorrowRate (ct_cgCrowd c u t) a exch lm))) \<and>
     (\<forall>u t. obeys ingest_step (xe_FetchBTC (ct_etf c u t)) \<and> obeys ingest_step (xe_FetchETH (ct_etf c u t)) \<and>
        obeys ingest_step (ct_lth c u t) \<and> obeys ingest_step (ct_btc_mcap c u t) \<and>
        (\<forall>sm n. obeys ingest_step (xl_FetchStablecoinMcap (ct_flow c u t)) \<and>
           obeys ingest_step (xl_FetchExchangeBalance (ct_flow c u t) sm) \<and> obeys ingest_step (xl_FetchBitfinexMargin (ct_flow c u t) sm n)) \<and>
        (\<forall>sm sx. obeys ingest_step (xn_FetchETFList (ct_inst c u t)) \<and> obeys ingest_step (xn_FetchETFAUMHistory (ct_inst c u t) sm) \<and>
           obeys ingest_step (xn_FetchMaxPain (ct_inst c u t) sm sx))) \<and>
     (\<forall>u t. (\<forall>sm iv f to. obeys ingest_step (ct_klines c u t sm iv f to)) \<and> (\<forall>sm n m. obeys ingest_step (ct_ohlc c u t sm n m)) \<and>
        (\<forall>sm f to n. obeys ingest_step (ct_candles c u t sm f to n)) \<and> (\<forall>n. obeys ingest_step (ct_premium c u t n)) \<and>
        (\<forall>sm n f to. obeys ingest_step (mi_FetchOrderbookBidAsk (ct_micro c u t) sm n f to) \<and>
           obeys ingest_step (mi_FetchFuturesSpotVolRatio (ct_micro c u t) sm n f to))) \<and>
     (\<forall>u t. (\<forall>a f to. obeys ingest_step (ct_dvol c u t a f to)) \<and> (\<forall>a. obeys ingest_step (ct_options c u t a)) \<and>
        (\<forall>a. obeys ingest_step (ct_chain c u t a)) \<and>
        (\<forall>sm exch. obeys ingest_step (cq_FetchOptionsInfo (ct_cgOptions c u t) sm) \<and>
           obeys ingest_step (cq_FetchOptionsOIHistory (ct_cgOptions c u t) sm) \<and>
           obeys ingest_step (cq_FetchOptionsMaxPain (ct_cgOptions c u t) sm exch)))"

lemma clients_ok_leverage: "clients_ok (oz_clients z) \<Longrightarrow> lev_providers_ok (leverage_providers z cfg)"
  unfolding clients_ok_def lev_providers_ok_def leverage_providers_def Let_def
  by (simp add: present_providers_def)

lemma clients_ok_flows: "clients_ok (oz_clients z) \<Longrightarrow> cfl_providers_ok (flows_providers z cfg)"
  unfolding clients_ok_def cfl_providers_ok_def flows_providers_def Let_def by simp

lemma clients_ok_stress: "clients_ok (oz_clients z) \<Longrightarrow> mst_providers_ok (stress_providers z cfg)"
  unfolding clients_ok_def mst_providers_ok_def stress_providers_def Let_def by simp

lemma clients_ok_volatility: "clients_ok (oz_clients z) \<Longrightarrow> vol_providers_ok (volatility_providers z cfg)"
  unfolding clients_ok_def vol_providers_ok_def volatility_providers_def Let_def by simp

section \<open>Configurations\<close>

text \<open>The programs leave the weights and scales of the domains at their defaults.\<close>

lemma orch_cfgs_ok: "liq_cfg_ok (liquidity_cfg cfg ver fv)" "lev_cfg_ok (leverage_cfg cfg ver)" "cfl_cfg_ok (flows_cfg cfg ver)"
  "mst_cfg_ok (stress_cfg cfg ver)" "vol_cfg_ok (volatility_cfg cfg ver)"
proof -
  show "liq_cfg_ok (liquidity_cfg cfg ver fv)"
    by (simp add: liq_cfg_ok_def Let_def liq_Defaults_def if_zero_def liquidity_cfg_def scale_ok_def f64_eval)
  show "lev_cfg_ok (leverage_cfg cfg ver)"
    by (simp add: lev_cfg_ok_def Let_def lev_Defaults_def if_zero_def leverage_cfg_def scale_ok_def f64_eval)
  show "cfl_cfg_ok (flows_cfg cfg ver)"
    by (simp add: cfl_cfg_ok_def Let_def cfl_Defaults_def if_zero_def flows_cfg_def scale_ok_def f64_eval)
  show "mst_cfg_ok (stress_cfg cfg ver)"
    by (simp add: mst_cfg_ok_def Let_def mst_Defaults_def if_zero_def stress_cfg_def scale_ok_def f64_eval)
  show "vol_cfg_ok (volatility_cfg cfg ver)"
    by (simp add: vol_cfg_ok_def Let_def vol_Defaults_def if_zero_def volatility_cfg_def scale_ok_def f64_eval)
qed

definition models_named :: "orch_config \<Rightarrow> bool" where
  "models_named cfg \<longleftrightarrow> (let d = oc_domains cfg in ol_model (od_liquidity d) \<noteq> [] \<and> of_model (od_leverage d) \<noteq> [] \<and>
     of_model (od_capital_flows d) \<noteq> [] \<and> of_model (od_market_stress d) \<noteq> [] \<and> of_model (od_volatility d) \<noteq> [])"

lemma defaultAssets_valid: "\<forall>a\<in>set defaultAssets. Asset_Validate a = None" "\<forall>a\<in>set [AssetGlobal]. Asset_Validate a = None"
  "defaultAssets = [AssetBTC, AssetETH]"
  by (simp_all add: defaultAssets_def Asset_Validate_def AssetBTC_def AssetETH_def)

section \<open>The domain steps succeed and score\<close>

definition scored :: "domain_code \<Rightarrow> gotime \<Rightarrow> asset \<Rightarrow> domain_score row \<Rightarrow> bool" where
  "scored d vd a row \<longleftrightarrow> ds_asset (r_val row) = a \<and> ds_domain (r_val row) = d \<and> ds_value_date (r_val row) = vd \<and>
     fin_in (- 1) 1 (ds_score (r_val row))"

text \<open>The step succeeds, keeps the database healthy and appends one score per asset.\<close>

definition step_scores :: "domain_code \<Rightarrow> gotime \<Rightarrow> asset list \<Rightarrow> ('a world_scheme, unit) io \<Rightarrow> bool" where
  "step_scores d vd as m \<longleftrightarrow> (\<forall>w. healthy w \<longrightarrow> (\<exists>w' new. m w = (Inr (), w') \<and> healthy w' \<and> w_scores w' = w_scores w @ new \<and>
     list_all2 (scored d vd) as new))"

lemma step_scoresI:
  assumes "\<And>w. healthy w \<Longrightarrow> \<exists>w'. m w = (Inr (), w') \<and> healthy w'"
    and "\<And>w w'. m w = (Inr (), w') \<Longrightarrow> \<exists>new. w_scores w' = w_scores w @ new \<and> list_all2 (\<lambda>a row. ds_asset (r_val row) = a \<and>
      ds_domain (r_val row) = d \<and> ds_value_date (r_val row) = vd \<and> fin_in (- 1) 1 (ds_score (r_val row))) (if as0 = [] then dflt else as0) new"
    and "(if as0 = [] then dflt else as0) = as"
  shows "step_scores d vd as m"
  unfolding step_scores_def scored_def
proof (intro allI impI)
  fix w :: "'a world_scheme" assume "healthy w"
  then obtain w' where w': "m w = (Inr (), w')" "healthy w'" using assms(1) by blast
  from assms(2)[OF w'(1), unfolded assms(3)] w' show "\<exists>w' new. m w = (Inr (), w') \<and> healthy w' \<and> w_scores w' = w_scores w @ new \<and>
      list_all2 (\<lambda>a row. ds_asset (r_val row) = a \<and> ds_domain (r_val row) = d \<and> ds_value_date (r_val row) = vd \<and>
        fin_in (- 1) 1 (ds_score (r_val row))) as new" by blast
qed

lemma default_or_tradeable: "(if defaultAssets = [] then AssetsTradeable else defaultAssets) = defaultAssets"
  by (simp add: defaultAssets_def)

text \<open>What the steps need of the outside: the liquidity features load and every ingestion succeeds.\<close>

definition data_served :: "'a world_scheme orch_env \<Rightarrow> orch_config \<Rightarrow> string \<Rightarrow> gotime \<Rightarrow> bool" where
  "data_served z cfg ver vd \<longleftrightarrow>
     (\<exists>fv. loadLiquidityFeatureVersions z (oh_liquidity (oc_paths cfg)) = Inr fv \<and>
        (\<forall>w. healthy w \<longrightarrow> fst (liq_ingestAll (liquidity_service z cfg ver fv) (add_days (UTCDay vd) (- 210)) (UTCDay vd) w) = Inr ())) \<and>
     (\<forall>w. healthy w \<longrightarrow> fst (lev_ingestAll (oz_days z) (leverage_service z cfg ver) (add_days (UTCDay vd) (- 7)) (UTCDay vd) w) = Inr ()) \<and>
     (\<forall>w. healthy w \<longrightarrow> fst (cfl_ingestAll (flows_service z cfg ver) w) = Inr ()) \<and>
     (\<forall>w. healthy w \<longrightarrow> fst (mst_ingestAll (stress_service z cfg ver) (add_days (UTCDay vd) (- 210)) (UTCDay vd) w) = Inr ()) \<and>
     (\<forall>w. healthy w \<longrightarrow> fst (vol_ingestRun (volatility_service z cfg ver) (UTCDay vd) w) = Inr ())"

definition daily_ready :: "'a world_scheme orch_env \<Rightarrow> orch_config \<Rightarrow> string \<Rightarrow> gotime \<Rightarrow> bool" where
  "daily_ready z cfg ver vd \<longleftrightarrow> go_libm (oz_libm z) \<and> clients_ok (oz_clients z) \<and> models_named cfg \<and> UTCDay vd \<noteq> zero_time \<and>
     data_served z cfg ver vd"

lemma daily_readyD:
  assumes "daily_ready z cfg ver vd"
  shows "go_libm (oz_libm z)" "clients_ok (oz_clients z)" "models_named cfg" "UTCDay vd \<noteq> zero_time" "data_served z cfg ver vd"
  using assms by (simp_all add: daily_ready_def)

lemma liquidity_step:
  assumes "daily_ready z cfg ver vd"
  shows "step_scores DomainLiquidity (UTCDay vd) defaultAssets (runLiquidity z cfg ver vd vd)"
proof -
  note libm = daily_readyD(1)[OF assms] and clients = daily_readyD(2)[OF assms] and models = daily_readyD(3)[OF assms]
    and day = daily_readyD(4)[OF assms] and served = daily_readyD(5)[OF assms]
  obtain fv where fv: "loadLiquidityFeatureVersions z (oh_liquidity (oc_paths cfg)) = Inr fv"
    "\<And>w. healthy w \<Longrightarrow> fst (liq_ingestAll (liquidity_service z cfg ver fv) (add_days (UTCDay vd) (- 210)) (UTCDay vd) w) = Inr ()"
    using served unfolding data_served_def by blast
  let ?p = "oc_providers cfg" and ?c = "oz_clients z"
  have p: "liq_providers_ok (Some (ct_stable ?c (op_url (oq_defillama ?p)) (api_timeout (oq_defillama ?p))))
        (Some (ct_tvl ?c (op_url (oq_defillama_tvl ?p)) (api_timeout (oq_defillama_tvl ?p))))
        (Some (ct_netflow ?c (op_url (oq_coinmetrics ?p)) (api_timeout (oq_coinmetrics ?p)))) (Some (ct_mcap ?c (60 * second_ns)))"
    using clients by (simp add: clients_ok_def liq_providers_ok_def)
  have m: "lc_model_version (liquidity_cfg cfg ver fv) \<noteq> []" using models by (simp add: models_named_def liquidity_cfg_def Let_def)
  note run = liq_run_succeeds[OF libm orch_cfgs_ok(1) m defaultAssets_valid(1) day p _ fv(2)[unfolded liquidity_service_def Let_def]]
  note rows = liq_run_scores[OF p _ orch_cfgs_ok(1) libm]
  have "step_scores DomainLiquidity (UTCDay vd) defaultAssets (liq_RunOnce (oz_libm z) (liquidity_service z cfg ver fv) vd)"
    unfolding liquidity_service_def Let_def by (rule step_scoresI[OF _ _ default_or_tradeable], rule run, assumption, assumption, erule rows)
  then show ?thesis by (simp add: runLiquidity_def fv(1) liftE_def once_or_range_def)
qed

lemma leverage_step:
  assumes "daily_ready z cfg ver vd"
  shows "step_scores DomainLeverage (UTCDay vd) defaultAssets (runLeverage z cfg ver vd vd)"
proof -
  note libm = daily_readyD(1)[OF assms] and clients = daily_readyD(2)[OF assms] and models = daily_readyD(3)[OF assms]
    and day = daily_readyD(4)[OF assms] and served = daily_readyD(5)[OF assms]
  note p = clients_ok_leverage[OF clients, of cfg]
  have m: "vc_model_version (leverage_cfg cfg ver) \<noteq> []" using models by (simp add: models_named_def leverage_cfg_def Let_def)
  have i: "\<And>w. healthy w \<Longrightarrow> fst (lev_ingestAll (oz_days z) (leverage_service z cfg ver) (add_days (UTCDay vd) (- 7)) (UTCDay vd) w) = Inr ()"
    using served unfolding data_served_def by blast
  note run = lev_run_succeeds[OF libm orch_cfgs_ok(2) m defaultAssets_valid(1) day p _ i[unfolded leverage_service_def]]
  note rows = lev_run_scores[OF p _ orch_cfgs_ok(2) libm]
  show ?thesis
    unfolding runLeverage_def once_or_range_def leverage_service_def if_True simp_thms
    by (rule step_scoresI[OF _ _ default_or_tradeable], rule run, assumption, assumption, erule rows)
qed

lemma flows_step:
  assumes "daily_ready z cfg ver vd"
  shows "step_scores DomainCapitalFlows (UTCDay vd) [AssetGlobal] (runCapitalFlows z cfg ver vd vd)"
proof -
  note libm = daily_readyD(1)[OF assms] and clients = daily_readyD(2)[OF assms] and models = daily_readyD(3)[OF assms]
    and day = daily_readyD(4)[OF assms] and served = daily_readyD(5)[OF assms]
  note p = clients_ok_flows[OF clients, of cfg]
  have m: "xc_model_version (flows_cfg cfg ver) \<noteq> []" using models by (simp add: models_named_def flows_cfg_def Let_def)
  have i: "\<And>w. healthy w \<Longrightarrow> fst (cfl_ingestAll (flows_service z cfg ver) w) = Inr ()"
    using served unfolding data_served_def by blast
  note run = cfl_run_succeeds[OF libm orch_cfgs_ok(3) m defaultAssets_valid(2) day p _ i[unfolded flows_service_def]]
  note rows = cfl_run_scores[OF p _ orch_cfgs_ok(3) libm]
  show ?thesis
    unfolding runCapitalFlows_def once_or_range_def flows_service_def if_True simp_thms
  proof (rule step_scoresI[where as0 = "[AssetGlobal]" and dflt = "[AssetGlobal]"])
    fix w w' assume "cfl_RunOnce (oz_libm z) (pg_cfl_service (oz_sql z) (flows_providers z cfg) (flows_cfg cfg ver) [AssetGlobal]) vd w = (Inr (), w')"
    from rows[OF this] show "\<exists>new. w_scores w' = w_scores w @ new \<and> list_all2 (\<lambda>a row. ds_asset (r_val row) = a \<and>
        ds_domain (r_val row) = DomainCapitalFlows \<and> ds_value_date (r_val row) = UTCDay vd \<and> fin_in (- 1) 1 (ds_score (r_val row)))
        (if [AssetGlobal] = [] then [AssetGlobal] else [AssetGlobal]) new"
      by (auto elim: list_all2_mono)
  qed (rule run, assumption, assumption, simp)
qed

lemma stress_step:
  assumes "daily_ready z cfg ver vd"
  shows "step_scores DomainMarketStress (UTCDay vd) defaultAssets (runMarketStress z cfg ver vd vd)"
proof -
  note libm = daily_readyD(1)[OF assms] and clients = daily_readyD(2)[OF assms] and models = daily_readyD(3)[OF assms]
    and day = daily_readyD(4)[OF assms] and served = daily_readyD(5)[OF assms]
  note p = clients_ok_stress[OF clients, of cfg]
  have m: "kc_model_version (stress_cfg cfg ver) \<noteq> []" using models by (simp add: models_named_def stress_cfg_def Let_def)
  have i: "\<And>w. healthy w \<Longrightarrow> fst (mst_ingestAll (stress_service z cfg ver) (add_days (UTCDay vd) (- 210)) (UTCDay vd) w) = Inr ()"
    using served unfolding data_served_def by blast
  note run = mst_run_succeeds[OF libm orch_cfgs_ok(4) m defaultAssets_valid(1) day p _ i[unfolded stress_service_def]]
  note rows = mst_run_scores[OF p _ orch_cfgs_ok(4) libm]
  show ?thesis
    unfolding runMarketStress_def once_or_range_def stress_service_def if_True simp_thms
    by (rule step_scoresI[OF _ _ default_or_tradeable], rule run, assumption, assumption, erule rows)
qed

lemma volatility_step:
  assumes "daily_ready z cfg ver vd"
  shows "step_scores DomainVolatility (UTCDay vd) defaultAssets (runVolatility z cfg ver vd vd)"
proof -
  note libm = daily_readyD(1)[OF assms] and clients = daily_readyD(2)[OF assms] and models = daily_readyD(3)[OF assms]
    and day = daily_readyD(4)[OF assms] and served = daily_readyD(5)[OF assms]
  note p = clients_ok_volatility[OF clients, of cfg]
  have m: "wc_model_version (volatility_cfg cfg ver) \<noteq> []" using models by (simp add: models_named_def volatility_cfg_def Let_def)
  have i: "\<And>w. healthy w \<Longrightarrow> fst (vol_ingestRun (volatility_service z cfg ver) (UTCDay vd) w) = Inr ()"
    using served unfolding data_served_def by blast
  note run = vol_run_succeeds[OF libm orch_cfgs_ok(5) m defaultAssets_valid(1) day p _ i[unfolded volatility_service_def]]
  note rows = vol_run_scores[OF p _ orch_cfgs_ok(5) libm]
  show ?thesis
    unfolding runVolatility_def once_or_range_def volatility_service_def if_True simp_thms
    by (rule step_scoresI[OF _ _ default_or_tradeable], rule run, assumption, assumption, erule rows)
qed


section \<open>The pipeline\<close>

text \<open>Which scores the five steps store, in this order.\<close>

definition day_scores :: "(domain_code \<times> asset) list" where
  "day_scores = [(DomainLiquidity, AssetBTC), (DomainLiquidity, AssetETH), (DomainLeverage, AssetBTC), (DomainLeverage, AssetETH),
     (DomainCapitalFlows, AssetGlobal), (DomainMarketStress, AssetBTC), (DomainMarketStress, AssetETH),
     (DomainVolatility, AssetBTC), (DomainVolatility, AssetETH)]"

lemma steps_score:
  assumes "list_all2 (\<lambda>(n, m) (d, as). step_scores d vd as m) steps ds" "healthy w"
  shows "failing steps w = [] \<and> healthy (world_after steps w) \<and> (\<exists>new. w_scores (world_after steps w) = w_scores w @ new \<and>
    list_all2 (\<lambda>(d, a) row. scored d vd a row) (concat (map (\<lambda>(d, as). map (Pair d) as) ds)) new)"
  using assms
proof (induction steps ds arbitrary: w rule: list_all2_induct)
  case Nil
  then show ?case by (simp add: world_after_def)
next
  case (Cons st steps p ds)
  obtain n m d as where st: "st = (n, m)" "p = (d, as)" by fastforce
  then obtain w1 new1 where w1: "m w = (Inr (), w1)" "healthy w1" "w_scores w1 = w_scores w @ new1" "list_all2 (scored d vd) as new1"
    using Cons.hyps(1) Cons.prems unfolding step_scores_def by fastforce
  from Cons.IH[OF w1(2)] obtain new where new: "failing steps w1 = []" "healthy (world_after steps w1)"
    "w_scores (world_after steps w1) = w_scores w1 @ new"
    "list_all2 (\<lambda>(d, a) row. scored d vd a row) (concat (map (\<lambda>(d, as). map (Pair d) as) ds)) new" by blast
  have "world_after (st # steps) w = world_after steps w1" by (simp add: world_after_def st w1(1))
  moreover have "list_all2 (\<lambda>(d, a) row. scored d vd a row) (map (Pair d) as) new1"
    using w1(4) by (simp add: list_all2_map1)
  ultimately show ?case using new w1(3)
    by (intro conjI exI[of _ "new1 @ new"]) (simp_all add: st w1(1) list_all2_appendI)
qed

definition domain_steps :: "'a world_scheme orch_env \<Rightarrow> orch_config \<Rightarrow> string \<Rightarrow> gotime \<Rightarrow> (string \<times> ('a world_scheme, unit) io) list" where
  "domain_steps z cfg ver vd = take 5 (orch_steps z cfg ver vd vd)"

lemma domain_steps_score:
  assumes "daily_ready z cfg ver vd" "healthy w"
  shows "failing (domain_steps z cfg ver vd) w = [] \<and> healthy (world_after (domain_steps z cfg ver vd) w) \<and>
    (\<exists>new. w_scores (world_after (domain_steps z cfg ver vd) w) = w_scores w @ new \<and> list_all2 (\<lambda>(d, a) row. scored d (UTCDay vd) a row) day_scores new)"
proof -
  have "list_all2 (\<lambda>(n, m) (d, as). step_scores d (UTCDay vd) as m) (domain_steps z cfg ver vd)
      [(DomainLiquidity, defaultAssets), (DomainLeverage, defaultAssets), (DomainCapitalFlows, [AssetGlobal]),
       (DomainMarketStress, defaultAssets), (DomainVolatility, defaultAssets)]"
    by (simp add: domain_steps_def orch_steps_def assms(1) liquidity_step leverage_step flows_step stress_step volatility_step)
  from steps_score[OF this assms(2)] show ?thesis by (simp add: defaultAssets_valid(3) day_scores_def)
qed

text \<open>A stored score is seen by every query whose cutoff lies after it.\<close>

lemma q_scores_stored:
  assumes "row \<in> set t" "scored d vd a row" "r_ingested row \<le> c"
  shows "q_scores a vd t c d \<noteq> None"
proof -
  have "row \<in> set (where_rows (\<lambda>v. ds_domain v = d) (as_of c (where_rows (\<lambda>x. ds_asset x = a \<and> ds_value_date x = vd) t)))"
    using assms by (simp add: scored_def where_rows_def as_of_def)
  then have "where_rows (\<lambda>v. ds_domain v = d) (as_of c (where_rows (\<lambda>x. ds_asset x = a \<and> ds_value_date x = vd) t)) \<noteq> []"
    by (metis empty_iff list.set(1))
  then show ?thesis by (simp add: q_scores_def latest_map_def)
qed

lemma day_scores_cover:
  assumes "list_all2 (\<lambda>(d, a) row. scored d vd a row) day_scores new" "set new \<subseteq> set t" "\<forall>row\<in>set t. r_ingested row \<le> c"
    and "a \<in> set defaultAssets"
  shows "\<forall>d\<in>set AllDomains. merge_global (q_scores a vd t c) (q_scores AssetGlobal vd t c) d \<noteq> None"
proof
  fix d assume d: "d \<in> set AllDomains"
  have "(d, queryAssetFor a d) \<in> set day_scores"
    using d assms(4) by (auto simp: day_scores_def queryAssetFor_def AllDomains_def domain_defs defaultAssets_valid(3))
  then obtain row where "row \<in> set new" "scored d vd (queryAssetFor a d) row"
    using assms(1) by (fastforce simp: list_all2_conv_all_nth in_set_conv_nth)
  then have "q_scores (queryAssetFor a d) vd t c d \<noteq> None" using assms(2,3) by (intro q_scores_stored[of row t d vd]) auto
  then show "merge_global (q_scores a vd t c) (q_scores AssetGlobal vd t c) d \<noteq> None"
    by (simp add: merge_global_def queryAssetFor_def split: if_splits)
qed

text \<open>A state of the day that says every domain was there.\<close>

definition covered :: "gotime \<Rightarrow> asset \<Rightarrow> regime_state row \<Rightarrow> bool" where
  "covered vd a row \<longleftrightarrow> rs_asset (r_val row) = a \<and> rs_value_date (r_val row) = vd \<and>
     list_all (\<lambda>d. rs_coverage (r_val row) d = Some True) AllDomains"

lemma RunOnce_covers:
  assumes h: "healthy w" and new: "list_all2 (\<lambda>(d, a) row. scored d (UTCDay vd) a row) day_scores new" "set new \<subseteq> set (w_scores w)"
    and run: "RunOnce M ord (engine_service cfg ver) vd w = (Inr (), w')"
  shows "\<exists>rows. w_regimes w' = w_regimes w @ rows \<and> list_all2 (covered (UTCDay vd)) defaultAssets rows"
proof -
  let ?s = "engine_service cfg ver :: 'a world_scheme regime_service" and ?d = "UTCDay vd"
  let ?f = "\<lambda>c a. wrapE ''regime'' [AStr a, AStr (fmt_day ?d)] (computeOne M ord ?s a ?d c)"
  define c where "c = w_clock w (w_ticks w)"
  define w0 where "w0 = w\<lparr>w_ticks := Suc (w_ticks w)\<rparr>"
  have loop: "forE (?f c) defaultAssets w0 = (Inr (), w')"
    using run by (simp add: RunOnce_def Let_def engine_service_def bindE_def clock_Now_def c_def w0_def default_or_tradeable)
  have J: "fault_free w0 \<and> w_scores w0 = w_scores w" using h by (simp add: w0_def healthy_def)
  have cov: "\<forall>d\<in>set AllDomains. merge_global (q_scores a ?d (w_scores w) c) (q_scores AssetGlobal ?d (w_scores w) c) d \<noteq> None"
    if "a \<in> set defaultAssets" for a
    by (rule day_scores_cover[OF new _ that]) (use h in \<open>auto simp: healthy_def c_def\<close>)
  have "\<exists>rows. w_regimes w' = w_regimes w1 @ rows \<and> list_all2 (covered ?d) as rows"
    if "forE (?f c) as w1 = (Inr (), w')" "fault_free w1" "w_scores w1 = w_scores w" "set as \<subseteq> set defaultAssets" for as w1
    using that
  proof (induction as arbitrary: w1)
    case (Cons a as)
    then obtain w2 where w2: "computeOne M ord ?s a ?d c w1 = (Inr (), w2)" "forE (?f c) as w2 = (Inr (), w')"
      by (auto simp: seqE_eq_Inr wrapE_eq_Inr)
    obtain row where row: "w_regimes w2 = w_regimes w1 @ [row]" "covered ?d a row"
      using computeOne_covers[OF Cons.prems(2) w2(1)[unfolded engine_service_def]] cov[of a] Cons.prems(3,4)
      by (auto simp: covered_def list_all_iff)
    have "wrote a ?d w1 w2" using w2(1)[unfolded engine_service_def] by (rule computeOne_wrote)
    then have s: "w_scores w2 = w_scores w" using Cons.prems(3) by (auto simp: wrote_def)
    have "evolves w1 w2" using obeysD[OF pg_steps.computeOne_steps w2(1)[unfolded engine_service_def]] .
    then have "fault_free w2" using Cons.prems(2) by (auto simp: evolves_def grows_def fault_free_def)
    from Cons.IH[OF w2(2) this s] Cons.prems(4) row show ?case by fastforce
  qed simp
  from this[OF loop] J show ?thesis by (simp add: w0_def)
qed

lemma daily_run:
  assumes ready: "daily_ready z cfg ver vd" and h: "healthy w"
  shows "\<exists>new w'. w_scores (world_after (domain_steps z cfg ver vd) w) = w_scores w @ new \<and>
    list_all2 (\<lambda>(d, a) row. scored d (UTCDay vd) a row) day_scores new \<and>
    (orch_runOnce z cfg ver vd vd w = (Inr (), w') \<and>
       (\<exists>rows. w_regimes w' = w_regimes (world_after (domain_steps z cfg ver vd) w) @ rows \<and> list_all2 (covered (UTCDay vd)) defaultAssets rows) \<or>
     orch_runOnce z cfg ver vd vd w = (Inl (Fresh ''steps failed: %v'' [AList [AStr ''regime_engine'']]), w'))"
proof -
  let ?ds = "domain_steps z cfg ver vd" and ?re = "runRegimeEngine z cfg ver vd vd"
  obtain new where new: "w_scores (world_after ?ds w) = w_scores w @ new" "list_all2 (\<lambda>(d, a) row. scored d (UTCDay vd) a row) day_scores new"
    and f: "failing ?ds w = []" and h5: "healthy (world_after ?ds w)" using domain_steps_score[OF assms] by blast
  obtain r w' where re: "?re (world_after ?ds w) = (r, w')" by fastforce
  have steps: "orch_steps z cfg ver vd vd = ?ds @ [(''regime_engine'', ?re)]"
    by (simp add: domain_steps_def orch_steps_def)
  have run: "orch_runOnce z cfg ver vd vd w = (case r of Inl e \<Rightarrow> (Inl (Fresh ''steps failed: %v'' [AList [AStr ''regime_engine'']]), w')
      | Inr u \<Rightarrow> (Inr (), w'))"
    unfolding runOnce_eq steps failing_append world_after_append f
    by (cases r) (simp_all add: re world_after_def[of "[_]"])
  have sub: "set new \<subseteq> set (w_scores (world_after ?ds w))" using new(1) by auto
  have cov: "r = Inr () \<Longrightarrow> \<exists>rows. w_regimes w' = w_regimes (world_after ?ds w) @ rows \<and> list_all2 (covered (UTCDay vd)) defaultAssets rows"
    using RunOnce_covers[OF h5 new(2) sub] re by (simp add: runRegimeEngine_def once_or_range_def)
  show ?thesis
  proof (cases r)
    case (Inl e)
    then show ?thesis using new run by auto
  next
    case (Inr u)
    then show ?thesis using new run cov by auto
  qed
qed

section \<open>An example: services that answer with nothing\<close>

definition idle_clients :: "'a world_scheme clients" where
  "idle_clients = \<lparr>ct_stable = \<lambda>u t. \<lparr>sp_FetchAll = ret [], sp_FetchPer = ret []\<rparr>, ct_tvl = \<lambda>u t x. ret [], ct_netflow = \<lambda>u t as f to. ret [],
     ct_mcap = \<lambda>t x. ret [], ct_oi = \<lambda>n u t a f to. ret [], ct_funding = \<lambda>n u t a f to. ret [],
     ct_basis = \<lambda>u t a. throw (Fresh ''no instrument'' []),
     ct_cgOI = \<lambda>u t. \<lparr>co_FetchOIHistory = \<lambda>a exch lm. ret [], co_FetchAggregatedOIHistoryRange = \<lambda>a f to lm. ret []\<rparr>,
     ct_cgBasis = \<lambda>u t a exch lm. ret [], ct_cgLiq = \<lambda>u t a exchs f to lm. ret [],
     ct_cgCrowd = \<lambda>u t. \<lparr>cc_FetchLSRatio = \<lambda>kind a exch lm. ret [], cc_FetchAggregatedTakerVolume = \<lambda>a exchs lm. ret [],
       cc_FetchBorrowRate = \<lambda>a exch lm. ret []\<rparr>,
     ct_etf = \<lambda>u t. \<lparr>xe_FetchBTC = ret [], xe_FetchETH = ret []\<rparr>, ct_lth = \<lambda>u t. ret [], ct_btc_mcap = \<lambda>u t. ret [],
     ct_flow = \<lambda>u t. \<lparr>xl_FetchStablecoinMcap = ret [], xl_FetchExchangeBalance = \<lambda>sm. ret [], xl_FetchBitfinexMargin = \<lambda>sm n. ret []\<rparr>,
     ct_inst = \<lambda>u t. \<lparr>xn_FetchETFList = ret [], xn_FetchETFAUMHistory = \<lambda>sm. ret [], xn_FetchMaxPain = \<lambda>sm sx. ret []\<rparr>,
     ct_klines = \<lambda>u t sm iv f to. ret [], ct_ohlc = \<lambda>u t sm n m. ret [], ct_candles = \<lambda>u t sm f to n. ret [], ct_premium = \<lambda>u t n. ret [],
     ct_micro = \<lambda>u t. \<lparr>mi_FetchOrderbookBidAsk = \<lambda>sm n f to. ret [], mi_FetchFuturesSpotVolRatio = \<lambda>sm n f to. ret []\<rparr>,
     ct_dvol = \<lambda>u t a f to. ret [], ct_options = \<lambda>u t a. throw (Fresh ''no options'' []), ct_chain = \<lambda>u t a. ret [],
     ct_cgOptions = \<lambda>u t. \<lparr>cq_FetchOptionsInfo = \<lambda>sm. ret [], cq_FetchOptionsOIHistory = \<lambda>sm. ret [], cq_FetchOptionsMaxPain = \<lambda>sm exch. ret []\<rparr>\<rparr>"

lemma idle_clients_ok: "clients_ok idle_clients"
  by (simp add: clients_ok_def idle_clients_def istep.obeys_ret istep.obeys_throw)

definition no_provider :: orch_provider where
  "no_provider = \<lparr>op_url = [], op_timeout = 0, op_key = []\<rparr>"

definition ex_feats :: "string \<Rightarrow> orch_feats" where
  "ex_feats m = \<lparr>of_model = m, of_intermediate = ''v1'', of_final = ''v1''\<rparr>"

definition ex_orch_config :: orch_config where
  "ex_orch_config = \<lparr>oc_database = \<lparr>db_url = []\<rparr>,
     oc_providers = \<lparr>oq_defillama = no_provider, oq_defillama_tvl = no_provider, oq_coinmetrics = no_provider, oq_binance = no_provider,
       oq_binance_spot = no_provider, oq_bybit = no_provider, oq_okx = no_provider, oq_deribit = no_provider,
       oq_coinglass = no_provider\<lparr>op_key := ''key''\<rparr>, oq_kraken = no_provider, oq_coinbase = no_provider\<rparr>,
     oc_domains = \<lparr>od_liquidity = \<lparr>ol_model = ''liquidity_v1''\<rparr>, od_leverage = ex_feats ''leverage_v1'',
       od_market_stress = \<lparr>of_model = ''market_stress_v1'', of_intermediate = ''v1'', of_final = ''v1'', ot_basis_version = ''v1''\<rparr>,
       od_capital_flows = ex_feats ''capital_flows_v1'', od_volatility = ex_feats ''volatility_v1'',
       od_regime = \<lparr>oe_model = ''regime_v1'', oe_weights = Map.empty, oe_slope = fzero,
         oe_transition = \<lparr>ty_roc_window = 0, ty_roc_weight = fzero, ty_div_weight = fzero, ty_baseline = fzero\<rparr>,
         oe_normalization = \<lparr>ny_lookback = 0, ny_min_samples = 0\<rparr>, oe_smoothing = \<lparr>sy_span = 5\<rparr>\<rparr>\<rparr>,
     oc_paths = \<lparr>oh_liquidity = []\<rparr>, oc_schedule = \<lparr>sd_tick_every = ''4h''\<rparr>\<rparr>"

definition ex_liquidity_yaml :: liquidity_yaml where
  "ex_liquidity_yaml = \<lparr>ly_domain = ''liquidity'', ly_model = ''liquidity_v1'', ly_assets = [''BTC'', ''ETH''],
     ly_providers = \<lparr>pc_defillama = \<lparr>ll_url = [], ll_timeout = 0\<rparr>, pc_defillama_tvl = \<lparr>ll_url = [], ll_timeout = 0\<rparr>,
       pc_coinmetrics = \<lparr>ma_url = [], ma_timeout = 0\<rparr>\<rparr>,
     ly_features = [\<lparr>fc_name = ''ssr'', fc_version = ''v1'', fc_params = Map.empty\<rparr>],
     ly_scoring = \<lparr>so_version = [], so_components = []\<rparr>, ly_database = \<lparr>db_url = []\<rparr>, ly_schedule = \<lparr>sd_tick_every = []\<rparr>\<rparr>"

definition idle_env :: "'a world_scheme orch_env" where
  "idle_env = \<lparr>oz_libm = ideal_libm, oz_sql = ex_sql_lib, oz_days = sorted_list_of_set, oz_order = listed_order,
     oz_host = \<lparr>ho_read = \<lambda>p. Inr [], ho_getenv = \<lambda>k. [], ho_sha256 = \<lambda>s. ''0''\<rparr>,
     oz_liquidity_yaml = \<lambda>s. Inr ex_liquidity_yaml, oz_clients = idle_clients\<rparr>"

lemma forE_skip: "forE (\<lambda>x. Pair (Inr ())) xs = Pair (Inr ())"
  by (induction xs) (auto simp: seqE_def bindE_def fun_eq_iff)

lemma idle_simps: "ret x = Pair (Inr x)" "throw e = Pair (Inl e)" "seqE (Pair (Inr ())) k = k" "wrapE s vs (Pair (Inr x)) = Pair (Inr x)"
  "or_skip (Pair (Inr x)) f = f x" "or_skip (Pair (Inl e)) f = Pair (Inr ())" "save_rows [] a b = Pair (Inr ())"
  "attempt (Pair r) = Pair (Inr r)"
  by (rule ext; simp add: seqE_def bindE_def wrapE_def attempt_def or_skip_def save_rows_def)+

lemma idle_ingests:
  "liq_ingestAll (liquidity_service idle_env cfg ver fv) f t = ret ()"
  "lev_ingestAll (oz_days idle_env) (leverage_service idle_env cfg ver) f t = ret ()"
  "mst_ingestAll (stress_service idle_env cfg ver) f t = ret ()"
  "vol_ingestRun (volatility_service idle_env cfg ver) f = ret ()"
proof -
  show "liq_ingestAll (liquidity_service idle_env cfg ver fv) f t = ret ()"
    by (simp add: liq_ingestAll_def liquidity_service_def Let_def idle_env_def idle_clients_def idle_simps
        ingestStablecoinSupply_def ingestPerStablecoinSupply_def ingestChainTVL_def ingestMarketCap_def ingestExchangeNetflow_def)
  show "lev_ingestAll (oz_days idle_env) (leverage_service idle_env cfg ver) f t = ret ()"
    by (simp add: lev_ingestAll_def leverage_service_def leverage_providers_def Let_def idle_env_def idle_clients_def idle_simps
        forE_skip present_providers_def defaultAssets_def lev_ingestExchangeOI_def lev_ingestExchangeFunding_def lev_ingestDeribitBasis_def
        lev_ingestCoinglassOI_def lev_ingestCoinglassBasis_def lev_ingestCoinglassLiquidations_def lev_ingestCoinglassCrowd_def
        lev_backfillAggregatedOI_def lev_backfillAggregatedLiquidations_def eval_nat_numeral map_values_def
        lev_crowd_ratios_def lev_crowd_taker_def lev_crowd_borrow_def)
  show "mst_ingestAll (stress_service idle_env cfg ver) f t = ret ()"
    by (simp add: mst_ingestAll_def stress_service_def stress_providers_def Let_def idle_env_def idle_clients_def idle_simps forE_skip
        mst_ingestKlines_def mst_ingestKrakenOHLC_def mst_ingestCoinbaseCandles_def mst_ingestCoinbasePremium_def
        mst_ingestCoinglassMicro_def mst_micro_book_def mst_micro_ratio_def)
  show "vol_ingestRun (volatility_service idle_env cfg ver) f = ret ()"
    by (simp add: vol_ingestRun_def vol_ingest_def volatility_service_def volatility_providers_def Let_def idle_env_def idle_clients_def
        idle_simps forE_skip vol_ingestDVOL_def vol_ingestOptionsSnapshot_def vol_ingestCoinglassOptions_def vol_ingestDeribitOptionsChain_def
        vol_cg_info_def vol_cg_oi_def vol_cg_pain_def)
qed

lemma idle_flows: "fst (cfl_ingestAll (flows_service idle_env cfg ver) w) = Inr ()"
  by (simp add: cfl_ingestAll_def flows_service_def flows_providers_def Let_def idle_env_def idle_clients_def idle_simps forE_skip
      cfl_ingestETFFlows_def cfl_writeETFFlows_def cfl_ingestLTHSupply_def cfl_ingestBTCMarketCap_def cfl_ingestLiquidityFlow_def
      cfl_stablecoin_mcap_def cfl_exchange_balance_def cfl_bitfinex_margin_def cfl_ingestInstitutional_def cfl_etf_list_def
      cfl_max_pain_def seqE_def bindE_def wrapE_def clock_Now_def)

lemma idle_ready: "daily_ready (idle_env :: 'a world_scheme orch_env) ex_orch_config ver ex_day"
proof -
  have "loadLiquidityFeatureVersions (idle_env :: 'a world_scheme orch_env) (oh_liquidity (oc_paths ex_orch_config)) = Inr [''ssr'' \<mapsto> ''v1'']"
    by (simp add: loadLiquidityFeatureVersions_def idle_env_def config_Load_def ex_liquidity_yaml_def)
  then have "data_served (idle_env :: 'a world_scheme orch_env) ex_orch_config ver ex_day"
    by (auto simp: data_served_def idle_ingests idle_flows)
  then show ?thesis
    by (simp add: daily_ready_def ideal.go_libm_axioms idle_clients_ok idle_env_def models_named_def ex_orch_config_def ex_feats_def
        ex_day_def UTCDay_def day_of_def day_ns_def zero_time_def)
qed

end
