(* ===== verification/GoText.thy ===== *)
theory GoText
  imports Config "HOL-Library.Monad_Syntax"
begin

text \<open>
  The text functions of the Go library that the clients of the data services call: reading integers and floats
  (\<open>strconv.ParseInt\<close>, \<open>strconv.ParseFloat\<close>, the float verbs of \<open>fmt.Sscanf\<close>), printing floats with a fixed number of
  decimals, splitting and joining, letter case, milliseconds, and the layouts \<open>060102\<close>, \<open>2Jan06\<close> and RFC 3339 of
  \<open>time.Parse\<close>.  A string is the list of its bytes.
\<close>

section \<open>Letters\<close>

definition char_upper :: "char \<Rightarrow> char" where
  "char_upper c = (let n = of_char c :: nat in if 97 \<le> n \<and> n \<le> 122 then char_of (n - 32) else c)"

definition char_lower :: "char \<Rightarrow> char" where
  "char_lower c = (let n = of_char c :: nat in if 65 \<le> n \<and> n \<le> 90 then char_of (n + 32) else c)"

definition ToUpper :: "string \<Rightarrow> string" where
  "ToUpper = map char_upper"

definition ToLower :: "string \<Rightarrow> string" where
  "ToLower = map char_lower"

definition has_prefix :: "string \<Rightarrow> string \<Rightarrow> bool" where
  "has_prefix s p \<longleftrightarrow> take (length p) s = p"

text \<open>\<open>strings.TrimRight(s, cutset)\<close> for one byte, \<open>strings.Join\<close> and \<open>strings.Split\<close> on one byte.\<close>

definition trim_right :: "char \<Rightarrow> string \<Rightarrow> string" where
  "trim_right c s = rev (dropWhile (\<lambda>x. x = c) (rev s))"

fun str_join :: "string \<Rightarrow> string list \<Rightarrow> string" where
  "str_join z [] = []"
| "str_join z [x] = x"
| "str_join z (x # y # xs) = x @ z @ str_join z (y # xs)"

fun split_on :: "char \<Rightarrow> string \<Rightarrow> string list" where
  "split_on c [] = [[]]"
| "split_on c (x # xs) = (if x = c then [] # split_on c xs else
     (case split_on c xs of [] \<Rightarrow> [[x]] | w # ws \<Rightarrow> (x # w) # ws))"

lemma split_on_nonempty: "split_on c s \<noteq> []"
  by (induction s) (auto split: list.splits)

lemma str_join_Cons: "str_join z ((c # w) # ws) = c # str_join z (w # ws)"
  by (cases ws) simp_all

lemma str_join_Nil: "ws \<noteq> [] \<Longrightarrow> str_join z ([] # ws) = z @ str_join z ws"
  by (cases ws) simp_all

lemma str_join_split: "str_join [c] (split_on c s) = s"
  by (induction s) (auto simp: str_join_Cons str_join_Nil split_on_nonempty split: list.splits)

section \<open>Integers\<close>

definition max_int64 :: int where "max_int64 = 2 ^ 63 - 1"
definition min_int64 :: int where "min_int64 = - (2 ^ 63)"

text \<open>Arithmetic on \<open>int64\<close> wraps around.\<close>

definition wrap64 :: "int \<Rightarrow> int" where
  "wrap64 x = (x + 2 ^ 63) mod 2 ^ 64 - 2 ^ 63"

lemma wrap64_id: "min_int64 \<le> x \<Longrightarrow> x \<le> max_int64 \<Longrightarrow> wrap64 x = x"
  by (simp add: wrap64_def min_int64_def max_int64_def)

text \<open>A sign, if there is one, and the rest.\<close>

definition sign_of :: "string \<Rightarrow> bool \<times> string" where
  "sign_of s = (case s of [] \<Rightarrow> (False, []) | c # r \<Rightarrow>
     if c = CHR ''-'' then (True, r) else if c = CHR ''+'' then (False, r) else (False, s))"

text \<open>
  \<open>strconv.ParseInt(s, 10, 64)\<close>: the value and whether there was no error.  Bad syntax gives 0, a number out of
  range the nearest end of the range.
\<close>

definition ParseInt :: "string \<Rightarrow> int \<times> bool" where
  "ParseInt s = (case sign_of s of (neg, ds) \<Rightarrow>
     (case (if ds = [] then None else num_of 0 ds) of
        None \<Rightarrow> (0, False)
      | Some n \<Rightarrow> let v = (if neg then - int n else int n) in
          if v < min_int64 then (min_int64, False) else if max_int64 < v then (max_int64, False) else (v, True)))"

lemma ParseInt_range: "fst (ParseInt s) \<in> {min_int64..max_int64}"
  by (auto simp: ParseInt_def min_int64_def max_int64_def Let_def split: prod.splits option.splits if_splits)

definition strconv_error :: err where
  "strconv_error = Fresh ''strconv: parsing'' []"

section \<open>Floats\<close>

text \<open>A digit of base 10 or 16.\<close>

definition digit_val :: "nat \<Rightarrow> char \<Rightarrow> nat option" where
  "digit_val base c = (case undig c of Some d \<Rightarrow> Some d | None \<Rightarrow>
     if base = 16 then map_of (zip ''abcdef'' [10, 11, 12, 13, 14, 15]) (char_lower c) else None)"

text \<open>The mantissa: its digits as a number, how many there are, how many follow the point, and the rest.\<close>

fun scan_mant :: "nat \<Rightarrow> bool \<Rightarrow> nat \<Rightarrow> nat \<Rightarrow> nat \<Rightarrow> string \<Rightarrow> nat \<times> nat \<times> nat \<times> string" where
  "scan_mant base dot m k f [] = (m, k, f, [])"
| "scan_mant base dot m k f (c # s) =
     (if c = CHR ''_'' then scan_mant base dot m k f s
      else if c = CHR ''.'' then if dot then (m, k, f, c # s) else scan_mant base True m k f s
      else (case digit_val base c of None \<Rightarrow> (m, k, f, c # s)
        | Some d \<Rightarrow> scan_mant base dot (base * m + d) (Suc k) (if dot then Suc f else f) s))"

text \<open>The exponent: a sign and digits, the first of which is not an underscore.\<close>

definition scan_exp :: "string \<Rightarrow> (int \<times> string) option" where
  "scan_exp s = (case sign_of s of (neg, r) \<Rightarrow>
     (case r of [] \<Rightarrow> None | c # _ \<Rightarrow> if undig c = None then None else
        let w = takeWhile (\<lambda>x. undig x \<noteq> None \<or> x = CHR ''_'') r;
            n = the (num_of 0 (filter (\<lambda>x. x \<noteq> CHR ''_'') w))
        in Some (if neg then - int n else int n, drop (length w) r)))"

text \<open>Underscores may stand between digits and after the base prefix only.\<close>

datatype saw = SawStart | SawDigit | SawUnder | SawOther

fun under_ok :: "bool \<Rightarrow> saw \<Rightarrow> string \<Rightarrow> bool" where
  "under_ok hex sw [] = (sw \<noteq> SawUnder)"
| "under_ok hex sw (c # s) =
     (if digit_val (if hex then 16 else 10) c \<noteq> None then under_ok hex SawDigit s
      else if c = CHR ''_'' then sw = SawDigit \<and> under_ok hex SawUnder s
      else sw \<noteq> SawUnder \<and> under_ok hex SawOther s)"

definition based :: "string \<Rightarrow> string \<Rightarrow> bool" where
  "based cs s \<longleftrightarrow> (case s of a # b # _ \<Rightarrow> a = CHR ''0'' \<and> char_lower b \<in> set cs | _ \<Rightarrow> False)"

definition underscoreOK :: "string \<Rightarrow> bool" where
  "underscoreOK s = (let r = snd (sign_of s) in
     if based ''box'' r then under_ok (based ''x'' r) SawDigit (drop 2 r) else under_ok False SawStart r)"

text \<open>
  \<open>strconv.ParseFloat(s, 64)\<close>: the value and whether there was no error.  Bad syntax gives 0; a number too large for a
  float64 gives the infinity of its sign and an error.
\<close>

definition signed_float :: "bool \<Rightarrow> rat \<Rightarrow> f64" where
  "signed_float neg q = (if q = 0 then zero_of neg else rnd (if neg then - q else q))"

definition read_float :: "string \<Rightarrow> (bool \<times> rat) option" where
  "read_float s = (case sign_of s of (neg, r) \<Rightarrow>
     let hex = based ''x'' r; base = (if hex then 16 else 10) in
     (case scan_mant base False 0 0 0 (if hex then drop 2 r else r) of (m, k, f, t) \<Rightarrow>
        if k = 0 then None
        else
          (case (case t of [] \<Rightarrow> if hex then None else Some (0, [])
              | c # u \<Rightarrow> if char_lower c = (if hex then CHR ''p'' else CHR ''e'') then scan_exp u
                         else if hex then None else Some (0, t)) of
             None \<Rightarrow> None
           | Some (e, rest) \<Rightarrow>
               if rest \<noteq> [] \<or> (CHR ''_'' \<in> set s \<and> \<not> underscoreOK s) then None
               else Some (neg, of_nat m / of_nat base ^ f * (if hex then 2 powi e else 10 powi e)))))"

definition ParseFloat :: "string \<Rightarrow> f64 \<times> bool" where
  "ParseFloat s = (let r = ToLower (snd (sign_of s)); neg = fst (sign_of s) in
     if r \<in> {''inf'', ''infinity''} then (Inf neg, True)
     else if ToLower s = ''nan'' then (NaN, True)
     else (case read_float s of None \<Rightarrow> (fzero, False)
       | Some (n, q) \<Rightarrow> let v = signed_float n q in (v, \<not> isInf v)))"

text \<open>A result without an error is a number read exactly and rounded once, an infinity by name, or NaN by name.\<close>

lemma ParseFloat_ok:
  "snd (ParseFloat s) \<longleftrightarrow> ToLower (snd (sign_of s)) \<in> {''inf'', ''infinity''} \<or> ToLower s = ''nan'' \<or>
     (\<exists>n q. read_float s = Some (n, q) \<and> is_finite (signed_float n q))"
  by (auto simp: ParseFloat_def Let_def is_finite_iff signed_float_def isNaN_def zero_of_def split: option.splits)

text \<open>The verbs \<open>%f\<close> and \<open>%g\<close> of \<open>fmt.Sscanf\<close> take the longest float token after leading blanks.\<close>

definition scan_digits :: "string \<Rightarrow> string \<times> string" where
  "scan_digits s = (takeWhile (\<lambda>c. undig c \<noteq> None \<or> c = CHR ''_'') s, dropWhile (\<lambda>c. undig c \<noteq> None \<or> c = CHR ''_'') s)"

definition float_token :: "string \<Rightarrow> string" where
  "float_token s =
     (case s of [] \<Rightarrow> [] | c # r \<Rightarrow>
        let sg = (if c \<in> set ''+-'' then [c] else []); t = (if c \<in> set ''+-'' then r else s) in
        if ToLower (take 3 s) = ''nan'' then take 3 s
        else if ToLower (take 3 t) = ''inf'' then sg @ take 3 t
        else (case scan_digits t of (ip, t1) \<Rightarrow>
          let dot = (case t1 of x # y \<Rightarrow> if x = CHR ''.'' then [x] else [] | [] \<Rightarrow> []) in
          (case scan_digits (drop (length dot) t1) of (fp, t2) \<Rightarrow>
            let fr = (if dot = [] then [] else fp); t3 = (if dot = [] then t1 else t2) in
            (case t3 of x # y \<Rightarrow>
               if char_lower x \<in> set ''ep'' then
                 let es = (case y of z # _ \<Rightarrow> if z \<in> set ''+-'' then [z] else [] | [] \<Rightarrow> []) in
                 sg @ ip @ dot @ fr @ [x] @ es @ fst (scan_digits (drop (length es) y))
               else sg @ ip @ dot @ fr
             | [] \<Rightarrow> sg @ ip @ dot @ fr))))"

definition skip_blanks :: "string \<Rightarrow> string" where
  "skip_blanks = dropWhile (\<lambda>c. c \<in> set [CHR '' '', CHR 0x09, CHR 0x0D])"

definition sscan_float :: "string \<Rightarrow> f64 option" where
  "sscan_float s = (case ParseFloat (float_token (skip_blanks s)) of (v, ok) \<Rightarrow> if ok then Some v else None)"

text \<open>\<open>fmt.Sprintf("%.nf", x)\<close>: the exact value rounded to n decimals, ties to even.\<close>

definition fmt_f :: "nat \<Rightarrow> f64 \<Rightarrow> string" where
  "fmt_f n x = (case x of NaN \<Rightarrow> ''NaN'' | Inf s \<Rightarrow> if s then ''-Inf'' else ''+Inf'' | _ \<Rightarrow>
     let k = nat (rhe (\<bar>qv x\<bar> * 10 ^ n)) in
     (if signbit x then ''-'' else []) @ dec (k div 10 ^ n) @ (if n = 0 then [] else ''.'' @ pad0 n (dec (k mod 10 ^ n))))"

section \<open>Times\<close>

definition millisecond_ns :: int where "millisecond_ns = 1000000"

definition UnixMilli :: "int \<Rightarrow> gotime" where
  "UnixMilli ms = ms * millisecond_ns"

definition Unix :: "int \<Rightarrow> gotime" where
  "Unix s = s * 1000000000"

definition unix_milli :: "gotime \<Rightarrow> int" where
  "unix_milli t = t div millisecond_ns"

lemma unix_milli_UnixMilli [simp]: "unix_milli (UnixMilli ms) = ms"
  by (simp add: unix_milli_def UnixMilli_def millisecond_ns_def)

text \<open>A two-character year: 69 and later are of the last century.\<close>

definition year2 :: "string \<Rightarrow> int option" where
  "year2 s = (case s of [a, b] \<Rightarrow>
     map_option (\<lambda>n. if 69 \<le> n then n + 1900 else n + 2000)
       (case sign_of [a, b] of (neg, ds) \<Rightarrow> map_option (\<lambda>n. if neg then - int n else int n) (num_of 0 ds))
   | _ \<Rightarrow> None)"

definition civil_time :: "int \<Rightarrow> int \<Rightarrow> int \<Rightarrow> gotime option" where
  "civil_time y m d = (if 1 \<le> m \<and> m \<le> 12 \<and> 1 \<le> d \<and> d \<le> days_in m y then Some (day_of_civil y m d * day_ns) else None)"

text \<open>\<open>time.Parse("060102", s)\<close>.\<close>

definition parse_yymmdd :: "string \<Rightarrow> gotime option" where
  "parse_yymmdd s = (case s of [a, b, c, d, e, f] \<Rightarrow>
     do { y \<leftarrow> year2 [a, b]; m \<leftarrow> num_of 0 [c, d]; k \<leftarrow> num_of 0 [e, f]; civil_time y (int m) (int k) } | _ \<Rightarrow> None)"

text \<open>\<open>time.Parse("2Jan06", s)\<close>: a day of one or two digits, the name of a month in any case, two digits of the year.\<close>

definition month_names :: "string list" where
  "month_names = [''jan'', ''feb'', ''mar'', ''apr'', ''may'', ''jun'', ''jul'', ''aug'', ''sep'', ''oct'', ''nov'', ''dec'']"

definition month_of :: "string \<Rightarrow> int option" where
  "month_of s = map_of (zip month_names [1, 2, 3, 4, 5, 6, 7, 8, 9, 10, 11, 12]) (ToLower s)"

definition parse_dMonyy :: "string \<Rightarrow> gotime option" where
  "parse_dMonyy s = (let ds = takeWhile (\<lambda>c. undig c \<noteq> None) (take 2 s); r = drop (length ds) s in
     if ds = [] then None
     else do { d \<leftarrow> num_of 0 ds; m \<leftarrow> month_of (take 3 r); y \<leftarrow> year2 (drop 3 r); civil_time y m (int d) })"

text \<open>
  \<open>time.Parse(time.RFC3339, s)\<close>, and the same with the layout \<open>2006-01-02T15:04:05.000Z\<close>, which asks for exactly three
  decimals and a final \<open>Z\<close>.  The hour may have one digit; decimals of the second need not be in the layout.
\<close>

definition num2 :: "string \<Rightarrow> (nat \<times> string) option" where
  "num2 s = (case s of a # b # r \<Rightarrow> map_option (\<lambda>n. (n, r)) (num_of 0 [a, b]) | _ \<Rightarrow> None)"

definition num12 :: "string \<Rightarrow> (nat \<times> string) option" where
  "num12 s = (case s of [] \<Rightarrow> None | a # r \<Rightarrow>
     (case r of b # r' \<Rightarrow> if undig b \<noteq> None then map_option (\<lambda>n. (n, r')) (num_of 0 [a, b]) else map_option (\<lambda>n. (n, r)) (undig a)
      | [] \<Rightarrow> map_option (\<lambda>n. (n, r)) (undig a)))"

definition expect_char :: "char \<Rightarrow> string \<Rightarrow> string option" where
  "expect_char c s = (case s of [] \<Rightarrow> None | x # r \<Rightarrow> if x = c then Some r else None)"

definition frac_ns :: "string \<Rightarrow> int \<times> string" where
  "frac_ns s = (case s of c # d # r \<Rightarrow>
     if (c = CHR ''.'' \<or> c = CHR '','') \<and> undig d \<noteq> None then
       let ds = takeWhile (\<lambda>x. undig x \<noteq> None) (d # r); w = take 9 ds in
       (int (the (num_of 0 w)) * 10 ^ (9 - length w), drop (length ds) (d # r))
     else (0, s) | _ \<Rightarrow> (0, s))"

definition zone_offset :: "string \<Rightarrow> int option" where
  "zone_offset s = (case s of
     [z] \<Rightarrow> if z = CHR ''Z'' then Some 0 else None
   | [sg, a, b, c, d, e] \<Rightarrow>
       if sg \<in> set ''+-'' \<and> c = CHR '':'' then
         do { h \<leftarrow> num_of 0 [a, b]; m \<leftarrow> num_of 0 [d, e];
              if h \<le> 24 \<and> m < 60 then Some ((if sg = CHR ''-'' then -1 else 1) * (int h * 3600 + int m * 60)) else None }
       else None
   | _ \<Rightarrow> None)"

definition date_clock :: "string \<Rightarrow> (gotime \<times> string) option" where
  "date_clock s = do {
     t0 \<leftarrow> parse_day (take 10 s); r0 \<leftarrow> expect_char (CHR ''T'') (drop 10 s);
     (h, r1) \<leftarrow> num12 r0; r2 \<leftarrow> expect_char (CHR '':'') r1; (mi, r3) \<leftarrow> num2 r2; r4 \<leftarrow> expect_char (CHR '':'') r3; (sc, r5) \<leftarrow> num2 r4;
     if h < 24 \<and> mi < 60 \<and> sc < 60 then Some (t0 + (int h * 3600 + int mi * 60 + int sc) * 1000000000, r5) else None }"

definition parse_rfc3339 :: "string \<Rightarrow> gotime option" where
  "parse_rfc3339 s = do {
     (t, r) \<leftarrow> date_clock s;
     off \<leftarrow> zone_offset (snd (frac_ns r));
     Some (t + fst (frac_ns r) - off * 1000000000) }"

definition parse_rfc3339_milli :: "string \<Rightarrow> gotime option" where
  "parse_rfc3339_milli s = do {
     (t, r) \<leftarrow> date_clock s;
     (case r of [p, a, b, c, z] \<Rightarrow>
        if (p = CHR ''.'' \<or> p = CHR '','') \<and> z = CHR ''Z'' then map_option (\<lambda>n. t + int n * millisecond_ns) (num_of 0 [a, b, c]) else None
      | _ \<Rightarrow> None) }"

text \<open>\<open>t.Format(time.RFC3339)\<close> of a UTC time.\<close>

definition fmt_rfc3339 :: "gotime \<Rightarrow> string" where
  "fmt_rfc3339 t = (let s = t mod day_ns div 1000000000; two = (\<lambda>n. pad0 2 (dec (nat n))) in
     fmt_day t @ ''T'' @ two (s div 3600) @ '':'' @ two (s div 60 mod 60) @ '':'' @ two (s mod 60) @ ''Z'')"

section \<open>Query strings\<close>

definition hex_digit :: "nat \<Rightarrow> char" where
  "hex_digit n = ''0123456789ABCDEF'' ! n"

definition unreserved :: "char \<Rightarrow> bool" where
  "unreserved c \<longleftrightarrow> (let n = of_char c :: nat in 48 \<le> n \<and> n \<le> 57 \<or> 65 \<le> n \<and> n \<le> 90 \<or> 97 \<le> n \<and> n \<le> 122) \<or> c \<in> set ''-_.~''"

definition QueryEscape :: "string \<Rightarrow> string" where
  "QueryEscape s = concat (map (\<lambda>c. if unreserved c then [c] else if c = CHR '' '' then ''+''
     else let n = of_char c :: nat in [CHR ''%'', hex_digit (n div 16), hex_digit (n mod 16)]) s)"

text \<open>\<open>url.Values.Encode\<close> of keys in sorted order with one value each.\<close>

definition encode_query :: "(string \<times> string) list \<Rightarrow> string" where
  "encode_query kvs = str_join ''&'' (map (\<lambda>(k, v). QueryEscape k @ ''='' @ QueryEscape v) kvs)"

end
