(* ===== verification/Gateway.thy ===== *)
theory Gateway
  imports PgBacktest GoText
begin

text \<open>
  \<open>internal/api/http/gateway\<close>: the read-only HTTP interface.  A request is its method, the segments of its path and its
  query parameters (absent ones read as the empty string); a response is a status, headers and a body.  The text of an
  error, which some answers carry, is a parameter.
\<close>

section \<open>Requests and responses\<close>

datatype jval =
    JStr string
  | JNum f64
  | JInt int
  | JBool bool
  | JArr "jval list"
  | JObj "(string \<times> jval) list"
  | JFloats "string \<rightharpoonup> f64"
  | JStrs "string \<rightharpoonup> string"
  | JBools "string \<rightharpoonup> bool"
  | JAnys "string \<rightharpoonup> anyval"

text \<open>\<open>encoding/json\<close> refuses numbers that are not finite.\<close>

fun encodable :: "jval \<Rightarrow> bool" where
  "encodable (JNum x) = is_finite x"
| "encodable (JArr xs) = list_all encodable xs"
| "encodable (JObj fs) = list_all (\<lambda>f. encodable (snd f)) fs"
| "encodable (JFloats m) = json_floats m"
| "encodable (JAnys m) = json_anys m"
| "encodable _ = True"

datatype body = NoBody | Text string | Json jval

record request =
  rq_method :: string
  rq_path :: "string list"
  rq_query :: "string \<Rightarrow> string"

record response =
  re_status :: int
  re_headers :: "(string \<times> string) list"
  re_body :: body

definition writeJSON :: "int \<Rightarrow> jval \<Rightarrow> response" where
  "writeJSON status v = \<lparr>re_status = status, re_headers = [(''Content-Type'', ''application/json; charset=utf-8'')],
     re_body = (if encodable v then Json v else NoBody)\<rparr>"

definition writeError :: "int \<Rightarrow> string \<Rightarrow> response" where
  "writeError status msg = writeJSON status (JObj [(''error'', JStr msg)])"

section \<open>Parameters\<close>

definition validAssets :: "asset list" where
  "validAssets = [AssetBTC, AssetETH]"

definition domainSlugs :: "string \<rightharpoonup> domain_code" where
  "domainSlugs = map_of [(''liquidity'', DomainLiquidity), (''leverage'', DomainLeverage), (''market-stress'', DomainMarketStress),
     (''capital-flows'', DomainCapitalFlows), (''volatility'', DomainVolatility)]"

definition parseAsset :: "request \<Rightarrow> string + asset" where
  "parseAsset r = (let raw = map char_upper (rq_query r ''asset'') in
     if raw = [] then Inl ''asset required''
     else if raw \<notin> set validAssets then Inl (''invalid asset: '' @ raw) else Inr raw)"

definition parseFromTo :: "request \<Rightarrow> string + gotime \<times> gotime" where
  "parseFromTo r = (let fs = rq_query r ''from''; ts = rq_query r ''to'' in
     if fs = [] \<or> ts = [] then Inl ''from and to required (YYYY-MM-DD)''
     else (case parse_day fs of None \<Rightarrow> Inl ''invalid from'' | Some f \<Rightarrow>
       (case parse_day ts of None \<Rightarrow> Inl ''invalid to'' | Some t \<Rightarrow>
         if t < f then Inl ''from after to'' else Inr (f, t))))"

definition parseDate :: "string \<Rightarrow> string + gotime" where
  "parseDate s = (case parse_day s of None \<Rightarrow> Inl ''invalid date (expect YYYY-MM-DD)'' | Some t \<Rightarrow> Inr t)"

text \<open>\<open>strconv.Atoi\<close>: a sign and decimal digits; what does not fit an \<open>int\<close> is out of the range asked for anyway.\<close>

definition Atoi :: "string \<Rightarrow> int option" where
  "Atoi s = (let digits = (\<lambda>ds. if ds = [] then None else map_option int (num_of 0 ds)) in
     case s of [] \<Rightarrow> None
     | c # ds \<Rightarrow> if c = CHR ''-'' then map_option uminus (digits ds) else if c = CHR ''+'' then digits ds else digits s)"

definition limit_of :: "string \<Rightarrow> int" where
  "limit_of v = (case Atoi v of None \<Rightarrow> 50 | Some n \<Rightarrow> if 0 < n \<and> n \<le> 500 then n else 50)"

section \<open>Ports\<close>

record gw_point =
  gp_value_date :: gotime
  gp_indicator :: f64
  gp_risk_on :: f64
  gp_risk_off :: f64
  gp_transition :: f64
  gp_price :: f64
  gp_price_ok :: bool

record 'w regime_reader =
  gr_GetLatest :: "asset \<Rightarrow> ('w, regime_state) io"
  gr_GetHistory :: "asset \<Rightarrow> gotime \<Rightarrow> gotime \<Rightarrow> ('w, regime_state list) io"
  gr_GetByDate :: "asset \<Rightarrow> gotime \<Rightarrow> ('w, regime_state) io"

record 'w backtest_reader =
  gb_ListRuns :: "int \<Rightarrow> ('w, run_summary list) io"
  gb_GetTimeline :: "run_id \<Rightarrow> asset \<Rightarrow> ('w, gw_point list) io"
  gb_GetEvents :: "run_id \<Rightarrow> asset \<Rightarrow> ('w, event_result list) io"

record 'w gw_handler =
  gh_regime :: "'w regime_reader"
  gh_scores :: "asset \<Rightarrow> domain_code \<Rightarrow> gotime \<Rightarrow> gotime \<Rightarrow> ('w, domain_score list) io"
  gh_backtest :: "'w backtest_reader option"
  gh_ping :: "('w, unit) io"
  gh_sha :: string
  gh_error_text :: "err \<Rightarrow> string"

section \<open>Presentation\<close>

definition driver_direction :: "top_driver \<Rightarrow> string" where
  "driver_direction d = (if flt fzero (td_contribution d) then ''risk_on'' else if flt (td_contribution d) fzero then ''risk_off'' else ''neutral'')"

definition driver_json :: "top_driver \<Rightarrow> jval" where
  "driver_json d = JObj [(''domain'', JStr (td_domain d)), (''domain_display'', JStr (DisplayName (td_domain d))),
     (''contribution'', JNum (td_contribution d)), (''share'', JNum (td_share d)), (''direction'', JStr (driver_direction d))]"

definition regimeStateToJSON :: "regime_state \<Rightarrow> jval" where
  "regimeStateToJSON s = JObj [(''asset'', JStr (rs_asset s)), (''value_date'', JStr (fmt_day (rs_value_date s))),
     (''regime_indicator'', JNum (rs_indicator s)), (''regime_indicator_raw'', JNum (rs_indicator_raw s)),
     (''risk_on_probability'', JNum (rs_risk_on s)), (''risk_off_probability'', JNum (rs_risk_off s)),
     (''transition_risk'', JNum (rs_transition s)), (''domain_contributions'', JFloats (rs_contributions s)),
     (''domain_display_names'', JStrs (\<lambda>k. map_option (\<lambda>_. DisplayName k) (rs_contributions s k))),
     (''top_drivers'', JArr (map driver_json (rs_top_drivers s))), (''effective_weights'', JFloats (rs_weights s)),
     (''feature_coverage'', JBools (rs_coverage s)), (''interaction_flags'', JArr (map JStr (rs_flags s))),
     (''model_version'', JStr (rs_model_version s)), (''config_version'', JStr (rs_config_version s)), (''code_sha'', JStr (rs_code_sha s))]"

definition domainScoreRowToJSON :: "domain_score \<Rightarrow> jval" where
  "domainScoreRowToJSON r = JObj [(''asset'', JStr (ds_asset r)), (''domain'', JStr (ds_domain r)),
     (''domain_display'', JStr (DisplayName (ds_domain r))), (''value_date'', JStr (fmt_day (ds_value_date r))),
     (''score'', JNum (ds_score r)), (''components'', JFloats (ds_components r)), (''data_quality'', JAnys (ds_quality r)),
     (''model_version'', JStr (ds_model_version r))]"

text \<open>\<open>Format("2006-01-02T15:04:05Z")\<close>.\<close>

definition fmt_stamp :: "gotime \<Rightarrow> string" where
  "fmt_stamp t = (let s = nat (t mod day_ns div 1000000000) in
     fmt_day t @ ''T'' @ pad0 2 (dec (s div 3600)) @ '':'' @ pad0 2 (dec (s div 60 mod 60)) @ '':'' @ pad0 2 (dec (s mod 60)) @ ''Z'')"

definition optional :: "string \<Rightarrow> jval option \<Rightarrow> (string \<times> jval) list" where
  "optional k v = (case v of None \<Rightarrow> [] | Some x \<Rightarrow> [(k, x)])"

definition run_json :: "run_summary \<Rightarrow> jval" where
  "run_json r = JObj ([(''run_id'', JStr (rsu_id r)), (''mode'', JStr (rsu_mode r)), (''period_start'', JStr (fmt_day (rsu_start r))),
     (''period_end'', JStr (fmt_day (rsu_end r))), (''model_version'', JStr (rsu_model_version r)),
     (''config_version'', JStr (rsu_config_version r)), (''status'', JStr (rsu_status r)), (''started_at'', JStr (fmt_stamp (rsu_started r)))]
     @ optional ''completed_at'' (map_option (\<lambda>t. JStr (fmt_stamp t)) (rsu_completed r))
     @ optional ''parent_run_id'' (map_option JStr (rsu_parent r)))"

definition point_json :: "gw_point \<Rightarrow> jval" where
  "point_json p = JObj ([(''value_date'', JStr (fmt_day (gp_value_date p))), (''regime_indicator'', JNum (gp_indicator p)),
     (''risk_on_prob'', JNum (gp_risk_on p)), (''risk_off_prob'', JNum (gp_risk_off p)), (''transition_risk'', JNum (gp_transition p))]
     @ (if gp_price_ok p then [(''price'', JNum (gp_price p))] else []))"

definition event_json :: "event_result \<Rightarrow> jval" where
  "event_json e = JObj [(''name'', JStr (er_name e)), (''peak_date'', JStr (fmt_day (er_peak e))),
     (''first_risk_off_offset'', JInt (er_risk_off e)), (''first_trans_offset'', JInt (er_trans e)), (''data_present'', JBool (er_present e))]"

section \<open>Handlers\<close>

text \<open>\<open>answer m fail ok\<close>: the response to a failed and to a successful call; \<open>bad_request\<close>: the response to bad parameters.\<close>

definition answer :: "('w, 'r) io \<Rightarrow> (err \<Rightarrow> response) \<Rightarrow> ('r \<Rightarrow> response) \<Rightarrow> ('w, response) io" where
  "answer m fail ok = bindE (attempt m) (\<lambda>r. ret (case r of Inl e \<Rightarrow> fail e | Inr x \<Rightarrow> ok x))"

definition with_param :: "string + 'p \<Rightarrow> ('p \<Rightarrow> ('w, response) io) \<Rightarrow> ('w, response) io" where
  "with_param p k = (case p of Inl msg \<Rightarrow> ret (writeError 400 msg) | Inr x \<Rightarrow> k x)"

definition not_found_or_500 :: "string \<Rightarrow> err \<Rightarrow> response" where
  "not_found_or_500 msg e = (if errors_Is e ErrNotFound then writeError 404 msg else writeError 500 ''internal error'')"

definition gw_health :: "'w gw_handler \<Rightarrow> ('w, response) io" where
  "gw_health h = answer (gh_ping h) (\<lambda>e. writeError 503 ''db unavailable'')
     (\<lambda>_. writeJSON 200 (JObj [(''status'', JStr ''ok''), (''git_sha'', JStr (gh_sha h))]))"

definition regimeLatest :: "'w gw_handler \<Rightarrow> request \<Rightarrow> ('w, response) io" where
  "regimeLatest h r = with_param (parseAsset r) (\<lambda>a.
     answer (gr_GetLatest (gh_regime h) a) (not_found_or_500 ''no regime state for asset'') (\<lambda>s. writeJSON 200 (regimeStateToJSON s)))"

definition regimeHistory :: "'w gw_handler \<Rightarrow> request \<Rightarrow> ('w, response) io" where
  "regimeHistory h r = with_param (parseAsset r) (\<lambda>a. with_param (parseFromTo r) (\<lambda>(f, t).
     answer (gr_GetHistory (gh_regime h) a f t) (\<lambda>e. writeError 500 ''internal error'')
       (\<lambda>rows. writeJSON 200 (JArr (map regimeStateToJSON rows)))))"

definition regimeContributions :: "'w gw_handler \<Rightarrow> request \<Rightarrow> string \<Rightarrow> ('w, response) io" where
  "regimeContributions h r date = with_param (parseAsset r) (\<lambda>a. with_param (parseDate date) (\<lambda>d.
     answer (gr_GetByDate (gh_regime h) a d) (not_found_or_500 ''no regime state for asset+date'') (\<lambda>s. writeJSON 200 (regimeStateToJSON s))))"

definition domainScores :: "'w gw_handler \<Rightarrow> request \<Rightarrow> string \<Rightarrow> ('w, response) io" where
  "domainScores h r slug = (case domainSlugs slug of None \<Rightarrow> ret (writeError 400 ''unknown domain'') | Some dm \<Rightarrow>
     with_param (parseAsset r) (\<lambda>a. with_param (parseFromTo r) (\<lambda>(f, t).
       let queryAsset = (if dm = DomainCapitalFlows then AssetGlobal else a) in
       answer (gh_scores h queryAsset dm f t) (\<lambda>e. writeError 500 ''internal error'')
         (\<lambda>rows. writeJSON 200 (JArr (map domainScoreRowToJSON rows))))))"

definition with_backtest :: "'w gw_handler \<Rightarrow> ('w backtest_reader \<Rightarrow> ('w, response) io) \<Rightarrow> ('w, response) io" where
  "with_backtest h k = (case gh_backtest h of None \<Rightarrow> ret (writeError 503 ''backtest reader not configured'') | Some b \<Rightarrow> k b)"

definition backtestRuns :: "'w gw_handler \<Rightarrow> request \<Rightarrow> ('w, response) io" where
  "backtestRuns h r = with_backtest h (\<lambda>b. let v = rq_query r ''limit''; limit = (if v = [] then 50 else limit_of v) in
     answer (gb_ListRuns b limit) (\<lambda>e. writeError 500 (gh_error_text h e)) (\<lambda>runs. writeJSON 200 (JArr (map run_json runs))))"

definition backtestTimeline :: "'w gw_handler \<Rightarrow> request \<Rightarrow> run_id \<Rightarrow> ('w, response) io" where
  "backtestTimeline h r i = with_backtest h (\<lambda>b. if i = [] then ret (writeError 400 ''run_id required'') else
     with_param (parseAsset r) (\<lambda>a. answer (gb_GetTimeline b i a) (\<lambda>e. writeError 500 (gh_error_text h e))
       (\<lambda>pts. writeJSON 200 (JObj [(''run_id'', JStr i), (''asset'', JStr a), (''points'', JArr (map point_json pts))]))))"

definition backtestEvents :: "'w gw_handler \<Rightarrow> request \<Rightarrow> run_id \<Rightarrow> ('w, response) io" where
  "backtestEvents h r i = with_backtest h (\<lambda>b. if i = [] then ret (writeError 400 ''run_id required'') else
     with_param (parseAsset r) (\<lambda>a. answer (gb_GetEvents b i a) (\<lambda>e. writeError 500 (gh_error_text h e))
       (\<lambda>evs. writeJSON 200 (JArr (map event_json evs)))))"

section \<open>Routing\<close>

text \<open>The patterns of the multiplexer, on a clean path; a \<open>GET\<close> pattern also matches \<open>HEAD\<close>.\<close>

definition mux :: "'w gw_handler \<Rightarrow> request \<Rightarrow> ('w, response) io option" where
  "mux h r = (case rq_path r of
       [a] \<Rightarrow> if a = ''health'' then Some (gw_health h) else None
     | [a, b] \<Rightarrow>
         if a = ''regime'' \<and> b = ''latest'' then Some (regimeLatest h r)
         else if a = ''regime'' \<and> b = ''history'' then Some (regimeHistory h r)
         else if a = ''backtest'' \<and> b = ''runs'' then Some (backtestRuns h r) else None
     | [a, b, c] \<Rightarrow>
         if a = ''regime'' \<and> c = ''contributions'' then Some (regimeContributions h r b)
         else if a = ''domains'' \<and> c = ''scores'' then Some (domainScores h r b)
         else if a = ''backtest'' \<and> c = ''timeline'' then Some (backtestTimeline h r b)
         else if a = ''backtest'' \<and> c = ''events'' then Some (backtestEvents h r b) else None
     | _ \<Rightarrow> None)"

definition serve_mux :: "'w gw_handler \<Rightarrow> request \<Rightarrow> ('w, response) io" where
  "serve_mux h r = (case mux h r of
       None \<Rightarrow> ret \<lparr>re_status = 404, re_headers = [], re_body = Text ''404 page not found''\<rparr>
     | Some m \<Rightarrow> if rq_method r = ''GET'' then m
         else if rq_method r = ''HEAD'' then bindE m (\<lambda>re. ret (re\<lparr>re_body := NoBody\<rparr>))
         else ret \<lparr>re_status = 405, re_headers = [(''Allow'', ''GET, HEAD'')], re_body = Text ''Method Not Allowed''\<rparr>)"

definition cors_headers :: "(string \<times> string) list" where
  "cors_headers = [(''Access-Control-Allow-Origin'', ''*''), (''Access-Control-Allow-Methods'', ''GET, HEAD, OPTIONS''),
     (''Access-Control-Allow-Headers'', ''Content-Type''), (''Access-Control-Max-Age'', ''600'')]"

definition corsMiddleware :: "(request \<Rightarrow> ('w, response) io) \<Rightarrow> request \<Rightarrow> ('w, response) io" where
  "corsMiddleware next_handler r = (if rq_method r = ''OPTIONS'' then ret \<lparr>re_status = 204, re_headers = cors_headers, re_body = NoBody\<rparr>
     else bindE (next_handler r) (\<lambda>re. ret (re\<lparr>re_headers := cors_headers @ re_headers re\<rparr>)))"

definition Routes :: "'w gw_handler \<Rightarrow> request \<Rightarrow> ('w, response) io" where
  "Routes h = corsMiddleware (serve_mux h)"

end
