(* ===== verification/PgGateway.thy ===== *)
theory PgGateway
  imports Gateway
begin

text \<open>
  \<open>internal/infra/postgres/gateway\<close>: the ports of the HTTP gateway on the database, with the timeline query of
  \<open>backtest_reader.go\<close>.  Whatever is asked, the gateway writes nothing; a saved state is what it answers with.
\<close>

section \<open>The timeline of a backtest\<close>

record timeline_point =
  tl_value_date :: gotime
  tl_indicator :: f64
  tl_risk_on :: f64
  tl_risk_off :: f64
  tl_transition :: f64
  tl_price :: f64
  tl_price_ok :: bool

text \<open>\<open>LEFT JOIN LATERAL\<close>: the latest kline of the pair on the day, if there is one.\<close>

definition kline_close :: "string \<Rightarrow> gotime \<Rightarrow> raw_row table \<Rightarrow> f64 option" where
  "kline_close smb d t = map_option (kl_close \<circ> r_val)
     (latest (where_rows (\<lambda>k. kl_symbol k = smb \<and> kl_value_date k = d) (rows_of kline_of t)))"

definition timeline_point_of :: "f64 option \<Rightarrow> regime_state \<Rightarrow> timeline_point" where
  "timeline_point_of price s = \<lparr>tl_value_date = rs_value_date s, tl_indicator = rs_indicator s, tl_risk_on = rs_risk_on s,
     tl_risk_off = rs_risk_off s, tl_transition = rs_transition s, tl_price = (case price of None \<Rightarrow> fzero | Some p \<Rightarrow> p),
     tl_price_ok = (price \<noteq> None)\<rparr>"

definition q_bt_timeline :: "run_id \<Rightarrow> asset \<Rightarrow> (run_id \<times> regime_state) list \<Rightarrow> raw_row table \<Rightarrow> timeline_point list" where
  "q_bt_timeline i a states raws = map (\<lambda>s. timeline_point_of (kline_close (a @ ''USDT'') (rs_value_date s) raws) s)
     (sort_slice (\<lambda>x y. rs_value_date x < rs_value_date y) (map snd (filter (\<lambda>r. fst r = i \<and> rs_asset (snd r) = a) states)))"

definition GetBacktestTimeline :: "run_id \<Rightarrow> asset \<Rightarrow> ('a bt_world_scheme, timeline_point list) io" where
  "GetBacktestTimeline i a = query_plain (\<lambda>w. q_bt_timeline i a (wb_states w) (w_raws w))"

section \<open>The readers\<close>

definition toDomainRegimeState :: "regime_state \<Rightarrow> regime_state" where
  "toDomainRegimeState s = \<lparr>rs_asset = rs_asset s, rs_value_date = rs_value_date s, rs_indicator = rs_indicator s,
     rs_indicator_raw = rs_indicator_raw s, rs_risk_on = rs_risk_on s, rs_risk_off = rs_risk_off s, rs_transition = rs_transition s,
     rs_model_version = rs_model_version s, rs_config_version = rs_config_version s, rs_code_sha = rs_code_sha s,
     rs_contributions = rs_contributions s,
     rs_top_drivers = map (\<lambda>d. \<lparr>td_domain = td_domain d, td_contribution = td_contribution d, td_share = td_share d\<rparr>) (rs_top_drivers s),
     rs_weights = rs_weights s, rs_coverage = rs_coverage s, rs_flags = rs_flags s\<rparr>"

lemma toDomainRegimeState_id [simp]: "toDomainRegimeState s = s"
  by (simp add: toDomainRegimeState_def map_idI)

definition gw_GetLatest :: "asset \<Rightarrow> ('a world_scheme, regime_state) io" where
  "gw_GetLatest a = bindE (GetLatestRegimeState a) (\<lambda>s. case s of None \<Rightarrow> throw ErrNotFound | Some st \<Rightarrow> ret (toDomainRegimeState st))"

definition gw_GetHistory :: "asset \<Rightarrow> gotime \<Rightarrow> gotime \<Rightarrow> ('a world_scheme, regime_state list) io" where
  "gw_GetHistory a f t = bindE (GetRegimeStateHistory a f t) (\<lambda>rows. ret (map toDomainRegimeState rows))"

definition gw_GetByDate :: "asset \<Rightarrow> gotime \<Rightarrow> ('a world_scheme, regime_state) io" where
  "gw_GetByDate a d = bindE (GetRegimeStateByDate a d) (\<lambda>s. case s of None \<Rightarrow> throw ErrNotFound | Some st \<Rightarrow> ret (toDomainRegimeState st))"

text \<open>Only some of a score's fields are filled.\<close>

definition gw_score :: "domain_score \<Rightarrow> domain_score" where
  "gw_score r = \<lparr>ds_asset = ds_asset r, ds_domain = ds_domain r, ds_value_date = ds_value_date r, ds_score = ds_score r,
     ds_components = ds_components r, ds_features_used = [], ds_model_version = ds_model_version r, ds_config_version = [],
     ds_code_sha = [], ds_sources = Map.empty, ds_quality = ds_quality r\<rparr>"

definition gw_GetTimeline :: "asset \<Rightarrow> domain_code \<Rightarrow> gotime \<Rightarrow> gotime \<Rightarrow> ('a world_scheme, domain_score list) io" where
  "gw_GetTimeline a dm f t = bindE (GetDomainScoreTimeline a dm f t) (\<lambda>rows. ret (map gw_score rows))"

definition gw_ListRuns :: "int \<Rightarrow> ('a bt_world_scheme, run_summary list) io" where
  "gw_ListRuns limit = InTx (ListBacktestRuns limit)"

definition gw_point_of :: "timeline_point \<Rightarrow> gw_point" where
  "gw_point_of p = \<lparr>gp_value_date = tl_value_date p, gp_indicator = tl_indicator p, gp_risk_on = tl_risk_on p, gp_risk_off = tl_risk_off p,
     gp_transition = tl_transition p, gp_price = tl_price p, gp_price_ok = tl_price_ok p\<rparr>"

definition gw_BtTimeline :: "run_id \<Rightarrow> asset \<Rightarrow> ('a bt_world_scheme, gw_point list) io" where
  "gw_BtTimeline i a = InTx (bindE (GetBacktestTimeline i a) (\<lambda>pts. ret (map gw_point_of pts)))"

text \<open>\<open>date\<close> drops the error of \<open>time.Parse\<close>; its dates parse.\<close>

definition gw_date :: "string \<Rightarrow> gotime" where
  "gw_date s = (case parse_day s of None \<Rightarrow> zero_time | Some t \<Rightarrow> t)"

definition gw_calibrationEvents :: "stress_event list" where
  "gw_calibrationEvents = map (\<lambda>(n, d). \<lparr>se_name = n, se_peak = gw_date d\<rparr>)
     [(''China ban / leverage flush'', ''2021-05-19''), (''UST collapse'', ''2022-05-11''),
      (''3AC collapse'', ''2022-06-18''), (''FTX collapse'', ''2022-11-09''),
      (''USDC depeg / SVB'', ''2023-03-11''), (''Yen carry unwind'', ''2024-08-05'')]"

definition gw_GetEvents :: "run_id \<Rightarrow> asset \<Rightarrow> ('a bt_world_scheme, event_result list) io" where
  "gw_GetEvents i a = InTx (GetBacktestEventResults i a gw_calibrationEvents (lit (6 / 10)))"

text \<open>\<open>Ping\<close> is one round trip.\<close>

definition gw_Ping :: "('a world_scheme, unit) io" where
  "gw_Ping = db_op"

definition pg_gateway :: "(err \<Rightarrow> string) \<Rightarrow> 'a bt_world_scheme gw_handler" where
  "pg_gateway E = \<lparr>gh_regime = \<lparr>gr_GetLatest = gw_GetLatest, gr_GetHistory = gw_GetHistory, gr_GetByDate = gw_GetByDate\<rparr>,
     gh_scores = gw_GetTimeline,
     gh_backtest = Some \<lparr>gb_ListRuns = gw_ListRuns, gb_GetTimeline = gw_BtTimeline, gb_GetEvents = gw_GetEvents\<rparr>,
     gh_ping = gw_Ping, gh_sha = ''dev'', gh_error_text = E\<rparr>"

text \<open>The gateway lists the events of the harness.\<close>

lemma gw_events_agree: "gw_calibrationEvents = CalibrationEvents"
proof -
  have "gw_date d = mustDate d" if "parse_day d \<noteq> None" for d using that by (auto simp: gw_date_def mustDate_def)
  then show ?thesis using CalibrationEvents_parse by (simp add: gw_calibrationEvents_def CalibrationEvents_def)
qed

section \<open>What a request does\<close>

text \<open>A gateway over ports that obey a relation obeys it, always responds, and with one of seven statuses.\<close>

definition statuses :: "int list" where
  "statuses = [200, 204, 400, 404, 405, 500, 503]"

definition responds :: "('w \<Rightarrow> 'w \<Rightarrow> bool) \<Rightarrow> ('w, response) io \<Rightarrow> bool" where
  "responds R m \<longleftrightarrow> (\<forall>w. \<exists>re w'. m w = (Inr re, w') \<and> R w w' \<and> re_status re \<in> set statuses)"

locale gw_ports = io_rel R for R :: "'w \<Rightarrow> 'w \<Rightarrow> bool" +
  fixes h :: "'w gw_handler"
  assumes latest: "obeys R (gr_GetLatest (gh_regime h) a)" and history: "obeys R (gr_GetHistory (gh_regime h) a f t)"
    and bydate: "obeys R (gr_GetByDate (gh_regime h) a f)" and scores: "obeys R (gh_scores h a dm f t)" and ping: "obeys R (gh_ping h)"
    and backtest: "gh_backtest h = Some b \<Longrightarrow> obeys R (gb_ListRuns b n) \<and> obeys R (gb_GetTimeline b i a) \<and> obeys R (gb_GetEvents b i a)"
begin

lemma status_json [simp]: "re_status (writeJSON n v) = n" "re_status (writeError n m) = n"
  by (simp_all add: writeJSON_def writeError_def)

lemma responds_ret: "re_status re \<in> set statuses \<Longrightarrow> responds R (ret re)"
  by (simp add: responds_def refl)

lemma responds_answer:
  assumes "obeys R m" "\<And>e. re_status (fail e) \<in> set statuses" "\<And>x. re_status (ok x) \<in> set statuses"
  shows "responds R (answer m fail ok)"
  unfolding responds_def
proof
  fix w
  obtain r w' where m: "m w = (r, w')" by fastforce
  have "R w w'" using assms(1) m by (rule obeysD)
  then show "\<exists>re w'. answer m fail ok w = (Inr re, w') \<and> R w w' \<and> re_status re \<in> set statuses"
    using assms(2,3) by (cases r) (simp_all add: answer_def bindE_def attempt_def m)
qed

lemma responds_param: "(\<And>x. p = Inr x \<Longrightarrow> responds R (k x)) \<Longrightarrow> responds R (with_param p k)"
  by (cases p) (auto simp: with_param_def statuses_def intro: responds_ret)

lemma responds_map:
  assumes "responds R m" "\<And>re. re_status (g re) = re_status re"
  shows "responds R (bindE m (\<lambda>re. ret (g re)))"
  unfolding responds_def
proof
  fix w
  obtain re w' where "m w = (Inr re, w')" "R w w'" "re_status re \<in> set statuses"
    using assms(1) unfolding responds_def by blast
  then show "\<exists>re w'. bindE m (\<lambda>re. ret (g re)) w = (Inr re, w') \<and> R w w' \<and> re_status re \<in> set statuses"
    using assms(2) by (simp add: bindE_def)
qed

lemma not_found_status: "re_status (not_found_or_500 m e) \<in> set statuses"
  by (simp add: not_found_or_500_def statuses_def)

lemmas handler_intros = responds_answer responds_param not_found_status latest history bydate scores ping

lemma responds_regime: "responds R (regimeLatest h r)" "responds R (regimeHistory h r)" "responds R (regimeContributions h r s)"
  "responds R (domainScores h r s)" "responds R (gw_health h)"
  unfolding regimeLatest_def regimeHistory_def regimeContributions_def domainScores_def gw_health_def Let_def
  by (auto split: option.split intro!: handler_intros intro: responds_ret simp: statuses_def)

lemma responds_backtest: "responds R (backtestRuns h r)" "responds R (backtestTimeline h r s)" "responds R (backtestEvents h r s)"
  unfolding backtestRuns_def backtestTimeline_def backtestEvents_def with_backtest_def Let_def
  by (auto split: option.split intro!: handler_intros intro: responds_ret simp: statuses_def dest: backtest)

lemma responds_Routes: "responds R (Routes h r)"
proof -
  have m: "responds R m" if "mux h r = Some m" for m
    using that by (auto simp: mux_def responds_regime responds_backtest split: list.splits if_splits)
  have "responds R (serve_mux h r)"
    unfolding serve_mux_def
    by (auto split: option.split simp: statuses_def dest: m intro!: responds_ret responds_map)
  then show ?thesis unfolding Routes_def corsMiddleware_def
    by (auto intro!: responds_ret responds_map simp: statuses_def)
qed

end

lemma same_row_or_nil: "obeys same_data (row_or_nil m f)"
proof (rule obeysI)
  fix w :: "'a world_scheme"
  obtain r w' where q: "query_row f w = (r, w')" by fastforce
  then have "frozen w' = frozen w" using frozen_query_row[of f w] by simp
  then show "same_data w (snd (row_or_nil m f w))"
    by (cases r) (auto simp: row_or_nil_def same_data_def q)
qed

lemma same_db_op: "obeys same_data db_op" and same_db_read: "obeys same_data (db_read f)"
  by (rule obeysI, simp add: same_data_def)+

lemma same_query_plain: "obeys same_data (query_plain f)"
  unfolding query_plain_def by (intro sd.obeys_seqE same_db_op same_db_read)

lemma same_InTx_obeys: "obeys same_data m \<Longrightarrow> obeys same_data (InTx m)"
  by (rule same_InTx) (simp add: obeys_def same_data_def)

lemma same_unchecked: "obeys same_data (query_unchecked f)"
  unfolding query_unchecked_def
  by (intro sd.obeys_seqE same_db_op sd.obeys_bindE sd.obeys_attempt same_db_read) (auto split: sum.split intro: sd.obeys_ret)

lemma gw_reads:
  "obeys same_data (gw_GetLatest a)" "obeys same_data (gw_GetHistory a f t)" "obeys same_data (gw_GetByDate a f)"
  "obeys same_data (gw_GetTimeline a dm f t)" "obeys same_data (gw_ListRuns n)" "obeys same_data (gw_BtTimeline i a)"
  "obeys same_data (gw_GetEvents i a)" "obeys same_data gw_Ping"
proof -
  show "obeys same_data (gw_GetLatest a)" "obeys same_data (gw_GetByDate a f)"
    unfolding gw_GetLatest_def gw_GetByDate_def GetLatestRegimeState_def GetRegimeStateByDate_def
    by (rule sd.obeys_bindE[OF same_row_or_nil], auto split: option.split intro: sd.obeys_ret sd.obeys_throw)+
  show "obeys same_data (gw_GetHistory a f t)" "obeys same_data (gw_GetTimeline a dm f t)"
    unfolding gw_GetHistory_def gw_GetTimeline_def GetRegimeStateHistory_def GetDomainScoreTimeline_def
    by (rule sd.obeys_bindE[OF same_query_rows sd.obeys_ret])+
  show "obeys same_data (gw_ListRuns n)" "obeys same_data (gw_BtTimeline i a)"
    unfolding gw_ListRuns_def gw_BtTimeline_def ListBacktestRuns_def GetBacktestTimeline_def Let_def
    by (intro same_InTx_obeys same_query_plain sd.obeys_bindE sd.obeys_ret)+
  show "obeys same_data (gw_GetEvents i a)"
    unfolding gw_GetEvents_def GetBacktestEventResults_def
    by (intro same_InTx_obeys sd.obeys_foldE sd.obeys_bindE same_unchecked sd.obeys_ret)
  show "obeys same_data gw_Ping" unfolding gw_Ping_def by (rule same_db_op)
qed

interpretation pg_gw: gw_ports same_data "pg_gateway E"
  by unfold_locales (auto simp: pg_gateway_def gw_reads)

text \<open>What was saved is what the gateway answers with.\<close>

definition stored_as :: "regime_state \<Rightarrow> regime_state" where
  "stored_as st = st\<lparr>rs_contributions := jsonb_floats (rs_contributions st), rs_top_drivers := map jsonb_driver (rs_top_drivers st),
     rs_weights := jsonb_floats (rs_weights st)\<rparr>"

lemma saved_on_day:
  assumes "RegimeRepo_Save st w = (Inr (), w')" "fault_free w" "\<forall>r\<in>set (w_regimes w). r_ingested r < w_clock w (w_ticks w)"
  shows "q_regime_on (rs_asset st) (rs_value_date st) (w_regimes w') = Some (stored_as st) \<and> fault_free w'"
proof -
  have t: "InTx (InsertRegimeState st) w = (Inr (), w')"
    using assms(1) by (auto simp: RegimeRepo_Save_def storage_id split: option.splits)
  obtain w1 w2 where w: "w1 = w\<lparr>w_txtime := w_clock w (w_ticks w), w_ticks := Suc (w_ticks w)\<rparr>"
    "InsertRegimeState st w1 = (Inr (), w2)" "w' = w2\<lparr>w_ticks := Suc (w_ticks w2)\<rparr>"
    using t by (rule InTx_ok)
  have w': "w_regimes w' = w_regimes w @ [\<lparr>r_ingested = w_clock w (w_ticks w), r_val = stored_as st\<rparr>]" "w_fault w' = w_fault w"
    using w by (cases w1 rule: db_op_cases;
        auto simp: InsertRegimeState_def db_write_def bindE_def insert_pk_def stored_as_def split: if_splits)+
  have "latest (where_rows (\<lambda>x. rs_asset x = rs_asset st \<and> rs_value_date x = rs_value_date st) (w_regimes w')) =
      Some \<lparr>r_ingested = w_clock w (w_ticks w), r_val = stored_as st\<rparr>"
    unfolding w' by (simp add: where_rows_Nil stored_as_def) (rule latest_snoc, use assms(3) in auto)
  then show ?thesis using assms(2) by (simp add: q_regime_on_def fault_free_def w'(2))
qed

lemma contributions_answer:
  assumes "fault_free w" "q_regime_on a d (w_regimes w) = Some st" "parseAsset r = Inr a" "parse_day s = Some d"
  shows "fst (regimeContributions (pg_gateway E) r s w) = Inr (writeJSON 200 (regimeStateToJSON st))"
  using assms by (simp add: regimeContributions_def with_param_def parseDate_def answer_def pg_gateway_def gw_GetByDate_def
      GetRegimeStateByDate_def row_or_nil_def query_row_def db_read_def bindE_def attempt_def)

lemma routes_contributions:
  assumes "rq_method r = ''GET''" "rq_path r = [''regime'', s, ''contributions'']" "fst (regimeContributions h r s w) = Inr re"
  shows "fst (Routes h r w) = Inr (re\<lparr>re_headers := cors_headers @ re_headers re\<rparr>)"
  using assms by (cases "regimeContributions h r s w") (simp add: Routes_def corsMiddleware_def serve_mux_def mux_def bindE_def)

text \<open>A saved state with finite figures has a body.\<close>

lemma num_col_finite [simp]: "is_finite (num_col x) = is_finite x"
  by (simp add: num_col_def f64_eval)

lemma json_floats_stored: "json_floats m \<Longrightarrow> json_floats (jsonb_floats m)"
  by (auto simp: json_floats_def jsonb_floats_def ran_def)

lemma encodable_state:
  assumes "is_finite (rs_indicator st)" "is_finite (rs_indicator_raw st)" "is_finite (rs_risk_on st)" "is_finite (rs_risk_off st)"
    "is_finite (rs_transition st)" "json_floats (rs_contributions st)" "json_floats (rs_weights st)" "json_drivers (rs_top_drivers st)"
  shows "encodable (regimeStateToJSON (stored_as st))"
proof -
  have "list_all encodable (map driver_json (map jsonb_driver (rs_top_drivers st)))"
    using assms(8) by (auto simp: json_drivers_def list_all_iff driver_json_def jsonb_driver_def)
  moreover have "list_all encodable (map JStr (rs_flags st))" by (simp add: list_all_iff)
  ultimately show ?thesis using assms by (simp add: regimeStateToJSON_def stored_as_def json_floats_stored)
qed

lemma saved_json:
  assumes "RegimeRepo_Save st w = (Inr (), w')"
  shows "json_floats (rs_contributions st)" "json_floats (rs_weights st)" "json_drivers (rs_top_drivers st)"
proof -
  have "InTx (InsertRegimeState st) w = (Inr (), w')"
    using assms by (auto simp: RegimeRepo_Save_def storage_id split: option.splits)
  then obtain w1 w2 where "w1 = w\<lparr>w_txtime := w_clock w (w_ticks w), w_ticks := Suc (w_ticks w)\<rparr>"
    "InsertRegimeState st w1 = (Inr (), w2)" "w' = w2\<lparr>w_ticks := Suc (w_ticks w2)\<rparr>" by (rule InTx_ok)
  then show "json_floats (rs_contributions st)" "json_floats (rs_weights st)" "json_drivers (rs_top_drivers st)"
    by (auto simp: InsertRegimeState_def split: if_splits)
qed

lemma serves_saved_state:
  assumes save: "RegimeRepo_Save st w = (Inr (), w')" and w: "fault_free w" "\<forall>r\<in>set (w_regimes w). r_ingested r < w_clock w (w_ticks w)"
    and fin: "list_all is_finite [rs_indicator st, rs_indicator_raw st, rs_risk_on st, rs_risk_off st, rs_transition st]"
    and req: "rq_method r = ''GET''" "rq_path r = [''regime'', s, ''contributions'']" "map char_upper (rq_query r ''asset'') = rs_asset st"
    and st: "Asset_IsTradeable (rs_asset st)" "parse_day s = Some (rs_value_date st)"
  shows "fst (Routes (pg_gateway E) r w') = Inr \<lparr>re_status = 200,
    re_headers = cors_headers @ [(''Content-Type'', ''application/json; charset=utf-8'')], re_body = Json (regimeStateToJSON (stored_as st))\<rparr>"
proof -
  have a: "parseAsset r = Inr (rs_asset st)"
    using req(3) st(1) by (auto simp: parseAsset_def validAssets_def Asset_IsTradeable_def AssetBTC_def AssetETH_def)
  have "encodable (regimeStateToJSON (stored_as st))"
    by (rule encodable_state) (use fin saved_json[OF save] in simp_all)
  then have j: "writeJSON 200 (regimeStateToJSON (stored_as st)) = \<lparr>re_status = 200,
      re_headers = [(''Content-Type'', ''application/json; charset=utf-8'')], re_body = Json (regimeStateToJSON (stored_as st))\<rparr>"
    by (simp add: writeJSON_def)
  note q = saved_on_day[OF save w]
  show ?thesis
    using routes_contributions[OF req(1,2) contributions_answer[OF conjunct2[OF q] conjunct1[OF q] a st(2)]] by (simp add: j)
qed

end
