(* ===== verification/Json.thy ===== *)
theory Json
  imports GoText
begin

text \<open>
  \<open>encoding/json\<close> as the clients use it: the reader of a JSON text, and \<open>Unmarshal\<close> into the Go types the replies are
  decoded to.  A value is read together with its text, which \<open>json.RawMessage\<close> keeps; a number is kept as its literal,
  which \<open>json.Number\<close> does.  Strings are bytes: text that is not UTF-8 is not repaired here.
\<close>

section \<open>Values\<close>

datatype json =
    NullJ
  | BoolJ bool
  | NumJ string
  | StrJ string
  | ArrJ "(string \<times> json) list"
  | ObjJ "(string \<times> string \<times> json) list"

type_synonym raw = "string \<times> json"
type_synonym obj = "(string \<times> raw) list"

section \<open>Reading\<close>

definition skip_ws :: "string \<Rightarrow> string" where
  "skip_ws = dropWhile (\<lambda>c. c \<in> set [CHR '' '', CHR 0x09, CHR 0x0A, CHR 0x0D])"

definition hex4 :: "string \<Rightarrow> nat option" where
  "hex4 s = foldl (\<lambda>a c. do { n \<leftarrow> a; d \<leftarrow> digit_val 16 c; Some (16 * n + d) }) (Some 0) s"

definition utf8 :: "nat \<Rightarrow> string" where
  "utf8 n = map char_of
     (if n < 128 then [n]
      else if n < 2048 then [192 + n div 64, 128 + n mod 64]
      else if n < 65536 then [224 + n div 4096, 128 + n div 64 mod 64, 128 + n mod 64]
      else [240 + n div 262144, 128 + n div 4096 mod 64, 128 + n div 64 mod 64, 128 + n mod 64])"

definition surrogate :: "nat \<Rightarrow> bool" where
  "surrogate n \<longleftrightarrow> 55296 \<le> n \<and> n < 57344"

definition low_surrogate :: "nat \<Rightarrow> bool" where
  "low_surrogate n \<longleftrightarrow> 56320 \<le> n \<and> n < 57344"

definition escape_of :: "char \<Rightarrow> char option" where
  "escape_of c = map_of (zip [CHR 0x22, CHR 0x5C, CHR ''/'', CHR ''b'', CHR ''f'', CHR ''n'', CHR ''r'', CHR ''t'']
     [CHR 0x22, CHR 0x5C, CHR ''/'', CHR 0x08, CHR 0x0C, CHR 0x0A, CHR 0x0D, CHR 0x09]) c"

text \<open>
  A string after its opening quote.  The escapes of a surrogate pair make one character; a surrogate on its own becomes
  U+FFFD.
\<close>

text \<open>The second half of a pair, if the text goes on with one.\<close>

definition pair_of :: "nat \<Rightarrow> string \<Rightarrow> nat option" where
  "pair_of n s = (if surrogate n \<and> \<not> low_surrogate n \<and> take 2 s = [CHR 0x5C, CHR ''u''] \<and> 6 \<le> length s then
     do { m \<leftarrow> hex4 (take 4 (drop 2 s)); if low_surrogate m then Some (65536 + (n - 55296) * 1024 + (m - 56320)) else None }
   else None)"

fun read_string :: "string \<Rightarrow> (string \<times> string) option" where
  "read_string [] = None"
| "read_string (c # s) =
     (if c = CHR 0x22 then Some ([], s)
      else if of_char c < (32::nat) then None
      else if c \<noteq> CHR 0x5C then map_option (\<lambda>(t, r). (c # t, r)) (read_string s)
      else (case s of [] \<Rightarrow> None | e # u \<Rightarrow>
        if e \<noteq> CHR ''u'' then (case escape_of e of None \<Rightarrow> None | Some d \<Rightarrow> map_option (\<lambda>(t, r). (d # t, r)) (read_string u))
        else if length u < 4 then None
        else (case hex4 (take 4 u) of None \<Rightarrow> None | Some n \<Rightarrow>
          (case pair_of n (drop 4 u) of
             Some k \<Rightarrow> map_option (\<lambda>(t, r). (utf8 k @ t, r)) (read_string (drop 10 u))
           | None \<Rightarrow> map_option (\<lambda>(t, r). ((if surrogate n then utf8 65533 else utf8 n) @ t, r)) (read_string (drop 4 u))))))"

definition take_digits :: "string \<Rightarrow> string \<times> string" where
  "take_digits s = (takeWhile (\<lambda>c. undig c \<noteq> None) s, dropWhile (\<lambda>c. undig c \<noteq> None) s)"

text \<open>A number: an integer without leading zeros, a fraction and an exponent.\<close>

definition read_whole :: "string \<Rightarrow> string \<times> string" where
  "read_whole s = (if take 1 s = ''0'' then (''0'', drop 1 s) else take_digits s)"

definition read_frac :: "string \<Rightarrow> string \<times> string" where
  "read_frac s = (if take 1 s = ''.'' then (case take_digits (drop 1 s) of (d, r) \<Rightarrow> if d = [] then ([], s) else (''.'' @ d, r)) else ([], s))"

definition read_expo :: "string \<Rightarrow> string \<times> string" where
  "read_expo s = (case s of [] \<Rightarrow> ([], []) | c # r \<Rightarrow>
     if char_lower c \<noteq> CHR ''e'' then ([], s)
     else (let sg = (if take 1 r \<in> {''+'', ''-''} then take 1 r else []) in
       (case take_digits (drop (length sg) r) of (d, r') \<Rightarrow> if d = [] then ([], s) else (c # sg @ d, r'))))"

definition read_number :: "string \<Rightarrow> (string \<times> string) option" where
  "read_number s = (let sg = (if take 1 s = ''-'' then ''-'' else []) in
     (case read_whole (drop (length sg) s) of (ip, s1) \<Rightarrow>
        if ip = [] then None
        else (case read_frac s1 of (fr, s2) \<Rightarrow> (case read_expo s2 of (ex, s3) \<Rightarrow> Some (sg @ ip @ fr @ ex, s3)))))"

definition valid_number :: "string \<Rightarrow> bool" where
  "valid_number s = (case read_number s of Some (n, r) \<Rightarrow> r = [] | None \<Rightarrow> False)"

text \<open>The text a reader consumed.\<close>

definition consumed :: "string \<Rightarrow> string \<Rightarrow> string" where
  "consumed s r = take (length s - length r) s"

definition read_atom :: "string \<Rightarrow> (json \<times> string) option" where
  "read_atom s =
     (if take 4 s = ''null'' then Some (NullJ, drop 4 s)
      else if take 4 s = ''true'' then Some (BoolJ True, drop 4 s)
      else if take 5 s = ''false'' then Some (BoolJ False, drop 5 s)
      else if take 1 s = [CHR 0x22] then map_option (\<lambda>(t, r). (StrJ t, r)) (read_string (drop 1 s))
      else map_option (\<lambda>(t, r). (NumJ t, r)) (read_number s))"

text \<open>
  A value, the rest of an array and the rest of an object, each at a byte that is not a blank.  The first argument bounds
  the depth of the calls; the length of the text is enough.
\<close>

fun read_value :: "nat \<Rightarrow> string \<Rightarrow> (json \<times> string) option"
  and read_elems :: "nat \<Rightarrow> string \<Rightarrow> ((string \<times> json) list \<times> string) option"
  and read_members :: "nat \<Rightarrow> string \<Rightarrow> ((string \<times> string \<times> json) list \<times> string) option" where
  "read_value 0 s = None"
| "read_value (Suc n) s =
     (if take 1 s = ''['' then
        (let r = skip_ws (drop 1 s) in
         if take 1 r = '']'' then Some (ArrJ [], drop 1 r) else map_option (\<lambda>(xs, t). (ArrJ xs, t)) (read_elems n r))
      else if take 1 s = ''{'' then
        (let r = skip_ws (drop 1 s) in
         if take 1 r = ''}'' then Some (ObjJ [], drop 1 r) else map_option (\<lambda>(xs, t). (ObjJ xs, t)) (read_members n r))
      else read_atom s)"
| "read_elems 0 s = None"
| "read_elems (Suc n) s =
     do { (v, r) \<leftarrow> read_value n s;
          let x = (consumed s r, v); t = skip_ws r in
          if take 1 t = '','' then map_option (\<lambda>(xs, u). (x # xs, u)) (read_elems n (skip_ws (drop 1 t)))
          else if take 1 t = '']'' then Some ([x], drop 1 t) else None }"
| "read_members 0 s = None"
| "read_members (Suc n) s =
     (if take 1 s = [CHR 0x22] then
        do { (k, r) \<leftarrow> read_string (drop 1 s);
             let r1 = skip_ws r; r2 = skip_ws (drop 1 r1) in
             if take 1 r1 \<noteq> '':'' then None
             else do { (v, r3) \<leftarrow> read_value n r2;
                  let x = (k, consumed r2 r3, v); t = skip_ws r3 in
                  if take 1 t = '','' then map_option (\<lambda>(xs, u). (x # xs, u)) (read_members n (skip_ws (drop 1 t)))
                  else if take 1 t = ''}'' then Some ([x], drop 1 t) else None } }
      else None)"

definition read_json :: "string \<Rightarrow> raw option" where
  "read_json s = (let r = skip_ws s in
     do { (v, t) \<leftarrow> read_value (Suc (length s)) r; if skip_ws t = [] then Some (consumed r t, v) else None })"

section \<open>Unmarshal\<close>

text \<open>
  A decoder takes the value its target holds and a JSON value, and gives the value the target holds then, or nothing when
  \<open>Unmarshal\<close> returns an error.  \<open>null\<close> leaves strings, numbers, booleans and structs as they are.
\<close>

type_synonym 'a decoder = "'a \<Rightarrow> raw \<Rightarrow> 'a option"

definition dec_string :: "string decoder" where
  "dec_string x r = (case snd r of NullJ \<Rightarrow> Some x | StrJ s \<Rightarrow> Some s | _ \<Rightarrow> None)"

definition dec_bool :: "bool decoder" where
  "dec_bool x r = (case snd r of NullJ \<Rightarrow> Some x | BoolJ b \<Rightarrow> Some b | _ \<Rightarrow> None)"

text \<open>\<open>json.Number\<close>: a number's literal, or a string that is one.\<close>

definition dec_number :: "string decoder" where
  "dec_number x r = (case snd r of NullJ \<Rightarrow> Some x | NumJ n \<Rightarrow> Some n | StrJ s \<Rightarrow> if valid_number s then Some s else None | _ \<Rightarrow> None)"

text \<open>\<open>int64\<close> takes literals without fraction and exponent, in range; \<open>float64\<close> takes those in range.\<close>

definition dec_int64 :: "int decoder" where
  "dec_int64 x r = (case snd r of NullJ \<Rightarrow> Some x | NumJ n \<Rightarrow> (case ParseInt n of (v, ok) \<Rightarrow> if ok then Some v else None) | _ \<Rightarrow> None)"

definition dec_float :: "f64 decoder" where
  "dec_float x r = (case snd r of NullJ \<Rightarrow> Some x | NumJ n \<Rightarrow> (case ParseFloat n of (v, ok) \<Rightarrow> if ok then Some v else None) | _ \<Rightarrow> None)"

text \<open>\<open>json.RawMessage\<close>: \<open>null\<close> is kept as well; a target that was never set is \<open>None\<close>.\<close>

definition dec_raw :: "raw option decoder" where
  "dec_raw x r = Some (Some r)"

text \<open>A slice is decoded afresh; each element starts from the zero value.\<close>

fun decode_all :: "(raw \<Rightarrow> 'a option) \<Rightarrow> raw list \<Rightarrow> 'a list option" where
  "decode_all d [] = Some []"
| "decode_all d (r # rs) = do { x \<leftarrow> d r; xs \<leftarrow> decode_all d rs; Some (x # xs) }"

definition dec_slice :: "(raw \<Rightarrow> 'a option) \<Rightarrow> 'a list decoder" where
  "dec_slice d x r = (case snd r of NullJ \<Rightarrow> Some [] | ArrJ rs \<Rightarrow> decode_all d rs | _ \<Rightarrow> None)"

text \<open>A map keeps its entries and takes new ones; \<open>null\<close> makes it nil.\<close>

fun decode_entries :: "(raw \<Rightarrow> 'a option) \<Rightarrow> (string \<rightharpoonup> 'a) \<Rightarrow> obj \<Rightarrow> (string \<rightharpoonup> 'a) option" where
  "decode_entries d m [] = Some m"
| "decode_entries d m ((k, r) # fs) = do { x \<leftarrow> d r; decode_entries d (m(k \<mapsto> x)) fs }"

definition dec_map :: "(raw \<Rightarrow> 'a option) \<Rightarrow> (string \<rightharpoonup> 'a) decoder" where
  "dec_map d m r = (case snd r of NullJ \<Rightarrow> Some Map.empty | ObjJ fs \<Rightarrow> decode_entries d m fs | _ \<Rightarrow> None)"

text \<open>\<open>any\<close>: the value itself, provided every number in it is in range.\<close>

fun nums_ok :: "json \<Rightarrow> bool" where
  "nums_ok (NumJ n) = snd (ParseFloat n)"
| "nums_ok (ArrJ rs) = list_all (\<lambda>r. nums_ok (snd r)) rs"
| "nums_ok (ObjJ fs) = list_all (\<lambda>f. nums_ok (snd (snd f))) fs"
| "nums_ok _ = True"

definition dec_any :: "json decoder" where
  "dec_any x r = (if nums_ok (snd r) then Some (snd r) else None)"

text \<open>
  A struct: every member whose key is the field's name in any letter case is decoded into it, in the order of the text.
\<close>

definition fields_of :: "obj decoder" where
  "fields_of x r = (case snd r of NullJ \<Rightarrow> Some x | ObjJ fs \<Rightarrow> Some (x @ fs) | _ \<Rightarrow> None)"

fun field :: "'a decoder \<Rightarrow> 'a \<Rightarrow> string \<Rightarrow> obj \<Rightarrow> 'a option" where
  "field d x name [] = Some x"
| "field d x name ((k, r) # fs) = (if ToLower k = ToLower name then do { y \<leftarrow> d x r; field d y name fs } else field d x name fs)"

definition dec_struct :: "(obj \<Rightarrow> 'a option) \<Rightarrow> raw \<Rightarrow> 'a option" where
  "dec_struct f r = do { fs \<leftarrow> fields_of [] r; f fs }"

definition json_syntax :: err where
  "json_syntax = Fresh ''json: cannot decode'' []"

definition Unmarshal :: "(raw \<Rightarrow> 'a option) \<Rightarrow> string \<Rightarrow> err + 'a" where
  "Unmarshal d body = (case do { r \<leftarrow> read_json body; d r } of None \<Rightarrow> Inl json_syntax | Some x \<Rightarrow> Inr x)"

text \<open>Of a raw message; one that was never set has no bytes and is not a JSON text.\<close>

definition Unmarshal_raw :: "(raw \<Rightarrow> 'a option) \<Rightarrow> raw option \<Rightarrow> err + 'a" where
  "Unmarshal_raw d m = (case do { r \<leftarrow> m; d r } of None \<Rightarrow> Inl json_syntax | Some x \<Rightarrow> Inr x)"

text \<open>The methods of \<open>json.Number\<close>.\<close>

definition num_float :: "string \<Rightarrow> f64" where "num_float n = fst (ParseFloat n)"
definition num_int :: "string \<Rightarrow> int" where "num_int n = fst (ParseInt n)"

lemma field_absent: "\<forall>(k, r)\<in>set fs. ToLower k \<noteq> ToLower name \<Longrightarrow> field d x name fs = Some x"
  by (induction fs) auto

text \<open>Fields of a struct by the type of the Go field.\<close>

definition f_str :: "string \<Rightarrow> obj \<Rightarrow> string option" where "f_str = field dec_string []"
definition f_num :: "string \<Rightarrow> obj \<Rightarrow> string option" where "f_num = field dec_number []"
definition f_int :: "string \<Rightarrow> obj \<Rightarrow> int option" where "f_int = field dec_int64 0"
definition f_float :: "string \<Rightarrow> obj \<Rightarrow> f64 option" where "f_float = field dec_float fzero"

section \<open>Marshal\<close>

text \<open>\<open>json.Marshal\<close> of strings: quotes, backslashes, control characters and the letters of HTML are escaped.\<close>

definition hex_lower :: "nat \<Rightarrow> char" where
  "hex_lower n = ''0123456789abcdef'' ! n"

definition json_char :: "char \<Rightarrow> string" where
  "json_char c = (let n = of_char c :: nat in
     if c = CHR 0x22 \<or> c = CHR 0x5C then [CHR 0x5C, c]
     else if n = 8 then [CHR 0x5C, CHR ''b''] else if n = 12 then [CHR 0x5C, CHR ''f''] else if n = 10 then [CHR 0x5C, CHR ''n'']
     else if n = 13 then [CHR 0x5C, CHR ''r''] else if n = 9 then [CHR 0x5C, CHR ''t'']
     else if n < 32 \<or> c \<in> set ''<>&'' then [CHR 0x5C, CHR ''u'', CHR ''0'', CHR ''0'', hex_lower (n div 16), hex_lower (n mod 16)]
     else [c])"

definition json_string :: "string \<Rightarrow> string" where
  "json_string s = [CHR 0x22] @ concat (map json_char s) @ [CHR 0x22]"

definition json_object :: "(string \<times> string) list \<Rightarrow> string" where
  "json_object fs = ''{'' @ str_join '','' (map (\<lambda>(k, v). json_string k @ '':'' @ v) fs) @ ''}''"

definition json_strings :: "string list \<Rightarrow> string" where
  "json_strings xs = ''['' @ str_join '','' (map json_string xs) @ '']''"

definition json_number :: "string \<Rightarrow> string" where
  "json_number n = (if n = [] then ''0'' else n)"

section \<open>Facts\<close>

lemma decode_all_Some: "decode_all d rs = Some xs \<longleftrightarrow> map d rs = map Some xs"
  by (induction rs arbitrary: xs) (auto simp: bind_eq_Some_conv map_eq_Cons_conv)

lemma decode_all_length: "decode_all d rs = Some xs \<Longrightarrow> length xs = length rs"
  by (auto simp: decode_all_Some dest: map_eq_imp_length_eq)

lemma Unmarshal_raw_Inr: "Unmarshal_raw d m = Inr x \<longleftrightarrow> (\<exists>r. m = Some r \<and> d r = Some x)"
  by (auto simp: Unmarshal_raw_def split: option.splits bind_splits)

lemma Unmarshal_Inr: "Unmarshal d b = Inr x \<longleftrightarrow> (\<exists>r. read_json b = Some r \<and> d r = Some x)"
  by (auto simp: Unmarshal_def split: option.splits bind_splits)

end
