(* ===== verification/HttpClient.thy ===== *)
theory HttpClient
  imports Json
begin

text \<open>
  \<open>pkg/httpclient\<close>: the client every data source is read with.  The network (\<open>net/http\<close>), the clock and SHA-256 are a
  parameter, record \<open>net\<close>; what is sent and how the reply is judged is the code's.  A context is the number of requests
  that may be sent before it is cancelled; a client keeps the time of its last request in a cell of the world.
\<close>

section \<open>The network\<close>

record http_request =
  hq_url :: string
  hq_headers :: "string \<rightharpoonup> string"
  hq_timeout :: int

datatype http_reply = DoFails err | ReadFails err | Reply int string

record 'w net =
  nt_bad_url :: "string \<Rightarrow> err option"
  nt_do :: "http_request \<Rightarrow> 'w \<Rightarrow> http_reply \<times> 'w"
  nt_now :: "'w \<Rightarrow> gotime \<times> 'w"
  nt_sleep :: "int \<Rightarrow> 'w \<Rightarrow> 'w"
  nt_sha256 :: "string \<Rightarrow> string"
  nt_float_text :: "f64 \<Rightarrow> string"
  nt_keys :: "string set \<Rightarrow> string list"

record 'w cell =
  ce_get :: "'w \<Rightarrow> gotime"
  ce_set :: "gotime \<Rightarrow> 'w \<Rightarrow> 'w"

section \<open>The client\<close>

record 'w http_client =
  hc_base :: string
  hc_headers :: "string \<rightharpoonup> string"
  hc_timeout :: int
  hc_throttle :: int
  hc_cell :: "'w cell"

type_synonym 'w http_option = "'w http_client \<Rightarrow> 'w http_client"

definition New :: "'w cell \<Rightarrow> 'w http_option list \<Rightarrow> 'w http_client" where
  "New c opts = foldl (\<lambda>cl opt. opt cl)
     \<lparr>hc_base = [], hc_headers = Map.empty, hc_timeout = 30 * 1000000000, hc_throttle = 0, hc_cell = c\<rparr> opts"

definition WithBaseURL :: "string \<Rightarrow> 'w http_option" where
  "WithBaseURL u c = c\<lparr>hc_base := trim_right (CHR ''/'') u\<rparr>"

definition WithTimeout :: "int \<Rightarrow> 'w http_option" where
  "WithTimeout d c = c\<lparr>hc_timeout := d\<rparr>"

definition WithHeader :: "string \<Rightarrow> string \<Rightarrow> 'w http_option" where
  "WithHeader k v c = c\<lparr>hc_headers := (hc_headers c)(k \<mapsto> v)\<rparr>"

definition WithThrottle :: "int \<Rightarrow> 'w http_option" where
  "WithThrottle d c = c\<lparr>hc_throttle := d\<rparr>"

text \<open>A cancelled context ends the pause at once.\<close>

definition waitThrottle :: "'w net \<Rightarrow> 'w http_client \<Rightarrow> nat \<Rightarrow> 'w \<Rightarrow> 'w" where
  "waitThrottle e c ctx w =
     (if hc_throttle c \<le> 0 then w
      else (case nt_now e w of (t, w1) \<Rightarrow>
        let wait = hc_throttle c - time_sub t (ce_get (hc_cell c) w1);
            w2 = (if 0 < wait \<and> 0 < ctx then nt_sleep e wait w1 else w1) in
        (case nt_now e w2 of (t', w3) \<Rightarrow> ce_set (hc_cell c) t' w3)))"

definition Truncate :: "string \<Rightarrow> nat \<Rightarrow> string" where
  "Truncate b n = (if n < length b then take n b @ ''...'' else b)"

definition ctx_cancelled :: err where
  "ctx_cancelled = Fresh ''context canceled'' []"

definition request_of :: "'w http_client \<Rightarrow> string \<Rightarrow> http_request" where
  "request_of c path =
     \<lparr>hq_url = (if has_prefix path ''http'' then path else hc_base c @ path),
      hq_headers = [''Accept'' \<mapsto> ''application/json''] ++ hc_headers c, hq_timeout = hc_timeout c\<rparr>"

definition Get :: "'w net \<Rightarrow> 'w http_client \<Rightarrow> nat \<Rightarrow> string \<Rightarrow> ('w, string) io" where
  "Get e c ctx path w =
     (let w1 = waitThrottle e c ctx w; rq = request_of c path in
      case nt_bad_url e (hq_url rq) of
        Some er \<Rightarrow> (Inl (Wrap ''build request'' [] er), w1)
      | None \<Rightarrow>
          if ctx = 0 then (Inl (Wrap ''http do'' [] ctx_cancelled), w1)
          else (case nt_do e rq w1 of
              (DoFails er, w2) \<Rightarrow> (Inl (Wrap ''http do'' [] er), w2)
            | (ReadFails er, w2) \<Rightarrow> (Inl (Wrap ''read body'' [] er), w2)
            | (Reply st body, w2) \<Rightarrow>
                if st < 200 \<or> 300 \<le> st then (Inl (Fresh ''status %d: %s'' [AInt st, AStr (Truncate body 200)]), w2)
                else (Inr body, w2)))"

definition GetJSON :: "'w net \<Rightarrow> 'w http_client \<Rightarrow> nat \<Rightarrow> string \<Rightarrow> (raw \<Rightarrow> 'a option) \<Rightarrow> ('w, 'a) io" where
  "GetJSON e c ctx path d =
     bindE (Get e c ctx path) (\<lambda>body. wrapE ''decode json'' [] (liftE (Unmarshal d body)))"

text \<open>A loop over rows that returns at the first error.\<close>

fun fold_sum :: "('s \<Rightarrow> 'x \<Rightarrow> err + 's) \<Rightarrow> 's \<Rightarrow> 'x list \<Rightarrow> err + 's" where
  "fold_sum f s [] = Inr s"
| "fold_sum f s (x # xs) = (case f s x of Inl er \<Rightarrow> Inl er | Inr s' \<Rightarrow> fold_sum f s' xs)"

section \<open>Pages\<close>

text \<open>
  A loop that sends a request in each round: \<open>step\<close> is given what is left of the context and says whether to go on.  A
  round with a cancelled context fails, so the loop ends with that error at the latest.
\<close>

fun pages :: "nat \<Rightarrow> ('s \<Rightarrow> bool) \<Rightarrow> (nat \<Rightarrow> 's \<Rightarrow> ('w, 's \<times> bool) io) \<Rightarrow> 's \<Rightarrow> ('w, 's) io" where
  "pages 0 goon step s = (if goon s then bindE (step 0 s) (\<lambda>_. throw ctx_cancelled) else ret s)"
| "pages (Suc n) goon step s =
     (if goon s then bindE (step (Suc n) s) (\<lambda>r. if snd r then pages n goon step (fst r) else ret (fst r)) else ret s)"

text \<open>Hashing the i-th element of a JSON array as it stands in the text, or the index when there is none.\<close>

definition hashRawElement :: "'w net \<Rightarrow> string \<Rightarrow> nat \<Rightarrow> string" where
  "hashRawElement e body i =
     (case read_json body of
        Some (_, ArrJ rs) \<Rightarrow> if i < length rs then nt_sha256 e (fst (rs ! i)) else nt_sha256 e (itoa (int i))
      | _ \<Rightarrow> nt_sha256 e (itoa (int i)))"

text \<open>What indexing past the end of a slice stands for: the run ends there.\<close>

definition index_panic :: err where
  "index_panic = Fresh ''panic: runtime error: index out of range'' []"

section \<open>What the requests satisfy\<close>

text \<open>A cancelled context sends nothing and fails.\<close>

lemma Get_cancelled: "\<exists>er. Get e c 0 path w = (Inl er, waitThrottle e c 0 w)"
  by (auto simp: Get_def Let_def split: option.split)

text \<open>A body is what the network answered to this very request, with a status of 200 to 299.\<close>

lemma Get_ok:
  "Get e c ctx path w = (Inr body, w') \<longleftrightarrow>
   0 < ctx \<and> nt_bad_url e (hq_url (request_of c path)) = None \<and>
   (\<exists>st\<in>{200..299}. nt_do e (request_of c path) (waitThrottle e c ctx w) = (Reply st body, w'))"
  by (auto simp: Get_def Let_def split: option.splits http_reply.splits prod.splits)

lemma waitThrottle_ctx: "waitThrottle e c (Suc n) = waitThrottle e c 1"
  by (rule ext) (simp add: waitThrottle_def Let_def split: prod.split)

lemma Get_ctx: "Get e c (Suc n) path = Get e c 1 path"
  by (rule ext) (simp add: Get_def Let_def waitThrottle_ctx[of e c n])

text \<open>A loop that has enough context gives the same with more.\<close>

lemma pages_more:
  assumes "\<And>n s. step (Suc n) s = step 1 s"
  shows "pages n goon step s w = (Inr s', w') \<Longrightarrow> n \<le> m \<Longrightarrow> pages m goon step s w = (Inr s', w')"
proof (induction n arbitrary: m s w)
  case 0
  then have "\<not> goon s" by (auto simp: bindE_eq_Inr split: if_splits)
  with 0 show ?case by (cases m) auto
next
  case (Suc n)
  then obtain k where k: "m = Suc k" "n \<le> k" by (cases m) auto
  show ?case using Suc.prems(1) Suc.IH[OF _ k(2)] assms[of n] assms[of k]
    by (fastforce simp: k(1) bindE_eq_Inr split: if_splits)
qed

lemma liftE_run [simp]: "liftE (Inr x) = ret x" "liftE (Inl er) = throw er"
  by (simp_all add: liftE_def)

text \<open>
  The pause between two requests of a client: when the clock does not run backwards and sleeping lasts, the recorded
  times are at least the throttle apart.
\<close>

lemma waitThrottle_apart:
  assumes now: "\<And>w. fst (nt_now e w) = clk w" "\<And>w. clk (snd (nt_now e w)) = clk w"
    and cell: "\<And>w. ce_get (hc_cell c) (snd (nt_now e w)) = ce_get (hc_cell c) w" "\<And>t w. ce_get (hc_cell c) (ce_set (hc_cell c) t w) = t"
    and slp: "\<And>d w. 0 < d \<Longrightarrow> clk w + d \<le> clk (nt_sleep e d w)"
    and thr: "0 < hc_throttle c" "hc_throttle c < 2 ^ 63"
    and past: "ce_get (hc_cell c) w \<le> clk w" and live: "0 < ctx"
  shows "ce_get (hc_cell c) w + hc_throttle c \<le> ce_get (hc_cell c) (waitThrottle e c ctx w)"
proof -
  obtain t w1 where 1: "nt_now e w = (t, w1)" by fastforce
  have t: "t = clk w" "clk w1 = clk w" "ce_get (hc_cell c) w1 = ce_get (hc_cell c) w"
    using now[of w] cell(1)[of w] 1 by auto
  let ?l = "ce_get (hc_cell c) w" and ?wait = "hc_throttle c - time_sub t (ce_get (hc_cell c) w)"
  obtain t2 w3 where 2: "nt_now e (if 0 < ?wait then nt_sleep e ?wait w1 else w1) = (t2, w3)" by fastforce
  have t2: "t2 = clk (if 0 < ?wait then nt_sleep e ?wait w1 else w1)" using now(1) 2 by (metis fst_conv)
  have sub: "time_sub t ?l \<le> t - ?l" "time_sub t ?l = t - ?l \<or> hc_throttle c \<le> time_sub t ?l"
    using past thr t(1) by (auto simp: time_sub_def max_def min_def)
  have "?l + hc_throttle c \<le> t2"
  proof (cases "0 < ?wait")
    case True
    then show ?thesis using slp[OF True, of w1] t2 t sub by auto
  next
    case False
    then show ?thesis using t2 t sub by auto
  qed
  then show ?thesis using thr(1) 2 live by (auto simp: waitThrottle_def 1 t(3) Let_def cell(2) split: if_splits)
qed

text \<open>
  A network whose clock does not run backwards, whose sleep lasts, and which leaves the record of the last request alone.
\<close>

definition steady :: "'w net \<Rightarrow> 'w cell \<Rightarrow> ('w \<Rightarrow> gotime) \<Rightarrow> bool" where
  "steady e cl clk \<longleftrightarrow>
     (\<forall>w. fst (nt_now e w) = clk w \<and> clk (snd (nt_now e w)) = clk w \<and> ce_get cl (snd (nt_now e w)) = ce_get cl w) \<and>
     (\<forall>t w. ce_get cl (ce_set cl t w) = t \<and> clk (ce_set cl t w) = clk w) \<and>
     (\<forall>d w. clk w + d \<le> clk (nt_sleep e d w) \<and> clk w \<le> clk (nt_sleep e d w)) \<and>
     (\<forall>rq w. clk w \<le> clk (snd (nt_do e rq w)) \<and> ce_get cl (snd (nt_do e rq w)) = ce_get cl w)"

lemma waitThrottle_now:
  assumes "steady e (hc_cell c) clk" "0 < hc_throttle c"
  shows "ce_get (hc_cell c) (waitThrottle e c ctx w) = clk (waitThrottle e c ctx w)"
  using assms by (auto simp: waitThrottle_def steady_def Let_def split: prod.splits) (metis fst_conv snd_conv)+

lemma Get_keeps_cell:
  assumes "steady e (hc_cell c) clk" "Get e c ctx path w = (r, w')"
  shows "ce_get (hc_cell c) w' = ce_get (hc_cell c) (waitThrottle e c ctx w)" and "clk (waitThrottle e c ctx w) \<le> clk w'"
proof -
  have "w' = waitThrottle e c ctx w \<or> (\<exists>rq. w' = snd (nt_do e rq (waitThrottle e c ctx w)))"
    using assms(2) by (auto simp: Get_def Let_def split: option.splits if_splits prod.splits http_reply.splits) (metis snd_conv)+
  then show "ce_get (hc_cell c) w' = ce_get (hc_cell c) (waitThrottle e c ctx w)" "clk (waitThrottle e c ctx w) \<le> clk w'"
    using assms(1) by (auto simp: steady_def)
qed

lemma Get_apart:
  assumes st: "steady e (hc_cell c) clk" and thr: "0 < hc_throttle c" "hc_throttle c < 2 ^ 63"
    and req: "Get e c m path w = (r, w1)" "Get e c n path' w1 = (r', w2)" "0 < n"
  shows "ce_get (hc_cell c) w1 + hc_throttle c \<le> ce_get (hc_cell c) w2"
proof -
  have "ce_get (hc_cell c) w1 \<le> clk w1" using Get_keeps_cell[OF st req(1)] waitThrottle_now[OF st thr(1)] by simp
  then have "ce_get (hc_cell c) w1 + hc_throttle c \<le> ce_get (hc_cell c) (waitThrottle e c n w1)"
    using st thr req(3) by (intro waitThrottle_apart[where clk = clk]) (auto simp: steady_def)
  then show ?thesis using Get_keeps_cell[OF st req(2)] by simp
qed

end
