(* ===== verification/Coinglass.thy ===== *)
theory Coinglass
  imports HttpClient
begin

text \<open>
  \<open>internal/repo/webapi/coinglass/client.go\<close>: the client of the Coinglass API.  Every reply is an envelope with a code,
  a message and the data; a row struct is decoded to the tuple of its fields, and each row becomes a point.
\<close>

section \<open>Points\<close>

record oi_history_point =
  goi_date :: gotime
  goi_symbol :: string
  goi_exchange :: string
  goi_usd :: f64
  goi_hash :: string

record liquidation_point =
  glq_date :: gotime
  glq_symbol :: string
  glq_long :: f64
  glq_short :: f64
  glq_hash :: string

record etf_flow_item =
  gef_date :: gotime
  gef_flow :: f64
  gef_price :: f64
  gef_hash :: string

record funding_ohlc_point =
  gfu_time :: gotime
  gfu_symbol :: string
  gfu_close :: f64
  gfu_hash :: string

record long_short_point =
  gls_date :: gotime
  gls_symbol :: string
  gls_exchange :: string
  gls_long :: f64
  gls_short :: f64
  gls_ratio :: f64
  gls_hash :: string

record taker_volume_point =
  gtk_date :: gotime
  gtk_symbol :: string
  gtk_buy :: f64
  gtk_sell :: f64
  gtk_hash :: string

record borrow_rate_point =
  gbr_date :: gotime
  gbr_symbol :: string
  gbr_exchange :: string
  gbr_rate :: f64
  gbr_hash :: string

record stablecoin_mcap_point =
  gsm_date :: gotime
  gsm_cap :: f64
  gsm_price :: f64
  gsm_hash :: string

record exchange_balance =
  geb_exchange :: string
  geb_symbol :: string
  geb_total :: f64
  geb_change1d :: f64
  geb_change7d :: f64
  geb_change30d :: f64
  geb_pct1d :: f64
  geb_pct7d :: f64
  geb_pct30d :: f64
  geb_hash :: string

record bitfinex_point =
  gbm_time :: gotime
  gbm_symbol :: string
  gbm_long :: f64
  gbm_short :: f64
  gbm_hash :: string

record options_info_item =
  goo_exchange :: string
  goo_symbol :: string
  goo_oi :: f64
  goo_share :: f64
  goo_change24h :: f64
  goo_oi_usd :: f64
  goo_volume :: f64
  goo_volume_change :: f64
  goo_call_oi :: f64
  goo_put_oi :: f64
  goo_hash :: string

record options_oi_item =
  gox_date :: gotime
  gox_exchange :: string
  gox_symbol :: string
  gox_oi :: f64
  gox_hash :: string

record etf_list_item =
  gel_ticker :: string
  gel_fund :: string
  gel_region :: string
  gel_status :: string
  gel_venue :: string
  gel_kind :: string
  gel_shares :: f64
  gel_aum :: f64
  gel_fee :: f64
  gel_volume :: f64
  gel_price_change :: f64
  gel_nav :: f64
  gel_premium :: f64
  gel_holding :: f64
  gel_pct24h :: f64
  gel_qty24h :: f64
  gel_pct7d :: f64
  gel_qty7d :: f64
  gel_update :: string
  gel_hash :: string

record etf_aum_item =
  gea_date :: gotime
  gea_ticker :: string
  gea_aum :: f64
  gea_hash :: string

record orderbook_item =
  gob_date :: gotime
  gob_symbol :: string
  gob_bids_usd :: f64
  gob_bids_qty :: f64
  gob_asks_usd :: f64
  gob_asks_qty :: f64
  gob_hash :: string

record vol_ratio_item =
  gfs_date :: gotime
  gfs_symbol :: string
  gfs_ratio :: f64
  gfs_futures :: f64
  gfs_spot :: f64
  gfs_hash :: string

record max_pain_item =
  gmp_date :: gotime
  gmp_symbol :: string
  gmp_exchange :: string
  gmp_price :: f64
  gmp_call_oi :: f64
  gmp_put_oi :: f64
  gmp_call_usd :: f64
  gmp_put_usd :: f64
  gmp_call_value :: f64
  gmp_put_value :: f64
  gmp_hash :: string

record lth_supply_item =
  glt_time :: gotime
  glt_supply :: f64
  glt_price :: f64
  glt_hash :: string

record market_data_item =
  gmd_time :: gotime
  gmd_symbol :: string
  gmd_price :: f64
  gmd_cap :: f64
  gmd_supply :: f64
  gmd_hash :: string

record btc_mcap_item =
  gbc_time :: gotime
  gbc_cap :: f64
  gbc_price :: f64
  gbc_hash :: string

record premium_item =
  gcp_date :: gotime
  gcp_usd :: f64
  gcp_rate :: f64
  gcp_coinbase :: f64
  gcp_hash :: string

record basis_item =
  gfb_date :: gotime
  gfb_symbol :: string
  gfb_exchange :: string
  gfb_annualized :: f64
  gfb_close :: f64
  gfb_hash :: string

section \<open>The envelope\<close>

definition cg_base_url :: string where
  "cg_base_url = ''https://open-api-v4.coinglass.com/api''"

definition cg_New :: "'w cell \<Rightarrow> string \<Rightarrow> int \<Rightarrow> 'w http_client" where
  "cg_New cl apiKey timeout = New cl [WithBaseURL cg_base_url, WithTimeout timeout, WithHeader ''CG-API-KEY'' apiKey]"

definition v4Response :: "obj \<Rightarrow> (string \<times> raw option \<times> string) option" where
  "v4Response ob = do { code \<leftarrow> f_str ''code'' ob; data \<leftarrow> field dec_raw None ''data'' ob; msg \<leftarrow> f_str ''msg'' ob; Some (code, data, msg) }"

definition cg_fetch :: "'w net \<Rightarrow> 'w http_client \<Rightarrow> nat \<Rightarrow> string \<Rightarrow> ('w, raw option) io" where
  "cg_fetch e c ctx path =
     bindE (wrapE ''coinglass'' [] (Get e c ctx path)) (\<lambda>body.
     bindE (wrapE ''coinglass: decode envelope'' [] (liftE (Unmarshal (dec_struct v4Response) body))) (\<lambda>(code, data, msg).
       if code \<noteq> ''0'' then throw (Fresh ''coinglass API error code=%s msg=%s'' [AStr code, AStr msg]) else ret data))"

text \<open>
  The shape most calls share: fetch, decode the data, turn each row into a point.  \<open>fe\<close> and \<open>de\<close> are the texts the two
  errors are wrapped in.
\<close>

definition cg_decoded :: "'w net \<Rightarrow> 'w http_client \<Rightarrow> nat \<Rightarrow> string \<Rightarrow> string \<times> anyval list \<Rightarrow> string \<times> anyval list \<Rightarrow>
    (raw \<Rightarrow> 'r option) \<Rightarrow> ('w, 'r) io" where
  "cg_decoded e c ctx path fe de d =
     bindE (wrapE (fst fe) (snd fe) (cg_fetch e c ctx path)) (\<lambda>data. wrapE (fst de) (snd de) (liftE (Unmarshal_raw d data)))"

definition cg_rows :: "'w net \<Rightarrow> 'w http_client \<Rightarrow> nat \<Rightarrow> string \<Rightarrow> string \<times> anyval list \<Rightarrow> string \<times> anyval list \<Rightarrow>
    (obj \<Rightarrow> 'r option) \<Rightarrow> ('r \<Rightarrow> 'p) \<Rightarrow> ('w, 'p list) io" where
  "cg_rows e c ctx path fe de row mk =
     bindE (cg_decoded e c ctx path fe de (dec_slice (dec_struct row) [])) (\<lambda>rows. ret (map mk rows))"

definition range_params :: "gotime \<Rightarrow> gotime \<Rightarrow> string" where
  "range_params since until =
     (if since = zero_time then [] else ''&start_time='' @ itoa (unix_milli since)) @
     (if until = zero_time then [] else ''&end_time='' @ itoa (unix_milli until))"

definition day_of_ms :: "int \<Rightarrow> gotime" where
  "day_of_ms ms = UTCDay (UnixMilli ms)"

text \<open>Some endpoints give seconds: what is not above 10^12 is taken for seconds.\<close>

definition day_of_stamp :: "int \<Rightarrow> gotime" where
  "day_of_stamp t = (if 1000000000000 < t then UTCDay (UnixMilli t) else UTCDay (Unix t))"

section \<open>Open interest and liquidations\<close>

definition oiHistoryRow :: "obj \<Rightarrow> (int \<times> string) option" where
  "oiHistoryRow ob = do { t \<leftarrow> f_int ''time'' ob; cl \<leftarrow> f_num ''close'' ob; Some (t, cl) }"

definition cg_FetchOIHistory :: "'w net \<Rightarrow> 'w http_client \<Rightarrow> nat \<Rightarrow> string \<Rightarrow> string \<Rightarrow> int \<Rightarrow> ('w, oi_history_point list) io" where
  "cg_FetchOIHistory e c ctx symbol exchange limit =
     cg_rows e c ctx (''/futures/open-interest/history?symbol='' @ symbol @ ''&exchange='' @ exchange @ ''&interval=1d&limit='' @ itoa limit)
       (''OI history'', []) (''decode OI history'', []) oiHistoryRow
       (\<lambda>(t, cl). \<lparr>goi_date = day_of_ms t, goi_symbol = symbol, goi_exchange = exchange, goi_usd = num_float cl,
          goi_hash = nt_sha256 e (symbol @ '':'' @ exchange @ '':'' @ itoa t @ '':'' @ cl)\<rparr>)"

definition liqHistoryRow :: "obj \<Rightarrow> (int \<times> string \<times> string) option" where
  "liqHistoryRow ob = do { t \<leftarrow> f_int ''time'' ob; l \<leftarrow> f_num ''long_liquidation_usd'' ob; s \<leftarrow> f_num ''short_liquidation_usd'' ob; Some (t, l, s) }"

definition cg_FetchLiquidationHistory :: "'w net \<Rightarrow> 'w http_client \<Rightarrow> nat \<Rightarrow> string \<Rightarrow> string \<Rightarrow> int \<Rightarrow> ('w, liquidation_point list) io" where
  "cg_FetchLiquidationHistory e c ctx symbol exchange limit =
     cg_rows e c ctx (''/futures/liquidation/history?symbol='' @ symbol @ ''&exchange='' @ exchange @ ''&interval=1d&limit='' @ itoa limit)
       (''liquidation history'', []) (''decode liquidation'', []) liqHistoryRow
       (\<lambda>(t, l, s). \<lparr>glq_date = day_of_ms t, glq_symbol = symbol, glq_long = num_float l, glq_short = num_float s,
          glq_hash = nt_sha256 e (symbol @ '':'' @ exchange @ '':'' @ itoa t @ '':'' @ l @ '':'' @ s)\<rparr>)"

definition aggregatedLiqRow :: "obj \<Rightarrow> (int \<times> string \<times> string) option" where
  "aggregatedLiqRow ob = do { t \<leftarrow> f_int ''time'' ob; l \<leftarrow> f_num ''aggregated_long_liquidation_usd'' ob;
     s \<leftarrow> f_num ''aggregated_short_liquidation_usd'' ob; Some (t, l, s) }"

definition cg_FetchAggregatedLiquidationHistory ::
  "'w net \<Rightarrow> 'w http_client \<Rightarrow> nat \<Rightarrow> string \<Rightarrow> string list \<Rightarrow> int \<Rightarrow> gotime \<Rightarrow> gotime \<Rightarrow> ('w, liquidation_point list) io" where
  "cg_FetchAggregatedLiquidationHistory e c ctx coin exchanges limit since until =
     cg_rows e c ctx (''/futures/liquidation/aggregated-history?symbol='' @ coin @ ''&exchange_list='' @ str_join '','' exchanges @
         ''&interval=1d&limit='' @ itoa limit @ range_params since until)
       (''aggregated liquidation history'', []) (''decode aggregated liquidation'', []) aggregatedLiqRow
       (\<lambda>(t, l, s). \<lparr>glq_date = day_of_ms t, glq_symbol = coin, glq_long = num_float l, glq_short = num_float s,
          glq_hash = nt_sha256 e (''aggliq:'' @ coin @ '':'' @ str_join '','' exchanges @ '':'' @ itoa t @ '':'' @ l @ '':'' @ s)\<rparr>)"

definition cg_FetchAggregatedOIHistory ::
  "'w net \<Rightarrow> 'w http_client \<Rightarrow> nat \<Rightarrow> string \<Rightarrow> int \<Rightarrow> string \<Rightarrow> gotime \<Rightarrow> gotime \<Rightarrow> ('w, oi_history_point list) io" where
  "cg_FetchAggregatedOIHistory e c ctx coin limit unit0 since until = (let unit = (if unit0 = [] then ''usd'' else unit0) in
     cg_rows e c ctx (''/futures/open-interest/aggregated-history?symbol='' @ coin @ ''&interval=1d&limit='' @ itoa limit @
         ''&unit='' @ unit @ range_params since until)
       (''aggregated OI history'', []) (''decode aggregated OI'', []) oiHistoryRow
       (\<lambda>(t, cl). \<lparr>goi_date = day_of_ms t, goi_symbol = coin, goi_exchange = ''aggregated'', goi_usd = num_float cl,
          goi_hash = nt_sha256 e (''aggoi:'' @ coin @ '':'' @ itoa t @ '':'' @ cl)\<rparr>))"

section \<open>Flows, supply and market data\<close>

definition etfFlowRow :: "obj \<Rightarrow> (int \<times> f64 \<times> f64) option" where
  "etfFlowRow ob = do { t \<leftarrow> f_int ''timestamp'' ob; x \<leftarrow> f_float ''flow_usd'' ob; p \<leftarrow> f_float ''price_usd'' ob; Some (t, x, p) }"

definition fetchETFFlows :: "'w net \<Rightarrow> 'w http_client \<Rightarrow> nat \<Rightarrow> string \<Rightarrow> ('w, etf_flow_item list) io" where
  "fetchETFFlows e c ctx path =
     cg_rows e c ctx path (''ETF flows'', []) (''decode ETF flow'', []) etfFlowRow
       (\<lambda>(t, x, p). \<lparr>gef_date = day_of_ms t, gef_flow = x, gef_price = p,
          gef_hash = nt_sha256 e (itoa t @ '':'' @ fmt_f 2 x @ '':'' @ fmt_f 2 p)\<rparr>)"

definition cg_FetchBTCETFFlows :: "'w net \<Rightarrow> 'w http_client \<Rightarrow> nat \<Rightarrow> ('w, etf_flow_item list) io" where
  "cg_FetchBTCETFFlows e c ctx = fetchETFFlows e c ctx ''/etf/bitcoin/flow-history''"

definition cg_FetchETHETFFlows :: "'w net \<Rightarrow> 'w http_client \<Rightarrow> nat \<Rightarrow> ('w, etf_flow_item list) io" where
  "cg_FetchETHETFFlows e c ctx = fetchETFFlows e c ctx ''/etf/ethereum/flow-history''"

definition fundingOHLCRow :: "obj \<Rightarrow> (int \<times> string) option" where
  "fundingOHLCRow ob = do { t \<leftarrow> f_int ''time'' ob; cl \<leftarrow> f_num ''close'' ob; Some (t, cl) }"

definition cg_FetchFundingRateHistory :: "'w net \<Rightarrow> 'w http_client \<Rightarrow> nat \<Rightarrow> string \<Rightarrow> string \<Rightarrow> int \<Rightarrow> ('w, funding_ohlc_point list) io" where
  "cg_FetchFundingRateHistory e c ctx symbol exchange limit =
     cg_rows e c ctx (''/futures/funding-rate/history?symbol='' @ symbol @ ''&exchange='' @ exchange @ ''&interval=8h&limit='' @ itoa limit)
       (''funding rate history'', []) (''decode funding rate'', []) fundingOHLCRow
       (\<lambda>(t, cl). \<lparr>gfu_time = UnixMilli t, gfu_symbol = symbol, gfu_close = num_float cl,
          gfu_hash = nt_sha256 e (symbol @ '':'' @ exchange @ '':'' @ itoa t @ '':'' @ cl)\<rparr>)"

definition lthSupplyRow :: "obj \<Rightarrow> (int \<times> f64 \<times> f64) option" where
  "lthSupplyRow ob = do { t \<leftarrow> f_int ''timestamp'' ob; x \<leftarrow> f_float ''long_term_holder_supply'' ob; p \<leftarrow> f_float ''price'' ob; Some (t, x, p) }"

definition cg_FetchLTHSupply :: "'w net \<Rightarrow> 'w http_client \<Rightarrow> nat \<Rightarrow> int \<Rightarrow> ('w, lth_supply_item list) io" where
  "cg_FetchLTHSupply e c ctx limit =
     cg_rows e c ctx (''/index/bitcoin-long-term-holder-supply?limit='' @ itoa limit) (''LTH supply'', []) (''decode LTH supply'', []) lthSupplyRow
       (\<lambda>(t, x, p). \<lparr>glt_time = day_of_ms t, glt_supply = x, glt_price = p,
          glt_hash = nt_sha256 e (''lth:'' @ itoa t @ '':'' @ fmt_f 8 x @ '':'' @ fmt_f 2 p)\<rparr>)"

definition marketDataRow :: "obj \<Rightarrow> (int \<times> string \<times> string \<times> string) option" where
  "marketDataRow ob = do { t \<leftarrow> f_int ''timestamp'' ob; p \<leftarrow> f_num ''price'' ob; s \<leftarrow> f_num ''circulating_supply'' ob;
     m \<leftarrow> f_num ''market_cap'' ob; Some (t, p, s, m) }"

definition cg_FetchMarketDataHistory :: "'w net \<Rightarrow> 'w http_client \<Rightarrow> nat \<Rightarrow> string \<Rightarrow> ('w, market_data_item list) io" where
  "cg_FetchMarketDataHistory e c ctx symbol =
     cg_rows e c ctx (''/coin/market-data-history?symbol='' @ symbol) (''market_data_history %s'', [AStr symbol])
       (''decode market_data_history %s'', [AStr symbol]) marketDataRow
       (\<lambda>(t, p, s, m). \<lparr>gmd_time = day_of_ms t, gmd_symbol = symbol, gmd_price = num_float p, gmd_cap = num_float m, gmd_supply = num_float s,
          gmd_hash = nt_sha256 e (''mcap:'' @ symbol @ '':'' @ itoa t @ '':'' @ p @ '':'' @ m @ '':'' @ s)\<rparr>)"

text \<open>The limit is not used.\<close>

definition cg_FetchBTCMarketCap :: "'w net \<Rightarrow> 'w http_client \<Rightarrow> nat \<Rightarrow> int \<Rightarrow> ('w, btc_mcap_item list) io" where
  "cg_FetchBTCMarketCap e c ctx limit =
     bindE (cg_FetchMarketDataHistory e c ctx ''BTC'') (\<lambda>rows. ret (map (\<lambda>r.
       \<lparr>gbc_time = gmd_time r, gbc_cap = gmd_cap r, gbc_price = gmd_price r, gbc_hash = gmd_hash r\<rparr>) rows))"

definition coinbasePremiumRow :: "obj \<Rightarrow> (int \<times> string \<times> string \<times> string) option" where
  "coinbasePremiumRow ob = do { t \<leftarrow> f_int ''time'' ob; p \<leftarrow> f_num ''premium'' ob; r \<leftarrow> f_num ''premium_rate'' ob;
     b \<leftarrow> f_num ''coinbase_price'' ob; Some (t, p, r, b) }"

definition cg_FetchCoinbasePremiumHistory :: "'w net \<Rightarrow> 'w http_client \<Rightarrow> nat \<Rightarrow> int \<Rightarrow> ('w, premium_item list) io" where
  "cg_FetchCoinbasePremiumHistory e c ctx limit =
     cg_rows e c ctx (''/coinbase-premium-index?interval=1d&limit='' @ itoa limit) (''coinbase premium'', []) (''decode coinbase premium'', [])
       coinbasePremiumRow
       (\<lambda>(t, p, r, b). \<lparr>gcp_date = UTCDay (Unix t), gcp_usd = num_float p, gcp_rate = num_float r, gcp_coinbase = num_float b,
          gcp_hash = nt_sha256 e (''cbprem:'' @ itoa t @ '':'' @ p @ '':'' @ r @ '':'' @ b)\<rparr>)"

section \<open>Positioning\<close>

text \<open>The row has the columns of all three kinds; the kind says which three are read.\<close>

definition ratio_names :: "string \<Rightarrow> string \<times> string \<times> string" where
  "ratio_names kind =
     (if kind = ''global'' then (''global_account_long_percent'', ''global_account_short_percent'', ''global_account_long_short_ratio'')
      else if kind = ''top_account'' then (''top_account_long_percent'', ''top_account_short_percent'', ''top_account_long_short_ratio'')
      else if kind = ''top_position'' then (''top_position_long_percent'', ''top_position_short_percent'', ''top_position_long_short_ratio'')
      else (''long_percent'', ''short_percent'', ''long_short_ratio''))"

fun f_nums :: "string list \<Rightarrow> obj \<Rightarrow> (string \<Rightarrow> string) option" where
  "f_nums [] ob = Some (\<lambda>_. [])"
| "f_nums (n # ns) ob = do { v \<leftarrow> f_num n ob; cols \<leftarrow> f_nums ns ob; Some (cols(n := v)) }"

definition lsRatioRow :: "obj \<Rightarrow> (int \<times> (string \<Rightarrow> string)) option" where
  "lsRatioRow ob = do {
     t \<leftarrow> f_int ''time'' ob;
     cols \<leftarrow> f_nums [''long_percent'', ''short_percent'', ''long_short_ratio'', ''global_account_long_percent'', ''global_account_short_percent'',
       ''global_account_long_short_ratio'', ''top_account_long_percent'', ''top_account_short_percent'', ''top_account_long_short_ratio'',
       ''top_position_long_percent'', ''top_position_short_percent'', ''top_position_long_short_ratio''] ob;
     Some (t, cols) }"

definition fetchLSRatio :: "'w net \<Rightarrow> 'w http_client \<Rightarrow> nat \<Rightarrow> string \<Rightarrow> string \<Rightarrow> string \<Rightarrow> string \<Rightarrow> int \<Rightarrow> ('w, long_short_point list) io" where
  "fetchLSRatio e c ctx endpoint symbol exchange kind limit =
     cg_rows e c ctx (endpoint @ ''?exchange='' @ exchange @ ''&symbol='' @ symbol @ ''&interval=1d&limit='' @ itoa limit)
       (''%s %s/%s'', [AStr kind, AStr exchange, AStr symbol]) (''decode %s'', [AStr kind]) lsRatioRow
       (\<lambda>(t, cols). case ratio_names kind of (lcol, scol, rcol) \<Rightarrow>
          \<lparr>gls_date = day_of_ms t, gls_symbol = symbol, gls_exchange = exchange, gls_long = num_float (cols lcol),
           gls_short = num_float (cols scol), gls_ratio = num_float (cols rcol),
           gls_hash = nt_sha256 e (kind @ '':'' @ exchange @ '':'' @ symbol @ '':'' @ itoa t @ '':'' @ cols lcol @ '':'' @ cols scol @ '':'' @ cols rcol)\<rparr>)"

definition cg_FetchGlobalLongShortAccountRatio :: "'w net \<Rightarrow> 'w http_client \<Rightarrow> nat \<Rightarrow> string \<Rightarrow> string \<Rightarrow> int \<Rightarrow> ('w, long_short_point list) io" where
  "cg_FetchGlobalLongShortAccountRatio e c ctx symbol exchange =
     fetchLSRatio e c ctx ''/futures/global-long-short-account-ratio/history'' symbol exchange ''global''"

definition cg_FetchTopLongShortAccountRatio :: "'w net \<Rightarrow> 'w http_client \<Rightarrow> nat \<Rightarrow> string \<Rightarrow> string \<Rightarrow> int \<Rightarrow> ('w, long_short_point list) io" where
  "cg_FetchTopLongShortAccountRatio e c ctx symbol exchange =
     fetchLSRatio e c ctx ''/futures/top-long-short-account-ratio/history'' symbol exchange ''top_account''"

definition cg_FetchTopLongShortPositionRatio :: "'w net \<Rightarrow> 'w http_client \<Rightarrow> nat \<Rightarrow> string \<Rightarrow> string \<Rightarrow> int \<Rightarrow> ('w, long_short_point list) io" where
  "cg_FetchTopLongShortPositionRatio e c ctx symbol exchange =
     fetchLSRatio e c ctx ''/futures/top-long-short-position-ratio/history'' symbol exchange ''top_position''"

definition aggTakerRow :: "obj \<Rightarrow> (int \<times> string \<times> string) option" where
  "aggTakerRow ob = do { t \<leftarrow> f_int ''time'' ob; b \<leftarrow> f_num ''aggregated_buy_volume_usd'' ob; s \<leftarrow> f_num ''aggregated_sell_volume_usd'' ob; Some (t, b, s) }"

definition cg_FetchAggregatedTakerBuySellVolume ::
  "'w net \<Rightarrow> 'w http_client \<Rightarrow> nat \<Rightarrow> string \<Rightarrow> string list \<Rightarrow> int \<Rightarrow> gotime \<Rightarrow> gotime \<Rightarrow> ('w, taker_volume_point list) io" where
  "cg_FetchAggregatedTakerBuySellVolume e c ctx coin exchanges limit since until =
     cg_rows e c ctx (''/futures/aggregated-taker-buy-sell-volume/history?symbol='' @ coin @ ''&exchange_list='' @ str_join '','' exchanges @
         ''&interval=1d&unit=usd&limit='' @ itoa limit @ range_params since until)
       (''aggregated taker volume'', []) (''decode aggregated taker volume'', []) aggTakerRow
       (\<lambda>(t, b, s). \<lparr>gtk_date = day_of_ms t, gtk_symbol = coin, gtk_buy = num_float b, gtk_sell = num_float s,
          gtk_hash = nt_sha256 e (''aggtaker:'' @ coin @ '':'' @ str_join '','' exchanges @ '':'' @ itoa t @ '':'' @ b @ '':'' @ s)\<rparr>)"

definition borrowRateRow :: "obj \<Rightarrow> (int \<times> string) option" where
  "borrowRateRow ob = do { t \<leftarrow> f_int ''time'' ob; r \<leftarrow> f_num ''interest_rate'' ob; Some (t, r) }"

definition cg_FetchBorrowInterestRate :: "'w net \<Rightarrow> 'w http_client \<Rightarrow> nat \<Rightarrow> string \<Rightarrow> string \<Rightarrow> int \<Rightarrow> ('w, borrow_rate_point list) io" where
  "cg_FetchBorrowInterestRate e c ctx symbol exchange limit =
     cg_rows e c ctx (''/borrow-interest-rate/history?exchange='' @ exchange @ ''&symbol='' @ symbol @ ''&interval=1d&limit='' @ itoa limit)
       (''borrow rate %s/%s'', [AStr exchange, AStr symbol]) (''decode borrow rate'', []) borrowRateRow
       (\<lambda>(t, r). \<lparr>gbr_date = day_of_stamp t, gbr_symbol = symbol, gbr_exchange = exchange, gbr_rate = num_float r,
          gbr_hash = nt_sha256 e (''borrow:'' @ exchange @ '':'' @ symbol @ '':'' @ itoa t @ '':'' @ r)\<rparr>)"

definition bitfinexMarginRow :: "obj \<Rightarrow> (int \<times> string \<times> string) option" where
  "bitfinexMarginRow ob = do { t \<leftarrow> f_int ''time'' ob; l \<leftarrow> f_num ''long_quantity'' ob; s \<leftarrow> f_num ''short_quantity'' ob; Some (t, l, s) }"

definition cg_FetchBitfinexMarginLongShort :: "'w net \<Rightarrow> 'w http_client \<Rightarrow> nat \<Rightarrow> string \<Rightarrow> int \<Rightarrow> ('w, bitfinex_point list) io" where
  "cg_FetchBitfinexMarginLongShort e c ctx symbol limit =
     cg_rows e c ctx (''/bitfinex-margin-long-short?symbol='' @ symbol @ ''&interval=1d&limit='' @ itoa limit)
       (''bitfinex margin %s'', [AStr symbol]) (''decode bitfinex margin'', []) bitfinexMarginRow
       (\<lambda>(t, l, s). \<lparr>gbm_time = day_of_stamp t, gbm_symbol = symbol, gbm_long = num_float l, gbm_short = num_float s,
          gbm_hash = nt_sha256 e (''bfxmargin:'' @ symbol @ '':'' @ itoa t @ '':'' @ l @ '':'' @ s)\<rparr>)"

definition futuresBasisRow :: "obj \<Rightarrow> (int \<times> string \<times> string) option" where
  "futuresBasisRow ob = do { t \<leftarrow> f_int ''time'' ob; b \<leftarrow> f_num ''close_basis'' ob; d \<leftarrow> f_num ''close_change'' ob; Some (t, b, d) }"

definition cg_FetchFuturesBasisHistory :: "'w net \<Rightarrow> 'w http_client \<Rightarrow> nat \<Rightarrow> string \<Rightarrow> string \<Rightarrow> int \<Rightarrow> ('w, basis_item list) io" where
  "cg_FetchFuturesBasisHistory e c ctx symbol exchange limit =
     cg_rows e c ctx (''/futures/basis/history?exchange='' @ exchange @ ''&symbol='' @ symbol @ ''&interval=1d&limit='' @ itoa limit)
       (''futures basis'', []) (''decode futures basis'', []) futuresBasisRow
       (\<lambda>(t, b, d). \<lparr>gfb_date = day_of_ms t, gfb_symbol = symbol, gfb_exchange = exchange, gfb_annualized = num_float d, gfb_close = num_float b,
          gfb_hash = nt_sha256 e (''basis:'' @ symbol @ '':'' @ exchange @ '':'' @ itoa t @ '':'' @ b @ '':'' @ d)\<rparr>)"

section \<open>Order books and volume ratios\<close>

definition default_list :: "string \<Rightarrow> string" where
  "default_list s = (if s = [] then ''Binance,OKX,Bybit'' else s)"

definition aggregatedOrderbookRow :: "obj \<Rightarrow> (int \<times> string \<times> string \<times> string \<times> string) option" where
  "aggregatedOrderbookRow ob = do { t \<leftarrow> f_int ''time'' ob; bu \<leftarrow> f_num ''aggregated_bids_usd'' ob; bq \<leftarrow> f_num ''aggregated_bids_quantity'' ob;
     au \<leftarrow> f_num ''aggregated_asks_usd'' ob; aq \<leftarrow> f_num ''aggregated_asks_quantity'' ob; Some (t, bu, bq, au, aq) }"

definition cg_FetchAggregatedOrderbookBidAsk ::
  "'w net \<Rightarrow> 'w http_client \<Rightarrow> nat \<Rightarrow> string \<Rightarrow> string \<Rightarrow> string \<Rightarrow> int \<Rightarrow> gotime \<Rightarrow> gotime \<Rightarrow> ('w, orderbook_item list) io" where
  "cg_FetchAggregatedOrderbookBidAsk e c ctx coin exchangeList0 pct0 limit since until =
     (let exchangeList = default_list exchangeList0; pct = (if pct0 = [] then ''1'' else pct0) in
      cg_rows e c ctx (''/futures/orderbook/aggregated-ask-bids-history?symbol='' @ coin @ ''&exchange_list='' @ exchangeList @
          ''&interval=1d&range='' @ pct @ ''&limit='' @ itoa limit @ range_params since until)
        (''aggregated orderbook %s'', [AStr coin]) (''decode aggregated orderbook'', []) aggregatedOrderbookRow
        (\<lambda>(t, bu, bq, au, aq). \<lparr>gob_date = day_of_ms t, gob_symbol = coin, gob_bids_usd = num_float bu, gob_bids_qty = num_float bq,
           gob_asks_usd = num_float au, gob_asks_qty = num_float aq,
           gob_hash = nt_sha256 e (''ob:'' @ coin @ '':'' @ exchangeList @ '':'' @ itoa t @ '':'' @ bu @ '':'' @ au)\<rparr>))"

definition futuresSpotVolRatioRow :: "obj \<Rightarrow> (int \<times> string \<times> string \<times> string) option" where
  "futuresSpotVolRatioRow ob = do { t \<leftarrow> f_int ''time'' ob; r \<leftarrow> f_num ''futures_spot_vol_ratio'' ob; fv \<leftarrow> f_num ''futures_vol_usd'' ob;
     sv \<leftarrow> f_num ''spot_vol_usd'' ob; Some (t, r, fv, sv) }"

definition cg_FetchFuturesSpotVolumeRatio ::
  "'w net \<Rightarrow> 'w http_client \<Rightarrow> nat \<Rightarrow> string \<Rightarrow> string \<Rightarrow> int \<Rightarrow> gotime \<Rightarrow> gotime \<Rightarrow> ('w, vol_ratio_item list) io" where
  "cg_FetchFuturesSpotVolumeRatio e c ctx coin exchangeList0 limit since until = (let exchangeList = default_list exchangeList0 in
     cg_rows e c ctx (''/futures_spot_volume_ratio?symbol='' @ coin @ ''&exchange_list='' @ exchangeList @ ''&interval=1d&limit='' @
         itoa limit @ range_params since until)
       (''futures_spot_volume_ratio %s'', [AStr coin]) (''decode futures_spot_volume_ratio'', []) futuresSpotVolRatioRow
       (\<lambda>(t, r, fv, sv). \<lparr>gfs_date = day_of_ms t, gfs_symbol = coin, gfs_ratio = num_float r, gfs_futures = num_float fv, gfs_spot = num_float sv,
          gfs_hash = nt_sha256 e (''fsr:'' @ coin @ '':'' @ exchangeList @ '':'' @ itoa t @ '':'' @ r @ '':'' @ fv @ '':'' @ sv)\<rparr>))"

section \<open>Exchange traded funds\<close>

definition parseFloatTolerant :: "string \<Rightarrow> f64" where
  "parseFloatTolerant s = (if s = [] then fzero else fst (ParseFloat s))"

text \<open>
  \<open>flexFloat\<close>: a number or a quoted one, with its text; a text that is no number leaves the value as it was.  The quoted
  text is the bytes between the quotes.
\<close>

type_synonym flexFloat = "f64 \<times> string"

definition flex_UnmarshalJSON :: "string \<Rightarrow> flexFloat \<Rightarrow> flexFloat" where
  "flex_UnmarshalJSON b x =
     (if b = [] \<or> b = ''null'' then x
      else if hd b = CHR 0x22 then (let s = butlast (tl b) in (parseFloatTolerant s, s))
      else (case ParseFloat b of (v, ok) \<Rightarrow> ((if ok then v else fst x), b)))"

definition dec_flex :: "flexFloat decoder" where
  "dec_flex x r = Some (flex_UnmarshalJSON (fst r) x)"

fun f_flexes :: "string list \<Rightarrow> obj \<Rightarrow> (string \<Rightarrow> flexFloat) option" where
  "f_flexes [] ob = Some (\<lambda>_. (fzero, []))"
| "f_flexes (n # ns) ob = do { v \<leftarrow> field dec_flex (fzero, []) n ob; cols \<leftarrow> f_flexes ns ob; Some (cols(n := v)) }"

fun f_strs :: "string list \<Rightarrow> obj \<Rightarrow> (string \<Rightarrow> string) option" where
  "f_strs [] ob = Some (\<lambda>_. [])"
| "f_strs (n # ns) ob = do { v \<leftarrow> f_str n ob; cols \<leftarrow> f_strs ns ob; Some (cols(n := v)) }"

definition bitcoinETFListRow :: "obj \<Rightarrow> ((string \<Rightarrow> string) \<times> (string \<Rightarrow> flexFloat) \<times> (string \<Rightarrow> flexFloat) \<times> string) option" where
  "bitcoinETFListRow ob = do {
     texts \<leftarrow> f_strs [''ticker'', ''fund_name'', ''region'', ''market_status'', ''primary_exchange'', ''fund_type''] ob;
     nums \<leftarrow> f_flexes [''shares_outstanding'', ''aum_usd'', ''management_fee_percent'', ''volume_usd'', ''price_change_percent''] ob;
     det \<leftarrow> field fields_of [] ''asset_details'' ob;
     dnums \<leftarrow> f_flexes [''net_asset_value_usd'', ''premium_discount_percent'', ''holding_quantity'', ''change_percent_24h'',
        ''change_quantity_24h'', ''change_percent_7d'', ''change_quantity_7d''] det;
     upd \<leftarrow> f_str ''update_date'' det;
     Some (texts, nums, dnums, upd) }"

definition cg_FetchBitcoinETFList :: "'w net \<Rightarrow> 'w http_client \<Rightarrow> nat \<Rightarrow> ('w, etf_list_item list) io" where
  "cg_FetchBitcoinETFList e c ctx =
     cg_rows e c ctx ''/etf/bitcoin/list'' (''etf list'', []) (''decode etf list'', []) bitcoinETFListRow
       (\<lambda>(tx, nm, dt, upd). \<lparr>gel_ticker = tx ''ticker'', gel_fund = tx ''fund_name'', gel_region = tx ''region'', gel_status = tx ''market_status'',
          gel_venue = tx ''primary_exchange'', gel_kind = tx ''fund_type'', gel_shares = fst (nm ''shares_outstanding''), gel_aum = fst (nm ''aum_usd''),
          gel_fee = fst (nm ''management_fee_percent''), gel_volume = fst (nm ''volume_usd''), gel_price_change = fst (nm ''price_change_percent''),
          gel_nav = fst (dt ''net_asset_value_usd''), gel_premium = fst (dt ''premium_discount_percent''), gel_holding = fst (dt ''holding_quantity''),
          gel_pct24h = fst (dt ''change_percent_24h''), gel_qty24h = fst (dt ''change_quantity_24h''), gel_pct7d = fst (dt ''change_percent_7d''),
          gel_qty7d = fst (dt ''change_quantity_7d''), gel_update = upd,
          gel_hash = nt_sha256 e (''etflist:'' @ tx ''ticker'' @ '':'' @ snd (nm ''aum_usd'') @ '':'' @ snd (dt ''holding_quantity'') @ '':'' @ upd)\<rparr>)"

definition bitcoinETFAUMRow :: "obj \<Rightarrow> (int \<times> string) option" where
  "bitcoinETFAUMRow ob = do { t \<leftarrow> f_int ''time'' ob; a \<leftarrow> f_num ''aum_usd'' ob; Some (t, a) }"

definition cg_FetchBitcoinETFAUMHistory :: "'w net \<Rightarrow> 'w http_client \<Rightarrow> nat \<Rightarrow> string \<Rightarrow> ('w, etf_aum_item list) io" where
  "cg_FetchBitcoinETFAUMHistory e c ctx ticker =
     cg_rows e c ctx (if ticker \<noteq> [] then ''/etf/bitcoin/aum?ticker='' @ ticker else ''/etf/bitcoin/aum'') (''etf aum %s'', [AStr ticker])
       (''decode etf aum'', []) bitcoinETFAUMRow
       (\<lambda>(t, a). \<lparr>gea_date = day_of_ms t, gea_ticker = ticker, gea_aum = num_float a,
          gea_hash = nt_sha256 e (''etfaum:'' @ ticker @ '':'' @ itoa t @ '':'' @ a)\<rparr>)"

section \<open>Options\<close>

definition optionsInfoRow :: "obj \<Rightarrow> (string \<times> (string \<Rightarrow> string)) option" where
  "optionsInfoRow ob = do { x \<leftarrow> f_str ''exchange_name'' ob;
     cols \<leftarrow> f_nums [''open_interest'', ''oi_market_share'', ''open_interest_change_24h'', ''open_interest_usd'', ''volume_usd_24h'',
       ''volume_change_percent_24h'', ''call_open_interest'', ''put_open_interest''] ob;
     Some (x, cols) }"

definition cg_FetchOptionsInfo :: "'w net \<Rightarrow> 'w http_client \<Rightarrow> nat \<Rightarrow> string \<Rightarrow> ('w, options_info_item list) io" where
  "cg_FetchOptionsInfo e c ctx symbol =
     cg_rows e c ctx (''/option/info?symbol='' @ symbol) (''options info %s'', [AStr symbol]) (''decode options info'', []) optionsInfoRow
       (\<lambda>(x, cols). \<lparr>goo_exchange = x, goo_symbol = symbol, goo_oi = num_float (cols ''open_interest''), goo_share = num_float (cols ''oi_market_share''),
          goo_change24h = num_float (cols ''open_interest_change_24h''), goo_oi_usd = num_float (cols ''open_interest_usd''),
          goo_volume = num_float (cols ''volume_usd_24h''), goo_volume_change = num_float (cols ''volume_change_percent_24h''),
          goo_call_oi = num_float (cols ''call_open_interest''), goo_put_oi = num_float (cols ''put_open_interest''),
          goo_hash = nt_sha256 e (''optinfo:'' @ x @ '':'' @ symbol @ '':'' @ cols ''open_interest'' @ '':'' @ cols ''open_interest_usd'' @ '':'' @
            cols ''call_open_interest'' @ '':'' @ cols ''put_open_interest'')\<rparr>)"

text \<open>A series per exchange against one list of times; what a series has beyond the times, or the times beyond it, is left out.\<close>

definition optionsHistoryEnvelope :: "obj \<Rightarrow> (int list \<times> (string \<rightharpoonup> string list)) option" where
  "optionsHistoryEnvelope ob = do { ts \<leftarrow> field (dec_slice (dec_int64 0)) [] ''time_list'' ob;
     ps \<leftarrow> field (dec_slice (dec_number [])) [] ''price_list'' ob;
     dm \<leftarrow> field (dec_map (dec_slice (dec_number []) [])) Map.empty ''data_map'' ob; Some (ts, dm) }"

definition oi_series_points :: "'w net \<Rightarrow> string \<Rightarrow> string \<Rightarrow> int list \<Rightarrow> string list \<Rightarrow> options_oi_item list" where
  "oi_series_points e symbol exch ts series = map (\<lambda>(t, v).
     \<lparr>gox_date = day_of_ms t, gox_exchange = exch, gox_symbol = symbol, gox_oi = num_float v,
      gox_hash = nt_sha256 e (''optoi:'' @ exch @ '':'' @ symbol @ '':'' @ itoa t @ '':'' @ v)\<rparr>) (zip ts series)"

definition cg_FetchOptionsExchangeOIHistory :: "'w net \<Rightarrow> 'w http_client \<Rightarrow> nat \<Rightarrow> string \<Rightarrow> string \<Rightarrow> string \<Rightarrow> ('w, options_oi_item list) io" where
  "cg_FetchOptionsExchangeOIHistory e c ctx symbol unit0 rng0 =
     (let unit = (if unit0 = [] then ''USD'' else unit0); rng = (if rng0 = [] then ''all'' else rng0) in
      bindE (cg_decoded e c ctx (''/option/exchange-oi-history?symbol='' @ symbol @ ''&unit='' @ unit @ ''&range='' @ rng)
         (''options OI history %s'', [AStr symbol]) (''decode options OI history'', []) (dec_struct optionsHistoryEnvelope)) (\<lambda>(ts, dm).
        ret (if ts = [] then [] else concat (map (\<lambda>exch. oi_series_points e symbol exch ts (mget [] dm exch)) (nt_keys e (dom dm))))))"

definition optionsMaxPainRow :: "obj \<Rightarrow> (string \<times> (string \<Rightarrow> string)) option" where
  "optionsMaxPainRow ob = do { d \<leftarrow> f_str ''date'' ob;
     cols \<leftarrow> f_nums [''max_pain_price'', ''call_open_interest'', ''put_open_interest'', ''call_open_interest_notional'',
       ''put_open_interest_notional'', ''call_open_interest_market_value'', ''put_open_interest_market_value''] ob;
     Some (d, cols) }"

definition max_pain_of :: "'w net \<Rightarrow> string \<Rightarrow> string \<Rightarrow> string \<times> (string \<Rightarrow> string) \<Rightarrow> max_pain_item option" where
  "max_pain_of e symbol exchange row = (case row of (d, cols) \<Rightarrow> map_option (\<lambda>t.
     \<lparr>gmp_date = t, gmp_symbol = symbol, gmp_exchange = exchange, gmp_price = num_float (cols ''max_pain_price''),
      gmp_call_oi = num_float (cols ''call_open_interest''), gmp_put_oi = num_float (cols ''put_open_interest''),
      gmp_call_usd = num_float (cols ''call_open_interest_notional''), gmp_put_usd = num_float (cols ''put_open_interest_notional''),
      gmp_call_value = num_float (cols ''call_open_interest_market_value''), gmp_put_value = num_float (cols ''put_open_interest_market_value''),
      gmp_hash = nt_sha256 e (''maxpain:'' @ symbol @ '':'' @ exchange @ '':'' @ d @ '':'' @ cols ''max_pain_price'')\<rparr>) (parse_yymmdd d))"

text \<open>A row whose date cannot be read is left out.\<close>

definition cg_FetchOptionsMaxPain :: "'w net \<Rightarrow> 'w http_client \<Rightarrow> nat \<Rightarrow> string \<Rightarrow> string \<Rightarrow> ('w, max_pain_item list) io" where
  "cg_FetchOptionsMaxPain e c ctx symbol exchange =
     bindE (cg_decoded e c ctx (''/option/max-pain?symbol='' @ symbol @ ''&exchange='' @ exchange)
        (''options max pain %s/%s'', [AStr symbol, AStr exchange]) (''decode max pain'', []) (dec_slice (dec_struct optionsMaxPainRow) []))
       (\<lambda>rows. ret (List.map_filter (max_pain_of e symbol exchange) rows))"

section \<open>Stablecoins and exchange balances\<close>

definition stablecoinMcapEnvelope :: "obj \<Rightarrow> ((string \<rightharpoonup> string) list \<times> string list \<times> int list) option" where
  "stablecoinMcapEnvelope ob = do { ds \<leftarrow> field (dec_slice (dec_map (dec_number []) Map.empty)) [] ''data_list'' ob;
     ps \<leftarrow> field (dec_slice (dec_number [])) [] ''price_list'' ob; ts \<leftarrow> field (dec_slice (dec_int64 0)) [] ''time_list'' ob; Some (ds, ps, ts) }"

text \<open>The sum over the coins of a day, in the order the map is walked; a value that is no float64 is left out.\<close>

definition mcap_sum :: "'w net \<Rightarrow> (string \<rightharpoonup> string) \<Rightarrow> f64" where
  "mcap_sum e m = foldl (\<lambda>acc k. case ParseFloat (mget [] m k) of (v, ok) \<Rightarrow> if ok then fadd acc v else acc) fzero (nt_keys e (dom m))"

definition mcap_at :: "'w net \<Rightarrow> (string \<rightharpoonup> string) list \<Rightarrow> string list \<Rightarrow> int list \<Rightarrow> nat \<Rightarrow> stablecoin_mcap_point" where
  "mcap_at e ds ps ts i =
     (let mcap = (if i < length ds then mcap_sum e (ds ! i) else fzero); price = (if i < length ps then num_float (ps ! i) else fzero) in
      \<lparr>gsm_date = day_of_ms (ts ! i), gsm_cap = mcap, gsm_price = price,
       gsm_hash = nt_sha256 e (''stablemcap:'' @ itoa (ts ! i) @ '':'' @ fmt_f 4 mcap @ '':'' @ fmt_f 4 price)\<rparr>)"

definition cg_FetchStablecoinMarketCapHistory :: "'w net \<Rightarrow> 'w http_client \<Rightarrow> nat \<Rightarrow> ('w, stablecoin_mcap_point list) io" where
  "cg_FetchStablecoinMarketCapHistory e c ctx =
     bindE (cg_decoded e c ctx ''/index/stableCoin-marketCap-history'' (''stablecoin mcap'', []) (''decode stablecoin mcap'', [])
        (dec_struct stablecoinMcapEnvelope)) (\<lambda>(ds, ps, ts). ret (map (mcap_at e ds ps ts) [0..<length ts]))"

definition exchangeBalanceRow :: "obj \<Rightarrow> (string \<times> (string \<Rightarrow> string)) option" where
  "exchangeBalanceRow ob = do { x \<leftarrow> f_str ''exchange_name'' ob;
     cols \<leftarrow> f_nums [''total_balance'', ''balance_change_1d'', ''balance_change_7d'', ''balance_change_30d'', ''balance_change_percent_1d'',
       ''balance_change_percent_7d'', ''balance_change_percent_30d''] ob;
     Some (x, cols) }"

definition cg_FetchExchangeBalanceList :: "'w net \<Rightarrow> 'w http_client \<Rightarrow> nat \<Rightarrow> string \<Rightarrow> ('w, exchange_balance list) io" where
  "cg_FetchExchangeBalanceList e c ctx symbol =
     cg_rows e c ctx (''/exchange/balance/list?symbol='' @ symbol) (''exchange balance list %s'', [AStr symbol])
       (''decode exchange balance list'', []) exchangeBalanceRow
       (\<lambda>(x, cols). \<lparr>geb_exchange = x, geb_symbol = symbol, geb_total = num_float (cols ''total_balance''),
          geb_change1d = num_float (cols ''balance_change_1d''), geb_change7d = num_float (cols ''balance_change_7d''),
          geb_change30d = num_float (cols ''balance_change_30d''), geb_pct1d = num_float (cols ''balance_change_percent_1d''),
          geb_pct7d = num_float (cols ''balance_change_percent_7d''), geb_pct30d = num_float (cols ''balance_change_percent_30d''),
          geb_hash = nt_sha256 e (''exbal:'' @ x @ '':'' @ symbol @ '':'' @ cols ''total_balance'' @ '':'' @ cols ''balance_change_7d'' @ '':'' @
            cols ''balance_change_30d'')\<rparr>)"

end
