(* ===== verification/Binance.thy ===== *)
theory Binance
  imports HttpClient
begin

text \<open>
  \<open>internal/providers/binance\<close>: open interest, funding rates, liquidations and candles of the Binance API.  The paged
  calls go on from the last row of a page until a page is not full.
\<close>

section \<open>The client\<close>

record 'w bn_client =
  bn_futures :: "'w http_client"
  bn_spot :: "'w http_client"

record bn_oi_point =
  bno_date :: gotime
  bno_symbol :: string
  bno_usd :: f64
  bno_hash :: string

record bn_funding_point =
  bnf_time :: gotime
  bnf_symbol :: string
  bnf_rate :: f64
  bnf_hash :: string

record bn_liq_point =
  bnl_date :: gotime
  bnl_symbol :: string
  bnl_long :: f64
  bnl_short :: f64
  bnl_hash :: string

record bn_kline_point =
  bnk_time :: gotime
  bnk_close :: f64
  bnk_hash :: string

definition bn_default_url :: string where "bn_default_url = ''https://fapi.binance.com''"
definition bn_spot_url :: string where "bn_spot_url = ''https://api.binance.com''"
definition bn_throttle :: int where "bn_throttle = 350 * millisecond_ns"

definition bn_New :: "'w cell \<Rightarrow> 'w cell \<Rightarrow> string \<Rightarrow> int \<Rightarrow> 'w bn_client" where
  "bn_New cf cs baseURL timeout =
     \<lparr>bn_futures = New cf [WithBaseURL (if baseURL = [] then bn_default_url else baseURL), WithTimeout timeout, WithThrottle bn_throttle],
      bn_spot = New cs [WithBaseURL bn_spot_url, WithTimeout timeout, WithThrottle bn_throttle]\<rparr>"

section \<open>Open interest\<close>

text \<open>The day of a stamp in milliseconds.\<close>

definition day_ms :: "int \<Rightarrow> int" where
  "day_ms t = unix_milli (UTCDay (UnixMilli t))"

definition oi_hist_row :: "obj \<Rightarrow> (string \<times> string \<times> string) option" where
  "oi_hist_row ob = do { s \<leftarrow> f_str ''symbol'' ob; v \<leftarrow> f_num ''sumOpenInterestValue'' ob; t \<leftarrow> f_num ''timestamp'' ob; Some (s, v, t) }"

definition oi_snap :: "obj \<Rightarrow> (string \<times> string \<times> string) option" where
  "oi_snap ob = do { s \<leftarrow> f_str ''symbol'' ob; v \<leftarrow> f_num ''openInterest'' ob; t \<leftarrow> f_num ''time'' ob; Some (s, v, t) }"

text \<open>One row per day, the first one; the snapshot joins them when its day is not there yet.\<close>

definition oi_add :: "string \<Rightarrow> int set \<times> bn_oi_point list \<Rightarrow> string \<times> string \<times> string \<Rightarrow> int set \<times> bn_oi_point list" where
  "oi_add hash acc row = (case (acc, row) of ((seen, out), (s, v, t)) \<Rightarrow>
     let d = day_ms (num_int t) in
     if d \<in> seen then (seen, out)
     else (insert d seen, out @ [\<lparr>bno_date = UnixMilli d, bno_symbol = s, bno_usd = num_float v, bno_hash = hash\<rparr>]))"

definition oi_history :: "'w net \<Rightarrow> string \<Rightarrow> (string \<times> string \<times> string) list \<Rightarrow> int set \<times> bn_oi_point list" where
  "oi_history e body hist = foldl (\<lambda>acc (i, h). oi_add (hashRawElement e body i) acc h) ({}, []) (zip [0..<length hist] hist)"

definition bn_FetchOpenInterest :: "'w net \<Rightarrow> 'w bn_client \<Rightarrow> nat \<Rightarrow> string \<Rightarrow> ('w, bn_oi_point list) io" where
  "bn_FetchOpenInterest e c ctx symbol =
     bindE (wrapE ''openInterestHist'' [] (Get e (bn_futures c) ctx (''/futures/data/openInterestHist?symbol='' @ symbol @ ''&period=1d&limit=500''))) (\<lambda>body.
     bindE (wrapE ''decode openInterestHist'' [] (liftE (Unmarshal (dec_slice (dec_struct oi_hist_row) []) body))) (\<lambda>hist.
     bindE (wrapE ''openInterest snapshot'' [] (Get e (bn_futures c) (ctx - 1) (''/fapi/v1/openInterest?symbol='' @ symbol))) (\<lambda>body2.
     bindE (wrapE ''decode openInterest'' [] (liftE (Unmarshal (dec_struct oi_snap) body2))) (\<lambda>snap.
       ret (snd (oi_add (nt_sha256 e body2) (oi_history e body hist) snap))))))"

section \<open>Funding rates\<close>

definition funding_row_of :: "obj \<Rightarrow> (string \<times> string \<times> string) option" where
  "funding_row_of ob = do { s \<leftarrow> f_str ''symbol'' ob; r \<leftarrow> f_num ''fundingRate'' ob; t \<leftarrow> f_num ''fundingTime'' ob; Some (s, r, t) }"

definition funding_point_of :: "'w net \<Rightarrow> string \<Rightarrow> nat \<times> string \<times> string \<times> string \<Rightarrow> bn_funding_point" where
  "funding_point_of e body = (\<lambda>(i, s, r, t).
     \<lparr>bnf_time = UnixMilli (num_int t), bnf_symbol = s, bnf_rate = num_float r, bnf_hash = hashRawElement e body i\<rparr>)"

definition indexed :: "'a list \<Rightarrow> (nat \<times> 'a) list" where
  "indexed xs = zip [0..<length xs] xs"

definition funding_step :: "'w net \<Rightarrow> 'w bn_client \<Rightarrow> string \<Rightarrow> int \<Rightarrow> nat \<Rightarrow> int \<times> bn_funding_point list \<Rightarrow>
    ('w, (int \<times> bn_funding_point list) \<times> bool) io" where
  "funding_step e c symbol endMs ctx s =
     bindE (wrapE ''fundingRate'' [] (Get e (bn_futures c) ctx (''/fapi/v1/fundingRate?symbol='' @ symbol @ ''&startTime='' @ itoa (fst s) @
         ''&endTime='' @ itoa endMs @ ''&limit=1000''))) (\<lambda>body.
     bindE (wrapE ''decode fundingRate'' [] (liftE (Unmarshal (dec_slice (dec_struct funding_row_of) []) body))) (\<lambda>page.
       if page = [] then ret (s, False)
       else ret ((wrap64 (num_int (snd (snd (last page))) + 1), snd s @ map (funding_point_of e body) (indexed page)), 1000 \<le> length page)))"

definition bn_FetchFundingRateHistory :: "'w net \<Rightarrow> 'w bn_client \<Rightarrow> nat \<Rightarrow> string \<Rightarrow> gotime \<Rightarrow> gotime \<Rightarrow> ('w, bn_funding_point list) io" where
  "bn_FetchFundingRateHistory e c ctx symbol since until = (let endMs = unix_milli until in
     bindE (pages ctx (\<lambda>s. fst s < endMs) (funding_step e c symbol endMs) (unix_milli since, [])) (\<lambda>s. ret (snd s)))"

section \<open>Liquidations\<close>

record bn_order =
  bor_symbol :: string
  bor_price :: string
  bor_qty :: string
  bor_side :: string
  bor_time :: string

definition rawOrder :: "obj \<Rightarrow> bn_order option" where
  "rawOrder ob = do { s \<leftarrow> f_str ''symbol'' ob; p \<leftarrow> f_num ''price'' ob; q \<leftarrow> f_num ''origQty'' ob; d \<leftarrow> f_str ''side'' ob; t \<leftarrow> f_num ''time'' ob;
     Some \<lparr>bor_symbol = s, bor_price = p, bor_qty = q, bor_side = d, bor_time = t\<rparr> }"

definition orders_step :: "'w net \<Rightarrow> 'w bn_client \<Rightarrow> string \<Rightarrow> int \<Rightarrow> nat \<Rightarrow> int \<times> bn_order list \<Rightarrow> ('w, (int \<times> bn_order list) \<times> bool) io" where
  "orders_step e c symbol endMs ctx s =
     bindE (wrapE ''allForceOrders'' [] (Get e (bn_futures c) ctx (''/fapi/v1/allForceOrders?symbol='' @ symbol @ ''&startTime='' @ itoa (fst s) @
         ''&endTime='' @ itoa endMs @ ''&limit=1000''))) (\<lambda>body.
     bindE (wrapE ''decode allForceOrders'' [] (liftE (Unmarshal (dec_slice (dec_struct rawOrder) []) body))) (\<lambda>page.
       if page = [] then ret (s, False)
       else ret ((wrap64 (num_int (bor_time (last page)) + 1), snd s @ page), 1000 \<le> length page)))"

text \<open>Sold positions were long; the amounts are added up per day and symbol.\<close>

definition bucket_add :: "(gotime \<times> string \<rightharpoonup> f64 \<times> f64) \<Rightarrow> bn_order \<Rightarrow> (gotime \<times> string \<rightharpoonup> f64 \<times> f64)" where
  "bucket_add m r =
     (let notional = fmul (num_float (bor_price r)) (num_float (bor_qty r));
          k = (UTCDay (UnixMilli (num_int (bor_time r))), bor_symbol r); b = mget (fzero, fzero) m k in
      m(k \<mapsto> (if bor_side r = ''SELL'' then (fadd (fst b) notional, snd b) else (fst b, fadd (snd b) notional))))"

definition liq_point_of :: "'w net \<Rightarrow> (gotime \<times> string \<rightharpoonup> f64 \<times> f64) \<Rightarrow> gotime \<times> string \<Rightarrow> bn_liq_point" where
  "liq_point_of e m k = (let b = mget (fzero, fzero) m k in
     \<lparr>bnl_date = fst k, bnl_symbol = snd k, bnl_long = fst b, bnl_short = snd b,
      bnl_hash = nt_sha256 e (fmt_day (fst k) @ ''|'' @ snd k @ ''|'' @ fmt_f 6 (fst b) @ ''|'' @ fmt_f 6 (snd b))\<rparr>)"

definition bn_FetchLiquidations :: "((gotime \<times> string) set \<Rightarrow> (gotime \<times> string) list) \<Rightarrow> 'w net \<Rightarrow> 'w bn_client \<Rightarrow> nat \<Rightarrow> string \<Rightarrow>
    gotime \<Rightarrow> gotime \<Rightarrow> ('w, bn_liq_point list) io" where
  "bn_FetchLiquidations ord e c ctx symbol since until = (let endMs = unix_milli until in
     bindE (pages ctx (\<lambda>s. fst s < endMs) (orders_step e c symbol endMs) (unix_milli since, [])) (\<lambda>s.
       let m = foldl bucket_add Map.empty (snd s) in ret (map (liq_point_of e m) (ord (dom m)))))"

section \<open>Candles\<close>

text \<open>A value that is not of the type asked for leaves the variable at its zero value.\<close>

definition or_zero :: "'a \<Rightarrow> 'a option \<Rightarrow> 'a" where
  "or_zero z x = (case x of None \<Rightarrow> z | Some y \<Rightarrow> y)"

definition open_ms :: "raw \<Rightarrow> int" where
  "open_ms r = or_zero 0 (dec_int64 0 r)"

definition kline_of :: "raw list \<Rightarrow> (int \<times> f64) option" where
  "kline_of k = (if length k < 5 then None else Some (open_ms (k ! 0), fst (ParseFloat (or_zero [] (dec_string [] (k ! 4))))))"

definition kline_point_of :: "'w net \<Rightarrow> string \<Rightarrow> nat \<times> raw list \<Rightarrow> bn_kline_point option" where
  "kline_point_of e body = (\<lambda>(i, k). map_option (\<lambda>(t, x).
     \<lparr>bnk_time = UTCDay (UnixMilli t), bnk_close = x, bnk_hash = hashRawElement e body i\<rparr>) (kline_of k))"

definition klines_path :: "string \<Rightarrow> string \<Rightarrow> int \<Rightarrow> int \<Rightarrow> string" where
  "klines_path symbol interval endMs cursor = ''/api/v3/klines?symbol='' @ symbol @ ''&interval='' @ interval @ ''&startTime='' @ itoa cursor @
     ''&endTime='' @ itoa endMs @ ''&limit=1500''"

definition klines_page :: "string \<Rightarrow> err + raw list list" where
  "klines_page = Unmarshal (dec_slice (dec_slice Some []) [])"

definition klines_step :: "'w net \<Rightarrow> 'w bn_client \<Rightarrow> string \<Rightarrow> string \<Rightarrow> int \<Rightarrow> nat \<Rightarrow> int \<times> bn_kline_point list \<Rightarrow>
    ('w, (int \<times> bn_kline_point list) \<times> bool) io" where
  "klines_step e c symbol interval endMs ctx s =
     bindE (wrapE ''klines %s'' [AStr symbol] (Get e (bn_spot c) ctx (klines_path symbol interval endMs (fst s)))) (\<lambda>body.
     bindE (wrapE ''decode klines'' [] (liftE (klines_page body))) (\<lambda>page.
       if page = [] then ret (s, False)
       else if last page = [] then throw index_panic
       else ret ((wrap64 (open_ms (hd (last page)) + 1), snd s @ List.map_filter (kline_point_of e body) (indexed page)), 1500 \<le> length page)))"

definition bn_FetchKlines :: "'w net \<Rightarrow> 'w bn_client \<Rightarrow> nat \<Rightarrow> string \<Rightarrow> string \<Rightarrow> gotime \<Rightarrow> gotime \<Rightarrow> ('w, bn_kline_point list) io" where
  "bn_FetchKlines e c ctx symbol interval since until = (let endMs = unix_milli until in
     bindE (pages ctx (\<lambda>s. fst s < endMs) (klines_step e c symbol interval endMs) (unix_milli since, [])) (\<lambda>s. ret (snd s)))"


section \<open>What paging collects\<close>

text \<open>
  A data service with the candles \<open>K\<close>, oldest first, that answers a request with the oldest \<open>cap\<close> of those that open
  from the cursor to the end asked for.  Only the cursors a loop from \<open>first\<close> can ask for matter.
\<close>

definition candles_from :: "int \<Rightarrow> (int \<times> f64) list \<Rightarrow> int \<Rightarrow> (int \<times> f64) list" where
  "candles_from endMs K cursor = filter (\<lambda>k. cursor \<le> fst k \<and> fst k \<le> endMs) K"

definition answers_candles :: "'w net \<Rightarrow> 'w bn_client \<Rightarrow> string \<Rightarrow> string \<Rightarrow> int \<Rightarrow> nat \<Rightarrow> (int \<times> f64) list \<Rightarrow> int \<Rightarrow> bool" where
  "answers_candles e c symbol interval endMs cap K cursor \<longleftrightarrow>
     (\<forall>w. \<exists>body w' page. Get e (bn_spot c) 1 (klines_path symbol interval endMs cursor) w = (Inr body, w') \<and> klines_page body = Inr page \<and>
        map kline_of page = map Some (take cap (candles_from endMs K cursor)))"

definition serves_candles :: "'w net \<Rightarrow> 'w bn_client \<Rightarrow> string \<Rightarrow> string \<Rightarrow> int \<Rightarrow> nat \<Rightarrow> (int \<times> f64) list \<Rightarrow> int \<Rightarrow> bool" where
  "serves_candles e c symbol interval endMs cap K first \<longleftrightarrow>
     list_all (answers_candles e c symbol interval endMs cap K) (first # map (\<lambda>k. fst k + 1) K)"

definition sound_candles :: "int \<Rightarrow> (int \<times> f64) list \<Rightarrow> bool" where
  "sound_candles endMs K \<longleftrightarrow> sorted_wrt (<) (map fst K) \<and>
     list_all (\<lambda>k. min_int64 \<le> fst k \<and> fst k < max_int64 \<and> fst k \<noteq> endMs) K"

definition candle_view :: "bn_kline_point \<Rightarrow> gotime \<times> f64" where
  "candle_view p = (bnk_time p, bnk_close p)"

lemma map_filter_indexed_from:
  assumes "map kline_of page = map Some ks"
  shows "map candle_view (List.map_filter (kline_point_of e body) (zip [n..<n + length page] page)) =
    map (\<lambda>(t, x). (UTCDay (UnixMilli t), x)) ks"
  using assms
proof (induction page arbitrary: ks n)
  case (Cons k page)
  then obtain t x ks' where ks: "ks = (t, x) # ks'" "kline_of k = Some (t, x)" "map kline_of page = map Some ks'"
    by (cases ks) auto
  have "[n..<n + length (k # page)] = n # [Suc n..<Suc n + length page]" by (simp add: upt_rec)
  then show ?case using Cons.IH[OF ks(3), of "Suc n"] by (simp add: ks(1,2) kline_point_of_def candle_view_def)
qed (simp add: List.map_filter_def)

lemma map_filter_indexed:
  "map kline_of page = map Some ks \<Longrightarrow>
   map candle_view (List.map_filter (kline_point_of e body) (indexed page)) = map (\<lambda>(t, x). (UTCDay (UnixMilli t), x)) ks"
  using map_filter_indexed_from[of page ks e body 0] by (simp add: indexed_def)

lemma last_greatest: "sorted_wrt (<) (map fst xs) \<Longrightarrow> k \<in> set xs \<Longrightarrow> fst k \<le> (fst (last xs) :: int)"
  by (induction xs) (auto intro: less_imp_le)

lemma candles_from_sub: "set (candles_from endMs K cursor) \<subseteq> set K"
  by (auto simp: candles_from_def)

lemma candles_from_ge: "k \<in> set (candles_from endMs K cursor) \<Longrightarrow> cursor \<le> fst k"
  by (auto simp: candles_from_def)

lemma candles_from_later: "cursor \<le> l \<Longrightarrow> candles_from endMs K (l + 1) = filter (\<lambda>k. l + 1 \<le> fst k) (candles_from endMs K cursor)"
  by (auto simp: candles_from_def intro!: filter_cong)

text \<open>After a page the candles left are those behind it.\<close>

lemma candles_after:
  assumes K: "sorted_wrt (<) (map fst K)" and pg: "take n (candles_from endMs K cursor) \<noteq> []"
  shows "candles_from endMs K (fst (last (take n (candles_from endMs K cursor))) + 1) = drop n (candles_from endMs K cursor)"
proof -
  let ?R = "candles_from endMs K cursor" and ?l = "fst (last (take n (candles_from endMs K cursor)))"
  have srt: "sorted_wrt (<) (map fst ?R)" using K by (simp add: candles_from_def sorted_wrt_map sorted_wrt_filter)
  have lmem: "last (take n ?R) \<in> set ?R" by (rule in_set_takeD[OF last_in_set[OF pg]])
  have 1: "candles_from endMs K (?l + 1) = filter (\<lambda>k. ?l + 1 \<le> fst k) ?R"
    by (rule candles_from_later[OF candles_from_ge[OF lmem]])
  have spl: "map fst ?R = map fst (take n ?R) @ map fst (drop n ?R)" by (simp add: take_map[symmetric] drop_map[symmetric] del: map_append) 
  have lt: "fst k \<le> ?l" if "k \<in> set (take n ?R)" for k
    using last_greatest[OF _ that] srt by (metis sorted_wrt_take take_map)
  have gt: "?l < fst k" if "k \<in> set (drop n ?R)" for k
    using srt that last_in_set[OF pg] unfolding spl sorted_wrt_append by auto
  have "filter (\<lambda>k. ?l + 1 \<le> fst k) (take n ?R) = []" "filter (\<lambda>k. ?l + 1 \<le> fst k) (drop n ?R) = drop n ?R"
    using lt gt by (auto simp: filter_empty_conv filter_id_conv; force)+
  then show ?thesis unfolding 1 by (metis append_Nil append_take_drop_id filter_append)
qed

lemma klines_step_run:
  assumes "answers_candles e c symbol interval endMs cap K cursor" and "sound_candles endMs K"
  shows "\<exists>w' more_pts. klines_step e c symbol interval endMs (Suc n) (cursor, out) w =
      (let R = take cap (candles_from endMs K cursor) in
       (Inr (if R = [] then ((cursor, out), False) else ((fst (last R) + 1, out @ more_pts), 1500 \<le> length R)), w')) \<and>
     map candle_view more_pts = map (\<lambda>(t, x). (UTCDay (UnixMilli t), x)) (take cap (candles_from endMs K cursor))"
proof -
  let ?R = "take cap (candles_from endMs K cursor)"
  obtain body w' page where g: "Get e (bn_spot c) 1 (klines_path symbol interval endMs cursor) w = (Inr body, w')"
    "klines_page body = Inr page" "map kline_of page = map Some ?R"
    using assms(1) unfolding answers_candles_def by blast
  have len: "length page = length ?R" using g(3) by (metis length_map)
  have lastR: "kline_of (last page) = Some (last ?R)" if "page \<noteq> []"
    using g(3) that len by (metis last_map length_0_conv)
  have R: "min_int64 \<le> fst (last ?R) \<and> fst (last ?R) < max_int64" if "page \<noteq> []"
  proof -
    have "?R \<noteq> []" using that len by (metis length_0_conv)
    then have "last ?R \<in> set K"
      using set_take_subset[of cap "candles_from endMs K cursor"] candles_from_sub[of endMs K cursor] last_in_set[of ?R] by blast
    then show ?thesis using assms(2) by (auto simp: sound_candles_def list_all_iff)
  qed
  have hd5: "last page \<noteq> []" "open_ms (hd (last page)) = fst (last ?R)" if "page \<noteq> []"
  proof -
    show ne: "last page \<noteq> []" using lastR[OF that] by (auto simp: kline_of_def split: if_splits)
    have "fst (last ?R) = open_ms (last page ! 0)" using lastR[OF that] by (simp add: kline_of_def split: if_splits) (metis fst_conv)
    then show "open_ms (hd (last page)) = fst (last ?R)" by (simp add: hd_conv_nth[OF ne])
  qed
  have "klines_step e c symbol interval endMs (Suc n) (cursor, out) w =
      (Inr (if ?R = [] then ((cursor, out), False)
         else ((fst (last ?R) + 1, out @ List.map_filter (kline_point_of e body) (indexed page)), 1500 \<le> length ?R)), w')"
  proof (cases "page = []")
    case True
    then have "?R = []" using g(3) by simp
    then show ?thesis using g(1,2) True by (simp add: klines_step_def Get_ctx[of _ _ n] bindE_def wrapE_def)
  next
    case False
    then have "?R \<noteq> []" using len by (metis length_0_conv)
    moreover have "wrap64 (open_ms (hd (last page)) + 1) = fst (last ?R) + 1"
      using R[OF False] hd5(2)[OF False] by (intro trans[OF arg_cong[of _ _ wrap64] wrap64_id]) auto
    ultimately show ?thesis using g(1,2) False hd5(1)[OF False] len by (simp add: klines_step_def Get_ctx[of _ _ n] bindE_def wrapE_def)
  qed
  then show ?thesis using map_filter_indexed[OF g(3), of e body] unfolding Let_def by blast
qed


definition klines_wanted :: "nat \<Rightarrow> (int \<times> f64) list \<Rightarrow> (int \<times> f64) list" where
  "klines_wanted cap R = (if 1500 \<le> cap then R else take cap R)"

lemma klines_pages:
  assumes K: "sound_candles endMs K" and cap: "0 < cap"
    and srv: "\<And>cur. cur \<in> set (first # map (\<lambda>k. fst k + 1) K) \<Longrightarrow> answers_candles e c symbol interval endMs cap K cur"
  shows "cursor \<in> set (first # map (\<lambda>k. fst k + 1) K) \<Longrightarrow> length (candles_from endMs K cursor) < ctx \<Longrightarrow>
    \<exists>w' cursor' pts. pages ctx (\<lambda>s. fst s < endMs) (klines_step e c symbol interval endMs) (cursor, out) w = (Inr (cursor', out @ pts), w') \<and>
      map candle_view pts = map (\<lambda>(t, x). (UTCDay (UnixMilli t), x)) (klines_wanted cap (candles_from endMs K cursor))"
proof (induction ctx arbitrary: cursor out w)
  case (Suc n)
  let ?R = "candles_from endMs K cursor" and ?day = "\<lambda>(t, x). (UTCDay (UnixMilli t), x)"
  show ?case
  proof (cases "cursor < endMs")
    case False
    have "k \<notin> set ?R" for k
    proof
      assume "k \<in> set ?R"
      then have "k \<in> set K" "cursor \<le> fst k" "fst k \<le> endMs" by (auto simp: candles_from_def)
      then show False using False K by (auto simp: sound_candles_def list_all_iff)
    qed
    then have "?R = []" by (metis list.set_intros(1) neq_Nil_conv)
    then show ?thesis using False by (simp add: klines_wanted_def)
  next
    case True
    obtain w' pts where st: "klines_step e c symbol interval endMs (Suc n) (cursor, out) w =
        (let R = take cap ?R in (Inr (if R = [] then ((cursor, out), False) else ((fst (last R) + 1, out @ pts), 1500 \<le> length R)), w'))"
      "map candle_view pts = map ?day (take cap ?R)"
      using klines_step_run[OF srv[OF Suc.prems(1)] K, of n out w] by blast
    consider (none) "take cap ?R = []" | (short) "take cap ?R \<noteq> []" "length (take cap ?R) < 1500" | (full) "1500 \<le> length (take cap ?R)"
      by linarith
    then show ?thesis
    proof cases
      case none
      then have "?R = []" using cap by simp
      then show ?thesis using True st by (simp add: bindE_def klines_wanted_def)
    next
      case short
      then have "klines_wanted cap ?R = take cap ?R" by (auto simp: klines_wanted_def)
      then show ?thesis using True st short by (auto simp: bindE_def Let_def)
    next
      case full
      let ?t = "fst (last (take cap ?R)) + 1"
      have ne: "take cap ?R \<noteq> []" using full by auto
      have nx: "candles_from endMs K ?t = drop cap ?R" by (rule candles_after[OF _ ne]) (use K in \<open>simp add: sound_candles_def\<close>)
      have "last (take cap ?R) \<in> set K" using in_set_takeD[OF last_in_set[OF ne]] candles_from_sub[of endMs K cursor] by blast
      then have mem: "?t \<in> set (first # map (\<lambda>k. fst k + 1) K)" by auto
      have "length (candles_from endMs K ?t) < n" using Suc.prems(2) cap full unfolding nx by auto
      from Suc.IH[OF mem this, of "out @ pts" w'] obtain w'' cur' pts' where
        ih: "pages n (\<lambda>s. fst s < endMs) (klines_step e c symbol interval endMs) (?t, out @ pts) w' = (Inr (cur', (out @ pts) @ pts'), w'')"
        "map candle_view pts' = map ?day (klines_wanted cap (drop cap ?R))" unfolding nx by blast
      have "klines_wanted cap ?R = take cap ?R @ klines_wanted cap (drop cap ?R)" using full by (simp add: klines_wanted_def)
      then have "map candle_view (pts @ pts') = map ?day (klines_wanted cap ?R)" using st(2) ih(2) by (simp only: map_append)
      moreover have "pages (Suc n) (\<lambda>s. fst s < endMs) (klines_step e c symbol interval endMs) (cursor, out) w = (Inr (cur', out @ pts @ pts'), w'')"
        using True st(1) ne full ih(1) by (simp add: bindE_def Let_def)
      ultimately show ?thesis by blast
    qed
  qed
qed simp

end
