(* ===== verification/Deribit.thy ===== *)
theory Deribit
  imports HttpClient
begin

text \<open>
  \<open>internal/providers/deribit\<close>: futures, tickers, the annualised basis, the volatility index and the summary of the
  option chain, with the term slope and the skew of implied volatility computed from it.
\<close>

section \<open>Data\<close>

record future_instrument =
  fi_name :: string
  fi_currency :: string
  fi_expiry :: int
  fi_active :: bool

record ticker =
  tk_name :: string
  tk_mark :: f64
  tk_index :: f64
  tk_last :: f64
  tk_bid :: f64
  tk_ask :: f64
  tk_oi :: f64
  tk_time :: int

record db_basis =
  db_date :: gotime
  db_currency :: string
  db_futures :: f64
  db_spot :: f64
  db_annualized :: f64
  db_days :: int
  db_name :: string
  db_hash :: string

record db_dvol =
  dv_date :: gotime
  dv_currency :: string
  dv_close :: f64
  dv_hash :: string

record option_summary =
  su_name :: string
  su_iv :: f64
  su_underlying :: f64
  su_strike :: f64
  su_expiry :: int
  su_put :: bool
  su_oi :: f64

definition db_default_url :: string where "db_default_url = ''https://www.deribit.com''"
definition minDaysToExpiry :: int where "minDaysToExpiry = 60"

definition db_New :: "'w cell \<Rightarrow> string \<Rightarrow> int \<Rightarrow> 'w http_client" where
  "db_New cl baseURL timeout = New cl [WithBaseURL (if baseURL = [] then db_default_url else baseURL), WithTimeout timeout]"

section \<open>Futures and tickers\<close>

definition instrument_row :: "obj \<Rightarrow> (string \<times> string \<times> int \<times> bool) option" where
  "instrument_row ob = do { n \<leftarrow> f_str ''instrument_name'' ob; b \<leftarrow> f_str ''base_currency'' ob; t \<leftarrow> f_int ''expiration_timestamp'' ob;
     a \<leftarrow> field dec_bool False ''is_active'' ob; Some (n, b, t, a) }"

definition FetchActiveFutures :: "'w net \<Rightarrow> 'w http_client \<Rightarrow> nat \<Rightarrow> string \<Rightarrow> ('w, future_instrument list) io" where
  "FetchActiveFutures e c ctx currency =
     bindE (wrapE ''fetch instruments'' [] (Get e c ctx (''/api/v2/public/get_instruments?currency='' @ ToUpper currency @ ''&kind=future&expired=false''))) (\<lambda>body.
     bindE (wrapE ''decode instruments'' [] (liftE (Unmarshal (dec_struct (field (dec_slice (dec_struct instrument_row)) [] ''result'')) body))) (\<lambda>rows.
       ret (map (\<lambda>(n, b, t, a). \<lparr>fi_name = n, fi_currency = ToUpper b, fi_expiry = t, fi_active = a\<rparr>) rows)))"

definition ticker_of :: "obj \<Rightarrow> ticker option" where
  "ticker_of ob = do { n \<leftarrow> f_str ''instrument_name'' ob; m \<leftarrow> f_float ''mark_price'' ob; i \<leftarrow> f_float ''index_price'' ob; l \<leftarrow> f_float ''last_price'' ob;
     b \<leftarrow> f_float ''best_bid_price'' ob; a \<leftarrow> f_float ''best_ask_price'' ob; q \<leftarrow> f_float ''open_interest'' ob; t \<leftarrow> f_int ''timestamp'' ob;
     Some \<lparr>tk_name = n, tk_mark = m, tk_index = i, tk_last = l, tk_bid = b, tk_ask = a, tk_oi = q, tk_time = t\<rparr> }"

definition FetchTicker :: "'w net \<Rightarrow> 'w http_client \<Rightarrow> nat \<Rightarrow> string \<Rightarrow> ('w, ticker) io" where
  "FetchTicker e c ctx name =
     bindE (wrapE ''fetch ticker'' [] (Get e c ctx (''/api/v2/public/ticker?instrument_name='' @ name))) (\<lambda>body.
       wrapE ''decode ticker'' [] (liftE (Unmarshal (dec_struct (\<lambda>ob. do { fs \<leftarrow> field fields_of [] ''result'' ob; ticker_of fs })) body)))"

section \<open>The basis of the nearest quarterly future\<close>

definition dte_of :: "gotime \<Rightarrow> future_instrument \<Rightarrow> int" where
  "dte_of now f = \<lceil>qv (fdiv (dur_hours (time_sub (UnixMilli (fi_expiry f)) now)) (lit 24))\<rceil>"

definition eligible_future :: "gotime \<Rightarrow> future_instrument \<Rightarrow> bool" where
  "eligible_future now f \<longleftrightarrow> fi_expiry f \<noteq> 0 \<and> minDaysToExpiry \<le> dte_of now f"

definition nearest_future :: "gotime \<Rightarrow> future_instrument list \<Rightarrow> (future_instrument \<times> int) option" where
  "nearest_future now fs = foldl (\<lambda>best f.
     if \<not> eligible_future now f then best
     else (case best of None \<Rightarrow> Some (f, dte_of now f) | Some (g, d) \<Rightarrow> if dte_of now f < d then Some (f, dte_of now f) else best)) None fs"

definition annualised_basis :: "f64 \<Rightarrow> f64 \<Rightarrow> int \<Rightarrow> f64" where
  "annualised_basis mark spot dte = fmul (fmul (fdiv (fsub mark spot) spot) (fdiv (lit 365) (f_of_int dte))) (lit 100)"

definition Basis3mSnapshot :: "'w net \<Rightarrow> 'w http_client \<Rightarrow> nat \<Rightarrow> string \<Rightarrow> ('w, db_basis) io" where
  "Basis3mSnapshot e c ctx currency =
     bindE (wrapE ''basis snapshot'' [] (FetchActiveFutures e c ctx currency)) (\<lambda>futures w.
       (case nt_now e w of (now, w1) \<Rightarrow>
         (case nearest_future now futures of
            None \<Rightarrow> throw (Fresh ''no quarterly future with %d DTE for %s'' [AInt minDaysToExpiry, AStr currency])
          | Some (f, dte) \<Rightarrow>
              bindE (wrapE ''basis snapshot ticker'' [] (FetchTicker e c (ctx - 1) (fi_name f))) (\<lambda>t.
                if feq (tk_index t) fzero then throw (Fresh ''index price is zero for %s'' [AStr (fi_name f)])
                else ret \<lparr>db_date = UTCDay now, db_currency = ToUpper currency, db_futures = tk_mark t, db_spot = tk_index t,
                  db_annualized = annualised_basis (tk_mark t) (tk_index t) dte, db_days = dte, db_name = fi_name f,
                  db_hash = nt_sha256 e (fi_name f @ ''|'' @ fmt_f 6 (tk_mark t) @ ''|'' @ fmt_f 6 (tk_index t) @ ''|'' @ itoa (tk_time t))\<rparr>)) w1))"

section \<open>The volatility index\<close>

text \<open>\<open>int64(x)\<close> of a float, for values in range; \<open>json.Marshal\<close> of a row of floats.\<close>

definition floats_text :: "'w net \<Rightarrow> f64 list \<Rightarrow> string" where
  "floats_text e xs = ''['' @ str_join '','' (map (nt_float_text e) xs) @ '']''"

definition dvol_point_of :: "'w net \<Rightarrow> string \<Rightarrow> f64 list \<Rightarrow> db_dvol option" where
  "dvol_point_of e cur row = (if length row < 5 then None
     else Some \<lparr>dv_date = UTCDay (UnixMilli (int_of_f (row ! 0))), dv_currency = cur, dv_close = row ! 4, dv_hash = nt_sha256 e (floats_text e row)\<rparr>)"

definition FetchDVOL :: "'w net \<Rightarrow> 'w http_client \<Rightarrow> nat \<Rightarrow> string \<Rightarrow> gotime \<Rightarrow> gotime \<Rightarrow> ('w, db_dvol list) io" where
  "FetchDVOL e c ctx currency since until =
     bindE (wrapE ''fetch dvol'' [] (Get e c ctx (''/api/v2/public/get_volatility_index_data?currency='' @ ToUpper currency @ ''&start_timestamp='' @
         itoa (unix_milli since) @ ''&end_timestamp='' @ itoa (unix_milli until) @ ''&resolution=86400''))) (\<lambda>body.
     bindE (wrapE ''decode dvol'' [] (liftE (Unmarshal (dec_struct (\<lambda>ob. do { fs \<leftarrow> field fields_of [] ''result'' ob;
         field (dec_slice (dec_slice (dec_float fzero) [])) [] ''data'' fs })) body))) (\<lambda>rows.
       ret (List.map_filter (dvol_point_of e (ToUpper currency)) rows)))"

section \<open>The option chain\<close>

text \<open>Names such as \<open>BTC-27JUN25-100000-C\<close>.\<close>

definition parseOptionName :: "string \<Rightarrow> (f64 \<times> int \<times> bool) option" where
  "parseOptionName name =
     (case split_on (CHR ''-'') name of
        _ # d # k # side # _ \<Rightarrow>
          (case parse_dMonyy (ToUpper d) of
             None \<Rightarrow> None
           | Some t \<Rightarrow>
               (case sscan_float k of
                  None \<Rightarrow> None
                | Some s \<Rightarrow> if fle s fzero then None
                    else if ToUpper side = ''P'' then Some (s, unix_milli t, True)
                    else if ToUpper side = ''C'' then Some (s, unix_milli t, False) else None))
      | _ \<Rightarrow> None)"

definition summary_row :: "obj \<Rightarrow> (string \<times> f64 \<times> f64 \<times> f64) option" where
  "summary_row ob = do { n \<leftarrow> f_str ''instrument_name'' ob; v \<leftarrow> f_float ''mark_iv'' ob; u \<leftarrow> f_float ''underlying_price'' ob;
     bid \<leftarrow> f_float ''bid_price'' ob; ask \<leftarrow> f_float ''ask_price'' ob; q \<leftarrow> f_float ''open_interest'' ob; Some (n, v, u, q) }"

definition summary_of :: "string \<times> f64 \<times> f64 \<times> f64 \<Rightarrow> option_summary option" where
  "summary_of = (\<lambda>(n, v, u, q). if fle v fzero then None
     else (case parseOptionName n of None \<Rightarrow> None | Some (k, t, put) \<Rightarrow>
       Some \<lparr>su_name = n, su_iv = v, su_underlying = u, su_strike = k, su_expiry = t, su_put = put, su_oi = q\<rparr>))"

definition FetchOptionsSummary :: "'w net \<Rightarrow> 'w http_client \<Rightarrow> nat \<Rightarrow> string \<Rightarrow> ('w, option_summary list) io" where
  "FetchOptionsSummary e c ctx currency =
     bindE (wrapE ''fetch options summary'' [] (Get e c ctx (''/api/v2/public/get_book_summary_by_currency?currency='' @ ToUpper currency @ ''&kind=option''))) (\<lambda>body.
     bindE (wrapE ''decode options summary'' [] (liftE (Unmarshal (dec_struct (field (dec_slice (dec_struct summary_row)) [] ''result'')) body))) (\<lambda>rows.
       ret (List.map_filter summary_of rows)))"

section \<open>Term slope and skew\<close>

definition MaxFloat64 :: f64 where
  "MaxFloat64 = Fin ((2 - 1 / 2 ^ 52) * 2 ^ 1023)"

definition days_to :: "gotime \<Rightarrow> option_summary \<Rightarrow> f64" where
  "days_to now o' = fdiv (dur_hours (time_sub (UnixMilli (su_expiry o')) now)) (lit 24)"

text \<open>Per expiry at least a week away: days to expiry, distance of the strike nearest to the price, and its volatility.\<close>

definition slope_add :: "gotime \<Rightarrow> f64 \<Rightarrow> (int \<rightharpoonup> f64 \<times> f64 \<times> f64) \<Rightarrow> option_summary \<Rightarrow> (int \<rightharpoonup> f64 \<times> f64 \<times> f64)" where
  "slope_add now underlying m q =
     (let dte = days_to now q; dist = fabs (fsub (su_strike q) underlying) in
      if flt dte (lit 7) then m
      else (case m (su_expiry q) of
          None \<Rightarrow> m(su_expiry q \<mapsto> (dte, dist, su_iv q))
        | Some (d, bd, bv) \<Rightarrow> if flt dist bd then m(su_expiry q \<mapsto> (d, dist, su_iv q)) else m))"

definition nearest_step :: "f64 \<Rightarrow> f64 \<times> f64 \<Rightarrow> f64 \<times> f64 \<times> f64 \<Rightarrow> f64 \<times> f64" where
  "nearest_step target acc b = (case (acc, b) of ((best, iv), (dte, _, v)) \<Rightarrow>
     let d = fabs (fsub dte target) in if flt d best then (d, v) else (best, iv))"

definition ComputeIVTermSlope :: "(int set \<Rightarrow> int list) \<Rightarrow> gotime \<Rightarrow> option_summary list \<Rightarrow> f64 option" where
  "ComputeIVTermSlope ord now opts =
     (case opts of [] \<Rightarrow> None | q # _ \<Rightarrow>
        let underlying = su_underlying q in
        if fle underlying fzero then None
        else
          (let best = foldl (slope_add now underlying) Map.empty opts;
               bs = List.map_filter best (ord (dom best));
               n30 = foldl (nearest_step (lit 30)) (MaxFloat64, fzero) bs;
               n90 = foldl (nearest_step (lit 90)) (MaxFloat64, fzero) bs in
           if fle (snd n30) fzero \<or> flt (lit 20) (fst n30) \<or> flt (lit 45) (fst n90) then None
           else Some (fdiv (fsub (snd n90) (snd n30)) (snd n30))))"

text \<open>The option of one side that is nearest to 30 days, and among those nearest to the target strike.\<close>

definition skew_step :: "gotime \<Rightarrow> f64 \<Rightarrow> f64 \<times> f64 \<times> f64 \<Rightarrow> option_summary \<Rightarrow> f64 \<times> f64 \<times> f64" where
  "skew_step now target best q = (case best of (bd, bs, bv) \<Rightarrow>
     let dd = fabs (fsub (days_to now q) (lit 30)); sd = fabs (fsub (su_strike q) target) in
     if flt (lit 20) dd then best
     else if flt dd bd \<or> feq dd bd \<and> flt sd bs then (dd, sd, su_iv q) else best)"

definition nearest_option :: "gotime \<Rightarrow> f64 \<Rightarrow> bool \<Rightarrow> option_summary list \<Rightarrow> f64 \<times> f64 \<times> f64" where
  "nearest_option now target put opts =
     foldl (\<lambda>b q. if su_put q = put then skew_step now target b q else b) (MaxFloat64, MaxFloat64, fzero) opts"

definition ComputeIVSkew :: "gotime \<Rightarrow> option_summary list \<Rightarrow> f64 option" where
  "ComputeIVSkew now opts =
     (case opts of [] \<Rightarrow> None | q # _ \<Rightarrow>
        let underlying = su_underlying q in
        if fle underlying fzero then None
        else
          (let ivp = snd (snd (nearest_option now (fmul (lit (90 / 100)) underlying) True opts));
               ivc = snd (snd (nearest_option now (fmul (lit (110 / 100)) underlying) False opts)) in
           if fle ivp fzero \<or> fle ivc fzero then None else Some (fsub ivp ivc)))"

end
