(* ===== verification/Venues.thy ===== *)
theory Venues
  imports HttpClient
begin

text \<open>
  The clients of the other trading venues: \<open>okx\<close> and \<open>bybit\<close> (open interest and funding, paged), \<open>kraken\<close> and
  \<open>coinbase\<close> (candles), all under \<open>internal/repo/webapi\<close>.
\<close>

section \<open>OKX\<close>

record okx_oi_point =
  xoi_date :: gotime
  xoi_inst :: string
  xoi_usd :: f64
  xoi_hash :: string

record okx_funding_point =
  xfu_time :: gotime
  xfu_inst :: string
  xfu_rate :: f64
  xfu_hash :: string

definition okx_url :: string where "okx_url = ''https://www.okx.com''"

definition okx_New :: "'w cell \<Rightarrow> string \<Rightarrow> int \<Rightarrow> 'w http_client" where
  "okx_New cl baseURL timeout = New cl [WithBaseURL (if baseURL = [] then okx_url else baseURL), WithTimeout timeout, WithThrottle (200 * millisecond_ns)]"

definition oiResponse :: "obj \<Rightarrow> (string \<times> string list list) option" where
  "oiResponse ob = do { c \<leftarrow> f_str ''code'' ob; d \<leftarrow> field (dec_slice (dec_slice (dec_string []) [])) [] ''data'' ob; Some (c, d) }"

text \<open>
  The rows of a page: a stamp that was seen is passed over; \<open>n\<close> counts the new rows, \<open>oldest\<close> is the earliest of their
  stamps (zero when there is none yet).
\<close>

record okx_oi_state =
  xs_seen :: "int set"
  xs_out :: "okx_oi_point list"
  xs_count :: nat
  xs_oldest :: int

definition okx_oi_row :: "'w net \<Rightarrow> string \<Rightarrow> okx_oi_state \<Rightarrow> string list \<Rightarrow> err + okx_oi_state" where
  "okx_oi_row e currency s row =
     (if length row < 3 then Inr s
      else (case ParseInt (row ! 0) of (t, tok) \<Rightarrow>
        if \<not> tok then Inl (Wrap ''parse ts %q'' [AStr (row ! 0)] strconv_error)
        else if t \<in> xs_seen s then Inr s
        else (case ParseFloat (row ! 2) of (v, vok) \<Rightarrow>
          if \<not> vok then Inl (Wrap ''parse oi %q'' [AStr (row ! 2)] strconv_error)
          else Inr \<lparr>xs_seen = insert t (xs_seen s),
                 xs_out = xs_out s @ [\<lparr>xoi_date = UTCDay (UnixMilli t), xoi_inst = currency, xoi_usd = v, xoi_hash = nt_sha256 e (json_strings row)\<rparr>],
                 xs_count = Suc (xs_count s), xs_oldest = (if xs_oldest s = 0 \<or> t < xs_oldest s then t else xs_oldest s)\<rparr>)))"

definition okx_oi_path :: "string \<Rightarrow> string \<Rightarrow> string" where
  "okx_oi_path currency begin = ''/api/v5/rubik/stat/contracts/open-interest-volume?ccy='' @ currency @ ''&period=1D'' @
     (if begin = [] then [] else ''&begin='' @ begin)"

definition okx_oi_step :: "'w net \<Rightarrow> 'w http_client \<Rightarrow> string \<Rightarrow> nat \<Rightarrow> (int set \<times> okx_oi_point list) \<times> string \<Rightarrow>
    ('w, ((int set \<times> okx_oi_point list) \<times> string) \<times> bool) io" where
  "okx_oi_step e c currency ctx s =
     bindE (wrapE ''fetch open interest'' [] (Get e c ctx (okx_oi_path currency (snd s)))) (\<lambda>body.
     bindE (wrapE ''decode oi'' [] (liftE (Unmarshal (dec_struct oiResponse) body))) (\<lambda>(code, data).
       if code \<noteq> ''0'' then throw (Fresh ''okx oi code %s: %s'' [AStr code, AStr (Truncate body 200)])
       else if data = [] then ret (s, False)
       else bindE (liftE (fold_sum (okx_oi_row e currency)
            \<lparr>xs_seen = fst (fst s), xs_out = snd (fst s), xs_count = 0, xs_oldest = 0\<rparr> data)) (\<lambda>r.
         ret (((xs_seen r, xs_out r), itoa (wrap64 (xs_oldest r - 1))), xs_count r \<noteq> 0))))"

definition okx_FetchOpenInterest :: "'w net \<Rightarrow> 'w http_client \<Rightarrow> nat \<Rightarrow> string \<Rightarrow> ('w, okx_oi_point list) io" where
  "okx_FetchOpenInterest e c ctx currency =
     bindE (pages ctx (\<lambda>_. True) (okx_oi_step e c currency) (({}, []), [])) (\<lambda>s. ret (snd (fst s)))"

text \<open>Funding rates: a stamp before the start ends the search.\<close>

definition okx_funding_row :: "obj \<Rightarrow> (string \<times> string \<times> string) option" where
  "okx_funding_row ob = do { i \<leftarrow> f_str ''instId'' ob; r \<leftarrow> f_str ''fundingRate'' ob; t \<leftarrow> f_str ''fundingTime'' ob; Some (i, r, t) }"

definition fundingRateResponse :: "obj \<Rightarrow> (string \<times> (string \<times> string \<times> string) list) option" where
  "fundingRateResponse ob = do { c \<leftarrow> f_str ''code'' ob; d \<leftarrow> field (dec_slice (dec_struct okx_funding_row)) [] ''data'' ob; Some (c, d) }"

fun okx_funding_rows :: "'w net \<Rightarrow> int \<Rightarrow> okx_funding_point list \<Rightarrow> (string \<times> string \<times> string) list \<Rightarrow> err + okx_funding_point list \<times> bool" where
  "okx_funding_rows e startMs out [] = Inr (out, False)"
| "okx_funding_rows e startMs out ((i, r, t) # rows) =
     (case ParseInt t of (ms, tok) \<Rightarrow>
        if \<not> tok then Inl (Wrap ''parse fundingTime %q'' [AStr t] strconv_error)
        else if ms < startMs then Inr (out, True)
        else (case ParseFloat r of (v, vok) \<Rightarrow>
          if \<not> vok then Inl (Wrap ''parse fundingRate %q'' [AStr r] strconv_error)
          else okx_funding_rows e startMs (out @ [\<lparr>xfu_time = UnixMilli ms, xfu_inst = i, xfu_rate = v,
                 xfu_hash = nt_sha256 e (json_object [(''instId'', json_string i), (''fundingRate'', json_string r), (''fundingTime'', json_string t)])\<rparr>]) rows))"

definition okx_funding_path :: "string \<Rightarrow> string \<Rightarrow> string" where
  "okx_funding_path inst cursor = ''/api/v5/public/funding-rate-history?instId='' @ inst @ ''&limit=100'' @
     (if cursor = [] then [] else ''&before='' @ cursor)"

definition okx_funding_step :: "'w net \<Rightarrow> 'w http_client \<Rightarrow> string \<Rightarrow> int \<Rightarrow> nat \<Rightarrow> okx_funding_point list \<times> string \<Rightarrow>
    ('w, (okx_funding_point list \<times> string) \<times> bool) io" where
  "okx_funding_step e c inst startMs ctx s =
     bindE (wrapE ''fetch funding rate'' [] (Get e c ctx (okx_funding_path inst (snd s)))) (\<lambda>body.
     bindE (wrapE ''decode funding'' [] (liftE (Unmarshal (dec_struct fundingRateResponse) body))) (\<lambda>(code, data).
       if code \<noteq> ''0'' then throw (Fresh ''okx funding code %s: %s'' [AStr code, AStr (Truncate body 200)])
       else if data = [] then ret (s, False)
       else bindE (liftE (okx_funding_rows e startMs (fst s) data)) (\<lambda>(out, reached).
         ret ((out, if reached then snd s else snd (snd (last data))), \<not> reached))))"

definition okx_FetchFundingRateHistory :: "'w net \<Rightarrow> 'w http_client \<Rightarrow> nat \<Rightarrow> string \<Rightarrow> gotime \<Rightarrow> ('w, okx_funding_point list) io" where
  "okx_FetchFundingRateHistory e c ctx inst since =
     bindE (pages ctx (\<lambda>_. True) (okx_funding_step e c inst (unix_milli since)) ([], [])) (\<lambda>s. ret (fst s))"

section \<open>Bybit\<close>

record bybit_oi_point =
  yoi_date :: gotime
  yoi_symbol :: string
  yoi_usd :: f64
  yoi_hash :: string

record bybit_funding_point =
  yfu_time :: gotime
  yfu_symbol :: string
  yfu_rate :: f64
  yfu_hash :: string

definition bybit_url :: string where "bybit_url = ''https://api.bybit.com''"

definition bybit_New :: "'w cell \<Rightarrow> string \<Rightarrow> int \<Rightarrow> 'w http_client" where
  "bybit_New cl baseURL timeout = New cl [WithBaseURL (if baseURL = [] then bybit_url else baseURL), WithTimeout timeout, WithThrottle (200 * millisecond_ns)]"

definition v5Response :: "obj \<Rightarrow> (int \<times> string \<times> raw option) option" where
  "v5Response ob = do { c \<leftarrow> f_int ''retCode'' ob; m \<leftarrow> f_str ''retMsg'' ob; r \<leftarrow> field dec_raw None ''result'' ob; Some (c, m, r) }"

definition listWrapper :: "obj \<Rightarrow> (raw option \<times> string) option" where
  "listWrapper ob = do { l \<leftarrow> field dec_raw None ''list'' ob; p \<leftarrow> f_str ''nextPageCursor'' ob; Some (l, p) }"

definition fetchList :: "'w net \<Rightarrow> 'w http_client \<Rightarrow> nat \<Rightarrow> string \<Rightarrow> ('w, raw option \<times> string) io" where
  "fetchList e c ctx path =
     bindE (wrapE ''bybit'' [] (Get e c ctx path)) (\<lambda>body.
     bindE (wrapE ''bybit: decode envelope'' [] (liftE (Unmarshal (dec_struct v5Response) body))) (\<lambda>(code, msg, result).
       if code \<noteq> 0 then throw (Fresh ''bybit retCode %d: %s'' [AInt code, AStr msg])
       else wrapE ''bybit: decode result wrapper'' [] (liftE (Unmarshal_raw (dec_struct listWrapper) result))))"

definition bybit_oi_item :: "obj \<Rightarrow> (string \<times> string) option" where
  "bybit_oi_item ob = do { v \<leftarrow> f_str ''openInterest'' ob; t \<leftarrow> f_str ''timestamp'' ob; Some (v, t) }"

definition bybit_oi_point_of :: "'w net \<Rightarrow> string \<Rightarrow> bybit_oi_point list \<Rightarrow> string \<times> string \<Rightarrow> err + bybit_oi_point list" where
  "bybit_oi_point_of e symbol out it = (case it of (v, t) \<Rightarrow>
     (case ParseInt t of (ms, tok) \<Rightarrow>
        if \<not> tok then Inl (Wrap ''parse timestamp %q'' [AStr t] strconv_error)
        else (case ParseFloat v of (x, vok) \<Rightarrow>
          if \<not> vok then Inl (Wrap ''parse openInterest %q'' [AStr v] strconv_error)
          else Inr (out @ [\<lparr>yoi_date = UnixMilli ms, yoi_symbol = symbol, yoi_usd = x,
                 yoi_hash = nt_sha256 e (json_object [(''openInterest'', json_string v), (''timestamp'', json_string t)])\<rparr>]))))"

definition bybit_oi_step :: "'w net \<Rightarrow> 'w http_client \<Rightarrow> string \<Rightarrow> string \<Rightarrow> nat \<Rightarrow> bybit_oi_point list \<times> string \<Rightarrow>
    ('w, (bybit_oi_point list \<times> string) \<times> bool) io" where
  "bybit_oi_step e c basePath symbol ctx s =
     bindE (fetchList e c ctx (basePath @ (if snd s = [] then [] else ''&cursor='' @ snd s))) (\<lambda>(raw, next).
     bindE (wrapE ''decode OI list'' [] (liftE (Unmarshal_raw (dec_slice (dec_struct bybit_oi_item) []) raw))) (\<lambda>items.
       if items = [] then ret (s, False)
       else bindE (liftE (fold_sum (bybit_oi_point_of e symbol) (fst s) items)) (\<lambda>out. ret ((out, next), next \<noteq> []))))"

definition bybit_FetchOpenInterest :: "'w net \<Rightarrow> 'w http_client \<Rightarrow> nat \<Rightarrow> string \<Rightarrow> string \<Rightarrow> gotime \<Rightarrow> gotime \<Rightarrow> ('w, bybit_oi_point list) io" where
  "bybit_FetchOpenInterest e c ctx symbol interval0 since until =
     (let interval = (if interval0 = [] then ''1d'' else interval0);
          basePath = ''/v5/market/open-interest?category=linear&symbol='' @ symbol @ ''&intervalTime='' @ interval @ ''&startTime='' @
            itoa (unix_milli since) @ ''&endTime='' @ itoa (unix_milli until) @ ''&limit=200'' in
      bindE (pages ctx (\<lambda>_. True) (bybit_oi_step e c basePath symbol) ([], [])) (\<lambda>s. ret (fst s)))"

definition bybit_funding_item :: "obj \<Rightarrow> (string \<times> string \<times> string) option" where
  "bybit_funding_item ob = do { s \<leftarrow> f_str ''symbol'' ob; r \<leftarrow> f_str ''fundingRate'' ob; t \<leftarrow> f_str ''fundingRateTimestamp'' ob; Some (s, r, t) }"

definition bybit_funding_point_of :: "'w net \<Rightarrow> bybit_funding_point list \<Rightarrow> string \<times> string \<times> string \<Rightarrow> err + bybit_funding_point list" where
  "bybit_funding_point_of e out it = (case it of (s, r, t) \<Rightarrow>
     (case ParseInt t of (ms, tok) \<Rightarrow>
        if \<not> tok then Inl (Wrap ''parse timestamp %q'' [AStr t] strconv_error)
        else (case ParseFloat r of (x, vok) \<Rightarrow>
          if \<not> vok then Inl (Wrap ''parse fundingRate %q'' [AStr r] strconv_error)
          else Inr (out @ [\<lparr>yfu_time = UnixMilli ms, yfu_symbol = s, yfu_rate = x,
                 yfu_hash = nt_sha256 e (json_object [(''symbol'', json_string s), (''fundingRate'', json_string r), (''fundingRateTimestamp'', json_string t)])\<rparr>]))))"

text \<open>Windows of at most sixty days, each starting where the one before ended.\<close>

definition window_end :: "gotime \<Rightarrow> gotime \<Rightarrow> gotime" where
  "window_end until t = (let u = add_days t 60 in if until < u then until else u)"

definition bybit_funding_path :: "string \<Rightarrow> gotime \<Rightarrow> gotime \<Rightarrow> string" where
  "bybit_funding_path symbol since until = ''/v5/market/funding/history?category=linear&symbol='' @ symbol @ ''&startTime='' @
     itoa (unix_milli since) @ ''&endTime='' @ itoa (unix_milli until) @ ''&limit=200''"

definition bybit_funding_step :: "'w net \<Rightarrow> 'w http_client \<Rightarrow> string \<Rightarrow> gotime \<Rightarrow> nat \<Rightarrow> gotime \<times> bybit_funding_point list \<Rightarrow>
    ('w, (gotime \<times> bybit_funding_point list) \<times> bool) io" where
  "bybit_funding_step e c symbol until ctx s =
     bindE (fetchList e c ctx (bybit_funding_path symbol (fst s) (window_end until (fst s)))) (\<lambda>(raw, _).
     bindE (wrapE ''decode funding list'' [] (liftE (Unmarshal_raw (dec_slice (dec_struct bybit_funding_item) []) raw))) (\<lambda>items.
     bindE (liftE (fold_sum (bybit_funding_point_of e) (snd s) items)) (\<lambda>out. ret ((window_end until (fst s), out), True))))"

definition bybit_FetchFundingRateHistory :: "'w net \<Rightarrow> 'w http_client \<Rightarrow> nat \<Rightarrow> string \<Rightarrow> gotime \<Rightarrow> gotime \<Rightarrow> ('w, bybit_funding_point list) io" where
  "bybit_FetchFundingRateHistory e c ctx symbol since until =
     bindE (pages ctx (\<lambda>s. fst s < until) (bybit_funding_step e c symbol until) (since, [])) (\<lambda>s. ret (snd s))"

section \<open>Kraken\<close>

record kraken_point =
  kra_date :: gotime
  kra_pair :: string
  kra_open :: f64
  kra_high :: f64
  kra_low :: f64
  kra_close :: f64
  kra_volume :: f64
  kra_hash :: string

definition kraken_url :: string where "kraken_url = ''https://api.kraken.com''"

definition kraken_New :: "'w cell \<Rightarrow> string \<Rightarrow> int \<Rightarrow> 'w http_client" where
  "kraken_New cl baseURL timeout = New cl [WithBaseURL (if baseURL = [] then kraken_url else baseURL), WithTimeout timeout]"

definition kraken_response :: "obj \<Rightarrow> (string list \<times> (string \<rightharpoonup> raw)) option" where
  "kraken_response ob = do { er \<leftarrow> field (dec_slice (dec_string [])) [] ''error'' ob; r \<leftarrow> field (dec_map Some) Map.empty ''result'' ob; Some (er, r) }"

definition parseJSONFloat :: "raw \<Rightarrow> f64" where
  "parseJSONFloat r = (case dec_string [] r of Some s \<Rightarrow> fst (ParseFloat s)
     | None \<Rightarrow> (case dec_float fzero r of Some x \<Rightarrow> x | None \<Rightarrow> fzero))"

definition hashElement :: "'w net \<Rightarrow> raw \<Rightarrow> nat \<Rightarrow> string" where
  "hashElement e body i = (case snd body of
       ArrJ rs \<Rightarrow> if i < length rs then nt_sha256 e (fst (rs ! i)) else nt_sha256 e (itoa (int i))
     | _ \<Rightarrow> nt_sha256 e (itoa (int i)))"

definition candle_of :: "'w net \<Rightarrow> string \<Rightarrow> raw \<Rightarrow> nat \<times> raw list \<Rightarrow> kraken_point option" where
  "candle_of e pair body = (\<lambda>(i, cdl).
     if length cdl < 7 then None
     else (case dec_int64 0 (cdl ! 0) of None \<Rightarrow> None
       | Some ts \<Rightarrow> Some \<lparr>kra_date = UTCDay (Unix ts), kra_pair = pair, kra_open = parseJSONFloat (cdl ! 1), kra_high = parseJSONFloat (cdl ! 2),
           kra_low = parseJSONFloat (cdl ! 3), kra_close = parseJSONFloat (cdl ! 4), kra_volume = parseJSONFloat (cdl ! 6),
           kra_hash = hashElement e body i\<rparr>))"

text \<open>The candles are the first entry of the result, in the order the map is walked, whose key is not \<open>last\<close>.\<close>

definition kraken_FetchOHLC :: "'w net \<Rightarrow> 'w http_client \<Rightarrow> nat \<Rightarrow> string \<Rightarrow> int \<Rightarrow> int \<Rightarrow> ('w, kraken_point list) io" where
  "kraken_FetchOHLC e c ctx pair interval since =
     bindE (wrapE ''fetch OHLC %s'' [AStr pair] (Get e c ctx (''/0/public/OHLC?pair='' @ pair @ ''&interval='' @ itoa interval @
         (if 0 < since then ''&since='' @ itoa since else [])))) (\<lambda>body.
     bindE (wrapE ''decode response'' [] (liftE (Unmarshal (dec_struct kraken_response) body))) (\<lambda>(er, result).
       if er \<noteq> [] then throw (Fresh ''kraken API error: %v'' [AList (map AStr er)])
       else (case filter (\<lambda>k. k \<noteq> ''last'') (nt_keys e (dom result)) of
          [] \<Rightarrow> throw (Fresh ''no candle data in response for %s'' [AStr pair])
        | k # _ \<Rightarrow> bindE (wrapE ''decode candles'' [] (liftE (Unmarshal_raw (dec_slice (dec_slice Some []) []) (result k)))) (\<lambda>candles.
            ret (List.map_filter (candle_of e pair (the (result k))) (zip [0..<length candles] candles))))))"

section \<open>Coinbase\<close>

record coinbase_point =
  cba_date :: gotime
  cba_product :: string
  cba_close :: f64
  cba_volume :: f64
  cba_hash :: string

definition coinbase_url :: string where "coinbase_url = ''https://api.exchange.coinbase.com''"

definition coinbase_New :: "'w cell \<Rightarrow> string \<Rightarrow> int \<Rightarrow> 'w http_client" where
  "coinbase_New cl baseURL timeout = New cl [WithBaseURL (if baseURL = [] then coinbase_url else baseURL), WithTimeout timeout, WithThrottle (200 * millisecond_ns)]"

definition cb_candle_of :: "'w net \<Rightarrow> string \<Rightarrow> string list \<Rightarrow> coinbase_point option" where
  "cb_candle_of e product r = (if length r < 6 then None else
     let ts = num_int (r ! 0) in
     Some \<lparr>cba_date = UTCDay (Unix ts), cba_product = product, cba_close = num_float (r ! 4), cba_volume = num_float (r ! 5),
       cba_hash = nt_sha256 e (product @ ''|'' @ itoa ts @ ''|'' @ r ! 4 @ ''|'' @ r ! 5)\<rparr>)"

definition candle_window :: "int \<Rightarrow> gotime \<Rightarrow> gotime \<Rightarrow> gotime" where
  "candle_window granularity until t =
     (let u = t + wrap64 (granularity * 1000000000 * 300) in if until < u then until else u)"

definition cb_path :: "string \<Rightarrow> int \<Rightarrow> gotime \<Rightarrow> gotime \<Rightarrow> string" where
  "cb_path product granularity since until = ''/products/'' @ product @ ''/candles?start='' @ fmt_rfc3339 since @ ''&end='' @ fmt_rfc3339 until @
     ''&granularity='' @ itoa granularity"

definition cb_step :: "'w net \<Rightarrow> 'w http_client \<Rightarrow> string \<Rightarrow> int \<Rightarrow> gotime \<Rightarrow> nat \<Rightarrow> gotime \<times> coinbase_point list \<Rightarrow>
    ('w, (gotime \<times> coinbase_point list) \<times> bool) io" where
  "cb_step e c product granularity until ctx s = (let u = candle_window granularity until (fst s) in
     bindE (wrapE ''fetch candles %s'' [AStr product] (Get e c ctx (cb_path product granularity (fst s) u))) (\<lambda>body.
     bindE (wrapE ''decode candles'' [] (liftE (Unmarshal (dec_slice (dec_slice (dec_number []) []) []) body))) (\<lambda>rows.
       ret ((u, snd s @ List.map_filter (cb_candle_of e product) rows), True))))"

definition coinbase_FetchCandles :: "'w net \<Rightarrow> 'w http_client \<Rightarrow> nat \<Rightarrow> string \<Rightarrow> gotime \<Rightarrow> gotime \<Rightarrow> int \<Rightarrow> ('w, coinbase_point list) io" where
  "coinbase_FetchCandles e c ctx product since until granularity =
     bindE (pages ctx (\<lambda>s. fst s < until) (cb_step e c product granularity until) (since, [])) (\<lambda>s. ret (snd s))"

end
