(* ===== verification/Sources.thy ===== *)
theory Sources
  imports HttpClient
begin

text \<open>
  The data sources of the liquidity domain: \<open>defillama\<close> (stablecoins and the value locked on a chain), \<open>coinmetrics\<close>
  (exchange flows, paged by a token) and \<open>coingecko\<close> (market capitalisation), all under \<open>internal/repo/webapi\<close>.
\<close>

section \<open>DefiLlama\<close>

record llama_daily =
  lld_date :: gotime
  lld_total :: f64
  lld_hash :: string

record llama_tvl =
  llt_date :: gotime
  llt_usd :: f64
  llt_hash :: string

record llama_coin =
  llc_date :: gotime
  llc_symbol :: string
  llc_usd :: f64
  llc_hash :: string

definition llama_New :: "'w cell \<Rightarrow> string \<Rightarrow> int \<Rightarrow> 'w http_client" where
  "llama_New cl baseURL timeout = New cl [WithBaseURL baseURL, WithTimeout timeout]"

definition chainTVLEntry :: "obj \<Rightarrow> (string \<times> string) option" where
  "chainTVLEntry ob = do { d \<leftarrow> f_num ''date'' ob; v \<leftarrow> f_num ''tvl'' ob; Some (d, v) }"

definition tvl_add :: "'w net \<Rightarrow> llama_tvl list \<Rightarrow> string \<times> string \<Rightarrow> err + llama_tvl list" where
  "tvl_add e out en = (case en of (d, v) \<Rightarrow>
     (case ParseInt d of (ts, tok) \<Rightarrow>
        if \<not> tok then Inl (Wrap ''bad date %q'' [AStr d] strconv_error)
        else (case ParseFloat v of (x, vok) \<Rightarrow>
          if \<not> vok then Inl (Wrap ''bad tvl %q'' [AStr v] strconv_error)
          else Inr (out @ [\<lparr>llt_date = UTCDay (Unix ts), llt_usd = x,
                 llt_hash = nt_sha256 e (json_object [(''date'', json_number d), (''tvl'', json_number v)])\<rparr>]))))"

definition llama_FetchChainTVL :: "'w net \<Rightarrow> 'w http_client \<Rightarrow> nat \<Rightarrow> string \<Rightarrow> ('w, llama_tvl list) io" where
  "llama_FetchChainTVL e c ctx chain =
     bindE (wrapE ''defillama chain TVL'' [] (Get e c ctx (''/v2/historicalChainTvl/'' @ chain))) (\<lambda>body.
     bindE (wrapE ''decode chain tvl'' [] (liftE (Unmarshal (dec_slice (dec_struct chainTVLEntry) []) body))) (\<lambda>entries.
       liftE (fold_sum (tvl_add e) [] entries)))"

text \<open>A map field that is missing or null is nil, which \<open>Marshal\<close> tells from an empty map.\<close>

definition dec_nmap :: "(string \<rightharpoonup> string) option decoder" where
  "dec_nmap m r = (case snd r of NullJ \<Rightarrow> Some None
     | ObjJ fs \<Rightarrow> map_option Some (decode_entries (dec_number []) (case m of None \<Rightarrow> Map.empty | Some g \<Rightarrow> g) fs) | _ \<Rightarrow> None)"

definition nmap_get :: "(string \<rightharpoonup> string) option \<Rightarrow> string \<rightharpoonup> string" where
  "nmap_get m = (case m of None \<Rightarrow> Map.empty | Some g \<Rightarrow> g)"

definition nmap_text :: "'w net \<Rightarrow> (string \<rightharpoonup> string) option \<Rightarrow> string" where
  "nmap_text e m = (case m of None \<Rightarrow> ''null''
     | Some g \<Rightarrow> json_object (map (\<lambda>k. (k, json_number (mget [] g k))) (sort_strings (nt_keys e (dom g)))))"

definition dated_map :: "string \<Rightarrow> obj \<Rightarrow> (string \<times> (string \<rightharpoonup> string) option) option" where
  "dated_map name ob = do { d \<leftarrow> f_num ''date'' ob; m \<leftarrow> field dec_nmap None name ob; Some (d, m) }"

text \<open>The total over the currencies, in the order the map is walked; a value that is no float64 is an error.\<close>

definition circulating_sum :: "'w net \<Rightarrow> string \<Rightarrow> (string \<rightharpoonup> string) option \<Rightarrow> err + f64" where
  "circulating_sum e msg m = fold_sum (\<lambda>acc k. case ParseFloat (mget [] (nmap_get m) k) of (x, ok) \<Rightarrow>
     if ok then Inr (fadd acc x) else Inl (Wrap msg [] strconv_error)) fzero (nt_keys e (dom (nmap_get m)))"

definition coin_add :: "'w net \<Rightarrow> string \<Rightarrow> llama_coin list \<Rightarrow> string \<times> (string \<rightharpoonup> string) option \<Rightarrow> err + llama_coin list" where
  "coin_add e symbol out en = (case en of (d, m) \<Rightarrow>
     (case ParseInt d of (ts, tok) \<Rightarrow>
        if \<not> tok then Inl (Wrap ''bad date %q'' [AStr d] strconv_error)
        else (case circulating_sum e ''bad circulating value'' m of
            Inl er \<Rightarrow> Inl er
          | Inr tot \<Rightarrow> Inr (out @ [\<lparr>llc_date = UTCDay (Unix ts), llc_symbol = symbol, llc_usd = tot,
              llc_hash = nt_sha256 e (json_object [(''date'', json_number d), (''circulating'', nmap_text e m)])\<rparr>]))))"

definition fetchStablecoinHistory :: "'w net \<Rightarrow> 'w http_client \<Rightarrow> nat \<Rightarrow> string \<Rightarrow> string \<Rightarrow> ('w, llama_coin list) io" where
  "fetchStablecoinHistory e c ctx cid symbol =
     bindE (wrapE ''defillama stablecoin/%s'' [AStr cid] (Get e c ctx (''/stablecoin/'' @ cid))) (\<lambda>body.
     bindE (wrapE ''decode stablecoin history'' [] (liftE (Unmarshal (dec_struct
         (field (dec_slice (dec_struct (dated_map ''circulating''))) [] ''tokens'')) body))) (\<lambda>entries.
       liftE (fold_sum (coin_add e symbol) [] entries)))"

definition TrackedStablecoins :: "string list" where
  "TrackedStablecoins = [''USDT'', ''USDC'', ''DAI'']"

definition pegged_asset :: "obj \<Rightarrow> (string \<times> string) option" where
  "pegged_asset ob = do { i \<leftarrow> f_str ''id'' ob; n \<leftarrow> f_str ''name'' ob; s \<leftarrow> f_str ''symbol'' ob; Some (i, s) }"

text \<open>The first asset of each tracked symbol that has an id.\<close>

definition symbol_ids :: "(string \<times> string) list \<Rightarrow> string \<rightharpoonup> string" where
  "symbol_ids assets = foldl (\<lambda>m (i, s). if s \<in> set TrackedStablecoins \<and> mget [] m s = [] then m(s \<mapsto> i) else m) Map.empty assets"

definition coins_step :: "'w net \<Rightarrow> 'w http_client \<Rightarrow> (string \<rightharpoonup> string) \<Rightarrow> nat \<times> llama_coin list \<Rightarrow> string \<Rightarrow> ('w, nat \<times> llama_coin list) io" where
  "coins_step e c ids s symbol = (let cid = mget [] ids symbol in
     bindE (wrapE ''fetch %s (id=%s)'' [AStr symbol, AStr cid] (fetchStablecoinHistory e c (fst s) cid symbol))
       (\<lambda>pts. ret (fst s - 1, snd s @ pts)))"

definition llama_FetchPerStablecoinSupply :: "'w net \<Rightarrow> 'w http_client \<Rightarrow> nat \<Rightarrow> ('w, llama_coin list) io" where
  "llama_FetchPerStablecoinSupply e c ctx =
     bindE (wrapE ''defillama list'' [] (Get e c ctx ''/stablecoins?includePrices=false'')) (\<lambda>body.
     bindE (wrapE ''decode stablecoins list'' [] (liftE (Unmarshal (dec_struct
         (field (dec_slice (dec_struct pegged_asset)) [] ''peggedAssets'')) body))) (\<lambda>assets.
       let ids = symbol_ids assets in
       bindE (foldE (coins_step e c ids) (ctx - 1, []) (nt_keys e (dom ids))) (\<lambda>s. ret (snd s))))"

definition daily_add :: "'w net \<Rightarrow> llama_daily list \<Rightarrow> string \<times> (string \<rightharpoonup> string) option \<Rightarrow> err + llama_daily list" where
  "daily_add e out en = (case en of (d, m) \<Rightarrow>
     (case ParseInt d of (ts, tok) \<Rightarrow>
        if \<not> tok then Inl (Wrap ''bad date %q'' [AStr d] strconv_error)
        else (case circulating_sum e ''bad value'' m of
            Inl er \<Rightarrow> Inl er
          | Inr tot \<Rightarrow> Inr (out @ [\<lparr>lld_date = UTCDay (Unix ts), lld_total = tot,
              lld_hash = nt_sha256 e (json_object [(''date'', json_number d), (''totalCirculatingUSD'', nmap_text e m)])\<rparr>]))))"

definition llama_FetchAllStablecoinsChart :: "'w net \<Rightarrow> 'w http_client \<Rightarrow> nat \<Rightarrow> ('w, llama_daily list) io" where
  "llama_FetchAllStablecoinsChart e c ctx =
     bindE (wrapE ''defillama all stablecoins'' [] (Get e c ctx ''/stablecoincharts/all'')) (\<lambda>body.
     bindE (wrapE ''decode chart'' [] (liftE (Unmarshal (dec_slice (dec_struct (dated_map ''totalCirculatingUSD'')) []) body))) (\<lambda>entries.
       liftE (fold_sum (daily_add e) [] entries)))"

section \<open>Coin Metrics\<close>

record cm_netflow_point =
  cmn_date :: gotime
  cmn_asset :: string
  cmn_inflow :: "f64 option"
  cmn_outflow :: "f64 option"
  cmn_netflow :: "f64 option"
  cmn_hash :: string

definition cm_url :: string where "cm_url = ''https://community-api.coinmetrics.io/v4''"
definition defaultPageSize :: int where "defaultPageSize = 10000"

definition cm_New :: "'w cell \<Rightarrow> string \<Rightarrow> int \<Rightarrow> 'w http_client" where
  "cm_New cl baseURL timeout = New cl [WithBaseURL (if baseURL = [] then cm_url else baseURL), WithTimeout timeout]"

type_synonym any_row = "string \<rightharpoonup> json"

definition assetMetricsResponse :: "obj \<Rightarrow> (any_row list \<times> string) option" where
  "assetMetricsResponse ob = do { d \<leftarrow> field (dec_slice (dec_map (dec_any NullJ) Map.empty)) [] ''data'' ob; p \<leftarrow> f_str ''next_page_token'' ob; Some (d, p) }"

text \<open>\<open>json.Marshal\<close> of decoded values: keys in order, the last of equal keys.\<close>

fun keep_last :: "(string \<times> 'a) list \<Rightarrow> (string \<times> 'a) list" where
  "keep_last [] = []"
| "keep_last ((k, v) # xs) = (if k \<in> fst ` set xs then keep_last xs else (k, v) # keep_last xs)"

fun any_text :: "'w net \<Rightarrow> json \<Rightarrow> string" where
  "any_text e NullJ = ''null''"
| "any_text e (BoolJ b) = (if b then ''true'' else ''false'')"
| "any_text e (NumJ n) = nt_float_text e (num_float n)"
| "any_text e (StrJ s) = json_string s"
| "any_text e (ArrJ rs) = ''['' @ str_join '','' (map (\<lambda>r. any_text e (snd r)) rs) @ '']''"
| "any_text e (ObjJ fs) = json_object (sort_slice (\<lambda>a b. str_less (fst a) (fst b)) (keep_last (map (\<lambda>f. (fst f, any_text e (snd (snd f)))) fs)))"

definition row_text :: "'w net \<Rightarrow> any_row \<Rightarrow> string" where
  "row_text e row = json_object (map (\<lambda>k. (k, any_text e (mget NullJ row k))) (sort_strings (nt_keys e (dom row))))"

definition as_string :: "json \<Rightarrow> string" where
  "as_string v = (case v of StrJ s \<Rightarrow> s | _ \<Rightarrow> [])"

definition parseOptionalFloat :: "json \<Rightarrow> f64 option" where
  "parseOptionalFloat v = (case v of NumJ n \<Rightarrow> Some (num_float n) | StrJ s \<Rightarrow> sscan_float s | _ \<Rightarrow> None)"

definition parse_stamp :: "string \<Rightarrow> gotime option" where
  "parse_stamp ts = (case parse_rfc3339 ts of Some t \<Rightarrow> Some t | None \<Rightarrow> parse_rfc3339_milli ts)"

definition parseRow :: "'w net \<Rightarrow> any_row \<Rightarrow> err + cm_netflow_point" where
  "parseRow e row =
     (let asset = as_string (mget NullJ row ''asset''); ts = as_string (mget NullJ row ''time'') in
      if asset = [] then Inl (Fresh ''missing asset'' [])
      else if ts = [] then Inl (Fresh ''missing time'' [])
      else (case parse_stamp ts of
          None \<Rightarrow> Inl (Wrap ''parse time %q'' [AStr ts] strconv_error)
        | Some t \<Rightarrow>
            (let inflow = parseOptionalFloat (mget NullJ row ''FlowInExUSD''); outflow = parseOptionalFloat (mget NullJ row ''FlowOutExUSD'') in
             Inr \<lparr>cmn_date = UTCDay t, cmn_asset = ToUpper asset, cmn_inflow = inflow, cmn_outflow = outflow,
               cmn_netflow = do { i \<leftarrow> inflow; u \<leftarrow> outflow; Some (fsub i u) }, cmn_hash = nt_sha256 e (row_text e row)\<rparr>)))"

definition netflow_path :: "string list \<Rightarrow> gotime \<Rightarrow> gotime \<Rightarrow> string \<Rightarrow> string" where
  "netflow_path assets since until token = ''/timeseries/asset-metrics?'' @ encode_query
     ([(''assets'', str_join '','' (map ToLower assets)), (''end_time'', fmt_day until), (''frequency'', ''1d''), (''metrics'', ''FlowInExUSD,FlowOutExUSD'')] @
      (if token = [] then [] else [(''next_page_token'', token)]) @ [(''page_size'', itoa defaultPageSize), (''start_time'', fmt_day since)])"

definition netflow_add :: "'w net \<Rightarrow> cm_netflow_point list \<Rightarrow> any_row \<Rightarrow> err + cm_netflow_point list" where
  "netflow_add e out row = (case parseRow e row of Inl er \<Rightarrow> Inl (Wrap ''parse row %v'' [AStr (row_text e row)] er) | Inr p \<Rightarrow> Inr (out @ [p]))"

definition netflow_step :: "'w net \<Rightarrow> 'w http_client \<Rightarrow> string list \<Rightarrow> gotime \<Rightarrow> gotime \<Rightarrow> nat \<Rightarrow> cm_netflow_point list \<times> string \<Rightarrow>
    ('w, (cm_netflow_point list \<times> string) \<times> bool) io" where
  "netflow_step e c assets since until ctx s =
     bindE (wrapE ''coinmetrics'' [] (Get e c ctx (netflow_path assets since until (snd s)))) (\<lambda>body.
     bindE (wrapE ''decode'' [] (liftE (Unmarshal (dec_struct assetMetricsResponse) body))) (\<lambda>(rows, next).
     bindE (liftE (fold_sum (netflow_add e) (fst s) rows)) (\<lambda>out. ret ((out, next), next \<noteq> []))))"

definition cm_FetchExchangeNetflow :: "'w net \<Rightarrow> 'w http_client \<Rightarrow> nat \<Rightarrow> string list \<Rightarrow> gotime \<Rightarrow> gotime \<Rightarrow> ('w, cm_netflow_point list) io" where
  "cm_FetchExchangeNetflow e c ctx assets since until =
     bindE (pages ctx (\<lambda>_. True) (netflow_step e c assets since until) ([], [])) (\<lambda>s. ret (fst s))"

section \<open>CoinGecko\<close>

record gecko_point =
  gck_date :: gotime
  gck_coin :: string
  gck_cap :: f64
  gck_price :: f64
  gck_hash :: string

definition gecko_New :: "'w cell \<Rightarrow> int \<Rightarrow> 'w http_client" where
  "gecko_New cl timeout = New cl [WithBaseURL ''https://api.coingecko.com/api/v3'', WithTimeout timeout, WithThrottle (3 * 1000000000)]"

definition market_chart :: "obj \<Rightarrow> (string list list \<times> string list list) option" where
  "market_chart ob = do { ps \<leftarrow> field (dec_slice (dec_slice (dec_number []) [])) [] ''prices'' ob;
     ms \<leftarrow> field (dec_slice (dec_slice (dec_number []) [])) [] ''market_caps'' ob; Some (ps, ms) }"

text \<open>A pair of a stamp in milliseconds and a number; anything else is passed over.\<close>

definition stamp_value :: "string list \<Rightarrow> (int \<times> f64) option" where
  "stamp_value pair = (case pair of [t, v] \<Rightarrow>
     (case (ParseInt t, ParseFloat v) of ((ts, tok), (x, vok)) \<Rightarrow> if tok \<and> vok then Some (ts, x) else None) | _ \<Rightarrow> None)"

definition price_by_ts :: "string list list \<Rightarrow> int \<rightharpoonup> f64" where
  "price_by_ts ps = foldl (\<lambda>m p. case stamp_value p of None \<Rightarrow> m | Some (t, x) \<Rightarrow> m(t \<mapsto> x)) Map.empty ps"

definition gecko_point_of :: "'w net \<Rightarrow> string \<Rightarrow> (int \<rightharpoonup> f64) \<Rightarrow> string list \<Rightarrow> gecko_point option" where
  "gecko_point_of e coinID prices pair = (case stamp_value pair of None \<Rightarrow> None | Some (t, cap) \<Rightarrow>
     Some \<lparr>gck_date = UTCDay (UnixMilli t), gck_coin = coinID, gck_cap = cap, gck_price = mget fzero prices t,
       gck_hash = nt_sha256 e (json_object [(''coin_id'', json_string coinID), (''market_cap'', json_number (pair ! 1)),
         (''price'', nt_float_text e (mget fzero prices t)), (''ts_ms'', itoa t)])\<rparr>)"

definition gecko_FetchMarketCapHistory :: "'w net \<Rightarrow> 'w http_client \<Rightarrow> nat \<Rightarrow> string \<Rightarrow> ('w, gecko_point list) io" where
  "gecko_FetchMarketCapHistory e c ctx coinID =
     bindE (wrapE ''coingecko'' [] (Get e c ctx (''/coins/'' @ coinID @ ''/market_chart?vs_currency=usd&days=max&interval=daily''))) (\<lambda>body.
     bindE (wrapE ''coingecko: unmarshal'' [] (liftE (Unmarshal (dec_struct market_chart) body))) (\<lambda>(ps, ms).
       ret (List.map_filter (gecko_point_of e coinID (price_by_ts ps)) ms)))"

end
