(* ===== verification/Adapters.thy ===== *)
theory Adapters
  imports Orchestrator Coinglass Binance Deribit Venues Sources
begin

text \<open>
  The adapters that make the provider ports of the domains out of the clients (\<open>*adapter.go\<close> under
  \<open>internal/repo/webapi\<close> and \<open>internal/infra/provider\<close>), and all of them together as the clients a run of the
  orchestrator is given.
\<close>

section \<open>Names of the assets\<close>

definition pair_for :: "asset \<Rightarrow> string" where
  "pair_for a = (if a = AssetBTC then ''BTCUSDT'' else if a = AssetETH then ''ETHUSDT'' else [])"

definition coin_for :: "asset \<Rightarrow> string" where
  "coin_for a = (if a = AssetBTC then ''BTC'' else if a = AssetETH then ''ETH'' else [])"

definition instIDFor :: "asset \<Rightarrow> string" where
  "instIDFor a = (if a = AssetBTC then ''BTC-USDT-SWAP'' else if a = AssetETH then ''ETH-USDT-SWAP'' else [])"

definition defaultAggregatedExchanges :: "string list" where
  "defaultAggregatedExchanges = [''Binance'', ''OKX'', ''Bybit'', ''Bitget'', ''HTX'', ''Gate'', ''Bitmex'', ''Bitfinex'', ''dYdX'', ''KuCoin'']"

text \<open>The rows of a client call made into points of a port; an asset without a name has no rows and no call.\<close>

definition mapped :: "('p \<Rightarrow> 'q) \<Rightarrow> ('w, 'p list) io \<Rightarrow> ('w, 'q list) io" where
  "mapped f m = bindE m (\<lambda>pts. ret (map f pts))"

definition named :: "string \<Rightarrow> (string \<Rightarrow> ('w, 'q list) io) \<Rightarrow> ('w, 'q list) io" where
  "named s m = (if s = [] then ret [] else m s)"

section \<open>Leverage\<close>

definition binance_oi :: "'w net \<Rightarrow> 'w bn_client \<Rightarrow> nat \<Rightarrow> 'w oi_provider" where
  "binance_oi e c ctx = (\<lambda>a since until. named (pair_for a) (\<lambda>s. mapped (\<lambda>p.
     \<lparr>op_date = bno_date p, op_asset = a, op_usd = bno_usd p, op_hash = bno_hash p\<rparr>) (bn_FetchOpenInterest e c ctx s)))"

definition binance_funding :: "'w net \<Rightarrow> 'w bn_client \<Rightarrow> nat \<Rightarrow> 'w funding_provider" where
  "binance_funding e c ctx = (\<lambda>a since until. named (pair_for a) (\<lambda>s. mapped (\<lambda>p.
     \<lparr>fp_time = bnf_time p, fp_asset = a, fp_rate = bnf_rate p, fp_hash = bnf_hash p\<rparr>) (bn_FetchFundingRateHistory e c ctx s since until)))"

definition bybit_oi :: "'w net \<Rightarrow> 'w http_client \<Rightarrow> nat \<Rightarrow> 'w oi_provider" where
  "bybit_oi e c ctx = (\<lambda>a since until. named (pair_for a) (\<lambda>s. mapped (\<lambda>p.
     \<lparr>op_date = yoi_date p, op_asset = a, op_usd = yoi_usd p, op_hash = yoi_hash p\<rparr>) (bybit_FetchOpenInterest e c ctx s ''1d'' since until)))"

definition bybit_funding :: "'w net \<Rightarrow> 'w http_client \<Rightarrow> nat \<Rightarrow> 'w funding_provider" where
  "bybit_funding e c ctx = (\<lambda>a since until. named (pair_for a) (\<lambda>s. mapped (\<lambda>p.
     \<lparr>fp_time = yfu_time p, fp_asset = a, fp_rate = yfu_rate p, fp_hash = yfu_hash p\<rparr>) (bybit_FetchFundingRateHistory e c ctx s since until)))"

definition okx_oi :: "'w net \<Rightarrow> 'w http_client \<Rightarrow> nat \<Rightarrow> 'w oi_provider" where
  "okx_oi e c ctx = (\<lambda>a since until. named (coin_for a) (\<lambda>s. mapped (\<lambda>p.
     \<lparr>op_date = xoi_date p, op_asset = a, op_usd = xoi_usd p, op_hash = xoi_hash p\<rparr>) (okx_FetchOpenInterest e c ctx s)))"

definition okx_funding :: "'w net \<Rightarrow> 'w http_client \<Rightarrow> nat \<Rightarrow> 'w funding_provider" where
  "okx_funding e c ctx = (\<lambda>a since until. named (instIDFor a) (\<lambda>s. mapped (\<lambda>p.
     \<lparr>fp_time = xfu_time p, fp_asset = a, fp_rate = xfu_rate p, fp_hash = xfu_hash p\<rparr>) (okx_FetchFundingRateHistory e c ctx s since)))"

definition deribit_basis :: "'w net \<Rightarrow> 'w http_client \<Rightarrow> nat \<Rightarrow> 'w basis_provider" where
  "deribit_basis e c ctx a = bindE (Basis3mSnapshot e c ctx a) (\<lambda>s. ret
     \<lparr>bp_date = db_date s, bp_asset = a, bp_instrument = db_name s, bp_futures = db_futures s, bp_spot = db_spot s, bp_annualized = db_annualized s,
      bp_days = db_days s, bp_hash = db_hash s\<rparr>)"

definition coinglass_oi :: "'w net \<Rightarrow> 'w http_client \<Rightarrow> nat \<Rightarrow> 'w cg_oi_provider" where
  "coinglass_oi e c ctx =
     \<lparr>co_FetchOIHistory = (\<lambda>a exch limit. named (pair_for a) (\<lambda>s. mapped (\<lambda>p.
        \<lparr>co_date = goi_date p, co_asset = a, co_exchange = goi_exchange p, co_usd = goi_usd p, co_hash = goi_hash p\<rparr>) (cg_FetchOIHistory e c ctx s exch limit))),
      co_FetchAggregatedOIHistoryRange = (\<lambda>a since until limit. named (coin_for a) (\<lambda>s. mapped (\<lambda>p.
        \<lparr>co_date = goi_date p, co_asset = a, co_exchange = ''coinglass_aggregated'', co_usd = goi_usd p, co_hash = goi_hash p\<rparr>)
          (cg_FetchAggregatedOIHistory e c ctx s limit ''usd'' since until)))\<rparr>"

definition coinglass_basis :: "'w net \<Rightarrow> 'w http_client \<Rightarrow> nat \<Rightarrow> 'w cg_basis_provider" where
  "coinglass_basis e c ctx = (\<lambda>a exch limit. named (pair_for a) (\<lambda>s. mapped (\<lambda>p.
     \<lparr>cb_date = gfb_date p, cb_asset = a, cb_symbol = gfb_symbol p, cb_exchange = gfb_exchange p, cb_annualized = gfb_annualized p,
      cb_close = gfb_close p, cb_hash = gfb_hash p\<rparr>) (cg_FetchFuturesBasisHistory e c ctx s exch limit)))"

definition crowd_FetchLSRatio :: "'w net \<Rightarrow> 'w http_client \<Rightarrow> nat \<Rightarrow> ls_kind \<Rightarrow> asset \<Rightarrow> string \<Rightarrow> int \<Rightarrow> ('w, cg_ls_point list) io" where
  "crowd_FetchLSRatio e c ctx kind a exch limit = named (pair_for a) (\<lambda>s. mapped (\<lambda>p.
     \<lparr>cs_date = gls_date p, cs_asset = a, cs_exchange = gls_exchange p, cs_long = gls_long p, cs_short = gls_short p, cs_ratio = gls_ratio p,
      cs_hash = gls_hash p\<rparr>)
     (if kind = LSGlobal then cg_FetchGlobalLongShortAccountRatio e c ctx s exch limit
      else if kind = LSTopAccount then cg_FetchTopLongShortAccountRatio e c ctx s exch limit
      else if kind = LSTopPosition then cg_FetchTopLongShortPositionRatio e c ctx s exch limit
      else ret []))"

definition or_default_exchanges :: "string list \<Rightarrow> string list" where
  "or_default_exchanges xs = (if xs = [] then defaultAggregatedExchanges else xs)"

definition coinglass_crowd :: "'w net \<Rightarrow> 'w http_client \<Rightarrow> nat \<Rightarrow> 'w cg_crowd_provider" where
  "coinglass_crowd e c ctx =
     \<lparr>cc_FetchLSRatio = crowd_FetchLSRatio e c ctx,
      cc_FetchAggregatedTakerVolume = (\<lambda>a exchs limit. named (coin_for a) (\<lambda>s. mapped (\<lambda>p.
        \<lparr>ct_date = gtk_date p, ct_asset = a, ct_buy = gtk_buy p, ct_sell = gtk_sell p, ct_hash = gtk_hash p\<rparr>)
          (cg_FetchAggregatedTakerBuySellVolume e c ctx s (or_default_exchanges exchs) limit zero_time zero_time))),
      cc_FetchBorrowRate = (\<lambda>s exch limit. mapped (\<lambda>p.
        \<lparr>cw_date = gbr_date p, cw_symbol = gbr_symbol p, cw_exchange = gbr_exchange p, cw_rate = gbr_rate p, cw_hash = gbr_hash p\<rparr>)
          (cg_FetchBorrowInterestRate e c ctx s exch limit))\<rparr>"

definition liq_port_point :: "asset \<Rightarrow> liquidation_point \<Rightarrow> cg_liq_point" where
  "liq_port_point a p = \<lparr>cl_date = glq_date p, cl_asset = a, cl_long = glq_long p, cl_short = glq_short p, cl_hash = glq_hash p\<rparr>"

definition liq_FetchLiquidationHistory :: "'w net \<Rightarrow> 'w http_client \<Rightarrow> nat \<Rightarrow> asset \<Rightarrow> string \<Rightarrow> int \<Rightarrow> ('w, cg_liq_point list) io" where
  "liq_FetchLiquidationHistory e c ctx a exch limit =
     named (pair_for a) (\<lambda>s. mapped (liq_port_point a) (cg_FetchLiquidationHistory e c ctx s exch limit))"

definition coinglass_liq :: "'w net \<Rightarrow> 'w http_client \<Rightarrow> nat \<Rightarrow> 'w cg_liq_provider" where
  "coinglass_liq e c ctx = (\<lambda>a exchs since until limit. named (coin_for a) (\<lambda>s. mapped (liq_port_point a)
     (cg_FetchAggregatedLiquidationHistory e c ctx s (or_default_exchanges exchs) limit since until)))"

section \<open>Capital flows\<close>

definition lthSupplyLimit :: int where "lthSupplyLimit = 10000"

definition convertETFFlows :: "etf_flow_item \<Rightarrow> etf_flow_point" where
  "convertETFFlows p = \<lparr>ep_date = gef_date p, ep_usd = gef_flow p, ep_price = gef_price p, ep_hash = gef_hash p\<rparr>"

definition coinglass_etf :: "'w net \<Rightarrow> 'w http_client \<Rightarrow> nat \<Rightarrow> 'w etf_provider" where
  "coinglass_etf e c ctx = \<lparr>xe_FetchBTC = mapped convertETFFlows (cg_FetchBTCETFFlows e c ctx),
     xe_FetchETH = mapped convertETFFlows (cg_FetchETHETFFlows e c ctx)\<rparr>"

definition coinglass_lth :: "'w net \<Rightarrow> 'w http_client \<Rightarrow> nat \<Rightarrow> ('w, lth_point list) io" where
  "coinglass_lth e c ctx = mapped (\<lambda>p. \<lparr>lp_date = glt_time p, lp_supply = glt_supply p, lp_price = glt_price p, lp_hash = glt_hash p\<rparr>)
     (cg_FetchLTHSupply e c ctx lthSupplyLimit)"

definition coinglass_mcap :: "'w net \<Rightarrow> 'w http_client \<Rightarrow> nat \<Rightarrow> ('w, btc_mcap_point list) io" where
  "coinglass_mcap e c ctx = mapped (\<lambda>p. \<lparr>cm_date = gbc_time p, cm_cap = gbc_cap p, cm_price = gbc_price p, cm_hash = gbc_hash p\<rparr>)
     (cg_FetchBTCMarketCap e c ctx lthSupplyLimit)"

definition coinglass_flow :: "'w net \<Rightarrow> 'w http_client \<Rightarrow> nat \<Rightarrow> 'w flow_provider" where
  "coinglass_flow e c ctx =
     \<lparr>xl_FetchStablecoinMcap = mapped (\<lambda>p. \<lparr>sm_date = gsm_date p, sm_cap = gsm_cap p, sm_price = gsm_price p, sm_hash = gsm_hash p\<rparr>)
        (cg_FetchStablecoinMarketCapHistory e c ctx),
      xl_FetchExchangeBalance = (\<lambda>s. mapped (\<lambda>p. \<lparr>bx_exchange = geb_exchange p, bx_symbol = geb_symbol p, bx_total = geb_total p,
        bx_change1d = geb_change1d p, bx_change7d = geb_change7d p, bx_change30d = geb_change30d p, bx_pct1d = geb_pct1d p, bx_pct7d = geb_pct7d p,
        bx_pct30d = geb_pct30d p, bx_hash = geb_hash p\<rparr>) (cg_FetchExchangeBalanceList e c ctx s)),
      xl_FetchBitfinexMargin = (\<lambda>s limit. mapped (\<lambda>p. \<lparr>gp_time = gbm_time p, gp_symbol = gbm_symbol p, gp_long = gbm_long p, gp_short = gbm_short p,
        gp_hash = gbm_hash p\<rparr>) (cg_FetchBitfinexMarginLongShort e c ctx s limit))\<rparr>"

definition coinglass_inst :: "'w net \<Rightarrow> 'w http_client \<Rightarrow> nat \<Rightarrow> 'w inst_provider" where
  "coinglass_inst e c ctx =
     \<lparr>xn_FetchETFList = mapped (\<lambda>p. \<lparr>tp_ticker = gel_ticker p, tp_fund = gel_fund p, tp_region = gel_region p, tp_status = gel_status p,
        tp_venue = gel_venue p, tp_kind = gel_kind p, tp_shares = gel_shares p, tp_aum = gel_aum p, tp_fee = gel_fee p, tp_volume = gel_volume p,
        tp_price_change = gel_price_change p, tp_nav = gel_nav p, tp_premium = gel_premium p, tp_holding = gel_holding p, tp_pct24h = gel_pct24h p,
        tp_qty24h = gel_qty24h p, tp_pct7d = gel_pct7d p, tp_qty7d = gel_qty7d p, tp_update = gel_update p, tp_hash = gel_hash p\<rparr>)
        (cg_FetchBitcoinETFList e c ctx),
      xn_FetchETFAUMHistory = (\<lambda>t. mapped (\<lambda>p. \<lparr>ap_date = gea_date p, ap_ticker = gea_ticker p, ap_aum = gea_aum p, ap_hash = gea_hash p\<rparr>)
        (cg_FetchBitcoinETFAUMHistory e c ctx t)),
      xn_FetchMaxPain = (\<lambda>s exch. mapped (\<lambda>p. \<lparr>np_expiry = gmp_date p, np_symbol = gmp_symbol p, np_exchange = gmp_exchange p, np_price = gmp_price p,
        np_call_oi = gmp_call_oi p, np_put_oi = gmp_put_oi p, np_call_usd = gmp_call_usd p, np_put_usd = gmp_put_usd p, np_call_value = gmp_call_value p,
        np_put_value = gmp_put_value p, np_hash = gmp_hash p\<rparr>) (cg_FetchOptionsMaxPain e c ctx s exch))\<rparr>"

section \<open>Market stress\<close>

definition binance_klines :: "'w net \<Rightarrow> 'w bn_client \<Rightarrow> nat \<Rightarrow> 'w kline_provider" where
  "binance_klines e c ctx = (\<lambda>s interval since until. mapped (\<lambda>p. \<lparr>kp_time = bnk_time p, kp_close = bnk_close p, kp_hash = bnk_hash p\<rparr>)
     (bn_FetchKlines e c ctx s interval since until))"

definition kraken_ohlc :: "'w net \<Rightarrow> 'w http_client \<Rightarrow> nat \<Rightarrow> 'w ohlc_provider" where
  "kraken_ohlc e c ctx = (\<lambda>pair interval since. mapped (\<lambda>p. \<lparr>hc_date = kra_date p, hc_open = kra_open p, hc_high = kra_high p, hc_low = kra_low p,
     hc_close = kra_close p, hc_volume = kra_volume p, hc_hash = kra_hash p\<rparr>) (kraken_FetchOHLC e c ctx pair interval since))"

definition coinbase_candles :: "'w net \<Rightarrow> 'w http_client \<Rightarrow> nat \<Rightarrow> 'w candle_provider" where
  "coinbase_candles e c ctx = (\<lambda>product since until gran. mapped (\<lambda>p. \<lparr>dc_date = cba_date p, dc_product = cba_product p, dc_close = cba_close p,
     dc_volume = cba_volume p, dc_hash = cba_hash p\<rparr>) (coinbase_FetchCandles e c ctx product since until gran))"

definition coinglass_premium :: "'w net \<Rightarrow> 'w http_client \<Rightarrow> nat \<Rightarrow> 'w premium_provider" where
  "coinglass_premium e c ctx = (\<lambda>limit. mapped (\<lambda>p. \<lparr>mq_date = gcp_date p, mq_usd = gcp_usd p, mq_rate = gcp_rate p, mq_coinbase = gcp_coinbase p,
     mq_hash = gcp_hash p\<rparr>) (cg_FetchCoinbasePremiumHistory e c ctx limit))"

definition coinglass_micro :: "'w net \<Rightarrow> 'w http_client \<Rightarrow> nat \<Rightarrow> 'w micro_provider" where
  "coinglass_micro e c ctx =
     \<lparr>mi_FetchOrderbookBidAsk = (\<lambda>s limit since until. mapped (\<lambda>p. \<lparr>ob_date = gob_date p, ob_symbol = gob_symbol p, ob_bids_usd = gob_bids_usd p,
        ob_bids_qty = gob_bids_qty p, ob_asks_usd = gob_asks_usd p, ob_asks_qty = gob_asks_qty p, ob_hash = gob_hash p\<rparr>)
        (cg_FetchAggregatedOrderbookBidAsk e c ctx s [] ''1'' limit since until)),
      mi_FetchFuturesSpotVolRatio = (\<lambda>s limit since until. mapped (\<lambda>p. \<lparr>zp_date = gfs_date p, zp_symbol = gfs_symbol p, zp_ratio = gfs_ratio p,
        zp_futures = gfs_futures p, zp_spot = gfs_spot p, zp_hash = gfs_hash p\<rparr>) (cg_FetchFuturesSpotVolumeRatio e c ctx s [] limit since until))\<rparr>"

section \<open>Volatility\<close>

definition deribit_dvol :: "'w net \<Rightarrow> 'w http_client \<Rightarrow> nat \<Rightarrow> 'w dvol_provider" where
  "deribit_dvol e c ctx = (\<lambda>a since until. mapped (\<lambda>p. \<lparr>dp_date = dv_date p, dp_asset = dv_currency p, dp_close = dv_close p, dp_hash = dv_hash p\<rparr>)
     (FetchDVOL e c ctx a since until))"

text \<open>Both figures read the clock for themselves, and only when there is a price to work with.\<close>

definition at_now :: "'w net \<Rightarrow> option_summary list \<Rightarrow> (gotime \<Rightarrow> f64 option) \<Rightarrow> ('w, f64 option) io" where
  "at_now e opts f w = (case opts of [] \<Rightarrow> (Inr None, w) | q # _ \<Rightarrow>
     if fle (su_underlying q) fzero then (Inr None, w) else (case nt_now e w of (now, w') \<Rightarrow> (Inr (f now), w')))"

definition deribit_options :: "(int set \<Rightarrow> int list) \<Rightarrow> 'w net \<Rightarrow> 'w http_client \<Rightarrow> nat \<Rightarrow> 'w options_provider" where
  "deribit_options ord e c ctx a = bindE (FetchOptionsSummary e c ctx a) (\<lambda>opts.
     bindE (at_now e opts (\<lambda>now. ComputeIVTermSlope ord now opts)) (\<lambda>slope.
     bindE (at_now e opts (\<lambda>now. ComputeIVSkew now opts)) (\<lambda>skew.
       ret \<lparr>os_asset = a, os_term = (case slope of None \<Rightarrow> fzero | Some x \<Rightarrow> x), os_has_term = (slope \<noteq> None),
         os_skew = (case skew of None \<Rightarrow> fzero | Some x \<Rightarrow> x), os_has_skew = (skew \<noteq> None), os_num = int (length opts)\<rparr>)))"

definition sha256Short :: "string \<Rightarrow> f64 \<Rightarrow> f64 \<Rightarrow> f64 \<Rightarrow> string" where
  "sha256Short name iv oi spot = ''chain:'' @ name @ '':'' @ fmt_f 4 iv @ '':'' @ fmt_f 4 oi @ '':'' @ fmt_f 2 spot"

definition deribit_chain :: "'w net \<Rightarrow> 'w http_client \<Rightarrow> nat \<Rightarrow> 'w chain_provider" where
  "deribit_chain e c ctx = (\<lambda>a. mapped (\<lambda>p. \<lparr>ck_instrument = su_name p, ck_expiry = UTCDay (UnixMilli (su_expiry p)), ck_strike = su_strike p,
     ck_put = su_put p, ck_oi = su_oi p, ck_iv = su_iv p, ck_underlying = su_underlying p,
     ck_hash = sha256Short (su_name p) (su_iv p) (su_oi p) (su_underlying p)\<rparr>) (FetchOptionsSummary e c ctx a))"

definition coinglass_options :: "'w net \<Rightarrow> 'w http_client \<Rightarrow> nat \<Rightarrow> 'w cg_options_provider" where
  "coinglass_options e c ctx =
     \<lparr>cq_FetchOptionsInfo = (\<lambda>s. mapped (\<lambda>p. \<lparr>qp_exchange = goo_exchange p, qp_symbol = goo_symbol p, qp_oi = goo_oi p, qp_share = goo_share p,
        qp_change24h = goo_change24h p, qp_oi_usd = goo_oi_usd p, qp_volume = goo_volume p, qp_volume_change = goo_volume_change p,
        qp_call_oi = goo_call_oi p, qp_put_oi = goo_put_oi p, qp_hash = goo_hash p\<rparr>) (cg_FetchOptionsInfo e c ctx s)),
      cq_FetchOptionsOIHistory = (\<lambda>s. mapped (\<lambda>p. \<lparr>hp_date = gox_date p, hp_exchange = gox_exchange p, hp_symbol = gox_symbol p, hp_oi = gox_oi p,
        hp_hash = gox_hash p\<rparr>) (cg_FetchOptionsExchangeOIHistory e c ctx s ''USD'' ''all'')),
      cq_FetchOptionsMaxPain = (\<lambda>s exch. mapped (\<lambda>p. \<lparr>pp_date = gmp_date p, pp_symbol = gmp_symbol p, pp_exchange = gmp_exchange p,
        pp_price = gmp_price p, pp_call_oi = gmp_call_oi p, pp_put_oi = gmp_put_oi p, pp_call_usd = gmp_call_usd p, pp_put_usd = gmp_put_usd p,
        pp_call_value = gmp_call_value p, pp_put_value = gmp_put_value p, pp_hash = gmp_hash p\<rparr>) (cg_FetchOptionsMaxPain e c ctx s exch))\<rparr>"

section \<open>Liquidity\<close>

definition llama_stable :: "'w net \<Rightarrow> 'w http_client \<Rightarrow> nat \<Rightarrow> 'w stable_provider" where
  "llama_stable e c ctx =
     \<lparr>sp_FetchAll = mapped (\<lambda>p. \<lparr>lsp_date = lld_date p, lsp_symbol = ''AGGREGATE'', lsp_usd = lld_total p, lsp_hash = lld_hash p\<rparr>)
        (llama_FetchAllStablecoinsChart e c ctx),
      sp_FetchPer = mapped (\<lambda>p. \<lparr>lsp_date = llc_date p, lsp_symbol = llc_symbol p, lsp_usd = llc_usd p, lsp_hash = llc_hash p\<rparr>)
        (llama_FetchPerStablecoinSupply e c ctx)\<rparr>"

definition llama_tvl_port :: "'w net \<Rightarrow> 'w http_client \<Rightarrow> nat \<Rightarrow> 'w tvl_provider" where
  "llama_tvl_port e c ctx = (\<lambda>chain. mapped (\<lambda>p. \<lparr>ltp_date = llt_date p, ltp_usd = llt_usd p, ltp_hash = llt_hash p\<rparr>) (llama_FetchChainTVL e c ctx chain))"

definition coinmetrics_netflow :: "'w net \<Rightarrow> 'w http_client \<Rightarrow> nat \<Rightarrow> 'w netflow_provider" where
  "coinmetrics_netflow e c ctx = (\<lambda>assets since until. mapped (\<lambda>p. \<lparr>lnp_date = cmn_date p, lnp_asset = cmn_asset p, lnp_inflow = cmn_inflow p,
     lnp_outflow = cmn_outflow p, lnp_netflow = cmn_netflow p, lnp_hash = cmn_hash p\<rparr>) (cm_FetchExchangeNetflow e c ctx assets since until))"

definition coingecko_mcap :: "'w net \<Rightarrow> 'w http_client \<Rightarrow> nat \<Rightarrow> 'w mcap_provider" where
  "coingecko_mcap e c ctx = (\<lambda>coin. mapped (\<lambda>p. \<lparr>lmp_date = gck_date p, lmp_coin = gck_coin p, lmp_cap = gck_cap p, lmp_price = gck_price p,
     lmp_hash = gck_hash p\<rparr>) (gecko_FetchMarketCapHistory e c ctx coin))"

section \<open>The clients of a run\<close>

text \<open>
  What the programs build from a base URL or key and a timeout.  Each client has a cell of its own, named by its service,
  for the time of its last request; each call may send \<open>ctx\<close> requests before its context is cancelled.
\<close>

definition venue_oi :: "'w net \<Rightarrow> (string \<Rightarrow> 'w cell) \<Rightarrow> nat \<Rightarrow> string \<Rightarrow> string \<Rightarrow> int \<Rightarrow> 'w oi_provider" where
  "venue_oi e cl ctx n u t =
     (if n = ''binance'' then binance_oi e (bn_New (cl ''binance'') (cl ''binance_spot'') u t) ctx
      else if n = ''bybit'' then bybit_oi e (bybit_New (cl n) u t) ctx else okx_oi e (okx_New (cl n) u t) ctx)"

definition venue_funding :: "'w net \<Rightarrow> (string \<Rightarrow> 'w cell) \<Rightarrow> nat \<Rightarrow> string \<Rightarrow> string \<Rightarrow> int \<Rightarrow> 'w funding_provider" where
  "venue_funding e cl ctx n u t =
     (if n = ''binance'' then binance_funding e (bn_New (cl ''binance'') (cl ''binance_spot'') u t) ctx
      else if n = ''bybit'' then bybit_funding e (bybit_New (cl n) u t) ctx else okx_funding e (okx_New (cl n) u t) ctx)"

definition http_clients :: "(int set \<Rightarrow> int list) \<Rightarrow> 'w net \<Rightarrow> (string \<Rightarrow> 'w cell) \<Rightarrow> nat \<Rightarrow> 'w clients" where
  "http_clients ord e cl ctx =
     \<lparr>ct_stable = (\<lambda>u t. llama_stable e (llama_New (cl ''defillama'') u t) ctx),
      ct_tvl = (\<lambda>u t. llama_tvl_port e (llama_New (cl ''defillama_tvl'') u t) ctx),
      ct_netflow = (\<lambda>u t. coinmetrics_netflow e (cm_New (cl ''coinmetrics'') u t) ctx),
      ct_mcap = (\<lambda>t. coingecko_mcap e (gecko_New (cl ''coingecko'') t) ctx),
      ct_oi = venue_oi e cl ctx, ct_funding = venue_funding e cl ctx,
      ct_basis = (\<lambda>u t. deribit_basis e (db_New (cl ''deribit'') u t) ctx),
      ct_cgOI = (\<lambda>k t. coinglass_oi e (cg_New (cl ''coinglass'') k t) ctx),
      ct_cgBasis = (\<lambda>k t. coinglass_basis e (cg_New (cl ''coinglass'') k t) ctx),
      ct_cgLiq = (\<lambda>k t. coinglass_liq e (cg_New (cl ''coinglass'') k t) ctx),
      ct_cgCrowd = (\<lambda>k t. coinglass_crowd e (cg_New (cl ''coinglass'') k t) ctx),
      ct_etf = (\<lambda>k t. coinglass_etf e (cg_New (cl ''coinglass'') k t) ctx),
      ct_lth = (\<lambda>k t. coinglass_lth e (cg_New (cl ''coinglass'') k t) ctx),
      ct_btc_mcap = (\<lambda>k t. coinglass_mcap e (cg_New (cl ''coinglass'') k t) ctx),
      ct_flow = (\<lambda>k t. coinglass_flow e (cg_New (cl ''coinglass'') k t) ctx),
      ct_inst = (\<lambda>k t. coinglass_inst e (cg_New (cl ''coinglass'') k t) ctx),
      ct_klines = (\<lambda>u t. binance_klines e (bn_New (cl ''binance'') (cl ''binance_spot'') u t) ctx),
      ct_ohlc = (\<lambda>u t. kraken_ohlc e (kraken_New (cl ''kraken'') u t) ctx),
      ct_candles = (\<lambda>u t. coinbase_candles e (coinbase_New (cl ''coinbase'') u t) ctx),
      ct_premium = (\<lambda>k t. coinglass_premium e (cg_New (cl ''coinglass'') k t) ctx),
      ct_micro = (\<lambda>k t. coinglass_micro e (cg_New (cl ''coinglass'') k t) ctx),
      ct_dvol = (\<lambda>u t. deribit_dvol e (db_New (cl ''deribit'') u t) ctx),
      ct_options = (\<lambda>u t. deribit_options ord e (db_New (cl ''deribit'') u t) ctx),
      ct_chain = (\<lambda>u t. deribit_chain e (db_New (cl ''deribit'') u t) ctx),
      ct_cgOptions = (\<lambda>k t. coinglass_options e (cg_New (cl ''coinglass'') k t) ctx)\<rparr>"

end
