(* ===== verification/Paging.thy ===== *)
theory Paging
  imports Binance Venues
begin

text \<open>
  What the paged loops of the venue clients collect from a data service that answers as its documentation says: the
  funding rates of \<open>okx\<close> and \<open>bybit\<close>, the open interest of \<open>okx\<close> and \<open>binance\<close>.
\<close>

section \<open>OKX funding rates\<close>

text \<open>
  The service has the records \<open>P\<close>, the newest first.  It answers with the newest hundred; \<open>before=t\<close> restricts the
  answer to records newer than \<open>t\<close>.
\<close>

type_synonym okx_record = "string \<times> string \<times> string"

definition okx_ms :: "okx_record \<Rightarrow> int" where
  "okx_ms p = fst (ParseInt (snd (snd p)))"

definition okx_view :: "okx_record \<Rightarrow> gotime \<times> f64" where
  "okx_view p = (UnixMilli (okx_ms p), fst (ParseFloat (fst (snd p))))"

definition okx_point_view :: "okx_funding_point \<Rightarrow> gotime \<times> f64" where
  "okx_point_view p = (xfu_time p, xfu_rate p)"

definition okx_answer :: "okx_record list \<Rightarrow> string \<Rightarrow> okx_record list" where
  "okx_answer P cursor = take 100 (if cursor = [] then P else filter (\<lambda>p. fst (ParseInt cursor) < okx_ms p) P)"

definition okx_sound :: "okx_record list \<Rightarrow> bool" where
  "okx_sound P \<longleftrightarrow> sorted_wrt (>) (map okx_ms P) \<and> list_all (\<lambda>p. snd (ParseInt (snd (snd p))) \<and> snd (ParseFloat (fst (snd p)))) P"

definition okx_serves :: "'w net \<Rightarrow> 'w http_client \<Rightarrow> string \<Rightarrow> okx_record list \<Rightarrow> bool" where
  "okx_serves e c inst P \<longleftrightarrow> list_all (\<lambda>cur. \<forall>w. \<exists>body w'. Get e c 1 (okx_funding_path inst cur) w = (Inr body, w') \<and>
     Unmarshal (dec_struct fundingRateResponse) body = Inr (''0'', okx_answer P cur)) ([] # map (\<lambda>p. snd (snd p)) P)"

lemma okx_rows_all:
  assumes "list_all (\<lambda>p. snd (ParseInt (snd (snd p))) \<and> snd (ParseFloat (fst (snd p)))) R"
  shows "\<exists>pts. okx_funding_rows e startMs out R = Inr (out @ pts, \<not> list_all (\<lambda>p. startMs \<le> okx_ms p) R) \<and>
    map okx_point_view pts = map okx_view (takeWhile (\<lambda>p. startMs \<le> okx_ms p) R)"
  using assms
proof (induction R arbitrary: out)
  case (Cons p R)
  obtain i r t where p: "p = (i, r, t)" by (cases p)
  obtain ms where ms: "ParseInt t = (ms, True)" using Cons.prems p by (cases "ParseInt t") auto
  obtain v where v: "ParseFloat r = (v, True)" using Cons.prems p by (cases "ParseFloat r") auto
  have om: "okx_ms p = ms" by (simp add: okx_ms_def p ms)
  have ov: "okx_view p = (UnixMilli ms, v)" by (simp add: okx_view_def om) (simp add: p v)
  let ?pt = "\<lparr>xfu_time = UnixMilli ms, xfu_inst = i, xfu_rate = v,
     xfu_hash = nt_sha256 e (json_object [(''instId'', json_string i), (''fundingRate'', json_string r), (''fundingTime'', json_string t)])\<rparr>"
  show ?case
  proof (cases "ms < startMs")
    case True
    then show ?thesis by (simp add: p ms om[unfolded p])
  next
    case False
    have "list_all (\<lambda>p. snd (ParseInt (snd (snd p))) \<and> snd (ParseFloat (fst (snd p)))) R" using Cons.prems by simp
    from Cons.IH[OF this, of "out @ [?pt]"] obtain pts where
      ih: "okx_funding_rows e startMs (out @ [?pt]) R = Inr ((out @ [?pt]) @ pts, \<not> list_all (\<lambda>p. startMs \<le> okx_ms p) R)"
        "map okx_point_view pts = map okx_view (takeWhile (\<lambda>p. startMs \<le> okx_ms p) R)" by blast
    have "okx_funding_rows e startMs out (p # R) = Inr (out @ (?pt # pts), \<not> list_all (\<lambda>p. startMs \<le> okx_ms p) (p # R))"
      using False ih(1) by (simp add: p ms v om[unfolded p])
    moreover have "map okx_point_view (?pt # pts) = map okx_view (takeWhile (\<lambda>p. startMs \<le> okx_ms p) (p # R))"
      using False ih(2) ov om by (simp add: okx_point_view_def)
    ultimately show ?thesis by blast
  qed
qed simp

text \<open>A page with the cursor at the last record of the page before: what was newer than it, that is all but that record.\<close>

lemma okx_next_page:
  assumes "sorted_wrt (>) (map okx_ms P)" and "Suc k \<le> length P" "Suc k \<le> 100"
    and "last (take (Suc k) P) = p" "snd (ParseInt (snd (snd p)))"
  shows "okx_answer P (snd (snd p)) = take k P"
proof -
  have p: "p = P ! k" using assms(2,4) by (simp add: take_Suc_conv_app_nth)
  have ne: "snd (snd p) \<noteq> []" using assms(5) by (auto simp: ParseInt_def sign_of_def)
  have spl: "P = take k P @ p # drop (Suc k) P" using assms(2) p by (simp add: id_take_nth_drop)
  then have "map okx_ms P = map okx_ms (take k P) @ okx_ms p # map okx_ms (drop (Suc k) P)" by (metis list.simps(9) map_append)
  then have s: "sorted_wrt (>) (map okx_ms (take k P) @ okx_ms p # map okx_ms (drop (Suc k) P))" using assms(1) by metis
  then have "list_all (\<lambda>q. okx_ms p < okx_ms q) (take k P)" "list_all (\<lambda>q. okx_ms q < okx_ms p) (drop (Suc k) P)"
    by (auto simp: sorted_wrt_append list_all_iff simp del: take_map drop_map)
  then have "filter (\<lambda>q. okx_ms p < okx_ms q) (take k P) = take k P" "filter (\<lambda>q. okx_ms p < okx_ms q) (p # drop (Suc k) P) = []"
    by (auto simp: list_all_iff filter_id_conv filter_empty_conv dest!: bspec)
  then have "filter (\<lambda>q. okx_ms p < okx_ms q) P = take k P" using spl by (metis append_Nil2 filter_append)
  then show ?thesis using ne assms(3) by (simp add: okx_answer_def okx_ms_def[of p])
qed

definition shrinking_pages :: "nat \<Rightarrow> 'a list \<Rightarrow> 'a list" where
  "shrinking_pages n P = concat (map (\<lambda>k. take k P) (rev [1..<Suc n]))"

lemma shrinking_pages_simps: "shrinking_pages 0 P = []" "shrinking_pages (Suc n) P = take (Suc n) P @ shrinking_pages n P"
  by (simp_all add: shrinking_pages_def)

lemma okx_funding_step_run:
  assumes "okx_serves e c inst P" "cur \<in> set ([] # map (\<lambda>p. snd (snd p)) P)" "okx_sound P" "okx_answer P cur \<noteq> []"
  shows "\<exists>w' pts. okx_funding_step e c inst startMs (Suc n) (out, cur) w =
      (Inr ((out @ pts, if list_all (\<lambda>p. startMs \<le> okx_ms p) (okx_answer P cur) then snd (snd (last (okx_answer P cur))) else cur),
         list_all (\<lambda>p. startMs \<le> okx_ms p) (okx_answer P cur)), w') \<and>
     map okx_point_view pts = map okx_view (takeWhile (\<lambda>p. startMs \<le> okx_ms p) (okx_answer P cur))"
proof -
  let ?R = "okx_answer P cur"
  obtain body w' where g: "Get e c 1 (okx_funding_path inst cur) w = (Inr body, w')"
    "Unmarshal (dec_struct fundingRateResponse) body = Inr (''0'', ?R)"
    using assms(1,2) unfolding okx_serves_def list_all_iff by blast
  have "set ?R \<subseteq> set P" by (auto simp: okx_answer_def dest: in_set_takeD)
  then have "list_all (\<lambda>p. snd (ParseInt (snd (snd p))) \<and> snd (ParseFloat (fst (snd p)))) ?R"
    using assms(3) by (auto simp: okx_sound_def list_all_iff)
  from okx_rows_all[OF this, of e startMs out] obtain pts where
    r: "okx_funding_rows e startMs out ?R = Inr (out @ pts, \<not> list_all (\<lambda>p. startMs \<le> okx_ms p) ?R)"
      "map okx_point_view pts = map okx_view (takeWhile (\<lambda>p. startMs \<le> okx_ms p) ?R)" by blast
  have "okx_funding_step e c inst startMs (Suc n) (out, cur) w =
      (Inr ((out @ pts, if list_all (\<lambda>p. startMs \<le> okx_ms p) ?R then snd (snd (last ?R)) else cur), list_all (\<lambda>p. startMs \<le> okx_ms p) ?R), w')"
    using g r(1) assms(4) by (simp add: okx_funding_step_def Get_ctx[of _ _ n] bindE_def wrapE_def)
  then show ?thesis using r(2) by blast
qed

lemma okx_funding_shrinks:
  assumes srv: "okx_serves e c inst P" and P: "okx_sound P" and old: "list_all (\<lambda>p. startMs \<le> okx_ms p) (take 100 P)"
  shows "cur \<in> set ([] # map (\<lambda>p. snd (snd p)) P) \<Longrightarrow> okx_answer P cur = take k P \<Longrightarrow> k \<le> length P \<Longrightarrow> k \<le> 100 \<Longrightarrow> k < ctx \<Longrightarrow>
    \<exists>pts s' w'. pages ctx (\<lambda>_. True) (okx_funding_step e c inst startMs) (out, cur) w = (Inr (out @ pts, s'), w') \<and>
      map okx_point_view pts = map okx_view (shrinking_pages k P)"
proof (induction k arbitrary: cur out w ctx)
  case 0
  then obtain n where n: "ctx = Suc n" by (cases ctx) auto
  obtain body w' where "Get e c 1 (okx_funding_path inst cur) w = (Inr body, w')"
    "Unmarshal (dec_struct fundingRateResponse) body = Inr (''0'', okx_answer P cur)"
    using srv 0(1) unfolding okx_serves_def list_all_iff by blast
  then have "okx_funding_step e c inst startMs (Suc n) (out, cur) w = (Inr ((out, cur), False), w')"
    using 0(2) by (simp add: okx_funding_step_def Get_ctx[of _ _ n] bindE_def wrapE_def)
  then show ?case by (simp add: n bindE_def shrinking_pages_simps)
next
  case (Suc k)
  then obtain n where n: "ctx = Suc n" by (cases ctx) auto
  let ?R = "take (Suc k) P" and ?p = "last (take (Suc k) P)"
  have ne: "okx_answer P cur \<noteq> []" using Suc.prems(2,3) by auto
  have "set ?R \<subseteq> set (take 100 P)" using Suc.prems(4) by (rule set_take_subset_set_take)
  then have all: "list_all (\<lambda>p. startMs \<le> okx_ms p) ?R" using old by (auto simp: list_all_iff)
  then have tw: "takeWhile (\<lambda>p. startMs \<le> okx_ms p) ?R = ?R" by (simp add: list_all_iff)
  from okx_funding_step_run[OF srv Suc.prems(1) P ne, of startMs n out w] obtain w' pts where
    st: "okx_funding_step e c inst startMs (Suc n) (out, cur) w = (Inr ((out @ pts, snd (snd ?p)), True), w')"
      "map okx_point_view pts = map okx_view ?R" unfolding Suc.prems(2) using all tw by auto
  have mem: "?p \<in> set P" using Suc.prems(3) by (intro in_set_takeD[OF last_in_set]) auto
  then have ok: "snd (ParseInt (snd (snd ?p)))" using P by (auto simp: okx_sound_def list_all_iff)
  have "okx_answer P (snd (snd ?p)) = take k P"
    using okx_next_page[OF _ Suc.prems(3,4) refl ok] P by (simp add: okx_sound_def)
  moreover have "snd (snd ?p) \<in> set ([] # map (\<lambda>p. snd (snd p)) P)" using mem by auto
  ultimately obtain pts' s' w'' where
    ih: "pages n (\<lambda>_. True) (okx_funding_step e c inst startMs) (out @ pts, snd (snd ?p)) w' = (Inr ((out @ pts) @ pts', s'), w'')"
      "map okx_point_view pts' = map okx_view (shrinking_pages k P)"
    using Suc.IH[of "snd (snd ?p)" n "out @ pts" w'] Suc.prems(3-5) n by auto
  have "pages ctx (\<lambda>_. True) (okx_funding_step e c inst startMs) (out, cur) w = (Inr (out @ pts @ pts', s'), w'')"
    using st(1) ih(1) by (simp add: n bindE_def)
  moreover have "map okx_point_view (pts @ pts') = map okx_view (shrinking_pages (Suc k) P)"
    using st(2) ih(2) by (simp add: shrinking_pages_simps)
  ultimately show ?case by blast
qed

text \<open>What \<open>FetchFundingRateHistory\<close> returns: of the newest hundred records those from the start on, if one of them is
  older; otherwise the newest hundred, then the newest ninety-nine, and so on.\<close>

definition okx_collected :: "int \<Rightarrow> okx_record list \<Rightarrow> okx_record list" where
  "okx_collected startMs P = (let N = take 100 P in
     if list_all (\<lambda>p. startMs \<le> okx_ms p) N then shrinking_pages (length N) N else takeWhile (\<lambda>p. startMs \<le> okx_ms p) N)"

lemma shrinking_pages_take: "k \<le> n \<Longrightarrow> shrinking_pages k (take n P) = shrinking_pages k P"
  by (induction k) (simp_all add: shrinking_pages_simps min_def)

lemma okx_funding_collects:
  assumes "okx_serves e c inst P" "okx_sound P" "min 100 (length P) < ctx"
  shows "\<exists>pts w'. okx_FetchFundingRateHistory e c ctx inst since w = (Inr pts, w') \<and>
    map okx_point_view pts = map okx_view (okx_collected (unix_milli since) P)"
proof -
  let ?N = "take 100 P" and ?S = "unix_milli since"
  have ans: "okx_answer P [] = ?N" by (simp add: okx_answer_def)
  show ?thesis
  proof (cases "list_all (\<lambda>p. ?S \<le> okx_ms p) ?N")
    case True
    have "okx_answer P [] = take (min 100 (length P)) P" by (simp add: ans min_def)
    from okx_funding_shrinks[OF assms(1,2) True _ this _ _ assms(3), of "[]" w] obtain pts s' w' where
      "pages ctx (\<lambda>_. True) (okx_funding_step e c inst ?S) ([], []) w = (Inr (pts, s'), w')"
      "map okx_point_view pts = map okx_view (shrinking_pages (min 100 (length P)) P)" by auto
    moreover have "shrinking_pages (length ?N) ?N = shrinking_pages (min 100 (length P)) P"
      using shrinking_pages_take[of "min 100 (length P)" 100 P] by (simp add: min.commute)
    ultimately show ?thesis using True by (simp add: okx_FetchFundingRateHistory_def bindE_def okx_collected_def)
  next
    case False
    then have ne: "okx_answer P [] \<noteq> []" using ans by auto
    obtain n where n: "ctx = Suc n" using assms(3) by (cases ctx) auto
    from okx_funding_step_run[OF assms(1) _ assms(2) ne, of ?S n "[]" w] obtain w' pts where
      "okx_funding_step e c inst ?S (Suc n) ([], []) w = (Inr ((pts, []), False), w')"
      "map okx_point_view pts = map okx_view (takeWhile (\<lambda>p. ?S \<le> okx_ms p) ?N)" unfolding ans using False by auto
    then show ?thesis using False by (simp add: okx_FetchFundingRateHistory_def bindE_def okx_collected_def n)
  qed
qed

section \<open>OKX open interest ends\<close>

text \<open>
  Whatever the service answers to a cursor, as long as the pages are well formed and their stamps come from a finite set
  \<open>T\<close>: a round that brings no new stamp ends the loop, so there are at most \<open>card T + 1\<close> rounds.
\<close>

definition okx_oi_row_ok :: "int set \<Rightarrow> string list \<Rightarrow> bool" where
  "okx_oi_row_ok T row \<longleftrightarrow> 3 \<le> length row \<and> snd (ParseInt (row ! 0)) \<and> fst (ParseInt (row ! 0)) \<in> T \<and> snd (ParseFloat (row ! 2))"

definition okx_oi_serves :: "'w net \<Rightarrow> 'w http_client \<Rightarrow> string \<Rightarrow> int set \<Rightarrow> bool" where
  "okx_oi_serves e c currency T \<longleftrightarrow> (\<forall>cur w. \<exists>body w' rows. Get e c 1 (okx_oi_path currency cur) w = (Inr body, w') \<and>
     Unmarshal (dec_struct oiResponse) body = Inr (''0'', rows) \<and> list_all (okx_oi_row_ok T) rows)"

definition okx_oi_inv :: "int set \<Rightarrow> int set \<times> okx_oi_point list \<Rightarrow> bool" where
  "okx_oi_inv T s \<longleftrightarrow> fst s \<subseteq> T \<and> length (snd s) = card (fst s) \<and> list_all (\<lambda>p. xoi_date p \<in> (\<lambda>t. UTCDay (UnixMilli t)) ` fst s) (snd s)"

lemma okx_oi_row_inv:
  assumes "okx_oi_row_ok T row" "finite T" "okx_oi_inv T (xs_seen s, xs_out s)"
  shows "\<exists>s'. okx_oi_row e currency s row = Inr s' \<and> okx_oi_inv T (xs_seen s', xs_out s') \<and> xs_seen s \<subseteq> xs_seen s' \<and>
     card (xs_seen s') = card (xs_seen s) + (xs_count s' - xs_count s) \<and> xs_count s \<le> xs_count s'"
proof -
  obtain t where t: "ParseInt (row ! 0) = (t, True)" "t \<in> T" using assms(1) by (cases "ParseInt (row ! 0)") (auto simp: okx_oi_row_ok_def)
  obtain v where v: "ParseFloat (row ! 2) = (v, True)" using assms(1) by (cases "ParseFloat (row ! 2)") (auto simp: okx_oi_row_ok_def)
  have len: "\<not> length row < 3" using assms(1) by (simp add: okx_oi_row_ok_def)
  have fin: "finite (xs_seen s)" using assms(2,3) by (auto simp: okx_oi_inv_def intro: finite_subset)
  show ?thesis
  proof (cases "t \<in> xs_seen s")
    case True
    then show ?thesis using assms(3) len t by (simp add: okx_oi_row_def)
  next
    case False
    then show ?thesis using assms(3) len t v fin by (auto simp: okx_oi_row_def okx_oi_inv_def list_all_iff)
  qed
qed

lemma okx_oi_rows_inv:
  assumes "finite T"
  shows "list_all (okx_oi_row_ok T) rows \<Longrightarrow> okx_oi_inv T (xs_seen s, xs_out s) \<Longrightarrow>
    \<exists>s'. fold_sum (okx_oi_row e currency) s rows = Inr s' \<and> okx_oi_inv T (xs_seen s', xs_out s') \<and> xs_seen s \<subseteq> xs_seen s' \<and>
     card (xs_seen s') = card (xs_seen s) + (xs_count s' - xs_count s) \<and> xs_count s \<le> xs_count s'"
proof (induction rows arbitrary: s)
  case (Cons row rows)
  then have ok: "okx_oi_row_ok T row" "list_all (okx_oi_row_ok T) rows" by simp_all
  from okx_oi_row_inv[OF ok(1) assms Cons.prems(2), of e currency] obtain s1 where
    1: "okx_oi_row e currency s row = Inr s1" "okx_oi_inv T (xs_seen s1, xs_out s1)" "xs_seen s \<subseteq> xs_seen s1"
      "card (xs_seen s1) = card (xs_seen s) + (xs_count s1 - xs_count s)" "xs_count s \<le> xs_count s1" by blast
  from Cons.IH[OF ok(2) 1(2)] 1 show ?case by fastforce
qed auto

lemma okx_oi_pages_end:
  assumes srv: "okx_oi_serves e c currency T" and fin: "finite T"
  shows "okx_oi_inv T so \<Longrightarrow> card T < card (fst so) + ctx \<Longrightarrow>
    \<exists>so' cur' w'. pages ctx (\<lambda>_. True) (okx_oi_step e c currency) (so, cur) w = (Inr (so', cur'), w') \<and> okx_oi_inv T so'"
proof (induction ctx arbitrary: so cur w)
  case 0
  then have "card T < card (fst so)" "fst so \<subseteq> T" by (auto simp: okx_oi_inv_def)
  then show ?case using card_mono[OF fin, of "fst so"] by simp
next
  case (Suc n)
  obtain seen out where so: "so = (seen, out)" by (cases so)
  obtain body w1 rows where g: "Get e c 1 (okx_oi_path currency cur) w = (Inr body, w1)"
    "Unmarshal (dec_struct oiResponse) body = Inr (''0'', rows)" "list_all (okx_oi_row_ok T) rows"
    using srv unfolding okx_oi_serves_def by blast
  let ?s = "\<lparr>xs_seen = seen, xs_out = out, xs_count = 0, xs_oldest = 0\<rparr>"
  have inv0: "okx_oi_inv T (xs_seen ?s, xs_out ?s)" using Suc.prems(1) so by simp
  from okx_oi_rows_inv[OF fin g(3) inv0, of e currency] obtain r where
    r: "fold_sum (okx_oi_row e currency) ?s rows = Inr r" "okx_oi_inv T (xs_seen r, xs_out r)" "card (xs_seen r) = card seen + xs_count r" by auto
  show ?case
  proof (cases "rows = []")
    case True
    then have "okx_oi_step e c currency (Suc n) (so, cur) w = (Inr ((so, cur), False), w1)"
      using g(1,2) by (simp add: okx_oi_step_def Get_ctx[of _ _ n] bindE_def wrapE_def)
    then show ?thesis using Suc.prems(1) by (simp add: bindE_def)
  next
    case False
    then have st: "okx_oi_step e c currency (Suc n) (so, cur) w =
        (Inr (((xs_seen r, xs_out r), itoa (wrap64 (xs_oldest r - 1))), xs_count r \<noteq> 0), w1)"
      using g(1,2) r(1) by (simp add: so okx_oi_step_def Get_ctx[of _ _ n] bindE_def wrapE_def)
    show ?thesis
    proof (cases "xs_count r = 0")
      case True
      then show ?thesis using st r(2) by (simp add: bindE_def)
    next
      case False
      then have "card T < card (fst (xs_seen r, xs_out r)) + n" using Suc.prems(2) r(3) by (simp add: so)
      from Suc.IH[OF r(2) this] show ?thesis using st False by (simp add: bindE_def)
    qed
  qed
qed

lemma okx_oi_ends:
  assumes "okx_oi_serves e c currency T" "finite T" "card T < ctx"
  shows "\<exists>pts w'. okx_FetchOpenInterest e c ctx currency w = (Inr pts, w') \<and> length pts \<le> card T \<and>
    xoi_date ` set pts \<subseteq> (\<lambda>t. UTCDay (UnixMilli t)) ` T"
proof -
  from okx_oi_pages_end[OF assms(1,2), of "({}, [])" ctx "[]" w] assms(3) obtain so' cur' w' where
    "pages ctx (\<lambda>_. True) (okx_oi_step e c currency) (({}, []), []) w = (Inr (so', cur'), w')" "okx_oi_inv T so'"
    by (auto simp: okx_oi_inv_def)
  moreover from this(2) have "length (snd so') \<le> card T" "xoi_date ` set (snd so') \<subseteq> (\<lambda>t. UTCDay (UnixMilli t)) ` T"
    using card_mono[OF assms(2), of "fst so'"] image_mono[of "fst so'" T "\<lambda>t. UTCDay (UnixMilli t)"]
    unfolding okx_oi_inv_def list_all_iff image_subset_iff by (metis, blast)
  ultimately show ?thesis by (simp add: okx_FetchOpenInterest_def bindE_def)
qed

section \<open>Bybit funding windows\<close>

text \<open>
  The service has the events \<open>P\<close> (stamp and rate, as texts) of the symbol and answers a window with all of them in it, both
  ends included: windows of sixty days hold fewer events than the limit of the request at the venue's eight hours.
\<close>

definition yfu_ms :: "string \<times> string \<times> string \<Rightarrow> int" where
  "yfu_ms it = fst (ParseInt (snd (snd it)))"

definition yfu_view :: "string \<times> string \<times> string \<Rightarrow> gotime \<times> string \<times> f64" where
  "yfu_view it = (UnixMilli (yfu_ms it), fst it, fst (ParseFloat (fst (snd it))))"

definition yfu_point_view :: "bybit_funding_point \<Rightarrow> gotime \<times> string \<times> f64" where
  "yfu_point_view p = (yfu_time p, yfu_symbol p, yfu_rate p)"

definition window_events :: "(string \<times> string \<times> string) list \<Rightarrow> gotime \<Rightarrow> gotime \<Rightarrow> (string \<times> string \<times> string) list" where
  "window_events P a b = filter (\<lambda>it. unix_milli a \<le> yfu_ms it \<and> yfu_ms it \<le> unix_milli b) P"

definition answers_window :: "'w net \<Rightarrow> 'w http_client \<Rightarrow> string \<Rightarrow> (string \<times> string \<times> string) list \<Rightarrow> gotime \<Rightarrow> gotime \<Rightarrow> bool" where
  "answers_window e c symbol P a b \<longleftrightarrow> (\<forall>w. \<exists>raw next w'. fetchList e c 1 (bybit_funding_path symbol a b) w = (Inr (raw, next), w') \<and>
     Unmarshal_raw (dec_slice (dec_struct bybit_funding_item) []) raw = Inr (window_events P a b))"

definition sound_events :: "(string \<times> string \<times> string) list \<Rightarrow> bool" where
  "sound_events P \<longleftrightarrow> list_all (\<lambda>it. snd (ParseInt (snd (snd it))) \<and> snd (ParseFloat (fst (snd it)))) P"

definition window_starts :: "gotime \<Rightarrow> nat \<Rightarrow> gotime list" where
  "window_starts since n = map (\<lambda>k. since + int k * 60 * day_ns) [0..<n]"

lemma fold_sum_appends:
  assumes "\<And>out x. x \<in> set xs \<Longrightarrow> f out x = Inr (out @ [g x])"
  shows "fold_sum f out xs = Inr (out @ map g xs)"
  using assms by (induction xs arbitrary: out) auto

lemma funding_items_run:
  assumes "sound_events P"
  shows "\<exists>pts. fold_sum (bybit_funding_point_of e) out P = Inr (out @ pts) \<and> map yfu_point_view pts = map yfu_view P"
proof -
  let ?g = "\<lambda>it. \<lparr>yfu_time = UnixMilli (yfu_ms it), yfu_symbol = fst it, yfu_rate = fst (ParseFloat (fst (snd it))),
    yfu_hash = nt_sha256 e (json_object [(''symbol'', json_string (fst it)), (''fundingRate'', json_string (fst (snd it))),
      (''fundingRateTimestamp'', json_string (snd (snd it)))])\<rparr>"
  have "fold_sum (bybit_funding_point_of e) out P = Inr (out @ map ?g P)"
    using assms by (intro fold_sum_appends) (auto simp: bybit_funding_point_of_def sound_events_def list_all_iff yfu_ms_def split: prod.splits dest!: bspec)
  moreover have "map yfu_point_view (map ?g P) = map yfu_view P" by (simp add: yfu_point_view_def yfu_view_def)
  ultimately show ?thesis by blast
qed


lemma fetchList_ctx: "fetchList e c (Suc n) path = fetchList e c 1 path"
  by (simp add: fetchList_def Get_ctx[of _ _ n])

definition windows_collected :: "(string \<times> string \<times> string) list \<Rightarrow> gotime \<Rightarrow> gotime list \<Rightarrow> (string \<times> string \<times> string) list" where
  "windows_collected P until starts = concat (map (\<lambda>a. window_events P a (window_end until a)) (filter (\<lambda>a. a < until) starts))"

lemma window_starts_Suc: "window_starts a (Suc n) = a # window_starts (a + 60 * day_ns) n"
  by (simp add: window_starts_def upt_rec[of 0] map_Suc_upt[symmetric] comp_def algebra_simps del: upt_Suc)

lemma window_starts_ge: "x \<in> set (window_starts a n) \<Longrightarrow> a \<le> x"
proof -
  have "0 \<le> int k * 60 * day_ns" for k by (simp add: day_ns_def)
  then show "x \<in> set (window_starts a n) \<Longrightarrow> a \<le> x" by (auto simp: window_starts_def)
qed

lemma no_more_windows:
  assumes "until \<le> a"
  shows "filter (\<lambda>x. x < until) (window_starts a n) = []"
  using window_starts_ge[of _ a n] assms by (fastforce simp: filter_empty_conv)

lemma bybit_windows:
  assumes P: "sound_events P"
  shows "list_all (\<lambda>a. a < until \<longrightarrow> answers_window e c symbol P a (window_end until a)) (window_starts a ctx) \<Longrightarrow>
    until \<le> a + int ctx * 60 * day_ns \<Longrightarrow>
    \<exists>pts a' w'. pages ctx (\<lambda>s. fst s < until) (bybit_funding_step e c symbol until) (a, out) w = (Inr (a', out @ pts), w') \<and>
      map yfu_point_view pts = map yfu_view (windows_collected P until (window_starts a ctx))"
proof (induction ctx arbitrary: a out w)
  case 0
  then show ?case by (simp add: window_starts_def windows_collected_def)
next
  case (Suc n)
  let ?b = "window_end until a" and ?a = "a + 60 * day_ns"
  have d: "0 < day_ns" by (simp add: day_ns_def)
  show ?case
  proof (cases "a < until")
    case False
    then have "filter (\<lambda>x. x < until) (window_starts a (Suc n)) = []" by (intro no_more_windows) simp
    then show ?thesis using False by (simp add: windows_collected_def)
  next
    case True
    have ans: "answers_window e c symbol P a ?b" using Suc.prems(1) True by (simp add: window_starts_Suc)
    obtain raw nxt w1 where f: "fetchList e c 1 (bybit_funding_path symbol a ?b) w = (Inr (raw, nxt), w1)"
      "Unmarshal_raw (dec_slice (dec_struct bybit_funding_item) []) raw = Inr (window_events P a ?b)"
      using ans unfolding answers_window_def by blast
    have "sound_events (window_events P a ?b)" using P by (simp add: sound_events_def window_events_def list_all_iff)
    from funding_items_run[OF this, of e out] obtain pts where
      p: "fold_sum (bybit_funding_point_of e) out (window_events P a ?b) = Inr (out @ pts)"
        "map yfu_point_view pts = map yfu_view (window_events P a ?b)" by blast
    have st: "bybit_funding_step e c symbol until (Suc n) (a, out) w = (Inr ((?b, out @ pts), True), w1)"
      using f p(1) by (simp add: bybit_funding_step_def fetchList_ctx[of _ _ n] bindE_def wrapE_def)
    have col: "windows_collected P until (window_starts a (Suc n)) = window_events P a ?b @ windows_collected P until (window_starts ?a n)"
      using True by (simp add: windows_collected_def window_starts_Suc)
    show ?thesis
    proof (cases "?b = ?a")
      case True
      have "list_all (\<lambda>a. a < until \<longrightarrow> answers_window e c symbol P a (window_end until a)) (window_starts ?a n)"
        using Suc.prems(1) by (simp add: window_starts_Suc)
      moreover have "until \<le> ?a + int n * 60 * day_ns" using Suc.prems(2) by (simp add: algebra_simps)
      ultimately obtain pts' a' w' where
        "pages n (\<lambda>s. fst s < until) (bybit_funding_step e c symbol until) (?a, out @ pts) w1 = (Inr (a', (out @ pts) @ pts'), w')"
        "map yfu_point_view pts' = map yfu_view (windows_collected P until (window_starts ?a n))"
        using Suc.IH[of ?a "out @ pts" w1] by blast
      then show ?thesis using \<open>a < until\<close> st True p(2) col by (auto simp: bindE_def)
    next
      case False
      then have b: "?b = until" "until \<le> ?a" by (auto simp: window_end_def add_days_def Let_def split: if_splits)
      have "filter (\<lambda>x. x < until) (window_starts ?a n) = []"
        by (rule no_more_windows[OF b(2)])
      then have "windows_collected P until (window_starts ?a n) = []" by (simp add: windows_collected_def)
      moreover have "pages n (\<lambda>s. fst s < until) (bybit_funding_step e c symbol until) (until, out @ pts) w1 = (Inr (until, out @ pts), w1)"
        by (cases n) simp_all
      ultimately show ?thesis using \<open>a < until\<close> st p(2) col b(1) by (auto simp: bindE_def)
    qed
  qed
qed

text \<open>The windows leave no gap.\<close>

lemma windows_cover:
  assumes "until \<le> a + int n * 60 * day_ns" "a < until"
  shows "set (windows_collected P until (window_starts a n)) = set (window_events P a until)"
  using assms
proof (induction n arbitrary: a)
  case (Suc n)
  let ?b = "window_end until a" and ?a = "a + 60 * day_ns"
  have d: "0 < day_ns" by (simp add: day_ns_def)
  have mono: "x \<le> y \<Longrightarrow> unix_milli x \<le> unix_milli y" for x y :: int by (simp add: unix_milli_def millisecond_ns_def zdiv_mono1)
  have col: "windows_collected P until (window_starts a (Suc n)) = window_events P a ?b @ windows_collected P until (window_starts ?a n)"
    using Suc.prems(2) by (simp add: windows_collected_def window_starts_Suc)
  show ?case
  proof (cases "?a < until")
    case True
    then have "?b = ?a" by (simp add: window_end_def add_days_def Let_def)
    moreover have "set (windows_collected P until (window_starts ?a n)) = set (window_events P ?a until)"
      using Suc.prems(1) True by (intro Suc.IH) (simp_all add: algebra_simps)
    moreover have "unix_milli a \<le> unix_milli ?a" "unix_milli ?a \<le> unix_milli until" using True d by (auto intro!: mono)
    ultimately show ?thesis unfolding col set_append by (fastforce simp: window_events_def)
  next
    case False
    then have "?b = until" by (simp add: window_end_def add_days_def Let_def)
    moreover have "filter (\<lambda>x. x < until) (window_starts ?a n) = []"
      using False by (intro no_more_windows) simp
    ultimately show ?thesis unfolding col by (simp add: windows_collected_def)
  qed
qed simp

lemma bybit_funding_covers:
  assumes "sound_events P" "until \<le> since + int ctx * 60 * day_ns" "since < until"
    and "list_all (\<lambda>a. a < until \<longrightarrow> answers_window e c symbol P a (window_end until a)) (window_starts since ctx)"
  shows "\<exists>pts w'. bybit_FetchFundingRateHistory e c ctx symbol since until w = (Inr pts, w') \<and>
    yfu_point_view ` set pts = yfu_view ` set (window_events P since until)"
proof -
  from bybit_windows[OF assms(1,4,2), of "[]" w] obtain pts a' w' where
    "pages ctx (\<lambda>s. fst s < until) (bybit_funding_step e c symbol until) (since, []) w = (Inr (a', pts), w')"
    "map yfu_point_view pts = map yfu_view (windows_collected P until (window_starts since ctx))" by auto
  moreover from this(2) have "yfu_point_view ` set pts = yfu_view ` set (window_events P since until)"
    using windows_cover[OF assms(2,3)] by (metis list.set_map)
  ultimately show ?thesis by (simp add: bybit_FetchFundingRateHistory_def bindE_def)
qed

section \<open>Binance open interest: one point a day\<close>

definition oi_days_inv :: "int set \<times> bn_oi_point list \<Rightarrow> bool" where
  "oi_days_inv s \<longleftrightarrow> fst s = (\<lambda>p. unix_milli (bno_date p)) ` set (snd s) \<and> distinct (map bno_date (snd s)) \<and>
     list_all (\<lambda>p. UTCDay (bno_date p) = bno_date p) (snd s)"

lemma UTCDay_day_ms: "UTCDay (UnixMilli (day_ms t)) = UnixMilli (day_ms t)"
proof -
  have "UnixMilli (unix_milli (UTCDay u)) = UTCDay u" for u
    by (simp add: UTCDay_def UnixMilli_def unix_milli_def millisecond_ns_def day_ns_def)
  then show ?thesis by (simp add: day_ms_def)
qed

lemma oi_add_inv: "oi_days_inv s \<Longrightarrow> oi_days_inv (oi_add h s row)"
  by (cases s; cases row) (auto simp: oi_add_def oi_days_inv_def Let_def UTCDay_day_ms image_iff dest: arg_cong[of _ _ unix_milli])

lemma oi_history_inv: "oi_days_inv (oi_history e body hist)"
proof -
  have "oi_days_inv acc \<Longrightarrow> oi_days_inv (foldl (\<lambda>acc (i, h). oi_add (hashRawElement e body i) acc h) acc rows)" for acc rows
  proof (induction rows arbitrary: acc)
    case (Cons r rows)
    then show ?case using oi_add_inv[OF Cons.prems] by (cases r) (simp del: split_paired_All)
  qed simp
  then show ?thesis by (simp add: oi_history_def oi_days_inv_def)
qed

lemma oi_one_point_a_day:
  assumes "bn_FetchOpenInterest e c ctx symbol w = (Inr pts, w')"
  shows "distinct (map bno_date pts)" and "list_all (\<lambda>p. UTCDay (bno_date p) = bno_date p) pts"
proof -
  obtain h body hist row where "pts = snd (oi_add h (oi_history e body hist) row)"
    using assms unfolding bn_FetchOpenInterest_def bindE_eq_Inr ret_def by blast
  then show "distinct (map bno_date pts)" "list_all (\<lambda>p. UTCDay (bno_date p) = bno_date p) pts"
    using oi_add_inv[OF oi_history_inv, of h e body hist row] by (simp_all add: oi_days_inv_def)
qed

end
