(* ===== verification/TextFacts.thy ===== *)
theory TextFacts
  imports Json
begin

text \<open>
  Printing and reading back: decimal numbers under \<open>strconv\<close>, and JSON texts under the reader of \<open>Json\<close>.
\<close>

section \<open>Decimal digits\<close>

definition is_digit :: "char \<Rightarrow> bool" where
  "is_digit c \<longleftrightarrow> undig c \<noteq> None"

lemma undig_Some: "undig c = Some k \<Longrightarrow> k < 10 \<and> c = dig k"
  by (auto simp: undig_def dig_def split: if_splits)

lemma is_digit_iff: "is_digit c \<longleftrightarrow> (\<exists>k<10. c = dig k)"
  using undig_Some by (fastforce simp: is_digit_def)

lemma is_digit_cases:
  assumes "is_digit c"
  shows "c \<in> set ''0123456789''"
proof -
  from assms obtain k where "k < 10" "c = dig k" by (auto simp: is_digit_iff)
  then have "k \<in> {0, 1, 2, 3, 4, 5, 6, 7, 8, 9}" by auto
  with \<open>c = dig k\<close> show ?thesis by (elim insertE emptyE) (simp_all add: dig_def)
qed

lemma not_digit: "\<not> is_digit CHR ''-''" "\<not> is_digit CHR ''+''" "\<not> is_digit CHR ''_''" "\<not> is_digit CHR ''.''" "\<not> is_digit CHR ''e''"
  "\<not> is_digit CHR ''E''" "\<not> is_digit CHR '',''" "\<not> is_digit CHR '']''" "\<not> is_digit CHR ''}''" "\<not> is_digit CHR ''x''" "\<not> is_digit CHR ''X''"
  "\<not> is_digit CHR 0x22"
  by (auto dest: is_digit_cases)

lemma dec_digits: "list_all is_digit (dec n)"
proof (induction n rule: dec.induct)
  case (1 n)
  have d: "k < 10 \<Longrightarrow> is_digit (dig k)" for k by (auto simp: is_digit_iff)
  show ?case using 1 by (subst dec.simps) (simp add: d)
qed

lemma dec_nonempty [simp]: "dec n \<noteq> []"
  by (subst dec.simps) simp

lemma num_of_snoc: "k < 10 \<Longrightarrow> num_of a (xs @ [dig k]) = map_option (\<lambda>v. 10 * v + k) (num_of a xs)"
  by (induction xs arbitrary: a) (auto split: option.splits)

lemma num_of_dec [simp]: "num_of 0 (dec n) = Some n"
proof (induction n rule: dec.induct)
  case (1 n)
  show ?case
  proof (cases "n < 10")
    case True
    then show ?thesis by (subst dec.simps) simp
  next
    case False
    with 1 show ?thesis by (subst dec.simps) (simp add: num_of_snoc)
  qed
qed

lemma digits_hd: "list_all is_digit ds \<Longrightarrow> ds \<noteq> [] \<Longrightarrow> is_digit (hd ds)"
  by (cases ds) auto

lemma sign_of_digits:
  assumes "list_all is_digit ds"
  shows "sign_of (ds @ r) = (if ds = [] then sign_of r else (False, ds @ r))"
  using assms not_digit(1,2) by (cases ds) (auto simp: sign_of_def)

lemma ParseInt_itoa:
  assumes "min_int64 \<le> n" "n \<le> max_int64"
  shows "ParseInt (itoa n) = (n, True)"
proof (cases "n < 0")
  case True
  then have "sign_of (itoa n) = (True, dec (nat (- n)))" by (simp add: itoa_def sign_of_def)
  then show ?thesis using True assms by (simp add: ParseInt_def Let_def)
next
  case False
  then have "sign_of (itoa n) = (False, dec (nat n))" using sign_of_digits[OF dec_digits[of "nat n"], of "[]"] by (simp add: itoa_def)
  then show ?thesis using False assms by (simp add: ParseInt_def Let_def)
qed

section \<open>Whole numbers as floats\<close>

lemma digit_val_digit: "is_digit c \<Longrightarrow> digit_val b c = undig c"
  by (auto simp: digit_val_def is_digit_def)

lemma scan_mant_digits:
  assumes "list_all is_digit ds" and "num_of m ds = Some v"
  shows "scan_mant 10 False m k f (ds @ r) = scan_mant 10 False v (k + length ds) f r"
  using assms
proof (induction ds arbitrary: m k)
  case (Cons c ds)
  then obtain d where d: "undig c = Some d" "num_of (10 * m + d) ds = Some v" by (auto split: option.splits)
  have "c \<noteq> CHR ''_''" "c \<noteq> CHR ''.''" using Cons.prems(1) not_digit(3,4) by auto
  then show ?case using Cons.IH[of "10 * m + d" "Suc k"] Cons.prems d by (simp add: digit_val_digit)
qed simp

lemma based_digits: "list_all is_digit ds \<Longrightarrow> \<not> based ''x'' ds"
proof
  assume "list_all is_digit ds" "based ''x'' ds"
  then obtain a b r where "ds = a # b # r" "char_lower b = CHR ''x''" "is_digit b" by (auto simp: based_def split: list.splits)
  then show False using is_digit_cases[of b] by (auto simp: char_lower_def)
qed

lemma read_float_dec: "read_float (dec n) = Some (False, of_nat n)"
proof -
  have "CHR ''_'' \<notin> set (dec n)" using dec_digits[of n] not_digit(3) by (auto simp: list_all_iff)
  moreover have "scan_mant 10 False 0 0 0 (dec n) = (n, length (dec n), 0, [])"
    using scan_mant_digits[OF dec_digits[of n] num_of_dec, of 0 0 "[]"] by simp
  moreover have "sign_of (dec n) = (False, dec n)" using sign_of_digits[OF dec_digits[of n], of "[]"] by simp
  ultimately show ?thesis using based_digits[OF dec_digits[of n]] by (simp add: read_float_def Let_def)
qed

lemma lower_digits: "list_all is_digit ds \<Longrightarrow> ToLower ds = ds"
  unfolding ToLower_def by (rule map_idI) (auto simp: list_all_iff char_lower_def dest!: bspec is_digit_cases)

lemma digits_not_word: "list_all is_digit ds \<Longrightarrow> ds \<noteq> ''inf'' \<and> ds \<noteq> ''infinity'' \<and> ds \<noteq> ''nan''"
  by (auto dest!: is_digit_cases)

lemma ParseFloat_dec: "ParseFloat (dec n) = (signed_float False (of_nat n), \<not> isInf (signed_float False (of_nat n)))"
  using digits_not_word[OF dec_digits[of n]] sign_of_digits[OF dec_digits[of n], of "[]"]
  by (simp add: ParseFloat_def lower_digits[OF dec_digits] read_float_dec Let_def)

section \<open>Strings\<close>

definition hex_escape :: "nat \<Rightarrow> string" where
  "hex_escape n = [CHR ''0'', CHR ''0'', hex_lower (n div 16), hex_lower (n mod 16)]"

lemma hex_escape_ascii: "n < 128 \<Longrightarrow> hex4 (hex_escape n) = Some n \<and> utf8 n = [char_of n]"
proof -
  have "list_all (\<lambda>n. hex4 (hex_escape n) = Some n \<and> utf8 n = [char_of n]) [0..<128]" by code_simp
  then show "n < 128 \<Longrightarrow> ?thesis" by (simp add: list_all_iff)
qed

lemma escapes: "escape_of CHR 0x22 = Some CHR 0x22" "escape_of CHR 0x5C = Some CHR 0x5C" "escape_of CHR ''b'' = Some CHR 0x08"
  "escape_of CHR ''f'' = Some CHR 0x0C" "escape_of CHR ''n'' = Some CHR 0x0A" "escape_of CHR ''r'' = Some CHR 0x0D" "escape_of CHR ''t'' = Some CHR 0x09"
  by (simp_all add: escape_of_def)

lemma control_chars: "char_of (8::nat) = CHR 0x08" "char_of (12::nat) = CHR 0x0C" "char_of (10::nat) = CHR 0x0A" "char_of (13::nat) = CHR 0x0D"
  "char_of (9::nat) = CHR 0x09"
  by code_simp+

lemma json_char_cases:
  obtains (plain) "json_char c = [c]" "c \<noteq> CHR 0x22" "c \<noteq> CHR 0x5C" "\<not> of_char c < (32::nat)"
  | (escaped) d where "json_char c = [CHR 0x5C, d]" "d \<noteq> CHR ''u''" "escape_of d = Some c"
  | (hex) n where "json_char c = [CHR 0x5C, CHR ''u''] @ hex_escape n" "n < 128" "c = char_of n"
proof -
  define n :: nat where "n = of_char c"
  have c: "c = char_of n" by (simp add: n_def)
  consider "c = CHR 0x22 \<or> c = CHR 0x5C" | "c \<noteq> CHR 0x22" "c \<noteq> CHR 0x5C" "n \<in> {8, 12, 10, 13, 9}"
    | "c \<noteq> CHR 0x22" "c \<noteq> CHR 0x5C" "n \<notin> {8, 12, 10, 13, 9}" "n < 32 \<or> c \<in> set ''<>&''"
    | "c \<noteq> CHR 0x22" "c \<noteq> CHR 0x5C" "n \<notin> {8, 12, 10, 13, 9}" "\<not> n < 32" "c \<notin> set ''<>&''" by blast
  then show thesis
  proof cases
    case 1
    then show ?thesis by (intro escaped[of c]) (auto simp: json_char_def escapes)
  next
    case 2
    then consider "n = 8" | "n = 12" | "n = 10" | "n = 13" | "n = 9" by auto
    then show ?thesis
    proof cases
      case 1 with 2 c show ?thesis by (intro escaped[of "CHR ''b''"]) (simp_all add: json_char_def escapes n_def[symmetric] control_chars)
    next
      case 2 with \<open>c \<noteq> CHR 0x22\<close> \<open>c \<noteq> CHR 0x5C\<close> c show ?thesis by (intro escaped[of "CHR ''f''"]) (simp_all add: json_char_def escapes n_def[symmetric] control_chars)
    next
      case 3 with 2 c show ?thesis by (intro escaped[of "CHR ''n''"]) (simp_all add: json_char_def escapes n_def[symmetric] control_chars)
    next
      case 4 with 2 c show ?thesis by (intro escaped[of "CHR ''r''"]) (simp_all add: json_char_def escapes n_def[symmetric] control_chars)
    next
      case 5 with 2 c show ?thesis by (intro escaped[of "CHR ''t''"]) (simp_all add: json_char_def escapes n_def[symmetric] control_chars)
    qed
  next
    case 3
    moreover have "n < 128" using 3(4) by (auto simp: n_def)
    ultimately show ?thesis using c by (intro hex[of n]) (simp_all add: json_char_def hex_escape_def n_def[symmetric] Let_def)
  next
    case 4
    then show ?thesis by (intro plain) (simp_all add: json_char_def n_def[symmetric] Let_def)
  qed
qed

lemma not_surrogate: "n < 128 \<Longrightarrow> pair_of n s = None \<and> \<not> surrogate n"
  by (simp add: pair_of_def surrogate_def)

lemma read_json_char: "read_string (json_char c @ t) = map_option (\<lambda>(u, r). (c # u, r)) (read_string t)"
proof (cases c rule: json_char_cases)
  case plain
  then show ?thesis by simp
next
  case (escaped d)
  then show ?thesis by simp
next
  case (hex n)
  then show ?thesis using hex_escape_ascii[OF hex(2)] not_surrogate[OF hex(2)] by (simp add: hex_escape_def)
qed

lemma read_json_string: "read_string (concat (map json_char s) @ CHR 0x22 # r) = Some (s, r)"
  by (induction s) (simp_all add: read_json_char del: read_string.simps(2), simp)

section \<open>Values\<close>

fun json_text :: "json \<Rightarrow> string" where
  "json_text NullJ = ''null''"
| "json_text (BoolJ b) = (if b then ''true'' else ''false'')"
| "json_text (NumJ n) = n"
| "json_text (StrJ s) = json_string s"
| "json_text (ArrJ rs) = ''['' @ str_join '','' (map (\<lambda>r. json_text (snd r)) rs) @ '']''"
| "json_text (ObjJ fs) = json_object (map (\<lambda>f. (fst f, json_text (snd (snd f)))) fs)"

text \<open>A printable value: numbers are literals, and the text kept with a part is the text it is printed as.\<close>

definition ends :: "string \<Rightarrow> bool" where
  "ends r \<longleftrightarrow> r = [] \<or> hd r \<in> set '',]}''"

definition number_literal :: "string \<Rightarrow> bool" where
  "number_literal n \<longleftrightarrow> (\<forall>r. ends r \<longrightarrow> read_number (n @ r) = Some (n, r)) \<and> n \<noteq> [] \<and> (is_digit (hd n) \<or> hd n = CHR ''-'')"

fun printable :: "json \<Rightarrow> bool" where
  "printable (NumJ n) = number_literal n"
| "printable (ArrJ rs) = list_all (\<lambda>r. printable (snd r) \<and> fst r = json_text (snd r)) rs"
| "printable (ObjJ fs) = list_all (\<lambda>f. printable (snd (snd f)) \<and> fst (snd f) = json_text (snd (snd f))) fs"
| "printable _ = True"

lemma take_digits_eq: "take_digits s = (takeWhile is_digit s, dropWhile is_digit s)"
  by (simp add: take_digits_def is_digit_def[abs_def])

lemma ends_digits: "ends r \<Longrightarrow> takeWhile is_digit r = [] \<and> dropWhile is_digit r = r"
  by (cases r) (auto simp: ends_def not_digit)

lemma take_digits_digits: "list_all is_digit ds \<Longrightarrow> ends r \<Longrightarrow> take_digits (ds @ r) = (ds, r)"
  using ends_digits[of r] by (simp add: take_digits_eq list_all_iff takeWhile_append2 dropWhile_append2)

lemma dec_lead: "take 1 (dec n) = ''0'' \<Longrightarrow> n = 0"
proof (induction n rule: dec.induct)
  case (1 n)
  show ?case
  proof (cases "n < 10")
    case True
    have "dig n = CHR ''0'' \<Longrightarrow> n = 0" using True undig_dig[OF True] by (auto simp: undig_def)
    then show ?thesis using 1 True by (simp add: dec.simps[of n])
  next
    case False
    then have "take 1 (dec (n div 10)) = ''0''" using 1(2) by (simp add: dec.simps[of n] take_Cons' split: if_splits) 
    then show ?thesis using 1(1) False by simp
  qed
qed

section \<open>Numbers as texts\<close>

lemma number_literal_dec:
  assumes "ends r"
  shows "read_number (dec n @ r) = Some (dec n, r)"
proof -
  have fr: "read_frac r = ([], r)" and ex: "read_expo r = ([], r)"
    using assms by (cases r; auto simp: ends_def read_frac_def read_expo_def char_lower_def)+
  have sg: "take 1 (dec n @ r) \<noteq> ''-''"
    using digits_hd[OF dec_digits[of n]] not_digit(1) by (cases "dec n") auto
  have "read_whole (dec n @ r) = (dec n, r)"
  proof (cases "take 1 (dec n @ r) = ''0''")
    case True
    then have "n = 0" by (intro dec_lead) (cases "dec n"; auto)
    then show ?thesis by (simp add: read_whole_def dec.simps[of 0] dig_def)
  next
    case False
    then show ?thesis using take_digits_digits[OF dec_digits assms] by (simp add: read_whole_def)
  qed
  then show ?thesis using fr ex sg by (simp add: read_number_def)
qed

lemma number_literal_itoa: "number_literal (itoa n)"
proof -
  have neg: "read_number (CHR ''-'' # s) = map_option (\<lambda>(t, r). (CHR ''-'' # t, r)) (read_number s)" if "take 1 s \<noteq> ''-''" for s
    using that by (simp add: read_number_def Let_def split: prod.splits list.splits)
  have nd: "take 1 (dec k @ r) \<noteq> ''-''" for k r
    using digits_hd[OF dec_digits[of k]] not_digit(1) by (cases "dec k") auto
  show ?thesis unfolding number_literal_def
    using number_literal_dec digits_hd[OF dec_digits] neg[OF nd] by (auto simp: itoa_def)
qed

lemma hd_literal: "number_literal n \<Longrightarrow> \<exists>c u. n = c # u \<and> c \<in> set ''-0123456789''"
  by (cases n) (auto simp: number_literal_def dest!: is_digit_cases)

section \<open>Reading what was printed\<close>

definition is_ws :: "char \<Rightarrow> bool" where
  "is_ws c \<longleftrightarrow> c \<in> set [CHR '' '', CHR 0x09, CHR 0x0A, CHR 0x0D]"

lemma skip_ws_eq: "skip_ws s = dropWhile is_ws s"
  by (simp add: skip_ws_def is_ws_def[abs_def])

lemma text_first: "printable v \<Longrightarrow> \<exists>c u. json_text v = c # u \<and> \<not> is_ws c \<and> c \<noteq> CHR '']''"
proof (cases v)
  case (NumJ n)
  then show "printable v \<Longrightarrow> ?thesis" using hd_literal[of n] by (auto simp: is_ws_def)
qed (auto simp: is_ws_def json_string_def json_object_def)

lemma skip_ws_text: "printable v \<Longrightarrow> skip_ws (json_text v @ r) = json_text v @ r"
  using text_first[of v] by (auto simp: skip_ws_eq)

lemma skip_ws_ends: "ends r \<Longrightarrow> skip_ws r = r"
  by (cases r) (auto simp: skip_ws_eq ends_def is_ws_def)

lemma consumed_append [simp]: "consumed (a @ r) r = a"
  by (simp add: consumed_def)

lemma read_atom_text:
  assumes "printable v" "ends r" "\<And>rs. v \<noteq> ArrJ rs" "\<And>fs. v \<noteq> ObjJ fs"
  shows "read_atom (json_text v @ r) = Some (v, r)"
proof (cases v)
  case (StrJ s)
  then show ?thesis by (simp add: read_atom_def json_string_def read_json_string)
next
  case (NumJ n)
  then obtain c u where "n = c # u" "c \<in> set ''-0123456789''" using hd_literal[of n] assms(1) by auto
  moreover have "read_number (n @ r) = Some (n, r)" using assms(1,2) NumJ by (simp add: number_literal_def)
  ultimately show ?thesis using NumJ by (auto simp: read_atom_def)
qed (use assms in \<open>auto simp: read_atom_def\<close>)


abbreviation elem_ok :: "string \<times> json \<Rightarrow> bool" where
  "elem_ok r \<equiv> printable (snd r) \<and> fst r = json_text (snd r)"

definition elems_text :: "(string \<times> json) list \<Rightarrow> string" where
  "elems_text rs = str_join '','' (map (\<lambda>r. json_text (snd r)) rs)"

definition member_text :: "string \<times> string \<times> json \<Rightarrow> string" where
  "member_text f = json_string (fst f) @ '':'' @ json_text (snd (snd f))"

definition members_text :: "obj \<Rightarrow> string" where
  "members_text fs = str_join '','' (map member_text fs)"

lemma json_text_ArrJ: "json_text (ArrJ rs) = ''['' @ elems_text rs @ '']''"
  by (simp add: elems_text_def)

lemma json_text_ObjJ: "json_text (ObjJ fs) = ''{'' @ members_text fs @ ''}''"
  by (simp add: members_text_def json_object_def member_text_def[abs_def] comp_def)

lemma elems_text_Cons: "elems_text (r # rs) = json_text (snd r) @ (if rs = [] then [] else '','' @ elems_text rs)"
  by (cases rs) (simp_all add: elems_text_def)

lemma members_text_Cons: "members_text (f # fs) = member_text f @ (if fs = [] then [] else '','' @ members_text fs)"
  by (cases fs) (simp_all add: members_text_def)

lemma skip_ws_elems: "rs \<noteq> [] \<Longrightarrow> list_all elem_ok rs \<Longrightarrow> skip_ws (elems_text rs @ r) = elems_text rs @ r"
  using skip_ws_text by (cases rs) (auto simp: elems_text_Cons)

lemma skip_ws_members: "fs \<noteq> [] \<Longrightarrow> skip_ws (members_text fs @ r) = members_text fs @ r"
  by (cases fs) (auto simp: members_text_Cons member_text_def json_string_def skip_ws_eq is_ws_def)

lemma elems_first: "rs \<noteq> [] \<Longrightarrow> list_all elem_ok rs \<Longrightarrow> take 1 (elems_text rs @ r) \<noteq> '']''"
  using text_first by (cases rs) (fastforce simp: elems_text_Cons)+

lemma read_text:
  "(\<forall>v r. printable v \<longrightarrow> ends r \<longrightarrow> length (json_text v) \<le> n \<longrightarrow> read_value n (json_text v @ r) = Some (v, r)) \<and>
   (\<forall>rs r. rs \<noteq> [] \<longrightarrow> list_all elem_ok rs \<longrightarrow> length (elems_text rs) < n \<longrightarrow> read_elems n (elems_text rs @ CHR '']'' # r) = Some (rs, r)) \<and>
   (\<forall>fs r. fs \<noteq> [] \<longrightarrow> list_all (\<lambda>f. elem_ok (snd f)) fs \<longrightarrow> length (members_text fs) < n \<longrightarrow>
      read_members n (members_text fs @ CHR ''}'' # r) = Some (fs, r))"
proof (induction n)
  case 0
  then show ?case using text_first by fastforce
next
  case (Suc n)
  have V: "read_value n (json_text v @ r) = Some (v, r)" if "printable v" "ends r" "length (json_text v) \<le> n" for v r
    using Suc that by blast
  have E: "read_elems n (elems_text rs @ CHR '']'' # r) = Some (rs, r)" if "rs \<noteq> []" "list_all elem_ok rs" "length (elems_text rs) < n" for rs r
    using Suc that by blast
  have M: "read_members n (members_text fs @ CHR ''}'' # r) = Some (fs, r)"
    if "fs \<noteq> []" "list_all (\<lambda>f. elem_ok (snd f)) fs" "length (members_text fs) < n" for fs r
    using Suc that by blast
  have "read_value (Suc n) (json_text v @ r) = Some (v, r)" if v: "printable v" "ends r" "length (json_text v) \<le> Suc n" for v r
  proof (cases v)
    case (ArrJ rs)
    show ?thesis
    proof (cases "rs = []")
      case False
      then show ?thesis using v ArrJ E[of rs r] elems_first[of rs "CHR '']'' # r"] skip_ws_elems[of rs "CHR '']'' # r"]
        by (simp add: json_text_ArrJ del: json_text.simps)
    qed (simp add: ArrJ skip_ws_eq is_ws_def)
  next
    case (ObjJ fs)
    show ?thesis
    proof (cases "fs = []")
      case False
      have "take 1 (members_text fs @ CHR ''}'' # r) \<noteq> ''}''"
        using False by (cases fs) (auto simp: members_text_Cons member_text_def json_string_def)
      then show ?thesis using v ObjJ M[of fs r] False skip_ws_members[of fs "CHR ''}'' # r"]
        by (simp add: json_text_ObjJ del: json_text.simps)
    qed (simp add: ObjJ skip_ws_eq is_ws_def json_object_def)
  next
    case (NumJ k)
    then obtain c u where "k = c # u" "c \<in> set ''-0123456789''" using hd_literal[of k] v(1) by auto
    then show ?thesis using read_atom_text[OF v(1,2)] NumJ by auto
  next
    case (StrJ s)
    then show ?thesis using read_atom_text[OF v(1,2)] by (simp add: json_string_def)
  qed (use read_atom_text[OF v(1,2)] in auto)
  moreover have "read_elems (Suc n) (elems_text rs @ CHR '']'' # r) = Some (rs, r)"
    if rs: "rs \<noteq> []" "list_all elem_ok rs" "length (elems_text rs) < Suc n" for rs r
  proof -
    obtain t v rs' where c: "rs = (t, v) # rs'" using rs(1) by (cases rs) auto
    let ?t = "(if rs' = [] then [] else '','' @ elems_text rs') @ CHR '']'' # r"
    have len: "length (json_text v) \<le> n" "rs' \<noteq> [] \<Longrightarrow> length (elems_text rs') < n"
      using rs(3) c by (auto simp: elems_text_Cons split: if_splits)
    have "ends ?t" by (simp add: ends_def)
    then have "read_value n (json_text v @ ?t) = Some (v, ?t)" using V[of v ?t] rs(2) c len by simp
    moreover have "skip_ws ?t = ?t" using skip_ws_ends[OF \<open>ends ?t\<close>] .
    ultimately show ?thesis using E[of rs' r] rs(2) c len skip_ws_elems[of rs' "CHR '']'' # r"]
      by (cases "rs' = []") (auto simp: elems_text_Cons)
  qed
  moreover have "read_members (Suc n) (members_text fs @ CHR ''}'' # r) = Some (fs, r)"
    if fs: "fs \<noteq> []" "list_all (\<lambda>f. elem_ok (snd f)) fs" "length (members_text fs) < Suc n" for fs r
  proof -
    obtain k t v fs' where c: "fs = (k, t, v) # fs'" using fs(1) by (cases fs) auto
    let ?t = "(if fs' = [] then [] else '','' @ members_text fs') @ CHR ''}'' # r"
    have len: "length (json_text v) \<le> n" "fs' \<noteq> [] \<Longrightarrow> length (members_text fs') < n"
      using fs(3) c by (auto simp: members_text_Cons member_text_def split: if_splits)
    have "ends ?t" by (simp add: ends_def)
    then have "read_value n (json_text v @ ?t) = Some (v, ?t)" using V[of v ?t] fs(2) c len by simp
    moreover have "skip_ws ?t = ?t" using skip_ws_ends[OF \<open>ends ?t\<close>] .
    moreover have "skip_ws (json_text v @ ?t) = json_text v @ ?t" using skip_ws_text[of v] fs(2) c by simp
    moreover have "read_string (concat (map json_char k) @ CHR 0x22 # s) = Some (k, s)" for s by (rule read_json_string)
    moreover have "skip_ws (CHR '':'' # s) = CHR '':'' # s" for s by (simp add: skip_ws_eq is_ws_def)
    ultimately show ?thesis using M[of fs' r] fs(2) c len skip_ws_members[of fs' "CHR ''}'' # r"]
      by (cases "fs' = []") (auto simp: members_text_Cons member_text_def json_string_def)
  qed
  ultimately show ?case by blast
qed

theorem read_json_text:
  assumes "printable v"
  shows "read_json (json_text v) = Some (json_text v, v)"
proof -
  have "read_value (Suc (length (json_text v))) (json_text v @ []) = Some (v, [])"
    using conjunct1[OF read_text[of "Suc (length (json_text v))"], rule_format, of v "[]"] assms by (simp add: ends_def del: read_value.simps)
  moreover have "skip_ws (json_text v) = json_text v" using skip_ws_text[OF assms, of "[]"] by simp
  moreover have "consumed (json_text v) [] = json_text v" by (simp add: consumed_def)
  ultimately show ?thesis by (simp add: read_json_def skip_ws_ends[of "[]"] ends_def del: read_value.simps)
qed

end
