(* ===== verification/OptionChain.thy ===== *)
theory OptionChain
  imports Deribit TextFacts
begin

text \<open>
  The option chain of \<open>deribit\<close>: which options the skew is taken from, and the names of options.
\<close>

section \<open>Days to expiry are never NaN\<close>

lemma fadd_not_NaN: "x \<noteq> NaN \<Longrightarrow> is_finite y \<Longrightarrow> fadd x y \<noteq> NaN \<and> fadd y x \<noteq> NaN"
  by (cases x; cases y) auto

lemma fsub_finite_not_NaN: "x \<noteq> NaN \<Longrightarrow> is_finite y \<Longrightarrow> fsub x y \<noteq> NaN"
  by (cases x; cases y) (auto simp: fsub_def fneg_def)

lemma fdiv_not_NaN: "x \<noteq> NaN \<Longrightarrow> is_finite y \<Longrightarrow> qv y \<noteq> 0 \<Longrightarrow> fdiv x y \<noteq> NaN"
  by (cases x; cases y) (auto simp: zero_of_def)

lemma fabs_NaN_iff: "fabs x = NaN \<longleftrightarrow> x = NaN"
  by (cases x) (auto simp: fabs_def)

lemma f_of_int_finite: "\<bar>n\<bar> \<le> 2 ^ 64 \<Longrightarrow> is_finite (f_of_int n)"
proof -
  assume "\<bar>n\<bar> \<le> 2 ^ 64"
  then have "\<bar>of_int n :: rat\<bar> \<le> 2 ^ 64" by (metis of_int_abs of_int_le_iff of_int_numeral of_int_power)
  also have "(2::rat) ^ 64 \<le> 2 powi 1023" by (simp add: power_int_numeral)
  finally show ?thesis unfolding f_of_int_def by (rule rnd_in_range(1))
qed

lemma dur_hours_not_NaN:
  assumes "\<bar>d\<bar> \<le> 2 ^ 63"
  shows "dur_hours d \<noteq> NaN"
proof -
  define k m where "k = \<bar>d\<bar> div hour_ns" and "m = \<bar>d\<bar> mod hour_ns"
  have km: "\<bar>d\<bar> = hour_ns * k + m" "0 \<le> k" "0 \<le> m" "k \<le> \<bar>d\<bar>" "m \<le> \<bar>d\<bar>"
    using zdiv_mono2[of "\<bar>d\<bar>" 1 hour_ns] by (simp_all add: k_def m_def hour_ns_def zmod_le_nonneg_dividend pos_imp_zdiv_nonneg_iff)
  have qk: "quot_go d hour_ns = sgn d * k" by (simp add: quot_go_def k_def hour_ns_def)
  have rm: "rem_go d hour_ns = sgn d * m"
  proof -
    have "d - hour_ns * (sgn d * k) = sgn d * \<bar>d\<bar> - hour_ns * (sgn d * k)" by (simp only: mult_sgn_abs)
    also have "\<dots> = sgn d * (hour_ns * k + m) - hour_ns * (sgn d * k)" by (simp only: km(1))
    also have "\<dots> = sgn d * m" by (simp only: distrib_left mult.left_commute[of hour_ns] add_diff_cancel_left')
    finally show ?thesis by (simp only: rem_go_def qk)
  qed
  have sg: "\<bar>sgn d * x\<bar> \<le> \<bar>x\<bar>" for x by (simp add: sgn_if)
  have "\<bar>k\<bar> \<le> 2 ^ 64" "\<bar>m\<bar> \<le> 2 ^ 64" using km(2-5) assms by auto
  then have q: "\<bar>quot_go d hour_ns\<bar> \<le> 2 ^ 64" "\<bar>rem_go d hour_ns\<bar> \<le> 2 ^ 64"
    unfolding qk rm using order_trans[OF sg] by blast+
  have h: "is_finite (f_of_int hour_ns)" "qv (f_of_int hour_ns) \<noteq> 0" by (simp_all add: f_of_int_def hour_ns_def f64_eval)
  have "f_of_int n \<noteq> NaN" for n by (simp add: f_of_int_def)
  then show ?thesis unfolding dur_hours_def
    using fadd_not_NaN[OF fdiv_not_NaN[OF _ h] f_of_int_finite[OF q(1)]] by blast
qed

lemma days_to_not_NaN: "days_to now q \<noteq> NaN"
proof -
  have "\<bar>time_sub t u\<bar> \<le> 2 ^ 63" for t u by (auto simp: time_sub_def)
  then show ?thesis unfolding days_to_def by (intro fdiv_not_NaN dur_hours_not_NaN) (simp_all add: lit_def f64_eval)
qed

section \<open>The nearest option of a side\<close>

definition month_gap :: "gotime \<Rightarrow> option_summary \<Rightarrow> f64" where
  "month_gap now q = fabs (fsub (days_to now q) (lit 30))"

definition strike_gap :: "f64 \<Rightarrow> option_summary \<Rightarrow> f64" where
  "strike_gap target q = fabs (fsub (su_strike q) target)"

definition side_near :: "gotime \<Rightarrow> bool \<Rightarrow> option_summary \<Rightarrow> bool" where
  "side_near now put q \<longleftrightarrow> su_put q = put \<and> fle (month_gap now q) (lit 20)"

text \<open>Nearer to thirty days, or as near and nearer to the target strike.\<close>

definition nearer :: "gotime \<Rightarrow> f64 \<Rightarrow> option_summary \<Rightarrow> option_summary \<Rightarrow> bool" where
  "nearer now target q p \<longleftrightarrow> flt (month_gap now q) (month_gap now p) \<or>
     feq (month_gap now q) (month_gap now p) \<and> flt (strike_gap target q) (strike_gap target p)"

definition chosen :: "gotime \<Rightarrow> f64 \<Rightarrow> bool \<Rightarrow> option_summary list \<Rightarrow> option_summary \<Rightarrow> bool" where
  "chosen now target put opts p \<longleftrightarrow> p \<in> set opts \<and> side_near now put p \<and> list_all (\<lambda>q. side_near now put q \<longrightarrow> \<not> nearer now target q p) opts"

lemma month_gap_not_NaN: "month_gap now q \<noteq> NaN"
  unfolding month_gap_def fabs_NaN_iff by (rule fsub_finite_not_NaN[OF days_to_not_NaN]) (simp add: lit_def f64_eval)

lemma feq_flt: "feq x y \<Longrightarrow> flt y z \<longleftrightarrow> flt x z" "feq x y \<Longrightarrow> flt z y \<longleftrightarrow> flt z x"
  by (cases x; cases y; cases z; auto)+

lemma feq_trans: "feq x y \<Longrightarrow> feq y z \<Longrightarrow> feq x z"
  by (cases x; cases y; cases z) auto

lemma nearer_trans: "nearer now target r q \<Longrightarrow> nearer now target q p \<Longrightarrow> nearer now target r p"
  unfolding nearer_def by (meson feq_flt feq_trans flt_trans)

lemma nearer_irrefl: "\<not> nearer now target p p"
  by (simp add: nearer_def)

lemma side_near_below: "side_near now put q \<Longrightarrow> flt (month_gap now q) MaxFloat64"
proof -
  have "lit 20 = Fin 20" by (simp add: lit_def f64_eval)
  moreover have "(20::rat) < (2 - 1 / 2 ^ 52) * 2 ^ 1023" by simp
  ultimately show "side_near now put q \<Longrightarrow> flt (month_gap now q) MaxFloat64"
    by (cases "month_gap now q") (auto simp: side_near_def MaxFloat64_def)
qed

lemma not_near: "su_put q = put \<Longrightarrow> flt (lit 20) (month_gap now q) \<longleftrightarrow> \<not> side_near now put q"
  using month_gap_not_NaN[of now q] by (auto simp: side_near_def fle_iff lit_def)

definition gaps_of :: "gotime \<Rightarrow> f64 \<Rightarrow> option_summary \<Rightarrow> f64 \<times> f64 \<times> f64" where
  "gaps_of now target p = (month_gap now p, strike_gap target p, su_iv p)"

lemma skew_step_gaps:
  "su_put q = put \<Longrightarrow> skew_step now target (gaps_of now target p) q =
     gaps_of now target (if side_near now put q \<and> nearer now target q p then q else p)"
  by (simp add: skew_step_def gaps_of_def Let_def not_near[unfolded month_gap_def] nearer_def month_gap_def strike_gap_def)

lemma nearest_option_chosen:
  "nearest_option now target put opts = (MaxFloat64, MaxFloat64, fzero) \<and> list_all (\<lambda>q. \<not> side_near now put q) opts \<or>
   (\<exists>p. chosen now target put opts p \<and> nearest_option now target put opts = gaps_of now target p)"
proof (induction opts rule: rev_induct)
  case (snoc q opts)
  have snoc_step: "nearest_option now target put (opts @ [q]) =
      (if su_put q = put then skew_step now target (nearest_option now target put opts) q else nearest_option now target put opts)"
    by (simp add: nearest_option_def)
  show ?case
  proof (cases "su_put q = put")
    case False
    then have "\<not> side_near now put q" by (simp add: side_near_def)
    then show ?thesis using snoc.IH False snoc_step by (auto simp: chosen_def)
  next
    case True
    from snoc.IH show ?thesis
    proof (elim disjE exE conjE)
      assume none: "nearest_option now target put opts = (MaxFloat64, MaxFloat64, fzero)" "list_all (\<lambda>q. \<not> side_near now put q) opts"
      show ?thesis
      proof (cases "side_near now put q")
        case near: True
        then have "skew_step now target (MaxFloat64, MaxFloat64, fzero) q = gaps_of now target q"
          using side_near_below[OF near] not_near[OF True] by (simp add: skew_step_def gaps_of_def Let_def month_gap_def strike_gap_def)
        moreover have "chosen now target put (opts @ [q]) q" using none(2) near nearer_irrefl by (auto simp: chosen_def list_all_iff)
        ultimately show ?thesis using snoc_step none(1) True by auto
      next
        case False
        then have "skew_step now target (MaxFloat64, MaxFloat64, fzero) q = (MaxFloat64, MaxFloat64, fzero)"
          using not_near[OF True] by (simp add: skew_step_def Let_def month_gap_def)
        then show ?thesis using snoc_step none True False by simp
      qed
    next
      fix p assume p: "chosen now target put opts p" "nearest_option now target put opts = gaps_of now target p"
      let ?c = "if side_near now put q \<and> nearer now target q p then q else p"
      have "chosen now target put (opts @ [q]) ?c"
        using p(1) nearer_irrefl nearer_trans by (auto simp: chosen_def list_all_iff)
      then show ?thesis using snoc_step p(2) True skew_step_gaps[OF True] by auto
    qed
  qed
qed (simp add: nearest_option_def)

lemma skew_of_chosen:
  assumes "opts \<noteq> []" "list_all (\<lambda>q. flt fzero (su_iv q)) opts" "flt fzero (su_underlying (hd opts))"
  shows "case ComputeIVSkew now opts of
      None \<Rightarrow> list_all (\<lambda>q. \<not> side_near now True q) opts \<or> list_all (\<lambda>q. \<not> side_near now False q) opts
    | Some x \<Rightarrow> \<exists>p c. chosen now (fmul (lit (90 / 100)) (su_underlying (hd opts))) True opts p \<and>
        chosen now (fmul (lit (110 / 100)) (su_underlying (hd opts))) False opts c \<and> x = fsub (su_iv p) (su_iv c)"
proof -
  obtain q0 rest where o: "opts = q0 # rest" using assms(1) by (cases opts) auto
  let ?u = "su_underlying (hd opts)" and ?tp = "fmul (lit (90 / 100)) (su_underlying (hd opts))" and ?tc = "fmul (lit (110 / 100)) (su_underlying (hd opts))"
  have u: "\<not> fle ?u fzero" using assms(3) by (simp add: fle_iff)
  have iv: "\<not> fle (su_iv p) fzero" if "chosen now t side opts p" for t side p
    using assms(2) that by (auto simp: chosen_def list_all_iff fle_iff)
  have sk: "ComputeIVSkew now opts = (let ivp = snd (snd (nearest_option now ?tp True opts)); ivc = snd (snd (nearest_option now ?tc False opts)) in
      if fle ivp fzero \<or> fle ivc fzero then None else Some (fsub ivp ivc))"
    using u by (simp add: ComputeIVSkew_def o Let_def)
  show ?thesis
  proof (cases "list_all (\<lambda>q. \<not> side_near now True q) opts \<or> list_all (\<lambda>q. \<not> side_near now False q) opts")
    case True
    then have "fle (snd (snd (nearest_option now ?tp True opts))) fzero \<or> fle (snd (snd (nearest_option now ?tc False opts))) fzero"
      using nearest_option_chosen[of now ?tp True opts] nearest_option_chosen[of now ?tc False opts]
      by (auto simp: chosen_def list_all_iff)
    then show ?thesis using sk True by (auto simp: Let_def)
  next
    case False
    then obtain p c where "chosen now ?tp True opts p" "nearest_option now ?tp True opts = gaps_of now ?tp p"
      "chosen now ?tc False opts c" "nearest_option now ?tc False opts = gaps_of now ?tc c"
      using nearest_option_chosen[of now ?tp True opts] nearest_option_chosen[of now ?tc False opts] by blast
    then show ?thesis using sk iv by (auto simp: gaps_of_def Let_def)
  qed
qed

section \<open>Names of options\<close>

text \<open>The names the venue gives: currency, day, strike and side.\<close>

definition date_code :: "nat \<Rightarrow> nat \<Rightarrow> nat \<Rightarrow> string" where
  "date_code y m d = dec d @ ToUpper (month_names ! (m - 1)) @ pad0 2 (dec (y - 2000))"

definition option_name :: "string \<Rightarrow> nat \<Rightarrow> nat \<Rightarrow> nat \<Rightarrow> nat \<Rightarrow> bool \<Rightarrow> string" where
  "option_name cur y m d k put = str_join ''-'' [cur, date_code y m d, dec k, if put then ''P'' else ''C'']"

lemma split_on_app: "c \<notin> set xs \<Longrightarrow> split_on c (xs @ c # ys) = xs # split_on c ys"
  by (induction xs) auto

lemma split_on_single: "c \<notin> set xs \<Longrightarrow> split_on c xs = [xs]"
  by (induction xs) auto

lemma upper_names: "map ToUpper month_names = [''JAN'', ''FEB'', ''MAR'', ''APR'', ''MAY'', ''JUN'', ''JUL'', ''AUG'', ''SEP'', ''OCT'', ''NOV'', ''DEC'']"
  by code_simp

lemma upper_month: "1 \<le> m \<Longrightarrow> m \<le> 12 \<Longrightarrow>
  (\<exists>a b c. ToUpper (month_names ! (m - 1)) = [a, b, c] \<and> undig a = None) \<and> month_of (ToUpper (month_names ! (m - 1))) = Some (int m) \<and>
  ToUpper (ToUpper (month_names ! (m - 1))) = ToUpper (month_names ! (m - 1)) \<and> CHR ''-'' \<notin> set (ToUpper (month_names ! (m - 1)))"
proof -
  let ?P = "\<lambda>(m, s). (case s of [a, b, c] \<Rightarrow> undig a = None | _ \<Rightarrow> False) \<and> month_of s = Some (int m) \<and> ToUpper s = s \<and> CHR ''-'' \<notin> set s"
  have "list_all ?P (zip [1..<13] [''JAN'', ''FEB'', ''MAR'', ''APR'', ''MAY'', ''JUN'', ''JUL'', ''AUG'', ''SEP'', ''OCT'', ''NOV'', ''DEC''])" by code_simp
  then have all: "list_all ?P (zip [1..<13] (map ToUpper month_names))" by (simp only: upper_names)
  assume m: "1 \<le> m" "m \<le> 12"
  have len: "length month_names = 12" by (simp add: month_names_def)
  have "zip [1..<13] (map ToUpper month_names) ! (m - 1) = (m, ToUpper (month_names ! (m - 1)))"
    using m by (simp add: len nth_zip nth_map del: zip_map2)
  moreover have "m - 1 < length (zip [1..<13] (map ToUpper month_names))" using m by (simp add: len)
  ultimately have "(m, ToUpper (month_names ! (m - 1))) \<in> set (zip [1..<13] (map ToUpper month_names))" by (metis nth_mem)
  from all[unfolded list_all_iff, THEN bspec, OF this] show ?thesis by (auto split: list.splits)
qed

lemma upper_digits: "list_all is_digit ds \<Longrightarrow> ToUpper ds = ds"
  unfolding ToUpper_def by (rule map_idI) (auto simp: list_all_iff char_upper_def dest!: bspec is_digit_cases)

lemma year_digits: "k < 69 \<Longrightarrow> year2 (pad0 2 (dec k)) = Some (2000 + int k) \<and> ToUpper (pad0 2 (dec k)) = pad0 2 (dec k) \<and>
  CHR ''-'' \<notin> set (pad0 2 (dec k))"
proof -
  have "list_all (\<lambda>k. year2 (pad0 2 (dec k)) = Some (2000 + int k)) [0..<69]" by code_simp
  moreover have ds: "list_all is_digit (pad0 2 (dec k))" 
  proof -
    have "is_digit (CHR ''0'')" by (simp add: is_digit_def undig_def)
    then show ?thesis using dec_digits[of k] by (auto simp: pad0_def list_all_iff)
  qed
  moreover have "CHR ''-'' \<notin> set (pad0 2 (dec k))" using ds not_digit(1) by (auto simp: list_all_iff)
  ultimately show "k < 69 \<Longrightarrow> ?thesis" using upper_digits[OF ds] by (simp add: list_all_iff)
qed

lemma dec_short: "n < 100 \<Longrightarrow> length (dec n) \<le> 2"
  by (subst dec.simps, subst dec.simps) auto

lemma day_prefix:
  assumes "list_all is_digit ds" "length ds \<le> 2" "undig c = None"
  shows "takeWhile (\<lambda>x. undig x \<noteq> None) (take 2 (ds @ c # r)) = ds"
proof -
  have all: "\<forall>x\<in>set ds. undig x \<noteq> None" using assms(1) by (simp add: list_all_iff is_digit_def)
  consider "length ds = 2" | "length ds < 2" using assms(2) by linarith
  then show ?thesis
  proof cases
    case 1
    then show ?thesis using all by simp
  next
    case 2
    then have "take 2 (ds @ c # r) = ds @ take (2 - length ds) (c # r)" by simp
    also have "\<dots> = ds @ c # take (1 - length ds) r" using 2 by (simp add: Suc_diff_Suc[symmetric] numeral_2_eq_2 Suc_diff_le)
    finally show ?thesis using all assms(3) by (simp add: takeWhile_append2)
  qed
qed

lemma parse_date_code:
  assumes "2000 \<le> y" "y < 2069" "1 \<le> m" "m \<le> 12" "1 \<le> d" "int d \<le> days_in (int m) (int y)"
  shows "parse_dMonyy (ToUpper (date_code y m d)) = Some (day_of_civil (int y) (int m) (int d) * day_ns)"
    and "CHR ''-'' \<notin> set (date_code y m d)"
proof -
  let ?mon = "ToUpper (month_names ! (m - 1))" and ?yy = "pad0 2 (dec (y - 2000))"
  obtain a b c where mon: "?mon = [a, b, c]" "undig a = None" "month_of ?mon = Some (int m)" "ToUpper ?mon = ?mon" "CHR ''-'' \<notin> set ?mon"
    using upper_month[OF assms(3,4)] by auto
  have yy: "year2 ?yy = Some (int y)" "ToUpper ?yy = ?yy" "CHR ''-'' \<notin> set ?yy" using year_digits[of "y - 2000"] assms(1,2) by auto
  have up: "ToUpper (date_code y m d) = dec d @ ?mon @ ?yy"
    using mon(4) yy(2) upper_digits[OF dec_digits[of d]] by (simp add: date_code_def ToUpper_def)
  have d31: "int d \<le> 31" using assms(6) by (auto simp: days_in_def split: if_splits)
  have dd: "takeWhile (\<lambda>x. undig x \<noteq> None) (take 2 (dec d @ a # b # c # ?yy)) = dec d"
    using d31 by (intro day_prefix dec_digits dec_short mon(2)) simp
  have "civil_time (int y) (int m) (int d) = Some (day_of_civil (int y) (int m) (int d) * day_ns)"
    using assms by (simp add: civil_time_def)
  then show "parse_dMonyy (ToUpper (date_code y m d)) = Some (day_of_civil (int y) (int m) (int d) * day_ns)"
    using dd yy(1) mon(3) unfolding up mon(1) by (simp add: parse_dMonyy_def Let_def)
  have "CHR ''-'' \<notin> set (dec d)" using dec_digits[of d] not_digit(1) by (auto simp: list_all_iff)
  then show "CHR ''-'' \<notin> set (date_code y m d)" using mon(5) yy(3) by (simp add: date_code_def)
qed

lemma float_token_dec: "float_token (skip_blanks (dec k)) = dec k"
proof -
  obtain c r where c: "dec k = c # r" by (cases "dec k") auto
  have ds: "list_all is_digit (c # r)" using dec_digits[of k] c by simp
  then have cd: "is_digit c" by simp
  have "c \<notin> set [CHR '' '', CHR 0x09, CHR 0x0D]" using cd by (auto dest!: is_digit_cases)
  then have sk: "skip_blanks (c # r) = c # r" by (simp add: skip_blanks_def)
  have sg: "c \<notin> set ''+-''" using cd not_digit(1,2) by auto
  have "ToLower (take 3 (c # r)) = take 3 (c # r)" using lower_digits[of "take 3 (c # r)"] ds by (auto simp: list_all_iff dest: in_set_takeD)
  moreover have "take 3 (c # r) \<noteq> ''nan'' \<and> take 3 (c # r) \<noteq> ''inf''" using cd by (auto dest!: is_digit_cases)
  moreover have "\<forall>x\<in>set (c # r). undig x \<noteq> None" using ds by (simp add: list_all_iff is_digit_def)
  then have "scan_digits (c # r) = (c # r, [])" by (simp add: scan_digits_def takeWhile_eq_all_conv dropWhile_eq_Nil_conv)
  moreover have "scan_digits [] = ([], [])" by (simp add: scan_digits_def)
  ultimately have "float_token (c # r) = c # r" using sg unfolding float_token_def by (auto simp: Let_def)
  then show ?thesis unfolding c sk .
qed

lemma sscan_strike:
  assumes "0 < k" "k < 2 ^ 53"
  shows "sscan_float (dec k) = Some (Fin (of_nat k))"
proof -
  have "rq (of_nat k :: rat) = of_nat k" using assms(2) by (rule rq_of_nat)
  moreover have "(of_nat k :: rat) < overflow"
  proof -
    have "(of_nat k :: rat) < of_nat (2 ^ 53)" using assms(2) by (simp only: of_nat_less_iff)
    also have "\<dots> < overflow" by (simp add: overflow_def)
    finally show ?thesis .
  qed
  ultimately have "signed_float False (of_nat k) = Fin (of_nat k)" using assms(1) by (simp add: signed_float_def rnd_def Let_def)
  then show ?thesis by (simp add: sscan_float_def float_token_dec ParseFloat_dec)
qed

lemma parse_option_name:
  assumes "CHR ''-'' \<notin> set cur" "2000 \<le> y" "y < 2069" "1 \<le> m" "m \<le> 12" "1 \<le> d" "int d \<le> days_in (int m) (int y)" "0 < k" "k < 2 ^ 53"
  shows "parseOptionName (option_name cur y m d k put) =
    Some (Fin (of_nat k), unix_milli (day_of_civil (int y) (int m) (int d) * day_ns), put)"
proof -
  have "CHR ''-'' \<notin> set (dec k)" using dec_digits[of k] not_digit(1) by (auto simp: list_all_iff)
  then have "split_on (CHR ''-'') (option_name cur y m d k put) = [cur, date_code y m d, dec k, if put then ''P'' else ''C'']"
    using assms(1) parse_date_code(2)[OF assms(2-7)] by (simp add: option_name_def split_on_app split_on_single)
  moreover have "ToUpper ''P'' = ''P''" "ToUpper ''C'' = ''C''" by code_simp+
  ultimately show ?thesis
    using parse_date_code(1)[OF assms(2-7)] sscan_strike[OF assms(8,9)] assms(8) by (auto simp: parseOptionName_def)
qed

end
