(* ===== verification/Replies.thy ===== *)
theory Replies
  imports Coinglass TextFacts
begin

text \<open>
  Replies of the Coinglass service, printed as JSON texts, and what its client makes of them: every row of the reply, in
  order, as the point the row stands for.
\<close>

section \<open>The envelope, printed\<close>

definition part :: "json \<Rightarrow> raw" where
  "part v = (json_text v, v)"

definition cg_reply :: "string \<Rightarrow> string \<Rightarrow> json \<Rightarrow> json" where
  "cg_reply code msg v = ObjJ [(''code'', part (StrJ code)), (''msg'', part (StrJ msg)), (''data'', part v)]"

lemma printable_reply: "printable (cg_reply code msg v) \<longleftrightarrow> printable v"
  by (simp add: cg_reply_def part_def)

lemma envelope_names: "ToLower ''code'' = ''code''" "ToLower ''data'' = ''data''" "ToLower ''msg'' = ''msg''"
  by code_simp+

lemma Unmarshal_text: "printable v \<Longrightarrow> Unmarshal d (json_text v) = (case d (part v) of None \<Rightarrow> Inl json_syntax | Some x \<Rightarrow> Inr x)"
  by (simp add: Unmarshal_def read_json_text part_def)

lemma read_envelope: "dec_struct v4Response (part (cg_reply code msg v)) = Some (code, Some (part v), msg)"
  by (simp add: dec_struct_def fields_of_def cg_reply_def part_def v4Response_def f_str_def envelope_names dec_string_def dec_raw_def)

lemma cg_fetch_reply:
  assumes "Get e c ctx path w = (Inr (json_text (cg_reply code msg v)), w')" "printable v"
  shows "cg_fetch e c ctx path w = (if code = ''0'' then Inr (Some (part v)) else
    Inl (Fresh ''coinglass API error code=%s msg=%s'' [AStr code, AStr msg]), w')"
  using assms by (simp add: cg_fetch_def bindE_def wrapE_def Unmarshal_text printable_reply read_envelope)

text \<open>The rows of a reply, whatever the endpoint.\<close>

definition rows_json :: "('r \<Rightarrow> json) \<Rightarrow> 'r list \<Rightarrow> json" where
  "rows_json f rows = ArrJ (map (\<lambda>r. part (f r)) rows)"

lemma printable_rows: "list_all (\<lambda>r. printable (f r)) rows \<Longrightarrow> printable (rows_json f rows)"
  by (simp add: rows_json_def part_def list_all_iff)

lemma cg_rows_reply:
  assumes "Get e c ctx path w = (Inr (json_text (cg_reply ''0'' msg (rows_json f rows))), w')"
    and "list_all (\<lambda>r. printable (f r) \<and> dec_struct row (part (f r)) = Some r) rows"
  shows "cg_rows e c ctx path fe de row mk w = (Inr (map mk rows), w')"
proof -
  have p: "printable (rows_json f rows)" using assms(2) by (intro printable_rows) (simp add: list_all_iff)
  have "decode_all (dec_struct row) (map (\<lambda>r. part (f r)) rows) = Some rows"
    using assms(2) by (simp add: decode_all_Some list_all_iff)
  then have "Unmarshal_raw (dec_slice (dec_struct row) []) (Some (part (rows_json f rows))) = Inr rows"
    by (simp add: Unmarshal_raw_def dec_slice_def part_def rows_json_def comp_def)
  then show ?thesis
    using cg_fetch_reply[OF assms(1) p] by (simp add: cg_rows_def cg_decoded_def bindE_def wrapE_def)
qed

section \<open>Open interest\<close>

definition oi_row_json :: "int \<times> string \<Rightarrow> json" where
  "oi_row_json r = ObjJ [(''time'', part (NumJ (itoa (fst r)))), (''close'', part (NumJ (snd r)))]"

lemma oi_names: "ToLower ''time'' = ''time''" "ToLower ''close'' = ''close''"
  by code_simp+

lemma read_oi_row:
  assumes "min_int64 \<le> fst r" "fst r \<le> max_int64" "number_literal (snd r)"
  shows "printable (oi_row_json r) \<and> dec_struct oiHistoryRow (part (oi_row_json r)) = Some r"
  using assms by (simp add: oi_row_json_def part_def number_literal_itoa dec_struct_def fields_of_def oiHistoryRow_def f_int_def f_num_def oi_names
      dec_int64_def dec_number_def ParseInt_itoa)

definition oi_point_of_row :: "'w net \<Rightarrow> string \<Rightarrow> string \<Rightarrow> int \<times> string \<Rightarrow> oi_history_point" where
  "oi_point_of_row e symbol exchange = (\<lambda>(t, cl). \<lparr>goi_date = UTCDay (UnixMilli t), goi_symbol = symbol, goi_exchange = exchange,
     goi_usd = fst (ParseFloat cl), goi_hash = nt_sha256 e (symbol @ '':'' @ exchange @ '':'' @ itoa t @ '':'' @ cl)\<rparr>)"

lemma oi_history_read:
  assumes "Get e c ctx (''/futures/open-interest/history?symbol='' @ symbol @ ''&exchange='' @ exchange @ ''&interval=1d&limit='' @ itoa limit) w =
      (Inr (json_text (cg_reply ''0'' msg (rows_json oi_row_json rows))), w')"
    and "list_all (\<lambda>r. min_int64 \<le> fst r \<and> fst r \<le> max_int64 \<and> number_literal (snd r)) rows"
  shows "cg_FetchOIHistory e c ctx symbol exchange limit w = (Inr (map (oi_point_of_row e symbol exchange) rows), w')"
proof -
  have "list_all (\<lambda>r. printable (oi_row_json r) \<and> dec_struct oiHistoryRow (part (oi_row_json r)) = Some r) rows"
    using assms(2) read_oi_row by (simp add: list_all_iff)
  from cg_rows_reply[OF assms(1) this] show ?thesis
    unfolding cg_FetchOIHistory_def oi_point_of_row_def day_of_ms_def num_float_def .
qed

end
