(* ===== verification/ExampleNet.thy ===== *)
theory ExampleNet
  imports Paging OptionChain Replies
begin

text \<open>
  Small networks for examples: a scripted service that answers each URL with a text, and one whose world is a clock and
  the time of the last request.
\<close>

definition scripted :: "(string \<Rightarrow> string) \<Rightarrow> unit net" where
  "scripted f = \<lparr>nt_bad_url = (\<lambda>_. None), nt_do = (\<lambda>rq w. (Reply 200 (f (hq_url rq)), w)), nt_now = (\<lambda>w. (0, w)),
     nt_sleep = (\<lambda>_ w. w), nt_sha256 = (\<lambda>s. s), nt_float_text = fmt_f 6, nt_keys = (\<lambda>_. [])\<rparr>"

definition unit_cell :: "unit cell" where
  "unit_cell = \<lparr>ce_get = (\<lambda>_. 0), ce_set = (\<lambda>_ w. w)\<rparr>"

lemma scripted_Get:
  assumes "0 < ctx" "hq_url (request_of c path) = u"
  shows "Get (scripted f) c ctx path () = (Inr (f u), ())"
proof -
  have "waitThrottle (scripted f) c ctx () = ()" by simp
  then show ?thesis using assms by (simp add: Get_def Let_def scripted_def)
qed

section \<open>Candles\<close>

definition two_candles :: "(int \<times> f64) list" where
  "two_candles = [(5, Fin 7), (9, Fin 8)]"

definition candles_url :: "int \<Rightarrow> string" where
  "candles_url cursor = bn_spot_url @ klines_path ''BTCUSDT'' ''1d'' 100 cursor"

definition candle_replies :: "string \<Rightarrow> string" where
  "candle_replies u = (if u = candles_url 6 then ''[[9,0,0,0,'' @ json_string ''8'' @ '']]''
     else if u = candles_url 10 then ''[]'' else ''[[5,0,0,0,'' @ json_string ''7'' @ '']]'')"

definition ex_binance :: "unit bn_client" where
  "ex_binance = bn_New unit_cell unit_cell [] 0"

lemma ex_binance_url: "hq_url (request_of (bn_spot ex_binance) (klines_path s i t cur)) = bn_spot_url @ klines_path s i t cur"
  by (simp add: request_of_def ex_binance_def bn_New_def New_def WithBaseURL_def WithTimeout_def WithThrottle_def has_prefix_def klines_path_def)
    (code_simp)

lemma ex_replies: "candle_replies (candles_url 0) = ''[[5,0,0,0,'' @ json_string ''7'' @ '']]''"
  "candle_replies (candles_url 6) = ''[[9,0,0,0,'' @ json_string ''8'' @ '']]''" "candle_replies (candles_url 10) = ''[]''"
  by code_simp+

lemma ex_serves: "serves_candles (scripted candle_replies) ex_binance ''BTCUSDT'' ''1d'' 100 1 two_candles 0"
proof -
  let ?row = "\<lambda>t x. map (\<lambda>v. (json_text v, v)) [NumJ t, NumJ ''0'', NumJ ''0'', NumJ ''0'', StrJ x]"
  have page: "klines_page ''[]'' = Inr []" "klines_page (''[[5,0,0,0,'' @ json_string ''7'' @ '']]'') = Inr [?row ''5'' ''7'']"
    "klines_page (''[[9,0,0,0,'' @ json_string ''8'' @ '']]'') = Inr [?row ''9'' ''8'']"
    by code_simp+
  have "dec 7 = ''7''" "dec 8 = ''8''" by code_simp+
  then have "fst (ParseFloat ''7'') = Fin 7" "fst (ParseFloat ''8'') = Fin 8"
    using ParseFloat_dec[of 7] ParseFloat_dec[of 8] by (simp_all add: signed_float_def f64_eval)
  moreover have "ParseInt ''5'' = (5, True)" "ParseInt ''9'' = (9, True)" by code_simp+
  ultimately have rows: "kline_of (?row ''5'' ''7'') = Some (5, Fin 7)" "kline_of (?row ''9'' ''8'') = Some (9, Fin 8)"
    by (simp_all add: kline_of_def open_ms_def or_zero_def dec_int64_def dec_string_def)
  have g: "Get (scripted candle_replies) (bn_spot ex_binance) 1 (klines_path ''BTCUSDT'' ''1d'' 100 cur) w = (Inr (candle_replies (candles_url cur)), ())" for cur w
    using scripted_Get[of 1 "bn_spot ex_binance" _ "candles_url cur" candle_replies] ex_binance_url by (simp add: candles_url_def)
  show ?thesis unfolding serves_candles_def answers_candles_def g two_candles_def[symmetric]
    using page rows by (simp add: two_candles_def ex_replies candles_from_def)
qed

section \<open>OKX funding rates\<close>

definition okx_row_json :: "okx_record \<Rightarrow> json" where
  "okx_row_json p = ObjJ [(''instId'', part (StrJ (fst p))), (''fundingRate'', part (StrJ (fst (snd p)))), (''fundingTime'', part (StrJ (snd (snd p))))]"

definition okx_reply :: "okx_record list \<Rightarrow> json" where
  "okx_reply rows = ObjJ [(''code'', part (StrJ ''0'')), (''data'', part (rows_json okx_row_json rows))]"

lemma okx_names: "ToLower ''instId'' = ''instid''" "ToLower ''fundingRate'' = ''fundingrate''" "ToLower ''fundingTime'' = ''fundingtime''"
  by code_simp+

lemma okx_reply_read: "Unmarshal (dec_struct fundingRateResponse) (json_text (okx_reply rows)) = Inr (''0'', rows)"
proof -
  have row: "dec_struct okx_funding_row (part (okx_row_json p)) = Some p" for p
    by (simp add: dec_struct_def fields_of_def part_def okx_row_json_def okx_funding_row_def f_str_def dec_string_def okx_names)
  have pr: "printable (okx_row_json p)" for p by (simp add: okx_row_json_def part_def)
  have "printable (okx_reply rows)" using printable_rows[of okx_row_json rows] pr by (simp add: okx_reply_def part_def list_all_iff)
  moreover
  have "decode_all (dec_struct okx_funding_row) (map (\<lambda>r. part (okx_row_json r)) rows) = Some rows"
    by (simp add: decode_all_Some row)
  then have "dec_struct fundingRateResponse (part (okx_reply rows)) = Some (''0'', rows)"
    by (simp add: dec_struct_def[of fundingRateResponse] fields_of_def okx_reply_def fundingRateResponse_def f_str_def envelope_names part_def
        dec_string_def dec_slice_def rows_json_def comp_def)
  ultimately show ?thesis by (simp only: Unmarshal_text option.case)
qed

definition three_rates :: "okx_record list" where
  "three_rates = [(''BTC-USDT-SWAP'', ''3'', ''30''), (''BTC-USDT-SWAP'', ''2'', ''20''), (''BTC-USDT-SWAP'', ''1'', ''10'')]"

definition okx_url_of :: "string \<Rightarrow> string" where
  "okx_url_of cur = okx_url @ okx_funding_path ''BTC-USDT-SWAP'' cur"

definition rate_replies :: "string \<Rightarrow> string" where
  "rate_replies u = json_text (okx_reply (okx_answer three_rates
     (if u = okx_url_of ''10'' then ''10'' else if u = okx_url_of ''20'' then ''20'' else if u = okx_url_of ''30'' then ''30'' else [])))"

definition ex_okx :: "unit http_client" where
  "ex_okx = okx_New unit_cell [] 0"

lemma ex_okx_url: "hq_url (request_of ex_okx (okx_funding_path inst cur)) = okx_url @ okx_funding_path inst cur"
  by (simp add: request_of_def ex_okx_def okx_New_def New_def WithBaseURL_def WithTimeout_def WithThrottle_def has_prefix_def okx_funding_path_def)
    (code_simp)

lemma ex_okx_serves: "okx_serves (scripted rate_replies) ex_okx ''BTC-USDT-SWAP'' three_rates"
proof -
  have "Get (scripted rate_replies) ex_okx 1 (okx_funding_path ''BTC-USDT-SWAP'' cur) w = (Inr (rate_replies (okx_url_of cur)), ())" for cur w
    using scripted_Get[of 1 ex_okx _ "okx_url_of cur" rate_replies] ex_okx_url by (simp add: okx_url_of_def)
  moreover have "Unmarshal (dec_struct fundingRateResponse) (rate_replies (okx_url_of cur)) = Inr (''0'', okx_answer three_rates cur)"
    if "cur \<in> set [[], ''10'', ''20'', ''30'']" for cur
    using that unfolding rate_replies_def okx_reply_read by (auto simp: okx_url_of_def okx_funding_path_def)
  ultimately show ?thesis by (simp add: okx_serves_def three_rates_def)
qed

lemma ex_stamps: "ParseInt ''10'' = (10, True)" "ParseInt ''20'' = (20, True)" "ParseInt ''30'' = (30, True)"
  by code_simp+

lemma ex_rates: "ParseFloat ''1'' = (Fin 1, True)" "ParseFloat ''2'' = (Fin 2, True)" "ParseFloat ''3'' = (Fin 3, True)" "ParseFloat ''7'' = (Fin 7, True)"
proof -
  have "dec 1 = ''1''" "dec 2 = ''2''" "dec 3 = ''3''" "dec 7 = ''7''" by code_simp+
  then show "ParseFloat ''1'' = (Fin 1, True)" "ParseFloat ''2'' = (Fin 2, True)" "ParseFloat ''3'' = (Fin 3, True)" "ParseFloat ''7'' = (Fin 7, True)"
    using ParseFloat_dec[of 1] ParseFloat_dec[of 2] ParseFloat_dec[of 3] ParseFloat_dec[of 7] by (simp_all add: signed_float_def f64_eval)
qed

lemma ex_okx_sound: "okx_sound three_rates"
  by (simp add: okx_sound_def three_rates_def okx_ms_def ex_stamps ex_rates)

lemma ex_okx_collected: "map okx_view (okx_collected 5 three_rates) =
  [(UnixMilli 30, Fin 3), (UnixMilli 20, Fin 2), (UnixMilli 10, Fin 1), (UnixMilli 30, Fin 3), (UnixMilli 20, Fin 2), (UnixMilli 30, Fin 3)]"
  by (simp add: okx_collected_def three_rates_def okx_ms_def okx_view_def ex_stamps ex_rates shrinking_pages_simps numeral_3_eq_3 numeral_2_eq_2)

section \<open>Bybit funding rates\<close>

definition one_event :: "(string \<times> string \<times> string) list" where
  "one_event = [(''BTCUSDT'', ''1'', ''5'')]"

definition event_text :: string where
  "event_text = json_object [(''retCode'', ''0''), (''retMsg'', json_string ''OK''), (''result'',
     json_object [(''list'', ''['' @ json_object [(''symbol'', json_string ''BTCUSDT''), (''fundingRate'', json_string ''1''),
       (''fundingRateTimestamp'', json_string ''5'')] @ '']''), (''nextPageCursor'', json_string [])])]"

definition ex_bybit :: "unit http_client" where
  "ex_bybit = bybit_New unit_cell [] 0"

lemma ex_bybit_answers: "answers_window (scripted (\<lambda>_. event_text)) ex_bybit ''BTCUSDT'' one_event 0 (UnixMilli 10)"
proof -
  have g: "Get (scripted (\<lambda>_. event_text)) ex_bybit 1 path w = (Inr event_text, ())" for path w
    using scripted_Get[of 1 ex_bybit path _ "\<lambda>_. event_text"] by simp
  have "case Unmarshal (dec_struct v5Response) event_text of Inl _ \<Rightarrow> False | Inr (c, m, r) \<Rightarrow> c = 0 \<and>
      (case Unmarshal_raw (dec_struct listWrapper) r of Inl _ \<Rightarrow> False | Inr (l, n) \<Rightarrow>
         Unmarshal_raw (dec_slice (dec_struct bybit_funding_item) []) l = Inr [(''BTCUSDT'', ''1'', ''5'')])"
    by code_simp
  then obtain m r where 1: "Unmarshal (dec_struct v5Response) event_text = Inr (0, m, r)"
    "case Unmarshal_raw (dec_struct listWrapper) r of Inl _ \<Rightarrow> False | Inr (l, n) \<Rightarrow>
       Unmarshal_raw (dec_slice (dec_struct bybit_funding_item) []) l = Inr [(''BTCUSDT'', ''1'', ''5'')]"
    by (cases "Unmarshal (dec_struct v5Response) event_text") (auto split: prod.split_asm)
  from 1(2) obtain l n where u: "Unmarshal_raw (dec_struct listWrapper) r = Inr (l, n)"
    "Unmarshal_raw (dec_slice (dec_struct bybit_funding_item) []) l = Inr [(''BTCUSDT'', ''1'', ''5'')]"
    by (cases "Unmarshal_raw (dec_struct listWrapper) r") (auto split: prod.split_asm)
  have "fetchList (scripted (\<lambda>_. event_text)) ex_bybit 1 path w = (Inr (l, n), ())" for path w
    by (simp only: fetchList_def bindE_def wrapE_def g) (simp add: 1(1) u(1) wrapE_def)
  moreover have "window_events one_event 0 (UnixMilli 10) = [(''BTCUSDT'', ''1'', ''5'')]" by code_simp
  ultimately show ?thesis unfolding answers_window_def using u(2) by auto
qed

lemma ex_bybit_sound: "sound_events one_event"
proof -
  have "snd (ParseInt ''5'')" by code_simp
  then show ?thesis using ex_rates by (simp add: sound_events_def one_event_def)
qed

section \<open>OKX open interest\<close>

definition stale_page :: string where
  "stale_page = json_object [(''code'', json_string ''0''), (''data'', ''['' @ json_strings [''5'', ''0'', ''7''] @ '']'')]"

lemma stale_page_serves: "okx_oi_serves (scripted (\<lambda>_. stale_page)) ex_okx ''BTC'' {5}"
proof -
  have g: "Get (scripted (\<lambda>_. stale_page)) ex_okx 1 path w = (Inr stale_page, ())" for path w
    using scripted_Get[of 1 ex_okx path _ "\<lambda>_. stale_page"] by simp
  have "Unmarshal (dec_struct oiResponse) stale_page = Inr (''0'', [[''5'', ''0'', ''7'']])" by code_simp
  moreover have "ParseInt ''5'' = (5, True)" by code_simp
  ultimately show ?thesis using ex_rates unfolding okx_oi_serves_def g by (simp add: okx_oi_row_ok_def)
qed

section \<open>A clock\<close>

text \<open>The world is the time and the time of the last request; a request takes ten nanoseconds.\<close>

definition ticking :: "(gotime \<times> gotime) net" where
  "ticking = \<lparr>nt_bad_url = (\<lambda>_. None), nt_do = (\<lambda>rq w. (Reply 200 [], (fst w + 10, snd w))), nt_now = (\<lambda>w. (fst w, w)),
     nt_sleep = (\<lambda>d w. (fst w + max 0 d, snd w)), nt_sha256 = (\<lambda>s. s), nt_float_text = fmt_f 6, nt_keys = (\<lambda>_. [])\<rparr>"

definition ticking_cell :: "(gotime \<times> gotime) cell" where
  "ticking_cell = \<lparr>ce_get = snd, ce_set = (\<lambda>t w. (fst w, t))\<rparr>"

lemma ticking_steady: "steady ticking ticking_cell fst"
  by (auto simp: steady_def ticking_def ticking_cell_def)

section \<open>Options\<close>

text \<open>A put and a call at thirty days, and a put at thirty-one days whose strike is on target.\<close>

definition ex_option :: "bool \<Rightarrow> rat \<Rightarrow> int \<Rightarrow> rat \<Rightarrow> option_summary" where
  "ex_option put k days v = \<lparr>su_name = [], su_iv = Fin v, su_underlying = Fin 100, su_strike = Fin k,
     su_expiry = unix_milli (days * day_ns), su_put = put, su_oi = fzero\<rparr>"

definition ex_chain :: "option_summary list" where
  "ex_chain = [ex_option True 90 31 80, ex_option True 95 30 60, ex_option False 110 30 50]"

lemma ex_chain_skew: "ComputeIVSkew 0 ex_chain = Some (Fin 10)"
  by (simp add: ex_chain_def ex_option_def ComputeIVSkew_def nearest_option_def skew_step_def days_to_def time_sub_def UnixMilli_def unix_milli_def
      millisecond_ns_def day_ns_def dur_hours_def quot_go_def rem_go_def hour_ns_def f_of_int_def MaxFloat64_def Let_def lit_def f64_eval)

end
