(* ===== verification/Programs.thy ===== *)
theory Programs
  imports Orchestrator GoText PgGateway
begin

text \<open>
  The programs of \<open>cmd\<close> that run one domain, the regime engine or the gateway: their YAML structures, the services they
  build from them, and \<open>run\<close>.  The clients of the data services, the decoding of YAML and the host are parameters, as
  for the orchestrator; so are the connection to the database and its cast of text to JSONB (record \<open>prog_env\<close>).
\<close>

section \<open>Durations\<close>

text \<open>
  \<open>time.ParseDuration\<close>: a sign and terms of a decimal number and a unit, in nanoseconds.  \<open>lead_int\<close> reads digits up to
  \<open>2 ^ 63\<close>; \<open>lead_frac\<close> ignores the digits of a fraction that no longer fit.
\<close>

fun lead_int :: "nat \<Rightarrow> string \<Rightarrow> (nat \<times> string) option" where
  "lead_int x [] = Some (x, [])"
| "lead_int x (c # s) = (case undig c of None \<Rightarrow> Some (x, c # s)
     | Some d \<Rightarrow> if 2 ^ 63 div 10 < x \<or> 2 ^ 63 < 10 * x + d then None else lead_int (10 * x + d) s)"

fun lead_frac :: "bool \<Rightarrow> nat \<Rightarrow> f64 \<Rightarrow> string \<Rightarrow> nat \<times> f64 \<times> string" where
  "lead_frac full x scale [] = (x, scale, [])"
| "lead_frac full x scale (c # s) = (case undig c of None \<Rightarrow> (x, scale, c # s)
     | Some d \<Rightarrow> if full \<or> (2 ^ 63 - 1) div 10 < x \<or> 2 ^ 63 < 10 * x + d then lead_frac True x scale s
         else lead_frac False (10 * x + d) (fmul scale (lit 10)) s)"

definition unit_ns :: "string \<Rightarrow> nat option" where
  "unit_ns u = map_of [(''ns'', 1), (''us'', 10 ^ 3), ([CHR 0xC2, CHR 0xB5, CHR ''s''], 10 ^ 3), ([CHR 0xCE, CHR 0xBC, CHR ''s''], 10 ^ 3),
     (''ms'', 10 ^ 6), (''s'', 10 ^ 9), (''m'', 60 * 10 ^ 9), (''h'', 3600 * 10 ^ 9)] u"

definition unit_char :: "char \<Rightarrow> bool" where
  "unit_char c \<longleftrightarrow> c \<noteq> CHR ''.'' \<and> undig c = None"

text \<open>One term: the whole part, the fraction, the unit.\<close>

definition dur_fraction :: "string \<Rightarrow> nat \<times> f64 \<times> string" where
  "dur_fraction s = (case s of c # t \<Rightarrow> if c = CHR ''.'' then lead_frac False 0 (lit 1) t else (0, lit 1, s) | [] \<Rightarrow> (0, lit 1, s))"

definition dur_number :: "string \<Rightarrow> (nat \<times> nat \<times> f64 \<times> string) option" where
  "dur_number s = (case lead_int 0 s of None \<Rightarrow> None | Some (v, s1) \<Rightarrow>
     (case dur_fraction s1 of (f, scale, s2) \<Rightarrow>
        if length s1 = length s \<and> length s2 + 1 \<ge> length s1 then None else Some (v, f, scale, s2)))"

definition dur_term :: "string \<Rightarrow> string \<Rightarrow> err + nat \<times> string" where
  "dur_term orig s = (let bad = Inl (Fresh ''time: invalid duration %q'' [AStr orig]) in
     (case dur_number s of None \<Rightarrow> bad
      | Some (v, f, scale, s2) \<Rightarrow>
          let u = takeWhile unit_char s2 in
          if u = [] then Inl (Fresh ''time: missing unit in duration %q'' [AStr orig])
          else (case unit_ns u of
              None \<Rightarrow> Inl (Fresh ''time: unknown unit %q in duration %q'' [AStr u, AStr orig])
            | Some n \<Rightarrow>
                let w = v * n + (if 0 < f then nat (int_of_f (fmul (f_of_int (int f)) (fdiv (f_of_int (int n)) scale))) else 0) in
                if 2 ^ 63 div n < v \<or> 2 ^ 63 < w then bad else Inr (w, drop (length u) s2))))"

lemma lead_int_shorter: "lead_int x s = Some (v, r) \<Longrightarrow> length r \<le> length s"
  by (induction x s rule: lead_int.induct) (auto split: option.splits if_splits)

lemma lead_frac_shorter: "lead_frac b x k s = (f, k', r) \<Longrightarrow> length r \<le> length s"
  by (induction b x k s rule: lead_frac.induct) (force split: option.splits if_splits)+

lemma dur_number_shorter: "dur_number s = Some (v, f, k, r) \<Longrightarrow> length r \<le> length s"
  using lead_frac_shorter
  by (fastforce simp: dur_number_def dur_fraction_def split: option.splits prod.splits if_splits list.splits dest: lead_int_shorter)

lemma dur_term_shorter: "dur_term orig s = Inr (w, r) \<Longrightarrow> length r < length s"
proof -
  assume "dur_term orig s = Inr (w, r)"
  then obtain v f k s2 where n: "dur_number s = Some (v, f, k, s2)" and u: "takeWhile unit_char s2 \<noteq> []"
      "r = drop (length (takeWhile unit_char s2)) s2"
    by (auto simp: dur_term_def Let_def split: option.splits if_splits)
  have "s2 \<noteq> []" using u(1) by auto
  then have "length r < length s2" using u by (cases "takeWhile unit_char s2") auto
  then show ?thesis using dur_number_shorter[OF n] by simp
qed

function dur_sum :: "string \<Rightarrow> nat \<Rightarrow> string \<Rightarrow> err + nat" where
  "dur_sum orig d s = (if s = [] then Inr d else
     (case dur_term orig s of Inl e \<Rightarrow> Inl e
      | Inr (w, r) \<Rightarrow> if 2 ^ 63 < d + w then Inl (Fresh ''time: invalid duration %q'' [AStr orig]) else dur_sum orig (d + w) r))"
  by pat_completeness auto
termination by (relation "measure (\<lambda>(_, _, s). length s)") (auto dest: dur_term_shorter)

declare dur_sum.simps [simp del]

definition ParseDuration :: "string \<Rightarrow> err + int" where
  "ParseDuration s = (case sign_of s of (neg, r) \<Rightarrow>
     if r = ''0'' then Inr 0
     else if r = [] then Inl (Fresh ''time: invalid duration %q'' [AStr s])
     else (case dur_sum s 0 r of Inl e \<Rightarrow> Inl e
       | Inr d \<Rightarrow> if neg then Inr (- int d)
           else if 2 ^ 63 - 1 < d then Inl (Fresh ''time: invalid duration %q'' [AStr s]) else Inr (int d)))"

section \<open>Flags and modes\<close>

record 'w prog_env =
  pz_orch :: "'w orch_env"
  pz_open :: "string \<Rightarrow> ('w, unit) io"
  pz_jsonb :: "string \<Rightarrow> (string \<rightharpoonup> anyval) option"

record prog_args =
  pa_config :: string
  pa_daemon :: bool
  pa_value_date :: string
  pa_from :: string
  pa_to :: string

definition parse_flag :: "string \<Rightarrow> string \<Rightarrow> ('w, gotime) io" where
  "parse_flag msg s = (case parse_day s of None \<Rightarrow> throw (Wrap msg [] (time_err s)) | Some t \<Rightarrow> ret t)"

definition range_of_flags :: "string \<Rightarrow> prog_args \<Rightarrow> (gotime \<Rightarrow> gotime \<Rightarrow> ('w, unit) io) \<Rightarrow> ('w, unit) io" where
  "range_of_flags missing g many =
     (if pa_to g = [] then throw (Fresh missing [])
      else bindE (parse_flag ''parse -from'' (pa_from g)) (\<lambda>f. bindE (parse_flag ''parse -to'' (pa_to g)) (\<lambda>t. many f t)))"

text \<open>The ticker of a daemon panics on an interval that is not positive; an error of a tick is logged.\<close>

definition ticker_panic :: err where
  "ticker_panic = Fresh ''panic: non-positive interval for NewTicker'' []"

definition logged :: "('w, unit) io \<Rightarrow> ('w, unit) io" where
  "logged m = bindE (attempt m) (\<lambda>_. ret ())"

definition daemon_ticks :: "string \<Rightarrow> nat \<Rightarrow> (gotime \<Rightarrow> ('a world_scheme, unit) io) \<Rightarrow> gotime \<Rightarrow> ('a world_scheme, unit) io" where
  "daemon_ticks every firings once vd = bindE (wrapE ''parse tick_every'' [] (liftE (ParseDuration every))) (\<lambda>tick.
     seqE (logged (once vd))
      (if tick \<le> 0 then throw ticker_panic
       else forE (\<lambda>_. bindE (resolveValueDate []) (\<lambda>d. logged (once d))) (replicate firings ())))"

text \<open>\<open>run\<close> of the regime engine and of the liquidity service, once the service stands.\<close>

definition in_mode :: "prog_args \<Rightarrow> string \<Rightarrow> nat \<Rightarrow> (gotime \<Rightarrow> ('a world_scheme, unit) io) \<Rightarrow>
    (gotime \<Rightarrow> gotime \<Rightarrow> ('a world_scheme, unit) io) \<Rightarrow> ('a world_scheme, unit) io" where
  "in_mode g every firings once many =
     (if pa_from g \<noteq> [] then range_of_flags ''-to required when -from is set'' g many
      else bindE (resolveValueDate (pa_value_date g)) (\<lambda>vd.
        if pa_daemon g then daemon_ticks every firings once vd else once vd))"

text \<open>
  The other services have no daemon, read the clock in any case, and drop the error of a bad \<open>-value-date\<close>, which
  leaves the zero time.
\<close>

definition lax_value_date :: "string \<Rightarrow> ('a world_scheme, gotime) io" where
  "lax_value_date override = bindE clock_Now (\<lambda>now. ret (if override = [] then UTCDay now
     else (case parse_day override of None \<Rightarrow> zero_time | Some t \<Rightarrow> t)))"

definition in_lax_mode :: "prog_args \<Rightarrow> (gotime \<Rightarrow> ('a world_scheme, unit) io) \<Rightarrow>
    (gotime \<Rightarrow> gotime \<Rightarrow> ('a world_scheme, unit) io) \<Rightarrow> ('a world_scheme, unit) io" where
  "in_lax_mode g once many =
     (if pa_from g \<noteq> [] then range_of_flags ''-to required with -from'' g many
      else bindE (lax_value_date (pa_value_date g)) once)"

text \<open>They also put their configuration down without a transaction and without looking at the error; the JSON text is
  made with \<open>Sprintf\<close>, which escapes nothing.\<close>

definition bad_jsonb :: err where
  "bad_jsonb = Fresh ''invalid input syntax for type json'' []"

definition config_json :: "string \<Rightarrow> string \<Rightarrow> string" where
  "config_json scope model = ''{\"domain\":\"'' @ scope @ ''\",\"model_version\":\"'' @ model @ ''\"}''"

definition note_config :: "'a world_scheme prog_env \<Rightarrow> 'c loaded \<Rightarrow> string \<Rightarrow> string \<Rightarrow> ('a world_scheme, unit) io" where
  "note_config z ld scope model = logged (db_write (\<lambda>w. case pz_jsonb z (config_json scope model) of
       None \<Rightarrow> Inl bad_jsonb
     | Some p \<Rightarrow> Inr (if \<exists>x\<in>set (w_configs w). cf_version x = ld_version ld then w
         else w\<lparr>w_configs := w_configs w @ [\<lparr>cf_version = ld_version ld, cf_scope = scope, cf_model_version = model,
           cf_body = ld_raw ld, cf_parsed = p\<rparr>]\<rparr>)))"

definition loading :: "'w prog_env \<Rightarrow> (string \<Rightarrow> err + 'c) \<Rightarrow> prog_args \<Rightarrow> ('c \<Rightarrow> database_config) \<Rightarrow> ('c loaded \<Rightarrow> ('w, unit) io) \<Rightarrow> ('w, unit) io" where
  "loading z decode g db k = bindE (liftE (config_Load (oz_host (pz_orch z)) decode (pa_config g))) (\<lambda>ld.
     seqE (wrapE ''open db'' [] (pz_open z (db_url (db (ld_parsed ld))))) (k ld))"

definition seconds :: "int \<Rightarrow> int" where
  "seconds n = n * second_ns"

section \<open>The regime engine\<close>

definition assetsFromConfig :: "regime_yaml \<Rightarrow> asset list" where
  "assetsFromConfig cfg = ry_assets cfg"

definition buildEngineConfig :: "regime_yaml \<Rightarrow> string \<Rightarrow> regime_config" where
  "buildEngineConfig cfg ver =
     (let d = DefaultConfig; t = ry_transition cfg; w = ay_weights (ry_aggregation cfg) in
      d\<lparr>rc_model_version := ry_model cfg, rc_config_version := ver, rc_code_sha := GitSHA,
        rc_weights := (if w = Map.empty then rc_weights d else Some w),
        rc_sigmoid_k := if_positive (py_slope (ry_probability cfg)) (rc_sigmoid_k d),
        rc_roc_window := if_positive_int (ty_roc_window t) (rc_roc_window d),
        rc_roc_weight := if_positive (ty_roc_weight t) (rc_roc_weight d),
        rc_div_weight := if_positive (ty_div_weight t) (rc_div_weight d),
        rc_baseline := if_positive (ty_baseline t) (rc_baseline d),
        rc_min_coverage := if_positive (gy_min (ry_coverage cfg)) (rc_min_coverage d),
        rc_span := sy_span (ry_smoothing cfg)\<rparr>)"

definition engine_registerConfig :: "regime_yaml loaded \<Rightarrow> ('a world_scheme, unit) io" where
  "engine_registerConfig ld = (let cfg = ld_parsed ld in
     InTx (UpsertModelConfig \<lparr>cf_version = ld_version ld, cf_scope = ''engine'', cf_model_version = ry_model cfg, cf_body = ld_raw ld,
       cf_parsed = map_of [(''scope'', AStr ''engine''), (''model_version'', AStr (ry_model cfg)),
         (''assets'', AList (map AStr (ry_assets cfg)))]\<rparr>))"

definition regime_engine_service :: "regime_yaml loaded \<Rightarrow> 'a world_scheme regime_service" where
  "regime_engine_service ld = pg_regime_service (buildEngineConfig (ld_parsed ld) (ld_version ld)) (assetsFromConfig (ld_parsed ld))"

definition regime_engine_run :: "'a world_scheme prog_env \<Rightarrow> (string \<Rightarrow> err + regime_yaml) \<Rightarrow> nat \<Rightarrow> prog_args \<Rightarrow> ('a world_scheme, unit) io" where
  "regime_engine_run z decode firings g = loading z decode g ry_database (\<lambda>ld.
     seqE (wrapE ''register config'' [] (engine_registerConfig ld))
       (let M = oz_libm (pz_orch z); ord = oz_order (pz_orch z); svc = regime_engine_service ld in
        in_mode g (sd_tick_every (ry_schedule (ld_parsed ld))) firings (RunOnce M ord svc) (RunBackfill M ord svc)))"

section \<open>The liquidity service\<close>

text \<open>The version of the first feature of that name; none has the empty version.\<close>

definition findVersion :: "liquidity_yaml \<Rightarrow> string \<Rightarrow> string" where
  "findVersion cfg name = (case find (\<lambda>f. fc_name f = name) (ly_features cfg) of None \<Rightarrow> [] | Some f \<Rightarrow> fc_version f)"

definition scoringConfigFromYAML :: "liquidity_yaml \<Rightarrow> string \<Rightarrow> string \<Rightarrow> liq_config" where
  "scoringConfigFromYAML cfg ver sha =
     \<lparr>lc_model_version = ly_model cfg, lc_config_version = ver, lc_code_sha = sha,
      lc_supply = findVersion cfg ''stablecoin_supply_total'', lc_growth = findVersion cfg ''stablecoin_growth_30d'',
      lc_zscore = findVersion cfg ''stablecoin_growth_zscore_90d'', lc_netflow7d = findVersion cfg ''exchange_netflow_7d'',
      lc_netflow_z = findVersion cfg ''exchange_netflow_zscore_180d'', lc_tvl = findVersion cfg ''defi_tvl_usd'',
      lc_tvl_growth = findVersion cfg ''defi_tvl_growth_30d'', lc_tvl_z = findVersion cfg ''defi_tvl_growth_zscore_180d'',
      lc_supply_major = findVersion cfg ''stablecoin_supply_usdt_usdc_dai'', lc_ssr = findVersion cfg ''ssr'',
      lc_ssr_pct = findVersion cfg ''ssr_percentile_rank_365d'',
      lc_w_stable = fzero, lc_w_netflow = fzero, lc_w_defi = fzero, lc_scale = fzero\<rparr>"

definition liquidity_registerConfig :: "liquidity_yaml loaded \<Rightarrow> ('a world_scheme, unit) io" where
  "liquidity_registerConfig ld = (let cfg = ld_parsed ld in
     InTx (UpsertModelConfig \<lparr>cf_version = ld_version ld, cf_scope = ly_domain cfg, cf_model_version = ly_model cfg, cf_body = ld_raw ld,
       cf_parsed = map_of [(''domain'', AStr (ly_domain cfg)), (''model_version'', AStr (ly_model cfg)),
         (''assets'', AList (map AStr (ly_assets cfg)))]\<rparr>))"

definition liquidity_program_service :: "'a world_scheme prog_env \<Rightarrow> liquidity_yaml loaded \<Rightarrow> 'a world_scheme liq_service" where
  "liquidity_program_service z ld =
     (let cfg = ld_parsed ld; p = ly_providers cfg; c = oz_clients (pz_orch z) in
      pg_liq_service (Some (ct_stable c (ll_url (pc_defillama p)) (seconds (ll_timeout (pc_defillama p)))))
        (Some (ct_tvl c (ll_url (pc_defillama_tvl p)) (seconds (ll_timeout (pc_defillama_tvl p)))))
        (Some (ct_netflow c (ma_url (pc_coinmetrics p)) (seconds (ma_timeout (pc_coinmetrics p)))))
        (Some (ct_mcap c (seconds 60))) (scoringConfigFromYAML cfg (ld_version ld) GitSHA)
        (if ly_assets cfg = [] then AssetsTradeable else ly_assets cfg))"

definition liquidity_run :: "'a world_scheme prog_env \<Rightarrow> (string \<Rightarrow> err + liquidity_yaml) \<Rightarrow> nat \<Rightarrow> prog_args \<Rightarrow> ('a world_scheme, unit) io" where
  "liquidity_run z decode firings g = loading z decode g ly_database (\<lambda>ld.
     seqE (wrapE ''register config'' [] (liquidity_registerConfig ld))
       (let M = oz_libm (pz_orch z); svc = liquidity_program_service z ld in
        in_mode g (sd_tick_every (ly_schedule (ld_parsed ld))) firings (liq_RunOnce M svc) (liq_RunBackfill M svc)))"

section \<open>The leverage service\<close>

record api_yaml =
  aq_url :: string
  aq_timeout :: int

record key_yaml =
  kq_key :: string
  kq_timeout :: int

record versions_yaml =
  vq_intermediate :: string
  vq_final :: string

record leverage_yaml =
  lq_domain :: string
  lq_model :: string
  lq_assets :: "string list"
  lq_binance :: api_yaml
  lq_bybit :: api_yaml
  lq_okx :: api_yaml
  lq_deribit :: api_yaml
  lq_coinglass :: key_yaml
  lq_coinglass_url :: string
  lq_features :: versions_yaml
  lq_database :: database_config
  lq_schedule :: schedule_config

definition key_timeout :: "key_yaml \<Rightarrow> int" where
  "key_timeout k = or_default_int (seconds (kq_timeout k)) (seconds 30)"

definition leverage_program_providers :: "'w prog_env \<Rightarrow> leverage_yaml \<Rightarrow> 'w lev_providers" where
  "leverage_program_providers z cfg =
     (let c = oz_clients (pz_orch z); key = kq_key (lq_coinglass cfg); t = key_timeout (lq_coinglass cfg);
          venues = [(''binance'', lq_binance cfg), (''bybit'', lq_bybit cfg), (''okx'', lq_okx cfg)] in
      \<lparr>vp_oi = map (\<lambda>(n, q). (n, Some (ct_oi c n (aq_url q) (seconds (aq_timeout q))))) venues,
       vp_funding = map (\<lambda>(n, q). (n, Some (ct_funding c n (aq_url q) (seconds (aq_timeout q))))) venues,
       vp_basis = Some (ct_basis c (aq_url (lq_deribit cfg)) (seconds (aq_timeout (lq_deribit cfg)))),
       vp_cgOI = Some (ct_cgOI c key t), vp_cgBasis = Some (ct_cgBasis c key t),
       vp_cgLiq = Some (ct_cgLiq c key t), vp_cgCrowd = Some (ct_cgCrowd c key t)\<rparr>)"

definition leverage_program_cfg :: "leverage_yaml \<Rightarrow> string \<Rightarrow> lev_config" where
  "leverage_program_cfg cfg ver =
     \<lparr>vc_model_version = lq_model cfg, vc_config_version = ver, vc_code_sha = GitSHA, vc_intermediate = vq_intermediate (lq_features cfg),
      vc_final = vq_final (lq_features cfg), vc_w_size = fzero, vc_w_funding = fzero, vc_w_basis = fzero, vc_w_liq = fzero,
      vc_w_momentum = fzero, vc_w_crowd = fzero, vc_scale = fzero\<rparr>"

definition leverage_program_service :: "'a world_scheme prog_env \<Rightarrow> leverage_yaml loaded \<Rightarrow> 'a world_scheme lev_service" where
  "leverage_program_service z ld = (let cfg = ld_parsed ld in
     pg_lev_service (oz_sql (pz_orch z)) (leverage_program_providers z cfg) (leverage_program_cfg cfg (ld_version ld))
       (if lq_assets cfg = [] then AssetsTradeable else lq_assets cfg))"

definition leverage_run :: "'a world_scheme prog_env \<Rightarrow> (string \<Rightarrow> err + leverage_yaml) \<Rightarrow> prog_args \<Rightarrow> ('a world_scheme, unit) io" where
  "leverage_run z decode g = loading z decode g lq_database (\<lambda>ld.
     seqE (note_config z ld (lq_domain (ld_parsed ld)) (lq_model (ld_parsed ld)))
       (let M = oz_libm (pz_orch z); ord = oz_days (pz_orch z); svc = leverage_program_service z ld in
        in_lax_mode g (lev_RunOnce M ord svc) (lev_RunBackfill M ord svc)))"

section \<open>The capital flows service\<close>

record flows_yaml =
  fq_domain :: string
  fq_model :: string
  fq_coinglass :: key_yaml
  fq_features :: versions_yaml
  fq_database :: database_config
  fq_schedule :: schedule_config

definition flows_program_providers :: "'w prog_env \<Rightarrow> flows_yaml \<Rightarrow> 'w cfl_providers" where
  "flows_program_providers z cfg =
     (let c = oz_clients (pz_orch z); key = kq_key (fq_coinglass cfg); t = key_timeout (fq_coinglass cfg) in
      \<lparr>xp_etf = Some (ct_etf c key t), xp_lth = Some (ct_lth c key t), xp_mcap = Some (ct_btc_mcap c key t),
       xp_liquidity = Some (ct_flow c key t), xp_inst = Some (ct_inst c key t)\<rparr>)"

definition flows_program_cfg :: "flows_yaml \<Rightarrow> string \<Rightarrow> cfl_config" where
  "flows_program_cfg cfg ver =
     \<lparr>xc_model_version = fq_model cfg, xc_config_version = ver, xc_code_sha = GitSHA, xc_intermediate = vq_intermediate (fq_features cfg),
      xc_final = vq_final (fq_features cfg), xc_scale = fzero, xc_w_etf = fzero, xc_w_lth = fzero, xc_w_miner = fzero, xc_w_flow = fzero,
      xc_w_lth_pre = fzero, xc_w_miner_pre = fzero\<rparr>"

definition flows_program_service :: "'a world_scheme prog_env \<Rightarrow> flows_yaml loaded \<Rightarrow> 'a world_scheme cfl_service" where
  "flows_program_service z ld = pg_cfl_service (oz_sql (pz_orch z)) (flows_program_providers z (ld_parsed ld))
     (flows_program_cfg (ld_parsed ld) (ld_version ld)) [AssetGlobal]"

definition flows_run :: "'a world_scheme prog_env \<Rightarrow> (string \<Rightarrow> err + flows_yaml) \<Rightarrow> prog_args \<Rightarrow> ('a world_scheme, unit) io" where
  "flows_run z decode g = loading z decode g fq_database (\<lambda>ld.
     seqE (note_config z ld (fq_domain (ld_parsed ld)) (fq_model (ld_parsed ld)))
       (let M = oz_libm (pz_orch z); svc = flows_program_service z ld in
        in_lax_mode g (cfl_RunOnce M svc) (cfl_RunBackfill M svc)))"

section \<open>The market stress service\<close>

record stress_yaml =
  sq_domain :: string
  sq_model :: string
  sq_assets :: "string list"
  sq_binance :: api_yaml
  sq_kraken :: api_yaml
  sq_coinbase :: api_yaml
  sq_coinglass :: key_yaml
  sq_features :: versions_yaml
  sq_basis_version :: string
  sq_scale :: f64
  sq_weights :: "string \<rightharpoonup> f64"
  sq_database :: database_config
  sq_schedule :: schedule_config

definition stress_program_providers :: "'w prog_env \<Rightarrow> stress_yaml \<Rightarrow> 'w mst_providers" where
  "stress_program_providers z cfg =
     (let c = oz_clients (pz_orch z); key = kq_key (sq_coinglass cfg); t = key_timeout (sq_coinglass cfg) in
      \<lparr>mp_binance = Some (ct_klines c (aq_url (sq_binance cfg)) (seconds (aq_timeout (sq_binance cfg)))),
       mp_kraken = Some (ct_ohlc c (aq_url (sq_kraken cfg)) (seconds (aq_timeout (sq_kraken cfg)))),
       mp_coinbase = Some (ct_candles c (aq_url (sq_coinbase cfg)) (seconds (aq_timeout (sq_coinbase cfg)))),
       mp_coinglass = (if key = [] then None else Some (ct_premium c key t)),
       mp_cgMicro = (if key = [] then None else Some (ct_micro c key t))\<rparr>)"

definition stress_program_cfg :: "stress_yaml \<Rightarrow> string \<Rightarrow> mst_config" where
  "stress_program_cfg cfg ver = (let w = mget fzero (sq_weights cfg) in
     \<lparr>kc_model_version = sq_model cfg, kc_config_version = ver, kc_code_sha = GitSHA, kc_intermediate = vq_intermediate (sq_features cfg),
      kc_final = vq_final (sq_features cfg), kc_basis_version = sq_basis_version cfg, kc_w_corr = w ''correlation'', kc_w_peg = w ''peg'',
      kc_w_coinbase = w ''coinbase'', kc_w_basis = w ''basis_inversion'', kc_w_micro = w ''microstructure'', kc_scale = sq_scale cfg\<rparr>)"

definition stress_program_service :: "'a world_scheme prog_env \<Rightarrow> stress_yaml loaded \<Rightarrow> 'a world_scheme mst_service" where
  "stress_program_service z ld = pg_mst_service (stress_program_providers z (ld_parsed ld))
     (stress_program_cfg (ld_parsed ld) (ld_version ld)) (sq_assets (ld_parsed ld))"

text \<open>With \<open>-klines-only\<close> a backfill fetches the klines and nothing else; without \<open>-from\<close> the flag is not looked at.\<close>

definition stress_run :: "'a world_scheme prog_env \<Rightarrow> (string \<Rightarrow> err + stress_yaml) \<Rightarrow> bool \<Rightarrow> prog_args \<Rightarrow> ('a world_scheme, unit) io" where
  "stress_run z decode klinesOnly g = loading z decode g sq_database (\<lambda>ld.
     seqE (note_config z ld (sq_domain (ld_parsed ld)) (sq_model (ld_parsed ld)))
       (let M = oz_libm (pz_orch z); svc = stress_program_service z ld in
        in_lax_mode g (mst_RunOnce M svc) (if klinesOnly then mst_BackfillKlines svc else mst_RunBackfill M svc)))"

section \<open>The volatility service\<close>

record volatility_yaml =
  oq_domain :: string
  oq_model :: string
  oq_assets :: "string list"
  oq_dbt :: api_yaml
  oq_cgl :: key_yaml
  oq_features :: versions_yaml
  oq_database :: database_config
  oq_schedule :: schedule_config

definition volatility_program_providers :: "'w prog_env \<Rightarrow> volatility_yaml \<Rightarrow> 'w vol_providers" where
  "volatility_program_providers z cfg =
     (let c = oz_clients (pz_orch z); k = kq_key (oq_cgl cfg); u = aq_url (oq_dbt cfg); t = seconds (aq_timeout (oq_dbt cfg)) in
      \<lparr>wp_dvol = Some (ct_dvol c u t), wp_options = Some (ct_options c u t),
       wp_cgOptions = (if k = [] then None else Some (ct_cgOptions c k (key_timeout (oq_cgl cfg)))),
       wp_chain = Some (ct_chain c u t)\<rparr>)"

definition volatility_program_cfg :: "volatility_yaml \<Rightarrow> string \<Rightarrow> vol_config" where
  "volatility_program_cfg cfg ver =
     \<lparr>wc_model_version = oq_model cfg, wc_config_version = ver, wc_code_sha = GitSHA, wc_intermediate = vq_intermediate (oq_features cfg),
      wc_final = vq_final (oq_features cfg), wc_w_fear = fzero, wc_w_tail = fzero, wc_w_vov = fzero, wc_w_fear4 = fzero, wc_w_term4 = fzero,
      wc_w_tail4 = fzero, wc_w_vov4 = fzero, wc_w_cross = fzero, wc_scale = fzero\<rparr>"

definition volatility_program_service :: "'a world_scheme prog_env \<Rightarrow> volatility_yaml loaded \<Rightarrow> 'a world_scheme vol_service" where
  "volatility_program_service z ld = pg_vol_service (oz_libm (pz_orch z)) (oz_sql (pz_orch z)) (volatility_program_providers z (ld_parsed ld))
     (volatility_program_cfg (ld_parsed ld) (ld_version ld)) (oq_assets (ld_parsed ld))"

definition volatility_run :: "'a world_scheme prog_env \<Rightarrow> (string \<Rightarrow> err + volatility_yaml) \<Rightarrow> prog_args \<Rightarrow> ('a world_scheme, unit) io" where
  "volatility_run z decode g = loading z decode g oq_database (\<lambda>ld.
     seqE (note_config z ld (oq_domain (ld_parsed ld)) (oq_model (ld_parsed ld)))
       (let M = oz_libm (pz_orch z); svc = volatility_program_service z ld in
        in_lax_mode g (vol_RunOnce M svc) (vol_RunBackfill M svc)))"

section \<open>The gateway\<close>

text \<open>\<open>serve addr h\<close> stands for listening until the process is told to stop or the listener fails, and the shutdown.\<close>

definition gateway_run :: "'a bt_world_scheme prog_env \<Rightarrow> (string \<Rightarrow> err + gateway_yaml) \<Rightarrow> (err \<Rightarrow> string) \<Rightarrow>
    (string \<Rightarrow> 'a bt_world_scheme gw_handler \<Rightarrow> ('a bt_world_scheme, unit) io) \<Rightarrow> prog_args \<Rightarrow> ('a bt_world_scheme, unit) io" where
  "gateway_run z decode E serve g = loading z decode g wy_database (\<lambda>ld.
     serve (or_string (wy_listen (ld_parsed ld)) ''127.0.0.1:8080'') (pg_gateway E))"

end
