(* ===== verification/Tools.thy ===== *)
theory Tools
  imports Programs Adapters
begin

text \<open>
  The command-line tools of \<open>cmd\<close>: \<open>backtest-runner\<close>, which drives the harness, and \<open>ingest-mcap\<close>, which loads the
  history of market caps.
\<close>

section \<open>Strings\<close>

text \<open>\<open>strings.TrimSpace\<close>: the encodings of the white space of Unicode are taken off both ends.\<close>

definition space_codes :: "string list" where
  "space_codes = map (map char_of) ([[0x09], [0x0A], [0x0B], [0x0C], [0x0D], [0x20], [0xC2, 0x85], [0xC2, 0xA0], [0xE1, 0x9A, 0x80]] @
     map (\<lambda>n. [0xE2, 0x80, n]) [0x80, 0x81, 0x82, 0x83, 0x84, 0x85, 0x86, 0x87, 0x88, 0x89, 0x8A, 0xA8, 0xA9, 0xAF] @
     [[0xE2, 0x81, 0x9F], [0xE3, 0x80, 0x80 :: nat]])"

function trim_codes :: "string list \<Rightarrow> string \<Rightarrow> string" where
  "trim_codes ps s = (case find (\<lambda>p. p \<noteq> [] \<and> has_prefix s p) ps of None \<Rightarrow> s | Some p \<Rightarrow> trim_codes ps (drop (length p) s))"
  by pat_completeness auto
termination
proof (relation "measure (length \<circ> snd)", simp)
  fix ps s p assume "find (\<lambda>p. p \<noteq> [] \<and> has_prefix s p) ps = Some p"
  then have "p \<noteq> []" "has_prefix s p" by (auto simp: find_Some_iff)
  then have "0 < length p" "s \<noteq> []" by (auto simp: has_prefix_def)
  then show "((ps, drop (length p) s), ps, s) \<in> measure (length \<circ> snd)" by simp
qed

declare trim_codes.simps [simp del]

definition TrimSpace :: "string \<Rightarrow> string" where
  "TrimSpace s = rev (trim_codes (map rev space_codes) (rev (trim_codes space_codes s)))"

section \<open>The backtest runner\<close>

record runner_args =
  na_config :: string
  na_mode :: string
  na_from :: string
  na_to :: string
  na_sweep :: string
  na_metrics_only :: bool
  na_run :: string
  na_sla :: int

text \<open>What a successful call prints or logs.\<close>

datatype runner_result = MetricsOf run_id | Replayed run_id | Swept string "(string \<times> f64 \<times> run_id) list"

definition split_eq :: "string \<Rightarrow> (string \<times> string) option" where
  "split_eq s = (if CHR ''='' \<in> set s then Some (takeWhile (\<lambda>c. c \<noteq> CHR ''='') s, tl (dropWhile (\<lambda>c. c \<noteq> CHR ''='') s)) else None)"

fun sweep_values :: "string list \<Rightarrow> err + f64 list" where
  "sweep_values [] = Inr []"
| "sweep_values (rv # rest) = (case ParseFloat (TrimSpace rv) of (v, ok) \<Rightarrow>
     if \<not> ok then Inl (Wrap ''invalid value %q'' [AStr rv] strconv_error)
     else (case sweep_values rest of Inl e \<Rightarrow> Inl e | Inr vs \<Rightarrow> Inr (v # vs)))"

definition parseSweep :: "string \<Rightarrow> err + string \<times> f64 list" where
  "parseSweep s = (case split_eq s of
       None \<Rightarrow> Inl (Fresh ''expected parameter=v1,v2,v3'' [])
     | Some (p, rest) \<Rightarrow> (case sweep_values (split_on (CHR '','') rest) of
           Inl e \<Rightarrow> Inl e
         | Inr vs \<Rightarrow> if vs = [] then Inl (Fresh ''no values to sweep'' []) else Inr (TrimSpace p, vs)))"

text \<open>The harness is given the regime engine's configuration; the random generator, the hash and the orders in which maps are
  walked are those of the run.\<close>

record 'g runner_env =
  nz_hash :: "snapshot \<Rightarrow> string"
  nz_intn :: "'g intn"
  nz_seed :: 'g
  nz_assets :: "asset set \<Rightarrow> asset list"
  nz_labels :: "label set \<Rightarrow> label list"
  nz_names :: "string set \<Rightarrow> string list"

text \<open>The runner has its own copies of the functions that read the engine's configuration.\<close>

definition runner_assetsFromConfig :: "regime_yaml \<Rightarrow> asset list" where
  "runner_assetsFromConfig cfg = ry_assets cfg"

definition runner_buildEngineConfig :: "regime_yaml \<Rightarrow> string \<Rightarrow> regime_config" where
  "runner_buildEngineConfig cfg ver =
     (let d = DefaultConfig; t = ry_transition cfg; w = ay_weights (ry_aggregation cfg) in
      d\<lparr>rc_model_version := ry_model cfg, rc_config_version := ver, rc_code_sha := GitSHA,
        rc_weights := (if w = Map.empty then rc_weights d else Some w),
        rc_sigmoid_k := if_positive (py_slope (ry_probability cfg)) (rc_sigmoid_k d),
        rc_roc_window := if_positive_int (ty_roc_window t) (rc_roc_window d),
        rc_roc_weight := if_positive (ty_roc_weight t) (rc_roc_weight d),
        rc_div_weight := if_positive (ty_div_weight t) (rc_div_weight d),
        rc_baseline := if_positive (ty_baseline t) (rc_baseline d),
        rc_min_coverage := if_positive (gy_min (ry_coverage cfg)) (rc_min_coverage d),
        rc_span := sy_span (ry_smoothing cfg)\<rparr>)"

lemma runner_config_live: "runner_buildEngineConfig = buildEngineConfig" "runner_assetsFromConfig = assetsFromConfig"
  by (simp_all add: fun_eq_iff runner_buildEngineConfig_def buildEngineConfig_def runner_assetsFromConfig_def assetsFromConfig_def)

definition runner_service :: "sql_lib \<Rightarrow> regime_yaml loaded \<Rightarrow> int \<Rightarrow> 'a bt_world_scheme bt_service" where
  "runner_service L ld slaMinutes =
     pg_bt_service L (bt_Defaults \<lparr>bc_sla = slaMinutes, bc_harness = [],
         bc_classifier = \<lparr>cc_transition_high = fzero, cc_risk_on_floor = fzero, cc_risk_off_ceiling = fzero\<rparr>, bc_code_sha = GitSHA\<rparr>)
       (runner_buildEngineConfig (ld_parsed ld) (ld_version ld)) (ld_raw ld) (runner_assetsFromConfig (ld_parsed ld))"

definition runner_mode :: "libm \<Rightarrow> (asset \<Rightarrow> gotime \<Rightarrow> map_order) \<Rightarrow> 'g runner_env \<Rightarrow> 'w bt_service \<Rightarrow> runner_args \<Rightarrow> gotime \<Rightarrow> gotime \<Rightarrow>
    ('w, runner_result) io" where
  "runner_mode M ord n svc g f t =
     (let metrics = ComputeMetrics M (nz_intn n) (nz_seed n) (nz_assets n) (nz_labels n) svc in
      if na_mode g = ''replay'' then
        bindE (wrapE ''replay'' [] (Replay M ord (nz_hash n) svc f t None ''replay'')) (\<lambda>runID.
          seqE (wrapE ''compute metrics'' [] (metrics runID)) (ret (Replayed runID)))
      else if na_mode g = ''sensitivity'' then
        if na_sweep g = [] then throw (Fresh ''-sweep required with -mode sensitivity'' [])
        else bindE (wrapE ''parse -sweep'' [] (liftE (parseSweep (na_sweep g)))) (\<lambda>(param, values).
          bindE (Sweep M ord (nz_hash n) (nz_intn n) (nz_seed n) (nz_assets n) (nz_labels n) svc f t param values) (\<lambda>(ids, rows, e).
            case e of Some err \<Rightarrow> throw (Wrap ''sweep'' [] err)
            | None \<Rightarrow> ret (Swept (SensitivitySweep (nz_names n) rows) (map (\<lambda>(v, i). (param, v, i)) (zip values ids)))))
      else throw (Fresh ''unknown -mode %q (want replay|sensitivity)'' [AStr (na_mode g)]))"

definition runner_run :: "'a bt_world_scheme prog_env \<Rightarrow> 'g runner_env \<Rightarrow> (string \<Rightarrow> err + regime_yaml) \<Rightarrow> runner_args \<Rightarrow>
    ('a bt_world_scheme, runner_result) io" where
  "runner_run z n decode g = bindE (liftE (config_Load (oz_host (pz_orch z)) decode (na_config g))) (\<lambda>ld.
     seqE (wrapE ''open db'' [] (pz_open z (db_url (ry_database (ld_parsed ld)))))
       (let M = oz_libm (pz_orch z); ord = oz_order (pz_orch z); svc = runner_service (oz_sql (pz_orch z)) ld (na_sla g) in
        if na_metrics_only g then
          if na_run g = [] then throw (Fresh ''-run required with -metrics-only'' [])
          else seqE (ComputeMetrics M (nz_intn n) (nz_seed n) (nz_assets n) (nz_labels n) svc (na_run g)) (ret (MetricsOf (na_run g)))
        else if na_from g = [] \<or> na_to g = [] then throw (Fresh ''-from and -to required'' [])
        else bindE (parse_flag ''parse -from'' (na_from g)) (\<lambda>f. bindE (parse_flag ''parse -to'' (na_to g)) (\<lambda>t.
          runner_mode M ord n svc g f t))))"

section \<open>The history of market caps\<close>

text \<open>A call prints a line per symbol and ends with an exit code, 0 when every symbol was written; a Go panic exits with 2.\<close>

type_synonym tool_result = "string list \<times> (int \<times> err) option"

definition symbolToCoinID :: "string \<rightharpoonup> string" where
  "symbolToCoinID = map_of [(''BTC'', ''bitcoin''), (''ETH'', ''ethereum'')]"

definition mcap_row_of :: "string \<Rightarrow> market_data_item \<Rightarrow> mcap_row" where
  "mcap_row_of coin p = \<lparr>mc_value_date = gmd_time p, mc_coin = coin, mc_cap = gmd_cap p, mc_price = gmd_price p,
     mc_source = ''coinglass_v4'', mc_hash = gmd_hash p\<rparr>"

definition write_mcaps :: "string \<Rightarrow> market_data_item list \<Rightarrow> ('a world_scheme, unit) io" where
  "write_mcaps coin points = InTx (forE (\<lambda>p. wrapE ''insert %s'' [AStr coin] (InsertRawMarketCap (mcap_row_of coin p))) points)"

text \<open>\<open>arrow\<close>: the character of the messages.\<close>

definition arrow :: string where "arrow = [CHR 0xE2, CHR 0x86, CHR 0x92]"

definition mcap_line :: "string \<Rightarrow> string \<Rightarrow> market_data_item list \<Rightarrow> string" where
  "mcap_line smb coin points = smb @ '' '' @ arrow @ '' coin_id='' @ coin @ '': '' @ dec (length points) @ '' rows written ('' @
     fmt_day (gmd_time (hd points)) @ '' '' @ arrow @ '' '' @ fmt_day (gmd_time (last points)) @ '')'' @ newline"

text \<open>The line is printed from the first and the last point: with none the tool panics, after its transaction.\<close>

fun ingest_symbols :: "(string \<Rightarrow> ('a world_scheme, market_data_item list) io) \<Rightarrow> string list \<Rightarrow> string list \<Rightarrow> ('a world_scheme, tool_result) io" where
  "ingest_symbols fetch out [] = ret (out, None)"
| "ingest_symbols fetch out (raw # rest) =
     (let smb = TrimSpace (ToUpper raw) in
      if smb = [] then ingest_symbols fetch out rest
      else (case symbolToCoinID smb of
          None \<Rightarrow> ret (out, Some (2, Fresh ''unknown symbol %s (no mapping to coin_id)'' [AStr smb]))
        | Some coin \<Rightarrow> bindE (attempt (fetch smb)) (\<lambda>r. case r of
            Inl e \<Rightarrow> ret (out, Some (1, Wrap ''fetch %s'' [AStr smb] e))
          | Inr points \<Rightarrow> bindE (attempt (write_mcaps coin points)) (\<lambda>r. case r of
              Inl e \<Rightarrow> ret (out, Some (1, Wrap ''write %s'' [AStr smb] e))
            | Inr _ \<Rightarrow> if points = [] then ret (out, Some (2, index_panic))
                else ingest_symbols fetch (out @ [mcap_line smb coin points]) rest))))"

record mcap_args =
  ma_db :: string
  ma_symbols :: string
  ma_key :: string

definition ingest_mcap :: "'a world_scheme prog_env \<Rightarrow> 'a world_scheme net \<Rightarrow> 'a world_scheme cell \<Rightarrow> nat \<Rightarrow> mcap_args \<Rightarrow> ('a world_scheme, tool_result) io" where
  "ingest_mcap z e cl ctx g =
     (let apiKey = (if ma_key g \<noteq> [] then ma_key g else ho_getenv (oz_host (pz_orch z)) ''COINGLASS_API_KEY'') in
      if apiKey = [] then ret ([], Some (2, Fresh ''COINGLASS_API_KEY env or -api-key flag required'' []))
      else bindE (attempt (pz_open z (ma_db g))) (\<lambda>r. case r of
        Inl er \<Rightarrow> ret ([], Some (1, Wrap ''open db'' [] er))
      | Inr _ \<Rightarrow> ingest_symbols (cg_FetchMarketDataHistory e (cg_New cl apiKey (seconds 60)) ctx) [] (split_on (CHR '','') (ma_symbols g))))"

end
