(* ===== verification/ProgramsRun.thy ===== *)
theory ProgramsRun
  imports MetricsTool TextFacts
begin

text \<open>
  Facts about the programs: durations are read as printed; the regime engine run on its own does what the orchestrator's
  step does; a daemon survives failing ticks; what a bad flag leads to; the metrics tool measures the days and prices
  the harness measures.
\<close>

section \<open>Durations\<close>

lemma num_of_ge: "num_of x ds = Some n \<Longrightarrow> x \<le> n"
proof (induction ds arbitrary: x)
  case (Cons c ds)
  then obtain d where "num_of (10 * x + d) ds = Some n" by (auto split: option.splits)
  from Cons.IH[OF this] show ?case by simp
qed simp

lemma lead_int_digits:
  assumes "list_all is_digit ds" "num_of x ds = Some n" "n \<le> 2 ^ 63" "undig c = None"
  shows "lead_int x (ds @ c # s) = Some (n, c # s)"
  using assms(1,2)
proof (induction ds arbitrary: x)
  case (Cons e ds)
  then obtain d where d: "undig e = Some d" "num_of (10 * x + d) ds = Some n" by (auto split: option.splits)
  have "10 * x + d \<le> 2 ^ 63" using num_of_ge[OF d(2)] assms(3) by simp
  then show ?case using Cons d by simp
qed (use assms(4) in simp)

text \<open>A whole number of hours, minutes or seconds is read back as printed.\<close>

lemma dur_term_whole:
  assumes "unit_ns u = Some k" "u \<noteq> []" "\<forall>c\<in>set u. unit_char c" "0 < k" "n * k \<le> 2 ^ 63"
  shows "dur_term orig (dec n @ u) = Inr (n * k, [])"
proof -
  obtain c u' where u: "u = c # u'" using assms(2) by (cases u) auto
  have c: "undig c = None" "c \<noteq> CHR ''.''" using assms(3) u by (auto simp: unit_char_def)
  have "n \<le> n * k" using assms(4) by simp
  then have n: "n \<le> 2 ^ 63" using assms(5) by linarith
  have l: "lead_int 0 (dec n @ u) = Some (n, u)" unfolding u by (rule lead_int_digits[OF dec_digits num_of_dec n c(1)])
  have f: "dur_fraction u = (0, lit 1, u)" using c u by (simp add: dur_fraction_def)
  have num: "dur_number (dec n @ u) = Some (n, 0, lit 1, u)" by (simp add: dur_number_def l f)
  have w: "takeWhile unit_char u = u" using assms(3) by (simp add: takeWhile_eq_all_conv)
  have "n \<le> 2 ^ 63 div k" using assms(4,5) by (simp add: less_eq_div_iff_mult_less_eq)
  then have nb: "\<not> 2 ^ 63 div k < n" "\<not> 2 ^ 63 < n * k" using assms(5) by simp_all
  show ?thesis by (simp only: dur_term_def num Let_def option.case prod.case w assms(1,2) nb less_irrefl if_False add_0_right simp_thms
      length_append drop_all order_refl)
qed

lemma sign_of_dec: "sign_of (dec n @ u) = (False, dec n @ u)"
  using sign_of_digits[OF dec_digits[of n], of u] by simp

lemma ParseDuration_whole:
  assumes "unit_ns u = Some k" "u \<noteq> []" "\<forall>c\<in>set u. unit_char c" "0 < k" "n * k < 2 ^ 63"
  shows "ParseDuration (dec n @ u) = Inr (int (n * k))"
proof -
  have t: "dur_term (dec n @ u) (dec n @ u) = Inr (n * k, [])" by (rule dur_term_whole) (use assms in auto)
  have s: "dur_sum (dec n @ u) 0 (dec n @ u) = Inr (n * k)"
    unfolding dur_sum.simps[of _ 0 "dec n @ u"] t using assms(5) by (simp add: dur_sum.simps[of _ "n * k" "[]"])
  obtain c u' where u: "u = c # u'" using assms(2) by (cases u) auto
  have "dec n @ u \<noteq> ''0''"
  proof
    assume "dec n @ u = ''0''"
    then have "length (dec n) + length u = 1" by (metis length_append list.size(3) list.size(4) One_nat_def add_0 plus_1_eq_Suc)
    moreover have "0 < length (dec n)" "0 < length u" using assms(2) by simp_all
    ultimately show False by linarith
  qed
  moreover have "\<not> 2 ^ 63 - 1 < n * k" using assms(5) by linarith
  ultimately show ?thesis unfolding ParseDuration_def sign_of_dec prod.case s using assms(2) by simp
qed

lemma ParseDuration_hours: "n * 3600000000000 < 2 ^ 63 \<Longrightarrow> ParseDuration (dec n @ ''h'') = Inr (int n * hour_ns)"
  using ParseDuration_whole[of "''h''" 3600000000000 n] by (simp add: unit_ns_def unit_char_def undig_def hour_ns_def)

section \<open>The modes\<close>

text \<open>A daemon outlives failing ticks; an interval that is not positive ends it after the first tick.\<close>

lemma logged_ok: "fst (logged m w) = Inr ()"
  by (auto simp: logged_def attempt_def bindE_def split: prod.splits)

lemma forE_ok: "(\<And>x w. x \<in> set xs \<Longrightarrow> fst (f x w) = Inr ()) \<Longrightarrow> fst (forE f xs w) = Inr ()"
proof (induction xs arbitrary: w)
  case (Cons x xs)
  obtain w' where "f x w = (Inr (), w')" using Cons.prems[of x w] by (cases "f x w") auto
  then show ?case using Cons by (simp add: seqE_Inr)
qed simp

theorem daemon_survives:
  assumes "ParseDuration every = Inr tick"
  shows "fst (daemon_ticks every firings once vd w) = (if 0 < tick then Inr () else Inl ticker_panic)"
proof -
  obtain w1 where w1: "logged (once vd) w = (Inr (), w1)" using logged_ok[of "once vd" w] by (cases "logged (once vd) w") auto
  have tick: "fst (bindE (resolveValueDate []) (\<lambda>d. logged (once d)) v) = Inr ()" for v
    by (simp add: resolveValueDate_def bindE_def clock_Now_def logged_ok)
  have w2: "wrapE m vs (ret x) v = (Inr x, v)" for m vs v and x :: int by (simp add: wrapE_def)
  show ?thesis unfolding daemon_ticks_def assms liftE_def
    by (simp add: bindE_def[of "wrapE _ _ _"] w2 seqE_Inr[where m = "logged (once vd)", OF w1] forE_ok[OF tick])
qed

text \<open>A bad \<open>-value-date\<close> stops the regime engine and the liquidity service; the other services run for the zero time.\<close>

lemma bad_value_date:
  assumes "pa_from g = []" "pa_value_date g \<noteq> []" "parse_day (pa_value_date g) = None"
  shows "in_mode g every firings once many w = (Inl (Wrap ''parse value-date'' [] (time_err (pa_value_date g))), w)"
    and "in_lax_mode g once many w = once zero_time (w\<lparr>w_ticks := Suc (w_ticks w)\<rparr>)"
  using assms by (simp_all add: in_mode_def in_lax_mode_def resolveValueDate_def lax_value_date_def bindE_def clock_Now_def)

text \<open>\<open>-from\<close> without \<open>-to\<close> is refused, in both modes, before anything is done.\<close>

lemma from_without_to:
  assumes "pa_from g \<noteq> []" "pa_to g = []"
  shows "in_mode g every firings once many w = (Inl (Fresh ''-to required when -from is set'' []), w)"
    and "in_lax_mode g once many w = (Inl (Fresh ''-to required with -from'' []), w)"
  using assms by (simp_all add: in_mode_def in_lax_mode_def range_of_flags_def)

lemma in_mode_backfill:
  assumes "pa_from g \<noteq> []" "pa_to g \<noteq> []" "parse_day (pa_from g) = Some f" "parse_day (pa_to g) = Some t"
  shows "in_mode g every firings once many = many f t" and "in_lax_mode g once many = many f t"
  using assms by (simp_all add: in_mode_def in_lax_mode_def range_of_flags_def parse_flag_def)

lemma in_mode_once:
  assumes "pa_from g = []" "\<not> pa_daemon g" "pa_value_date g \<noteq> []" "parse_day (pa_value_date g) = Some d"
  shows "in_mode g every firings once many = once d"
  using assms by (simp add: in_mode_def resolveValueDate_def)

section \<open>The regime engine and the orchestrator's step\<close>

definition same_settings :: "regime_yaml \<Rightarrow> orch_config \<Rightarrow> bool" where
  "same_settings y cfg \<longleftrightarrow> (let e = od_regime (oc_domains cfg) in
     ry_model y = oe_model e \<and> ry_assets y \<in> {[], defaultAssets} \<and> ay_weights (ry_aggregation y) = oe_weights e \<and>
     py_slope (ry_probability y) = oe_slope e \<and> ry_transition y = oe_transition e \<and> ry_smoothing y = oe_smoothing e \<and>
     \<not> flt fzero (gy_min (ry_coverage y)) \<and> ny_lookback (oe_normalization e) \<le> 0 \<and> ny_min_samples (oe_normalization e) \<le> 0)"

lemma same_engine_cfg: "same_settings y cfg \<Longrightarrow> buildEngineConfig y ver = engine_cfg cfg ver"
  by (simp add: same_settings_def buildEngineConfig_def engine_cfg_def Let_def if_positive_def if_positive_int_def)

lemma default_assets_tradeable: "defaultAssets = AssetsTradeable"
  by (simp add: defaultAssets_def AssetsTradeable_def AssetBTC_def AssetETH_def)

lemma same_engine_service: "same_settings (ld_parsed ld) cfg \<Longrightarrow> regime_engine_service ld = engine_service cfg (ld_version ld)"
  by (auto simp: regime_engine_service_def engine_service_def same_engine_cfg assetsFromConfig_def same_settings_def Let_def
      pg_regime_service_def regime_NewService_def default_assets_tradeable)

text \<open>The program for a range, or for one day, is the connection, the registration and the orchestrator's step.\<close>

lemma regime_engine_step:
  assumes "config_Load (oz_host (pz_orch z)) decode (pa_config g) = Inr ld" "same_settings (ld_parsed ld) cfg"
    and "pa_from g \<noteq> [] \<and> pa_to g \<noteq> [] \<and> parse_day (pa_from g) = Some f \<and> parse_day (pa_to g) = Some t \<and> f \<noteq> t \<or>
      pa_from g = [] \<and> \<not> pa_daemon g \<and> pa_value_date g \<noteq> [] \<and> parse_day (pa_value_date g) = Some f \<and> f = t"
  shows "regime_engine_run z decode firings g =
    seqE (wrapE ''open db'' [] (pz_open z (db_url (ry_database (ld_parsed ld)))))
      (seqE (wrapE ''register config'' [] (engine_registerConfig ld)) (runRegimeEngine (pz_orch z) cfg (ld_version ld) f t))"
  using assms(3) unfolding regime_engine_run_def loading_def assms(1) liftE_def
  by (auto simp: same_engine_service[OF assms(2)] in_mode_backfill in_mode_once runRegimeEngine_def once_or_range_def Let_def)

text \<open>A YAML that names no feature twice gives the liquidity service the versions it gives the orchestrator's step: the
  program takes the first feature of a name, the orchestrator the last.\<close>

lemma findVersion_step:
  assumes "distinct (map fc_name (ly_features y))"
  shows "findVersion y n = string_of_key (foldl (\<lambda>m f. m(fc_name f \<mapsto> fc_version f)) Map.empty (ly_features y)) n"
proof -
  have "foldl (\<lambda>m f. m(fc_name f \<mapsto> fc_version f)) m fs n = (case find (\<lambda>f. fc_name f = n) fs of None \<Rightarrow> m n | Some f \<Rightarrow> Some (fc_version f))"
    if "distinct (map fc_name fs)" for m fs
    using that
  proof (induction fs arbitrary: m)
    case (Cons f fs)
    have "fc_name f \<notin> fc_name ` set fs" using Cons.prems by simp
    then have "find (\<lambda>g. fc_name g = fc_name f) fs = None" unfolding find_None_iff by (metis imageI)
    then show ?case using Cons by (auto split: option.split)
  qed simp
  from this[OF assms, of Map.empty] show ?thesis by (simp add: findVersion_def string_of_key_def split: option.split)
qed

lemma first_version_wins:
  "findVersion (y\<lparr>ly_features := [\<lparr>fc_name = n, fc_version = v, fc_params = p\<rparr>, \<lparr>fc_name = n, fc_version = v', fc_params = p'\<rparr>]\<rparr>) n = v"
  by (simp add: findVersion_def)

section \<open>The sweep flag\<close>

lemma no_code: "(\<forall>p\<in>set ps. p \<noteq> [] \<longrightarrow> s \<noteq> [] \<longrightarrow> hd p \<noteq> hd s) \<Longrightarrow> trim_codes ps s = s"
proof -
  assume a: "\<forall>p\<in>set ps. p \<noteq> [] \<longrightarrow> s \<noteq> [] \<longrightarrow> hd p \<noteq> hd s"
  have "find (\<lambda>p. p \<noteq> [] \<and> has_prefix s p) ps = None"
    unfolding find_None_iff
  proof
    assume "\<exists>p. p \<in> set ps \<and> p \<noteq> [] \<and> has_prefix s p"
    then obtain p where p: "p \<in> set ps" "p \<noteq> []" "has_prefix s p" by blast
    then obtain c q where "p = c # q" by (meson neq_Nil_conv)
    then have "s \<noteq> []" "hd s = hd p" using p(3) by (cases s; simp add: has_prefix_def)+
    then show False using a p by auto
  qed
  then show ?thesis by (simp add: trim_codes.simps[of ps s])
qed

lemma space_bytes: "list_all (\<lambda>p. p \<noteq> [] \<and> hd p \<notin> set ''0123456789'' \<and> last p \<notin> set ''0123456789'') space_codes"
  by code_simp

lemma TrimSpace_digits: "list_all is_digit ds \<Longrightarrow> TrimSpace ds = ds"
proof (cases "ds = []")
  case True
  then show ?thesis by (simp add: TrimSpace_def no_code)
next
  case False
  assume d: "list_all is_digit ds"
  then have "hd ds \<in> set ''0123456789''" "hd (rev ds) \<in> set ''0123456789''"
    using False is_digit_cases by (auto simp: list_all_iff hd_rev simp del: set_simps list.set)
  moreover have "hd (rev p) = last p" if "p \<noteq> []" for p :: string using that by (simp add: hd_rev)
  ultimately have "trim_codes space_codes ds = ds" "trim_codes (map rev space_codes) (rev ds) = rev ds"
    using space_bytes by (intro no_code; fastforce simp: list_all_iff simp del: set_simps list.set)+
  then show ?thesis by (simp add: TrimSpace_def)
qed

lemma split_on_free: "c \<notin> set w \<Longrightarrow> split_on c w = [w]"
  by (induction w) auto

lemma split_on_append: "c \<notin> set w \<Longrightarrow> split_on c (w @ c # s) = w # split_on c s"
  by (induction w) auto

lemma split_on_join: "ws \<noteq> [] \<Longrightarrow> \<forall>w\<in>set ws. c \<notin> set w \<Longrightarrow> split_on c (str_join [c] ws) = ws"
  by (induction "[c]" ws rule: str_join.induct) (auto simp: split_on_free split_on_append)

lemma split_eq_at: "CHR ''='' \<notin> set p \<Longrightarrow> split_eq (p @ CHR ''='' # s) = Some (p, s)"
  by (induction p) (auto simp: split_eq_def)

lemma parseSweep_ints:
  assumes "ns \<noteq> []" "\<forall>n\<in>set ns. n < 2 ^ 53" "CHR ''='' \<notin> set p"
  shows "parseSweep (p @ ''='' @ str_join '','' (map dec ns)) = Inr (TrimSpace p, map (\<lambda>n. Fin (of_nat n)) ns)"
proof -
  have c: "CHR '','' \<notin> set (dec n)" for n using dec_digits[of n] not_digit(7) by (auto simp: list_all_iff)
  have v: "ParseFloat (TrimSpace (dec n)) = (Fin (of_nat n), True)" if "n < 2 ^ 53" for n
  proof -
    have r: "rnd (of_nat n :: rat) = Fin (of_nat n) \<or> n = 0"
    proof (cases "n = 0")
      case False
      have "f_of_int (int n) = Fin (of_nat n)" using f_of_int_fin[of "int n"] that False by (cases "f_of_int (int n)") auto
      then show ?thesis by (simp add: f_of_int_def)
    qed simp
    have "signed_float False (of_nat n) = Fin (of_nat n)" using r by (auto simp: signed_float_def zero_of_def)
    then show ?thesis by (simp add: TrimSpace_digits[OF dec_digits] ParseFloat_dec isInf_def)
  qed
  have "sweep_values (map dec ns) = Inr (map (\<lambda>n. Fin (of_nat n)) ns)"
    using assms(2) by (induction ns) (simp_all add: v)
  moreover have "split_on (CHR '','') (str_join '','' (map dec ns)) = map dec ns"
    by (rule split_on_join) (use assms(1) c in auto)
  ultimately show ?thesis using assms(1,3) by (simp add: parseSweep_def split_eq_at)
qed

section \<open>The history of market caps\<close>

lemma write_none: "fault_free w \<Longrightarrow> fst (write_mcaps coin [] w) = Inr ()"
  by (simp add: write_mcaps_def InTx_fault_free)

text \<open>A symbol without history ends the tool with a panic; an unknown one ends it before the later symbols.\<close>

lemma mcap_empty_panics:
  assumes "symbolToCoinID (TrimSpace (ToUpper raw)) = Some coin" "TrimSpace (ToUpper raw) \<noteq> []"
    and "fetch (TrimSpace (ToUpper raw)) w = (Inr [], w1)" "fault_free w1"
  shows "fst (ingest_symbols fetch out (raw # rest) w) = Inr (out, Some (2, index_panic))"
proof -
  obtain w2 where "write_mcaps coin [] w1 = (Inr (), w2)" using write_none[OF assms(4), of coin] by (metis prod.collapse)
  then show ?thesis using assms by (simp add: Let_def bindE_def attempt_def)
qed

lemma mcap_unknown_stops:
  assumes "symbolToCoinID (TrimSpace (ToUpper raw)) = None" "TrimSpace (ToUpper raw) \<noteq> []"
  shows "ingest_symbols fetch out (raw # rest) w =
    (Inr (out, Some (2, Fresh ''unknown symbol %s (no mapping to coin_id)'' [AStr (TrimSpace (ToUpper raw))])), w)"
  using assms by (simp add: Let_def)

section \<open>The metrics tool and the harness\<close>

definition live_day :: "regime_state \<Rightarrow> regime_day" where
  "live_day s = \<lparr>rd_value_date = UTCDay (rs_value_date s), rd_indicator = rs_indicator s, rd_risk_on = rs_risk_on s,
     rd_risk_off = rs_risk_off s, rd_transition = rs_transition s, rd_label = []\<rparr>"

lemma labels_of_harness:
  assumes "\<forall>s\<in>set sts. UTCDay (rs_value_date s) = rs_value_date s"
  shows "label_hysteresis DefaultHysteresis prev (map live_day sts) = toRegimeDays prev sts"
  using assms by (induction sts arbitrary: prev) (simp_all add: live_day_def Let_def)

lemma price_map_at:
  assumes "distinct (map pa_date pts)" "\<forall>p\<in>set pts. UTCDay (pa_date p) = pa_date p" "p \<in> set pts"
  shows "price_map pts (pa_date p) = Some (pa_price p)"
proof -
  have "foldl (\<lambda>m p. m(UTCDay (pa_date p) \<mapsto> pa_price p)) m pts d =
      (case find (\<lambda>p. pa_date p = d) pts of None \<Rightarrow> m d | Some p \<Rightarrow> Some (pa_price p))" for m d
    using assms(1,2)
  proof (induction pts arbitrary: m)
    case (Cons q qs)
    have "pa_date q \<notin> pa_date ` set qs" using Cons.prems(1) by simp
    then have "find (\<lambda>p. pa_date p = pa_date q) qs = None" unfolding find_None_iff by (metis imageI)
    then show ?case using Cons by (auto split: option.split)
  qed simp
  moreover have "find (\<lambda>q. pa_date q = pa_date p) pts = Some p"
  proof (cases "find (\<lambda>q. pa_date q = pa_date p) pts")
    case None
    then show ?thesis using assms(3) by (auto simp: find_None_iff)
  next
    case (Some q)
    then have "q \<in> set pts" "pa_date q = pa_date p" by (auto simp: find_Some_iff)
    then have "q = p" using assms(1,3) by (auto simp: distinct_map inj_on_def)
    with Some show ?thesis by simp
  qed
  ultimately show ?thesis by (simp add: price_map_def)
qed

lemma by_day_id:
  assumes "sorted (map pa_date pts)" "distinct (map pa_date pts)" "\<forall>p\<in>set pts. UTCDay (pa_date p) = pa_date p"
  shows "by_day pts = pts"
proof -
  have "map (\<lambda>p. UTCDay (pa_date p)) pts = map pa_date pts" using assms(3) by simp
  then have "sort (remdups (map (\<lambda>p. UTCDay (pa_date p)) pts)) = map pa_date pts"
    using assms(1,2) by (simp only: distinct_remdups_id sorted_sort_id)
  then have "by_day pts = map (\<lambda>p. \<lparr>pa_date = pa_date p, pa_price = mget fzero (price_map pts) (pa_date p)\<rparr>) pts"
    by (simp add: by_day_def)
  also have "\<dots> = pts"
    by (rule map_idI) (simp add: price_map_at[OF assms(2,3)] mget_def)
  finally show ?thesis .
qed

text \<open>Prices from a later day on are the later part of the list.\<close>

lemma keys_of_where: "keys_of k (where_rows (\<lambda>v. Q (k v)) t) = filter Q (keys_of k t)"
proof -
  have "map (k \<circ> r_val) (where_rows (\<lambda>v. Q (k v)) t) = filter Q (map (k \<circ> r_val) t)"
    by (simp add: where_rows_def filter_map o_def)
  then show ?thesis by (simp add: keys_of_def filter_sort remdups_filter)
qed

lemma map_filter_filter: "(\<And>x. Q x \<Longrightarrow> f x = g x) \<Longrightarrow> (\<And>x v. g x = Some v \<Longrightarrow> P v = Q x) \<Longrightarrow>
    List.map_filter f (filter Q xs) = filter P (List.map_filter g xs)"
  by (induction xs) (auto simp: List.map_filter_simps split: option.splits)

lemma latest_by_where:
  "latest_by k (where_rows (\<lambda>v. Q (k v)) t) = filter (\<lambda>v. Q (k v)) (latest_by k t)"
  unfolding latest_by_def keys_of_where
proof (rule map_filter_filter)
  fix x assume "Q x"
  then have "where_rows (\<lambda>v. k v = x) (where_rows (\<lambda>v. Q (k v)) t) = where_rows (\<lambda>v. k v = x) t"
    by (auto simp: where_rows_def intro: filter_cong)
  then show "map_option r_val (latest (where_rows (\<lambda>v. k v = x) (where_rows (\<lambda>v. Q (k v)) t))) =
      map_option r_val (latest (where_rows (\<lambda>v. k v = x) t))" by simp
next
  fix x v assume "map_option r_val (latest (where_rows (\<lambda>v. k v = x) t)) = Some v"
  then show "Q (k v) = Q x" by (auto dest!: latest_Some)
qed

lemma q_prices_from:
  assumes "f0 \<le> f"
  shows "q_prices coin f t T = filter (\<lambda>p. f \<le> pa_date p) (q_prices coin f0 t T)"
proof -
  have "where_rows (\<lambda>x. mc_coin x = coin \<and> f \<le> mc_value_date x \<and> mc_value_date x \<le> t \<and> flt fzero (mc_price x)) T =
      where_rows (\<lambda>x. f \<le> mc_value_date x) (where_rows (\<lambda>x. mc_coin x = coin \<and> f0 \<le> mc_value_date x \<and> mc_value_date x \<le> t \<and> flt fzero (mc_price x)) T)"
    using assms by (auto simp: where_rows_def intro!: filter_cong)
  then show ?thesis
    by (simp only: q_prices_def latest_by_where[of mc_value_date "\<lambda>d. f \<le> d"] filter_map o_def price_point_at.simps)
qed

lemma q_prices_dates: "map pa_date (q_prices coin f t T) = keys_of mc_value_date
     (where_rows (\<lambda>x. mc_coin x = coin \<and> f \<le> mc_value_date x \<and> mc_value_date x \<le> t \<and> flt fzero (mc_price x)) T)"
  using latest_by_map_fst[of mc_value_date] by (simp add: q_prices_def o_def)

lemma q_prices_mem: "p \<in> set (q_prices coin f t T) \<Longrightarrow> f \<le> pa_date p \<and> pa_date p \<le> t \<and> (\<exists>r\<in>set T. pa_date p = mc_value_date (r_val r))"
  by (auto simp: q_prices_def dest!: latest_by_mem_table)

lemma filled_suffix:
  assumes "sorted_wrt (\<lambda>p q. pa_date p \<le> pa_date q) ps" "p \<in> set ps" "f \<le> pa_date p" "pa_date p \<le> d"
  shows "filled (filter (\<lambda>p. f \<le> pa_date p) ps) d = filled ps d"
proof -
  have "sorted_wrt (\<lambda>p q. pa_date p \<le> pa_date q) ps \<Longrightarrow> p \<in> set ps \<Longrightarrow>
      \<exists>as. filter (\<lambda>p. pa_date p \<le> d) ps = as @ filter (\<lambda>p. pa_date p \<le> d) (filter (\<lambda>p. f \<le> pa_date p) ps)"
  proof (induction ps)
    case (Cons q qs)
    show ?case
    proof (cases "f \<le> pa_date q")
      case True
      then have "\<forall>r\<in>set qs. f \<le> pa_date r" using Cons.prems(1) by fastforce
      then have "filter (\<lambda>p. f \<le> pa_date p) (q # qs) = q # qs" using True by simp
      then show ?thesis by simp
    next
      case False
      then have "p \<in> set qs" using Cons.prems(2) assms(3) by auto
      then obtain as where "filter (\<lambda>p. pa_date p \<le> d) qs = as @ filter (\<lambda>p. pa_date p \<le> d) (filter (\<lambda>p. f \<le> pa_date p) qs)"
        using Cons by auto
      then have "filter (\<lambda>p. pa_date p \<le> d) (q # qs) = (if pa_date q \<le> d then q # as else as) @
          filter (\<lambda>p. pa_date p \<le> d) (filter (\<lambda>p. f \<le> pa_date p) (q # qs))" using False by simp
      then show ?thesis by blast
    qed
  qed simp
  then obtain as where as: "filter (\<lambda>p. pa_date p \<le> d) ps = as @ filter (\<lambda>p. pa_date p \<le> d) (filter (\<lambda>p. f \<le> pa_date p) ps)"
    using assms(1,2) by blast
  have ne: "filter (\<lambda>p. pa_date p \<le> d) (filter (\<lambda>p. f \<le> pa_date p) ps) \<noteq> []"
    using assms(2-4) by (auto simp: filter_empty_conv)
  have case_last: "filled qs d = (if flt fzero (pa_price (last rs)) \<and> d - pa_date (last rs) \<le> 7 * day_ns
      then Some \<lparr>pa_date = d, pa_price = pa_price (last rs)\<rparr> else None)" if "filter (\<lambda>p. pa_date p \<le> d) qs = rs" "rs \<noteq> []" for qs rs
    using that by (cases rs) (simp_all add: filled_def)
  show ?thesis using case_last[OF refl ne] case_last[OF as] ne by simp
qed

lemma tool_prices_are_harness_prices:
  assumes utc: "\<forall>r\<in>set T. UTCDay (mc_value_date (r_val r)) = mc_value_date (r_val r)"
    and days: "UTCDay f = f" "UTCDay t = t" "f0 \<le> f" "UTCDay f0 = f0" "t \<le> add_days f0 100000"
    and first: "\<exists>p\<in>set (q_prices coin f0 t T). pa_date p = f"
  shows "tool_forwardFillDaily (by_day (q_prices coin f0 t T)) f t =
    forwardFillDaily (map (\<lambda>p. p\<lparr>pa_date := UTCDay (pa_date p)\<rparr>) (q_prices coin f t T)) f t"
proof -
  let ?P = "q_prices coin f0 t T" and ?H = "q_prices coin f t T"
  have u: "UTCDay (pa_date p) = pa_date p" if "p \<in> set (q_prices coin g t T)" for p g
    using q_prices_mem[OF that] utc by auto
  have s: "sorted (map pa_date (q_prices coin g t T))" "distinct (map pa_date (q_prices coin g t T))" for g
    by (simp_all add: q_prices_dates keys_of_def)
  have sw: "sorted_wrt (\<lambda>p q. pa_date p \<le> pa_date q) (q_prices coin g t T)" for g
    using s(1)[of g] by (simp add: sorted_map)
  have H: "?H = filter (\<lambda>p. f \<le> pa_date p) ?P" using days(3) by (rule q_prices_from)
  have id: "map (\<lambda>p. p\<lparr>pa_date := UTCDay (pa_date p)\<rparr>) ?H = ?H" using u by (intro map_idI) simp
  have "fill_days (seen []) ?P (day_range f t) = List.map_filter (filled ([] @ ?P)) (day_range f t)"
  proof (rule fill_days_filled)
    fix p d assume p: "p \<in> set ([] @ ?P)" and d: "d \<in> set (day_range f t)" and le: "pa_date p \<le> d"
    have "UTCDay d = d" "d \<le> t" using d days(1,2) by (auto simp: day_range_mem UTCDay_add_days)
    then obtain k where k: "0 \<le> k" "d = add_days (pa_date p) k"
      using UTC_diff[of "pa_date p" d] le u[of p f0] p by auto
    have "f0 \<le> pa_date p" using q_prices_mem[of p] p by auto
    then have "k \<le> 100000" using k(2) \<open>d \<le> t\<close> days(5) by (simp add: add_days_def day_ns_def)
    then show "\<exists>k. 0 \<le> k \<and> k \<le> 100000 \<and> d = add_days (pa_date p) k" using k by blast
  qed (use sw sorted_day_range in auto)
  moreover have "?P \<noteq> []" using first by auto
  ultimately have tool: "tool_forwardFillDaily ?P f t = List.map_filter (filled ?P) (day_range f t)"
    by (simp add: tool_forwardFillDaily_def seen_def)
  have "t \<le> add_days f 100000" using days(3,5) by (simp add: add_days_def)
  then have "forwardFillDaily ?H f t = List.map_filter (filled ?H) (day_range (UTCDay f) (UTCDay t))"
    using sw u q_prices_mem days(1,2) by (intro forwardFillDaily_spec) auto
  moreover have "filled ?H d = filled ?P d" if "d \<in> set (day_range f t)" for d
    unfolding H using that first filled_suffix[OF sw] by (fastforce simp: day_range_mem add_days_def day_ns_def)
  ultimately have "forwardFillDaily ?H f t = List.map_filter (filled ?P) (day_range f t)"
    using days(1,2) by (simp add: List.map_filter_def cong: filter_cong map_cong)
  then show ?thesis unfolding id tool[symmetric] using by_day_id[of ?P] s u by metis
qed

lemma tool_query_plain_ok: "fault_free w \<Longrightarrow> query_plain f w =
    (Inr (f (w\<lparr>w_ticks := Suc (Suc (w_ticks w))\<rparr>)), w\<lparr>w_ticks := Suc (Suc (w_ticks w))\<rparr>)"
  by (simp add: query_plain_def db_read_def seqE_def bindE_def)

lemma tool_query_rows_ok: "fault_free w \<Longrightarrow> query_rows m vs f w =
    (Inr (f (w\<lparr>w_ticks := Suc (Suc (w_ticks w))\<rparr>)), w\<lparr>w_ticks := Suc (Suc (w_ticks w))\<rparr>)"
  by (simp add: query_rows_def db_read_def seqE_def bindE_def wrapE_def)

definition live_states :: "asset \<Rightarrow> gotime \<Rightarrow> gotime \<Rightarrow> regime_state table \<Rightarrow> regime_state list" where
  "live_states a from to t = latest_by rs_value_date (where_rows (\<lambda>s. rs_asset s = a \<and> from \<le> rs_value_date s \<and> rs_value_date s \<le> to) t)"

text \<open>With the hysteresis labels of the harness and without smoothing the tool measures the days and the prices the
  harness would, provided there is a price on the first day: otherwise it also fills in from up to ten days before.\<close>

lemma tool_measures_as_harness:
  assumes ff: "fault_free w" and a: "a \<in> {AssetBTC, AssetETH}" and g: "mz_asset g = a" "mz_hysteresis g" "mz_thresholds g = DefaultHysteresis" "mz_smooth g \<le> 1"
    and utc: "\<forall>r\<in>set (w_regimes w). UTCDay (rs_value_date (r_val r)) = rs_value_date (r_val r)"
      "\<forall>r\<in>set (w_mcap w). UTCDay (mc_value_date (r_val r)) = mc_value_date (r_val r)"
    and days: "UTCDay f = f" "UTCDay t = t" "f \<le> t" "t \<le> add_days f 90000"
    and ne: "live_states a f t (w_regimes w) \<noteq> []"
    and first: "\<exists>p\<in>set (q_prices (coinIDFor a) f (add_days t 200) (w_mcap w)). pa_date p = f"
  shows "\<exists>pts. fst (GetPriceHistory a f (add_days t 200) w) = Inr pts \<and>
    fst (measure_days M g f t w) = Inr (Inr (metrics_report M g f t (toRegimeDays LabelTransition (live_states a f t (w_regimes w))) pts))"
proof -
  let ?S = "live_states a f t (w_regimes w)" and ?t = "add_days t 200" and ?f0 = "add_days f (- 10)"
  let ?pts = "forwardFillDaily (map (\<lambda>p. p\<lparr>pa_date := UTCDay (pa_date p)\<rparr>) (q_prices (coinIDFor a) f ?t (w_mcap w))) f ?t"
  have coin: "coinIDFor a \<noteq> []" "tool_coinIDFor a = coinIDFor a" "a \<in> set asset_codes"
    using a by (auto simp: coinIDFor_def tool_coinIDFor_def AssetBTC_def AssetETH_def asset_codes_def)
  have q: "q_regime_days a f t (w_regimes w) = map live_day ?S"
    by (simp add: q_regime_days_def live_states_def live_day_def)
  have "\<forall>s\<in>set ?S. UTCDay (rs_value_date s) = rs_value_date s"
    using utc(1) by (auto simp: live_states_def where_rows_def dest!: latest_by_mem_table)
  note lab = labels_of_harness[OF this, of LabelTransition]
  have lb: "labelled_days g (map live_day ?S) = Inr (toRegimeDays LabelTransition ?S)"
    using g(2-4) lab DefaultHysteresis_valid by (simp add: labelled_days_def Let_def)
  have fill: "tool_forwardFillDaily (by_day (q_prices (coinIDFor a) ?f0 ?t (w_mcap w))) f ?t = ?pts"
  proof (rule tool_prices_are_harness_prices[OF utc(2)])
    obtain p where p: "p \<in> set (q_prices (coinIDFor a) f ?t (w_mcap w))" "pa_date p = f" using first by blast
    then have "p \<in> set (q_prices (coinIDFor a) ?f0 ?t (w_mcap w))"
      using q_prices_from[of ?f0 f "coinIDFor a" ?t "w_mcap w"] by (simp add: add_days_def day_ns_def)
    then show "\<exists>p\<in>set (q_prices (coinIDFor a) ?f0 ?t (w_mcap w)). pa_date p = f" using p(2) by blast
  qed (use days in \<open>simp_all add: UTCDay_add_days, simp_all add: add_days_def day_ns_def\<close>)
  have "fst (GetPriceHistory a f ?t w) = Inr ?pts"
    using coin ff by (simp add: GetPriceHistory_def bindE_def tool_query_rows_ok)
  moreover have "fst (measure_days M g f t w) = Inr (Inr (metrics_report M g f t (toRegimeDays LabelTransition ?S) ?pts))"
    unfolding measure_days_def orExit_def g(1) coin(2) loadRegimeDays_def tool_loadPrices_def
    using coin(3) ff ne by (simp add: bindE_def attempt_def tool_query_plain_ok q lb fill)
  ultimately show ?thesis by blast
qed

end
