(* ===== verification/ExamplePrograms.thy ===== *)
theory ExamplePrograms
  imports ProgramsRun OrchestratorRun ExampleBacktest
begin

text \<open>Concrete programs: a regime engine with the orchestrator's settings, and a database for the metrics tool.\<close>

definition ex_prog :: "world prog_env" where
  "ex_prog = \<lparr>pz_orch = idle_env, pz_open = \<lambda>u. ret (), pz_jsonb = \<lambda>s. None\<rparr>"

definition ex_regime_yaml :: regime_yaml where
  "ex_regime_yaml = \<lparr>ry_model = ''regime_v1'', ry_assets = [], ry_database = \<lparr>db_url = []\<rparr>, ry_schedule = \<lparr>sd_tick_every = ''24h''\<rparr>,
     ry_aggregation = \<lparr>ay_weights = Map.empty\<rparr>, ry_probability = \<lparr>py_slope = fzero\<rparr>,
     ry_transition = \<lparr>ty_roc_window = 0, ty_roc_weight = fzero, ty_div_weight = fzero, ty_baseline = fzero\<rparr>,
     ry_coverage = \<lparr>gy_min = fzero\<rparr>, ry_smoothing = \<lparr>sy_span = 5\<rparr>\<rparr>"

definition ex_regime_loaded :: "regime_yaml loaded" where
  "ex_regime_loaded = \<lparr>ld_raw = [], ld_version = ''sha256:0'', ld_parsed = ex_regime_yaml\<rparr>"

definition ex_args :: prog_args where
  "ex_args = \<lparr>pa_config = ''regime.yaml'', pa_daemon = False, pa_value_date = ''2024-10-04'', pa_from = [], pa_to = []\<rparr>"

lemma ex_loaded: "config_Load (oz_host (pz_orch ex_prog)) (\<lambda>s. Inr ex_regime_yaml) (pa_config ex_args) = Inr ex_regime_loaded"
  by (simp add: config_Load_def ex_prog_def idle_env_def ex_regime_loaded_def)

lemma ex_same_settings: "same_settings (ld_parsed ex_regime_loaded) ex_orch_config"
  by (simp add: same_settings_def ex_regime_loaded_def ex_regime_yaml_def ex_orch_config_def)

lemma ex_value_date: "parse_day ''2024-10-04'' = Some ex_day"
  unfolding ex_day_def by code_simp

definition ex_metrics_args :: metrics_args where
  "ex_metrics_args = default_metrics_args\<lparr>mz_hysteresis := True\<rparr>"

text \<open>One state and one price, both of the day.\<close>

definition ex_measured :: world where
  "ex_measured = (start_world [])\<lparr>w_regimes := [\<lparr>r_ingested = 500, r_val = ex_state fzero\<rparr>],
     w_mcap := [\<lparr>r_ingested = 500, r_val = \<lparr>mc_value_date = ex_day, mc_coin = ''bitcoin'', mc_cap = fone, mc_price = fone, mc_source = [], mc_hash = []\<rparr>\<rparr>]\<rparr>"

lemma ex_measured_facts:
  "fault_free ex_measured" "live_states AssetBTC ex_day ex_day (w_regimes ex_measured) = [ex_state fzero]"
  "q_prices ''bitcoin'' ex_day (add_days ex_day 200) (w_mcap ex_measured) = [\<lparr>pa_date = ex_day, pa_price = fone\<rparr>]"
  "w_regimes ex_measured = [\<lparr>r_ingested = 500, r_val = ex_state fzero\<rparr>]"
  "\<forall>r\<in>set (w_mcap ex_measured). mc_value_date (r_val r) = ex_day"
  by (simp_all add: ex_measured_def start_world_def fault_free_def live_states_def q_prices_def latest_by_def keys_of_def
      List.map_filter_def ex_state_def f64_eval add_days_def day_ns_def)

lemma ex_metrics_args_facts:
  "mz_asset ex_metrics_args = AssetBTC" "mz_hysteresis ex_metrics_args" "mz_thresholds ex_metrics_args = DefaultHysteresis"
  "mz_smooth ex_metrics_args \<le> 1"
  by (simp_all add: ex_metrics_args_def default_metrics_args_def AssetBTC_def)

lemma ex_measured_days:
  "\<forall>r\<in>set (w_regimes ex_measured). UTCDay (rs_value_date (r_val r)) = rs_value_date (r_val r)"
  "\<forall>r\<in>set (w_mcap ex_measured). UTCDay (mc_value_date (r_val r)) = mc_value_date (r_val r)"
  "ex_day \<le> add_days ex_day 90000" "live_states AssetBTC ex_day ex_day (w_regimes ex_measured) \<noteq> []"
  "\<exists>p\<in>set (q_prices (coinIDFor AssetBTC) ex_day (add_days ex_day 200) (w_mcap ex_measured)). pa_date p = ex_day"
proof -
  have c: "coinIDFor AssetBTC = ''bitcoin''" by (simp add: coinIDFor_def)
  show "\<forall>r\<in>set (w_mcap ex_measured). UTCDay (mc_value_date (r_val r)) = mc_value_date (r_val r)"
    using ex_measured_facts(5) by (simp add: ex_day_UTC)
  show "\<exists>p\<in>set (q_prices (coinIDFor AssetBTC) ex_day (add_days ex_day 200) (w_mcap ex_measured)). pa_date p = ex_day"
    unfolding c ex_measured_facts(3) by simp
  show "live_states AssetBTC ex_day ex_day (w_regimes ex_measured) \<noteq> []" unfolding ex_measured_facts(2) by simp
qed (simp_all add: ex_measured_facts(4) ex_day_UTC add_days_def day_ns_def ex_state_def)

end
