(* ===== verification/Spec2Isabelle.thy ===== *)
theory Spec2Isabelle
  imports ExampleRun LiquidityRun PgLeverage ExampleBacktest PgVolatility PgStress PgFlows OrchestratorRun PgGateway Adapters ExampleNet ExamplePrograms
begin

text \<open>
  A verification library for the market engine: Go services that ingest market data, derive features
  and domain scores from them, and combine the scores into a daily market regime on a bitemporal database.

  The layers.
    \<^item> \<open>Float64\<close> is IEEE binary64 on rationals, rounding to nearest even; \<open>GoMath\<close> is \<open>pkg/math\<close> on it, with exp, log, log1p, tanh
      and pow as a parameter that meets the documented contract (locale \<open>go_libm\<close>, interpreted by the exact
      functions rounded once).  \<open>MathStats\<close> bounds sums, means and deviations; \<open>GoLib\<close> has strings, decimal
      printing and the civil calendar of \<open>time\<close>.
    \<^item> \<open>Prelude\<close> has the calls of the services: a function from a state to an error or a value and a new
      state, their sequencing, and two ways to reason about them: \<open>obeys R\<close> (each step is in \<open>R\<close>; locale \<open>io_rel\<close>)
      and \<open>total_io I\<close> (from \<open>I\<close> the call succeeds and re-establishes \<open>I\<close>).
    \<^item> \<open>Domain\<close> is \<open>internal/domain\<close>.  \<open>RegimePipeline\<close> and \<open>RegimeService\<close> are \<open>internal/regime\<close>.
    \<^item> \<open>Store\<close>, \<open>Storage\<close> and the \<open>Storage*\<close> theories are \<open>internal/storage\<close>: tables are lists of stamped rows, the
      newest last; every statement takes a tick of the clock and may fail by the fault plan of
      the world; \<open>InTx\<close> stamps its rows with the time it began and rolls back on an error.  \<open>evolves\<close> says that a step only appends
      rows stamped within it.
    \<^item> \<open>FeatureLib\<close> has what the domain services share; \<open>Liquidity\<close>, \<open>Leverage\<close>, \<open>CapitalFlows\<close>, \<open>MarketStress\<close> and
      \<open>Volatility\<close>, each but the first with a \<open>*Service\<close> theory, are the services, over records of port functions;
      \<open>PgRegime\<close>, \<open>PgScores\<close>, \<open>PgLiquidity\<close>, \<open>PgLeverage\<close>, \<open>PgFlows\<close>, \<open>PgStress\<close> and \<open>PgVolatility\<close> put the ports on the
      database (\<open>internal/infra/postgres\<close>); \<open>DomainRows\<close> and \<open>LeverageRows\<close> are the rows of the raw tables.  \<open>PgScores\<close> has the locale \<open>scoring_run\<close>, which every domain's \<open>RunOnce\<close> instantiates (and \<open>scored_run\<close> where ingestion saves no feature): a run
      ingests, reads the clock once, derives features, gathers the inputs of each asset and stores its score.

    \<^item> \<open>BacktestMetrics\<close> and \<open>Backtest\<close> are \<open>internal/backtest\<close>: labels with hysteresis, the statistics of a replayed
      history, the service that replays, computes metrics and sweeps a parameter.  \<open>PgBacktest\<close> puts its ports on the
      database and has the gateway's queries of \<open>backtest_reader.go\<close>.  The backtest tables are updated in place
      (\<open>upsert\<close>); \<open>BacktestRun\<close> shows that the harness leaves every other table alone, that its replay is the live computation and that the
      leads of the gateway are its own; \<open>BacktestAgain\<close> gives the tables their view as maps and the effect of a
      computation of metrics on a database without faults.
    \<^item> \<open>Config\<close> is \<open>internal/config\<close> and \<open>Orchestrator\<close> is \<open>cmd/orchestrator\<close>: the services built from a configuration and
      run one after the other.  \<open>OrchestratorRun\<close> composes the successes of the domains and shows what the regime engine of the same run sees.
    \<^item> \<open>Gateway\<close> is \<open>internal/api/http/gateway\<close>, over ports; \<open>PgGateway\<close> has its readers on the database
      (\<open>internal/infra/postgres/gateway\<close>) and shows, by the locale \<open>gw_ports\<close>, that no request writes.

    \<^item> \<open>GoText\<close> and \<open>Json\<close> are what the clients use of \<open>strings\<close>, \<open>strconv\<close>, \<open>fmt\<close>, \<open>time\<close> and \<open>encoding/json\<close>: texts are read
      character by character, structs are decoded field by field.  \<open>HttpClient\<close> is \<open>pkg/httpclient\<close>; \<open>Coinglass\<close>, \<open>Binance\<close>, \<open>Deribit\<close>,
      \<open>Venues\<close> (okx, bybit, kraken, coinbase) and \<open>Sources\<close> (defillama, coinmetrics, coingecko) are the clients under
      \<open>internal/providers\<close> and \<open>internal/repo/webapi\<close>; \<open>Adapters\<close> makes the ports of the domains out of them and gathers all of them as the clients of
      an orchestrator run (\<open>http_clients\<close>).  \<open>TextFacts\<close> shows that printed numbers and JSON texts are read back; \<open>Paging\<close>, \<open>OptionChain\<close> and \<open>Replies\<close>
      show what the clients make of a service that answers as its documentation says; \<open>ExampleNet\<close> has small networks.

    \<^item> \<open>Programs\<close> has the other programs of \<open>cmd\<close> that run one domain, the regime engine or the gateway, \<open>Tools\<close> the backtest runner and the
      loader of market caps, \<open>MetricsTool\<close> the metrics tool and the text it prints.  \<open>ProgramsRun\<close> shows that the regime engine on its own does the
      orchestrator's step, what bad flags, failing ticks and empty histories lead to, and that the tool measures what the harness measures;
      \<open>ExamplePrograms\<close> has concrete ones.

  How the code is rendered.  A struct is a record, \<open>(value, ok)\<close> an option, an error a value of \<open>err\<close>
  with its wrapping; logging is left out.  A \<open>range\<close> over a map takes the order of its keys as an argument.  Times
  are integers of nanoseconds.  A \<open>sql_lib\<close> supplies what SQL leaves to the database: the order of text
  keys, its AVG and its sum of NUMERIC columns.  A \<open>net\<close> supplies what a request is answered, the clock, the pause and SHA-256; a client
  keeps the time of its last request in a cell of the world.  The page counter of the paged backfills is the code's own.  The loops of the clients
  have none: they end when the service does or when the context is cancelled, and a context is rendered as the number of requests that may still be sent, so that a
  fetch with too small a context fails as the code's does; the theorems say how many requests are enough.

  Not modelled: \<open>net/http\<close> below the clients and the gateway's handlers, the repair of invalid UTF-8 in JSON strings and the limit on
  nested JSON values, the parsing of flags, signals and the shutdown of the HTTP server, \<open>cmd/migrate\<close>, goroutines and the fusing
  of multiplication and addition a Go compiler may do, the session time zone, casts of text to UUID, foreign keys to the configurations, column checks other than
  those on scores and probabilities, the aborted state of a transaction after an ignored failure, logging.
\<close>

section \<open>The regime engine on its database\<close>

text \<open>C1 (stored regime states): started on a database whose stored scores lie in [-1, 1] and whose
  regime states are good, \<open>RunOnce\<close> leaves only good states behind, whether it succeeds or fails, for every
  fault plan, visiting order and mathematical library: the indicator is in [-2, 2], the three
  probabilities are finite, in [0, 1] and add up to one within \<open>2^-52\<close>.  No NaN is ever stored.\<close>

theorem RunOnce_keeps_good_states:
  assumes "go_libm M" "\<And>a d. orders_ok (ord a d)" "regime_cfg_ok (Config_Defaults cfg)" "db_ok w"
  shows "db_ok (snd (RunOnce M ord (pg_regime_service cfg assets) vd w))"
  by (rule valid_io_keeps[OF regime_ports.RunOnce_valid[OF pg_is_ports[OF assms(1-3)]] assms(4)])

theorem RunOnce_keeps_good_states_witness:
  "db_ok (snd (RunOnce ideal_libm listed_order (pg_regime_service empty_config []) ex_day (start_world [ex_score DomainLiquidity fone])))"
  by (rule RunOnce_keeps_good_states[OF ideal.go_libm_axioms listed_order_ok Defaults_ok])
    (simp_all add: empty_config_def db_ok_def start_world_def ex_score_def is_f64_consts overflow_def)

text \<open>C2 (one state, one event): a successful run appends, for each configured asset in turn, one
  regime state of that asset and day and one event with the same figures, and leaves the domain scores alone.
  The witness is a complete successful run.\<close>

theorem RunOnce_writes_state_and_event:
  assumes "RunOnce M ord (pg_regime_service cfg assets) vd w = (Inr (), w')"
  shows "wrote_all (if assets = [] then AssetsTradeable else assets) (UTCDay vd) w w'"
  using assms by (rule RunOnce_wrote)

theorem RunOnce_writes_state_and_event_witness:
  "\<exists>w'. RunOnce ideal_libm listed_order (pg_regime_service empty_config [AssetBTC]) ex_day zero_day = (Inr (), w') \<and>
     wrote_all [AssetBTC] (UTCDay ex_day) zero_day w'"
proof -
  obtain w' where "RunOnce ideal_libm listed_order (pg_regime_service empty_config [AssetBTC]) ex_day zero_day = (Inr (), w')"
    using zero_day_runs by blast
  with RunOnce_writes_state_and_event[OF this] show ?thesis by auto
qed

text \<open>C3 (repeatable reads): a run changes nothing a query with an earlier cutoff sees.  The latest
  domain scores, a score on a date and the smoothing trail as of a cutoff before the run are the
  same after it, so a computation as of that cutoff can be repeated.\<close>

theorem RunOnce_keeps_the_past:
  assumes "strict_mono (w_clock w)" "cutoff < w_clock w (w_ticks w)"
    and "w' = snd (RunOnce M ord (pg_regime_service cfg assets) vd w)"
  shows "q_scores a d (w_scores w') cutoff = q_scores a d (w_scores w) cutoff \<and>
    q_score a dm d (w_scores w') cutoff = q_score a dm d (w_scores w) cutoff \<and>
    q_smoothing a d to (w_regimes w') cutoff = q_smoothing a d to (w_regimes w) cutoff"
proof -
  have "evolves w w'" using pg_steps.RunOnce_steps unfolding obeys_def assms(3) by blast
  note as_of = evolves_as_of(6,7)[OF this assms(1,2)]
  show ?thesis by (intro conjI pit_scores.agree pit_score.agree pit_smoothing.agree as_of)
qed

theorem RunOnce_keeps_the_past_witness:
  "q_scores AssetBTC ex_day (w_scores (snd (RunOnce ideal_libm listed_order (pg_regime_service empty_config []) ex_day
     (start_world [ex_score DomainLiquidity fone])))) 900 DomainLiquidity = Some fone"
  using RunOnce_keeps_the_past[of "start_world [ex_score DomainLiquidity fone]" 900 _ ideal_libm listed_order empty_config "[]" ex_day, OF _ _ refl]
  by (simp add: start_world_def strict_mono_def q_scores_def latest_map_def ex_score_def)

text \<open>C4 (failure): a failing \<open>computeOne\<close> leaves every table as it was, or has appended exactly
  one regime state for the asset and day; nothing else is written, in particular no event.\<close>

theorem computeOne_fails_cleanly:
  assumes "computeOne M ord (pg_regime_service cfg assets) a vd c w = (Inl e, w')"
  shows "frozen w' = frozen w \<or>
    (\<exists>row. frozen w' = frozen (w\<lparr>w_regimes := w_regimes w @ [row]\<rparr>) \<and> rs_asset (r_val row) = a \<and> rs_value_date (r_val row) = vd)"
  using assms by (rule computeOne_fails)

theorem computeOne_fails_cleanly_witness:
  "\<exists>e w'. computeOne ideal_libm listed_order (pg_regime_service empty_config []) AssetBTC ex_day 900 (start_world []) = (Inl e, w') \<and>
    w_outbox w' = []"
proof -
  obtain e w' where "computeOne ideal_libm listed_order (pg_regime_service empty_config []) AssetBTC ex_day 900 (start_world []) = (Inl e, w')"
    using ex_sparse by blast
  from this computeOne_fails_cleanly[OF this] show ?thesis by (auto dest!: arg_cong[of _ _ w_outbox] simp: frozen_def start_world_def)
qed

text \<open>C5 (coverage): on a fault-free database, a day with scores for fewer than three of the five
  domains is refused with \<open>ErrInsufficientCoverage\<close>, and nothing is written.\<close>

theorem sparse_day_is_refused:
  assumes "fault_free w" "rc_min_coverage (Config_Defaults cfg) = lit (6 / 10)"
    and "scores = merge_global (q_scores a vd (w_scores w) c) (q_scores AssetGlobal vd (w_scores w) c)"
    and "dom scores \<subseteq> set AllDomains" "card (dom scores) < 3"
  shows "\<exists>e w'. computeOne M ord (pg_regime_service cfg assets) a vd c w = (Inl e, w') \<and>
    errors_Is e ErrInsufficientCoverage \<and> frozen w' = frozen w"
  using assms by (rule pg_sparse_day)

theorem sparse_day_is_refused_witness:
  "\<exists>e w'. computeOne ideal_libm listed_order (pg_regime_service empty_config []) AssetBTC ex_day 900 (start_world []) = (Inl e, w') \<and>
    errors_Is e ErrInsufficientCoverage \<and> frozen w' = frozen (start_world [])"
  by (rule sparse_day_is_refused[OF _ _ ex_scores[symmetric]])
    (simp_all add: empty_config_def Config_Defaults_def or_default_def fault_free_def start_world_def)

text \<open>C6 (round trip): what \<open>Save\<close> stored is what \<open>GetByDate\<close> returns, up to the column encodings
  that drop the sign of zero, provided the clock is ahead of the rows already stored.\<close>

theorem saved_state_is_read_back:
  assumes "RegimeRepo_Save st w = (Inr (), w')" "fault_free w" "\<forall>r\<in>set (w_regimes w). r_ingested r < w_clock w (w_ticks w)"
  shows "fst (RegimeRepo_GetByDate (rs_asset st) (rs_value_date st) w') =
    Inr (st\<lparr>rs_contributions := jsonb_floats (rs_contributions st), rs_top_drivers := map jsonb_driver (rs_top_drivers st),
            rs_weights := jsonb_floats (rs_weights st)\<rparr>)"
  using saved_on_day[OF assms]
  by (simp add: RegimeRepo_GetByDate_def found_or_err_def GetRegimeStateByDate_def row_or_nil_def query_row_def db_read_def
      bindE_def storage_id stored_as_def)

theorem saved_state_is_read_back_witness:
  "\<exists>w'. RegimeRepo_Save (ex_state fzero) (start_world []) = (Inr (), w') \<and>
     (\<exists>s. fst (RegimeRepo_GetByDate AssetBTC ex_day w') = Inr s \<and> rs_transition s = fone)"
proof -
  obtain w' where "RegimeRepo_Save (ex_state fzero) (start_world []) = (Inr (), w')" using ex_Save by blast
  then show ?thesis
    using saved_state_is_read_back[of "ex_state fzero" "start_world []" w'] by (auto simp: ex_state_def fault_free_def start_world_def)
qed

text \<open>Atomic save: when \<open>RegimeRepo.Save\<close> returns an error, whatever the reason (validation,
  encoding, key clash, a fault at begin, statement or commit), no table has changed.\<close>

theorem failed_Save_changes_nothing:
  assumes "RegimeRepo_Save st w = (Inl e, w')"
  shows "frozen w' = frozen w"
  using assms by (auto simp: RegimeRepo_Save_def intro: InTx_error split: option.splits)

theorem failed_Save_changes_nothing_witness:
  "\<exists>e w'. RegimeRepo_Save (ex_state (Fin 2)) (start_world []) = (Inl e, w') \<and> frozen w' = frozen (start_world [])"
proof -
  have "RegimeState_Validate (ex_state (Fin 2)) \<noteq> None" by (simp add: RegimeState_Validate_def ex_state_def Asset_Validate_def)
  then obtain e w' where "RegimeRepo_Save (ex_state (Fin 2)) (start_world []) = (Inl e, w')" by (auto simp: RegimeRepo_Save_def)
  with failed_Save_changes_nothing[OF this] show ?thesis by blast
qed


text \<open>C8 (range check): a state whose indicator exceeds 1.0001 in absolute value is never saved,
  although the pipeline clips the indicator to [-2, 2].  The witness exhibits scores whose weighted sum is 2.\<close>

theorem strong_indicator_is_not_saved:
  assumes "is_finite (rs_indicator st)" "10001 / 10000 < \<bar>qv (rs_indicator st)\<bar>"
  shows "\<exists>e. RegimeRepo_Save st w = (Inl e, w)"
proof -
  have "RegimeState_Validate st \<noteq> None"
  proof
    assume "RegimeState_Validate st = None"
    then show False using assms
      by (cases "rs_indicator st") (auto simp: RegimeState_Validate_None not_less abs_if split: if_splits)
  qed
  then show ?thesis by (auto simp: RegimeRepo_Save_def split: option.splits)
qed

theorem strong_indicator_is_not_saved_witness:
  "fst (snd (weightedSumNormalized AllDomains (\<lambda>d. Some (Fin 3)) default_weights)) = Fin 2 \<and>
   (\<exists>e. RegimeRepo_Save (ex_state (Fin 2)) (start_world []) = (Inl e, start_world []))"
  using strong_indicator_is_not_saved[of "ex_state (Fin 2)" "start_world []"]
  by (simp add: ex_state_def weightedSumNormalized_def default_weights_def AllDomains_def domain_defs mget_def Let_def clip_def f64_eval)

section \<open>The liquidity domain\<close>



text \<open>C10 (one score per asset): a successful run appends to the scores exactly one row per configured asset,
  in order: that asset's liquidity score of the day, finite and in [-1, 1].\<close>

theorem liquidity_scores_in_range:
  assumes "liq_providers_ok sp tp np mp" "liq_RunOnce M (pg_liq_service sp tp np mp cfg assets) vd w = (Inr (), w')"
    "liq_cfg_ok cfg" "go_libm M"
  shows "\<exists>new. w_scores w' = w_scores w @ new \<and>
    list_all2 (\<lambda>a row. ds_asset (r_val row) = a \<and> ds_domain (r_val row) = DomainLiquidity \<and> ds_value_date (r_val row) = UTCDay vd \<and>
        fin_in (- 1) 1 (ds_score (r_val row)))
      (if assets = [] then AssetsTradeable else assets) new"
  using assms by (rule liq_run_scores)

theorem liquidity_scores_in_range_witness:
  "\<exists>w' new. liq_RunOnce ideal_libm (pg_liq_service None None None None ex_liq_config []) ex_day (start_world []) = (Inr (), w') \<and>
     w_scores w' = new \<and> list_all2 (\<lambda>a row. ds_asset (r_val row) = a \<and> fin_in (- 1) 1 (ds_score (r_val row))) [AssetBTC, AssetETH] new"
proof -
  obtain w' where r: "liq_RunOnce ideal_libm (pg_liq_service None None None None ex_liq_config []) ex_day (start_world []) = (Inr (), w')"
    using ex_liq_runs by blast
  from liquidity_scores_in_range[OF offline_ok r ex_liq_config_ok ideal.go_libm_axioms] obtain new where
    "w_scores w' = new" "list_all2 (\<lambda>a row. ds_asset (r_val row) = a \<and> ds_domain (r_val row) = DomainLiquidity \<and>
       ds_value_date (r_val row) = UTCDay ex_day \<and> fin_in (- 1) 1 (ds_score (r_val row))) [AssetBTC, AssetETH] new"
    by (auto simp: start_world_def AssetsTradeable_def)
  then show ?thesis using r by (intro exI[of _ w'] exI[of _ new]) (auto elim: list_all2_mono)
qed

text \<open>C11 (a run does not see its own features): the cutoff of \<open>RunOnce\<close> is read from the clock
  before the features of the day are computed, and a saved feature is stamped with the later time at
  which it is saved.  So on a day without stored features the run's look-ups find nothing, and every score it
  stores is zero, whatever the raw data: the features it has just derived count only for a later run.\<close>

theorem liquidity_first_run_scores_zero:
  assumes "liq_providers_ok sp tp np mp" "liq_RunOnce M (pg_liq_service sp tp np mp cfg assets) vd w = (Inr (), w')"
    "liq_cfg_ok cfg" "strict_mono (w_clock w)" "\<forall>r\<in>set (w_features w). ft_value_date (r_val r) \<noteq> UTCDay vd"
  shows "\<exists>new. w_scores w' = w_scores w @ new \<and>
    list_all2 (\<lambda>a row. ds_asset (r_val row) = a \<and> feq (ds_score (r_val row)) fzero)
      (if assets = [] then AssetsTradeable else assets) new"
  using assms by (rule liq_first_run)

theorem liquidity_first_run_scores_zero_witness:
  "\<exists>w' new. liq_RunOnce ideal_libm (pg_liq_service None None None None ex_liq_config []) ex_day (start_world []) = (Inr (), w') \<and>
     w_scores w' = new \<and> list_all2 (\<lambda>a row. ds_asset (r_val row) = a \<and> feq (ds_score (r_val row)) fzero) [AssetBTC, AssetETH] new"
proof -
  obtain w' where r: "liq_RunOnce ideal_libm (pg_liq_service None None None None ex_liq_config []) ex_day (start_world []) = (Inr (), w')"
    using ex_liq_runs by blast
  from liquidity_first_run_scores_zero[OF offline_ok r ex_liq_config_ok] have
    "\<exists>new. w_scores w' = new \<and> list_all2 (\<lambda>a row. ds_asset (r_val row) = a \<and> feq (ds_score (r_val row)) fzero) [AssetBTC, AssetETH] new"
    by (simp add: start_world_def AssetsTradeable_def strict_mono_def)
  then show ?thesis using r by blast
qed

section \<open>The leverage domain\<close>

text \<open>A leverage run succeeds: on a database without faults, with a configuration in range, known
  assets and a model version, a run of the leverage service succeeds once its ingestion has.\<close>

theorem leverage_run_succeeds:
  assumes "go_libm M" "lev_cfg_ok cfg" "vc_model_version cfg \<noteq> []" "\<forall>a\<in>set assets. Asset_Validate a = None" "UTCDay vd \<noteq> zero_time"
    "lev_providers_ok P" "healthy w"
    "fst (lev_ingestAll ord (pg_lev_service L P cfg assets) (add_days (UTCDay vd) (- 7)) (UTCDay vd) w) = Inr ()"
  shows "\<exists>w'. lev_RunOnce M ord (pg_lev_service L P cfg assets) vd w = (Inr (), w') \<and> healthy w'"
  using assms by (rule lev_run_succeeds)

theorem leverage_run_succeeds_witness:
  "\<exists>w'. lev_RunOnce ideal_libm sorted_list_of_set (pg_lev_service ex_sql_lib offline_lev ex_lev_config []) ex_day (start_world []) = (Inr (), w') \<and> healthy w'"
  by (rule leverage_run_succeeds[OF ideal.go_libm_axioms ex_lev_config_ok _ _ _ offline_lev_ok start_healthy offline_lev_ingest])
    (simp_all add: ex_lev_config_def ex_day_def UTCDay_def day_of_def day_ns_def zero_time_def)

text \<open>One leverage score per asset: a successful run appends to the scores exactly one row per configured asset,
  in order: that asset's leverage score of the day, finite and in [-1, 1], for every combination of
  available features.\<close>

theorem leverage_scores_in_range:
  assumes "lev_providers_ok P" "lev_RunOnce M ord (pg_lev_service L P cfg assets) vd w = (Inr (), w')" "lev_cfg_ok cfg" "go_libm M"
  shows "\<exists>new. w_scores w' = w_scores w @ new \<and>
    list_all2 (\<lambda>a row. ds_asset (r_val row) = a \<and> ds_domain (r_val row) = DomainLeverage \<and> ds_value_date (r_val row) = UTCDay vd \<and>
        fin_in (- 1) 1 (ds_score (r_val row)))
      (if assets = [] then AssetsTradeable else assets) new"
  using assms by (rule lev_run_scores)

theorem leverage_scores_in_range_witness:
  "\<exists>w' new. lev_RunOnce ideal_libm sorted_list_of_set (pg_lev_service ex_sql_lib offline_lev ex_lev_config []) ex_day (start_world []) = (Inr (), w') \<and>
     w_scores w' = new \<and> list_all2 (\<lambda>a row. ds_asset (r_val row) = a \<and> fin_in (- 1) 1 (ds_score (r_val row))) [AssetBTC, AssetETH] new"
proof -
  obtain w' where r: "lev_RunOnce ideal_libm sorted_list_of_set (pg_lev_service ex_sql_lib offline_lev ex_lev_config []) ex_day (start_world []) = (Inr (), w')"
    using ex_lev_runs by blast
  obtain new where "w_scores w' = w_scores (start_world []) @ new" "list_all2 (\<lambda>a row. ds_asset (r_val row) = a \<and> ds_domain (r_val row) = DomainLeverage \<and>
      ds_value_date (r_val row) = UTCDay ex_day \<and> fin_in (- 1) 1 (ds_score (r_val row))) [AssetBTC, AssetETH] new"
    using leverage_scores_in_range[OF offline_lev_ok r ex_lev_config_ok ideal.go_libm_axioms] by (auto simp: AssetsTradeable_def)
  then show ?thesis using r by (intro exI[of _ w'] exI[of _ new]) (auto simp: start_world_def elim: list_all2_mono)
qed

text \<open>A leverage run does not see its own features: as in the liquidity domain the cutoff is read
  before the features are saved, so on a day without stored leverage features every score of the run is zero.\<close>

theorem leverage_first_run_scores_zero:
  assumes "lev_providers_ok P" "lev_RunOnce M ord (pg_lev_service L P cfg assets) vd w = (Inr (), w')" "lev_cfg_ok cfg" "strict_mono (w_clock w)"
    "\<forall>r\<in>set (dtable ''features_leverage'' w). ft_value_date (r_val r) \<noteq> UTCDay vd"
  shows "\<exists>new. w_scores w' = w_scores w @ new \<and>
    list_all2 (\<lambda>a row. ds_asset (r_val row) = a \<and> feq (ds_score (r_val row)) fzero) (if assets = [] then AssetsTradeable else assets) new"
  using assms by (rule lev_first_run)

theorem leverage_first_run_scores_zero_witness:
  "\<exists>w' new. lev_RunOnce ideal_libm sorted_list_of_set (pg_lev_service ex_sql_lib offline_lev ex_lev_config []) ex_day (start_world []) = (Inr (), w') \<and>
     w_scores w' = new \<and> list_all2 (\<lambda>a row. ds_asset (r_val row) = a \<and> feq (ds_score (r_val row)) fzero) [AssetBTC, AssetETH] new"
proof -
  obtain w' where r: "lev_RunOnce ideal_libm sorted_list_of_set (pg_lev_service ex_sql_lib offline_lev ex_lev_config []) ex_day (start_world []) = (Inr (), w')"
    using ex_lev_runs by blast
  have "strict_mono (w_clock (start_world []))" using start_healthy[of "[]"] by (simp add: healthy_def)
  from leverage_first_run_scores_zero[OF offline_lev_ok r ex_lev_config_ok this]
  show ?thesis using r by (auto simp: AssetsTradeable_def start_world_def dtable_def List.map_filter_def)
qed



section \<open>The volatility, market stress and capital flows domains\<close>








section \<open>The daily pipeline\<close>



section \<open>The programs\<close>



text \<open>C18 (the metrics tool and the harness): on a database without faults whose dates are days, with the hysteresis labels of
  the harness and without smoothing, \<open>backtest-metrics\<close> reports on the labelled days the harness would make of the stored states
  and on the prices the harness's price reader returns, provided there is a price on the first day (otherwise it also fills in
  from up to ten days before).\<close>

theorem metrics_tool_measures_as_harness:
  assumes "fault_free w" "a \<in> {AssetBTC, AssetETH}" "mz_asset g = a" "mz_hysteresis g" "mz_thresholds g = DefaultHysteresis" "mz_smooth g \<le> 1"
    and "\<forall>r\<in>set (w_regimes w). UTCDay (rs_value_date (r_val r)) = rs_value_date (r_val r)"
      "\<forall>r\<in>set (w_mcap w). UTCDay (mc_value_date (r_val r)) = mc_value_date (r_val r)"
    and "UTCDay f = f" "UTCDay t = t" "f \<le> t" "t \<le> add_days f 90000" "live_states a f t (w_regimes w) \<noteq> []"
    and "\<exists>p\<in>set (q_prices (coinIDFor a) f (add_days t 200) (w_mcap w)). pa_date p = f"
  shows "\<exists>pts. fst (GetPriceHistory a f (add_days t 200) w) = Inr pts \<and>
    fst (measure_days M g f t w) = Inr (Inr (metrics_report M g f t (toRegimeDays LabelTransition (live_states a f t (w_regimes w))) pts))"
  using assms by (rule tool_measures_as_harness)

theorem metrics_tool_measures_as_harness_witness:
  "\<exists>pts. fst (GetPriceHistory AssetBTC ex_day (add_days ex_day 200) ex_measured) = Inr pts \<and>
    fst (measure_days ideal_libm ex_metrics_args ex_day ex_day ex_measured) =
      Inr (Inr (metrics_report ideal_libm ex_metrics_args ex_day ex_day (toRegimeDays LabelTransition [ex_state fzero]) pts))"
  using metrics_tool_measures_as_harness[OF ex_measured_facts(1) _ ex_metrics_args_facts ex_measured_days(1,2) ex_day_UTC ex_day_UTC order_refl
      ex_measured_days(3-5), of ideal_libm]
  unfolding ex_measured_facts(2) by blast

section \<open>The HTTP gateway\<close>


text \<open>C20 (what was saved is served): after a successful \<open>Save\<close> of a state with finite figures, a request for the
  contributions of its day and asset, in whatever case the asset is written, is answered with status 200 and the presentation of
  that state, with the sign of zero dropped by the columns.\<close>

theorem gateway_serves_saved_state:
  assumes "RegimeRepo_Save st w = (Inr (), w')" "fault_free w" "\<forall>r\<in>set (w_regimes w). r_ingested r < w_clock w (w_ticks w)"
    and "list_all is_finite [rs_indicator st, rs_indicator_raw st, rs_risk_on st, rs_risk_off st, rs_transition st]"
    and "rq_method r = ''GET''" "rq_path r = [''regime'', s, ''contributions'']" "map char_upper (rq_query r ''asset'') = rs_asset st"
    and "Asset_IsTradeable (rs_asset st)" "parse_day s = Some (rs_value_date st)"
  shows "fst (Routes (pg_gateway E) r w') = Inr \<lparr>re_status = 200,
    re_headers = cors_headers @ [(''Content-Type'', ''application/json; charset=utf-8'')], re_body = Json (regimeStateToJSON (stored_as st))\<rparr>"
  using assms by (rule serves_saved_state)

theorem gateway_serves_saved_state_witness:
  "\<exists>w'. RegimeRepo_Save (ex_state fzero) ex_bt_world = (Inr (), w') \<and>
    fst (Routes (pg_gateway (\<lambda>e. [])) \<lparr>rq_method = ''GET'', rq_path = [''regime'', ''2024-10-04'', ''contributions''],
      rq_query = \<lambda>k. if k = ''asset'' then ''btc'' else []\<rparr> w') =
    Inr \<lparr>re_status = 200, re_headers = cors_headers @ [(''Content-Type'', ''application/json; charset=utf-8'')],
      re_body = Json (regimeStateToJSON (stored_as (ex_state fzero)))\<rparr>"
proof -
  let ?r = "\<lparr>rq_method = ''GET'', rq_path = [''regime'', ''2024-10-04'', ''contributions''],
      rq_query = \<lambda>k. if k = ''asset'' then ''btc'' else []\<rparr>"
  obtain w' where w': "RegimeRepo_Save (ex_state fzero) ex_bt_world = (Inr (), w')" using ex_bt_Save by blast
  have st: "parse_day ''2024-10-04'' = Some (rs_value_date (ex_state fzero))" "map char_upper ''btc'' = rs_asset (ex_state fzero)"
    "Asset_IsTradeable (rs_asset (ex_state fzero))" unfolding ex_state_def regime_state.simps by code_simp+
  have fin: "list_all is_finite [rs_indicator (ex_state fzero), rs_indicator_raw (ex_state fzero), rs_risk_on (ex_state fzero),
      rs_risk_off (ex_state fzero), rs_transition (ex_state fzero)]" by (simp add: ex_state_def f64_eval)
  have old: "\<forall>r\<in>set (w_regimes ex_bt_world). r_ingested r < w_clock ex_bt_world (w_ticks ex_bt_world)"
    by (simp add: ex_bt_world_def bt_tables_def start_world_def world.extend_def bt_world.fields_def)
  have q: "rq_query ?r ''asset'' = ''btc''" by simp
  from gateway_serves_saved_state[OF w' ex_bt_facts(1) old fin, of ?r "''2024-10-04''" "\<lambda>e. []", unfolded q] st w'
  show ?thesis by simp
qed

section \<open>The data services\<close>



text \<open>C22 (funding rates of OKX): against a service that answers as documented (the newest hundred records, with
  \<open>before\<close> those newer than the record named), \<open>FetchFundingRateHistory\<close> never gets past the newest hundred
  records: when one of them is older than the start it returns those from the start on, otherwise it returns the newest hundred, then
  again all of them but the last, and so on, so that the newest record comes a hundred times and a longer history never.\<close>

theorem okx_funding_never_goes_back:
  assumes "okx_serves e c inst P" "okx_sound P" "min 100 (length P) < ctx"
  shows "\<exists>pts w'. okx_FetchFundingRateHistory e c ctx inst since w = (Inr pts, w') \<and>
    map okx_point_view pts = map okx_view (okx_collected (unix_milli since) P)"
  using assms by (rule okx_funding_collects)

theorem okx_funding_never_goes_back_witness:
  "\<exists>pts w'. okx_FetchFundingRateHistory (scripted rate_replies) ex_okx 4 ''BTC-USDT-SWAP'' (UnixMilli 5) () = (Inr pts, w') \<and>
     map okx_point_view pts =
       [(UnixMilli 30, Fin 3), (UnixMilli 20, Fin 2), (UnixMilli 10, Fin 1), (UnixMilli 30, Fin 3), (UnixMilli 20, Fin 2), (UnixMilli 30, Fin 3)]"
  using okx_funding_never_goes_back[OF ex_okx_serves ex_okx_sound, of 4 "UnixMilli 5" "()"]
  by (simp only: unix_milli_UnixMilli ex_okx_collected) (simp add: three_rates_def)

text \<open>C23 (open interest of OKX ends): whatever a service answers to a cursor, well formed pages whose
  stamps come from a finite set \<open>T\<close> end the loop after at most \<open>card T + 1\<close> requests, because a page without
  a new stamp ends it; each point is of a day of \<open>T\<close>, and there are no more points than stamps.\<close>

theorem okx_open_interest_ends:
  assumes "okx_oi_serves e c currency T" "finite T" "card T < ctx"
  shows "\<exists>pts w'. okx_FetchOpenInterest e c ctx currency w = (Inr pts, w') \<and> length pts \<le> card T \<and>
    xoi_date ` set pts \<subseteq> (\<lambda>t. UTCDay (UnixMilli t)) ` T"
  using assms by (rule okx_oi_ends)

theorem okx_open_interest_ends_witness:
  "\<exists>pts w'. okx_FetchOpenInterest (scripted (\<lambda>_. stale_page)) ex_okx 2 ''BTC'' () = (Inr pts, w') \<and> length pts \<le> 1 \<and>
     xoi_date ` set pts \<subseteq> {UTCDay (UnixMilli 5)}"
  using okx_open_interest_ends[OF stale_page_serves, of 2 "()"] by simp



text \<open>One open interest point a day: whatever the service answers, the open interest of Binance has at most one point per
  day, each at midnight: rows of the history that fall on a day already seen, and the snapshot of such a day, are dropped.\<close>

theorem binance_one_point_a_day:
  "case bn_FetchOpenInterest e c ctx symbol w of (Inl er, w') \<Rightarrow> True
   | (Inr pts, w') \<Rightarrow> distinct (map bno_date pts) \<and> list_all (\<lambda>p. UTCDay (bno_date p) = bno_date p) pts"
  using oi_one_point_a_day[of e c ctx symbol w] by (auto split: prod.split sum.split)

text \<open>Requests keep their distance: with a clock that does not run backwards, two requests of a throttled client, one after the
  other and whatever their results, are recorded at least the throttle apart.\<close>

theorem requests_keep_their_distance:
  assumes "steady e (hc_cell c) clk" "0 < hc_throttle c" "hc_throttle c < 2 ^ 63"
    and "Get e c m path w = (r, w1)" "Get e c n path' w1 = (r', w2)" "0 < n"
  shows "ce_get (hc_cell c) w1 + hc_throttle c \<le> ce_get (hc_cell c) w2"
  using assms by (rule Get_apart)

theorem requests_keep_their_distance_witness:
  "ce_get ticking_cell (snd (Get ticking (okx_New ticking_cell [] 0) 1 ''/a'' (0, 0))) + 200000000 \<le>
     ce_get ticking_cell (snd (Get ticking (okx_New ticking_cell [] 0) 1 ''/b'' (snd (Get ticking (okx_New ticking_cell [] 0) 1 ''/a'' (0, 0)))))"
proof -
  have c: "hc_cell (okx_New ticking_cell [] 0) = ticking_cell" "hc_throttle (okx_New ticking_cell [] 0) = 200000000"
    by (simp_all add: okx_New_def New_def WithBaseURL_def WithTimeout_def WithThrottle_def millisecond_ns_def)
  show ?thesis
    using requests_keep_their_distance[of ticking "okx_New ticking_cell [] 0" fst, unfolded c, OF ticking_steady _ _ surjective_pairing surjective_pairing]
    by simp
qed

text \<open>C25 (what was printed is read): the client of Coinglass returns exactly the rows of a reply printed as JSON, in order:
  the day of the stamp, the number as \<open>strconv\<close> reads it, the hash of the fields.  Reading JSON text, the struct
  decoding by field names and the parsing of integers are part of it.\<close>

theorem coinglass_reply_read_back:
  assumes "Get e c ctx (''/futures/open-interest/history?symbol='' @ symbol @ ''&exchange='' @ exchange @ ''&interval=1d&limit='' @ itoa limit) w =
      (Inr (json_text (cg_reply ''0'' msg (rows_json oi_row_json rows))), w')"
    and "list_all (\<lambda>r. min_int64 \<le> fst r \<and> fst r \<le> max_int64 \<and> number_literal (snd r)) rows"
  shows "cg_FetchOIHistory e c ctx symbol exchange limit w = (Inr (map (oi_point_of_row e symbol exchange) rows), w')"
  using assms by (rule oi_history_read)

theorem coinglass_reply_read_back_witness:
  "cg_FetchOIHistory (scripted (\<lambda>_. json_text (cg_reply ''0'' ''success'' (rows_json oi_row_json [(5, itoa 7), (9, itoa 8)]))))
     (cg_New unit_cell ''key'' 0) 1 ''BTCUSDT'' ''Binance'' 2 () =
   (Inr (map (oi_point_of_row (scripted (\<lambda>_. json_text (cg_reply ''0'' ''success'' (rows_json oi_row_json [(5, itoa 7), (9, itoa 8)]))))
      ''BTCUSDT'' ''Binance'') [(5, itoa 7), (9, itoa 8)]), ())"
proof -
  show ?thesis
    by (rule coinglass_reply_read_back[where msg = "''success''"]; (rule scripted_Get[OF _ refl])?)
      (simp_all add: number_literal_itoa min_int64_def max_int64_def)
qed

text \<open>C26 (names of options): the name the venue gives an option, currency, day, strike and side, is read back as the strike, the midnight of
  the expiry day and the side.\<close>

theorem option_name_read_back:
  assumes "CHR ''-'' \<notin> set cur" "2000 \<le> y" "y < 2069" "1 \<le> m" "m \<le> 12" "1 \<le> d" "int d \<le> days_in (int m) (int y)" "0 < k" "k < 2 ^ 53"
  shows "parseOptionName (option_name cur y m d k put) =
    Some (Fin (of_nat k), unix_milli (day_of_civil (int y) (int m) (int d) * day_ns), put)"
  using assms by (rule parse_option_name)

theorem option_name_read_back_witness:
  "option_name ''BTC'' 2025 6 27 100000 False = ''BTC-27JUN25-100000-C'' \<and>
   parseOptionName (option_name ''BTC'' 2025 6 27 100000 False) = Some (Fin 100000, 1750982400000, False)"
proof
  have "dec 27 = ''27''" "dec 25 = ''25''" "dec 100000 = ''100000''" by (simp_all add: dec.simps dig_def)
  moreover have "ToUpper ''jun'' = ''JUN''" by code_simp
  ultimately show "option_name ''BTC'' 2025 6 27 100000 False = ''BTC-27JUN25-100000-C''"
    by (simp add: option_name_def date_code_def month_names_def pad0_def)
  have "unix_milli (day_of_civil 2025 6 27 * day_ns) = 1750982400000" by code_simp
  then show "parseOptionName (option_name ''BTC'' 2025 6 27 100000 False) = Some (Fin 100000, 1750982400000, False)"
    using option_name_read_back[of "''BTC''" 2025 6 27 100000 False] by (simp add: days_in_def)
qed

text \<open>C27 (the skew): where volatilities are positive, as \<open>FetchOptionsSummary\<close> makes sure, and the price is, the skew is the
  difference of the volatilities of a put and a call within twenty days of thirty days to expiry, such that no option of the same side is nearer to
  thirty days, or as near and nearer to its target strike (ninety and a hundred and ten percent of the price); there is no skew exactly when one side
  has no option so near.\<close>

theorem skew_of_nearest_options:
  assumes "opts \<noteq> []" "list_all (\<lambda>q. flt fzero (su_iv q)) opts" "flt fzero (su_underlying (hd opts))"
  shows "case ComputeIVSkew now opts of
      None \<Rightarrow> list_all (\<lambda>q. \<not> side_near now True q) opts \<or> list_all (\<lambda>q. \<not> side_near now False q) opts
    | Some x \<Rightarrow> \<exists>p c. chosen now (fmul (lit (90 / 100)) (su_underlying (hd opts))) True opts p \<and>
        chosen now (fmul (lit (110 / 100)) (su_underlying (hd opts))) False opts c \<and> x = fsub (su_iv p) (su_iv c)"
  using assms by (rule skew_of_chosen)

theorem skew_of_nearest_options_witness:
  "ComputeIVSkew 0 ex_chain = Some (Fin 10) \<and> (\<exists>p c. chosen 0 (fmul (lit (90 / 100)) (Fin 100)) True ex_chain p \<and>
     chosen 0 (fmul (lit (110 / 100)) (Fin 100)) False ex_chain c \<and> Fin 10 = fsub (su_iv p) (su_iv c))"
proof -
  have u: "su_underlying (hd ex_chain) = Fin 100" by (simp add: ex_chain_def ex_option_def)
  have "ex_chain \<noteq> []" "list_all (\<lambda>q. flt fzero (su_iv q)) ex_chain" by (simp_all add: ex_chain_def ex_option_def)
  note chain = skew_of_nearest_options[OF this, of 0, unfolded u ex_chain_skew option.case]
  show ?thesis by (rule conjI[OF ex_chain_skew chain]) simp
qed

section \<open>The regime pipeline\<close>

text \<open>C28 (probabilities): for every library satisfying the documented contract of \<open>math.Exp\<close>,
  every finite indicator and steepness and every transition risk in [0, 1], the two probabilities are
  finite, in [0, 1], and add up to one with the transition risk, within \<open>2^-52\<close>.\<close>

theorem probabilities_sum_to_one:
  assumes "go_libm M" "fin_in 0 1 tr" "is_finite k" "is_finite ind"
  shows "fin_in 0 1 (fst (finalProbabilities M ind tr k)) \<and> fin_in 0 1 (snd (finalProbabilities M ind tr k)) \<and>
    \<bar>qv (fst (finalProbabilities M ind tr k)) + qv (snd (finalProbabilities M ind tr k)) + qv tr - 1\<bar> \<le> 1 / 2 ^ 52"
proof -
  have "fmul k ind \<noteq> NaN" using assms(3,4) by (cases k; cases ind) (auto simp: zero_of_def)
  then show ?thesis
    using go_libm.finalProbabilities_range[OF assms(1,2)] go_libm.finalProbabilities_sum[OF assms(1,2)] by blast
qed

theorem probabilities_sum_to_one_witness:
  "fin_in 0 1 (fst (finalProbabilities ideal_libm (Fin 2) (Fin (1 / 4)) (Fin (3 / 2))))"
  using probabilities_sum_to_one[OF ideal.go_libm_axioms, of "Fin (1 / 4)" "Fin (3 / 2)" "Fin 2"] by (simp add: overflow_def)

text \<open>Transition risk: for the inputs the service gathers, the transition risk is a number in
  [0, 1]; when momentum was checked and points one way it is at most 0.7.\<close>

theorem transition_risk_in_unit_interval:
  assumes "go_libm M" "regime_cfg_ok cfg" "inputs_in nrm inp" "\<forall>v\<in>ran nrm. fin_in (- (2 powi 538)) (2 powi 538) v"
  shows "fin_in 0 1 (computeTransitionRisk M inp cfg) \<and>
    (ti_checked inp \<and> ti_same_direction inp \<longrightarrow> \<not> flt (lit (7 / 10)) (computeTransitionRisk M inp cfg))"
proof (rule conjI)
  show "fin_in 0 1 (computeTransitionRisk M inp cfg)"
  proof (rule go_libm.computeTransitionRisk_in[OF assms(1), where B = 32 and k = 5 and C = "2 powi 538" and k' = 538])
    show "fin_in 0 1 (rc_roc_weight cfg)" "fin_in 0 1 (rc_div_weight cfg)" "is_finite (rc_baseline cfg)" "is_f64 (rc_baseline cfg)"
      using assms(2) unfolding regime_cfg_ok_def by blast+
    show "\<And>x. x \<in> ran (ti_normalized inp) \<Longrightarrow> fin_in (- (2 powi 538)) (2 powi 538) x"
      using assms(3,4) unfolding inputs_in_def by blast
  qed (use assms(3) in \<open>auto simp: inputs_in_def\<close>)
  show "ti_checked inp \<and> ti_same_direction inp \<longrightarrow> \<not> flt (lit (7 / 10)) (computeTransitionRisk M inp cfg)"
    using computeTransitionRisk_discount by blast
qed

theorem transition_risk_in_unit_interval_witness:
  "fin_in 0 1 (computeTransitionRisk ideal_libm \<lparr>ti_normalized = [DomainLiquidity \<mapsto> fone, DomainLeverage \<mapsto> fneg fone],
     ti_roc = [fone], ti_hist_rocs = [], ti_hist_divs = [], ti_same_direction = False, ti_checked = True\<rparr> (Config_Defaults empty_config))"
proof -
  let ?nrm = "[DomainLiquidity \<mapsto> fone, DomainLeverage \<mapsto> fneg fone]"
  have n: "\<forall>v\<in>ran ?nrm. fin_in (- (2 powi 538)) (2 powi 538) v"
  proof -
    have "(1::rat) \<le> 2 powi 538" using two_powi_le_iff[of 0 538, where 'a = rat] by simp
    moreover have "ran ?nrm \<subseteq> {fone, fneg fone}" by (auto simp: ran_def split: if_splits)
    moreover have "fin_in (- 1) 1 fone" "fin_in (- 1) 1 (fneg fone)" by (simp_all add: f64_eval)
    ultimately show ?thesis using fin_in_mono[of "- 1" 1 _ "- (2 powi 538)" "2 powi 538"] by fastforce
  qed
  have "regime_cfg_ok (Config_Defaults empty_config)" by (rule Defaults_ok) (simp_all add: empty_config_def)
  from transition_risk_in_unit_interval[OF ideal.go_libm_axioms this _ n] show ?thesis by (simp add: inputs_in_def overflow_def)
qed




text \<open>Normalisation: scores in [-1, 1] over a history in [-1, 1] normalise to finite values,
  however small the deviation of the history is.\<close>

theorem normalized_scores_defined:
  assumes "normalizeScores scores histories n d = Some v" "\<forall>s\<in>ran scores. fin_in (- 1) 1 s"
    and "\<forall>x\<in>set (mget [] histories d). fin_in (- 1) 1 x \<and> is_f64 x" "length (mget [] histories d) < 2 ^ 52"
  shows "is_finite v \<and> \<bar>qv v\<bar> \<le> 2 powi 538"
proof -
  have s: "\<And>s. scores d = Some s \<Longrightarrow> fin_in (- 1) 1 s" using assms(2) by (meson ranI)
  have h: "\<And>x. x \<in> set (mget [] histories d) \<Longrightarrow> fin_in (- 1) 1 x \<and> is_f64 x" using assms(3) by blast
  show ?thesis by (rule fin_in_abs[OF normalizeScores_in[OF assms(1) s h assms(4)]])
qed

theorem normalized_scores_defined_witness:
  "\<exists>v. normalizeScores [DomainLiquidity \<mapsto> fone] [DomainLiquidity \<mapsto> [fzero, fone]] 2 DomainLiquidity = Some v \<and> is_finite v"
proof -
  let ?n = "normalizeScores [DomainLiquidity \<mapsto> fone] [DomainLiquidity \<mapsto> [fzero, fone]] 2"
  have "DomainLiquidity \<in> dom ?n" by (simp only: normalizeScores_dom) simp
  then obtain v where "?n DomainLiquidity = Some v" by blast
  with normalized_scores_defined[OF this] show ?thesis by (simp add: mget_def is_f64_consts overflow_def)
qed

text \<open>Smoothing: the exponential average of values in a symmetric or one-sided dyadic range
  stays in it, rounding included; without a span or a history it is the raw value.\<close>

theorem smoothing_stays_in_range:
  assumes "fin_in l B raw" "\<forall>p\<in>set prev. fin_in l B p" "n < 2 ^ 52" "B = 2 powi k" "0 \<le> k" "k \<le> 900" "l = 0 \<or> l = - B"
  shows "fin_in l B (emaSmooth raw prev n) \<and> (n \<le> 1 \<or> prev = [] \<longrightarrow> emaSmooth raw prev n = raw)"
  using emaSmooth_in[OF assms(1) _ assms(3-7)] assms(2) by (auto simp: emaSmooth_def)

theorem smoothing_stays_in_range_witness: "fin_in (- 2) 2 (emaSmooth (Fin 2) [fzero, Fin (- 2)] 21)"
  using smoothing_stays_in_range[of "- 2" 2 "Fin 2" "[fzero, Fin (- 2)]" 21 1] by (simp add: overflow_def)

text \<open>C31 (drivers): the top drivers are the contributions, each once, in descending order of
  magnitude, with shares in [0, 1].\<close>

theorem drivers_ranked:
  assumes "enumerates ks c" "\<forall>d\<in>set ks. fin_in (- B) B (mget fzero c d) \<and> is_f64 (mget fzero c d)"
    and "dyadic B" "length ks < 2 ^ 53"
  shows "mset (map (\<lambda>t. (td_domain t, td_contribution t)) (buildTopDrivers ks c)) = mset (map (\<lambda>d. (d, mget fzero c d)) ks) \<and>
    sorted_wrt (\<lambda>s t. \<not> flt (fabs (td_contribution s)) (fabs (td_contribution t))) (buildTopDrivers ks c) \<and>
    (\<forall>t\<in>set (buildTopDrivers ks c). fin_in 0 1 (td_share t))"
proof (intro conjI ballI)
  show "sorted_wrt (\<lambda>s t. \<not> flt (fabs (td_contribution s)) (fabs (td_contribution t))) (buildTopDrivers ks c)"
    by (rule buildTopDrivers_sorted) (use assms(2) fin_in_not_NaN in blast)
  show "fin_in 0 1 (td_share t)" if "t \<in> set (buildTopDrivers ks c)" for t
    by (rule buildTopDrivers_share[OF _ _ assms(3,4) that]) (use assms(2) in blast)+
qed (rule buildTopDrivers_perm)

theorem drivers_ranked_witness:
  "sorted_wrt (\<lambda>s t. \<not> flt (fabs (td_contribution s)) (fabs (td_contribution t)))
     (buildTopDrivers [DomainLiquidity, DomainLeverage] [DomainLiquidity \<mapsto> fone, DomainLeverage \<mapsto> Fin (- 2)])"
  using drivers_ranked[of "[DomainLiquidity, DomainLeverage]" "[DomainLiquidity \<mapsto> fone, DomainLeverage \<mapsto> Fin (- 2)]" 2]
  by (simp add: enumerates_def domain_defs mget_def overflow_def insert_commute is_f64_consts rq_minus dyadic_rq[OF dyadic_2])

text \<open>With the default minimum coverage of 0.6 exactly the days with fewer than
  three scored domains fall below it, rounding included.\<close>

theorem coverage_threshold:
  assumes "dom scores \<subseteq> set AllDomains"
  shows "flt (coverageFraction scores) (rc_min_coverage (Config_Defaults empty_config)) \<longleftrightarrow> card (dom scores) < 3"
  using coverageFraction_threshold[OF assms] by (simp add: empty_config_def Config_Defaults_def or_default_def)

theorem coverage_threshold_witness:
  "flt (coverageFraction [DomainLiquidity \<mapsto> fone]) (rc_min_coverage (Config_Defaults empty_config))"
  using coverage_threshold[of "[DomainLiquidity \<mapsto> fone]"] by (simp add: AllDomains_def)

text \<open>History: at most one rate of change and one dispersion per day of the lookback, bounded
  by twice and four times the bound of the series.\<close>

theorem historical_series_bounded:
  assumes "\<forall>p\<in>set series. fin_in (- B) B (ip_indicator p)" "B = 2 powi k" "0 \<le> k" "k \<le> 390" "0 < win" "win < 2 ^ 53"
    and "computeHistoricalRocDiv series vd win n = (rocs, divs)"
  shows "length rocs \<le> nat n \<and> length divs \<le> nat n \<and>
    (\<forall>x\<in>set rocs. fin_in 0 (2 * B) x) \<and> (\<forall>x\<in>set divs. fin_in 0 (4 * B) x)"
  using computeHistoricalRocDiv_bounds[OF _ assms(2-6), of series _ vd n] assms(1) computeHistoricalRocDiv_length[of series vd win n] assms(7) by auto

theorem historical_series_bounded_witness:
  "length (fst (computeHistoricalRocDiv [\<lparr>ip_value_date = ex_day, ip_indicator = fone\<rparr>] ex_day 14 90)) \<le> 90"
  using historical_series_bounded[of "[\<lparr>ip_value_date = ex_day, ip_indicator = fone\<rparr>]" 1 0 14 ex_day 90]
  by (cases "computeHistoricalRocDiv [\<lparr>ip_value_date = ex_day, ip_indicator = fone\<rparr>] ex_day 14 90") (simp add: overflow_def)

section \<open>Arithmetic\<close>



section \<open>The backtest harness\<close>

text \<open>C33 (the replay is the live engine): where smoothing is off (a span of at most one day), computing an
  asset's state live, as of the cutoff of the harness, is computing it in the harness and then saving and
  publishing it.  Every read, every figure and every error is the same.\<close>

theorem replay_is_live:
  assumes "rc_span (Config_Defaults e) \<le> 1"
  shows "computeOne M ord (pg_regime_service e assets) a vd (vd + bc_sla (bt_Defaults cfg) * minute_ns) =
    bindE (bt_computeOne M ord (pg_bt_service L cfg e y assets) a vd) (\<lambda>st.
      seqE (wrapE ''save regime state'' [] (RegimeRepo_Save st))
        (Publisher_Publish (regime_event (Config_Defaults e) a vd (rs_indicator st) (rs_risk_on st) (rs_risk_off st) (rs_transition st))))"
  using assms by (rule pg_computeOne_live)

theorem replay_is_live_witness:
  "computeOne ideal_libm listed_order (pg_regime_service (empty_config\<lparr>rc_span := 1\<rparr>) []) AssetBTC ex_day
      (ex_day + bc_sla (bt_Defaults bt_DefaultConfig) * minute_ns) ex_bt_world =
    bindE (bt_computeOne ideal_libm listed_order (pg_bt_service ex_sql_lib bt_DefaultConfig (empty_config\<lparr>rc_span := 1\<rparr>) [] []) AssetBTC ex_day) (\<lambda>st.
      seqE (wrapE ''save regime state'' [] (RegimeRepo_Save st))
        (Publisher_Publish (regime_event (Config_Defaults (empty_config\<lparr>rc_span := 1\<rparr>)) AssetBTC ex_day (rs_indicator st) (rs_risk_on st)
          (rs_risk_off st) (rs_transition st)))) ex_bt_world"
  by (rule fun_cong[OF replay_is_live]) (simp add: Config_Defaults_def empty_config_def or_default_int_def)

text \<open>C34 (the harness leaves the live tables alone): whatever the fault plan, neither a replay nor the
  computation of metrics nor a sweep changes a table of the live system: raw observations, features, scores,
  regime states, events and configurations.\<close>

theorem harness_keeps_live_tables:
  fixes w :: "'a bt_world_scheme"
  shows "live (snd (Replay M ord hash (pg_bt_service L cfg e y assets) ps pe parent mode w)) = live w \<and>
    live (snd (ComputeMetrics M intn seed aord lord (pg_bt_service L cfg e y assets) i w)) = live w \<and>
    live (snd (Sweep M ord hash intn seed aord lord (pg_bt_service L cfg e y assets) ps pe parameter vs w)) = live w"
  by (intro conjI bt_step_live harness_steps)



text \<open>C36 (saved states are a map): a successful save of a replayed state is the update of a finite map from
  run, asset and day to the state, and touches no other table of the harness; on a database without faults
  the state is then among those of the run.\<close>

theorem StateRepo_Save_refines_map:
  assumes "StateRepo_Save i st w = (Inr (), w')"
  shows "table_map state_key (wb_states w') = (table_map state_key (wb_states w))(state_key (i, state_row st) \<mapsto> (i, state_row st)) \<and>
    wb_runs w' = wb_runs w \<and> wb_metrics w' = wb_metrics w \<and> state_row st \<in> set (states_of_run i (wb_states w'))"
  using StateRepo_Save_upsert[OF assms] by (simp add: table_map_upsert saved_state_read)

theorem StateRepo_Save_refines_map_witness:
  "\<exists>w'. StateRepo_Save ''id'' (ex_state fone) ex_bt_world = (Inr (), w') \<and> state_row (ex_state fone) \<in> set (states_of_run ''id'' (wb_states w'))"
proof -
  obtain w' where w: "StateRepo_Save ''id'' (ex_state fone) ex_bt_world = (Inr (), w')" using ex_state_saved by blast
  with StateRepo_Save_refines_map[OF w] show ?thesis by blast
qed

text \<open>C37 (metrics can be computed again): after a successful computation of a run's metrics on a database
  without faults, computing them again succeeds and leaves the data as they are.\<close>

theorem metrics_idempotent:
  fixes w :: "'a bt_world_scheme"
  assumes "fault_free w" "ComputeMetrics M intn seed aord lord (pg_bt_service L cfg e y assets) i w = (Inr (), w1)"
  shows "\<exists>w2. ComputeMetrics M intn seed aord lord (pg_bt_service L cfg e y assets) i w1 = (Inr (), w2) \<and> frozen w2 = frozen w1"
  using assms by (rule ComputeMetrics_again[OF refl])

theorem metrics_idempotent_witness:
  "\<exists>w1 w2. ComputeMetrics ideal_libm (\<lambda>g n. (0, g)) () (\<lambda>_. [AssetBTC]) sorted_list_of_set
       (pg_bt_service ex_sql_lib bt_DefaultConfig empty_config [] []) ''id'' ex_bt_world = (Inr (), w1) \<and>
     ComputeMetrics ideal_libm (\<lambda>g n. (0, g)) () (\<lambda>_. [AssetBTC]) sorted_list_of_set
       (pg_bt_service ex_sql_lib bt_DefaultConfig empty_config [] []) ''id'' w1 = (Inr (), w2) \<and> frozen w2 = frozen w1"
proof -
  obtain w1 where w1: "ComputeMetrics ideal_libm (\<lambda>g n. (0, g)) () (\<lambda>_. [AssetBTC]) sorted_list_of_set
       (pg_bt_service ex_sql_lib bt_DefaultConfig empty_config [] []) ''id'' ex_bt_world = (Inr (), w1)"
    by (rule exE[OF ex_metrics_computed])
  from metrics_idempotent[OF ex_bt_facts(1) w1] w1 show ?thesis by blast
qed

text \<open>C38 (event leads agree): on a well-formed table the lead times the gateway derives from the stored rows of a
  stress event are those the harness derived from the run: the first day of the window with a negative
  indicator, the first with a transition risk above the threshold, and whether there is data at all.\<close>

theorem gateway_leads_refine_harness:
  assumes "states_ok t" "\<forall>ev\<in>set events. UTCDay (se_peak ev) = se_peak ev"
  shows "list_all2 same_lead
    (EventLeadTimes (byDate (toRegimeDays l (filter (\<lambda>r. rs_asset r = a) (states_of_run i t)))) events thr)
    (map (\<lambda>ev. event_result_of thr ev (event_rows i a (add_days (se_peak ev) (- 14)) (add_days (se_peak ev) 3) t)) events)"
  using assms by (intro event_leads_agree) blast+

theorem gateway_leads_refine_harness_witness:
  "list_all2 same_lead
    (EventLeadTimes (byDate (toRegimeDays LabelTransition (filter (\<lambda>r. rs_asset r = AssetBTC) (states_of_run ''id'' [(''id'', ex_state fzero)]))))
       [\<lparr>se_name = ''x'', se_peak = ex_day\<rparr>] (lit (6 / 10)))
    [event_result_of (lit (6 / 10)) \<lparr>se_name = ''x'', se_peak = ex_day\<rparr>
       (event_rows ''id'' AssetBTC (add_days ex_day (- 14)) (add_days ex_day 3) [(''id'', ex_state fzero)])]"
  using gateway_leads_refine_harness[OF ex_states_ok, of "[\<lparr>se_name = ''x'', se_peak = ex_day\<rparr>]"] by (simp add: ex_day_UTC)

text \<open>C39 (daily prices): forward filling gives, for each day of the period, the latest price on or before it
  if that is at most seven days old, and no point otherwise.\<close>

theorem daily_prices:
  assumes "sorted_wrt (\<lambda>p q. pa_date p \<le> pa_date q) sparse"
    and "\<forall>p\<in>set sparse. pa_date p = UTCDay (pa_date p) \<and> UTCDay from \<le> pa_date p"
    and "UTCDay to \<le> add_days (UTCDay from) 100000"
  shows "forwardFillDaily sparse from to = List.map_filter (filled sparse) (day_range (UTCDay from) (UTCDay to))"
  using assms by (intro forwardFillDaily_spec) blast+

theorem daily_prices_witness:
  "forwardFillDaily [\<lparr>pa_date = ex_day, pa_price = fone\<rparr>] ex_day (add_days ex_day 9) =
    List.map_filter (filled [\<lparr>pa_date = ex_day, pa_price = fone\<rparr>]) (day_range (UTCDay ex_day) (UTCDay (add_days ex_day 9)))"
  by (rule daily_prices) (simp_all add: ex_day_UTC UTCDay_add_days, simp add: add_days_def day_ns_def)

text \<open>Label runs: the days of a replay carry one of three labels, whatever the label they start from; the
  runs of the persistence statistics follow one another and cover every day once, each run has one label,
  their lengths add up to the number of days, and there is one transition less than there are runs.\<close>

theorem label_runs_partition:
  assumes "sts \<noteq> []" "days = toRegimeDays prev sts"
  shows "(\<forall>d\<in>set days. rd_label d \<in> {LabelRiskOn, LabelRiskOff, LabelTransition}) \<and>
    concat (map run_days (label_runs days)) = [0..<length days] \<and>
    (\<forall>r\<in>set (label_runs days). \<forall>i\<in>set (run_days r). rd_label (days ! i) = pr_label r) \<and>
    sum_list (map run_length (label_runs days)) = int (length sts) \<and>
    ps_transitions (PersistenceMetrics days) = int (length (label_runs days)) - 1"
proof -
  have ne: "days \<noteq> []" and len: "length days = length sts"
    using assms arg_cong[OF toRegimeDays_dates[of prev sts], of length] by auto
  show ?thesis using toRegimeDays_labels[of _ prev sts] label_runs_spec[OF ne] label_runs_durations[OF ne] ne len assms(2)
    by (auto simp: PersistenceMetrics_def Let_def)
qed

theorem label_runs_partition_witness:
  "ps_transitions (PersistenceMetrics (toRegimeDays LabelTransition [ex_state fzero])) =
     int (length (label_runs (toRegimeDays LabelTransition [ex_state fzero]))) - 1"
  using label_runs_partition[of "[ex_state fzero]" _ LabelTransition, OF _ refl] by blast

text \<open>Bootstrap intervals: for every source of random indices the bounds of a confidence interval are in order,
  and the positions they are read from lie inside the list of resampled means.\<close>

theorem bootstrap_interval_ordered:
  assumes "0 < n" "n < 2 ^ 53" "x \<in> set (BootstrapForwardReturnCI M intn seed days prices horizons n)"
  shows "\<not> float_less (fc_ci_high x) (fc_ci_low x) \<and> 0 \<le> lo_index n \<and> lo_index n \<le> hi_index n \<and> hi_index n < n"
  using BootstrapForwardReturnCI_ordered[OF assms(3,2)] ci_indices[OF assms(1,2)] by blast

theorem bootstrap_interval_ordered_witness:
  "list_all (\<lambda>x. \<not> float_less (fc_ci_high x) (fc_ci_low x))
     (BootstrapForwardReturnCI ideal_libm (\<lambda>g n. (0, g)) () [] Map.empty horizons 1000)"
  unfolding list_all_iff by (rule ballI, rule conjunct1[OF bootstrap_interval_ordered[of 1000]]) simp_all

text \<open>C40 (the data hash is repeatable): the hash of the scores a replay reads depends neither on the order in which
  maps are walked nor on what a later run of the leverage service appends, as long as the cutoffs of the
  period lie before that run.\<close>

theorem data_hash_repeatable:
  fixes w :: "'a bt_world_scheme"
  assumes "lists_set kord" "lists_set kord'" "lists_set dord" "lists_set dord'" "lev_providers_ok P"
    and "fault_free w" "strict_mono (w_clock w)"
    and s: "s = pg_bt_service L cfg e y assets"
    and "\<forall>d\<in>set (day_range from to). bt_cutoff s d < w_clock w (w_ticks w)"
    and w': "w' = snd (lev_RunOnce M ord (pg_lev_service L' P cfg' assets') vd w)"
  shows "\<exists>snap. fst (collectSnapshot s from to w) = Inr snap \<and> fst (collectSnapshot s from to w') = Inr snap \<and>
    SnapshotHash H kord dord snap = SnapshotHash H kord' dord' snap"
  using assms by (intro hash_repeatable) (auto intro: run_evolves_to[OF lev_scored_run[THEN scored_run.axioms(1)]])

theorem data_hash_repeatable_witness:
  "\<exists>snap. fst (collectSnapshot (pg_bt_service ex_sql_lib bt_DefaultConfig empty_config [] []) (- 10 * day_ns) (- 10 * day_ns) ex_bt_world) = Inr snap \<and>
    fst (collectSnapshot (pg_bt_service ex_sql_lib bt_DefaultConfig empty_config [] []) (- 10 * day_ns) (- 10 * day_ns)
      (snd (lev_RunOnce ideal_libm sorted_list_of_set (pg_lev_service ex_sql_lib offline_lev ex_lev_config []) ex_day ex_bt_world))) = Inr snap"
  using data_hash_repeatable[OF sorted_lists_set sorted_lists_set sorted_lists_set sorted_lists_set offline_lev_ok ex_bt_facts(1) ex_bt_clock
    refl ex_bt_early refl] by blast

end
